(* ===== verification/Yuanlei_Prelude.thy ===== *)
theory Yuanlei_Prelude
  imports Complex_Main "HOL-Library.List_Lexorder" "HOL-Library.Product_Lexorder"
begin

text \<open>
  Shared vocabulary of the development.

  \<^item> Python strings are lists of Unicode code points (\<open>pystr\<close>), so that \<open>len\<close> counts what
    Python counts; \<open>lit\<close> turns an ASCII literal into one. Chinese message texts of the source
    are written as their code points. \<open>py_strip\<close> is \<^verbatim>\<open>str.strip()\<close>.
  \<^item> A \<^verbatim>\<open>datetime\<close> is an \<open>int\<close> counting microseconds; \<open>timedelta_seconds\<close> is
    \<^verbatim>\<open>timedelta(seconds=...)\<close> with its rounding to whole microseconds.
  \<^item> A table of the database is the list of its rows. \<open>update_where\<close> is an \<^verbatim>\<open>UPDATE ... WHERE\<close>,
    \<open>find\<close> reads a row by a unique key, \<open>nulls_last\<close> is the sort key of a nullable column.
  \<^item> JSON columns hold values of \<open>json\<close>.
  \<^item> The locale \<open>step_system\<close> lifts one-step invariants to reachable states; the locale
    \<open>lease_discipline\<close> is the contract of an exclusive, expiring lease, which the run, task and
    sandbox components implement.
\<close>

named_theorems table_simps \<open>rewriting of table operations\<close>

section \<open>Python values\<close>

type_synonym pystr = "nat list"

type_synonym time = int

definition lit :: "string \<Rightarrow> pystr" where
  "lit s = map of_char s"

definition is_space :: "nat \<Rightarrow> bool" where
  "is_space c \<longleftrightarrow> (9 \<le> c \<and> c \<le> 13) \<or> (28 \<le> c \<and> c \<le> 32) \<or> c = 133 \<or> c = 160 \<or> c = 5760
     \<or> (8192 \<le> c \<and> c \<le> 8202) \<or> c = 8232 \<or> c = 8233 \<or> c = 8239 \<or> c = 8287 \<or> c = 12288"

definition py_strip :: "pystr \<Rightarrow> pystr" where
  "py_strip s = rev (dropWhile is_space (rev (dropWhile is_space s)))"

text \<open>\<^verbatim>\<open>x or ""\<close> and \<^verbatim>\<open>x or None\<close> on an optional string: the empty string is falsy.\<close>

definition or_empty :: "pystr option \<Rightarrow> pystr" where
  "or_empty x = (case x of None \<Rightarrow> [] | Some s \<Rightarrow> s)"

definition or_none :: "pystr \<Rightarrow> pystr option" where
  "or_none s = (if s = [] then None else Some s)"

definition round_half_even :: "rat \<Rightarrow> int" where
  "round_half_even x =
     (let f = \<lfloor>x\<rfloor>; d = x - of_int f
      in if d < 1 / 2 then f else if 1 / 2 < d then f + 1 else if even f then f else f + 1)"

definition timedelta_seconds :: "rat \<Rightarrow> int" where
  "timedelta_seconds s = round_half_even (s * 1000000)"

datatype json =
    JNull
  | JBool bool
  | JInt int
  | JFloat rat
  | JStr pystr
  | JList "json list"
  | JObj "(pystr \<times> json) list"

definition json_empty :: json where
  "json_empty = JObj []"

fun json_get :: "json \<Rightarrow> pystr \<Rightarrow> json option" where
  "json_get (JObj kvs) k = map_of (rev kvs) k"
| "json_get _ k = None"

text \<open>\<^verbatim>\<open>isinstance(v, int)\<close>: booleans are integers in Python.\<close>

fun json_int :: "json \<Rightarrow> int option" where
  "json_int (JInt i) = Some i"
| "json_int (JBool b) = Some (if b then 1 else 0)"
| "json_int _ = None"

text \<open>\<^verbatim>\<open>d or {}\<close> on an optional JSON object.\<close>

definition or_obj :: "json option \<Rightarrow> json" where
  "or_obj d = (case d of None \<Rightarrow> json_empty | Some j \<Rightarrow> j)"

section \<open>Tables\<close>

definition update_where :: "('r \<Rightarrow> bool) \<Rightarrow> ('r \<Rightarrow> 'r) \<Rightarrow> 'r list \<Rightarrow> 'r list" where
  "update_where P f rows = map (\<lambda>r. if P r then f r else r) rows"

definition nulls_last :: "time option \<Rightarrow> bool \<times> int" where
  "nulls_last t = (case t of None \<Rightarrow> (True, 0) | Some x \<Rightarrow> (False, x))"

definition first_row :: "'r list \<Rightarrow> 'r option" where
  "first_row rows = (case rows of [] \<Rightarrow> None | r # _ \<Rightarrow> Some r)"

definition max_int :: "int list \<Rightarrow> int" where
  "max_int xs = foldr max xs 0"

section \<open>Lemmas on Python values\<close>

lemma dropWhile_head: "dropWhile P xs = [] \<or> \<not> P (hd (dropWhile P xs))"
  by (induction xs) auto

lemma dropWhile_eq_self: "xs = [] \<or> \<not> P (hd xs) \<Longrightarrow> dropWhile P xs = xs"
  by (cases xs) auto

lemma hd_rev_dropWhile_rev:
  assumes "ys = rev (dropWhile P (rev xs))" and "ys \<noteq> []"
  shows "hd ys = hd xs"
proof -
  have "xs = rev (dropWhile P (rev xs)) @ rev (takeWhile P (rev xs))"
    by (metis rev_append rev_rev_ident takeWhile_dropWhile_id)
  with assms show ?thesis by (metis hd_append2)
qed

lemma py_strip_ends:
  "py_strip s = [] \<or> \<not> is_space (hd (py_strip s)) \<and> \<not> is_space (last (py_strip s))"
proof (cases "py_strip s = []")
  case False
  let ?l = "dropWhile is_space s"
  have "hd (py_strip s) = hd ?l"
    using False by (intro hd_rev_dropWhile_rev) (simp_all add: py_strip_def)
  moreover have "?l \<noteq> []" using False by (metis dropWhile.simps(1) py_strip_def rev.simps(1))
  then have "\<not> is_space (hd ?l)" using dropWhile_head[of is_space s] by blast
  moreover have "\<not> is_space (last (py_strip s))"
    using False dropWhile_head[of is_space "rev ?l"] by (auto simp: py_strip_def last_rev)
  ultimately show ?thesis by simp
qed simp

lemma py_strip_idem [simp]: "py_strip (py_strip s) = py_strip s"
proof -
  have "dropWhile is_space (py_strip s) = py_strip s"
    using py_strip_ends[of s] by (intro dropWhile_eq_self) auto
  moreover have "dropWhile is_space (rev (py_strip s)) = rev (py_strip s)"
    using py_strip_ends[of s] by (intro dropWhile_eq_self) (auto simp: hd_rev)
  ultimately show ?thesis by (simp add: py_strip_def[of "py_strip s"])
qed

lemma length_py_strip: "length (py_strip s) \<le> length s"
  unfolding py_strip_def
  by (metis length_dropWhile_le length_rev order_trans)

lemma py_strip_Nil [simp]: "py_strip [] = []"
  by (simp add: py_strip_def)

lemma or_none_Some_iff [simp]: "or_none s = Some t \<longleftrightarrow> t = s \<and> s \<noteq> []"
  by (auto simp: or_none_def)

lemma or_none_None_iff [simp]: "or_none s = None \<longleftrightarrow> s = []"
  by (simp add: or_none_def)

lemma timedelta_seconds_of_int [simp]: "timedelta_seconds (of_int n) = n * 1000000"
proof -
  have "(of_int n :: rat) * 1000000 = of_int (n * 1000000)" by simp
  then show ?thesis
    by (simp only: timedelta_seconds_def round_half_even_def Let_def floor_of_int) simp
qed

lemma timedelta_seconds_numeral [simp]:
  "timedelta_seconds (numeral n) = numeral n * 1000000"
  using timedelta_seconds_of_int[of "numeral n"] by simp

section \<open>Lemmas on tables\<close>

lemma update_where_Nil [simp]: "update_where P f [] = []"
  by (simp add: update_where_def)

lemma update_where_Cons [simp]:
  "update_where P f (r # rs) = (if P r then f r else r) # update_where P f rs"
  by (simp add: update_where_def)

lemma length_update_where [simp]: "length (update_where P f rows) = length rows"
  by (simp add: update_where_def)

lemma map_update_where [table_simps]:
  "(\<And>r. P r \<Longrightarrow> g (f r) = g r) \<Longrightarrow> map g (update_where P f rows) = map g rows"
  by (simp add: update_where_def)

lemma set_update_where [table_simps]:
  "set (update_where P f rows) = f ` {r \<in> set rows. P r} \<union> {r \<in> set rows. \<not> P r}"
  by (auto simp: update_where_def)

lemma in_update_whereE:
  assumes "x \<in> set (update_where P f rows)"
  obtains r where "r \<in> set rows" "P r" "x = f r" | "x \<in> set rows" "\<not> P x"
  using assms by (auto simp: update_where_def split: if_splits)

lemma update_where_id: "(\<And>r. r \<in> set rows \<Longrightarrow> P r \<Longrightarrow> f r = r) \<Longrightarrow> update_where P f rows = rows"
  by (induction rows) auto

lemma filter_update_where:
  "(\<And>r. P r \<Longrightarrow> Q (f r) = Q r) \<Longrightarrow>
   filter Q (update_where P f rows) = update_where P f (filter Q rows)"
  by (induction rows) auto

lemma find_Some_in: "find P xs = Some x \<Longrightarrow> x \<in> set xs \<and> P x"
  by (induction xs) (auto split: if_splits)

lemma find_ex_iff: "(\<exists>y. find P xs = Some y) \<longleftrightarrow> (\<exists>x\<in>set xs. P x)"
  by (induction xs) auto

lemma find_append: "find P (xs @ ys) = (case find P xs of None \<Rightarrow> find P ys | Some x \<Rightarrow> Some x)"
  by (induction xs) auto

lemma find_unique_key:
  assumes "distinct (map k xs)" and "x \<in> set xs"
  shows "find (\<lambda>y. k y = k x) xs = Some x"
  using assms by (induction xs) (auto simp: rev_image_eqI)

lemma find_key_eq:
  assumes "distinct (map k xs)"
  shows "find (\<lambda>y. k y = i) xs = Some x \<longleftrightarrow> x \<in> set xs \<and> k x = i"
proof
  assume "x \<in> set xs \<and> k x = i"
  then show "find (\<lambda>y. k y = i) xs = Some x" using find_unique_key[OF assms, of x] by simp
qed (use find_Some_in[of "\<lambda>y. k y = i"] in simp)

lemma find_update_where:
  assumes "\<And>r. k (f r) = k r"
  shows "find (\<lambda>r. k r = i) (update_where P f rows)
    = map_option (\<lambda>r. if P r then f r else r) (find (\<lambda>r. k r = i) rows)"
  using assms by (induction rows) auto

text \<open>A partial unique index survives an update that drops rows from the index or keeps their key.\<close>

lemma partial_key_shrink:
  assumes "\<And>x. x \<in> set xs \<Longrightarrow> Q (f x) \<Longrightarrow> Q x \<and> k (f x) = k x" and "distinct (map k (filter Q xs))"
  shows "distinct (map k (filter Q (map f xs)))"
  using assms
proof (induction xs)
  case (Cons a xs)
  have IH: "distinct (map k (filter Q (map f xs)))"
    using Cons.IH Cons.prems by (auto split: if_splits)
  have sub: "k ` {y \<in> set (map f xs). Q y} \<subseteq> k ` {x \<in> set xs. Q x}"
  proof
    fix z assume "z \<in> k ` {y \<in> set (map f xs). Q y}"
    then obtain x where x: "x \<in> set xs" "Q (f x)" "z = k (f x)" by auto
    then have "Q x" "z = k x" using Cons.prems(1)[of x] by auto
    with x(1) show "z \<in> k ` {x \<in> set xs. Q x}" by blast
  qed
  show ?case
  proof (cases "Q (f a)")
    case True
    then have "Q a" "k (f a) = k a" using Cons.prems(1)[of a] by auto
    then have "k (f a) \<notin> k ` {y \<in> set (map f xs). Q y}" using Cons.prems(2) sub by auto
    with True IH show ?thesis by simp
  qed (use IH in simp)
qed simp

lemma sort_key_eq_Nil [simp]: "sort_key k xs = [] \<longleftrightarrow> xs = []"
  by (metis length_0_conv length_sort)

lemma first_row_Some_in: "first_row xs = Some x \<Longrightarrow> x \<in> set xs"
  by (cases xs) (auto simp: first_row_def)

lemma first_row_None_iff [simp]: "first_row xs = None \<longleftrightarrow> xs = []"
  by (cases xs) (auto simp: first_row_def)

lemma max_int_ge: "x \<in> set xs \<Longrightarrow> x \<le> max_int xs"
  by (induction xs) (auto simp: max_int_def)

lemma max_int_nonneg: "0 \<le> max_int xs"
  by (induction xs) (auto simp: max_int_def)

lemma distinct_snoc_max: "distinct xs \<Longrightarrow> distinct (xs @ [max_int xs + 1])"
  using max_int_ge[of "max_int xs + 1" xs] by auto

section \<open>Tables that only grow\<close>

text \<open>
  \<open>evolves R xs ys\<close>: no row of \<open>xs\<close> is lost or moved, each changes only as \<open>R\<close> allows, and new
  rows are appended.
\<close>

definition evolves :: "('r \<Rightarrow> 'r \<Rightarrow> bool) \<Rightarrow> 'r list \<Rightarrow> 'r list \<Rightarrow> bool" where
  "evolves R xs ys \<longleftrightarrow> list_all2 R xs (take (length xs) ys)"

lemma evolves_length: "evolves R xs ys \<Longrightarrow> length xs \<le> length ys"
  unfolding evolves_def by (drule list_all2_lengthD) (simp add: min_def split: if_splits)

lemma evolves_refl: "(\<And>r. r \<in> set xs \<Longrightarrow> R r r) \<Longrightarrow> evolves R xs xs"
  by (simp add: evolves_def list.rel_refl_strong)

lemma evolves_trans:
  assumes "evolves R xs ys" and "evolves R ys zs" and "\<And>a b c. R a b \<Longrightarrow> R b c \<Longrightarrow> R a c"
  shows "evolves R xs zs"
proof -
  have len: "length xs \<le> length ys" using assms(1) by (rule evolves_length)
  have "list_all2 R (take (length xs) ys) (take (length xs) (take (length ys) zs))"
    using assms(2) unfolding evolves_def by (rule list_all2_takeI)
  then have "list_all2 R (take (length xs) ys) (take (length xs) zs)"
    using len by (simp add: min_def)
  with assms(1) show ?thesis
    unfolding evolves_def using list_all2_trans[of R R R] assms(3) by metis
qed

lemma evolves_append: "(\<And>r. R r r) \<Longrightarrow> evolves R xs (xs @ ys)"
  by (simp add: evolves_def list.rel_refl)

lemma evolves_update_where:
  assumes "\<And>r. R r r" and "\<And>r. r \<in> set xs \<Longrightarrow> P r \<Longrightarrow> R r (f r)"
  shows "evolves R xs (update_where P f xs)"
  using assms by (induction xs) (auto simp: evolves_def)

lemma evolves_in:
  assumes "evolves R xs ys" and "x \<in> set xs"
  obtains y where "y \<in> set ys" "R x y"
proof -
  from assms(2) obtain i where i: "i < length xs" "x = xs ! i" by (auto simp: in_set_conv_nth)
  have len: "length xs \<le> length ys" using assms(1) by (rule evolves_length)
  have "R (xs ! i) (take (length xs) ys ! i)"
    using assms(1) i(1) by (auto simp: evolves_def dest: list_all2_nthD)
  then have "R x (ys ! i)" using i by simp
  moreover have "ys ! i \<in> set ys" using i len by simp
  ultimately show thesis by (rule that[rotated])
qed

section \<open>Reachable states of a step system\<close>

locale step_system =
  fixes start :: "'s \<Rightarrow> bool"
    and step :: "'s \<Rightarrow> 's \<Rightarrow> bool"
    and inv :: "'s \<Rightarrow> bool"
    and rel :: "'s \<Rightarrow> 's \<Rightarrow> bool"
  assumes start_inv: "start s \<Longrightarrow> inv s"
    and step_inv: "inv s \<Longrightarrow> step s t \<Longrightarrow> inv t"
    and step_rel: "inv s \<Longrightarrow> step s t \<Longrightarrow> rel s t"
    and rel_refl: "inv s \<Longrightarrow> rel s s"
    and rel_trans: "rel s t \<Longrightarrow> rel t u \<Longrightarrow> rel s u"
begin

lemma steps_inv: "step\<^sup>*\<^sup>* s t \<Longrightarrow> inv s \<Longrightarrow> inv t"
  by (induction rule: rtranclp_induct) (auto intro: step_inv)

lemma steps_rel: "step\<^sup>*\<^sup>* s t \<Longrightarrow> inv s \<Longrightarrow> rel s t"
proof (induction rule: rtranclp_induct)
  case base
  then show ?case by (rule rel_refl)
next
  case (step t u)
  then have "rel s t" "inv t" using steps_inv by blast+
  then show ?case using step.hyps(2) by (blast intro: step_rel rel_trans)
qed

lemma reachable_inv: "start s \<Longrightarrow> step\<^sup>*\<^sup>* s t \<Longrightarrow> inv t"
  by (blast intro: start_inv steps_inv)

end

section \<open>Exclusive, expiring leases\<close>

text \<open>
  \<open>contend acq reqs s\<close>: the workers of \<open>reqs\<close> ask for one resource one after the other, each at
  its own time; the result lists the winners.
\<close>

fun contend :: "('w \<Rightarrow> time \<Rightarrow> 's \<Rightarrow> 's \<times> bool) \<Rightarrow> ('w \<times> time) list \<Rightarrow> 's \<Rightarrow> 'w list \<times> 's" where
  "contend acq [] s = ([], s)"
| "contend acq ((w, t) # reqs) s =
     (case acq w t s of
        (s', ok) \<Rightarrow> (case contend acq reqs s' of (ws, u) \<Rightarrow> (if ok then w # ws else ws, u)))"

locale lease_discipline =
  fixes holder :: "'k \<Rightarrow> 's \<Rightarrow> 'w option"
    and expires :: "'k \<Rightarrow> 's \<Rightarrow> time option"
    and inv :: "'s \<Rightarrow> bool"
    and acquire :: "'k \<Rightarrow> 'w \<Rightarrow> time \<Rightarrow> 's \<Rightarrow> 's \<times> bool"
    and renew :: "'k \<Rightarrow> 'w \<Rightarrow> time \<Rightarrow> 's \<Rightarrow> 's \<times> bool"
    and duration :: int
  assumes acquire_inv: "inv s \<Longrightarrow> inv (fst (acquire k w now s))"
    and acquire_holds: "inv s \<Longrightarrow> acquire k w now s = (s', True) \<Longrightarrow>
      holder k s' = Some w \<and> expires k s' = Some (now + duration)"
    and acquire_excl: "inv s \<Longrightarrow> holder k s = Some v \<Longrightarrow> v \<noteq> w \<Longrightarrow> expires k s = Some t \<Longrightarrow> now < t \<Longrightarrow>
      acquire k w now s = (s, False)"
    and renew_owner: "inv s \<Longrightarrow> renew k w now s = (s', True) \<Longrightarrow>
      holder k s = Some w \<and> (\<exists>t. expires k s = Some t \<and> now < t)
      \<and> holder k s' = Some w \<and> expires k s' = Some (now + duration)"
    and renew_refused: "inv s \<Longrightarrow> renew k w now s = (s', False) \<Longrightarrow> s' = s"
begin

lemma rivals_rejected:
  assumes "inv s" and "holder k s = Some v" and "expires k s = Some t"
    and "\<And>w u. (w, u) \<in> set reqs \<Longrightarrow> w \<noteq> v \<and> u < t"
  shows "contend (acquire k) reqs s = ([], s)"
  using assms
proof (induction reqs)
  case (Cons p reqs)
  obtain w u where p: "p = (w, u)" by force
  have "acquire k w u s = (s, False)"
    using Cons.prems(4)[of w u] Cons.prems(1-3) by (intro acquire_excl) (auto simp: p)
  moreover have "contend (acquire k) reqs s = ([], s)"
    by (rule Cons.IH) (use Cons.prems in auto)
  ultimately show ?case by (simp add: p)
qed simp

lemma at_most_one_winner:
  assumes "inv s" and "distinct (map fst reqs)"
    and "\<And>w t w' t'. (w, t) \<in> set reqs \<Longrightarrow> (w', t') \<in> set reqs \<Longrightarrow> t' < t + duration"
  shows "length (fst (contend (acquire k) reqs s)) \<le> 1"
  using assms
proof (induction reqs arbitrary: s)
  case (Cons p reqs)
  obtain w t where p: "p = (w, t)" by force
  obtain s' ok where a: "acquire k w t s = (s', ok)" by force
  have inv: "inv s'" using acquire_inv[OF Cons.prems(1), of k w t] a by simp
  show ?case
  proof (cases ok)
    case True
    then have h: "holder k s' = Some w" "expires k s' = Some (t + duration)"
      using acquire_holds[OF Cons.prems(1)] a by auto
    have "contend (acquire k) reqs s' = ([], s')"
    proof (rule rivals_rejected[OF inv h])
      show "w' \<noteq> w \<and> u < t + duration" if "(w', u) \<in> set reqs" for w' u
        using that Cons.prems(2,3) by (force simp: p)
    qed
    then show ?thesis by (simp add: p a True)
  next
    case False
    have "length (fst (contend (acquire k) reqs s')) \<le> 1"
      by (rule Cons.IH[OF inv]) (use Cons.prems(2,3) in auto)
    then show ?thesis using False by (simp add: p a split: prod.split)
  qed
qed simp

lemma renewal_extends:
  assumes "inv s" and "renew k v now s = (s', True)" and "inv s'"
    and "\<And>w u. (w, u) \<in> set reqs \<Longrightarrow> w \<noteq> v \<and> u < now + duration"
  shows "contend (acquire k) reqs s' = ([], s')"
  using rivals_rejected[OF assms(3) _ _ assms(4)] renew_owner[OF assms(1,2)] by blast

end

end
