(* ===== verification/Run_Texts.thy ===== *)
theory Run_Texts
  imports Yuanlei_Prelude
begin

text \<open>
  The message texts that \<^verbatim>\<open>repositories/agent_run_repository.py\<close> raises or stores, as code
  points, each with its meaning in English. They are only compared and stored, never parsed.
\<close>

definition msg_trace_id_empty :: pystr where \<comment> \<open>trace_id must not be empty\<close>
  "msg_trace_id_empty =
   [116, 114, 97, 99, 101, 95, 105, 100, 32, 19981, 33021, 20026, 31354]"

definition msg_worker_id_empty :: pystr where \<comment> \<open>worker_id must not be empty\<close>
  "msg_worker_id_empty =
   [119, 111, 114, 107, 101, 114, 95, 105, 100, 32, 19981, 33021, 20026, 31354]"

definition msg_fingerprint_empty :: pystr where \<comment> \<open>fingerprint must not be empty\<close>
  "msg_fingerprint_empty =
   [102, 105, 110, 103, 101, 114, 112, 114, 105, 110, 116, 32, 19981, 33021, 20026, 31354]"

definition msg_lease_seconds :: pystr where \<comment> \<open>lease_seconds must be greater than 0\<close>
  "msg_lease_seconds =
   [108, 101, 97, 115, 101, 95, 115, 101, 99, 111, 110, 100, 115, 32, 24517, 39035, 22823,
   20110, 32, 48]"

definition msg_other_trace :: pystr where \<comment> \<open>the run is bound to another trace\<close>
  "msg_other_trace =
   [65, 103, 101, 110, 116, 82, 117, 110, 32, 24050, 32465, 23450, 19981, 21516, 30340, 32,
   76, 97, 110, 103, 102, 117, 115, 101, 32, 116, 114, 97, 99, 101]"

definition msg_output_mismatch :: pystr where \<comment> \<open>the output message must be an assistant message of the same conversation, run and request\<close>
  "msg_output_mismatch =
   [36755, 20986, 28040, 24687, 24517, 39035, 23646, 20110, 21516, 19968, 32, 99, 111, 110,
   118, 101, 114, 115, 97, 116, 105, 111, 110, 12289, 82, 117, 110, 32, 21644, 32, 114,
   101, 113, 117, 101, 115, 116, 65292, 19988, 35282, 33394, 20026, 32, 97, 115, 115, 105,
   115, 116, 97, 110, 116]"

definition msg_output_scope :: pystr where \<comment> \<open>output must belong to the same thread and request\<close>
  "msg_output_scope =
   [65, 103, 101, 110, 116, 82, 117, 110, 32, 36755, 20986, 24517, 39035, 23646, 20110,
   21516, 19968, 32, 116, 104, 114, 101, 97, 100, 32, 21644, 32, 114, 101, 113, 117, 101,
   115, 116]"

definition msg_output_no_conversation :: pystr where \<comment> \<open>output has no conversation\<close>
  "msg_output_no_conversation =
   [65, 103, 101, 110, 116, 82, 117, 110, 32, 36755, 20986, 32570, 23569, 32, 99, 111, 110,
   118, 101, 114, 115, 97, 116, 105, 111, 110, 32, 24402, 23646]"

definition msg_memory_scope :: pystr where \<comment> \<open>a memory write must belong to the same user's top-level run, thread and request\<close>
  "msg_memory_scope =
   [77, 101, 109, 111, 114, 121, 32, 20889, 20837, 24517, 39035, 23646, 20110, 24403, 21069,
   29992, 25143, 30340, 21516, 19968, 39030, 23618, 32, 82, 117, 110, 12289, 116, 104, 114,
   101, 97, 100, 32, 21644, 32, 114, 101, 113, 117, 101, 115, 116]"

definition msg_owner_only :: pystr where \<comment> \<open>only the current valid lease owner may\<close>
  "msg_owner_only =
   [21482, 26377, 24403, 21069, 26377, 25928, 32, 65, 103, 101, 110, 116, 82, 117, 110, 32,
   108, 101, 97, 115, 101, 32, 111, 119, 110, 101, 114, 32, 21487, 20197]"

definition act_trace :: pystr where \<comment> \<open>fix the Langfuse trace\<close>
  "act_trace =
   [22266, 21270, 32, 76, 97, 110, 103, 102, 117, 115, 101, 32, 116, 114, 97, 99, 101]"

definition act_output :: pystr where \<comment> \<open>persist the output message\<close>
  "act_output =
   [25345, 20037, 21270, 36755, 20986, 28040, 24687]"

definition act_memory :: pystr where \<comment> \<open>write memory\<close>
  "act_memory =
   [20889, 20837, 32, 77, 101, 109, 111, 114, 121]"

definition act_manifest :: pystr where \<comment> \<open>fix the run manifest\<close>
  "act_manifest =
   [22266, 21270, 36816, 34892, 28165, 21333]"

definition act_prepared :: pystr where \<comment> \<open>record the preparation time\<close>
  "act_prepared =
   [35760, 24405, 36816, 34892, 20934, 22791, 26102, 38388]"

definition act_first_request :: pystr where \<comment> \<open>record the first model request time\<close>
  "act_first_request =
   [35760, 24405, 39318, 27425, 27169, 22411, 35831, 27714, 26102, 38388]"

definition act_first_output :: pystr where \<comment> \<open>record the first model output time\<close>
  "act_first_output =
   [35760, 24405, 39318, 27425, 27169, 22411, 36755, 20986, 26102, 38388]"

definition msg_takeover :: pystr where \<comment> \<open>the owner was lost before ownership was taken anew\<close>
  "msg_takeover =
   [25191, 34892, 21344, 26377, 20154, 22312, 21462, 24471, 26032, 25152, 26377, 26435,
   21069, 24050, 22833, 32852, 12290]"

definition msg_lease_expired_run :: pystr where \<comment> \<open>the worker's lease expired; the result is unknown\<close>
  "msg_lease_expired_run =
   [25191, 34892, 32, 119, 111, 114, 107, 101, 114, 32, 30340, 32, 108, 101, 97, 115, 101,
   32, 24050, 36807, 26399, 65307, 26412, 27425, 36816, 34892, 32467, 26524, 26410, 30693,
   65292, 38656, 25353, 32, 97, 116, 45, 108, 101, 97, 115, 116, 45, 111, 110, 99, 101, 32,
   35821, 20041, 26816, 26597, 21103, 20316, 29992, 12290]"

definition msg_lease_expired_attempt :: pystr where \<comment> \<open>the worker's lease expired; the result is unknown\<close>
  "msg_lease_expired_attempt =
   [25191, 34892, 32, 119, 111, 114, 107, 101, 114, 32, 30340, 32, 108, 101, 97, 115, 101,
   32, 24050, 36807, 26399, 65307, 26412, 27425, 36816, 34892, 32467, 26524, 26410, 30693,
   12290]"

definition msg_storage_migration :: pystr where \<comment> \<open>the storage upgrade stopped the old runtime\<close>
  "msg_storage_migration =
   [23384, 20648, 21319, 32423, 24050, 20572, 27490, 26087, 36816, 34892, 29615, 22659,
   65307, 26412, 27425, 36816, 34892, 26410, 23436, 25104]"

definition msg_cancelled_before_start :: pystr where \<comment> \<open>cancelled before execution\<close>
  "msg_cancelled_before_start =
   [23545, 35805, 24050, 22312, 25191, 34892, 21069, 21462, 28040]"

definition msg_tree_closed :: pystr where \<comment> \<open>the parent run ended, stop the shared execution tree\<close>
  "msg_tree_closed =
   [29238, 36816, 34892, 24050, 32467, 26463, 65292, 35831, 20572, 27490, 20849, 20139,
   25191, 34892, 26641]"

definition msg_bad_terminal :: pystr where \<comment> \<open>unsupported terminal status:\<close>
  "msg_bad_terminal =
   [19981, 25903, 25345, 30340, 32, 65, 103, 101, 110, 116, 82, 117, 110, 32, 32456, 24577,
   65306]"

definition msg_complete_without_output :: pystr where \<comment> \<open>a run must bind a valid assistant output before completion\<close>
  "msg_complete_without_output =
   [65, 103, 101, 110, 116, 82, 117, 110, 32, 23436, 25104, 21069, 24517, 39035, 32465,
   23450, 21516, 19968, 32, 82, 117, 110, 32, 30340, 26377, 25928, 32, 97, 115, 115, 105,
   115, 116, 97, 110, 116, 32, 36755, 20986, 28040, 24687]"

definition msg_tool_closed :: pystr where \<comment> \<open>the tool audit was closed by the run's terminal status as\<close>
  "msg_tool_closed =
   [84, 111, 111, 108, 32, 23457, 35745, 30001, 32, 82, 117, 110, 32, 32456, 24577, 25910,
   25947, 20026, 32]"

definition msg_prepared_early :: pystr where \<comment> \<open>the preparation time cannot precede the start\<close>
  "msg_prepared_early =
   [65, 103, 101, 110, 116, 82, 117, 110, 32, 20934, 22791, 26102, 38388, 19981, 33021,
   26089, 20110, 24320, 22987, 26102, 38388]"

definition msg_first_request_early :: pystr where \<comment> \<open>the first model request cannot precede creation\<close>
  "msg_first_request_early =
   [65, 103, 101, 110, 116, 82, 117, 110, 32, 39318, 27425, 27169, 22411, 35831, 27714,
   26102, 38388, 19981, 33021, 26089, 20110, 21019, 24314, 26102, 38388]"

definition msg_first_output_early :: pystr where \<comment> \<open>the first output cannot precede preparation\<close>
  "msg_first_output_early =
   [65, 103, 101, 110, 116, 82, 117, 110, 32, 39318, 27425, 36755, 20986, 26102, 38388,
   19981, 33021, 26089, 20110, 20934, 22791, 23436, 25104, 26102, 38388]"


end
