(* ===== verification/Run_Model.thy ===== *)
theory Run_Model
  imports Run_Texts
begin

text \<open>
  The persistent data of the agent-run component: the tables \<^verbatim>\<open>agent_runs\<close>,
  \<^verbatim>\<open>agent_run_attempts\<close>, \<^verbatim>\<open>messages\<close>, \<^verbatim>\<open>tool_calls\<close>, \<^verbatim>\<open>subagent_threads\<close> and
  \<^verbatim>\<open>agent_run_scopes\<close> of \<^verbatim>\<open>storage/postgres/models_business.py\<close>, one record per row with the
  columns as fields (nullable columns are options), and the \<^verbatim>\<open>CHECK\<close> constraint and unique
  indexes the database enforces on them. Status columns are datatypes; a value outside the
  vocabulary the source uses is kept by an \<open>Other\<close> constructor, so no branch of the code is lost.
  The relationships and \<^verbatim>\<open>to_dict\<close> views of the classes are not state.
\<close>

section \<open>Vocabularies\<close>

datatype run_status =
    Pending
  | Running
  | Cancel_requested
  | Completed
  | Failed
  | Cancelled
  | Interrupted
  | Other_status pystr

datatype run_type = Chat | Resume | Subagent | Other_type pystr

text \<open>\<^verbatim>\<open>outcome\<close> of an attempt: a terminal run status, or one of the two lease outcomes.\<close>

datatype attempt_outcome = Out_status run_status | Out_retry_released | Out_lease_expired

datatype execution_status =
  Exec_running | Exec_completed | Exec_failed | Exec_interrupted | Exec_abandoned

datatype delivery_status =
    Delivery_queued
  | Delivery_dispatched
  | Delivery_rejected
  | Delivery_complete
  | Delivery_failed
  | Delivery_cancelled
  | Delivery_other pystr

datatype message_type = Model_audit | Tool_audit | Other_message pystr

datatype message_role = Assistant | Other_role pystr

fun terminal :: "run_status \<Rightarrow> bool" where
  "terminal Completed = True"
| "terminal Failed = True"
| "terminal Cancelled = True"
| "terminal Interrupted = True"
| "terminal _ = False"

fun leased_status :: "run_status \<Rightarrow> bool" where
  "leased_status Running = True"
| "leased_status Cancel_requested = True"
| "leased_status _ = False"

fun top_level :: "run_type \<Rightarrow> bool" where
  "top_level Chat = True"
| "top_level Resume = True"
| "top_level _ = False"

fun run_status_str :: "run_status \<Rightarrow> pystr" where
  "run_status_str Pending = lit ''pending''"
| "run_status_str Running = lit ''running''"
| "run_status_str Cancel_requested = lit ''cancel_requested''"
| "run_status_str Completed = lit ''completed''"
| "run_status_str Failed = lit ''failed''"
| "run_status_str Cancelled = lit ''cancelled''"
| "run_status_str Interrupted = lit ''interrupted''"
| "run_status_str (Other_status s) = s"

fun execution_status_str :: "execution_status \<Rightarrow> pystr" where
  "execution_status_str Exec_running = lit ''running''"
| "execution_status_str Exec_completed = lit ''completed''"
| "execution_status_str Exec_failed = lit ''failed''"
| "execution_status_str Exec_interrupted = lit ''interrupted''"
| "execution_status_str Exec_abandoned = lit ''abandoned''"

text \<open>\<^verbatim>\<open>RUN_STATUS_TO_DELIVERY_STATUS.get(status)\<close>: interrupted runs have no projection.\<close>

fun run_status_to_delivery :: "run_status \<Rightarrow> delivery_status option" where
  "run_status_to_delivery Completed = Some Delivery_complete"
| "run_status_to_delivery Failed = Some Delivery_failed"
| "run_status_to_delivery Cancelled = Some Delivery_cancelled"
| "run_status_to_delivery _ = None"

section \<open>Rows\<close>

record agent_run =
  ar_id :: pystr
  ar_conversation_thread_id :: pystr
  ar_runtime_scope_id :: pystr
  ar_runtime_cleanup_pending :: bool
  ar_agent_slug :: pystr
  ar_uid :: pystr
  ar_status :: run_status
  ar_request_id :: pystr
  ar_source :: pystr
  ar_channel :: pystr
  ar_external_id :: "pystr option"
  ar_origin_metadata :: json
  ar_conversation_id :: "int option"
  ar_created_by_run_id :: "pystr option"
  ar_subagent_thread_relation_id :: "int option"
  ar_run_type :: run_type
  ar_input_message_id :: "int option"
  ar_output_message_id :: "int option"
  ar_input_payload :: json
  ar_token_usage :: json
  ar_langfuse_trace_id :: "pystr option"
  ar_error_type :: "pystr option"
  ar_error_message :: "pystr option"
  ar_worker_id :: "pystr option"
  ar_heartbeat_at :: "time option"
  ar_lease_expires_at :: "time option"
  ar_manifest :: "json option"
  ar_manifest_fingerprint :: "pystr option"
  ar_manifest_recorded_at :: "time option"
  ar_started_at :: "time option"
  ar_prepared_at :: "time option"
  ar_first_model_request_at :: "time option"
  ar_first_output_at :: "time option"
  ar_finished_at :: "time option"
  ar_created_at :: "time option"
  ar_updated_at :: "time option"

record agent_run_attempt =
  at_id :: int
  at_run_id :: pystr
  at_attempt_no :: int
  at_worker_id :: pystr
  at_started_at :: time
  at_heartbeat_at :: "time option"
  at_lease_expires_at :: "time option"
  at_finished_at :: "time option"
  at_outcome :: "attempt_outcome option"
  at_error_type :: "pystr option"
  at_error_message :: "pystr option"
  at_created_at :: "time option"
  at_updated_at :: "time option"

record message =
  ms_id :: int
  ms_conversation_id :: int
  ms_role :: message_role
  ms_content :: pystr
  ms_message_type :: message_type
  ms_created_at :: "time option"
  ms_token_count :: "int option"
  ms_extra_metadata :: "json option"
  ms_image_content :: "pystr option"
  ms_run_id :: "pystr option"
  ms_request_id :: "pystr option"
  ms_delivery_status :: delivery_status
  ms_operation_id :: "pystr option"
  ms_started_at :: "time option"
  ms_finished_at :: "time option"
  ms_duration_ms :: "int option"
  ms_sequence :: "int option"
  ms_execution_status :: "execution_status option"
  ms_usage :: "json option"

datatype tool_status = Tool_pending | Tool_success | Tool_error | Tool_other pystr

record tool_call =
  tc_id :: int
  tc_message_id :: int
  tc_langgraph_tool_call_id :: "pystr option"
  tc_tool_name :: pystr
  tc_tool_input :: "json option"
  tc_tool_output :: "pystr option"
  tc_status :: tool_status
  tc_error_message :: "pystr option"
  tc_created_at :: "time option"

record subagent_thread =
  st_id :: int
  st_uid :: pystr
  st_parent_conversation_id :: int
  st_child_conversation_id :: int
  st_child_thread_id :: pystr
  st_subagent_slug :: pystr
  st_created_by_run_id :: pystr
  st_created_at :: "time option"
  st_updated_at :: "time option"

record agent_run_scope =
  rs_run_id :: pystr
  rs_scope_key :: pystr
  rs_created_at :: time

section \<open>The database of the component\<close>

text \<open>
  The record is extensible: components that add tables (the request queue) extend it, and the
  operations below apply to the extension as they are.
\<close>

record run_db =
  db_runs :: "agent_run list"
  db_attempts :: "agent_run_attempt list"
  db_messages :: "message list"
  db_tool_calls :: "tool_call list"
  db_scopes :: "agent_run_scope list"
  db_subagent_threads :: "subagent_thread list"

type_synonym 'x rdb = "'x run_db_scheme"

definition empty_run_db :: run_db where
  "empty_run_db = \<lparr>db_runs = [], db_attempts = [], db_messages = [], db_tool_calls = [],
     db_scopes = [], db_subagent_threads = []\<rparr>"

section \<open>Constraints the database enforces\<close>

datatype run_constraint =
    Pk_agent_runs
  | Uq_agent_runs_request_id
  | Uq_agent_runs_one_active_per_thread
  | Ck_agent_runs_nonterminal_shape
  | Fk_agent_runs_subagent_thread

datatype run_error = Value_error pystr | Integrity_error run_constraint

text \<open>\<^verbatim>\<open>AGENT_RUN_SHAPE_CONSTRAINT_SQL\<close>.\<close>

definition run_shape_ok :: "agent_run \<Rightarrow> bool" where
  "run_shape_ok r \<longleftrightarrow>
     terminal (ar_status r)
     \<or> ar_runtime_scope_id r \<noteq> [] \<and> ar_conversation_thread_id r \<noteq> []
       \<and> (ar_run_type r = Chat \<and> ar_runtime_scope_id r = ar_conversation_thread_id r
            \<and> ar_created_by_run_id r = None \<and> ar_subagent_thread_relation_id r = None
          \<or> ar_run_type r = Resume \<and> ar_runtime_scope_id r = ar_conversation_thread_id r
            \<and> ar_created_by_run_id r \<noteq> None \<and> ar_subagent_thread_relation_id r = None
          \<or> ar_run_type r = Subagent
            \<and> ar_created_by_run_id r \<noteq> None \<and> ar_subagent_thread_relation_id r \<noteq> None)"

text \<open>The key of the partial unique index \<^verbatim>\<open>uq_agent_runs_one_active_per_thread\<close>.\<close>

definition active_key :: "agent_run \<Rightarrow> pystr \<times> pystr \<times> pystr" where
  "active_key r = (ar_uid r, ar_agent_slug r, ar_conversation_thread_id r)"

definition one_active_per_thread :: "agent_run list \<Rightarrow> bool" where
  "one_active_per_thread runs \<longleftrightarrow>
     distinct (map active_key (filter (\<lambda>r. \<not> terminal (ar_status r)) runs))"

end
