(* ===== verification/Run_Repository.thy ===== *)
theory Run_Repository
  imports Run_Model
begin

text \<open>
  The operations of \<^verbatim>\<open>AgentRunRepository\<close> (\<^verbatim>\<open>repositories/agent_run_repository.py\<close>), in the
  order of the file. Every operation runs inside one transaction that holds the row lock of its
  run (\<^verbatim>\<open>SELECT ... FOR UPDATE\<close>), so it is one atomic function on the database. A raised
  \<^verbatim>\<open>ValueError\<close> or \<^verbatim>\<open>IntegrityError\<close> is \<open>Inl\<close>: the caller's transaction is rolled back.

  Conventions: \<open>now\<close> is the value of \<^verbatim>\<open>now or utc_now_naive()\<close>; \<open>clk\<close> is a further clock reading
  where the source reads the clock again or a column has a clock \<^verbatim>\<open>default\<close>/\<^verbatim>\<open>onupdate\<close>.
  A row lookup by primary key or unique column is \<open>find\<close>. Queries without \<^verbatim>\<open>ORDER BY\<close> give the
  rows in table order.
\<close>

section \<open>Reading runs\<close>

definition get_run :: "pystr \<Rightarrow> 'x rdb \<Rightarrow> agent_run option" where
  "get_run run_id db = find (\<lambda>r. ar_id r = run_id) (db_runs db)"

definition get_run_by_request_id :: "pystr \<Rightarrow> 'x rdb \<Rightarrow> agent_run option" where
  "get_run_by_request_id request_id db = find (\<lambda>r. ar_request_id r = request_id) (db_runs db)"

definition get_run_for_user :: "pystr \<Rightarrow> pystr \<Rightarrow> 'x rdb \<Rightarrow> agent_run option" where
  "get_run_for_user run_id uid db =
     find (\<lambda>r. ar_id r = run_id \<and> ar_uid r = uid) (db_runs db)"

definition lock_run_for_user :: "pystr \<Rightarrow> pystr \<Rightarrow> 'x rdb \<Rightarrow> agent_run option" where
  "lock_run_for_user run_id uid db =
     find (\<lambda>r. ar_id r = run_id \<and> ar_uid r = uid) (db_runs db)"

definition get_subagent_run_with_creator ::
  "pystr \<Rightarrow> pystr \<Rightarrow> pystr \<Rightarrow> 'x rdb \<Rightarrow> (agent_run \<times> agent_run) option" where
  "get_subagent_run_with_creator uid created_by_run_id run_id db =
     (case get_run_for_user created_by_run_id uid db of
        None \<Rightarrow> None
      | Some creator \<Rightarrow>
          (case get_run_for_user run_id uid db of
             None \<Rightarrow> None
           | Some run \<Rightarrow>
               if ar_run_type run \<noteq> Subagent then None
               else if ar_created_by_run_id run \<noteq> Some (ar_id creator) then None
               else
                 (case ar_subagent_thread_relation_id run of
                    None \<Rightarrow> None
                  | Some relation_id \<Rightarrow>
                      if relation_id = 0 then None
                      else
                        (case find (\<lambda>s. st_id s = relation_id \<and> st_uid s = uid) (db_subagent_threads db) of
                           None \<Rightarrow> None
                         | Some relation \<Rightarrow>
                             if Some (st_parent_conversation_id relation) \<noteq> ar_conversation_id creator
                             then None
                             else if Some (st_child_conversation_id relation) \<noteq> ar_conversation_id run
                               \<or> st_child_thread_id relation \<noteq> ar_conversation_thread_id run
                             then None
                             else Some (creator, run)))))"

text \<open>\<^verbatim>\<open>ORDER BY created_at DESC, id DESC\<close> (nulls first) and \<^verbatim>\<open>ORDER BY created_at ASC, id ASC\<close>.\<close>

definition created_key :: "agent_run \<Rightarrow> (bool \<times> int) \<times> pystr" where
  "created_key r = (nulls_last (ar_created_at r), ar_id r)"

definition oldest_first :: "agent_run list \<Rightarrow> agent_run list" where
  "oldest_first rows = sort_key created_key rows"

definition newest_first :: "agent_run list \<Rightarrow> agent_run list" where
  "newest_first rows = rev (sort_key created_key rows)"

definition get_latest_subagent_run_by_thread_for_user ::
  "pystr \<Rightarrow> pystr \<Rightarrow> 'x rdb \<Rightarrow> agent_run option" where
  "get_latest_subagent_run_by_thread_for_user thread_id uid db =
     first_row (newest_first (filter
       (\<lambda>r. ar_conversation_thread_id r = thread_id \<and> ar_uid r = uid \<and> ar_run_type r = Subagent)
       (db_runs db)))"

definition get_latest_run_by_thread_for_user ::
  "pystr \<Rightarrow> pystr \<Rightarrow> 'x rdb \<Rightarrow> agent_run option" where
  "get_latest_run_by_thread_for_user thread_id uid db =
     first_row (newest_first (filter
       (\<lambda>r. ar_conversation_thread_id r = thread_id \<and> ar_uid r = uid
          \<and> (ar_run_type r = Chat \<or> ar_run_type r = Resume \<or> ar_run_type r = Subagent))
       (db_runs db)))"

definition get_latest_chat_or_resume_run ::
  "pystr \<Rightarrow> pystr \<Rightarrow> pystr \<Rightarrow> 'x rdb \<Rightarrow> agent_run option" where
  "get_latest_chat_or_resume_run uid agent_slug thread_id db =
     first_row (newest_first (filter
       (\<lambda>r. ar_uid r = uid \<and> ar_agent_slug r = agent_slug
          \<and> ar_conversation_thread_id r = thread_id \<and> top_level (ar_run_type r))
       (db_runs db)))"

definition get_latest_top_level_runs_for_threads ::
  "pystr \<Rightarrow> pystr list \<Rightarrow> 'x rdb \<Rightarrow> pystr \<rightharpoonup> pystr \<times> run_status" where
  "get_latest_top_level_runs_for_threads uid thread_ids db =
     (\<lambda>t. if t \<in> set thread_ids
          then map_option (\<lambda>r. (ar_id r, ar_status r))
            (first_row (newest_first (filter
               (\<lambda>r. ar_uid r = uid \<and> ar_conversation_thread_id r = t \<and> top_level (ar_run_type r))
               (db_runs db))))
          else None)"

definition list_child_runs_for_user :: "pystr \<Rightarrow> pystr \<Rightarrow> 'x rdb \<Rightarrow> agent_run list" where
  "list_child_runs_for_user created_by_run_id uid db =
     oldest_first (filter
       (\<lambda>r. ar_created_by_run_id r = Some created_by_run_id \<and> ar_uid r = uid) (db_runs db))"

definition list_subagent_runs_for_conversation ::
  "int \<Rightarrow> pystr \<Rightarrow> 'x rdb \<Rightarrow> agent_run list" where
  "list_subagent_runs_for_conversation conversation_id uid db =
     oldest_first (filter
       (\<lambda>r. list_ex (\<lambda>s. ar_subagent_thread_relation_id r = Some (st_id s)
                \<and> st_parent_conversation_id s = conversation_id \<and> st_uid s = uid
                \<and> ar_conversation_id r = Some (st_child_conversation_id s)) (db_subagent_threads db)
          \<and> ar_uid r = uid \<and> ar_run_type r = Subagent)
       (db_runs db))"

definition unfinished :: "agent_run \<Rightarrow> bool" where
  "unfinished r \<longleftrightarrow> \<not> terminal (ar_status r) \<or> ar_runtime_cleanup_pending r"

definition get_active_run_by_thread_for_user ::
  "pystr \<Rightarrow> pystr \<Rightarrow> pystr \<Rightarrow> 'x rdb \<Rightarrow> agent_run option" where
  "get_active_run_by_thread_for_user agent_slug thread_id uid db =
     first_row (newest_first (filter
       (\<lambda>r. ar_agent_slug r = agent_slug \<and> ar_uid r = uid
          \<and> ar_conversation_thread_id r = thread_id \<and> unfinished r)
       (db_runs db)))"

definition get_active_run_by_runtime_scope_for_user ::
  "pystr \<Rightarrow> pystr \<Rightarrow> 'x rdb \<Rightarrow> agent_run option" where
  "get_active_run_by_runtime_scope_for_user runtime_scope_id uid db =
     first_row (newest_first (filter
       (\<lambda>r. ar_runtime_scope_id r = runtime_scope_id \<and> ar_uid r = uid \<and> unfinished r)
       (db_runs db)))"

section \<open>Writing a run row; its input-message projection\<close>

definition put_run :: "agent_run \<Rightarrow> 'x rdb \<Rightarrow> 'x rdb" where
  "put_run r db = db\<lparr>db_runs := update_where (\<lambda>x. ar_id x = ar_id r) (\<lambda>_. r) (db_runs db)\<rparr>"

definition project_input_delivery_status :: "agent_run \<Rightarrow> 'x rdb \<Rightarrow> 'x rdb" where
  "project_input_delivery_status run db =
     (case (ar_input_message_id run, run_status_to_delivery (ar_status run)) of
        (Some mid, Some d) \<Rightarrow>
          db\<lparr>db_messages := update_where (\<lambda>m. ms_id m = mid) (\<lambda>m. m\<lparr>ms_delivery_status := d\<rparr>)
               (db_messages db)\<rparr>
      | _ \<Rightarrow> db)"

section \<open>Attempts\<close>

definition open_attempt :: "agent_run_attempt \<Rightarrow> bool" where
  "open_attempt a \<longleftrightarrow> at_finished_at a = None"

definition list_run_attempts :: "pystr \<Rightarrow> 'x rdb \<Rightarrow> agent_run_attempt list" where
  "list_run_attempts run_id db =
     sort_key (\<lambda>a. (at_attempt_no a, at_id a)) (filter (\<lambda>a. at_run_id a = run_id) (db_attempts db))"

definition get_open_attempt :: "pystr \<Rightarrow> pystr option \<Rightarrow> 'x rdb \<Rightarrow> agent_run_attempt option" where
  "get_open_attempt run_id worker_id db =
     first_row (rev (sort_key at_attempt_no (filter
       (\<lambda>a. at_run_id a = run_id \<and> open_attempt a
          \<and> (case worker_id of None \<Rightarrow> True | Some w \<Rightarrow> at_worker_id a = w))
       (db_attempts db))))"

definition close_attempt ::
  "attempt_outcome \<Rightarrow> pystr option \<Rightarrow> pystr option \<Rightarrow> time \<Rightarrow> agent_run_attempt \<Rightarrow> agent_run_attempt" where
  "close_attempt out error_type error_message now a =
     a\<lparr>at_outcome := Some out, at_error_type := error_type, at_error_message := error_message,
       at_finished_at := Some now, at_updated_at := Some now\<rparr>"

definition finish_open_attempt ::
  "pystr \<Rightarrow> pystr option \<Rightarrow> attempt_outcome \<Rightarrow> pystr option \<Rightarrow> pystr option \<Rightarrow> time \<Rightarrow> 'x rdb \<Rightarrow> 'x rdb"
where
  "finish_open_attempt run_id worker_id out error_type error_message now db =
     (case get_open_attempt run_id worker_id db of
        None \<Rightarrow> db
      | Some a \<Rightarrow>
          db\<lparr>db_attempts := update_where (\<lambda>x. at_id x = at_id a)
               (close_attempt out error_type error_message now) (db_attempts db)\<rparr>)"

definition close_open_attempts ::
  "pystr \<Rightarrow> attempt_outcome \<Rightarrow> pystr option \<Rightarrow> pystr option \<Rightarrow> time \<Rightarrow> 'x rdb \<Rightarrow> 'x rdb" where
  "close_open_attempts run_id out error_type error_message now db =
     db\<lparr>db_attempts := update_where (\<lambda>a. at_run_id a = run_id \<and> open_attempt a)
          (close_attempt out error_type error_message now) (db_attempts db)\<rparr>"

definition heartbeat_attempt :: "pystr \<Rightarrow> pystr \<Rightarrow> time \<Rightarrow> time option \<Rightarrow> 'x rdb \<Rightarrow> 'x rdb" where
  "heartbeat_attempt run_id worker_id now lease db =
     (case get_open_attempt run_id (Some worker_id) db of
        None \<Rightarrow> db
      | Some a \<Rightarrow>
          db\<lparr>db_attempts := update_where (\<lambda>x. at_id x = at_id a)
               (\<lambda>x. x\<lparr>at_heartbeat_at := Some now, at_lease_expires_at := lease,
                      at_updated_at := Some now\<rparr>) (db_attempts db)\<rparr>)"

definition add_attempt :: "agent_run \<Rightarrow> pystr \<Rightarrow> time \<Rightarrow> time \<Rightarrow> 'x rdb \<Rightarrow> 'x rdb" where
  "add_attempt run worker_id now clk db =
     (let max_attempt_no =
            max_int (map at_attempt_no (filter (\<lambda>a. at_run_id a = ar_id run) (db_attempts db)));
          a = \<lparr>at_id = max_int (map at_id (db_attempts db)) + 1, at_run_id = ar_id run,
               at_attempt_no = max_attempt_no + 1, at_worker_id = worker_id, at_started_at = now,
               at_heartbeat_at = Some now, at_lease_expires_at = ar_lease_expires_at run,
               at_finished_at = None, at_outcome = None, at_error_type = None,
               at_error_message = None, at_created_at = Some clk, at_updated_at = Some clk\<rparr>
      in db\<lparr>db_attempts := db_attempts db @ [a]\<rparr>)"

section \<open>Audit rows\<close>

definition audit_type :: "message_type \<Rightarrow> bool" where
  "audit_type t \<longleftrightarrow> t = Model_audit \<or> t = Tool_audit"

definition running_tool_metadata :: "pystr \<Rightarrow> 'x rdb \<Rightarrow> (int \<times> json) list" where
  "running_tool_metadata run_id db =
     List.map_filter
       (\<lambda>m. case ms_extra_metadata m of
              Some (JObj kvs) \<Rightarrow>
                (case json_get (JObj kvs) (lit ''compatibility_tool_call_id'') of
                   None \<Rightarrow> None
                 | Some v \<Rightarrow> map_option (\<lambda>i. (i, JObj kvs)) (json_int v))
            | _ \<Rightarrow> None)
       (filter (\<lambda>m. ms_run_id m = Some run_id \<and> ms_message_type m = Tool_audit
                  \<and> ms_execution_status m = Some Exec_running) (db_messages db))"

definition metadata_error_message :: "json \<Rightarrow> execution_status \<Rightarrow> pystr" where
  "metadata_error_message metadata execution_status =
     (case json_get metadata (lit ''error_message'') of
        Some (JStr s) \<Rightarrow> if s = [] then msg_tool_closed @ execution_status_str execution_status else s
      | _ \<Rightarrow> msg_tool_closed @ execution_status_str execution_status)"

definition close_running_audits ::
  "pystr \<Rightarrow> execution_status \<Rightarrow> time \<Rightarrow> bool \<Rightarrow> 'x rdb \<Rightarrow> 'x rdb" where
  "close_running_audits run_id execution_status now preserve_pending_tool_calls db =
     (let tool_metadata = map_of (rev (running_tool_metadata run_id db));
          db1 = (if preserve_pending_tool_calls then db
                 else db\<lparr>db_tool_calls := map
                   (\<lambda>tc. case tool_metadata (tc_id tc) of
                           None \<Rightarrow> tc
                         | Some metadata \<Rightarrow>
                             tc\<lparr>tc_status := Tool_error,
                                tc_error_message := Some (metadata_error_message metadata execution_status)\<rparr>)
                   (db_tool_calls db)\<rparr>)
      in db1\<lparr>db_messages := update_where
           (\<lambda>m. ms_run_id m = Some run_id \<and> audit_type (ms_message_type m)
              \<and> ms_execution_status m = Some Exec_running)
           (\<lambda>m. m\<lparr>ms_execution_status := Some execution_status,
                  ms_finished_at := (case ms_finished_at m of None \<Rightarrow> Some now | Some t \<Rightarrow> Some t)\<rparr>)
           (db_messages db1)\<rparr>)"

section \<open>Lease ownership\<close>

definition lease_live :: "agent_run \<Rightarrow> time \<Rightarrow> bool" where
  "lease_live r now \<longleftrightarrow> (case ar_lease_expires_at r of None \<Rightarrow> False | Some t \<Rightarrow> now < t)"

definition require_lease_owner :: "agent_run \<Rightarrow> pystr \<Rightarrow> time \<Rightarrow> pystr \<Rightarrow> run_error + unit" where
  "require_lease_owner run worker_id now action =
     (if ar_status run \<noteq> Running \<or> ar_worker_id run \<noteq> Some worker_id \<or> \<not> lease_live run now
      then Inl (Value_error (msg_owner_only @ action)) else Inr ())"

definition get_matching_output_message :: "agent_run \<Rightarrow> int \<Rightarrow> 'x rdb \<Rightarrow> message option" where
  "get_matching_output_message run message_id db =
     find (\<lambda>m. ms_id m = message_id \<and> Some (ms_conversation_id m) = ar_conversation_id run
            \<and> ms_run_id m = Some (ar_id run) \<and> ms_request_id m = Some (ar_request_id run)
            \<and> ms_role m = Assistant) (db_messages db)"

section \<open>Creating a run\<close>

definition create_run ::
  "pystr \<Rightarrow> pystr \<Rightarrow> pystr option \<Rightarrow> pystr \<Rightarrow> pystr \<Rightarrow> pystr \<Rightarrow> json \<Rightarrow> pystr \<Rightarrow> pystr \<Rightarrow> pystr option
   \<Rightarrow> json option \<Rightarrow> int option \<Rightarrow> pystr option \<Rightarrow> int option \<Rightarrow> run_type \<Rightarrow> int option \<Rightarrow> time
   \<Rightarrow> 'x rdb \<Rightarrow> run_error + 'x rdb \<times> agent_run" where
  "create_run run_id thread_id runtime_scope_id agent_slug uid request_id input_payload source channel
     external_id origin_metadata conversation_id created_by_run_id relation_id run_type input_message_id
     clk db =
     (let runtime_scope = (case runtime_scope_id of None \<Rightarrow> thread_id | Some s \<Rightarrow> py_strip s);
          run = \<lparr>ar_id = run_id, ar_conversation_thread_id = thread_id,
                 ar_runtime_scope_id = runtime_scope, ar_runtime_cleanup_pending = False,
                 ar_agent_slug = agent_slug, ar_uid = uid, ar_status = Pending,
                 ar_request_id = request_id, ar_source = source, ar_channel = channel,
                 ar_external_id = external_id, ar_origin_metadata = or_obj origin_metadata,
                 ar_conversation_id = conversation_id, ar_created_by_run_id = created_by_run_id,
                 ar_subagent_thread_relation_id = relation_id, ar_run_type = run_type,
                 ar_input_message_id = input_message_id, ar_output_message_id = None,
                 ar_input_payload = input_payload, ar_token_usage = json_empty,
                 ar_langfuse_trace_id = None, ar_error_type = None, ar_error_message = None,
                 ar_worker_id = None, ar_heartbeat_at = None, ar_lease_expires_at = None,
                 ar_manifest = None, ar_manifest_fingerprint = None, ar_manifest_recorded_at = None,
                 ar_started_at = None, ar_prepared_at = None, ar_first_model_request_at = None,
                 ar_first_output_at = None, ar_finished_at = None, ar_created_at = Some clk,
                 ar_updated_at = Some clk\<rparr>
      in if run_id \<in> set (map ar_id (db_runs db)) then Inl (Integrity_error Pk_agent_runs)
         else if request_id \<in> set (map ar_request_id (db_runs db))
         then Inl (Integrity_error Uq_agent_runs_request_id)
         else if \<not> run_shape_ok run then Inl (Integrity_error Ck_agent_runs_nonterminal_shape)
         else if \<not> one_active_per_thread (db_runs db @ [run])
         then Inl (Integrity_error Uq_agent_runs_one_active_per_thread)
         else if (case relation_id of None \<Rightarrow> False
                  | Some i \<Rightarrow> i \<notin> set (map st_id (db_subagent_threads db)))
         then Inl (Integrity_error Fk_agent_runs_subagent_thread)
         else Inr (db\<lparr>db_runs := db_runs db @ [run]\<rparr>, run))"

section \<open>Writes of the current attempt\<close>

definition set_langfuse_trace_id ::
  "pystr \<Rightarrow> pystr \<Rightarrow> pystr \<Rightarrow> time \<Rightarrow> 'x rdb \<Rightarrow> run_error + 'x rdb \<times> agent_run option" where
  "set_langfuse_trace_id run_id trace_id worker_id now db =
     (let normalized_trace_id = py_strip trace_id
      in if normalized_trace_id = [] then Inl (Value_error msg_trace_id_empty)
         else if py_strip worker_id = [] then Inl (Value_error msg_worker_id_empty)
         else
           (case get_run run_id db of
              None \<Rightarrow> Inr (db, None)
            | Some run \<Rightarrow>
                (case require_lease_owner run worker_id now act_trace of
                   Inl e \<Rightarrow> Inl e
                 | Inr _ \<Rightarrow>
                     if or_empty (ar_langfuse_trace_id run) \<noteq> []
                        \<and> ar_langfuse_trace_id run \<noteq> Some normalized_trace_id
                     then Inl (Value_error msg_other_trace)
                     else
                       let run' = run\<lparr>ar_langfuse_trace_id := Some normalized_trace_id,
                                      ar_updated_at := Some now\<rparr>
                       in Inr (put_run run' db, Some run'))))"

definition set_output_message ::
  "pystr \<Rightarrow> int \<Rightarrow> pystr \<Rightarrow> time \<Rightarrow> 'x rdb \<Rightarrow> run_error + 'x rdb \<times> agent_run option" where
  "set_output_message run_id message_id worker_id now db =
     (if py_strip worker_id = [] then Inl (Value_error msg_worker_id_empty)
      else
        (case get_run run_id db of
           None \<Rightarrow> Inr (db, None)
         | Some run \<Rightarrow>
             (case require_lease_owner run worker_id now act_output of
                Inl e \<Rightarrow> Inl e
              | Inr _ \<Rightarrow>
                  if get_matching_output_message run message_id db = None
                  then Inl (Value_error msg_output_mismatch)
                  else
                    let run' = run\<lparr>ar_output_message_id := Some message_id,
                                   ar_updated_at := Some now\<rparr>
                    in Inr (put_run run' db, Some run'))))"

definition lock_output_persistence ::
  "pystr \<Rightarrow> pystr \<Rightarrow> pystr \<Rightarrow> pystr \<Rightarrow> time \<Rightarrow> 'x rdb \<Rightarrow> run_error + agent_run option" where
  "lock_output_persistence run_id worker_id thread_id request_id now db =
     (if py_strip worker_id = [] then Inl (Value_error msg_worker_id_empty)
      else
        (case get_run run_id db of
           None \<Rightarrow> Inr None
         | Some run \<Rightarrow>
             (case require_lease_owner run worker_id now act_output of
                Inl e \<Rightarrow> Inl e
              | Inr _ \<Rightarrow>
                  if ar_conversation_thread_id run \<noteq> thread_id \<or> ar_request_id run \<noteq> request_id
                  then Inl (Value_error msg_output_scope)
                  else if ar_conversation_id run = None then Inl (Value_error msg_output_no_conversation)
                  else Inr (Some run))))"

definition lock_memory_write ::
  "pystr \<Rightarrow> pystr \<Rightarrow> pystr \<Rightarrow> pystr \<Rightarrow> pystr \<Rightarrow> time \<Rightarrow> 'x rdb \<Rightarrow> run_error + agent_run option" where
  "lock_memory_write run_id uid worker_id thread_id request_id now db =
     (if py_strip worker_id = [] then Inl (Value_error msg_worker_id_empty)
      else
        (case get_run run_id db of
           None \<Rightarrow> Inr None
         | Some run \<Rightarrow>
             (case require_lease_owner run worker_id now act_memory of
                Inl e \<Rightarrow> Inl e
              | Inr _ \<Rightarrow>
                  if ar_uid run \<noteq> uid \<or> ar_conversation_thread_id run \<noteq> thread_id
                     \<or> ar_request_id run \<noteq> request_id \<or> \<not> top_level (ar_run_type run)
                  then Inl (Value_error msg_memory_scope)
                  else Inr (Some run))))"

section \<open>Lease transitions\<close>

definition initial_claim :: "agent_run \<Rightarrow> bool" where
  "initial_claim run \<longleftrightarrow>
     ar_status run = Pending \<or> (ar_status run = Cancel_requested \<and> ar_worker_id run = None)"

definition same_live_owner :: "agent_run \<Rightarrow> pystr \<Rightarrow> time \<Rightarrow> bool" where
  "same_live_owner run worker_id now \<longleftrightarrow>
     leased_status (ar_status run) \<and> ar_worker_id run = Some worker_id \<and> lease_live run now"

definition mark_running ::
  "pystr \<Rightarrow> pystr \<Rightarrow> rat \<Rightarrow> time \<Rightarrow> time \<Rightarrow> 'x rdb \<Rightarrow> run_error + 'x rdb \<times> agent_run option \<times> bool" where
  "mark_running run_id worker_id lease_seconds now clk db =
     (if py_strip worker_id = [] then Inl (Value_error msg_worker_id_empty)
      else if lease_seconds \<le> 0 then Inl (Value_error msg_lease_seconds)
      else
        (case get_run run_id db of
           None \<Rightarrow> Inr (db, None, False)
         | Some run \<Rightarrow>
             if terminal (ar_status run) then Inr (db, Some run, False)
             else if ar_runtime_cleanup_pending run then Inr (db, Some run, False)
             else if \<not> initial_claim run \<and> \<not> same_live_owner run worker_id now
             then Inr (db, Some run, False)
             else
               let run' = run\<lparr>
                     ar_status := (if ar_status run = Pending then Running else ar_status run),
                     ar_worker_id := Some worker_id,
                     ar_heartbeat_at := Some now,
                     ar_lease_expires_at := Some (now + timedelta_seconds lease_seconds),
                     ar_started_at := (case ar_started_at run of None \<Rightarrow> Some now | Some t \<Rightarrow> Some t),
                     ar_updated_at := Some now\<rparr>;
                   db1 = put_run run' db;
                   db2 = (if initial_claim run
                          then add_attempt run' worker_id now clk
                                 (close_open_attempts run_id Out_lease_expired
                                    (Some (lit ''worker_lease_expired'')) (Some msg_takeover) now db1)
                          else heartbeat_attempt run_id worker_id now (ar_lease_expires_at run') db1)
               in Inr (db2, Some run', True)))"

definition renew_lease ::
  "pystr \<Rightarrow> pystr \<Rightarrow> rat \<Rightarrow> time \<Rightarrow> 'x rdb \<Rightarrow> run_error + 'x rdb \<times> bool" where
  "renew_lease run_id worker_id lease_seconds now db =
     (if py_strip worker_id = [] then Inl (Value_error msg_worker_id_empty)
      else if lease_seconds \<le> 0 then Inl (Value_error msg_lease_seconds)
      else
        (case get_run run_id db of
           None \<Rightarrow> Inr (db, False)
         | Some run \<Rightarrow>
             if \<not> leased_status (ar_status run) \<or> ar_worker_id run \<noteq> Some worker_id
                \<or> \<not> lease_live run now
             then Inr (db, False)
             else
               let run' = run\<lparr>ar_heartbeat_at := Some now,
                     ar_lease_expires_at := Some (now + timedelta_seconds lease_seconds),
                     ar_updated_at := Some now\<rparr>
               in Inr (heartbeat_attempt run_id worker_id now (ar_lease_expires_at run')
                         (put_run run' db), True)))"

definition release_lease_for_retry ::
  "pystr \<Rightarrow> pystr \<Rightarrow> time \<Rightarrow> 'x rdb \<Rightarrow> 'x rdb \<times> bool" where
  "release_lease_for_retry run_id worker_id now db =
     (case get_run run_id db of
        None \<Rightarrow> (db, False)
      | Some run \<Rightarrow>
          if ar_status run \<noteq> Running \<or> ar_worker_id run \<noteq> Some worker_id \<or> \<not> lease_live run now
          then (db, False)
          else
            let run' = run\<lparr>ar_status := Pending, ar_worker_id := None, ar_heartbeat_at := None,
                  ar_lease_expires_at := None,
                  ar_runtime_cleanup_pending := (ar_run_type run \<noteq> Subagent),
                  ar_updated_at := Some now\<rparr>
            in (finish_open_attempt run_id (Some worker_id) Out_retry_released None None now
                  (put_run run' db), True))"

section \<open>Cancelling an execution tree\<close>

definition never_started :: "agent_run \<Rightarrow> bool" where
  "never_started r \<longleftrightarrow>
     ar_status r = Pending \<and> ar_worker_id r = None \<and> ar_started_at r = None"

definition cancel_child :: "time \<Rightarrow> agent_run \<Rightarrow> 'x rdb \<Rightarrow> 'x rdb" where
  "cancel_child now child db =
     (let et = Some (lit ''execution_tree_closed''); em = Some msg_tree_closed
      in if never_started child
         then
           let child' = child\<lparr>ar_error_type := et, ar_error_message := em, ar_status := Cancelled,
                 ar_finished_at := Some now, ar_worker_id := None, ar_heartbeat_at := None,
                 ar_lease_expires_at := None, ar_updated_at := Some now\<rparr>
           in close_open_attempts (ar_id child) (Out_status Cancelled) et em now
                (project_input_delivery_status child' (put_run child' db))
         else
           put_run (child\<lparr>ar_error_type := et, ar_error_message := em,
                     ar_status := Cancel_requested, ar_updated_at := Some now\<rparr>) db)"

definition active_children ::
  "pystr \<Rightarrow> pystr \<Rightarrow> pystr list \<Rightarrow> pystr list \<Rightarrow> 'x rdb \<Rightarrow> agent_run list" where
  "active_children uid scope_key scope_run_ids parent_ids db =
     oldest_first (filter
       (\<lambda>r. (case ar_created_by_run_id r of None \<Rightarrow> False | Some p \<Rightarrow> p \<in> set parent_ids)
          \<and> ar_uid r = uid
          \<and> (ar_runtime_scope_id r = scope_key \<or> ar_id r \<in> set scope_run_ids)
          \<and> \<not> terminal (ar_status r))
       (db_runs db))"

text \<open>
  The body of the \<^verbatim>\<open>for child in ...\<close> loop over \<^verbatim>\<open>seen_ids\<close>, the next \<^verbatim>\<open>pending_parent_ids\<close>, the
  result list \<^verbatim>\<open>cancelled\<close> and the database.
\<close>

fun cancel_children ::
  "time \<Rightarrow> agent_run list \<Rightarrow> pystr list \<Rightarrow> pystr list \<Rightarrow> (pystr \<times> pystr) list \<Rightarrow> 'x rdb
   \<Rightarrow> pystr list \<times> pystr list \<times> (pystr \<times> pystr) list \<times> 'x rdb" where
  "cancel_children now [] seen pending cancelled db = (seen, pending, cancelled, db)"
| "cancel_children now (child # rest) seen pending cancelled db =
     (if ar_id child \<in> set seen then cancel_children now rest seen pending cancelled db
      else cancel_children now rest (ar_id child # seen) (pending @ [ar_id child])
             (cancelled @ [(ar_id child, ar_conversation_thread_id child)])
             (cancel_child now child db))"

text \<open>The run ids of the table that the loop has not seen yet: they bound the iterations.\<close>

definition unseen :: "pystr list \<Rightarrow> 'x rdb \<Rightarrow> pystr set" where
  "unseen seen db = set (map ar_id (db_runs db)) - set seen"

lemma ids_put_run [simp]: "map ar_id (db_runs (put_run r db)) = map ar_id (db_runs db)"
  by (auto simp: put_run_def intro: map_update_where)

lemma runs_project_input [simp]:
  "db_runs (project_input_delivery_status r db) = db_runs db"
  by (simp add: project_input_delivery_status_def split: option.split)

lemma runs_close_open_attempts [simp]:
  "db_runs (close_open_attempts i out et em now db) = db_runs db"
  by (simp add: close_open_attempts_def)

lemma ids_cancel_child [simp]:
  "map ar_id (db_runs (cancel_child now c db)) = map ar_id (db_runs db)"
  by (simp add: cancel_child_def Let_def)

lemma cancel_children_ids:
  "cancel_children now cs seen pending cancelled db = (seen', pending', cancelled', db') \<Longrightarrow>
   map ar_id (db_runs db') = map ar_id (db_runs db)"
  by (induction now cs seen pending cancelled db rule: cancel_children.induct)
     (auto split: if_splits)

lemma cancel_children_seen:
  "cancel_children now cs seen pending cancelled db = (seen', pending', cancelled', db') \<Longrightarrow>
   set seen' = set seen \<union> ar_id ` set cs \<and>
   set pending' = set pending \<union> (ar_id ` set cs - set seen)"
  by (induction now cs seen pending cancelled db rule: cancel_children.induct)
     (auto split: if_splits)

lemma active_children_subset:
  "set (active_children uid key sids parents db) \<subseteq> set (db_runs db)"
  by (auto simp: active_children_def oldest_first_def)

lemma finite_unseen [simp]: "finite (unseen seen db)"
  by (simp add: unseen_def)

lemma cancel_children_unseen:
  assumes "cancel_children now cs seen [] cancelled db = (seen', pending', cancelled', db')"
    and "set cs \<subseteq> set (db_runs db)"
  shows "card (unseen seen' db') \<le> card (unseen seen db)"
    and "pending' \<noteq> [] \<Longrightarrow> card (unseen seen' db') < card (unseen seen db)"
proof -
  note ids = cancel_children_ids[OF assms(1)]
  note seen = cancel_children_seen[OF assms(1)]
  have sub: "unseen seen' db' \<subseteq> unseen seen db"
    using ids seen by (auto simp: unseen_def simp del: set_map)
  then show "card (unseen seen' db') \<le> card (unseen seen db)" by (simp add: card_mono)
  assume "pending' \<noteq> []"
  then obtain i where "i \<in> set pending'" by (cases pending') auto
  with seen obtain c where "c \<in> set cs" "i = ar_id c" "i \<notin> set seen" by auto
  then have "i \<in> unseen seen db" "i \<notin> unseen seen' db'"
    using assms(2) seen by (auto simp: unseen_def)
  with sub show "card (unseen seen' db') < card (unseen seen db)"
    by (metis finite_unseen psubsetI psubset_card_mono)
qed

text \<open>The \<^verbatim>\<open>while pending_parent_ids\<close> loop: each round cancels the active children of one level.\<close>

function cancel_tree_loop ::
  "time \<Rightarrow> pystr \<Rightarrow> pystr \<Rightarrow> pystr list \<Rightarrow> pystr list \<Rightarrow> pystr list \<Rightarrow> (pystr \<times> pystr) list \<Rightarrow> 'x rdb
   \<Rightarrow> (pystr \<times> pystr) list \<times> 'x rdb" where
  "cancel_tree_loop now uid scope_key scope_run_ids pending seen cancelled db =
     (if pending = [] then (cancelled, db)
      else
        (case cancel_children now (active_children uid scope_key scope_run_ids pending db)
                seen [] cancelled db of
           (seen', pending', cancelled', db') \<Rightarrow>
             cancel_tree_loop now uid scope_key scope_run_ids pending' seen' cancelled' db'))"
  by pat_completeness auto
termination
proof (relation "measure (\<lambda>(now, uid, scope_key, scope_run_ids, pending, seen, cancelled, db).
    2 * card (unseen seen db) + (if pending = [] then 0 else 1))", goal_cases)
  case 1
  show ?case by simp
next
 case (2 now uid scope_key scope_run_ids pending seen cancelled db seen' y pending' z cancelled' db')
  then have c: "cancel_children now (active_children uid scope_key scope_run_ids pending db)
    seen [] cancelled db = (seen', pending', cancelled', db')" by simp
  note le = cancel_children_unseen[OF c active_children_subset]
  show ?case using 2(1) le by (cases "pending' = []") auto
qed

declare cancel_tree_loop.simps [simp del]

definition scope_key_of_root :: "agent_run \<Rightarrow> 'x rdb \<Rightarrow> pystr" where
  "scope_key_of_root root_run db =
     (case find (\<lambda>s. rs_run_id s = ar_id root_run) (db_scopes db) of
        None \<Rightarrow> ar_runtime_scope_id root_run
      | Some row \<Rightarrow> rs_scope_key row)"

definition scope_run_ids :: "pystr \<Rightarrow> 'x rdb \<Rightarrow> pystr list" where
  "scope_run_ids scope_key db =
     map rs_run_id (filter (\<lambda>s. rs_scope_key s = scope_key) (db_scopes db))"

definition cancel_active_execution_tree_descendants ::
  "agent_run \<Rightarrow> time \<Rightarrow> 'x rdb \<Rightarrow> (pystr \<times> pystr) list \<times> 'x rdb" where
  "cancel_active_execution_tree_descendants root_run now db =
     (if ar_run_type root_run = Subagent then ([], db)
      else
        let root_scope_key = scope_key_of_root root_run db
        in cancel_tree_loop now (ar_uid root_run) root_scope_key (scope_run_ids root_scope_key db)
             [ar_id root_run] [] [] db)"

definition request_cancel_locked :: "agent_run \<Rightarrow> time \<Rightarrow> 'x rdb \<Rightarrow> agent_run \<times> 'x rdb" where
  "request_cancel_locked run now db =
     (if terminal (ar_status run) then (run, db)
      else if never_started run
      then
        let run' = run\<lparr>ar_status := Cancelled, ar_error_type := Some (lit ''cancelled''),
              ar_error_message := Some msg_cancelled_before_start, ar_finished_at := Some now,
              ar_updated_at := Some now, ar_runtime_cleanup_pending := False\<rparr>
        in (run', project_input_delivery_status run' (put_run run' db))
      else
        let run' = run\<lparr>ar_status := Cancel_requested, ar_updated_at := Some now\<rparr>
        in (run', put_run run' db))"

definition request_cancel_execution_tree ::
  "pystr \<Rightarrow> pystr \<Rightarrow> bool \<Rightarrow> time \<Rightarrow> time \<Rightarrow> 'x rdb \<Rightarrow> (agent_run option \<times> pystr list) \<times> 'x rdb" where
  "request_cancel_execution_tree run_id uid cascade_descendants now clk db =
     (case lock_run_for_user run_id uid db of
        None \<Rightarrow> ((None, []), db)
      | Some run \<Rightarrow>
          (case request_cancel_locked run now db of
             (run', db1) \<Rightarrow>
               if cascade_descendants
               then
                 (case cancel_active_execution_tree_descendants run' clk db1 of
                    (cancelled, db2) \<Rightarrow>
                      ((get_run (ar_id run') db2, ar_id run' # map fst cancelled), db2))
               else ((Some run', [ar_id run']), db1)))"

section \<open>Converging lost runs\<close>

text \<open>The rows \<^verbatim>\<open>reconcile_expired_leases\<close> selects; rows locked by others are skipped.\<close>

definition lost_owner :: "time \<Rightarrow> agent_run \<Rightarrow> bool" where
  "lost_owner now r \<longleftrightarrow>
     ar_status r = Running \<and> \<not> lease_live r now
     \<or> ar_status r = Cancel_requested \<and> ar_worker_id r \<noteq> None \<and> \<not> lease_live r now
     \<or> ar_status r = Cancel_requested \<and> ar_worker_id r = None \<and> ar_started_at r \<noteq> None"

definition fail_lost_run :: "agent_run \<Rightarrow> agent_run \<Rightarrow> time \<Rightarrow> 'x rdb \<Rightarrow> 'x rdb" where
  "fail_lost_run run run' now db =
     close_open_attempts (ar_id run) Out_lease_expired (Some (lit ''worker_lease_expired''))
       (Some msg_lease_expired_attempt) now
       (close_running_audits (ar_id run) Exec_abandoned now False
         (project_input_delivery_status run' (put_run run' db)))"

text \<open>Each cascade reads the clock anew: \<open>clk run_id\<close> is the reading made for that run.\<close>

fun reconcile_loop ::
  "time \<Rightarrow> (pystr \<Rightarrow> time) \<Rightarrow> pystr list \<Rightarrow> pystr list \<Rightarrow> (pystr \<times> pystr) list \<Rightarrow> 'x rdb
   \<Rightarrow> (pystr list \<times> (pystr \<times> pystr) list) \<times> 'x rdb" where
  "reconcile_loop now clk [] reconciled cancelled db = ((reconciled, cancelled), db)"
| "reconcile_loop now clk (run_id # rest) reconciled cancelled db =
     (case get_run run_id db of
        None \<Rightarrow> reconcile_loop now clk rest reconciled cancelled db
      | Some run \<Rightarrow>
          if terminal (ar_status run) then reconcile_loop now clk rest reconciled cancelled db
          else
            let run' = run\<lparr>ar_status := Failed, ar_error_type := Some (lit ''worker_lease_expired''),
                  ar_error_message := Some msg_lease_expired_run, ar_finished_at := Some now,
                  ar_updated_at := Some now, ar_worker_id := None, ar_heartbeat_at := None,
                  ar_lease_expires_at := None,
                  ar_runtime_cleanup_pending := (ar_run_type run \<noteq> Subagent)\<rparr>
            in (case cancel_active_execution_tree_descendants run' (clk run_id) (fail_lost_run run run' now db) of
                  (descendants, db') \<Rightarrow>
                    reconcile_loop now clk rest (reconciled @ [run_id]) (cancelled @ descendants) db'))"

definition reconcile_expired_leases ::
  "pystr list \<Rightarrow> time \<Rightarrow> (pystr \<Rightarrow> time) \<Rightarrow> 'x rdb \<Rightarrow> (pystr list \<times> (pystr \<times> pystr) list) \<times> 'x rdb" where
  "reconcile_expired_leases locked now clk db =
     (let runs = filter (\<lambda>r. lost_owner now r \<and> ar_id r \<notin> set locked) (db_runs db);
          ordered = sort_key (\<lambda>r. ar_created_by_run_id r \<noteq> None) runs
      in reconcile_loop now clk (map ar_id ordered) [] [] db)"

definition fail_for_migration :: "time \<Rightarrow> agent_run \<Rightarrow> 'x rdb \<Rightarrow> 'x rdb" where
  "fail_for_migration now run db =
     (let run' = run\<lparr>ar_status := Failed, ar_error_type := Some (lit ''storage_migration''),
            ar_error_message := Some msg_storage_migration, ar_finished_at := Some now,
            ar_updated_at := Some now, ar_worker_id := None, ar_heartbeat_at := None,
            ar_lease_expires_at := None, ar_runtime_cleanup_pending := False\<rparr>
      in close_open_attempts (ar_id run) (Out_status Failed) (ar_error_type run')
           (ar_error_message run') now
           (close_running_audits (ar_id run) Exec_abandoned now False
             (project_input_delivery_status run' (put_run run' db))))"

definition fail_nonterminal_for_storage_migration :: "time \<Rightarrow> 'x rdb \<Rightarrow> pystr list \<times> 'x rdb" where
  "fail_nonterminal_for_storage_migration now db =
     (let runs = oldest_first (filter (\<lambda>r. \<not> terminal (ar_status r)) (db_runs db))
      in (map ar_id runs, fold (fail_for_migration now) runs db))"

section \<open>Terminal status\<close>

fun audit_status_of :: "run_status \<Rightarrow> execution_status" where
  "audit_status_of Completed = Exec_abandoned"
| "audit_status_of Failed = Exec_failed"
| "audit_status_of _ = Exec_interrupted"

text \<open>The guards that decide whether the transition of a non-terminal run is refused.\<close>

definition terminal_refused :: "agent_run \<Rightarrow> run_status \<Rightarrow> pystr option \<Rightarrow> time \<Rightarrow> bool" where
  "terminal_refused run status worker_id now \<longleftrightarrow>
     (if ar_status run = Pending
      then worker_id \<noteq> None \<or> \<not> (status = Failed \<or> status = Cancelled)
      else if leased_status (ar_status run)
      then ar_worker_id run \<noteq> worker_id \<or> \<not> lease_live run now
           \<or> (ar_status run = Cancel_requested \<and> status \<noteq> Cancelled)
           \<or> (ar_status run = Running \<and> status = Cancelled)
      else True)"

definition set_terminal_status ::
  "pystr \<Rightarrow> run_status \<Rightarrow> pystr option \<Rightarrow> pystr option \<Rightarrow> json option \<Rightarrow> pystr option \<Rightarrow> time \<Rightarrow> time
   \<Rightarrow> 'x rdb \<Rightarrow> run_error + 'x rdb \<times> agent_run option \<times> bool" where
  "set_terminal_status run_id status error_type error_message token_usage worker_id now clk db =
     (if \<not> terminal status then Inl (Value_error (msg_bad_terminal @ run_status_str status))
      else
        (case get_run run_id db of
           None \<Rightarrow> Inr (db, None, False)
         | Some run \<Rightarrow>
             if terminal (ar_status run)
             then
               if ar_worker_id run \<noteq> None \<or> ar_heartbeat_at run \<noteq> None \<or> ar_lease_expires_at run \<noteq> None
               then
                 let run' = run\<lparr>ar_worker_id := None, ar_heartbeat_at := None,
                       ar_lease_expires_at := None, ar_updated_at := Some clk\<rparr>
                 in Inr (put_run run' db, Some run', False)
               else Inr (db, Some run, False)
             else if terminal_refused run status worker_id now then Inr (db, Some run, False)
             else if status = Completed
                     \<and> (case ar_output_message_id run of None \<Rightarrow> True
                        | Some mid \<Rightarrow> get_matching_output_message run mid db = None)
             then Inl (Value_error msg_complete_without_output)
             else
               let run' = run\<lparr>ar_status := status, ar_error_type := error_type,
                     ar_error_message := error_message, ar_token_usage := or_obj token_usage,
                     ar_finished_at := Some now, ar_updated_at := Some now, ar_worker_id := None,
                     ar_heartbeat_at := None, ar_lease_expires_at := None,
                     ar_runtime_cleanup_pending := (ar_run_type run \<noteq> Subagent)\<rparr>
               in Inr (finish_open_attempt (ar_id run) worker_id (Out_status status) error_type
                         error_message now
                         (close_running_audits (ar_id run) (audit_status_of status) now
                           (status = Interrupted)
                           (project_input_delivery_status run' (put_run run' db))),
                       Some run', True)))"

definition list_pending_runtime_cleanups :: "nat \<Rightarrow> 'x rdb \<Rightarrow> agent_run list" where
  "list_pending_runtime_cleanups limit db =
     take limit (sort_key (\<lambda>r. (nulls_last (ar_finished_at r), ar_id r)) (filter
       (\<lambda>r. ar_runtime_cleanup_pending r \<and> ar_run_type r \<noteq> Subagent) (db_runs db)))"

section \<open>Write-once facts of the current attempt\<close>

definition record_run_manifest ::
  "pystr \<Rightarrow> json \<Rightarrow> pystr \<Rightarrow> pystr \<Rightarrow> time \<Rightarrow> 'x rdb \<Rightarrow> run_error + 'x rdb \<times> agent_run option \<times> bool" where
  "record_run_manifest run_id manifest fingerprint worker_id now db =
     (if py_strip worker_id = [] then Inl (Value_error msg_worker_id_empty)
      else if py_strip fingerprint = [] then Inl (Value_error msg_fingerprint_empty)
      else
        (case get_run run_id db of
           None \<Rightarrow> Inr (db, None, False)
         | Some run \<Rightarrow>
             (case require_lease_owner run worker_id now act_manifest of
                Inl e \<Rightarrow> Inl e
              | Inr _ \<Rightarrow>
                  if ar_manifest_fingerprint run \<noteq> None then Inr (db, Some run, False)
                  else
                    let run' = run\<lparr>ar_manifest := Some manifest,
                          ar_manifest_fingerprint := Some fingerprint,
                          ar_manifest_recorded_at := Some now, ar_updated_at := Some now\<rparr>
                    in Inr (put_run run' db, Some run', True))))"

definition record_prepared ::
  "pystr \<Rightarrow> pystr \<Rightarrow> time option \<Rightarrow> time \<Rightarrow> 'x rdb \<Rightarrow> run_error + 'x rdb \<times> agent_run option \<times> bool" where
  "record_prepared run_id worker_id observed_at now db =
     (case get_run run_id db of
        None \<Rightarrow> Inr (db, None, False)
      | Some run \<Rightarrow>
          if ar_prepared_at run \<noteq> None then Inr (db, Some run, False)
          else
            (case require_lease_owner run worker_id now act_prepared of
               Inl e \<Rightarrow> Inl e
             | Inr _ \<Rightarrow>
                 let event_time = (case observed_at of None \<Rightarrow> now | Some t \<Rightarrow> t)
                 in if (case ar_started_at run of None \<Rightarrow> True | Some s \<Rightarrow> event_time < s)
                    then Inl (Value_error msg_prepared_early)
                    else
                      let run' = run\<lparr>ar_prepared_at := Some event_time, ar_updated_at := Some now\<rparr>
                      in Inr (put_run run' db, Some run', True)))"

definition record_first_model_request ::
  "pystr \<Rightarrow> pystr \<Rightarrow> time option \<Rightarrow> time \<Rightarrow> 'x rdb \<Rightarrow> run_error + 'x rdb \<times> agent_run option \<times> bool" where
  "record_first_model_request run_id worker_id observed_at now db =
     (case get_run run_id db of
        None \<Rightarrow> Inr (db, None, False)
      | Some run \<Rightarrow>
          if ar_first_model_request_at run \<noteq> None then Inr (db, Some run, False)
          else if \<not> leased_status (ar_status run) \<or> ar_worker_id run \<noteq> Some worker_id
                  \<or> \<not> lease_live run now
          then Inl (Value_error (msg_owner_only @ act_first_request))
          else
            let event_time = (case observed_at of None \<Rightarrow> now | Some t \<Rightarrow> t)
            in if (case ar_created_at run of None \<Rightarrow> False | Some c \<Rightarrow> event_time < c)
               then Inl (Value_error msg_first_request_early)
               else
                 let run' = run\<lparr>ar_first_model_request_at := Some event_time,
                       ar_updated_at := Some now\<rparr>
                 in Inr (put_run run' db, Some run', True))"

definition record_first_output ::
  "pystr \<Rightarrow> pystr \<Rightarrow> time option \<Rightarrow> time \<Rightarrow> 'x rdb \<Rightarrow> run_error + 'x rdb \<times> agent_run option \<times> bool" where
  "record_first_output run_id worker_id observed_at now db =
     (case get_run run_id db of
        None \<Rightarrow> Inr (db, None, False)
      | Some run \<Rightarrow>
          if ar_first_output_at run \<noteq> None then Inr (db, Some run, False)
          else
            (case require_lease_owner run worker_id now act_first_output of
               Inl e \<Rightarrow> Inl e
             | Inr _ \<Rightarrow>
                 let event_time = (case observed_at of None \<Rightarrow> now | Some t \<Rightarrow> t)
                 in if (case ar_prepared_at run of None \<Rightarrow> True | Some s \<Rightarrow> event_time < s)
                    then Inl (Value_error msg_first_output_early)
                    else
                      let run' = run\<lparr>ar_first_output_at := Some event_time, ar_updated_at := Some now\<rparr>
                      in Inr (put_run run' db, Some run', True)))"

end
