(* ===== verification/Run_Invariant.thy ===== *)
theory Run_Invariant
  imports Run_Repository
begin

text \<open>
  The invariant of the agent-run tables and how rows may change. \<open>run_inv\<close> collects what the
  repository keeps between the columns of a run, between a run and its attempts, and the
  constraints of the database; \<open>run_evolves\<close> and \<open>attempt_evolves\<close> say how one row may change
  (\<open>run_lifecycle\<close> is the abstract state machine of the status column). \<open>good_step\<close> combines
  them; this theory proves it for the row-level primitives, \<open>Run_Operations\<close> for the operations.
\<close>

section \<open>The abstract life cycle\<close>

inductive run_lifecycle :: "run_status \<Rightarrow> run_status \<Rightarrow> bool" where
  claim: "run_lifecycle Pending Running"
| retry: "run_lifecycle Running Pending"
| complete: "run_lifecycle Running Completed"
| fail_running: "run_lifecycle Running Failed"
| interrupt: "run_lifecycle Running Interrupted"
| ask_cancel_running: "run_lifecycle Running Cancel_requested"
| ask_cancel_retried: "run_lifecycle Pending Cancel_requested"
| cancel_unstarted: "run_lifecycle Pending Cancelled"
| fail_pending: "run_lifecycle Pending Failed"
| cancel: "run_lifecycle Cancel_requested Cancelled"
| fail_cancelling: "run_lifecycle Cancel_requested Failed"

inductive_cases run_lifecycle_from: "run_lifecycle s t"

lemma terminal_stuck: "terminal s \<Longrightarrow> \<not> run_lifecycle s t"
  by (auto elim: run_lifecycle_from)

lemma lifecycle_terminal: "run_lifecycle\<^sup>*\<^sup>* s t \<Longrightarrow> terminal s \<Longrightarrow> t = s"
  by (induction rule: converse_rtranclp_induct) (auto dest: terminal_stuck)

lemma lifecycle_pending_only_leaves:
  "run_lifecycle s Pending \<Longrightarrow> s = Running"
  by (auto elim: run_lifecycle_from)

section \<open>How rows change\<close>

definition run_identity ::
  "agent_run \<Rightarrow> (pystr \<times> pystr \<times> pystr \<times> pystr \<times> pystr \<times> pystr) \<times> (pystr \<times> pystr \<times> pystr option \<times> json)
   \<times> (int option \<times> pystr option \<times> int option \<times> run_type \<times> int option \<times> json \<times> time option)" where
  "run_identity r =
     ((ar_id r, ar_conversation_thread_id r, ar_runtime_scope_id r, ar_agent_slug r, ar_uid r,
       ar_request_id r),
      (ar_source r, ar_channel r, ar_external_id r, ar_origin_metadata r),
      (ar_conversation_id r, ar_created_by_run_id r, ar_subagent_thread_relation_id r, ar_run_type r,
       ar_input_message_id r, ar_input_payload r, ar_created_at r))"

definition write_once :: "'a option \<Rightarrow> 'a option \<Rightarrow> bool" where
  "write_once x y \<longleftrightarrow> x = None \<or> y = x"

definition terminal_facts ::
  "agent_run \<Rightarrow> run_status \<times> time option \<times> pystr option \<times> pystr option \<times> json \<times> int option \<times> pystr option" where
  "terminal_facts r =
     (ar_status r, ar_finished_at r, ar_error_type r, ar_error_message r, ar_token_usage r,
      ar_output_message_id r, ar_langfuse_trace_id r)"

definition once_facts ::
  "agent_run \<Rightarrow> agent_run \<Rightarrow> bool" where
  "once_facts r r' \<longleftrightarrow>
     write_once (ar_manifest r) (ar_manifest r')
     \<and> write_once (ar_manifest_fingerprint r) (ar_manifest_fingerprint r')
     \<and> write_once (ar_manifest_recorded_at r) (ar_manifest_recorded_at r')
     \<and> write_once (ar_started_at r) (ar_started_at r')
     \<and> write_once (ar_prepared_at r) (ar_prepared_at r')
     \<and> write_once (ar_first_model_request_at r) (ar_first_model_request_at r')
     \<and> write_once (ar_first_output_at r) (ar_first_output_at r')
     \<and> (or_empty (ar_langfuse_trace_id r) = [] \<or> ar_langfuse_trace_id r' = ar_langfuse_trace_id r)"

definition run_evolves :: "agent_run \<Rightarrow> agent_run \<Rightarrow> bool" where
  "run_evolves r r' \<longleftrightarrow>
     run_identity r' = run_identity r
     \<and> run_lifecycle\<^sup>*\<^sup>* (ar_status r) (ar_status r')
     \<and> once_facts r r'
     \<and> (terminal (ar_status r) \<longrightarrow> terminal_facts r' = terminal_facts r)"

definition attempt_identity :: "agent_run_attempt \<Rightarrow> int \<times> pystr \<times> int \<times> pystr \<times> time \<times> time option" where
  "attempt_identity a =
     (at_id a, at_run_id a, at_attempt_no a, at_worker_id a, at_started_at a, at_created_at a)"

definition attempt_evolves :: "agent_run_attempt \<Rightarrow> agent_run_attempt \<Rightarrow> bool" where
  "attempt_evolves a a' \<longleftrightarrow>
     attempt_identity a' = attempt_identity a \<and> (\<not> open_attempt a \<longrightarrow> a' = a)"

lemma write_once_refl [simp]: "write_once x x"
  by (simp add: write_once_def)

lemma once_facts_refl [simp]: "once_facts r r"
  by (simp add: once_facts_def)

lemma write_once_trans: "write_once x y \<Longrightarrow> write_once y z \<Longrightarrow> write_once x z"
  by (auto simp: write_once_def)

lemma once_facts_trans: "once_facts a b \<Longrightarrow> once_facts b c \<Longrightarrow> once_facts a c"
  unfolding once_facts_def
  by (elim conjE, intro conjI) ((erule (1) write_once_trans)+, metis)

lemma run_evolves_refl [simp]: "run_evolves r r"
  by (simp add: run_evolves_def)

lemma run_evolves_trans: "run_evolves a b \<Longrightarrow> run_evolves b c \<Longrightarrow> run_evolves a c"
proof -
  assume ab: "run_evolves a b" and bc: "run_evolves b c"
  have "terminal (ar_status a) \<longrightarrow> ar_status b = ar_status a"
    using ab by (auto simp: run_evolves_def terminal_facts_def)
  with ab bc show ?thesis
    unfolding run_evolves_def by (auto dest: once_facts_trans intro: rtranclp_trans)
qed

lemma attempt_evolves_refl [simp]: "attempt_evolves a a"
  by (simp add: attempt_evolves_def)

lemma attempt_evolves_trans: "attempt_evolves a b \<Longrightarrow> attempt_evolves b c \<Longrightarrow> attempt_evolves a c"
  by (auto simp: attempt_evolves_def)

lemma run_evolves_active: "run_evolves r r' \<Longrightarrow> \<not> terminal (ar_status r') \<Longrightarrow> \<not> terminal (ar_status r)"
  by (auto simp: run_evolves_def terminal_facts_def)

section \<open>The invariant\<close>

definition lease_columns_ok :: "agent_run \<Rightarrow> bool" where
  "lease_columns_ok r \<longleftrightarrow>
     (ar_status r = Running \<longrightarrow> ar_worker_id r \<noteq> None \<and> ar_started_at r \<noteq> None)
     \<and> (ar_worker_id r \<noteq> None \<longrightarrow> leased_status (ar_status r))
     \<and> (ar_worker_id r = None \<longleftrightarrow> ar_lease_expires_at r = None)
     \<and> (ar_worker_id r = None \<longleftrightarrow> ar_heartbeat_at r = None)"

definition timing_ok :: "agent_run \<Rightarrow> bool" where
  "timing_ok r \<longleftrightarrow>
     (case ar_prepared_at r of None \<Rightarrow> True
      | Some p \<Rightarrow> (case ar_started_at r of None \<Rightarrow> False | Some s \<Rightarrow> s \<le> p))
     \<and> (case ar_first_output_at r of None \<Rightarrow> True
      | Some f \<Rightarrow> (case ar_prepared_at r of None \<Rightarrow> False | Some p \<Rightarrow> p \<le> f))"

definition manifest_ok :: "agent_run \<Rightarrow> bool" where
  "manifest_ok r \<longleftrightarrow>
     (ar_manifest_fingerprint r = None \<longleftrightarrow> ar_manifest r = None)
     \<and> (ar_manifest_fingerprint r = None \<longleftrightarrow> ar_manifest_recorded_at r = None)"

definition known_status :: "run_status \<Rightarrow> bool" where
  "known_status s \<longleftrightarrow> terminal s \<or> leased_status s \<or> s = Pending"

definition run_row_ok :: "agent_run \<Rightarrow> bool" where
  "run_row_ok r \<longleftrightarrow>
     known_status (ar_status r) \<and> lease_columns_ok r \<and> timing_ok r \<and> manifest_ok r
     \<and> (terminal (ar_status r) \<longleftrightarrow> ar_finished_at r \<noteq> None) \<and> run_shape_ok r"

definition attempt_row_ok :: "agent_run_attempt \<Rightarrow> bool" where
  "attempt_row_ok a \<longleftrightarrow> (open_attempt a \<longleftrightarrow> at_outcome a = None) \<and> 1 \<le> at_attempt_no a"

definition open_workers :: "pystr \<Rightarrow> agent_run_attempt list \<Rightarrow> pystr list" where
  "open_workers run_id atts =
     map at_worker_id (filter (\<lambda>a. at_run_id a = run_id \<and> open_attempt a) atts)"

definition attempts_table_ok :: "agent_run_attempt list \<Rightarrow> bool" where
  "attempts_table_ok atts \<longleftrightarrow>
     distinct (map at_id atts) \<and> distinct (map (\<lambda>a. (at_run_id a, at_attempt_no a)) atts)
     \<and> list_all attempt_row_ok atts"

definition owner_list :: "agent_run \<Rightarrow> pystr list" where
  "owner_list r = (case ar_worker_id r of None \<Rightarrow> [] | Some w \<Rightarrow> [w])"

definition run_inv :: "'x rdb \<Rightarrow> bool" where
  "run_inv db \<longleftrightarrow>
     distinct (map ar_id (db_runs db)) \<and> distinct (map ar_request_id (db_runs db))
     \<and> one_active_per_thread (db_runs db) \<and> list_all run_row_ok (db_runs db)
     \<and> attempts_table_ok (db_attempts db)
     \<and> list_all (\<lambda>a. at_run_id a \<in> set (map ar_id (db_runs db))) (db_attempts db)
     \<and> list_all (\<lambda>r. open_workers (ar_id r) (db_attempts db) = owner_list r) (db_runs db)"

definition good_step :: "'x rdb \<Rightarrow> 'x rdb \<Rightarrow> bool" where
  "good_step db db' \<longleftrightarrow>
     run_inv db' \<and> evolves run_evolves (db_runs db) (db_runs db')
     \<and> evolves attempt_evolves (db_attempts db) (db_attempts db')"

lemma good_step_refl: "run_inv db \<Longrightarrow> good_step db db"
  by (simp add: good_step_def evolves_refl)

lemma good_step_trans: "good_step a b \<Longrightarrow> good_step b c \<Longrightarrow> good_step a c"
  unfolding good_step_def
  by (blast intro: evolves_trans run_evolves_trans attempt_evolves_trans)

lemma good_step_inv: "good_step a b \<Longrightarrow> run_inv b"
  by (simp add: good_step_def)

lemma good_step_cong:
  "db_runs db' = db_runs db'' \<Longrightarrow> db_attempts db' = db_attempts db'' \<Longrightarrow>
   good_step db db' = good_step db db''"
  by (simp add: good_step_def run_inv_def)

lemma manifest_ok_update [simp]:
  "manifest_ok (r\<lparr>ar_status := v_status\<rparr>) = manifest_ok r"
  "manifest_ok (r\<lparr>ar_worker_id := v_worker_id\<rparr>) = manifest_ok r"
  "manifest_ok (r\<lparr>ar_heartbeat_at := v_heartbeat_at\<rparr>) = manifest_ok r"
  "manifest_ok (r\<lparr>ar_lease_expires_at := v_lease_expires_at\<rparr>) = manifest_ok r"
  "manifest_ok (r\<lparr>ar_started_at := v_started_at\<rparr>) = manifest_ok r"
  "manifest_ok (r\<lparr>ar_updated_at := v_updated_at\<rparr>) = manifest_ok r"
  "manifest_ok (r\<lparr>ar_runtime_cleanup_pending := v_runtime_cleanup_pending\<rparr>) = manifest_ok r"
  "manifest_ok (r\<lparr>ar_langfuse_trace_id := v_langfuse_trace_id\<rparr>) = manifest_ok r"
  "manifest_ok (r\<lparr>ar_output_message_id := v_output_message_id\<rparr>) = manifest_ok r"
  "manifest_ok (r\<lparr>ar_error_type := v_error_type\<rparr>) = manifest_ok r"
  "manifest_ok (r\<lparr>ar_error_message := v_error_message\<rparr>) = manifest_ok r"
  "manifest_ok (r\<lparr>ar_token_usage := v_token_usage\<rparr>) = manifest_ok r"
  "manifest_ok (r\<lparr>ar_finished_at := v_finished_at\<rparr>) = manifest_ok r"
  "manifest_ok (r\<lparr>ar_prepared_at := v_prepared_at\<rparr>) = manifest_ok r"
  "manifest_ok (r\<lparr>ar_first_model_request_at := v_first_model_request_at\<rparr>) = manifest_ok r"
  "manifest_ok (r\<lparr>ar_first_output_at := v_first_output_at\<rparr>) = manifest_ok r"
  by (simp_all add: manifest_ok_def)

section \<open>Reading a run under the invariant\<close>

lemma run_inv_distinct: "run_inv db \<Longrightarrow> distinct (map ar_id (db_runs db))"
  by (simp add: run_inv_def)

lemma get_run_iff:
  "run_inv db \<Longrightarrow> get_run i db = Some r \<longleftrightarrow> r \<in> set (db_runs db) \<and> ar_id r = i"
  unfolding get_run_def by (rule find_key_eq[OF run_inv_distinct])

lemma get_run_id: "get_run i db = Some r \<Longrightarrow> ar_id r = i"
  unfolding get_run_def by (drule find_Some_in) simp

lemma get_run_in: "get_run i db = Some r \<Longrightarrow> r \<in> set (db_runs db)"
  unfolding get_run_def by (drule find_Some_in) simp

lemma get_run_row_ok: "run_inv db \<Longrightarrow> get_run i db = Some r \<Longrightarrow> run_row_ok r"
  by (auto simp: run_inv_def list_all_iff dest: get_run_in)

lemma get_run_owner:
  "run_inv db \<Longrightarrow> get_run i db = Some r \<Longrightarrow> open_workers i (db_attempts db) = owner_list r"
  by (auto simp: run_inv_def list_all_iff dest: get_run_in get_run_id)

lemma run_by_id_unique:
  "run_inv db \<Longrightarrow> r \<in> set (db_runs db) \<Longrightarrow> r' \<in> set (db_runs db) \<Longrightarrow> ar_id r = ar_id r' \<Longrightarrow> r = r'"
  by (metis get_run_iff option.inject)

section \<open>Replacing one run row\<close>

lemma db_runs_put_run:
  "db_runs (put_run r db) = update_where (\<lambda>x. ar_id x = ar_id r) (\<lambda>_. r) (db_runs db)"
  by (simp add: put_run_def)

lemma db_attempts_put_run [simp]: "db_attempts (put_run r db) = db_attempts db"
  by (simp add: put_run_def)

lemma put_run_evolves:
  assumes "run_inv db" and "get_run i db = Some run" and "run_evolves run r'"
  shows "evolves run_evolves (db_runs db) (db_runs (put_run r' db))"
proof -
  have id: "ar_id r' = ar_id run" using assms(3) by (simp add: run_evolves_def run_identity_def)
  have "run_evolves r r'" if "r \<in> set (db_runs db)" "ar_id r = ar_id r'" for r
    using run_by_id_unique[OF assms(1) that(1) get_run_in[OF assms(2)]] that(2) id assms(3) by simp
  then show ?thesis unfolding db_runs_put_run by (intro evolves_update_where) auto
qed

lemma put_run_one_active:
  assumes "run_inv db" and "get_run i db = Some run" and "run_evolves run r'"
  shows "one_active_per_thread (db_runs (put_run r' db))"
proof -
  have id: "ar_id r' = ar_id run" and key: "active_key r' = active_key run"
    using assms(3) by (auto simp: run_evolves_def run_identity_def active_key_def)
  have same: "r = run" if "r \<in> set (db_runs db)" "ar_id r = ar_id r'" for r
    using run_by_id_unique[OF assms(1) that(1) get_run_in[OF assms(2)]] that(2) id by simp
  show ?thesis
    unfolding one_active_per_thread_def db_runs_put_run update_where_def
    by (rule partial_key_shrink)
       (use assms(1) same key run_evolves_active[OF assms(3)] in
         \<open>auto simp: run_inv_def one_active_per_thread_def split: if_splits\<close>)
qed

text \<open>
  What an operation on the run \<open>i\<close> does to the attempts: history is kept, other runs are not
  touched, and the open attempts of \<open>i\<close> become exactly \<open>ws\<close>.
\<close>

definition attempts_step ::
  "pystr \<Rightarrow> pystr list \<Rightarrow> agent_run_attempt list \<Rightarrow> agent_run_attempt list \<Rightarrow> bool" where
  "attempts_step i ws atts atts' \<longleftrightarrow>
     attempts_table_ok atts' \<and> evolves attempt_evolves atts atts'
     \<and> open_workers i atts' = ws \<and> (\<forall>j. j \<noteq> i \<longrightarrow> open_workers j atts' = open_workers j atts)
     \<and> set (map at_run_id atts') \<subseteq> insert i (set (map at_run_id atts))"

lemma good_step_single:
  assumes inv: "run_inv db" and run: "get_run i db = Some run"
    and evo: "run_evolves run r'" and row: "run_row_ok r'"
    and runs: "db_runs db' = db_runs (put_run r' db)"
    and atts: "attempts_step i (owner_list r') (db_attempts db) (db_attempts db')"
  shows "good_step db db'"
proof -
  have id: "ar_id r' = i" and rq: "ar_request_id r' = ar_request_id run"
    using evo get_run_id[OF run] by (auto simp: run_evolves_def run_identity_def)
  have same: "r = run" if "r \<in> set (db_runs db)" "ar_id r = i" for r
    using run_by_id_unique[OF inv that(1) get_run_in[OF run]] that(2) get_run_id[OF run] by simp
  have ids: "map ar_id (db_runs db') = map ar_id (db_runs db)" by (simp add: runs)
  have "map ar_request_id (db_runs db') = map ar_request_id (db_runs db)"
    unfolding runs db_runs_put_run update_where_def using same id rq by auto
  moreover have "list_all run_row_ok (db_runs db')"
    using inv row by (auto simp: runs db_runs_put_run set_update_where list_all_iff run_inv_def)
  moreover have "list_all (\<lambda>r. open_workers (ar_id r) (db_attempts db') = owner_list r) (db_runs db')"
    using inv atts id
    by (auto simp: runs db_runs_put_run set_update_where list_all_iff run_inv_def attempts_step_def)
  moreover have "set (map at_run_id (db_attempts db')) \<subseteq> set (map ar_id (db_runs db'))"
  proof -
    have "i \<in> set (map ar_id (db_runs db))" using get_run_in[OF run] get_run_id[OF run] by auto
    moreover have "set (map at_run_id (db_attempts db)) \<subseteq> set (map ar_id (db_runs db))"
      using inv by (auto simp: list_all_iff run_inv_def)
    ultimately show ?thesis using atts unfolding ids attempts_step_def by blast
  qed
  then have "list_all (\<lambda>a. at_run_id a \<in> set (map ar_id (db_runs db'))) (db_attempts db')"
    by (auto simp: list_all_iff)
  ultimately have "run_inv db'"
    using inv atts put_run_one_active[OF inv run evo]
    unfolding run_inv_def ids by (simp add: runs attempts_step_def)
  then show ?thesis
    using put_run_evolves[OF inv run evo] atts by (simp add: good_step_def runs attempts_step_def)
qed

end
