(* ===== verification/Run_Operations.thy ===== *)
theory Run_Operations
  imports Run_Invariant
begin

text \<open>
  Every operation of the run repository is a \<open>good_step\<close>: it keeps \<open>run_inv\<close>, moves each run only
  along \<open>run_lifecycle\<close>, never rewrites write-once or terminal facts, and never rewrites a closed
  attempt. \<open>run_step\<close> is the step relation of the component, one rule per operation.
\<close>

section \<open>Attempt tables\<close>

lemma attempts_step_trans:
  assumes ab: "attempts_step i ws a b" and bc: "attempts_step i ws' b c"
  shows "attempts_step i ws' a c"
proof -
  have "evolves attempt_evolves a c"
    using ab bc unfolding attempts_step_def by (blast intro: evolves_trans attempt_evolves_trans)
  moreover have "set (map at_run_id c) \<subseteq> insert i (set (map at_run_id a))"
    using ab bc unfolding attempts_step_def by blast
  ultimately show ?thesis using ab bc by (simp add: attempts_step_def)
qed

lemma attempts_step_same:
  "attempts_table_ok atts \<Longrightarrow> open_workers i atts = ws \<Longrightarrow> attempts_step i ws atts atts"
  by (auto simp: attempts_step_def evolves_refl)

lemma close_attempt_simps [simp]:
  "at_id (close_attempt out et em now a) = at_id a"
  "at_run_id (close_attempt out et em now a) = at_run_id a"
  "at_attempt_no (close_attempt out et em now a) = at_attempt_no a"
  "at_worker_id (close_attempt out et em now a) = at_worker_id a"
  "at_outcome (close_attempt out et em now a) = Some out"
  "at_finished_at (close_attempt out et em now a) = Some now"
  "attempt_identity (close_attempt out et em now a) = attempt_identity a"
  by (simp_all add: close_attempt_def attempt_identity_def)

lemma open_workers_close_other:
  "j \<noteq> i \<Longrightarrow> open_workers j (update_where (\<lambda>a. at_run_id a = i \<and> open_attempt a)
     (close_attempt out et em now) atts) = open_workers j atts"
  by (induction atts) (auto simp: open_workers_def)

lemma open_workers_close_same:
  "open_workers i (update_where (\<lambda>a. at_run_id a = i \<and> open_attempt a)
     (close_attempt out et em now) atts) = []"
  by (induction atts) (auto simp: open_workers_def open_attempt_def)

lemma attempts_table_update:
  assumes "attempts_table_ok atts"
    and "\<And>a. P a \<Longrightarrow> attempt_identity (f a) = attempt_identity a"
    and "\<And>a. a \<in> set atts \<Longrightarrow> P a \<Longrightarrow> attempt_row_ok (f a)"
  shows "attempts_table_ok (update_where P f atts)"
proof -
  have "map at_id (update_where P f atts) = map at_id atts"
    using assms(2) by (intro map_update_where) (auto simp: attempt_identity_def)
  moreover have "map (\<lambda>a. (at_run_id a, at_attempt_no a)) (update_where P f atts)
      = map (\<lambda>a. (at_run_id a, at_attempt_no a)) atts"
    using assms(2) by (intro map_update_where) (auto simp: attempt_identity_def)
  moreover have "list_all attempt_row_ok (update_where P f atts)"
    using assms(1,3) by (auto simp: attempts_table_ok_def list_all_iff set_update_where)
  ultimately show ?thesis using assms(1) by (simp add: attempts_table_ok_def)
qed

lemma attempts_step_close:
  assumes "attempts_table_ok atts"
  shows "attempts_step i [] atts (update_where (\<lambda>a. at_run_id a = i \<and> open_attempt a)
    (close_attempt out et em now) atts)"
proof -
  have "attempts_table_ok (update_where (\<lambda>a. at_run_id a = i \<and> open_attempt a)
    (close_attempt out et em now) atts)"
    using assms
    by (intro attempts_table_update)
       (auto simp: attempt_row_ok_def open_attempt_def attempts_table_ok_def list_all_iff)
  moreover have "evolves attempt_evolves atts (update_where (\<lambda>a. at_run_id a = i \<and> open_attempt a)
    (close_attempt out et em now) atts)"
    by (intro evolves_update_where) (auto simp: attempt_evolves_def)
  ultimately show ?thesis
    by (auto simp: attempts_step_def open_workers_close_other open_workers_close_same set_update_where)
qed

lemma get_open_attempt_single:
  assumes "filter (\<lambda>a. at_run_id a = i \<and> open_attempt a) (db_attempts db) = [a]"
    and "w = None \<or> w = Some (at_worker_id a)"
  shows "get_open_attempt i w db = Some a"
proof -
  have "filter (\<lambda>a. at_run_id a = i \<and> open_attempt a
      \<and> (case w of None \<Rightarrow> True | Some w \<Rightarrow> at_worker_id a = w)) (db_attempts db)
    = filter (\<lambda>a. case w of None \<Rightarrow> True | Some w \<Rightarrow> at_worker_id a = w) [a]"
    unfolding assms(1)[symmetric] filter_filter by (rule filter_cong) auto
  then show ?thesis using assms(2) by (auto simp: get_open_attempt_def first_row_def)
qed

lemma get_open_attempt_none:
  assumes "open_workers i (db_attempts db) = []"
  shows "get_open_attempt i w db = None"
proof -
  have "filter (\<lambda>a. at_run_id a = i \<and> open_attempt a
      \<and> (case w of None \<Rightarrow> True | Some w \<Rightarrow> at_worker_id a = w)) (db_attempts db) = []"
    using assms by (auto simp: open_workers_def filter_empty_conv)
  then show ?thesis by (simp add: get_open_attempt_def)
qed

lemma open_workers_single:
  assumes "open_workers i atts = [w]"
  obtains a where "filter (\<lambda>a. at_run_id a = i \<and> open_attempt a) atts = [a]" "at_worker_id a = w"
  using assms by (auto simp: open_workers_def map_eq_Cons_conv)

lemma only_open_attempt:
  assumes "distinct (map at_id atts)"
    and "filter (\<lambda>a. at_run_id a = i \<and> open_attempt a) atts = [a]" and "x \<in> set atts"
  shows "at_id x = at_id a \<longleftrightarrow> at_run_id x = i \<and> open_attempt x"
proof -
  have "set (filter (\<lambda>a. at_run_id a = i \<and> open_attempt a) atts) = {a}" using assms(2) by simp
  then have only: "{x \<in> set atts. at_run_id x = i \<and> open_attempt x} = {a}" by simp
  then have "at_id x = at_id a \<longleftrightarrow> x = a"
    using assms(1,3) by (auto simp: distinct_map dest: inj_onD)
  with only assms(3) show ?thesis by blast
qed

lemma update_where_cong:
  "(\<And>r. r \<in> set xs \<Longrightarrow> P r = Q r) \<Longrightarrow> update_where P f xs = update_where Q f xs"
  by (induction xs) auto

lemma attempts_step_finish:
  assumes ok: "attempts_table_ok (db_attempts db)" and w: "open_workers i (db_attempts db) = [w]"
    and wid: "wid = None \<or> wid = Some w"
  shows "attempts_step i [] (db_attempts db) (db_attempts (finish_open_attempt i wid out et em now db))"
proof -
  obtain a where a: "filter (\<lambda>a. at_run_id a = i \<and> open_attempt a) (db_attempts db) = [a]"
    "at_worker_id a = w" using w by (rule open_workers_single)
  have "get_open_attempt i wid db = Some a"
    using a(1) by (rule get_open_attempt_single) (use wid a(2) in simp)
  moreover have "update_where (\<lambda>x. at_id x = at_id a) (close_attempt out et em now) (db_attempts db)
    = update_where (\<lambda>x. at_run_id x = i \<and> open_attempt x) (close_attempt out et em now) (db_attempts db)"
    by (rule update_where_cong) (use ok a(1) only_open_attempt in \<open>auto simp: attempts_table_ok_def\<close>)
  ultimately show ?thesis
    using attempts_step_close[OF ok] by (simp add: finish_open_attempt_def)
qed

lemma attempts_step_finish_none:
  "attempts_table_ok (db_attempts db) \<Longrightarrow> open_workers i (db_attempts db) = [] \<Longrightarrow>
   attempts_step i [] (db_attempts db) (db_attempts (finish_open_attempt i wid out et em now db))"
  by (simp add: finish_open_attempt_def get_open_attempt_none attempts_step_same)

lemma open_workers_update_keep:
  assumes "\<And>a. at_run_id (f a) = at_run_id a \<and> at_worker_id (f a) = at_worker_id a
    \<and> at_finished_at (f a) = at_finished_at a"
  shows "open_workers i (update_where P f atts) = open_workers i atts"
  using assms by (induction atts) (auto simp: open_workers_def open_attempt_def)

lemma attempts_step_heartbeat:
  assumes ok: "attempts_table_ok (db_attempts db)" and w: "open_workers i (db_attempts db) = [w]"
  shows "attempts_step i [w] (db_attempts db) (db_attempts (heartbeat_attempt i w now lease db))"
proof -
  let ?f = "\<lambda>x. x\<lparr>at_heartbeat_at := Some now, at_lease_expires_at := lease, at_updated_at := Some now\<rparr>"
  obtain a where a: "filter (\<lambda>a. at_run_id a = i \<and> open_attempt a) (db_attempts db) = [a]"
    "at_worker_id a = w" using w by (rule open_workers_single)
  note only = only_open_attempt[OF _ a(1)]
  have get: "get_open_attempt i (Some w) db = Some a"
    using a(1) by (rule get_open_attempt_single) (use a(2) in simp)
  have "attempts_table_ok (update_where (\<lambda>x. at_id x = at_id a) ?f (db_attempts db))"
    using ok by (intro attempts_table_update)
       (auto simp: attempt_identity_def attempt_row_ok_def open_attempt_def attempts_table_ok_def list_all_iff)
  moreover have "evolves attempt_evolves (db_attempts db)
      (update_where (\<lambda>x. at_id x = at_id a) ?f (db_attempts db))"
    using ok only by (intro evolves_update_where)
       (auto simp: attempt_evolves_def attempt_identity_def attempts_table_ok_def)
  ultimately show ?thesis
    using w by (auto simp: attempts_step_def heartbeat_attempt_def get open_workers_update_keep set_update_where)
qed

lemma attempts_step_add:
  assumes ok: "attempts_table_ok (db_attempts db)" and none: "open_workers (ar_id run) (db_attempts db) = []"
  shows "attempts_step (ar_id run) [w] (db_attempts db) (db_attempts (add_attempt run w now clk db))"
proof -
  define a where "a = last (db_attempts (add_attempt run w now clk db))"
  have atts: "db_attempts (add_attempt run w now clk db) = db_attempts db @ [a]"
    by (simp add: a_def add_attempt_def Let_def)
  have fields: "at_id a = max_int (map at_id (db_attempts db)) + 1" "at_run_id a = ar_id run"
    "at_attempt_no a = max_int (map at_attempt_no (filter (\<lambda>a. at_run_id a = ar_id run) (db_attempts db))) + 1"
    "at_worker_id a = w" "open_attempt a" "at_outcome a = None"
    by (simp_all add: a_def add_attempt_def Let_def open_attempt_def)
  have "at_id a \<notin> set (map at_id (db_attempts db))"
    using max_int_ge[of "at_id a" "map at_id (db_attempts db)"] by (auto simp: fields(1))
  moreover have "(at_run_id a, at_attempt_no a) \<notin> (\<lambda>a. (at_run_id a, at_attempt_no a)) ` set (db_attempts db)"
  proof
    assume "(at_run_id a, at_attempt_no a) \<in> (\<lambda>a. (at_run_id a, at_attempt_no a)) ` set (db_attempts db)"
    then have "at_attempt_no a \<in> set (map at_attempt_no (filter (\<lambda>a. at_run_id a = ar_id run) (db_attempts db)))"
      by (auto simp: fields(2))
    from max_int_ge[OF this] show False by (simp add: fields(3))
  qed
  ultimately have "attempts_table_ok (db_attempts db @ [a])"
    using ok max_int_nonneg by (auto simp: attempts_table_ok_def attempt_row_ok_def fields)
  moreover have "open_workers j (db_attempts db @ [a])
      = (if j = ar_id run then [w] else open_workers j (db_attempts db))" for j
    using none by (auto simp: open_workers_def fields)
  ultimately show ?thesis by (auto simp: attempts_step_def atts evolves_append fields)
qed

section \<open>Tables the helper operations leave alone\<close>

lemma runs_attempts_simps [simp]:
  "db_runs (close_running_audits i es now p db) = db_runs db"
  "db_attempts (close_running_audits i es now p db) = db_attempts db"
  "db_attempts (project_input_delivery_status r db) = db_attempts db"
  "db_runs (finish_open_attempt i w out et em now db) = db_runs db"
  "db_runs (heartbeat_attempt i w' now l db) = db_runs db"
  "db_runs (add_attempt r w' now clk db) = db_runs db"
  by (simp_all add: close_running_audits_def project_input_delivery_status_def
      finish_open_attempt_def heartbeat_attempt_def add_attempt_def Let_def split: option.split)

lemma attempts_close_open [simp]:
  "db_attempts (close_open_attempts i out et em now db)
   = update_where (\<lambda>a. at_run_id a = i \<and> open_attempt a) (close_attempt out et em now) (db_attempts db)"
  by (simp add: close_open_attempts_def)

lemma run_inv_attempts: "run_inv db \<Longrightarrow> attempts_table_ok (db_attempts db)"
  by (simp add: run_inv_def)

lemmas row_defs = run_row_ok_def known_status_def lease_columns_ok_def timing_ok_def run_shape_ok_def

lemmas evolve_defs = run_evolves_def run_identity_def once_facts_def terminal_facts_def write_once_def

lemmas lifecycle_steps [simp] = run_lifecycle.intros [THEN r_into_rtranclp [of run_lifecycle]]

section \<open>Single-run operations\<close>

lemma good_step_put_run:
  assumes "run_inv db" "get_run i db = Some run" "run_evolves run r'" "run_row_ok r'"
    and "ar_worker_id r' = ar_worker_id run"
  shows "good_step db (put_run r' db)"
proof (rule good_step_single[OF assms(1-4) refl])
  have "open_workers i (db_attempts db) = owner_list r'"
    using get_run_owner[OF assms(1,2)] assms(5) by (simp add: owner_list_def)
  then show "attempts_step i (owner_list r') (db_attempts db) (db_attempts (put_run r' db))"
    using run_inv_attempts[OF assms(1)] by (simp add: attempts_step_same)
qed

lemma mark_running_good:
  assumes inv: "run_inv db"
    and op: "mark_running i w ls now clk db = Inr (db', res)"
  shows "good_step db db'"
proof (cases "get_run i db")
  case None
  with inv op show ?thesis by (auto simp: mark_running_def good_step_refl split: if_splits)
next
  case (Some run)
  note row = get_run_row_ok[OF inv Some] and own = get_run_owner[OF inv Some]
  define run' where "run' = run\<lparr>
      ar_status := (if ar_status run = Pending then Running else ar_status run),
      ar_worker_id := Some w, ar_heartbeat_at := Some now,
      ar_lease_expires_at := Some (now + timedelta_seconds ls),
      ar_started_at := (case ar_started_at run of None \<Rightarrow> Some now | Some t \<Rightarrow> Some t),
      ar_updated_at := Some now\<rparr>"
  show ?thesis
  proof (cases "terminal (ar_status run) \<or> ar_runtime_cleanup_pending run
      \<or> \<not> initial_claim run \<and> \<not> same_live_owner run w now")
    case True
    with inv op Some show ?thesis
      by (auto simp: mark_running_def good_step_refl Let_def split: if_splits)
  next
    case False
    then have db': "db' = (if initial_claim run
        then add_attempt run' w now clk (close_open_attempts i Out_lease_expired
               (Some (lit ''worker_lease_expired'')) (Some msg_takeover) now (put_run run' db))
        else heartbeat_attempt i w now (ar_lease_expires_at run') (put_run run' db))"
      using op Some by (auto simp: mark_running_def run'_def Let_def split: if_splits)
    have act: "\<not> terminal (ar_status run)"
      and cl: "initial_claim run \<or> same_live_owner run w now" using False by auto
    have evo: "run_evolves run run'"
      using act by (auto simp: run'_def evolve_defs split: option.split)
    have row': "run_row_ok run'"
      using row act cl unfolding row_defs run'_def initial_claim_def same_live_owner_def
      by (auto split: option.splits)
    have id: "ar_id run' = i" using get_run_id[OF Some] by (simp add: run'_def)
    have ow: "owner_list run' = [w]" by (simp add: owner_list_def run'_def)
    note ok = run_inv_attempts[OF inv]
    have "attempts_step i (owner_list run') (db_attempts db) (db_attempts db')"
    proof (cases "initial_claim run")
      case True
      let ?c = "close_open_attempts i Out_lease_expired (Some (lit ''worker_lease_expired''))
        (Some msg_takeover) now (put_run run' db)"
      have c: "attempts_step i [] (db_attempts db) (db_attempts ?c)"
        using attempts_step_close[OF ok] by simp
      then have "attempts_step (ar_id run') [w] (db_attempts ?c) (db_attempts (add_attempt run' w now clk ?c))"
        by (intro attempts_step_add) (auto simp: attempts_step_def id)
      then have "attempts_step i [w] (db_attempts db) (db_attempts (add_attempt run' w now clk ?c))"
        using attempts_step_trans[OF c] by (simp add: id)
      with True show ?thesis by (simp only: db' ow if_True)
    next
      case False
      then have "ar_worker_id run = Some w" using cl by (simp add: same_live_owner_def)
      then have "open_workers i (db_attempts (put_run run' db)) = [w]" using own by (simp add: owner_list_def)
      then have "attempts_step i [w] (db_attempts (put_run run' db)) (db_attempts db')"
        using attempts_step_heartbeat[of "put_run run' db" i w] ok False by (simp add: db')
      then show ?thesis by (simp add: ow)
    qed
    then show ?thesis
      by (rule good_step_single[OF inv Some evo row', rotated]) (simp add: db')
  qed
qed

lemma renew_lease_good:
  assumes inv: "run_inv db" and op: "renew_lease i w ls now db = Inr (db', res)"
  shows "good_step db db'"
proof (cases "res")
  case False
  then have "db' = db" using op by (auto simp: renew_lease_def Let_def split: if_splits option.splits)
  then show ?thesis using inv by (simp add: good_step_refl)
next
  case True
  then obtain run where run: "get_run i db = Some run" and g: "leased_status (ar_status run)"
      "ar_worker_id run = Some w"
    using op by (auto simp: renew_lease_def Let_def split: if_splits option.splits)
  define run' where "run' = run\<lparr>ar_heartbeat_at := Some now,
      ar_lease_expires_at := Some (now + timedelta_seconds ls), ar_updated_at := Some now\<rparr>"
  have db': "db' = heartbeat_attempt i w now (ar_lease_expires_at run') (put_run run' db)"
    using op run True by (auto simp: renew_lease_def run'_def Let_def split: if_splits)
  have evo: "run_evolves run run'" by (auto simp: run'_def evolve_defs)
  have row': "run_row_ok run'"
    using get_run_row_ok[OF inv run] g unfolding row_defs run'_def by (auto split: option.splits)
  have "open_workers i (db_attempts (put_run run' db)) = [w]"
    using get_run_owner[OF inv run] g by (simp add: owner_list_def)
  then have "attempts_step i [w] (db_attempts (put_run run' db)) (db_attempts db')"
    using attempts_step_heartbeat[of "put_run run' db" i w] run_inv_attempts[OF inv] by (simp add: db')
  then have "attempts_step i (owner_list run') (db_attempts db) (db_attempts db')"
    using g by (simp add: owner_list_def run'_def)
  then show ?thesis by (rule good_step_single[OF inv run evo row', rotated]) (simp add: db')
qed

lemma release_lease_for_retry_good:
  assumes inv: "run_inv db" and op: "release_lease_for_retry i w now db = (db', res)"
  shows "good_step db db'"
proof (cases "res")
  case False
  then have "db' = db" using op by (auto simp: release_lease_for_retry_def Let_def split: if_splits option.splits)
  then show ?thesis using inv by (simp add: good_step_refl)
next
  case True
  then obtain run where run: "get_run i db = Some run" and g: "ar_status run = Running"
      "ar_worker_id run = Some w"
    using op by (auto simp: release_lease_for_retry_def Let_def split: if_splits option.splits)
  define run' where "run' = run\<lparr>ar_status := Pending, ar_worker_id := None, ar_heartbeat_at := None,
      ar_lease_expires_at := None, ar_runtime_cleanup_pending := (ar_run_type run \<noteq> Subagent),
      ar_updated_at := Some now\<rparr>"
  have db': "db' = finish_open_attempt i (Some w) Out_retry_released None None now (put_run run' db)"
    using op run True by (auto simp: release_lease_for_retry_def run'_def Let_def split: if_splits)
  have evo: "run_evolves run run'" using g by (auto simp: run'_def evolve_defs)
  have row': "run_row_ok run'"
    using get_run_row_ok[OF inv run] g unfolding row_defs run'_def by (auto split: option.splits)
  have "open_workers i (db_attempts (put_run run' db)) = [w]"
    using get_run_owner[OF inv run] g by (simp add: owner_list_def)
  then have "attempts_step i [] (db_attempts (put_run run' db)) (db_attempts db')"
    using attempts_step_finish[of "put_run run' db" i w "Some w"] run_inv_attempts[OF inv] by (simp add: db')
  then have "attempts_step i (owner_list run') (db_attempts db) (db_attempts db')"
    by (simp add: owner_list_def run'_def)
  then show ?thesis by (rule good_step_single[OF inv run evo row', rotated]) (simp add: db')
qed

lemma require_lease_ownerD:
  "require_lease_owner run w now act = Inr u \<Longrightarrow>
   ar_status run = Running \<and> ar_worker_id run = Some w \<and> lease_live run now"
  by (simp add: require_lease_owner_def split: if_splits)

lemma set_langfuse_trace_id_good:
  assumes inv: "run_inv db" and op: "set_langfuse_trace_id i tr w now db = Inr (db', res)"
  shows "good_step db db'"
proof (cases "get_run i db")
  case None
  with inv op show ?thesis by (auto simp: set_langfuse_trace_id_def Let_def good_step_refl split: if_splits)
next
  case (Some run)
  then obtain u where own: "require_lease_owner run w now act_trace = Inr u"
    and tr: "or_empty (ar_langfuse_trace_id run) = [] \<or> ar_langfuse_trace_id run = Some (py_strip tr)"
    and db': "db' = put_run (run\<lparr>ar_langfuse_trace_id := Some (py_strip tr), ar_updated_at := Some now\<rparr>) db"
    using op by (auto simp: set_langfuse_trace_id_def Let_def split: if_splits sum.splits)
  show ?thesis unfolding db'
    by (rule good_step_put_run[OF inv Some])
       (use get_run_row_ok[OF inv Some] require_lease_ownerD[OF own] tr in
         \<open>auto simp: evolve_defs row_defs split: option.splits\<close>)
qed

lemma set_output_message_good:
  assumes inv: "run_inv db" and op: "set_output_message i mid w now db = Inr (db', res)"
  shows "good_step db db'"
proof (cases "get_run i db")
  case None
  with inv op show ?thesis by (auto simp: set_output_message_def good_step_refl split: if_splits)
next
  case (Some run)
  then obtain u where own: "require_lease_owner run w now act_output = Inr u"
    and db': "db' = put_run (run\<lparr>ar_output_message_id := Some mid, ar_updated_at := Some now\<rparr>) db"
    using op by (auto simp: set_output_message_def Let_def split: if_splits sum.splits)
  show ?thesis unfolding db'
    by (rule good_step_put_run[OF inv Some])
       (use get_run_row_ok[OF inv Some] require_lease_ownerD[OF own] in
         \<open>auto simp: evolve_defs row_defs split: option.splits\<close>)
qed

lemma known_active:
  "run_row_ok r \<Longrightarrow> \<not> terminal (ar_status r) \<Longrightarrow>
   ar_status r = Pending \<or> ar_status r = Running \<or> ar_status r = Cancel_requested"
  by (cases "ar_status r") (auto simp: run_row_ok_def known_status_def)

lemma lifecycle_to_failed:
  "run_row_ok r \<Longrightarrow> \<not> terminal (ar_status r) \<Longrightarrow> run_lifecycle\<^sup>*\<^sup>* (ar_status r) Failed"
  by (drule (1) known_active) auto

lemma lifecycle_to_cancel_requested:
  "run_row_ok r \<Longrightarrow> \<not> terminal (ar_status r) \<Longrightarrow> run_lifecycle\<^sup>*\<^sup>* (ar_status r) Cancel_requested"
  by (drule (1) known_active) auto

text \<open>Ending a run: terminal status, no owner, its open attempt closed.\<close>

lemma good_step_end_run:
  assumes inv: "run_inv db" and run: "get_run i db = Some run" and act: "\<not> terminal (ar_status run)"
    and life: "run_lifecycle\<^sup>*\<^sup>* (ar_status run) (ar_status r')"
    and keep: "run_identity r' = run_identity run" "once_facts run r'"
      "ar_started_at r' = ar_started_at run" "ar_prepared_at r' = ar_prepared_at run"
      "ar_first_output_at r' = ar_first_output_at run" "ar_manifest r' = ar_manifest run"
      "ar_manifest_fingerprint r' = ar_manifest_fingerprint run"
      "ar_manifest_recorded_at r' = ar_manifest_recorded_at run"
    and fin: "terminal (ar_status r')" "ar_finished_at r' \<noteq> None" "ar_worker_id r' = None"
      "ar_heartbeat_at r' = None" "ar_lease_expires_at r' = None"
    and runs: "db_runs db' = db_runs (put_run r' db)"
    and atts: "attempts_step i [] (db_attempts db) (db_attempts db')"
  shows "good_step db db'"
proof (rule good_step_single[OF inv run _ _ runs])
  show "run_evolves run r'" using act life keep by (simp add: run_evolves_def)
  have "timing_ok run" using get_run_row_ok[OF inv run] by (simp add: run_row_ok_def)
  then have "timing_ok r'" by (simp only: timing_ok_def keep(3-5))
  moreover have "manifest_ok r'" 
    using get_run_row_ok[OF inv run] unfolding run_row_ok_def manifest_ok_def keep by (elim conjE, intro conjI)
  moreover have "lease_columns_ok r'" using fin by (auto simp: lease_columns_ok_def)
  ultimately show "run_row_ok r'"
    using fin by (simp add: run_row_ok_def known_status_def run_shape_ok_def)
  show "attempts_step i (owner_list r') (db_attempts db) (db_attempts db')"
    using atts fin by (simp add: owner_list_def)
qed

lemma set_terminal_status_good:
  assumes inv: "run_inv db"
    and op: "set_terminal_status i st et em tu w now clk db = Inr (db', res, ok)"
  shows "good_step db db'"
proof (cases "get_run i db")
  case None
  with inv op show ?thesis by (auto simp: set_terminal_status_def good_step_refl split: if_splits)
next
  case (Some run)
  show ?thesis
  proof (cases "terminal (ar_status run)")
    case True
    then have "ar_worker_id run = None"
      using get_run_row_ok[OF inv Some] by (cases "ar_status run") (auto simp: row_defs)
    moreover from this have "ar_heartbeat_at run = None" "ar_lease_expires_at run = None"
      using get_run_row_ok[OF inv Some] by (auto simp: row_defs)
    ultimately show ?thesis
      using op inv Some True by (auto simp: set_terminal_status_def good_step_refl split: if_splits)
  next
    case False
    show ?thesis
    proof (cases "terminal_refused run st w now")
      case True
      with op inv Some False show ?thesis
        by (auto simp: set_terminal_status_def good_step_refl split: if_splits)
    next
      case go: False
      define run' where "run' = run\<lparr>ar_status := st, ar_error_type := et, ar_error_message := em,
          ar_token_usage := or_obj tu, ar_finished_at := Some now, ar_updated_at := Some now,
          ar_worker_id := None, ar_heartbeat_at := None, ar_lease_expires_at := None,
          ar_runtime_cleanup_pending := (ar_run_type run \<noteq> Subagent)\<rparr>"
      let ?mid = "close_running_audits (ar_id run) (audit_status_of st) now (st = Interrupted)
          (project_input_delivery_status run' (put_run run' db))"
      have st: "terminal st" and db': "db' = finish_open_attempt (ar_id run) w (Out_status st) et em now ?mid"
        using op Some False go
        by (auto simp: set_terminal_status_def run'_def Let_def split: if_splits option.splits)
      have id: "ar_id run = i" using Some by (rule get_run_id)
      note act = known_active[OF get_run_row_ok[OF inv Some] False]
      have "run_lifecycle\<^sup>*\<^sup>* (ar_status run) st"
        using act go st by (cases st) (auto simp: terminal_refused_def)
      moreover have "attempts_step i [] (db_attempts ?mid) (db_attempts db')"
      proof (cases "ar_worker_id run")
        case None
        then have "open_workers i (db_attempts ?mid) = []"
          using get_run_owner[OF inv Some] by (simp add: owner_list_def)
        then show ?thesis
          using attempts_step_finish_none[of ?mid i] run_inv_attempts[OF inv] by (simp add: db' id)
      next
        case (Some v)
        then have "open_workers i (db_attempts ?mid) = [v]"
          using get_run_owner[OF inv \<open>get_run i db = Some run\<close>] by (simp add: owner_list_def)
        moreover have "w = None \<or> w = Some v"
          using act go Some get_run_row_ok[OF inv \<open>get_run i db = Some run\<close>]
          by (auto simp: terminal_refused_def row_defs)
        ultimately show ?thesis
          using attempts_step_finish[of ?mid i v w] run_inv_attempts[OF inv] by (simp add: db' id)
      qed
      ultimately show ?thesis
        by (intro good_step_end_run[OF inv Some False, of run'])
           (auto simp: run'_def st db' run_identity_def once_facts_def)
    qed
  qed
qed

lemma request_cancel_locked_good:
  assumes inv: "run_inv db" and run: "get_run i db = Some run"
    and op: "request_cancel_locked run now db = (run', db')"
  shows "good_step db db'"
proof (cases "terminal (ar_status run)")
  case True
  with inv op show ?thesis by (simp add: request_cancel_locked_def good_step_refl)
next
  case act: False
  note row = get_run_row_ok[OF inv run]
  show ?thesis
  proof (cases "never_started run")
    case True
    then have "open_workers i (db_attempts db) = []"
      using get_run_owner[OF inv run] by (simp add: never_started_def owner_list_def)
    then have "attempts_step i [] (db_attempts db) (db_attempts db)"
      using run_inv_attempts[OF inv] by (simp add: attempts_step_same)
    then show ?thesis
      using op act True row
      by (intro good_step_end_run[OF inv run act, of run'])
         (auto simp: request_cancel_locked_def Let_def never_started_def run_identity_def once_facts_def
            row_defs)
  next
    case False
    then have db': "db' = put_run (run\<lparr>ar_status := Cancel_requested, ar_updated_at := Some now\<rparr>) db"
      using op act by (auto simp: request_cancel_locked_def Let_def)
    show ?thesis unfolding db'
      by (rule good_step_put_run[OF inv run])
         (use row act lifecycle_to_cancel_requested[OF row act] in
           \<open>auto simp: evolve_defs row_defs split: option.splits\<close>)
  qed
qed

section \<open>Execution trees\<close>

lemma get_run_put_run_other:
  assumes "ar_id r \<noteq> j"
  shows "get_run j (put_run r db) = get_run j db"
proof -
  have "find (\<lambda>x. ar_id x = j) (update_where (\<lambda>x. ar_id x = ar_id r) (\<lambda>_. r) xs)
    = find (\<lambda>x. ar_id x = j) xs" for xs
    using assms by (induction xs) auto
  then show ?thesis by (simp add: get_run_def db_runs_put_run)
qed

lemma get_run_cong: "db_runs db = db_runs db' \<Longrightarrow> get_run j db = get_run j db'"
  by (simp add: get_run_def)

lemma get_run_put_run_same:
  assumes "get_run i db = Some run" and "ar_id r = i"
  shows "get_run i (put_run r db) = Some r"
proof -
  have "find (\<lambda>x. ar_id x = i) (update_where (\<lambda>x. ar_id x = ar_id r) (\<lambda>_. r) xs) = Some r"
    if "find (\<lambda>x. ar_id x = i) xs = Some run" for xs
    using that assms(2) by (induction xs) (auto split: if_splits)
  then show ?thesis using assms(1) by (simp add: get_run_def db_runs_put_run)
qed

lemma get_run_cancel_child_other:
  assumes "ar_id c \<noteq> j"
  shows "get_run j (cancel_child now c db) = get_run j db"
proof -
  have "get_run j (close_open_attempts i out et em now (project_input_delivery_status r (put_run r db)))
      = get_run j (put_run r db)" for i out et em r
    by (rule get_run_cong) simp
  with assms show ?thesis by (auto simp: cancel_child_def Let_def get_run_put_run_other)
qed

lemma cancel_child_good:
  assumes inv: "run_inv db" and run: "get_run (ar_id c) db = Some c" and act: "\<not> terminal (ar_status c)"
  shows "good_step db (cancel_child now c db)"
proof (cases "never_started c")
  case True
  let ?c = "c\<lparr>ar_error_type := Some (lit ''execution_tree_closed''), ar_error_message := Some msg_tree_closed,
      ar_status := Cancelled, ar_finished_at := Some now, ar_worker_id := None, ar_heartbeat_at := None,
      ar_lease_expires_at := None, ar_updated_at := Some now\<rparr>"
  show ?thesis
    by (rule good_step_end_run[OF inv run act, of ?c])
       (use True attempts_step_close[OF run_inv_attempts[OF inv]] in
         \<open>auto simp: cancel_child_def Let_def never_started_def run_identity_def once_facts_def\<close>)
next
  case False
  note row = get_run_row_ok[OF inv run]
  then have "good_step db (put_run (c\<lparr>ar_error_type := Some (lit ''execution_tree_closed''),
      ar_error_message := Some msg_tree_closed, ar_status := Cancel_requested, ar_updated_at := Some now\<rparr>) db)"
    by (intro good_step_put_run[OF inv run])
       (use row act lifecycle_to_cancel_requested[OF row act] in
         \<open>auto simp: evolve_defs row_defs split: option.splits\<close>)
  then show ?thesis using False by (simp add: cancel_child_def Let_def)
qed

lemma cancel_children_good:
  assumes "cancel_children now cs seen pending cancelled db = (seen', pending', cancelled', db')"
    and "run_inv db" and "distinct (map ar_id cs)"
    and "\<And>c. c \<in> set cs \<Longrightarrow> get_run (ar_id c) db = Some c \<and> \<not> terminal (ar_status c)"
  shows "good_step db db'"
  using assms
proof (induction now cs seen pending cancelled db rule: cancel_children.induct)
  case (1 now seen pending cancelled db)
  then show ?case by (simp add: good_step_refl)
next
  case (2 now c rest seen pending cancelled db)
  show ?case
  proof (cases "ar_id c \<in> set seen")
    case True
    with 2 show ?thesis by simp
  next
    case False
    have good: "good_step db (cancel_child now c db)"
      using 2(4,6) by (intro cancel_child_good) auto
    have "good_step (cancel_child now c db) db'"
    proof (rule 2(2)[OF False])
      show "run_inv (cancel_child now c db)" using good by (rule good_step_inv)
      show "get_run (ar_id d) (cancel_child now c db) = Some d \<and> \<not> terminal (ar_status d)"
        if "d \<in> set rest" for d
      proof -
        have "ar_id c \<noteq> ar_id d" using 2(5) that by auto
        then show ?thesis using 2(6)[of d] that by (simp add: get_run_cancel_child_other)
      qed
    qed (use 2 False in auto)
    with good show ?thesis by (rule good_step_trans)
  qed
qed

lemma active_children_props:
  assumes "run_inv db"
  shows "distinct (map ar_id (active_children uid key sids ps db))"
    and "c \<in> set (active_children uid key sids ps db) \<Longrightarrow>
      get_run (ar_id c) db = Some c \<and> \<not> terminal (ar_status c)"
  using run_inv_distinct[OF assms] get_run_iff[OF assms]
  by (auto simp: active_children_def oldest_first_def distinct_map inj_on_def)

lemma cancel_tree_loop_good:
  "run_inv db \<Longrightarrow> cancel_tree_loop now uid key sids pending seen cancelled db = (res, db') \<Longrightarrow>
   good_step db db'"
proof (induction now uid key sids pending seen cancelled db rule: cancel_tree_loop.induct)
  case (1 now uid key sids pending seen cancelled db)
  show ?case
  proof (cases "pending = []")
    case True
    with 1 show ?thesis by (simp add: cancel_tree_loop.simps good_step_refl)
  next
    case False
    obtain seen' pending' cancelled' db1 where c: "cancel_children now (active_children uid key sids pending db)
      seen [] cancelled db = (seen', pending', cancelled', db1)" by (metis prod_cases4)
    have good: "good_step db db1"
      by (rule cancel_children_good[OF c 1(2)]) (use active_children_props[OF 1(2)] in auto)
    have "good_step db1 db'"
      by (rule 1(1)[OF False c[symmetric] refl refl])
         (use good 1(3) False c in \<open>auto simp: cancel_tree_loop.simps[of _ _ _ _ pending] good_step_inv\<close>)
    with good show ?thesis by (rule good_step_trans)
  qed
qed

lemma cancel_descendants_good:
  "run_inv db \<Longrightarrow> cancel_active_execution_tree_descendants rt now db = (res, db') \<Longrightarrow> good_step db db'"
  by (auto simp: cancel_active_execution_tree_descendants_def Let_def good_step_refl
      intro: cancel_tree_loop_good split: if_splits)

end
