(* ===== verification/Run_Steps.thy ===== *)
theory Run_Steps
  imports Run_Operations
begin

text \<open>
  The remaining operations of the run repository (creation, write-once facts, tree cancellation,
  convergence of lost runs, storage migration) are good steps; \<open>run_step\<close> is the step relation
  of the component with one rule per state-changing operation, and \<open>run\<close> interprets
  \<open>step_system\<close> on it.
\<close>

section \<open>Creation\<close>

lemma create_run_good:
  assumes inv: "run_inv db"
    and op: "create_run i th sc ag uid rq ip src ch ext om cid cb rel rt im clk db = Inr (db', r)"
  shows "good_step db db'"
proof -
  from op have r: "ar_id r = i" "ar_request_id r = rq" "ar_status r = Pending" "ar_worker_id r = None"
      "ar_lease_expires_at r = None" "ar_heartbeat_at r = None" "ar_prepared_at r = None"
      "ar_first_output_at r = None" "ar_finished_at r = None" "ar_manifest r = None" "ar_manifest_fingerprint r = None"
      "ar_manifest_recorded_at r = None"
    and fresh: "i \<notin> set (map ar_id (db_runs db))" "rq \<notin> set (map ar_request_id (db_runs db))"
    and ok: "run_shape_ok r" "one_active_per_thread (db_runs db @ [r])"
    and db': "db' = db\<lparr>db_runs := db_runs db @ [r]\<rparr>"
    by (auto simp: create_run_def Let_def simp del: set_map split: if_splits)
  have row: "run_row_ok r"
    using r ok(1) by (simp add: run_row_ok_def known_status_def lease_columns_ok_def timing_ok_def manifest_ok_def)
  have "open_workers i (db_attempts db) = []"
    using inv fresh(1) by (auto simp: run_inv_def list_all_iff open_workers_def filter_empty_conv)
  then have "run_inv db'"
    using inv fresh ok row r by (auto simp: db' run_inv_def owner_list_def list_all_iff)
  then show ?thesis by (simp add: good_step_def db' evolves_append evolves_refl)
qed

section \<open>Write-once facts\<close>

lemma record_run_manifest_good:
  assumes inv: "run_inv db" and op: "record_run_manifest i m f w now db = Inr (db', res)"
  shows "good_step db db'"
proof (cases "get_run i db")
  case None
  with inv op show ?thesis by (auto simp: record_run_manifest_def good_step_refl split: if_splits)
next
  case (Some run)
  show ?thesis
  proof (cases "ar_manifest_fingerprint run")
    case None
    then obtain u where own: "require_lease_owner run w now act_manifest = Inr u"
      and db': "db' = put_run (run\<lparr>ar_manifest := Some m, ar_manifest_fingerprint := Some f,
        ar_manifest_recorded_at := Some now, ar_updated_at := Some now\<rparr>) db"
      using op Some by (auto simp: record_run_manifest_def Let_def split: if_splits sum.splits)
    show ?thesis unfolding db'
      by (rule good_step_put_run[OF inv Some])
         (use get_run_row_ok[OF inv Some] require_lease_ownerD[OF own] None in
           \<open>auto simp: evolve_defs row_defs manifest_ok_def split: option.splits\<close>)
  next
    case (Some f')
    with inv op \<open>get_run i db = Some run\<close> show ?thesis
      by (auto simp: record_run_manifest_def good_step_refl split: if_splits sum.splits)
  qed
qed

lemma record_prepared_good:
  assumes inv: "run_inv db" and op: "record_prepared i w obs now db = Inr (db', res)"
  shows "good_step db db'"
proof (cases "db' = db")
  case True
  with inv show ?thesis by (simp add: good_step_refl)
next
  case False
  with op obtain run u e s where run: "get_run i db = Some run" "ar_prepared_at run = None"
      "ar_started_at run = Some s" "s \<le> e"
    and own: "require_lease_owner run w now act_prepared = Inr u"
    and db': "db' = put_run (run\<lparr>ar_prepared_at := Some e, ar_updated_at := Some now\<rparr>) db"
    by (auto simp: record_prepared_def Let_def not_less split: if_splits sum.splits option.splits)
  show ?thesis unfolding db'
    by (rule good_step_put_run[OF inv run(1)])
       (use get_run_row_ok[OF inv run(1)] require_lease_ownerD[OF own] run in
         \<open>auto simp: evolve_defs row_defs split: option.splits\<close>)
qed

lemma record_first_model_request_good:
  assumes inv: "run_inv db" and op: "record_first_model_request i w obs now db = Inr (db', res)"
  shows "good_step db db'"
proof (cases "db' = db")
  case True
  with inv show ?thesis by (simp add: good_step_refl)
next
  case False
  with op obtain run e where run: "get_run i db = Some run" "ar_first_model_request_at run = None"
      "leased_status (ar_status run)"
    and db': "db' = put_run (run\<lparr>ar_first_model_request_at := Some e, ar_updated_at := Some now\<rparr>) db"
    by (auto simp: record_first_model_request_def Let_def split: if_splits option.splits)
  then have "\<not> terminal (ar_status run)" by (cases "ar_status run") auto
  then show ?thesis unfolding db'
    by (intro good_step_put_run[OF inv run(1)])
       (use get_run_row_ok[OF inv run(1)] run in
         \<open>auto simp: evolve_defs row_defs split: option.splits\<close>)
qed

lemma record_first_output_good:
  assumes inv: "run_inv db" and op: "record_first_output i w obs now db = Inr (db', res)"
  shows "good_step db db'"
proof (cases "db' = db")
  case True
  with inv show ?thesis by (simp add: good_step_refl)
next
  case False
  with op obtain run u e s where run: "get_run i db = Some run" "ar_first_output_at run = None"
      "ar_prepared_at run = Some s" "s \<le> e"
    and own: "require_lease_owner run w now act_first_output = Inr u"
    and db': "db' = put_run (run\<lparr>ar_first_output_at := Some e, ar_updated_at := Some now\<rparr>) db"
    by (auto simp: record_first_output_def Let_def not_less split: if_splits sum.splits option.splits)
  show ?thesis unfolding db'
    by (rule good_step_put_run[OF inv run(1)])
       (use get_run_row_ok[OF inv run(1)] require_lease_ownerD[OF own] run in
         \<open>auto simp: evolve_defs row_defs split: option.splits\<close>)
qed

section \<open>Execution trees, lost runs and migration\<close>

lemma lock_run_for_user_get:
  "run_inv db \<Longrightarrow> lock_run_for_user i uid db = Some run \<Longrightarrow> get_run i db = Some run \<and> ar_uid run = uid"
  unfolding lock_run_for_user_def get_run_iff by (drule find_Some_in) (simp add: get_run_iff)

lemma request_cancel_execution_tree_good:
  assumes inv: "run_inv db"
    and op: "request_cancel_execution_tree i uid cascade now clk db = (res, db')"
  shows "good_step db db'"
proof (cases "lock_run_for_user i uid db")
  case None
  with inv op show ?thesis by (auto simp: request_cancel_execution_tree_def good_step_refl)
next
  case (Some run)
  obtain run' db1 where c: "request_cancel_locked run now db = (run', db1)" by force
  have "get_run i db = Some run" using lock_run_for_user_get[OF inv Some] by simp
  then have good: "good_step db db1" using c by (rule request_cancel_locked_good[OF inv])
  obtain d db2 where d: "cancel_active_execution_tree_descendants run' clk db1 = (d, db2)" by force
  have "good_step db1 db2" by (rule cancel_descendants_good[OF good_step_inv[OF good] d])
  with good op Some c d show ?thesis
    by (auto simp: request_cancel_execution_tree_def split: if_splits intro: good_step_trans)
qed

lemma fail_lost_run_good:
  assumes inv: "run_inv db" and run: "get_run i db = Some run" and act: "\<not> terminal (ar_status run)"
  shows "good_step db (fail_lost_run run (run\<lparr>ar_status := Failed, ar_error_type := et,
    ar_error_message := em, ar_finished_at := Some now, ar_updated_at := Some now, ar_worker_id := None,
    ar_heartbeat_at := None, ar_lease_expires_at := None, ar_runtime_cleanup_pending := p\<rparr>) now db)"
  by (rule good_step_end_run[OF inv run act])
     (use lifecycle_to_failed[OF get_run_row_ok[OF inv run] act] get_run_id[OF run]
        attempts_step_close[OF run_inv_attempts[OF inv]] in
       \<open>auto simp: fail_lost_run_def run_identity_def once_facts_def\<close>)

lemma reconcile_loop_good:
  "run_inv db \<Longrightarrow> reconcile_loop now clk ids rec can db = (res, db') \<Longrightarrow> good_step db db'"
proof (induction now clk ids rec can db rule: reconcile_loop.induct)
  case (1 now clk rec can db)
  then show ?case by (simp add: good_step_refl)
next
  case (2 now clk i rest rec can db)
  show ?case
  proof (cases "case get_run i db of None \<Rightarrow> True | Some r \<Rightarrow> terminal (ar_status r)")
    case True
    with 2 show ?thesis by (auto split: option.splits)
  next
    case False
    then obtain run where run: "get_run i db = Some run" "\<not> terminal (ar_status run)"
      by (auto split: option.splits)
    define run' where "run' = run\<lparr>ar_status := Failed, ar_error_type := Some (lit ''worker_lease_expired''),
      ar_error_message := Some msg_lease_expired_run, ar_finished_at := Some now,
      ar_updated_at := Some now, ar_worker_id := None, ar_heartbeat_at := None,
      ar_lease_expires_at := None, ar_runtime_cleanup_pending := (ar_run_type run \<noteq> Subagent)\<rparr>"
    obtain d db1 where d: "cancel_active_execution_tree_descendants run' (clk i)
        (fail_lost_run run run' now db) = (d, db1)" by force
    have "good_step db (fail_lost_run run run' now db)"
      unfolding run'_def by (rule fail_lost_run_good[OF 2(4) run])
    then have g: "good_step db db1"
      using cancel_descendants_good[OF good_step_inv d] by (blast intro: good_step_trans)
    have "good_step db1 db'"
      by (rule 2(3)[OF run run'_def d[symmetric] good_step_inv[OF g]])
         (use 2(5) run d in \<open>simp add: run'_def\<close>)
    with g show ?thesis by (rule good_step_trans)
  qed
qed

lemma reconcile_good:
  "run_inv db \<Longrightarrow> reconcile_expired_leases locked now clk db = (res, db') \<Longrightarrow> good_step db db'"
  by (auto simp: reconcile_expired_leases_def Let_def intro: reconcile_loop_good)

lemma get_run_fail_for_migration_other:
  assumes "ar_id run \<noteq> j"
  shows "get_run j (fail_for_migration now run db) = get_run j db"
proof -
  define run' where "run' = run\<lparr>ar_status := Failed, ar_error_type := Some (lit ''storage_migration''),
            ar_error_message := Some msg_storage_migration, ar_finished_at := Some now,
            ar_updated_at := Some now, ar_worker_id := None, ar_heartbeat_at := None,
            ar_lease_expires_at := None, ar_runtime_cleanup_pending := False\<rparr>"
  have "get_run j (fail_for_migration now run db) = get_run j (put_run run' db)"
    by (rule get_run_cong) (simp add: fail_for_migration_def run'_def Let_def)
  then show ?thesis using assms by (simp add: get_run_put_run_other run'_def)
qed

lemma fail_for_migration_good:
  assumes inv: "run_inv db" and run: "get_run i db = Some run" and act: "\<not> terminal (ar_status run)"
  shows "good_step db (fail_for_migration now run db)"
  unfolding fail_for_migration_def Let_def
  by (rule good_step_end_run[OF inv run act])
     (use lifecycle_to_failed[OF get_run_row_ok[OF inv run] act] get_run_id[OF run]
        attempts_step_close[OF run_inv_attempts[OF inv]] in
       \<open>auto simp: run_identity_def once_facts_def\<close>)

lemma migration_fold_good:
  assumes "run_inv db" and "distinct (map ar_id runs)"
    and "\<And>r. r \<in> set runs \<Longrightarrow> get_run (ar_id r) db = Some r \<and> \<not> terminal (ar_status r)"
  shows "good_step db (fold (fail_for_migration now) runs db)"
  using assms
proof (induction runs arbitrary: db)
  case Nil
  then show ?case by (simp add: good_step_refl)
next
  case (Cons r runs)
  have g: "good_step db (fail_for_migration now r db)"
    using Cons.prems by (intro fail_for_migration_good) auto
  have "good_step (fail_for_migration now r db) (fold (fail_for_migration now) runs (fail_for_migration now r db))"
  proof (rule Cons.IH[OF good_step_inv[OF g]])
    show "get_run (ar_id x) (fail_for_migration now r db) = Some x \<and> \<not> terminal (ar_status x)"
      if "x \<in> set runs" for x
    proof -
      have "ar_id r \<noteq> ar_id x" using Cons.prems(2) that by auto
      then show ?thesis using Cons.prems(3)[of x] that by (simp add: get_run_fail_for_migration_other)
    qed
  qed (use Cons.prems in simp)
  with g show ?case by (auto intro: good_step_trans)
qed

lemma migration_rows:
  assumes "run_inv db"
  shows "distinct (map ar_id (oldest_first (filter (\<lambda>r. \<not> terminal (ar_status r)) (db_runs db))))"
    and "r \<in> set (oldest_first (filter (\<lambda>r. \<not> terminal (ar_status r)) (db_runs db))) \<Longrightarrow>
      get_run (ar_id r) db = Some r \<and> \<not> terminal (ar_status r)"
  using run_inv_distinct[OF assms] get_run_iff[OF assms]
  by (auto simp: oldest_first_def distinct_map inj_on_def)

lemma migration_good:
  assumes inv: "run_inv db" and op: "fail_nonterminal_for_storage_migration now db = (ids, db')"
  shows "good_step db db'"
proof -
  have "db' = fold (fail_for_migration now)
      (oldest_first (filter (\<lambda>r. \<not> terminal (ar_status r)) (db_runs db))) db"
    using op by (simp add: fail_nonterminal_for_storage_migration_def Let_def)
  then show ?thesis using migration_fold_good[OF inv migration_rows[OF inv]] by simp
qed

section \<open>The step relation\<close>

text \<open>
  \<open>clear_cleanup_fence\<close> is the only write of \<^verbatim>\<open>services/run_worker.py\<close> to a run row: the runtime
  cleanup owner resets the fence, which also touches \<^verbatim>\<open>updated_at\<close> (\<^verbatim>\<open>onupdate\<close>).
\<close>

definition clear_cleanup_fence :: "pystr \<Rightarrow> time \<Rightarrow> 'x rdb \<Rightarrow> 'x rdb" where
  "clear_cleanup_fence run_id clk db =
     (case get_run run_id db of
        None \<Rightarrow> db
      | Some run \<Rightarrow>
          if \<not> ar_runtime_cleanup_pending run then db
          else put_run (run\<lparr>ar_runtime_cleanup_pending := False, ar_updated_at := Some clk\<rparr>) db)"

lemma clear_cleanup_fence_good:
  assumes inv: "run_inv db"
  shows "good_step db (clear_cleanup_fence i clk db)"
proof (cases "get_run i db")
  case None
  with inv show ?thesis by (simp add: clear_cleanup_fence_def good_step_refl)
next
  case (Some run)
  let ?run = "run\<lparr>ar_runtime_cleanup_pending := False, ar_updated_at := Some clk\<rparr>"
  have "run_row_ok ?run = run_row_ok run" by (simp add: row_defs cong: option.case_cong)
  moreover have "run_evolves run ?run" by (simp add: evolve_defs)
  ultimately have "good_step db (put_run ?run db)"
    using get_run_row_ok[OF inv Some] by (intro good_step_put_run[OF inv Some]) simp_all
  with Some inv show ?thesis by (simp add: clear_cleanup_fence_def good_step_refl)
qed

text \<open>
  \<open>environment\<close> stands for the other services of the program: they write messages, tool calls,
  scopes, sub-agent threads and the tables an extension adds, never a run or an attempt.
\<close>

inductive run_step :: "'x rdb \<Rightarrow> 'x rdb \<Rightarrow> bool" where
  create: "create_run i th sc ag uid rq ip src ch ext om cid cb rel rt im clk db = Inr (db', r) \<Longrightarrow> run_step db db'"
| set_trace: "set_langfuse_trace_id i tr w now db = Inr (db', res) \<Longrightarrow> run_step db db'"
| set_output: "set_output_message i mid w now db = Inr (db', res) \<Longrightarrow> run_step db db'"
| claim: "mark_running i w ls now clk db = Inr (db', res') \<Longrightarrow> run_step db db'"
| renew: "renew_lease i w ls now db = Inr (db', ok) \<Longrightarrow> run_step db db'"
| release: "release_lease_for_retry i w now db = (db', ok) \<Longrightarrow> run_step db db'"
| reconcile: "reconcile_expired_leases locked now clks db = (lost, db') \<Longrightarrow> run_step db db'"
| migrate: "fail_nonterminal_for_storage_migration now db = (ids, db') \<Longrightarrow> run_step db db'"
| cancel: "request_cancel_execution_tree i uid cascade now clk db = (ids', db') \<Longrightarrow> run_step db db'"
| finish: "set_terminal_status i st et em tu wo now clk db = Inr (db', res', ok) \<Longrightarrow> run_step db db'"
| manifest: "record_run_manifest i m f w now db = Inr (db', res') \<Longrightarrow> run_step db db'"
| prepared: "record_prepared i w obs now db = Inr (db', res') \<Longrightarrow> run_step db db'"
| first_request: "record_first_model_request i w obs now db = Inr (db', res') \<Longrightarrow> run_step db db'"
| first_output: "record_first_output i w obs now db = Inr (db', res') \<Longrightarrow> run_step db db'"
| cleanup: "run_step db (clear_cleanup_fence i clk db)"
| environment: "db_runs db' = db_runs db \<Longrightarrow> db_attempts db' = db_attempts db \<Longrightarrow> run_step db db'"

lemmas run_op_good = create_run_good set_langfuse_trace_id_good set_output_message_good
  mark_running_good renew_lease_good release_lease_for_retry_good reconcile_good migration_good
  request_cancel_execution_tree_good record_run_manifest_good record_prepared_good
  record_first_model_request_good record_first_output_good

lemma run_step_good:
  assumes "run_inv db" and "run_step db db'"
  shows "good_step db db'"
  using assms(2)
proof cases
  case finish
  then show ?thesis using set_terminal_status_good[OF assms(1)] by blast
next
  case environment
  then have "good_step db db' = good_step db db" by (intro good_step_cong) simp_all
  then show ?thesis using good_step_refl[OF assms(1)] by simp
next
  case cleanup
  then show ?thesis using clear_cleanup_fence_good[OF assms(1)] by simp
qed (drule run_op_good[OF assms(1)], assumption)+

definition run_start :: "'x rdb \<Rightarrow> bool" where
  "run_start db \<longleftrightarrow> db_runs db = [] \<and> db_attempts db = []"

lemma run_start_inv: "run_start db \<Longrightarrow> run_inv db"
  by (simp add: run_start_def run_inv_def one_active_per_thread_def attempts_table_ok_def)

interpretation run: step_system run_start run_step run_inv good_step
proof unfold_locales
  show "run_start s \<Longrightarrow> run_inv s" for s :: "'a rdb" by (rule run_start_inv)
  show "run_inv s \<Longrightarrow> run_step s t \<Longrightarrow> run_inv t" for s t :: "'a rdb"
    by (rule good_step_inv[OF run_step_good])
qed (blast intro: run_step_good good_step_refl good_step_trans)+

end
