(* ===== verification/Run_Lease.thy ===== *)
theory Run_Lease
  imports Run_Steps
begin

text \<open>
  The lease of a run as an instance of \<open>lease_discipline\<close>: \<open>claim_run\<close> and \<open>renew_run\<close> are
  \<^verbatim>\<open>mark_running\<close> and \<^verbatim>\<open>renew_lease\<close> with a raised error read as a refusal. The lemmas describe
  what a claim gives the worker and which writes a stranger is refused.
\<close>

definition run_holder :: "pystr \<Rightarrow> 'x rdb \<Rightarrow> pystr option" where
  "run_holder i db = (case get_run i db of None \<Rightarrow> None | Some r \<Rightarrow> ar_worker_id r)"

definition run_expires :: "pystr \<Rightarrow> 'x rdb \<Rightarrow> time option" where
  "run_expires i db = (case get_run i db of None \<Rightarrow> None | Some r \<Rightarrow> ar_lease_expires_at r)"

definition claim_run :: "rat \<Rightarrow> time \<Rightarrow> pystr \<Rightarrow> pystr \<Rightarrow> time \<Rightarrow> 'x rdb \<Rightarrow> 'x rdb \<times> bool" where
  "claim_run ls clk i w now db =
     (case mark_running i w ls now clk db of Inl _ \<Rightarrow> (db, False) | Inr (db', _, ok) \<Rightarrow> (db', ok))"

definition renew_run :: "rat \<Rightarrow> pystr \<Rightarrow> pystr \<Rightarrow> time \<Rightarrow> 'x rdb \<Rightarrow> 'x rdb \<times> bool" where
  "renew_run ls i w now db =
     (case renew_lease i w ls now db of Inl _ \<Rightarrow> (db, False) | Inr (db', ok) \<Rightarrow> (db', ok))"

lemma mark_running_refused:
  "mark_running i w ls now clk db = Inr (db', res, False) \<Longrightarrow> db' = db"
  by (auto simp: mark_running_def Let_def split: if_splits option.splits)

lemma mark_running_claimed:
  assumes "mark_running i w ls now clk db = Inr (db', res, True)"
  obtains run run' where "get_run i db = Some run" "get_run i db' = Some run'" "res = Some run'"
    "\<not> terminal (ar_status run)" "\<not> ar_runtime_cleanup_pending run"
    "initial_claim run \<or> same_live_owner run w now"
    "ar_worker_id run' = Some w" "ar_lease_expires_at run' = Some (now + timedelta_seconds ls)"
    "ar_status run' = (if ar_status run = Pending then Running else ar_status run)"
proof -
  from assms obtain run where run: "get_run i db = Some run"
    by (auto simp: mark_running_def split: if_splits option.splits)
  define run' where "run' = run\<lparr>
      ar_status := (if ar_status run = Pending then Running else ar_status run),
      ar_worker_id := Some w, ar_heartbeat_at := Some now,
      ar_lease_expires_at := Some (now + timedelta_seconds ls),
      ar_started_at := (case ar_started_at run of None \<Rightarrow> Some now | Some t \<Rightarrow> Some t),
      ar_updated_at := Some now\<rparr>"
  from assms run have g: "\<not> terminal (ar_status run)" "\<not> ar_runtime_cleanup_pending run"
      "initial_claim run \<or> same_live_owner run w now" "res = Some run'"
    and db': "db_runs db' = db_runs (put_run run' db)"
    by (auto simp: mark_running_def run'_def Let_def split: if_splits)
  have "get_run i db' = get_run i (put_run run' db)" using db' by (rule get_run_cong)
  also have "\<dots> = Some run'"
    using run by (rule get_run_put_run_same) (simp add: run'_def get_run_id[OF run])
  finally have run': "get_run i db' = Some run'" .
  show thesis by (rule that[OF run run']) (use g in \<open>auto simp: run'_def\<close>)
qed

lemma renew_lease_renewed:
  assumes "renew_lease i w ls now db = Inr (db', True)"
  obtains run run' where "get_run i db = Some run" "get_run i db' = Some run'"
    "leased_status (ar_status run)" "ar_worker_id run = Some w" "lease_live run now"
    "ar_worker_id run' = Some w" "ar_lease_expires_at run' = Some (now + timedelta_seconds ls)"
    "ar_status run' = ar_status run"
proof -
  from assms obtain run where run: "get_run i db = Some run" and g: "leased_status (ar_status run)"
    "ar_worker_id run = Some w" "lease_live run now"
    by (auto simp: renew_lease_def Let_def split: if_splits option.splits)
  define run' where "run' = run\<lparr>ar_heartbeat_at := Some now,
      ar_lease_expires_at := Some (now + timedelta_seconds ls), ar_updated_at := Some now\<rparr>"
  have "db_runs db' = db_runs (put_run run' db)"
    using assms run by (auto simp: renew_lease_def run'_def Let_def split: if_splits)
  then have "get_run i db' = get_run i (put_run run' db)" by (rule get_run_cong)
  also have "\<dots> = Some run'"
    using run by (rule get_run_put_run_same) (simp add: run'_def get_run_id[OF run])
  finally have run': "get_run i db' = Some run'" .
  show thesis by (rule that[OF run run']) (use g in \<open>auto simp: run'_def\<close>)
qed

lemma holder_live:
  "run_holder i db = Some v \<Longrightarrow> run_expires i db = Some t \<Longrightarrow> now < t \<Longrightarrow>
   \<exists>run. get_run i db = Some run \<and> ar_worker_id run = Some v \<and> lease_live run now"
  by (auto simp: run_holder_def run_expires_def lease_live_def split: option.splits)

text \<open>A claim by anybody but the live owner changes nothing.\<close>

lemma mark_running_stranger:
  assumes "run_inv db" and "get_run i db = Some run" and "ar_worker_id run = Some v" and "v \<noteq> w"
    and "py_strip w \<noteq> []" and "0 < ls"
  shows "mark_running i w ls now clk db = Inr (db, Some run, False)"
  using get_run_row_ok[OF assms(1,2)] assms
  by (auto simp: mark_running_def initial_claim_def same_live_owner_def row_defs)

lemma claim_run_stranger:
  assumes "run_inv db" and "get_run i db = Some run" and "ar_worker_id run = Some v" and "v \<noteq> w"
  shows "claim_run ls clk i w now db = (db, False)"
proof (cases "py_strip w = [] \<or> ls \<le> 0")
  case True
  then show ?thesis by (auto simp: claim_run_def mark_running_def)
next
  case False
  then show ?thesis using mark_running_stranger[OF assms, of ls now clk] by (simp add: claim_run_def)
qed

interpretation run_lease: lease_discipline run_holder run_expires run_inv "claim_run ls clk"
  "renew_run ls" "timedelta_seconds ls" for ls clk
proof unfold_locales
  show "run_inv s \<Longrightarrow> run_inv (fst (claim_run ls clk k w now s))" for s :: "'a rdb" and k w now
    using mark_running_good[of s k w ls now clk, THEN good_step_inv]
    by (cases "mark_running k w ls now clk s") (auto simp: claim_run_def)
  show "run_holder k s' = Some w \<and> run_expires k s' = Some (now + timedelta_seconds ls)"
    if "claim_run ls clk k w now s = (s', True)" for s s' :: "'a rdb" and k w now
  proof -
    from that obtain res where "mark_running k w ls now clk s = Inr (s', res, True)"
      by (auto simp: claim_run_def split: sum.splits prod.splits)
    then show ?thesis by (rule mark_running_claimed) (simp add: run_holder_def run_expires_def)
  qed
  show "claim_run ls clk k w now s = (s, False)"
    if "run_inv s" "run_holder k s = Some v" "v \<noteq> w" "run_expires k s = Some t" "now < t"
    for s :: "'a rdb" and k v w t now
    using claim_run_stranger[OF that(1)] holder_live[OF that(2,4,5)] that(3) by blast
  show "run_holder k s = Some w \<and> (\<exists>t. run_expires k s = Some t \<and> now < t)
      \<and> run_holder k s' = Some w \<and> run_expires k s' = Some (now + timedelta_seconds ls)"
    if "renew_run ls k w now s = (s', True)" for s s' :: "'a rdb" and k w now
  proof -
    from that have "renew_lease k w ls now s = Inr (s', True)"
      by (auto simp: renew_run_def split: sum.splits prod.splits)
    then show ?thesis
      by (rule renew_lease_renewed)
         (auto simp: run_holder_def run_expires_def lease_live_def split: option.splits)
  qed
  show "s' = s" if "renew_run ls k w now s = (s', False)" for s s' :: "'a rdb" and k w now
    using that by (auto simp: renew_run_def renew_lease_def Let_def split: if_splits option.splits)
qed

end
