(* ===== verification/Run_Tree.thy ===== *)
theory Run_Tree
  imports Run_Lease
begin

text \<open>
  What the tree operations achieve. \<open>tree_member\<close> is the abstract execution tree of a root run
  (the runs created, directly or not, by it that are still active, have its user and belong to
  its scope); \<open>cancel_tree_loop\<close> stops every member of it and touches no other run. The last
  section shows that reconciliation fails every lost run.
\<close>

section \<open>The execution tree\<close>

definition in_scope :: "pystr \<Rightarrow> pystr \<Rightarrow> pystr list \<Rightarrow> agent_run \<Rightarrow> bool" where
  "in_scope uid key sids r \<longleftrightarrow> ar_uid r = uid \<and> (ar_runtime_scope_id r = key \<or> ar_id r \<in> set sids)"

inductive tree_member :: "pystr \<Rightarrow> pystr \<Rightarrow> pystr list \<Rightarrow> 'x rdb \<Rightarrow> pystr \<Rightarrow> pystr \<Rightarrow> bool"
  for uid key sids db rid where
  child: "p = rid \<or> tree_member uid key sids db rid p \<Longrightarrow> c \<in> set (db_runs db) \<Longrightarrow>
    ar_created_by_run_id c = Some p \<Longrightarrow> in_scope uid key sids c \<Longrightarrow> \<not> terminal (ar_status c) \<Longrightarrow>
    tree_member uid key sids db rid (ar_id c)"

definition stopped :: "agent_run \<Rightarrow> bool" where
  "stopped r \<longleftrightarrow> terminal (ar_status r) \<or> ar_status r = Cancel_requested"

lemma active_children_iff:
  "c \<in> set (active_children uid key sids ps db) \<longleftrightarrow>
   c \<in> set (db_runs db) \<and> (\<exists>p\<in>set ps. ar_created_by_run_id c = Some p)
   \<and> in_scope uid key sids c \<and> \<not> terminal (ar_status c)"
  by (auto simp: active_children_def oldest_first_def in_scope_def split: option.splits)

section \<open>Cancelling one level\<close>

lemma get_run_cancel_child_same:
  assumes "get_run (ar_id c) db = Some c"
  obtains c' where "get_run (ar_id c) (cancel_child now c db) = Some c'" "stopped c'"
    "leased_status (ar_status c) \<Longrightarrow> leased_status (ar_status c')"
proof -
  let ?e = "c\<lparr>ar_error_type := Some (lit ''execution_tree_closed''), ar_error_message := Some msg_tree_closed\<rparr>"
  let ?d = "?e\<lparr>ar_status := Cancelled, ar_finished_at := Some now, ar_worker_id := None,
    ar_heartbeat_at := None, ar_lease_expires_at := None, ar_updated_at := Some now\<rparr>"
  let ?q = "?e\<lparr>ar_status := Cancel_requested, ar_updated_at := Some now\<rparr>"
  show thesis
  proof (cases "never_started c")
    case True
    have "get_run (ar_id c) (cancel_child now c db) = get_run (ar_id c) (put_run ?d db)"
      by (rule get_run_cong) (use True in \<open>simp add: cancel_child_def Let_def\<close>)
    also have "\<dots> = Some ?d" using assms by (rule get_run_put_run_same) simp
    finally show thesis by (rule that) (use True in \<open>auto simp: stopped_def never_started_def\<close>)
  next
    case False
    have "get_run (ar_id c) (put_run ?q db) = Some ?q" using assms by (rule get_run_put_run_same) simp
    then have "get_run (ar_id c) (cancel_child now c db) = Some ?q"
      using False by (simp add: cancel_child_def Let_def)
    then show thesis by (rule that) (simp_all add: stopped_def)
  qed
qed

text \<open>
  From \<open>db\<close> to \<open>db'\<close> exactly the runs of \<open>S'\<close> outside \<open>S\<close> were touched, and all of those are stopped.
\<close>

definition stops :: "pystr set \<Rightarrow> pystr set \<Rightarrow> 'x rdb \<Rightarrow> 'x rdb \<Rightarrow> bool" where
  "stops S S' db db' \<longleftrightarrow> S \<subseteq> S' \<and> (\<forall>j.
     case get_run j db of
       None \<Rightarrow> get_run j db' = None
     | Some r \<Rightarrow> \<exists>r'. get_run j db' = Some r' \<and> (j \<notin> S' - S \<longrightarrow> r' = r) \<and> (j \<in> S' - S \<longrightarrow> stopped r')
                   \<and> (leased_status (ar_status r) \<longrightarrow> leased_status (ar_status r')))"

lemma stops_refl: "stops S S db db"
  by (auto simp: stops_def split: option.split)

lemma stops_get:
  assumes "stops S S' db db'" and "get_run j db = Some r"
  obtains r' where "get_run j db' = Some r'" "j \<notin> S' - S \<Longrightarrow> r' = r" "j \<in> S' - S \<Longrightarrow> stopped r'"
    "leased_status (ar_status r) \<Longrightarrow> leased_status (ar_status r')"
proof -
  have "\<exists>r'. get_run j db' = Some r' \<and> (j \<notin> S' - S \<longrightarrow> r' = r) \<and> (j \<in> S' - S \<longrightarrow> stopped r')
      \<and> (leased_status (ar_status r) \<longrightarrow> leased_status (ar_status r'))"
    using assms unfolding stops_def by (elim conjE allE[of _ j]) simp
  then show thesis using that by blast
qed

lemma stops_None: "stops S S' db db' \<Longrightarrow> get_run j db = None \<Longrightarrow> get_run j db' = None"
  unfolding stops_def by (elim conjE allE[of _ j]) simp

lemma stops_unchanged: "stops S S' db db' \<Longrightarrow> j \<notin> S' - S \<Longrightarrow> get_run j db' = get_run j db"
  by (cases "get_run j db") (auto dest: stops_None elim: stops_get)

lemma stops_trans:
  assumes ab: "stops S T a b" and bc: "stops T U b c"
  shows "stops S U a c"
proof -
  have sub: "S \<subseteq> T" "T \<subseteq> U" using ab bc by (auto simp: stops_def)
  have "case get_run j a of
       None \<Rightarrow> get_run j c = None
     | Some r \<Rightarrow> \<exists>r'. get_run j c = Some r' \<and> (j \<notin> U - S \<longrightarrow> r' = r) \<and> (j \<in> U - S \<longrightarrow> stopped r')
                   \<and> (leased_status (ar_status r) \<longrightarrow> leased_status (ar_status r'))" for j
  proof (cases "get_run j a")
    case None
    then show ?thesis using ab bc by (simp add: stops_None)
  next
    case (Some r)
    obtain r1 where r1: "get_run j b = Some r1" "j \<notin> T - S \<Longrightarrow> r1 = r" "j \<in> T - S \<Longrightarrow> stopped r1"
      "leased_status (ar_status r) \<Longrightarrow> leased_status (ar_status r1)" using ab Some by (rule stops_get) blast
    obtain r2 where r2: "get_run j c = Some r2" "j \<notin> U - T \<Longrightarrow> r2 = r1" "j \<in> U - T \<Longrightarrow> stopped r2"
      "leased_status (ar_status r1) \<Longrightarrow> leased_status (ar_status r2)" using bc r1(1) by (rule stops_get) blast
    have "j \<notin> U - S \<longrightarrow> r2 = r" using r1(2) r2(2) sub by blast
    moreover have "j \<in> U - S \<longrightarrow> stopped r2" using r1(3) r2(2,3) sub by blast
    ultimately show ?thesis using Some r2(1,4) r1(4) by simp
  qed
  then show ?thesis using sub unfolding stops_def by blast
qed

lemma cancel_child_stops:
  assumes "get_run (ar_id c) db = Some c" and "ar_id c \<notin> S"
  shows "stops S (insert (ar_id c) S) db (cancel_child now c db)"
proof -
  obtain c' where c': "get_run (ar_id c) (cancel_child now c db) = Some c'" "stopped c'"
    "leased_status (ar_status c) \<Longrightarrow> leased_status (ar_status c')"
    using assms(1) by (rule get_run_cancel_child_same) blast
  show ?thesis unfolding stops_def
  proof (intro conjI allI)
    fix j
    show "case get_run j db of None \<Rightarrow> get_run j (cancel_child now c db) = None
      | Some r \<Rightarrow> \<exists>r'. get_run j (cancel_child now c db) = Some r'
          \<and> (j \<notin> insert (ar_id c) S - S \<longrightarrow> r' = r) \<and> (j \<in> insert (ar_id c) S - S \<longrightarrow> stopped r')
          \<and> (leased_status (ar_status r) \<longrightarrow> leased_status (ar_status r'))"
    proof (cases "j = ar_id c")
      case True
      then show ?thesis using assms c' by auto
    next
      case False
      then show ?thesis using get_run_cancel_child_other[of c j now db] by (auto split: option.split)
    qed
  qed auto
qed

lemma cancel_children_stops:
  assumes "cancel_children now cs seen pending cancelled db = (seen', pending', cancelled', db')"
    and "distinct (map ar_id cs)" and "\<And>c. c \<in> set cs \<Longrightarrow> get_run (ar_id c) db = Some c"
  shows "stops (set seen) (set seen') db db'"
  using assms
proof (induction now cs seen pending cancelled db rule: cancel_children.induct)
  case (1 now seen pending cancelled db)
  then show ?case by (simp add: stops_refl)
next
  case (2 now c rest seen pending cancelled db)
  show ?case
  proof (cases "ar_id c \<in> set seen")
    case True
    with 2 show ?thesis by simp
  next
    case False
    have a: "stops (set seen) (set (ar_id c # seen)) db (cancel_child now c db)"
      using cancel_child_stops[OF _ False] 2(5)[of c] by simp
    have "stops (set (ar_id c # seen)) (set seen') (cancel_child now c db) db'"
    proof (rule 2(2)[OF False])
      show "get_run (ar_id d) (cancel_child now c db) = Some d" if "d \<in> set rest" for d
      proof -
        have "ar_id c \<noteq> ar_id d" using 2(4) that by auto
        then show ?thesis using 2(5)[of d] that by (simp add: get_run_cancel_child_other)
      qed
    qed (use 2 False in auto)
    with a show ?thesis by (rule stops_trans)
  qed
qed

section \<open>Cancelling the whole tree\<close>

definition closed_except ::
  "pystr \<Rightarrow> pystr \<Rightarrow> pystr list \<Rightarrow> 'x rdb \<Rightarrow> pystr \<Rightarrow> pystr set \<Rightarrow> pystr set \<Rightarrow> bool" where
  "closed_except uid key sids db rid seen pending \<longleftrightarrow>
     (\<forall>c\<in>set (db_runs db). \<forall>p. ar_created_by_run_id c = Some p \<longrightarrow> in_scope uid key sids c
        \<longrightarrow> \<not> terminal (ar_status c) \<longrightarrow> p \<in> insert rid seen - pending \<longrightarrow> ar_id c \<in> seen)"

lemma closed_except_step:
  assumes inv: "run_inv db0" "run_inv db" and st: "stops {} (set seen) db0 db"
    and cl: "closed_except uid key sids db0 rid (set seen) (set pending)"
    and op: "cancel_children now (active_children uid key sids pending db) seen [] cancelled db
      = (seen', pending', cancelled', db')"
  shows "closed_except uid key sids db0 rid (set seen') (set pending')"
  unfolding closed_except_def
proof (intro ballI allI impI)
  fix c p
  assume c: "c \<in> set (db_runs db0)" and p: "ar_created_by_run_id c = Some p"
    and sc: "in_scope uid key sids c" and act: "\<not> terminal (ar_status c)"
    and pin: "p \<in> insert rid (set seen') - set pending'"
  note seen' = cancel_children_seen[OF op]
  show "ar_id c \<in> set seen'"
  proof (rule ccontr)
    assume notin: "ar_id c \<notin> set seen'"
    then have "ar_id c \<notin> set seen" using seen' by auto
    then have "get_run (ar_id c) db = get_run (ar_id c) db0"
      using stops_unchanged[OF st] by simp
    then have cdb: "c \<in> set (db_runs db)" using c get_run_iff[OF inv(1)] get_run_iff[OF inv(2)] by metis
    have "p \<in> insert rid (set seen)" using pin seen' by auto
    moreover have "p \<notin> set pending"
    proof
      assume "p \<in> set pending"
      then have "c \<in> set (active_children uid key sids pending db)"
        using cdb p sc act by (auto simp: active_children_iff)
      then show False using notin seen' by auto
    qed
    ultimately have "ar_id c \<in> set seen" using cl c p sc act unfolding closed_except_def by blast
    then show False using notin seen' by auto
  qed
qed

definition in_tree :: "pystr \<Rightarrow> pystr \<Rightarrow> pystr list \<Rightarrow> 'x rdb \<Rightarrow> pystr \<Rightarrow> pystr set" where
  "in_tree uid key sids db rid = {j. tree_member uid key sids db rid j}"

lemma tree_members_step:
  assumes inv: "run_inv db0" "run_inv db" and st: "stops {} (set seen) db0 db"
    and sub: "set seen \<subseteq> in_tree uid key sids db0 rid" "set pending \<subseteq> insert rid (set seen)"
    and op: "cancel_children now (active_children uid key sids pending db) seen [] cancelled db
      = (seen', pending', cancelled', db')"
  shows "set seen' \<subseteq> in_tree uid key sids db0 rid" and "set pending' \<subseteq> insert rid (set seen')"
proof -
  note seen' = cancel_children_seen[OF op]
  show "set pending' \<subseteq> insert rid (set seen')" using seen' by auto
  have "ar_id c \<in> in_tree uid key sids db0 rid"
    if c: "c \<in> set (active_children uid key sids pending db)" for c
  proof (cases "ar_id c \<in> set seen")
    case False
    then have "get_run (ar_id c) db = get_run (ar_id c) db0" using stops_unchanged[OF st] by simp
    moreover have "c \<in> set (db_runs db)" using c by (simp add: active_children_iff)
    ultimately have c0: "c \<in> set (db_runs db0)"
      using get_run_iff[OF inv(1)] get_run_iff[OF inv(2)] by metis
    from c obtain p where p: "p \<in> set pending" "ar_created_by_run_id c = Some p"
      and "in_scope uid key sids c" "\<not> terminal (ar_status c)" by (auto simp: active_children_iff)
    moreover have "p = rid \<or> tree_member uid key sids db0 rid p" using p(1) sub by (auto simp: in_tree_def)
    ultimately show ?thesis using c0 unfolding in_tree_def by (blast intro: tree_member.child)
  qed (use sub in blast)
  then show "set seen' \<subseteq> in_tree uid key sids db0 rid" using seen' sub by auto
qed

lemma cancel_tree_loop_closes:
  assumes "cancel_tree_loop now uid key sids pending seen cancelled db = (res, db')"
    and "run_inv db0" and "run_inv db" and "stops {} (set seen) db0 db"
    and "closed_except uid key sids db0 rid (set seen) (set pending)"
    and "set seen \<subseteq> in_tree uid key sids db0 rid" and "set pending \<subseteq> insert rid (set seen)"
  shows "\<exists>S. stops {} S db0 db' \<and> closed_except uid key sids db0 rid S {}
    \<and> S \<subseteq> in_tree uid key sids db0 rid"
  using assms
proof (induction now uid key sids pending seen cancelled db rule: cancel_tree_loop.induct)
  case (1 now uid key sids pending seen cancelled db)
  show ?case
  proof (cases "pending = []")
    case True
    with 1(2-) show ?thesis by (auto simp: cancel_tree_loop.simps)
  next
    case False
    obtain seen' pending' cancelled' db1 where c: "cancel_children now (active_children uid key sids pending db)
      seen [] cancelled db = (seen', pending', cancelled', db1)" by (metis prod_cases4)
    note rows = active_children_props[OF 1(4)]
    have "stops (set seen) (set seen') db db1"
      by (rule cancel_children_stops[OF c]) (use rows in auto)
    then have st: "stops {} (set seen') db0 db1" by (rule stops_trans[OF 1(5)])
    have inv: "run_inv db1"
      by (rule good_step_inv[OF cancel_children_good[OF c 1(4)]]) (use rows in auto)
    show ?thesis
      by (rule 1(1)[OF False c[symmetric] refl refl _ 1(3) inv st closed_except_step[OF 1(3,4,5,6) c]
          tree_members_step[OF 1(3,4,5,7,8) c]])
         (use 1(2) False c in \<open>simp add: cancel_tree_loop.simps[of _ _ _ _ pending]\<close>)
  qed
qed

lemma tree_member_closed:
  "tree_member uid key sids db rid j \<Longrightarrow> closed_except uid key sids db rid S {} \<Longrightarrow> j \<in> S"
  by (induction rule: tree_member.induct) (auto simp: closed_except_def)

lemma cancel_tree_result:
  assumes inv: "run_inv db" and op: "cancel_tree_loop now uid key sids [rid] [] [] db = (res, db')"
  shows "stops {} (in_tree uid key sids db rid) db db'"
proof -
  have "closed_except uid key sids db rid (set []) (set [rid])" by (simp add: closed_except_def)
  moreover have "stops {} (set []) db db" by (simp add: stops_refl)
  ultimately obtain S where S: "stops {} S db db'" "closed_except uid key sids db rid S {}"
      "S \<subseteq> in_tree uid key sids db rid"
    using cancel_tree_loop_closes[OF op inv inv] by force
  have "S = in_tree uid key sids db rid" using S(2,3) tree_member_closed by (auto simp: in_tree_def)
  with S(1) show ?thesis by simp
qed

definition tree_of :: "agent_run \<Rightarrow> 'x rdb \<Rightarrow> pystr set" where
  "tree_of rt db =
     (if ar_run_type rt = Subagent then {}
      else in_tree (ar_uid rt) (scope_key_of_root rt db) (scope_run_ids (scope_key_of_root rt db) db) db (ar_id rt))"

lemma cancel_descendants_stops:
  assumes inv: "run_inv db" and op: "cancel_active_execution_tree_descendants rt now db = (res, db')"
  shows "stops {} (tree_of rt db) db db'"
proof (cases "ar_run_type rt = Subagent")
  case True
  then show ?thesis using op stops_refl
    by (auto simp: cancel_active_execution_tree_descendants_def tree_of_def)
next
  case False
  then have "cancel_tree_loop now (ar_uid rt) (scope_key_of_root rt db)
      (scope_run_ids (scope_key_of_root rt db) db) [ar_id rt] [] [] db = (res, db')"
    using op by (simp add: cancel_active_execution_tree_descendants_def Let_def)
  from cancel_tree_result[OF inv this] show ?thesis using False by (simp add: tree_of_def)
qed

section \<open>Cancelling a root with its tree\<close>

lemma stops_union:
  assumes ab: "stops {} S a b" and bc: "stops {} T b c"
  shows "stops {} (S \<union> T) a c"
proof -
  have "case get_run j a of
       None \<Rightarrow> get_run j c = None
     | Some r \<Rightarrow> \<exists>r'. get_run j c = Some r' \<and> (j \<notin> S \<union> T - {} \<longrightarrow> r' = r)
          \<and> (j \<in> S \<union> T - {} \<longrightarrow> stopped r')
          \<and> (leased_status (ar_status r) \<longrightarrow> leased_status (ar_status r'))" for j
  proof (cases "get_run j a")
    case None
    then show ?thesis using ab bc by (simp add: stops_None)
  next
    case (Some r)
    obtain r1 where r1: "get_run j b = Some r1" "j \<notin> S - {} \<Longrightarrow> r1 = r" "j \<in> S - {} \<Longrightarrow> stopped r1"
      "leased_status (ar_status r) \<Longrightarrow> leased_status (ar_status r1)" using ab Some by (rule stops_get) blast
    obtain r2 where r2: "get_run j c = Some r2" "j \<notin> T - {} \<Longrightarrow> r2 = r1" "j \<in> T - {} \<Longrightarrow> stopped r2"
      "leased_status (ar_status r1) \<Longrightarrow> leased_status (ar_status r2)" using bc r1(1) by (rule stops_get) blast
    have "j \<notin> S \<union> T \<longrightarrow> r2 = r" using r1(2) r2(2) by simp
    moreover have "j \<in> S \<union> T \<longrightarrow> stopped r2" using r1(3) r2(2,3) by (cases "j \<in> T") auto
    ultimately show ?thesis using Some r2(1,4) r1(4) by simp
  qed
  then show ?thesis unfolding stops_def by blast
qed

lemma put_run_in_iff:
  assumes "run_inv db" and "get_run i db = Some run" and "ar_id run' = i"
  shows "c \<in> set (db_runs (put_run run' db)) \<longleftrightarrow> c = run' \<or> c \<in> set (db_runs db) \<and> ar_id c \<noteq> i"
  using assms get_run_in[OF assms(2)] get_run_id[OF assms(2)]
  by (auto simp: db_runs_put_run set_update_where)

lemma tree_member_put_run:
  assumes inv: "run_inv db" and run: "get_run i db = Some run" and id: "ar_id run' = i"
    and act: "\<not> terminal (ar_status run') \<Longrightarrow> \<not> terminal (ar_status run)"
    and same: "ar_created_by_run_id run' = ar_created_by_run_id run"
      "in_scope uid key sids run' = in_scope uid key sids run"
  shows "insert i (in_tree uid key sids (put_run run' db) i) = insert i (in_tree uid key sids db i)"
proof -
  note mem = put_run_in_iff[OF inv run id]
  have "j = i \<or> tree_member uid key sids db i j" if "tree_member uid key sids (put_run run' db) i j" for j
    using that
  proof induction
    case (child p c)
    show ?case
    proof (cases "c = run'")
      case False
      then have "c \<in> set (db_runs db)" using child(2) mem by blast
      moreover have "p = i \<or> tree_member uid key sids db i p" using child(1) by blast
      ultimately show ?thesis using child(3-5) by (blast intro: tree_member.child)
    qed (simp add: id)
  qed
  moreover have "j = i \<or> tree_member uid key sids (put_run run' db) i j"
    if "tree_member uid key sids db i j" for j
    using that
  proof induction
    case (child p c)
    show ?case
    proof (cases "ar_id c = i")
      case False
      then have "c \<in> set (db_runs (put_run run' db))" using child(2) mem by blast
      moreover have "p = i \<or> tree_member uid key sids (put_run run' db) i p" using child(1) by blast
      ultimately show ?thesis using child(3-5) by (blast intro: tree_member.child)
    qed simp
  qed
  ultimately show ?thesis by (auto simp: in_tree_def)
qed

lemma tree_member_same_runs:
  "tree_member uid key sids a rid j \<Longrightarrow> db_runs a = db_runs b \<Longrightarrow> tree_member uid key sids b rid j"
  by (induction rule: tree_member.induct) (auto intro: tree_member.child)

lemma tree_member_cong:
  "db_runs db = db_runs db' \<Longrightarrow> in_tree uid key sids db rid = in_tree uid key sids db' rid"
  using tree_member_same_runs[of uid key sids db rid _ db'] tree_member_same_runs[of uid key sids db' rid _ db]
  by (auto simp: in_tree_def)

lemma scopes_put_run [simp]:
  "db_scopes (put_run r db) = db_scopes db"
  "db_scopes (project_input_delivery_status r db) = db_scopes db"
  by (simp_all add: put_run_def project_input_delivery_status_def split: option.split)

lemma request_cancel_locked_stops:
  assumes inv: "run_inv db" and run: "get_run i db = Some run"
    and op: "request_cancel_locked run now db = (run', db1)"
  shows "stops {} {i} db db1" and "get_run i db1 = Some run'" and "stopped run'"
    and "insert i (tree_of run' db1) = insert i (tree_of run db)"
proof -
  have id: "ar_id run' = i" and st: "stopped run'"
    and keep: "ar_uid run' = ar_uid run" "ar_run_type run' = ar_run_type run"
      "ar_runtime_scope_id run' = ar_runtime_scope_id run"
      "ar_created_by_run_id run' = ar_created_by_run_id run"
    and act: "\<not> terminal (ar_status run') \<Longrightarrow> \<not> terminal (ar_status run)"
    and lease: "leased_status (ar_status run) \<Longrightarrow> leased_status (ar_status run')"
    and sc: "db_scopes db1 = db_scopes db"
    using op get_run_id[OF run]
    by (auto simp: request_cancel_locked_def Let_def stopped_def never_started_def split: if_splits)
  have "update_where (\<lambda>x. ar_id x = i) (\<lambda>_. run) (db_runs db) = db_runs db"
    by (rule update_where_id) (use run_by_id_unique[OF inv _ get_run_in[OF run]] get_run_id[OF run] in auto)
  then have runs: "db_runs db1 = db_runs (put_run run' db)"
    using op get_run_id[OF run] by (auto simp: request_cancel_locked_def db_runs_put_run Let_def split: if_splits)
  have get: "get_run j db1 = get_run j (put_run run' db)" for j using runs by (rule get_run_cong)
  show g: "get_run i db1 = Some run'" using get get_run_put_run_same[OF run id] by simp
  show "stops {} {i} db db1" unfolding stops_def
  proof (intro conjI allI)
    fix j
    show "case get_run j db of None \<Rightarrow> get_run j db1 = None
      | Some r \<Rightarrow> \<exists>r'. get_run j db1 = Some r' \<and> (j \<notin> {i} - {} \<longrightarrow> r' = r) \<and> (j \<in> {i} - {} \<longrightarrow> stopped r')
          \<and> (leased_status (ar_status r) \<longrightarrow> leased_status (ar_status r'))"
    proof (cases "j = i")
      case True
      then show ?thesis using run g st lease by simp
    next
      case False
      then have "get_run j db1 = get_run j db" using get[of j] get_run_put_run_other[of run' j db] id by simp
      then show ?thesis using False by (simp split: option.split)
    qed
  qed simp
  show "stopped run'" by (rule st)
  have "scope_key_of_root run' db1 = scope_key_of_root run db"
    using sc id get_run_id[OF run] keep by (simp add: scope_key_of_root_def cong: option.case_cong)
  moreover have "scope_run_ids k db1 = scope_run_ids k db" for k using sc by (simp add: scope_run_ids_def)
  moreover have "in_scope u k l run' = in_scope u k l run" for u k l
    using keep id get_run_id[OF run] by (simp add: in_scope_def)
  ultimately show "insert i (tree_of run' db1) = insert i (tree_of run db)"
    using tree_member_put_run[OF inv run id act keep(4)] tree_member_cong[OF runs] keep id get_run_id[OF run]
    by (simp add: tree_of_def)
qed

lemma cancel_execution_tree_stops:
  assumes inv: "run_inv db" and run: "lock_run_for_user i uid db = Some run"
    and op: "request_cancel_execution_tree i uid True now clk db = ((res, ids), db')"
  shows "stops {} (insert i (tree_of run db)) db db'"
proof -
  have get: "get_run i db = Some run" using lock_run_for_user_get[OF inv run] by simp
  obtain run' db1 where c: "request_cancel_locked run now db = (run', db1)" by force
  note one = request_cancel_locked_stops[OF inv get c]
  have inv1: "run_inv db1" by (rule good_step_inv[OF request_cancel_locked_good[OF inv get c]])
  obtain d where "cancel_active_execution_tree_descendants run' clk db1 = (d, db')"
    using op run c by (auto simp: request_cancel_execution_tree_def split: prod.splits)
  then have "stops {} (tree_of run' db1) db1 db'" by (rule cancel_descendants_stops[OF inv1])
  with one(1) have "stops {} ({i} \<union> tree_of run' db1) db db'" by (rule stops_union)
  with one(4) show ?thesis by simp
qed

section \<open>Reconciliation\<close>

lemma good_step_get:
  assumes "run_inv a" and "good_step a b" and "get_run j a = Some r"
  obtains r' where "get_run j b = Some r'" "run_evolves r r'"
proof -
  have "evolves run_evolves (db_runs a) (db_runs b)" using assms(2) by (simp add: good_step_def)
  then obtain r' where r': "r' \<in> set (db_runs b)" "run_evolves r r'"
    using get_run_in[OF assms(3)] by (rule evolves_in)
  then have "ar_id r' = j" using get_run_id[OF assms(3)] by (simp add: run_evolves_def run_identity_def)
  then have "get_run j b = Some r'" using get_run_iff[OF good_step_inv[OF assms(2)]] r' by simp
  then show thesis using r'(2) by (rule that)
qed

definition lease_failed :: "time \<Rightarrow> agent_run \<Rightarrow> bool" where
  "lease_failed now r \<longleftrightarrow> ar_status r = Failed \<and> ar_error_type r = Some (lit ''worker_lease_expired'')
     \<and> ar_finished_at r = Some now"

lemma lease_failed_final: "lease_failed now r \<Longrightarrow> run_evolves r r' \<Longrightarrow> lease_failed now r'"
  by (auto simp: lease_failed_def run_evolves_def terminal_facts_def)

lemma get_run_fail_lost_run:
  "get_run j (fail_lost_run run run' now db) = get_run j (put_run run' db)"
  by (rule get_run_cong) (simp add: fail_lost_run_def)

lemma reconcile_loop_fails:
  assumes "reconcile_loop now clk ids rec can db = ((rec', can'), db')" and "run_inv db"
    and "distinct ids"
    and "\<And>j. j \<in> set ids \<Longrightarrow> \<exists>r. get_run j db = Some r \<and> leased_status (ar_status r)"
  shows "rec' = rec @ ids \<and> (\<forall>j\<in>set ids. \<exists>r. get_run j db' = Some r \<and> lease_failed now r)"
  using assms
proof (induction now clk ids rec can db rule: reconcile_loop.induct)
  case (2 now clk i rest rec can db)
  obtain run where run: "get_run i db = Some run" "leased_status (ar_status run)" using 2(7)[of i] by auto
  then have act: "\<not> terminal (ar_status run)" by (cases "ar_status run") auto
  define run' where "run' = run\<lparr>ar_status := Failed, ar_error_type := Some (lit ''worker_lease_expired''),
      ar_error_message := Some msg_lease_expired_run, ar_finished_at := Some now,
      ar_updated_at := Some now, ar_worker_id := None, ar_heartbeat_at := None,
      ar_lease_expires_at := None, ar_runtime_cleanup_pending := (ar_run_type run \<noteq> Subagent)\<rparr>"
  let ?f = "fail_lost_run run run' now db"
  obtain d db1 where d: "cancel_active_execution_tree_descendants run' (clk i) ?f = (d, db1)" by force
  have gf: "good_step db ?f" unfolding run'_def by (rule fail_lost_run_good[OF 2(5) run(1) act])
  have g1: "good_step ?f db1" using good_step_inv[OF gf] d by (rule cancel_descendants_good)
  have loop: "reconcile_loop now clk rest (rec @ [i]) (can @ d) db1 = ((rec', can'), db')"
    using 2(4) run act d by (simp add: run'_def)
  have g2: "good_step db1 db'" using good_step_inv[OF g1] loop by (rule reconcile_loop_good)
  have id: "ar_id run' = i" using get_run_id[OF run(1)] by (simp add: run'_def)
  have "get_run i ?f = Some run'"
    unfolding get_run_fail_lost_run using run(1) id by (rule get_run_put_run_same)
  moreover have "lease_failed now run'" by (simp add: lease_failed_def run'_def)
  ultimately have i: "\<exists>r. get_run i db' = Some r \<and> lease_failed now r"
    using good_step_get[OF good_step_inv[OF gf] good_step_trans[OF g1 g2]] lease_failed_final by metis
  obtain S where S: "stops {} S ?f db1" using cancel_descendants_stops[OF good_step_inv[OF gf] d] by blast
  have "rec' = (rec @ [i]) @ rest \<and> (\<forall>j\<in>set rest. \<exists>r. get_run j db' = Some r \<and> lease_failed now r)"
  proof (rule 2(3)[OF run(1) act run'_def d[symmetric] loop good_step_inv[OF g1]])
    show "\<exists>r. get_run j db1 = Some r \<and> leased_status (ar_status r)" if j: "j \<in> set rest" for j
    proof -
      have "ar_id run' \<noteq> j" using 2(6) j id by auto
      then obtain r where "get_run j ?f = Some r" "leased_status (ar_status r)"
        using 2(7)[of j] j by (auto simp: get_run_fail_lost_run get_run_put_run_other)
      then show ?thesis using stops_get[OF S] by metis
    qed
  qed (use 2(6) in simp)
  with i show ?case by simp
qed simp

lemma lost_owner_leased: "lost_owner now r \<Longrightarrow> leased_status (ar_status r)"
  by (auto simp: lost_owner_def)

lemma reconcile_fails_lost:
  assumes inv: "run_inv db" and op: "reconcile_expired_leases locked now clk db = ((rec, can), db')"
    and r: "r \<in> set (db_runs db)" "lost_owner now r" "ar_id r \<notin> set locked"
  shows "ar_id r \<in> set rec \<and> (\<exists>r'. get_run (ar_id r) db' = Some r' \<and> lease_failed now r')"
proof -
  let ?ids = "map ar_id (sort_key (\<lambda>r. ar_created_by_run_id r \<noteq> None)
    (filter (\<lambda>r. lost_owner now r \<and> ar_id r \<notin> set locked) (db_runs db)))"
  have loop: "reconcile_loop now clk ?ids [] [] db = ((rec, can), db')"
    using op by (simp add: reconcile_expired_leases_def Let_def)
  have "distinct ?ids" using run_inv_distinct[OF inv] by (auto simp: distinct_map inj_on_def)
  moreover have "\<exists>r. get_run j db = Some r \<and> leased_status (ar_status r)" if "j \<in> set ?ids" for j
    using that get_run_iff[OF inv] lost_owner_leased by force
  ultimately have "rec = [] @ ?ids \<and> (\<forall>j\<in>set ?ids. \<exists>r. get_run j db' = Some r \<and> lease_failed now r)"
    by (rule reconcile_loop_fails[OF loop inv])
  then show ?thesis using r by auto
qed

end
