(* ===== verification/Run_Properties.thy ===== *)
theory Run_Properties
  imports Run_Tree
begin

text \<open>
  The properties of the run component, each with a witness on a small database: a chat run
  \<open>[101]\<close> of the user \<open>[107]\<close> in the conversation thread \<open>[109]\<close>, claimed by the worker \<open>[150]\<close> at
  time 100 for 60 seconds, with a sub-agent run \<open>[102]\<close> that it created.
\<close>

section \<open>A small database\<close>

definition demo_thread :: subagent_thread where
  "demo_thread = \<lparr>st_id = 3, st_uid = [107], st_parent_conversation_id = 1, st_child_conversation_id = 2,
     st_child_thread_id = [108], st_subagent_slug = [106], st_created_by_run_id = [101],
     st_created_at = Some 0, st_updated_at = Some 0\<rparr>"

definition demo_message :: "int \<Rightarrow> message_role \<Rightarrow> message_type \<Rightarrow> message" where
  "demo_message i role mt = \<lparr>ms_id = i, ms_conversation_id = 1, ms_role = role, ms_content = [65],
     ms_message_type = mt, ms_created_at = Some 0, ms_token_count = None, ms_extra_metadata = None,
     ms_image_content = None, ms_run_id = Some [101], ms_request_id = Some [121],
     ms_delivery_status = Delivery_dispatched, ms_operation_id = None, ms_started_at = Some 5,
     ms_finished_at = None, ms_duration_ms = None, ms_sequence = None,
     ms_execution_status = (if mt = Model_audit then Some Exec_running else None), ms_usage = None\<rparr>"

definition demo_start :: run_db where
  "demo_start = empty_run_db\<lparr>db_subagent_threads := [demo_thread],
     db_messages := [demo_message 1 (Other_role [117]) (Other_message []),
                     demo_message 2 Assistant (Other_message []), demo_message 4 Assistant Model_audit]\<rparr>"

definition ok_db :: "'x rdb \<Rightarrow> run_error + 'x rdb \<times> 'r \<Rightarrow> 'x rdb" where
  "ok_db db res = (case res of Inl _ \<Rightarrow> db | Inr (db', _) \<Rightarrow> db')"

definition demo_created :: run_db where
  "demo_created = ok_db demo_start (create_run [101] [109] None [105] [107] [121] json_empty [0] [0] None None
     (Some 1) None None Chat (Some 1) 90 demo_start)"

definition demo_claimed :: run_db where
  "demo_claimed = ok_db demo_created (mark_running [101] [150] 60 100 101 demo_created)"

definition demo_tree :: run_db where
  "demo_tree = ok_db demo_claimed (create_run [102] [108] (Some [109]) [106] [107] [122] json_empty [0] [0] None None
     (Some 2) (Some [101]) (Some 3) Subagent None 102 demo_claimed)"

lemmas demo_defs = demo_start_def empty_run_db_def demo_message_def demo_thread_def ok_db_def
  create_run_def mark_running_def get_run_def put_run_def initial_claim_def same_live_owner_def
  add_attempt_def close_open_attempts_def run_shape_ok_def one_active_per_thread_def active_key_def
  py_strip_def is_space_def max_int_def or_obj_def Let_def

lemma demo_created_reach: "run_step\<^sup>*\<^sup>* demo_start demo_created"
  by (rule r_into_rtranclp, cases "create_run [101] [109] None [105] [107] [121] json_empty [0] [0] None None
     (Some 1) None None Chat (Some 1) 90 demo_start")
     (auto simp: demo_created_def ok_db_def intro: run_step.create run_step.environment)

lemma demo_claimed_reach: "run_step\<^sup>*\<^sup>* demo_start demo_claimed"
  by (rule rtranclp.rtrancl_into_rtrancl[OF demo_created_reach], cases "mark_running [101] [150] 60 100 101 demo_created")
     (auto simp: demo_claimed_def ok_db_def intro: run_step.claim run_step.environment)

lemma demo_tree_reach: "run_step\<^sup>*\<^sup>* demo_start demo_tree"
  by (rule rtranclp.rtrancl_into_rtrancl[OF demo_claimed_reach],
      cases "create_run [102] [108] (Some [109]) [106] [107] [122] json_empty [0] [0] None None
     (Some 2) (Some [101]) (Some 3) Subagent None 102 demo_claimed")
     (auto simp: demo_tree_def ok_db_def intro: run_step.create run_step.environment)

lemma demo_start_ok: "run_start demo_start"
  by (simp add: demo_defs run_start_def)

lemma demo_inv [simp]: "run_inv demo_created" "run_inv demo_claimed" "run_inv demo_tree"
  using run.reachable_inv[OF demo_start_ok] demo_created_reach demo_claimed_reach demo_tree_reach by blast+

definition demo_root :: agent_run where
  "demo_root = \<lparr>ar_id = [101], ar_conversation_thread_id = [109], ar_runtime_scope_id = [109],
     ar_runtime_cleanup_pending = False, ar_agent_slug = [105], ar_uid = [107], ar_status = Running,
     ar_request_id = [121], ar_source = [0], ar_channel = [0], ar_external_id = None,
     ar_origin_metadata = json_empty, ar_conversation_id = Some 1, ar_created_by_run_id = None,
     ar_subagent_thread_relation_id = None, ar_run_type = Chat, ar_input_message_id = Some 1,
     ar_output_message_id = None, ar_input_payload = json_empty, ar_token_usage = json_empty,
     ar_langfuse_trace_id = None, ar_error_type = None, ar_error_message = None,
     ar_worker_id = Some [150], ar_heartbeat_at = Some 100, ar_lease_expires_at = Some 60000100,
     ar_manifest = None, ar_manifest_fingerprint = None, ar_manifest_recorded_at = None,
     ar_started_at = Some 100, ar_prepared_at = None, ar_first_model_request_at = None,
     ar_first_output_at = None, ar_finished_at = None, ar_created_at = Some 90,
     ar_updated_at = Some 100\<rparr>"

lemma demo_claimed_root: "get_run [101] demo_claimed = Some demo_root"
  by (simp add: demo_claimed_def demo_created_def demo_defs demo_root_def)

definition demo_child :: agent_run where
  "demo_child = demo_root\<lparr>ar_id := [102], ar_conversation_thread_id := [108], ar_agent_slug := [106],
     ar_status := Pending, ar_request_id := [122], ar_conversation_id := Some 2,
     ar_created_by_run_id := Some [101], ar_subagent_thread_relation_id := Some 3,
     ar_run_type := Subagent, ar_input_message_id := None, ar_worker_id := None,
     ar_heartbeat_at := None, ar_lease_expires_at := None, ar_started_at := None,
     ar_created_at := Some 102, ar_updated_at := Some 102\<rparr>"

lemma demo_tree_eq: "demo_tree = demo_claimed\<lparr>db_runs := [demo_root, demo_child]\<rparr>"
  by (simp add: demo_tree_def demo_claimed_def demo_created_def demo_defs demo_root_def demo_child_def)

lemma demo_tree_runs: "get_run [101] demo_tree = Some demo_root" "get_run [102] demo_tree = Some demo_child"
  by (simp_all add: demo_tree_eq get_run_def demo_root_def demo_child_def)

section \<open>Invariant, refinement and history\<close>

lemma terminal_not_leased: "terminal s \<Longrightarrow> \<not> leased_status s"
  by (cases s) auto

text \<open>
  C1: starting from empty run tables, after any sequence of repository operations (and writes of
  other services to the other tables) every run and attempt satisfies \<open>run_inv\<close>: unique ids and
  request ids, at most one active run per user, agent and conversation thread, the nonterminal
  shape constraint, lease columns set together and only while leased, finish time iff terminal,
  timing facts in order, attempts numbered uniquely per run, and each run's open attempts are
  exactly its current owner's.
\<close>

theorem run_tables_invariant:
  assumes "run_start db" and "run_step\<^sup>*\<^sup>* db db'"
  shows "run_inv db'"
  by (rule run.reachable_inv[OF assms])

theorem run_tables_invariant_witness: "run_inv demo_tree \<and> length (db_runs demo_tree) = 2"
  using run_tables_invariant[OF demo_start_ok demo_tree_reach] by (simp add: demo_tree_eq)

text \<open>
  C2: a run moves only along the abstract life cycle \<open>run_lifecycle\<close>; whatever sequence of
  operations runs, its identity columns never change and the write-once facts (manifest, start,
  preparation, first model request, first output, trace id) are never overwritten.
\<close>

theorem run_refines_lifecycle:
  assumes "run_inv db" and "run_step\<^sup>*\<^sup>* db db'" and "get_run i db = Some r"
  shows "\<exists>r'. get_run i db' = Some r' \<and> run_lifecycle\<^sup>*\<^sup>* (ar_status r) (ar_status r')
    \<and> run_identity r' = run_identity r \<and> once_facts r r'"
proof -
  obtain r' where "get_run i db' = Some r'" "run_evolves r r'"
    using good_step_get[OF assms(1) run.steps_rel[OF assms(2,1)] assms(3)] .
  then show ?thesis by (auto simp: run_evolves_def)
qed

definition demo_cancelled :: run_db where
  "demo_cancelled = snd (request_cancel_execution_tree [101] [107] True 200 201 demo_tree)"

lemma demo_cancelled_step: "run_step\<^sup>*\<^sup>* demo_tree demo_cancelled"
  unfolding demo_cancelled_def by (rule r_into_rtranclp, rule run_step.cancel, rule surjective_pairing)

theorem run_refines_lifecycle_witness:
  "\<exists>r'. get_run [101] demo_cancelled = Some r' \<and> run_lifecycle\<^sup>*\<^sup>* Running (ar_status r')
    \<and> run_identity r' = run_identity demo_root \<and> once_facts demo_root r'"
proof -
  have "ar_status demo_root = Running" by (simp add: demo_root_def)
  then show ?thesis
    using run_refines_lifecycle[OF demo_inv(3) demo_cancelled_step demo_tree_runs(1)] by simp
qed

text \<open>
  once a run is terminal, no later operation changes its status, finish time, error, token
  usage, output message or trace id, and no worker ever owns it again.
\<close>

theorem terminal_run_frozen:
  assumes "run_inv db" and "run_step\<^sup>*\<^sup>* db db'" and "get_run i db = Some r"
    and "terminal (ar_status r)"
  shows "\<exists>r'. get_run i db' = Some r' \<and> terminal_facts r' = terminal_facts r \<and> ar_worker_id r' = None"
proof -
  obtain r' where r': "get_run i db' = Some r'" "run_evolves r r'"
    using good_step_get[OF assms(1) run.steps_rel[OF assms(2,1)] assms(3)] .
  then have f: "terminal_facts r' = terminal_facts r" using assms(4) by (simp add: run_evolves_def)
  then have "\<not> leased_status (ar_status r')"
    using terminal_not_leased[OF assms(4)] by (simp add: terminal_facts_def)
  then have "ar_worker_id r' = None"
    using get_run_row_ok[OF run.steps_inv[OF assms(2,1)] r'(1)] by (auto simp: row_defs)
  with f r'(1) show ?thesis by simp
qed

lemma demo_cancelled_eq:
  "demo_cancelled = demo_tree\<lparr>db_runs := [demo_root\<lparr>ar_status := Cancel_requested, ar_updated_at := Some 200\<rparr>,
     demo_child\<lparr>ar_status := Cancelled, ar_error_type := Some (lit ''execution_tree_closed''),
       ar_error_message := Some msg_tree_closed, ar_finished_at := Some 201, ar_updated_at := Some 201\<rparr>]\<rparr>"
  by (simp add: demo_cancelled_def demo_tree_eq request_cancel_execution_tree_def lock_run_for_user_def
      demo_root_def demo_child_def request_cancel_locked_def never_started_def put_run_def Let_def
      cancel_active_execution_tree_descendants_def scope_key_of_root_def scope_run_ids_def
      cancel_tree_loop.simps active_children_def oldest_first_def created_key_def cancel_child_def
      project_input_delivery_status_def close_open_attempts_def demo_claimed_def demo_created_def demo_defs)

theorem terminal_run_frozen_witness:
  "\<exists>r'. get_run [102] (snd (reconcile_expired_leases [] 999999999 (\<lambda>_. 999999999) demo_cancelled)) = Some r'
    \<and> ar_status r' = Cancelled \<and> ar_worker_id r' = None"
proof -
  define c where "c = demo_child\<lparr>ar_status := Cancelled, ar_error_type := Some (lit ''execution_tree_closed''),
    ar_error_message := Some msg_tree_closed, ar_finished_at := Some 201, ar_updated_at := Some 201\<rparr>"
  have "get_run [102] demo_cancelled = Some c"
    by (simp add: demo_cancelled_eq get_run_def demo_root_def demo_child_def c_def)
  moreover have "run_inv demo_cancelled" using run.steps_inv[OF demo_cancelled_step] by simp
  moreover have "run_step\<^sup>*\<^sup>* demo_cancelled (snd (reconcile_expired_leases [] 999999999 (\<lambda>_. 999999999) demo_cancelled))"
    by (rule r_into_rtranclp, rule run_step.reconcile, rule surjective_pairing)
  ultimately show ?thesis using terminal_run_frozen[of demo_cancelled _ "[102]" c]
    by (force simp: c_def terminal_facts_def)
qed

text \<open>
  the attempt table is an append-only history. No attempt is ever removed, renumbered or
  reassigned, and an attempt that is closed is never changed again.
\<close>

theorem attempts_append_only:
  assumes "run_inv db" and "run_step\<^sup>*\<^sup>* db db'" and "n < length (db_attempts db)"
  shows "n < length (db_attempts db')
    \<and> attempt_identity (db_attempts db' ! n) = attempt_identity (db_attempts db ! n)
    \<and> (\<not> open_attempt (db_attempts db ! n) \<longrightarrow> db_attempts db' ! n = db_attempts db ! n)"
proof -
  have e: "evolves attempt_evolves (db_attempts db) (db_attempts db')"
    using run.steps_rel[OF assms(2,1)] by (simp add: good_step_def)
  then have "attempt_evolves (db_attempts db ! n) (take (length (db_attempts db)) (db_attempts db') ! n)"
    using assms(3) by (auto simp: evolves_def dest: list_all2_nthD)
  then show ?thesis using assms(3) evolves_length[OF e] by (auto simp: attempt_evolves_def)
qed

theorem attempts_append_only_witness:
  "0 < length (db_attempts demo_claimed) \<and> 0 < length (db_attempts demo_tree)
    \<and> attempt_identity (db_attempts demo_tree ! 0) = attempt_identity (db_attempts demo_claimed ! 0)"
proof -
  have "db_attempts demo_claimed = db_attempts demo_tree" by (simp add: demo_tree_eq)
  then have "run_step\<^sup>*\<^sup>* demo_claimed demo_tree"
    by (intro r_into_rtranclp) (rule run_step.create[of "[102]" "[108]" "Some [109]" "[106]" "[107]" "[122]" json_empty
      "[0]" "[0]" None None "Some 2" "Some [101]" "Some 3" Subagent None 102],
      simp add: demo_tree_def demo_claimed_def demo_created_def demo_defs)
  moreover have "0 < length (db_attempts demo_claimed)"
    by (simp add: demo_claimed_def demo_created_def demo_defs)
  ultimately show ?thesis using attempts_append_only[OF demo_inv(2)] by blast
qed

section \<open>Leases\<close>

text \<open>
  C3: mutual exclusion of workers. Whatever workers ask for a run one after the other, each at
  its own time but all within one lease duration of each other, at most one of them is granted it.
\<close>

theorem run_claims_single_winner:
  assumes "run_inv db" and "distinct (map fst reqs)"
    and "\<And>w t w' t'. (w, t) \<in> set reqs \<Longrightarrow> (w', t') \<in> set reqs \<Longrightarrow> t' < t + timedelta_seconds ls"
  shows "length (fst (contend (claim_run ls clk i) reqs db)) \<le> 1"
  using run_lease.at_most_one_winner[OF assms(1,2), where ls = ls] assms(3) by blast

theorem run_claims_single_winner_witness:
  "length (fst (contend (claim_run 60 0 [101]) [([150], 100), ([151], 101), ([152], 102)] demo_created)) \<le> 1"
  by (rule run_claims_single_winner) auto

definition unchanged :: "'x rdb \<Rightarrow> run_error + 'x rdb \<times> 'r \<Rightarrow> bool" where
  "unchanged db res \<longleftrightarrow> (case res of Inl _ \<Rightarrow> True | Inr (db', _) \<Rightarrow> db' = db)"

text \<open>
  C4: fencing. While a run has an owner, a worker that is not this owner, or whose own lease has
  expired, changes nothing: it cannot claim, renew, release or finish the run, and its writes of
  trace id, output, manifest and timing facts are refused or ignored.
\<close>

theorem stale_worker_fenced:
  assumes inv: "run_inv db" and run: "get_run i db = Some run" and owned: "ar_worker_id run \<noteq> None"
    and stale: "\<not> (ar_worker_id run = Some w \<and> lease_live run now)"
  shows "(unchanged db (mark_running i w ls now clk db) \<and> unchanged db (renew_lease i w ls now db)
      \<and> release_lease_for_retry i w now db = (db, False)
      \<and> (terminal st \<longrightarrow> set_terminal_status i st et em tu (Some w) now clk db = Inr (db, Some run, False)))
    \<and> unchanged db (set_langfuse_trace_id i tr w now db) \<and> unchanged db (set_output_message i mid w now db)
    \<and> unchanged db (record_run_manifest i m fp w now db) \<and> unchanged db (record_prepared i w obs now db)
    \<and> unchanged db (record_first_model_request i w obs now db) \<and> unchanged db (record_first_output i w obs now db)"
    (is "(?claim \<and> ?renew \<and> ?release \<and> ?finish) \<and> ?trace \<and> ?out \<and> ?manifest \<and> ?prepared \<and> ?request \<and> ?first")
proof -
  have leased: "leased_status (ar_status run)" "\<not> initial_claim run" "\<not> same_live_owner run w now"
    using get_run_row_ok[OF inv run] owned stale by (auto simp: row_defs initial_claim_def same_live_owner_def)
  have req: "\<exists>e. require_lease_owner run w now a = Inl e" for a using stale by (simp add: require_lease_owner_def)
  have ?claim using run leased by (simp add: mark_running_def unchanged_def)
  moreover have ?renew using run stale by (auto simp: renew_lease_def unchanged_def)
  moreover have ?release using run stale by (auto simp: release_lease_for_retry_def)
  moreover have ?finish
    using run leased(1) stale terminal_not_leased[of "ar_status run"]
    by (auto simp: set_terminal_status_def terminal_refused_def)
  moreover have ?trace using run req[of act_trace] by (auto simp: set_langfuse_trace_id_def unchanged_def Let_def)
  moreover have ?out using run req[of act_output] by (auto simp: set_output_message_def unchanged_def)
  moreover have ?manifest using run req[of act_manifest] by (auto simp: record_run_manifest_def unchanged_def)
  moreover have ?prepared using run req[of act_prepared] by (auto simp: record_prepared_def unchanged_def)
  moreover have ?request using run stale by (auto simp: record_first_model_request_def unchanged_def)
  moreover have ?first using run req[of act_first_output] by (auto simp: record_first_output_def unchanged_def)
  ultimately show ?thesis by blast
qed

theorem stale_worker_fenced_witness:
  "release_lease_for_retry [101] [151] 200 demo_claimed = (demo_claimed, False)
   \<and> set_terminal_status [101] Failed None None None (Some [150]) 99999999 0 demo_claimed
     = Inr (demo_claimed, Some demo_root, False)"
proof -
  have "ar_worker_id demo_root \<noteq> None" "\<not> (ar_worker_id demo_root = Some [151] \<and> lease_live demo_root 200)"
    "\<not> (ar_worker_id demo_root = Some [150] \<and> lease_live demo_root 99999999)"
    by (simp_all add: demo_root_def lease_live_def)
  note own = this
  show ?thesis
    using stale_worker_fenced[OF demo_inv(2) demo_claimed_root own(1,2)]
      stale_worker_fenced[OF demo_inv(2) demo_claimed_root own(1,3), where st = Failed] by simp
qed

text \<open>
  what a claim gives. A successful \<^verbatim>\<open>mark_running\<close> was made on an active run without a pending
  runtime cleanup; afterwards the worker owns the run until \<open>now\<close> plus the lease duration, its
  attempt is the only open one, a pending run is running and a cancel request is kept.
\<close>

theorem mark_running_grants:
  assumes inv: "run_inv db" and op: "mark_running i w ls now clk db = Inr (db', res, True)"
  shows "\<exists>run run'. get_run i db = Some run \<and> get_run i db' = Some run' \<and> res = Some run'
    \<and> \<not> ar_runtime_cleanup_pending run \<and> (ar_worker_id run = None \<or> ar_worker_id run = Some w)
    \<and> ar_worker_id run' = Some w \<and> ar_lease_expires_at run' = Some (now + timedelta_seconds ls)
    \<and> open_workers i (db_attempts db') = [w]
    \<and> ar_status run' = (if ar_status run = Cancel_requested then Cancel_requested else Running)"
proof -
  obtain run run' where r: "get_run i db = Some run" "get_run i db' = Some run'" "res = Some run'"
      "\<not> terminal (ar_status run)" "\<not> ar_runtime_cleanup_pending run"
    and own: "initial_claim run \<or> same_live_owner run w now"
    and r': "ar_worker_id run' = Some w" "ar_lease_expires_at run' = Some (now + timedelta_seconds ls)"
      "ar_status run' = (if ar_status run = Pending then Running else ar_status run)"
    using op by (rule mark_running_claimed)
  have "open_workers i (db_attempts db') = [w]"
    using get_run_owner[OF good_step_inv[OF mark_running_good[OF inv op]] r(2)] r'(1) by (simp add: owner_list_def)
  moreover have "ar_worker_id run = None \<or> ar_worker_id run = Some w"
    using own get_run_row_ok[OF inv r(1)] by (auto simp: initial_claim_def same_live_owner_def row_defs)
  moreover have "ar_status run = Pending \<or> ar_status run = Running \<or> ar_status run = Cancel_requested"
    using get_run_row_ok[OF inv r(1)] r(4) by (rule known_active)
  ultimately show ?thesis using r r' by auto
qed

theorem mark_running_grants_witness:
  "open_workers [101] (db_attempts demo_claimed) = [[150]] \<and> ar_status demo_root = Running"
proof -
  have "mark_running [101] [150] 60 100 101 demo_created = Inr (demo_claimed, Some demo_root, True)"
    by (simp add: demo_claimed_def demo_created_def demo_defs demo_root_def)
  from mark_running_grants[OF demo_inv(1) this] show ?thesis by (auto simp: demo_root_def)
qed

text \<open>
  retry fence. When the owner of a chat or resume run releases it for retry, no worker can
  claim the run again until the runtime cleanup owner clears the fence; after that any worker can.
\<close>

theorem retry_waits_for_cleanup:
  assumes inv: "run_inv db" and op: "release_lease_for_retry i w now db = (db', True)"
    and run: "get_run i db = Some run" "ar_run_type run \<noteq> Subagent"
    and w': "py_strip w' \<noteq> []" and ls: "0 < ls"
  shows "snd (claim_run ls clk i w' t db') = False \<and> fst (claim_run ls clk i w' t db') = db'
    \<and> snd (claim_run ls clk i w' t (clear_cleanup_fence i c db')) = True"
proof -
  define run' where "run' = run\<lparr>ar_status := Pending, ar_worker_id := None, ar_heartbeat_at := None,
      ar_lease_expires_at := None, ar_runtime_cleanup_pending := True, ar_updated_at := Some now\<rparr>"
  have "db_runs db' = db_runs (put_run run' db)"
    using op run by (auto simp: release_lease_for_retry_def run'_def Let_def split: if_splits)
  then have "get_run i db' = get_run i (put_run run' db)" by (rule get_run_cong)
  also have "\<dots> = Some run'" using run(1) by (rule get_run_put_run_same) (simp add: run'_def get_run_id[OF run(1)])
  finally have get: "get_run i db' = Some run'" .
  let ?free = "run'\<lparr>ar_runtime_cleanup_pending := False, ar_updated_at := Some c\<rparr>"
  have free: "get_run i (clear_cleanup_fence i c db') = Some ?free"
    using get get_run_put_run_same[OF get, of ?free] get_run_id[OF get]
    by (simp add: clear_cleanup_fence_def run'_def)
  show ?thesis
    using get free w' ls by (simp add: claim_run_def mark_running_def run'_def initial_claim_def Let_def)
qed

definition demo_released :: run_db where
  "demo_released = fst (release_lease_for_retry [101] [150] 200 demo_claimed)"

theorem retry_waits_for_cleanup_witness:
  "snd (claim_run 60 0 [101] [151] 300 demo_released) = False
   \<and> snd (claim_run 60 0 [101] [151] 300 (clear_cleanup_fence [101] 299 demo_released)) = True"
proof -
  have "snd (release_lease_for_retry [101] [150] 200 demo_claimed) = True"
    by (simp add: release_lease_for_retry_def demo_claimed_root demo_root_def lease_live_def Let_def)
  then have "release_lease_for_retry [101] [150] 200 demo_claimed = (demo_released, True)"
    by (simp add: demo_released_def prod_eq_iff)
  moreover have "ar_run_type demo_root \<noteq> Subagent" by (simp add: demo_root_def)
  moreover have "py_strip [151] \<noteq> []" by (simp add: py_strip_def is_space_def)
  ultimately show ?thesis
    using retry_waits_for_cleanup[OF demo_inv(2) _ demo_claimed_root, of "[150]" 200 demo_released "[151]" 60] by simp
qed

section \<open>Convergence and cancellation\<close>

text \<open>
  reconciliation. Every run that lost its owner (running or being cancelled with a lease that
  is missing or expired, or being cancelled after a retry release) and is not locked by another
  transaction is reported and ends as failed with the error \<^verbatim>\<open>worker_lease_expired\<close>, even when an
  earlier iteration of the same pass cancelled it as a descendant.
\<close>

theorem reconcile_converges_lost_runs:
  assumes "run_inv db" and "reconcile_expired_leases locked now clk db = ((rec, can), db')"
    and "r \<in> set (db_runs db)" and "lost_owner now r" and "ar_id r \<notin> set locked"
  shows "ar_id r \<in> set rec \<and> (\<exists>r'. get_run (ar_id r) db' = Some r' \<and> ar_status r' = Failed
    \<and> ar_error_type r' = Some (lit ''worker_lease_expired'') \<and> ar_finished_at r' = Some now
    \<and> ar_worker_id r' = None)"
proof -
  obtain r' where r': "ar_id r \<in> set rec" "get_run (ar_id r) db' = Some r'" "lease_failed now r'"
    using reconcile_fails_lost[OF assms] by blast
  then have "ar_worker_id r' = None"
    using get_run_row_ok[OF good_step_inv[OF reconcile_good[OF assms(1,2)]] r'(2)]
    by (auto simp: lease_failed_def row_defs)
  then show ?thesis using r' by (auto simp: lease_failed_def)
qed

theorem reconcile_converges_lost_runs_witness:
  "\<exists>r'. get_run [101] (snd (reconcile_expired_leases [] 60000100 (\<lambda>_. 60000101) demo_tree)) = Some r'
    \<and> ar_status r' = Failed"
proof -
  obtain rec can db' where op: "reconcile_expired_leases [] 60000100 (\<lambda>_. 60000101) demo_tree = ((rec, can), db')"
    by (metis prod_cases3 prod.collapse)
  have "demo_root \<in> set (db_runs demo_tree)" by (simp add: demo_tree_eq)
  moreover have "lost_owner 60000100 demo_root" "ar_id demo_root = [101]"
    by (simp_all add: lost_owner_def demo_root_def lease_live_def)
  ultimately show ?thesis using reconcile_converges_lost_runs[OF demo_inv(3) op, of demo_root] by (auto simp: op)
qed

text \<open>
  C5: cancelling an execution tree is complete and exact. Cancelling a run with its descendants
  leaves the run and every member of its tree (the active runs created by it, directly or through
  other members, with its user and scope) terminal or \<^verbatim>\<open>cancel_requested\<close>, and does not touch any
  other run.
\<close>

theorem cancel_tree_exact:
  assumes "run_inv db" and "lock_run_for_user i uid db = Some run"
    and "request_cancel_execution_tree i uid True now clk db = ((res, ids), db')"
  shows "(\<forall>j r. get_run j db = Some r \<longrightarrow> j \<in> insert i (tree_of run db) \<longrightarrow>
      (\<exists>r'. get_run j db' = Some r' \<and> (terminal (ar_status r') \<or> ar_status r' = Cancel_requested)))
    \<and> (\<forall>j. j \<notin> insert i (tree_of run db) \<longrightarrow> get_run j db' = get_run j db)"
proof (intro conjI allI impI)
  note st = cancel_execution_tree_stops[OF assms]
  show "get_run j db' = get_run j db" if "j \<notin> insert i (tree_of run db)" for j
    using that by (intro stops_unchanged[OF st]) simp
  show "\<exists>r'. get_run j db' = Some r' \<and> (terminal (ar_status r') \<or> ar_status r' = Cancel_requested)"
    if "get_run j db = Some r" "j \<in> insert i (tree_of run db)" for j r
    using stops_get[OF st that(1)] that(2) unfolding stopped_def by (metis Diff_empty)
qed

theorem cancel_tree_exact_witness:
  "\<exists>r'. get_run [102] demo_cancelled = Some r' \<and> (terminal (ar_status r') \<or> ar_status r' = Cancel_requested)"
proof -
  obtain res ids where op: "request_cancel_execution_tree [101] [107] True 200 201 demo_tree
      = ((res, ids), demo_cancelled)"
    unfolding demo_cancelled_def by (metis prod.collapse)
  have lock: "lock_run_for_user [101] [107] demo_tree = Some demo_root"
    by (simp add: lock_run_for_user_def demo_tree_eq demo_root_def)
  have "tree_member [107] [109] [] demo_tree [101] (ar_id demo_child)"
    by (rule tree_member.child[of "[101]"]) (simp_all add: demo_tree_eq demo_child_def demo_root_def in_scope_def)
  then have "[102] \<in> tree_of demo_root demo_tree"
    by (simp add: tree_of_def in_tree_def demo_child_def demo_root_def scope_key_of_root_def scope_run_ids_def
        demo_tree_eq demo_claimed_def demo_created_def demo_defs)
  then show ?thesis using cancel_tree_exact[OF demo_inv(3) lock op] demo_tree_runs(2) by blast
qed

section \<open>Ending a run\<close>

lemma messages_close_running_audits:
  "db_messages (close_running_audits i es now p db) = update_where
     (\<lambda>m. ms_run_id m = Some i \<and> audit_type (ms_message_type m) \<and> ms_execution_status m = Some Exec_running)
     (\<lambda>m. m\<lparr>ms_execution_status := Some es,
            ms_finished_at := (case ms_finished_at m of None \<Rightarrow> Some now | Some t \<Rightarrow> Some t)\<rparr>) (db_messages db)"
  by (simp add: close_running_audits_def Let_def)

lemma projected_delivery:
  assumes m: "m \<in> set (db_messages (project_input_delivery_status r db))"
    and i: "ar_input_message_id r = Some (ms_id m)" and d: "run_status_to_delivery (ar_status r) = Some d"
  shows "ms_delivery_status m = d"
proof -
  have "db_messages (project_input_delivery_status r db)
      = update_where (\<lambda>x. ms_id x = ms_id m) (\<lambda>x. x\<lparr>ms_delivery_status := d\<rparr>) (db_messages db)"
    by (simp add: project_input_delivery_status_def i d)
  with m have "m \<in> set (update_where (\<lambda>x. ms_id x = ms_id m) (\<lambda>x. x\<lparr>ms_delivery_status := d\<rparr>) (db_messages db))"
    by simp
  then show ?thesis by (rule in_update_whereE) (hypsubst, simp, simp)
qed

lemma projected_delivery_audits:
  assumes "m \<in> set (db_messages (close_running_audits i es now p (project_input_delivery_status r db)))"
    and "ar_input_message_id r = Some (ms_id m)" and "run_status_to_delivery (ar_status r) = Some d"
  shows "ms_delivery_status m = d"
  using assms(1) unfolding messages_close_running_audits
  by (rule in_update_whereE) (use assms(2,3) projected_delivery[of _ r db d] in auto)

lemma set_terminal_status_done:
  assumes "set_terminal_status i st et em tu w now clk db = Inr (db', res, True)"
  obtains run run' where "get_run i db = Some run" "\<not> terminal (ar_status run)" "terminal st"
    "res = Some run'" "run' = run\<lparr>ar_status := st, ar_error_type := et, ar_error_message := em,
      ar_token_usage := or_obj tu, ar_finished_at := Some now, ar_updated_at := Some now,
      ar_worker_id := None, ar_heartbeat_at := None, ar_lease_expires_at := None,
      ar_runtime_cleanup_pending := (ar_run_type run \<noteq> Subagent)\<rparr>"
    "get_run i db' = Some run'"
    "db_messages db' = db_messages (close_running_audits i (audit_status_of st) now (st = Interrupted)
       (project_input_delivery_status run' (put_run run' db)))"
    "st = Completed \<Longrightarrow> \<exists>mid m. ar_output_message_id run = Some mid \<and> get_matching_output_message run mid db = Some m"
    "\<not> terminal_refused run st w now"
proof -
  from assms obtain run where run: "get_run i db = Some run" "\<not> terminal (ar_status run)" "terminal st"
      "\<not> terminal_refused run st w now"
    and out: "st = Completed \<Longrightarrow> \<exists>mid m. ar_output_message_id run = Some mid
       \<and> get_matching_output_message run mid db = Some m"
    by (auto simp: set_terminal_status_def Let_def split: if_splits option.splits)
  define run' where "run' = run\<lparr>ar_status := st, ar_error_type := et, ar_error_message := em,
      ar_token_usage := or_obj tu, ar_finished_at := Some now, ar_updated_at := Some now,
      ar_worker_id := None, ar_heartbeat_at := None, ar_lease_expires_at := None,
      ar_runtime_cleanup_pending := (ar_run_type run \<noteq> Subagent)\<rparr>"
  let ?mid = "close_running_audits i (audit_status_of st) now (st = Interrupted)
       (project_input_delivery_status run' (put_run run' db))"
  have db': "db' = finish_open_attempt i w (Out_status st) et em now ?mid" and res: "res = Some run'"
    using assms run get_run_id[OF run(1)]
    by (auto simp: set_terminal_status_def run'_def Let_def split: if_splits option.splits)
  have "get_run i db' = get_run i (put_run run' db)" by (rule get_run_cong) (simp add: db')
  also have "\<dots> = Some run'" using run(1) by (rule get_run_put_run_same) (simp add: run'_def get_run_id[OF run(1)])
  finally have get: "get_run i db' = Some run'" .
  have "db_messages db' = db_messages ?mid" by (simp add: db' finish_open_attempt_def split: option.split)
  then show thesis using that run out res get run'_def by blast
qed

text \<open>
  ending a run. When \<^verbatim>\<open>set_terminal_status\<close> reports a transition, the run has the requested
  terminal status and finish time, no owner and no open attempt, none of its model or tool audits
  is still running, and its input message carries the projected delivery status.
\<close>

theorem finish_run_effects:
  assumes inv: "run_inv db" and op: "set_terminal_status i st et em tu w now clk db = Inr (db', res, True)"
  shows "\<exists>run'. get_run i db' = Some run' \<and> terminal st \<and> ar_status run' = st \<and> ar_finished_at run' = Some now
    \<and> ar_worker_id run' = None \<and> open_workers i (db_attempts db') = []
    \<and> (\<forall>m\<in>set (db_messages db'). ms_run_id m = Some i \<longrightarrow> audit_type (ms_message_type m)
        \<longrightarrow> ms_execution_status m \<noteq> Some Exec_running)
    \<and> (\<forall>m\<in>set (db_messages db'). \<forall>d. ar_input_message_id run' = Some (ms_id m)
        \<longrightarrow> run_status_to_delivery st = Some d \<longrightarrow> ms_delivery_status m = d)"
  using op
proof (rule set_terminal_status_done)
  fix run run'
  assume run': "run' = run\<lparr>ar_status := st, ar_error_type := et, ar_error_message := em,
      ar_token_usage := or_obj tu, ar_finished_at := Some now, ar_updated_at := Some now,
      ar_worker_id := None, ar_heartbeat_at := None, ar_lease_expires_at := None,
      ar_runtime_cleanup_pending := (ar_run_type run \<noteq> Subagent)\<rparr>"
    and st: "terminal st" and get: "get_run i db' = Some run'"
    and msgs: "db_messages db' = db_messages (close_running_audits i (audit_status_of st) now (st = Interrupted)
       (project_input_delivery_status run' (put_run run' db)))"
  have "open_workers i (db_attempts db') = []"
    using get_run_owner[OF good_step_inv[OF set_terminal_status_good[OF inv op]] get]
    by (simp add: owner_list_def run')
  moreover have "ms_execution_status m \<noteq> Some Exec_running"
    if "m \<in> set (db_messages db')" "ms_run_id m = Some i" "audit_type (ms_message_type m)" for m
  proof -
    have "audit_status_of st \<noteq> Exec_running" by (cases st) auto
    then show ?thesis using that by (auto simp: msgs messages_close_running_audits set_update_where)
  qed
  moreover have "ms_delivery_status m = d" if "m \<in> set (db_messages db')"
    "ar_input_message_id run' = Some (ms_id m)" "run_status_to_delivery st = Some d" for m d
    using that(1) unfolding msgs by (rule projected_delivery_audits) (use that(2,3) in \<open>simp_all add: run'\<close>)
  ultimately show ?thesis using get st by (auto simp: run')
qed

lemma demo_fail:
  "\<exists>db' res. set_terminal_status [101] Failed None None None (Some [150]) 500 501 demo_claimed = Inr (db', res, True)"
  by (simp add: set_terminal_status_def demo_claimed_root terminal_refused_def lease_live_def demo_root_def Let_def)

theorem finish_run_effects_witness:
  "\<exists>db' res run'. set_terminal_status [101] Failed None None None (Some [150]) 500 501 demo_claimed = Inr (db', res, True)
    \<and> get_run [101] db' = Some run' \<and> ar_status run' = Failed \<and> open_workers [101] (db_attempts db') = []"
  using demo_fail finish_run_effects[OF demo_inv(2), of "[101]" Failed None None None "Some [150]" 500 501] by blast

text \<open>
  no completion without output. The live owner of a running run can end it as completed if
  and only if the run references an assistant message of its own conversation, run and request.
\<close>

theorem completion_requires_output:
  assumes "run_inv db" and "get_run i db = Some run" and "ar_status run = Running"
    and "ar_worker_id run = Some w" and "lease_live run now"
  shows "(\<exists>db' res. set_terminal_status i Completed et em tu (Some w) now clk db = Inr (db', res, True)) \<longleftrightarrow>
    (\<exists>mid m. ar_output_message_id run = Some mid \<and> m \<in> set (db_messages db) \<and> ms_id m = mid
      \<and> ms_role m = Assistant \<and> ms_run_id m = Some i \<and> ms_request_id m = Some (ar_request_id run)
      \<and> Some (ms_conversation_id m) = ar_conversation_id run)"
    (is "?done \<longleftrightarrow> ?out")
proof -
  have id: "ar_id run = i" using get_run_id[OF assms(2)] .
  have "?done \<longleftrightarrow> (\<exists>mid. ar_output_message_id run = Some mid \<and> (\<exists>m. get_matching_output_message run mid db = Some m))"
    using assms by (auto simp: set_terminal_status_def terminal_refused_def Let_def split: option.splits)
  also have "\<dots> \<longleftrightarrow> ?out"
    unfolding get_matching_output_message_def find_ex_iff id by blast
  finally show ?thesis .
qed

definition demo_output :: run_db where
  "demo_output = ok_db demo_claimed (set_output_message [101] 2 [150] 150 demo_claimed)"

theorem completion_requires_output_witness:
  "\<exists>db' res. set_terminal_status [101] Completed None None None (Some [150]) 500 501 demo_output = Inr (db', res, True)"
proof -
  let ?r = "demo_root\<lparr>ar_output_message_id := Some 2, ar_updated_at := Some 150\<rparr>"
  have op: "set_output_message [101] 2 [150] 150 demo_claimed = Inr (put_run ?r demo_claimed, Some ?r)"
    by (simp add: set_output_message_def demo_claimed_root py_strip_def is_space_def require_lease_owner_def
        demo_root_def lease_live_def Let_def get_matching_output_message_def
        demo_claimed_def demo_created_def demo_defs)
  then have out: "demo_output = put_run ?r demo_claimed" by (simp add: demo_output_def ok_db_def)
  have inv: "run_inv demo_output"
    using good_step_inv[OF set_output_message_good[OF demo_inv(2) op]] by (simp add: out)
  have get: "get_run [101] demo_output = Some ?r"
    unfolding out using demo_claimed_root by (rule get_run_put_run_same) (simp add: demo_root_def)
  have msgs: "db_messages demo_output = db_messages demo_start"
    by (simp add: out put_run_def demo_claimed_def demo_created_def demo_defs)
  have "demo_message 2 Assistant (Other_message []) \<in> set (db_messages demo_output)"
    by (simp add: msgs demo_start_def)
  moreover have "ar_status ?r = Running" "ar_worker_id ?r = Some [150]" "lease_live ?r 500"
    by (simp_all add: demo_root_def lease_live_def)
  note own = this
  ultimately show ?thesis unfolding completion_requires_output[OF inv get own]
    by (intro exI[of _ 2] exI[of _ "demo_message 2 Assistant (Other_message [])"])
       (simp add: demo_root_def, simp add: demo_message_def)
qed

lemma migration_fold_failed:
  assumes "run_inv db" and "distinct (map ar_id runs)"
    and "\<And>r. r \<in> set runs \<Longrightarrow> get_run (ar_id r) db = Some r \<and> \<not> terminal (ar_status r)"
    and "r \<in> set runs"
  shows "\<exists>r'. get_run (ar_id r) (fold (fail_for_migration now) runs db) = Some r' \<and> ar_status r' = Failed"
  using assms
proof (induction runs arbitrary: db)
  case (Cons x runs)
  let ?db = "fail_for_migration now x db"
  have x: "get_run (ar_id x) db = Some x" "\<not> terminal (ar_status x)" using Cons.prems(3) by auto
  have g: "good_step db ?db" using Cons.prems(1) x by (rule fail_for_migration_good)
  have rest: "get_run (ar_id y) ?db = Some y \<and> \<not> terminal (ar_status y)" if "y \<in> set runs" for y
  proof -
    have "ar_id x \<noteq> ar_id y" using Cons.prems(2) that by auto
    then show ?thesis using Cons.prems(3)[of y] that by (simp add: get_run_fail_for_migration_other)
  qed
  have g2: "good_step ?db (fold (fail_for_migration now) runs ?db)"
    by (rule migration_fold_good[OF good_step_inv[OF g]]) (use Cons.prems(2) rest in auto)
  show ?case
  proof (cases "r = x")
    case True
    obtain y where y: "get_run (ar_id x) ?db = Some y" "ar_status y = Failed"
    proof -
      define x' where "x' = x\<lparr>ar_status := Failed, ar_error_type := Some (lit ''storage_migration''),
            ar_error_message := Some msg_storage_migration, ar_finished_at := Some now,
            ar_updated_at := Some now, ar_worker_id := None, ar_heartbeat_at := None,
            ar_lease_expires_at := None, ar_runtime_cleanup_pending := False\<rparr>"
      have "get_run (ar_id x) ?db = get_run (ar_id x) (put_run x' db)"
        by (rule get_run_cong) (simp add: fail_for_migration_def x'_def Let_def)
      also have "\<dots> = Some x'" using x(1) by (rule get_run_put_run_same) (simp add: x'_def)
      finally show thesis by (rule that) (simp add: x'_def)
    qed
    obtain r' where r': "get_run (ar_id x) (fold (fail_for_migration now) runs ?db) = Some r'" "run_evolves y r'"
      using good_step_get[OF good_step_inv[OF g] g2 y(1)] .
    then have "ar_status r' = Failed" using y(2) by (auto simp: run_evolves_def terminal_facts_def)
    then show ?thesis using True r'(1) by simp
  next
    case False
    then show ?thesis using Cons.IH[OF good_step_inv[OF g] _ rest] Cons.prems(2,4) by simp
  qed
qed simp

text \<open>
  storage migration. After \<^verbatim>\<open>fail_nonterminal_for_storage_migration\<close> every run is terminal and
  has no owner; the operation returns exactly the ids of the runs that were active.
\<close>

theorem migration_fails_all_active:
  assumes inv: "run_inv db" and op: "fail_nonterminal_for_storage_migration now db = (ids, db')"
  shows "(\<forall>r\<in>set (db_runs db'). terminal (ar_status r) \<and> ar_worker_id r = None)
    \<and> set ids = ar_id ` {r \<in> set (db_runs db). \<not> terminal (ar_status r)}"
proof -
  let ?rows = "oldest_first (filter (\<lambda>r. \<not> terminal (ar_status r)) (db_runs db))"
  have db': "db' = fold (fail_for_migration now) ?rows db" and ids: "ids = map ar_id ?rows"
    using op by (simp_all add: fail_nonterminal_for_storage_migration_def Let_def)
  have g: "good_step db db'" using inv op by (rule migration_good)
  note inv' = good_step_inv[OF g]
  have "map ar_id (db_runs (fold (fail_for_migration now) rows d)) = map ar_id (db_runs d)" for rows and d :: "'a rdb"
    by (induction rows arbitrary: d) (simp_all add: fail_for_migration_def Let_def)
  then have same: "ar_id ` set (db_runs db') = ar_id ` set (db_runs db)" unfolding db' by (metis set_map)
  have "terminal (ar_status r') \<and> ar_worker_id r' = None" if r': "r' \<in> set (db_runs db')" for r'
  proof -
    obtain r where r: "r \<in> set (db_runs db)" "ar_id r = ar_id r'" using r' same by (metis imageE imageI)
    then have get: "get_run (ar_id r') db = Some r" using get_run_iff[OF inv] by simp
    have get': "get_run (ar_id r') db' = Some r'" using r' get_run_iff[OF inv'] by simp
    have "terminal (ar_status r')"
    proof (cases "terminal (ar_status r)")
      case True
      obtain x where "get_run (ar_id r') db' = Some x" "run_evolves r x" using good_step_get[OF inv g get] .
      then show ?thesis using get' True by (simp add: run_evolves_def terminal_facts_def)
    next
      case False
      then have "r \<in> set ?rows" using r by (simp add: oldest_first_def)
      from migration_fold_failed[OF inv migration_rows[OF inv] this, of now] show ?thesis
        using get' r(2) by (auto simp: db')
    qed
    moreover from this have "ar_worker_id r' = None"
      using get_run_row_ok[OF inv' get'] terminal_not_leased by (auto simp: row_defs)
    ultimately show ?thesis by simp
  qed
  then show ?thesis by (auto simp: ids oldest_first_def)
qed

theorem migration_fails_all_active_witness:
  "set (fst (fail_nonterminal_for_storage_migration 700 demo_tree)) = {[101], [102]}"
proof -
  have "set (fst (fail_nonterminal_for_storage_migration 700 demo_tree))
      = ar_id ` {r \<in> set (db_runs demo_tree). \<not> terminal (ar_status r)}"
    using migration_fails_all_active[OF demo_inv(3) surjective_pairing] by blast
  also have "{r \<in> set (db_runs demo_tree). \<not> terminal (ar_status r)} = {demo_root, demo_child}"
  proof -
    have "ar_status demo_root = Running" "ar_status demo_child = Pending"
      by (simp_all add: demo_root_def demo_child_def)
    then show ?thesis by (auto simp: demo_tree_eq)
  qed
  also have "ar_id ` {demo_root, demo_child} = {[101], [102]}" by (simp add: demo_root_def demo_child_def)
  finally show ?thesis .
qed

end
