(* ===== verification/Task_Texts.thy ===== *)
theory Task_Texts
  imports Yuanlei_Prelude
begin

text \<open>
  The message texts of the durable-task component as code points, with their meaning.
\<close>

definition task_msg_worker_empty :: pystr where \<comment> \<open>worker_id must not be empty\<close>
  "task_msg_worker_empty =
   [119, 111, 114, 107, 101, 114, 95, 105, 100, 32, 19981, 33021, 20026, 31354]"

definition task_msg_lease_seconds :: pystr where \<comment> \<open>lease_seconds must be positive\<close>
  "task_msg_lease_seconds =
   [108, 101, 97, 115, 101, 95, 115, 101, 99, 111, 110, 100, 115, 32, 24517, 39035, 22823,
   20110, 32, 48]"

definition task_msg_max_running :: pystr where \<comment> \<open>max_running must be positive\<close>
  "task_msg_max_running =
   [109, 97, 120, 95, 114, 117, 110, 110, 105, 110, 103, 32, 24517, 39035, 22823, 20110, 32,
   48]"

definition task_msg_bad_terminal :: pystr where \<comment> \<open>illegal terminal status of a task\<close>
  "task_msg_bad_terminal =
   [38750, 27861, 32, 84, 97, 115, 107, 32, 32456, 24577, 58, 32]"

definition task_msg_not_rebuilt :: pystr where \<comment> \<open>the task's handler cannot be rebuilt\<close>
  "task_msg_not_rebuilt =
   [20219, 21153, 32, 72, 97, 110, 100, 108, 101, 114, 32, 26080, 27861, 37325, 24314]"

definition task_msg_cancelled :: pystr where \<comment> \<open>the task was cancelled\<close>
  "task_msg_cancelled =
   [20219, 21153, 24050, 21462, 28040]"

definition task_msg_cancelled_early :: pystr where \<comment> \<open>the task was cancelled before it ran\<close>
  "task_msg_cancelled_early =
   [20219, 21153, 22312, 25191, 34892, 21069, 24050, 21462, 28040]"

definition task_msg_started :: pystr where \<comment> \<open>the task starts\<close>
  "task_msg_started =
   [20219, 21153, 24320, 22987, 25191, 34892]"

definition task_msg_waiting :: pystr where \<comment> \<open>the task waits for a worker\<close>
  "task_msg_waiting =
   [20219, 21153, 31561, 24453, 32, 119, 111, 114, 107, 101, 114, 32, 25191, 34892]"

definition task_msg_interrupted :: pystr where \<comment> \<open>execution was interrupted and cannot be resumed safely\<close>
  "task_msg_interrupted =
   [25191, 34892, 20013, 26029, 65292, 26080, 27861, 23433, 20840, 33258, 21160, 24674,
   22797]"

definition task_msg_lease_expired :: pystr where \<comment> \<open>the worker's lease expired, side effects unknown\<close>
  "task_msg_lease_expired =
   [119, 111, 114, 107, 101, 114, 95, 108, 101, 97, 115, 101, 95, 101, 120, 112, 105, 114,
   101, 100, 58, 32, 25191, 34892, 32, 119, 111, 114, 107, 101, 114, 32, 30340, 32, 108,
   101, 97, 115, 101, 32, 24050, 36807, 26399, 65292, 20219, 21153, 21103, 20316, 29992,
   32467, 26524, 26410, 30693]"

definition task_msg_done :: pystr where \<comment> \<open>the task is done\<close>
  "task_msg_done =
   [20219, 21153, 24050, 23436, 25104]"

definition task_msg_timeout :: pystr where \<comment> \<open>the task timed out\<close>
  "task_msg_timeout =
   [20219, 21153, 25191, 34892, 36229, 26102]"

definition task_msg_failed :: pystr where \<comment> \<open>the task failed\<close>
  "task_msg_failed =
   [20219, 21153, 25191, 34892, 22833, 36133]"

definition task_msg_no_handler :: pystr where \<comment> \<open>the task's handler cannot be loaded\<close>
  "task_msg_no_handler =
   [20219, 21153, 32, 72, 97, 110, 100, 108, 101, 114, 32, 26080, 27861, 21152, 36733]"

definition task_msg_shutdown :: pystr where \<comment> \<open>the worker stopped while the task ran\<close>
  "task_msg_shutdown =
   [119, 111, 114, 107, 101, 114, 95, 115, 104, 117, 116, 100, 111, 119, 110, 58, 32, 119,
   111, 114, 107, 101, 114, 32, 20572, 27490, 26102, 20219, 21153, 20013, 26029]"

end
