(* ===== verification/Task_Repository.thy ===== *)
theory Task_Repository
  imports Task_Texts
begin

text \<open>
  Durable tasks: the table \<^verbatim>\<open>tasks\<close> (\<^verbatim>\<open>TaskRecord\<close> of \<^verbatim>\<open>storage/postgres/models_business.py\<close>) and the
  operations of \<^verbatim>\<open>TaskRepository\<close> (\<^verbatim>\<open>repositories/task_repository.py\<close>), in the order of the file.

  Each method opens its own transaction (\<^verbatim>\<open>get_async_session_context\<close>: commit at the end, rollback
  when an exception leaves the block), so it is one atomic function on \<open>task_db\<close>. The callbacks
  \<^verbatim>\<open>before_fail\<close>, \<^verbatim>\<open>before_finish\<close>, \<^verbatim>\<open>before_cancel\<close> and \<^verbatim>\<open>operation\<close> write domain tables in the same
  transaction: they are hooks on the component \<open>td_domain\<close>, whose type the model leaves open,
  and may raise (\<open>Inl\<close>). A result \<open>Inl e\<close> of an operation is an exception: the transaction
  was rolled back and the caller keeps the database it had.

  \<open>now\<close> is the explicit time argument and \<open>clk\<close>, \<open>clk2\<close> the successive readings of the database
  clock. The JSON columns \<^verbatim>\<open>payload\<close> and \<^verbatim>\<open>result\<close> hold \<open>JNull\<close> for \<^verbatim>\<open>None\<close>.
\<close>

section \<open>Data\<close>

datatype task_status =
    Task_pending
  | Task_running
  | Task_success
  | Task_failed
  | Task_cancelled
  | Task_other pystr

fun task_terminal :: "task_status \<Rightarrow> bool" where
  "task_terminal Task_success = True"
| "task_terminal Task_failed = True"
| "task_terminal Task_cancelled = True"
| "task_terminal _ = False"

fun task_status_str :: "task_status \<Rightarrow> pystr" where
  "task_status_str Task_pending = lit ''pending''"
| "task_status_str Task_running = lit ''running''"
| "task_status_str Task_success = lit ''success''"
| "task_status_str Task_failed = lit ''failed''"
| "task_status_str Task_cancelled = lit ''cancelled''"
| "task_status_str (Task_other s) = s"

record task_record =
  tk_id :: pystr
  tk_name :: pystr
  tk_type :: pystr
  tk_status :: task_status
  tk_progress :: rat
  tk_message :: pystr
  tk_payload :: json
  tk_result :: json
  tk_error :: "pystr option"
  tk_cancel_requested :: int
  tk_handler_version :: int
  tk_dedupe_key :: "pystr option"
  tk_attempt_count :: int
  tk_worker_id :: "pystr option"
  tk_heartbeat_at :: "time option"
  tk_lease_expires_at :: "time option"
  tk_timeout_seconds :: rat
  tk_created_at :: "time option"
  tk_updated_at :: "time option"
  tk_started_at :: "time option"
  tk_completed_at :: "time option"

record 'd task_db =
  td_tasks :: "task_record list"
  td_domain :: 'd

datatype task_error = Task_value_error pystr | Task_integrity_error | Hook_error pystr

type_synonym 'd hook = "task_record \<Rightarrow> 'd \<Rightarrow> pystr + 'd"

text \<open>The columns \<^verbatim>\<open>TaskContext\<close> writes through \<^verbatim>\<open>update_owned\<close>.\<close>

datatype task_field = Set_progress rat | Set_message pystr | Set_result json

section \<open>Helpers of the repository\<close>

definition current_time :: "time option \<Rightarrow> time \<Rightarrow> time" where
  "current_time explicit clk = (case explicit of None \<Rightarrow> clk | Some t \<Rightarrow> t)"

definition lock_task :: "pystr \<Rightarrow> 'd task_db \<Rightarrow> task_record option" where
  "lock_task task_id db = find (\<lambda>r. tk_id r = task_id) (td_tasks db)"

definition put_task :: "task_record \<Rightarrow> 'd task_db \<Rightarrow> 'd task_db" where
  "put_task r db = db\<lparr>td_tasks := update_where (\<lambda>x. tk_id x = tk_id r) (\<lambda>_. r) (td_tasks db)\<rparr>"

definition is_live_owner :: "task_record option \<Rightarrow> pystr \<Rightarrow> time \<Rightarrow> bool" where
  "is_live_owner rec worker_id now \<longleftrightarrow>
     (case rec of None \<Rightarrow> False
      | Some r \<Rightarrow> tk_status r = Task_running \<and> tk_worker_id r = Some worker_id
          \<and> (case tk_lease_expires_at r of None \<Rightarrow> False | Some t \<Rightarrow> now < t))"

definition clear_execution :: "bool \<Rightarrow> task_record \<Rightarrow> task_record" where
  "clear_execution clear_dedupe r =
     r\<lparr>tk_worker_id := None, tk_heartbeat_at := None, tk_lease_expires_at := None,
       tk_dedupe_key := (if clear_dedupe then None else tk_dedupe_key r)\<rparr>"

definition fail_interrupted_task :: "pystr \<Rightarrow> time \<Rightarrow> task_record \<Rightarrow> task_record" where
  "fail_interrupted_task error now r =
     (clear_execution True (r\<lparr>tk_status := Task_failed, tk_progress := 100,
        tk_message := task_msg_interrupted, tk_error := Some error,
        tk_completed_at := Some now\<rparr>))\<lparr>tk_updated_at := Some now\<rparr>"

text \<open>Calling an optional hook: \<^verbatim>\<open>if hook is not None: await hook(session, record)\<close>.\<close>

definition call_hook :: "'d hook option \<Rightarrow> task_record \<Rightarrow> 'd task_db \<Rightarrow> task_error + 'd task_db" where
  "call_hook hook r db =
     (case hook of None \<Rightarrow> Inr db
      | Some h \<Rightarrow> (case h r (td_domain db) of Inl e \<Rightarrow> Inl (Hook_error e) | Inr d \<Rightarrow> Inr (db\<lparr>td_domain := d\<rparr>)))"

section \<open>Reads\<close>

definition get_by_id :: "pystr \<Rightarrow> 'd task_db \<Rightarrow> task_record option" where
  "get_by_id task_id db = find (\<lambda>r. tk_id r = task_id) (td_tasks db)"

definition newest_tasks :: "task_record list \<Rightarrow> task_record list" where
  "newest_tasks rows = rev (sort_key (\<lambda>r. nulls_last (tk_created_at r)) rows)"

definition newest_tasks_by_id :: "task_record list \<Rightarrow> task_record list" where
  "newest_tasks_by_id rows = rev (sort_key (\<lambda>r. (nulls_last (tk_created_at r), tk_id r)) rows)"

definition task_list :: "task_status option \<Rightarrow> int \<Rightarrow> 'd task_db \<Rightarrow> task_record list" where
  "task_list status limit db =
     (let rows = filter (\<lambda>r. case status of None \<Rightarrow> True | Some s \<Rightarrow> tk_status r = s) (td_tasks db);
          active_first = (\<lambda>r. if tk_status r = Task_pending \<or> tk_status r = Task_running then 0 else (1 :: nat))
      in take (nat (max limit 0)) (sort_key active_first (newest_tasks rows)))"

definition count_by :: "('r \<Rightarrow> 'k) \<Rightarrow> 'r list \<Rightarrow> ('k \<times> nat) list" where
  "count_by key rows = map (\<lambda>k. (k, length (filter (\<lambda>r. key r = k) rows))) (remdups (map key rows))"

definition summarize ::
  "task_status option \<Rightarrow> 'd task_db \<Rightarrow> nat \<times> nat \<times> (task_status \<times> nat) list \<times> (pystr \<times> nat) list" where
  "summarize status db =
     (let status_rows = count_by tk_status (td_tasks db);
          type_rows = count_by tk_type (td_tasks db);
          total = sum_list (map snd status_rows);
          filtered_total = (case status of None \<Rightarrow> total
            | Some s \<Rightarrow> (case find (\<lambda>(v, n). v = s) status_rows of None \<Rightarrow> 0 | Some (_, n) \<Rightarrow> n))
      in (total, filtered_total, status_rows, type_rows))"

definition list_all_tasks :: "'d task_db \<Rightarrow> task_record list" where
  "list_all_tasks db = newest_tasks (td_tasks db)"

text \<open>\<open>as_string\<close> is the database's text of a JSON value (\<^verbatim>\<open>payload[key].as_string()\<close>).\<close>

definition payload_text :: "(json \<Rightarrow> pystr option) \<Rightarrow> pystr \<Rightarrow> task_record \<Rightarrow> pystr option" where
  "payload_text as_string key r = Option.bind (json_get (tk_payload r) key) as_string"

definition find_latest_by_payload ::
  "(json \<Rightarrow> pystr option) \<Rightarrow> pystr \<Rightarrow> (pystr \<times> pystr) list \<Rightarrow> task_status list option \<Rightarrow> 'd task_db
   \<Rightarrow> task_record option" where
  "find_latest_by_payload as_string task_type payload_match statuses db =
     first_row (newest_tasks_by_id (filter
       (\<lambda>r. tk_type r = task_type
          \<and> (case statuses of None \<Rightarrow> True | Some ss \<Rightarrow> tk_status r \<in> set ss)
          \<and> list_all (\<lambda>(k, v). payload_text as_string k r = Some v) payload_match)
       (td_tasks db)))"

definition list_by_payload_values ::
  "(json \<Rightarrow> pystr option) \<Rightarrow> pystr \<Rightarrow> pystr \<Rightarrow> pystr list \<Rightarrow> 'd task_db \<Rightarrow> task_record list" where
  "list_by_payload_values as_string task_type payload_key payload_values db =
     (if payload_values = [] then []
      else newest_tasks_by_id (filter
        (\<lambda>r. tk_type r = task_type
           \<and> (case payload_text as_string payload_key r of None \<Rightarrow> False | Some v \<Rightarrow> v \<in> set payload_values))
        (td_tasks db)))"

section \<open>Creation\<close>

text \<open>Primary key and \<^verbatim>\<open>uq_tasks_active_dedupe\<close>: NULL keys never collide.\<close>

definition dedupe_conflict :: "task_record \<Rightarrow> task_record \<Rightarrow> bool" where
  "dedupe_conflict r x \<longleftrightarrow> tk_type x = tk_type r \<and> tk_dedupe_key r \<noteq> None \<and> tk_dedupe_key x = tk_dedupe_key r"

definition task_create_in_session :: "task_record \<Rightarrow> 'd task_db \<Rightarrow> task_error + 'd task_db \<times> task_record" where
  "task_create_in_session r db =
     (if list_ex (\<lambda>x. tk_id x = tk_id r \<or> dedupe_conflict r x) (td_tasks db) then Inl Task_integrity_error
      else Inr (db\<lparr>td_tasks := td_tasks db @ [r]\<rparr>, r))"

definition create_or_get_in_session ::
  "task_record \<Rightarrow> 'd task_db \<Rightarrow> task_error + 'd task_db \<times> task_record \<times> bool" where
  "create_or_get_in_session data db =
     (case task_create_in_session data db of
        Inr (db', r) \<Rightarrow> Inr (db', r, True)
      | Inl e \<Rightarrow>
          if or_empty (tk_dedupe_key data) = [] then Inl e
          else
            (case find (\<lambda>x. tk_type x = tk_type data \<and> tk_dedupe_key x = tk_dedupe_key data
                       \<and> \<not> task_terminal (tk_status x)) (td_tasks db) of
               None \<Rightarrow> Inl e
             | Some existing \<Rightarrow> Inr (db, existing, False)))"

definition task_create :: "task_record \<Rightarrow> 'd task_db \<Rightarrow> task_error + 'd task_db \<times> task_record \<times> bool" where
  "task_create data db = create_or_get_in_session data db"

section \<open>Transitions of pending tasks\<close>

definition fail_pending ::
  "pystr \<Rightarrow> pystr \<Rightarrow> 'd hook option \<Rightarrow> time option \<Rightarrow> time \<Rightarrow> 'd task_db \<Rightarrow> task_error + 'd task_db \<times> bool" where
  "fail_pending task_id error before_fail now clk db =
     (let current_time = current_time now clk
      in case lock_task task_id db of
           None \<Rightarrow> Inr (db, False)
         | Some r \<Rightarrow>
             if tk_status r \<noteq> Task_pending then Inr (db, False)
             else
               (case call_hook before_fail r db of
                  Inl e \<Rightarrow> Inl e
                | Inr db1 \<Rightarrow>
                    Inr (put_task (r\<lparr>tk_status := Task_failed, tk_progress := 100,
                           tk_message := task_msg_not_rebuilt, tk_error := Some error,
                           tk_completed_at := Some current_time, tk_updated_at := Some current_time,
                           tk_dedupe_key := None\<rparr>) db1, True)))"

definition request_cancel ::
  "pystr \<Rightarrow> 'd hook option \<Rightarrow> time option \<Rightarrow> time \<Rightarrow> 'd task_db \<Rightarrow> task_error + 'd task_db \<times> task_record option" where
  "request_cancel task_id before_cancel now clk db =
     (let current_time = current_time now clk
      in case lock_task task_id db of
           None \<Rightarrow> Inr (db, None)
         | Some r \<Rightarrow>
             if task_terminal (tk_status r) then Inr (db, None)
             else
               let r1 = r\<lparr>tk_cancel_requested := 1, tk_updated_at := Some current_time\<rparr>
               in if tk_status r1 = Task_pending
                  then
                    (case call_hook before_cancel r1 db of
                       Inl e \<Rightarrow> Inl e
                     | Inr db1 \<Rightarrow>
                         let r2 = r1\<lparr>tk_status := Task_cancelled, tk_message := task_msg_cancelled,
                               tk_completed_at := Some current_time, tk_dedupe_key := None\<rparr>
                         in Inr (put_task r2 db1, Some r2))
                  else Inr (put_task r1 db, Some r1))"

definition running_count :: "'d task_db \<Rightarrow> nat" where
  "running_count db = length (filter (\<lambda>r. tk_status r = Task_running) (td_tasks db))"

definition claim ::
  "pystr \<Rightarrow> pystr \<Rightarrow> rat \<Rightarrow> time option \<Rightarrow> int option \<Rightarrow> time \<Rightarrow> 'd task_db
   \<Rightarrow> task_error + 'd task_db \<times> task_record option \<times> bool" where
  "claim task_id worker_id lease_seconds now max_running clk db =
     (if py_strip worker_id = [] then Inl (Task_value_error task_msg_worker_empty)
      else if lease_seconds \<le> 0 then Inl (Task_value_error task_msg_lease_seconds)
      else if (case max_running of None \<Rightarrow> False | Some m \<Rightarrow> m \<le> 0)
      then Inl (Task_value_error task_msg_max_running)
      else if (case max_running of None \<Rightarrow> False | Some m \<Rightarrow> m \<le> int (running_count db))
      then Inr (db, get_by_id task_id db, False)
      else
        let current_time = current_time now clk
        in case lock_task task_id db of
             None \<Rightarrow> Inr (db, None, False)
           | Some r \<Rightarrow>
               if tk_status r \<noteq> Task_pending then Inr (db, Some r, False)
               else if tk_cancel_requested r \<noteq> 0
               then
                 let r' = r\<lparr>tk_status := Task_cancelled, tk_message := task_msg_cancelled_early,
                       tk_completed_at := Some current_time, tk_updated_at := Some current_time,
                       tk_dedupe_key := None\<rparr>
                 in Inr (put_task r' db, Some r', False)
               else
                 let r' = r\<lparr>tk_status := Task_running, tk_worker_id := Some worker_id,
                       tk_heartbeat_at := Some current_time,
                       tk_lease_expires_at := Some (current_time + timedelta_seconds lease_seconds),
                       tk_attempt_count := tk_attempt_count r + 1,
                       tk_started_at := (case tk_started_at r of None \<Rightarrow> Some current_time | Some t \<Rightarrow> Some t),
                       tk_updated_at := Some current_time, tk_message := task_msg_started\<rparr>
                 in Inr (put_task r' db, Some r', True))"

section \<open>Operations of the owner\<close>

definition check_control :: "pystr \<Rightarrow> pystr \<Rightarrow> time \<Rightarrow> 'd task_db \<Rightarrow> bool \<times> bool" where
  "check_control task_id worker_id clk db =
     (case lock_task task_id db of
        None \<Rightarrow> (False, False)
      | Some r \<Rightarrow> if is_live_owner (Some r) worker_id clk then (True, tk_cancel_requested r \<noteq> 0) else (False, False))"

definition task_renew_lease ::
  "pystr \<Rightarrow> pystr \<Rightarrow> rat \<Rightarrow> time option \<Rightarrow> time \<Rightarrow> 'd task_db \<Rightarrow> 'd task_db \<times> bool \<times> bool" where
  "task_renew_lease task_id worker_id lease_seconds now clk db =
     (let current_time = current_time now clk
      in case lock_task task_id db of
           None \<Rightarrow> (db, False, False)
         | Some r \<Rightarrow>
             if \<not> is_live_owner (Some r) worker_id current_time then (db, False, False)
             else
               (put_task (r\<lparr>tk_heartbeat_at := Some current_time,
                  tk_lease_expires_at := Some (current_time + timedelta_seconds lease_seconds),
                  tk_updated_at := Some current_time\<rparr>) db, True, tk_cancel_requested r \<noteq> 0))"

definition run_owned_transaction ::
  "pystr \<Rightarrow> pystr \<Rightarrow> 'd hook \<Rightarrow> time \<Rightarrow> time \<Rightarrow> 'd task_db \<Rightarrow> task_error + 'd task_db \<times> bool" where
  "run_owned_transaction task_id worker_id operation clk clk2 db =
     (case lock_task task_id db of
        None \<Rightarrow> Inr (db, False)
      | Some r \<Rightarrow>
          if \<not> is_live_owner (Some r) worker_id clk then Inr (db, False)
          else
            (case call_hook (Some operation) r db of
               Inl e \<Rightarrow> Inl e
             | Inr db1 \<Rightarrow>
                 if \<not> is_live_owner (Some r) worker_id clk2 then Inr (db, False) else Inr (db1, True)))"

definition set_task_field :: "task_field \<Rightarrow> task_record \<Rightarrow> task_record" where
  "set_task_field f r =
     (case f of Set_progress p \<Rightarrow> r\<lparr>tk_progress := p\<rparr> | Set_message m \<Rightarrow> r\<lparr>tk_message := m\<rparr>
      | Set_result v \<Rightarrow> r\<lparr>tk_result := v\<rparr>)"

definition update_owned ::
  "pystr \<Rightarrow> pystr \<Rightarrow> task_field list \<Rightarrow> time option \<Rightarrow> time \<Rightarrow> 'd task_db \<Rightarrow> 'd task_db \<times> bool" where
  "update_owned task_id worker_id data now clk db =
     (let current_time = current_time now clk
      in case lock_task task_id db of
           None \<Rightarrow> (db, False)
         | Some r \<Rightarrow>
             if \<not> is_live_owner (Some r) worker_id current_time then (db, False)
             else (put_task ((fold set_task_field data r)\<lparr>tk_updated_at := Some current_time\<rparr>) db, True))"

text \<open>
  \<open>result = None\<close> is the sentinel \<^verbatim>\<open>_UNSET\<close>. The effective status, message, result and hook after the
  cancel check are the four components of \<open>finish_plan\<close>.
\<close>

definition finish_plan ::
  "task_record \<Rightarrow> task_status \<Rightarrow> pystr \<Rightarrow> json option \<Rightarrow> 'd hook option \<Rightarrow> 'd hook option
   \<Rightarrow> task_status \<times> pystr \<times> json option \<times> 'd hook option" where
  "finish_plan r status message result before_finish before_cancel =
     (if tk_cancel_requested r \<noteq> 0 \<and> status \<noteq> Task_cancelled
      then (Task_cancelled, task_msg_cancelled, None,
            (case before_cancel of None \<Rightarrow> before_finish | Some h \<Rightarrow> Some h))
      else (status, message, result, before_finish))"

definition finish_owned ::
  "pystr \<Rightarrow> pystr \<Rightarrow> task_status \<Rightarrow> pystr \<Rightarrow> json option \<Rightarrow> pystr option \<Rightarrow> 'd hook option \<Rightarrow> 'd hook option
   \<Rightarrow> time option \<Rightarrow> time \<Rightarrow> time \<Rightarrow> 'd task_db \<Rightarrow> task_error + 'd task_db \<times> bool" where
  "finish_owned task_id worker_id status message result error before_finish before_cancel now clk clk2 db =
     (if \<not> task_terminal status then Inl (Task_value_error (task_msg_bad_terminal @ task_status_str status))
      else
        (case lock_task task_id db of
           None \<Rightarrow> Inr (db, False)
         | Some r \<Rightarrow>
             if \<not> is_live_owner (Some r) worker_id (current_time now clk) then Inr (db, False)
             else
               (case finish_plan r status message result before_finish before_cancel of
                  (status', message', result', hook) \<Rightarrow>
                    (case call_hook hook r db of
                       Inl e \<Rightarrow> Inl e
                     | Inr db1 \<Rightarrow>
                         let current_time = current_time now clk2
                         in if \<not> is_live_owner (Some r) worker_id current_time then Inr (db, False)
                            else
                              Inr (put_task (clear_execution True (r\<lparr>tk_status := status',
                                     tk_progress := 100, tk_message := message',
                                     tk_result := (case result' of None \<Rightarrow> tk_result r | Some v \<Rightarrow> v),
                                     tk_error := error, tk_completed_at := Some current_time,
                                     tk_updated_at := Some current_time\<rparr>)) db1, True)))))"

definition release_interrupted_owner ::
  "pystr \<Rightarrow> pystr \<Rightarrow> pystr \<Rightarrow> 'd hook option \<Rightarrow> time option \<Rightarrow> time \<Rightarrow> time \<Rightarrow> 'd task_db
   \<Rightarrow> task_error + 'd task_db \<times> task_status option" where
  "release_interrupted_owner task_id worker_id error before_fail now clk clk2 db =
     (case lock_task task_id db of
        None \<Rightarrow> Inr (db, None)
      | Some r \<Rightarrow>
          if \<not> is_live_owner (Some r) worker_id (current_time now clk) then Inr (db, None)
          else
            (case call_hook before_fail r db of
               Inl e \<Rightarrow> Inl e
             | Inr db1 \<Rightarrow>
                 let current_time = (if Option.is_none before_fail then current_time now clk else current_time now clk2)
                 in if \<not> Option.is_none before_fail \<and> \<not> is_live_owner (Some r) worker_id current_time
                    then Inr (db, None)
                    else
                      let r' = fail_interrupted_task error current_time r
                      in Inr (put_task r' db1, Some (tk_status r'))))"

section \<open>Convergence and pruning\<close>

definition task_lost :: "time \<Rightarrow> task_record \<Rightarrow> bool" where
  "task_lost now r \<longleftrightarrow>
     tk_status r = Task_running \<and> (case tk_lease_expires_at r of None \<Rightarrow> True | Some t \<Rightarrow> t \<le> now)"

fun task_reconcile_loop ::
  "(pystr \<Rightarrow> 'd hook) option \<Rightarrow> time \<Rightarrow> task_record list \<Rightarrow> (pystr \<times> task_status \<times> int) list \<Rightarrow> 'd task_db
   \<Rightarrow> task_error + 'd task_db \<times> (pystr \<times> task_status \<times> int) list" where
  "task_reconcile_loop before_fail now [] reconciled db = Inr (db, reconciled)"
| "task_reconcile_loop before_fail now (r # rest) reconciled db =
     (case call_hook (map_option (\<lambda>h. h task_msg_lease_expired) before_fail) r db of
        Inl e \<Rightarrow> Inl e
      | Inr db1 \<Rightarrow>
          let r' = fail_interrupted_task task_msg_lease_expired now r
          in task_reconcile_loop before_fail now rest
               (reconciled @ [(tk_id r', tk_status r', tk_attempt_count r')]) (put_task r' db1))"

definition task_reconcile_expired_leases ::
  "pystr list \<Rightarrow> (pystr \<Rightarrow> 'd hook) option \<Rightarrow> time option \<Rightarrow> time \<Rightarrow> 'd task_db
   \<Rightarrow> task_error + 'd task_db \<times> (pystr \<times> task_status \<times> int) list" where
  "task_reconcile_expired_leases locked before_fail now clk db =
     (let current_time = current_time now clk
      in task_reconcile_loop before_fail current_time
           (filter (\<lambda>r. task_lost current_time r \<and> tk_id r \<notin> set locked) (td_tasks db)) [] db)"

definition list_pending :: "int \<Rightarrow> 'd task_db \<Rightarrow> task_record list" where
  "list_pending limit db =
     take (nat (max limit 1)) (sort_key (\<lambda>r. nulls_last (tk_created_at r))
       (filter (\<lambda>r. tk_status r = Task_pending) (td_tasks db)))"

definition prune_terminal :: "int \<Rightarrow> 'd task_db \<Rightarrow> pystr list \<times> 'd task_db" where
  "prune_terminal keep db =
     (let stale_ids = map tk_id (drop (nat (max keep 0))
            (newest_tasks_by_id (filter (\<lambda>r. task_terminal (tk_status r)) (td_tasks db))))
      in (stale_ids, db\<lparr>td_tasks := filter (\<lambda>r. tk_id r \<notin> set stale_ids) (td_tasks db)\<rparr>))"

definition delete_terminal :: "pystr \<Rightarrow> 'd task_db \<Rightarrow> bool \<times> 'd task_db" where
  "delete_terminal task_id db =
     (let hit = (\<lambda>r. tk_id r = task_id \<and> task_terminal (tk_status r))
      in (list_ex hit (td_tasks db), db\<lparr>td_tasks := filter (\<lambda>r. \<not> hit r) (td_tasks db)\<rparr>))"

definition delete_all :: "'d task_db \<Rightarrow> 'd task_db" where
  "delete_all db = db\<lparr>td_tasks := []\<rparr>"

end
