(* ===== verification/Task_Service.thy ===== *)
theory Task_Service
  imports Task_Repository
begin

text \<open>
  The services around durable tasks: the handler registry (\<^verbatim>\<open>services/task_registry.py\<close>), the
  facade \<^verbatim>\<open>Tasker\<close>, the handler's view \<^verbatim>\<open>TaskContext\<close> and the worker \<^verbatim>\<open>process_task\<close>
  (\<^verbatim>\<open>services/task_service.py\<close>), and publication and convergence
  (\<^verbatim>\<open>services/task_queue_service.py\<close>).

  Parameters: \<open>handlers m f\<close> is the function \<^verbatim>\<open>f\<close> imported from the module \<^verbatim>\<open>m\<close> (a success or
  failure handler), \<open>digest\<close> the SHA-256 of the canonical JSON of \<^verbatim>\<open>payload_match\<close>, \<open>queue_up\<close> tells for
  which ids the message queue accepts the wake-up message. A coroutine that runs between two
  transactions is split there: \<open>process_task_begin\<close> is \<^verbatim>\<open>process_task\<close> up to the claim and
  \<open>process_task_settle\<close> what it does with the outcome of the handler.
\<close>

section \<open>Numbers\<close>

datatype pyfloat = Fin rat | PInf | NInf | NaN

fun float_lt :: "pyfloat \<Rightarrow> pyfloat \<Rightarrow> bool" where
  "float_lt NaN _ = False"
| "float_lt _ NaN = False"
| "float_lt (Fin a) (Fin b) \<longleftrightarrow> a < b"
| "float_lt (Fin _) PInf = True"
| "float_lt NInf (Fin _) = True"
| "float_lt NInf PInf = True"
| "float_lt _ _ = False"

text \<open>Python's \<^verbatim>\<open>min(a, b)\<close> and \<^verbatim>\<open>max(a, b)\<close> keep \<^verbatim>\<open>a\<close> unless \<^verbatim>\<open>b\<close> is strictly better.\<close>

definition py_min :: "pyfloat \<Rightarrow> pyfloat \<Rightarrow> pyfloat" where
  "py_min a b = (if float_lt b a then b else a)"

definition py_max :: "pyfloat \<Rightarrow> pyfloat \<Rightarrow> pyfloat" where
  "py_max a b = (if float_lt a b then b else a)"

definition normalize_progress :: "pyfloat \<Rightarrow> pyfloat" where
  "normalize_progress progress = py_max (Fin 0) (py_min progress (Fin 100))"

fun nat_digits :: "nat \<Rightarrow> pystr" where
  "nat_digits n = (if n < 10 then [48 + n] else nat_digits (n div 10) @ [48 + n mod 10])"

definition str_int :: "int \<Rightarrow> pystr" where
  "str_int i = (if i < 0 then 45 # nat_digits (nat (- i)) else nat_digits (nat i))"

section \<open>The registry of handlers\<close>

record task_definition =
  df_task_type :: pystr
  df_module :: pystr
  df_function :: pystr
  df_success_function :: "pystr option"
  df_failure_function :: "pystr option"
  df_version :: int

definition knowledge_module :: pystr where
  "knowledge_module = lit ''yuxi.services.knowledge_task_service''"

definition eval_module :: pystr where
  "eval_module = lit ''yuxi.knowledge.eval.service''"

definition task_definitions :: "task_definition list" where
  "task_definitions =
     [\<lparr>df_task_type = lit ''knowledge_ingest'', df_module = knowledge_module,
       df_function = lit ''run_knowledge_ingest'', df_success_function = None,
       df_failure_function = Some (lit ''fail_knowledge_file_task''), df_version = 1\<rparr>,
      \<lparr>df_task_type = lit ''knowledge_parse'', df_module = knowledge_module,
       df_function = lit ''run_knowledge_parse'', df_success_function = None,
       df_failure_function = Some (lit ''fail_knowledge_file_task''), df_version = 1\<rparr>,
      \<lparr>df_task_type = lit ''knowledge_index'', df_module = knowledge_module,
       df_function = lit ''run_knowledge_index'', df_success_function = None,
       df_failure_function = Some (lit ''fail_knowledge_file_task''), df_version = 1\<rparr>,
      \<lparr>df_task_type = lit ''knowledge_graph_index'', df_module = knowledge_module,
       df_function = lit ''run_knowledge_graph'', df_success_function = None,
       df_failure_function = None, df_version = 1\<rparr>,
      \<lparr>df_task_type = lit ''knowledge_virtual_folder_migration'', df_module = knowledge_module,
       df_function = lit ''run_virtual_folder_migration'', df_success_function = None,
       df_failure_function = None, df_version = 1\<rparr>,
      \<lparr>df_task_type = lit ''dataset_generation'', df_module = eval_module,
       df_function = lit ''run_dataset_generation_task'',
       df_success_function = Some (lit ''finish_dataset_generation_task''),
       df_failure_function = Some (lit ''fail_dataset_generation_task''), df_version = 1\<rparr>,
      \<lparr>df_task_type = lit ''rag_evaluation'', df_module = eval_module,
       df_function = lit ''run_rag_evaluation_task'',
       df_success_function = Some (lit ''finish_rag_evaluation_task''),
       df_failure_function = Some (lit ''fail_rag_evaluation_task''), df_version = 1\<rparr>]"

definition get_task_definition :: "pystr \<Rightarrow> int \<Rightarrow> pystr + task_definition" where
  "get_task_definition task_type handler_version =
     (case find (\<lambda>d. df_task_type d = task_type) task_definitions of
        None \<Rightarrow> Inl (lit ''Unknown task type: '' @ task_type)
      | Some d \<Rightarrow>
          if df_version d \<noteq> handler_version
          then Inl (lit ''Unsupported handler version for '' @ task_type @ lit '': '' @ str_int handler_version
                    @ lit ''; expected '' @ str_int (df_version d))
          else Inr d)"

definition get_failure_task_definition :: "pystr \<Rightarrow> int \<Rightarrow> pystr + task_definition" where
  "get_failure_task_definition task_type handler_version =
     (if handler_version = 0 then get_task_definition task_type 1
      else get_task_definition task_type handler_version)"

type_synonym 'd handlers = "pystr \<Rightarrow> pystr \<Rightarrow> pystr \<Rightarrow> 'd hook"

definition load_failure_handler :: "'d handlers \<Rightarrow> task_definition \<Rightarrow> (pystr \<Rightarrow> 'd hook) option" where
  "load_failure_handler handlers d = map_option (handlers (df_module d)) (df_failure_function d)"

text \<open>\<^verbatim>\<open>partial(failure_handler, error=error) if failure_handler is not None else None\<close>\<close>

definition failure_hook :: "'d handlers \<Rightarrow> task_definition \<Rightarrow> pystr \<Rightarrow> 'd hook option" where
  "failure_hook handlers d error = map_option (\<lambda>h. h error) (load_failure_handler handlers d)"

section \<open>Creating tasks\<close>

fun validate_timeout_seconds :: "pyfloat \<Rightarrow> pystr + rat" where
  "validate_timeout_seconds (Fin t) =
     (if t \<le> 0 then Inl (lit ''Task timeout must be a positive finite number of seconds'') else Inr t)"
| "validate_timeout_seconds _ = Inl (lit ''Task timeout must be a positive finite number of seconds'')"

definition resolve_timeout_seconds :: "rat \<Rightarrow> pyfloat option \<Rightarrow> pystr + rat" where
  "resolve_timeout_seconds default_timeout timeout =
     (case timeout of
        None \<Rightarrow> Inr default_timeout
      | Some t \<Rightarrow>
          (case validate_timeout_seconds t of
             Inl e \<Rightarrow> Inl e
           | Inr resolved \<Rightarrow>
               if default_timeout < resolved
               then Inl (lit ''Task timeout cannot exceed the worker default timeout'')
               else Inr resolved))"

definition build_task_data ::
  "pystr \<Rightarrow> rat \<Rightarrow> pystr \<Rightarrow> pystr \<Rightarrow> json \<Rightarrow> pyfloat option \<Rightarrow> pystr option \<Rightarrow> time \<Rightarrow> pystr + task_record" where
  "build_task_data task_id default_timeout name task_type payload timeout dedupe_key now =
     (case get_task_definition task_type 1 of
        Inl e \<Rightarrow> Inl e
      | Inr d \<Rightarrow>
          (case resolve_timeout_seconds default_timeout timeout of
             Inl e \<Rightarrow> Inl e
           | Inr t \<Rightarrow>
               Inr \<lparr>tk_id = task_id, tk_name = name, tk_type = task_type, tk_status = Task_pending,
                 tk_progress = 0, tk_message = task_msg_waiting, tk_payload = payload,
                 tk_result = JNull, tk_error = None, tk_cancel_requested = 0,
                 tk_handler_version = df_version d, tk_dedupe_key = dedupe_key, tk_attempt_count = 0,
                 tk_worker_id = None, tk_heartbeat_at = None, tk_lease_expires_at = None,
                 tk_timeout_seconds = t, tk_created_at = Some now, tk_updated_at = Some now,
                 tk_started_at = None, tk_completed_at = None\<rparr>))"

text \<open>\<open>enqueue_task\<close> also returns whether a wake-up message is published for the new task.\<close>

definition enqueue_task ::
  "pystr \<Rightarrow> rat \<Rightarrow> pystr \<Rightarrow> pystr \<Rightarrow> json \<Rightarrow> pyfloat option \<Rightarrow> pystr option \<Rightarrow> time \<Rightarrow> 'd task_db
   \<Rightarrow> task_error + 'd task_db \<times> task_record \<times> bool" where
  "enqueue_task task_id default_timeout name task_type payload timeout dedupe_key now db =
     (case build_task_data task_id default_timeout name task_type payload timeout dedupe_key now of
        Inl e \<Rightarrow> Inl (Task_value_error e)
      | Inr data \<Rightarrow> task_create data db)"

definition enqueue ::
  "pystr \<Rightarrow> rat \<Rightarrow> pystr \<Rightarrow> pystr \<Rightarrow> json \<Rightarrow> pyfloat option \<Rightarrow> time \<Rightarrow> 'd task_db
   \<Rightarrow> task_error + 'd task_db \<times> task_record" where
  "enqueue task_id default_timeout name task_type payload timeout now db =
     (case enqueue_task task_id default_timeout name task_type payload timeout None now db of
        Inl e \<Rightarrow> Inl e
      | Inr (db', r, _) \<Rightarrow> Inr (db', r))"

definition enqueue_unique_by_payload ::
  "(pystr \<Rightarrow> json \<Rightarrow> pystr) \<Rightarrow> pystr \<Rightarrow> rat \<Rightarrow> pystr \<Rightarrow> pystr \<Rightarrow> json \<Rightarrow> json \<Rightarrow> pyfloat option \<Rightarrow> time
   \<Rightarrow> 'd task_db \<Rightarrow> task_error + 'd task_db \<times> task_record \<times> bool" where
  "enqueue_unique_by_payload digest task_id default_timeout name task_type payload payload_match timeout now db =
     enqueue_task task_id default_timeout name task_type payload timeout
       (Some (digest task_type payload_match)) now db"

definition tasker_create_in_session ::
  "(pystr \<Rightarrow> json \<Rightarrow> pystr) \<Rightarrow> pystr \<Rightarrow> rat \<Rightarrow> pystr \<Rightarrow> pystr \<Rightarrow> json \<Rightarrow> json option \<Rightarrow> pyfloat option \<Rightarrow> time
   \<Rightarrow> 'd task_db \<Rightarrow> task_error + 'd task_db \<times> task_record" where
  "tasker_create_in_session digest task_id default_timeout name task_type payload payload_match timeout now db =
     (case build_task_data task_id default_timeout name task_type payload timeout
             (map_option (digest task_type) payload_match) now of
        Inl e \<Rightarrow> Inl (Task_value_error e)
      | Inr data \<Rightarrow> task_create_in_session data db)"

definition create_unique_in_session ::
  "(pystr \<Rightarrow> json \<Rightarrow> pystr) \<Rightarrow> pystr \<Rightarrow> rat \<Rightarrow> pystr \<Rightarrow> pystr \<Rightarrow> json \<Rightarrow> json \<Rightarrow> pyfloat option \<Rightarrow> time
   \<Rightarrow> 'd task_db \<Rightarrow> task_error + 'd task_db \<times> task_record \<times> bool" where
  "create_unique_in_session digest task_id default_timeout name task_type payload payload_match timeout now db =
     (case build_task_data task_id default_timeout name task_type payload timeout
             (Some (digest task_type payload_match)) now of
        Inl e \<Rightarrow> Inl (Task_value_error e)
      | Inr data \<Rightarrow> create_or_get_in_session data db)"

section \<open>Cancelling and deleting\<close>

definition cancel_task ::
  "'d handlers \<Rightarrow> pystr \<Rightarrow> time \<Rightarrow> 'd task_db \<Rightarrow> task_error + 'd task_db \<times> task_record option" where
  "cancel_task handlers task_id clk db =
     (case get_by_id task_id db of
        None \<Rightarrow> request_cancel task_id None None clk db
      | Some current \<Rightarrow>
          (case get_failure_task_definition (tk_type current) (tk_handler_version current) of
             Inl _ \<Rightarrow> Inr (db, None)
           | Inr d \<Rightarrow> request_cancel task_id (failure_hook handlers d task_msg_cancelled) None clk db))"

definition delete_task :: "pystr \<Rightarrow> 'd task_db \<Rightarrow> bool \<times> 'd task_db" where
  "delete_task task_id db =
     (case get_by_id task_id db of None \<Rightarrow> (False, db) | Some _ \<Rightarrow> delete_terminal task_id db)"

section \<open>The handler's context\<close>

datatype cancel_reason = Reason_lease_lost | Reason_cancelled | Reason_timeout

record task_context =
  cx_task_id :: pystr
  cx_worker_id :: pystr
  cx_cancellation_reason :: "cancel_reason option"
  cx_cancel_requested :: bool
  cx_last_persisted_progress :: "rat option"
  cx_last_persisted_message :: "pystr option"

definition ctx_request_cancel :: "cancel_reason \<Rightarrow> task_context \<Rightarrow> task_context" where
  "ctx_request_cancel reason ctx =
     ctx\<lparr>cx_cancel_requested := (reason = Reason_cancelled), cx_cancellation_reason := Some reason\<rparr>"

text \<open>The boolean of the results below is \<open>True\<close> when \<^verbatim>\<open>asyncio.CancelledError\<close> is raised.\<close>

definition ctx_update ::
  "task_field list \<Rightarrow> time \<Rightarrow> task_context \<Rightarrow> 'd task_db \<Rightarrow> task_context \<times> 'd task_db \<times> bool" where
  "ctx_update data clk ctx db =
     (case update_owned (cx_task_id ctx) (cx_worker_id ctx) data None clk db of
        (db', True) \<Rightarrow> (ctx, db', False)
      | (db', False) \<Rightarrow> (ctx\<lparr>cx_cancellation_reason := Some Reason_lease_lost\<rparr>, db', True))"

fun set_progress ::
  "pyfloat \<Rightarrow> pystr option \<Rightarrow> time \<Rightarrow> task_context \<Rightarrow> 'd task_db \<Rightarrow> task_context \<times> 'd task_db \<times> bool" where
  "set_progress progress message clk ctx db =
     (case normalize_progress progress of
        Fin normalized \<Rightarrow>
          (let throttled = (case cx_last_persisted_progress ctx of None \<Rightarrow> False
                 | Some p \<Rightarrow> abs (normalized - p) < 2)
           in if throttled \<and> (message = None \<or> message = cx_last_persisted_message ctx)
              then (ctx, db, False)
              else
                (case ctx_update (Set_progress normalized
                        # (case message of None \<Rightarrow> [] | Some m \<Rightarrow> [Set_message m])) clk ctx db of
                   (ctx', db', True) \<Rightarrow> (ctx', db', True)
                 | (ctx', db', False) \<Rightarrow>
                     (ctx'\<lparr>cx_last_persisted_progress := Some normalized,
                           cx_last_persisted_message :=
                             (case message of None \<Rightarrow> cx_last_persisted_message ctx' | Some m \<Rightarrow> Some m)\<rparr>,
                      db', False)))
      | _ \<Rightarrow> (ctx, db, False))"

definition set_message ::
  "pystr \<Rightarrow> time \<Rightarrow> task_context \<Rightarrow> 'd task_db \<Rightarrow> task_context \<times> 'd task_db \<times> bool" where
  "set_message message clk ctx db =
     (case ctx_update [Set_message message] clk ctx db of
        (ctx', db', True) \<Rightarrow> (ctx', db', True)
      | (ctx', db', False) \<Rightarrow> (ctx'\<lparr>cx_last_persisted_message := Some message\<rparr>, db', False))"

definition set_result ::
  "json \<Rightarrow> time \<Rightarrow> task_context \<Rightarrow> 'd task_db \<Rightarrow> task_context \<times> 'd task_db \<times> bool" where
  "set_result result clk ctx db = ctx_update [Set_result result] clk ctx db"

definition ctx_run_owned_transaction ::
  "'d hook \<Rightarrow> time \<Rightarrow> time \<Rightarrow> task_context \<Rightarrow> 'd task_db \<Rightarrow> task_error + task_context \<times> 'd task_db \<times> bool" where
  "ctx_run_owned_transaction operation clk clk2 ctx db =
     (case run_owned_transaction (cx_task_id ctx) (cx_worker_id ctx) operation clk clk2 db of
        Inl e \<Rightarrow> Inl e
      | Inr (db', True) \<Rightarrow> Inr (ctx, db', False)
      | Inr (db', False) \<Rightarrow> Inr (ctx\<lparr>cx_cancellation_reason := Some Reason_lease_lost\<rparr>, db', True))"

definition raise_if_cancelled :: "time \<Rightarrow> task_context \<Rightarrow> 'd task_db \<Rightarrow> task_context \<times> bool" where
  "raise_if_cancelled clk ctx db =
     (case check_control (cx_task_id ctx) (cx_worker_id ctx) clk db of
        (owns_lease, cancel_requested) \<Rightarrow>
          if \<not> owns_lease then (ctx\<lparr>cx_cancellation_reason := Some Reason_lease_lost\<rparr>, True)
          else if cancel_requested then (ctx_request_cancel Reason_cancelled ctx, True)
          else (ctx, False))"

text \<open>
  One round of \<^verbatim>\<open>_heartbeat_task\<close>; the boolean is \<open>True\<close> when the round cancels the execution and the
  loop ends. \<open>unavailable\<close>: the renewal raised (the database is not reachable).
  \<open>task_lease_seconds\<close> is \<^verbatim>\<open>TASK_LEASE_SECONDS\<close>.
\<close>

definition task_lease_seconds :: rat where
  "task_lease_seconds = 30"

definition durable_task_max_running :: int where
  "durable_task_max_running = 4"

definition heartbeat_round :: "bool \<Rightarrow> time \<Rightarrow> task_context \<Rightarrow> 'd task_db \<Rightarrow> task_context \<times> 'd task_db \<times> bool" where
  "heartbeat_round unavailable clk ctx db =
     (if unavailable then (ctx_request_cancel Reason_lease_lost ctx, db, True)
      else case task_renew_lease (cx_task_id ctx) (cx_worker_id ctx) task_lease_seconds None clk db of
        (db', renewed, cancel_requested) \<Rightarrow>
          if \<not> renewed then (ctx_request_cancel Reason_lease_lost ctx, db', True)
          else if cancel_requested then (ctx_request_cancel Reason_cancelled ctx, db', True)
          else (ctx, db', False))"

section \<open>The worker\<close>

definition finish_task_failure ::
  "pystr \<Rightarrow> pystr \<Rightarrow> task_status \<Rightarrow> pystr \<Rightarrow> pystr \<Rightarrow> (pystr \<Rightarrow> 'd hook) option \<Rightarrow> time \<Rightarrow> time \<Rightarrow> 'd task_db
   \<Rightarrow> task_error + 'd task_db \<times> bool" where
  "finish_task_failure task_id owner status message error failure_handler clk clk2 db =
     finish_owned task_id owner status message None (Some error)
       (map_option (\<lambda>h. h error) failure_handler) None None clk clk2 db"

text \<open>
  \<^verbatim>\<open>process_task\<close> up to the start of the handler: \<open>Some\<close> means that it is started with this context.
  \<open>load_error d\<close> is \<open>Some (fh, e)\<close> when importing the handlers of \<open>d\<close> raises \<open>e\<close>, after the failure
  handler was loaded (\<open>fh\<close>) or not.
\<close>

definition process_task_begin ::
  "'d handlers \<Rightarrow> (task_definition \<Rightarrow> (bool \<times> pystr) option) \<Rightarrow> pystr \<Rightarrow> pystr \<Rightarrow> time \<Rightarrow> time \<Rightarrow> time
   \<Rightarrow> 'd task_db \<Rightarrow> 'd task_db \<times> (task_error + (task_definition \<times> task_context) option)" where
  "process_task_begin handlers load_error task_id owner clk clk2 clk3 db =
     (case get_by_id task_id db of
        None \<Rightarrow> (db, Inr None)
      | Some r \<Rightarrow>
          if task_terminal (tk_status r) then (db, Inr None)
          else
            (case get_task_definition (tk_type r) (tk_handler_version r) of
               Inl _ \<Rightarrow> (db, Inr None)
             | Inr d \<Rightarrow>
                 if tk_cancel_requested r \<noteq> 0
                 then
                   (case request_cancel task_id (failure_hook handlers d task_msg_cancelled) None clk db of
                      Inl e \<Rightarrow> (db, Inl e)
                    | Inr (db', _) \<Rightarrow> (db', Inr None))
                 else
                   (case claim task_id owner task_lease_seconds None (Some durable_task_max_running) clk db of
                      Inl e \<Rightarrow> (db, Inl e)
                    | Inr (db', None, _) \<Rightarrow> (db', Inr None)
                    | Inr (db', Some _, False) \<Rightarrow> (db', Inr None)
                    | Inr (db', Some _, True) \<Rightarrow>
                        (case load_error d of
                           Some (fh, e) \<Rightarrow>
                             (case finish_task_failure task_id owner Task_failed task_msg_no_handler e
                                     (if fh then load_failure_handler handlers d else None) clk2 clk3 db' of
                                Inl x \<Rightarrow> (db', Inl x)
                              | Inr (db'', _) \<Rightarrow> (db'', Inr None))
                         | None \<Rightarrow>
                             (db', Inr (Some (d, \<lparr>cx_task_id = task_id, cx_worker_id = owner,
                               cx_cancellation_reason = None, cx_cancel_requested = False,
                               cx_last_persisted_progress = None, cx_last_persisted_message = None\<rparr>)))))))"

text \<open>How the handler ended: its result, the timeout, a cancellation, or an exception with its text.\<close>

datatype handler_outcome = Handler_result json | Handler_timeout pystr | Handler_cancelled | Handler_raised pystr

text \<open>
  \<^verbatim>\<open>except Exception\<close>: an exception of the success path, hook errors included, ends the task as failed.
\<close>

definition or_fail ::
  "pystr \<Rightarrow> pystr \<Rightarrow> (pystr \<Rightarrow> 'd hook) option \<Rightarrow> time \<Rightarrow> time \<Rightarrow> 'd task_db \<Rightarrow> task_error + 'd task_db \<times> bool
   \<Rightarrow> task_error + 'd task_db \<times> bool" where
  "or_fail task_id owner failure_handler clk clk2 db res =
     (case res of
        Inl (Hook_error e) \<Rightarrow>
          finish_task_failure task_id owner Task_failed task_msg_failed e failure_handler clk clk2 db
      | _ \<Rightarrow> res)"

definition process_task_settle ::
  "'d handlers \<Rightarrow> (pystr \<Rightarrow> pystr \<Rightarrow> json \<Rightarrow> 'd hook) \<Rightarrow> task_definition \<Rightarrow> task_context \<Rightarrow> handler_outcome
   \<Rightarrow> time \<Rightarrow> time \<Rightarrow> time \<Rightarrow> time \<Rightarrow> 'd task_db \<Rightarrow> task_error + 'd task_db \<times> bool" where
  "process_task_settle handlers success_handlers d ctx outcome clk clk2 clk3 clk4 db =
     (let task_id = cx_task_id ctx; owner = cx_worker_id ctx;
          failure_handler = load_failure_handler handlers d
      in case outcome of
           Handler_timeout error \<Rightarrow>
             or_fail task_id owner failure_handler clk3 clk4 db
               (finish_task_failure task_id owner Task_failed task_msg_timeout error failure_handler clk clk2 db)
         | Handler_result result \<Rightarrow>
             or_fail task_id owner failure_handler clk3 clk4 db
               (finish_owned task_id owner Task_success task_msg_done (Some result) None
                  (map_option (\<lambda>f. success_handlers (df_module d) f result) (df_success_function d))
                  (map_option (\<lambda>h. h task_msg_cancelled) failure_handler) None clk clk2 db)
         | Handler_cancelled \<Rightarrow>
             (if cx_cancellation_reason ctx = Some Reason_cancelled
              then finish_task_failure task_id owner Task_cancelled task_msg_cancelled task_msg_cancelled
                     failure_handler clk clk2 db
              else if cx_cancellation_reason ctx \<noteq> Some Reason_lease_lost
              then
                (case release_interrupted_owner task_id owner task_msg_shutdown
                        (map_option (\<lambda>h. h task_msg_shutdown) failure_handler) None clk clk2 db of
                   Inl e \<Rightarrow> Inl e
                 | Inr (db', st) \<Rightarrow> Inr (db', st \<noteq> None))
              else Inr (db, False))
         | Handler_raised error \<Rightarrow>
             finish_task_failure task_id owner Task_failed task_msg_failed error failure_handler clk clk2 db)"

section \<open>Publication and convergence\<close>

definition finalize_task_failure :: "'d handlers \<Rightarrow> pystr \<Rightarrow> 'd hook" where
  "finalize_task_failure handlers error r d =
     (case get_failure_task_definition (tk_type r) (tk_handler_version r) of
        Inl _ \<Rightarrow> Inr d
      | Inr df \<Rightarrow> (case load_failure_handler handlers df of None \<Rightarrow> Inr d | Some h \<Rightarrow> h error r d))"

definition failure_hook_of :: "'d handlers \<Rightarrow> task_record \<Rightarrow> pystr \<Rightarrow> 'd hook option" where
  "failure_hook_of handlers r error =
     (case get_failure_task_definition (tk_type r) (tk_handler_version r) of
        Inl _ \<Rightarrow> None | Inr d \<Rightarrow> failure_hook handlers d error)"

text \<open>
  The body of the loop of \<^verbatim>\<open>publish_pending_tasks\<close> for one row of the list read at its start. The
  result \<open>Inr (db', published)\<close> tells whether the wake-up message was sent.
\<close>

definition publish_one ::
  "'d handlers \<Rightarrow> (pystr \<Rightarrow> bool) \<Rightarrow> time \<Rightarrow> task_record \<Rightarrow> 'd task_db \<Rightarrow> task_error + 'd task_db \<times> bool" where
  "publish_one handlers queue_up clk r db =
     (case get_task_definition (tk_type r) 1 of
        Inl e \<Rightarrow>
          (case fail_pending (tk_id r) e None None clk db of Inl x \<Rightarrow> Inl x | Inr (db', _) \<Rightarrow> Inr (db', False))
      | Inr _ \<Rightarrow>
          if tk_cancel_requested r \<noteq> 0
          then
            (case request_cancel (tk_id r) (failure_hook_of handlers r task_msg_cancelled) None clk db of
               Inl x \<Rightarrow> Inl x | Inr (db', _) \<Rightarrow> Inr (db', False))
          else
            (case get_task_definition (tk_type r) (tk_handler_version r) of
               Inl e \<Rightarrow>
                 (case fail_pending (tk_id r) e (failure_hook_of handlers r e) None clk db of
                    Inl x \<Rightarrow> Inl x | Inr (db', _) \<Rightarrow> Inr (db', False))
             | Inr _ \<Rightarrow>
                 if queue_up (tk_id r) then Inr (db, True) else Inl (Hook_error (lit ''queue''))))"

text \<open>The loop commits per row; when a row raises, the rows before it stay committed.\<close>

fun publish_loop ::
  "'d handlers \<Rightarrow> (pystr \<Rightarrow> bool) \<Rightarrow> time \<Rightarrow> task_record list \<Rightarrow> pystr list \<Rightarrow> 'd task_db
   \<Rightarrow> pystr list \<times> task_error option \<times> 'd task_db" where
  "publish_loop handlers queue_up clk [] published db = (published, None, db)"
| "publish_loop handlers queue_up clk (r # rest) published db =
     (case publish_one handlers queue_up clk r db of
        Inl e \<Rightarrow> (published, Some e, db)
      | Inr (db', sent) \<Rightarrow>
          publish_loop handlers queue_up clk rest (if sent then published @ [tk_id r] else published) db')"

definition publish_pending_tasks ::
  "'d handlers \<Rightarrow> (pystr \<Rightarrow> bool) \<Rightarrow> int \<Rightarrow> time \<Rightarrow> 'd task_db \<Rightarrow> pystr list \<times> task_error option \<times> 'd task_db" where
  "publish_pending_tasks handlers queue_up limit clk db =
     publish_loop handlers queue_up clk (list_pending limit db) [] db"

definition reconcile_and_publish_tasks ::
  "'d handlers \<Rightarrow> (pystr \<Rightarrow> bool) \<Rightarrow> pystr list \<Rightarrow> time \<Rightarrow> time \<Rightarrow> 'd task_db
   \<Rightarrow> (task_error + (pystr \<times> task_status \<times> int) list) \<times> 'd task_db" where
  "reconcile_and_publish_tasks handlers queue_up locked clk clk2 db =
     (case task_reconcile_expired_leases locked (Some (finalize_task_failure handlers)) None clk db of
        Inl e \<Rightarrow> (Inl e, db)
      | Inr (db1, reconciled) \<Rightarrow>
          (case publish_pending_tasks handlers queue_up 200 clk2 db1 of
             (_, Some e, db2) \<Rightarrow> (Inl e, db2)
           | (_, None, db2) \<Rightarrow> (Inr reconciled, snd (prune_terminal 200 db2))))"

end
