(* ===== verification/Task_Invariant.thy ===== *)
theory Task_Invariant
  imports Task_Service
begin

text \<open>
  The invariant of the task table (\<open>task_inv\<close>) and the step relation \<open>task_step\<close> of the component,
  one rule per committed repository transaction; the service functions are sequences of them. The
  lease of a task is an instance of \<open>lease_discipline\<close>.
\<close>

section \<open>The invariant\<close>

definition task_lease_ok :: "task_record \<Rightarrow> bool" where
  "task_lease_ok r \<longleftrightarrow>
     (tk_status r = Task_running \<longleftrightarrow> tk_worker_id r \<noteq> None)
     \<and> (tk_worker_id r = None \<longleftrightarrow> tk_lease_expires_at r = None)
     \<and> (tk_worker_id r = None \<longleftrightarrow> tk_heartbeat_at r = None)
     \<and> (tk_status r = Task_running \<longrightarrow> tk_started_at r \<noteq> None \<and> 1 \<le> tk_attempt_count r)"

definition task_row_ok :: "task_record \<Rightarrow> bool" where
  "task_row_ok r \<longleftrightarrow>
     task_lease_ok r \<and> 0 \<le> tk_attempt_count r
     \<and> (tk_status r = Task_pending \<or> tk_status r = Task_running \<or> task_terminal (tk_status r))
     \<and> (task_terminal (tk_status r) \<longleftrightarrow> tk_completed_at r \<noteq> None)
     \<and> (task_terminal (tk_status r) \<longrightarrow> tk_dedupe_key r = None)"

definition dedupe_keys :: "task_record list \<Rightarrow> (pystr \<times> pystr option) list" where
  "dedupe_keys rows = map (\<lambda>r. (tk_type r, tk_dedupe_key r)) (filter (\<lambda>r. tk_dedupe_key r \<noteq> None) rows)"

definition task_inv :: "'d task_db \<Rightarrow> bool" where
  "task_inv db \<longleftrightarrow>
     distinct (map tk_id (td_tasks db)) \<and> distinct (dedupe_keys (td_tasks db))
     \<and> list_all task_row_ok (td_tasks db)"

lemmas task_row_defs = task_row_ok_def task_lease_ok_def

lemma lock_task_iff:
  "task_inv db \<Longrightarrow> lock_task i db = Some r \<longleftrightarrow> r \<in> set (td_tasks db) \<and> tk_id r = i"
  unfolding lock_task_def task_inv_def by (rule find_key_eq) simp

lemma lock_task_id: "lock_task i db = Some r \<Longrightarrow> tk_id r = i"
  unfolding lock_task_def by (drule find_Some_in) simp

lemma lock_task_in: "lock_task i db = Some r \<Longrightarrow> r \<in> set (td_tasks db)"
  unfolding lock_task_def by (drule find_Some_in) simp

lemma lock_task_row_ok: "task_inv db \<Longrightarrow> lock_task i db = Some r \<Longrightarrow> task_row_ok r"
  by (auto simp: task_inv_def list_all_iff dest: lock_task_in)

section \<open>Replacing one row\<close>

lemma lock_put_task:
  assumes "lock_task i db = Some r" and "tk_id r' = i"
  shows "lock_task j (put_task r' db) = (if j = i then Some r' else lock_task j db)"
proof -
  have "find (\<lambda>x. tk_id x = j) (update_where (\<lambda>x. tk_id x = i) (\<lambda>_. r') xs)
    = (if j = i then Some r' else find (\<lambda>x. tk_id x = j) xs)"
    if "find (\<lambda>x. tk_id x = i) xs = Some r \<or> j \<noteq> i" for xs
    using that assms(2) by (induction xs) (auto split: if_splits)
  then show ?thesis using assms by (simp add: lock_task_def put_task_def)
qed

lemma td_tasks_put_task [simp]:
  "td_tasks (put_task r db) = update_where (\<lambda>x. tk_id x = tk_id r) (\<lambda>_. r) (td_tasks db)"
  by (simp add: put_task_def)

lemma put_task_inv:
  assumes inv: "task_inv db" and r: "lock_task i db = Some r" and id: "tk_id r' = i"
    and key: "tk_type r' = tk_type r" "tk_dedupe_key r' = tk_dedupe_key r \<or> tk_dedupe_key r' = None"
    and ok: "task_row_ok r'"
  shows "task_inv (put_task r' db)"
proof -
  have same: "x = r" if "x \<in> set (td_tasks db)" "tk_id x = i" for x
    using lock_task_iff[OF inv] r that by (metis option.inject)
  have "map tk_id (td_tasks (put_task r' db)) = map tk_id (td_tasks db)"
    using id by (auto intro: map_update_where)
  moreover have "distinct (dedupe_keys (td_tasks (put_task r' db)))"
    unfolding dedupe_keys_def td_tasks_put_task update_where_def
    by (rule partial_key_shrink)
       (use inv same id key in \<open>auto simp: task_inv_def dedupe_keys_def split: if_splits\<close>)
  moreover have "list_all task_row_ok (td_tasks (put_task r' db))"
    using inv ok by (auto simp: set_update_where list_all_iff task_inv_def)
  ultimately show ?thesis using inv by (simp add: task_inv_def)
qed

lemma task_inv_domain [simp]: "task_inv (db\<lparr>td_domain := d\<rparr>) = task_inv db"
  by (simp add: task_inv_def)

lemma call_hook_result:
  "call_hook h r db = Inr db1 \<Longrightarrow> \<exists>d. db1 = db\<lparr>td_domain := d\<rparr>"
  by (auto simp: call_hook_def split: option.splits sum.splits intro: exI[of _ "td_domain db"])

lemma lock_task_domain [simp]: "lock_task i (db\<lparr>td_domain := d\<rparr>) = lock_task i db"
  by (simp add: lock_task_def)

section \<open>Transactions on one row\<close>

definition task_identity :: "task_record \<Rightarrow> pystr \<times> pystr \<times> pystr \<times> json \<times> int \<times> rat \<times> time option" where
  "task_identity r =
     (tk_id r, tk_name r, tk_type r, tk_payload r, tk_handler_version r, tk_timeout_seconds r, tk_created_at r)"

text \<open>How an active row may change.\<close>

definition task_move :: "task_record \<Rightarrow> task_record \<Rightarrow> bool" where
  "task_move r r' \<longleftrightarrow>
     task_identity r' = task_identity r \<and> \<not> task_terminal (tk_status r)
     \<and> (tk_status r' = Task_pending \<longrightarrow> tk_status r = Task_pending)
     \<and> (tk_status r' = Task_running \<and> tk_status r \<noteq> Task_running \<longrightarrow> tk_status r = Task_pending)
     \<and> tk_attempt_count r \<le> tk_attempt_count r'
     \<and> (tk_dedupe_key r' = tk_dedupe_key r \<or> tk_dedupe_key r' = None)
     \<and> (task_row_ok r \<longrightarrow> task_row_ok r')"

text \<open>A committed transaction: domain writes and at most one row moved.\<close>

definition task_txn :: "'d task_db \<Rightarrow> 'd task_db \<Rightarrow> bool" where
  "task_txn db db' \<longleftrightarrow>
     (\<exists>d. db' = db\<lparr>td_domain := d\<rparr>
        \<or> (\<exists>i r r'. lock_task i db = Some r \<and> task_move r r' \<and> db' = put_task r' (db\<lparr>td_domain := d\<rparr>)))"

lemma task_txn_refl [simp]: "task_txn db db"
  unfolding task_txn_def by (rule exI[of _ "td_domain db"]) simp

lemma task_txn_hook: "call_hook h x db = Inr db1 \<Longrightarrow> task_txn db db1"
  unfolding task_txn_def by (drule call_hook_result) blast

lemma task_txn_hooked_put:
  "lock_task i db = Some r \<Longrightarrow> call_hook h x db = Inr db1 \<Longrightarrow> task_move r r' \<Longrightarrow> task_txn db (put_task r' db1)"
  unfolding task_txn_def by (drule call_hook_result) blast

lemma task_txn_put: "lock_task i db = Some r \<Longrightarrow> task_move r r' \<Longrightarrow> task_txn db (put_task r' db)"
  by (rule task_txn_hooked_put[of i _ r None]) (simp_all add: call_hook_def)

lemma task_txn_inv:
  assumes "task_inv db" and "task_txn db db'"
  shows "task_inv db'"
proof -
  consider d where "db' = db\<lparr>td_domain := d\<rparr>"
    | d i r r' where "lock_task i db = Some r" "task_move r r'" "db' = put_task r' (db\<lparr>td_domain := d\<rparr>)"
    using assms(2) by (auto simp: task_txn_def)
  then show ?thesis
  proof cases
    case 1
    then show ?thesis using assms(1) by simp
  next
    case 2
    then have "tk_id r' = i" "tk_type r' = tk_type r" using lock_task_id[OF 2(1)]
      by (auto simp: task_move_def task_identity_def)
    then show ?thesis unfolding 2(3)
      by (intro put_task_inv[of _ i r])
         (use assms(1) 2 lock_task_row_ok[OF assms(1) 2(1)] in \<open>auto simp: task_move_def\<close>)
  qed
qed

text \<open>What one transaction does to a row that was there before.\<close>

lemma task_txn_row:
  assumes "task_inv db" and "task_txn db db'" and "lock_task j db = Some r"
  shows "\<exists>r'. lock_task j db' = Some r' \<and> (r' = r \<or> task_move r r')"
proof -
  consider d where "db' = db\<lparr>td_domain := d\<rparr>"
    | d i x r' where "lock_task i db = Some x" "task_move x r'" "db' = put_task r' (db\<lparr>td_domain := d\<rparr>)"
    using assms(2) by (auto simp: task_txn_def)
  then show ?thesis
  proof cases
    case 1
    then show ?thesis using assms(3) by simp
  next
    case 2
    have "tk_id r' = i" using 2(2) lock_task_id[OF 2(1)] by (auto simp: task_move_def task_identity_def)
    then have "lock_task j db' = (if j = i then Some r' else lock_task j db)"
      unfolding 2(3) using 2(1) by (subst lock_put_task[of i _ x]) auto
    then show ?thesis using assms(3) 2(1,2) by (cases "j = i") auto
  qed
qed

section \<open>Every operation is such a transaction\<close>

lemma row_pending: "tk_status r = Task_pending \<Longrightarrow> task_row_ok r \<Longrightarrow>
  tk_worker_id r = None \<and> tk_lease_expires_at r = None \<and> tk_heartbeat_at r = None"
  by (auto simp: task_row_defs)

lemmas task_move_defs = task_move_def task_identity_def task_row_defs

lemma fail_pending_txn: "fail_pending i e h now clk db = Inr (db', b) \<Longrightarrow> task_txn db db'"
  by (auto simp: fail_pending_def Let_def task_move_defs split: option.splits if_splits sum.splits
      intro!: task_txn_hooked_put)

lemma request_cancel_txn: "request_cancel i h now clk db = Inr (db', b) \<Longrightarrow> task_txn db db'"
  by (auto simp: request_cancel_def Let_def task_move_defs split: option.splits if_splits sum.splits
      intro!: task_txn_hooked_put task_txn_put)

lemma claim_txn: "claim i w ls now mr clk db = Inr (db', b) \<Longrightarrow> task_txn db db'"
  by (auto simp: claim_def Let_def task_move_defs split: option.splits if_splits
      intro!: task_txn_put)

lemma renew_txn: "task_renew_lease i w ls now clk db = (db', b) \<Longrightarrow> task_txn db db'"
  by (auto simp: task_renew_lease_def is_live_owner_def Let_def task_move_defs split: option.splits if_splits
      intro!: task_txn_put)

lemma run_owned_txn: "run_owned_transaction i w h clk clk2 db = Inr (db', b) \<Longrightarrow> task_txn db db'"
  by (auto simp: run_owned_transaction_def split: option.splits if_splits sum.splits intro: task_txn_hook)

lemma set_task_field_keep [simp]:
  "task_identity (set_task_field f r) = task_identity r"
  "tk_status (set_task_field f r) = tk_status r"
  "tk_attempt_count (set_task_field f r) = tk_attempt_count r"
  "tk_dedupe_key (set_task_field f r) = tk_dedupe_key r"
  "task_row_ok (set_task_field f r) = task_row_ok r"
  by (cases f; simp add: set_task_field_def task_identity_def task_row_defs)+

lemma set_task_fields_keep:
  "task_identity (fold set_task_field fs r) = task_identity r
   \<and> tk_status (fold set_task_field fs r) = tk_status r
   \<and> tk_attempt_count (fold set_task_field fs r) = tk_attempt_count r
   \<and> tk_dedupe_key (fold set_task_field fs r) = tk_dedupe_key r
   \<and> task_row_ok (fold set_task_field fs r) = task_row_ok r"
  by (induction fs arbitrary: r) simp_all

lemma update_owned_txn: "update_owned i w fs now clk db = (db', b) \<Longrightarrow> task_txn db db'"
proof -
  assume op: "update_owned i w fs now clk db = (db', b)"
  show ?thesis
  proof (cases b)
    case True
    then obtain r where r: "lock_task i db = Some r" "tk_status r = Task_running"
      and db': "db' = put_task ((fold set_task_field fs r)\<lparr>tk_updated_at := Some (current_time now clk)\<rparr>) db"
      using op by (auto simp: update_owned_def is_live_owner_def Let_def split: option.splits if_splits)
    have "task_row_ok (x\<lparr>tk_updated_at := t\<rparr>) = task_row_ok x" for x t by (simp add: task_row_defs)
    then have "task_move r ((fold set_task_field fs r)\<lparr>tk_updated_at := Some (current_time now clk)\<rparr>)"
      using set_task_fields_keep[of fs r] r(2) by (simp add: task_move_def task_identity_def)
    then show ?thesis unfolding db' using r(1) by (intro task_txn_put)
  next
    case False
    then show ?thesis using op by (auto simp: update_owned_def Let_def split: option.splits if_splits)
  qed
qed

lemma clear_execution_simps [simp]:
  "task_identity (clear_execution b r) = task_identity r"
  "tk_status (clear_execution b r) = tk_status r"
  "tk_attempt_count (clear_execution b r) = tk_attempt_count r"
  "tk_dedupe_key (clear_execution True r) = None"
  "tk_worker_id (clear_execution b r) = None" "tk_lease_expires_at (clear_execution b r) = None"
  "tk_heartbeat_at (clear_execution b r) = None" "tk_completed_at (clear_execution b r) = tk_completed_at r"
  by (simp_all add: clear_execution_def task_identity_def)

lemma terminal_not_running: "task_terminal s \<Longrightarrow> s \<noteq> Task_running \<and> s \<noteq> Task_pending"
  by (cases s) auto

lemma finish_owned_done:
  assumes "finish_owned i w st m res er bf bc now clk clk2 db = Inr (db', True)"
  obtains r st' m' res' h db1 where "lock_task i db = Some r" "is_live_owner (Some r) w (current_time now clk)"
    "is_live_owner (Some r) w (current_time now clk2)" "finish_plan r st m res bf bc = (st', m', res', h)"
    "call_hook h r db = Inr db1" "task_terminal st"
    "db' = put_task (clear_execution True (r\<lparr>tk_status := st', tk_progress := 100, tk_message := m',
       tk_result := (case res' of None \<Rightarrow> tk_result r | Some v \<Rightarrow> v), tk_error := er,
       tk_completed_at := Some (current_time now clk2), tk_updated_at := Some (current_time now clk2)\<rparr>)) db1"
  using assms
  by (auto simp: finish_owned_def Let_def split: option.splits if_splits sum.splits prod.splits)

lemma finish_plan_terminal:
  "finish_plan r st m res bf bc = (st', m', res', h) \<Longrightarrow> task_terminal st \<Longrightarrow> task_terminal st'"
  by (auto simp: finish_plan_def split: if_splits)

lemma finish_owned_refused:
  "finish_owned i w st m res er bf bc now clk clk2 db = Inr (db', False) \<Longrightarrow> db' = db"
  by (auto simp: finish_owned_def Let_def split: option.splits if_splits sum.splits prod.splits)

lemma finish_owned_txn:
  assumes op: "finish_owned i w st m res er bf bc now clk clk2 db = Inr (db', b)"
  shows "task_txn db db'"
proof (cases b)
  case False
  then show ?thesis using op finish_owned_refused by fastforce
next
  case True
  then have "finish_owned i w st m res er bf bc now clk clk2 db = Inr (db', True)" using op by simp
  then obtain r st' m' res' h db1 where r: "lock_task i db = Some r" "is_live_owner (Some r) w (current_time now clk)"
    and p: "finish_plan r st m res bf bc = (st', m', res', h)" "task_terminal st"
    and h: "call_hook h r db = Inr db1"
    and db': "db' = put_task (clear_execution True (r\<lparr>tk_status := st', tk_progress := 100, tk_message := m',
       tk_result := (case res' of None \<Rightarrow> tk_result r | Some v \<Rightarrow> v), tk_error := er,
       tk_completed_at := Some (current_time now clk2), tk_updated_at := Some (current_time now clk2)\<rparr>)) db1"
    by (rule finish_owned_done)
  have "task_terminal st'" using p by (rule finish_plan_terminal)
  with r(2) show ?thesis unfolding db'
    by (intro task_txn_hooked_put[OF r(1) h])
       (auto simp: task_move_def task_row_defs is_live_owner_def task_identity_def clear_execution_def
          dest: terminal_not_running)
qed

lemma fail_interrupted_move:
  "\<not> task_terminal (tk_status r) \<Longrightarrow> task_move r (fail_interrupted_task e now r)"
  by (auto simp: fail_interrupted_task_def task_move_def task_row_defs clear_execution_def task_identity_def)

lemma release_interrupted_txn:
  "release_interrupted_owner i w e h now clk clk2 db = Inr (db', st) \<Longrightarrow> task_txn db db'"
  by (auto simp: release_interrupted_owner_def is_live_owner_def Let_def
      split: option.splits if_splits sum.splits intro!: task_txn_hooked_put fail_interrupted_move)

text \<open>Reconciliation moves several rows in one transaction.\<close>

lemma task_reconcile_loop_txns:
  assumes "task_reconcile_loop h now rows acc db = Inr (db', res)" and "distinct (map tk_id rows)"
    and "\<And>r. r \<in> set rows \<Longrightarrow> lock_task (tk_id r) db = Some r \<and> tk_status r = Task_running"
  shows "task_txn\<^sup>*\<^sup>* db db'"
  using assms
proof (induction h now rows acc db rule: task_reconcile_loop.induct)
  case (2 h now r rest acc db)
  then obtain db1 where h: "call_hook (map_option (\<lambda>h. h task_msg_lease_expired) h) r db = Inr db1"
    by (auto split: sum.splits)
  let ?r = "fail_interrupted_task task_msg_lease_expired now r"
  have lk: "lock_task (tk_id r) db = Some r" "tk_status r = Task_running" using 2(4)[of r] by auto
  obtain d where db1: "db1 = db\<lparr>td_domain := d\<rparr>" using call_hook_result[OF h] by blast
  have id: "tk_id ?r = tk_id r" by (simp add: fail_interrupted_task_def clear_execution_def)
  have "task_txn db (put_task ?r db1)"
    by (rule task_txn_hooked_put[OF lk(1) h fail_interrupted_move]) (simp add: lk(2))
  moreover have "task_txn\<^sup>*\<^sup>* (put_task ?r db1) db'"
  proof (rule 2(1)[OF h refl])
    show "lock_task (tk_id x) (put_task ?r db1) = Some x \<and> tk_status x = Task_running"
      if "x \<in> set rest" for x
    proof -
      have "tk_id x \<noteq> tk_id r" using 2(3) that by (metis distinct.simps(2) image_eqI list.simps(9) set_map)
      then have "lock_task (tk_id x) (put_task ?r db1) = lock_task (tk_id x) db"
        using lock_put_task[of "tk_id r" db1 r ?r "tk_id x"] lk(1) id by (simp add: db1)
      then show ?thesis using 2(4)[of x] that by simp
    qed
  qed (use 2(2,3) h in \<open>auto simp: Let_def\<close>)
  ultimately show ?case by (rule converse_rtranclp_into_rtranclp)
qed simp

lemma task_reconcile_txns:
  assumes inv: "task_inv db" and op: "task_reconcile_expired_leases locked h now clk db = Inr (db', res)"
  shows "task_txn\<^sup>*\<^sup>* db db'"
proof -
  let ?rows = "filter (\<lambda>r. task_lost (current_time now clk) r \<and> tk_id r \<notin> set locked) (td_tasks db)"
  have "task_reconcile_loop h (current_time now clk) ?rows [] db = Inr (db', res)"
    using op by (simp add: task_reconcile_expired_leases_def Let_def)
  then show ?thesis
  proof (rule task_reconcile_loop_txns)
    show "distinct (map tk_id ?rows)" using inv by (auto simp: task_inv_def distinct_map inj_on_def)
    show "lock_task (tk_id r) db = Some r \<and> tk_status r = Task_running" if "r \<in> set ?rows" for r
      using that lock_task_iff[OF inv] by (auto simp: task_lost_def)
  qed
qed

section \<open>Deletion\<close>

lemma filter_tasks_inv:
  assumes "task_inv db"
  shows "task_inv (db\<lparr>td_tasks := filter P (td_tasks db)\<rparr>)"
proof -
  have "distinct (dedupe_keys (filter P (td_tasks db)))"
    using assms by (auto simp: task_inv_def dedupe_keys_def distinct_map inj_on_def)
  then show ?thesis using assms by (auto simp: task_inv_def distinct_map_filter list_all_iff)
qed

lemma lock_task_filter:
  assumes "task_inv db" and "lock_task i db = Some r"
  shows "lock_task i (db\<lparr>td_tasks := filter P (td_tasks db)\<rparr>) = (if P r then Some r else None)"
proof -
  note iff = lock_task_iff[OF assms(1)] lock_task_iff[OF filter_tasks_inv[OF assms(1)]]
  show ?thesis
  proof (cases "P r")
    case True
    then show ?thesis using assms(2) by (simp add: iff)
  next
    case False
    have "lock_task i (db\<lparr>td_tasks := filter P (td_tasks db)\<rparr>) \<noteq> Some x" for x
      using assms(2) False by (auto simp: iff) (metis assms(2) iff(1) option.inject)
    then show ?thesis using False by (metis not_Some_eq)
  qed
qed

section \<open>Insertion\<close>

lemma create_inv:
  assumes "task_inv db" and "task_create_in_session r db = Inr (db', x)" and "task_row_ok r"
  shows "task_inv db'"
proof -
  from assms(2) have fresh: "\<not> list_ex (\<lambda>x. tk_id x = tk_id r \<or> dedupe_conflict r x) (td_tasks db)"
    and db': "db' = db\<lparr>td_tasks := td_tasks db @ [r]\<rparr>"
    by (auto simp: task_create_in_session_def split: if_splits)
  have "distinct (dedupe_keys (td_tasks db @ [r]))"
    using assms(1) fresh
    by (auto simp: dedupe_keys_def task_inv_def list_ex_iff dedupe_conflict_def)
  then show ?thesis using assms(1,3) fresh by (auto simp: db' task_inv_def list_ex_iff)
qed

lemma build_task_data_ok:
  "build_task_data i dt n ty pl to dk now = Inr r \<Longrightarrow> task_row_ok r \<and> tk_status r = Task_pending"
  by (auto simp: build_task_data_def task_row_defs split: sum.splits)

section \<open>The step relation\<close>

inductive task_step :: "'d task_db \<Rightarrow> 'd task_db \<Rightarrow> bool" where
  create: "build_task_data i dt n ty pl to dk now = Inr r \<Longrightarrow> task_create_in_session r db = Inr (db', x) \<Longrightarrow> task_step db db'"
| create_unique: "build_task_data i dt n ty pl to dk now = Inr r \<Longrightarrow>
    create_or_get_in_session r db = Inr (db', x, created) \<Longrightarrow> task_step db db'"
| fail: "fail_pending i e h t clk db = Inr (db', b) \<Longrightarrow> task_step db db'"
| cancel: "request_cancel i h t clk db = Inr (db', res) \<Longrightarrow> task_step db db'"
| claim: "claim i w ls t mr clk db = Inr (db', res') \<Longrightarrow> task_step db db'"
| renew: "task_renew_lease i w ls t clk db = (db', b') \<Longrightarrow> task_step db db'"
| checkpoint: "run_owned_transaction i w oper clk clk2 db = Inr (db', b) \<Longrightarrow> task_step db db'"
| update: "update_owned i w fs t clk db = (db', b) \<Longrightarrow> task_step db db'"
| finish: "finish_owned i w st m v er bf bc t clk clk2 db = Inr (db', b) \<Longrightarrow> task_step db db'"
| release: "release_interrupted_owner i w e h t clk clk2 db = Inr (db', so) \<Longrightarrow> task_step db db'"
| reconcile: "task_reconcile_expired_leases locked hk t clk db = Inr (db', rec) \<Longrightarrow> task_step db db'"
| prune: "task_step db (snd (prune_terminal keep db))"
| delete: "task_step db (snd (delete_terminal i db))"
| delete_everything: "task_step db (delete_all db)"
| domain: "task_step db (db\<lparr>td_domain := d\<rparr>)"

lemmas single_row_txn = fail_pending_txn request_cancel_txn claim_txn renew_txn run_owned_txn update_owned_txn
  finish_owned_txn release_interrupted_txn

lemma task_txns_inv: "task_txn\<^sup>*\<^sup>* db db' \<Longrightarrow> task_inv db \<Longrightarrow> task_inv db'"
  by (induction rule: rtranclp_induct) (auto intro: task_txn_inv)

text \<open>Every step is a sequence of row moves, an insertion, or a deletion.\<close>

lemma task_step_cases:
  assumes "task_inv db" and "task_step db db'"
  obtains (moves) "task_txn\<^sup>*\<^sup>* db db'"
  | (insert) r where "task_row_ok r" "task_create_in_session r db = Inr (db', r)"
  | (delete) P where "db' = db\<lparr>td_tasks := filter P (td_tasks db)\<rparr>" "\<And>r. r \<in> set (td_tasks db) \<Longrightarrow> \<not> P r \<Longrightarrow> task_terminal (tk_status r)"
  | (empty) "db' = delete_all db"
  using assms(2)
proof cases
  case (create i dt n ty pl to dk now r x)
  then have "x = r" by (auto simp: task_create_in_session_def split: if_splits)
  then show ?thesis using insert create build_task_data_ok by blast
next
  case (create_unique i dt n ty pl to dk now r x created)
  show ?thesis
  proof (cases "task_create_in_session r db")
    case (Inl e)
    then have "db' = db" using create_unique(2)
      by (auto simp: create_or_get_in_session_def split: if_splits option.splits)
    then show ?thesis using moves by simp
  next
    case (Inr p)
    then have "task_create_in_session r db = Inr (db', r)"
      using create_unique(2) by (auto simp: create_or_get_in_session_def task_create_in_session_def split: if_splits)
    then show ?thesis using insert build_task_data_ok[OF create_unique(1)] by blast
  qed
next
  case reconcile
  then show ?thesis using moves task_reconcile_txns[OF assms(1)] by blast
next
  case (prune keep)
  let ?ids = "fst (prune_terminal keep db)"
  have "db' = db\<lparr>td_tasks := filter (\<lambda>r. tk_id r \<notin> set ?ids) (td_tasks db)\<rparr>"
    using prune by (simp add: prune_terminal_def Let_def)
  moreover have "task_terminal (tk_status r)" if r: "r \<in> set (td_tasks db)" "\<not> tk_id r \<notin> set ?ids" for r
  proof -
    have "set ?ids \<subseteq> tk_id ` set (filter (\<lambda>r. task_terminal (tk_status r)) (td_tasks db))"
      by (auto simp: prune_terminal_def Let_def newest_tasks_by_id_def dest: in_set_dropD)
    then obtain x where "x \<in> set (td_tasks db)" "task_terminal (tk_status x)" "tk_id x = tk_id r"
      using r(2) by auto
    then show ?thesis using r(1) lock_task_iff[OF assms(1)] by (metis option.inject)
  qed
  ultimately show ?thesis by (rule delete)
next
  case (delete i)
  then show ?thesis
    by (intro that(3)[of "\<lambda>r. \<not> (tk_id r = i \<and> task_terminal (tk_status r))"]) (auto simp: delete_terminal_def Let_def)
next
  case (domain d)
  then have "task_txn db db'" by (auto simp: task_txn_def)
  then show ?thesis by (intro moves r_into_rtranclp)
next
  case delete_everything
  then show ?thesis by (rule empty)
qed (rule moves, rule r_into_rtranclp, drule single_row_txn, assumption)+

lemma task_step_inv:
  assumes "task_inv db" and "task_step db db'"
  shows "task_inv db'"
  using assms
proof (cases rule: task_step_cases)
  case moves
  then show ?thesis using task_txns_inv assms(1) by blast
next
  case (insert r)
  then show ?thesis using create_inv[OF assms(1)] by blast
next
  case (delete P)
  then show ?thesis using filter_tasks_inv[OF assms(1)] by simp
next
  case empty
  then show ?thesis by (simp add: delete_all_def task_inv_def dedupe_keys_def)
qed

definition task_start :: "'d task_db \<Rightarrow> bool" where
  "task_start db \<longleftrightarrow> td_tasks db = []"

interpretation task: step_system task_start task_step task_inv "\<lambda>_ _. True"
proof unfold_locales
  show "task_start s \<Longrightarrow> task_inv s" for s :: "'a task_db"
    by (simp add: task_start_def task_inv_def dedupe_keys_def)
qed (auto intro: task_step_inv)

text \<open>The relation a row stays in as long as it is not deleted.\<close>

definition task_evolves :: "task_record \<Rightarrow> task_record \<Rightarrow> bool" where
  "task_evolves r r' \<longleftrightarrow>
     task_identity r' = task_identity r \<and> (task_terminal (tk_status r) \<longrightarrow> r' = r)
     \<and> tk_attempt_count r \<le> tk_attempt_count r'
     \<and> (tk_status r' = Task_pending \<longrightarrow> tk_status r = Task_pending)"

lemma task_move_evolves: "r' = r \<or> task_move r r' \<Longrightarrow> task_evolves r r'"
  by (auto simp: task_move_def task_evolves_def)

lemma task_evolves_trans: "task_evolves a b \<Longrightarrow> task_evolves b c \<Longrightarrow> task_evolves a c"
  unfolding task_evolves_def by (metis order_trans)

lemma task_txns_row:
  "task_txn\<^sup>*\<^sup>* db db' \<Longrightarrow> task_inv db \<Longrightarrow> lock_task j db = Some r \<Longrightarrow>
   \<exists>r'. lock_task j db' = Some r' \<and> task_evolves r r'"
proof (induction rule: rtranclp_induct)
  case base
  then show ?case by (auto simp: task_evolves_def)
next
  case (step b c)
  then obtain r1 where r1: "lock_task j b = Some r1" "task_evolves r r1" by blast
  obtain r2 where "lock_task j c = Some r2" "task_evolves r1 r2"
    using task_txn_row[OF task_txns_inv[OF step(1,4)] step(2) r1(1)] task_move_evolves by blast
  then show ?case using task_evolves_trans[OF r1(2)] by blast
qed

section \<open>The lease of a task\<close>

definition task_holder :: "pystr \<Rightarrow> 'd task_db \<Rightarrow> pystr option" where
  "task_holder i db = Option.bind (lock_task i db) tk_worker_id"

definition task_expires :: "pystr \<Rightarrow> 'd task_db \<Rightarrow> time option" where
  "task_expires i db = Option.bind (lock_task i db) tk_lease_expires_at"

definition claim_task :: "rat \<Rightarrow> int option \<Rightarrow> pystr \<Rightarrow> pystr \<Rightarrow> time \<Rightarrow> 'd task_db \<Rightarrow> 'd task_db \<times> bool" where
  "claim_task ls mr i w now db =
     (case claim i w ls None mr now db of Inl _ \<Rightarrow> (db, False) | Inr (db', _, ok) \<Rightarrow> (db', ok))"

definition renew_task :: "rat \<Rightarrow> pystr \<Rightarrow> pystr \<Rightarrow> time \<Rightarrow> 'd task_db \<Rightarrow> 'd task_db \<times> bool" where
  "renew_task ls i w now db = (case task_renew_lease i w ls None now db of (db', ok, _) \<Rightarrow> (db', ok))"

lemma claim_granted:
  assumes "claim i w ls t mr clk db = Inr (db', res, True)"
  obtains r r' where "lock_task i db = Some r" "tk_status r = Task_pending" "tk_cancel_requested r = 0"
    "lock_task i db' = Some r'" "res = Some r'" "tk_status r' = Task_running" "tk_worker_id r' = Some w"
    "tk_lease_expires_at r' = Some (current_time t clk + timedelta_seconds ls)"
    "tk_attempt_count r' = tk_attempt_count r + 1" "db' = put_task r' db"
    "\<And>m. mr = Some m \<Longrightarrow> int (running_count db) < m"
proof -
  from assms obtain r where r: "lock_task i db = Some r" "tk_status r = Task_pending" "tk_cancel_requested r = 0"
    and cap: "\<And>m. mr = Some m \<Longrightarrow> int (running_count db) < m"
    by (auto simp: claim_def Let_def split: if_splits option.splits)
  define r' where "r' = r\<lparr>tk_status := Task_running, tk_worker_id := Some w,
      tk_heartbeat_at := Some (current_time t clk),
      tk_lease_expires_at := Some (current_time t clk + timedelta_seconds ls),
      tk_attempt_count := tk_attempt_count r + 1,
      tk_started_at := (case tk_started_at r of None \<Rightarrow> Some (current_time t clk) | Some t \<Rightarrow> Some t),
      tk_updated_at := Some (current_time t clk), tk_message := task_msg_started\<rparr>"
  have db': "db' = put_task r' db" and res: "res = Some r'"
    using assms r by (auto simp: claim_def r'_def Let_def split: if_splits option.splits)
  have "tk_id r' = i" using lock_task_id[OF r(1)] by (simp add: r'_def)
  then have "lock_task i db' = Some r'" unfolding db' using lock_put_task[OF r(1)] by simp
  then show thesis using that r res cap db' by (auto simp: r'_def)
qed

lemma renew_granted:
  assumes "task_renew_lease i w ls t clk db = (db', True, c)"
  obtains r r' where "lock_task i db = Some r" "is_live_owner (Some r) w (current_time t clk)"
    "lock_task i db' = Some r'" "tk_worker_id r' = Some w"
    "tk_lease_expires_at r' = Some (current_time t clk + timedelta_seconds ls)"
proof -
  from assms obtain r where r: "lock_task i db = Some r" "is_live_owner (Some r) w (current_time t clk)"
    by (auto simp: task_renew_lease_def Let_def split: if_splits option.splits)
  define r' where "r' = r\<lparr>tk_heartbeat_at := Some (current_time t clk),
      tk_lease_expires_at := Some (current_time t clk + timedelta_seconds ls),
      tk_updated_at := Some (current_time t clk)\<rparr>"
  have db': "db' = put_task r' db" using assms r by (auto simp: task_renew_lease_def r'_def Let_def)
  have "tk_id r' = i" using lock_task_id[OF r(1)] by (simp add: r'_def)
  then have "lock_task i db' = Some r'" unfolding db' using lock_put_task[OF r(1)] by simp
  then show thesis by (rule that[OF r]) (use r in \<open>auto simp: r'_def is_live_owner_def\<close>)
qed

interpretation task_lease: lease_discipline task_holder task_expires task_inv "claim_task ls mr" "renew_task ls"
  "timedelta_seconds ls" for ls mr
proof unfold_locales
  show "task_inv (fst (claim_task ls mr k w now s))" if "task_inv s" for s :: "'a task_db" and k w now
    using task_txn_inv[OF that claim_txn] that
    by (cases "claim k w ls None mr now s") (auto simp: claim_task_def)
  show "task_holder k s' = Some w \<and> task_expires k s' = Some (now + timedelta_seconds ls)"
    if "claim_task ls mr k w now s = (s', True)" for s s' :: "'a task_db" and k w now
  proof -
    from that obtain res where "claim k w ls None mr now s = Inr (s', res, True)"
      by (auto simp: claim_task_def split: sum.splits prod.splits)
    then show ?thesis
      by (rule claim_granted) (simp add: task_holder_def task_expires_def current_time_def)
  qed
  show "claim_task ls mr k w now s = (s, False)"
    if inv: "task_inv s" and h: "task_holder k s = Some v" for s :: "'a task_db" and k v w now
  proof -
    obtain r where r: "lock_task k s = Some r" "tk_worker_id r = Some v"
      using h by (auto simp: task_holder_def bind_eq_Some_conv)
    then have "tk_status r = Task_running" using lock_task_row_ok[OF inv r(1)] by (auto simp: task_row_defs)
    then show ?thesis using r(1) by (simp add: claim_task_def claim_def Let_def split: option.split)
  qed
  show "task_holder k s = Some w \<and> (\<exists>t. task_expires k s = Some t \<and> now < t)
      \<and> task_holder k s' = Some w \<and> task_expires k s' = Some (now + timedelta_seconds ls)"
    if "renew_task ls k w now s = (s', True)" for s s' :: "'a task_db" and k w now
  proof -
    from that obtain c where "task_renew_lease k w ls None now s = (s', True, c)"
      by (auto simp: renew_task_def split: prod.splits)
    then show ?thesis
      by (rule renew_granted)
         (auto simp: task_holder_def task_expires_def is_live_owner_def current_time_def split: option.splits)
  qed
  show "s' = s" if "renew_task ls k w now s = (s', False)" for s s' :: "'a task_db" and k w now
    using that by (auto simp: renew_task_def task_renew_lease_def Let_def split: if_splits option.splits)
qed

end
