(* ===== verification/Task_Properties.thy ===== *)
theory Task_Properties
  imports Task_Invariant
begin

text \<open>
  The properties of the durable tasks, with witnesses on a database whose domain state is a
  counter (a hook adds one to it): one pending task \<open>[101]\<close> of the type \<^verbatim>\<open>knowledge_parse\<close> with the
  dedupe key \<open>[120]\<close>, claimed by the worker \<open>[150]\<close>.
\<close>

section \<open>A small database\<close>

definition demo_task :: task_record where
  "demo_task = \<lparr>tk_id = [101], tk_name = [65], tk_type = lit ''knowledge_parse'', tk_status = Task_pending,
     tk_progress = 0, tk_message = task_msg_waiting, tk_payload = json_empty, tk_result = JNull,
     tk_error = None, tk_cancel_requested = 0, tk_handler_version = 1, tk_dedupe_key = Some [120],
     tk_attempt_count = 0, tk_worker_id = None, tk_heartbeat_at = None, tk_lease_expires_at = None,
     tk_timeout_seconds = 600, tk_created_at = Some 90, tk_updated_at = Some 90,
     tk_started_at = None, tk_completed_at = None\<rparr>"

definition demo_running :: task_record where
  "demo_running = demo_task\<lparr>tk_status := Task_running, tk_message := task_msg_started,
     tk_attempt_count := 1, tk_worker_id := Some [150], tk_heartbeat_at := Some 100,
     tk_lease_expires_at := Some 30000100, tk_started_at := Some 100, tk_updated_at := Some 100\<rparr>"

definition demo_tasks :: "nat task_db" where
  "demo_tasks = \<lparr>td_tasks = [demo_task], td_domain = 0\<rparr>"

definition demo_tasks_running :: "nat task_db" where
  "demo_tasks_running = \<lparr>td_tasks = [demo_running], td_domain = 0\<rparr>"

definition demo_hook :: "nat hook" where
  "demo_hook r d = Inr (d + 1)"

lemma demo_tasks_ok [simp]: "task_inv demo_tasks" "task_inv demo_tasks_running"
  by (simp_all add: demo_tasks_def demo_tasks_running_def demo_running_def demo_task_def task_inv_def
      dedupe_keys_def task_row_defs)

lemma demo_lock [simp]:
  "lock_task [101] demo_tasks = Some demo_task" "lock_task [101] demo_tasks_running = Some demo_running"
  by (simp_all add: lock_task_def demo_tasks_def demo_tasks_running_def demo_running_def demo_task_def)

lemma demo_claim:
  "claim [101] [150] 30 None (Some 4) 100 demo_tasks = Inr (demo_tasks_running, Some demo_running, True)"
  by (simp add: claim_def py_strip_def is_space_def running_count_def Let_def current_time_def lock_task_def
      put_task_def demo_tasks_def demo_tasks_running_def demo_running_def demo_task_def)

section \<open>Invariant and history\<close>

text \<open>
  C6: in every database reachable from an empty task table, ids are unique, at most one task
  carries a given type and dedupe key, a task has an owner, lease and heartbeat exactly while it
  is running, and it has a completion time and no dedupe key exactly when it is terminal.
\<close>

theorem task_table_invariant:
  assumes "task_start db" and "task_step\<^sup>*\<^sup>* db db'"
  shows "task_inv db'"
  by (rule task.reachable_inv[OF assms])

theorem task_table_invariant_witness: "task_inv demo_tasks_running"
proof (rule task_table_invariant)
  let ?start = "\<lparr>td_tasks = [], td_domain = 0\<rparr> :: nat task_db"
  show "task_start ?start" by (simp add: task_start_def)
  have "build_task_data [101] 600 [65] (lit ''knowledge_parse'') json_empty None (Some [120]) 90 = Inr demo_task"
    by (simp add: build_task_data_def get_task_definition_def task_definitions_def resolve_timeout_seconds_def
        demo_task_def lit_def)
  then have "task_step ?start demo_tasks"
    by (rule task_step.create) (simp add: task_create_in_session_def demo_tasks_def)
  moreover have "task_step demo_tasks demo_tasks_running" by (rule task_step.claim[OF demo_claim])
  ultimately show "task_step\<^sup>*\<^sup>* ?start demo_tasks_running" by simp
qed

text \<open>
  the history of one task. A step keeps the identity of a task, never lowers its attempt
  count, never makes it pending again and never changes a terminal task; a task disappears only
  when it is terminal or when the whole table is emptied.
\<close>

theorem task_row_history:
  assumes "task_inv db" and "task_step db db'" and "lock_task i db = Some r"
  shows "case lock_task i db' of
      None \<Rightarrow> task_terminal (tk_status r) \<or> td_tasks db' = []
    | Some r' \<Rightarrow> task_identity r' = task_identity r \<and> tk_attempt_count r \<le> tk_attempt_count r'
        \<and> (task_terminal (tk_status r) \<longrightarrow> r' = r)
        \<and> (tk_status r' = Task_pending \<longrightarrow> tk_status r = Task_pending)"
  using assms(1,2)
proof (cases rule: task_step_cases)
  case moves
  then show ?thesis using task_txns_row[OF _ assms(1,3)] by (fastforce simp: task_evolves_def)
next
  case (insert x)
  then have "lock_task i db' = Some r" using assms(3)
    by (auto simp: task_create_in_session_def lock_task_def find_append split: if_splits)
  then show ?thesis by simp
next
  case (delete P)
  then show ?thesis using lock_task_filter[OF assms(1,3), of P] lock_task_in[OF assms(3)] by auto
next
  case empty
  then show ?thesis by (simp add: delete_all_def lock_task_def)
qed

theorem task_row_history_witness:
  "case lock_task [101] demo_tasks_running of None \<Rightarrow> False
    | Some r' \<Rightarrow> task_identity r' = task_identity demo_task \<and> tk_attempt_count demo_task \<le> tk_attempt_count r'"
  using task_row_history[OF demo_tasks_ok(1) task_step.claim[OF demo_claim] demo_lock(1)] by simp

section \<open>Leases\<close>

text \<open>
  of the workers that ask for a task within one lease duration of each other, at most one is
  granted it, with or without a capacity limit.
\<close>

theorem task_claims_single_winner:
  assumes "task_inv db" and "distinct (map fst reqs)"
    and "\<And>w t w' t'. (w, t) \<in> set reqs \<Longrightarrow> (w', t') \<in> set reqs \<Longrightarrow> t' < t + timedelta_seconds ls"
  shows "length (fst (contend (claim_task ls mr i) reqs db)) \<le> 1"
  using task_lease.at_most_one_winner[OF assms(1,2), where ls = ls] assms(3) by blast

theorem task_claims_single_winner_witness:
  "length (fst (contend (claim_task 30 (Some 4) [101]) [([150], 100), ([151], 101)] demo_tasks)) \<le> 1"
  by (rule task_claims_single_winner) auto

text \<open>
  fencing of task writes. When the caller is not the live owner of the task (another owner,
  no owner, expired lease, finished or missing task), no write of an owner changes anything, the
  domain tables included.
\<close>

theorem stale_task_worker_fenced:
  assumes "\<not> is_live_owner (lock_task i db) w t" and "task_terminal st"
  shows "task_renew_lease i w ls None t db = (db, False, False)
    \<and> update_owned i w fs None t db = (db, False)
    \<and> run_owned_transaction i w oper t clk2 db = Inr (db, False)
    \<and> finish_owned i w st m v er bf bc None t clk2 db = Inr (db, False)
    \<and> release_interrupted_owner i w e bf None t clk2 db = Inr (db, None)"
  using assms
  by (auto simp: task_renew_lease_def update_owned_def run_owned_transaction_def finish_owned_def
      release_interrupted_owner_def current_time_def Let_def split: option.split)

theorem stale_task_worker_fenced_witness:
  "run_owned_transaction [101] [151] demo_hook 200 201 demo_tasks_running = Inr (demo_tasks_running, False)
   \<and> update_owned [101] [150] [Set_progress 50] None 30000100 demo_tasks_running = (demo_tasks_running, False)"
proof -
  have "\<not> is_live_owner (lock_task [101] demo_tasks_running) [151] 200"
    "\<not> is_live_owner (lock_task [101] demo_tasks_running) [150] 30000100"
    by (simp_all add: is_live_owner_def demo_running_def)
  note stale = this
  show ?thesis
    using stale_task_worker_fenced[OF stale(1), of Task_failed 0 "[]" demo_hook 201 "[]" None None None None "[]"]
      stale_task_worker_fenced[OF stale(2), of Task_failed 0 "[Set_progress 50]" demo_hook 201 "[]" None None None None "[]"]
    by simp
qed

section \<open>Finishing\<close>

lemma lock_put_domain:
  "lock_task i db = Some r \<Longrightarrow> tk_id r' = i \<Longrightarrow>
   lock_task j (put_task r' (db\<lparr>td_domain := d\<rparr>)) = (if j = i then Some r' else lock_task j db)"
  by (subst lock_put_task[of i _ r]) simp_all

text \<open>
  C7: finishing is atomic and a cancel request wins. A refused \<^verbatim>\<open>finish_owned\<close> leaves tasks and
  domain as they were. An accepted one was made by an owner whose lease was live before and after
  the hook; the task is terminal, unowned and without dedupe key, its status is \<^verbatim>\<open>cancelled\<close> with
  the old result whenever a cancel was requested and the requested status otherwise, the
  domain is what the selected hook made of it, and no other task changed.
\<close>

theorem finish_owned_atomic:
  assumes "finish_owned i w st m v er bf bc now clk clk2 db = Inr (db', ok)"
  shows "(\<not> ok \<longrightarrow> db' = db) \<and> (ok \<longrightarrow> (\<exists>r r' h.
      lock_task i db = Some r \<and> lock_task i db' = Some r'
      \<and> is_live_owner (Some r) w (current_time now clk) \<and> is_live_owner (Some r) w (current_time now clk2)
      \<and> task_terminal (tk_status r') \<and> tk_worker_id r' = None \<and> tk_lease_expires_at r' = None
      \<and> tk_dedupe_key r' = None \<and> tk_completed_at r' = Some (current_time now clk2)
      \<and> tk_status r' = (if tk_cancel_requested r \<noteq> 0 then Task_cancelled else st)
      \<and> (tk_cancel_requested r \<noteq> 0 \<and> st \<noteq> Task_cancelled \<longrightarrow> tk_result r' = tk_result r)
      \<and> h = (if tk_cancel_requested r \<noteq> 0 \<and> st \<noteq> Task_cancelled \<and> bc \<noteq> None then bc else bf)
      \<and> map_sum id td_domain (call_hook h r db) = Inr (td_domain db')
      \<and> (\<forall>j. j \<noteq> i \<longrightarrow> lock_task j db' = lock_task j db)))"
proof (cases ok)
  case False
  then show ?thesis using assms finish_owned_refused by fastforce
next
  case True
  then have "finish_owned i w st m v er bf bc now clk clk2 db = Inr (db', True)" using assms by simp
  then obtain r st' m' v' h db1 where r: "lock_task i db = Some r" "is_live_owner (Some r) w (current_time now clk)"
      "is_live_owner (Some r) w (current_time now clk2)"
    and p: "finish_plan r st m v bf bc = (st', m', v', h)" "task_terminal st"
    and h: "call_hook h r db = Inr db1"
    and db': "db' = put_task (clear_execution True (r\<lparr>tk_status := st', tk_progress := 100, tk_message := m',
       tk_result := (case v' of None \<Rightarrow> tk_result r | Some x \<Rightarrow> x), tk_error := er,
       tk_completed_at := Some (current_time now clk2), tk_updated_at := Some (current_time now clk2)\<rparr>)) db1"
    by (rule finish_owned_done)
  obtain d where db1: "db1 = db\<lparr>td_domain := d\<rparr>" using call_hook_result[OF h] by blast
  define r' where "r' = clear_execution True (r\<lparr>tk_status := st', tk_progress := 100, tk_message := m',
       tk_result := (case v' of None \<Rightarrow> tk_result r | Some x \<Rightarrow> x), tk_error := er,
       tk_completed_at := Some (current_time now clk2), tk_updated_at := Some (current_time now clk2)\<rparr>)"
  have id: "tk_id r' = i" using lock_task_id[OF r(1)] by (simp add: r'_def clear_execution_def)
  have lock: "lock_task j db' = (if j = i then Some r' else lock_task j db)" for j
    unfolding db' db1 r'_def[symmetric] using r(1) id by (rule lock_put_domain)
  have plan: "st' = (if tk_cancel_requested r \<noteq> 0 then Task_cancelled else st)"
      "tk_cancel_requested r \<noteq> 0 \<and> st \<noteq> Task_cancelled \<Longrightarrow> v' = None"
      "h = (if tk_cancel_requested r \<noteq> 0 \<and> st \<noteq> Task_cancelled \<and> bc \<noteq> None then bc else bf)"
    using p(1) by (auto simp: finish_plan_def split: if_splits option.splits)
  have "task_terminal st'" using p by (rule finish_plan_terminal)
  moreover have "map_sum id td_domain (call_hook h r db) = Inr (td_domain db')"
    unfolding h by (simp add: db' put_task_def)
  moreover have "tk_result r' = tk_result r" if "tk_cancel_requested r \<noteq> 0 \<and> st \<noteq> Task_cancelled"
    using plan(2)[OF that] by (simp add: r'_def clear_execution_def)
  moreover have "tk_status r' = st'" "tk_worker_id r' = None" "tk_lease_expires_at r' = None"
      "tk_dedupe_key r' = None" "tk_completed_at r' = Some (current_time now clk2)"
    by (simp_all add: r'_def)
  ultimately show ?thesis using True r lock plan(1,3) by (intro conjI impI exI[of _ r] exI[of _ r'] exI[of _ h]) auto
qed

definition demo_finished :: "nat task_db" where
  "demo_finished = \<lparr>td_tasks = [demo_running\<lparr>tk_status := Task_success, tk_progress := 100,
     tk_message := task_msg_done, tk_completed_at := Some 300, tk_updated_at := Some 300, tk_worker_id := None,
     tk_heartbeat_at := None, tk_lease_expires_at := None, tk_dedupe_key := None\<rparr>], td_domain = 1\<rparr>"

theorem finish_owned_atomic_witness:
  "td_domain demo_finished = 1 \<and> (\<exists>r'. lock_task [101] demo_finished = Some r' \<and> tk_status r' = Task_success)"
proof -
  have op: "finish_owned [101] [150] Task_success task_msg_done (Some JNull) None (Some demo_hook) None None 200 300
      demo_tasks_running = Inr (demo_finished, True)"
    by (simp add: finish_owned_def lock_task_def is_live_owner_def demo_running_def demo_task_def finish_plan_def call_hook_def
        demo_hook_def current_time_def clear_execution_def put_task_def demo_tasks_running_def demo_finished_def Let_def)
  have "tk_cancel_requested demo_running = 0" by (simp add: demo_running_def demo_task_def)
  then show ?thesis using finish_owned_atomic[OF op] by (auto simp: demo_finished_def)
qed

section \<open>Capacity\<close>

lemma running_count_txn_put:
  assumes "task_inv db" and "lock_task i db = Some r" and "tk_id r' = i"
  shows "running_count (put_task r' (db\<lparr>td_domain := d\<rparr>)) + (if tk_status r = Task_running then 1 else 0)
    = running_count db + (if tk_status r' = Task_running then 1 else 0)"
proof -
  have "length (filter (\<lambda>x. tk_status x = Task_running) (update_where (\<lambda>x. tk_id x = i) (\<lambda>_. r') xs))
      + (if tk_status r = Task_running then 1 else 0)
    = length (filter (\<lambda>x. tk_status x = Task_running) xs) + (if tk_status r' = Task_running then 1 else 0)"
    if "r \<in> set xs" "tk_id r = i" "distinct (map tk_id xs)" for xs
    using that
  proof (induction xs)
    case (Cons x xs)
    have same: "update_where (\<lambda>x. tk_id x = i) (\<lambda>_. r') xs = xs" if "tk_id x = i"
      using Cons.prems(3) that by (intro update_where_id) (auto simp: image_iff)
    show ?case
    proof (cases "tk_id x = i")
      case True
      then have "x = r" using Cons.prems by (auto simp: image_iff)
      then show ?thesis using True same by simp
    next
      case False
      then show ?thesis using Cons by auto
    qed
  qed simp
  then show ?thesis
    using assms lock_task_in[OF assms(2)] lock_task_id[OF assms(2)] by (simp add: running_count_def task_inv_def)
qed

text \<open>
  C8: capacity. A claim with a limit never lets more tasks run than the limit: a granted claim
  raises the number of running tasks by one to at most the limit, any other result does not raise it.
\<close>

theorem claim_respects_capacity:
  assumes inv: "task_inv db" and op: "claim i w ls now (Some m) clk db = Inr (db', res, ok)"
  shows "(ok \<longrightarrow> running_count db' = running_count db + 1 \<and> int (running_count db') \<le> m)
    \<and> (\<not> ok \<longrightarrow> running_count db' \<le> running_count db)"
proof (cases ok)
  case True
  then have "claim i w ls now (Some m) clk db = Inr (db', res, True)" using op by simp
  then obtain r r' where r: "lock_task i db = Some r" "tk_status r = Task_pending" "lock_task i db' = Some r'"
      "tk_status r' = Task_running" "db' = put_task r' db" and cap: "int (running_count db) < m"
    by (rule claim_granted) blast
  have "running_count (put_task r' (db\<lparr>td_domain := td_domain db\<rparr>)) = running_count db + 1"
    using running_count_txn_put[OF inv r(1) lock_task_id[OF r(3)], of "td_domain db"] r(2,4) by simp
  then show ?thesis using True cap r(5) by simp
next
  case False
  show ?thesis
  proof (cases "db' = db")
    case changed: False
    then obtain r where r: "lock_task i db = Some r" "tk_status r = Task_pending"
      and db': "db' = put_task (r\<lparr>tk_status := Task_cancelled, tk_message := task_msg_cancelled_early,
        tk_completed_at := Some (current_time now clk), tk_updated_at := Some (current_time now clk),
        tk_dedupe_key := None\<rparr>) db" (is "_ = put_task ?r' db")
      using op False by (auto simp: claim_def Let_def split: if_splits option.splits)
    have "tk_id ?r' = i" using lock_task_id[OF r(1)] by simp
    then show ?thesis using False running_count_txn_put[OF inv r(1), of ?r' "td_domain db"] r(2) by (simp add: db')
  qed (use False in simp)
qed

theorem claim_respects_capacity_witness: "running_count demo_tasks_running = 1"
proof -
  have "running_count demo_tasks = 0" by (simp add: running_count_def demo_tasks_def demo_task_def)
  then show ?thesis using claim_respects_capacity[OF demo_tasks_ok(1) demo_claim] by simp
qed

section \<open>Deduplication\<close>

text \<open>
  creation is idempotent per type and dedupe key. If a task with the key exists, it is the
  active one: it is returned and nothing changes; otherwise the new task is inserted.
\<close>

theorem create_deduplicates:
  assumes inv: "task_inv db" and key: "tk_dedupe_key data = Some k" "k \<noteq> []"
    and fresh: "lock_task (tk_id data) db = None"
  shows "(\<forall>x\<in>set (td_tasks db). tk_type x = tk_type data \<and> tk_dedupe_key x = Some k \<longrightarrow>
      create_or_get_in_session data db = Inr (db, x, False) \<and> \<not> task_terminal (tk_status x))
    \<and> ((\<forall>x\<in>set (td_tasks db). \<not> (tk_type x = tk_type data \<and> tk_dedupe_key x = Some k)) \<longrightarrow>
      create_or_get_in_session data db = Inr (db\<lparr>td_tasks := td_tasks db @ [data]\<rparr>, data, True))"
proof (intro conjI ballI impI)
  fix x assume x: "x \<in> set (td_tasks db)" "tk_type x = tk_type data \<and> tk_dedupe_key x = Some k"
  show act: "\<not> task_terminal (tk_status x)"
    using inv x by (auto simp: task_inv_def list_all_iff task_row_defs)
  have only: "y = x" if "y \<in> set (td_tasks db)" "tk_type y = tk_type data" "tk_dedupe_key y = Some k" for y
  proof -
    have "inj_on (\<lambda>r. (tk_type r, tk_dedupe_key r)) {r \<in> set (td_tasks db). tk_dedupe_key r \<noteq> None}"
      using inv by (simp add: task_inv_def dedupe_keys_def distinct_map)
    then show ?thesis by (rule inj_onD) (use x that in auto)
  qed
  have "find (\<lambda>x. tk_type x = tk_type data \<and> tk_dedupe_key x = Some k \<and> \<not> task_terminal (tk_status x)) (td_tasks db)
      = Some x"
  proof -
    obtain y where y: "find (\<lambda>x. tk_type x = tk_type data \<and> tk_dedupe_key x = Some k \<and> \<not> task_terminal (tk_status x))
        (td_tasks db) = Some y"
      using x act find_ex_iff[of "\<lambda>x. tk_type x = tk_type data \<and> tk_dedupe_key x = Some k
        \<and> \<not> task_terminal (tk_status x)" "td_tasks db"] by auto
    then have "y = x" using find_Some_in[OF y] by (intro only) simp_all
    with y show ?thesis by simp
  qed
  moreover have "task_create_in_session data db = Inl Task_integrity_error"
    using x key by (auto simp: task_create_in_session_def list_ex_iff dedupe_conflict_def)
  ultimately show "create_or_get_in_session data db = Inr (db, x, False)"
    using key by (simp add: create_or_get_in_session_def or_empty_def)
next
  assume none: "\<forall>x\<in>set (td_tasks db). \<not> (tk_type x = tk_type data \<and> tk_dedupe_key x = Some k)"
  have "tk_id x \<noteq> tk_id data" if "x \<in> set (td_tasks db)" for x
    using lock_task_iff[OF inv, of "tk_id data" x] fresh that by auto
  then have "\<not> list_ex (\<lambda>x. tk_id x = tk_id data \<or> dedupe_conflict data x) (td_tasks db)"
    using none key by (auto simp: list_ex_iff dedupe_conflict_def)
  then show "create_or_get_in_session data db = Inr (db\<lparr>td_tasks := td_tasks db @ [data]\<rparr>, data, True)"
    by (simp add: create_or_get_in_session_def task_create_in_session_def)
qed

theorem create_deduplicates_witness:
  "create_or_get_in_session (demo_task\<lparr>tk_id := [102]\<rparr>) demo_tasks_running = Inr (demo_tasks_running, demo_running, False)"
proof -
  have "lock_task (tk_id (demo_task\<lparr>tk_id := [102]\<rparr>)) demo_tasks_running = None"
    "tk_dedupe_key (demo_task\<lparr>tk_id := [102]\<rparr>) = Some [120]"
    by (simp_all add: lock_task_def demo_tasks_running_def demo_running_def demo_task_def)
  from create_deduplicates[OF demo_tasks_ok(2) this(2) _ this(1)] show ?thesis
    by (simp add: demo_tasks_running_def demo_running_def demo_task_def)
qed

section \<open>Pruning\<close>

definition task_age_key :: "task_record \<Rightarrow> (bool \<times> int) \<times> pystr" where
  "task_age_key r = (nulls_last (tk_created_at r), tk_id r)"

lemma newest_tasks_sorted: "sorted_wrt (\<lambda>x y. task_age_key y \<le> task_age_key x) (newest_tasks_by_id rows)"
proof -
  have "sorted (map task_age_key (sort_key task_age_key rows))" by simp
  then show ?thesis
    unfolding newest_tasks_by_id_def task_age_key_def[symmetric] sorted_wrt_rev
    by (simp add: sorted_map)
qed

text \<open>
  pruning keeps every active task and the newest \<^verbatim>\<open>keep\<close> terminal ones: exactly
  \<open>min keep n\<close> of the \<open>n\<close> terminal tasks stay, and none of them is older than a deleted one.
\<close>

theorem prune_keeps_newest:
  assumes inv: "task_inv db" and op: "prune_terminal keep db = (ids, db')"
  shows "(\<forall>r\<in>set (td_tasks db). \<not> task_terminal (tk_status r) \<longrightarrow> r \<in> set (td_tasks db'))
    \<and> length (filter (\<lambda>r. task_terminal (tk_status r)) (td_tasks db'))
      = min (nat keep) (length (filter (\<lambda>r. task_terminal (tk_status r)) (td_tasks db)))
    \<and> (\<forall>r\<in>set (td_tasks db'). \<forall>x\<in>set (td_tasks db). task_terminal (tk_status r) \<and> x \<notin> set (td_tasks db')
        \<longrightarrow> task_age_key x \<le> task_age_key r)"
proof -
  let ?T = "filter (\<lambda>r. task_terminal (tk_status r)) (td_tasks db)"
  let ?L = "newest_tasks_by_id ?T"
  let ?n = "nat (max keep 0)"
  have n: "?n = nat keep" by simp
  have ids: "ids = map tk_id (drop ?n ?L)" and db': "td_tasks db' = filter (\<lambda>r. tk_id r \<notin> set ids) (td_tasks db)"
    using op by (auto simp: prune_terminal_def Let_def)
  have setL: "set ?L = set ?T" "length ?L = length ?T" by (simp_all add: newest_tasks_by_id_def)
  have inj: "inj_on tk_id (set (td_tasks db))" and dist: "distinct (td_tasks db)"
    using inv by (auto simp: task_inv_def distinct_map)
  have distL: "distinct ?L" using dist by (simp add: newest_tasks_by_id_def)
  have split: "set (take ?n ?L) \<union> set (drop ?n ?L) = set ?T" "set (take ?n ?L) \<inter> set (drop ?n ?L) = {}"
    using setL distL by (metis append_take_drop_id set_append, metis append_take_drop_id distinct_append)
  have gone: "tk_id r \<in> set ids \<longleftrightarrow> r \<in> set (drop ?n ?L)" if "r \<in> set (td_tasks db)" for r
  proof
    assume "tk_id r \<in> set ids"
    then obtain y where y: "y \<in> set (drop ?n ?L)" "tk_id y = tk_id r" by (auto simp: ids)
    then have "y \<in> set (td_tasks db)" using split(1) by auto
    then have "y = r" using y(2) that inj by (auto dest: inj_onD)
    with y(1) show "r \<in> set (drop ?n ?L)" by simp
  qed (simp add: ids)
  have left: "set (filter (\<lambda>r. task_terminal (tk_status r)) (td_tasks db')) = set (take ?n ?L)"
    using gone split by (auto simp: db')
  have "length (filter (\<lambda>r. task_terminal (tk_status r)) (td_tasks db')) = length (take ?n ?L)"
    using left dist distL by (metis db' distinct_card distinct_filter distinct_take)
  moreover have "task_age_key x \<le> task_age_key r" if "r \<in> set (take ?n ?L)" "x \<in> set (drop ?n ?L)" for r x
    using newest_tasks_sorted[of ?T] that by (metis append_take_drop_id sorted_wrt_append)
  moreover have "r \<in> set (td_tasks db')" if "r \<in> set (td_tasks db)" "\<not> task_terminal (tk_status r)" for r
    using gone[OF that(1)] split(1) that by (auto simp: db')
  ultimately show ?thesis using left gone setL(2) n by (auto simp: db')
qed

theorem prune_keeps_newest_witness:
  "length (filter (\<lambda>r. task_terminal (tk_status r)) (td_tasks (snd (prune_terminal 0 demo_finished)))) = 0"
proof -
  have "task_inv demo_finished"
    by (simp add: demo_finished_def demo_running_def demo_task_def task_inv_def dedupe_keys_def task_row_defs)
  from prune_keeps_newest[OF this surjective_pairing, of 0] show ?thesis by simp
qed

section \<open>Progress and settlement\<close>

lemma normalize_progress_cases:
  obtains p where "normalize_progress x = Fin p" "0 \<le> p" "p \<le> 100"
proof (cases x)
  case (Fin q)
  have "normalize_progress x = Fin (if 100 < q then 100 else if 0 < q then q else 0)"
    by (simp add: Fin normalize_progress_def py_max_def py_min_def)
  then show thesis by (rule that) auto
qed (auto simp: normalize_progress_def py_max_def py_min_def intro: that)

lemma fold_messages_progress:
  "(\<And>f. f \<in> set fs \<Longrightarrow> \<exists>m. f = Set_message m) \<Longrightarrow> tk_progress (fold set_task_field fs r) = tk_progress r"
  by (induction fs arbitrary: r) (fastforce simp: set_task_field_def)+

lemma ctx_update_tasks:
  assumes "ctx_update (Set_progress p # fs) clk ctx db = (ctx', db', raised)"
    and fs: "\<And>f. f \<in> set fs \<Longrightarrow> \<exists>m. f = Set_message m"
    and r': "r' \<in> set (td_tasks db')" "r' \<notin> set (td_tasks db)"
  shows "tk_progress r' = p"
proof -
  obtain b where u: "update_owned (cx_task_id ctx) (cx_worker_id ctx) (Set_progress p # fs) None clk db = (db', b)"
    using assms(1) by (auto simp: ctx_update_def split: prod.splits bool.splits)
  have "db' \<noteq> db" using r' by blast
  then obtain r t where "db' = put_task ((fold set_task_field fs (r\<lparr>tk_progress := p\<rparr>))\<lparr>tk_updated_at := t\<rparr>) db"
    using u by (auto simp: update_owned_def Let_def set_task_field_def[of "Set_progress p"] split: option.splits if_splits)
  then show ?thesis using r' fold_messages_progress[OF fs] by (auto simp: set_update_where)
qed

text \<open>
  progress is bounded. Whatever number a handler reports (also an infinite one or NaN), every
  task row that \<^verbatim>\<open>set_progress\<close> writes has a progress between 0 and 100.
\<close>

theorem set_progress_bounded:
  assumes "set_progress x msg clk ctx db = (ctx', db', raised)"
    and "r' \<in> set (td_tasks db')" and "r' \<notin> set (td_tasks db)"
  shows "0 \<le> tk_progress r' \<and> tk_progress r' \<le> 100"
proof -
  obtain p where p: "normalize_progress x = Fin p" "0 \<le> p" "p \<le> 100" by (rule normalize_progress_cases)
  let ?fs = "case msg of None \<Rightarrow> [] | Some m \<Rightarrow> [Set_message m]"
  have "db' \<noteq> db" using assms(2,3) by blast
  then obtain c b where "ctx_update (Set_progress p # ?fs) clk ctx db = (c, db', b)"
    using assms(1) p(1) by (auto simp: Let_def split: if_splits prod.splits bool.splits)
  then have "tk_progress r' = p"
    by (rule ctx_update_tasks) (use assms(2,3) in \<open>auto split: option.splits\<close>)
  then show ?thesis using p by simp
qed

definition demo_ctx :: task_context where
  "demo_ctx = \<lparr>cx_task_id = [101], cx_worker_id = [150], cx_cancellation_reason = None,
     cx_cancel_requested = False, cx_last_persisted_progress = None, cx_last_persisted_message = None\<rparr>"

theorem set_progress_bounded_witness:
  "0 \<le> tk_progress (hd (td_tasks (fst (snd (set_progress PInf None 200 demo_ctx demo_tasks_running)))))
   \<and> tk_progress (hd (td_tasks (fst (snd (set_progress PInf None 200 demo_ctx demo_tasks_running))))) \<le> 100"
proof -
  obtain c db' b where op: "set_progress PInf None 200 demo_ctx demo_tasks_running = (c, db', b)"
    by (metis prod_cases3)
  have "td_tasks db' = [demo_running\<lparr>tk_progress := 100, tk_updated_at := Some 200\<rparr>]"
    using op by (auto simp: normalize_progress_def py_max_def py_min_def demo_ctx_def ctx_update_def update_owned_def
        is_live_owner_def current_time_def set_task_field_def Let_def demo_running_def demo_task_def
        demo_tasks_running_def lock_task_def)
  then show ?thesis
    using set_progress_bounded[OF op, of "hd (td_tasks db')"] op
    by (simp add: demo_tasks_running_def demo_running_def demo_task_def)
qed

lemma call_hook_ok:
  assumes "\<And>h'. h = Some h' \<Longrightarrow> \<exists>d'. h' r (td_domain db) = Inr d'"
  shows "\<exists>d. call_hook h r db = Inr (db\<lparr>td_domain := d\<rparr>)"
proof (cases h)
  case None
  then show ?thesis by (auto simp: call_hook_def intro: exI[of _ "td_domain db"])
next
  case (Some h')
  then obtain d' where "h' r (td_domain db) = Inr d'" using assms by blast
  then show ?thesis by (auto simp: call_hook_def Some)
qed

lemma finish_owned_succeeds:
  assumes r: "lock_task i db = Some r" "is_live_owner (Some r) w clk" "is_live_owner (Some r) w clk2"
    and st: "task_terminal st"
    and hooks: "\<And>h d. bf = Some h \<or> bc = Some h \<Longrightarrow> \<exists>d'. h r d = Inr d'"
  shows "\<exists>db' r'. finish_owned i w st m v er bf bc None clk clk2 db = Inr (db', True)
    \<and> lock_task i db' = Some r' \<and> task_terminal (tk_status r') \<and> tk_worker_id r' = None"
proof -
  obtain st' m' v' h where p: "finish_plan r st m v bf bc = (st', m', v', h)" by (metis prod_cases4)
  have "h = None \<or> h = bf \<or> h = bc" using p by (auto simp: finish_plan_def split: if_splits option.splits)
  then obtain d where h: "call_hook h r db = Inr (db\<lparr>td_domain := d\<rparr>)"
    using hooks call_hook_ok[of h r db] by auto
  define r' where "r' = clear_execution True (r\<lparr>tk_status := st', tk_progress := 100, tk_message := m',
       tk_result := (case v' of None \<Rightarrow> tk_result r | Some x \<Rightarrow> x), tk_error := er,
       tk_completed_at := Some clk2, tk_updated_at := Some clk2\<rparr>)"
  have "finish_owned i w st m v er bf bc None clk clk2 db = Inr (put_task r' (db\<lparr>td_domain := d\<rparr>), True)"
    using r st p h by (simp add: finish_owned_def current_time_def Let_def r'_def)
  moreover have "tk_id r' = i" using lock_task_id[OF r(1)] by (simp add: r'_def clear_execution_def)
  moreover have "task_terminal (tk_status r')" "tk_worker_id r' = None"
    using finish_plan_terminal[OF p st] by (simp_all add: r'_def)
  ultimately show ?thesis using lock_put_domain[OF r(1)] by simp
qed

lemma release_interrupted_succeeds:
  assumes r: "lock_task i db = Some r" "is_live_owner (Some r) w clk" "is_live_owner (Some r) w clk2"
    and hooks: "\<And>h d. bf = Some h \<Longrightarrow> \<exists>d'. h r d = Inr d'"
  shows "\<exists>db' r'. release_interrupted_owner i w e bf None clk clk2 db = Inr (db', Some Task_failed)
    \<and> lock_task i db' = Some r' \<and> task_terminal (tk_status r') \<and> tk_worker_id r' = None"
proof -
  obtain d where h: "call_hook bf r db = Inr (db\<lparr>td_domain := d\<rparr>)"
    using hooks call_hook_ok[of bf r db] by auto
  define r' where "r' = fail_interrupted_task e (if Option.is_none bf then clk else clk2) r"
  have r': "tk_id r' = i" "tk_status r' = Task_failed" "tk_worker_id r' = None"
    using lock_task_id[OF r(1)] by (simp_all add: r'_def fail_interrupted_task_def clear_execution_def)
  have "release_interrupted_owner i w e bf None clk clk2 db = Inr (put_task r' (db\<lparr>td_domain := d\<rparr>), Some Task_failed)"
    using r h r'(2) by (simp add: release_interrupted_owner_def current_time_def Let_def r'_def
        fail_interrupted_task_def)
  then show ?thesis using lock_put_domain[OF r(1) r'(1)] r' by simp
qed

text \<open>
  a worker that still owns its task always settles it. If its lease is live at both clock
  readings and the registered handlers do not raise, every way the handler can end (result,
  timeout, cancellation, exception) other than a lost lease leaves the task terminal and unowned.
\<close>

theorem settle_ends_task:
  assumes r: "lock_task (cx_task_id ctx) db = Some r" "is_live_owner (Some r) (cx_worker_id ctx) clk"
      "is_live_owner (Some r) (cx_worker_id ctx) clk2"
    and fh: "\<And>m f e d. \<exists>d'. handlers m f e r d = Inr d'"
    and sh: "\<And>m f v d. \<exists>d'. success_handlers m f v r d = Inr d'"
    and kept: "\<not> (outcome = Handler_cancelled \<and> cx_cancellation_reason ctx = Some Reason_lease_lost)"
  shows "\<exists>db' r'. process_task_settle handlers success_handlers df ctx outcome clk clk2 clk3 clk4 db = Inr (db', True)
    \<and> lock_task (cx_task_id ctx) db' = Some r' \<and> task_terminal (tk_status r') \<and> tk_worker_id r' = None"
proof -
  let ?fh = "load_failure_handler handlers df"
  have hook: "\<exists>d'. h r d = Inr d'" if "map_option (\<lambda>h. h e) ?fh = Some h" for h e d
    using that fh by (auto simp: load_failure_handler_def)
  note fin = finish_owned_succeeds[OF r] and rel = release_interrupted_succeeds[OF r]
  have fail: "\<exists>db' r'. finish_task_failure (cx_task_id ctx) (cx_worker_id ctx) st m e ?fh clk clk2 db = Inr (db', True)
      \<and> lock_task (cx_task_id ctx) db' = Some r' \<and> task_terminal (tk_status r') \<and> tk_worker_id r' = None"
    if "task_terminal st" for st m e
    unfolding finish_task_failure_def using that hook by (intro fin) auto
  show ?thesis
  proof (cases outcome)
    case (Handler_result v)
    let ?bf = "map_option (\<lambda>f. success_handlers (df_module df) f v) (df_success_function df)"
    have "\<exists>d'. h r d = Inr d'" if "?bf = Some h \<or> map_option (\<lambda>h. h task_msg_cancelled) ?fh = Some h" for h d
      using that sh hook by auto
    then have "\<exists>db' r'. finish_owned (cx_task_id ctx) (cx_worker_id ctx) Task_success task_msg_done (Some v) None ?bf
        (map_option (\<lambda>h. h task_msg_cancelled) ?fh) None clk clk2 db = Inr (db', True)
      \<and> lock_task (cx_task_id ctx) db' = Some r' \<and> task_terminal (tk_status r') \<and> tk_worker_id r' = None"
      by (intro fin) simp_all
    then show ?thesis
      by (auto simp: Handler_result process_task_settle_def or_fail_def Let_def)
  next
    case (Handler_timeout e)
    then show ?thesis using fail[of Task_failed task_msg_timeout e]
      by (auto simp: process_task_settle_def or_fail_def Let_def)
  next
    case Handler_cancelled
    show ?thesis
    proof (cases "cx_cancellation_reason ctx = Some Reason_cancelled")
      case True
      then show ?thesis using fail[of Task_cancelled task_msg_cancelled task_msg_cancelled]
        by (auto simp: Handler_cancelled process_task_settle_def Let_def)
    next
      case False
      have "\<exists>db' r'. release_interrupted_owner (cx_task_id ctx) (cx_worker_id ctx) task_msg_shutdown
          (map_option (\<lambda>h. h task_msg_shutdown) ?fh) None clk clk2 db = Inr (db', Some Task_failed)
        \<and> lock_task (cx_task_id ctx) db' = Some r' \<and> task_terminal (tk_status r') \<and> tk_worker_id r' = None"
        using hook by (intro rel) auto
      then show ?thesis using False kept by (auto simp: Handler_cancelled process_task_settle_def Let_def)
    qed
  next
    case (Handler_raised e)
    then show ?thesis using fail[of Task_failed task_msg_failed e]
      by (auto simp: process_task_settle_def Let_def)
  qed
qed

theorem settle_ends_task_witness:
  "\<exists>db' r'. process_task_settle (\<lambda>_ _ _. demo_hook) (\<lambda>_ _ _. demo_hook) (hd task_definitions) demo_ctx
      Handler_cancelled 200 300 301 302 demo_tasks_running = Inr (db', True)
    \<and> lock_task [101] db' = Some r' \<and> task_terminal (tk_status r')"
proof -
  have "lock_task (cx_task_id demo_ctx) demo_tasks_running = Some demo_running"
    "is_live_owner (Some demo_running) (cx_worker_id demo_ctx) 200"
    "is_live_owner (Some demo_running) (cx_worker_id demo_ctx) 300"
    by (simp_all add: demo_ctx_def is_live_owner_def demo_running_def)
  note own = this
  have "\<exists>d'. demo_hook demo_running d = Inr d'" for d by (simp add: demo_hook_def)
  moreover have "cx_cancellation_reason demo_ctx \<noteq> Some Reason_lease_lost" "cx_task_id demo_ctx = [101]"
    by (simp_all add: demo_ctx_def)
  ultimately show ?thesis
    using settle_ends_task[OF own, of "\<lambda>_ _ _. demo_hook" "\<lambda>_ _ _. demo_hook" Handler_cancelled
      "hd task_definitions" 301 302] by auto
qed

end
