(* ===== verification/Governance_Texts.thy ===== *)
theory Governance_Texts
  imports Yuanlei_Prelude
begin

text \<open>
  The message texts of project governance as code points, with their meaning.
\<close>

definition gov_msg_title :: pystr where \<comment> \<open>a title has 1 to 512 characters\<close>
  "gov_msg_title =
   [26631, 39064, 38271, 24230, 24517, 39035, 20026, 32, 49, 45, 53, 49, 50]"

definition gov_msg_comment_empty :: pystr where \<comment> \<open>a reply must not be empty\<close>
  "gov_msg_comment_empty =
   [22238, 22797, 20869, 23481, 19981, 33021, 20026, 31354]"

definition gov_msg_text_long :: pystr where \<comment> \<open>a text has at most 100000 characters\<close>
  "gov_msg_text_long =
   [27491, 25991, 19981, 33021, 36229, 36807, 32, 49, 48, 48, 48, 48, 48, 32, 20010, 23383,
   31526]"

definition gov_msg_channel :: pystr where \<comment> \<open>the source channel must be one of the four\<close>
  "gov_msg_channel =
   [26469, 28304, 28192, 36947, 24517, 39035, 26159, 32, 91, 39, 112, 114, 111, 106, 101,
   99, 116, 39, 44, 32, 39, 109, 117, 108, 116, 105, 99, 97, 39, 44, 32, 39, 103, 105, 116,
   104, 117, 98, 39, 44, 32, 39, 103, 105, 116, 101, 97, 39, 93, 32, 20043, 19968]"

definition gov_msg_project_source :: pystr where \<comment> \<open>a project source has no external id or link\<close>
  "gov_msg_project_source =
   [39033, 30446, 20869, 26469, 28304, 19981, 24471, 25658, 24102, 22806, 37096, 26631,
   35782, 25110, 38142, 25509]"

definition gov_msg_external_source :: pystr where \<comment> \<open>an external source has an external id\<close>
  "gov_msg_external_source =
   [22806, 37096, 26469, 28304, 24517, 39035, 25658, 24102, 22806, 37096, 26631, 35782]"

definition gov_msg_no_project :: pystr where \<comment> \<open>no such project\<close>
  "gov_msg_no_project =
   [80, 114, 111, 106, 101, 99, 116, 32, 19981, 23384, 22312]"

definition gov_msg_no_topic :: pystr where \<comment> \<open>no such topic\<close>
  "gov_msg_no_topic =
   [35758, 39064, 19981, 23384, 22312]"

definition gov_msg_no_task :: pystr where \<comment> \<open>no such task\<close>
  "gov_msg_no_task =
   [20219, 21153, 19981, 23384, 22312]"

definition gov_msg_no_source_topic :: pystr where \<comment> \<open>no such source topic\<close>
  "gov_msg_no_source_topic =
   [26469, 28304, 35758, 39064, 19981, 23384, 22312]"

definition gov_msg_no_source_decision :: pystr where \<comment> \<open>no such source decision\<close>
  "gov_msg_no_source_decision =
   [26469, 28304, 20915, 31574, 19981, 23384, 22312]"

definition gov_msg_no_assignee :: pystr where \<comment> \<open>the assignee is not bound to the project\<close>
  "gov_msg_no_assignee =
   [25351, 27966, 25968, 23383, 21592, 24037, 26410, 32465, 23450, 35813, 39033, 30446]"

definition gov_msg_conclusion :: pystr where \<comment> \<open>the conclusion must not be empty\<close>
  "gov_msg_conclusion =
   [32467, 35770, 19981, 33021, 20026, 31354]"

end
