(* ===== verification/Governance.thy ===== *)
theory Governance
  imports Governance_Texts
begin

text \<open>
  Project governance: topics, decisions, tasks, comments and reports of a project
  (\<^verbatim>\<open>storage/postgres/models_business.py\<close>), their data access
  (\<^verbatim>\<open>repositories/governance_repository.py\<close>) and the use cases that own validation, review and
  isolation (\<^verbatim>\<open>services/governance_service.py\<close>).

  A use case is one transaction: it reads and writes \<open>gov_db\<close> and commits, or raises (\<open>Inl\<close>), which
  rolls back. \<open>new_id\<close> is the \<^verbatim>\<open>uuid4\<close> of a new row, \<open>now\<close> the clock reading of the insertion or review
  and \<open>clk\<close> the reading of the \<^verbatim>\<open>onupdate\<close> column default. Use cases return the row; its JSON view is not
  state.
\<close>

section \<open>Data\<close>

datatype gov_status = Proposed | Canonical | Rejected

datatype decision_status = Decision_proposed | Decision_implemented

datatype selection_status = Implicit | Selectable

datatype project_status = Project_active | Project_deleted

record project =
  pr_id :: pystr
  pr_uid :: pystr
  pr_name :: "pystr option"
  pr_selection_status :: selection_status
  pr_workdir_path :: pystr
  pr_directory_mode :: pystr
  pr_status :: project_status
  pr_deleted_at :: "time option"
  pr_idempotency_key :: "pystr option"
  pr_created_at :: time
  pr_updated_at :: time

record project_agent =
  pa_id :: pystr
  pa_project_id :: pystr
  pa_agent_slug :: pystr
  pa_config_overrides :: json
  pa_created_by :: "pystr option"
  pa_updated_by :: "pystr option"
  pa_created_at :: "time option"
  pa_updated_at :: "time option"

record governance_topic =
  gt_id :: pystr
  gt_project_id :: pystr
  gt_title :: pystr
  gt_summary :: "pystr option"
  gt_status :: gov_status
  gt_source_channel :: pystr
  gt_source_external_id :: "pystr option"
  gt_source_url :: "pystr option"
  gt_created_by :: "pystr option"
  gt_review_owner_uid :: "pystr option"
  gt_reviewed_at :: "time option"
  gt_review_note :: "pystr option"
  gt_created_at :: time
  gt_updated_at :: time

record governance_topic_comment =
  gc_id :: pystr
  gc_topic_id :: pystr
  gc_content :: pystr
  gc_author_name :: pystr
  gc_created_by :: "pystr option"
  gc_created_at :: time

record governance_decision =
  gd_id :: pystr
  gd_project_id :: pystr
  gd_topic_id :: "pystr option"
  gd_title :: pystr
  gd_conclusion :: pystr
  gd_rationale :: "pystr option"
  gd_status :: decision_status
  gd_decided_by :: "pystr option"
  gd_decided_at :: "time option"
  gd_created_by :: "pystr option"
  gd_created_at :: time
  gd_updated_at :: time

record governance_task =
  gk_id :: pystr
  gk_project_id :: pystr
  gk_topic_id :: "pystr option"
  gk_decision_id :: "pystr option"
  gk_assignee_agent_slug :: "pystr option"
  gk_title :: pystr
  gk_description :: "pystr option"
  gk_status :: gov_status
  gk_source_channel :: pystr
  gk_source_external_id :: "pystr option"
  gk_source_url :: "pystr option"
  gk_created_by :: "pystr option"
  gk_review_owner_uid :: "pystr option"
  gk_reviewed_at :: "time option"
  gk_review_note :: "pystr option"
  gk_created_at :: time
  gk_updated_at :: time

record governance_report =
  gr_id :: pystr
  gr_project_id :: pystr
  gr_title :: pystr
  gr_summary :: "pystr option"
  gr_content :: json
  gr_source_run_id :: "pystr option"
  gr_artifact_path :: "pystr option"
  gr_created_by :: "pystr option"
  gr_created_at :: time
  gr_updated_at :: time

text \<open>The tables; \<open>gv_run_ids\<close> are the ids of \<^verbatim>\<open>agent_runs\<close> a report may reference.\<close>

record gov_db =
  gv_projects :: "project list"
  gv_project_agents :: "project_agent list"
  gv_run_ids :: "pystr list"
  gv_topics :: "governance_topic list"
  gv_comments :: "governance_topic_comment list"
  gv_decisions :: "governance_decision list"
  gv_tasks :: "governance_task list"
  gv_reports :: "governance_report list"

record gov_user =
  us_uid :: pystr
  us_username :: pystr

datatype http_detail = Detail_text pystr | Detail_fields "(pystr \<times> pystr) list"

datatype gov_error = Http_error nat http_detail | Gov_integrity_error | Gov_data_error

section \<open>Constraints of the database\<close>

definition governance_source_channels :: "pystr list" where
  "governance_source_channels = [lit ''project'', lit ''multica'', lit ''github'', lit ''gitea'']"

definition source_shape_ok :: "pystr \<Rightarrow> pystr option \<Rightarrow> pystr option \<Rightarrow> bool" where
  "source_shape_ok channel external_id url \<longleftrightarrow>
     channel \<in> set governance_source_channels
     \<and> (channel = lit ''project'' \<and> external_id = None \<and> url = None
        \<or> channel \<noteq> lit ''project'' \<and> external_id \<noteq> None)"

definition review_shape_ok :: "gov_status \<Rightarrow> pystr option \<Rightarrow> time option \<Rightarrow> bool" where
  "review_shape_ok status owner reviewed_at \<longleftrightarrow>
     status = Proposed \<and> owner = None \<and> reviewed_at = None
     \<or> (status = Canonical \<or> status = Rejected) \<and> owner \<noteq> None \<and> reviewed_at \<noteq> None"

definition decision_shape_ok :: "decision_status \<Rightarrow> pystr option \<Rightarrow> time option \<Rightarrow> bool" where
  "decision_shape_ok status decided_by decided_at \<longleftrightarrow>
     status = Decision_proposed \<and> decided_by = None \<and> decided_at = None
     \<or> status = Decision_implemented \<and> decided_by \<noteq> None \<and> decided_at \<noteq> None"

definition fits :: "nat \<Rightarrow> pystr option \<Rightarrow> bool" where
  "fits n s \<longleftrightarrow> (case s of None \<Rightarrow> True | Some t \<Rightarrow> length t \<le> n)"

definition topic_row_ok :: "governance_topic \<Rightarrow> bool" where
  "topic_row_ok r \<longleftrightarrow>
     source_shape_ok (gt_source_channel r) (gt_source_external_id r) (gt_source_url r)
     \<and> review_shape_ok (gt_status r) (gt_review_owner_uid r) (gt_reviewed_at r)"

definition task_gov_row_ok :: "governance_task \<Rightarrow> bool" where
  "task_gov_row_ok r \<longleftrightarrow>
     source_shape_ok (gk_source_channel r) (gk_source_external_id r) (gk_source_url r)
     \<and> review_shape_ok (gk_status r) (gk_review_owner_uid r) (gk_reviewed_at r)"

text \<open>Keys of the partial unique indexes \<^verbatim>\<open>uq_governance_topics_source_external\<close> and \<^verbatim>\<open>..._tasks_...\<close>.\<close>

definition topic_source_key :: "governance_topic \<Rightarrow> pystr \<times> pystr \<times> pystr option" where
  "topic_source_key r = (gt_project_id r, gt_source_channel r, gt_source_external_id r)"

definition task_source_key :: "governance_task \<Rightarrow> pystr \<times> pystr \<times> pystr option" where
  "task_source_key r = (gk_project_id r, gk_source_channel r, gk_source_external_id r)"

section \<open>Data access\<close>

definition get_active_selectable_for_user :: "pystr \<Rightarrow> pystr \<Rightarrow> gov_db \<Rightarrow> project option" where
  "get_active_selectable_for_user project_id uid db =
     find (\<lambda>p. pr_id p = project_id \<and> pr_uid p = uid \<and> pr_selection_status p = Selectable
            \<and> pr_status p = Project_active) (gv_projects db)"

definition get_project_agent :: "pystr \<Rightarrow> pystr \<Rightarrow> gov_db \<Rightarrow> project_agent option" where
  "get_project_agent project_id agent_slug db =
     find (\<lambda>a. pa_project_id a = project_id \<and> pa_agent_slug a = agent_slug) (gv_project_agents db)"

definition add_topic ::
  "pystr \<Rightarrow> pystr \<Rightarrow> pystr \<Rightarrow> pystr option \<Rightarrow> pystr \<Rightarrow> pystr option \<Rightarrow> pystr option \<Rightarrow> pystr \<Rightarrow> time
   \<Rightarrow> gov_db \<Rightarrow> gov_error + gov_db \<times> governance_topic" where
  "add_topic new_id project_id title summary channel external_id url operator now db =
     (let row = \<lparr>gt_id = new_id, gt_project_id = project_id, gt_title = title, gt_summary = summary,
            gt_status = Proposed, gt_source_channel = channel, gt_source_external_id = external_id,
            gt_source_url = url, gt_created_by = Some operator, gt_review_owner_uid = None,
            gt_reviewed_at = None, gt_review_note = None, gt_created_at = now, gt_updated_at = now\<rparr>
      in if \<not> fits 191 external_id \<or> \<not> fits 1024 url then Inl Gov_data_error
         else if new_id \<in> set (map gt_id (gv_topics db)) \<or> \<not> topic_row_ok row
                 \<or> (external_id \<noteq> None \<and> list_ex (\<lambda>x. topic_source_key x = topic_source_key row) (gv_topics db))
         then Inl Gov_integrity_error
         else Inr (db\<lparr>gv_topics := gv_topics db @ [row]\<rparr>, row))"

definition get_topic :: "pystr \<Rightarrow> gov_db \<Rightarrow> governance_topic option" where
  "get_topic topic_id db = find (\<lambda>r. gt_id r = topic_id) (gv_topics db)"

definition find_topic_by_source :: "pystr \<Rightarrow> pystr \<Rightarrow> pystr \<Rightarrow> gov_db \<Rightarrow> governance_topic option" where
  "find_topic_by_source project_id channel external_id db =
     find (\<lambda>r. gt_project_id r = project_id \<and> gt_source_channel r = channel
            \<and> gt_source_external_id r = Some external_id) (gv_topics db)"

definition list_topics :: "pystr \<Rightarrow> gov_db \<Rightarrow> governance_topic list" where
  "list_topics project_id db =
     sort_key (\<lambda>r. (gt_created_at r, gt_id r)) (filter (\<lambda>r. gt_project_id r = project_id) (gv_topics db))"

definition put_topic :: "governance_topic \<Rightarrow> gov_db \<Rightarrow> gov_db" where
  "put_topic r db = db\<lparr>gv_topics := update_where (\<lambda>x. gt_id x = gt_id r) (\<lambda>_. r) (gv_topics db)\<rparr>"

definition add_topic_comment ::
  "pystr \<Rightarrow> pystr \<Rightarrow> pystr \<Rightarrow> pystr \<Rightarrow> pystr \<Rightarrow> time \<Rightarrow> gov_db \<Rightarrow> gov_error + gov_db \<times> governance_topic_comment" where
  "add_topic_comment new_id topic_id content author_name operator now db =
     (let row = \<lparr>gc_id = new_id, gc_topic_id = topic_id, gc_content = content, gc_author_name = author_name,
            gc_created_by = Some operator, gc_created_at = now\<rparr>
      in if new_id \<in> set (map gc_id (gv_comments db)) \<or> topic_id \<notin> set (map gt_id (gv_topics db))
         then Inl Gov_integrity_error
         else Inr (db\<lparr>gv_comments := gv_comments db @ [row]\<rparr>, row))"

definition list_topic_comments :: "pystr \<Rightarrow> gov_db \<Rightarrow> governance_topic_comment list" where
  "list_topic_comments topic_id db =
     sort_key (\<lambda>r. (gc_created_at r, gc_id r)) (filter (\<lambda>r. gc_topic_id r = topic_id) (gv_comments db))"

definition add_task ::
  "pystr \<Rightarrow> pystr \<Rightarrow> pystr \<Rightarrow> pystr option \<Rightarrow> pystr option \<Rightarrow> pystr option \<Rightarrow> pystr option \<Rightarrow> pystr \<Rightarrow> pystr option
   \<Rightarrow> pystr option \<Rightarrow> pystr \<Rightarrow> time \<Rightarrow> gov_db \<Rightarrow> gov_error + gov_db \<times> governance_task" where
  "add_task new_id project_id title description topic_id decision_id assignee channel external_id url operator now db =
     (let row = \<lparr>gk_id = new_id, gk_project_id = project_id, gk_topic_id = topic_id,
            gk_decision_id = decision_id, gk_assignee_agent_slug = assignee, gk_title = title,
            gk_description = description, gk_status = Proposed, gk_source_channel = channel,
            gk_source_external_id = external_id, gk_source_url = url, gk_created_by = Some operator,
            gk_review_owner_uid = None, gk_reviewed_at = None, gk_review_note = None,
            gk_created_at = now, gk_updated_at = now\<rparr>
      in if \<not> fits 191 external_id \<or> \<not> fits 1024 url then Inl Gov_data_error
         else if new_id \<in> set (map gk_id (gv_tasks db)) \<or> \<not> task_gov_row_ok row
                 \<or> (external_id \<noteq> None \<and> list_ex (\<lambda>x. task_source_key x = task_source_key row) (gv_tasks db))
         then Inl Gov_integrity_error
         else Inr (db\<lparr>gv_tasks := gv_tasks db @ [row]\<rparr>, row))"

definition get_gov_task :: "pystr \<Rightarrow> gov_db \<Rightarrow> governance_task option" where
  "get_gov_task task_id db = find (\<lambda>r. gk_id r = task_id) (gv_tasks db)"

definition find_task_by_source :: "pystr \<Rightarrow> pystr \<Rightarrow> pystr \<Rightarrow> gov_db \<Rightarrow> governance_task option" where
  "find_task_by_source project_id channel external_id db =
     find (\<lambda>r. gk_project_id r = project_id \<and> gk_source_channel r = channel
            \<and> gk_source_external_id r = Some external_id) (gv_tasks db)"

definition list_gov_tasks :: "pystr \<Rightarrow> gov_db \<Rightarrow> governance_task list" where
  "list_gov_tasks project_id db =
     sort_key (\<lambda>r. (gk_created_at r, gk_id r)) (filter (\<lambda>r. gk_project_id r = project_id) (gv_tasks db))"

definition put_gov_task :: "governance_task \<Rightarrow> gov_db \<Rightarrow> gov_db" where
  "put_gov_task r db = db\<lparr>gv_tasks := update_where (\<lambda>x. gk_id x = gk_id r) (\<lambda>_. r) (gv_tasks db)\<rparr>"

definition add_decision ::
  "pystr \<Rightarrow> pystr \<Rightarrow> pystr \<Rightarrow> pystr \<Rightarrow> pystr option \<Rightarrow> pystr option \<Rightarrow> bool \<Rightarrow> pystr \<Rightarrow> time \<Rightarrow> gov_db
   \<Rightarrow> gov_error + gov_db \<times> governance_decision" where
  "add_decision new_id project_id title conclusion rationale topic_id decided operator now db =
     (let row = \<lparr>gd_id = new_id, gd_project_id = project_id, gd_topic_id = topic_id, gd_title = title,
            gd_conclusion = conclusion, gd_rationale = rationale,
            gd_status = (if decided then Decision_implemented else Decision_proposed),
            gd_decided_by = (if decided then Some operator else None),
            gd_decided_at = (if decided then Some now else None),
            gd_created_by = Some operator, gd_created_at = now, gd_updated_at = now\<rparr>
      in if new_id \<in> set (map gd_id (gv_decisions db))
            \<or> \<not> decision_shape_ok (gd_status row) (gd_decided_by row) (gd_decided_at row)
         then Inl Gov_integrity_error
         else Inr (db\<lparr>gv_decisions := gv_decisions db @ [row]\<rparr>, row))"

definition get_decision :: "pystr \<Rightarrow> gov_db \<Rightarrow> governance_decision option" where
  "get_decision decision_id db = find (\<lambda>r. gd_id r = decision_id) (gv_decisions db)"

definition list_decisions :: "pystr \<Rightarrow> gov_db \<Rightarrow> governance_decision list" where
  "list_decisions project_id db =
     sort_key (\<lambda>r. (gd_created_at r, gd_id r)) (filter (\<lambda>r. gd_project_id r = project_id) (gv_decisions db))"

definition add_report ::
  "pystr \<Rightarrow> pystr \<Rightarrow> pystr \<Rightarrow> pystr option \<Rightarrow> json \<Rightarrow> pystr option \<Rightarrow> pystr option \<Rightarrow> pystr \<Rightarrow> time \<Rightarrow> gov_db
   \<Rightarrow> gov_error + gov_db \<times> governance_report" where
  "add_report new_id project_id title summary content source_run_id artifact_path operator now db =
     (let row = \<lparr>gr_id = new_id, gr_project_id = project_id, gr_title = title, gr_summary = summary,
            gr_content = content, gr_source_run_id = source_run_id, gr_artifact_path = artifact_path,
            gr_created_by = Some operator, gr_created_at = now, gr_updated_at = now\<rparr>
      in if \<not> fits 64 source_run_id \<or> \<not> fits 512 artifact_path then Inl Gov_data_error
         else if new_id \<in> set (map gr_id (gv_reports db))
                 \<or> (case source_run_id of None \<Rightarrow> False | Some i \<Rightarrow> i \<notin> set (gv_run_ids db))
         then Inl Gov_integrity_error
         else Inr (db\<lparr>gv_reports := gv_reports db @ [row]\<rparr>, row))"

definition list_reports :: "pystr \<Rightarrow> gov_db \<Rightarrow> governance_report list" where
  "list_reports project_id db =
     sort_key (\<lambda>r. (gr_created_at r, gr_id r)) (filter (\<lambda>r. gr_project_id r = project_id) (gv_reports db))"

section \<open>Validation\<close>

definition http_code :: "nat \<Rightarrow> string \<Rightarrow> pystr \<Rightarrow> gov_error" where
  "http_code status code message =
     Http_error status (Detail_fields [(lit ''code'', lit code), (lit ''message'', message)])"

definition normalize_title :: "pystr option \<Rightarrow> gov_error + pystr" where
  "normalize_title title =
     (let normalized = py_strip (or_empty title)
      in if normalized = [] \<or> 512 < length normalized then Inl (http_code 422 ''invalid_title'' gov_msg_title)
         else Inr normalized)"

definition normalize_topic_text :: "pystr option \<Rightarrow> bool \<Rightarrow> gov_error + pystr option" where
  "normalize_topic_text content required =
     (let normalized = py_strip (or_empty content)
      in if required \<and> normalized = [] then Inl (http_code 422 ''invalid_comment'' gov_msg_comment_empty)
         else if 100000 < length normalized then Inl (http_code 422 ''topic_text_too_long'' gov_msg_text_long)
         else Inr (or_none normalized))"

text \<open>\<^verbatim>\<open>str(x).strip() if x else None\<close>\<close>

definition strip_if :: "pystr option \<Rightarrow> pystr option" where
  "strip_if x = (if or_empty x = [] then None else Some (py_strip (or_empty x)))"

definition normalize_governance_source ::
  "pystr option \<Rightarrow> pystr option \<Rightarrow> pystr option \<Rightarrow> gov_error + pystr \<times> pystr option \<times> pystr option" where
  "normalize_governance_source source_channel source_external_id source_url =
     (let channel = py_strip (or_empty source_channel)
      in if channel \<notin> set governance_source_channels then Inl (http_code 422 ''invalid_source'' gov_msg_channel)
         else
           let external_id = strip_if source_external_id; url = strip_if source_url
           in if channel = lit ''project''
              then
                if or_empty external_id \<noteq> [] \<or> or_empty url \<noteq> []
                then Inl (http_code 422 ''invalid_source'' gov_msg_project_source)
                else Inr (channel, None, None)
              else if or_empty external_id = []
              then Inl (http_code 422 ''invalid_source'' gov_msg_external_source)
              else Inr (channel, external_id, url))"

definition require_project :: "pystr \<Rightarrow> gov_user \<Rightarrow> gov_db \<Rightarrow> gov_error + project" where
  "require_project project_id user db =
     (case get_active_selectable_for_user project_id (us_uid user) db of
        None \<Rightarrow> Inl (Http_error 404 (Detail_text gov_msg_no_project)) | Some p \<Rightarrow> Inr p)"

fun gov_status_str :: "gov_status \<Rightarrow> pystr" where
  "gov_status_str Proposed = lit ''proposed''"
| "gov_status_str Canonical = lit ''canonical''"
| "gov_status_str Rejected = lit ''rejected''"

definition invalid_state :: "gov_status \<Rightarrow> gov_error" where
  "invalid_state s =
     Http_error 409 (Detail_fields [(lit ''code'', lit ''invalid_state''), (lit ''status'', gov_status_str s)])"

definition duplicate_source :: "pystr \<Rightarrow> pystr \<Rightarrow> gov_error" where
  "duplicate_source channel external_id =
     Http_error 409 (Detail_fields [(lit ''code'', lit ''duplicate_source''), (lit ''source_channel'', channel),
       (lit ''external_id'', external_id)])"

text \<open>Sequencing of steps that may raise.\<close>

definition and_then :: "'e + 'a \<Rightarrow> ('a \<Rightarrow> 'e + 'b) \<Rightarrow> 'e + 'b" where
  "and_then x f = (case x of Inl e \<Rightarrow> Inl e | Inr a \<Rightarrow> f a)"

definition require :: "bool \<Rightarrow> 'e \<Rightarrow> 'e + unit" where
  "require b e = (if b then Inr () else Inl e)"

text \<open>The row with this id if it belongs to the project, else 404.\<close>

definition topic_in_project :: "pystr \<Rightarrow> project \<Rightarrow> pystr \<Rightarrow> gov_db \<Rightarrow> gov_error + governance_topic" where
  "topic_in_project topic_id project missing db =
     (case get_topic topic_id db of
        None \<Rightarrow> Inl (Http_error 404 (Detail_text missing))
      | Some row \<Rightarrow> if gt_project_id row \<noteq> pr_id project then Inl (Http_error 404 (Detail_text missing)) else Inr row)"

section \<open>Use cases\<close>

definition create_governance_topic ::
  "pystr \<Rightarrow> pystr \<Rightarrow> pystr option \<Rightarrow> pystr option \<Rightarrow> pystr option \<Rightarrow> pystr option \<Rightarrow> pystr option \<Rightarrow> gov_user \<Rightarrow> time
   \<Rightarrow> gov_db \<Rightarrow> gov_error + gov_db \<times> governance_topic" where
  "create_governance_topic new_id project_id title summary source_channel source_external_id source_url user now db =
     and_then (normalize_title title) (\<lambda>normalized_title.
     and_then (normalize_governance_source source_channel source_external_id source_url) (\<lambda>(channel, external_id, url).
     and_then (require_project project_id user db) (\<lambda>project.
     and_then (case external_id of None \<Rightarrow> Inr ()
               | Some e \<Rightarrow> require (find_topic_by_source (pr_id project) channel e db = None) (duplicate_source channel e)) (\<lambda>_.
     and_then (normalize_topic_text summary False) (\<lambda>normalized_summary.
       add_topic new_id (pr_id project) normalized_title normalized_summary channel external_id url (us_uid user) now db)))))"

definition list_governance_topics :: "pystr \<Rightarrow> gov_user \<Rightarrow> gov_db \<Rightarrow> gov_error + governance_topic list" where
  "list_governance_topics project_id user db =
     and_then (require_project project_id user db) (\<lambda>project. Inr (list_topics (pr_id project) db))"

definition get_governance_topic :: "pystr \<Rightarrow> pystr \<Rightarrow> gov_user \<Rightarrow> gov_db \<Rightarrow> gov_error + governance_topic" where
  "get_governance_topic project_id topic_id user db =
     and_then (require_project project_id user db) (\<lambda>project. topic_in_project topic_id project gov_msg_no_topic db)"

text \<open>An \<^verbatim>\<open>UPDATE\<close> is emitted, and \<^verbatim>\<open>updated_at\<close> refreshed, only when a column really changes.\<close>

definition update_governance_topic ::
  "pystr \<Rightarrow> pystr \<Rightarrow> pystr option \<Rightarrow> pystr option \<Rightarrow> gov_user \<Rightarrow> time \<Rightarrow> gov_db
   \<Rightarrow> gov_error + gov_db \<times> governance_topic" where
  "update_governance_topic project_id topic_id title summary user clk db =
     and_then (require_project project_id user db) (\<lambda>project.
     and_then (topic_in_project topic_id project gov_msg_no_topic db) (\<lambda>row.
     and_then (require (gt_status row = Proposed) (invalid_state (gt_status row))) (\<lambda>_.
     and_then (normalize_title title) (\<lambda>normalized_title.
     and_then (normalize_topic_text summary False) (\<lambda>normalized_summary.
       let row' = row\<lparr>gt_title := normalized_title, gt_summary := normalized_summary\<rparr>;
           row'' = (if row' = row then row else row'\<lparr>gt_updated_at := clk\<rparr>)
       in Inr (put_topic row'' db, row''))))))"

definition list_governance_topic_comments ::
  "pystr \<Rightarrow> pystr \<Rightarrow> gov_user \<Rightarrow> gov_db \<Rightarrow> gov_error + governance_topic_comment list" where
  "list_governance_topic_comments project_id topic_id user db =
     and_then (require_project project_id user db) (\<lambda>project.
     and_then (topic_in_project topic_id project gov_msg_no_topic db) (\<lambda>topic.
       Inr (list_topic_comments (gt_id topic) db)))"

definition create_governance_topic_comment ::
  "pystr \<Rightarrow> pystr \<Rightarrow> pystr \<Rightarrow> pystr option \<Rightarrow> gov_user \<Rightarrow> time \<Rightarrow> gov_db
   \<Rightarrow> gov_error + gov_db \<times> governance_topic_comment" where
  "create_governance_topic_comment new_id project_id topic_id content user now db =
     and_then (require_project project_id user db) (\<lambda>project.
     and_then (topic_in_project topic_id project gov_msg_no_topic db) (\<lambda>topic.
     and_then (require (gt_status topic = Proposed) (invalid_state (gt_status topic))) (\<lambda>_.
     and_then (normalize_topic_text content True) (\<lambda>normalized_content.
       add_topic_comment new_id (gt_id topic) (or_empty normalized_content) (us_username user) (us_uid user) now db))))"

definition review_governance_topic ::
  "pystr \<Rightarrow> pystr \<Rightarrow> bool \<Rightarrow> pystr option \<Rightarrow> gov_user \<Rightarrow> time \<Rightarrow> time \<Rightarrow> gov_db
   \<Rightarrow> gov_error + gov_db \<times> governance_topic" where
  "review_governance_topic project_id topic_id approve review_note user now clk db =
     and_then (require_project project_id user db) (\<lambda>project.
     and_then (topic_in_project topic_id project gov_msg_no_topic db) (\<lambda>row.
     and_then (require (gt_status row = Proposed) (invalid_state (gt_status row))) (\<lambda>_.
       let row' = row\<lparr>gt_status := (if approve then Canonical else Rejected),
             gt_review_owner_uid := Some (us_uid user), gt_reviewed_at := Some now,
             gt_review_note := review_note, gt_updated_at := clk\<rparr>
       in Inr (put_topic row' db, row'))))"

definition create_governance_task ::
  "pystr \<Rightarrow> pystr \<Rightarrow> pystr option \<Rightarrow> pystr option \<Rightarrow> pystr option \<Rightarrow> pystr option \<Rightarrow> pystr option \<Rightarrow> pystr option
   \<Rightarrow> pystr option \<Rightarrow> pystr option \<Rightarrow> gov_user \<Rightarrow> time \<Rightarrow> gov_db \<Rightarrow> gov_error + gov_db \<times> governance_task" where
  "create_governance_task new_id project_id title description topic_id decision_id assignee
     source_channel source_external_id source_url user now db =
     and_then (normalize_title title) (\<lambda>normalized_title.
     and_then (normalize_governance_source source_channel source_external_id source_url) (\<lambda>(channel, external_id, url).
     and_then (require_project project_id user db) (\<lambda>project.
     and_then (case topic_id of None \<Rightarrow> Inr ()
               | Some t \<Rightarrow> and_then (topic_in_project t project gov_msg_no_source_topic db) (\<lambda>_. Inr ())) (\<lambda>_.
     and_then (case decision_id of None \<Rightarrow> Inr ()
               | Some d \<Rightarrow> require (case get_decision d db of None \<Rightarrow> False | Some x \<Rightarrow> gd_project_id x = pr_id project)
                            (Http_error 404 (Detail_text gov_msg_no_source_decision))) (\<lambda>_.
     and_then (case assignee of None \<Rightarrow> Inr ()
               | Some a \<Rightarrow> require (get_project_agent (pr_id project) a db \<noteq> None)
                            (Http_error 404 (Detail_text gov_msg_no_assignee))) (\<lambda>_.
     and_then (case external_id of None \<Rightarrow> Inr ()
               | Some e \<Rightarrow> require (find_task_by_source (pr_id project) channel e db = None) (duplicate_source channel e)) (\<lambda>_.
       add_task new_id (pr_id project) normalized_title description topic_id decision_id assignee
         channel external_id url (us_uid user) now db)))))))"

definition list_governance_tasks :: "pystr \<Rightarrow> gov_user \<Rightarrow> gov_db \<Rightarrow> gov_error + governance_task list" where
  "list_governance_tasks project_id user db =
     and_then (require_project project_id user db) (\<lambda>project. Inr (list_gov_tasks (pr_id project) db))"

definition review_governance_task ::
  "pystr \<Rightarrow> pystr \<Rightarrow> bool \<Rightarrow> pystr option \<Rightarrow> gov_user \<Rightarrow> time \<Rightarrow> time \<Rightarrow> gov_db
   \<Rightarrow> gov_error + gov_db \<times> governance_task" where
  "review_governance_task project_id task_id approve review_note user now clk db =
     and_then (require_project project_id user db) (\<lambda>project.
     case get_gov_task task_id db of
       None \<Rightarrow> Inl (Http_error 404 (Detail_text gov_msg_no_task))
     | Some row \<Rightarrow>
         if gk_project_id row \<noteq> pr_id project then Inl (Http_error 404 (Detail_text gov_msg_no_task))
         else if gk_status row \<noteq> Proposed then Inl (invalid_state (gk_status row))
         else
           let row' = row\<lparr>gk_status := (if approve then Canonical else Rejected),
                 gk_review_owner_uid := Some (us_uid user), gk_reviewed_at := Some now,
                 gk_review_note := review_note, gk_updated_at := clk\<rparr>
           in Inr (put_gov_task row' db, row'))"

definition create_governance_decision ::
  "pystr \<Rightarrow> pystr \<Rightarrow> pystr option \<Rightarrow> pystr option \<Rightarrow> pystr option \<Rightarrow> pystr option \<Rightarrow> bool \<Rightarrow> gov_user \<Rightarrow> time
   \<Rightarrow> gov_db \<Rightarrow> gov_error + gov_db \<times> governance_decision" where
  "create_governance_decision new_id project_id title conclusion rationale topic_id decided user now db =
     and_then (normalize_title title) (\<lambda>normalized_title.
     and_then (require (py_strip (or_empty conclusion) \<noteq> []) (http_code 422 ''invalid_conclusion'' gov_msg_conclusion)) (\<lambda>_.
     and_then (require_project project_id user db) (\<lambda>project.
     and_then (case topic_id of None \<Rightarrow> Inr ()
               | Some t \<Rightarrow> and_then (topic_in_project t project gov_msg_no_source_topic db) (\<lambda>_. Inr ())) (\<lambda>_.
       add_decision new_id (pr_id project) normalized_title (py_strip (or_empty conclusion)) rationale topic_id
         decided (us_uid user) now db))))"

definition create_governance_report ::
  "pystr \<Rightarrow> pystr \<Rightarrow> pystr option \<Rightarrow> pystr option \<Rightarrow> json option \<Rightarrow> pystr option \<Rightarrow> pystr option \<Rightarrow> gov_user \<Rightarrow> time
   \<Rightarrow> gov_db \<Rightarrow> gov_error + gov_db \<times> governance_report" where
  "create_governance_report new_id project_id title summary content source_run_id artifact_path user now db =
     and_then (normalize_title title) (\<lambda>normalized_title.
     and_then (require_project project_id user db) (\<lambda>project.
       add_report new_id (pr_id project) normalized_title summary (or_obj content) source_run_id artifact_path
         (us_uid user) now db))"

definition list_governance_reports :: "pystr \<Rightarrow> gov_user \<Rightarrow> gov_db \<Rightarrow> gov_error + governance_report list" where
  "list_governance_reports project_id user db =
     and_then (require_project project_id user db) (\<lambda>project. Inr (list_reports (pr_id project) db))"

definition list_governance_decisions :: "pystr \<Rightarrow> gov_user \<Rightarrow> gov_db \<Rightarrow> gov_error + governance_decision list" where
  "list_governance_decisions project_id user db =
     and_then (require_project project_id user db) (\<lambda>project. Inr (list_decisions (pr_id project) db))"

end
