(* ===== verification/Governance_Invariant.thy ===== *)
theory Governance_Invariant
  imports Governance
begin

text \<open>
  Steps, invariant and history of the governance tables.

  \<open>gov_step u p\<close> is one committed use case of the user \<open>u\<close> on the project \<open>p\<close>; a use case that raises
  rolls back and is no step. \<open>gov_move\<close> adds what the rest of the system does to the tables the use
  cases only read; the \<^verbatim>\<open>ON DELETE\<close> cascades of a hard deletion of users, agents or runs are not
  steps (projects are deleted softly). \<open>gov_step_cases\<close> reduces the eight use cases to five kinds of change, on which
  the invariant, the history and the isolation of projects rest.
\<close>

section \<open>Results that may be errors\<close>

lemma and_then_Inr_iff [simp]: "and_then x f = Inr y \<longleftrightarrow> (\<exists>a. x = Inr a \<and> f a = Inr y)"
  by (cases x) (simp_all add: and_then_def)

lemma and_then_simps [simp]: "and_then (Inl e) f = Inl e" "and_then (Inr a) f = f a"
  by (simp_all add: and_then_def)

lemma require_Inr_iff [simp]: "require b e = Inr u \<longleftrightarrow> b"
  by (simp add: require_def)

lemma require_simps [simp]: "require True e = Inr ()" "require False e = Inl e"
  by (simp_all add: require_def)

lemma require_project_iff:
  "require_project p u db = Inr pr \<longleftrightarrow> get_active_selectable_for_user p (us_uid u) db = Some pr"
  by (simp add: require_project_def split: option.splits)

lemma require_project_id: "require_project p u db = Inr pr \<Longrightarrow> pr_id pr = p"
  by (auto simp: require_project_iff get_active_selectable_for_user_def dest: find_Some_in)

lemma topic_in_project_iff:
  "topic_in_project t pr m db = Inr r \<longleftrightarrow> get_topic t db = Some r \<and> gt_project_id r = pr_id pr"
  by (auto simp: topic_in_project_def split: option.splits)

lemma get_topic_in: "get_topic t db = Some r \<Longrightarrow> r \<in> set (gv_topics db) \<and> gt_id r = t"
  by (auto simp: get_topic_def dest: find_Some_in)

lemma get_gov_task_in: "get_gov_task t db = Some r \<Longrightarrow> r \<in> set (gv_tasks db) \<and> gk_id r = t"
  by (auto simp: get_gov_task_def dest: find_Some_in)

lemma normalize_title_Inr:
  "normalize_title t = Inr s \<longleftrightarrow> s = py_strip (or_empty t) \<and> s \<noteq> [] \<and> length s \<le> 512"
  by (auto simp: normalize_title_def Let_def split: if_splits)

lemma normalize_source_Inr:
  assumes "normalize_governance_source c e l = Inr (ch, e', l')"
  shows "source_shape_ok ch e' l'" and "e' \<noteq> Some []" and "py_strip ch = ch"
    and "map_option py_strip e' = e'" and "map_option py_strip l' = l'"
  using assms
  by (auto simp: normalize_governance_source_def source_shape_ok_def Let_def strip_if_def or_empty_def
      split: if_splits option.splits)

section \<open>Steps\<close>

inductive gov_step :: "gov_user \<Rightarrow> pystr \<Rightarrow> gov_db \<Rightarrow> gov_db \<Rightarrow> bool" where
  create_topic: "create_governance_topic new_id p title summary ch ext url u now db = Inr (db', r)
    \<Longrightarrow> gov_step u p db db'"
| update_topic: "update_governance_topic p t title summary u clk db = Inr (db', r) \<Longrightarrow> gov_step u p db db'"
| comment: "create_governance_topic_comment new_id p t content u now db = Inr (db', c) \<Longrightarrow> gov_step u p db db'"
| review_topic: "review_governance_topic p t approve note u now clk db = Inr (db', r) \<Longrightarrow> gov_step u p db db'"
| create_task: "create_governance_task new_id p title description t d a ch ext url u now db = Inr (db', k)
    \<Longrightarrow> gov_step u p db db'"
| review_task: "review_governance_task p i approve note u now clk db = Inr (db', k) \<Longrightarrow> gov_step u p db db'"
| decide: "create_governance_decision new_id p title conclusion rationale t decided u now db = Inr (db', d)
    \<Longrightarrow> gov_step u p db db'"
| report: "create_governance_report new_id p title summary content run artifact u now db = Inr (db', x)
    \<Longrightarrow> gov_step u p db db'"

inductive gov_move :: "gov_db \<Rightarrow> gov_db \<Rightarrow> bool" where
  act: "gov_step u p db db' \<Longrightarrow> gov_move db db'"
| others: "gov_move db (db\<lparr>gv_projects := ps, gv_project_agents := as, gv_run_ids := rs\<rparr>)"

definition gov_start :: "gov_db \<Rightarrow> bool" where
  "gov_start db \<longleftrightarrow> gv_topics db = [] \<and> gv_comments db = [] \<and> gv_decisions db = [] \<and> gv_tasks db = []
     \<and> gv_reports db = []"

section \<open>Invariant\<close>

definition title_ok :: "pystr \<Rightarrow> bool" where
  "title_ok s \<longleftrightarrow> s \<noteq> [] \<and> length s \<le> 512 \<and> py_strip s = s"

definition topic_of :: "pystr option \<Rightarrow> pystr \<Rightarrow> gov_db \<Rightarrow> bool" where
  "topic_of t p db \<longleftrightarrow> (case t of None \<Rightarrow> True
     | Some i \<Rightarrow> \<exists>r\<in>set (gv_topics db). gt_id r = i \<and> gt_project_id r = p)"

definition decision_of :: "pystr option \<Rightarrow> pystr \<Rightarrow> gov_db \<Rightarrow> bool" where
  "decision_of d p db \<longleftrightarrow> (case d of None \<Rightarrow> True
     | Some i \<Rightarrow> \<exists>r\<in>set (gv_decisions db). gd_id r = i \<and> gd_project_id r = p)"

definition topics_inv :: "governance_topic list \<Rightarrow> bool" where
  "topics_inv ts \<longleftrightarrow> distinct (map gt_id ts)
     \<and> distinct (map topic_source_key (filter (\<lambda>r. gt_source_external_id r \<noteq> None) ts))
     \<and> (\<forall>r\<in>set ts. topic_row_ok r \<and> title_ok (gt_title r))"

definition gov_tasks_inv :: "governance_task list \<Rightarrow> bool" where
  "gov_tasks_inv ks \<longleftrightarrow> distinct (map gk_id ks)
     \<and> distinct (map task_source_key (filter (\<lambda>r. gk_source_external_id r \<noteq> None) ks))
     \<and> (\<forall>r\<in>set ks. task_gov_row_ok r \<and> title_ok (gk_title r))"

definition refs_inv :: "gov_db \<Rightarrow> bool" where
  "refs_inv db \<longleftrightarrow>
     (\<forall>c\<in>set (gv_comments db). gc_topic_id c \<in> gt_id ` set (gv_topics db))
     \<and> (\<forall>d\<in>set (gv_decisions db). topic_of (gd_topic_id d) (gd_project_id d) db)
     \<and> (\<forall>k\<in>set (gv_tasks db). topic_of (gk_topic_id k) (gk_project_id k) db
          \<and> decision_of (gk_decision_id k) (gk_project_id k) db)"

definition gov_inv :: "gov_db \<Rightarrow> bool" where
  "gov_inv db \<longleftrightarrow> topics_inv (gv_topics db) \<and> gov_tasks_inv (gv_tasks db) \<and> refs_inv db
     \<and> distinct (map gc_id (gv_comments db)) \<and> (\<forall>c\<in>set (gv_comments db). gc_content c \<noteq> [])
     \<and> distinct (map gd_id (gv_decisions db))
     \<and> (\<forall>d\<in>set (gv_decisions db). decision_shape_ok (gd_status d) (gd_decided_by d) (gd_decided_at d)
          \<and> title_ok (gd_title d) \<and> gd_conclusion d \<noteq> [])
     \<and> distinct (map gr_id (gv_reports db)) \<and> (\<forall>x\<in>set (gv_reports db). title_ok (gr_title x))"

section \<open>History of rows\<close>

text \<open>What a topic and a task keep for ever, and that a reviewed one is frozen.\<close>

definition topic_keeps :: "governance_topic \<Rightarrow> governance_topic \<Rightarrow> bool" where
  "topic_keeps r r' \<longleftrightarrow> gt_id r' = gt_id r \<and> gt_project_id r' = gt_project_id r
     \<and> gt_source_channel r' = gt_source_channel r \<and> gt_source_external_id r' = gt_source_external_id r
     \<and> gt_source_url r' = gt_source_url r \<and> gt_created_by r' = gt_created_by r
     \<and> gt_created_at r' = gt_created_at r \<and> (gt_status r \<noteq> Proposed \<longrightarrow> r' = r)"

definition task_keeps :: "governance_task \<Rightarrow> governance_task \<Rightarrow> bool" where
  "task_keeps r r' \<longleftrightarrow> gk_id r' = gk_id r \<and> gk_project_id r' = gk_project_id r
     \<and> gk_topic_id r' = gk_topic_id r \<and> gk_decision_id r' = gk_decision_id r
     \<and> gk_assignee_agent_slug r' = gk_assignee_agent_slug r \<and> gk_title r' = gk_title r
     \<and> gk_description r' = gk_description r
     \<and> gk_source_channel r' = gk_source_channel r \<and> gk_source_external_id r' = gk_source_external_id r
     \<and> gk_source_url r' = gk_source_url r \<and> gk_created_by r' = gk_created_by r
     \<and> gk_created_at r' = gk_created_at r \<and> (gk_status r \<noteq> Proposed \<longrightarrow> r' = r)"

definition gov_rel :: "gov_db \<Rightarrow> gov_db \<Rightarrow> bool" where
  "gov_rel db db' \<longleftrightarrow> evolves topic_keeps (gv_topics db) (gv_topics db')
     \<and> evolves task_keeps (gv_tasks db) (gv_tasks db')
     \<and> evolves (=) (gv_comments db) (gv_comments db')
     \<and> evolves (=) (gv_decisions db) (gv_decisions db')
     \<and> evolves (=) (gv_reports db) (gv_reports db')"

lemma topic_keeps_refl [simp]: "topic_keeps r r"
  by (simp add: topic_keeps_def)

lemma task_keeps_refl [simp]: "task_keeps r r"
  by (simp add: task_keeps_def)

lemma topic_keeps_trans: "topic_keeps a b \<Longrightarrow> topic_keeps b c \<Longrightarrow> topic_keeps a c"
  by (auto simp: topic_keeps_def)

lemma task_keeps_trans: "task_keeps a b \<Longrightarrow> task_keeps b c \<Longrightarrow> task_keeps a c"
  by (auto simp: task_keeps_def)

lemma gov_rel_refl: "gov_rel db db"
  by (simp add: gov_rel_def evolves_refl)

lemma gov_rel_trans: "gov_rel a b \<Longrightarrow> gov_rel b c \<Longrightarrow> gov_rel a c"
  unfolding gov_rel_def
  by (elim conjE, intro conjI)
    (erule (1) evolves_trans, (erule (1) topic_keeps_trans | erule (1) task_keeps_trans | simp))+

section \<open>The kinds of change\<close>

definition new_topic_ok :: "pystr \<Rightarrow> governance_topic \<Rightarrow> gov_db \<Rightarrow> bool" where
  "new_topic_ok p r db \<longleftrightarrow> gt_project_id r = p \<and> gt_status r = Proposed \<and> topic_row_ok r \<and> title_ok (gt_title r)
     \<and> gt_id r \<notin> gt_id ` set (gv_topics db)
     \<and> (gt_source_external_id r = None \<or> topic_source_key r \<notin> topic_source_key ` set (gv_topics db))"

definition new_task_ok :: "pystr \<Rightarrow> governance_task \<Rightarrow> gov_db \<Rightarrow> bool" where
  "new_task_ok p r db \<longleftrightarrow> gk_project_id r = p \<and> gk_status r = Proposed \<and> task_gov_row_ok r \<and> title_ok (gk_title r)
     \<and> gk_id r \<notin> gk_id ` set (gv_tasks db)
     \<and> (gk_source_external_id r = None \<or> task_source_key r \<notin> task_source_key ` set (gv_tasks db))
     \<and> topic_of (gk_topic_id r) p db \<and> decision_of (gk_decision_id r) p db"

lemma create_topic_effect:
  assumes "create_governance_topic i p title summary ch ext url u now db = Inr (db', r)"
  shows "db' = db\<lparr>gv_topics := gv_topics db @ [r]\<rparr>" and "new_topic_ok p r db"
    and "\<exists>pr. require_project p u db = Inr pr"
proof -
  from assms obtain n c e l pr s where
    n: "normalize_title title = Inr n" and src: "normalize_governance_source ch ext url = Inr (c, e, l)"
    and pr: "require_project p u db = Inr pr"
    and add: "add_topic i (pr_id pr) n s c e l (us_uid u) now db = Inr (db', r)"
    by (auto simp: create_governance_topic_def)
  show "\<exists>pr. require_project p u db = Inr pr" using pr by blast
  show "db' = db\<lparr>gv_topics := gv_topics db @ [r]\<rparr>"
    using add by (auto simp: add_topic_def Let_def split: if_splits)
  show "new_topic_ok p r db"
    using add n require_project_id[OF pr]
    by (auto simp: add_topic_def Let_def new_topic_ok_def normalize_title_Inr title_ok_def list_ex_iff image_iff
        split: if_splits)
qed

lemma create_task_effect:
  assumes "create_governance_task i p title description t d a ch ext url u now db = Inr (db', r)"
  shows "db' = db\<lparr>gv_tasks := gv_tasks db @ [r]\<rparr>" and "new_task_ok p r db"
    and "\<exists>pr. require_project p u db = Inr pr"
proof -
  from assms obtain n c e l pr where
    n: "normalize_title title = Inr n" and pr: "require_project p u db = Inr pr"
    and t: "\<And>x. t = Some x \<Longrightarrow> \<exists>r. topic_in_project x pr gov_msg_no_source_topic db = Inr r"
    and d: "\<And>x. d = Some x \<Longrightarrow> \<exists>y. get_decision x db = Some y \<and> gd_project_id y = pr_id pr"
    and add: "add_task i (pr_id pr) n description t d a c e l (us_uid u) now db = Inr (db', r)"
    by (auto simp: create_governance_task_def split: option.splits)
  show "\<exists>pr. require_project p u db = Inr pr" using pr by blast
  show "db' = db\<lparr>gv_tasks := gv_tasks db @ [r]\<rparr>"
    using add by (auto simp: add_task_def Let_def split: if_splits)
  have "topic_of t p db"
    using t require_project_id[OF pr] get_topic_in
    by (fastforce simp: topic_of_def topic_in_project_iff split: option.splits)
  moreover have "decision_of d p db"
    using d require_project_id[OF pr] find_Some_in
    by (fastforce simp: decision_of_def get_decision_def split: option.splits)
  ultimately show "new_task_ok p r db"
    using add n require_project_id[OF pr]
    by (auto simp: add_task_def Let_def new_task_ok_def normalize_title_Inr title_ok_def list_ex_iff image_iff
        split: if_splits)
qed


text \<open>A change of a row that is still under discussion.\<close>

definition topic_change :: "pystr \<Rightarrow> governance_topic \<Rightarrow> governance_topic \<Rightarrow> gov_db \<Rightarrow> bool" where
  "topic_change p r r' db \<longleftrightarrow> get_topic (gt_id r) db = Some r \<and> gt_project_id r = p \<and> gt_status r = Proposed
     \<and> topic_keeps r r' \<and> (topic_row_ok r \<longrightarrow> topic_row_ok r') \<and> (title_ok (gt_title r) \<longrightarrow> title_ok (gt_title r'))"

definition task_change :: "pystr \<Rightarrow> governance_task \<Rightarrow> governance_task \<Rightarrow> gov_db \<Rightarrow> bool" where
  "task_change p r r' db \<longleftrightarrow> get_gov_task (gk_id r) db = Some r \<and> gk_project_id r = p \<and> gk_status r = Proposed
     \<and> task_keeps r r' \<and> (task_gov_row_ok r \<longrightarrow> task_gov_row_ok r')"

lemma update_topic_effect:
  assumes "update_governance_topic p t title summary u clk db = Inr (db', r')"
  shows "\<exists>r. topic_change p r r' db \<and> gt_status r' = Proposed" and "db' = put_topic r' db"
    and "\<exists>pr. require_project p u db = Inr pr"
proof -
  from assms obtain pr r n s where pr: "require_project p u db = Inr pr"
    and r: "get_topic t db = Some r" "gt_project_id r = pr_id pr" "gt_status r = Proposed"
    and n: "normalize_title title = Inr n"
    and r': "r' = (if r\<lparr>gt_title := n, gt_summary := s\<rparr> = r then r
                   else r\<lparr>gt_title := n, gt_summary := s, gt_updated_at := clk\<rparr>)"
    and db': "db' = put_topic r' db"
    by (auto simp: update_governance_topic_def topic_in_project_iff Let_def simp del: governance_topic.update_convs)
  show "\<exists>pr. require_project p u db = Inr pr" using pr by blast
  show "db' = put_topic r' db" by (rule db')
  have "topic_change p r r' db"
    using r r' n get_topic_in[OF r(1)] require_project_id[OF pr]
    by (auto simp: topic_change_def topic_keeps_def topic_row_ok_def normalize_title_Inr title_ok_def)
  then show "\<exists>r. topic_change p r r' db \<and> gt_status r' = Proposed" using r(3) r' by auto
qed

lemma review_topic_effect:
  assumes "review_governance_topic p t approve note u now clk db = Inr (db', r')"
  shows "\<exists>r. topic_change p r r' db \<and> gt_id r = t" and "db' = put_topic r' db"
    and "\<exists>pr. require_project p u db = Inr pr"
    and "gt_status r' = (if approve then Canonical else Rejected)" "gt_review_owner_uid r' = Some (us_uid u)"
      "gt_reviewed_at r' = Some now" "gt_review_note r' = note"
proof -
  from assms obtain pr r where pr: "require_project p u db = Inr pr"
    and r: "get_topic t db = Some r" "gt_project_id r = pr_id pr" "gt_status r = Proposed"
    and r': "r' = r\<lparr>gt_status := (if approve then Canonical else Rejected),
             gt_review_owner_uid := Some (us_uid u), gt_reviewed_at := Some now,
             gt_review_note := note, gt_updated_at := clk\<rparr>"
    and db': "db' = put_topic r' db"
    by (auto simp: review_governance_topic_def topic_in_project_iff Let_def)
  have "topic_change p r r' db" "gt_id r = t"
    using r r' get_topic_in[OF r(1)] require_project_id[OF pr]
    by (auto simp: topic_change_def topic_keeps_def topic_row_ok_def review_shape_ok_def)
  then show "\<exists>r. topic_change p r r' db \<and> gt_id r = t" by blast
qed (use assms in \<open>auto simp: review_governance_topic_def Let_def\<close>)

lemma review_task_effect:
  assumes "review_governance_task p t approve note u now clk db = Inr (db', r')"
  shows "\<exists>r. task_change p r r' db \<and> gk_id r = t" and "db' = put_gov_task r' db"
    and "\<exists>pr. require_project p u db = Inr pr"
    and "gk_status r' = (if approve then Canonical else Rejected)" "gk_review_owner_uid r' = Some (us_uid u)"
      "gk_reviewed_at r' = Some now" "gk_review_note r' = note"
proof -
  from assms obtain pr r where pr: "require_project p u db = Inr pr"
    and r: "get_gov_task t db = Some r" "gk_project_id r = pr_id pr" "gk_status r = Proposed"
    and r': "r' = r\<lparr>gk_status := (if approve then Canonical else Rejected),
             gk_review_owner_uid := Some (us_uid u), gk_reviewed_at := Some now,
             gk_review_note := note, gk_updated_at := clk\<rparr>"
    and db': "db' = put_gov_task r' db"
    by (auto simp: review_governance_task_def Let_def split: option.splits if_splits)
  have "task_change p r r' db" "gk_id r = t"
    using r r' get_gov_task_in[OF r(1)] require_project_id[OF pr]
    by (auto simp: task_change_def task_keeps_def task_gov_row_ok_def review_shape_ok_def)
  then show "\<exists>r. task_change p r r' db \<and> gk_id r = t" by blast
  show "db' = put_gov_task r' db" "\<exists>pr. require_project p u db = Inr pr" using db' pr by blast+
qed (use assms in \<open>auto simp: review_governance_task_def Let_def split: option.splits if_splits\<close>)

lemma comment_effect:
  assumes "create_governance_topic_comment i p t content u now db = Inr (db', c)"
  shows "db' = db\<lparr>gv_comments := gv_comments db @ [c]\<rparr>"
    and "gc_id c \<notin> gc_id ` set (gv_comments db)" and "gc_content c \<noteq> []"
    and "\<exists>r\<in>set (gv_topics db). gt_id r = gc_topic_id c \<and> gt_project_id r = p \<and> gt_status r = Proposed"
    and "\<exists>pr. require_project p u db = Inr pr"
  using assms get_topic_in[of t db] require_project_id[of p u db]
  by (auto simp: create_governance_topic_comment_def topic_in_project_iff add_topic_comment_def Let_def
      normalize_topic_text_def or_empty_def split: if_splits option.splits)

lemma decision_effect:
  assumes "create_governance_decision i p title conclusion rationale t decided u now db = Inr (db', d)"
  shows "db' = db\<lparr>gv_decisions := gv_decisions db @ [d]\<rparr>"
    and "gd_id d \<notin> gd_id ` set (gv_decisions db)"
    and "gd_project_id d = p" and "topic_of (gd_topic_id d) p db"
    and "decision_shape_ok (gd_status d) (gd_decided_by d) (gd_decided_at d)"
    and "title_ok (gd_title d)" and "gd_conclusion d \<noteq> []"
    and "\<exists>pr. require_project p u db = Inr pr"
proof -
  from assms obtain n pr where
    n: "normalize_title title = Inr n" and c: "py_strip (or_empty conclusion) \<noteq> []"
    and pr: "require_project p u db = Inr pr"
    and t: "\<And>x. t = Some x \<Longrightarrow> \<exists>r. topic_in_project x pr gov_msg_no_source_topic db = Inr r"
    and add: "add_decision i (pr_id pr) n (py_strip (or_empty conclusion)) rationale t decided (us_uid u) now db
      = Inr (db', d)"
    by (auto simp: create_governance_decision_def split: option.splits)
  show "\<exists>pr. require_project p u db = Inr pr" using pr by blast
  have "topic_of t p db"
    using t require_project_id[OF pr] get_topic_in
    by (fastforce simp: topic_of_def topic_in_project_iff split: option.splits)
  then show "topic_of (gd_topic_id d) p db" using add by (auto simp: add_decision_def Let_def split: if_splits)
  show "db' = db\<lparr>gv_decisions := gv_decisions db @ [d]\<rparr>" "gd_id d \<notin> gd_id ` set (gv_decisions db)"
    "decision_shape_ok (gd_status d) (gd_decided_by d) (gd_decided_at d)"
    using add by (auto simp: add_decision_def Let_def split: if_splits)
  show "gd_project_id d = p" "title_ok (gd_title d)" "gd_conclusion d \<noteq> []"
    using add n c require_project_id[OF pr]
    by (auto simp: add_decision_def Let_def normalize_title_Inr title_ok_def split: if_splits)
qed

lemma report_effect:
  assumes "create_governance_report i p title summary content run artifact u now db = Inr (db', x)"
  shows "db' = db\<lparr>gv_reports := gv_reports db @ [x]\<rparr>"
    and "gr_id x \<notin> gr_id ` set (gv_reports db)" and "gr_project_id x = p" and "title_ok (gr_title x)"
    and "\<exists>pr. require_project p u db = Inr pr"
  using assms require_project_id[of p u db]
  by (auto simp: create_governance_report_def add_report_def Let_def normalize_title_Inr title_ok_def
      split: if_splits option.splits)

lemma gov_step_cases:
  assumes "gov_step u p db db'"
  obtains (topic) r where "db' = db\<lparr>gv_topics := gv_topics db @ [r]\<rparr>" "new_topic_ok p r db"
  | (retopic) r r' where "db' = put_topic r' db" "topic_change p r r' db"
  | (comment) c where "db' = db\<lparr>gv_comments := gv_comments db @ [c]\<rparr>"
      "gc_id c \<notin> gc_id ` set (gv_comments db)" "gc_content c \<noteq> []"
      "\<exists>r\<in>set (gv_topics db). gt_id r = gc_topic_id c \<and> gt_project_id r = p \<and> gt_status r = Proposed"
  | (task) k where "db' = db\<lparr>gv_tasks := gv_tasks db @ [k]\<rparr>" "new_task_ok p k db"
  | (retask) k k' where "db' = put_gov_task k' db" "task_change p k k' db"
  | (decision) d where "db' = db\<lparr>gv_decisions := gv_decisions db @ [d]\<rparr>"
      "gd_id d \<notin> gd_id ` set (gv_decisions db)" "gd_project_id d = p" "topic_of (gd_topic_id d) p db"
      "decision_shape_ok (gd_status d) (gd_decided_by d) (gd_decided_at d)" "title_ok (gd_title d)"
      "gd_conclusion d \<noteq> []"
  | (report) x where "db' = db\<lparr>gv_reports := gv_reports db @ [x]\<rparr>"
      "gr_id x \<notin> gr_id ` set (gv_reports db)" "gr_project_id x = p" "title_ok (gr_title x)"
  using assms
proof cases
  case create_topic
  then show thesis using topic create_topic_effect by metis
next
  case update_topic
  then show thesis using retopic update_topic_effect by metis
next
  case comment
  then show thesis using that(3) comment_effect by metis
next
  case review_topic
  then show thesis using retopic review_topic_effect(1,2) by metis
next
  case create_task
  then show thesis using task create_task_effect by metis
next
  case review_task
  then show thesis using retask review_task_effect(1,2) by metis
next
  case decide
  then show thesis using decision decision_effect by metis
next
  case report
  then show thesis using that(7) report_effect by metis
qed

lemma gov_step_project: "gov_step u p db db' \<Longrightarrow> \<exists>pr. require_project p u db = Inr pr"
  by (induction rule: gov_step.induct)
    (blast intro: create_topic_effect update_topic_effect comment_effect review_topic_effect create_task_effect
      review_task_effect decision_effect report_effect)+


section \<open>Preservation\<close>

lemma topic_change_row:
  assumes "topic_change p r r' db" and "topics_inv (gv_topics db)" and "x \<in> set (gv_topics db)"
    and "gt_id x = gt_id r'"
  shows "x = r"
proof -
  have inj: "inj_on gt_id (set (gv_topics db))" using assms(2) by (simp add: topics_inv_def distinct_map)
  have r: "get_topic (gt_id r) db = Some r" "gt_id r' = gt_id r"
    using assms(1) unfolding topic_change_def topic_keeps_def by blast+
  show ?thesis by (rule inj_onD[OF inj _ assms(3)]) (use r(2) assms(4) get_topic_in[OF r(1)] in auto)
qed

lemma task_change_row:
  assumes "task_change p r r' db" and "gov_tasks_inv (gv_tasks db)" and "x \<in> set (gv_tasks db)"
    and "gk_id x = gk_id r'"
  shows "x = r"
proof -
  have inj: "inj_on gk_id (set (gv_tasks db))" using assms(2) by (simp add: gov_tasks_inv_def distinct_map)
  have r: "get_gov_task (gk_id r) db = Some r" "gk_id r' = gk_id r"
    using assms(1) unfolding task_change_def task_keeps_def by blast+
  show ?thesis by (rule inj_onD[OF inj _ assms(3)]) (use r(2) assms(4) get_gov_task_in[OF r(1)] in auto)
qed

lemma topics_inv_put:
  assumes c: "topic_change p r r' db" and i: "topics_inv (gv_topics db)"
  shows "topics_inv (gv_topics (put_topic r' db))"
proof -
  let ?f = "\<lambda>x. if gt_id x = gt_id r' then r' else x"
  have keep: "topic_source_key (?f x) = topic_source_key x"
    if "x \<in> set (gv_topics db)" for x
    using topic_change_row[OF c i that] c by (auto simp: topic_change_def topic_keeps_def topic_source_key_def)
  have "distinct (map gt_id (map ?f (gv_topics db)))"
    using i by (simp add: topics_inv_def comp_def if_distrib cong: if_cong)
  moreover have "distinct (map topic_source_key (filter (\<lambda>r. gt_source_external_id r \<noteq> None) (map ?f (gv_topics db))))"
    by (rule partial_key_shrink)
      (use i keep in \<open>auto simp: topics_inv_def topic_source_key_def split: if_splits\<close>)
  moreover have "topic_row_ok x \<and> title_ok (gt_title x)" if "x \<in> set (map ?f (gv_topics db))" for x
    using that i c get_topic_in[of "gt_id r" db] by (auto simp: topics_inv_def topic_change_def)
  ultimately show ?thesis by (simp add: topics_inv_def put_topic_def update_where_def)
qed

lemma tasks_inv_put:
  assumes c: "task_change p r r' db" and i: "gov_tasks_inv (gv_tasks db)"
  shows "gov_tasks_inv (gv_tasks (put_gov_task r' db))"
proof -
  let ?f = "\<lambda>x. if gk_id x = gk_id r' then r' else x"
  have keep: "task_source_key (?f x) = task_source_key x"
    if "x \<in> set (gv_tasks db)" for x
    using task_change_row[OF c i that] c by (auto simp: task_change_def task_keeps_def task_source_key_def)
  have "distinct (map gk_id (map ?f (gv_tasks db)))"
    using i by (simp add: gov_tasks_inv_def comp_def if_distrib cong: if_cong)
  moreover have "distinct (map task_source_key (filter (\<lambda>r. gk_source_external_id r \<noteq> None) (map ?f (gv_tasks db))))"
    by (rule partial_key_shrink)
      (use i keep in \<open>auto simp: gov_tasks_inv_def task_source_key_def split: if_splits\<close>)
  moreover have "task_gov_row_ok x \<and> title_ok (gk_title x)" if "x \<in> set (map ?f (gv_tasks db))" for x
    using that i c get_gov_task_in[of "gk_id r" db] by (auto simp: gov_tasks_inv_def task_change_def task_keeps_def)
  ultimately show ?thesis by (simp add: gov_tasks_inv_def put_gov_task_def update_where_def)
qed

lemma topics_evolve_put:
  assumes "topic_change p r r' db" and "topics_inv (gv_topics db)"
  shows "evolves topic_keeps (gv_topics db) (gv_topics (put_topic r' db))"
  using assms topic_change_row[OF assms]
  by (auto simp: put_topic_def topic_change_def intro!: evolves_update_where)

lemma tasks_evolve_put:
  assumes "task_change p r r' db" and "gov_tasks_inv (gv_tasks db)"
  shows "evolves task_keeps (gv_tasks db) (gv_tasks (put_gov_task r' db))"
  using assms task_change_row[OF assms]
  by (auto simp: put_gov_task_def task_change_def intro!: evolves_update_where)

lemma put_frames [simp]:
  "gv_comments (put_topic r db) = gv_comments db" "gv_decisions (put_topic r db) = gv_decisions db"
  "gv_tasks (put_topic r db) = gv_tasks db" "gv_reports (put_topic r db) = gv_reports db"
  "gv_topics (put_gov_task k db) = gv_topics db" "gv_comments (put_gov_task k db) = gv_comments db"
  "gv_decisions (put_gov_task k db) = gv_decisions db" "gv_reports (put_gov_task k db) = gv_reports db"
  by (simp_all add: put_topic_def put_gov_task_def)

lemma gov_step_rel:
  assumes "gov_inv db" and "gov_step u p db db'"
  shows "gov_rel db db'"
  using assms(2)
proof (cases rule: gov_step_cases)
  case (retopic r r')
  then show ?thesis using assms(1) topics_evolve_put by (simp add: gov_rel_def gov_inv_def evolves_refl)
next
  case (retask k k')
  then show ?thesis using assms(1) tasks_evolve_put by (simp add: gov_rel_def gov_inv_def evolves_refl)
qed (simp_all add: gov_rel_def evolves_refl evolves_append)

text \<open>References survive because referenced rows are never lost.\<close>

lemma topic_of_evolves:
  assumes "topic_of t p db" and "evolves topic_keeps (gv_topics db) (gv_topics db')"
  shows "topic_of t p db'"
proof (cases t)
  case (Some i)
  then obtain r where r: "r \<in> set (gv_topics db)" "gt_id r = i" "gt_project_id r = p"
    using assms(1) by (auto simp: topic_of_def)
  obtain r' where "r' \<in> set (gv_topics db')" "topic_keeps r r'" by (rule evolves_in[OF assms(2) r(1)])
  then show ?thesis using r(2,3) Some by (auto simp: topic_of_def topic_keeps_def)
qed (simp add: topic_of_def)

lemma decision_of_evolves:
  assumes "decision_of d p db" and "evolves (=) (gv_decisions db) (gv_decisions db')"
  shows "decision_of d p db'"
proof (cases d)
  case (Some i)
  then obtain r where r: "r \<in> set (gv_decisions db)" "gd_id r = i" "gd_project_id r = p"
    using assms(1) by (auto simp: decision_of_def)
  obtain r' where "r' \<in> set (gv_decisions db')" "r = r'" by (rule evolves_in[OF assms(2) r(1)])
  then show ?thesis using r(2,3) Some by (auto simp: decision_of_def)
qed (simp add: decision_of_def)

lemma comment_topic_evolves:
  assumes "i \<in> gt_id ` set (gv_topics db)" and "evolves topic_keeps (gv_topics db) (gv_topics db')"
  shows "i \<in> gt_id ` set (gv_topics db')"
proof -
  obtain r where r: "r \<in> set (gv_topics db)" "gt_id r = i" using assms(1) by blast
  obtain r' where "r' \<in> set (gv_topics db')" "topic_keeps r r'" by (rule evolves_in[OF assms(2) r(1)])
  then show ?thesis using r(2) by (auto simp: topic_keeps_def intro: rev_image_eqI)
qed

lemma refs_inv_step:
  assumes "gov_inv db" and "gov_step u p db db'"
  shows "refs_inv db'"
proof -
  have rel: "evolves topic_keeps (gv_topics db) (gv_topics db')" "evolves (=) (gv_decisions db) (gv_decisions db')"
    using gov_step_rel[OF assms] by (simp_all add: gov_rel_def)
  note keep = topic_of_evolves[OF _ rel(1)] decision_of_evolves[OF _ rel(2)] comment_topic_evolves[OF _ rel(1)]
  have old: "refs_inv db" using assms(1) by (simp add: gov_inv_def)
  from assms(2) show ?thesis
  proof (cases rule: gov_step_cases)
    case (comment c)
    then have "gc_topic_id c \<in> gt_id ` set (gv_topics db)" by force
    then show ?thesis using comment(1) old keep by (auto simp: refs_inv_def)
  next
    case (task k)
    then show ?thesis using old keep by (auto simp: refs_inv_def new_task_ok_def)
  next
    case (retask k k')
    then have "k \<in> set (gv_tasks db)" using get_gov_task_in by (auto simp: task_change_def)
    then show ?thesis using retask old keep
      by (auto simp: refs_inv_def task_change_def task_keeps_def put_gov_task_def elim!: in_update_whereE)
  qed (use old keep in \<open>auto simp: refs_inv_def\<close>)
qed

lemma gov_inv_step:
  assumes "gov_inv db" and "gov_step u p db db'"
  shows "gov_inv db'"
proof -
  have "refs_inv db'" by (rule refs_inv_step[OF assms])
  moreover from assms(2) have "topics_inv (gv_topics db') \<and> gov_tasks_inv (gv_tasks db')"
  proof (cases rule: gov_step_cases)
    case (retopic r r')
    then show ?thesis using assms(1) topics_inv_put by (simp add: gov_inv_def)
  next
    case (retask k k')
    then show ?thesis using assms(1) tasks_inv_put by (simp add: gov_inv_def)
  qed (use assms(1) in \<open>auto simp: gov_inv_def topics_inv_def gov_tasks_inv_def new_topic_ok_def new_task_ok_def\<close>)
  moreover note assms(1)
  ultimately show ?thesis
    by (cases rule: gov_step_cases[OF assms(2)]) (auto simp: gov_inv_def)
qed

lemma ref_frames:
  "topic_of t p (db\<lparr>gv_projects := ps, gv_project_agents := as, gv_run_ids := rs\<rparr>) = topic_of t p db"
  "decision_of d p (db\<lparr>gv_projects := ps, gv_project_agents := as, gv_run_ids := rs\<rparr>) = decision_of d p db"
  by (cases t; cases d; simp add: topic_of_def decision_of_def)+

lemma gov_move_rel: "gov_inv db \<Longrightarrow> gov_move db db' \<Longrightarrow> gov_rel db db'"
proof (erule gov_move.cases, goal_cases)
  case 1
  then show ?case using gov_step_rel by simp
qed (simp add: gov_rel_def evolves_refl)

lemma gov_move_inv: "gov_inv db \<Longrightarrow> gov_move db db' \<Longrightarrow> gov_inv db'"
proof (erule gov_move.cases, goal_cases)
  case 1
  then show ?case using gov_inv_step by simp
qed (simp add: gov_inv_def refs_inv_def ref_frames)

interpretation governance: step_system gov_start gov_move gov_inv gov_rel
proof
  show "gov_start db \<Longrightarrow> gov_inv db" for db
    by (simp add: gov_start_def gov_inv_def topics_inv_def gov_tasks_inv_def refs_inv_def)
qed (blast intro: gov_move_inv gov_move_rel gov_rel_refl gov_rel_trans)+

end
