(* ===== verification/Governance_Review.thy ===== *)
theory Governance_Review
  imports Governance_Invariant
begin

text \<open>
  Reviewing and isolation.

  The locale \<open>review_desk\<close> is the contract of a table whose rows are reviewed: a review succeeds only
  on a row under discussion and closes it, and a closed row refuses every later review. Its lemma
  on a sequence of competing reviews is shared by topics and tasks. The rest of the theory shows
  what a step leaves alone outside its project and how a row becomes canonical.
\<close>

section \<open>Competing reviews\<close>

fun review_all :: "('q \<Rightarrow> 's \<Rightarrow> 'e + 's \<times> 'r) \<Rightarrow> 'q list \<Rightarrow> 's \<Rightarrow> 'r list \<times> 's" where
  "review_all review [] s = ([], s)"
| "review_all review (q # qs) s =
     (case review q s of
        Inl e \<Rightarrow> review_all review qs s
      | Inr (s', r) \<Rightarrow> (case review_all review qs s' of (rs, u) \<Rightarrow> (r # rs, u)))"

locale review_desk =
  fixes find_row :: "'k \<Rightarrow> 's \<Rightarrow> 'r option"
    and under_discussion :: "'r \<Rightarrow> bool"
    and review :: "'k \<Rightarrow> 'q \<Rightarrow> 's \<Rightarrow> 'e + 's \<times> 'r"
  assumes review_closes: "review k q s = Inr (s', r) \<Longrightarrow> find_row k s' = Some r \<and> \<not> under_discussion r"
    and closed_refuses: "find_row k s = Some r \<Longrightarrow> \<not> under_discussion r \<Longrightarrow> \<exists>e. review k q s = Inl e"
begin

lemma closed_stays:
  assumes "find_row k s = Some r" and "\<not> under_discussion r"
  shows "review_all (review k) qs s = ([], s)"
proof (induction qs)
  case (Cons q qs)
  obtain e where "review k q s = Inl e" using closed_refuses[OF assms] by blast
  then show ?case using Cons by simp
qed simp

lemma first_review_wins:
  "review_all (review k) qs s = ([], s)
   \<or> (\<exists>q\<in>set qs. \<exists>s' r. review k q s = Inr (s', r) \<and> review_all (review k) qs s = ([r], s') \<and> find_row k s' = Some r)"
proof (induction qs)
  case (Cons q qs)
  show ?case
  proof (cases "review k q s")
    case (Inr p)
    obtain s' r where p: "p = (s', r)" by force
    have c: "find_row k s' = Some r" "\<not> under_discussion r" using review_closes Inr p by auto
    have "review_all (review k) (q # qs) s = ([r], s')" using Inr p closed_stays[OF c] by simp
    then show ?thesis using Inr p c(1) by auto
  qed (use Cons in auto)
qed simp

end

text \<open>A review request: project, verdict, note, reviewer, clock readings.\<close>

type_synonym review_request = "pystr \<times> bool \<times> pystr option \<times> gov_user \<times> time \<times> time"

fun topic_review :: "pystr \<Rightarrow> review_request \<Rightarrow> gov_db \<Rightarrow> gov_error + gov_db \<times> governance_topic" where
  "topic_review i (p, approve, note, u, now, clk) db = review_governance_topic p i approve note u now clk db"

fun task_review :: "pystr \<Rightarrow> review_request \<Rightarrow> gov_db \<Rightarrow> gov_error + gov_db \<times> governance_task" where
  "task_review i (p, approve, note, u, now, clk) db = review_governance_task p i approve note u now clk db"

lemma find_put: "x \<in> set xs \<Longrightarrow> k x = k r \<Longrightarrow> find (\<lambda>y. k y = k r) (update_where (\<lambda>y. k y = k r) (\<lambda>_. r) xs) = Some r"
  by (induction xs) auto

lemma topic_change_found:
  assumes "topic_change p r r' db"
  shows "get_topic (gt_id r) (put_topic r' db) = Some r'"
proof -
  have r: "get_topic (gt_id r) db = Some r" "gt_id r' = gt_id r"
    using assms unfolding topic_change_def topic_keeps_def by blast+
  show ?thesis
    using find_put[of r "gv_topics db" gt_id r'] get_topic_in[OF r(1)] r(2)
    by (simp add: get_topic_def put_topic_def)
qed

lemma task_change_found:
  assumes "task_change p r r' db"
  shows "get_gov_task (gk_id r) (put_gov_task r' db) = Some r'"
proof -
  have r: "get_gov_task (gk_id r) db = Some r" "gk_id r' = gk_id r"
    using assms unfolding task_change_def task_keeps_def by blast+
  show ?thesis
    using find_put[of r "gv_tasks db" gk_id r'] get_gov_task_in[OF r(1)] r(2)
    by (simp add: get_gov_task_def put_gov_task_def)
qed

interpretation topic_desk: review_desk get_topic "\<lambda>r. gt_status r = Proposed" topic_review
proof
  fix k :: pystr and q :: review_request and s s' r
  obtain p a n u t c where q: "q = (p, a, n, u, t, c)" by (cases q) auto
  { assume "topic_review k q s = Inr (s', r)"
    then have e: "review_governance_topic p k a n u t c s = Inr (s', r)" by (simp add: q)
    show "get_topic k s' = Some r \<and> gt_status r \<noteq> Proposed"
      using review_topic_effect(1,2,4)[OF e] topic_change_found by auto }
  { assume "get_topic k s = Some r" and "gt_status r \<noteq> Proposed"
    then show "\<exists>e. topic_review k q s = Inl e"
      by (cases "require_project p u s")
        (auto simp: q review_governance_topic_def topic_in_project_def require_def) }
qed

interpretation task_desk: review_desk get_gov_task "\<lambda>r. gk_status r = Proposed" task_review
proof
  fix k :: pystr and q :: review_request and s s' r
  obtain p a n u t c where q: "q = (p, a, n, u, t, c)" by (cases q) auto
  { assume "task_review k q s = Inr (s', r)"
    then have e: "review_governance_task p k a n u t c s = Inr (s', r)" by (simp add: q)
    show "get_gov_task k s' = Some r \<and> gk_status r \<noteq> Proposed"
      using review_task_effect(1,2,4)[OF e] task_change_found by auto }
  { assume "get_gov_task k s = Some r" and "gk_status r \<noteq> Proposed"
    then show "\<exists>e. task_review k q s = Inl e"
      by (cases "require_project p u s") (auto simp: q review_governance_task_def) }
qed

section \<open>How a row becomes canonical\<close>

lemma put_topic_in: "x \<in> set (gv_topics (put_topic r db)) \<Longrightarrow> x = r \<or> x \<in> set (gv_topics db)"
  by (auto simp: put_topic_def elim: in_update_whereE)

lemma put_task_in: "x \<in> set (gv_tasks (put_gov_task r db)) \<Longrightarrow> x = r \<or> x \<in> set (gv_tasks db)"
  by (auto simp: put_gov_task_def elim: in_update_whereE)

lemma topic_becomes_canonical:
  assumes "gov_step u p db db'" and "x \<in> set (gv_topics db')" and "x \<notin> set (gv_topics db)" and "gt_status x = Canonical"
  shows "\<exists>note now clk. review_governance_topic p (gt_id x) True note u now clk db = Inr (db', x)"
  using assms(1)
proof cases
  case (create_topic new_id title summary ch ext url now r)
  then show ?thesis using create_topic_effect(1,2)[OF create_topic] assms(2-4) by (auto simp: new_topic_ok_def)
next
  case (update_topic t title summary clk r)
  then show ?thesis using update_topic_effect(1,2)[OF update_topic] put_topic_in[of x r db] assms(2-4) by auto
next
  case (review_topic t approve nt now clk r)
  have "x = r" using review_topic_effect(2)[OF review_topic] put_topic_in[of x r db] assms(2,3) by auto
  moreover have "approve" using review_topic_effect(4)[OF review_topic] assms(4) \<open>x = r\<close> by (auto split: if_splits)
  moreover have "gt_id r = t"
    using review_topic_effect(1)[OF review_topic] by (auto simp: topic_change_def topic_keeps_def)
  ultimately show ?thesis using review_topic by auto
next
  case create_task
  then show ?thesis using create_task_effect(1)[OF create_task] assms(2,3) by simp
next
  case review_task
  then show ?thesis using review_task_effect(2)[OF review_task] assms(2,3) by simp
next
  case comment
  then show ?thesis using comment_effect(1)[OF comment] assms(2,3) by simp
next
  case decide
  then show ?thesis using decision_effect(1)[OF decide] assms(2,3) by simp
next
  case report
  then show ?thesis using report_effect(1)[OF report] assms(2,3) by simp
qed

lemma task_becomes_canonical:
  assumes "gov_step u p db db'" and "x \<in> set (gv_tasks db')" and "x \<notin> set (gv_tasks db)" and "gk_status x = Canonical"
  shows "\<exists>note now clk. review_governance_task p (gk_id x) True note u now clk db = Inr (db', x)"
  using assms(1)
proof cases
  case (create_task new_id title description t d a ch ext url now r)
  then show ?thesis using create_task_effect(1,2)[OF create_task] assms(2-4) by (auto simp: new_task_ok_def)
next
  case (review_task t approve nt now clk r)
  have "x = r" using review_task_effect(2)[OF review_task] put_task_in[of x r db] assms(2,3) by auto
  moreover have "approve" using review_task_effect(4)[OF review_task] assms(4) \<open>x = r\<close> by (auto split: if_splits)
  moreover have "gk_id r = t"
    using review_task_effect(1)[OF review_task] by (auto simp: task_change_def task_keeps_def)
  ultimately show ?thesis using review_task by auto
next
  case create_topic
  then show ?thesis using create_topic_effect(1)[OF create_topic] assms(2,3) by simp
next
  case update_topic
  then show ?thesis using update_topic_effect(2)[OF update_topic] assms(2,3) by simp
next
  case review_topic
  then show ?thesis using review_topic_effect(2)[OF review_topic] assms(2,3) by simp
next
  case comment
  then show ?thesis using comment_effect(1)[OF comment] assms(2,3) by simp
next
  case decide
  then show ?thesis using decision_effect(1)[OF decide] assms(2,3) by simp
next
  case report
  then show ?thesis using report_effect(1)[OF report] assms(2,3) by simp
qed

section \<open>Isolation of projects\<close>

lemma filter_update_other:
  "(\<And>x. x \<in> set xs \<Longrightarrow> P x \<Longrightarrow> \<not> Q x \<and> \<not> Q (f x)) \<Longrightarrow> filter Q (update_where P f xs) = filter Q xs"
  by (induction xs) auto

lemma topics_outside:
  assumes "gov_inv db" and "topic_change p r r' db"
  shows "filter (\<lambda>x. gt_project_id x \<noteq> p) (gv_topics (put_topic r' db)) = filter (\<lambda>x. gt_project_id x \<noteq> p) (gv_topics db)"
proof -
  have i: "topics_inv (gv_topics db)" using assms(1) by (simp add: gov_inv_def)
  have "gt_project_id r = p" "gt_project_id r' = p" using assms(2) by (simp_all add: topic_change_def topic_keeps_def)
  then show ?thesis
    using topic_change_row[OF assms(2) i] by (auto simp: put_topic_def intro!: filter_update_other)
qed

lemma tasks_outside:
  assumes "gov_inv db" and "task_change p r r' db"
  shows "filter (\<lambda>x. gk_project_id x \<noteq> p) (gv_tasks (put_gov_task r' db)) = filter (\<lambda>x. gk_project_id x \<noteq> p) (gv_tasks db)"
proof -
  have i: "gov_tasks_inv (gv_tasks db)" using assms(1) by (simp add: gov_inv_def)
  have "gk_project_id r = p" "gk_project_id r' = p" using assms(2) by (simp_all add: task_change_def task_keeps_def)
  then show ?thesis
    using task_change_row[OF assms(2) i] by (auto simp: put_gov_task_def intro!: filter_update_other)
qed

text \<open>The comments on topics of other projects.\<close>

definition comments_outside :: "pystr \<Rightarrow> gov_db \<Rightarrow> governance_topic_comment list" where
  "comments_outside p db =
     filter (\<lambda>c. \<exists>r\<in>set (gv_topics db). gt_id r = gc_topic_id c \<and> gt_project_id r \<noteq> p) (gv_comments db)"

lemma comments_outside_step:
  assumes "gov_inv db" and "gov_step u p db db'"
  shows "comments_outside p db' = comments_outside p db"
proof -
  have outside: "{r \<in> set (gv_topics db'). gt_project_id r \<noteq> p} = {r \<in> set (gv_topics db). gt_project_id r \<noteq> p}"
    using assms(2)
  proof (cases rule: gov_step_cases)
    case (retopic r r')
    have "set (filter (\<lambda>x. gt_project_id x \<noteq> p) (gv_topics db')) = set (filter (\<lambda>x. gt_project_id x \<noteq> p) (gv_topics db))"
      using topics_outside[OF assms(1) retopic(2)] retopic(1) by simp
    then show ?thesis by simp
  qed (auto simp: new_topic_ok_def)
  then have same: "(\<exists>r\<in>set (gv_topics db'). gt_id r = i \<and> gt_project_id r \<noteq> p)
      \<longleftrightarrow> (\<exists>r\<in>set (gv_topics db). gt_id r = i \<and> gt_project_id r \<noteq> p)" for i by blast
  from assms(2) show ?thesis
  proof (cases rule: gov_step_cases)
    case (comment c)
    from comment(4) obtain t where t: "t \<in> set (gv_topics db)" "gt_id t = gc_topic_id c" "gt_project_id t = p" by blast
    have inj: "inj_on gt_id (set (gv_topics db))"
      using assms(1) by (simp add: gov_inv_def topics_inv_def distinct_map)
    have "\<not> (\<exists>r\<in>set (gv_topics db). gt_id r = gc_topic_id c \<and> gt_project_id r \<noteq> p)"
      using inj_onD[OF inj, of t] t by metis
    then show ?thesis using same comment(1) by (simp add: comments_outside_def)
  qed (unfold comments_outside_def same, simp_all)
qed

end
