(* ===== verification/Governance_Properties.thy ===== *)
theory Governance_Properties
  imports Governance_Review "HOL-Library.Multiset"
begin

text \<open>
  The properties of project governance, with witnesses on a database with the project \<open>[201]\<close> of the
  user \<open>[202]\<close>, the project \<open>[301]\<close> of someone else, and the topic \<open>[210]\<close> imported from GitHub
  under the external id \<open>[55]\<close>.
\<close>

section \<open>A small database\<close>

definition demo_project :: "pystr \<Rightarrow> pystr \<Rightarrow> project" where
  "demo_project i uid = \<lparr>pr_id = i, pr_uid = uid, pr_name = Some [80], pr_selection_status = Selectable,
     pr_workdir_path = [47], pr_directory_mode = lit ''managed'', pr_status = Project_active, pr_deleted_at = None,
     pr_idempotency_key = None, pr_created_at = 1, pr_updated_at = 1\<rparr>"

definition demo_user :: gov_user where
  "demo_user = \<lparr>us_uid = [202], us_username = [85]\<rparr>"

definition demo_topic :: governance_topic where
  "demo_topic = \<lparr>gt_id = [210], gt_project_id = [201], gt_title = [84], gt_summary = None, gt_status = Proposed,
     gt_source_channel = lit ''github'', gt_source_external_id = Some [55], gt_source_url = None,
     gt_created_by = Some [202], gt_review_owner_uid = None, gt_reviewed_at = None, gt_review_note = None,
     gt_created_at = 10, gt_updated_at = 10\<rparr>"

definition demo_canonical :: governance_topic where
  "demo_canonical = demo_topic\<lparr>gt_status := Canonical, gt_review_owner_uid := Some [202],
     gt_reviewed_at := Some 20, gt_updated_at := 20\<rparr>"

definition demo_gov :: "governance_topic list \<Rightarrow> gov_db" where
  "demo_gov ts = \<lparr>gv_projects = [demo_project [201] [202], demo_project [301] [302]], gv_project_agents = [],
     gv_run_ids = [], gv_topics = ts, gv_comments = [], gv_decisions = [], gv_tasks = [], gv_reports = []\<rparr>"

lemma demo_simps [simp]:
  "gv_topics (demo_gov ts) = ts" "(demo_gov ts)\<lparr>gv_topics := us\<rparr> = demo_gov us"
  "gv_comments (demo_gov ts) = []" "gv_tasks (demo_gov ts) = []" "gv_decisions (demo_gov ts) = []"
  "gv_reports (demo_gov ts) = []"
  "us_uid demo_user = [202]" "pr_id (demo_project i uid) = i"
  by (simp_all add: demo_gov_def demo_user_def demo_project_def)

lemma demo_require [simp]: "require_project [201] demo_user (demo_gov ts) = Inr (demo_project [201] [202])"
  by (simp add: require_project_def get_active_selectable_for_user_def demo_gov_def demo_project_def demo_user_def)

lemma demo_create:
  "create_governance_topic [210] [201] (Some [84]) None (Some (lit ''github'')) (Some [55]) None demo_user 10
     (demo_gov []) = Inr (demo_gov [demo_topic], demo_topic)"
  by (simp add: create_governance_topic_def normalize_title_def or_empty_def py_strip_def is_space_def
      normalize_governance_source_def strip_if_def governance_source_channels_def lit_def Let_def
      find_topic_by_source_def normalize_topic_text_def add_topic_def fits_def topic_row_ok_def
      source_shape_ok_def review_shape_ok_def demo_topic_def or_none_def)

lemma demo_review:
  "review_governance_topic [201] [210] True None demo_user 20 20 (demo_gov [demo_topic])
   = Inr (demo_gov [demo_canonical], demo_canonical)"
  by (simp add: review_governance_topic_def topic_in_project_def get_topic_def Let_def put_topic_def
      demo_canonical_def demo_topic_def)

lemma demo_steps:
  "gov_step demo_user [201] (demo_gov []) (demo_gov [demo_topic])"
  "gov_step demo_user [201] (demo_gov [demo_topic]) (demo_gov [demo_canonical])"
  by (rule gov_step.create_topic[OF demo_create], rule gov_step.review_topic[OF demo_review])

lemma demo_gov_start [simp]: "gov_start (demo_gov [])"
  by (simp add: gov_start_def demo_gov_def)

lemma demo_gov_inv [simp]: "gov_inv (demo_gov [demo_topic])"
  by (rule governance.reachable_inv[OF demo_gov_start])
    (use gov_move.act[OF demo_steps(1)] in simp)

section \<open>Invariant and history\<close>

text \<open>
  C9: in every reachable database the ids of each governance table are unique; an external
  source is imported at most once per project; a topic or task carries a reviewer and a review time exactly when
  it has been reviewed; source, title and decision columns satisfy their constraints; comments
  belong to an existing topic, and the topic and decision a task or decision refers to exist in
  the same project.
\<close>

theorem governance_invariant:
  assumes "gov_start db" and "gov_move\<^sup>*\<^sup>* db db'"
  shows "gov_inv db'"
  by (rule governance.reachable_inv[OF assms])

theorem governance_invariant_witness: "gov_inv (demo_gov [demo_canonical])"
proof (rule governance_invariant)
  show "gov_move\<^sup>*\<^sup>* (demo_gov []) (demo_gov [demo_canonical])"
    using gov_move.act[OF demo_steps(1)] gov_move.act[OF demo_steps(2)] by simp
qed simp

text \<open>
  the record of governance is append-only under the use cases. Over any number of steps no row disappears or
  moves; comments, decisions and reports never change; a topic or task keeps its identity, project, source
  and author, and once reviewed it never changes again.
\<close>

theorem governance_history:
  assumes "gov_inv db" and "gov_move\<^sup>*\<^sup>* db db'"
  shows "evolves topic_keeps (gv_topics db) (gv_topics db') \<and> evolves task_keeps (gv_tasks db) (gv_tasks db')
    \<and> evolves (=) (gv_comments db) (gv_comments db') \<and> evolves (=) (gv_decisions db) (gv_decisions db')
    \<and> evolves (=) (gv_reports db) (gv_reports db')"
  using governance.steps_rel[OF assms(2,1)] by (simp add: gov_rel_def)

theorem governance_history_witness:
  "evolves topic_keeps (gv_topics (demo_gov [demo_topic])) (gv_topics (demo_gov [demo_canonical]))"
  using governance_history[OF demo_gov_inv r_into_rtranclp[of gov_move, OF gov_move.act[OF demo_steps(2)]]] by simp

section \<open>Review\<close>

text \<open>
  C10: a topic or task becomes canonical only through an approving review: if a step leaves a
  canonical row that was not there before, the step is a review of that very row with the verdict
  ``approve'' by a user who owns the active, selectable project of the row, and the row names this
  user as its reviewer. No channel writes canonical rows directly.
\<close>

theorem canonical_only_by_review:
  assumes "gov_move db db'"
  shows "(\<forall>x. x \<in> set (gv_topics db') - set (gv_topics db) \<and> gt_status x = Canonical \<longrightarrow>
      (\<exists>u note now clk. review_governance_topic (gt_project_id x) (gt_id x) True note u now clk db = Inr (db', x)
         \<and> get_active_selectable_for_user (gt_project_id x) (us_uid u) db \<noteq> None
         \<and> gt_review_owner_uid x = Some (us_uid u) \<and> gt_reviewed_at x = Some now))
    \<and> (\<forall>x. x \<in> set (gv_tasks db') - set (gv_tasks db) \<and> gk_status x = Canonical \<longrightarrow>
      (\<exists>u note now clk. review_governance_task (gk_project_id x) (gk_id x) True note u now clk db = Inr (db', x)
         \<and> get_active_selectable_for_user (gk_project_id x) (us_uid u) db \<noteq> None
         \<and> gk_review_owner_uid x = Some (us_uid u) \<and> gk_reviewed_at x = Some now))"
  using assms
proof cases
  case (act u p)
  have owned: "get_active_selectable_for_user p (us_uid u) db \<noteq> None"
    using gov_step_project[OF act] by (auto simp: require_project_iff)
  show ?thesis
  proof (intro conjI allI impI; elim conjE DiffE)
    fix x assume "x \<in> set (gv_topics db')" "x \<notin> set (gv_topics db)" "gt_status x = Canonical"
    then obtain nt now clk where r: "review_governance_topic p (gt_id x) True nt u now clk db = Inr (db', x)"
      using topic_becomes_canonical[OF act] by blast
    moreover have "gt_project_id x = p"
      using review_topic_effect(1)[OF r] by (auto simp: topic_change_def topic_keeps_def)
    ultimately show "\<exists>u note now clk. review_governance_topic (gt_project_id x) (gt_id x) True note u now clk db = Inr (db', x)
         \<and> get_active_selectable_for_user (gt_project_id x) (us_uid u) db \<noteq> None
         \<and> gt_review_owner_uid x = Some (us_uid u) \<and> gt_reviewed_at x = Some now"
      using owned review_topic_effect(5,6)[OF r] by blast
  next
    fix x assume "x \<in> set (gv_tasks db')" "x \<notin> set (gv_tasks db)" "gk_status x = Canonical"
    then obtain nt now clk where r: "review_governance_task p (gk_id x) True nt u now clk db = Inr (db', x)"
      using task_becomes_canonical[OF act] by blast
    moreover have "gk_project_id x = p"
      using review_task_effect(1)[OF r] by (auto simp: task_change_def task_keeps_def)
    ultimately show "\<exists>u note now clk. review_governance_task (gk_project_id x) (gk_id x) True note u now clk db = Inr (db', x)
         \<and> get_active_selectable_for_user (gk_project_id x) (us_uid u) db \<noteq> None
         \<and> gk_review_owner_uid x = Some (us_uid u) \<and> gk_reviewed_at x = Some now"
      using owned review_task_effect(5,6)[OF r] by blast
  qed
qed simp

theorem canonical_only_by_review_witness:
  "\<exists>u note now clk. review_governance_topic [201] [210] True note u now clk (demo_gov [demo_topic])
     = Inr (demo_gov [demo_canonical], demo_canonical) \<and> gt_review_owner_uid demo_canonical = Some (us_uid u)"
proof -
  have "demo_canonical \<in> set (gv_topics (demo_gov [demo_canonical])) - set (gv_topics (demo_gov [demo_topic]))"
    by (simp add: demo_canonical_def demo_topic_def)
  moreover have "gt_status demo_canonical = Canonical" "gt_project_id demo_canonical = [201]" "gt_id demo_canonical = [210]"
    by (simp_all add: demo_canonical_def demo_topic_def)
  ultimately show ?thesis
    using canonical_only_by_review[OF gov_move.act[OF demo_steps(2)]] by metis
qed

text \<open>
  competing reviews of one topic or task. However many review requests arrive, by whomever,
  either all are refused and the database is unchanged, or exactly one takes effect: the
  database is the one that review alone produces and the row is the one it wrote.
\<close>

theorem first_review_decides:
  "(review_all (topic_review i) reqs db = ([], db)
    \<or> (\<exists>q\<in>set reqs. \<exists>db' r. topic_review i q db = Inr (db', r) \<and> review_all (topic_review i) reqs db = ([r], db')
         \<and> get_topic i db' = Some r))
   \<and> (review_all (task_review i) reqs db = ([], db)
    \<or> (\<exists>q\<in>set reqs. \<exists>db' r. task_review i q db = Inr (db', r) \<and> review_all (task_review i) reqs db = ([r], db')
         \<and> get_gov_task i db' = Some r))"
  using topic_desk.first_review_wins[of i reqs db] task_desk.first_review_wins[of i reqs db] by blast

section \<open>Isolation\<close>

text \<open>
  C11: a use case takes effect only for the owner of the project, and only while the project is
  active and selectable; topics, tasks, decisions, reports and comments of every other project
  are left exactly as they were.
\<close>

theorem governance_isolation:
  assumes "gov_inv db" and "gov_step u p db db'"
  shows "(\<exists>pr\<in>set (gv_projects db). pr_id pr = p \<and> pr_uid pr = us_uid u \<and> pr_selection_status pr = Selectable
        \<and> pr_status pr = Project_active)
    \<and> filter (\<lambda>x. gt_project_id x \<noteq> p) (gv_topics db') = filter (\<lambda>x. gt_project_id x \<noteq> p) (gv_topics db)
    \<and> filter (\<lambda>x. gk_project_id x \<noteq> p) (gv_tasks db') = filter (\<lambda>x. gk_project_id x \<noteq> p) (gv_tasks db)
    \<and> filter (\<lambda>x. gd_project_id x \<noteq> p) (gv_decisions db') = filter (\<lambda>x. gd_project_id x \<noteq> p) (gv_decisions db)
    \<and> filter (\<lambda>x. gr_project_id x \<noteq> p) (gv_reports db') = filter (\<lambda>x. gr_project_id x \<noteq> p) (gv_reports db)
    \<and> comments_outside p db' = comments_outside p db"
proof (intro conjI)
  show "\<exists>pr\<in>set (gv_projects db). pr_id pr = p \<and> pr_uid pr = us_uid u \<and> pr_selection_status pr = Selectable
        \<and> pr_status pr = Project_active"
    using gov_step_project[OF assms(2)]
    by (auto simp: require_project_iff get_active_selectable_for_user_def dest!: find_Some_in)
  show "comments_outside p db' = comments_outside p db" by (rule comments_outside_step[OF assms])
  show "filter (\<lambda>x. gt_project_id x \<noteq> p) (gv_topics db') = filter (\<lambda>x. gt_project_id x \<noteq> p) (gv_topics db)"
    using assms(2) by (cases rule: gov_step_cases) (simp_all add: topics_outside[OF assms(1)] new_topic_ok_def)
  show "filter (\<lambda>x. gk_project_id x \<noteq> p) (gv_tasks db') = filter (\<lambda>x. gk_project_id x \<noteq> p) (gv_tasks db)"
    using assms(2) by (cases rule: gov_step_cases) (simp_all add: tasks_outside[OF assms(1)] new_task_ok_def)
qed (use assms(2) in \<open>(cases rule: gov_step_cases; simp)+\<close>)

theorem governance_isolation_witness:
  "filter (\<lambda>x. gt_project_id x \<noteq> [201]) (gv_topics (demo_gov [demo_canonical]))
   = filter (\<lambda>x. gt_project_id x \<noteq> [201]) (gv_topics (demo_gov [demo_topic]))"
  using governance_isolation[OF demo_gov_inv demo_steps(2)] by simp

section \<open>Validation\<close>

lemma and_then_Inl_iff: "and_then x f = Inl e \<longleftrightarrow> x = Inl e \<or> (\<exists>a. x = Inr a \<and> f a = Inl e)"
  by (cases x) (simp_all add: and_then_def)

lemma validation_not_integrity [simp]:
  "normalize_title title \<noteq> Inl Gov_integrity_error" "normalize_topic_text c b \<noteq> Inl Gov_integrity_error"
  "normalize_governance_source ch e l \<noteq> Inl Gov_integrity_error"
  "require_project p u db \<noteq> Inl Gov_integrity_error" "topic_in_project t pr m db \<noteq> Inl Gov_integrity_error"
  "require q err = Inl Gov_integrity_error \<longleftrightarrow> \<not> q \<and> err = Gov_integrity_error"
  "duplicate_source chan x \<noteq> Gov_integrity_error" "invalid_state st \<noteq> Gov_integrity_error"
  "http_code n cd ms \<noteq> Gov_integrity_error"
  by (simp_all add: normalize_title_def normalize_topic_text_def normalize_governance_source_def require_project_def
      topic_in_project_def require_def duplicate_source_def invalid_state_def http_code_def Let_def split: option.splits)

lemma topic_source_free:
  "find_topic_by_source p c e db = None \<longleftrightarrow>
   \<not> list_ex (\<lambda>x. topic_source_key x = (p, c, Some e)) (gv_topics db)"
  by (auto simp: find_topic_by_source_def find_None_iff topic_source_key_def list_ex_iff)

lemma task_source_free:
  "find_task_by_source p c e db = None \<longleftrightarrow>
   \<not> list_ex (\<lambda>x. task_source_key x = (p, c, Some e)) (gv_tasks db)"
  by (auto simp: find_task_by_source_def find_None_iff task_source_key_def list_ex_iff)

lemma add_topic_no_violation:
  assumes "i \<notin> gt_id ` set (gv_topics db)" and "source_shape_ok c e l"
    and "\<And>x. e = Some x \<Longrightarrow> find_topic_by_source p c x db = None"
  shows "add_topic i p n s c e l uid now db \<noteq> Inl Gov_integrity_error"
  using assms
  by (cases e) (auto simp: add_topic_def Let_def topic_row_ok_def review_shape_ok_def topic_source_free
      topic_source_key_def)

lemma add_task_no_violation:
  assumes "i \<notin> gk_id ` set (gv_tasks db)" and "source_shape_ok c e l"
    and "\<And>x. e = Some x \<Longrightarrow> find_task_by_source p c x db = None"
  shows "add_task i p n s t d a c e l uid now db \<noteq> Inl Gov_integrity_error"
  using assms
  by (cases e) (auto simp: add_task_def Let_def task_gov_row_ok_def review_shape_ok_def task_source_free
      task_source_key_def)

lemma create_topic_no_violation:
  assumes "i \<notin> gt_id ` set (gv_topics db)"
  shows "create_governance_topic i p title summary ch ext url u now db \<noteq> Inl Gov_integrity_error"
  using assms
  by (auto simp: create_governance_topic_def and_then_Inl_iff dest!: normalize_source_Inr(1)
      dest: add_topic_no_violation[THEN notE, rotated 3] split: option.splits)

lemma create_task_no_violation:
  assumes "i \<notin> gk_id ` set (gv_tasks db)"
  shows "create_governance_task i p title description t d a ch ext url u now db \<noteq> Inl Gov_integrity_error"
  using assms
  by (auto simp: create_governance_task_def and_then_Inl_iff dest!: normalize_source_Inr(1)
      dest: add_task_no_violation[THEN notE, rotated 3] split: option.splits)

lemma comment_no_violation:
  assumes "i \<notin> gc_id ` set (gv_comments db)"
  shows "create_governance_topic_comment i p t content u now db \<noteq> Inl Gov_integrity_error"
  using assms get_topic_in[of t db]
  by (auto simp: create_governance_topic_comment_def and_then_Inl_iff add_topic_comment_def topic_in_project_iff
      Let_def)

lemma decision_no_violation:
  assumes "i \<notin> gd_id ` set (gv_decisions db)"
  shows "create_governance_decision i p title conclusion rationale t decided u now db \<noteq> Inl Gov_integrity_error"
  using assms
  by (auto simp: create_governance_decision_def and_then_Inl_iff add_decision_def Let_def decision_shape_ok_def
      split: option.splits)

lemma report_violation:
  assumes "i \<notin> gr_id ` set (gv_reports db)"
  shows "create_governance_report i p title summary body run artifact u now db = Inl Gov_integrity_error
       \<longleftrightarrow> (\<exists>s pr j. normalize_title title = Inr s \<and> require_project p u db = Inr pr \<and> run = Some j
            \<and> length j \<le> 64 \<and> fits 512 artifact \<and> j \<notin> set (gv_run_ids db))"
  using assms
  by (cases run) (auto simp: create_governance_report_def and_then_Inl_iff add_report_def Let_def fits_def[of 64])

text \<open>
  the validation of the use cases covers the constraints of the database. With an unused id
  no creation of a topic, comment, task or decision fails on a database constraint, whatever the
  request says; the creation of a report does exactly when a valid request of an owner names a
  run that does not exist.
\<close>

theorem validation_covers_constraints:
  assumes "i \<notin> gt_id ` set (gv_topics db) \<union> gc_id ` set (gv_comments db) \<union> gk_id ` set (gv_tasks db)
      \<union> gd_id ` set (gv_decisions db) \<union> gr_id ` set (gv_reports db)"
  shows "create_governance_topic i p title summary ch ext url u now db \<noteq> Inl Gov_integrity_error
    \<and> create_governance_topic_comment i p t content u now db \<noteq> Inl Gov_integrity_error
    \<and> create_governance_task i p title description topic decision a ch ext url u now db \<noteq> Inl Gov_integrity_error
    \<and> create_governance_decision i p title conclusion rationale topic decided u now db \<noteq> Inl Gov_integrity_error
    \<and> (create_governance_report i p title summary body run artifact u now db = Inl Gov_integrity_error
       \<longleftrightarrow> (\<exists>s pr j. normalize_title title = Inr s \<and> require_project p u db = Inr pr \<and> run = Some j
            \<and> length j \<le> 64 \<and> fits 512 artifact \<and> j \<notin> set (gv_run_ids db)))"
  using assms create_topic_no_violation comment_no_violation create_task_no_violation decision_no_violation
    report_violation[of i db p title summary body run artifact u now]
  by auto

theorem validation_covers_constraints_witness:
  "create_governance_topic [211] [201] (Some [84]) None (Some (lit ''github'')) (Some [56]) None demo_user 11
     (demo_gov [demo_topic]) \<noteq> Inl Gov_integrity_error"
  using validation_covers_constraints[of "[211]" "demo_gov [demo_topic]"]
  by (simp add: demo_topic_def)

text \<open>
  importing an external item. If the source is already imported into the project the request
  is refused with status 409 and the code \<^verbatim>\<open>duplicate_source\<close>, also when its external id differs by
  surrounding white space; otherwise, with an unused id and texts of acceptable length, a proposed
  topic with exactly this source is appended.
\<close>

theorem import_topic_once:
  assumes "normalize_title title = Inr n" and "normalize_governance_source ch ext url = Inr (c, Some e, l)"
    and "require_project p u db = Inr pr" and "normalize_topic_text summary False = Inr s"
    and "i \<notin> gt_id ` set (gv_topics db)" and "length e \<le> 191" and "fits 1024 l"
  shows "create_governance_topic i p title summary ch ext url u now db =
    (if \<exists>r\<in>set (gv_topics db). topic_source_key r = (p, c, Some e) then Inl (duplicate_source c e)
     else Inr (db\<lparr>gv_topics := gv_topics db @ [
       \<lparr>gt_id = i, gt_project_id = p, gt_title = n, gt_summary = s, gt_status = Proposed, gt_source_channel = c,
        gt_source_external_id = Some e, gt_source_url = l, gt_created_by = Some (us_uid u), gt_review_owner_uid = None,
        gt_reviewed_at = None, gt_review_note = None, gt_created_at = now, gt_updated_at = now\<rparr>]\<rparr>,
       \<lparr>gt_id = i, gt_project_id = p, gt_title = n, gt_summary = s, gt_status = Proposed, gt_source_channel = c,
        gt_source_external_id = Some e, gt_source_url = l, gt_created_by = Some (us_uid u), gt_review_owner_uid = None,
        gt_reviewed_at = None, gt_review_note = None, gt_created_at = now, gt_updated_at = now\<rparr>))"
proof -
  have p: "pr_id pr = p" by (rule require_project_id[OF assms(3)])
  have free: "(find_topic_by_source p c e db = None) = (\<not> (\<exists>r\<in>set (gv_topics db). topic_source_key r = (p, c, Some e)))"
    by (auto simp: topic_source_free list_ex_iff)
  show ?thesis
    using assms normalize_source_Inr(1)[OF assms(2)]
    by (auto simp: create_governance_topic_def p free add_topic_def Let_def topic_row_ok_def review_shape_ok_def
        topic_source_key_def list_ex_iff fits_def[of 191] require_def)
qed

theorem import_topic_once_witness:
  "create_governance_topic [211] [201] (Some [84]) None (Some (lit ''github'')) (Some [32, 55, 32]) None demo_user 11
     (demo_gov [demo_topic]) = Inl (duplicate_source (lit ''github'') [55])"
proof -
  have "normalize_governance_source (Some (lit ''github'')) (Some [32, 55, 32]) None = Inr (lit ''github'', Some [55], None)"
    by (simp add: normalize_governance_source_def or_empty_def py_strip_def is_space_def lit_def
        governance_source_channels_def strip_if_def Let_def)
  then show ?thesis
    using import_topic_once[of "Some [84]" "[84]" "Some (lit ''github'')" "Some [32, 55, 32]" None
        "lit ''github''" "[55]" None "[201]" demo_user "demo_gov [demo_topic]" _ None None "[211]" 11]
    by (simp add: normalize_title_def or_empty_def py_strip_def is_space_def normalize_topic_text_def Let_def
        or_none_def demo_topic_def topic_source_key_def fits_def)
qed

text \<open>
  normalization of a source is sound and idempotent: what it returns is one of the four channels with the
  shape the database demands, an external id that is present is not blank, and normalizing the
  result again gives the same source.
\<close>

theorem normalize_source_idempotent:
  assumes "normalize_governance_source ch ext url = Inr (c, e, l)"
  shows "source_shape_ok c e l \<and> e \<noteq> Some []
    \<and> normalize_governance_source (Some c) e l = Inr (c, e, if l = Some [] then None else l)"
proof -
  note n = normalize_source_Inr[OF assms]
  have c: "c \<in> set governance_source_channels" using n(1) by (simp add: source_shape_ok_def)
  have e: "strip_if e = e" using n(2,4) by (cases e) (auto simp: strip_if_def or_empty_def)
  have l: "strip_if l = (if l = Some [] then None else l)" using n(5) by (cases l) (auto simp: strip_if_def or_empty_def)
  show ?thesis using n(1,2) c
    by (auto simp: normalize_governance_source_def n(3) e l source_shape_ok_def or_empty_def split: option.splits)
qed

theorem normalize_source_idempotent_witness:
  "source_shape_ok (lit ''gitea'') (Some [55]) (Some [])
   \<and> normalize_governance_source (Some (lit ''gitea'')) (Some [55]) (Some []) = Inr (lit ''gitea'', Some [55], None)"
  using normalize_source_idempotent[of "Some (lit '' gitea'')" "Some [55, 32]" "Some [32]" "lit ''gitea''" "Some [55]" "Some []"]
  by (simp add: normalize_governance_source_def or_empty_def py_strip_def is_space_def lit_def
        governance_source_channels_def strip_if_def Let_def)

text \<open>
  reading. A listing answers exactly the rows of the requested project, ordered by creation
  time and id, to the owner of the active, selectable project and to nobody else (status 404).
\<close>

theorem governance_listings:
  "(case require_project p u db of
      Inl e \<Rightarrow> e = Http_error 404 (Detail_text gov_msg_no_project) \<and> list_governance_topics p u db = Inl e
        \<and> list_governance_tasks p u db = Inl e \<and> list_governance_decisions p u db = Inl e
        \<and> list_governance_reports p u db = Inl e \<and> get_governance_topic p t u db = Inl e
    | Inr pr \<Rightarrow> (\<exists>rs. list_governance_topics p u db = Inr rs
            \<and> mset rs = mset (filter (\<lambda>r. gt_project_id r = p) (gv_topics db))
            \<and> sorted (map (\<lambda>r. (gt_created_at r, gt_id r)) rs))
        \<and> (\<exists>rs. list_governance_tasks p u db = Inr rs
            \<and> mset rs = mset (filter (\<lambda>r. gk_project_id r = p) (gv_tasks db))
            \<and> sorted (map (\<lambda>r. (gk_created_at r, gk_id r)) rs))
        \<and> (\<exists>rs. list_governance_decisions p u db = Inr rs
            \<and> mset rs = mset (filter (\<lambda>r. gd_project_id r = p) (gv_decisions db))
            \<and> sorted (map (\<lambda>r. (gd_created_at r, gd_id r)) rs))
        \<and> (\<exists>rs. list_governance_reports p u db = Inr rs
            \<and> mset rs = mset (filter (\<lambda>r. gr_project_id r = p) (gv_reports db))
            \<and> sorted (map (\<lambda>r. (gr_created_at r, gr_id r)) rs))
        \<and> (case get_governance_topic p t u db of Inl e \<Rightarrow> e = Http_error 404 (Detail_text gov_msg_no_topic)
           | Inr r \<Rightarrow> r \<in> set (gv_topics db) \<and> gt_id r = t \<and> gt_project_id r = p))"
proof (cases "require_project p u db")
  case (Inl e)
  then show ?thesis
    by (auto simp: require_project_def list_governance_topics_def list_governance_tasks_def
        list_governance_decisions_def list_governance_reports_def get_governance_topic_def split: option.splits)
next
  case (Inr pr)
  have p: "pr_id pr = p" by (rule require_project_id[OF Inr])
  have "case get_governance_topic p t u db of Inl e \<Rightarrow> e = Http_error 404 (Detail_text gov_msg_no_topic)
      | Inr r \<Rightarrow> r \<in> set (gv_topics db) \<and> gt_id r = t \<and> gt_project_id r = p"
    using get_topic_in[of t db] by (simp add: get_governance_topic_def Inr topic_in_project_def p split: option.splits)
  then show ?thesis using Inr
    by (simp add: list_governance_topics_def list_governance_tasks_def list_governance_decisions_def
        list_governance_reports_def list_topics_def list_gov_tasks_def list_decisions_def list_reports_def p)
qed

end
