(* ===== verification/Resource_Permission.thy ===== *)
theory Resource_Permission
  imports Yuanlei_Prelude
begin

text \<open>
  Sharing of agents, skills and knowledge bases (\<^verbatim>\<open>permissions/resource_permission.py\<close>).

  A share configuration is an arbitrary JSON value; \<open>normalize_permission_config\<close> turns it into a typed
  configuration or raises. The Python conversions \<^verbatim>\<open>int(x)\<close> and \<^verbatim>\<open>str(x)\<close> are modelled on JSON values. Two
  tables of the language are parameters (\<open>py_text\<close>): which code points are decimal digits, and how
  \<^verbatim>\<open>str\<close> prints floats, lists and objects; every result holds for all of them.
\<close>

section \<open>Conversions\<close>

record py_text =
  pt_digit :: "nat \<Rightarrow> nat option"
  pt_repr :: "json \<Rightarrow> pystr"

datatype value_issue =
    Scope_not_object | Unknown_access_level | No_department | No_user | Manage_exceeds_read
  | Level_not_allowed pystr | Not_version_2 | Not_a_number

datatype resource_permission = NONE | READ | MANAGE

datatype perm_error = Config_value_error value_issue | Config_type_error | Permission_denied resource_permission resource_permission

fun traverse :: "('a \<Rightarrow> 'e + 'b) \<Rightarrow> 'a list \<Rightarrow> 'e + 'b list" where
  "traverse f [] = Inr []"
| "traverse f (x # xs) =
     (case f x of Inl e \<Rightarrow> Inl e | Inr y \<Rightarrow> (case traverse f xs of Inl e \<Rightarrow> Inl e | Inr ys \<Rightarrow> Inr (y # ys)))"

text \<open>Decimal literals of \<^verbatim>\<open>int\<close>: digits, single underscores between them, at most 4300 digits.\<close>

fun read_digits :: "(nat \<Rightarrow> nat option) \<Rightarrow> nat \<Rightarrow> nat \<Rightarrow> pystr \<Rightarrow> nat option" where
  "read_digits dg n acc [] = (if n = 0 \<or> 4300 < n then None else Some acc)"
| "read_digits dg n acc [c] =
     (case dg c of None \<Rightarrow> None | Some v \<Rightarrow> read_digits dg (n + 1) (10 * acc + v) [])"
| "read_digits dg n acc (c # d # cs) =
     (if c = 95 \<and> 0 < n
      then (case dg d of None \<Rightarrow> None | Some v \<Rightarrow> read_digits dg (n + 1) (10 * acc + v) cs)
      else (case dg c of None \<Rightarrow> None | Some v \<Rightarrow> read_digits dg (n + 1) (10 * acc + v) (d # cs)))"

definition int_of_str :: "(nat \<Rightarrow> nat option) \<Rightarrow> pystr \<Rightarrow> int option" where
  "int_of_str dg s =
     (case py_strip s of
        [] \<Rightarrow> None
      | c # cs \<Rightarrow>
          if c = 43 then map_option int (read_digits dg 0 0 cs)
          else if c = 45 then map_option (\<lambda>n. - int n) (read_digits dg 0 0 cs)
          else map_option int (read_digits dg 0 0 (c # cs)))"

fun py_int :: "py_text \<Rightarrow> json \<Rightarrow> perm_error + int" where
  "py_int pt (JInt i) = Inr i"
| "py_int pt (JBool b) = Inr (if b then 1 else 0)"
| "py_int pt (JFloat x) = Inr (if x < 0 then \<lceil>x\<rceil> else \<lfloor>x\<rfloor>)"
| "py_int pt (JStr s) = (case int_of_str (pt_digit pt) s of None \<Rightarrow> Inl (Config_value_error Not_a_number) | Some i \<Rightarrow> Inr i)"
| "py_int pt _ = Inl Config_type_error"

fun nat_str :: "nat \<Rightarrow> pystr" where
  "nat_str n = (if n < 10 then [48 + n] else nat_str (n div 10) @ [48 + n mod 10])"

fun py_str :: "py_text \<Rightarrow> json \<Rightarrow> pystr" where
  "py_str pt (JStr s) = s"
| "py_str pt (JInt i) = (if i < 0 then 45 # nat_str (nat (- i)) else nat_str (nat i))"
| "py_str pt (JBool b) = (if b then lit ''True'' else lit ''False'')"
| "py_str pt JNull = lit ''None''"
| "py_str pt j = pt_repr pt j"

text \<open>Truth value, and iteration over \<^verbatim>\<open>x or []\<close>: a string yields its characters, an object its keys.\<close>

fun py_true :: "json \<Rightarrow> bool" where
  "py_true JNull = False"
| "py_true (JBool b) = b"
| "py_true (JInt i) = (i \<noteq> 0)"
| "py_true (JFloat x) = (x \<noteq> 0)"
| "py_true (JStr s) = (s \<noteq> [])"
| "py_true (JList js) = (js \<noteq> [])"
| "py_true (JObj kvs) = (kvs \<noteq> [])"

definition py_items :: "json \<Rightarrow> perm_error + json list" where
  "py_items j =
     (if \<not> py_true j then Inr []
      else case j of JList js \<Rightarrow> Inr js | JStr s \<Rightarrow> Inr (map (\<lambda>c. JStr [c]) s)
           | JObj kvs \<Rightarrow> Inr (map JStr (remdups (map fst kvs))) | _ \<Rightarrow> Inl Config_type_error)"

definition get_or_null :: "json \<Rightarrow> string \<Rightarrow> json" where
  "get_or_null j k = (case json_get j (lit k) of None \<Rightarrow> JNull | Some v \<Rightarrow> v)"

section \<open>Scopes and configurations\<close>

datatype access_level = Global | Department | Users

record scope =
  sc_access_level :: access_level
  sc_department_ids :: "int list"
  sc_user_uids :: "pystr list"

record permission_config =
  pc_read_scope :: "scope option"
  pc_manage_scope :: "scope option"

definition default_scope :: scope where
  "default_scope = \<lparr>sc_access_level = Global, sc_department_ids = [], sc_user_uids = []\<rparr>"

text \<open>\<^verbatim>\<open>scope.get("access_level") or "global"\<close>, checked for membership; lists and objects are not hashable.\<close>

definition read_access_level :: "json \<Rightarrow> perm_error + access_level" where
  "read_access_level j =
     (if \<not> py_true j then Inr Global
      else case j of
        JStr s \<Rightarrow> if s = lit ''global'' then Inr Global else if s = lit ''department'' then Inr Department
          else if s = lit ''user'' then Inr Users else Inl (Config_value_error Unknown_access_level)
      | JList _ \<Rightarrow> Inl Config_type_error
      | JObj _ \<Rightarrow> Inl Config_type_error
      | _ \<Rightarrow> Inl (Config_value_error Unknown_access_level))"

definition normalize_scope :: "py_text \<Rightarrow> json \<Rightarrow> perm_error + scope option" where
  "normalize_scope pt j =
     (case j of
        JNull \<Rightarrow> Inr None
      | JObj _ \<Rightarrow>
          (case read_access_level (get_or_null j ''access_level'') of
             Inl e \<Rightarrow> Inl e
           | Inr Global \<Rightarrow> Inr (Some default_scope)
           | Inr Department \<Rightarrow>
               (case py_items (get_or_null j ''department_ids'') of
                  Inl e \<Rightarrow> Inl e
                | Inr vs \<Rightarrow>
                    (case traverse (py_int pt) vs of
                       Inl e \<Rightarrow> Inl e
                     | Inr is \<Rightarrow>
                         if is = [] then Inl (Config_value_error No_department)
                         else Inr (Some \<lparr>sc_access_level = Department, sc_department_ids = sort (remdups is),
                                sc_user_uids = []\<rparr>)))
           | Inr Users \<Rightarrow>
               (case py_items (get_or_null j ''user_uids'') of
                  Inl e \<Rightarrow> Inl e
                | Inr vs \<Rightarrow>
                    let us = sort (remdups (filter (\<lambda>s. s \<noteq> []) (map (\<lambda>v. py_strip (py_str pt v)) vs)))
                    in if us = [] then Inl (Config_value_error No_user)
                       else Inr (Some \<lparr>sc_access_level = Users, sc_department_ids = [], sc_user_uids = us\<rparr>)))
      | _ \<Rightarrow> Inl (Config_value_error Scope_not_object))"

definition validate_manage_scope :: "scope option \<Rightarrow> scope option \<Rightarrow> perm_error + unit" where
  "validate_manage_scope read_scope manage_scope =
     (case (read_scope, manage_scope) of
        (Some r, Some m) \<Rightarrow>
          if sc_access_level r = Global then Inr ()
          else if sc_access_level m \<noteq> sc_access_level r then Inl (Config_value_error Manage_exceeds_read)
          else if sc_access_level r = Department
          then if set (sc_department_ids m) \<subseteq> set (sc_department_ids r) then Inr () else Inl (Config_value_error Manage_exceeds_read)
          else if set (sc_user_uids m) \<subseteq> set (sc_user_uids r) then Inr () else Inl (Config_value_error Manage_exceeds_read)
      | _ \<Rightarrow> Inr ())"

definition scope_allowed :: "access_level list option \<Rightarrow> scope option \<Rightarrow> bool" where
  "scope_allowed allowed s =
     (case (allowed, s) of (Some ls, Some x) \<Rightarrow> sc_access_level x \<in> set ls | _ \<Rightarrow> True)"

definition is_version_2 :: "json \<Rightarrow> bool" where
  "is_version_2 j = (case j of JInt i \<Rightarrow> i = 2 | JFloat x \<Rightarrow> x = 2 | _ \<Rightarrow> False)"

definition normalize_permission_config ::
  "py_text \<Rightarrow> access_level list option \<Rightarrow> pystr \<Rightarrow> bool \<Rightarrow> json \<Rightarrow> perm_error + permission_config" where
  "normalize_permission_config pt allowed msg strict j =
     (if \<not> is_version_2 (get_or_null j ''version'') then Inl (Config_value_error Not_version_2)
      else case normalize_scope pt (get_or_null j ''read_scope'') of
        Inl e \<Rightarrow> Inl e
      | Inr r \<Rightarrow>
          (case normalize_scope pt (get_or_null j ''manage_scope'') of
             Inl e \<Rightarrow> Inl e
           | Inr m \<Rightarrow>
               if strict \<and> validate_manage_scope r m \<noteq> Inr () then Inl (Config_value_error Manage_exceeds_read)
               else if \<not> scope_allowed allowed r \<or> \<not> scope_allowed allowed m
               then Inl (Config_value_error (Level_not_allowed msg))
               else Inr \<lparr>pc_read_scope = r, pc_manage_scope = m\<rparr>))"

section \<open>Resolution\<close>

record perm_user =
  pu_role :: "pystr option"
  pu_uid :: "pystr option"
  pu_department_id :: json

record shareable_resource =
  re_created_by :: "pystr option"
  re_share_config :: json
  re_source_scope :: "pystr option"

definition scope_matches :: "py_text \<Rightarrow> perm_user \<Rightarrow> scope option \<Rightarrow> bool" where
  "scope_matches pt user scope =
     (case scope of
        None \<Rightarrow> False
      | Some s \<Rightarrow>
          (case sc_access_level s of
             Global \<Rightarrow> True
           | Department \<Rightarrow> (case py_int pt (pu_department_id user) of Inl e \<Rightarrow> False | Inr i \<Rightarrow> i \<in> set (sc_department_ids s))
           | Users \<Rightarrow> or_empty (pu_uid user) \<in> set (sc_user_uids s)))"

fun permission_order :: "resource_permission \<Rightarrow> nat" where
  "permission_order NONE = 0"
| "permission_order READ = 1"
| "permission_order MANAGE = 2"

type_synonym role_ceiling = "(pystr \<times> resource_permission) list"

definition knowledge_base_permission_policy :: role_ceiling where
  "knowledge_base_permission_policy = [(lit ''user'', READ), (lit ''admin'', MANAGE), (lit ''superadmin'', MANAGE)]"

definition agent_permission_policy :: role_ceiling where
  "agent_permission_policy = [(lit ''user'', MANAGE), (lit ''admin'', MANAGE), (lit ''superadmin'', MANAGE)]"

definition minimum_permission :: "resource_permission \<Rightarrow> resource_permission \<Rightarrow> resource_permission" where
  "minimum_permission left right = (if permission_order left \<le> permission_order right then left else right)"

definition ceiling_of :: "role_ceiling \<Rightarrow> perm_user \<Rightarrow> resource_permission" where
  "ceiling_of policy user =
     (case pu_role user of None \<Rightarrow> READ | Some r \<Rightarrow> (case map_of policy r of None \<Rightarrow> READ | Some p \<Rightarrow> p))"

definition is_owner :: "perm_user \<Rightarrow> shareable_resource \<Rightarrow> bool" where
  "is_owner user res \<longleftrightarrow> or_empty (re_created_by res) = or_empty (pu_uid user)"

definition resolve_resource_permission ::
  "py_text \<Rightarrow> perm_user \<Rightarrow> shareable_resource \<Rightarrow> role_ceiling \<Rightarrow> perm_error + resource_permission" where
  "resolve_resource_permission pt user res policy =
     (if pu_role user = Some (lit ''superadmin'') then Inr MANAGE
      else case normalize_permission_config pt None [] False (re_share_config res) of
        Inl e \<Rightarrow> Inl e
      | Inr config \<Rightarrow>
          if is_owner user res then Inr MANAGE
          else
            let granted =
              (if scope_matches pt user (pc_manage_scope config)
                  \<and> (pc_read_scope config = None \<or> scope_matches pt user (pc_read_scope config)) then MANAGE
               else if scope_matches pt user (pc_read_scope config) then READ
               else NONE)
            in Inr (minimum_permission granted (ceiling_of policy user)))"

definition require_resource_permission :: "resource_permission \<Rightarrow> resource_permission \<Rightarrow> perm_error + unit" where
  "require_resource_permission actual required =
     (if permission_order actual < permission_order required then Inl (Permission_denied required actual) else Inr ())"

definition resolve_knowledge_base_permission ::
  "py_text \<Rightarrow> perm_user \<Rightarrow> shareable_resource \<Rightarrow> perm_error + resource_permission" where
  "resolve_knowledge_base_permission pt user res =
     resolve_resource_permission pt user res knowledge_base_permission_policy"

definition require_knowledge_base_permission ::
  "py_text \<Rightarrow> perm_user \<Rightarrow> shareable_resource \<Rightarrow> resource_permission \<Rightarrow> perm_error + resource_permission" where
  "require_knowledge_base_permission pt user res required =
     (case resolve_knowledge_base_permission pt user res of
        Inl e \<Rightarrow> Inl e
      | Inr actual \<Rightarrow> (case require_resource_permission actual required of Inl e \<Rightarrow> Inl e | Inr _ \<Rightarrow> Inr actual))"

definition resolve_agent_permission ::
  "py_text \<Rightarrow> perm_user \<Rightarrow> shareable_resource \<Rightarrow> perm_error + resource_permission" where
  "resolve_agent_permission pt user res = resolve_resource_permission pt user res agent_permission_policy"

definition resolve_skill_permission ::
  "py_text \<Rightarrow> perm_user \<Rightarrow> shareable_resource \<Rightarrow> perm_error + resource_permission" where
  "resolve_skill_permission pt user res =
     (if re_source_scope res = Some (lit ''personal'') then Inr (if is_owner user res then MANAGE else NONE)
      else resolve_resource_permission pt user res agent_permission_policy)"

section \<open>The order of permissions\<close>

instantiation resource_permission :: linorder
begin

definition less_eq_resource_permission :: "resource_permission \<Rightarrow> resource_permission \<Rightarrow> bool" where
  "less_eq_resource_permission p q \<longleftrightarrow> permission_order p \<le> permission_order q"

definition less_resource_permission :: "resource_permission \<Rightarrow> resource_permission \<Rightarrow> bool" where
  "less_resource_permission p q \<longleftrightarrow> permission_order p < permission_order q"

instance
proof
  show "p \<le> q \<Longrightarrow> q \<le> p \<Longrightarrow> p = q" for p q :: resource_permission
    by (cases p; cases q; simp add: less_eq_resource_permission_def)
qed (auto simp: less_eq_resource_permission_def less_resource_permission_def)

end

lemma minimum_permission_min: "minimum_permission p q = min p q"
  by (simp add: minimum_permission_def min_def less_eq_resource_permission_def)

lemma permission_le [simp]:
  "NONE \<le> p" "p \<le> MANAGE" "MANAGE \<le> p \<longleftrightarrow> p = MANAGE" "READ \<le> p \<longleftrightarrow> p \<noteq> NONE" "p \<le> NONE \<longleftrightarrow> p = NONE"
  by (cases p; simp add: less_eq_resource_permission_def)+

end
