(* ===== verification/Permission_Properties.thy ===== *)
theory Permission_Properties
  imports Resource_Permission
begin

text \<open>
  What the sharing of resources promises: a stored (strictly validated) configuration never lets anyone manage who
  cannot read, normalization is stable, and the resolved permission is the declarative one.
  Witnesses use ASCII digits and a knowledge base of the user \<open>[97]\<close>, readable in the departments 3 and 5 and
  managed in department 3.
\<close>

section \<open>Normal forms\<close>

definition level_str :: "access_level \<Rightarrow> pystr" where
  "level_str l = (case l of Global \<Rightarrow> lit ''global'' | Department \<Rightarrow> lit ''department'' | Users \<Rightarrow> lit ''user'')"

text \<open>A typed configuration as the JSON object that is stored.\<close>

definition scope_json :: "scope option \<Rightarrow> json" where
  "scope_json s = (case s of None \<Rightarrow> JNull
     | Some x \<Rightarrow> JObj [(lit ''access_level'', JStr (level_str (sc_access_level x))),
         (lit ''department_ids'', JList (map JInt (sc_department_ids x))),
         (lit ''user_uids'', JList (map JStr (sc_user_uids x)))])"

definition config_json :: "permission_config \<Rightarrow> json" where
  "config_json c = JObj [(lit ''version'', JInt 2), (lit ''read_scope'', scope_json (pc_read_scope c)),
     (lit ''manage_scope'', scope_json (pc_manage_scope c))]"

definition scope_ok :: "scope \<Rightarrow> bool" where
  "scope_ok s \<longleftrightarrow> (case sc_access_level s of
       Global \<Rightarrow> s = default_scope
     | Department \<Rightarrow> sc_department_ids s \<noteq> [] \<and> sorted (sc_department_ids s) \<and> distinct (sc_department_ids s)
         \<and> sc_user_uids s = []
     | Users \<Rightarrow> sc_user_uids s \<noteq> [] \<and> sorted (sc_user_uids s) \<and> distinct (sc_user_uids s)
         \<and> (\<forall>u\<in>set (sc_user_uids s). u \<noteq> [] \<and> py_strip u = u) \<and> sc_department_ids s = [])"

lemma sorted_filter_remdups: "sort (remdups xs) = xs \<longleftrightarrow> sorted xs \<and> distinct xs"
  by (metis distinct_remdups_id distinct_remdups distinct_sort sorted_sort sorted_sort_id)

lemma remdups_eq_Nil [simp]: "remdups xs = [] \<longleftrightarrow> xs = []"
  by (metis set_empty set_remdups)

lemma normalize_scope_ok: "normalize_scope pt j = Inr (Some s) \<Longrightarrow> scope_ok s"
  by (auto simp: normalize_scope_def scope_ok_def default_scope_def Let_def
      split: json.splits sum.splits access_level.splits if_splits)

lemma traverse_int [simp]: "traverse (py_int pt) (map JInt xs) = Inr xs"
  by (induction xs) simp_all

lemma scope_json_fields [simp]:
  "get_or_null (scope_json (Some x)) ''access_level'' = JStr (level_str (sc_access_level x))"
  "get_or_null (scope_json (Some x)) ''department_ids'' = JList (map JInt (sc_department_ids x))"
  "get_or_null (scope_json (Some x)) ''user_uids'' = JList (map JStr (sc_user_uids x))"
  by (simp_all add: get_or_null_def scope_json_def lit_def)

lemma config_json_fields [simp]:
  "get_or_null (config_json c) ''version'' = JInt 2"
  "get_or_null (config_json c) ''read_scope'' = scope_json (pc_read_scope c)"
  "get_or_null (config_json c) ''manage_scope'' = scope_json (pc_manage_scope c)"
  by (simp_all add: get_or_null_def config_json_def lit_def)

lemma read_level_str [simp]: "read_access_level (JStr (level_str l)) = Inr l"
  by (cases l) (simp_all add: read_access_level_def level_str_def lit_def)

lemma py_items_list [simp]: "py_items (JList js) = Inr js"
  by (simp add: py_items_def)

lemma normalize_scope_json:
  assumes "\<And>x. s = Some x \<Longrightarrow> scope_ok x"
  shows "normalize_scope pt (scope_json s) = Inr s"
proof (cases s)
  case (Some x)
  obtain kvs where kvs: "scope_json (Some x) = JObj kvs" by (simp add: scope_json_def)
  note fields = scope_json_fields[of x, unfolded kvs]
  have strip: "map (\<lambda>v. py_strip (py_str pt v)) (map JStr us) = us" if "\<forall>u\<in>set us. py_strip u = u" for us
    using that by (induction us) auto
  show ?thesis
  proof (cases "sc_access_level x")
    case Users
    have us: "filter (\<lambda>s. s \<noteq> []) (sc_user_uids x) = sc_user_uids x"
      "sort (remdups (sc_user_uids x)) = sc_user_uids x" "sc_user_uids x \<noteq> []" "sc_department_ids x = []"
      "\<forall>u\<in>set (sc_user_uids x). py_strip u = u"
      using assms[OF Some] Users by (auto simp: scope_ok_def sorted_filter_remdups filter_id_conv)
    show ?thesis using Users us strip[OF us(5)]
      by (simp add: normalize_scope_def Some kvs fields Let_def)
  next
    case Global
    then have "x = default_scope" using assms[OF Some] by (simp add: scope_ok_def)
    then show ?thesis using fields Global by (simp add: normalize_scope_def Some kvs[symmetric])
        (simp add: scope_json_def get_or_null_def lit_def level_str_def read_access_level_def)
  next
    case Department
    then show ?thesis using assms[OF Some]
      by (simp add: normalize_scope_def Some kvs fields scope_ok_def sorted_filter_remdups)
  qed
qed (simp add: normalize_scope_def scope_json_def)

lemma normalize_config_cases:
  assumes "normalize_permission_config pt allowed msg strict j = Inr c"
  obtains "normalize_scope pt (get_or_null j ''read_scope'') = Inr (pc_read_scope c)"
    "normalize_scope pt (get_or_null j ''manage_scope'') = Inr (pc_manage_scope c)"
    "strict \<longrightarrow> validate_manage_scope (pc_read_scope c) (pc_manage_scope c) = Inr ()"
    "scope_allowed allowed (pc_read_scope c)" "scope_allowed allowed (pc_manage_scope c)"
  using assms by (auto simp: normalize_permission_config_def split: if_splits sum.splits)

section \<open>A small configuration\<close>

definition ascii :: py_text where
  "ascii = \<lparr>pt_digit = (\<lambda>c. if 48 \<le> c \<and> c \<le> 57 then Some (c - 48) else None), pt_repr = (\<lambda>_. [])\<rparr>"

definition demo_share :: json where
  "demo_share = JObj [(lit ''version'', JInt 2),
     (lit ''read_scope'', JObj [(lit ''access_level'', JStr (lit ''department'')),
        (lit ''department_ids'', JList [JStr [53], JInt 3])]),
     (lit ''manage_scope'', JObj [(lit ''access_level'', JStr (lit ''department'')),
        (lit ''department_ids'', JList [JInt 3, JInt 3])])]"

definition demo_config :: permission_config where
  "demo_config = \<lparr>pc_read_scope = Some \<lparr>sc_access_level = Department, sc_department_ids = [3, 5], sc_user_uids = []\<rparr>,
     pc_manage_scope = Some \<lparr>sc_access_level = Department, sc_department_ids = [3], sc_user_uids = []\<rparr>\<rparr>"

definition demo_base :: shareable_resource where
  "demo_base = \<lparr>re_created_by = Some [97], re_share_config = demo_share, re_source_scope = None\<rparr>"

definition demo_member :: "pystr \<Rightarrow> pystr \<Rightarrow> int \<Rightarrow> perm_user" where
  "demo_member role uid d = \<lparr>pu_role = Some role, pu_uid = Some uid, pu_department_id = JInt d\<rparr>"

lemma demo_normalize: "normalize_permission_config ascii None [] b demo_share = Inr demo_config"
  by (simp add: normalize_permission_config_def demo_share_def get_or_null_def lit_def is_version_2_def
      normalize_scope_def read_access_level_def py_items_def int_of_str_def py_strip_def is_space_def ascii_def
      validate_manage_scope_def scope_allowed_def demo_config_def)

section \<open>Properties\<close>

text \<open>
  a configuration that is saved (strict validation) never lets anyone manage without being
  able to read: whoever matches the manage scope matches the read scope, when there is one.
\<close>

theorem strict_manage_within_read:
  assumes "normalize_permission_config pt allowed msg True j = Inr c" and "pc_read_scope c \<noteq> None"
    and "scope_matches pt u (pc_manage_scope c)"
  shows "scope_matches pt u (pc_read_scope c)"
proof -
  obtain r m where r: "pc_read_scope c = Some r" and m: "pc_manage_scope c = Some m"
    using assms(2,3) by (auto simp: scope_matches_def split: option.splits)
  have v: "validate_manage_scope (Some r) (Some m) = Inr ()"
    using assms(1) r m by (auto elim: normalize_config_cases)
  have "scope_matches pt u (Some m)" using assms(3) m by simp
  then show ?thesis using v unfolding r
    by (cases "sc_access_level r") (auto simp: scope_matches_def validate_manage_scope_def split: if_splits sum.splits)
qed

theorem strict_manage_within_read_witness:
  "scope_matches ascii (demo_member (lit ''user'') [98] 3) (pc_read_scope demo_config)"
  using strict_manage_within_read[OF demo_normalize, of "demo_member (lit ''user'') [98] 3"]
  by (simp add: demo_config_def scope_matches_def demo_member_def)

text \<open>
  normalization is stable. Storing a normalized configuration and normalizing it again, with
  the same options, gives the same configuration.
\<close>

theorem permission_config_roundtrip:
  assumes "normalize_permission_config pt allowed msg strict j = Inr c"
  shows "normalize_permission_config pt allowed msg strict (config_json c) = Inr c"
proof -
  have s: "normalize_scope pt (scope_json (pc_read_scope c)) = Inr (pc_read_scope c)"
    "normalize_scope pt (scope_json (pc_manage_scope c)) = Inr (pc_manage_scope c)"
    using assms by (auto elim!: normalize_config_cases intro!: normalize_scope_json dest: normalize_scope_ok)
  show ?thesis
    by (rule normalize_config_cases[OF assms])
      (simp add: normalize_permission_config_def is_version_2_def s)
qed

theorem permission_config_roundtrip_witness:
  "normalize_permission_config ascii None [] True (config_json demo_config) = Inr demo_config"
  by (rule permission_config_roundtrip[OF demo_normalize])

text \<open>
  C12: the resolved permission. For a user who is not superadmin and a resource with a valid
  configuration, resolution always answers; the user may manage iff they created the resource or
  their role may manage and they match the manage scope and, if there is one, the read scope; they
  may read iff they created it, or their role may read and they match the read scope, or the manage scope when
  there is no read scope.
\<close>

theorem resolved_permission_spec:
  assumes "pu_role u \<noteq> Some (lit ''superadmin'')"
    and "normalize_permission_config pt None [] False (re_share_config res) = Inr c"
  shows "\<exists>p. resolve_resource_permission pt u res policy = Inr p
    \<and> (MANAGE \<le> p \<longleftrightarrow> is_owner u res \<or> MANAGE \<le> ceiling_of policy u \<and> scope_matches pt u (pc_manage_scope c)
        \<and> (pc_read_scope c = None \<or> scope_matches pt u (pc_read_scope c)))
    \<and> (READ \<le> p \<longleftrightarrow> is_owner u res \<or> READ \<le> ceiling_of policy u
        \<and> (scope_matches pt u (pc_read_scope c)
           \<or> pc_read_scope c = None \<and> scope_matches pt u (pc_manage_scope c)))"
proof -
  have "scope_matches pt u None = False" by (simp add: scope_matches_def)
  then show ?thesis
    using assms
    by (cases "ceiling_of policy u")
      (auto simp: resolve_resource_permission_def Let_def minimum_permission_def)
qed

theorem resolved_permission_spec_witness:
  "\<exists>p. resolve_resource_permission ascii (demo_member (lit ''admin'') [98] 5) demo_base
      knowledge_base_permission_policy = Inr p \<and> \<not> MANAGE \<le> p \<and> READ \<le> p"
proof -
  let ?u = "demo_member (lit ''admin'') [98] 5"
  have n: "normalize_permission_config ascii None [] False (re_share_config demo_base) = Inr demo_config"
    using demo_normalize by (simp add: demo_base_def)
  have "pu_role ?u \<noteq> Some (lit ''superadmin'')" by (simp add: demo_member_def lit_def)
  from resolved_permission_spec[OF this n, of knowledge_base_permission_policy] show ?thesis
    by (simp add: is_owner_def demo_base_def demo_member_def or_empty_def demo_config_def scope_matches_def
        ceiling_of_def knowledge_base_permission_policy_def lit_def)
qed

text \<open>
  who manages a knowledge base. A user of the role \<^verbatim>\<open>user\<close> or of an unknown role manages it
  exactly when they created it, whatever the configuration shares; sharing gives them at most the right to
  read, and requiring the right to manage is then refused.
\<close>

theorem knowledge_base_role_ceiling:
  assumes "pu_role u \<noteq> Some (lit ''superadmin'')" and "pu_role u \<noteq> Some (lit ''admin'')"
    and "normalize_permission_config pt None [] False (re_share_config res) = Inr c"
  shows "(resolve_knowledge_base_permission pt u res = Inr MANAGE \<longleftrightarrow> is_owner u res)
    \<and> (if is_owner u res then require_knowledge_base_permission pt u res MANAGE = Inr MANAGE
       else \<exists>p. p \<le> READ \<and> require_knowledge_base_permission pt u res MANAGE = Inl (Permission_denied MANAGE p))"
proof -
  have c: "ceiling_of knowledge_base_permission_policy u = READ"
    using assms(1,2) by (auto simp: ceiling_of_def knowledge_base_permission_policy_def split: option.splits)
  have "\<exists>p. resolve_knowledge_base_permission pt u res = Inr p \<and> (p = MANAGE \<longleftrightarrow> is_owner u res)"
    using assms(1,3) c
    by (auto simp: resolve_knowledge_base_permission_def resolve_resource_permission_def Let_def minimum_permission_def)
  then obtain p where p: "resolve_knowledge_base_permission pt u res = Inr p" "p = MANAGE \<longleftrightarrow> is_owner u res"
    by blast
  then show ?thesis
    by (cases p) (auto simp: require_knowledge_base_permission_def require_resource_permission_def
        less_eq_resource_permission_def)
qed

theorem knowledge_base_role_ceiling_witness:
  "resolve_knowledge_base_permission ascii (demo_member (lit ''user'') [97] 9) demo_base = Inr MANAGE
   \<and> resolve_knowledge_base_permission ascii (demo_member (lit ''user'') [98] 3) demo_base \<noteq> Inr MANAGE"
proof -
  have n: "normalize_permission_config ascii None [] False (re_share_config demo_base) = Inr demo_config"
    using demo_normalize by (simp add: demo_base_def)
  show ?thesis
    using knowledge_base_role_ceiling[OF _ _ n, of "demo_member (lit ''user'') [97] 9"]
      knowledge_base_role_ceiling[OF _ _ n, of "demo_member (lit ''user'') [98] 3"]
    by (simp add: demo_member_def lit_def is_owner_def demo_base_def or_empty_def)
qed

end
