(* ===== verification/Queue_Texts.thy ===== *)
theory Queue_Texts
  imports Yuanlei_Prelude
begin

text \<open>
  The message texts of the request queue as code points, with their meaning.
\<close>

definition queue_msg_no_request :: pystr where \<comment> \<open>no such request\<close>
  "queue_msg_no_request =
   [35831, 27714, 19981, 23384, 22312]"

definition queue_msg_not_queued :: pystr where \<comment> \<open>only a queued ordinary chat request can become a steer\<close>
  "queue_msg_not_queued =
   [21482, 26377, 26222, 36890, 32, 67, 104, 97, 116, 32, 25490, 38431, 35831, 27714, 21487,
   20197, 21319, 32423, 20026, 24341, 23548]"

definition queue_msg_steer_pending :: pystr where \<comment> \<open>the thread already has a pending steer\<close>
  "queue_msg_steer_pending =
   [32447, 31243, 24050, 26377, 31561, 24453, 25191, 34892, 30340, 24341, 23548, 35831,
   27714]"

definition queue_msg_not_steerable :: pystr where \<comment> \<open>the current run does not support steering\<close>
  "queue_msg_not_steerable =
   [24403, 21069, 36816, 34892, 19981, 25903, 25345, 24341, 23548]"

definition queue_msg_dispatched :: pystr where \<comment> \<open>the request is dispatched, cancel its run instead\<close>
  "queue_msg_dispatched =
   [35831, 27714, 24050, 27966, 21457, 65292, 35831, 36890, 36807, 32, 114, 117, 110, 32,
   21462, 28040, 25509, 21475, 21462, 28040, 27491, 22312, 36827, 34892, 30340, 36816,
   34892]"

definition queue_msg_steer_in_progress :: pystr where \<comment> \<open>the steer waits for the current run and cannot be cancelled now\<close>
  "queue_msg_steer_in_progress =
   [24341, 23548, 24050, 31561, 24453, 24403, 21069, 36816, 34892, 32467, 26463, 65292,
   26242, 26102, 19981, 33021, 21462, 28040]"

definition queue_msg_empty :: pystr where \<comment> \<open>the queue is empty\<close>
  "queue_msg_empty =
   [38431, 21015, 20026, 31354]"

definition queue_msg_run_active :: pystr where \<comment> \<open>the thread has an active run\<close>
  "queue_msg_run_active =
   [32447, 31243, 24050, 26377, 27491, 22312, 25191, 34892, 30340, 36816, 34892]"

definition queue_msg_run_interrupted :: pystr where \<comment> \<open>the thread waits for an answer or approval\<close>
  "queue_msg_run_interrupted =
   [32447, 31243, 27491, 22312, 31561, 24453, 29992, 25143, 22238, 31572, 25110, 23457,
   25209]"

definition queue_msg_not_paused :: pystr where \<comment> \<open>the queue does not need to be continued\<close>
  "queue_msg_not_paused =
   [24403, 21069, 38431, 21015, 19981, 38656, 35201, 20154, 24037, 32487, 32493]"

definition queue_msg_changed :: pystr where \<comment> \<open>the state of the queue has changed\<close>
  "queue_msg_changed =
   [24403, 21069, 38431, 21015, 29366, 24577, 24050, 21464, 21270]"

definition queue_msg_no_thread :: pystr where \<comment> \<open>no such conversation\<close>
  "queue_msg_no_thread =
   [23545, 35805, 32447, 31243, 19981, 23384, 22312]"

definition queue_msg_policy_todo :: pystr where \<comment> \<open>' is not implemented yet\<close>
  "queue_msg_policy_todo =
   [39, 32, 26242, 26410, 23454, 29616]"

definition queue_msg_policy_unknown :: pystr where \<comment> \<open>unsupported queue policy\<close>
  "queue_msg_policy_unknown =
   [19981, 25903, 25345, 30340, 32, 113, 117, 101, 117, 101, 95, 112, 111, 108, 105, 99,
   121, 58, 32]"

end
