(* ===== verification/Request_Queue.thy ===== *)
theory Request_Queue
  imports Queue_Texts Run_Repository
begin

text \<open>
  The request queue of a conversation thread: \<^verbatim>\<open>repositories/agent_run_request_repository.py\<close> and
  \<^verbatim>\<open>services/agent_request_queue_service.py\<close>.

  The queue extends the run database (\<open>queue_db\<close>) by the tables \<^verbatim>\<open>agent_run_requests\<close> and
  \<^verbatim>\<open>conversations\<close> and by the list of run ids handed to the worker queue (\<^verbatim>\<open>enqueue_agent_run\<close>).
  Every scheduling decision of a thread is made under the lock of its conversation, so one
  service call is one atomic step. Arguments stand for what other services compute by reading
  only: \<open>binding\<close> is the Workdir binding of the conversation (\<^verbatim>\<open>workdir_service\<close>), \<open>scope_key\<close> the sandbox
  scope of the dispatch (\<^verbatim>\<open>resolve_dispatch_runtime_scope\<close>); \<open>run_id\<close> is the new \<^verbatim>\<open>uuid4\<close>.
\<close>

section \<open>Data\<close>

datatype request_status = Rq_queued | Rq_dispatched | Rq_cancelled | Rq_rejected | Rq_failed

record agent_run_request =
  rq_id :: int
  rq_request_id :: pystr
  rq_uid :: pystr
  rq_agent_slug :: pystr
  rq_conversation_thread_id :: pystr
  rq_source :: pystr
  rq_channel :: pystr
  rq_external_id :: "pystr option"
  rq_origin_metadata :: json
  rq_queue_policy :: pystr
  rq_status :: request_status
  rq_input_message_id :: int
  rq_dispatched_run_id :: "pystr option"
  rq_input_payload :: json
  rq_error_message :: "pystr option"
  rq_created_at :: time
  rq_dispatched_at :: "time option"
  rq_updated_at :: time

record conversation =
  cv_id :: int
  cv_thread_id :: pystr
  cv_creation_request_id :: "pystr option"
  cv_uid :: pystr
  cv_agent_id :: pystr
  cv_title :: "pystr option"
  cv_status :: pystr
  cv_is_pinned :: bool
  cv_last_viewed_run_id :: "pystr option"
  cv_project_id :: pystr
  cv_created_at :: "time option"
  cv_updated_at :: "time option"
  cv_extra_metadata :: "json option"

record workdir_binding =
  wb_conversation_id :: int
  wb_thread_id :: pystr
  wb_uid :: pystr
  wb_project_id :: pystr
  wb_workdir_path :: pystr
  wb_directory_mode :: pystr

record queue_db = run_db +
  qd_requests :: "agent_run_request list"
  qd_conversations :: "conversation list"
  qd_delivered :: "pystr list"

datatype queue_error =
    Queue_http nat "(pystr \<times> json) list"
  | Queue_http_text nat pystr
  | Queue_run_error run_error
  | Queue_integrity_error
  | Queue_multiple_results
  | Queue_runtime_error pystr

record dispatch_result =
  ds_request_id :: pystr
  ds_run_id :: pystr
  ds_workdir_binding :: workdir_binding

section \<open>Repository\<close>

abbreviation steer :: pystr where
  "steer \<equiv> lit ''steer''"

definition get_by_request_id :: "pystr \<Rightarrow> queue_db \<Rightarrow> agent_run_request option" where
  "get_by_request_id request_id db = find (\<lambda>r. rq_request_id r = request_id) (qd_requests db)"

definition put_request :: "agent_run_request \<Rightarrow> queue_db \<Rightarrow> queue_db" where
  "put_request r db = db\<lparr>qd_requests := update_where (\<lambda>x. rq_request_id x = rq_request_id r) (\<lambda>_. r) (qd_requests db)\<rparr>"

definition request_create ::
  "int \<Rightarrow> pystr \<Rightarrow> pystr \<Rightarrow> pystr \<Rightarrow> pystr \<Rightarrow> pystr \<Rightarrow> pystr \<Rightarrow> pystr option \<Rightarrow> json option \<Rightarrow> pystr \<Rightarrow> int
   \<Rightarrow> json option \<Rightarrow> request_status \<Rightarrow> time \<Rightarrow> queue_db \<Rightarrow> queue_error + queue_db \<times> agent_run_request" where
  "request_create new_id request_id uid agent_slug thread_id source channel external_id origin_metadata
     queue_policy input_message_id input_payload status clk db =
     (let row = \<lparr>rq_id = new_id, rq_request_id = request_id, rq_uid = uid, rq_agent_slug = agent_slug,
            rq_conversation_thread_id = thread_id, rq_source = source, rq_channel = channel,
            rq_external_id = external_id, rq_origin_metadata = or_obj origin_metadata,
            rq_queue_policy = queue_policy, rq_status = status, rq_input_message_id = input_message_id,
            rq_dispatched_run_id = None, rq_input_payload = or_obj input_payload, rq_error_message = None,
            rq_created_at = clk, rq_dispatched_at = None, rq_updated_at = clk\<rparr>
      in if new_id \<in> set (map rq_id (qd_requests db)) \<or> request_id \<in> set (map rq_request_id (qd_requests db))
            \<or> input_message_id \<notin> set (map ms_id (db_messages db))
         then Inl Queue_integrity_error
         else Inr (db\<lparr>qd_requests := qd_requests db @ [row]\<rparr>, row))"

definition in_thread :: "pystr \<Rightarrow> pystr \<Rightarrow> pystr \<Rightarrow> agent_run_request \<Rightarrow> bool" where
  "in_thread uid agent_slug thread_id r \<longleftrightarrow>
     rq_uid r = uid \<and> rq_agent_slug r = agent_slug \<and> rq_conversation_thread_id r = thread_id \<and> rq_status r = Rq_queued"

text \<open>\<^verbatim>\<open>ORDER BY queue_policy <> 'steer', created_at, id\<close>\<close>

definition queue_key :: "agent_run_request \<Rightarrow> bool \<times> time \<times> int" where
  "queue_key r = (rq_queue_policy r \<noteq> steer, rq_created_at r, rq_id r)"

definition queued_for_thread :: "pystr \<Rightarrow> pystr \<Rightarrow> pystr \<Rightarrow> queue_db \<Rightarrow> agent_run_request list" where
  "queued_for_thread uid agent_slug thread_id db =
     sort_key queue_key (filter (in_thread uid agent_slug thread_id) (qd_requests db))"

text \<open>\<^verbatim>\<open>scalar_one_or_none\<close> raises on more than one row.\<close>

definition get_pending_steer :: "pystr \<Rightarrow> pystr \<Rightarrow> pystr \<Rightarrow> queue_db \<Rightarrow> queue_error + agent_run_request option" where
  "get_pending_steer uid agent_slug thread_id db =
     (case filter (\<lambda>r. in_thread uid agent_slug thread_id r \<and> rq_queue_policy r = steer) (qd_requests db) of
        [] \<Rightarrow> Inr None | [r] \<Rightarrow> Inr (Some r) | _ \<Rightarrow> Inl Queue_multiple_results)"

definition get_queue_head :: "pystr \<Rightarrow> pystr \<Rightarrow> pystr \<Rightarrow> queue_db \<Rightarrow> agent_run_request option" where
  "get_queue_head uid agent_slug thread_id db = first_row (queued_for_thread uid agent_slug thread_id db)"

definition list_queued :: "pystr \<Rightarrow> pystr \<Rightarrow> pystr \<Rightarrow> queue_db \<Rightarrow> agent_run_request list" where
  "list_queued uid agent_slug thread_id db = queued_for_thread uid agent_slug thread_id db"

text \<open>
  The comparison \<^verbatim>\<open>(AgentRunRequest.created_at, AgentRunRequest.id) < (request.created_at, request.id)\<close>
  is Python's comparison of two tuples, evaluated before any SQL is made: the first elements (a column and a
  value) are not equal objects, so the result is the SQL expression of their comparison alone,
  \<^verbatim>\<open>created_at < :created_at\<close>; the ids are never compared.
\<close>

definition ahead_of :: "agent_run_request \<Rightarrow> agent_run_request \<Rightarrow> bool" where
  "ahead_of request r \<longleftrightarrow> rq_queue_policy r = steer
     \<or> rq_queue_policy r \<noteq> steer \<and> rq_created_at r < rq_created_at request"

definition get_queue_position_for :: "agent_run_request \<Rightarrow> queue_db \<Rightarrow> nat" where
  "get_queue_position_for request db =
     (if rq_status request \<noteq> Rq_queued then 0
      else if rq_queue_policy request = steer then 1
      else length (filter (\<lambda>r. in_thread (rq_uid request) (rq_agent_slug request) (rq_conversation_thread_id request) r
                     \<and> ahead_of request r) (qd_requests db)) + 1)"

definition get_queue_position :: "pystr \<Rightarrow> queue_db \<Rightarrow> nat" where
  "get_queue_position request_id db =
     (case get_by_request_id request_id db of None \<Rightarrow> 0 | Some r \<Rightarrow> get_queue_position_for r db)"

definition mark_dispatched ::
  "pystr \<Rightarrow> pystr \<Rightarrow> time \<Rightarrow> queue_db \<Rightarrow> queue_db \<times> agent_run_request option" where
  "mark_dispatched request_id run_id now db =
     (case get_by_request_id request_id db of
        None \<Rightarrow> (db, None)
      | Some r \<Rightarrow>
          if rq_status r \<noteq> Rq_queued then (db, None)
          else
            let r' = r\<lparr>rq_status := Rq_dispatched, rq_dispatched_run_id := Some run_id,
                  rq_dispatched_at := Some now, rq_updated_at := now\<rparr>
            in (put_request r' db, Some r'))"

section \<open>Run scopes\<close>

definition scope_get :: "pystr \<Rightarrow> 'x rdb \<Rightarrow> agent_run_scope option" where
  "scope_get run_id db = find (\<lambda>s. rs_run_id s = run_id) (db_scopes db)"

definition scope_upsert :: "pystr \<Rightarrow> pystr \<Rightarrow> time \<Rightarrow> 'x rdb \<Rightarrow> 'x rdb" where
  "scope_upsert run_id scope_key now db =
     (case scope_get run_id db of
        None \<Rightarrow> db\<lparr>db_scopes := db_scopes db @ [\<lparr>rs_run_id = run_id, rs_scope_key = scope_key, rs_created_at = now\<rparr>]\<rparr>
      | Some s \<Rightarrow> db\<lparr>db_scopes := update_where (\<lambda>x. rs_run_id x = run_id) (\<lambda>x. x\<lparr>rs_scope_key := scope_key\<rparr>) (db_scopes db)\<rparr>)"

definition bind_run_scope :: "pystr \<Rightarrow> pystr \<Rightarrow> pystr \<Rightarrow> time \<Rightarrow> 'x rdb \<Rightarrow> 'x rdb" where
  "bind_run_scope run_id scope_key thread_id now db =
     (let key = py_strip scope_key; thread = py_strip thread_id
      in if key = [] \<or> key = thread then db else scope_upsert run_id key now db)"

definition resolve_run_scope_key :: "agent_run option \<Rightarrow> 'x rdb \<Rightarrow> pystr" where
  "resolve_run_scope_key run db =
     (case run of
        None \<Rightarrow> []
      | Some r \<Rightarrow>
          let fallback = (if ar_runtime_scope_id r \<noteq> [] then ar_runtime_scope_id r else ar_conversation_thread_id r)
          in if ar_id r = [] then fallback
             else (case scope_get (ar_id r) db of
                     None \<Rightarrow> fallback
                   | Some s \<Rightarrow> if rs_scope_key s \<noteq> [] then rs_scope_key s else fallback))"

definition inherit_run_scope :: "agent_run option \<Rightarrow> pystr \<Rightarrow> pystr \<Rightarrow> time \<Rightarrow> 'x rdb \<Rightarrow> 'x rdb" where
  "inherit_run_scope parent_run child_run_id child_thread_id now db =
     bind_run_scope child_run_id (resolve_run_scope_key parent_run db) child_thread_id now db"

section \<open>State of a queue\<close>

definition queue_conflict :: "string \<Rightarrow> pystr \<Rightarrow> queue_error" where
  "queue_conflict code message =
     Queue_http 409 [(lit ''code'', JStr (lit code)), (lit ''message'', JStr message)]"

definition request_not_found :: queue_error where
  "request_not_found =
     Queue_http 404 [(lit ''code'', JStr (lit ''request_not_found'')), (lit ''message'', JStr queue_msg_no_request)]"

definition validate_queue_policy :: "pystr \<Rightarrow> queue_error + pystr" where
  "validate_queue_policy queue_policy =
     (if queue_policy = lit ''guided'' \<or> queue_policy = lit ''bridge''
      then Inl (Queue_http_text 422 (lit ''queue_policy '' @ [39] @ queue_policy @ queue_msg_policy_todo))
      else if queue_policy \<noteq> lit ''enqueue'' \<and> queue_policy \<noteq> lit ''reject'' \<and> queue_policy \<noteq> steer
      then Inl (Queue_http_text 422 (queue_msg_policy_unknown @ queue_policy))
      else Inr queue_policy)"

fun request_terminal :: "request_status \<Rightarrow> bool" where
  "request_terminal Rq_cancelled = True"
| "request_terminal Rq_rejected = True"
| "request_terminal Rq_failed = True"
| "request_terminal _ = False"

definition is_steerable_message_run :: "agent_run \<Rightarrow> queue_db \<Rightarrow> bool" where
  "is_steerable_message_run run db =
     (if ar_status run \<noteq> Running \<or> ar_run_type run \<noteq> Chat then False
      else case get_by_request_id (ar_request_id run) db of
        None \<Rightarrow> False | Some r \<Rightarrow> rq_source r = lit ''chat'' \<or> rq_source r = lit ''channel'')"

definition conversation_matches :: "conversation option \<Rightarrow> pystr \<Rightarrow> pystr \<Rightarrow> bool" where
  "conversation_matches c uid agent_slug =
     (case c of None \<Rightarrow> False
      | Some v \<Rightarrow> cv_uid v = uid \<and> cv_status v \<noteq> lit ''deleted'' \<and> cv_agent_id v = agent_slug)"

definition get_conversation_by_thread_id :: "pystr \<Rightarrow> queue_db \<Rightarrow> conversation option" where
  "get_conversation_by_thread_id thread_id db = find (\<lambda>c. cv_thread_id c = thread_id) (qd_conversations db)"

definition get_thread_conversation :: "pystr \<Rightarrow> pystr \<Rightarrow> pystr \<Rightarrow> queue_db \<Rightarrow> queue_error + conversation" where
  "get_thread_conversation uid agent_slug thread_id db =
     (case get_conversation_by_thread_id thread_id db of
        None \<Rightarrow> Inl (Queue_http_text 404 queue_msg_no_thread)
      | Some c \<Rightarrow> if conversation_matches (Some c) uid agent_slug then Inr c
                  else Inl (Queue_http_text 404 queue_msg_no_thread))"

datatype queue_state = Queue_idle | Queue_running | Queue_interrupted | Queue_paused | Queue_ready

record queue_metadata =
  qm_paused_reason :: "run_status option"
  qm_blocking_run_id :: "pystr option"
  qm_can_continue :: bool

definition plain_metadata :: queue_metadata where
  "plain_metadata = \<lparr>qm_paused_reason = None, qm_blocking_run_id = None, qm_can_continue = False\<rparr>"

definition get_queue_state ::
  "pystr \<Rightarrow> pystr \<Rightarrow> pystr \<Rightarrow> agent_run_request option \<Rightarrow> queue_db \<Rightarrow> queue_error + queue_state \<times> queue_metadata" where
  "get_queue_state uid agent_slug thread_id head db =
     (case head of
        None \<Rightarrow> Inr (Queue_idle, plain_metadata)
      | Some h \<Rightarrow>
          if get_active_run_by_runtime_scope_for_user thread_id uid db \<noteq> None then Inr (Queue_running, plain_metadata)
          else
            (case get_latest_chat_or_resume_run uid agent_slug thread_id db of
               None \<Rightarrow> Inr (Queue_ready, plain_metadata)
             | Some run \<Rightarrow>
                 if ar_status run = Interrupted
                 then Inr (Queue_interrupted, plain_metadata\<lparr>qm_blocking_run_id := Some (ar_id run)\<rparr>)
                 else if ar_status run = Failed \<or> ar_status run = Cancelled
                 then
                   (case ar_finished_at run of
                      None \<Rightarrow> Inl (Queue_runtime_error (ar_id run))
                    | Some t \<Rightarrow>
                        if rq_created_at h \<le> t
                        then Inr (Queue_paused, \<lparr>qm_paused_reason = Some (ar_status run),
                               qm_blocking_run_id = Some (ar_id run), qm_can_continue = True\<rparr>)
                        else Inr (Queue_ready, plain_metadata))
                 else Inr (Queue_ready, plain_metadata)))"

section \<open>Dispatch\<close>

text \<open>
  Everything between \<^verbatim>\<open>begin_nested\<close> and its end is rolled back when the index \<^verbatim>\<open>uq_agent_runs_one_active_per_thread\<close>
  refuses the run; any other integrity error propagates.
\<close>

definition attach_input_message :: "int \<Rightarrow> pystr \<Rightarrow> queue_db \<Rightarrow> queue_db" where
  "attach_input_message message_id run_id db =
     db\<lparr>db_messages := update_where (\<lambda>m. ms_id m = message_id)
          (\<lambda>m. m\<lparr>ms_run_id := Some run_id, ms_delivery_status := Delivery_dispatched\<rparr>) (db_messages db)\<rparr>"

definition dispatch_locked_head ::
  "agent_run_request \<Rightarrow> workdir_binding \<Rightarrow> pystr \<Rightarrow> pystr \<Rightarrow> time \<Rightarrow> time \<Rightarrow> queue_db
   \<Rightarrow> queue_error + queue_db \<times> dispatch_result option" where
  "dispatch_locked_head head binding scope_key run_id clk now db =
     (case create_run run_id (rq_conversation_thread_id head) (Some (rq_conversation_thread_id head))
             (rq_agent_slug head) (rq_uid head) (rq_request_id head) (rq_input_payload head) (rq_source head)
             (rq_channel head) (rq_external_id head) (Some (rq_origin_metadata head))
             (Some (wb_conversation_id binding)) None None Chat (Some (rq_input_message_id head)) clk db of
        Inl e \<Rightarrow>
          if e = Integrity_error Uq_agent_runs_one_active_per_thread then Inr (db, None)
          else Inl (Queue_run_error e)
      | Inr (db1, run) \<Rightarrow>
          let db2 = bind_run_scope run_id scope_key (rq_conversation_thread_id head) clk db1;
              db3 = attach_input_message (rq_input_message_id head) run_id db2
          in case mark_dispatched (rq_request_id head) run_id now db3 of
               (db4, _) \<Rightarrow>
                 Inr (db4, Some \<lparr>ds_request_id = rq_request_id head, ds_run_id = run_id, ds_workdir_binding = binding\<rparr>))"

definition dispatch_ready_head ::
  "pystr \<Rightarrow> pystr \<Rightarrow> pystr \<Rightarrow> workdir_binding \<Rightarrow> pystr option \<Rightarrow> pystr \<Rightarrow> pystr \<Rightarrow> time \<Rightarrow> time \<Rightarrow> queue_db
   \<Rightarrow> queue_error + queue_db \<times> dispatch_result option" where
  "dispatch_ready_head uid agent_slug thread_id binding expected_request_id scope_key run_id clk now db =
     (case get_queue_head uid agent_slug thread_id db of
        None \<Rightarrow> Inr (db, None)
      | Some head \<Rightarrow>
          if (case expected_request_id of None \<Rightarrow> False | Some e \<Rightarrow> rq_request_id head \<noteq> e) then Inr (db, None)
          else
            (case get_queue_state uid agent_slug thread_id (Some head) db of
               Inl e \<Rightarrow> Inl e
             | Inr (status, _) \<Rightarrow>
                 if status \<noteq> Queue_ready then Inr (db, None)
                 else dispatch_locked_head head binding scope_key run_id clk now db))"

definition enqueue_agent_run :: "pystr \<Rightarrow> queue_db \<Rightarrow> queue_db" where
  "enqueue_agent_run run_id db = db\<lparr>qd_delivered := qd_delivered db @ [run_id]\<rparr>"

definition finalize_dispatch :: "dispatch_result \<Rightarrow> queue_db \<Rightarrow> queue_db" where
  "finalize_dispatch dispatch db = enqueue_agent_run (ds_run_id dispatch) db"

text \<open>
  \<open>dispatch_next_tx\<close> is the transaction of \<^verbatim>\<open>dispatch_next_request\<close>; \<open>binding\<close> is \<open>Inl\<close> when the Workdir of
  the conversation cannot be resolved. The delivery happens after the commit, so a crash in
  between loses it; \<^verbatim>\<open>recover_pending_dispatches\<close> repeats it.
\<close>

definition dispatch_next_tx ::
  "pystr \<Rightarrow> pystr \<Rightarrow> pystr \<Rightarrow> queue_error + workdir_binding \<Rightarrow> pystr \<Rightarrow> pystr \<Rightarrow> time \<Rightarrow> time \<Rightarrow> queue_db
   \<Rightarrow> queue_error + queue_db \<times> pystr option" where
  "dispatch_next_tx uid agent_slug thread_id binding scope_key run_id clk now db =
     (if \<not> conversation_matches (get_conversation_by_thread_id thread_id db) uid agent_slug then Inr (db, None)
      else
        (case binding of
           Inl e \<Rightarrow> Inl e
         | Inr b \<Rightarrow>
             (case get_active_run_by_thread_for_user agent_slug thread_id uid db of
                Some active \<Rightarrow> Inr (db, if ar_status active = Pending then Some (ar_id active) else None)
              | None \<Rightarrow>
                  (case dispatch_ready_head uid agent_slug thread_id b None scope_key run_id clk now db of
                     Inl e \<Rightarrow> Inl e
                   | Inr (db', d) \<Rightarrow> Inr (db', map_option ds_run_id d)))))"

definition dispatch_next_request ::
  "pystr \<Rightarrow> pystr \<Rightarrow> pystr \<Rightarrow> queue_error + workdir_binding \<Rightarrow> pystr \<Rightarrow> pystr \<Rightarrow> time \<Rightarrow> time \<Rightarrow> queue_db
   \<Rightarrow> queue_error + queue_db \<times> pystr option" where
  "dispatch_next_request uid agent_slug thread_id binding scope_key run_id clk now db =
     (case dispatch_next_tx uid agent_slug thread_id binding scope_key run_id clk now db of
        Inl e \<Rightarrow> Inl e
      | Inr (db', None) \<Rightarrow> Inr (db', None)
      | Inr (db', Some r) \<Rightarrow> Inr (if r = [] then (db', None) else (enqueue_agent_run r db', Some r)))"

text \<open>
  \<^verbatim>\<open>recover_pending_dispatches\<close> dispatches the scopes with a pending run or a queued request. It runs
  them concurrently; \<open>order\<close> is the order in which their transactions commit, \<open>env\<close> gives the
  arguments of each, and a failed dispatch is only logged.
\<close>

definition pending_scopes :: "queue_db \<Rightarrow> (pystr \<times> pystr \<times> pystr) list" where
  "pending_scopes db = remdups
     (map (\<lambda>r. (ar_uid r, ar_agent_slug r, ar_conversation_thread_id r)) (filter (\<lambda>r. ar_status r = Pending) (db_runs db))
      @ map (\<lambda>r. (rq_uid r, rq_agent_slug r, rq_conversation_thread_id r)) (filter (\<lambda>r. rq_status r = Rq_queued) (qd_requests db)))"

fun recover_dispatches ::
  "(pystr \<times> pystr \<times> pystr \<Rightarrow> (queue_error + workdir_binding) \<times> pystr \<times> pystr \<times> time \<times> time)
   \<Rightarrow> (pystr \<times> pystr \<times> pystr) list \<Rightarrow> queue_db \<Rightarrow> queue_db" where
  "recover_dispatches env [] db = db"
| "recover_dispatches env ((uid, agent_slug, thread_id) # order) db =
     (case env (uid, agent_slug, thread_id) of
        (binding, scope_key, run_id, clk, now) \<Rightarrow>
          (case dispatch_next_request uid agent_slug thread_id binding scope_key run_id clk now db of
             Inl e \<Rightarrow> recover_dispatches env order db
           | Inr (db', _) \<Rightarrow> recover_dispatches env order db'))"

section \<open>Requests of the user\<close>

definition steer_queued_request ::
  "pystr \<Rightarrow> pystr \<Rightarrow> time \<Rightarrow> queue_db \<Rightarrow> queue_error + queue_db \<times> agent_run_request" where
  "steer_queued_request request_id current_uid now db =
     (case get_by_request_id request_id db of
        None \<Rightarrow> Inl request_not_found
      | Some r \<Rightarrow>
          if rq_uid r \<noteq> current_uid then Inl request_not_found
          else
            (case get_thread_conversation (rq_uid r) (rq_agent_slug r) (rq_conversation_thread_id r) db of
               Inl e \<Rightarrow> Inl e
             | Inr _ \<Rightarrow>
                 if rq_queue_policy r = steer \<and> rq_status r = Rq_queued then Inr (db, r)
                 else if rq_status r \<noteq> Rq_queued \<or> rq_queue_policy r \<noteq> lit ''enqueue'' \<or> rq_source r \<noteq> lit ''chat''
                 then Inl (queue_conflict ''request_not_queued'' queue_msg_not_queued)
                 else
                   (case get_pending_steer (rq_uid r) (rq_agent_slug r) (rq_conversation_thread_id r) db of
                      Inl e \<Rightarrow> Inl e
                    | Inr p \<Rightarrow>
                        if (case p of None \<Rightarrow> False | Some x \<Rightarrow> rq_request_id x \<noteq> request_id)
                        then Inl (queue_conflict ''steer_already_pending'' queue_msg_steer_pending)
                        else
                          (case get_active_run_by_thread_for_user (rq_agent_slug r) (rq_conversation_thread_id r) (rq_uid r) db of
                             None \<Rightarrow> Inl (queue_conflict ''run_not_steerable'' queue_msg_not_steerable)
                           | Some run \<Rightarrow>
                               if \<not> is_steerable_message_run run db
                               then Inl (queue_conflict ''run_not_steerable'' queue_msg_not_steerable)
                               else
                                 let r' = r\<lparr>rq_queue_policy := steer, rq_updated_at := now\<rparr>
                                 in Inr (put_request r' db, r')))))"

definition should_end_run_for_steer :: "pystr \<Rightarrow> queue_db \<Rightarrow> queue_error + bool" where
  "should_end_run_for_steer run_id db =
     (case get_run run_id db of
        None \<Rightarrow> Inr False
      | Some run \<Rightarrow>
          if \<not> is_steerable_message_run run db then Inr False
          else
            (case get_pending_steer (ar_uid run) (ar_agent_slug run) (ar_conversation_thread_id run) db of
               Inl e \<Rightarrow> Inl e | Inr p \<Rightarrow> Inr (p \<noteq> None)))"

definition cancel_queued_request ::
  "pystr \<Rightarrow> pystr \<Rightarrow> time \<Rightarrow> queue_db \<Rightarrow> queue_error + queue_db \<times> request_status" where
  "cancel_queued_request request_id current_uid now db =
     (case get_by_request_id request_id db of
        None \<Rightarrow> Inl (Queue_http_text 404 queue_msg_no_request)
      | Some r \<Rightarrow>
          if rq_uid r \<noteq> current_uid then Inl (Queue_http_text 404 queue_msg_no_request)
          else
            (case get_thread_conversation (rq_uid r) (rq_agent_slug r) (rq_conversation_thread_id r) db of
               Inl e \<Rightarrow> Inl e
             | Inr _ \<Rightarrow>
                 if rq_status r = Rq_dispatched
                 then Inl (Queue_http 409 [(lit ''code'', JStr (lit ''request_already_dispatched'')),
                        (lit ''message'', JStr queue_msg_dispatched),
                        (lit ''run_id'', case rq_dispatched_run_id r of None \<Rightarrow> JNull | Some i \<Rightarrow> JStr i)])
                 else if request_terminal (rq_status r) then Inr (db, rq_status r)
                 else if rq_queue_policy r = steer
                    \<and> get_active_run_by_thread_for_user (rq_agent_slug r) (rq_conversation_thread_id r) (rq_uid r) db \<noteq> None
                 then Inl (queue_conflict ''steer_in_progress'' queue_msg_steer_in_progress)
                 else Inr (put_request (r\<lparr>rq_status := Rq_cancelled, rq_updated_at := now\<rparr>) db, Rq_cancelled)))"

definition get_request :: "pystr \<Rightarrow> pystr \<Rightarrow> queue_db \<Rightarrow> agent_run_request option" where
  "get_request request_id uid db =
     (case get_by_request_id request_id db of
        None \<Rightarrow> None | Some r \<Rightarrow> if rq_uid r \<noteq> uid then None else Some r)"

text \<open>A snapshot lists each queued request with the content of its message and its place in the list.\<close>

definition get_thread_queue_snapshot ::
  "pystr \<Rightarrow> pystr \<Rightarrow> pystr \<Rightarrow> queue_db
   \<Rightarrow> queue_error + (agent_run_request \<times> pystr \<times> nat) list \<times> queue_state \<times> queue_metadata" where
  "get_thread_queue_snapshot uid agent_slug thread_id db =
     (case get_thread_conversation uid agent_slug thread_id db of
        Inl e \<Rightarrow> Inl e
      | Inr _ \<Rightarrow>
          let items = list_queued uid agent_slug thread_id db;
              content = (\<lambda>i. case find (\<lambda>m. ms_id m = i) (db_messages db) of None \<Rightarrow> [] | Some m \<Rightarrow> ms_content m);
              requests = map (\<lambda>(r, k). (r, content (rq_input_message_id r), k)) (zip items [1..<length items + 1])
          in case get_queue_state uid agent_slug thread_id (first_row items) db of
               Inl e \<Rightarrow> Inl e | Inr q \<Rightarrow> Inr (requests, q))"

definition continue_thread_queue ::
  "pystr \<Rightarrow> pystr \<Rightarrow> pystr \<Rightarrow> queue_error + workdir_binding \<Rightarrow> pystr \<Rightarrow> pystr \<Rightarrow> time \<Rightarrow> time \<Rightarrow> queue_db
   \<Rightarrow> queue_error + queue_db \<times> dispatch_result" where
  "continue_thread_queue uid agent_slug thread_id binding scope_key run_id clk now db =
     (case get_thread_conversation uid agent_slug thread_id db of
        Inl e \<Rightarrow> Inl e
      | Inr _ \<Rightarrow>
          (case get_queue_head uid agent_slug thread_id db of
             None \<Rightarrow> Inl (queue_conflict ''queue_empty'' queue_msg_empty)
           | Some head \<Rightarrow>
               (case get_queue_state uid agent_slug thread_id (Some head) db of
                  Inl e \<Rightarrow> Inl e
                | Inr (status, _) \<Rightarrow>
                    if status = Queue_running then Inl (queue_conflict ''run_active'' queue_msg_run_active)
                    else if status = Queue_interrupted
                    then Inl (queue_conflict ''run_interrupted'' queue_msg_run_interrupted)
                    else if status \<noteq> Queue_paused then Inl (queue_conflict ''queue_not_paused'' queue_msg_not_paused)
                    else
                      (case binding of
                         Inl e \<Rightarrow> Inl e
                       | Inr b \<Rightarrow>
                           (case dispatch_locked_head head b scope_key run_id clk now db of
                              Inl e \<Rightarrow> Inl e
                            | Inr (db', Some d) \<Rightarrow> Inr (db', d)
                            | Inr (db', None) \<Rightarrow>
                                if get_active_run_by_thread_for_user agent_slug thread_id uid db' \<noteq> None
                                then Inl (queue_conflict ''run_active'' queue_msg_run_active)
                                else Inl (queue_conflict ''queue_not_paused'' queue_msg_changed))))))"


section \<open>Following a request\<close>

datatype request_event =
    Ev_error pystr
  | Ev_run_created pystr "pystr option"
  | Ev_status pystr request_status
  | Ev_position pystr nat

text \<open>
  One round of \<^verbatim>\<open>stream_request_events\<close>: the events sent, the position last sent (initially \<^verbatim>\<open>-1\<close>) and
  whether the stream ends.
\<close>

definition stream_request_round :: "pystr \<Rightarrow> pystr \<Rightarrow> int \<Rightarrow> queue_db \<Rightarrow> request_event list \<times> int \<times> bool" where
  "stream_request_round request_id uid last_position db =
     (case get_by_request_id request_id db of
        None \<Rightarrow> ([Ev_error request_id], last_position, True)
      | Some r \<Rightarrow>
          if rq_uid r \<noteq> uid then ([Ev_error request_id], last_position, True)
          else if rq_status r = Rq_dispatched then ([Ev_run_created request_id (rq_dispatched_run_id r)], last_position, True)
          else if request_terminal (rq_status r) then ([Ev_status request_id (rq_status r)], last_position, True)
          else
            let position = get_queue_position_for r db
            in if int position \<noteq> last_position then ([Ev_position request_id position], int position, False)
               else ([], last_position, False))"

end
