(* ===== verification/Queue_Invariant.thy ===== *)
theory Queue_Invariant
  imports Request_Queue
begin

text \<open>
  Steps and invariant of the request queue. \<open>queue_step\<close> has one rule per state-changing service call,
  a rule for the submission of a request and a rule for what the rest of the system does: runs
  are added and change (never their id or request id), and no other component makes a run for a
  queued request. Submission (\<^verbatim>\<open>agent_request_service\<close>, theory \<open>Submission\<close>) is made of \<open>submit\<close> (a new request is not
  dispatched, has no run yet, and is a queued steer only where the thread has none), \<open>dispatch_head\<close> and \<open>withdraw\<close>.
\<close>

section \<open>Lookup\<close>

lemma get_by_request_id_in: "get_by_request_id i db = Some r \<Longrightarrow> r \<in> set (qd_requests db) \<and> rq_request_id r = i"
  by (auto simp: get_by_request_id_def dest: find_Some_in)

lemma put_request_fields [simp]:
  "db_runs (put_request r db) = db_runs db" "qd_conversations (put_request r db) = qd_conversations db"
  "qd_delivered (put_request r db) = qd_delivered db" "db_messages (put_request r db) = db_messages db"
  by (simp_all add: put_request_def)

lemma bind_scope_fields [simp]:
  "db_runs (bind_run_scope i k t now db) = db_runs db"
  "qd_requests (bind_run_scope i k t now db) = qd_requests db"
  "qd_delivered (bind_run_scope i k t now db) = qd_delivered db"
  "qd_conversations (bind_run_scope i k t now db) = qd_conversations db"
  by (simp_all add: bind_run_scope_def scope_upsert_def Let_def split: option.splits)

lemma attach_fields [simp]:
  "db_runs (attach_input_message m i db) = db_runs db" "qd_requests (attach_input_message m i db) = qd_requests db"
  "qd_delivered (attach_input_message m i db) = qd_delivered db"
  "qd_conversations (attach_input_message m i db) = qd_conversations db"
  by (simp_all add: attach_input_message_def)

lemma queue_head_in:
  "get_queue_head u a t db = Some h \<Longrightarrow> h \<in> set (qd_requests db) \<and> in_thread u a t h"
  by (auto simp: get_queue_head_def queued_for_thread_def dest!: first_row_Some_in)

lemma queue_head_least:
  assumes "get_queue_head u a t db = Some h" and "r \<in> set (qd_requests db)" and "in_thread u a t r"
  shows "queue_key h \<le> queue_key r"
proof -
  let ?q = "queued_for_thread u a t db"
  have "r \<in> set ?q" using assms(2,3) by (simp add: queued_for_thread_def)
  moreover have "sorted (map queue_key ?q)" by (simp add: queued_for_thread_def)
  ultimately show ?thesis using assms(1) by (cases ?q) (auto simp: get_queue_head_def first_row_def)
qed

section \<open>Steps\<close>

definition dispatched_row :: "pystr \<Rightarrow> time \<Rightarrow> agent_run_request \<Rightarrow> agent_run_request" where
  "dispatched_row run_id now r = r\<lparr>rq_status := Rq_dispatched, rq_dispatched_run_id := Some run_id,
     rq_dispatched_at := Some now, rq_updated_at := now\<rparr>"

definition run_ids_kept :: "agent_run \<Rightarrow> agent_run \<Rightarrow> bool" where
  "run_ids_kept a b \<longleftrightarrow> ar_id b = ar_id a \<and> ar_request_id b = ar_request_id a"

inductive queue_step :: "queue_db \<Rightarrow> queue_db \<Rightarrow> bool" where
  submit: "\<lbrakk>request_create i rid u a t src ch ext om policy m payload status clk db = Inr (db', r);
     status \<noteq> Rq_dispatched; rid \<notin> ar_request_id ` set (db_runs db);
     policy = steer \<and> status = Rq_queued \<longrightarrow> get_pending_steer u a t db = Inr None\<rbrakk> \<Longrightarrow> queue_step db db'"
| dispatch: "dispatch_next_tx u a t b k run_id clk now db = Inr (db', x) \<Longrightarrow> queue_step db db'"
| continue_queue: "continue_thread_queue u a t b k run_id clk now db = Inr (db', d) \<Longrightarrow> queue_step db db'"
| steer_request: "steer_queued_request rid u now db = Inr (db', r) \<Longrightarrow> queue_step db db'"
| cancel: "cancel_queued_request rid u now db = Inr (db', st) \<Longrightarrow> queue_step db db'"
| dispatch_head: "dispatch_ready_head u a t b e k run_id clk now db = Inr (db', x) \<Longrightarrow> queue_step db db'"
| withdraw: "\<lbrakk>get_by_request_id rid db = Some r; rq_status r = Rq_queued;
     db' = put_request (r\<lparr>rq_status := Rq_rejected, rq_input_payload := payload, rq_updated_at := now\<rparr>) db\<rbrakk> \<Longrightarrow> queue_step db db'"
| deliver: "queue_step db (enqueue_agent_run i db)"
| others: "\<lbrakk>qd_requests db' = qd_requests db; evolves run_ids_kept (db_runs db) (db_runs db');
     distinct (map ar_id (db_runs db')); one_active_per_thread (db_runs db');
     \<forall>r\<in>set (qd_requests db). rq_status r = Rq_queued \<longrightarrow> rq_request_id r \<notin> ar_request_id ` set (db_runs db')\<rbrakk>
     \<Longrightarrow> queue_step db db'"

section \<open>Invariant\<close>

definition thread_key :: "agent_run_request \<Rightarrow> pystr \<times> pystr \<times> pystr" where
  "thread_key r = (rq_uid r, rq_agent_slug r, rq_conversation_thread_id r)"

definition pending_steer :: "agent_run_request \<Rightarrow> bool" where
  "pending_steer r \<longleftrightarrow> rq_status r = Rq_queued \<and> rq_queue_policy r = steer"

definition has_run :: "agent_run_request \<Rightarrow> agent_run list \<Rightarrow> bool" where
  "has_run r runs \<longleftrightarrow> (\<exists>run\<in>set runs. rq_dispatched_run_id r = Some (ar_id run) \<and> ar_request_id run = rq_request_id r)"

definition request_ok :: "agent_run list \<Rightarrow> agent_run_request \<Rightarrow> bool" where
  "request_ok runs r \<longleftrightarrow>
     (if rq_status r = Rq_dispatched then has_run r runs else rq_dispatched_run_id r = None)
     \<and> (rq_status r = Rq_queued \<longrightarrow> rq_request_id r \<notin> ar_request_id ` set runs)"

definition queue_inv :: "queue_db \<Rightarrow> bool" where
  "queue_inv db \<longleftrightarrow> distinct (map rq_request_id (qd_requests db)) \<and> distinct (map rq_id (qd_requests db))
     \<and> (\<forall>r\<in>set (qd_requests db). request_ok (db_runs db) r)
     \<and> distinct (map thread_key (filter pending_steer (qd_requests db)))
     \<and> distinct (map ar_id (db_runs db)) \<and> one_active_per_thread (db_runs db)"

text \<open>What a request keeps; one that is no longer queued is frozen.\<close>

definition request_keeps :: "agent_run_request \<Rightarrow> agent_run_request \<Rightarrow> bool" where
  "request_keeps r r' \<longleftrightarrow> rq_id r' = rq_id r \<and> rq_request_id r' = rq_request_id r \<and> thread_key r' = thread_key r
     \<and> rq_created_at r' = rq_created_at r \<and> rq_input_message_id r' = rq_input_message_id r
     \<and> (rq_status r \<noteq> Rq_queued \<longrightarrow> r' = r) \<and> (pending_steer r \<and> rq_status r' = Rq_queued \<longrightarrow> r' = r)"

definition queue_rel :: "queue_db \<Rightarrow> queue_db \<Rightarrow> bool" where
  "queue_rel db db' \<longleftrightarrow> evolves request_keeps (qd_requests db) (qd_requests db')
     \<and> evolves run_ids_kept (db_runs db) (db_runs db')"

definition queue_start :: "queue_db \<Rightarrow> bool" where
  "queue_start db \<longleftrightarrow> qd_requests db = [] \<and> distinct (map ar_id (db_runs db)) \<and> one_active_per_thread (db_runs db)"

lemma request_keeps_refl [simp]: "request_keeps r r"
  by (simp add: request_keeps_def)

lemma request_keeps_trans: "request_keeps a b \<Longrightarrow> request_keeps b c \<Longrightarrow> request_keeps a c"
  by (auto simp: request_keeps_def pending_steer_def)

lemma run_ids_kept_refl [simp]: "run_ids_kept r r"
  by (simp add: run_ids_kept_def)

lemma queue_rel_refl: "queue_rel db db"
  by (simp add: queue_rel_def evolves_refl)

lemma queue_rel_trans: "queue_rel a b \<Longrightarrow> queue_rel b c \<Longrightarrow> queue_rel a c"
  unfolding queue_rel_def
  by (elim conjE, intro conjI)
    (erule (1) evolves_trans, (erule (1) request_keeps_trans | simp add: run_ids_kept_def))+

section \<open>The kinds of change\<close>

text \<open>A change of one queued request, with the runs it appends.\<close>

definition request_change :: "agent_run_request \<Rightarrow> agent_run_request \<Rightarrow> agent_run list \<Rightarrow> queue_db \<Rightarrow> bool" where
  "request_change r r' new db \<longleftrightarrow> r \<in> set (qd_requests db) \<and> rq_status r = Rq_queued \<and> request_keeps r r'
     \<and> (pending_steer r' \<longrightarrow> pending_steer r \<or> get_pending_steer (rq_uid r) (rq_agent_slug r) (rq_conversation_thread_id r) db = Inr None)
     \<and> (if new = [] then rq_dispatched_run_id r' = rq_dispatched_run_id r \<and> rq_status r' \<noteq> Rq_dispatched
        else \<exists>run. new = [run] \<and> rq_status r' = Rq_dispatched \<and> rq_dispatched_run_id r' = Some (ar_id run)
          \<and> ar_request_id run = rq_request_id r)
     \<and> distinct (map ar_id (db_runs db @ new)) \<and> one_active_per_thread (db_runs db @ new)"

lemma create_run_effect:
  assumes "create_run run_id t s a u rid payload src ch ext om cid cb rel rt m clk db = Inr (db', run)"
  shows "db' = db\<lparr>db_runs := db_runs db @ [run]\<rparr>" and "ar_id run = run_id" and "ar_request_id run = rid"
    and "ar_status run = Pending" and "ar_conversation_thread_id run = t" and "ar_agent_slug run = a" and "ar_uid run = u"
    and "run_id \<notin> ar_id ` set (db_runs db)" and "one_active_per_thread (db_runs db @ [run])"
    and "ar_input_message_id run = m" and "ar_run_type run = rt"
  using assms by (auto simp: create_run_def Let_def split: if_splits)

lemma mark_dispatched_queued:
  assumes "get_by_request_id i db = Some r" and "rq_status r = Rq_queued"
  shows "mark_dispatched i run_id now db = (put_request (dispatched_row run_id now r) db, Some (dispatched_row run_id now r))"
  using assms by (simp add: mark_dispatched_def dispatched_row_def Let_def)

lemma inv_lookup:
  assumes "queue_inv db" and "r \<in> set (qd_requests db)"
  shows "get_by_request_id (rq_request_id r) db = Some r"
  using assms find_unique_key[of rq_request_id "qd_requests db" r] by (simp add: queue_inv_def get_by_request_id_def)

lemma request_id_unique:
  assumes "queue_inv db" and "x \<in> set (qd_requests db)" and "r \<in> set (qd_requests db)"
    and "rq_request_id x = rq_request_id r"
  shows "x = r"
proof -
  have "Some x = Some r"
    unfolding inv_lookup[OF assms(1,2), symmetric] inv_lookup[OF assms(1,3), symmetric] assms(4) ..
  then show ?thesis by simp
qed

lemma dispatch_head_effect:
  assumes inv: "queue_inv db" and h: "h \<in> set (qd_requests db)" "rq_status h = Rq_queued"
    and d: "dispatch_locked_head h b k run_id clk now db = Inr (db', res)"
  shows "res = None \<and> db' = db
    \<or> (\<exists>run. res = Some \<lparr>ds_request_id = rq_request_id h, ds_run_id = run_id, ds_workdir_binding = b\<rparr>
        \<and> db_runs db' = db_runs db @ [run] \<and> ar_id run = run_id \<and> ar_status run = Pending \<and> ar_run_type run = Chat
        \<and> ar_conversation_thread_id run = rq_conversation_thread_id h \<and> ar_input_message_id run = Some (rq_input_message_id h)
        \<and> ar_request_id run = rq_request_id h
        \<and> qd_requests db' = qd_requests (put_request (dispatched_row run_id now h) db)
        \<and> qd_delivered db' = qd_delivered db
        \<and> request_change h (dispatched_row run_id now h) [run] db)"
proof (cases "create_run run_id (rq_conversation_thread_id h) (Some (rq_conversation_thread_id h))
             (rq_agent_slug h) (rq_uid h) (rq_request_id h) (rq_input_payload h) (rq_source h)
             (rq_channel h) (rq_external_id h) (Some (rq_origin_metadata h))
             (Some (wb_conversation_id b)) None None Chat (Some (rq_input_message_id h)) clk db")
  case (Inl e)
  then show ?thesis using d by (auto simp: dispatch_locked_head_def split: if_splits)
next
  case (Inr p)
  obtain db1 run where p: "p = (db1, run)" by force
  note c = create_run_effect[OF Inr[unfolded p]]
  let ?db2 = "bind_run_scope run_id k (rq_conversation_thread_id h) clk db1"
  let ?db3 = "attach_input_message (rq_input_message_id h) run_id ?db2"
  have "get_by_request_id (rq_request_id h) ?db3 = Some h"
    using inv_lookup[OF inv h(1)] by (simp add: get_by_request_id_def c(1))
  then have m: "mark_dispatched (rq_request_id h) run_id now ?db3
      = (put_request (dispatched_row run_id now h) ?db3, Some (dispatched_row run_id now h))"
    by (rule mark_dispatched_queued[OF _ h(2)])
  have db': "db' = put_request (dispatched_row run_id now h) ?db3"
    and res: "res = Some \<lparr>ds_request_id = rq_request_id h, ds_run_id = run_id, ds_workdir_binding = b\<rparr>"
    using d Inr p m by (auto simp: dispatch_locked_head_def Let_def)
  have "request_change h (dispatched_row run_id now h) [run] db"
    using h inv c by (auto simp: request_change_def request_keeps_def dispatched_row_def thread_key_def
        pending_steer_def queue_inv_def)
  then show ?thesis
    using c by (auto simp: db' res put_request_def)
qed


lemma steer_effect:
  assumes inv: "queue_inv db" and s: "steer_queued_request rid u now db = Inr (db', r')"
  shows "db' = db \<or> (\<exists>r. db' = put_request r' db \<and> request_change r r' [] db)"
proof -
  obtain r where r: "get_by_request_id rid db = Some r" using s by (auto simp: steer_queued_request_def split: option.splits)
  note rin = get_by_request_id_in[OF r]
  show ?thesis
  proof (cases "db' = db")
    case False
    then obtain p where q: "rq_status r = Rq_queued" "rq_queue_policy r = lit ''enqueue''"
      and p: "get_pending_steer (rq_uid r) (rq_agent_slug r) (rq_conversation_thread_id r) db = Inr p"
        "\<not> (case p of None \<Rightarrow> False | Some x \<Rightarrow> rq_request_id x \<noteq> rid)"
      and r': "r' = r\<lparr>rq_queue_policy := steer, rq_updated_at := now\<rparr>" "db' = put_request r' db"
      using s r by (auto simp: steer_queued_request_def Let_def split: sum.splits option.splits if_splits)
    have "p = None"
    proof (rule ccontr)
      assume "p \<noteq> None"
      then obtain x where x: "p = Some x" by blast
      then have xin: "x \<in> set (qd_requests db)" "rq_queue_policy x = steer"
        using p(1) by (auto simp: get_pending_steer_def split: list.splits dest!: arg_cong[of "filter _ _" _ set])
      then have "x = r" using inv_lookup[OF inv xin(1)] p(2) x r by simp
      then show False using xin(2) q(2) by (simp add: lit_def)
    qed
    then have "request_change r r' [] db"
      using rin q p(1) inv r' by (auto simp: request_change_def request_keeps_def thread_key_def pending_steer_def
          queue_inv_def lit_def)
    then show ?thesis using r' by blast
  qed simp
qed

lemma cancel_effect:
  assumes inv: "queue_inv db" and c: "cancel_queued_request rid u now db = Inr (db', st)"
  shows "db' = db \<or> (\<exists>r r'. db' = put_request r' db \<and> request_change r r' [] db)"
proof -
  obtain r where r: "get_by_request_id rid db = Some r"
    using c by (auto simp: cancel_queued_request_def split: option.splits)
  have "db' = db \<or> rq_status r = Rq_queued \<and> db' = put_request (r\<lparr>rq_status := Rq_cancelled, rq_updated_at := now\<rparr>) db"
    using c r by (cases "rq_status r")
      (auto simp: cancel_queued_request_def split: sum.splits option.splits if_splits)
  moreover have "request_change r (r\<lparr>rq_status := Rq_cancelled, rq_updated_at := now\<rparr>) [] db" if "rq_status r = Rq_queued"
    using get_by_request_id_in[OF r] that inv
    by (auto simp: request_change_def request_keeps_def thread_key_def pending_steer_def queue_inv_def)
  ultimately show ?thesis by blast
qed

lemma withdraw_effect:
  assumes inv: "queue_inv db" and r: "get_by_request_id rid db = Some r" "rq_status r = Rq_queued"
  shows "request_change r (r\<lparr>rq_status := Rq_rejected, rq_input_payload := payload, rq_updated_at := now\<rparr>) [] db"
  using get_by_request_id_in[OF r(1)] r(2) inv
  by (auto simp: request_change_def request_keeps_def thread_key_def pending_steer_def queue_inv_def)

lemma dispatch_ready_effect:
  assumes "dispatch_ready_head u a t b e k run_id clk now db = Inr (db', x)"
  shows "db' = db \<or> (\<exists>h res. get_queue_head u a t db = Some h \<and> dispatch_locked_head h b k run_id clk now db = Inr (db', res))"
  using assms by (auto simp: dispatch_ready_head_def split: if_splits sum.splits option.splits)

lemma dispatch_tx_effect:
  assumes inv: "queue_inv db" and d: "dispatch_next_tx u a t b k run_id clk now db = Inr (db', x)"
  shows "db' = db \<or> (\<exists>h bb res. get_queue_head u a t db = Some h \<and> dispatch_locked_head h bb k run_id clk now db = Inr (db', res))"
  using d by (auto simp: dispatch_next_tx_def dispatch_ready_head_def split: if_splits sum.splits option.splits)

lemma continue_effect:
  assumes "continue_thread_queue u a t b k run_id clk now db = Inr (db', d)"
  shows "\<exists>h bb res. get_queue_head u a t db = Some h \<and> dispatch_locked_head h bb k run_id clk now db = Inr (db', res)"
proof -
  obtain h bb where "get_queue_head u a t db = Some h" "dispatch_locked_head h bb k run_id clk now db = Inr (db', Some d)"
    using assms by (auto simp: continue_thread_queue_def split: if_splits sum.splits option.splits)
  then show ?thesis by blast
qed

lemma queue_step_cases:
  assumes inv: "queue_inv db" and step: "queue_step db db'"
  obtains (same) "qd_requests db' = qd_requests db" "db_runs db' = db_runs db"
  | (add) r where "qd_requests db' = qd_requests db @ [r]" "db_runs db' = db_runs db"
      "rq_status r \<noteq> Rq_dispatched" "rq_dispatched_run_id r = None" "rq_request_id r \<notin> ar_request_id ` set (db_runs db)"
      "rq_id r \<notin> rq_id ` set (qd_requests db)" "rq_request_id r \<notin> rq_request_id ` set (qd_requests db)"
      "pending_steer r \<longrightarrow> get_pending_steer (rq_uid r) (rq_agent_slug r) (rq_conversation_thread_id r) db = Inr None"
  | (change) r r' new where "qd_requests db' = qd_requests (put_request r' db)" "db_runs db' = db_runs db @ new"
      "request_change r r' new db"
  | (others) "qd_requests db' = qd_requests db" "evolves run_ids_kept (db_runs db) (db_runs db')"
      "distinct (map ar_id (db_runs db'))" "one_active_per_thread (db_runs db')"
      "\<forall>r\<in>set (qd_requests db). rq_status r = Rq_queued \<longrightarrow> rq_request_id r \<notin> ar_request_id ` set (db_runs db')"
proof -
  have head: thesis if "get_queue_head u a t db = Some h" "dispatch_locked_head h bb k run_id clk now db = Inr (db', res)"
    for u a t h bb k run_id clk now res
  proof -
    have h: "h \<in> set (qd_requests db)" "rq_status h = Rq_queued" using queue_head_in[OF that(1)] by (auto simp: in_thread_def)
    show thesis
      using dispatch_head_effect[OF inv h that(2)] same change by auto
  qed
  from step show thesis
  proof cases
    case (submit i rid u a t src ch ext om policy m payload status clk r)
    show thesis
      by (rule add[of r]) (use submit in \<open>auto simp: request_create_def Let_def pending_steer_def split: if_splits\<close>)
  next
    case dispatch
    from dispatch_tx_effect[OF inv this] show thesis using head same by blast
  next
    case continue_queue
    from continue_effect[OF this] show thesis using head by blast
  next
    case steer_request
    from steer_effect[OF inv this] show thesis using same change[where new = "[]"] by auto
  next
    case cancel
    from cancel_effect[OF inv this] show thesis using same change[where new = "[]"] by auto
  next
    case dispatch_head
    from dispatch_ready_effect[OF this] show thesis using head same by blast
  next
    case withdraw
    with withdraw_effect[OF inv withdraw(1,2)] show thesis using change[where new = "[]"] by auto
  next
    case deliver
    then show thesis using same by (simp add: enqueue_agent_run_def)
  next
    case others
    then show thesis using that(4) by blast
  qed
qed

section \<open>Preservation\<close>

lemma update_where_split:
  assumes "distinct (map k xs)" and "r \<in> set xs" and "k r' = k r"
  obtains as bs where "xs = as @ r # bs" "update_where (\<lambda>x. k x = k r') (\<lambda>_. r') xs = as @ r' # bs"
proof -
  obtain as bs where xs: "xs = as @ r # bs" using split_list[OF assms(2)] by blast
  have "update_where (\<lambda>x. k x = k r') (\<lambda>_. r') ys = ys" if "k r \<notin> k ` set ys" for ys
    using that assms(3) by (induction ys) auto
  then have "update_where (\<lambda>x. k x = k r') (\<lambda>_. r') xs = as @ r' # bs"
    using assms(1,3) by (simp add: xs update_where_def)
  with xs show thesis by (rule that)
qed

lemma no_pending_steer:
  assumes "get_pending_steer u a t db = Inr None" and "x \<in> set (qd_requests db)" and "pending_steer x"
  shows "thread_key x \<noteq> (u, a, t)"
proof
  assume "thread_key x = (u, a, t)"
  then have "x \<in> set (filter (\<lambda>r. in_thread u a t r \<and> rq_queue_policy r = steer) (qd_requests db))"
    using assms(2,3) by (simp add: thread_key_def in_thread_def pending_steer_def)
  moreover have "filter (\<lambda>r. in_thread u a t r \<and> rq_queue_policy r = steer) (qd_requests db) = []"
    using assms(1) by (simp add: get_pending_steer_def split: list.splits)
  ultimately show False by (metis empty_iff list.set(1))
qed

lemma steer_unique_change:
  assumes inv: "queue_inv db" and c: "request_change r r' new db"
  shows "distinct (map thread_key (filter pending_steer (qd_requests (put_request r' db))))"
proof -
  have k: "rq_request_id r' = rq_request_id r" "thread_key r' = thread_key r"
    and r: "r \<in> set (qd_requests db)" using c by (auto simp: request_change_def request_keeps_def)
  obtain as bs where xs: "qd_requests db = as @ r # bs" and put: "qd_requests (put_request r' db) = as @ r' # bs"
    using update_where_split[of rq_request_id "qd_requests db" r r'] inv r k(1)
    by (auto simp: queue_inv_def put_request_def)
  have d: "distinct (map thread_key (filter pending_steer (as @ r # bs)))" using inv xs by (simp add: queue_inv_def)
  show ?thesis
  proof (cases "pending_steer r' \<and> \<not> pending_steer r")
    case True
    then have none: "get_pending_steer (rq_uid r) (rq_agent_slug r) (rq_conversation_thread_id r) db = Inr None"
      using c by (auto simp: request_change_def)
    have "thread_key x \<noteq> thread_key r" if "x \<in> set as \<union> set bs" "pending_steer x" for x
      using no_pending_steer[OF none _ that(2)] that(1) xs by (auto simp: thread_key_def)
    then have "thread_key r \<notin> thread_key ` {x \<in> set as. pending_steer x}" "thread_key r \<notin> thread_key ` {x \<in> set bs. pending_steer x}"
      by force+
    then show ?thesis using d True k(2) by (simp add: put)
  next
    case False
    then show ?thesis using d k(2) by (auto simp: put split: if_splits)
  qed
qed

lemma request_ok_change:
  assumes inv: "queue_inv db" and c: "request_change r r' new db" and x: "x \<in> set (qd_requests (put_request r' db))"
  shows "request_ok (db_runs db @ new) x"
proof -
  have k: "rq_request_id r' = rq_request_id r" and r: "r \<in> set (qd_requests db)" "rq_status r = Rq_queued"
    using c by (auto simp: request_change_def request_keeps_def)
  have rok: "request_ok (db_runs db) r" using inv r by (simp add: queue_inv_def)
  have x': "x = r' \<or> x \<in> set (qd_requests db) \<and> rq_request_id x \<noteq> rq_request_id r"
    using x k by (auto simp: put_request_def elim!: in_update_whereE)
  then show ?thesis
  proof
    assume "x = r'"
    then show ?thesis using c rok k r(2)
      by (cases "new = []") (auto simp: request_change_def request_ok_def has_run_def request_keeps_def)
  next
    assume a: "x \<in> set (qd_requests db) \<and> rq_request_id x \<noteq> rq_request_id r"
    then have "request_ok (db_runs db) x" using inv by (simp add: queue_inv_def)
    then show ?thesis using a c
      by (cases "new = []") (auto simp: request_change_def request_ok_def has_run_def split: if_splits)
  qed
qed

lemma queue_inv_change:
  assumes inv: "queue_inv db" and c: "request_change r r' new db"
    and db': "qd_requests db' = qd_requests (put_request r' db)" "db_runs db' = db_runs db @ new"
  shows "queue_inv db'"
proof -
  have k: "rq_request_id r' = rq_request_id r" "rq_id r' = rq_id r" and r: "r \<in> set (qd_requests db)"
    using c by (auto simp: request_change_def request_keeps_def)
  obtain as bs where xs: "qd_requests db = as @ r # bs" "qd_requests (put_request r' db) = as @ r' # bs"
    using update_where_split[of rq_request_id "qd_requests db" r r'] inv r k(1)
    by (auto simp: queue_inv_def put_request_def)
  have "distinct (map rq_request_id (qd_requests db'))" "distinct (map rq_id (qd_requests db'))"
    using inv xs k by (auto simp: db' queue_inv_def)
  moreover have "distinct (map ar_id (db_runs db'))" "one_active_per_thread (db_runs db')"
    using c by (simp_all add: request_change_def db')
  ultimately show ?thesis
    using steer_unique_change[OF inv c] request_ok_change[OF inv c] by (simp add: queue_inv_def db')
qed

lemma has_run_evolves:
  assumes "has_run r runs" and "evolves run_ids_kept runs runs'"
  shows "has_run r runs'"
proof -
  obtain run where run: "run \<in> set runs" "rq_dispatched_run_id r = Some (ar_id run)" "ar_request_id run = rq_request_id r"
    using assms(1) by (auto simp: has_run_def)
  obtain run' where "run' \<in> set runs'" "run_ids_kept run run'" by (rule evolves_in[OF assms(2) run(1)])
  then show ?thesis using run(2,3) by (auto simp: has_run_def run_ids_kept_def intro!: bexI[of _ run'])
qed

lemma queue_inv_add:
  assumes inv: "queue_inv db" and db': "qd_requests db' = qd_requests db @ [r]" "db_runs db' = db_runs db"
    and r: "rq_status r \<noteq> Rq_dispatched" "rq_dispatched_run_id r = None" "rq_request_id r \<notin> ar_request_id ` set (db_runs db)"
      "rq_id r \<notin> rq_id ` set (qd_requests db)" "rq_request_id r \<notin> rq_request_id ` set (qd_requests db)"
    and s: "pending_steer r \<longrightarrow> get_pending_steer (rq_uid r) (rq_agent_slug r) (rq_conversation_thread_id r) db = Inr None"
  shows "queue_inv db'"
proof -
  have "thread_key r \<notin> thread_key ` {x \<in> set (qd_requests db). pending_steer x}" if "pending_steer r"
    using no_pending_steer s that by (fastforce simp: thread_key_def[of r])
  then show ?thesis using inv r by (auto simp: queue_inv_def db' request_ok_def)
qed

lemma queue_inv_step:
  assumes "queue_inv db" and "queue_step db db'"
  shows "queue_inv db'"
  using assms
proof (cases rule: queue_step_cases)
  case same
  then show ?thesis using assms(1) by (simp add: queue_inv_def)
next
  case (add r)
  then show ?thesis by (intro queue_inv_add[OF assms(1)])
next
  case (change r r' new)
  then show ?thesis by (intro queue_inv_change[OF assms(1)])
next
  case others
  have "request_ok (db_runs db') r" if "r \<in> set (qd_requests db)" for r
    using assms(1) that others(5) has_run_evolves[OF _ others(2)]
    by (auto simp: queue_inv_def request_ok_def split: if_splits)
  then show ?thesis using assms(1) others by (simp add: queue_inv_def)
qed

lemma queue_step_rel:
  assumes "queue_inv db" and "queue_step db db'"
  shows "queue_rel db db'"
  using assms
proof (cases rule: queue_step_cases)
  case (change r r' new)
  have c: "rq_request_id r' = rq_request_id r" "r \<in> set (qd_requests db)" "request_keeps r r'"
    using change(3) by (auto simp: request_change_def request_keeps_def)
  have "x = r" if "x \<in> set (qd_requests db)" "rq_request_id x = rq_request_id r'" for x
    using request_id_unique[OF assms(1) that(1) c(2)] that(2) c(1) by simp
  then have "evolves request_keeps (qd_requests db) (qd_requests db')"
    unfolding change(1) put_request_def using c(3) by (auto intro!: evolves_update_where)
  then show ?thesis using change(2) by (simp add: queue_rel_def evolves_append)
qed (simp_all add: queue_rel_def evolves_refl evolves_append)

interpretation queue: step_system queue_start queue_step queue_inv queue_rel
proof
  show "queue_start db \<Longrightarrow> queue_inv db" for db by (simp add: queue_start_def queue_inv_def)
qed (blast intro: queue_inv_step queue_step_rel queue_rel_refl queue_rel_trans)+

end
