(* ===== verification/Queue_Properties.thy ===== *)
theory Queue_Properties
  imports Queue_Invariant "HOL-Library.Multiset"
begin

text \<open>
  The properties of the request queue. The locale \<open>ranked_queue\<close> is the contract of a queue that is
  kept as rows and read in the order of a key; the queue of a thread implements it. Witnesses use
  one conversation \<open>[140]\<close> of the user \<open>[121]\<close> with the agent \<open>[122]\<close> and two queued requests.
\<close>

section \<open>Queues read in the order of a key\<close>

locale ranked_queue =
  fixes members :: "'s \<Rightarrow> 'r list"
    and key :: "'r \<Rightarrow> 'k::linorder"
    and listing :: "'s \<Rightarrow> 'r list"
    and head :: "'s \<Rightarrow> 'r option"
  assumes listing_members: "mset (listing s) = mset (members s)"
    and listing_sorted: "sorted (map key (listing s))"
    and head_listing: "head s = first_row (listing s)"
begin

lemma set_listing: "set (listing s) = set (members s)"
  using listing_members by (rule mset_eq_setD)

lemma head_none: "head s = None \<longleftrightarrow> members s = []"
  by (metis first_row_None_iff head_listing listing_members mset.simps(1) mset_zero_iff)

lemma head_least:
  assumes "head s = Some h" and "r \<in> set (members s)"
  shows "h \<in> set (members s) \<and> key h \<le> key r"
proof -
  obtain rs where l: "listing s = h # rs"
    using assms(1) by (cases "listing s") (auto simp: head_listing first_row_def)
  have "r \<in> set (h # rs)" using assms(2) set_listing[of s] l by simp
  then show ?thesis using listing_sorted[of s] set_listing[of s] l by auto
qed

text \<open>The place of a row is the number of rows with a smaller key.\<close>

lemma rank_counts_smaller:
  assumes "distinct (map key (members s))" and "i < length (listing s)"
  shows "length (filter (\<lambda>r. key r < key (listing s ! i)) (members s)) = i"
proof -
  let ?l = "listing s" and ?P = "\<lambda>r. key r < key (listing s ! i)"
  have "distinct (map key ?l)"
    using assms(1) listing_members[of s] by (metis distinct_map mset_eq_imp_distinct_iff mset_eq_setD)
  then have strict: "sorted_wrt (<) (map key ?l)" using listing_sorted[of s] by (simp add: strict_sorted_iff)
  have less: "key (?l ! j) < key (?l ! k)" if "j < k" "k < length ?l" for j k
    using sorted_wrt_nth_less[OF strict that(1)] that by simp
  have "{j. j < length ?l \<and> ?P (?l ! j)} = {..<i}"
  proof (intro set_eqI iffI)
    fix j assume "j \<in> {j. j < length ?l \<and> ?P (?l ! j)}"
    then have "j < length ?l" "?P (?l ! j)" by auto
    then show "j \<in> {..<i}" using less[of i j] by (metis lessThan_iff linorder_neqE_nat order.asym order.irrefl)
  qed (use less assms(2) in auto)
  moreover have "size (filter_mset ?P (mset ?l)) = size (filter_mset ?P (mset (members s)))"
    by (simp only: listing_members)
  then have "length (filter ?P (members s)) = length (filter ?P ?l)" by (metis mset_filter size_mset)
  ultimately show ?thesis by (simp add: length_filter_conv_card)
qed

end

interpretation thread_queue:
  ranked_queue "\<lambda>db. filter (in_thread u a t) (qd_requests db)" queue_key "list_queued u a t" "get_queue_head u a t"
  for u a t
  by unfold_locales (simp_all add: list_queued_def get_queue_head_def queued_for_thread_def)

section \<open>A small queue\<close>

definition demo_message :: "int \<Rightarrow> message" where
  "demo_message i = \<lparr>ms_id = i, ms_conversation_id = 1, ms_role = Other_role (lit ''user''), ms_content = [104],
     ms_message_type = Other_message (lit ''text''), ms_created_at = Some 1, ms_token_count = None,
     ms_extra_metadata = None, ms_image_content = None, ms_run_id = None, ms_request_id = None,
     ms_delivery_status = Delivery_queued, ms_operation_id = None, ms_started_at = None, ms_finished_at = None,
     ms_duration_ms = None, ms_sequence = None, ms_execution_status = None, ms_usage = None\<rparr>"

definition demo_request :: "int \<Rightarrow> pystr \<Rightarrow> time \<Rightarrow> agent_run_request" where
  "demo_request i rid now = \<lparr>rq_id = i, rq_request_id = rid, rq_uid = [121], rq_agent_slug = [122],
     rq_conversation_thread_id = [140], rq_source = lit ''chat'', rq_channel = lit ''web'', rq_external_id = None,
     rq_origin_metadata = json_empty, rq_queue_policy = lit ''enqueue'', rq_status = Rq_queued,
     rq_input_message_id = i, rq_dispatched_run_id = None, rq_input_payload = json_empty, rq_error_message = None,
     rq_created_at = now, rq_dispatched_at = None, rq_updated_at = now\<rparr>"

definition demo_conversation :: conversation where
  "demo_conversation = \<lparr>cv_id = 1, cv_thread_id = [140], cv_creation_request_id = None, cv_uid = [121],
     cv_agent_id = [122], cv_title = None, cv_status = lit ''active'', cv_is_pinned = False,
     cv_last_viewed_run_id = None, cv_project_id = [201], cv_created_at = Some 1, cv_updated_at = Some 1,
     cv_extra_metadata = None\<rparr>"


definition demo_queue :: "agent_run_request list \<Rightarrow> queue_db" where
  "demo_queue rs = \<lparr>db_runs = [], db_attempts = [], db_messages = [demo_message 1, demo_message 2], db_tool_calls = [],
     db_scopes = [], db_subagent_threads = [], qd_requests = rs, qd_conversations = [demo_conversation],
     qd_delivered = []\<rparr>"

abbreviation demo_two :: "time \<Rightarrow> agent_run_request list" where
  "demo_two later \<equiv> [demo_request 1 [131] 10, demo_request 2 [132] later]"

lemma demo_queue_simps [simp]:
  "qd_requests (demo_queue rs) = rs" "db_runs (demo_queue rs) = []" "db_messages (demo_queue rs) = [demo_message 1, demo_message 2]"
  "(demo_queue rs)\<lparr>qd_requests := xs\<rparr> = demo_queue xs" "ms_id (demo_message i) = i"
  by (simp_all add: demo_queue_def demo_message_def)

lemma demo_list_queued:
  "10 < later \<Longrightarrow> list_queued [121] [122] [140] (demo_queue (demo_two later)) = demo_two later"
  by (simp add: list_queued_def queued_for_thread_def in_thread_def demo_request_def queue_key_def lit_def)

lemma demo_start [simp]: "queue_start (demo_queue [])"
  by (simp add: queue_start_def one_active_per_thread_def)

lemma demo_submits: "queue_step\<^sup>*\<^sup>* (demo_queue []) (demo_queue (demo_two later))"
proof -
  have "queue_step (demo_queue []) (demo_queue [demo_request 1 [131] 10])"
    by (rule queue_step.submit[where i = 1 and rid = "[131]" and u = "[121]" and a = "[122]" and t = "[140]"
          and src = "lit ''chat''" and ch = "lit ''web''" and ext = None and om = None and policy = "lit ''enqueue''"
          and m = 1 and payload = None and status = Rq_queued and clk = 10 and r = "demo_request 1 [131] 10"])
      (simp_all add: request_create_def Let_def or_obj_def demo_request_def, simp add: lit_def)
  moreover have "queue_step (demo_queue [demo_request 1 [131] 10]) (demo_queue (demo_two later))"
    by (rule queue_step.submit[where i = 2 and rid = "[132]" and u = "[121]" and a = "[122]" and t = "[140]"
          and src = "lit ''chat''" and ch = "lit ''web''" and ext = None and om = None and policy = "lit ''enqueue''"
          and m = 2 and payload = None and status = Rq_queued and clk = later and r = "demo_request 2 [132] later"])
      (simp_all add: request_create_def Let_def or_obj_def demo_request_def, simp add: lit_def)
  ultimately show ?thesis by simp
qed

lemma demo_queue_inv [simp]: "queue_inv (demo_queue (demo_two later))"
  by (rule queue.reachable_inv[OF demo_start demo_submits])

section \<open>Order and positions\<close>

lemma queue_keys_distinct:
  assumes inv: "queue_inv db"
  shows "distinct (map queue_key (filter (in_thread u a t) (qd_requests db)))"
proof -
  have "inj_on rq_id (set (qd_requests db))" "distinct (qd_requests db)"
    using inv by (auto simp: queue_inv_def distinct_map)
  then show ?thesis by (auto simp: distinct_map inj_on_def queue_key_def)
qed

lemma steer_of_thread_unique:
  assumes inv: "queue_inv db" and "x \<in> set (qd_requests db)" "y \<in> set (qd_requests db)"
    and "in_thread u a t x" "in_thread u a t y" "rq_queue_policy x = steer" "rq_queue_policy y = steer"
  shows "x = y"
proof -
  have "inj_on thread_key {r \<in> set (qd_requests db). pending_steer r}"
    using inv by (simp add: queue_inv_def distinct_map)
  then show ?thesis using assms by (auto simp: inj_on_def pending_steer_def in_thread_def thread_key_def)
qed

lemma ahead_of_smaller:
  assumes inv: "queue_inv db" and r: "r \<in> set (qd_requests db)" "in_thread u a t r"
    and x: "x \<in> set (qd_requests db)" "in_thread u a t x"
    and ties: "\<And>y. y \<in> set (qd_requests db) \<Longrightarrow> in_thread u a t y \<Longrightarrow> rq_created_at y = rq_created_at r \<Longrightarrow> y = r"
  shows "queue_key x < queue_key r \<longleftrightarrow> rq_queue_policy r \<noteq> steer \<and> ahead_of r x"
  using steer_of_thread_unique[OF inv x(1) r(1) x(2) r(2)] ties[OF x] 
  by (auto simp: queue_key_def ahead_of_def less_le)

text \<open>
  the position of a request. In a reachable queue in which no other request of the thread
  has the same creation time, the position reported for a queued request by counting rows is its
  place in the listing of the queue, counted from one.
\<close>

theorem queue_position_is_rank:
  assumes "queue_inv db" and "i < length (list_queued u a t db)" and "r = list_queued u a t db ! i"
    and "\<forall>y\<in>set (list_queued u a t db). rq_created_at y = rq_created_at r \<longrightarrow> y = r"
  shows "get_queue_position_for r db = i + 1"
proof -
  let ?m = "filter (in_thread u a t) (qd_requests db)"
  have set: "set (list_queued u a t db) = set ?m" by (rule thread_queue.set_listing)
  have r: "r \<in> set (qd_requests db)" "in_thread u a t r" using assms(2,3) set nth_mem by fastforce+
  have same: "in_thread (rq_uid r) (rq_agent_slug r) (rq_conversation_thread_id r) = in_thread u a t"
    using r(2) by (auto simp: in_thread_def)
  have "i = length (filter (\<lambda>x. queue_key x < queue_key r) ?m)"
    using thread_queue.rank_counts_smaller[OF queue_keys_distinct[OF assms(1)] assms(2)] assms(3) by simp
  also have "filter (\<lambda>x. queue_key x < queue_key r) ?m = filter (\<lambda>x. rq_queue_policy r \<noteq> steer \<and> ahead_of r x) ?m"
  proof (rule filter_cong[OF refl])
    fix x assume "x \<in> set ?m"
    then show "(queue_key x < queue_key r) = (rq_queue_policy r \<noteq> steer \<and> ahead_of r x)"
      using assms(4) set by (intro ahead_of_smaller[OF assms(1) r]) auto
  qed
  finally show ?thesis using r(2)
    by (auto simp: get_queue_position_for_def same in_thread_def[of u a t r] conj_commute)
qed

theorem queue_position_is_rank_witness:
  "get_queue_position_for (demo_request 2 [132] 11) (demo_queue (demo_two 11)) = 2"
  using queue_position_is_rank[OF demo_queue_inv, of 1 "[121]" "[122]" "[140]" 11 "demo_request 2 [132] 11"]
  by (simp add: demo_list_queued) (simp add: demo_request_def)

text \<open>
  requests created in the same microsecond. The ids do not break the tie: two ordinary
  requests of a thread with the same creation time are given the same position, although one of
  them is behind the other in the listing and is dispatched later.
\<close>

theorem queue_position_ties:
  assumes "in_thread u a t x" and "in_thread u a t y" and "rq_queue_policy x \<noteq> steer" and "rq_queue_policy y \<noteq> steer"
    and "rq_created_at x = rq_created_at y"
  shows "get_queue_position_for x db = get_queue_position_for y db"
  using assms by (simp add: get_queue_position_for_def in_thread_def[abs_def] ahead_of_def[abs_def])

theorem queue_position_ties_witness:
  "get_queue_position_for (demo_request 1 [131] 10) (demo_queue (demo_two 10)) =
   get_queue_position_for (demo_request 2 [132] 10) (demo_queue (demo_two 10))
   \<and> list_queued [121] [122] [140] (demo_queue (demo_two 10)) = demo_two 10"
proof
  show "get_queue_position_for (demo_request 1 [131] 10) (demo_queue (demo_two 10)) =
      get_queue_position_for (demo_request 2 [132] 10) (demo_queue (demo_two 10))"
    by (rule queue_position_ties[of "[121]" "[122]" "[140]"]) (simp_all add: in_thread_def demo_request_def lit_def)
qed (simp add: list_queued_def queued_for_thread_def in_thread_def demo_request_def queue_key_def lit_def)

section \<open>History\<close>



section \<open>Dispatch\<close>





end
