(* ===== verification/Sandbox_Policy.thy ===== *)
theory Sandbox_Policy
  imports Yuanlei_Prelude
begin

text \<open>
  Which sandbox a run uses: the policy of an agent and its project override
  (\<^verbatim>\<open>agents/backends/sandbox/policy.py\<close>) and the scope keys that name a sandbox
  (\<^verbatim>\<open>SandboxScope\<close> in \<^verbatim>\<open>agents/backends/sandbox/provider.py\<close>). Configuration blocks are arbitrary JSON
  values. \<open>str.lower()\<close> is taken on ASCII letters: no other character has a lower case that occurs in
  one of the allowed words.
\<close>

section \<open>Policies\<close>

datatype sandbox_mode = Shared | Dedicated

datatype sandbox_lifecycle = Ephemeral | Persistent | Resident

datatype resume_policy = Resume_auto | Resume_confirm

record sandbox_policy =
  sp_mode :: sandbox_mode
  sp_lifecycle :: sandbox_lifecycle
  sp_resume_policy :: resume_policy
  sp_idle_suspend_seconds :: "int option"

datatype policy_error = Policy_value_error pystr | Policy_type_error

definition is_dedicated :: "sandbox_policy \<Rightarrow> bool" where
  "is_dedicated p \<longleftrightarrow> sp_mode p = Dedicated"

definition provisioner_idle_timeout :: "sandbox_policy \<Rightarrow> int option" where
  "provisioner_idle_timeout p =
     (if sp_lifecycle p = Resident then Some 0 else sp_idle_suspend_seconds p)"

definition lower :: "pystr \<Rightarrow> pystr" where
  "lower s = map (\<lambda>c. if 65 \<le> c \<and> c \<le> 90 then c + 32 else c) s"

text \<open>A value that is not a string is looked up as it is; lists and objects cannot be hashed.\<close>

definition normalize_choice :: "json option \<Rightarrow> (pystr \<times> 'a) list \<Rightarrow> pystr \<Rightarrow> 'a \<Rightarrow> policy_error + 'a" where
  "normalize_choice value allowed label fallback =
     (case value of
        None \<Rightarrow> Inr fallback
      | Some JNull \<Rightarrow> Inr fallback
      | Some (JStr s) \<Rightarrow>
          (case map_of allowed (lower (py_strip s)) of None \<Rightarrow> Inl (Policy_value_error label) | Some x \<Rightarrow> Inr x)
      | Some (JList _) \<Rightarrow> Inl Policy_type_error
      | Some (JObj _) \<Rightarrow> Inl Policy_type_error
      | Some _ \<Rightarrow> Inl (Policy_value_error label))"

definition sandbox_modes :: "(pystr \<times> sandbox_mode) list" where
  "sandbox_modes = [(lit ''shared'', Shared), (lit ''dedicated'', Dedicated)]"

definition sandbox_lifecycles :: "(pystr \<times> sandbox_lifecycle) list" where
  "sandbox_lifecycles = [(lit ''ephemeral'', Ephemeral), (lit ''persistent'', Persistent), (lit ''resident'', Resident)]"

definition sandbox_resume_policies :: "(pystr \<times> resume_policy) list" where
  "sandbox_resume_policies = [(lit ''auto'', Resume_auto), (lit ''confirm'', Resume_confirm)]"

definition merge_sandbox_config :: "json option \<Rightarrow> json option \<Rightarrow> json" where
  "merge_sandbox_config agent_block project_block =
     JObj ((case agent_block of Some (JObj a) \<Rightarrow> a | _ \<Rightarrow> [])
           @ (case project_block of Some (JObj p) \<Rightarrow> p | _ \<Rightarrow> []))"

definition read_idle_seconds :: "json option \<Rightarrow> policy_error + int option" where
  "read_idle_seconds v =
     (case v of
        None \<Rightarrow> Inr None
      | Some JNull \<Rightarrow> Inr None
      | Some (JInt i) \<Rightarrow> if i < 0 then Inl (Policy_value_error (lit ''sandbox.idle_suspend_seconds'')) else Inr (Some i)
      | Some _ \<Rightarrow> Inl (Policy_value_error (lit ''sandbox.idle_suspend_seconds'')))"

definition parse_sandbox_policy :: "json \<Rightarrow> policy_error + sandbox_policy" where
  "parse_sandbox_policy block =
     (case normalize_choice (json_get block (lit ''mode'')) sandbox_modes (lit ''sandbox.mode'') Shared of
        Inl e \<Rightarrow> Inl e
      | Inr mode \<Rightarrow>
          (case normalize_choice (json_get block (lit ''lifecycle'')) sandbox_lifecycles (lit ''sandbox.lifecycle'') Ephemeral of
             Inl e \<Rightarrow> Inl e
           | Inr lifecycle \<Rightarrow>
               (case normalize_choice (json_get block (lit ''resume_policy'')) sandbox_resume_policies
                       (lit ''sandbox.resume_policy'') Resume_auto of
                  Inl e \<Rightarrow> Inl e
                | Inr resume \<Rightarrow>
                    (case read_idle_seconds (json_get block (lit ''idle_suspend_seconds'')) of
                       Inl e \<Rightarrow> Inl e
                     | Inr idle \<Rightarrow>
                         Inr \<lparr>sp_mode = mode, sp_lifecycle = (if mode = Shared then Ephemeral else lifecycle),
                              sp_resume_policy = resume, sp_idle_suspend_seconds = idle\<rparr>))))"

definition resolve_sandbox_policy :: "json option \<Rightarrow> json option \<Rightarrow> policy_error + sandbox_policy" where
  "resolve_sandbox_policy agent_block project_block =
     parse_sandbox_policy (merge_sandbox_config agent_block project_block)"

text \<open>
  \<^verbatim>\<open>resolve_agent_sandbox_policy\<close>: \<open>agent_config\<close> is the agent's configuration object, \<open>overrides\<close> the
  project's override object when the agent is bound to the project.
\<close>

definition resolve_agent_sandbox_policy :: "json option \<Rightarrow> json option \<Rightarrow> policy_error + sandbox_policy" where
  "resolve_agent_sandbox_policy agent_config overrides =
     resolve_sandbox_policy (json_get (or_obj agent_config) (lit ''sandbox''))
       (case json_get (or_obj overrides) (lit ''sandbox'') of Some (JObj b) \<Rightarrow> Some (JObj b) | _ \<Rightarrow> None)"

section \<open>Scopes\<close>

datatype sandbox_scope =
    Thread_scope pystr pystr
  | Agent_project_scope pystr pystr pystr

fun validate_scope :: "sandbox_scope \<Rightarrow> bool" where
  "validate_scope (Thread_scope uid thread_id) = (uid \<noteq> [] \<and> thread_id \<noteq> [])"
| "validate_scope (Agent_project_scope uid agent_slug project_id) = (uid \<noteq> [] \<and> agent_slug \<noteq> [] \<and> project_id \<noteq> [])"

definition thread_scope :: "pystr \<Rightarrow> pystr \<Rightarrow> sandbox_scope option" where
  "thread_scope uid thread_id =
     (let s = Thread_scope (py_strip uid) (py_strip thread_id) in if validate_scope s then Some s else None)"

definition agent_project_scope :: "pystr \<Rightarrow> pystr \<Rightarrow> pystr \<Rightarrow> sandbox_scope option" where
  "agent_project_scope uid agent_slug project_id =
     (let s = Agent_project_scope (py_strip uid) (py_strip agent_slug) (py_strip project_id)
      in if validate_scope s then Some s else None)"

fun cache_key :: "sandbox_scope \<Rightarrow> pystr" where
  "cache_key (Thread_scope uid thread_id) = uid @ lit ''::'' @ thread_id"
| "cache_key (Agent_project_scope uid agent_slug project_id) =
     lit ''agent-project:'' @ uid @ lit '':'' @ agent_slug @ lit '':'' @ project_id"

definition starts_with :: "pystr \<Rightarrow> pystr \<Rightarrow> bool" where
  "starts_with s p \<longleftrightarrow> take (length p) s = p"

text \<open>\<^verbatim>\<open>s.split(c, n)\<close> and \<^verbatim>\<open>s.partition("::")\<close>.\<close>

fun split_max :: "nat \<Rightarrow> nat \<Rightarrow> pystr \<Rightarrow> pystr list" where
  "split_max c 0 s = [s]"
| "split_max c (Suc n) s =
     (let before = takeWhile (\<lambda>x. x \<noteq> c) s; rest = dropWhile (\<lambda>x. x \<noteq> c) s
      in case rest of [] \<Rightarrow> [before] | _ # after \<Rightarrow> before # split_max c n after)"

fun partition_colons :: "pystr \<Rightarrow> (pystr \<times> pystr) option" where
  "partition_colons [] = None"
| "partition_colons [c] = None"
| "partition_colons (c # d # s) =
     (if c = 58 \<and> d = 58 then Some ([], s)
      else map_option (\<lambda>(a, b). (c # a, b)) (partition_colons (d # s)))"

definition from_cache_key :: "pystr \<Rightarrow> sandbox_scope option" where
  "from_cache_key raw =
     (if starts_with raw (lit ''agent-project:'')
      then (case split_max 58 3 raw of
              [_, uid, agent_slug, project_id] \<Rightarrow> agent_project_scope uid agent_slug project_id
            | _ \<Rightarrow> None)
      else (case partition_colons raw of None \<Rightarrow> None | Some (uid, thread_id) \<Rightarrow> thread_scope uid thread_id))"

definition from_runtime_scope :: "pystr \<Rightarrow> pystr \<Rightarrow> sandbox_scope option" where
  "from_runtime_scope uid runtime_scope_id =
     (let runtime_id = py_strip runtime_scope_id
      in if starts_with runtime_id (lit ''agent-project:'') then from_cache_key runtime_id
         else thread_scope uid runtime_id)"

definition sandbox_scope_from_key :: "pystr \<Rightarrow> sandbox_scope option option" where
  "sandbox_scope_from_key scope_key =
     (let key = py_strip scope_key
      in if \<not> starts_with key (lit ''agent-project:'') then Some None
         else (case from_cache_key key of None \<Rightarrow> None | Some s \<Rightarrow> Some (Some s)))"

definition runtime_scope_for_policy :: "pystr \<Rightarrow> pystr \<Rightarrow> pystr \<Rightarrow> pystr \<Rightarrow> sandbox_policy \<Rightarrow> pystr option" where
  "runtime_scope_for_policy uid agent_slug project_id thread_id policy =
     (if \<not> is_dedicated policy then Some thread_id
      else map_option cache_key (agent_project_scope uid agent_slug project_id))"

section \<open>Lemmas\<close>

lemma parse_policy_shape:
  assumes "parse_sandbox_policy block = Inr p"
  shows "sp_mode p = Shared \<Longrightarrow> sp_lifecycle p = Ephemeral"
    and "\<exists>i. provisioner_idle_timeout p = None \<or> provisioner_idle_timeout p = Some i \<and> 0 \<le> i"
  using assms
  by (auto simp: parse_sandbox_policy_def provisioner_idle_timeout_def read_idle_seconds_def
      split: sum.splits if_splits option.splits json.splits)

lemma split_max_step:
  assumes "c \<notin> set a"
  shows "split_max c (Suc n) (a @ c # s) = a # split_max c n s"
proof -
  have "takeWhile (\<lambda>x. x \<noteq> c) (a @ c # s) = a" "dropWhile (\<lambda>x. x \<noteq> c) (a @ c # s) = c # s"
    using assms by (induction a) auto
  then show ?thesis by simp
qed

lemma partition_colons_step:
  assumes "58 \<notin> set a"
  shows "partition_colons (a @ 58 # 58 # s) = Some (a, s)"
  using assms
proof (induction a)
  case (Cons x a)
  then show ?case by (cases a) auto
qed simp

text \<open>Scopes whose parts are stripped and, up to the last one, have no colon.\<close>

fun scope_plain :: "sandbox_scope \<Rightarrow> bool" where
  "scope_plain (Thread_scope uid t) =
     (58 \<notin> set uid \<and> uid \<noteq> lit ''agent-project'' \<and> py_strip uid = uid \<and> py_strip t = t)"
| "scope_plain (Agent_project_scope uid a p) =
     (58 \<notin> set uid \<and> 58 \<notin> set a \<and> py_strip uid = uid \<and> py_strip a = a \<and> py_strip p = p)"

lemma before_colon: "58 \<notin> set a \<Longrightarrow> takeWhile (\<lambda>x. x \<noteq> 58) (a @ 58 # s) = a"
  by (induction a) auto

lemma lit_agent_project:
  "lit ''agent-project:'' = lit ''agent-project'' @ [58]" "length (lit ''agent-project:'') = 14"
  by (simp_all add: lit_def)

lemma cache_key_roundtrip:
  assumes "validate_scope s" and "scope_plain s"
  shows "from_cache_key (cache_key s) = Some s"
proof (cases s)
  case (Agent_project_scope uid a p)
  have key: "cache_key s = lit ''agent-project'' @ 58 # (uid @ 58 # (a @ 58 # p))"
    by (simp add: Agent_project_scope lit_def)
  have split: "split_max 58 3 (lit ''agent-project'' @ 58 # (uid @ 58 # (a @ 58 # p))) = [lit ''agent-project'', uid, a, p]"
    using assms(2) split_max_step[of 58 uid 1 "a @ 58 # p"] split_max_step[of 58 a 0 p]
    by (simp add: Agent_project_scope numeral_3_eq_3 lit_def)
  have "starts_with (cache_key s) (lit ''agent-project:'')"
    by (simp add: Agent_project_scope starts_with_def lit_def)
  then have "from_cache_key (cache_key s) = agent_project_scope uid a p"
    unfolding from_cache_key_def by (simp only: key split if_True list.case)
  then show ?thesis using assms by (simp add: agent_project_scope_def Agent_project_scope)
next
  case (Thread_scope uid t)
  have key: "cache_key s = uid @ 58 # 58 # t" by (simp add: Thread_scope lit_def)
  have "\<not> starts_with (cache_key s) (lit ''agent-project:'')"
  proof
    assume "starts_with (cache_key s) (lit ''agent-project:'')"
    then have "\<exists>z. uid @ 58 # 58 # t = lit ''agent-project'' @ 58 # z"
      unfolding key starts_with_def
      by (metis append.assoc append_Cons append_Nil append_take_drop_id lit_agent_project)
    then obtain z where "uid @ 58 # 58 # t = lit ''agent-project'' @ 58 # z" by blast
    from arg_cong[OF this, of "takeWhile (\<lambda>x. x \<noteq> 58)"]
    have "takeWhile (\<lambda>x. x \<noteq> 58) (uid @ 58 # 58 # t) = takeWhile (\<lambda>x. x \<noteq> 58) (lit ''agent-project'' @ 58 # z)" .
    then have "uid = lit ''agent-project''"
      using assms(2) before_colon[of uid] before_colon[of "lit ''agent-project''"] by (simp add: Thread_scope lit_def)
    then show False using assms(2) by (simp add: Thread_scope)
  qed
  then show ?thesis
    using assms partition_colons_step[of uid t] key
    by (simp add: from_cache_key_def thread_scope_def Thread_scope)
qed

end
