(* ===== verification/Sandbox.thy ===== *)
theory Sandbox
  imports Sandbox_Policy
begin

text \<open>
  Dedicated sandboxes: \<^verbatim>\<open>repositories/agent_sandbox_repository.py\<close>, the execution leases of
  \<^verbatim>\<open>services/sandbox_lease_service.py\<close>, the life cycle of \<^verbatim>\<open>services/sandbox_lifecycle_service.py\<close> and the
  convergence of \<^verbatim>\<open>services/sandbox_lifecycle_supervisor_service.py\<close>.

  \<open>gen\<close> generates the ids of events, \<open>digest\<close> is the hash behind \<^verbatim>\<open>sandbox_id\<close>, \<open>now\<close> a clock reading. The
  container platform is the record \<open>sandbox_world\<close>: what the provider answers. Operations whose
  commit is left to the caller return the session's database also when they raise.
\<close>

section \<open>Data\<close>

datatype sandbox_status = Sandbox_active | Sandbox_reaping | Sandbox_suspended | Sandbox_error

record agent_sandbox =
  sb_id :: pystr
  sb_uid :: pystr
  sb_agent_slug :: pystr
  sb_project_id :: pystr
  sb_scope_key :: pystr
  sb_sandbox_id :: pystr
  sb_generation :: "pystr option"
  sb_lifecycle :: sandbox_lifecycle
  sb_resume_policy :: resume_policy
  sb_status :: sandbox_status
  sb_idle_timeout_seconds :: "int option"
  sb_credential_fingerprint :: "pystr option"
  sb_lease_owner_kind :: "pystr option"
  sb_lease_owner_id :: "pystr option"
  sb_lease_expires_at :: "time option"
  sb_lease_heartbeat_at :: "time option"
  sb_last_activity_at :: "time option"
  sb_last_keepalive_at :: "time option"
  sb_suspended_at :: "time option"
  sb_error_code :: "pystr option"
  sb_error_message :: "pystr option"
  sb_created_at :: "time option"
  sb_updated_at :: "time option"

record agent_sandbox_event =
  se_id :: pystr
  se_sandbox_id :: pystr
  se_kind :: pystr
  se_actor_kind :: "pystr option"
  se_actor_id :: "pystr option"
  se_payload_json :: json
  se_created_at :: "time option"

record sandbox_db =
  sx_sandboxes :: "agent_sandbox list"
  sx_events :: "agent_sandbox_event list"

datatype sandbox_fault =
    Sx_value_error pystr
  | Sx_busy "pystr option" "pystr option" "time option"
  | Sx_quota pystr int int
  | Sx_confirmation pystr pystr "time option"
  | Sx_runtime_error pystr
  | Sx_integrity_error

record sandbox_connection =
  cn_generation :: "pystr option"

text \<open>
  The provider: \<open>sw_probe\<close> is \<^verbatim>\<open>get_scope\<close> without creation, \<open>sw_create\<close> with it, \<open>sw_release\<close> whether
  \<^verbatim>\<open>release_scope\<close> succeeds, \<open>sw_inventory\<close> the generation of the listed containers, \<open>sw_touch\<close> whether a
  container is alive; \<open>sw_workdir\<close> reads the Workdir path of a project.
\<close>

record sandbox_world =
  sw_probe :: "sandbox_scope \<Rightarrow> sandbox_connection option"
  sw_create :: "sandbox_scope \<Rightarrow> sandbox_connection option"
  sw_release :: "sandbox_scope \<Rightarrow> bool"
  sw_inventory :: "pystr \<Rightarrow> pystr option option"
  sw_touch :: "pystr \<Rightarrow> bool"
  sw_workdir :: "pystr \<Rightarrow> pystr option"

section \<open>Repository\<close>

definition sandbox_get :: "pystr \<Rightarrow> pystr \<Rightarrow> pystr \<Rightarrow> sandbox_db \<Rightarrow> agent_sandbox option" where
  "sandbox_get uid agent_slug project_id db =
     find (\<lambda>r. sb_uid r = uid \<and> sb_agent_slug r = agent_slug \<and> sb_project_id r = project_id) (sx_sandboxes db)"

text \<open>Rows are written by primary key, only the changed columns.\<close>

definition sandbox_update :: "pystr \<Rightarrow> (agent_sandbox \<Rightarrow> agent_sandbox) \<Rightarrow> sandbox_db \<Rightarrow> sandbox_db" where
  "sandbox_update i f db = db\<lparr>sx_sandboxes := update_where (\<lambda>r. sb_id r = i) f (sx_sandboxes db)\<rparr>"

definition sandbox_list_all :: "sandbox_db \<Rightarrow> agent_sandbox list" where
  "sandbox_list_all db = sort_key (\<lambda>r. (nulls_last (sb_created_at r), sb_id r)) (sx_sandboxes db)"

definition sandbox_add ::
  "pystr \<Rightarrow> pystr \<Rightarrow> pystr \<Rightarrow> pystr \<Rightarrow> pystr \<Rightarrow> pystr \<Rightarrow> sandbox_lifecycle \<Rightarrow> resume_policy \<Rightarrow> int option \<Rightarrow> time
   \<Rightarrow> sandbox_db \<Rightarrow> sandbox_fault + sandbox_db \<times> agent_sandbox" where
  "sandbox_add new_id uid agent_slug project_id scope_key sandbox_id lifecycle resume_policy idle_timeout now db =
     (let row = \<lparr>sb_id = new_id, sb_uid = uid, sb_agent_slug = agent_slug, sb_project_id = project_id,
            sb_scope_key = scope_key, sb_sandbox_id = sandbox_id, sb_generation = None, sb_lifecycle = lifecycle,
            sb_resume_policy = resume_policy, sb_status = Sandbox_active, sb_idle_timeout_seconds = idle_timeout,
            sb_credential_fingerprint = None, sb_lease_owner_kind = None, sb_lease_owner_id = None,
            sb_lease_expires_at = None, sb_lease_heartbeat_at = None, sb_last_activity_at = Some now,
            sb_last_keepalive_at = Some now, sb_suspended_at = None, sb_error_code = None, sb_error_message = None,
            sb_created_at = Some now, sb_updated_at = Some now\<rparr>
      in if list_ex (\<lambda>r. sb_id r = new_id \<or> sb_scope_key r = scope_key \<or> sb_sandbox_id r = sandbox_id
              \<or> sb_uid r = uid \<and> sb_agent_slug r = agent_slug \<and> sb_project_id r = project_id) (sx_sandboxes db)
         then Inl Sx_integrity_error
         else Inr (db\<lparr>sx_sandboxes := sx_sandboxes db @ [row]\<rparr>, row))"

definition sandbox_append_event ::
  "(nat \<Rightarrow> pystr) \<Rightarrow> pystr \<Rightarrow> string \<Rightarrow> pystr option \<Rightarrow> pystr option \<Rightarrow> json option \<Rightarrow> time \<Rightarrow> sandbox_db \<Rightarrow> sandbox_db" where
  "sandbox_append_event gen sandbox_id kind actor_kind actor_id payload now db =
     db\<lparr>sx_events := sx_events db @ [\<lparr>se_id = gen (length (sx_events db)), se_sandbox_id = sandbox_id,
         se_kind = lit kind, se_actor_kind = actor_kind, se_actor_id = actor_id, se_payload_json = or_obj payload,
         se_created_at = Some now\<rparr>]\<rparr>"

section \<open>Execution leases\<close>

definition sandbox_lease_seconds :: "int \<Rightarrow> int" where
  "sandbox_lease_seconds configured = max 5 configured"

definition sandbox_lease_wait_seconds :: "int \<Rightarrow> int" where
  "sandbox_lease_wait_seconds configured = max 0 configured"

text \<open>\<^verbatim>\<open>int(ttl_seconds or sandbox_lease_seconds())\<close>\<close>

definition lease_ttl :: "int option \<Rightarrow> int \<Rightarrow> int" where
  "lease_ttl ttl configured =
     (case ttl of None \<Rightarrow> sandbox_lease_seconds configured
      | Some t \<Rightarrow> if t = 0 then sandbox_lease_seconds configured else t)"

definition lease_active :: "agent_sandbox \<Rightarrow> time \<Rightarrow> bool" where
  "lease_active r now \<longleftrightarrow> (case sb_lease_expires_at r of None \<Rightarrow> False | Some t \<Rightarrow> now < t)"

definition grant_lease :: "pystr \<Rightarrow> pystr \<Rightarrow> int \<Rightarrow> time \<Rightarrow> agent_sandbox \<Rightarrow> agent_sandbox" where
  "grant_lease owner_kind owner_id ttl now r =
     r\<lparr>sb_lease_owner_kind := Some owner_kind, sb_lease_owner_id := Some owner_id,
       sb_lease_expires_at := Some (now + ttl * 1000000), sb_lease_heartbeat_at := Some now, sb_updated_at := Some now\<rparr>"

definition clear_lease :: "time \<Rightarrow> agent_sandbox \<Rightarrow> agent_sandbox" where
  "clear_lease now r =
     r\<lparr>sb_lease_owner_kind := None, sb_lease_owner_id := None, sb_lease_expires_at := None,
       sb_lease_heartbeat_at := None, sb_updated_at := Some now\<rparr>"

definition try_acquire ::
  "(nat \<Rightarrow> pystr) \<Rightarrow> pystr \<Rightarrow> pystr \<Rightarrow> pystr \<Rightarrow> pystr \<Rightarrow> pystr \<Rightarrow> int \<Rightarrow> time \<Rightarrow> sandbox_db
   \<Rightarrow> sandbox_fault + sandbox_db \<times> bool \<times> agent_sandbox" where
  "try_acquire gen uid agent_slug project_id owner_kind owner_id ttl now db =
     (case sandbox_get uid agent_slug project_id db of
        None \<Rightarrow> Inl (Sx_value_error (lit ''sandbox binding not found''))
      | Some row \<Rightarrow>
          if sb_lease_owner_id row \<noteq> None \<and> sb_lease_owner_id row \<noteq> Some owner_id \<and> lease_active row now
          then Inr (db, False, row)
          else
            let row' = grant_lease owner_kind owner_id ttl now row;
                db1 = sandbox_update (sb_id row) (\<lambda>_. row') db
            in Inr (if sb_lease_owner_id row \<noteq> Some owner_id
                    then sandbox_append_event gen (sb_sandbox_id row) ''lease_acquired'' (Some owner_kind) (Some owner_id) None now db1
                    else db1, True, row'))"

definition opt_str :: "pystr option \<Rightarrow> json" where
  "opt_str s = (case s of None \<Rightarrow> JNull | Some x \<Rightarrow> JStr x)"

text \<open>
  The loop of \<^verbatim>\<open>acquire\<close>. Each poll is one element of the list: what other workers did since the last
  poll, the clock reading and the time left until the deadline. \<open>None\<close> means that the loop is still waiting
  after the polls of the list. \<open>show_time\<close> prints a time.
\<close>

fun acquire_polls ::
  "(nat \<Rightarrow> pystr) \<Rightarrow> (time \<Rightarrow> pystr) \<Rightarrow> pystr \<Rightarrow> pystr \<Rightarrow> pystr \<Rightarrow> pystr \<Rightarrow> pystr \<Rightarrow> int \<Rightarrow> bool
   \<Rightarrow> ((sandbox_db \<Rightarrow> sandbox_db) \<times> time \<times> int) list \<Rightarrow> sandbox_db
   \<Rightarrow> (sandbox_db \<times> (sandbox_fault + agent_sandbox)) option" where
  "acquire_polls gen show_time uid agent_slug project_id owner_kind owner_id ttl waiting_recorded [] db = None"
| "acquire_polls gen show_time uid agent_slug project_id owner_kind owner_id ttl waiting_recorded ((others, now, remaining) # polls) db =
     (let db0 = others db
      in case try_acquire gen uid agent_slug project_id owner_kind owner_id ttl now db0 of
           Inl e \<Rightarrow> Some (db0, Inl e)
         | Inr (db1, True, row) \<Rightarrow> Some (db1, Inr row)
         | Inr (db1, False, holder) \<Rightarrow>
             let db2 = (if waiting_recorded then db1
                        else sandbox_append_event gen (sb_sandbox_id holder) ''lease_waiting'' (Some owner_kind) (Some owner_id)
                          (Some (JObj [(lit ''holder_kind'', opt_str (sb_lease_owner_kind holder)),
                             (lit ''holder_id'', opt_str (sb_lease_owner_id holder)),
                             (lit ''expires_at'', opt_str (map_option show_time (sb_lease_expires_at holder)))])) now db1)
             in if remaining \<le> 0
                then Some (db2, Inl (Sx_busy (sb_lease_owner_kind holder) (sb_lease_owner_id holder) (sb_lease_expires_at holder)))
                else acquire_polls gen show_time uid agent_slug project_id owner_kind owner_id ttl True polls db2)"

definition lease_heartbeat :: "pystr \<Rightarrow> pystr \<Rightarrow> pystr \<Rightarrow> pystr \<Rightarrow> int \<Rightarrow> time \<Rightarrow> sandbox_db \<Rightarrow> sandbox_db \<times> bool" where
  "lease_heartbeat uid agent_slug project_id owner_id ttl now db =
     (case sandbox_get uid agent_slug project_id db of
        None \<Rightarrow> (db, False)
      | Some row \<Rightarrow>
          if sb_lease_owner_id row \<noteq> Some owner_id \<or> \<not> lease_active row now then (db, False)
          else (sandbox_update (sb_id row) (\<lambda>_. row\<lparr>sb_lease_expires_at := Some (now + ttl * 1000000),
                  sb_lease_heartbeat_at := Some now, sb_updated_at := Some now\<rparr>) db, True))"

definition owns_active :: "pystr \<Rightarrow> pystr \<Rightarrow> pystr \<Rightarrow> pystr \<Rightarrow> time \<Rightarrow> sandbox_db \<Rightarrow> bool" where
  "owns_active uid agent_slug project_id owner_id now db =
     (case sandbox_get uid agent_slug project_id db of
        None \<Rightarrow> False | Some row \<Rightarrow> sb_lease_owner_id row = Some owner_id \<and> lease_active row now)"

definition owns_active_prefix :: "pystr \<Rightarrow> pystr \<Rightarrow> pystr \<Rightarrow> pystr \<Rightarrow> pystr \<Rightarrow> time \<Rightarrow> sandbox_db \<Rightarrow> bool" where
  "owns_active_prefix uid agent_slug project_id owner_kind owner_id_prefix now db =
     (case sandbox_get uid agent_slug project_id db of
        None \<Rightarrow> False
      | Some row \<Rightarrow> sb_lease_owner_kind row = Some owner_kind
          \<and> starts_with (or_empty (sb_lease_owner_id row)) owner_id_prefix \<and> lease_active row now)"

definition lease_release :: "(nat \<Rightarrow> pystr) \<Rightarrow> pystr \<Rightarrow> pystr \<Rightarrow> pystr \<Rightarrow> pystr \<Rightarrow> time \<Rightarrow> sandbox_db \<Rightarrow> sandbox_db \<times> bool" where
  "lease_release gen uid agent_slug project_id owner_id now db =
     (case sandbox_get uid agent_slug project_id db of
        None \<Rightarrow> (db, False)
      | Some row \<Rightarrow>
          if sb_lease_owner_id row \<noteq> Some owner_id then (db, False)
          else (sandbox_append_event gen (sb_sandbox_id row) ''lease_released'' (Some (lit ''system'')) (Some owner_id) None now
                  (sandbox_update (sb_id row) (\<lambda>_. clear_lease now row) db), True))"

definition lease_expired :: "time \<Rightarrow> agent_sandbox \<Rightarrow> bool" where
  "lease_expired now r \<longleftrightarrow> sb_lease_owner_id r \<noteq> None
     \<and> (case sb_lease_expires_at r of None \<Rightarrow> False | Some t \<Rightarrow> t < now)"

fun reconcile_leases :: "(nat \<Rightarrow> pystr) \<Rightarrow> time \<Rightarrow> pystr list \<Rightarrow> sandbox_db \<Rightarrow> sandbox_db \<times> nat" where
  "reconcile_leases gen now [] db = (db, 0)"
| "reconcile_leases gen now (i # ids) db =
     (case find (\<lambda>r. sb_id r = i) (sx_sandboxes db) of
        None \<Rightarrow> reconcile_leases gen now ids db
      | Some row \<Rightarrow>
          if \<not> lease_expired now row then reconcile_leases gen now ids db
          else
            let db1 = sandbox_append_event gen (sb_sandbox_id row) ''lease_expired'' (Some (lit ''system'')) None
                  (Some (JObj [(lit ''owner_kind'', opt_str (sb_lease_owner_kind row)),
                     (lit ''owner_id'', opt_str (sb_lease_owner_id row))])) now
                  (sandbox_update i (clear_lease now) db)
            in case reconcile_leases gen now ids db1 of (db2, n) \<Rightarrow> (db2, n + 1))"

definition lease_reconcile_expired :: "(nat \<Rightarrow> pystr) \<Rightarrow> time \<Rightarrow> sandbox_db \<Rightarrow> sandbox_db \<times> nat" where
  "lease_reconcile_expired gen now db =
     reconcile_leases gen now (map sb_id (filter (lease_expired now) (sx_sandboxes db))) db"

section \<open>Life cycle\<close>

definition enforce_sandbox_quota :: "pystr \<Rightarrow> sandbox_policy \<Rightarrow> int \<Rightarrow> int \<Rightarrow> sandbox_db \<Rightarrow> sandbox_fault + unit" where
  "enforce_sandbox_quota uid policy dedicated_max resident_max db =
     (if \<not> is_dedicated policy then Inr ()
      else
        let rows = filter (\<lambda>r. sb_uid r = uid) (sx_sandboxes db);
            residents = int (length (filter (\<lambda>r. sb_lifecycle r = Resident) rows))
        in if dedicated_max \<le> int (length rows)
           then Inl (Sx_quota (lit ''sandbox_dedicated_max_per_user'') dedicated_max (int (length rows)))
           else if sp_lifecycle policy = Resident \<and> resident_max \<le> residents
           then Inl (Sx_quota (lit ''sandbox_resident_max_per_user'') resident_max residents)
           else Inr ())"

definition apply_policy :: "sandbox_policy \<Rightarrow> time \<Rightarrow> agent_sandbox \<Rightarrow> agent_sandbox" where
  "apply_policy policy now r =
     r\<lparr>sb_lifecycle := sp_lifecycle policy, sb_resume_policy := sp_resume_policy policy,
       sb_idle_timeout_seconds := provisioner_idle_timeout policy, sb_updated_at := Some now\<rparr>"

definition ensure_binding ::
  "(pystr \<Rightarrow> pystr) \<Rightarrow> pystr \<Rightarrow> pystr \<Rightarrow> pystr \<Rightarrow> pystr \<Rightarrow> sandbox_policy \<Rightarrow> int \<Rightarrow> int \<Rightarrow> time \<Rightarrow> sandbox_db
   \<Rightarrow> sandbox_fault + sandbox_db \<times> agent_sandbox \<times> bool" where
  "ensure_binding digest new_id uid agent_slug project_id policy dedicated_max resident_max now db =
     (if \<not> is_dedicated policy then Inl (Sx_value_error (lit ''ensure_binding requires a dedicated sandbox policy''))
      else
        (case agent_project_scope uid agent_slug project_id of
           None \<Rightarrow> Inl (Sx_value_error (lit ''sandbox scope''))
         | Some scope \<Rightarrow>
             (case sandbox_get uid agent_slug project_id db of
                Some row \<Rightarrow>
                  let row' = apply_policy policy now row
                  in Inr (sandbox_update (sb_id row) (\<lambda>_. row') db, row', False)
              | None \<Rightarrow>
                  (case enforce_sandbox_quota uid policy dedicated_max resident_max db of
                     Inl e \<Rightarrow> Inl e
                   | Inr _ \<Rightarrow>
                       (case sandbox_add new_id uid agent_slug project_id (cache_key scope) (digest (cache_key scope))
                               (sp_lifecycle policy) (sp_resume_policy policy) (provisioner_idle_timeout policy) now db of
                          Inl e \<Rightarrow> Inl e
                        | Inr (db', row) \<Rightarrow> Inr (db', row, True))))))"

definition mark_suspended ::
  "(nat \<Rightarrow> pystr) \<Rightarrow> agent_sandbox \<Rightarrow> string \<Rightarrow> pystr option \<Rightarrow> pystr option \<Rightarrow> time \<Rightarrow> sandbox_db \<Rightarrow> sandbox_db" where
  "mark_suspended gen row reason actor_kind actor_id now db =
     sandbox_append_event gen (sb_sandbox_id row) ''suspended'' actor_kind actor_id
       (Some (JObj [(lit ''reason'', JStr (lit reason))])) now
       (sandbox_update (sb_id row) (\<lambda>r. r\<lparr>sb_status := Sandbox_suspended, sb_generation := None,
          sb_suspended_at := Some now, sb_updated_at := Some now\<rparr>) db)"

text \<open>The row as the session knows it decides; the columns are written to the row in the database.\<close>

definition suspend_row ::
  "sandbox_world \<Rightarrow> (nat \<Rightarrow> pystr) \<Rightarrow> agent_sandbox \<Rightarrow> string \<Rightarrow> pystr option \<Rightarrow> pystr option \<Rightarrow> time \<Rightarrow> sandbox_db
   \<Rightarrow> sandbox_db \<times> (sandbox_fault + unit)" where
  "suspend_row world gen row reason actor_kind actor_id now db =
     (case agent_project_scope (sb_uid row) (sb_agent_slug row) (sb_project_id row) of
        None \<Rightarrow> (db, Inl (Sx_value_error (lit ''sandbox scope'')))
      | Some scope \<Rightarrow>
          if sb_status row = Sandbox_suspended then (db, Inr ())
          else if \<not> sw_release world scope then (db, Inl (Sx_runtime_error (lit ''release_scope'')))
          else (mark_suspended gen row reason actor_kind actor_id now db, Inr ()))"

definition suspend ::
  "sandbox_world \<Rightarrow> (nat \<Rightarrow> pystr) \<Rightarrow> pystr \<Rightarrow> pystr \<Rightarrow> pystr \<Rightarrow> string \<Rightarrow> pystr option \<Rightarrow> pystr option \<Rightarrow> time \<Rightarrow> sandbox_db
   \<Rightarrow> sandbox_db \<times> (sandbox_fault + unit)" where
  "suspend world gen uid agent_slug project_id reason actor_kind actor_id now db =
     (case agent_project_scope uid agent_slug project_id of
        None \<Rightarrow> (db, Inl (Sx_value_error (lit ''sandbox scope'')))
      | Some _ \<Rightarrow>
          (case sandbox_get uid agent_slug project_id db of
             None \<Rightarrow> (db, Inl (Sx_value_error (lit ''sandbox binding not found'')))
           | Some row \<Rightarrow> suspend_row world gen row reason actor_kind actor_id now db))"

definition rebuild ::
  "sandbox_world \<Rightarrow> (nat \<Rightarrow> pystr) \<Rightarrow> agent_sandbox \<Rightarrow> sandbox_scope \<Rightarrow> pystr option \<Rightarrow> string \<Rightarrow> time \<Rightarrow> sandbox_db
   \<Rightarrow> sandbox_db \<times> (sandbox_fault + sandbox_connection)" where
  "rebuild world gen row scope credential_fingerprint event_kind now db =
     (case sw_create world scope of
        None \<Rightarrow> (db, Inl (Sx_runtime_error (lit ''sandbox provider failed to create a dedicated sandbox'')))
      | Some c \<Rightarrow>
          (sandbox_append_event gen (sb_sandbox_id row) event_kind (Some (lit ''system'')) None
             (Some (JObj [(lit ''generation'', opt_str (cn_generation c))])) now
             (sandbox_update (sb_id row) (\<lambda>r. r\<lparr>sb_status := Sandbox_active, sb_generation := cn_generation c,
                sb_suspended_at := None, sb_error_code := None, sb_error_message := None,
                sb_last_activity_at := Some now, sb_last_keepalive_at := Some now, sb_updated_at := Some now,
                sb_credential_fingerprint := (case credential_fingerprint of None \<Rightarrow> sb_credential_fingerprint r
                                              | Some f \<Rightarrow> Some f)\<rparr>) db), Inr c))"

definition resume_or_raise ::
  "sandbox_world \<Rightarrow> (nat \<Rightarrow> pystr) \<Rightarrow> agent_sandbox \<Rightarrow> time option \<Rightarrow> sandbox_scope \<Rightarrow> sandbox_policy \<Rightarrow> pystr option
   \<Rightarrow> time \<Rightarrow> sandbox_db \<Rightarrow> sandbox_db \<times> (sandbox_fault + sandbox_connection)" where
  "resume_or_raise world gen row suspended_at scope policy credential_fingerprint now db =
     (if sp_resume_policy policy = Resume_confirm
      then (db, Inl (Sx_confirmation (sb_scope_key row) (sb_sandbox_id row) suspended_at))
      else rebuild world gen row scope credential_fingerprint ''rebuilt'' now db)"

definition ensure_ready ::
  "sandbox_world \<Rightarrow> (nat \<Rightarrow> pystr) \<Rightarrow> (pystr \<Rightarrow> pystr) \<Rightarrow> pystr \<Rightarrow> pystr \<Rightarrow> pystr \<Rightarrow> pystr \<Rightarrow> sandbox_policy \<Rightarrow> pystr option
   \<Rightarrow> int \<Rightarrow> int \<Rightarrow> time \<Rightarrow> sandbox_db \<Rightarrow> sandbox_db \<times> (sandbox_fault + sandbox_connection)" where
  "ensure_ready world gen digest new_id uid agent_slug project_id policy fingerprint dedicated_max resident_max now db =
     (if \<not> is_dedicated policy then (db, Inl (Sx_value_error (lit ''ensure_ready requires a dedicated sandbox policy'')))
      else case ensure_binding digest new_id uid agent_slug project_id policy dedicated_max resident_max now db of
        Inl e \<Rightarrow> (db, Inl e)
      | Inr (db1, row, created) \<Rightarrow>
          (case agent_project_scope uid agent_slug project_id of
             None \<Rightarrow> (db1, Inl (Sx_value_error (lit ''sandbox scope'')))
           | Some scope \<Rightarrow>
               if created then rebuild world gen row scope fingerprint ''created'' now db1
               else if sb_status row = Sandbox_suspended
               then resume_or_raise world gen row (sb_suspended_at row) scope policy fingerprint now db1
               else
                 (case sw_probe world scope of
                    None \<Rightarrow>
                      resume_or_raise world gen row (Some now) scope policy fingerprint now
                        (mark_suspended gen row ''container_missing'' None None now db1)
                  | Some c \<Rightarrow>
                      if fingerprint \<noteq> None \<and> sb_credential_fingerprint row \<noteq> fingerprint
                      then
                        (case suspend_row world gen row ''credential_changed'' (Some (lit ''system'')) None now db1 of
                           (db2, Inl e) \<Rightarrow> (db2, Inl e)
                         | (db2, Inr _) \<Rightarrow> resume_or_raise world gen row (Some now) scope policy fingerprint now db2)
                      else
                        (sandbox_update (sb_id row) (\<lambda>r. r\<lparr>sb_generation :=
                             (if or_empty (cn_generation c) \<noteq> [] then cn_generation c else sb_generation r),
                             sb_last_activity_at := Some now, sb_updated_at := Some now\<rparr>) db1, Inr c))))"

section \<open>Supervisor\<close>

definition keepalive_due :: "agent_sandbox \<Rightarrow> time \<Rightarrow> int \<Rightarrow> bool" where
  "keepalive_due row now interval =
     (case sb_last_keepalive_at row of None \<Rightarrow> True | Some t \<Rightarrow> interval * 1000000 \<le> now - t)"

definition idle_exceeded :: "agent_sandbox \<Rightarrow> time \<Rightarrow> int \<Rightarrow> bool" where
  "idle_exceeded row now default_idle =
     (let idle_seconds = (case sb_idle_timeout_seconds row of None \<Rightarrow> default_idle | Some s \<Rightarrow> s)
      in if idle_seconds \<le> 0 then False
         else (case sb_last_activity_at row of None \<Rightarrow> False | Some t \<Rightarrow> idle_seconds * 1000000 \<le> now - t))"

definition supervisor_suspend ::
  "sandbox_world \<Rightarrow> (nat \<Rightarrow> pystr) \<Rightarrow> agent_sandbox \<Rightarrow> string \<Rightarrow> time \<Rightarrow> sandbox_db \<Rightarrow> sandbox_db \<times> (sandbox_fault + unit)" where
  "supervisor_suspend world gen row reason now db =
     (if or_empty (sw_workdir world (sb_project_id row)) = [] then (db, Inl (Sx_runtime_error (sb_project_id row)))
      else suspend_row world gen row reason (Some (lit ''supervisor'')) None now db)"

text \<open>
  The body of the loop for one row. \<open>row\<close> is the row as \<^verbatim>\<open>list_all\<close> read it, without a lock; \<open>db\<close> is the database when
  the row is processed, \<open>clk\<close> the clock of \<^verbatim>\<open>suspend\<close>. An exception is logged and leaves the row to the next tick.
\<close>

definition tick_row ::
  "sandbox_world \<Rightarrow> (nat \<Rightarrow> pystr) \<Rightarrow> int \<Rightarrow> int \<Rightarrow> time \<Rightarrow> time \<Rightarrow> agent_sandbox \<Rightarrow> sandbox_db \<Rightarrow> sandbox_db" where
  "tick_row world gen interval default_idle now clk row db =
     (if sb_status row \<noteq> Sandbox_active then db
      else if sb_lease_owner_id row \<noteq> None \<and> lease_active row now then db
      else
        (case sw_inventory world (sb_sandbox_id row) of
           None \<Rightarrow> fst (supervisor_suspend world gen row ''container_missing'' clk db)
         | Some g \<Rightarrow>
             let db1 = (if or_empty g \<noteq> [] \<and> g \<noteq> sb_generation row
                        then sandbox_append_event gen (sb_sandbox_id row) ''rebuilt'' (Some (lit ''supervisor'')) None
                               (Some (JObj [(lit ''reason'', JStr (lit ''generation_changed'')), (lit ''generation'', opt_str g)])) now
                               (sandbox_update (sb_id row) (\<lambda>r. r\<lparr>sb_generation := g, sb_updated_at := Some now\<rparr>) db)
                        else db);
                 due = sb_lifecycle row \<noteq> Resident \<and> keepalive_due row now interval
             in if due \<and> \<not> sw_touch world (sb_sandbox_id row)
                then fst (supervisor_suspend world gen row ''container_missing'' clk db1)
                else
                  let db2 = (if due then sandbox_update (sb_id row) (\<lambda>r. r\<lparr>sb_last_keepalive_at := Some now\<rparr>) db1 else db1)
                  in if sb_lifecycle row \<noteq> Resident \<and> idle_exceeded row now default_idle
                     then fst (supervisor_suspend world gen row ''idle_suspend'' clk db2)
                     else sandbox_update (sb_id row) (\<lambda>r. r\<lparr>sb_updated_at := Some now\<rparr>) db2))"

definition run_tick :: "sandbox_world \<Rightarrow> (nat \<Rightarrow> pystr) \<Rightarrow> int \<Rightarrow> int \<Rightarrow> time \<Rightarrow> time \<Rightarrow> sandbox_db \<Rightarrow> sandbox_db" where
  "run_tick world gen interval default_idle now clk db =
     (let db0 = fst (lease_reconcile_expired gen now db)
      in fold (tick_row world gen interval default_idle now clk) (sandbox_list_all db0) db0)"

end
