(* ===== verification/Sandbox_Invariant.thy ===== *)
theory Sandbox_Invariant
  imports Sandbox
begin

text \<open>
  Steps, invariant and leases of the dedicated sandboxes. Every operation is a sequence of three
  kinds of writes (\<open>sandbox_write\<close>): an event is appended, a row is changed in a way that keeps its identity
  and its shape, a new row is added. The execution lease is an instance of \<open>lease_discipline\<close>.
\<close>

section \<open>Invariant\<close>

definition sandbox_owner :: "agent_sandbox \<Rightarrow> pystr \<times> pystr \<times> pystr" where
  "sandbox_owner r = (sb_uid r, sb_agent_slug r, sb_project_id r)"

definition sandbox_identity :: "agent_sandbox \<Rightarrow> pystr \<times> (pystr \<times> pystr \<times> pystr) \<times> pystr \<times> pystr" where
  "sandbox_identity r = (sb_id r, sandbox_owner r, sb_scope_key r, sb_sandbox_id r)"

text \<open>The four lease columns are set together; \<^verbatim>\<open>suspended_at\<close> goes with the status.\<close>

definition sandbox_row_ok :: "agent_sandbox \<Rightarrow> bool" where
  "sandbox_row_ok r \<longleftrightarrow>
     (sb_lease_expires_at r = None \<longleftrightarrow> sb_lease_owner_id r = None)
     \<and> (sb_lease_owner_kind r = None \<longleftrightarrow> sb_lease_owner_id r = None)
     \<and> (sb_lease_heartbeat_at r = None \<longleftrightarrow> sb_lease_owner_id r = None)
     \<and> (sb_status r = Sandbox_suspended \<longrightarrow> sb_suspended_at r \<noteq> None)
     \<and> (sb_status r = Sandbox_active \<longrightarrow> sb_suspended_at r = None)"

definition sandbox_inv :: "sandbox_db \<Rightarrow> bool" where
  "sandbox_inv db \<longleftrightarrow> distinct (map sb_id (sx_sandboxes db)) \<and> distinct (map sandbox_owner (sx_sandboxes db))
     \<and> distinct (map sb_scope_key (sx_sandboxes db)) \<and> distinct (map sb_sandbox_id (sx_sandboxes db))
     \<and> (\<forall>r\<in>set (sx_sandboxes db). sandbox_row_ok r)"

definition sandbox_rel :: "sandbox_db \<Rightarrow> sandbox_db \<Rightarrow> bool" where
  "sandbox_rel db db' \<longleftrightarrow> evolves (\<lambda>r r'. sandbox_identity r' = sandbox_identity r) (sx_sandboxes db) (sx_sandboxes db')
     \<and> evolves (=) (sx_events db) (sx_events db')"

definition sandbox_start :: "sandbox_db \<Rightarrow> bool" where
  "sandbox_start db \<longleftrightarrow> sx_sandboxes db = []"

section \<open>Writes\<close>

definition keeps_shape :: "(agent_sandbox \<Rightarrow> agent_sandbox) \<Rightarrow> agent_sandbox \<Rightarrow> bool" where
  "keeps_shape f r \<longleftrightarrow> sandbox_identity (f r) = sandbox_identity r \<and> (sandbox_row_ok r \<longrightarrow> sandbox_row_ok (f r))"

inductive sandbox_write :: "sandbox_db \<Rightarrow> sandbox_db \<Rightarrow> bool" where
  event: "sandbox_write db (sandbox_append_event gen s k ak ai p now db)"
| row: "(\<And>r. r \<in> set (sx_sandboxes db) \<Longrightarrow> sb_id r = i \<Longrightarrow> keeps_shape f r) \<Longrightarrow> sandbox_write db (sandbox_update i f db)"
| add: "sandbox_add i u a p k s lc rp idle now db = Inr (db', r) \<Longrightarrow> sandbox_write db db'"

lemma append_event_fields [simp]:
  "sx_sandboxes (sandbox_append_event gen s k ak ai p now db) = sx_sandboxes db"
  by (simp add: sandbox_append_event_def)

lemma sandbox_update_fields [simp]: "sx_events (sandbox_update i f db) = sx_events db"
  by (simp add: sandbox_update_def)

lemma sandbox_identity_fields:
  "sandbox_identity r' = sandbox_identity r \<Longrightarrow> sb_id r' = sb_id r \<and> sandbox_owner r' = sandbox_owner r
     \<and> sb_scope_key r' = sb_scope_key r \<and> sb_sandbox_id r' = sb_sandbox_id r"
  by (simp add: sandbox_identity_def)

lemma write_row_maps:
  assumes "\<And>r. r \<in> set rows \<Longrightarrow> sb_id r = i \<Longrightarrow> keeps_shape f r"
  shows "map sandbox_identity (update_where (\<lambda>r. sb_id r = i) f rows) = map sandbox_identity rows"
  using assms by (induction rows) (auto simp: keeps_shape_def)

text \<open>Each unique column is a function of the identity.\<close>

lemma sandbox_keys:
  "map sb_id rows = map fst (map sandbox_identity rows)"
  "map sandbox_owner rows = map (fst \<circ> snd) (map sandbox_identity rows)"
  "map sb_scope_key rows = map (fst \<circ> snd \<circ> snd) (map sandbox_identity rows)"
  "map sb_sandbox_id rows = map (snd \<circ> snd \<circ> snd) (map sandbox_identity rows)"
  by (simp_all add: sandbox_identity_def)

lemma write_row_keys:
  assumes "\<And>r. r \<in> set (sx_sandboxes db) \<Longrightarrow> sb_id r = i \<Longrightarrow> keeps_shape f r"
  shows "map sb_id (sx_sandboxes (sandbox_update i f db)) = map sb_id (sx_sandboxes db)"
    "map sandbox_owner (sx_sandboxes (sandbox_update i f db)) = map sandbox_owner (sx_sandboxes db)"
    "map sb_scope_key (sx_sandboxes (sandbox_update i f db)) = map sb_scope_key (sx_sandboxes db)"
    "map sb_sandbox_id (sx_sandboxes (sandbox_update i f db)) = map sb_sandbox_id (sx_sandboxes db)"
  using write_row_maps[OF assms] unfolding sandbox_keys by (simp_all add: sandbox_update_def)

lemma write_row_ok:
  assumes "\<And>r. r \<in> set (sx_sandboxes db) \<Longrightarrow> sb_id r = i \<Longrightarrow> keeps_shape f r"
    and "\<forall>r\<in>set (sx_sandboxes db). sandbox_row_ok r"
  shows "\<forall>r\<in>set (sx_sandboxes (sandbox_update i f db)). sandbox_row_ok r"
proof
  fix x assume "x \<in> set (sx_sandboxes (sandbox_update i f db))"
  then have "x \<in> set (update_where (\<lambda>r. sb_id r = i) f (sx_sandboxes db))" by (simp add: sandbox_update_def)
  then show "sandbox_row_ok x"
    by (rule in_update_whereE) (use assms in \<open>auto simp: keeps_shape_def\<close>)
qed

lemma add_inv:
  assumes "sandbox_add i u a p k s lc rp idle now db = Inr (db', r)" and inv: "sandbox_inv db"
  shows "sandbox_inv db'"
proof -
  have fresh: "\<forall>x\<in>set (sx_sandboxes db). sb_id x \<noteq> i \<and> sb_scope_key x \<noteq> k \<and> sb_sandbox_id x \<noteq> s \<and> sandbox_owner x \<noteq> (u, a, p)"
    using assms(1) by (auto simp: sandbox_add_def Let_def list_ex_iff sandbox_owner_def split: if_splits)
  have row: "sx_sandboxes db' = sx_sandboxes db @ [r]" "sb_id r = i" "sb_scope_key r = k" "sb_sandbox_id r = s"
      "sandbox_owner r = (u, a, p)" "sandbox_row_ok r"
    using assms(1) by (auto simp: sandbox_add_def Let_def sandbox_owner_def sandbox_row_ok_def split: if_splits)
  show ?thesis using inv fresh by (auto simp: sandbox_inv_def row)
qed

lemma sandbox_write_inv: "sandbox_write db db' \<Longrightarrow> sandbox_inv db \<Longrightarrow> sandbox_inv db'"
proof (induction rule: sandbox_write.induct)
  case (row db i f)
  then show ?case unfolding sandbox_inv_def
    by (intro conjI) (simp_all only: write_row_keys[OF row(1)], rule write_row_ok[OF row(1)], simp_all)
next
  case (add i u a p k s lc rp idle now db db' r)
  then show ?case by (rule add_inv)
qed (simp add: sandbox_inv_def)

lemma sandbox_write_rel: "sandbox_write db db' \<Longrightarrow> sandbox_rel db db'"
proof (induction rule: sandbox_write.induct)
  case (row db i f)
  then have "evolves (\<lambda>r r'. sandbox_identity r' = sandbox_identity r) (sx_sandboxes db)
      (update_where (\<lambda>r. sb_id r = i) f (sx_sandboxes db))"
    by (intro evolves_update_where) (auto simp: keeps_shape_def)
  then show ?case by (simp add: sandbox_rel_def sandbox_update_def evolves_refl)
next
  case (add i u a p k s lc rp idle now db db' r)
  then have "sx_sandboxes db' = sx_sandboxes db @ [r]" "sx_events db' = sx_events db"
    by (auto simp: sandbox_add_def Let_def split: if_splits)
  then show ?case by (simp add: sandbox_rel_def evolves_append evolves_refl)
qed (simp add: sandbox_rel_def sandbox_append_event_def evolves_refl evolves_append)

lemma sandbox_rel_refl: "sandbox_rel db db"
  by (simp add: sandbox_rel_def evolves_refl)

lemma sandbox_rel_trans: "sandbox_rel a b \<Longrightarrow> sandbox_rel b c \<Longrightarrow> sandbox_rel a c"
  unfolding sandbox_rel_def by (elim conjE, intro conjI) (erule (1) evolves_trans, simp)+

abbreviation sandbox_writes :: "sandbox_db \<Rightarrow> sandbox_db \<Rightarrow> bool" where
  "sandbox_writes \<equiv> sandbox_write\<^sup>*\<^sup>*"

lemma writes_event: "sandbox_writes db db1 \<Longrightarrow> sandbox_writes db (sandbox_append_event gen s k ak ai p now db1)"
  by (erule rtranclp.rtrancl_into_rtrancl) (rule sandbox_write.event)

lemma writes_row:
  "sandbox_writes db db1 \<Longrightarrow> (\<And>r. r \<in> set (sx_sandboxes db1) \<Longrightarrow> sb_id r = i \<Longrightarrow> keeps_shape f r)
   \<Longrightarrow> sandbox_writes db (sandbox_update i f db1)"
  by (erule rtranclp.rtrancl_into_rtrancl) (rule sandbox_write.row)

lemma writes_inv: "sandbox_writes db db' \<Longrightarrow> sandbox_inv db \<Longrightarrow> sandbox_inv db'"
  by (induction rule: rtranclp_induct) (auto intro: sandbox_write_inv)

lemma writes_rel: "sandbox_writes db db' \<Longrightarrow> sandbox_rel db db'"
  by (induction rule: rtranclp_induct) (auto intro: sandbox_rel_refl sandbox_rel_trans sandbox_write_rel)

section \<open>Operations as writes\<close>

lemma sandbox_get_in:
  "sandbox_get u a p db = Some r \<Longrightarrow> r \<in> set (sx_sandboxes db) \<and> sandbox_owner r = (u, a, p)"
  by (auto simp: sandbox_get_def sandbox_owner_def dest: find_Some_in)

lemma inv_same_row:
  assumes "sandbox_inv db" and "r \<in> set (sx_sandboxes db)" and "x \<in> set (sx_sandboxes db)" and "sb_id x = sb_id r"
  shows "x = r"
proof -
  have "inj_on sb_id (set (sx_sandboxes db))" using assms(1) by (simp add: sandbox_inv_def distinct_map)
  from inj_onD[OF this assms(4,3,2)] show ?thesis .
qed

lemma writes_replace:
  assumes "sandbox_inv db" and "r \<in> set (sx_sandboxes db)" and "sandbox_identity r' = sandbox_identity r"
    and "sandbox_row_ok r \<Longrightarrow> sandbox_row_ok r'"
  shows "sandbox_writes db (sandbox_update (sb_id r) (\<lambda>_. r') db)"
  by (rule writes_row[OF rtranclp.rtrancl_refl])
    (use assms inv_same_row[OF assms(1,2)] in \<open>auto simp: keeps_shape_def\<close>)

lemmas sandbox_row_simps = sandbox_identity_def sandbox_owner_def sandbox_row_ok_def grant_lease_def clear_lease_def
  apply_policy_def

lemma try_acquire_writes:
  assumes inv: "sandbox_inv db" and t: "try_acquire gen u a p k w ttl now db = Inr (db', ok, r)"
  shows "sandbox_writes db db'"
proof (cases "db' = db")
  case False
  then obtain row where row: "sandbox_get u a p db = Some row"
    and db': "db' = sandbox_update (sb_id row) (\<lambda>_. grant_lease k w ttl now row) db
      \<or> db' = sandbox_append_event gen (sb_sandbox_id row) ''lease_acquired'' (Some k) (Some w) None now
              (sandbox_update (sb_id row) (\<lambda>_. grant_lease k w ttl now row) db)"
    using t by (auto simp: try_acquire_def Let_def split: option.splits if_splits)
  have "sandbox_writes db (sandbox_update (sb_id row) (\<lambda>_. grant_lease k w ttl now row) db)"
    using sandbox_get_in[OF row] by (intro writes_replace[OF inv]) (auto simp: sandbox_row_simps)
  then show ?thesis using db' writes_event by blast
qed simp

lemma heartbeat_writes:
  assumes inv: "sandbox_inv db"
  shows "sandbox_writes db (fst (lease_heartbeat u a p w ttl now db))"
  by (cases "sandbox_get u a p db")
    (auto simp: lease_heartbeat_def sandbox_row_simps lease_active_def dest!: sandbox_get_in
      intro!: writes_replace[OF inv] split: option.splits)

lemma release_writes:
  assumes inv: "sandbox_inv db"
  shows "sandbox_writes db (fst (lease_release gen u a p w now db))"
  by (cases "sandbox_get u a p db")
    (auto simp: lease_release_def sandbox_row_simps dest!: sandbox_get_in
      intro!: writes_event writes_replace[OF inv])

lemma keeps_clear [simp]: "keeps_shape (clear_lease now) r"
  by (simp add: keeps_shape_def sandbox_row_simps)

lemma reconcile_leases_writes: "sandbox_writes db (fst (reconcile_leases gen now ids db))"
proof (induction ids arbitrary: db)
  case (Cons i ids)
  have step: "sandbox_writes db (fst (reconcile_leases gen now ids db1))" if "sandbox_writes db db1" for db1
    using that Cons.IH[of db1] by (rule rtranclp_trans)
  have one: "sandbox_writes db (sandbox_append_event gen s k ak ai p now (sandbox_update i (clear_lease now) db))" for s k ak ai p
    by (intro writes_event writes_row) simp_all
  show ?case using step[OF one] Cons.IH[of db]
    by (auto simp: Let_def split: option.splits prod.splits) (metis fst_conv)
qed simp

lemma reconcile_writes: "sandbox_writes db (fst (lease_reconcile_expired gen now db))"
  by (simp add: lease_reconcile_expired_def reconcile_leases_writes)

lemma binding_writes:
  assumes inv: "sandbox_inv db" and e: "ensure_binding digest i u a p policy dm rm now db = Inr (db', row, created)"
  shows "sandbox_writes db db'" and "row \<in> set (sx_sandboxes db')" and "sandbox_owner row = (u, a, p)"
proof -
  have "sandbox_writes db db' \<and> row \<in> set (sx_sandboxes db') \<and> sandbox_owner row = (u, a, p)"
  proof (cases "sandbox_get u a p db")
    case None
    then obtain k s lc rp idle where add: "sandbox_add i u a p k s lc rp idle now db = Inr (db', row)"
      using e by (auto simp: ensure_binding_def split: if_splits option.splits sum.splits)
    then have "sandbox_write db db'" by (rule sandbox_write.add)
    then show ?thesis using add by (auto simp: sandbox_add_def Let_def sandbox_owner_def split: if_splits)
  next
    case (Some r)
    then have db': "db' = sandbox_update (sb_id r) (\<lambda>_. row) db" and row: "row = apply_policy policy now r"
      using e by (auto simp: ensure_binding_def Let_def split: if_splits option.splits)
    have r: "r \<in> set (sx_sandboxes db)" "sandbox_owner r = (u, a, p)" using sandbox_get_in[OF Some] by auto
    have "sandbox_writes db db'"
      unfolding db' by (rule writes_replace[OF inv r(1)]) (auto simp: row sandbox_row_simps)
    then show ?thesis using r by (auto simp: db' row sandbox_update_def set_update_where sandbox_owner_def apply_policy_def)
  qed
  then show "sandbox_writes db db'" "row \<in> set (sx_sandboxes db')" "sandbox_owner row = (u, a, p)" by auto
qed

lemma mark_suspended_writes: "sandbox_writes db (mark_suspended gen row reason ak ai now db)"
  unfolding mark_suspended_def
  by (intro writes_event writes_row) (auto simp: keeps_shape_def sandbox_row_simps)

lemma suspend_row_writes: "sandbox_writes db (fst (suspend_row world gen row reason ak ai now db))"
  by (auto simp: suspend_row_def mark_suspended_writes split: option.splits)

lemma suspend_writes: "sandbox_writes db (fst (suspend world gen u a p reason ak ai now db))"
  by (auto simp: suspend_def suspend_row_writes split: option.splits)

lemma rebuild_writes: "sandbox_writes db (fst (rebuild world gen row scope fp ek now db))"
  by (auto simp: rebuild_def keeps_shape_def sandbox_row_simps intro!: writes_event writes_row split: option.splits)

lemma resume_writes: "sandbox_writes db (fst (resume_or_raise world gen row sa scope policy fp now db))"
  by (auto simp: resume_or_raise_def rebuild_writes)

lemma supervisor_suspend_writes: "sandbox_writes db (fst (supervisor_suspend world gen row reason now db))"
  by (auto simp: supervisor_suspend_def suspend_row_writes)

lemma ready_writes:
  assumes inv: "sandbox_inv db"
  shows "sandbox_writes db (fst (ensure_ready world gen digest i u a p policy fp dm rm now db))"
proof (cases "ensure_binding digest i u a p policy dm rm now db")
  case (Inr b)
  obtain db1 row created where b: "b = (db1, row, created)" by (cases b) auto
  let ?touch = "\<lambda>c. sandbox_update (sb_id row) (\<lambda>r. r\<lparr>sb_generation :=
      (if or_empty (cn_generation c) \<noteq> [] then cn_generation c else sb_generation r),
      sb_last_activity_at := Some now, sb_updated_at := Some now\<rparr>) db1"
  have w1: "sandbox_writes db db1" using binding_writes(1)[OF inv] Inr b by blast
  have touch: "sandbox_writes db1 (?touch c)" for c
    by (intro writes_row) (auto simp: keeps_shape_def sandbox_row_simps)
  have resumed: "sandbox_writes db1 (fst (resume_or_raise world gen row sa scope policy fp now
      (mark_suspended gen row rs None None now db1)))" for sa scope rs
    using mark_suspended_writes resume_writes by (rule rtranclp_trans)
  have susp: "sandbox_writes db1 (fst (resume_or_raise world gen row sa scope policy fp now db2))"
    if "suspend_row world gen row rs ak ai now db1 = (db2, res)" for sa scope rs ak ai db2 res
    using rtranclp_trans[OF suspend_row_writes[of db1 world gen row rs ak ai now] resume_writes] by (simp add: that)
  have susp1: "sandbox_writes db1 db2" if "suspend_row world gen row rs ak ai now db1 = (db2, res)" for rs ak ai db2 res
    using suspend_row_writes[of db1 world gen row rs ak ai now] by (simp add: that)
  have "sandbox_writes db1 (fst (ensure_ready world gen digest i u a p policy fp dm rm now db))" if "is_dedicated policy"
    using touch resumed susp susp1 rebuild_writes resume_writes that
    by (auto simp: ensure_ready_def Inr b split: option.splits prod.splits sum.splits)
  then show ?thesis using w1 by (cases "is_dedicated policy") (auto simp: ensure_ready_def)
qed (simp add: ensure_ready_def)

text \<open>
  What holds of an appended event and of a shape-preserving change of the row, and is closed under composition, holds of the
  whole tick.
\<close>

lemma tick_row_by_writes:
  assumes refl: "\<And>d. R d d" and trans: "\<And>d e f. R d e \<Longrightarrow> R e f \<Longrightarrow> R d f"
    and upd: "\<And>d f. (\<And>r. keeps_shape f r) \<Longrightarrow> R d (sandbox_update (sb_id row) f d)"
    and ev: "\<And>d s k ak ai pl t. R d (sandbox_append_event gen s k ak ai pl t d)"
  shows "R db (tick_row world gen interval idle now clk row db)"
proof -
  have sus: "R d (fst (supervisor_suspend world gen row reason clk d))" for d reason
    by (auto simp: supervisor_suspend_def suspend_row_def mark_suspended_def keeps_shape_def sandbox_row_simps
        intro: refl trans[OF upd ev] split: option.splits)
  have gen_w: "R d (sandbox_append_event gen s k ak ai pl now
      (sandbox_update (sb_id row) (\<lambda>r. r\<lparr>sb_generation := g, sb_updated_at := Some now\<rparr>) d))" for d s k ak ai pl g
    by (rule trans[OF upd ev]) (simp add: keeps_shape_def sandbox_row_simps)
  have keep: "R d (sandbox_update (sb_id row) (\<lambda>r. r\<lparr>sb_last_keepalive_at := Some now\<rparr>) d)"
    and stamp: "R d (sandbox_update (sb_id row) (\<lambda>r. r\<lparr>sb_updated_at := Some now\<rparr>) d)" for d
    by (rule upd, simp add: keeps_shape_def sandbox_row_simps)+
  note steps = refl sus gen_w keep stamp trans[OF gen_w sus] trans[OF gen_w stamp] trans[OF gen_w keep]
    trans[OF keep sus] trans[OF keep stamp] trans[OF trans[OF gen_w keep] sus] trans[OF trans[OF gen_w keep] stamp]
  show ?thesis
    by (cases "sw_inventory world (sb_sandbox_id row)") (simp_all add: tick_row_def Let_def steps)
qed

lemma tick_row_writes: "sandbox_writes db (tick_row world gen interval idle now clk row db)"
  by (rule tick_row_by_writes) (auto intro: writes_row writes_event)

definition spares_others :: "pystr \<Rightarrow> sandbox_db \<Rightarrow> sandbox_db \<Rightarrow> bool" where
  "spares_others i db db' \<longleftrightarrow> (\<forall>r. r \<in> set (sx_sandboxes db) \<longrightarrow> sb_id r \<noteq> i \<longrightarrow> r \<in> set (sx_sandboxes db'))"

lemma spares_update: "spares_others i db (sandbox_update i f db)"
  by (auto simp: spares_others_def sandbox_update_def set_update_where)

lemma tick_row_spares: "spares_others (sb_id row) db (tick_row world gen interval idle now clk row db)"
  by (rule tick_row_by_writes) (auto simp: spares_update, auto simp: spares_others_def)

lemma reconcile_spares:
  assumes "sandbox_inv db" and "r \<in> set (sx_sandboxes db)" and "\<not> lease_expired now r"
  shows "r \<in> set (sx_sandboxes (fst (reconcile_leases gen now ids db)))"
  using assms
proof (induction ids arbitrary: db)
  case (Cons i ids)
  show ?case
  proof (cases "find (\<lambda>r. sb_id r = i) (sx_sandboxes db)")
    case (Some row)
    then have row: "row \<in> set (sx_sandboxes db)" "sb_id row = i" by (auto dest: find_Some_in)
    let ?db1 = "sandbox_append_event gen (sb_sandbox_id row) ''lease_expired'' (Some (lit ''system'')) None
        (Some (JObj [(lit ''owner_kind'', opt_str (sb_lease_owner_kind row)),
           (lit ''owner_id'', opt_str (sb_lease_owner_id row))])) now (sandbox_update i (clear_lease now) db)"
    show ?thesis
    proof (cases "lease_expired now row")
      case True
      have "sandbox_writes db ?db1" by (intro writes_event writes_row) simp_all
      then have "sandbox_inv ?db1" using Cons.prems(1) by (rule writes_inv)
      moreover have "sb_id r \<noteq> i" using inv_same_row[OF Cons.prems(1) row(1) Cons.prems(2)] row(2) True Cons.prems(3) by auto
      then have "r \<in> set (sx_sandboxes ?db1)" using Cons.prems(2) by (auto simp: sandbox_update_def set_update_where)
      ultimately have "r \<in> set (sx_sandboxes (fst (reconcile_leases gen now ids ?db1)))" using Cons.IH Cons.prems(3) by blast
      then show ?thesis by (simp add: Some True Let_def case_prod_beta)
    qed (use Some Cons in simp)
  qed (use Cons in simp)
qed simp

section \<open>Steps\<close>

text \<open>
  One rule per transaction. The rows of \<open>tick\<close> are arbitrary: the supervisor reads them all at once and processes
  them while other workers go on.
\<close>

inductive sandbox_step :: "sandbox_db \<Rightarrow> sandbox_db \<Rightarrow> bool" where
  binding: "ensure_binding digest i u a p policy dm rm now db = Inr (db', row, created) \<Longrightarrow> sandbox_step db db'"
| ready: "sandbox_step db (fst (ensure_ready world gen digest i u a p policy fp dm rm now db))"
| suspend: "sandbox_step db (fst (suspend world gen u a p reason ak ai now db))"
| acquire: "try_acquire gen u a p k w ttl now db = Inr (db', ok, row) \<Longrightarrow> sandbox_step db db'"
| waiting: "sandbox_step db (sandbox_append_event gen s ''lease_waiting'' (Some k) (Some w) payload now db)"
| heartbeat: "sandbox_step db (fst (lease_heartbeat u a p w ttl now db))"
| release: "sandbox_step db (fst (lease_release gen u a p w now db))"
| reconcile: "sandbox_step db (fst (lease_reconcile_expired gen now db))"
| tick: "sandbox_step db (tick_row world gen interval idle now clk row db)"

lemma sandbox_step_writes: "sandbox_step db db' \<Longrightarrow> sandbox_inv db \<Longrightarrow> sandbox_writes db db'"
proof (induction rule: sandbox_step.induct)
  case (binding digest i u a p policy dm rm now db db' row created)
  then show ?case using binding_writes(1) by blast
next
  case (waiting db)
  then show ?case by (intro writes_event) simp
qed (auto intro: ready_writes suspend_writes try_acquire_writes heartbeat_writes release_writes reconcile_writes tick_row_writes)

interpretation sandbox: step_system sandbox_start sandbox_step sandbox_inv sandbox_rel
proof
  show "sandbox_start db \<Longrightarrow> sandbox_inv db" for db by (simp add: sandbox_start_def sandbox_inv_def)
qed (blast intro: sandbox_step_writes writes_inv writes_rel sandbox_rel_refl sandbox_rel_trans)+

text \<open>The loops are sequences of steps.\<close>

lemma run_tick_steps: "sandbox_step\<^sup>*\<^sup>* db (run_tick world gen interval idle now clk db)"
proof -
  have "sandbox_step\<^sup>*\<^sup>* d (fold (tick_row world gen interval idle now clk) rows d)" for rows d
  proof (induction rows arbitrary: d)
    case (Cons row rows)
    show ?case using converse_rtranclp_into_rtranclp[OF sandbox_step.tick Cons.IH] by simp
  qed simp
  with sandbox_step.reconcile show ?thesis
    unfolding run_tick_def Let_def by (rule converse_rtranclp_into_rtranclp)
qed

section \<open>The execution lease\<close>

type_synonym sandbox_key = "pystr \<times> pystr \<times> pystr"

fun sandbox_at :: "sandbox_key \<Rightarrow> sandbox_db \<Rightarrow> agent_sandbox option" where
  "sandbox_at (u, a, p) db = sandbox_get u a p db"

definition sandbox_holder :: "sandbox_key \<Rightarrow> sandbox_db \<Rightarrow> pystr option" where
  "sandbox_holder k db = Option.bind (sandbox_at k db) sb_lease_owner_id"

definition sandbox_expires :: "sandbox_key \<Rightarrow> sandbox_db \<Rightarrow> time option" where
  "sandbox_expires k db = Option.bind (sandbox_at k db) sb_lease_expires_at"

fun claim_sandbox :: "(nat \<Rightarrow> pystr) \<Rightarrow> pystr \<Rightarrow> int \<Rightarrow> sandbox_key \<Rightarrow> pystr \<Rightarrow> time \<Rightarrow> sandbox_db \<Rightarrow> sandbox_db \<times> bool" where
  "claim_sandbox gen kind ttl (u, a, p) w now db =
     (case try_acquire gen u a p kind w ttl now db of Inl _ \<Rightarrow> (db, False) | Inr (db', ok, _) \<Rightarrow> (db', ok))"

fun renew_sandbox :: "int \<Rightarrow> sandbox_key \<Rightarrow> pystr \<Rightarrow> time \<Rightarrow> sandbox_db \<Rightarrow> sandbox_db \<times> bool" where
  "renew_sandbox ttl (u, a, p) w now db = lease_heartbeat u a p w ttl now db"

lemma sandbox_at_owner: "sandbox_at k db = find (\<lambda>r. sandbox_owner r = k) (sx_sandboxes db)"
  by (cases k) (simp add: sandbox_get_def sandbox_owner_def)

lemma sandbox_get_event [simp]: "sandbox_get u a p (sandbox_append_event gen s e ak ai pl now db) = sandbox_get u a p db"
  by (simp add: sandbox_get_def)

lemma sandbox_at_event [simp]: "sandbox_at k (sandbox_append_event gen s e ak ai pl now db) = sandbox_at k db"
  by (simp add: sandbox_at_owner)

text \<open>What a lookup returns after a row was written.\<close>

lemma sandbox_at_update:
  assumes inv: "sandbox_inv db" and r: "sandbox_at k db = Some r" and same_owner: "sandbox_owner r' = sandbox_owner r"
  shows "sandbox_at k' (sandbox_update (sb_id r) (\<lambda>_. r') db) = (if k' = k then Some r' else sandbox_at k' db)"
proof -
  have in_r: "r \<in> set (sx_sandboxes db)" and k: "sandbox_owner r = k"
    using r by (auto simp: sandbox_at_owner dest: find_Some_in)
  have same: "sb_id x = sb_id r \<longleftrightarrow> x = r" if "x \<in> set (sx_sandboxes db)" for x
    using inv_same_row[OF inv in_r that] by auto
  have upd: "update_where (\<lambda>x. sb_id x = sb_id r) (\<lambda>_. r') rows = map (\<lambda>x. if x = r then r' else x) rows"
    if "set rows \<subseteq> set (sx_sandboxes db)" for rows
    using that same by (auto simp: update_where_def)
  have "find (\<lambda>x. sandbox_owner x = k') (map (\<lambda>x. if x = r then r' else x) rows)
      = map_option (\<lambda>x. if x = r then r' else x) (find (\<lambda>x. sandbox_owner x = k') rows)" for rows
    using same_owner by (induction rows) auto
  then have "sandbox_at k' (sandbox_update (sb_id r) (\<lambda>_. r') db)
      = map_option (\<lambda>x. if x = r then r' else x) (sandbox_at k' db)"
    by (simp add: sandbox_at_owner sandbox_update_def upd[OF subset_refl])
  moreover have "sandbox_at k' db \<noteq> Some r" if "k' \<noteq> k"
    using that k by (auto simp: sandbox_at_owner dest: find_Some_in)
  ultimately show ?thesis using r by (cases "sandbox_at k' db") auto
qed

lemma try_acquire_granted:
  assumes inv: "sandbox_inv db" and t: "try_acquire gen u a p kind w ttl now db = Inr (db', True, row')"
  shows "sandbox_at (u, a, p) db' = Some row' \<and> sb_lease_owner_id row' = Some w
    \<and> sb_lease_expires_at row' = Some (now + ttl * 1000000)"
proof -
  obtain row where row: "sandbox_at (u, a, p) db = Some row" and r': "row' = grant_lease kind w ttl now row"
    and at: "sandbox_at (u, a, p) db' = sandbox_at (u, a, p) (sandbox_update (sb_id row) (\<lambda>_. row') db)"
    using t by (auto simp: try_acquire_def Let_def split: option.splits if_splits)
  have "sandbox_owner row' = sandbox_owner row" by (simp add: r' grant_lease_def sandbox_owner_def)
  from sandbox_at_update[OF inv row this, of "(u, a, p)"] have "sandbox_at (u, a, p) db' = Some row'" unfolding at by simp
  then show ?thesis by (simp add: r' grant_lease_def)
qed

lemma try_acquire_refused:
  "try_acquire gen u a p kind w ttl now db = Inr (db', False, row) \<Longrightarrow>
   db' = db \<and> sandbox_at (u, a, p) db = Some row
   \<and> (\<exists>v t. sb_lease_owner_id row = Some v \<and> v \<noteq> w \<and> sb_lease_expires_at row = Some t \<and> now < t)"
  by (auto simp: try_acquire_def Let_def lease_active_def split: option.splits if_splits)

interpretation sandbox_lease: lease_discipline sandbox_holder sandbox_expires sandbox_inv "claim_sandbox gen kind ttl"
  "renew_sandbox ttl" "ttl * 1000000" for gen kind ttl
proof unfold_locales
  fix s s' :: sandbox_db and k :: sandbox_key and w v :: pystr and now t :: time
  obtain u a p where k: "k = (u, a, p)" by (cases k) auto
  show "sandbox_inv s \<Longrightarrow> sandbox_inv (fst (claim_sandbox gen kind ttl k w now s))"
    using try_acquire_writes[of s] writes_inv[of s] by (auto simp: k split: sum.splits prod.splits)
  show "sandbox_holder k s' = Some w \<and> sandbox_expires k s' = Some (now + ttl * 1000000)"
    if "sandbox_inv s" and "claim_sandbox gen kind ttl k w now s = (s', True)"
    using that try_acquire_granted[OF that(1)]
    by (auto simp: k sandbox_holder_def sandbox_expires_def simp del: sandbox_at.simps split: sum.splits prod.splits)
  show "claim_sandbox gen kind ttl k w now s = (s, False)"
    if "sandbox_holder k s = Some v" "v \<noteq> w" "sandbox_expires k s = Some t" "now < t"
    using that by (auto simp: k sandbox_holder_def sandbox_expires_def try_acquire_def lease_active_def bind_eq_Some_conv)
  show "sandbox_holder k s = Some w \<and> (\<exists>t. sandbox_expires k s = Some t \<and> now < t)
      \<and> sandbox_holder k s' = Some w \<and> sandbox_expires k s' = Some (now + ttl * 1000000)"
    if inv: "sandbox_inv s" and e: "renew_sandbox ttl k w now s = (s', True)"
  proof -
    obtain row row' where row: "sandbox_at k s = Some row" "sb_lease_owner_id row = Some w" "lease_active row now"
      and r': "row' = row\<lparr>sb_lease_expires_at := Some (now + ttl * 1000000), sb_lease_heartbeat_at := Some now,
          sb_updated_at := Some now\<rparr>" and s': "s' = sandbox_update (sb_id row) (\<lambda>_. row') s"
      using e by (auto simp: k lease_heartbeat_def split: option.splits if_splits)
    have "sandbox_owner row' = sandbox_owner row" by (simp add: r' sandbox_owner_def)
    from sandbox_at_update[OF inv row(1) this] have "sandbox_at k s' = Some row'" by (simp add: s')
    then show ?thesis using row
      by (auto simp: sandbox_holder_def sandbox_expires_def r' lease_active_def split: option.splits)
  qed
  show "s' = s" if "renew_sandbox ttl k w now s = (s', False)"
    using that by (auto simp: k lease_heartbeat_def split: option.splits if_splits)
qed

end
