(* ===== verification/Sandbox_Properties.thy ===== *)
theory Sandbox_Properties
  imports Sandbox_Invariant
begin

text \<open>
  What the dedicated sandboxes promise: history and invariant of the tables, one owner of the execution lease, an acquire
  loop that ends, a supervisor that spares leased sandboxes it sees as leased, life cycle and quota, scope keys and policies.
\<close>

section \<open>The supervisor and leases\<close>

lemma tick_row_leased:
  "sb_lease_owner_id row \<noteq> None \<Longrightarrow> lease_active row now \<Longrightarrow> tick_row world gen interval idle now clk row db = db"
  by (simp add: tick_row_def)

lemma ticks_spare_leased:
  assumes "sandbox_inv db0" and "r \<in> set (sx_sandboxes db0)" and "sb_lease_owner_id r \<noteq> None" and "lease_active r now"
    and "set rows \<subseteq> set (sx_sandboxes db0)" and "r \<in> set (sx_sandboxes db)"
  shows "r \<in> set (sx_sandboxes (fold (tick_row world gen interval idle now clk) rows db))"
  using assms(5,6)
proof (induction rows arbitrary: db)
  case (Cons row rows)
  have "r \<in> set (sx_sandboxes (tick_row world gen interval idle now clk row db))"
  proof (cases "sb_id row = sb_id r")
    case True
    then have "row = r" using inv_same_row[OF assms(1,2)] Cons.prems(1) by auto
    then show ?thesis using Cons.prems(2) assms(3,4) by (simp add: tick_row_leased)
  qed (use tick_row_spares[of row db] Cons.prems(2) in \<open>auto simp: spares_others_def\<close>)
  then show ?case using Cons by simp
qed simp

section \<open>The acquire loop\<close>

text \<open>
  The loop sleeps \<^verbatim>\<open>min(WAIT_POLL_SECONDS, remaining)\<close> between two polls, so the time left shrinks at least by that much
  (in microseconds).
\<close>

definition wait_poll :: int where
  "wait_poll = 2000000"

fun poll_paced :: "((sandbox_db \<Rightarrow> sandbox_db) \<times> time \<times> int) list \<Rightarrow> bool" where
  "poll_paced ((_, _, rem) # (g, t, rem') # polls) \<longleftrightarrow>
     rem' \<le> rem - min wait_poll rem \<and> poll_paced ((g, t, rem') # polls)"
| "poll_paced _ \<longleftrightarrow> True"

lemma paced_polls_end:
  assumes "poll_paced ((g, t, rem) # polls)" and "rem \<le> wait_poll * int n" and "n \<le> length polls"
  shows "\<exists>res. acquire_polls gen st u a p k w ttl rec ((g, t, rem) # polls) db = Some res"
  using assms
proof (induction n arbitrary: g t rem polls rec db)
  case 0
  then show ?case by (auto simp: Let_def split: sum.splits prod.splits bool.splits)
next
  case (Suc n)
  then obtain g' t' rem' polls' where polls: "polls = (g', t', rem') # polls'" by (cases polls) auto
  have paced: "poll_paced polls" and rem': "rem' \<le> rem - min wait_poll rem" using Suc.prems(1) by (simp_all add: polls)
  show ?case
  proof (cases "rem \<le> 0")
    case True
    then show ?thesis by (auto simp: Let_def split: sum.splits prod.splits bool.splits)
  next
    case False
    have "rem' \<le> wait_poll * int n"
      using rem' Suc.prems(2) by (cases "wait_poll \<le> rem") (auto simp: wait_poll_def min_def)
    then have "\<exists>res. acquire_polls gen st u a p k w ttl True polls d = Some res" for d
      unfolding polls by (intro Suc.IH) (use paced Suc.prems(3) in \<open>auto simp: polls\<close>)
    then show ?thesis using False by (auto simp: Let_def simp del: split_paired_Ex split: sum.splits prod.splits bool.splits)
  qed
qed

text \<open>What the loop may return: the granted lease, the live lease of somebody else, or that there is no such sandbox.\<close>

fun acquire_outcome :: "sandbox_key \<Rightarrow> pystr \<Rightarrow> int \<Rightarrow> time set \<Rightarrow> sandbox_db \<times> (sandbox_fault + agent_sandbox) \<Rightarrow> bool" where
  "acquire_outcome key w ttl ts (db', Inr row) \<longleftrightarrow>
     sandbox_holder key db' = Some w \<and> (\<exists>t\<in>ts. sandbox_expires key db' = Some (t + ttl * 1000000))"
| "acquire_outcome key w ttl ts (db', Inl (Sx_busy k v t)) \<longleftrightarrow>
     v \<noteq> None \<and> v \<noteq> Some w \<and> sandbox_holder key db' = v \<and> sandbox_expires key db' = t
     \<and> (\<exists>now\<in>ts. \<exists>x. t = Some x \<and> now < x)"
| "acquire_outcome key w ttl ts (db', Inl e) \<longleftrightarrow> e = Sx_value_error (lit ''sandbox binding not found'') \<and> sandbox_at key db' = None"

lemma acquire_outcome_mono: "acquire_outcome key w ttl T res \<Longrightarrow> T \<subseteq> T' \<Longrightarrow> acquire_outcome key w ttl T' res"
  by (cases "(key, w, ttl, T, res)" rule: acquire_outcome.cases) auto

definition poll_times :: "((sandbox_db \<Rightarrow> sandbox_db) \<times> time \<times> int) list \<Rightarrow> time set" where
  "poll_times polls = (fst \<circ> snd) ` set polls"

lemma acquire_polls_outcome:
  assumes "acquire_polls gen st u a p k w ttl rec polls db = Some res" and "sandbox_inv db"
    and "\<And>poll d. poll \<in> set polls \<Longrightarrow> sandbox_inv d \<Longrightarrow> sandbox_inv (fst poll d)"
  shows "acquire_outcome (u, a, p) w ttl (poll_times polls) res"
  using assms
proof (induction polls arbitrary: rec db)
  case (Cons poll polls)
  obtain g t rem where poll: "poll = (g, t, rem)" by (cases poll) auto
  have inv: "sandbox_inv (g db)" using Cons.prems(2) Cons.prems(3)[of poll] by (simp add: poll)
  consider (fault) e where "try_acquire gen u a p k w ttl t (g db) = Inl e"
    | (granted) db1 row where "try_acquire gen u a p k w ttl t (g db) = Inr (db1, True, row)"
    | (refused) db1 row where "try_acquire gen u a p k w ttl t (g db) = Inr (db1, False, row)"
    by (cases "try_acquire gen u a p k w ttl t (g db)") auto
  then show ?case
  proof cases
    case fault
    then have "e = Sx_value_error (lit ''sandbox binding not found'')" "sandbox_at (u, a, p) (g db) = None"
      by (auto simp: try_acquire_def Let_def split: option.splits if_splits)
    then show ?thesis using Cons.prems(1) fault by (auto simp: poll)
  next
    case granted
    from try_acquire_granted[OF inv this] Cons.prems(1) granted show ?thesis
      by (auto simp: sandbox_holder_def sandbox_expires_def poll poll_times_def simp del: sandbox_at.simps)
  next
    case refused
    have db1: "db1 = g db" and row: "sandbox_at (u, a, p) (g db) = Some row"
      and live: "\<exists>v x. sb_lease_owner_id row = Some v \<and> v \<noteq> w \<and> sb_lease_expires_at row = Some x \<and> t < x"
      using try_acquire_refused[OF refused] by simp_all
    define db2 where "db2 = (if rec then g db
        else sandbox_append_event gen (sb_sandbox_id row) ''lease_waiting'' (Some k) (Some w)
               (Some (JObj [(lit ''holder_kind'', opt_str (sb_lease_owner_kind row)),
                  (lit ''holder_id'', opt_str (sb_lease_owner_id row)),
                  (lit ''expires_at'', opt_str (map_option st (sb_lease_expires_at row)))])) t (g db))"
    have next_poll: "if rem \<le> 0 then res = (db2, Inl (Sx_busy (sb_lease_owner_kind row) (sb_lease_owner_id row) (sb_lease_expires_at row)))
         else acquire_polls gen st u a p k w ttl True polls db2 = Some res"
      using Cons.prems(1) refused db1 by (simp add: poll Let_def db2_def split: if_splits)
    have inv2: "sandbox_inv db2" using inv writes_inv[OF writes_event[OF rtranclp.rtrancl_refl]] by (simp add: db2_def)
    have at2: "sandbox_at (u, a, p) db2 = Some row" using row by (simp add: db2_def)
    show ?thesis
    proof (cases "rem \<le> 0")
      case True
      then show ?thesis using next_poll live at2
        by (auto simp: poll poll_times_def sandbox_holder_def sandbox_expires_def simp del: sandbox_at.simps)
    next
      case False
      then have "acquire_outcome (u, a, p) w ttl (poll_times polls) res"
        using Cons.IH[OF _ inv2] next_poll Cons.prems(3) by auto
      then show ?thesis by (rule acquire_outcome_mono) (auto simp: poll_times_def)
    qed
  qed
qed simp

section \<open>Life cycle\<close>

text \<open>Without creation by the provider nothing differs when an existing sandbox must be confirmed.\<close>

lemma resume_confirm:
  "sp_resume_policy policy = Resume_confirm \<Longrightarrow>
   resume_or_raise world gen row sa scope policy fp now db = (db, Inl (Sx_confirmation (sb_scope_key row) (sb_sandbox_id row) sa))"
  by (simp add: resume_or_raise_def)

definition rows_of :: "pystr \<Rightarrow> sandbox_db \<Rightarrow> nat" where
  "rows_of uid db = length (filter (\<lambda>r. sb_uid r = uid) (sx_sandboxes db))"

lemma keys_rows_of: "map sandbox_identity (sx_sandboxes db') = map sandbox_identity (sx_sandboxes db) \<Longrightarrow> rows_of uid db' = rows_of uid db"
proof -
  have "rows_of uid d = length (filter (\<lambda>x. fst (fst (snd x)) = uid) (map sandbox_identity (sx_sandboxes d)))" for d
    by (simp add: rows_of_def filter_map comp_def sandbox_identity_def sandbox_owner_def)
  then show "map sandbox_identity (sx_sandboxes db') = map sandbox_identity (sx_sandboxes db) \<Longrightarrow> rows_of uid db' = rows_of uid db"
    by (simp only:)
qed

lemma binding_quota:
  assumes "sandbox_inv db" and "ensure_binding digest i u a p policy dm rm now db = Inr (db', row, created)"
  shows "rows_of uid db' \<le> rows_of uid db \<or> uid = u \<and> created \<and> int (rows_of u db') \<le> dm"
proof (cases "sandbox_get u a p db")
  case None
  then obtain k s lc rp idle where "enforce_sandbox_quota u policy dm rm db = Inr ()"
    and d: "is_dedicated policy" and add: "sandbox_add i u a p k s lc rp idle now db = Inr (db', row)" and c: created
    using assms(2) by (auto simp: ensure_binding_def split: if_splits option.splits sum.splits)
  then have "int (rows_of u db) < dm"
    by (auto simp: enforce_sandbox_quota_def rows_of_def Let_def split: if_splits)
  then show ?thesis using add c by (auto simp: sandbox_add_def Let_def rows_of_def split: if_splits)
next
  case (Some r)
  then have db': "db' = sandbox_update (sb_id r) (\<lambda>_. apply_policy policy now r) db"
    using assms(2) by (auto simp: ensure_binding_def Let_def split: if_splits option.splits)
  have shape: "keeps_shape (\<lambda>_. apply_policy policy now r) r"
    by (simp add: keeps_shape_def sandbox_row_simps)
  have "keeps_shape (\<lambda>_. apply_policy policy now r) x" if "x \<in> set (sx_sandboxes db)" "sb_id x = sb_id r" for x
    using shape by (subst inv_same_row[OF assms(1) sandbox_get_in[OF Some, THEN conjunct1] that])
  then have "map sandbox_identity (sx_sandboxes db') = map sandbox_identity (sx_sandboxes db)"
    using write_row_maps[of "sx_sandboxes db" "sb_id r"] by (simp add: db' sandbox_update_def)
  from keys_rows_of[OF this, of uid] show ?thesis by simp
qed

lemma ready_rows_of:
  assumes inv: "sandbox_inv db"
  shows "rows_of uid (fst (ensure_ready world gen digest i u a p policy fp dm rm now db)) \<le> rows_of uid db
    \<or> int (rows_of uid (fst (ensure_ready world gen digest i u a p policy fp dm rm now db))) \<le> dm"
proof (cases "ensure_binding digest i u a p policy dm rm now db")
  case (Inr b)
  obtain db1 row created where b: "b = (db1, row, created)" by (cases b) auto
  have upd: "rows_of uid (sandbox_update (sb_id row) f d) = rows_of uid d" if "\<And>r. keeps_shape f r" for f d
    using write_row_maps[of "sx_sandboxes d" "sb_id row" f] that by (intro keys_rows_of) (simp add: sandbox_update_def)
  have ev: "rows_of uid (sandbox_append_event gen s k ak ai pl t d) = rows_of uid d" for s k ak ai pl t d
    by (simp add: rows_of_def)
  have mark: "rows_of uid (mark_suspended gen row rs ak ai now d) = rows_of uid d" for rs ak ai d
    unfolding mark_suspended_def ev by (rule upd) (simp add: keeps_shape_def sandbox_row_simps)
  have reb: "rows_of uid (fst (rebuild world gen row scope fp ek now d)) = rows_of uid d" for scope ek d
    by (auto simp: rebuild_def ev keeps_shape_def sandbox_row_simps intro: upd split: option.splits)
  have res: "rows_of uid (fst (resume_or_raise world gen row sa scope policy fp now d)) = rows_of uid d" for sa scope d
    by (simp add: resume_or_raise_def reb)
  have touch: "rows_of uid (sandbox_update (sb_id row) (\<lambda>r. r\<lparr>sb_generation := g r, sb_last_activity_at := Some now,
      sb_updated_at := Some now\<rparr>) d) = rows_of uid d" for g d
    by (rule upd) (simp add: keeps_shape_def sandbox_row_simps)
  have "rows_of uid (fst (ensure_ready world gen digest i u a p policy fp dm rm now db)) = rows_of uid db1"
    if "is_dedicated policy"
    using that by (auto simp: ensure_ready_def Inr b suspend_row_def mark reb res touch split: option.splits)
  then show ?thesis using binding_quota[OF inv Inr[unfolded b], of uid] by (cases "is_dedicated policy") (auto simp: ensure_ready_def)
qed (simp add: ensure_ready_def)

lemma stale_tick_effect:
  assumes inv: "sandbox_inv db" and r: "sandbox_at (u, a, p) db = Some r" and active: "sb_status r = Sandbox_active"
    and free: "sb_lease_owner_id r = None" and missing: "sw_inventory world (sb_sandbox_id r) = None"
    and wd: "or_empty (sw_workdir world (sb_project_id r)) \<noteq> []"
    and scope: "agent_project_scope (sb_uid r) (sb_agent_slug r) (sb_project_id r) = Some sc" and rel: "sw_release world sc"
    and acq: "try_acquire gen u a p k w ttl t db = Inr (db1, True, row1)"
  shows "\<exists>r2. sandbox_at (u, a, p) (tick_row world gen interval idle now clk r db1) = Some r2
    \<and> sb_status r2 = Sandbox_suspended \<and> sb_lease_owner_id r2 = Some w \<and> sb_lease_expires_at r2 = Some (t + ttl * 1000000)"
proof -
  let ?f = "\<lambda>r. r\<lparr>sb_status := Sandbox_suspended, sb_generation := None, sb_suspended_at := Some clk, sb_updated_at := Some clk\<rparr>"
  have r1: "sandbox_at (u, a, p) db1 = Some row1" "sb_lease_owner_id row1 = Some w"
      "sb_lease_expires_at row1 = Some (t + ttl * 1000000)" and id1: "sb_id row1 = sb_id r"
    using try_acquire_granted[OF inv acq] acq r
    by (auto simp: try_acquire_def Let_def grant_lease_def split: option.splits if_splits)
  have "tick_row world gen interval idle now clk r db1
      = sandbox_append_event gen (sb_sandbox_id r) ''suspended'' (Some (lit ''supervisor'')) None
          (Some (JObj [(lit ''reason'', JStr (lit ''container_missing''))])) clk (sandbox_update (sb_id r) ?f db1)"
    using active free missing wd scope rel
    by (simp add: tick_row_def supervisor_suspend_def suspend_row_def mark_suspended_def)
  moreover have "sandbox_at (u, a, p) (sandbox_update (sb_id r) ?f db1) = Some (?f row1)"
    using r1(1) id1 find_update_where[of sandbox_owner ?f "(u, a, p)" "\<lambda>x. sb_id x = sb_id r" "sx_sandboxes db1"]
    by (simp add: sandbox_at_owner sandbox_update_def sandbox_owner_def del: sandbox_at.simps)
  ultimately show ?thesis using r1 by (simp del: sandbox_at.simps)
qed

lemma resident_switch_unchecked:
  assumes "is_dedicated policy" and "agent_project_scope u a p \<noteq> None" and "sandbox_get u a p db = Some r"
  shows "\<exists>db' row. ensure_binding digest i u a p policy dm rm now db = Inr (db', row, False) \<and> sb_lifecycle row = sp_lifecycle policy"
  using assms by (auto simp: ensure_binding_def Let_def apply_policy_def)

lemma confirm_irrelevant_create:
  assumes c: "sp_resume_policy policy = Resume_confirm" and g: "sandbox_get u a p db = Some r"
  shows "ensure_ready (world\<lparr>sw_create := f\<rparr>) gen digest i u a p policy fp dm rm now db
    = ensure_ready world gen digest i u a p policy fp dm rm now db"
proof (cases "ensure_binding digest i u a p policy dm rm now db")
  case (Inr b)
  obtain db1 row created where b: "b = (db1, row, created)" by (cases b) auto
  have "\<not> created" using Inr g by (auto simp: b ensure_binding_def Let_def split: if_splits option.splits)
  then show ?thesis
    by (simp add: ensure_ready_def Inr b resume_confirm[OF c] suspend_row_def split: option.splits)
qed (simp add: ensure_ready_def)

section \<open>Scope keys of runs\<close>

lemma py_strip_fix: "s \<noteq> [] \<Longrightarrow> \<not> is_space (hd s) \<Longrightarrow> \<not> is_space (last s) \<Longrightarrow> py_strip s = s"
  by (simp add: py_strip_def dropWhile_eq_self hd_rev)

lemma agent_key_strip:
  assumes "project_id \<noteq> []" and "py_strip project_id = project_id"
  shows "py_strip (cache_key (Agent_project_scope uid agent_slug project_id)) = cache_key (Agent_project_scope uid agent_slug project_id)"
proof (rule py_strip_fix)
  have "\<not> is_space (last project_id)" using py_strip_ends[of project_id] assms by auto
  then show "\<not> is_space (last (cache_key (Agent_project_scope uid agent_slug project_id)))" using assms(1) by simp
qed (simp_all add: lit_def is_space_def)

lemma dedicated_key:
  assumes "is_dedicated policy" and s: "s = Agent_project_scope uid agent_slug project_id"
    and v: "validate_scope s" and plain: "scope_plain s"
  shows "runtime_scope_for_policy uid agent_slug project_id thread_id policy = Some (cache_key s)"
    and "sandbox_scope_from_key (cache_key s) = Some (Some s)"
proof -
  show "runtime_scope_for_policy uid agent_slug project_id thread_id policy = Some (cache_key s)"
    using assms by (auto simp: runtime_scope_for_policy_def agent_project_scope_def)
  have "starts_with (cache_key s) (lit ''agent-project:'')" by (simp add: s starts_with_def lit_def)
  moreover have "py_strip (cache_key s) = cache_key s" unfolding s by (rule agent_key_strip) (use v plain s in auto)
  ultimately show "sandbox_scope_from_key (cache_key s) = Some (Some s)"
    using cache_key_roundtrip[OF v plain] by (simp add: sandbox_scope_from_key_def)
qed

lemma merged_get:
  "json_get (merge_sandbox_config ab (Some (JObj b))) k =
     (case json_get (JObj b) k of Some v \<Rightarrow> Some v | None \<Rightarrow> (case ab of Some j \<Rightarrow> json_get j k | None \<Rightarrow> None))"
  by (auto simp: merge_sandbox_config_def map_add_def split: option.splits json.splits)

section \<open>A small deployment\<close>

definition sbx_world :: sandbox_world where
  "sbx_world = \<lparr>sw_probe = \<lambda>_. Some \<lparr>cn_generation = Some [49]\<rparr>, sw_create = \<lambda>_. Some \<lparr>cn_generation = Some [49]\<rparr>,
     sw_release = \<lambda>_. True, sw_inventory = \<lambda>_. None, sw_touch = \<lambda>_. False, sw_workdir = \<lambda>_. Some [119]\<rparr>"

definition sbx_gen :: "nat \<Rightarrow> pystr" where
  "sbx_gen n = [100 + n]"

definition sbx_policy :: sandbox_policy where
  "sbx_policy = \<lparr>sp_mode = Dedicated, sp_lifecycle = Persistent, sp_resume_policy = Resume_confirm, sp_idle_suspend_seconds = None\<rparr>"

definition sbx_empty :: sandbox_db where
  "sbx_empty = \<lparr>sx_sandboxes = [], sx_events = []\<rparr>"

definition sbx_row :: agent_sandbox where
  "sbx_row = \<lparr>sb_id = [90], sb_uid = [117], sb_agent_slug = [97], sb_project_id = [112],
     sb_scope_key = lit ''agent-project:u:a:p'', sb_sandbox_id = lit ''agent-project:u:a:p'', sb_generation = Some [49],
     sb_lifecycle = Persistent, sb_resume_policy = Resume_confirm, sb_status = Sandbox_active, sb_idle_timeout_seconds = None,
     sb_credential_fingerprint = None, sb_lease_owner_kind = None, sb_lease_owner_id = None,
     sb_lease_expires_at = None, sb_lease_heartbeat_at = None, sb_last_activity_at = Some 1000,
     sb_last_keepalive_at = Some 1000, sb_suspended_at = None, sb_error_code = None, sb_error_message = None,
     sb_created_at = Some 1000, sb_updated_at = Some 1000\<rparr>"

definition sbx_created :: agent_sandbox_event where
  "sbx_created = \<lparr>se_id = [100], se_sandbox_id = lit ''agent-project:u:a:p'', se_kind = lit ''created'',
     se_actor_kind = Some (lit ''system''), se_actor_id = None,
     se_payload_json = JObj [(lit ''generation'', JStr [49])], se_created_at = Some 1000\<rparr>"

definition sbx_sandboxes :: sandbox_db where
  "sbx_sandboxes = \<lparr>sx_sandboxes = [sbx_row], sx_events = [sbx_created]\<rparr>"

lemma sbx_scope: "agent_project_scope [117] [97] [112] = Some (Agent_project_scope [117] [97] [112])"
  by (simp add: agent_project_scope_def py_strip_def is_space_def)

lemma sbx_ready:
  "ensure_ready sbx_world sbx_gen (\<lambda>k. k) [90] [117] [97] [112] sbx_policy None 3 1 1000 sbx_empty
     = (sbx_sandboxes, Inr \<lparr>cn_generation = Some [49]\<rparr>)"
  by (simp add: ensure_ready_def ensure_binding_def sbx_scope sbx_policy_def is_dedicated_def sandbox_get_def sbx_empty_def
      enforce_sandbox_quota_def sandbox_add_def provisioner_idle_timeout_def rebuild_def sbx_world_def sandbox_append_event_def
      sandbox_update_def sbx_sandboxes_def sbx_row_def sbx_created_def sbx_gen_def or_obj_def opt_str_def lit_def Let_def)

lemma sbx_inv: "sandbox_inv sbx_sandboxes"
  by (simp add: sandbox_inv_def sbx_sandboxes_def sbx_row_def sandbox_row_ok_def)

lemma sbx_at: "sandbox_get [117] [97] [112] sbx_sandboxes = Some sbx_row"
  by (simp add: sandbox_get_def sbx_sandboxes_def sbx_row_def)

lemma sbx_reached: "sandbox_step\<^sup>*\<^sup>* sbx_empty sbx_sandboxes"
proof -
  have "sandbox_step sbx_empty (fst (ensure_ready sbx_world sbx_gen (\<lambda>k. k) [90] [117] [97] [112] sbx_policy None 3 1 1000 sbx_empty))"
    by (rule sandbox_step.ready)
  then show ?thesis unfolding sbx_ready by auto
qed

section \<open>Properties\<close>

text \<open>
  In every reachable state of the sandbox tables ids, owners (user, agent, project), scope keys and sandbox ids are
  unique, the four lease columns are set together and \<^verbatim>\<open>suspended_at\<close> goes with the status; from one reachable state to a later
  one no sandbox is lost or changes its identity, and the event log only grows.
\<close>

theorem sandbox_history:
  assumes "sandbox_start db" and "sandbox_step\<^sup>*\<^sup>* db db1" and "sandbox_step\<^sup>*\<^sup>* db1 db2"
  shows "sandbox_inv db2 \<and> sandbox_rel db1 db2"
proof -
  have "sandbox_inv db1" using assms(1,2) by (rule sandbox.reachable_inv)
  then show ?thesis using assms(3) sandbox.steps_inv sandbox.steps_rel by blast
qed

theorem sandbox_history_witness:
  "sandbox_inv sbx_sandboxes \<and> sandbox_rel sbx_empty sbx_sandboxes"
  using sandbox_history[OF _ rtranclp.rtrancl_refl sbx_reached] by (simp add: sandbox_start_def sbx_empty_def)

text \<open>
  C15: The execution lease has one owner. Of several workers that ask for one sandbox within one lease time at most one
  is granted, and after a successful heartbeat nobody else is granted before the renewed lease ends.
\<close>

theorem sandbox_single_owner:
  assumes inv: "sandbox_inv db" and "distinct (map fst reqs)"
    and "\<And>w t w' t'. (w, t) \<in> set reqs \<Longrightarrow> (w', t') \<in> set reqs \<Longrightarrow> t' < t + ttl * 1000000"
    and hb: "lease_heartbeat u a p v ttl now db = (db', renewed)"
    and others: "\<And>w t. (w, t) \<in> set rivals \<Longrightarrow> w \<noteq> v \<and> t < now + ttl * 1000000"
  shows "length (fst (contend (claim_sandbox gen kind ttl (u, a, p)) reqs db)) \<le> 1
    \<and> (renewed \<longrightarrow> contend (claim_sandbox gen kind ttl (u, a, p)) rivals db' = ([], db'))"
proof -
  have inv': "sandbox_inv db'" using writes_inv[OF heartbeat_writes[OF inv] inv] by (metis fst_conv hb)
  have "contend (claim_sandbox gen kind ttl (u, a, p)) rivals db' = ([], db')" if renewed
    using sandbox_lease.renewal_extends[OF inv _ inv' others, where k = "(u, a, p)"] hb that by simp
  moreover have "length (fst (contend (claim_sandbox gen kind ttl (u, a, p)) reqs db)) \<le> 1"
    by (rule sandbox_lease.at_most_one_winner[OF assms(1,2)]) (rule assms(3))
  ultimately show ?thesis by blast
qed

theorem sandbox_single_owner_witness:
  "fst (contend (claim_sandbox sbx_gen (lit ''run'') 120 ([117], [97], [112])) [([65], 2000), ([66], 3000)] sbx_sandboxes) = [[65]]
   \<and> length (fst (contend (claim_sandbox sbx_gen (lit ''run'') 120 ([117], [97], [112])) [([65], 2000), ([66], 3000)] sbx_sandboxes)) \<le> 1"
proof
  have hb: "lease_heartbeat [117] [97] [112] [67] 120 1500 sbx_sandboxes = (sbx_sandboxes, False)"
    by (simp add: lease_heartbeat_def sbx_at sbx_row_def)
  show "length (fst (contend (claim_sandbox sbx_gen (lit ''run'') 120 ([117], [97], [112])) [([65], 2000), ([66], 3000)] sbx_sandboxes)) \<le> 1"
    by (rule sandbox_single_owner[OF sbx_inv _ _ hb, THEN conjunct1, where rivals1 = "[([66], 2500)]"]) auto
qed (simp add: try_acquire_def sbx_at Let_def sandbox_get_def sandbox_update_def sandbox_append_event_def sbx_sandboxes_def
    sbx_row_def grant_lease_def lease_active_def)

text \<open>
  C16: The loop that waits for the lease ends. When the time left shrinks by the sleeping time from poll to poll, a wait of at most
  \<open>2 * n\<close> seconds is over after \<open>n + 1\<close> polls, whatever other workers do in between; the loop then returned the lease it holds,
  or reported the live lease of somebody else, or that the sandbox does not exist.
\<close>

theorem acquire_returns:
  assumes "sandbox_inv db" and "poll_paced ((g, t, rem) # polls)" and "rem \<le> wait_poll * int n" and "n \<le> length polls"
    and "\<And>poll d. poll \<in> set ((g, t, rem) # polls) \<Longrightarrow> sandbox_inv d \<Longrightarrow> sandbox_inv (fst poll d)"
  shows "\<exists>res. acquire_polls gen st u a p k w ttl False ((g, t, rem) # polls) db = Some res
    \<and> acquire_outcome (u, a, p) w ttl (poll_times ((g, t, rem) # polls)) res"
proof -
  obtain res where res: "acquire_polls gen st u a p k w ttl False ((g, t, rem) # polls) db = Some res"
    using paced_polls_end[OF assms(2-4)] by blast
  then show ?thesis using acquire_polls_outcome[OF res assms(1,5)] by blast
qed

theorem acquire_returns_witness:
  "\<exists>res. acquire_polls sbx_gen (\<lambda>_. []) [117] [97] [112] [107] [65] 120 False [(id, 2000, 1500000), (id, 1502000, 0)] sbx_sandboxes = Some res
    \<and> acquire_outcome ([117], [97], [112]) [65] 120 (poll_times [(id, 2000, 1500000), (id, 1502000, 0)]) res"
  by (rule acquire_returns[OF sbx_inv, where n = 1]) (auto simp: wait_poll_def)

text \<open>
  The supervisor spares leased sandboxes. A sandbox whose lease is live at the time of the tick is left
  exactly as it was by the whole tick: expired leases are cleared, other sandboxes may be suspended, this row does not change.
\<close>

theorem tick_spares_leased:
  assumes inv: "sandbox_inv db" and r: "r \<in> set (sx_sandboxes db)" and owner: "sb_lease_owner_id r \<noteq> None" and live: "lease_active r now"
  shows "r \<in> set (sx_sandboxes (run_tick world gen interval idle now clk db))"
proof -
  let ?db0 = "fst (lease_reconcile_expired gen now db)"
  have "\<not> lease_expired now r" using live by (auto simp: lease_active_def lease_expired_def split: option.splits)
  then have r0: "r \<in> set (sx_sandboxes ?db0)"
    using reconcile_spares[OF inv r] by (simp add: lease_reconcile_expired_def)
  have inv0: "sandbox_inv ?db0" using writes_inv[OF reconcile_writes inv] .
  show ?thesis
    unfolding run_tick_def Let_def
    by (rule ticks_spare_leased[OF inv0 r0 owner live _ r0]) (simp add: sandbox_list_all_def)
qed

definition sbx_leased :: sandbox_db where
  "sbx_leased = \<lparr>sx_sandboxes = [grant_lease (lit ''run'') [65] 120 2000 sbx_row], sx_events = []\<rparr>"

theorem tick_spares_leased_witness:
  "grant_lease (lit ''run'') [65] 120 2000 sbx_row \<in> set (sx_sandboxes (run_tick sbx_world sbx_gen 60 1800 5000 5000 sbx_leased))"
  by (rule tick_spares_leased)
    (simp_all add: sbx_leased_def sbx_row_def grant_lease_def lease_active_def sandbox_inv_def sandbox_row_ok_def)

text \<open>
  C17: The supervisor decides on the row it read. When a worker acquires the lease of a sandbox after the supervisor listed the
  rows, and the container is missing from the inventory taken before, the tick suspends the sandbox although its lease is live.
\<close>

theorem stale_tick_suspends_leased:
  assumes "sandbox_inv db" and "sandbox_at (u, a, p) db = Some r" and "sb_status r = Sandbox_active"
    and "sb_lease_owner_id r = None" and "sw_inventory world (sb_sandbox_id r) = None"
    and "or_empty (sw_workdir world (sb_project_id r)) \<noteq> []"
    and "agent_project_scope (sb_uid r) (sb_agent_slug r) (sb_project_id r) = Some sc" and "sw_release world sc"
    and "try_acquire gen u a p k w ttl t db = Inr (db1, True, row1)" and "now < t + ttl * 1000000"
  shows "\<exists>r2. sandbox_at (u, a, p) (tick_row world gen interval idle now clk r db1) = Some r2
    \<and> sb_status r2 = Sandbox_suspended \<and> sb_lease_owner_id r2 = Some w \<and> lease_active r2 now"
  using stale_tick_effect[OF assms(1-9), of interval idle now clk] assms(10)
  by (auto simp: lease_active_def simp del: sandbox_at.simps)

theorem stale_tick_suspends_leased_witness:
  "\<exists>db1 row1 r2. try_acquire sbx_gen [117] [97] [112] [107] [65] 120 2000 sbx_sandboxes = Inr (db1, True, row1)
    \<and> sandbox_at ([117], [97], [112]) (tick_row sbx_world sbx_gen 60 1800 2500 2500 sbx_row db1) = Some r2
    \<and> sb_status r2 = Sandbox_suspended \<and> sb_lease_owner_id r2 = Some [65] \<and> lease_active r2 2500"
proof -
  obtain db1 row1 where acq: "try_acquire sbx_gen [117] [97] [112] [107] [65] 120 2000 sbx_sandboxes = Inr (db1, True, row1)"
    by (simp add: try_acquire_def sbx_at sbx_row_def Let_def)
  have "\<exists>r2. sandbox_at ([117], [97], [112]) (tick_row sbx_world sbx_gen 60 1800 2500 2500 sbx_row db1) = Some r2
    \<and> sb_status r2 = Sandbox_suspended \<and> sb_lease_owner_id r2 = Some [65] \<and> lease_active r2 2500"
    by (rule stale_tick_suspends_leased[OF sbx_inv _ _ _ _ _ _ _ acq, where sc = "Agent_project_scope [117] [97] [112]"])
      (simp_all add: sbx_at, simp_all add: sbx_row_def sbx_world_def or_empty_def sbx_scope)
  with acq show ?thesis by blast
qed

text \<open>
  A run executes in the sandbox its policy names. For a dedicated policy the scope key stored with the run parses back
  to exactly the user, agent and project it was made from, when these are stripped and user and agent have no colon;
  for a shared policy the key is the conversation's thread.
\<close>

theorem runtime_scope_roundtrip:
  assumes "validate_scope (Agent_project_scope uid agent_slug project_id)"
    and "scope_plain (Agent_project_scope uid agent_slug project_id)"
  shows "\<exists>key. runtime_scope_for_policy uid agent_slug project_id thread_id policy = Some key
    \<and> (if is_dedicated policy then sandbox_scope_from_key key = Some (Some (Agent_project_scope uid agent_slug project_id))
       else key = thread_id)"
proof (cases "is_dedicated policy")
  case True
  from dedicated_key[OF True refl assms] show ?thesis using True by auto
qed (simp add: runtime_scope_for_policy_def)

theorem runtime_scope_roundtrip_witness:
  "\<exists>key. runtime_scope_for_policy [117] [97] [112] [116] sbx_policy = Some key
    \<and> (if is_dedicated sbx_policy then sandbox_scope_from_key key = Some (Some (Agent_project_scope [117] [97] [112])) else key = [116])"
  by (rule runtime_scope_roundtrip) (simp_all add: py_strip_def is_space_def)

text \<open>
  C18: A policy that is accepted is well-formed: a shared sandbox is ephemeral, a resident one is never
  reclaimed for idling, the idle time is not negative; and a mode set by the project overrides the agent's.
\<close>

theorem sandbox_policy_wellformed:
  assumes "resolve_agent_sandbox_policy config overrides = Inr policy"
  shows "(sp_mode policy = Shared \<longrightarrow> sp_lifecycle policy = Ephemeral)
    \<and> (sp_lifecycle policy = Resident \<longrightarrow> provisioner_idle_timeout policy = Some 0)
    \<and> (\<forall>i. provisioner_idle_timeout policy = Some i \<longrightarrow> 0 \<le> i)
    \<and> (\<forall>b s. json_get (or_obj overrides) (lit ''sandbox'') = Some (JObj b) \<longrightarrow> json_get (JObj b) (lit ''mode'') = Some (JStr s)
          \<longrightarrow> map_of sandbox_modes (lower (py_strip s)) = Some (sp_mode policy))"
proof (intro conjI allI impI)
  obtain block where parse: "parse_sandbox_policy block = Inr policy"
    and block: "\<And>b. json_get (or_obj overrides) (lit ''sandbox'') = Some (JObj b) \<Longrightarrow>
        block = merge_sandbox_config (json_get (or_obj config) (lit ''sandbox'')) (Some (JObj b))"
    using assms by (auto simp: resolve_agent_sandbox_policy_def resolve_sandbox_policy_def)
  show "sp_mode policy = Shared \<Longrightarrow> sp_lifecycle policy = Ephemeral" by (rule parse_policy_shape(1)[OF parse])
  show "sp_lifecycle policy = Resident \<Longrightarrow> provisioner_idle_timeout policy = Some 0" by (simp add: provisioner_idle_timeout_def)
  show "0 \<le> i" if "provisioner_idle_timeout policy = Some i" for i using parse_policy_shape(2)[OF parse] that by auto
  show "map_of sandbox_modes (lower (py_strip s)) = Some (sp_mode policy)"
    if "json_get (or_obj overrides) (lit ''sandbox'') = Some (JObj b)" and "json_get (JObj b) (lit ''mode'') = Some (JStr s)" for b s
  proof -
    have "json_get block (lit ''mode'') = Some (JStr s)" using block[OF that(1)] that(2) by (simp only: merged_get option.case)
    then show ?thesis using parse
      by (auto simp: parse_sandbox_policy_def normalize_choice_def split: sum.splits option.splits)
  qed
qed

theorem sandbox_policy_wellformed_witness:
  "\<exists>policy. resolve_agent_sandbox_policy
      (Some (JObj [(lit ''sandbox'', JObj [(lit ''mode'', JStr (lit ''shared''))])]))
      (Some (JObj [(lit ''sandbox'', JObj [(lit ''mode'', JStr (lit '' Dedicated'')), (lit ''lifecycle'', JStr (lit ''resident''))])])) = Inr policy
    \<and> sp_mode policy = Dedicated \<and> provisioner_idle_timeout policy = Some 0"
proof -
  obtain policy where p: "resolve_agent_sandbox_policy
      (Some (JObj [(lit ''sandbox'', JObj [(lit ''mode'', JStr (lit ''shared''))])]))
      (Some (JObj [(lit ''sandbox'', JObj [(lit ''mode'', JStr (lit '' Dedicated'')), (lit ''lifecycle'', JStr (lit ''resident''))])])) = Inr policy"
    and q: "sp_lifecycle policy = Resident" "sp_mode policy = Dedicated"
    by (simp add: resolve_agent_sandbox_policy_def resolve_sandbox_policy_def parse_sandbox_policy_def merge_sandbox_config_def
        or_obj_def lit_def normalize_choice_def sandbox_modes_def sandbox_lifecycles_def lower_def py_strip_def is_space_def read_idle_seconds_def)
  then show ?thesis using sandbox_policy_wellformed[OF p] by blast
qed

text \<open>
  With the confirming resume policy a sandbox that exists is never recreated behind the user's back: \<^verbatim>\<open>ensure_ready\<close> gives
  the same answer and the same database whatever the provider would answer to a creation.
\<close>

theorem confirm_never_creates:
  assumes "sp_resume_policy policy = Resume_confirm" and "sandbox_get u a p db = Some r"
  shows "ensure_ready (world\<lparr>sw_create := f\<rparr>) gen digest i u a p policy fp dm rm now db
    = ensure_ready world gen digest i u a p policy fp dm rm now db"
  using assms by (rule confirm_irrelevant_create)

theorem confirm_never_creates_witness:
  "ensure_ready (sbx_world\<lparr>sw_create := \<lambda>_. None\<rparr>) sbx_gen (\<lambda>k. k) [90] [117] [97] [112] sbx_policy None 3 1 2000 sbx_sandboxes
    = ensure_ready sbx_world sbx_gen (\<lambda>k. k) [90] [117] [97] [112] sbx_policy None 3 1 2000 sbx_sandboxes"
  by (rule confirm_never_creates[OF _ sbx_at]) (simp add: sbx_policy_def)

text \<open>Making a sandbox ready never takes a user beyond the quota of dedicated sandboxes.\<close>

theorem dedicated_quota:
  assumes "sandbox_inv db" and "int (rows_of uid db) \<le> dm"
  shows "int (rows_of uid (fst (ensure_ready world gen digest i u a p policy fp dm rm now db))) \<le> dm"
  using ready_rows_of[OF assms(1), of uid world gen digest i u a p policy fp dm rm now] assms(2) by linarith

theorem dedicated_quota_witness:
  "int (rows_of [117] (fst (ensure_ready sbx_world sbx_gen (\<lambda>k. k) [91] [117] [98] [112] sbx_policy None 1 1 2000 sbx_sandboxes))) \<le> 1"
  by (rule dedicated_quota[OF sbx_inv]) (simp add: rows_of_def sbx_sandboxes_def sbx_row_def)


end
