(* ===== verification/Agent_Registry.thy ===== *)
theory Agent_Registry
  imports Permission_Properties Governance Sandbox_Policy
begin

text \<open>
  Agents and their binding to projects: \<^verbatim>\<open>repositories/agent_repository.py\<close>,
  \<^verbatim>\<open>repositories/project_agent_repository.py\<close>, \<^verbatim>\<open>services/agent_config_service.py\<close> and
  \<^verbatim>\<open>services/project_agent_service.py\<close>, with the configuration filters of \<^verbatim>\<open>agents/context.py\<close>.

  A dict is an association list in which the last entry of a key counts (\<open>json_get\<close>), so \<^verbatim>\<open>{**a, **b}\<close> is \<open>a @ b\<close>.
  New ids are arguments, as are the keys of the resources a user may use, which other services look up, and the
  context schema of the agent's backend (\<open>None\<close> when the backend is not installed). Errors name the message they carry.
\<close>

section \<open>Data\<close>

record agent =
  ag_id :: int
  ag_slug :: pystr
  ag_backend_id :: pystr
  ag_name :: pystr
  ag_description :: "pystr option"
  ag_icon :: "pystr option"
  ag_pics :: "pystr list"
  ag_config_json :: json
  ag_share_config :: json
  ag_is_default :: bool
  ag_is_subagent :: bool
  ag_created_by :: "pystr option"
  ag_updated_by :: "pystr option"
  ag_created_at :: "time option"
  ag_updated_at :: "time option"

record agent_db =
  ad_gov :: gov_db
  ad_agents :: "agent list"

datatype agent_issue =
    Subagent_mismatch | Subagent_default | Default_is_builtin | Builtin_not_global | Default_not_global
  | Config_not_object | Context_not_object | Resources_not_list pystr | Resources_unchecked pystr
  | Resources_forbidden pystr "pystr list" | Agent_missing | Sandbox_not_object | Coding_not_object
  | Bad_executors | Bad_default_executor | Scope_denied

datatype agent_fault =
    Ag_value_error agent_issue
  | Ag_permission_error perm_error
  | Ag_policy_error policy_error
  | Ag_http_error nat
  | Ag_runtime_error
  | Ag_integrity_error
  | Ag_data_error

datatype agent_kind = Main_kind | Subagent_kind | Any_kind

definition default_agent_slug :: pystr where
  "default_agent_slug = lit ''default-chatbot''"

definition sub_agent_backend_id :: pystr where
  "sub_agent_backend_id = lit ''SubAgentBackend''"

definition default_share_config :: json where
  "default_share_config = JObj [(lit ''version'', JInt 2),
     (lit ''read_scope'', JObj [(lit ''access_level'', JStr (lit ''global'')), (lit ''department_ids'', JList []), (lit ''user_uids'', JList [])]),
     (lit ''manage_scope'', JNull)]"

definition admin_roles :: "pystr list" where
  "admin_roles = [lit ''admin'', lit ''superadmin'']"

definition agent_resource_config_fields :: "pystr list" where
  "agent_resource_config_fields =
     [lit ''tools'', lit ''knowledges'', lit ''mcps'', lit ''skills'', lit ''subagents'', lit ''preload_skills'']"

section \<open>Access\<close>

definition is_builtin_agent :: "agent \<Rightarrow> bool" where
  "is_builtin_agent a \<longleftrightarrow> ag_slug a = default_agent_slug"

definition resolve_agent_is_subagent :: "pystr \<Rightarrow> bool option \<Rightarrow> agent_fault + bool" where
  "resolve_agent_is_subagent backend_id is_subagent =
     (let expected = (backend_id = sub_agent_backend_id)
      in if is_subagent \<noteq> None \<and> is_subagent \<noteq> Some expected then Inl (Ag_value_error Subagent_mismatch) else Inr expected)"

definition is_admin :: "perm_user \<Rightarrow> bool" where
  "is_admin user \<longleftrightarrow> (\<exists>r\<in>set admin_roles. pu_role user = Some r)"

definition get_allowed_agent_access_levels :: "perm_user \<Rightarrow> access_level list" where
  "get_allowed_agent_access_levels user = (if is_admin user then [Global, Department, Users] else [Users])"

definition normalize_agent_share_config :: "py_text \<Rightarrow> json option \<Rightarrow> access_level list option \<Rightarrow> agent_fault + json" where
  "normalize_agent_share_config pt share_config allowed =
     (let raw = (case share_config of None \<Rightarrow> default_share_config | Some j \<Rightarrow> if py_true j then j else default_share_config)
      in case normalize_permission_config pt allowed (lit ''share scope'') True raw of
           Inl e \<Rightarrow> Inl (Ag_permission_error e) | Inr c \<Rightarrow> Inr (config_json c))"

definition agent_resource :: "agent \<Rightarrow> shareable_resource" where
  "agent_resource a = \<lparr>re_created_by = ag_created_by a, re_share_config = ag_share_config a, re_source_scope = None\<rparr>"

definition user_can_access_agent :: "py_text \<Rightarrow> perm_user \<Rightarrow> agent \<Rightarrow> agent_fault + bool" where
  "user_can_access_agent pt user a =
     (case resolve_agent_permission pt user (agent_resource a) of
        Inl e \<Rightarrow> Inl (Ag_permission_error e) | Inr p \<Rightarrow> Inr (p \<noteq> NONE))"

definition user_can_manage_agent :: "py_text \<Rightarrow> perm_user \<Rightarrow> agent \<Rightarrow> agent_fault + bool" where
  "user_can_manage_agent pt user a =
     (if is_builtin_agent a then Inr (is_admin user)
      else case resolve_agent_permission pt user (agent_resource a) of
        Inl e \<Rightarrow> Inl (Ag_permission_error e) | Inr p \<Rightarrow> Inr (p = MANAGE))"

section \<open>Slugs\<close>

text \<open>
  \<^verbatim>\<open>str.lower()\<close> as far as a slug can tell: besides the ASCII capitals only the Kelvin sign and the dotted capital I have
  a lower case with ASCII characters; all others end up in a replaced run.
\<close>

definition slug_lower :: "pystr \<Rightarrow> pystr" where
  "slug_lower s = concat (map (\<lambda>c. if 65 \<le> c \<and> c \<le> 90 then [c + 32] else if c = 8490 then [107]
     else if c = 304 then [105, 775] else [c]) s)"

definition slug_char :: "nat \<Rightarrow> bool" where
  "slug_char c \<longleftrightarrow> 97 \<le> c \<and> c \<le> 122 \<or> 65 \<le> c \<and> c \<le> 90 \<or> 48 \<le> c \<and> c \<le> 57 \<or> c = 95 \<or> c = 45"

function dash_runs :: "pystr \<Rightarrow> pystr" where
  "dash_runs [] = []"
| "dash_runs (c # s) = (if slug_char c then c # dash_runs s else 45 # dash_runs (dropWhile (\<lambda>x. \<not> slug_char x) s))"
  by pat_completeness auto

termination
  by (relation "measure length") (auto simp: le_imp_less_Suc length_dropWhile_le)

definition strip_dash :: "pystr \<Rightarrow> pystr" where
  "strip_dash s = rev (dropWhile (\<lambda>c. c = 45) (rev (dropWhile (\<lambda>c. c = 45) s)))"

definition slugify :: "pystr \<Rightarrow> pystr \<Rightarrow> pystr" where
  "slugify fallback value =
     (let base = take 56 (strip_dash (dash_runs (slug_lower (py_strip value))))
      in if base = [] then lit ''agent-'' @ take 12 fallback else base)"

text \<open>\<^verbatim>\<open>base[: 80 - len(suffix)]\<close>, with the meaning of a negative bound.\<close>

definition slice_to :: "int \<Rightarrow> pystr \<Rightarrow> pystr" where
  "slice_to n s = (if 0 \<le> n then take (nat n) s else take (length s - nat (- n)) s)"

definition numbered_slug :: "pystr \<Rightarrow> nat \<Rightarrow> pystr" where
  "numbered_slug base idx = (let suffix = 45 # nat_str idx in slice_to (80 - int (length suffix)) base @ suffix)"

declare nat_str.simps [simp del]

lemma nat_str_digits: "c \<in> set (nat_str n) \<Longrightarrow> 48 \<le> c \<and> c \<le> 57"
proof (induction n rule: nat_str.induct)
  case (1 n)
  have "n mod 10 < 10" by simp
  then show ?case using 1 nat_str.simps[of n] by (auto split: if_splits)
qed

lemma nat_str_nonempty: "nat_str n \<noteq> []"
  by (subst nat_str.simps) simp

lemma nat_str_inj: "nat_str m = nat_str n \<Longrightarrow> m = n"
proof (induction m arbitrary: n rule: less_induct)
  case (less m)
  have parts: "nat_str k = (if k < 10 then [] else nat_str (k div 10)) @ [48 + k mod 10]" for k
    by (subst nat_str.simps) simp
  have eq: "(if m < 10 then [] else nat_str (m div 10)) = (if n < 10 then [] else nat_str (n div 10))"
    and last: "m mod 10 = n mod 10"
    using less.prems unfolding parts[of m] parts[of n] by auto
  show ?case
  proof (cases "m < 10")
    case True
    then have "n < 10" using eq nat_str_nonempty[of "n div 10"] by (auto split: if_splits)
    then show ?thesis using True last by simp
  next
    case False
    then have n: "\<not> n < 10" "nat_str (m div 10) = nat_str (n div 10)" using eq nat_str_nonempty[of "m div 10"] by (auto split: if_splits)
    have "m div 10 = n div 10" using less.IH[of "m div 10"] n(2) False by simp
    then show ?thesis using last by (metis div_mult_mod_eq)
  qed
qed

lemma numbered_slug_inj: "numbered_slug base m = numbered_slug base n \<Longrightarrow> m = n"
proof -
  have tail: "takeWhile (\<lambda>c. c \<noteq> 45) (rev (p @ 45 # nat_str k)) = rev (nat_str k)" for p k
  proof -
    have "c \<noteq> 45" if "c \<in> set (rev (nat_str k))" for c using nat_str_digits[of c k] that by auto
    from takeWhile_append2[of "rev (nat_str k)" "\<lambda>c. c \<noteq> 45", OF this] show ?thesis by simp
  qed
  assume "numbered_slug base m = numbered_slug base n"
  then have "rev (nat_str m) = rev (nat_str n)"
    unfolding numbered_slug_def Let_def by (metis tail)
  then show "m = n" using nat_str_inj by simp
qed

lemma free_slug_less:
  assumes "candidate \<in> set taken"
  shows "(if numbered_slug base idx \<in> set taken then 1 else 0) + card {j. Suc idx \<le> j \<and> numbered_slug base j \<in> set taken}
    < (1::nat) + card {j. idx \<le> j \<and> numbered_slug base j \<in> set taken}"
proof -
  let ?T = "\<lambda>i. {j. i \<le> j \<and> numbered_slug base j \<in> set taken}"
  have fin: "finite (?T i)" for i
    by (rule finite_imageD[of "numbered_slug base"])
      (auto intro: finite_subset[of _ "set taken"] inj_onI dest: numbered_slug_inj)
  show ?thesis
  proof (cases "numbered_slug base idx \<in> set taken")
    case True
    then have "?T idx = insert idx (?T (Suc idx))" by (auto simp: Suc_le_eq le_less)
    then show ?thesis using True fin[of "Suc idx"] by simp
  next
    case False
    then have "?T idx = ?T (Suc idx)" by (auto simp: Suc_le_eq le_less)
    then show ?thesis using False by simp
  qed
qed

text \<open>The loop of \<^verbatim>\<open>_unique_slug\<close>: the numbered candidates differ, so one of them is free.\<close>

function free_slug :: "pystr list \<Rightarrow> pystr \<Rightarrow> nat \<Rightarrow> pystr \<Rightarrow> pystr" where
  "free_slug taken base idx candidate =
     (if candidate \<notin> set taken then candidate
      else free_slug taken base (idx + 1) (numbered_slug base idx))"
  by pat_completeness auto

termination
proof (relation "measure (\<lambda>(taken, base, idx, c). (if c \<in> set taken then 1 else 0)
    + card {j. idx \<le> j \<and> numbered_slug base j \<in> set taken})")
  fix taken :: "pystr list" and base :: pystr and idx :: nat and candidate :: pystr
  assume "\<not> candidate \<notin> set taken"
  then show "((taken, base, idx + 1, numbered_slug base idx), taken, base, idx, candidate)
      \<in> measure (\<lambda>(taken, base, idx, c). (if c \<in> set taken then 1 else 0)
          + card {j. idx \<le> j \<and> numbered_slug base j \<in> set taken})"
    using free_slug_less[of candidate taken base idx] by simp
qed simp

definition unique_slug :: "pystr \<Rightarrow> pystr option \<Rightarrow> pystr \<Rightarrow> agent_db \<Rightarrow> pystr" where
  "unique_slug fallback desired name db =
     (let base = slugify fallback (if or_empty desired \<noteq> [] then or_empty desired else name)
      in free_slug (map ag_slug (ad_agents db)) base 2 base)"

lemma free_slug_fresh: "free_slug taken base idx c \<notin> set taken"
  by (induction taken base idx c rule: free_slug.induct) (subst free_slug.simps, simp)

declare free_slug.simps [simp del]

section \<open>Configuration patches\<close>

record context_field =
  cf_name :: pystr
  cf_configurable :: bool
  cf_auth :: "pystr option"

type_synonym context_schema = "context_field list"

definition role_can_modify :: "pystr option \<Rightarrow> pystr option \<Rightarrow> bool" where
  "role_can_modify auth role =
     (if or_empty auth = [] then True
      else if auth = Some (lit ''admin'') then role = Some (lit ''admin'') \<or> role = Some (lit ''superadmin'')
      else if auth = Some (lit ''superadmin'') then role = Some (lit ''superadmin'')
      else False)"

definition context_of :: "json \<Rightarrow> (pystr \<times> json) list option" where
  "context_of j = (case json_get j (lit ''context'') of Some (JObj kvs) \<Rightarrow> Some kvs | _ \<Rightarrow> None)"

definition with_context :: "json \<Rightarrow> (pystr \<times> json) list \<Rightarrow> json" where
  "with_context j c = (case j of JObj kvs \<Rightarrow> JObj (kvs @ [(lit ''context'', JObj c)]) | _ \<Rightarrow> j)"

definition filter_declared_config :: "json \<Rightarrow> context_schema \<Rightarrow> json" where
  "filter_declared_config config schema =
     (case config of
        JObj _ \<Rightarrow>
          (case context_of config of
             None \<Rightarrow> config
           | Some c \<Rightarrow> with_context config
               (filter (\<lambda>(k, _). k \<in> set (map cf_name (filter cf_configurable schema))) c))
      | _ \<Rightarrow> JObj [])"

definition filter_config_by_role :: "json \<Rightarrow> pystr option \<Rightarrow> context_schema \<Rightarrow> json" where
  "filter_config_by_role config role schema =
     (let filtered = filter_declared_config config schema;
          restricted = map cf_name (filter (\<lambda>f. \<not> role_can_modify (cf_auth f) role) schema)
      in case context_of filtered of
           None \<Rightarrow> filtered
         | Some c \<Rightarrow> with_context filtered (filter (\<lambda>(k, _). k \<notin> set restricted) c))"

definition valid_executors :: "pystr list" where
  "valid_executors = [lit ''opencode'', lit ''codex'']"

definition valid_executor :: "json \<Rightarrow> bool" where
  "valid_executor j = (case j of JStr s \<Rightarrow> lower (py_strip s) \<in> set valid_executors | _ \<Rightarrow> False)"

definition validate_agent_execution_config :: "json \<Rightarrow> agent_fault + unit" where
  "validate_agent_execution_config config =
     and_then
       (case get_or_null config ''sandbox'' of
          JNull \<Rightarrow> Inr ()
        | JObj b \<Rightarrow> (case parse_sandbox_policy (JObj b) of Inl e \<Rightarrow> Inl (Ag_policy_error e) | Inr _ \<Rightarrow> Inr ())
        | _ \<Rightarrow> Inl (Ag_value_error Sandbox_not_object)) (\<lambda>_.
     case get_or_null config ''coding'' of
       JNull \<Rightarrow> Inr ()
     | JObj b \<Rightarrow>
         and_then
           (case get_or_null (JObj b) ''executors'' of
              JNull \<Rightarrow> Inr ()
            | JList xs \<Rightarrow> if list_all valid_executor xs then Inr () else Inl (Ag_value_error Bad_executors)
            | _ \<Rightarrow> Inl (Ag_value_error Bad_executors)) (\<lambda>_.
         case get_or_null (JObj b) ''default_executor'' of
           JNull \<Rightarrow> Inr ()
         | j \<Rightarrow> if valid_executor j then Inr () else Inl (Ag_value_error Bad_default_executor))
     | _ \<Rightarrow> Inl (Ag_value_error Coding_not_object))"

type_synonym resource_access = "pystr \<rightharpoonup> pystr list"

text \<open>
  \<^verbatim>\<open>prepare_agent_config_write\<close>: \<open>options\<close> are the keys of the resources the user may use, by option field.
\<close>

definition submitted_field :: "(pystr \<times> json) list \<Rightarrow> pystr \<Rightarrow> bool" where
  "submitted_field c f =
     (f \<in> set agent_resource_config_fields \<and> (case json_get (JObj c) f of Some (JList xs) \<Rightarrow> xs \<noteq> [] | _ \<Rightarrow> False))"

definition option_field :: "pystr \<Rightarrow> pystr" where
  "option_field f = (if f = lit ''preload_skills'' then lit ''skills'' else f)"

definition prepare_agent_config_write ::
  "json \<Rightarrow> context_schema \<Rightarrow> resource_access \<Rightarrow> perm_user \<Rightarrow> agent_fault + json \<times> resource_access" where
  "prepare_agent_config_write config schema options user =
     (let filtered = filter_config_by_role config (pu_role user) schema
      in and_then (validate_agent_execution_config filtered) (\<lambda>_.
           case context_of filtered of
             None \<Rightarrow> Inr (filtered, Map.empty)
           | Some c \<Rightarrow>
               if list_ex (\<lambda>f. submitted_field c f \<and> options (option_field f) = None) agent_resource_config_fields
               then Inl Ag_runtime_error
               else Inr (filtered, \<lambda>f. if submitted_field c f then options (option_field f) else None)))"

fun normalize_references :: "pystr \<Rightarrow> pystr list \<Rightarrow> json list \<Rightarrow> agent_fault + pystr list" where
  "normalize_references field seen [] = Inr (rev seen)"
| "normalize_references field seen (j # js) =
     (case j of
        JStr s \<Rightarrow>
          if py_strip s = [] then Inl (Ag_value_error (Resources_not_list field))
          else normalize_references field (if py_strip s \<in> set seen then seen else py_strip s # seen) js
      | _ \<Rightarrow> Inl (Ag_value_error (Resources_not_list field)))"

definition normalize_resource_references :: "pystr \<Rightarrow> json \<Rightarrow> agent_fault + pystr list option" where
  "normalize_resource_references field value =
     (case value of
        JNull \<Rightarrow> Inr None
      | JList xs \<Rightarrow> (case normalize_references field [] xs of Inl e \<Rightarrow> Inl e | Inr ks \<Rightarrow> Inr (Some ks))
      | _ \<Rightarrow> Inl (Ag_value_error (Resources_not_list field)))"

definition dict_get :: "(pystr \<times> json) list \<Rightarrow> pystr \<Rightarrow> json" where
  "dict_get kvs k = (case json_get (JObj kvs) k of None \<Rightarrow> JNull | Some j \<Rightarrow> j)"

text \<open>The new value of one resource field.\<close>

definition merge_resource_field ::
  "resource_access \<Rightarrow> (pystr \<times> json) list \<Rightarrow> (pystr \<times> json) list \<Rightarrow> pystr \<Rightarrow> agent_fault + json" where
  "merge_resource_field access current_context patch_context field =
     and_then (normalize_resource_references field (dict_get patch_context field)) (\<lambda>requested.
       case requested of
         None \<Rightarrow> Inr JNull
       | Some [] \<Rightarrow> Inr (JList [])
       | Some req \<Rightarrow>
           (case access field of
              None \<Rightarrow> Inl (Ag_value_error (Resources_unchecked field))
            | Some accessible \<Rightarrow>
                and_then (normalize_resource_references field (dict_get current_context field)) (\<lambda>prev.
                  let previous = (case prev of None \<Rightarrow> [] | Some p \<Rightarrow> p);
                      unauthorized_new = filter (\<lambda>x. x \<notin> set accessible \<and> x \<notin> set previous) req
                  in if unauthorized_new \<noteq> [] then Inl (Ag_value_error (Resources_forbidden field unauthorized_new))
                     else Inr (JList (map JStr
                       (filter (\<lambda>x. x \<notin> set accessible \<or> x \<in> set req) previous
                        @ filter (\<lambda>x. x \<in> set accessible \<and> x \<notin> set previous) req))))))"

fun merge_resource_fields ::
  "resource_access \<Rightarrow> (pystr \<times> json) list \<Rightarrow> (pystr \<times> json) list \<Rightarrow> pystr list \<Rightarrow> agent_fault + (pystr \<times> json) list" where
  "merge_resource_fields access cc pc [] = Inr []"
| "merge_resource_fields access cc pc (f # fs) =
     (if json_get (JObj pc) f = None then merge_resource_fields access cc pc fs
      else and_then (merge_resource_field access cc pc f) (\<lambda>v.
           and_then (merge_resource_fields access cc pc fs) (\<lambda>rest. Inr ((f, v) # rest))))"

definition merge_agent_config_json :: "json \<Rightarrow> json \<Rightarrow> resource_access \<Rightarrow> agent_fault + json" where
  "merge_agent_config_json existing patch access =
     (case patch of
        JObj p \<Rightarrow>
          let current = (case existing of JObj e \<Rightarrow> e | _ \<Rightarrow> [])
          in (case json_get patch (lit ''context'') of
                None \<Rightarrow> Inr (JObj (current @ p))
              | Some (JObj pc) \<Rightarrow>
                  let cc = (case context_of (JObj current) of None \<Rightarrow> [] | Some c \<Rightarrow> c)
                  in and_then (merge_resource_fields access cc pc agent_resource_config_fields) (\<lambda>fields.
                       Inr (with_context (JObj (current @ p)) (cc @ pc @ fields)))
              | Some _ \<Rightarrow> Inl (Ag_value_error Context_not_object))
      | _ \<Rightarrow> Inl (Ag_value_error Config_not_object))"

section \<open>Repository\<close>

definition get_by_slug :: "pystr \<Rightarrow> agent_db \<Rightarrow> agent option" where
  "get_by_slug slug db = find (\<lambda>a. ag_slug a = slug) (ad_agents db)"

definition put_agent :: "agent \<Rightarrow> agent_db \<Rightarrow> agent_db" where
  "put_agent a db = db\<lparr>ad_agents := update_where (\<lambda>x. ag_id x = ag_id a) (\<lambda>_. a) (ad_agents db)\<rparr>"

definition list_by_slugs :: "pystr list \<Rightarrow> agent_db \<Rightarrow> agent list" where
  "list_by_slugs slugs db = filter (\<lambda>a. ag_slug a \<in> set slugs) (ad_agents db)"

definition get_default_agent :: "agent_db \<Rightarrow> agent option" where
  "get_default_agent db = find ag_is_default (ad_agents db)"

fun accessible_agents :: "py_text \<Rightarrow> perm_user \<Rightarrow> agent list \<Rightarrow> agent_fault + agent list" where
  "accessible_agents pt user [] = Inr []"
| "accessible_agents pt user (a # as) =
     and_then (user_can_access_agent pt user a) (\<lambda>ok.
     and_then (accessible_agents pt user as) (\<lambda>rest. Inr (if ok then a # rest else rest)))"

definition allowed_agents :: "py_text \<Rightarrow> perm_user \<Rightarrow> agent list \<Rightarrow> agent_fault + agent list" where
  "allowed_agents pt user as =
     (if pu_role user = Some (lit ''superadmin'') then Inr as else accessible_agents pt user as)"

definition list_all_agent_slugs :: "agent_db \<Rightarrow> pystr list" where
  "list_all_agent_slugs db = remdups (map pa_agent_slug (gv_project_agents (ad_gov db)))"

definition list_agent_slugs_for_project :: "pystr \<Rightarrow> agent_db \<Rightarrow> pystr list" where
  "list_agent_slugs_for_project project_id db =
     map pa_agent_slug (filter (\<lambda>b. pa_project_id b = project_id) (gv_project_agents (ad_gov db)))"

definition list_project_ids_for_agent :: "pystr \<Rightarrow> agent_db \<Rightarrow> pystr list" where
  "list_project_ids_for_agent agent_slug db =
     map pa_project_id (filter (\<lambda>b. pa_agent_slug b = agent_slug) (gv_project_agents (ad_gov db)))"

definition list_visible :: "py_text \<Rightarrow> perm_user \<Rightarrow> bool \<Rightarrow> pystr option \<Rightarrow> agent_db \<Rightarrow> agent_fault + agent list" where
  "list_visible pt user include_subagents project_id db =
     (let agents = sort_key (\<lambda>a. (\<not> ag_is_default a, ag_id a))
            (filter (\<lambda>a. include_subagents \<or> \<not> ag_is_subagent a) (ad_agents db));
          bound = list_all_agent_slugs db
      in and_then (allowed_agents pt user agents) (\<lambda>allowed.
           Inr (case project_id of
                  None \<Rightarrow> filter (\<lambda>a. ag_slug a \<notin> set bound) allowed
                | Some p \<Rightarrow> filter (\<lambda>a. ag_slug a \<in> set (list_agent_slugs_for_project p db) \<or> ag_slug a \<notin> set bound) allowed)))"

definition list_visible_subagents :: "py_text \<Rightarrow> perm_user \<Rightarrow> agent_db \<Rightarrow> agent_fault + agent list" where
  "list_visible_subagents pt user db =
     allowed_agents pt user (sort_key (\<lambda>a. (ag_name a, ag_id a)) (filter ag_is_subagent (ad_agents db)))"

definition get_visible_by_slug :: "py_text \<Rightarrow> pystr \<Rightarrow> perm_user \<Rightarrow> agent_kind \<Rightarrow> agent_db \<Rightarrow> agent_fault + agent option" where
  "get_visible_by_slug pt slug user kind db =
     (case get_by_slug slug db of
        None \<Rightarrow> Inr None
      | Some a \<Rightarrow>
          and_then (user_can_access_agent pt user a) (\<lambda>ok.
            Inr (if \<not> ok then None
                 else case kind of
                   Any_kind \<Rightarrow> Some a
                 | Main_kind \<Rightarrow> if ag_is_subagent a then None else Some a
                 | Subagent_kind \<Rightarrow> if ag_is_subagent a then Some a else None)))"

text \<open>\<^verbatim>\<open>share_config.get("read_scope")\<close> and the access level in it.\<close>

definition read_level_global :: "json \<Rightarrow> bool" where
  "read_level_global share = (json_get (get_or_null share ''read_scope'') (lit ''access_level'') = Some (JStr (lit ''global'')))"

definition set_default :: "agent \<Rightarrow> pystr option \<Rightarrow> time \<Rightarrow> agent_db \<Rightarrow> agent_fault + agent_db \<times> agent" where
  "set_default a updated_by now db =
     (if ag_is_subagent a then Inl (Ag_value_error Subagent_default)
      else if \<not> is_builtin_agent a then Inl (Ag_value_error Default_is_builtin)
      else if \<not> read_level_global (if py_true (ag_share_config a) then ag_share_config a else default_share_config)
      then Inl (Ag_value_error Builtin_not_global)
      else
        let db1 = db\<lparr>ad_agents := update_where ag_is_default (\<lambda>x. x\<lparr>ag_is_default := False, ag_updated_at := Some now\<rparr>) (ad_agents db)\<rparr>;
            a' = a\<lparr>ag_is_default := True, ag_updated_by := updated_by, ag_updated_at := Some now\<rparr>
        in Inr (put_agent a' db1, a'))"

definition unnamed_agent :: pystr where
  "unnamed_agent = [26410, 21629, 21517, 26234, 33021, 20307]"

definition agent_name :: "pystr \<Rightarrow> pystr" where
  "agent_name name = (if py_strip name = [] then unnamed_agent else py_strip name)"

text \<open>Insertion with the constraints of the table: unique id and slug, one default agent, bounded columns.\<close>

definition add_agent :: "agent \<Rightarrow> agent_db \<Rightarrow> agent_fault + agent_db" where
  "add_agent a db =
     (if \<not> fits 80 (Some (ag_slug a)) \<or> \<not> fits 64 (Some (ag_backend_id a)) \<or> \<not> fits 100 (Some (ag_name a)) \<or> \<not> fits 255 (ag_icon a)
      then Inl Ag_data_error
      else if list_ex (\<lambda>x. ag_id x = ag_id a \<or> ag_slug x = ag_slug a \<or> ag_is_default x \<and> ag_is_default a) (ad_agents db)
      then Inl Ag_integrity_error
      else Inr (db\<lparr>ad_agents := ad_agents db @ [a]\<rparr>))"

definition owner_share_config :: "pystr \<Rightarrow> json" where
  "owner_share_config uid = JObj [(lit ''version'', JInt 2),
     (lit ''read_scope'', JObj [(lit ''access_level'', JStr (lit ''user'')), (lit ''department_ids'', JList []), (lit ''user_uids'', JList [JStr uid])]),
     (lit ''manage_scope'', JNull)]"

definition create_agent ::
  "py_text \<Rightarrow> int \<Rightarrow> pystr \<Rightarrow> pystr \<Rightarrow> pystr \<Rightarrow> pystr option \<Rightarrow> pystr option \<Rightarrow> pystr option \<Rightarrow> pystr list
   \<Rightarrow> json option \<Rightarrow> resource_access \<Rightarrow> json option \<Rightarrow> bool option \<Rightarrow> pystr option \<Rightarrow> perm_user option \<Rightarrow> time
   \<Rightarrow> agent_db \<Rightarrow> agent_fault + agent_db \<times> agent" where
  "create_agent pt new_id fallback name backend_id slug description icon pics config access share_config is_subagent
       created_by creator now db =
     and_then (resolve_agent_is_subagent backend_id is_subagent) (\<lambda>subagent.
     and_then (normalize_agent_share_config pt
         (case share_config of None \<Rightarrow> Some (owner_share_config (or_empty created_by))
          | Some j \<Rightarrow> if py_true j then Some j else Some (owner_share_config (or_empty created_by)))
         (map_option get_allowed_agent_access_levels creator)) (\<lambda>share.
     and_then (merge_agent_config_json (JObj [(lit ''context'', JObj [])])
         (case config of None \<Rightarrow> JObj [] | Some j \<Rightarrow> if py_true j then j else JObj []) access) (\<lambda>merged.
       let a = \<lparr>ag_id = new_id, ag_slug = unique_slug fallback slug name db, ag_backend_id = backend_id, ag_name = agent_name name,
             ag_description = description, ag_icon = icon, ag_pics = pics, ag_config_json = merged, ag_share_config = share,
             ag_is_default = False, ag_is_subagent = subagent, ag_created_by = created_by, ag_updated_by = created_by,
             ag_created_at = Some now, ag_updated_at = Some now\<rparr>
       in and_then (add_agent a db) (\<lambda>db'. Inr (db', a)))))"

definition update_agent ::
  "py_text \<Rightarrow> agent \<Rightarrow> pystr option \<Rightarrow> pystr option \<Rightarrow> pystr option \<Rightarrow> pystr list option \<Rightarrow> json option \<Rightarrow> resource_access
   \<Rightarrow> json option \<Rightarrow> bool option \<Rightarrow> pystr option \<Rightarrow> perm_user option \<Rightarrow> time \<Rightarrow> agent_db \<Rightarrow> agent_fault + agent_db \<times> agent" where
  "update_agent pt a name description icon pics config access share_config is_subagent updated_by updater now db =
     and_then (case is_subagent of None \<Rightarrow> Inr (ag_is_subagent a) | Some _ \<Rightarrow> resolve_agent_is_subagent (ag_backend_id a) is_subagent) (\<lambda>subagent.
     and_then (case config of
         None \<Rightarrow> Inr (ag_config_json a)
       | Some patch \<Rightarrow>
           (case find (\<lambda>x. ag_id x = ag_id a) (ad_agents db) of
              None \<Rightarrow> Inl (Ag_value_error Agent_missing)
            | Some row \<Rightarrow> merge_agent_config_json (ag_config_json row) patch access)) (\<lambda>merged.
     and_then (case share_config of
         None \<Rightarrow> Inr (ag_share_config a)
       | Some j \<Rightarrow> if is_builtin_agent a then Inr default_share_config
           else normalize_agent_share_config pt (Some j) (map_option get_allowed_agent_access_levels updater)) (\<lambda>share.
       let a' = a\<lparr>ag_name := (case name of None \<Rightarrow> ag_name a | Some n \<Rightarrow> agent_name n),
             ag_description := (case description of None \<Rightarrow> ag_description a | Some d \<Rightarrow> Some d),
             ag_icon := (case icon of None \<Rightarrow> ag_icon a | Some i \<Rightarrow> Some i),
             ag_pics := (case pics of None \<Rightarrow> ag_pics a | Some p \<Rightarrow> p),
             ag_config_json := merged, ag_share_config := share, ag_is_subagent := subagent,
             ag_updated_by := updated_by, ag_updated_at := Some now\<rparr>
       in if \<not> fits 100 (Some (ag_name a')) \<or> \<not> fits 255 (ag_icon a') then Inl Ag_data_error
          else Inr (put_agent a' db, a'))))"

text \<open>A deleted agent takes its project bindings along (\<^verbatim>\<open>ON DELETE CASCADE\<close>).\<close>

definition delete_agent :: "agent \<Rightarrow> agent_db \<Rightarrow> agent_db" where
  "delete_agent a db =
     db\<lparr>ad_agents := filter (\<lambda>x. ag_id x \<noteq> ag_id a) (ad_agents db),
        ad_gov := (ad_gov db)\<lparr>gv_project_agents := filter (\<lambda>b. pa_agent_slug b \<noteq> ag_slug a) (gv_project_agents (ad_gov db))\<rparr>\<rparr>"

section \<open>Project agents\<close>

definition ensure_agent_project_scope :: "pystr \<Rightarrow> pystr option \<Rightarrow> agent_db \<Rightarrow> agent_fault + unit" where
  "ensure_agent_project_scope agent_slug project_id db =
     (let bound = list_project_ids_for_agent agent_slug db
      in if bound = [] then Inr ()
         else if (case project_id of None \<Rightarrow> False | Some p \<Rightarrow> p \<in> set bound) then Inr ()
         else Inl (Ag_value_error Scope_denied))"

definition load_project_agent_override :: "pystr \<Rightarrow> pystr option \<Rightarrow> agent_db \<Rightarrow> (pystr \<times> json) list option" where
  "load_project_agent_override agent_slug project_id db =
     (case project_id of
        None \<Rightarrow> None
      | Some p \<Rightarrow>
          (case get_project_agent p agent_slug (ad_gov db) of
             None \<Rightarrow> None
           | Some b \<Rightarrow>
               (case context_of (pa_config_overrides b) of None \<Rightarrow> None | Some c \<Rightarrow> if c = [] then None else Some c)))"

text \<open>The context before it is normalized against the resources of the user.\<close>

definition merged_agent_context :: "agent \<Rightarrow> pystr option \<Rightarrow> agent_db \<Rightarrow> (pystr \<times> json) list" where
  "merged_agent_context a project_id db =
     (case context_of (ag_config_json a) of None \<Rightarrow> [] | Some c \<Rightarrow> c)
     @ (case load_project_agent_override (ag_slug a) project_id db of None \<Rightarrow> [] | Some c \<Rightarrow> c)"

definition lock_manageable_project :: "pystr \<Rightarrow> perm_user \<Rightarrow> agent_db \<Rightarrow> agent_fault + project" where
  "lock_manageable_project project_id user db =
     (case get_active_selectable_for_user project_id (or_empty (pu_uid user)) (ad_gov db) of
        None \<Rightarrow> Inl (Ag_http_error 404) | Some p \<Rightarrow> Inr p)"

definition add_binding :: "pystr \<Rightarrow> pystr \<Rightarrow> pystr \<Rightarrow> json \<Rightarrow> pystr option \<Rightarrow> time \<Rightarrow> agent_db \<Rightarrow> agent_fault + agent_db \<times> project_agent" where
  "add_binding new_id project_id agent_slug overrides created_by now db =
     (let b = \<lparr>pa_id = new_id, pa_project_id = project_id, pa_agent_slug = agent_slug,
            pa_config_overrides = (if py_true overrides then overrides else JObj []),
            pa_created_by = created_by, pa_updated_by = created_by, pa_created_at = Some now, pa_updated_at = Some now\<rparr>;
          rows = gv_project_agents (ad_gov db)
      in if list_ex (\<lambda>x. pa_id x = new_id \<or> pa_project_id x = project_id \<and> pa_agent_slug x = agent_slug) rows
            \<or> get_by_slug agent_slug db = None \<or> project_id \<notin> set (map pr_id (gv_projects (ad_gov db)))
         then Inl Ag_integrity_error
         else Inr (db\<lparr>ad_gov := (ad_gov db)\<lparr>gv_project_agents := rows @ [b]\<rparr>\<rparr>, b))"

definition create_project_agent ::
  "py_text \<Rightarrow> int \<Rightarrow> pystr \<Rightarrow> pystr \<Rightarrow> context_schema option \<Rightarrow> resource_access \<Rightarrow> pystr \<Rightarrow> pystr \<Rightarrow> pystr \<Rightarrow> pystr option \<Rightarrow> pystr option
   \<Rightarrow> pystr option \<Rightarrow> pystr list \<Rightarrow> json option \<Rightarrow> perm_user \<Rightarrow> time \<Rightarrow> agent_db \<Rightarrow> agent_fault + agent_db \<times> agent \<times> project_agent" where
  "create_project_agent pt agent_id fallback binding_id schema options project_id name backend_id slug description icon pics config user now db =
     and_then (lock_manageable_project project_id user db) (\<lambda>project.
     case schema of
       None \<Rightarrow> Inl (Ag_http_error 404)
     | Some declared \<Rightarrow>
         and_then (prepare_agent_config_write
             (case config of None \<Rightarrow> JObj [(lit ''context'', JObj [])] | Some j \<Rightarrow> if py_true j then j else JObj [(lit ''context'', JObj [])])
             declared options user) (\<lambda>(filtered, access).
         and_then (merge_agent_config_json (JObj [(lit ''context'', JObj [])]) filtered access) (\<lambda>overrides.
         and_then (create_agent pt agent_id fallback name backend_id slug description icon pics
             (Some (JObj [(lit ''context'', JObj [])])) Map.empty None None (pu_uid user) (Some user) now db) (\<lambda>(db1, a).
         and_then (add_binding binding_id (pr_id project) (ag_slug a) overrides (pu_uid user) now db1) (\<lambda>(db2, b).
           Inr (db2, a, b))))))"

definition bind_project_agent ::
  "py_text \<Rightarrow> pystr \<Rightarrow> pystr \<Rightarrow> pystr \<Rightarrow> perm_user \<Rightarrow> time \<Rightarrow> agent_db \<Rightarrow> agent_fault + agent_db \<times> agent \<times> project_agent" where
  "bind_project_agent pt binding_id project_id agent_slug user now db =
     and_then (lock_manageable_project project_id user db) (\<lambda>project.
     and_then (get_visible_by_slug pt agent_slug user Main_kind db) (\<lambda>found.
     case found of
       None \<Rightarrow> Inl (Ag_http_error 404)
     | Some a \<Rightarrow>
         if is_builtin_agent a \<or> ag_is_default a then Inl (Ag_http_error 409)
         else and_then (user_can_manage_agent pt user a) (\<lambda>manage.
           if \<not> manage then Inl (Ag_http_error 403)
           else
             (case get_project_agent (pr_id project) (ag_slug a) (ad_gov db) of
                Some existing \<Rightarrow> Inr (db, a, existing)
              | None \<Rightarrow>
                  and_then (add_binding binding_id (pr_id project) (ag_slug a) (JObj []) (pu_uid user) now db) (\<lambda>(db', b).
                    Inr (db', a, b))))))"

definition override_section_fields :: "pystr list" where
  "override_section_fields = [lit ''sandbox'', lit ''coding'']"

definition dict_pop :: "pystr list \<Rightarrow> json \<Rightarrow> json" where
  "dict_pop ks j = (case j of JObj kvs \<Rightarrow> JObj (filter (\<lambda>(k, _). k \<notin> set ks) kvs) | _ \<Rightarrow> j)"

definition reset_overrides :: "context_schema \<Rightarrow> pystr list \<Rightarrow> json \<Rightarrow> json" where
  "reset_overrides schema reset_fields overrides =
     (let o1 = dict_pop (filter (\<lambda>f. f \<in> set override_section_fields) reset_fields) overrides;
          declared = filter (\<lambda>f. f \<notin> set override_section_fields \<and> f \<in> set (map cf_name (filter cf_configurable schema))) reset_fields
      in case context_of o1 of
           None \<Rightarrow> o1
         | Some c \<Rightarrow> with_context o1 (filter (\<lambda>(k, _). k \<notin> set declared) c))"

definition update_project_agent ::
  "py_text \<Rightarrow> context_schema option \<Rightarrow> resource_access \<Rightarrow> pystr \<Rightarrow> pystr \<Rightarrow> json \<Rightarrow> pystr list \<Rightarrow> perm_user \<Rightarrow> time
   \<Rightarrow> agent_db \<Rightarrow> agent_fault + agent_db \<times> project_agent" where
  "update_project_agent pt schema options project_id agent_slug config reset_fields user now db =
     and_then (lock_manageable_project project_id user db) (\<lambda>project.
     and_then (get_visible_by_slug pt agent_slug user Any_kind db) (\<lambda>found.
     case found of
       None \<Rightarrow> Inl (Ag_http_error 404)
     | Some a \<Rightarrow>
         and_then (user_can_manage_agent pt user a) (\<lambda>manage.
         if \<not> manage then Inl (Ag_http_error 403)
         else
           (case get_project_agent (pr_id project) (ag_slug a) (ad_gov db) of
              None \<Rightarrow> Inl (Ag_http_error 404)
            | Some b \<Rightarrow>
                (case schema of
                   None \<Rightarrow> Inl (Ag_http_error 409)
                 | Some declared \<Rightarrow>
                     and_then (prepare_agent_config_write config declared options user) (\<lambda>(filtered, access).
                     and_then (merge_agent_config_json (pa_config_overrides b) filtered access) (\<lambda>overrides.
                       let b' = b\<lparr>pa_config_overrides := (if reset_fields = [] then overrides else reset_overrides declared reset_fields overrides),
                             pa_updated_by := pu_uid user, pa_updated_at := Some now\<rparr>
                       in Inr (db\<lparr>ad_gov := (ad_gov db)\<lparr>gv_project_agents :=
                             update_where (\<lambda>x. pa_id x = pa_id b) (\<lambda>_. b') (gv_project_agents (ad_gov db))\<rparr>\<rparr>, b'))))))))"

definition unbind_project_agent :: "py_text \<Rightarrow> pystr \<Rightarrow> pystr \<Rightarrow> bool \<Rightarrow> perm_user \<Rightarrow> agent_db \<Rightarrow> agent_fault + agent_db \<times> bool" where
  "unbind_project_agent pt project_id agent_slug delete user db =
     and_then (lock_manageable_project project_id user db) (\<lambda>project.
     case get_project_agent (pr_id project) agent_slug (ad_gov db) of
       None \<Rightarrow> Inl (Ag_http_error 404)
     | Some b \<Rightarrow>
         let db1 = db\<lparr>ad_gov := (ad_gov db)\<lparr>gv_project_agents := filter (\<lambda>x. pa_id x \<noteq> pa_id b) (gv_project_agents (ad_gov db))\<rparr>\<rparr>
         in if \<not> delete then Inr (db1, False)
            else
              (case get_by_slug agent_slug db of
                 None \<Rightarrow> Inl (Ag_http_error 404)
               | Some a \<Rightarrow>
                   and_then (user_can_manage_agent pt user a) (\<lambda>manage.
                   if \<not> manage then Inl (Ag_http_error 403)
                   else if is_builtin_agent a \<or> ag_is_default a then Inl (Ag_http_error 409)
                   else if list_project_ids_for_agent (ag_slug a) db1 \<noteq> [] then Inl (Ag_http_error 409)
                   else Inr (delete_agent a db1, True))))"

end
