(* ===== verification/Delegation.thy ===== *)
theory Delegation
  imports Agent_Registry
begin

text \<open>
  Delegation of work to external executors: \<^verbatim>\<open>delegation/contracts.py\<close>,
  \<^verbatim>\<open>repositories/channel_delegation_repository.py\<close> and \<^verbatim>\<open>services/delegation_service.py\<close>.

  An executor is a record of its answers; a call that raises answers \<open>Inl\<close>. \<^verbatim>\<open>dispatch\<close> and \<^verbatim>\<open>collect\<close> are two
  transactions with the call of the executor in between: \<open>others\<close> is what other workers did to the database during the call.
  \<open>now\<close> and \<open>later\<close> are clock readings, \<open>clk\<close> is the reading of the \<^verbatim>\<open>onupdate\<close> column. An UPDATE writes the columns that differ
  from the row as the session read it (\<open>set_col\<close>). Best-effort queueing of coding turns, the counters of
  \<^verbatim>\<open>converge\<close> and the views are not state.
\<close>

section \<open>Data\<close>

datatype dispatch_state = Dispatch_pending | Dispatched | Collecting | Reclaimed | Dispatch_failed

record channel_delegation =
  cd_id :: pystr
  cd_operation_id :: pystr
  cd_project_id :: pystr
  cd_initiator_run_id :: "pystr option"
  cd_executor_key :: pystr
  cd_task :: pystr
  cd_request_json :: json
  cd_session_id :: "pystr option"
  cd_turn_id :: "pystr option"
  cd_external_ref :: "pystr option"
  cd_external_url :: "pystr option"
  cd_dispatch_state :: dispatch_state
  cd_attempts :: int
  cd_remote_status :: "pystr option"
  cd_remote_status_synced_at :: "time option"
  cd_result_summary :: "pystr option"
  cd_result_json :: json
  cd_artifact_path :: "pystr option"
  cd_owner_token :: "pystr option"
  cd_lease_expires_at :: "time option"
  cd_error_code :: "pystr option"
  cd_last_error_at :: "time option"
  cd_created_by :: "pystr option"
  cd_created_at :: time
  cd_updated_at :: time

record delegation_db =
  dl_agents :: agent_db
  dl_delegations :: "channel_delegation list"

record delegation_request =
  dr_operation_id :: pystr
  dr_project_id :: pystr
  dr_task :: pystr
  dr_initiator_run_id :: "pystr option"
  dr_context_refs :: "json list"
  dr_budget :: "(pystr \<times> json) list"
  dr_metadata :: "(pystr \<times> json) list"

record delegation_handle =
  dh_operation_id :: pystr
  dh_executor_key :: pystr
  dh_session_id :: "pystr option"
  dh_turn_id :: "pystr option"
  dh_external_ref :: "pystr option"
  dh_external_url :: "pystr option"
  dh_remote_status :: "pystr option"

record delegation_result =
  dx_summary :: "pystr option"
  dx_text :: "pystr option"
  dx_artifacts :: "json list"
  dx_usage :: "(pystr \<times> json) list"
  dx_remote_status :: "pystr option"
  dx_error_code :: "pystr option"

datatype executor_fault = Delegation_fault pystr | Other_fault

record delegated_executor =
  ex_dispatch :: "delegation_request \<Rightarrow> executor_fault + delegation_handle"
  ex_status :: "delegation_handle \<Rightarrow> executor_fault + pystr option"
  ex_collect :: "delegation_handle \<Rightarrow> executor_fault + delegation_result"

type_synonym executors = "pystr \<rightharpoonup> delegated_executor"

datatype delegation_error =
    Dl_error pystr
  | Dl_http nat
  | Dl_agent agent_fault
  | Dl_value_error
  | Dl_integrity
  | Dl_executor_raised

definition executor_keys :: "pystr list" where
  "executor_keys = [lit ''opencode'', lit ''codex'', lit ''multica'']"

definition sandbox_executor_keys :: "pystr list" where
  "sandbox_executor_keys = [lit ''opencode'', lit ''codex'']"

section \<open>Repository\<close>

definition gov_of :: "delegation_db \<Rightarrow> gov_db" where
  "gov_of db = ad_gov (dl_agents db)"

definition add_delegation ::
  "pystr \<Rightarrow> pystr \<Rightarrow> pystr \<Rightarrow> pystr \<Rightarrow> pystr \<Rightarrow> json \<Rightarrow> pystr option \<Rightarrow> pystr option \<Rightarrow> time \<Rightarrow> delegation_db
   \<Rightarrow> delegation_error + delegation_db \<times> channel_delegation" where
  "add_delegation new_id operation_id project_id executor_key task request initiator_run_id created_by now db =
     (let initiator = or_none (or_empty initiator_run_id);
          row = \<lparr>cd_id = new_id, cd_operation_id = operation_id, cd_project_id = project_id, cd_initiator_run_id = initiator,
            cd_executor_key = executor_key, cd_task = task, cd_request_json = request, cd_session_id = None, cd_turn_id = None,
            cd_external_ref = None, cd_external_url = None, cd_dispatch_state = Dispatch_pending, cd_attempts = 0,
            cd_remote_status = None, cd_remote_status_synced_at = None, cd_result_summary = None, cd_result_json = JObj [],
            cd_artifact_path = None, cd_owner_token = None, cd_lease_expires_at = None, cd_error_code = None,
            cd_last_error_at = None, cd_created_by = or_none (or_empty created_by), cd_created_at = now, cd_updated_at = now\<rparr>
      in if list_ex (\<lambda>r. cd_id r = new_id \<or> cd_operation_id r = operation_id) (dl_delegations db)
            \<or> executor_key \<notin> set executor_keys \<or> project_id \<notin> set (map pr_id (gv_projects (gov_of db)))
            \<or> (case initiator of None \<Rightarrow> False | Some r \<Rightarrow> r \<notin> set (gv_run_ids (gov_of db)))
         then Inl Dl_integrity
         else Inr (db\<lparr>dl_delegations := dl_delegations db @ [row]\<rparr>, row))"

definition get_by_operation_id :: "pystr \<Rightarrow> delegation_db \<Rightarrow> channel_delegation option" where
  "get_by_operation_id operation_id db = find (\<lambda>r. cd_operation_id r = operation_id) (dl_delegations db)"

definition list_delegations_for_project :: "pystr \<Rightarrow> delegation_db \<Rightarrow> channel_delegation list" where
  "list_delegations_for_project project_id db =
     sort_key (\<lambda>r. (cd_created_at r, cd_id r)) (filter (\<lambda>r. cd_project_id r = project_id) (dl_delegations db))"

definition unsettled :: "dispatch_state \<Rightarrow> bool" where
  "unsettled s \<longleftrightarrow> s = Dispatch_pending \<or> s = Dispatched \<or> s = Collecting"

definition list_unsettled_leased :: "time \<Rightarrow> nat \<Rightarrow> delegation_db \<Rightarrow> channel_delegation list" where
  "list_unsettled_leased now limit db =
     take limit (sort_key (\<lambda>r. (cd_updated_at r, cd_id r))
       (filter (\<lambda>r. unsettled (cd_dispatch_state r)
          \<and> (case cd_lease_expires_at r of None \<Rightarrow> True | Some t \<Rightarrow> t < now)) (dl_delegations db)))"

text \<open>Changing the row of an operation.\<close>

definition write_delegation ::
  "pystr \<Rightarrow> (channel_delegation \<Rightarrow> channel_delegation) \<Rightarrow> time \<Rightarrow> delegation_db \<Rightarrow> delegation_db" where
  "write_delegation operation_id f clk db =
     db\<lparr>dl_delegations := update_where (\<lambda>r. cd_operation_id r = operation_id)
          (\<lambda>r. if f r = r then r else (f r)\<lparr>cd_updated_at := clk\<rparr>) (dl_delegations db)\<rparr>"

definition set_col :: "'a \<Rightarrow> 'a \<Rightarrow> 'a \<Rightarrow> 'a" where
  "set_col seen new cur = (if new = seen then cur else new)"

section \<open>Rows\<close>

definition claim_row :: "pystr \<Rightarrow> int \<Rightarrow> time \<Rightarrow> dispatch_state option \<Rightarrow> channel_delegation \<Rightarrow> channel_delegation" where
  "claim_row token lease_seconds now state r =
     r\<lparr>cd_owner_token := Some token, cd_lease_expires_at := Some (now + lease_seconds * 1000000), cd_attempts := cd_attempts r + 1,
       cd_dispatch_state := (case state of None \<Rightarrow> cd_dispatch_state r | Some s \<Rightarrow> s)\<rparr>"

definition release_row :: "channel_delegation \<Rightarrow> channel_delegation" where
  "release_row r = r\<lparr>cd_owner_token := None, cd_lease_expires_at := None\<rparr>"

definition apply_handle :: "delegation_handle \<Rightarrow> time \<Rightarrow> channel_delegation \<Rightarrow> channel_delegation" where
  "apply_handle h now r =
     (let r1 = r\<lparr>cd_session_id := dh_session_id h, cd_turn_id := dh_turn_id h, cd_external_ref := dh_external_ref h,
            cd_external_url := dh_external_url h\<rparr>;
          r2 = (if or_empty (dh_remote_status h) \<noteq> []
                then r1\<lparr>cd_remote_status := dh_remote_status h, cd_remote_status_synced_at := Some now\<rparr> else r1)
      in release_row (r2\<lparr>cd_dispatch_state := Dispatched, cd_error_code := None\<rparr>))"

definition handle_of :: "channel_delegation \<Rightarrow> delegation_handle" where
  "handle_of r = \<lparr>dh_operation_id = cd_operation_id r, dh_executor_key = cd_executor_key r, dh_session_id = cd_session_id r,
     dh_turn_id = cd_turn_id r, dh_external_ref = cd_external_ref r, dh_external_url = cd_external_url r, dh_remote_status = None\<rparr>"

text \<open>\<^verbatim>\<open>payload.get(k) or ...\<close> of the stored request.\<close>

definition json_items :: "json option \<Rightarrow> json list" where
  "json_items j = (case j of Some (JList xs) \<Rightarrow> xs | _ \<Rightarrow> [])"

definition json_dict :: "json option \<Rightarrow> (pystr \<times> json) list" where
  "json_dict j = (case j of Some (JObj kvs) \<Rightarrow> kvs | _ \<Rightarrow> [])"

definition request_json_of :: "delegation_request \<Rightarrow> json" where
  "request_json_of q = JObj [(lit ''context_refs'', JList (dr_context_refs q)), (lit ''budget'', JObj (dr_budget q)),
     (lit ''metadata'', JObj (dr_metadata q)), (lit ''governance_task_id'', get_or_null (JObj (dr_metadata q)) ''governance_task_id'')]"

definition request_from_row :: "channel_delegation \<Rightarrow> delegation_request" where
  "request_from_row r = \<lparr>dr_operation_id = cd_operation_id r, dr_project_id = cd_project_id r, dr_task = cd_task r,
     dr_initiator_run_id = cd_initiator_run_id r,
     dr_context_refs = json_items (json_get (cd_request_json r) (lit ''context_refs'')),
     dr_budget = json_dict (json_get (cd_request_json r) (lit ''budget'')),
     dr_metadata = json_dict (json_get (cd_request_json r) (lit ''metadata''))\<rparr>"

section \<open>Dispatch\<close>

definition require_executor :: "executors \<Rightarrow> pystr \<Rightarrow> delegation_error + delegated_executor" where
  "require_executor exs key = (case exs key of None \<Rightarrow> Inl (Dl_error (lit ''executor_unavailable'')) | Some e \<Rightarrow> Inr e)"

definition dispatch_begin ::
  "pystr \<Rightarrow> pystr \<Rightarrow> int \<Rightarrow> pystr \<Rightarrow> delegation_request \<Rightarrow> pystr option \<Rightarrow> time \<Rightarrow> time \<Rightarrow> delegation_db
   \<Rightarrow> delegation_error + delegation_db \<times> channel_delegation" where
  "dispatch_begin new_id token lease_seconds executor_key q uid now clk db =
     and_then (add_delegation new_id (dr_operation_id q) (dr_project_id q) executor_key (dr_task q) (request_json_of q)
         (dr_initiator_run_id q) uid now db) (\<lambda>(db1, row).
       let row' = (claim_row token lease_seconds now None row)\<lparr>cd_updated_at := clk\<rparr>
       in Inr (write_delegation (dr_operation_id q) (claim_row token lease_seconds now None) clk db1, row'))"

definition record_error :: "pystr \<Rightarrow> pystr \<Rightarrow> time \<Rightarrow> time \<Rightarrow> delegation_db \<Rightarrow> delegation_db" where
  "record_error operation_id error_code now clk db =
     write_delegation operation_id
       (\<lambda>r. release_row (r\<lparr>cd_error_code := Some error_code, cd_last_error_at := Some now\<rparr>)) clk db"

definition dispatch_end ::
  "pystr \<Rightarrow> executor_fault + delegation_handle \<Rightarrow> time \<Rightarrow> time \<Rightarrow> delegation_db \<Rightarrow> delegation_db \<times> (delegation_error + unit)" where
  "dispatch_end operation_id answer now clk db =
     (if get_by_operation_id operation_id db = None then (db, Inl (Dl_error (lit ''delegation_not_found'')))
      else case answer of
        Inl (Delegation_fault code) \<Rightarrow> (record_error operation_id code now clk db, Inl (Dl_error code))
      | Inl Other_fault \<Rightarrow> (record_error operation_id (lit ''executor_dispatch_failed'') now clk db, Inl (Dl_error (lit ''executor_dispatch_failed'')))
      | Inr h \<Rightarrow> (write_delegation operation_id (apply_handle h now) clk db, Inr ()))"

definition dispatch ::
  "executors \<Rightarrow> (delegation_db \<Rightarrow> delegation_db) \<Rightarrow> pystr \<Rightarrow> pystr \<Rightarrow> pystr \<Rightarrow> int \<Rightarrow> pystr \<Rightarrow> delegation_request \<Rightarrow> pystr option
   \<Rightarrow> time \<Rightarrow> time \<Rightarrow> time \<Rightarrow> delegation_db \<Rightarrow> delegation_db \<times> (delegation_error + pystr)" where
  "dispatch exs others new_id fresh_op token lease_seconds executor_key q uid now later clk db =
     (case require_executor exs executor_key of
        Inl e \<Rightarrow> (db, Inl e)
      | Inr ex \<Rightarrow>
          let q' = q\<lparr>dr_operation_id := (if dr_operation_id q = [] then fresh_op else dr_operation_id q)\<rparr>
          in (case dispatch_begin new_id token lease_seconds executor_key q' uid now clk db of
                Inl e \<Rightarrow> (db, Inl e)
              | Inr (db1, row) \<Rightarrow>
                  (case dispatch_end (dr_operation_id q') (ex_dispatch ex q') later clk (others db1) of
                     (db2, Inl e) \<Rightarrow> (db2, Inl e) | (db2, Inr _) \<Rightarrow> (db2, Inr (dr_operation_id q')))))"

text \<open>
  A reviewed task of a project goes to the coding executor of the project agent it is assigned to.
\<close>

definition project_task_request :: "pystr \<Rightarrow> project \<Rightarrow> governance_task \<Rightarrow> agent \<Rightarrow> delegation_error + delegation_request" where
  "project_task_request uid project task a =
     (case agent_project_scope uid (ag_slug a) (pr_id project) of
        None \<Rightarrow> Inl Dl_value_error
      | Some scope \<Rightarrow>
          Inr \<lparr>dr_operation_id = [], dr_project_id = pr_id project,
            dr_task = (if or_empty (gk_description task) = [] then gk_title task
                       else gk_title task @ [10, 10] @ or_empty (gk_description task)),
            dr_initiator_run_id = None, dr_context_refs = [], dr_budget = [],
            dr_metadata = [(lit ''uid'', JStr uid), (lit ''runtime_scope_id'', JStr (cache_key scope)),
              (lit ''workdir_relative_path'', JStr (pr_workdir_path project)),
              (lit ''agent_config'', if py_true (ag_config_json a) then ag_config_json a else JObj []),
              (lit ''governance_task_id'', JStr (gk_id task))]\<rparr>)"

definition check_project_task ::
  "py_text \<Rightarrow> pystr \<Rightarrow> pystr \<Rightarrow> pystr \<Rightarrow> perm_user \<Rightarrow> delegation_db \<Rightarrow> delegation_error + project \<times> governance_task \<times> agent" where
  "check_project_task pt project_id task_id executor_key user db =
     (if executor_key \<notin> set sandbox_executor_keys then Inl (Dl_http 422)
      else case get_active_selectable_for_user project_id (or_empty (pu_uid user)) (gov_of db) of
        None \<Rightarrow> Inl (Dl_http 404)
      | Some project \<Rightarrow>
          (case get_gov_task task_id (gov_of db) of
             None \<Rightarrow> Inl (Dl_http 404)
           | Some task \<Rightarrow>
               if gk_project_id task \<noteq> pr_id project then Inl (Dl_http 404)
               else if gk_status task \<noteq> Canonical \<or> or_empty (gk_assignee_agent_slug task) = [] then Inl (Dl_http 409)
               else
                 let slug = or_empty (gk_assignee_agent_slug task)
                 in (case get_visible_by_slug pt slug user Main_kind (dl_agents db) of
                       Inl e \<Rightarrow> Inl (Dl_agent e)
                     | Inr None \<Rightarrow> Inl (Dl_http 409)
                     | Inr (Some a) \<Rightarrow>
                         if get_project_agent (pr_id project) slug (gov_of db) = None then Inl (Dl_http 409)
                         else
                           (case user_can_manage_agent pt user a of
                              Inl e \<Rightarrow> Inl (Dl_agent e)
                            | Inr manage \<Rightarrow> if \<not> manage then Inl (Dl_http 403) else Inr (project, task, a)))))"

definition dispatch_project_task ::
  "py_text \<Rightarrow> executors \<Rightarrow> (delegation_db \<Rightarrow> delegation_db) \<Rightarrow> pystr \<Rightarrow> pystr \<Rightarrow> pystr \<Rightarrow> int \<Rightarrow> pystr \<Rightarrow> pystr \<Rightarrow> pystr \<Rightarrow> perm_user
   \<Rightarrow> time \<Rightarrow> time \<Rightarrow> time \<Rightarrow> delegation_db \<Rightarrow> delegation_db \<times> (delegation_error + pystr)" where
  "dispatch_project_task pt exs others new_id fresh_op token lease_seconds project_id task_id executor_key user now later clk db =
     (case check_project_task pt project_id task_id executor_key user db of
        Inl e \<Rightarrow> (db, Inl e)
      | Inr (project, task, a) \<Rightarrow>
          (case project_task_request (or_empty (pu_uid user)) project task a of
             Inl e \<Rightarrow> (db, Inl e)
           | Inr q \<Rightarrow> dispatch exs others new_id fresh_op token lease_seconds executor_key q (Some (or_empty (pu_uid user))) now later clk db))"

section \<open>Status and collection\<close>

definition load_delegation :: "pystr \<Rightarrow> pystr option \<Rightarrow> delegation_db \<Rightarrow> delegation_error + channel_delegation" where
  "load_delegation operation_id project_id db =
     (case get_by_operation_id operation_id db of
        None \<Rightarrow> Inl (Dl_error (lit ''delegation_not_found''))
      | Some r \<Rightarrow> if project_id \<noteq> None \<and> project_id \<noteq> Some (cd_project_id r) then Inl (Dl_error (lit ''delegation_not_found'')) else Inr r)"

definition has_remote :: "channel_delegation \<Rightarrow> bool" where
  "has_remote r \<longleftrightarrow> or_empty (cd_external_ref r) \<noteq> [] \<or> or_empty (cd_turn_id r) \<noteq> []"

definition delegation_status ::
  "executors \<Rightarrow> (delegation_db \<Rightarrow> delegation_db) \<Rightarrow> pystr \<Rightarrow> pystr option \<Rightarrow> time \<Rightarrow> time \<Rightarrow> delegation_db
   \<Rightarrow> delegation_db \<times> (delegation_error + unit)" where
  "delegation_status exs others operation_id project_id now clk db =
     (case load_delegation operation_id project_id db of
        Inl e \<Rightarrow> (db, Inl e)
      | Inr seen \<Rightarrow>
          (case exs (cd_executor_key seen) of
             None \<Rightarrow> (db, Inr ())
           | Some ex \<Rightarrow>
               if cd_dispatch_state seen = Dispatched \<and> has_remote seen
               then
                 (case ex_status ex (handle_of seen) of
                    Inl _ \<Rightarrow> (others db, Inr ())
                  | Inr remote \<Rightarrow>
                      if remote \<noteq> None \<and> remote \<noteq> cd_remote_status seen
                      then (write_delegation operation_id (\<lambda>r. r\<lparr>cd_remote_status := remote,
                              cd_remote_status_synced_at := set_col (cd_remote_status_synced_at seen) (Some now) (cd_remote_status_synced_at r)\<rparr>)
                              clk (others db), Inr ())
                      else (others db, Inr ()))
               else (db, Inr ())))"

text \<open>The first transaction of \<^verbatim>\<open>collect\<close> claims the row; \<open>None\<close> means that it was reclaimed already.\<close>

definition collect_begin ::
  "executors \<Rightarrow> pystr \<Rightarrow> int \<Rightarrow> pystr \<Rightarrow> pystr option \<Rightarrow> time \<Rightarrow> time \<Rightarrow> delegation_db
   \<Rightarrow> delegation_error + delegation_db \<times> (delegated_executor \<times> channel_delegation) option" where
  "collect_begin exs token lease_seconds operation_id project_id now clk db =
     and_then (load_delegation operation_id project_id db) (\<lambda>r.
       if cd_dispatch_state r = Reclaimed then Inr (db, None)
       else if cd_dispatch_state r \<noteq> Dispatched \<and> cd_dispatch_state r \<noteq> Collecting then Inl (Dl_error (lit ''delegation_state_invalid''))
       else and_then (require_executor exs (cd_executor_key r)) (\<lambda>ex.
         Inr (write_delegation operation_id (claim_row token lease_seconds now (Some Collecting)) clk db,
              Some (ex, (claim_row token lease_seconds now (Some Collecting) r)\<lparr>cd_updated_at := clk\<rparr>))))"

definition collect_failed :: "channel_delegation \<Rightarrow> time \<Rightarrow> delegation_db \<Rightarrow> delegation_db" where
  "collect_failed seen clk db =
     write_delegation (cd_operation_id seen) (\<lambda>r. r\<lparr>
       cd_dispatch_state := set_col (cd_dispatch_state seen) Dispatched (cd_dispatch_state r),
       cd_owner_token := set_col (cd_owner_token seen) None (cd_owner_token r),
       cd_lease_expires_at := set_col (cd_lease_expires_at seen) None (cd_lease_expires_at r)\<rparr>) clk db"

definition result_json_of :: "delegation_result \<Rightarrow> json" where
  "result_json_of x = JObj [(lit ''artifacts'', JList (dx_artifacts x)), (lit ''usage'', JObj (dx_usage x))]"

definition collect_done :: "channel_delegation \<Rightarrow> delegation_result \<Rightarrow> pystr option \<Rightarrow> time \<Rightarrow> time \<Rightarrow> delegation_db \<Rightarrow> delegation_db" where
  "collect_done seen x artifact now clk db =
     write_delegation (cd_operation_id seen) (\<lambda>r. r\<lparr>
       cd_result_summary := set_col (cd_result_summary seen) (dx_summary x) (cd_result_summary r),
       cd_result_json := set_col (cd_result_json seen) (result_json_of x) (cd_result_json r),
       cd_artifact_path := set_col (cd_artifact_path seen) artifact (cd_artifact_path r),
       cd_remote_status := (if or_empty (dx_remote_status x) \<noteq> []
          then set_col (cd_remote_status seen) (dx_remote_status x) (cd_remote_status r) else cd_remote_status r),
       cd_remote_status_synced_at := (if or_empty (dx_remote_status x) \<noteq> []
          then set_col (cd_remote_status_synced_at seen) (Some now) (cd_remote_status_synced_at r) else cd_remote_status_synced_at r),
       cd_dispatch_state := set_col (cd_dispatch_state seen) Reclaimed (cd_dispatch_state r),
       cd_owner_token := set_col (cd_owner_token seen) None (cd_owner_token r),
       cd_lease_expires_at := set_col (cd_lease_expires_at seen) None (cd_lease_expires_at r),
       cd_error_code := set_col (cd_error_code seen) (dx_error_code x) (cd_error_code r)\<rparr>) clk db"

definition artifact_path_of :: "pystr \<Rightarrow> pystr" where
  "artifact_path_of operation_id = lit ''.yuanlei/delegations/'' @ operation_id @ lit ''/result.md''"

definition collect_end ::
  "bool \<Rightarrow> channel_delegation \<Rightarrow> executor_fault + delegation_result \<Rightarrow> time \<Rightarrow> time \<Rightarrow> delegation_db \<Rightarrow> delegation_db \<times> (delegation_error + unit)" where
  "collect_end has_workdir seen answer now clk db =
     (case answer of
        Inl (Delegation_fault code) \<Rightarrow> (collect_failed seen clk db, Inl (Dl_error code))
      | Inl Other_fault \<Rightarrow> (db, Inl Dl_executor_raised)
      | Inr x \<Rightarrow>
          (collect_done seen x (if or_empty (dx_text x) \<noteq> [] \<and> has_workdir then Some (artifact_path_of (cd_operation_id seen)) else None)
             now clk db, Inr ()))"

definition collect ::
  "executors \<Rightarrow> (delegation_db \<Rightarrow> delegation_db) \<Rightarrow> pystr \<Rightarrow> int \<Rightarrow> bool \<Rightarrow> pystr \<Rightarrow> pystr option \<Rightarrow> time \<Rightarrow> time \<Rightarrow> delegation_db
   \<Rightarrow> delegation_db \<times> (delegation_error + unit)" where
  "collect exs others token lease_seconds has_workdir operation_id project_id now clk db =
     (case collect_begin exs token lease_seconds operation_id project_id now clk db of
        Inl e \<Rightarrow> (db, Inl e)
      | Inr (db1, None) \<Rightarrow> (db1, Inr ())
      | Inr (db1, Some (ex, seen)) \<Rightarrow> collect_end has_workdir seen (ex_collect ex (handle_of seen)) now clk (others db1))"

section \<open>Convergence\<close>

text \<open>
  One row of \<^verbatim>\<open>converge\<close>, with the row locked. A failed dispatch rolls back and records the failure in a new transaction
  (\<open>converge_failed\<close>).
\<close>

definition converge_dispatched :: "executors \<Rightarrow> time \<Rightarrow> channel_delegation \<Rightarrow> channel_delegation" where
  "converge_dispatched exs now r =
     release_row
       (case exs (cd_executor_key r) of
          None \<Rightarrow> r
        | Some ex \<Rightarrow>
            if \<not> has_remote r then r
            else
              (case ex_status ex (handle_of r) of
                 Inr (Some remote) \<Rightarrow> r\<lparr>cd_remote_status := Some remote, cd_remote_status_synced_at := Some now\<rparr>
               | _ \<Rightarrow> r))"

definition converge_pending :: "executors \<Rightarrow> time \<Rightarrow> time \<Rightarrow> pystr \<Rightarrow> channel_delegation \<Rightarrow> delegation_db \<Rightarrow> delegation_db" where
  "converge_pending exs now clk operation_id row db =
     (case exs (cd_executor_key row) of
        None \<Rightarrow> write_delegation operation_id release_row clk db
      | Some ex \<Rightarrow>
          (case ex_dispatch ex (request_from_row row) of
             Inl _ \<Rightarrow> write_delegation operation_id
               (\<lambda>r. release_row (r\<lparr>cd_error_code := Some (lit ''executor_dispatch_failed''), cd_last_error_at := Some now\<rparr>)) clk db
           | Inr h \<Rightarrow> write_delegation operation_id (apply_handle h now) clk db))"

definition converge_row :: "executors \<Rightarrow> time \<Rightarrow> time \<Rightarrow> pystr \<Rightarrow> delegation_db \<Rightarrow> delegation_db" where
  "converge_row exs now clk operation_id db =
     (case get_by_operation_id operation_id db of
        None \<Rightarrow> db
      | Some r \<Rightarrow>
          if \<not> unsettled (cd_dispatch_state r) then db
          else if (case cd_lease_expires_at r of None \<Rightarrow> False | Some t \<Rightarrow> now \<le> t) then db
          else
            (case cd_dispatch_state r of
               Dispatch_pending \<Rightarrow> converge_pending exs now clk operation_id r db
             | Collecting \<Rightarrow> write_delegation operation_id (\<lambda>x. release_row (x\<lparr>cd_dispatch_state := Dispatched\<rparr>)) clk db
             | _ \<Rightarrow> write_delegation operation_id (converge_dispatched exs now) clk db))"

definition converge :: "executors \<Rightarrow> time \<Rightarrow> time \<Rightarrow> nat \<Rightarrow> delegation_db \<Rightarrow> delegation_db" where
  "converge exs now clk limit db =
     fold (converge_row exs now clk) (map cd_operation_id (list_unsettled_leased now limit db)) db"

end
