(* ===== verification/Agent_Properties.thy ===== *)
theory Agent_Properties
  imports Agent_Registry
begin

text \<open>
  What the agent registry promises: an invariant of the tables, patches that cannot smuggle in resources or change fields
  the role may not change, fresh slugs, exclusive project agents and guarded deletion.
\<close>

section \<open>Dicts\<close>

lemma json_get_append:
  "json_get (JObj (a @ b)) k = (case json_get (JObj b) k of Some v \<Rightarrow> Some v | None \<Rightarrow> json_get (JObj a) k)"
  by (simp add: map_add_def split: option.splits)

lemma json_get_filter: "json_get (JObj (filter (\<lambda>(k, _). P k) kvs)) f = (if P f then json_get (JObj kvs) f else None)"
proof -
  have "map_of (filter (\<lambda>(k, _). P k) xs) f = (if P f then map_of xs f else None)" for xs :: "(pystr \<times> json) list"
    by (induction xs) auto
  then show ?thesis by (simp add: rev_filter)
qed

lemma context_of_with_context [simp]: "context_of (with_context (JObj kvs) c) = Some c"
  by (simp add: context_of_def with_context_def)

lemma with_context_obj: "\<exists>kvs'. with_context (JObj kvs) c = JObj kvs'"
  by (simp add: with_context_def)

lemma context_of_append:
  "context_of (JObj (a @ p)) = (if json_get (JObj p) (lit ''context'') = None then context_of (JObj a) else context_of (JObj p))"
  unfolding context_of_def json_get_append by (auto split: option.splits)

section \<open>Patches\<close>

lemma merge_fields_rows:
  "merge_resource_fields access cc pc fs = Inr rest \<Longrightarrow>
   map fst rest = filter (\<lambda>f. json_get (JObj pc) f \<noteq> None) fs \<and> (\<forall>(f, v)\<in>set rest. merge_resource_field access cc pc f = Inr v)"
proof (induction fs arbitrary: rest)
  case (Cons g fs)
  show ?case
  proof (cases "json_get (JObj pc) g = None")
    case True
    then show ?thesis using Cons by simp
  next
    case False
    then obtain v rest' where "merge_resource_field access cc pc g = Inr v" "merge_resource_fields access cc pc fs = Inr rest'"
      and "rest = (g, v) # rest'"
      using Cons.prems by (auto simp: and_then_def simp del: json_get.simps split: sum.splits)
    then show ?thesis using Cons.IH[of rest'] False by simp
  qed
qed simp







lemma merge_context:
  assumes "merge_agent_config_json existing (JObj p) access = Inr merged" and "json_get (JObj p) (lit ''context'') = Some (JObj pc)"
    and "cc = (case context_of existing of None \<Rightarrow> [] | Some c \<Rightarrow> c)"
  shows "\<exists>fields. merge_resource_fields access cc pc agent_resource_config_fields = Inr fields
    \<and> context_of merged = Some (cc @ pc @ fields)"
proof -
  have cc: "cc = (case context_of (JObj (case existing of JObj e \<Rightarrow> e | _ \<Rightarrow> [])) of None \<Rightarrow> [] | Some c \<Rightarrow> c)"
    using assms(3) by (cases existing) (auto simp: context_of_def)
  show ?thesis using assms(1,2) unfolding merge_agent_config_json_def cc
    by (auto simp: and_then_def Let_def simp del: json_get.simps split: sum.splits)
qed


lemma role_filtered:
  assumes "filtered = filter_config_by_role config role schema" and "c \<in> set schema" and "\<not> role_can_modify (cf_auth c) role"
    and "context_of filtered = Some pc"
  shows "json_get (JObj pc) (cf_name c) = None"
proof -
  obtain kvs where obj: "filter_declared_config config schema = JObj kvs"
    by (cases config; cases "context_of config") (auto simp: filter_declared_config_def with_context_def)
  show ?thesis
  proof (cases "context_of (JObj kvs)")
    case None
    then show ?thesis using assms(1,4) by (simp add: filter_config_by_role_def obj)
  next
    case (Some c0)
    then have "pc = filter (\<lambda>(k, _). k \<notin> set (map cf_name (filter (\<lambda>f. \<not> role_can_modify (cf_auth f) role) schema))) c0"
      using assms(1,4) by (simp add: filter_config_by_role_def obj)
    then show ?thesis using assms(2,3) by (auto simp: json_get_filter simp del: json_get.simps)
  qed
qed

section \<open>Invariant\<close>

definition agent_ok :: "agent \<Rightarrow> bool" where
  "agent_ok a \<longleftrightarrow> (ag_is_subagent a \<longleftrightarrow> ag_backend_id a = sub_agent_backend_id)
     \<and> (ag_is_default a \<longrightarrow> is_builtin_agent a \<and> \<not> ag_is_subagent a)"

definition binding_key :: "project_agent \<Rightarrow> pystr \<times> pystr" where
  "binding_key b = (pa_project_id b, pa_agent_slug b)"

definition bindings_ok :: "agent_db \<Rightarrow> bool" where
  "bindings_ok db \<longleftrightarrow> distinct (map pa_id (gv_project_agents (ad_gov db)))
     \<and> distinct (map binding_key (gv_project_agents (ad_gov db)))
     \<and> (\<forall>b\<in>set (gv_project_agents (ad_gov db)). pa_agent_slug b \<in> set (map ag_slug (ad_agents db))
          \<and> pa_project_id b \<in> set (map pr_id (gv_projects (ad_gov db))))"

definition agent_inv :: "agent_db \<Rightarrow> bool" where
  "agent_inv db \<longleftrightarrow> distinct (map ag_id (ad_agents db)) \<and> distinct (map ag_slug (ad_agents db))
     \<and> (\<forall>a\<in>set (ad_agents db). agent_ok a) \<and> bindings_ok db"

lemma key_unique: "distinct (map k xs) \<Longrightarrow> x \<in> set xs \<Longrightarrow> y \<in> set xs \<Longrightarrow> k x = k y \<Longrightarrow> x = y"
  by (meson distinct_map inj_onD)

lemma put_agent_inv:
  assumes inv: "agent_inv db" and x: "x \<in> set (ad_agents db)" "ag_id x = ag_id a" "ag_slug x = ag_slug a" and ok: "agent_ok a"
  shows "agent_inv (put_agent a db)"
proof -
  have same: "y = x" if "y \<in> set (ad_agents db)" "ag_id y = ag_id a" for y
    using inv x(1,2) that key_unique[of ag_id "ad_agents db" y x] by (simp add: agent_inv_def)
  have ids: "map ag_id (ad_agents (put_agent a db)) = map ag_id (ad_agents db)"
    by (auto simp: put_agent_def update_where_def)
  have slugs: "map ag_slug (ad_agents (put_agent a db)) = map ag_slug (ad_agents db)"
    using same x(3) by (auto simp: put_agent_def update_where_def)
  have "\<forall>y\<in>set (ad_agents (put_agent a db)). agent_ok y"
    using inv ok by (auto simp: put_agent_def agent_inv_def set_update_where)
  moreover have "ad_gov (put_agent a db) = ad_gov db" by (simp add: put_agent_def)
  ultimately show ?thesis using inv by (simp add: agent_inv_def bindings_ok_def ids slugs del: set_map)
qed

lemma get_by_slug_in: "get_by_slug s db = Some a \<Longrightarrow> a \<in> set (ad_agents db) \<and> ag_slug a = s"
  by (auto simp: get_by_slug_def dest: find_Some_in)

lemma get_visible_in: "get_visible_by_slug pt s user kind db = Inr (Some a) \<Longrightarrow> get_by_slug s db = Some a"
  by (auto simp: get_visible_by_slug_def and_then_def split: option.splits sum.splits if_splits agent_kind.splits)

lemma set_default_inv:
  assumes inv: "agent_inv db" and a: "a \<in> set (ad_agents db)" and s: "set_default a by_uid now db = Inr (db', a')"
  shows "agent_inv db'"
proof -
  let ?f = "\<lambda>x. x\<lparr>ag_is_default := False, ag_updated_at := Some now\<rparr>"
  let ?db1 = "db\<lparr>ad_agents := update_where ag_is_default ?f (ad_agents db)\<rparr>"
  let ?a = "a\<lparr>ag_is_default := True, ag_updated_by := by_uid, ag_updated_at := Some now\<rparr>"
  have db': "db' = put_agent ?a ?db1" and ok: "\<not> ag_is_subagent a" "is_builtin_agent a"
    using s by (auto simp: set_default_def Let_def split: if_splits)
  have maps: "map ag_id (update_where ag_is_default ?f (ad_agents db)) = map ag_id (ad_agents db)"
    "map ag_slug (update_where ag_is_default ?f (ad_agents db)) = map ag_slug (ad_agents db)"
    by (simp_all add: map_update_where)
  have "agent_ok x \<Longrightarrow> agent_ok (?f x)" for x by (simp add: agent_ok_def is_builtin_agent_def)
  then have "\<forall>x\<in>set (update_where ag_is_default ?f (ad_agents db)). agent_ok x"
    using inv by (auto simp: agent_inv_def set_update_where)
  then have inv1: "agent_inv ?db1" using inv by (simp add: agent_inv_def bindings_ok_def maps del: set_map)
  have ok': "agent_ok ?a" using inv a ok by (auto simp: agent_inv_def agent_ok_def is_builtin_agent_def)
  have "\<exists>x\<in>set (ad_agents ?db1). ag_id x = ag_id ?a \<and> ag_slug x = ag_slug ?a"
    using a by (cases "ag_is_default a") (auto simp: set_update_where intro: bexI[of _ a] bexI[of _ "?f a"])
  then show ?thesis unfolding db' using put_agent_inv[OF inv1 _ _ _ ok'] by blast
qed

lemma add_agent_inv:
  assumes inv: "agent_inv db" and add: "add_agent a db = Inr db'" and ok: "agent_ok a"
  shows "agent_inv db'"
proof -
  have db': "db' = db\<lparr>ad_agents := ad_agents db @ [a]\<rparr>"
    and fresh: "\<forall>x\<in>set (ad_agents db). ag_id x \<noteq> ag_id a \<and> ag_slug x \<noteq> ag_slug a"
    using add by (auto simp: add_agent_def list_ex_iff split: if_splits)
  show ?thesis using inv fresh ok by (auto simp: db' agent_inv_def bindings_ok_def)
qed

lemma create_agent_added:
  assumes "create_agent pt i fb n bk sl de ic ps cf ac sh sub cb cr now db = Inr (db', a)"
  shows "add_agent a db = Inr db'" and "agent_ok a" and "ag_slug a = unique_slug fb sl n db"
  using assms
  by (auto simp: create_agent_def and_then_def Let_def resolve_agent_is_subagent_def agent_ok_def split: sum.splits if_splits)

lemma update_agent_put:
  assumes "update_agent pt a n de ic ps cf ac sh sub ub up now db = Inr (db', a')"
  shows "db' = put_agent a' db" and "ag_id a' = ag_id a" and "ag_slug a' = ag_slug a"
    and "agent_ok a \<Longrightarrow> agent_ok a'"
proof -
  obtain merged share subagent where sub: "(case sub of None \<Rightarrow> Inr (ag_is_subagent a) | Some _ \<Rightarrow> resolve_agent_is_subagent (ag_backend_id a) sub) = Inr subagent"
    and a': "a' = a\<lparr>ag_name := (case n of None \<Rightarrow> ag_name a | Some n \<Rightarrow> agent_name n),
             ag_description := (case de of None \<Rightarrow> ag_description a | Some d \<Rightarrow> Some d),
             ag_icon := (case ic of None \<Rightarrow> ag_icon a | Some i \<Rightarrow> Some i),
             ag_pics := (case ps of None \<Rightarrow> ag_pics a | Some p \<Rightarrow> p),
             ag_config_json := merged, ag_share_config := share, ag_is_subagent := subagent,
             ag_updated_by := ub, ag_updated_at := Some now\<rparr>" and db': "db' = put_agent a' db"
    using assms unfolding update_agent_def and_then_def Let_def by (auto split: sum.splits if_splits)
  show "db' = put_agent a' db" by (rule db')
  show "ag_id a' = ag_id a" "ag_slug a' = ag_slug a" by (simp_all add: a')
  show "agent_ok a'" if "agent_ok a"
    using that sub by (auto simp: a' agent_ok_def is_builtin_agent_def resolve_agent_is_subagent_def split: option.splits if_splits)
qed

lemma delete_agent_inv:
  assumes inv: "agent_inv db" and a: "a \<in> set (ad_agents db)"
  shows "agent_inv (delete_agent a db)"
proof -
  have other: "ag_slug x \<noteq> ag_slug a \<longleftrightarrow> ag_id x \<noteq> ag_id a" if "x \<in> set (ad_agents db)" for x
    using inv a that key_unique[of ag_id "ad_agents db" x a] key_unique[of ag_slug "ad_agents db" x a]
    by (auto simp: agent_inv_def)
  show ?thesis using inv other
    by (auto simp: agent_inv_def bindings_ok_def delete_agent_def distinct_map_filter)
qed

lemma add_binding_inv:
  assumes inv: "agent_inv db" and add: "add_binding i p s ov cb now db = Inr (db', b)"
  shows "agent_inv db'" and "ad_agents db' = ad_agents db"
proof -
  let ?rows = "gv_project_agents (ad_gov db)"
  have db': "db' = db\<lparr>ad_gov := (ad_gov db)\<lparr>gv_project_agents := ?rows @ [b]\<rparr>\<rparr>"
    and b: "pa_id b = i" "pa_project_id b = p" "pa_agent_slug b = s"
    and fresh: "\<forall>x\<in>set ?rows. pa_id x \<noteq> i \<and> binding_key x \<noteq> (p, s)"
    and p: "p \<in> set (map pr_id (gv_projects (ad_gov db)))" and s: "get_by_slug s db \<noteq> None"
    using add by (auto simp: add_binding_def Let_def list_ex_iff binding_key_def split: if_splits)
  have s': "s \<in> set (map ag_slug (ad_agents db))" using s get_by_slug_in by fastforce
  show "agent_inv db'" using inv fresh p s' by (auto simp: db' agent_inv_def bindings_ok_def b binding_key_def[of b])
  show "ad_agents db' = ad_agents db" by (simp add: db')
qed

section \<open>Steps\<close>

definition agent_start :: "agent_db \<Rightarrow> bool" where
  "agent_start db \<longleftrightarrow> ad_agents db = [] \<and> gv_project_agents (ad_gov db) = []"

inductive agent_step :: "agent_db \<Rightarrow> agent_db \<Rightarrow> bool" where
  create: "create_agent pt i fb n bk sl de ic ps cf ac sh sub cb cr now db = Inr (db', a) \<Longrightarrow> agent_step db db'"
| update: "a \<in> set (ad_agents db) \<Longrightarrow> update_agent pt a n de ic ps cf ac sh sub ub up now db = Inr (db', a') \<Longrightarrow> agent_step db db'"
| set_default: "a \<in> set (ad_agents db) \<Longrightarrow> set_default a ub now db = Inr (db', a') \<Longrightarrow> agent_step db db'"
| delete: "a \<in> set (ad_agents db) \<Longrightarrow> agent_step db (delete_agent a db)"
| create_bound: "create_project_agent pt i fb bi sc op p n bk sl de ic ps cf user now db = Inr (db', a, b) \<Longrightarrow> agent_step db db'"
| bind: "bind_project_agent pt bi p s user now db = Inr (db', a, b) \<Longrightarrow> agent_step db db'"
| override: "update_project_agent pt sc op p s cf rf user now db = Inr (db', b) \<Longrightarrow> agent_step db db'"
| unbind: "unbind_project_agent pt p s del user db = Inr (db', deleted) \<Longrightarrow> agent_step db db'"

lemma bindings_update_inv:
  assumes inv: "agent_inv db" and b: "b \<in> set (gv_project_agents (ad_gov db))"
    and b': "pa_id b' = pa_id b" "pa_project_id b' = pa_project_id b" "pa_agent_slug b' = pa_agent_slug b"
  shows "agent_inv (db\<lparr>ad_gov := (ad_gov db)\<lparr>gv_project_agents :=
    update_where (\<lambda>x. pa_id x = pa_id b) (\<lambda>_. b') (gv_project_agents (ad_gov db))\<rparr>\<rparr>)"
proof -
  let ?rows = "gv_project_agents (ad_gov db)"
  let ?rows' = "update_where (\<lambda>x. pa_id x = pa_id b) (\<lambda>_. b') ?rows"
  have same: "x = b" if "x \<in> set ?rows" "pa_id x = pa_id b" for x
    using inv b that key_unique[of pa_id ?rows x b] by (simp add: agent_inv_def bindings_ok_def)
  have ids: "map pa_id ?rows' = map pa_id ?rows" using b'(1) by (auto simp: update_where_def)
  have keys: "map binding_key ?rows' = map binding_key ?rows" using same b' by (auto simp: update_where_def binding_key_def)
  have "\<forall>x\<in>set ?rows'. pa_agent_slug x \<in> set (map ag_slug (ad_agents db)) \<and> pa_project_id x \<in> set (map pr_id (gv_projects (ad_gov db)))"
    using inv b b' by (auto simp: agent_inv_def bindings_ok_def set_update_where)
  then show ?thesis using inv by (simp add: agent_inv_def bindings_ok_def ids keys del: set_map)
qed

lemma bindings_filter_inv:
  "agent_inv db \<Longrightarrow> agent_inv (db\<lparr>ad_gov := (ad_gov db)\<lparr>gv_project_agents := filter P (gv_project_agents (ad_gov db))\<rparr>\<rparr>)"
  by (auto simp: agent_inv_def bindings_ok_def distinct_map_filter)

lemma get_project_agent_in:
  "get_project_agent p s g = Some b \<Longrightarrow> b \<in> set (gv_project_agents g) \<and> pa_project_id b = p \<and> pa_agent_slug b = s"
  by (auto simp: get_project_agent_def dest: find_Some_in)

lemma unbind_effect:
  assumes "unbind_project_agent pt p s del user db = Inr (db', deleted)"
  obtains b db1 where "get_project_agent p s (ad_gov db) = Some b" "lock_manageable_project p user db \<noteq> Inl (Ag_http_error 404)"
    "db1 = db\<lparr>ad_gov := (ad_gov db)\<lparr>gv_project_agents := filter (\<lambda>x. pa_id x \<noteq> pa_id b) (gv_project_agents (ad_gov db))\<rparr>\<rparr>"
    "if deleted then \<exists>a. get_by_slug s db = Some a \<and> user_can_manage_agent pt user a = Inr True \<and> \<not> is_builtin_agent a
       \<and> \<not> ag_is_default a \<and> list_project_ids_for_agent s db1 = [] \<and> db' = delete_agent a db1 else db' = db1"
proof -
  obtain project where pr: "lock_manageable_project p user db = Inr project" and pid: "pr_id project = p"
    using assms by (auto simp: unbind_project_agent_def and_then_def lock_manageable_project_def get_active_selectable_for_user_def
        dest: find_Some_in split: sum.splits option.splits)
  obtain b where b: "get_project_agent p s (ad_gov db) = Some b"
    using assms by (auto simp: unbind_project_agent_def and_then_def pr pid split: option.splits)
  let ?db1 = "db\<lparr>ad_gov := (ad_gov db)\<lparr>gv_project_agents := filter (\<lambda>x. pa_id x \<noteq> pa_id b) (gv_project_agents (ad_gov db))\<rparr>\<rparr>"
  have "if deleted then \<exists>a. get_by_slug s db = Some a \<and> user_can_manage_agent pt user a = Inr True \<and> \<not> is_builtin_agent a
       \<and> \<not> ag_is_default a \<and> list_project_ids_for_agent s ?db1 = [] \<and> db' = delete_agent a ?db1 else db' = ?db1"
    using assms get_by_slug_in[of s db]
    by (auto simp: unbind_project_agent_def and_then_def pr pid b Let_def split: option.splits sum.splits if_splits)
  from that[OF b _ refl this] show thesis by (simp add: pr)
qed

lemma agent_step_inv: "agent_step db db' \<Longrightarrow> agent_inv db \<Longrightarrow> agent_inv db'"
proof (induction rule: agent_step.induct)
  case (create pt i fb n bk sl de ic ps cf ac sh sub cb cr now db db' a)
  then show ?case using create_agent_added[OF create(1)] add_agent_inv by blast
next
  case (update a db pt n de ic ps cf ac sh sub ub up now db' a')
  then show ?case using update_agent_put[OF update(2)] put_agent_inv[of db a a'] by (auto simp: agent_inv_def)
next
  case (set_default a db ub now db' a')
  then show ?case using set_default_inv by blast
next
  case (delete a db)
  then show ?case using delete_agent_inv by blast
next
  case (create_bound pt i fb bi sc op p n bk sl de ic ps cf user now db db' a b)
  then obtain db1 cfg ac ov cb pid where c: "create_agent pt i fb n bk sl de ic ps cfg ac None None cb (Some user) now db = Inr (db1, a)"
    and b: "add_binding bi pid (ag_slug a) ov cb now db1 = Inr (db', b)"
    by (auto simp: create_project_agent_def and_then_def split: sum.splits option.splits)
  have "agent_inv db1" using create_agent_added[OF c] add_agent_inv create_bound by blast
  then show ?case using add_binding_inv(1)[OF _ b] by blast
next
  case (bind pt bi p s user now db db' a b)
  then obtain pid cb where "db' = db \<or> add_binding bi pid (ag_slug a) (JObj []) cb now db = Inr (db', b)"
    by (auto simp: bind_project_agent_def and_then_def split: sum.splits option.splits if_splits)
  then show ?case using add_binding_inv(1) bind by blast
next
  case (override pt sc op p s cf rf user now db db' b)
  then obtain project a b0 where b0: "get_project_agent project (ag_slug (a :: agent)) (ad_gov db) = Some b0"
    and b: "pa_id b = pa_id b0" "pa_project_id b = pa_project_id b0" "pa_agent_slug b = pa_agent_slug b0"
    and db': "db' = db\<lparr>ad_gov := (ad_gov db)\<lparr>gv_project_agents :=
        update_where (\<lambda>x. pa_id x = pa_id b0) (\<lambda>_. b) (gv_project_agents (ad_gov db))\<rparr>\<rparr>"
    by (auto simp: update_project_agent_def and_then_def Let_def split: sum.splits option.splits if_splits)
  show ?case unfolding db' using bindings_update_inv[OF override(2) _ b] get_project_agent_in[OF b0] by blast
next
  case (unbind pt p s del user db db' deleted)
  from unbind(1) show ?case
  proof (rule unbind_effect)
    fix b db1 assume db1: "db1 = db\<lparr>ad_gov := (ad_gov db)\<lparr>gv_project_agents := filter (\<lambda>x. pa_id x \<noteq> pa_id b) (gv_project_agents (ad_gov db))\<rparr>\<rparr>"
      and r: "if deleted then \<exists>a. get_by_slug s db = Some a \<and> user_can_manage_agent pt user a = Inr True \<and> \<not> is_builtin_agent a
       \<and> \<not> ag_is_default a \<and> list_project_ids_for_agent s db1 = [] \<and> db' = delete_agent a db1 else db' = db1"
    have inv1: "agent_inv db1" unfolding db1 using unbind(2) by (rule bindings_filter_inv)
    have "a \<in> set (ad_agents db1)" if "get_by_slug s db = Some a" for a using get_by_slug_in[OF that] by (simp add: db1)
    then show ?thesis using r inv1 delete_agent_inv[OF inv1] by (auto split: if_splits)
  qed
qed

interpretation agents: step_system agent_start agent_step agent_inv "\<lambda>_ _. True"
proof
  show "agent_start db \<Longrightarrow> agent_inv db" for db by (simp add: agent_start_def agent_inv_def bindings_ok_def)
qed (auto intro: agent_step_inv)

section \<open>Visibility\<close>

lemma bound_iff: "list_project_ids_for_agent s db = [] \<longleftrightarrow> s \<notin> set (list_all_agent_slugs db)"
  by (auto simp: list_project_ids_for_agent_def list_all_agent_slugs_def filter_empty_conv)

lemma bound_in_project_iff: "p \<in> set (list_project_ids_for_agent s db) \<longleftrightarrow> s \<in> set (list_agent_slugs_for_project p db)"
  by (auto simp: list_project_ids_for_agent_def list_agent_slugs_for_project_def)

lemma scope_passes_iff:
  "ensure_agent_project_scope s project db = Inr () \<longleftrightarrow>
     s \<notin> set (list_all_agent_slugs db) \<or> (\<exists>p. project = Some p \<and> s \<in> set (list_agent_slugs_for_project p db))"
  by (auto simp: ensure_agent_project_scope_def Let_def bound_iff bound_in_project_iff split: option.splits)

lemma accessible_set:
  "accessible_agents pt user as = Inr bs \<Longrightarrow> set bs = {a \<in> set as. user_can_access_agent pt user a = Inr True}"
proof (induction as arbitrary: bs)
  case (Cons a as)
  from Cons.prems obtain ok rest where a: "user_can_access_agent pt user a = Inr ok" and r: "accessible_agents pt user as = Inr rest"
    and bs: "bs = (if ok then a # rest else rest)"
    by (cases "user_can_access_agent pt user a"; cases "accessible_agents pt user as") (simp_all add: and_then_def)
  have iff: "user_can_access_agent pt user a = Inr True \<longleftrightarrow> ok" using a by simp
  have "set bs = (if ok then insert a (set rest) else set rest)" by (simp add: bs)
  moreover have "{x \<in> set (a # as). user_can_access_agent pt user x = Inr True}
      = (if ok then insert a (set rest) else set rest)"
    unfolding Cons.IH[OF r] by (cases ok) (use iff in \<open>simp_all only: list.set if_True if_False, blast+\<close>)
  ultimately show ?case by (simp only:)
qed simp

lemma allowed_set:
  assumes "allowed_agents pt user xs = Inr bs"
  shows "set bs = (if pu_role user = Some (lit ''superadmin'') then set xs else {a \<in> set xs. user_can_access_agent pt user a = Inr True})"
  using assms accessible_set[of pt user xs bs] by (cases "pu_role user = Some (lit ''superadmin'')") (simp_all add: allowed_agents_def)

lemma merge_not_integrity: "merge_agent_config_json e p access \<noteq> Inl Ag_integrity_error"
proof -
  have refs: "normalize_references f seen js \<noteq> Inl Ag_integrity_error" for f seen js
    by (induction js arbitrary: seen) (auto split: json.splits)
  then have norm: "normalize_resource_references f j \<noteq> Inl Ag_integrity_error" for f j
    by (auto simp: normalize_resource_references_def split: json.splits sum.splits)
  have field: "merge_resource_field access cc pc f \<noteq> Inl Ag_integrity_error" for cc pc f
    using norm by (auto simp: merge_resource_field_def and_then_def Let_def split: sum.splits option.splits list.splits)
  then have "merge_resource_fields access cc pc fs \<noteq> Inl Ag_integrity_error" for cc pc fs
    by (induction fs) (auto simp: and_then_def split: sum.splits)
  then show ?thesis
    by (auto simp: merge_agent_config_json_def and_then_def Let_def split: json.splits sum.splits option.splits)
qed

section \<open>A small registry\<close>

definition dmo_user :: perm_user where
  "dmo_user = \<lparr>pu_role = Some (lit ''superadmin''), pu_uid = Some [117], pu_department_id = JNull\<rparr>"

definition dmo_agent :: agent where
  "dmo_agent = \<lparr>ag_id = 7, ag_slug = [97], ag_backend_id = lit ''ChatbotAgent'', ag_name = [110], ag_description = None, ag_icon = None,
     ag_pics = [], ag_config_json = JObj [(lit ''context'', JObj [])], ag_share_config = config_json \<lparr>pc_read_scope = Some
       \<lparr>sc_access_level = Users, sc_department_ids = [], sc_user_uids = [[117]]\<rparr>, pc_manage_scope = None\<rparr>,
     ag_is_default = False, ag_is_subagent = False, ag_created_by = Some [117], ag_updated_by = Some [117],
     ag_created_at = Some 1000, ag_updated_at = Some 1000\<rparr>"

definition dmo_project :: project where
  "dmo_project = \<lparr>pr_id = [112], pr_uid = [117], pr_name = None, pr_selection_status = Selectable, pr_workdir_path = [119],
     pr_directory_mode = [100], pr_status = Project_active, pr_deleted_at = None, pr_idempotency_key = None,
     pr_created_at = 1, pr_updated_at = 1\<rparr>"

definition dmo_binding :: project_agent where
  "dmo_binding = \<lparr>pa_id = [98], pa_project_id = [112], pa_agent_slug = [97], pa_config_overrides = JObj [], pa_created_by = Some [117],
     pa_updated_by = Some [117], pa_created_at = Some 1000, pa_updated_at = Some 1000\<rparr>"

definition dmo_registry :: agent_db where
  "dmo_registry = \<lparr>ad_gov = \<lparr>gv_projects = [dmo_project], gv_project_agents = [dmo_binding], gv_run_ids = [], gv_topics = [],
     gv_comments = [], gv_decisions = [], gv_tasks = [], gv_reports = []\<rparr>, ad_agents = [dmo_agent]\<rparr>"

definition dmo_empty :: agent_db where
  "dmo_empty = \<lparr>ad_gov = \<lparr>gv_projects = [dmo_project], gv_project_agents = [], gv_run_ids = [], gv_topics = [],
     gv_comments = [], gv_decisions = [], gv_tasks = [], gv_reports = []\<rparr>, ad_agents = []\<rparr>"

lemma dmo_no_agents: "ad_agents dmo_empty = []"
  by (simp add: dmo_empty_def)

lemma dmo_lock: "lock_manageable_project [112] dmo_user dmo_registry = Inr dmo_project"
  "lock_manageable_project [112] dmo_user dmo_empty = Inr dmo_project"
  by (simp_all add: lock_manageable_project_def get_active_selectable_for_user_def dmo_registry_def dmo_empty_def dmo_project_def dmo_user_def or_empty_def)

lemma dmo_manage: "resolve_agent_permission pt dmo_user res = Inr MANAGE"
  by (simp add: resolve_agent_permission_def resolve_resource_permission_def dmo_user_def)

section \<open>Properties\<close>

text \<open>
  In every reachable registry agent ids and slugs are unique, an agent is a sub-agent exactly if its backend is the
  sub-agent backend, only the built-in main agent can be the default, an agent is bound to a project at most once and
  every binding names an existing agent and project.
\<close>

theorem agent_registry_invariant:
  assumes "agent_start db" and "agent_step\<^sup>*\<^sup>* db db'"
  shows "agent_inv db'"
  using assms by (rule agents.reachable_inv)

theorem agent_registry_invariant_witness:
  "\<exists>db a. create_agent ascii 7 [] [110] [99] (Some [97]) None None [] None Map.empty (Some default_share_config) None (Some [117]) None 1000 dmo_empty = Inr (db, a)
    \<and> agent_inv db"
proof -
  have fresh: "unique_slug [] (Some [97]) [110] dmo_empty = [97]"
    by (simp add: unique_slug_def free_slug.simps slugify_def dmo_empty_def or_empty_def slug_lower_def slug_char_def strip_dash_def py_strip_def is_space_def)
  obtain db a where c: "create_agent ascii 7 [] [110] [99] (Some [97]) None None [] None Map.empty (Some default_share_config) None (Some [117]) None 1000 dmo_empty = Inr (db, a)"
    by (simp add: create_agent_def resolve_agent_is_subagent_def and_then_def normalize_agent_share_config_def default_share_config_def
        normalize_permission_config_def is_version_2_def get_or_null_def normalize_scope_def read_access_level_def scope_allowed_def
        validate_manage_scope_def merge_agent_config_json_def add_agent_def fresh agent_name_def fits_def dmo_no_agents sub_agent_backend_id_def
        lit_def py_strip_def is_space_def Let_def default_scope_def)
  have "agent_inv db"
    by (rule agent_registry_invariant[of dmo_empty]) (simp add: agent_start_def dmo_empty_def, rule r_into_rtranclp, rule agent_step.create[OF c])
  with c show ?thesis by blast
qed






text \<open>
  Fields reserved for administrators cannot be changed by others: after a patch by a user whose role may not modify a field
  of the context schema, the field has the value it had.
\<close>

theorem restricted_field_kept:
  assumes prep: "prepare_agent_config_write config schema options user = Inr (filtered, access)"
    and merge: "merge_agent_config_json existing filtered access = Inr merged" and existing: "context_of existing = Some cc"
    and f: "f \<in> set schema" "\<not> role_can_modify (cf_auth f) (pu_role user)"
  shows "\<exists>c. context_of merged = Some c \<and> json_get (JObj c) (cf_name f) = json_get (JObj cc) (cf_name f)"
proof -
  have filtered: "filtered = filter_config_by_role config (pu_role user) schema"
    using prep by (auto simp: prepare_agent_config_write_def Let_def and_then_def split: sum.splits option.splits if_splits)
  obtain p where p: "filtered = JObj p" using merge by (auto simp: merge_agent_config_json_def split: json.splits)
  obtain e where e: "existing = JObj e" using existing by (cases existing) (auto simp: context_of_def)
  show ?thesis
  proof (cases "json_get (JObj p) (lit ''context'')")
    case None
    then have "merged = JObj (e @ p)" using merge by (simp add: p e merge_agent_config_json_def Let_def del: json_get.simps)
    then have "context_of merged = Some cc" using None existing by (simp add: context_of_append e del: json_get.simps)
    then show ?thesis by simp
  next
    case (Some j)
    then obtain pc where pc: "json_get (JObj p) (lit ''context'') = Some (JObj pc)"
      using merge by (cases j) (auto simp: p merge_agent_config_json_def Let_def simp del: json_get.simps)
    obtain fields where m: "merge_resource_fields access cc pc agent_resource_config_fields = Inr fields"
      and c: "context_of merged = Some (cc @ pc @ fields)"
      using merge_context[OF merge[unfolded p] pc] existing by auto
    have none: "json_get (JObj pc) (cf_name f) = None"
      by (rule role_filtered[OF filtered f]) (simp add: p context_of_def pc del: json_get.simps)
    have "cf_name f \<notin> set (map fst fields)" unfolding conjunct1[OF merge_fields_rows[OF m]] using none by simp
    then have "json_get (JObj fields) (cf_name f) = None" by (simp add: map_of_eq_None_iff)
    then show ?thesis using c none by (simp add: json_get_append del: json_get.simps)
  qed
qed

definition dmo_schema :: context_schema where
  "dmo_schema = [\<lparr>cf_name = [109], cf_configurable = True, cf_auth = Some (lit ''admin'')\<rparr>]"

theorem restricted_field_kept_witness:
  "\<exists>filtered access merged c.
     prepare_agent_config_write (JObj [(lit ''context'', JObj [([109], JInt 5)])]) dmo_schema Map.empty (dmo_user\<lparr>pu_role := Some (lit ''user'')\<rparr>) = Inr (filtered, access)
     \<and> merge_agent_config_json (JObj [(lit ''context'', JObj [([109], JInt 1)])]) filtered access = Inr merged
     \<and> context_of merged = Some c \<and> json_get (JObj c) [109] = json_get (JObj [([109], JInt 1)]) [109]"
proof -
  let ?user = "dmo_user\<lparr>pu_role := Some (lit ''user'')\<rparr>"
  obtain filtered access merged where
    p: "prepare_agent_config_write (JObj [(lit ''context'', JObj [([109], JInt 5)])]) dmo_schema Map.empty ?user = Inr (filtered, access)"
    and m: "merge_agent_config_json (JObj [(lit ''context'', JObj [([109], JInt 1)])]) filtered access = Inr merged"
    by (simp add: prepare_agent_config_write_def filter_config_by_role_def filter_declared_config_def context_of_def with_context_def
        dmo_schema_def role_can_modify_def or_empty_def dmo_user_def lit_def Let_def validate_agent_execution_config_def and_then_def
        get_or_null_def merge_agent_config_json_def agent_resource_config_fields_def submitted_field_def)
  have "\<exists>c. context_of merged = Some c \<and> json_get (JObj c) (cf_name (hd dmo_schema)) = json_get (JObj [([109], JInt 1)]) (cf_name (hd dmo_schema))"
    by (rule restricted_field_kept[OF p m]) (simp_all add: context_of_def dmo_schema_def role_can_modify_def or_empty_def lit_def)
  then show ?thesis using p m by (auto simp: dmo_schema_def)
qed

text \<open>
  Creation always finds a slug: the search for a free slug ends, so with a fresh id no creation violates a constraint of
  the agents table.
\<close>

theorem create_agent_no_violation:
  assumes "new_id \<notin> set (map ag_id (ad_agents db))"
  shows "create_agent pt new_id fb n bk sl de ic ps cf ac sh sub cb cr now db \<noteq> Inl Ag_integrity_error"
proof
  assume "create_agent pt new_id fb n bk sl de ic ps cf ac sh sub cb cr now db = Inl Ag_integrity_error"
  moreover have "resolve_agent_is_subagent bk sub \<noteq> Inl Ag_integrity_error" by (simp add: resolve_agent_is_subagent_def Let_def)
  moreover have "normalize_agent_share_config pt sc al \<noteq> Inl Ag_integrity_error" for sc al
    by (simp add: normalize_agent_share_config_def Let_def split: sum.splits)
  moreover have "merge_agent_config_json e pa ac \<noteq> Inl Ag_integrity_error" for e pa by (rule merge_not_integrity)
  ultimately obtain a where a: "add_agent a db = Inl Ag_integrity_error" "ag_id a = new_id" "ag_slug a = unique_slug fb sl n db" "\<not> ag_is_default a"
    by (auto simp: create_agent_def and_then_def Let_def split: sum.splits)
  have "ag_slug a \<notin> set (map ag_slug (ad_agents db))" unfolding a(3) unique_slug_def Let_def by (rule free_slug_fresh)
  then show False using a(1,2,4) assms by (auto simp: add_agent_def list_ex_iff image_iff split: if_splits)
qed

theorem create_agent_no_violation_witness:
  "create_agent ascii 8 [] [110] [99] (Some [97]) None None [] None Map.empty None None (Some [117]) None 1000 dmo_registry \<noteq> Inl Ag_integrity_error"
  by (rule create_agent_no_violation) (simp add: dmo_registry_def dmo_agent_def)

text \<open>
  Project agents are exclusive, and the two places that enforce it agree: an agent the user may access appears in the listing for
  a context (a project, or none) exactly if it may run there.
\<close>

theorem listing_matches_scope:
  assumes "list_visible pt user True context db = Inr listed" and "allowed_agents pt user (ad_agents db) = Inr allowed" and "a \<in> set allowed"
  shows "a \<in> set listed \<longleftrightarrow> ensure_agent_project_scope (ag_slug a) context db = Inr ()"
proof -
  have perm: "set bs = set cs" if "allowed_agents pt user xs = Inr bs" "allowed_agents pt user ys = Inr cs" "set xs = set ys" for xs ys bs cs
    using allowed_set[OF that(1)] allowed_set[OF that(2)] that(3) by simp
  obtain bs where bs: "allowed_agents pt user (sort_key (\<lambda>a. (\<not> ag_is_default a, ag_id a)) (ad_agents db)) = Inr bs"
    using assms(1) by (auto simp: list_visible_def and_then_def Let_def split: sum.splits)
  have "a \<in> set bs" using perm[OF bs assms(2)] assms(3) by simp
  then show ?thesis using assms(1) bs
    by (auto simp: list_visible_def and_then_def Let_def scope_passes_iff split: option.splits)
qed

theorem listing_matches_scope_witness:
  "\<exists>listed. list_visible ascii dmo_user True (Some [113]) dmo_registry = Inr listed
    \<and> (dmo_agent \<in> set listed \<longleftrightarrow> ensure_agent_project_scope [97] (Some [113]) dmo_registry = Inr ())"
proof -
  obtain listed where l: "list_visible ascii dmo_user True (Some [113]) dmo_registry = Inr listed"
    by (simp add: list_visible_def allowed_agents_def dmo_user_def and_then_def Let_def)
  have "dmo_agent \<in> set listed \<longleftrightarrow> ensure_agent_project_scope (ag_slug dmo_agent) (Some [113]) dmo_registry = Inr ()"
    by (rule listing_matches_scope[OF l]) (auto simp: allowed_agents_def dmo_user_def dmo_registry_def)
  with l show ?thesis by (auto simp: dmo_agent_def)
qed

text \<open>
  Unbinding deletes an agent only on explicit request, for a user who manages it, never the built-in or default agent and
  never one that another project uses; every other agent and every other binding stays.
\<close>

theorem unbind_delete_guarded:
  assumes inv: "agent_inv db" and u: "unbind_project_agent pt p s del user db = Inr (db', deleted)"
  shows "(\<forall>x\<in>set (ad_agents db). ag_slug x \<noteq> s \<longrightarrow> x \<in> set (ad_agents db'))
    \<and> (\<forall>b\<in>set (gv_project_agents (ad_gov db)). binding_key b \<noteq> (p, s) \<longrightarrow> b \<in> set (gv_project_agents (ad_gov db')))
    \<and> (ad_agents db' \<noteq> ad_agents db \<longrightarrow> deleted \<and> (\<exists>a. get_by_slug s db = Some a \<and> user_can_manage_agent pt user a = Inr True
         \<and> \<not> is_builtin_agent a \<and> \<not> ag_is_default a \<and> (\<forall>b\<in>set (gv_project_agents (ad_gov db)). pa_agent_slug b = s \<longrightarrow> pa_project_id b = p)))"
  using u
proof (rule unbind_effect)
  fix b db1
  assume b: "get_project_agent p s (ad_gov db) = Some b"
    and db1: "db1 = db\<lparr>ad_gov := (ad_gov db)\<lparr>gv_project_agents := filter (\<lambda>x. pa_id x \<noteq> pa_id b) (gv_project_agents (ad_gov db))\<rparr>\<rparr>"
    and r: "if deleted then \<exists>a. get_by_slug s db = Some a \<and> user_can_manage_agent pt user a = Inr True \<and> \<not> is_builtin_agent a
       \<and> \<not> ag_is_default a \<and> list_project_ids_for_agent s db1 = [] \<and> db' = delete_agent a db1 else db' = db1"
  have b_in: "b \<in> set (gv_project_agents (ad_gov db))" "binding_key b = (p, s)" using get_project_agent_in[OF b] by (auto simp: binding_key_def)
  have others: "x \<in> set (gv_project_agents (ad_gov db1)) \<longleftrightarrow> binding_key x \<noteq> (p, s)" if "x \<in> set (gv_project_agents (ad_gov db))" for x
    using that b_in key_unique[of pa_id _ x b] key_unique[of binding_key _ x b] inv
    by (auto simp: db1 agent_inv_def bindings_ok_def)
  show ?thesis
  proof (cases deleted)
    case False
    then show ?thesis using r others by (auto simp: db1)
  next
    case True
    then obtain a where a: "get_by_slug s db = Some a" "user_can_manage_agent pt user a = Inr True" "\<not> is_builtin_agent a"
        "\<not> ag_is_default a" "list_project_ids_for_agent s db1 = []" and db': "db' = delete_agent a db1" using r by auto
    have slug: "a \<in> set (ad_agents db)" "ag_slug a = s" using get_by_slug_in[OF a(1)] by auto
    have none: "pa_agent_slug x \<noteq> s" if "x \<in> set (gv_project_agents (ad_gov db1))" for x
      using a(5) that by (auto simp: list_project_ids_for_agent_def filter_empty_conv)
    have 1: "x \<in> set (ad_agents db')" if "x \<in> set (ad_agents db)" "ag_slug x \<noteq> s" for x
      using that key_unique[of ag_id "ad_agents db" x a] slug inv by (auto simp: db' delete_agent_def db1 agent_inv_def)
    have 2: "x \<in> set (gv_project_agents (ad_gov db'))" if "x \<in> set (gv_project_agents (ad_gov db))" "binding_key x \<noteq> (p, s)" for x
      using others[OF that(1)] that none slug(2) by (auto simp: db' delete_agent_def)
    have 3: "pa_project_id x = p" if "x \<in> set (gv_project_agents (ad_gov db))" "pa_agent_slug x = s" for x
      using others[OF that(1)] none that by (auto simp: binding_key_def)
    show ?thesis using 1 2 3 a True by blast
  qed
qed

theorem unbind_delete_guarded_witness:
  "\<exists>db'. unbind_project_agent ascii [112] [97] True dmo_user dmo_registry = Inr (db', True) \<and> ad_agents db' = []
    \<and> (\<exists>a. get_by_slug [97] dmo_registry = Some a \<and> user_can_manage_agent ascii dmo_user a = Inr True)"
proof -
  have inv: "agent_inv dmo_registry"
    by (simp add: agent_inv_def bindings_ok_def dmo_registry_def dmo_agent_def dmo_binding_def dmo_project_def agent_ok_def sub_agent_backend_id_def lit_def)
  have get: "get_by_slug [97] dmo_registry = Some dmo_agent" "get_project_agent (pr_id dmo_project) [97] (ad_gov dmo_registry) = Some dmo_binding"
    by (simp_all add: get_by_slug_def get_project_agent_def dmo_registry_def dmo_agent_def dmo_binding_def dmo_project_def)
  have manage: "user_can_manage_agent ascii dmo_user dmo_agent = Inr True" "\<not> is_builtin_agent dmo_agent" "\<not> ag_is_default dmo_agent"
    by (simp_all add: user_can_manage_agent_def dmo_manage is_builtin_agent_def default_agent_slug_def dmo_agent_def lit_def)
  obtain db' where u: "unbind_project_agent ascii [112] [97] True dmo_user dmo_registry = Inr (db', True)" and e: "ad_agents db' = []"
    by (simp add: unbind_project_agent_def dmo_lock get manage and_then_def Let_def list_project_ids_for_agent_def delete_agent_def)
      (simp add: dmo_registry_def dmo_binding_def delete_agent_def)
  have "ad_agents db' \<noteq> ad_agents dmo_registry" using e by (simp add: dmo_registry_def)
  with unbind_delete_guarded[OF inv u] u e show ?thesis by blast
qed

end
