(* ===== verification/Delegation_Properties.thy ===== *)
theory Delegation_Properties
  imports Delegation Agent_Properties
begin

text \<open>
  What delegation promises: an invariant and history of the delegation table, the life cycle under fenced writers and what an
  unfenced one can do, convergence as one independent change per row, guarded dispatch of project tasks and retries that
  send the request that was stored.
\<close>

section \<open>Invariant and history\<close>

definition delegation_facts ::
  "channel_delegation \<Rightarrow> (pystr \<times> pystr \<times> pystr \<times> pystr \<times> pystr \<times> json \<times> pystr option) \<times> pystr option \<times> time" where
  "delegation_facts r = ((cd_id r, cd_operation_id r, cd_project_id r, cd_executor_key r, cd_task r, cd_request_json r, cd_initiator_run_id r),
     cd_created_by r, cd_created_at r)"

definition delegation_ok :: "channel_delegation \<Rightarrow> bool" where
  "delegation_ok r \<longleftrightarrow> (cd_owner_token r = None \<longleftrightarrow> cd_lease_expires_at r = None) \<and> 1 \<le> cd_attempts r
     \<and> (cd_dispatch_state r = Reclaimed \<longrightarrow> cd_owner_token r = None) \<and> cd_dispatch_state r \<noteq> Dispatch_failed
     \<and> cd_executor_key r \<in> set executor_keys"

definition delegation_inv :: "delegation_db \<Rightarrow> bool" where
  "delegation_inv db \<longleftrightarrow> distinct (map cd_id (dl_delegations db)) \<and> distinct (map cd_operation_id (dl_delegations db))
     \<and> (\<forall>r\<in>set (dl_delegations db). delegation_ok r)"

definition delegation_keeps :: "channel_delegation \<Rightarrow> channel_delegation \<Rightarrow> bool" where
  "delegation_keeps r r' \<longleftrightarrow> delegation_facts r' = delegation_facts r \<and> cd_attempts r \<le> cd_attempts r'"

definition delegation_rel :: "delegation_db \<Rightarrow> delegation_db \<Rightarrow> bool" where
  "delegation_rel db db' \<longleftrightarrow> evolves delegation_keeps (dl_delegations db) (dl_delegations db')"

definition delegation_start :: "delegation_db \<Rightarrow> bool" where
  "delegation_start db \<longleftrightarrow> dl_delegations db = []"

text \<open>A row as a collector sees it after its first transaction.\<close>

definition claimed_view :: "channel_delegation \<Rightarrow> bool" where
  "claimed_view r \<longleftrightarrow> cd_dispatch_state r = Collecting \<and> cd_owner_token r \<noteq> None \<and> cd_lease_expires_at r \<noteq> None"

inductive delegation_step :: "delegation_db \<Rightarrow> delegation_db \<Rightarrow> bool" where
  dispatch_begin: "dispatch_begin i t ls k q u now clk db = Inr (db', row) \<Longrightarrow> delegation_step db db'"
| dispatch_end: "delegation_step db (fst (dispatch_end op answer now clk db))"
| status: "delegation_step db (fst (delegation_status exs (\<lambda>d. d) op p now clk db))"
| collect_begin: "collect_begin exs t ls op p now clk db = Inr (db', view) \<Longrightarrow> delegation_step db db'"
| collect_end: "claimed_view seen \<Longrightarrow> delegation_step db (fst (collect_end wd seen answer now clk db))"
| converge: "delegation_step db (converge_row exs now clk op db)"
| registry: "delegation_step db (db\<lparr>dl_agents := a\<rparr>)"

definition row_change :: "(channel_delegation \<Rightarrow> channel_delegation) \<Rightarrow> bool" where
  "row_change f \<longleftrightarrow> (\<forall>r. delegation_keeps r (f r) \<and> (delegation_ok r \<longrightarrow> delegation_ok (f r)))"

lemma row_change_touch: "row_change f \<Longrightarrow> row_change (\<lambda>r. if f r = r then r else (f r)\<lparr>cd_updated_at := clk\<rparr>)"
  by (auto simp: row_change_def delegation_keeps_def delegation_facts_def delegation_ok_def)

lemma write_maps:
  assumes "\<And>r. delegation_facts (f r) = delegation_facts r"
  shows "map cd_id (dl_delegations (write_delegation op f clk db)) = map cd_id (dl_delegations db)"
    and "map cd_operation_id (dl_delegations (write_delegation op f clk db)) = map cd_operation_id (dl_delegations db)"
  using assms by (auto simp: write_delegation_def update_where_def delegation_facts_def)

lemma write_inv:
  assumes f: "row_change f" and inv: "delegation_inv db"
  shows "delegation_inv (write_delegation op f clk db)"
proof -
  have facts: "delegation_facts (f r) = delegation_facts r" for r using f by (simp add: row_change_def delegation_keeps_def)
  have "\<forall>r\<in>set (dl_delegations (write_delegation op f clk db)). delegation_ok r"
    using row_change_touch[OF f, of clk] inv
    by (auto simp: write_delegation_def delegation_inv_def set_update_where row_change_def)
  then show ?thesis using inv by (simp add: delegation_inv_def write_maps[OF facts])
qed

lemma write_rel:
  assumes "row_change f"
  shows "delegation_rel db (write_delegation op f clk db)"
  unfolding delegation_rel_def write_delegation_def
  using row_change_touch[OF assms, of clk]
  by (simp del: if_cancel) (rule evolves_update_where, auto simp: row_change_def delegation_keeps_def)

lemma release_change [simp]: "row_change release_row"
  by (simp add: row_change_def release_row_def delegation_keeps_def delegation_facts_def delegation_ok_def)

lemma error_change [simp]: "row_change (\<lambda>r. release_row (r\<lparr>cd_error_code := c, cd_last_error_at := t\<rparr>))"
  by (simp add: row_change_def release_row_def delegation_keeps_def delegation_facts_def delegation_ok_def)

lemma handle_change [simp]: "row_change (apply_handle h now)"
  by (simp add: row_change_def apply_handle_def release_row_def delegation_keeps_def delegation_facts_def delegation_ok_def Let_def)

lemma reset_change [simp]: "row_change (\<lambda>x. release_row (x\<lparr>cd_dispatch_state := Dispatched\<rparr>))"
  by (simp add: row_change_def release_row_def delegation_keeps_def delegation_facts_def delegation_ok_def)

lemma dispatched_change [simp]: "row_change (converge_dispatched exs now)"
  by (simp add: row_change_def converge_dispatched_def release_row_def delegation_keeps_def delegation_facts_def delegation_ok_def
      split: option.splits sum.splits)

lemma remote_change [simp]: "row_change (\<lambda>r. r\<lparr>cd_remote_status := x, cd_remote_status_synced_at := g r\<rparr>)"
  by (simp add: row_change_def delegation_keeps_def delegation_facts_def delegation_ok_def)

lemma claim_change: "row_change (claim_row t ls now (Some Collecting))"
  by (simp add: row_change_def claim_row_def delegation_keeps_def delegation_facts_def delegation_ok_def)

lemma collect_change:
  assumes "claimed_view seen"
  shows "row_change (\<lambda>r. r\<lparr>
       cd_dispatch_state := set_col (cd_dispatch_state seen) Dispatched (cd_dispatch_state r),
       cd_owner_token := set_col (cd_owner_token seen) None (cd_owner_token r),
       cd_lease_expires_at := set_col (cd_lease_expires_at seen) None (cd_lease_expires_at r)\<rparr>)"
    and "row_change (\<lambda>r. r\<lparr>cd_result_summary := a r, cd_result_json := b r, cd_artifact_path := c r, cd_remote_status := d r,
       cd_remote_status_synced_at := e r,
       cd_dispatch_state := set_col (cd_dispatch_state seen) Reclaimed (cd_dispatch_state r),
       cd_owner_token := set_col (cd_owner_token seen) None (cd_owner_token r),
       cd_lease_expires_at := set_col (cd_lease_expires_at seen) None (cd_lease_expires_at r), cd_error_code := g r\<rparr>)"
  using assms by (auto simp: row_change_def claimed_view_def set_col_def delegation_keeps_def delegation_facts_def delegation_ok_def)

text \<open>Every step changes one row, or adds one.\<close>

definition changed_row :: "delegation_db \<Rightarrow> delegation_db \<Rightarrow> bool" where
  "changed_row db db' \<longleftrightarrow> (\<exists>op f clk. row_change f \<and> dl_delegations db' = dl_delegations (write_delegation op f clk db))"

definition added_row :: "delegation_db \<Rightarrow> delegation_db \<Rightarrow> channel_delegation \<Rightarrow> bool" where
  "added_row db db' row \<longleftrightarrow> dl_delegations db' = dl_delegations db @ [row] \<and> delegation_ok row
     \<and> cd_id row \<notin> set (map cd_id (dl_delegations db)) \<and> cd_operation_id row \<notin> set (map cd_operation_id (dl_delegations db))"

lemma changed_refl [simp]: "changed_row db db"
proof -
  have "row_change (\<lambda>r. r)" "dl_delegations db = dl_delegations (write_delegation op (\<lambda>r. r) clk db)" for op clk
    by (simp_all add: row_change_def delegation_keeps_def write_delegation_def update_where_def)
  then show ?thesis unfolding changed_row_def by blast
qed

lemma changed_registry [simp]: "changed_row db (db\<lparr>dl_agents := a\<rparr>)"
proof -
  have "dl_delegations (db\<lparr>dl_agents := a\<rparr>) = dl_delegations db" by simp
  then show ?thesis using changed_refl[of db] unfolding changed_row_def by metis
qed

lemma changed_write [intro]: "row_change f \<Longrightarrow> changed_row db (write_delegation op f clk db)"
  unfolding changed_row_def by blast

lemma claim_differs: "claim_row t ls now s r \<noteq> r"
proof
  assume "claim_row t ls now s r = r"
  from arg_cong[OF this, of cd_attempts] show False by (simp add: claim_row_def)
qed

lemma dispatch_begin_adds:
  assumes "dispatch_begin i t ls k q u now clk db = Inr (db', row)"
  shows "added_row db db' row" and "request_json_of q = cd_request_json row" and "cd_dispatch_state row = Dispatch_pending"
    and "cd_operation_id row = dr_operation_id q" and "cd_project_id row = dr_project_id q" and "cd_task row = dr_task q"
    and "cd_initiator_run_id row = or_none (or_empty (dr_initiator_run_id q))" and "dl_agents db' = dl_agents db"
proof -
  obtain db1 r0 where add: "add_delegation i (dr_operation_id q) (dr_project_id q) k (dr_task q) (request_json_of q) (dr_initiator_run_id q) u now db = Inr (db1, r0)"
    and db': "db' = write_delegation (dr_operation_id q) (claim_row t ls now None) clk db1"
    and row: "row = (claim_row t ls now None r0)\<lparr>cd_updated_at := clk\<rparr>"
    using assms by (auto simp: dispatch_begin_def and_then_def Let_def split: sum.splits)
  have fresh: "i \<notin> set (map cd_id (dl_delegations db))" "dr_operation_id q \<notin> set (map cd_operation_id (dl_delegations db))"
    and db1: "db1 = db\<lparr>dl_delegations := dl_delegations db @ [r0]\<rparr>" and key: "k \<in> set executor_keys"
    and r0: "cd_id r0 = i" "cd_operation_id r0 = dr_operation_id q" "cd_executor_key r0 = k" "cd_attempts r0 = 0" "cd_dispatch_state r0 = Dispatch_pending"
      "cd_request_json r0 = request_json_of q" "cd_project_id r0 = dr_project_id q" "cd_task r0 = dr_task q"
      "cd_initiator_run_id r0 = or_none (or_empty (dr_initiator_run_id q))"
    using add by (auto simp: add_delegation_def Let_def list_ex_iff split: if_splits)
  have "dl_delegations db' = dl_delegations db @ [row]"
    using fresh(2) r0(2) claim_differs by (auto simp: db' row write_delegation_def db1 update_where_def image_iff intro!: map_idI)
  then show "added_row db db' row" using r0 key fresh by (simp add: added_row_def row claim_row_def delegation_ok_def)
  show "request_json_of q = cd_request_json row" "cd_dispatch_state row = Dispatch_pending" "cd_operation_id row = dr_operation_id q"
    "cd_project_id row = dr_project_id q" "cd_task row = dr_task q" "cd_initiator_run_id row = or_none (or_empty (dr_initiator_run_id q))"
    by (simp_all add: row claim_row_def r0)
  show "dl_agents db' = dl_agents db" by (simp add: db' write_delegation_def db1)
qed

lemma dispatch_end_changes: "changed_row db (fst (dispatch_end op answer now clk db))"
  by (auto simp: dispatch_end_def record_error_def split: sum.splits executor_fault.splits)

lemma status_changes: "changed_row db (fst (delegation_status exs (\<lambda>d. d) op p now clk db))"
  by (auto simp: delegation_status_def split: sum.splits option.splits)

lemma collect_begin_changes: "collect_begin exs t ls op p now clk db = Inr (db', view) \<Longrightarrow> changed_row db db'"
  by (auto simp: collect_begin_def and_then_def claim_change split: sum.splits if_splits)

lemma collect_end_changes: "claimed_view seen \<Longrightarrow> changed_row db (fst (collect_end wd seen answer now clk db))"
  unfolding collect_end_def collect_failed_def collect_done_def
  by (auto split: sum.splits executor_fault.splits intro!: changed_write collect_change)

lemma converge_changes: "changed_row db (converge_row exs now clk op db)"
  by (auto simp: converge_row_def converge_pending_def split: sum.splits option.splits dispatch_state.splits)

lemma delegation_step_cases:
  assumes "delegation_step db db'"
  obtains (change) "changed_row db db'" | (add) row where "added_row db db' row"
  using assms
proof cases
  case (dispatch_begin i t ls k q u now clk row)
  from add[OF dispatch_begin_adds(1)[OF this]] show thesis .
qed (use change dispatch_end_changes status_changes collect_begin_changes collect_end_changes converge_changes in auto)

lemma changed_inv: "changed_row db db' \<Longrightarrow> delegation_inv db \<Longrightarrow> delegation_inv db'"
  unfolding changed_row_def using write_inv by (auto simp: delegation_inv_def)

lemma delegation_step_inv: "delegation_step db db' \<Longrightarrow> delegation_inv db \<Longrightarrow> delegation_inv db'"
proof (erule delegation_step_cases)
  fix row assume "added_row db db' row" "delegation_inv db"
  then show "delegation_inv db'" by (auto simp: added_row_def delegation_inv_def)
qed (rule changed_inv)

lemma delegation_step_rel: "delegation_step db db' \<Longrightarrow> delegation_rel db db'"
proof (erule delegation_step_cases)
  assume "changed_row db db'"
  then obtain op f clk where "row_change f" "dl_delegations db' = dl_delegations (write_delegation op f clk db)"
    unfolding changed_row_def by blast
  then show ?thesis using write_rel by (simp add: delegation_rel_def)
next
  fix row assume "added_row db db' row"
  then show ?thesis by (auto simp: added_row_def delegation_rel_def delegation_keeps_def intro: evolves_append)
qed

interpretation delegations: step_system delegation_start delegation_step delegation_inv delegation_rel
proof
  show "delegation_start db \<Longrightarrow> delegation_inv db" for db by (simp add: delegation_start_def delegation_inv_def)
  show "delegation_rel db db" for db by (auto simp: delegation_rel_def delegation_keeps_def intro: evolves_refl)
  show "delegation_rel a b \<Longrightarrow> delegation_rel b c \<Longrightarrow> delegation_rel a c" for a b c
    unfolding delegation_rel_def by (rule evolves_trans) (auto simp: delegation_keeps_def)
qed (auto intro: delegation_step_inv delegation_step_rel)

section \<open>Life cycle under ownership\<close>

fun delegation_next :: "dispatch_state \<Rightarrow> dispatch_state \<Rightarrow> bool" where
  "delegation_next Dispatch_pending s \<longleftrightarrow> s = Dispatch_pending \<or> s = Dispatched"
| "delegation_next Dispatched s \<longleftrightarrow> s = Dispatched \<or> s = Collecting"
| "delegation_next Collecting s \<longleftrightarrow> s = Collecting \<or> s = Dispatched \<or> s = Reclaimed"
| "delegation_next Reclaimed s \<longleftrightarrow> s = Reclaimed"
| "delegation_next Dispatch_failed s \<longleftrightarrow> s = Dispatch_failed"

definition life_ok :: "channel_delegation \<Rightarrow> channel_delegation \<Rightarrow> bool" where
  "life_ok r r' \<longleftrightarrow> delegation_next (cd_dispatch_state r) (cd_dispatch_state r')
     \<and> (cd_dispatch_state r = Reclaimed \<longrightarrow> cd_result_summary r' = cd_result_summary r \<and> cd_result_json r' = cd_result_json r
          \<and> cd_artifact_path r' = cd_artifact_path r)"


lemma life_refl [simp]: "life_ok r r"
  by (cases "cd_dispatch_state r") (simp_all add: life_ok_def)

lemma delegation_next_refl [simp]: "delegation_next s s"
  by (cases s) simp_all

lemma operation_unique:
  assumes "delegation_inv db" and "get_by_operation_id op db = Some r" and "x \<in> set (dl_delegations db)" and "cd_operation_id x = op"
  shows "x = r"
proof -
  have "r \<in> set (dl_delegations db) \<and> cd_operation_id r = op"
    using find_Some_in[OF assms(2)[unfolded get_by_operation_id_def]] by simp
  moreover have "distinct (map cd_operation_id (dl_delegations db))" using assms(1) by (simp add: delegation_inv_def)
  ultimately show ?thesis using key_unique assms(3,4) by metis
qed

definition lives :: "delegation_db \<Rightarrow> delegation_db \<Rightarrow> bool" where
  "lives db db' \<longleftrightarrow> evolves life_ok (dl_delegations db) (dl_delegations db')"

lemma lives_refl [simp]: "lives db db"
  by (auto simp: lives_def intro: evolves_refl)





section \<open>Convergence\<close>

definition due :: "time \<Rightarrow> channel_delegation \<Rightarrow> bool" where
  "due now r \<longleftrightarrow> unsettled (cd_dispatch_state r) \<and> (case cd_lease_expires_at r of None \<Rightarrow> True | Some t \<Rightarrow> t < now)"

definition converge_change :: "executors \<Rightarrow> time \<Rightarrow> channel_delegation \<Rightarrow> channel_delegation" where
  "converge_change exs now r =
     (case cd_dispatch_state r of
        Dispatch_pending \<Rightarrow>
          (case exs (cd_executor_key r) of
             None \<Rightarrow> release_row r
           | Some ex \<Rightarrow>
               (case ex_dispatch ex (request_from_row r) of
                  Inl _ \<Rightarrow> release_row (r\<lparr>cd_error_code := Some (lit ''executor_dispatch_failed''), cd_last_error_at := Some now\<rparr>)
                | Inr h \<Rightarrow> apply_handle h now r))
      | Collecting \<Rightarrow> release_row (r\<lparr>cd_dispatch_state := Dispatched\<rparr>)
      | _ \<Rightarrow> converge_dispatched exs now r)"

definition touched :: "time \<Rightarrow> channel_delegation \<Rightarrow> channel_delegation \<Rightarrow> channel_delegation" where
  "touched clk r r' = (if r' = r then r else r'\<lparr>cd_updated_at := clk\<rparr>)"

definition converged :: "executors \<Rightarrow> time \<Rightarrow> time \<Rightarrow> channel_delegation \<Rightarrow> channel_delegation" where
  "converged exs now clk r = (if due now r then touched clk r (converge_change exs now r) else r)"

lemma converge_change_facts: "delegation_facts (converge_change exs now r) = delegation_facts r"
  by (auto simp: converge_change_def converge_dispatched_def release_row_def apply_handle_def delegation_facts_def Let_def
      split: dispatch_state.splits option.splits sum.splits)

lemma converged_op: "cd_operation_id (converged exs now clk r) = cd_operation_id r"
  using converge_change_facts[of exs now r] by (auto simp: converged_def touched_def delegation_facts_def)

lemma write_at:
  assumes inv: "delegation_inv db" and r: "get_by_operation_id op db = Some r" and f: "touched clk r (f r) = g r"
  shows "dl_delegations (write_delegation op f clk db) = map (\<lambda>x. if cd_operation_id x = op then g x else x) (dl_delegations db)"
  using operation_unique[OF inv r] f by (auto simp: write_delegation_def update_where_def touched_def)

lemma converge_row_map:
  assumes inv: "delegation_inv db"
  shows "dl_delegations (converge_row exs now clk op db)
    = map (\<lambda>x. if cd_operation_id x = op then converged exs now clk x else x) (dl_delegations db)"
proof (cases "get_by_operation_id op db")
  case None
  then have "cd_operation_id x \<noteq> op" if "x \<in> set (dl_delegations db)" for x
    using that by (auto simp: get_by_operation_id_def find_None_iff)
  then show ?thesis using None by (auto simp: converge_row_def intro!: map_idI[symmetric])
next
  case (Some r)
  have same: "x = r" if "x \<in> set (dl_delegations db)" "cd_operation_id x = op" for x using operation_unique[OF inv Some that] .
  show ?thesis
  proof (cases "due now r")
    case False
    then have "converge_row exs now clk op db = db"
      by (auto simp: converge_row_def Some due_def split: option.splits if_splits)
    moreover have "converged exs now clk r = r" using False by (simp add: converged_def)
    ultimately show ?thesis using same by (auto intro!: map_idI[symmetric])
  next
    case True
    have eq: "converge_row exs now clk op db = write_delegation op (\<lambda>_. converge_change exs now r) clk db"
    proof -
      have w: "write_delegation op f clk db = write_delegation op (\<lambda>_. f r) clk db" for f
        using same by (auto simp: write_delegation_def update_where_def)
      show ?thesis using True w
        by (auto simp: converge_row_def Some due_def converge_change_def converge_pending_def split: option.splits dispatch_state.splits sum.splits)
    qed
    show ?thesis unfolding eq by (rule write_at[OF inv Some]) (simp add: converged_def True)
  qed
qed

lemma converge_row_inv: "delegation_inv db \<Longrightarrow> delegation_inv (converge_row exs now clk op db)"
  using changed_inv[OF converge_changes] .

lemma converge_fold:
  assumes "delegation_inv db" and "distinct ops"
  shows "dl_delegations (fold (converge_row exs now clk) ops db)
    = map (\<lambda>x. if cd_operation_id x \<in> set ops then converged exs now clk x else x) (dl_delegations db)"
  using assms
proof (induction ops arbitrary: db)
  case (Cons op ops)
  have IH: "dl_delegations (fold (converge_row exs now clk) ops (converge_row exs now clk op db))
      = map (\<lambda>x. if cd_operation_id x \<in> set ops then converged exs now clk x else x) (dl_delegations (converge_row exs now clk op db))"
    using Cons.IH[OF converge_row_inv[OF Cons.prems(1)]] Cons.prems(2) by simp
  show ?case using Cons.prems(2) by (auto simp: IH converge_row_map[OF Cons.prems(1)] converged_op)
qed simp

lemma converge_map:
  assumes inv: "delegation_inv db" and "length (filter (due now) (dl_delegations db)) \<le> limit"
  shows "dl_delegations (converge exs now clk limit db) = map (converged exs now clk) (dl_delegations db)"
proof -
  let ?l = "list_unsettled_leased now limit db"
  have l: "?l = sort_key (\<lambda>r. (cd_updated_at r, cd_id r)) (filter (due now) (dl_delegations db))"
    using assms(2) by (simp add: list_unsettled_leased_def due_def[abs_def])
  have "distinct (map cd_operation_id ?l)"
    using inv unfolding l by (simp add: delegation_inv_def distinct_map inj_on_def)
  then have "dl_delegations (converge exs now clk limit db)
      = map (\<lambda>x. if cd_operation_id x \<in> set (map cd_operation_id ?l) then converged exs now clk x else x) (dl_delegations db)"
    unfolding converge_def by (rule converge_fold[OF inv])
  moreover have "converged exs now clk x = x" if "x \<in> set (dl_delegations db)" "cd_operation_id x \<notin> set (map cd_operation_id ?l)" for x
    using that by (auto simp: l converged_def)
  ultimately show ?thesis by auto
qed

section \<open>A small deployment\<close>

definition dgt_handle :: delegation_handle where
  "dgt_handle = \<lparr>dh_operation_id = [79], dh_executor_key = lit ''codex'', dh_session_id = Some [115], dh_turn_id = Some [116],
     dh_external_ref = None, dh_external_url = None, dh_remote_status = None\<rparr>"

definition dgt_result :: delegation_result where
  "dgt_result = \<lparr>dx_summary = Some [100], dx_text = None, dx_artifacts = [], dx_usage = [], dx_remote_status = None, dx_error_code = None\<rparr>"

definition dgt_executor :: delegated_executor where
  "dgt_executor = \<lparr>ex_dispatch = \<lambda>_. Inr dgt_handle, ex_status = \<lambda>_. Inr None, ex_collect = \<lambda>_. Inr dgt_result\<rparr>"

definition dgt_executors :: executors where
  "dgt_executors k = (if k = lit ''codex'' then Some dgt_executor else None)"

definition dgt_row :: "dispatch_state \<Rightarrow> (pystr \<times> time) option \<Rightarrow> channel_delegation" where
  "dgt_row s lease = \<lparr>cd_id = [80], cd_operation_id = [79], cd_project_id = [112], cd_initiator_run_id = None, cd_executor_key = lit ''codex'',
     cd_task = [99], cd_request_json = JObj [], cd_session_id = Some [115], cd_turn_id = Some [116], cd_external_ref = None,
     cd_external_url = None, cd_dispatch_state = s, cd_attempts = 2, cd_remote_status = None, cd_remote_status_synced_at = None,
     cd_result_summary = None, cd_result_json = JObj [], cd_artifact_path = None, cd_owner_token = map_option fst lease,
     cd_lease_expires_at = map_option snd lease, cd_error_code = None, cd_last_error_at = None, cd_created_by = None, cd_created_at = 1, cd_updated_at = 1\<rparr>"

definition dgt_db :: "channel_delegation list \<Rightarrow> delegation_db" where
  "dgt_db rows = \<lparr>dl_agents = dmo_registry, dl_delegations = rows\<rparr>"

lemma dgt_row_fields [simp]:
  "cd_operation_id (dgt_row s lease) = [79]" "cd_executor_key (dgt_row s lease) = lit ''codex''"
  "cd_dispatch_state (dgt_row s lease) = s" "cd_project_id (dgt_row s lease) = [112]"
  by (simp_all add: dgt_row_def)

lemma dgt_inv: "s = Dispatched \<and> lease = None \<or> s = Collecting \<Longrightarrow> delegation_inv (dgt_db [dgt_row s lease])"
  by (auto simp: delegation_inv_def dgt_db_def dgt_row_def delegation_ok_def executor_keys_def)

definition dgt_request :: delegation_request where
  "dgt_request = \<lparr>dr_operation_id = [79], dr_project_id = [112], dr_task = [99], dr_initiator_run_id = None, dr_context_refs = [JInt 1],
     dr_budget = [([98], JInt 2)], dr_metadata = [([109], JInt 3)]\<rparr>"

lemma dgt_begin:
  obtains db row where "dispatch_begin [80] [84] 120 (lit ''codex'') dgt_request None 1000 1000 (dgt_db []) = Inr (db, row)"
  by (simp add: dispatch_begin_def add_delegation_def and_then_def Let_def dgt_request_def dgt_db_def gov_of_def dmo_registry_def dmo_project_def
      executor_keys_def or_empty_def or_none_def)

section \<open>Properties\<close>

text \<open>
  In every reachable delegation table ids and operation ids are unique, token and lease are set together, a reclaimed
  operation has no owner and every operation counts at least one attempt; from one reachable state to a later one no operation
  disappears, its request never changes and its attempt count never falls.
\<close>

theorem delegation_history:
  assumes "delegation_start db" and "delegation_step\<^sup>*\<^sup>* db db1" and "delegation_step\<^sup>*\<^sup>* db1 db2"
  shows "delegation_inv db2 \<and> delegation_rel db1 db2"
proof -
  have "delegation_inv db1" using assms(1,2) by (rule delegations.reachable_inv)
  then show ?thesis using assms(3) delegations.steps_inv delegations.steps_rel by blast
qed

theorem delegation_history_witness:
  "\<exists>db row. dispatch_begin [80] [84] 120 (lit ''codex'') dgt_request None 1000 1000 (dgt_db []) = Inr (db, row)
    \<and> delegation_inv db \<and> delegation_rel (dgt_db []) db"
proof (rule dgt_begin)
  fix db row assume b: "dispatch_begin [80] [84] 120 (lit ''codex'') dgt_request None 1000 1000 (dgt_db []) = Inr (db, row)"
  have "delegation_step\<^sup>*\<^sup>* (dgt_db []) db" by (rule r_into_rtranclp) (rule delegation_step.dispatch_begin[OF b])
  from delegation_history[OF _ rtranclp.rtrancl_refl this] b show ?thesis by (auto simp: delegation_start_def dgt_db_def)
qed



text \<open>
  Nothing checks that ownership. A collector whose executor fails writes back \<^verbatim>\<open>dispatched\<close> even after another collector
  reclaimed the operation, so a finished operation is open again.
\<close>

theorem stale_collector_reopens:
  assumes inv: "delegation_inv db" and view: "claimed_view seen" and r: "get_by_operation_id (cd_operation_id seen) db = Some r"
    and "cd_dispatch_state r = Reclaimed"
  shows "\<exists>r'. get_by_operation_id (cd_operation_id seen) (fst (collect_end wd seen (Inl (Delegation_fault code)) now clk db)) = Some r'
    \<and> cd_dispatch_state r' = Dispatched \<and> cd_result_json r' = cd_result_json r"
proof -
  let ?op = "cd_operation_id seen"
  let ?f = "\<lambda>r. r\<lparr>cd_dispatch_state := set_col (cd_dispatch_state seen) Dispatched (cd_dispatch_state r),
       cd_owner_token := set_col (cd_owner_token seen) None (cd_owner_token r),
       cd_lease_expires_at := set_col (cd_lease_expires_at seen) None (cd_lease_expires_at r)\<rparr>"
  have "get_by_operation_id ?op (write_delegation ?op ?f clk db) = Some (if ?f r = r then r else (?f r)\<lparr>cd_updated_at := clk\<rparr>)"
  proof -
    have ops: "cd_operation_id (if ?f x = x then x else (?f x)\<lparr>cd_updated_at := clk\<rparr>) = cd_operation_id x" for x by simp
    have "cd_operation_id r = ?op" using find_Some_in[OF r[unfolded get_by_operation_id_def]] by simp
    then show ?thesis using r
      by (simp add: get_by_operation_id_def write_delegation_def find_update_where[where k = cd_operation_id, OF ops])
  qed
  moreover have st: "cd_dispatch_state (?f r) = Dispatched" using view by (simp add: claimed_view_def set_col_def)
  moreover have "?f r \<noteq> r"
  proof
    assume "?f r = r"
    from arg_cong[OF this, of cd_dispatch_state] show False using st assms(4) by simp
  qed
  ultimately show ?thesis by (simp add: collect_end_def collect_failed_def)
qed

theorem stale_collector_reopens_witness:
  "\<exists>db1 seen db2 r'. collect_begin dgt_executors [65] 120 [79] None 1000 1000 (dgt_db [dgt_row Dispatched None]) = Inr (db1, Some (dgt_executor, seen))
    \<and> db2 = fst (collect dgt_executors (\<lambda>d. d) [66] 120 False [79] None 1001 1001 db1)
    \<and> get_by_operation_id [79] (fst (collect_end False seen (Inl (Delegation_fault [101])) 1002 1002 db2)) = Some r'
    \<and> cd_dispatch_state r' = Dispatched"
proof -
  obtain db1 seen where b: "collect_begin dgt_executors [65] 120 [79] None 1000 1000 (dgt_db [dgt_row Dispatched None]) = Inr (db1, Some (dgt_executor, seen))"
    and s: "seen = (claim_row [65] 120 1000 (Some Collecting) (dgt_row Dispatched None))\<lparr>cd_updated_at := 1000\<rparr>"
    and d: "db1 = dgt_db [seen]"
    by (simp add: collect_begin_def load_delegation_def get_by_operation_id_def dgt_db_def and_then_def require_executor_def dgt_executors_def
        write_delegation_def claim_differs)
  let ?db2 = "fst (collect dgt_executors (\<lambda>d. d) [66] 120 False [79] None 1001 1001 db1)"
  have seen: "cd_operation_id seen = [79]" "claimed_view seen" by (simp_all add: s claimed_view_def claim_row_def dgt_row_def)
  obtain r where r: "dl_delegations ?db2 = [r]" "cd_operation_id r = [79]" "cd_dispatch_state r = Reclaimed" "delegation_ok r"
    by (simp add: d s collect_def collect_begin_def load_delegation_def get_by_operation_id_def dgt_db_def and_then_def require_executor_def
        dgt_executors_def dgt_executor_def write_delegation_def collect_end_def collect_done_def dgt_result_def or_empty_def set_col_def
        claim_row_def dgt_row_def delegation_ok_def executor_keys_def result_json_of_def)
  have "\<exists>r'. get_by_operation_id (cd_operation_id seen) (fst (collect_end False seen (Inl (Delegation_fault [101])) 1002 1002 ?db2)) = Some r'
      \<and> cd_dispatch_state r' = Dispatched \<and> cd_result_json r' = cd_result_json r"
    by (rule stale_collector_reopens[where r = r]) (use r seen in \<open>simp_all add: delegation_inv_def get_by_operation_id_def\<close>)
  then show ?thesis using b seen by auto
qed

text \<open>
  Convergence treats every operation that is due (unsettled, without a live lease) exactly once and independently: the new table is
  the old one with each due row changed as its state demands, and afterwards no due operation keeps a lease or is still collecting.
\<close>

theorem converge_exact:
  assumes "delegation_inv db" and "length (filter (due now) (dl_delegations db)) \<le> limit"
  shows "dl_delegations (converge exs now clk limit db) = map (converged exs now clk) (dl_delegations db)
    \<and> (\<forall>r\<in>set (dl_delegations db). due now r \<longrightarrow> cd_lease_expires_at (converged exs now clk r) = None
         \<and> cd_dispatch_state (converged exs now clk r) \<noteq> Collecting)"
proof (intro conjI ballI impI)
  show "dl_delegations (converge exs now clk limit db) = map (converged exs now clk) (dl_delegations db)"
    using assms by (rule converge_map)
  fix r assume "due now r"
  have *: "cd_lease_expires_at (converge_change exs now r) = None \<and> cd_dispatch_state (converge_change exs now r) \<noteq> Collecting"
    using \<open>due now r\<close>
    by (auto simp: converge_change_def release_row_def apply_handle_def converge_dispatched_def due_def unsettled_def Let_def
        split: dispatch_state.splits option.splits sum.splits)
  then show "cd_lease_expires_at (converged exs now clk r) = None" "cd_dispatch_state (converged exs now clk r) \<noteq> Collecting"
    using \<open>due now r\<close> by (auto simp: converged_def touched_def split: if_splits)
qed

theorem converge_exact_witness:
  "\<exists>r. dl_delegations (converge dgt_executors 600 600 50 (dgt_db [dgt_row Collecting (Some ([84], 500))])) = [r] \<and> cd_dispatch_state r = Dispatched"
proof -
  have "dl_delegations (converge dgt_executors 600 600 50 (dgt_db [dgt_row Collecting (Some ([84], 500))]))
      = map (converged dgt_executors 600 600) (dl_delegations (dgt_db [dgt_row Collecting (Some ([84], 500))]))"
    by (rule converge_exact[THEN conjunct1, OF dgt_inv]) (simp_all add: dgt_db_def)
  then show ?thesis
    by (simp add: dgt_db_def converged_def due_def unsettled_def touched_def converge_change_def release_row_def dgt_row_def)
qed

text \<open>
  C21: Only reviewed work leaves the system. A task is delegated only from an active project of the user, after its review made it
  canonical, to the project agent it is assigned to, which must be bound to the project and managed by the user.
\<close>

theorem only_reviewed_tasks_delegated:
  assumes "dispatch_project_task pt exs others i fresh tok ls project_id task_id key user now later clk db = (db', res)"
    and "db' \<noteq> db \<or> (\<exists>op. res = Inr op)"
  shows "\<exists>project task a. get_active_selectable_for_user project_id (or_empty (pu_uid user)) (gov_of db) = Some project
    \<and> get_gov_task task_id (gov_of db) = Some task \<and> gk_project_id task = pr_id project \<and> gk_status task = Canonical
    \<and> get_by_slug (or_empty (gk_assignee_agent_slug task)) (dl_agents db) = Some a
    \<and> get_project_agent (pr_id project) (ag_slug a) (gov_of db) \<noteq> None \<and> user_can_manage_agent pt user a = Inr True
    \<and> key \<in> set sandbox_executor_keys"
proof -
  obtain project task a where c: "check_project_task pt project_id task_id key user db = Inr (project, task, a)"
    using assms by (auto simp: dispatch_project_task_def split: sum.splits)
  then have facts: "get_active_selectable_for_user project_id (or_empty (pu_uid user)) (gov_of db) = Some project"
    "get_gov_task task_id (gov_of db) = Some task" "gk_project_id task = pr_id project" "gk_status task = Canonical"
    "get_visible_by_slug pt (or_empty (gk_assignee_agent_slug task)) user Main_kind (dl_agents db) = Inr (Some a)"
    "get_project_agent (pr_id project) (or_empty (gk_assignee_agent_slug task)) (gov_of db) \<noteq> None" "user_can_manage_agent pt user a = Inr True"
    "key \<in> set sandbox_executor_keys"
    by (auto simp: check_project_task_def Let_def split: if_splits option.splits sum.splits)
  have slug: "get_by_slug (or_empty (gk_assignee_agent_slug task)) (dl_agents db) = Some a" using get_visible_in[OF facts(5)] .
  have "ag_slug a = or_empty (gk_assignee_agent_slug task)" using get_by_slug_in[OF slug] by simp
  then show ?thesis using facts slug by (intro exI[of _ project] exI[of _ task] exI[of _ a]) simp
qed

definition dgt_task :: governance_task where
  "dgt_task = \<lparr>gk_id = [107], gk_project_id = [112], gk_topic_id = None, gk_decision_id = None, gk_assignee_agent_slug = Some [97],
     gk_title = [99], gk_description = None, gk_status = Canonical, gk_source_channel = lit ''project'', gk_source_external_id = None,
     gk_source_url = None, gk_created_by = None, gk_review_owner_uid = Some [117], gk_reviewed_at = Some 5, gk_review_note = None,
     gk_created_at = 1, gk_updated_at = 5\<rparr>"

definition dgt_ready :: delegation_db where
  "dgt_ready = \<lparr>dl_agents = dmo_registry\<lparr>ad_gov := (ad_gov dmo_registry)\<lparr>gv_tasks := [dgt_task]\<rparr>\<rparr>, dl_delegations = []\<rparr>"

theorem only_reviewed_tasks_delegated_witness:
  "\<exists>db' op project. dispatch_project_task ascii dgt_executors (\<lambda>d. d) [80] [79] [84] 120 [112] [107] (lit ''codex'') dmo_user 1000 1001 1001 dgt_ready = (db', Inr op)
    \<and> get_active_selectable_for_user [112] [117] (gov_of dgt_ready) = Some project"
proof -
  have dmo_uid: "or_empty (pu_uid dmo_user) = [117]" by (simp add: dmo_user_def or_empty_def)
  have check: "check_project_task ascii [112] [107] (lit ''codex'') dmo_user dgt_ready = Inr (dmo_project, dgt_task, dmo_agent)"
    by (simp add: check_project_task_def sandbox_executor_keys_def gov_of_def dgt_ready_def dmo_registry_def get_active_selectable_for_user_def
        dmo_project_def dmo_user_def or_empty_def get_gov_task_def dgt_task_def get_visible_by_slug_def get_by_slug_def dmo_agent_def
        user_can_access_agent_def resolve_agent_permission_def resolve_resource_permission_def and_then_def get_project_agent_def dmo_binding_def
        user_can_manage_agent_def is_builtin_agent_def default_agent_slug_def Let_def) (simp add: lit_def)
  obtain q where q: "project_task_request [117] dmo_project dgt_task dmo_agent = Inr q" "dr_operation_id q = []" "dr_project_id q = [112]"
      "dr_initiator_run_id q = None"
    by (simp add: project_task_request_def dmo_agent_def dmo_project_def agent_project_scope_def py_strip_def is_space_def Let_def)
  obtain db' op where d: "dispatch dgt_executors (\<lambda>d. d) [80] [79] [84] 120 (lit ''codex'') q (Some [117]) 1000 1001 1001 dgt_ready = (db', Inr op)"
    using q by (simp add: dispatch_def require_executor_def dgt_executors_def dispatch_begin_def add_delegation_def executor_keys_def gov_of_def
        dgt_ready_def dmo_registry_def dmo_project_def or_empty_def or_none_def and_then_def dispatch_end_def get_by_operation_id_def
        write_delegation_def claim_differs dgt_executor_def Let_def) (auto simp: claim_row_def)
  have run: "dispatch_project_task ascii dgt_executors (\<lambda>d. d) [80] [79] [84] 120 [112] [107] (lit ''codex'') dmo_user 1000 1001 1001 dgt_ready = (db', Inr op)"
    using q(1) d by (simp add: dispatch_project_task_def check dmo_uid)
  from only_reviewed_tasks_delegated[OF run] run show ?thesis by (auto simp: dmo_uid)
qed

text \<open>
  A retry sends the request that was stored: what is rebuilt from the row of a new operation is the request it was created with.
\<close>

theorem redispatch_same_request:
  assumes "dispatch_begin i t ls k q u now clk db = Inr (db', row)" and "dr_initiator_run_id q \<noteq> Some []"
  shows "request_from_row row = q \<and> get_by_operation_id (dr_operation_id q) db' = Some row"
proof
  note a = dispatch_begin_adds[OF assms(1)]
  have json: "cd_request_json row = request_json_of q" using a(2) by simp
  show "request_from_row row = q" using assms(2)
    by (cases q; cases "dr_initiator_run_id q")
      (simp_all add: request_from_row_def a(4-7) json request_json_of_def json_items_def json_dict_def or_empty_def or_none_def lit_def)
  have rows: "dl_delegations db' = dl_delegations db @ [row]" "cd_operation_id row \<notin> set (map cd_operation_id (dl_delegations db))"
    using a(1) by (simp_all add: added_row_def)
  then have "find (\<lambda>r. cd_operation_id r = cd_operation_id row) (dl_delegations db) = None" by (auto simp: find_None_iff image_iff)
  then show "get_by_operation_id (dr_operation_id q) db' = Some row"
    using a(4) by (simp add: get_by_operation_id_def rows find_append)
qed

theorem redispatch_same_request_witness:
  "\<exists>db row. dispatch_begin [80] [84] 120 (lit ''codex'') dgt_request None 1000 1000 (dgt_db []) = Inr (db, row) \<and> request_from_row row = dgt_request"
proof (rule dgt_begin)
  fix db row assume b: "dispatch_begin [80] [84] 120 (lit ''codex'') dgt_request None 1000 1000 (dgt_db []) = Inr (db, row)"
  show ?thesis using redispatch_same_request[OF b] b by (auto simp: dgt_request_def)
qed

end
