(* ===== verification/Channel_Sync.thy ===== *)
theory Channel_Sync
  imports Governance_Invariant
begin

text \<open>
  Inbound synchronization of Multica issues into proposed topics: \<^verbatim>\<open>services/channel_sync_service.py\<close> with the cursor
  table of \<^verbatim>\<open>repositories/channel_delegation_repository.py\<close>.

  The remote service is \<open>list_issues\<close> (\<open>None\<close> when the request raises). Reading and printing timestamps and JSON is the record
  \<open>cursor_codec\<close>: the standard library's \<^verbatim>\<open>fromisoformat\<close>, \<^verbatim>\<open>isoformat\<close>, \<^verbatim>\<open>json.loads\<close> and \<^verbatim>\<open>json.dumps\<close>; a normalized timestamp is the
  time it denotes, which is how its fixed format orders. Every import is a transaction of its own
  (\<open>create_governance_topic\<close>); \<open>gen\<close> generates the ids of topics. \<open>err\<close> is the text of an exception.
\<close>

section \<open>Data\<close>

record channel_sync_cursor =
  cu_id :: pystr
  cu_channel :: pystr
  cu_project_id :: pystr
  cu_cursor_value :: "pystr option"
  cu_last_synced_at :: "time option"
  cu_owner_token :: "pystr option"
  cu_lease_expires_at :: "time option"
  cu_last_error :: "pystr option"
  cu_created_at :: time
  cu_updated_at :: time

record multica_issue =
  mi_id :: pystr
  mi_identifier :: pystr
  mi_title :: pystr
  mi_description :: pystr
  mi_status :: pystr
  mi_url :: "pystr option"
  mi_updated_at :: "pystr option"

record sync_db =
  sy_gov :: gov_db
  sy_cursors :: "channel_sync_cursor list"

type_synonym cursor_point = "time \<times> pystr"

record cursor_codec =
  ck_parse :: "pystr \<Rightarrow> time option"
  ck_show :: "time \<Rightarrow> pystr"
  ck_loads :: "pystr \<Rightarrow> (pystr \<times> pystr) option"
  ck_dumps :: "pystr \<times> pystr \<Rightarrow> pystr"

datatype sync_fault = Lease_lost | Sync_integrity

datatype sync_report =
    Sync_done nat nat "pystr option"
  | Sync_capped nat nat "pystr option"
  | Sync_failed nat nat "pystr option"

definition multica_channel :: pystr where
  "multica_channel = lit ''multica''"

definition multica_sync_max_pages :: nat where
  "multica_sync_max_pages = 10"

section \<open>Cursor points\<close>

definition cursor_key :: "cursor_codec \<Rightarrow> multica_issue \<Rightarrow> cursor_point option" where
  "cursor_key ck issue =
     (if or_empty (mi_updated_at issue) = [] \<or> mi_id issue = [] then None
      else map_option (\<lambda>t. (t, mi_id issue)) (ck_parse ck (or_empty (mi_updated_at issue))))"

definition encode_cursor :: "cursor_codec \<Rightarrow> cursor_point \<Rightarrow> pystr" where
  "encode_cursor ck key = ck_dumps ck (ck_show ck (fst key), snd key)"

definition decode_cursor :: "cursor_codec \<Rightarrow> pystr option \<Rightarrow> unit + cursor_point option" where
  "decode_cursor ck value =
     (let text = py_strip (or_empty value)
      in if text = [] then Inr None
         else if hd text = 123
         then
           (case ck_loads ck text of
              None \<Rightarrow> Inl ()
            | Some (u, i) \<Rightarrow>
                if py_strip u = [] \<or> py_strip i = [] then Inl ()
                else (case ck_parse ck (py_strip u) of None \<Rightarrow> Inl () | Some t \<Rightarrow> Inr (Some (t, py_strip i))))
         else (case ck_parse ck text of None \<Rightarrow> Inl () | Some t \<Rightarrow> Inr (Some (t, []))))"

section \<open>Cursor rows\<close>

definition get_cursor :: "pystr \<Rightarrow> pystr \<Rightarrow> sync_db \<Rightarrow> channel_sync_cursor option" where
  "get_cursor channel project_id db = find (\<lambda>c. cu_channel c = channel \<and> cu_project_id c = project_id) (sy_cursors db)"

definition add_cursor :: "pystr \<Rightarrow> pystr \<Rightarrow> pystr \<Rightarrow> time \<Rightarrow> sync_db \<Rightarrow> sync_fault + sync_db \<times> channel_sync_cursor" where
  "add_cursor new_id channel project_id now db =
     (let c = \<lparr>cu_id = new_id, cu_channel = channel, cu_project_id = project_id, cu_cursor_value = None, cu_last_synced_at = None,
            cu_owner_token = None, cu_lease_expires_at = None, cu_last_error = None, cu_created_at = now, cu_updated_at = now\<rparr>
      in if list_ex (\<lambda>x. cu_id x = new_id \<or> cu_channel x = channel \<and> cu_project_id x = project_id) (sy_cursors db)
            \<or> channel \<noteq> multica_channel \<or> project_id \<notin> set (map pr_id (gv_projects (sy_gov db)))
         then Inl Sync_integrity else Inr (db\<lparr>sy_cursors := sy_cursors db @ [c]\<rparr>, c))"

definition list_cursors_for_channel :: "pystr \<Rightarrow> sync_db \<Rightarrow> channel_sync_cursor list" where
  "list_cursors_for_channel channel db =
     sort_key (\<lambda>c. (cu_created_at c, cu_id c)) (filter (\<lambda>c. cu_channel c = channel) (sy_cursors db))"

definition flush_cursor :: "(channel_sync_cursor \<Rightarrow> channel_sync_cursor) \<Rightarrow> time \<Rightarrow> channel_sync_cursor \<Rightarrow> channel_sync_cursor" where
  "flush_cursor f clk c = (if f c = c then c else (f c)\<lparr>cu_updated_at := clk\<rparr>)"

definition write_cursor :: "pystr \<Rightarrow> (channel_sync_cursor \<Rightarrow> channel_sync_cursor) \<Rightarrow> time \<Rightarrow> sync_db \<Rightarrow> sync_db" where
  "write_cursor project_id f clk db =
     db\<lparr>sy_cursors := update_where (\<lambda>c. cu_channel c = multica_channel \<and> cu_project_id c = project_id)
          (flush_cursor f clk) (sy_cursors db)\<rparr>"

definition cursor_leased :: "channel_sync_cursor \<Rightarrow> time \<Rightarrow> bool" where
  "cursor_leased c now \<longleftrightarrow> (case cu_lease_expires_at c of None \<Rightarrow> False | Some t \<Rightarrow> now < t)"

text \<open>A claim that finds a live lease rolls back, also the row it may have added.\<close>

definition claim_cursor :: "pystr \<Rightarrow> pystr \<Rightarrow> int \<Rightarrow> pystr \<Rightarrow> time \<Rightarrow> time \<Rightarrow> sync_db \<Rightarrow> sync_fault + sync_db \<times> pystr option" where
  "claim_cursor new_id token lease_seconds project_id now clk db =
     and_then (case get_cursor multica_channel project_id db of
         Some c \<Rightarrow> Inr (db, c) | None \<Rightarrow> add_cursor new_id multica_channel project_id now db) (\<lambda>(db1, c).
       if cursor_leased c now then Inl Lease_lost
       else Inr (write_cursor project_id (\<lambda>c. c\<lparr>cu_owner_token := Some token,
                   cu_lease_expires_at := Some (now + lease_seconds * 1000000)\<rparr>) clk db1, cu_cursor_value c))"

definition finish_cursor ::
  "pystr \<Rightarrow> pystr \<Rightarrow> pystr option \<Rightarrow> pystr option \<Rightarrow> time \<Rightarrow> time \<Rightarrow> sync_db \<Rightarrow> sync_fault + sync_db" where
  "finish_cursor project_id token cursor_value last_error now clk db =
     (case get_cursor multica_channel project_id db of
        None \<Rightarrow> Inl Lease_lost
      | Some c \<Rightarrow>
          if cu_owner_token c \<noteq> Some token \<or> \<not> cursor_leased c now then Inl Lease_lost
          else Inr (write_cursor project_id (\<lambda>c. c\<lparr>
                 cu_cursor_value := (case cursor_value of None \<Rightarrow> cu_cursor_value c | Some v \<Rightarrow> Some v),
                 cu_last_synced_at := (if last_error = None then Some now else cu_last_synced_at c),
                 cu_last_error := last_error, cu_owner_token := None, cu_lease_expires_at := None\<rparr>) clk db))"

section \<open>Pulling\<close>

datatype page_end = Page_read | Page_reached_cursor | Page_raised

record pull_state =
  ps_gov :: gov_db
  ps_latest :: "cursor_point option"
  ps_imported :: nat
  ps_skipped :: nat

definition newer :: "cursor_point option \<Rightarrow> cursor_point \<Rightarrow> cursor_point option" where
  "newer latest key = (case latest of None \<Rightarrow> Some key | Some l \<Rightarrow> if l < key then Some key else Some l)"

definition is_conflict :: "gov_error \<Rightarrow> bool" where
  "is_conflict e = (case e of Http_error n _ \<Rightarrow> n = 409 | _ \<Rightarrow> False)"

definition import_issue :: "(nat \<Rightarrow> pystr) \<Rightarrow> pystr \<Rightarrow> gov_user \<Rightarrow> time \<Rightarrow> multica_issue \<Rightarrow> gov_db \<Rightarrow> gov_error + gov_db \<times> governance_topic" where
  "import_issue gen project_id user now issue g =
     create_governance_topic (gen (length (gv_topics g))) project_id (Some (mi_title issue)) (Some (mi_description issue))
       (Some multica_channel) (Some (mi_identifier issue)) (mi_url issue) user now g"

definition before_cursor :: "cursor_point option \<Rightarrow> cursor_point \<Rightarrow> bool" where
  "before_cursor initial key \<longleftrightarrow> (case initial of None \<Rightarrow> False | Some k \<Rightarrow> fst key < fst k)"

fun import_page ::
  "cursor_codec \<Rightarrow> (nat \<Rightarrow> pystr) \<Rightarrow> pystr \<Rightarrow> gov_user \<Rightarrow> time \<Rightarrow> cursor_point option \<Rightarrow> multica_issue list \<Rightarrow> pull_state \<Rightarrow> pull_state \<times> page_end" where
  "import_page ck gen project_id user now initial [] s = (s, Page_read)"
| "import_page ck gen project_id user now initial (issue # issues) s =
     (case cursor_key ck issue of
        None \<Rightarrow> (s, Page_raised)
      | Some key \<Rightarrow>
          if before_cursor initial key then (s, Page_reached_cursor)
          else
            let s1 = s\<lparr>ps_latest := newer (ps_latest s) key\<rparr>
            in (case import_issue gen project_id user now issue (ps_gov s1) of
                  Inr (g, _) \<Rightarrow> import_page ck gen project_id user now initial issues
                                 (s1\<lparr>ps_gov := g, ps_imported := ps_imported s1 + 1\<rparr>)
                | Inl e \<Rightarrow>
                    if is_conflict e then import_page ck gen project_id user now initial issues (s1\<lparr>ps_skipped := ps_skipped s1 + 1\<rparr>)
                    else (s1, Page_raised)))"

datatype pull_end = Pull_consumed | Pull_capped | Pull_raised

text \<open>\<open>pages\<close> is the number of pages the loop may still read.\<close>

fun pull_pages ::
  "cursor_codec \<Rightarrow> (nat \<Rightarrow> pystr) \<Rightarrow> pystr \<Rightarrow> gov_user \<Rightarrow> time \<Rightarrow> (nat \<Rightarrow> nat \<Rightarrow> multica_issue list option) \<Rightarrow> nat \<Rightarrow> cursor_point option
   \<Rightarrow> nat \<Rightarrow> nat \<Rightarrow> pull_state \<Rightarrow> pull_state \<times> pull_end" where
  "pull_pages ck gen project_id user now list_issues page_size initial 0 offset s = (s, Pull_capped)"
| "pull_pages ck gen project_id user now list_issues page_size initial (Suc pages) offset s =
     (case list_issues page_size offset of
        None \<Rightarrow> (s, Pull_raised)
      | Some issues \<Rightarrow>
          if issues = [] then (s, Pull_consumed)
          else
            (case import_page ck gen project_id user now initial issues s of
               (s', Page_raised) \<Rightarrow> (s', Pull_raised)
             | (s', Page_reached_cursor) \<Rightarrow> (s', Pull_consumed)
             | (s', Page_read) \<Rightarrow>
                 if length issues < page_size then (s', Pull_consumed)
                 else pull_pages ck gen project_id user now list_issues page_size initial pages (offset + length issues) s'))"

definition pull_multica ::
  "cursor_codec \<Rightarrow> (nat \<Rightarrow> pystr) \<Rightarrow> pystr \<Rightarrow> pystr \<Rightarrow> int \<Rightarrow> pystr \<Rightarrow> gov_user option \<Rightarrow> int \<Rightarrow> (nat \<Rightarrow> nat \<Rightarrow> multica_issue list option)
   \<Rightarrow> pystr \<Rightarrow> time \<Rightarrow> time \<Rightarrow> time \<Rightarrow> sync_db \<Rightarrow> sync_db \<times> (sync_fault + sync_report)" where
  "pull_multica ck gen new_id token lease_seconds project_id actor limit list_issues err now later clk db =
     (case actor of
        None \<Rightarrow> (db, Inl Lease_lost)
      | Some user \<Rightarrow>
          (case claim_cursor new_id token lease_seconds project_id now clk db of
             Inl e \<Rightarrow> (db, Inl e)
           | Inr (db1, initial_value) \<Rightarrow>
               let finish = (\<lambda>value last_error report db2.
                     case finish_cursor project_id token value last_error later clk db2 of
                       Inl e \<Rightarrow> (db2, Inl e) | Inr db3 \<Rightarrow> (db3, Inr report))
               in (case decode_cursor ck initial_value of
                     Inl _ \<Rightarrow> finish None (Some err) (Sync_failed 0 0 initial_value) db1
                   | Inr initial \<Rightarrow>
                       (case pull_pages ck gen project_id user now list_issues (nat (max 1 limit)) initial multica_sync_max_pages 0
                               \<lparr>ps_gov = sy_gov db1, ps_latest = initial, ps_imported = 0, ps_skipped = 0\<rparr> of
                          (s, Pull_raised) \<Rightarrow>
                            finish None (Some err) (Sync_failed (ps_imported s) (ps_skipped s) initial_value) (db1\<lparr>sy_gov := ps_gov s\<rparr>)
                        | (s, Pull_capped) \<Rightarrow>
                            finish initial_value (Some err) (Sync_capped (ps_imported s) (ps_skipped s) initial_value) (db1\<lparr>sy_gov := ps_gov s\<rparr>)
                        | (s, Pull_consumed) \<Rightarrow>
                            let value = (case ps_latest s of Some k \<Rightarrow> Some (encode_cursor ck k) | None \<Rightarrow> initial_value)
                            in finish value None (Sync_done (ps_imported s) (ps_skipped s) value) (db1\<lparr>sy_gov := ps_gov s\<rparr>)))))"

section \<open>Convergence\<close>

record sync_counts =
  sc_projects :: nat
  sc_imported :: nat
  sc_skipped :: nat
  sc_released :: nat
  sc_failed :: nat

definition converge_projects :: "int \<Rightarrow> sync_db \<Rightarrow> pystr list" where
  "converge_projects max_projects db =
     (let rows = list_cursors_for_channel multica_channel db
      in map cu_project_id (take (if max_projects < 0 then length rows - nat (- max_projects) else nat max_projects) rows))"

fun release_stale_cursors :: "pystr list \<Rightarrow> time \<Rightarrow> time \<Rightarrow> sync_db \<Rightarrow> nat \<Rightarrow> sync_db \<times> nat" where
  "release_stale_cursors [] now clk db released = (db, released)"
| "release_stale_cursors (p # ps) now clk db released =
     (case get_cursor multica_channel p db of
        None \<Rightarrow> release_stale_cursors ps now clk db released
      | Some c \<Rightarrow>
          if cu_lease_expires_at c \<noteq> None \<and> \<not> cursor_leased c now
          then release_stale_cursors ps now clk
                 (write_cursor p (\<lambda>c. c\<lparr>cu_owner_token := None, cu_lease_expires_at := None\<rparr>) clk db) (released + 1)
          else release_stale_cursors ps now clk db released)"

definition project_owner_uid :: "pystr \<Rightarrow> sync_db \<Rightarrow> pystr option" where
  "project_owner_uid project_id db = map_option pr_uid (find (\<lambda>p. pr_id p = project_id) (gv_projects (sy_gov db)))"

fun count_report :: "sync_report \<Rightarrow> sync_counts \<Rightarrow> sync_counts" where
  "count_report (Sync_done i k v) c = c\<lparr>sc_projects := sc_projects c + 1, sc_imported := sc_imported c + i, sc_skipped := sc_skipped c + k\<rparr>"
| "count_report (Sync_capped i k v) c = c\<lparr>sc_projects := sc_projects c + 1, sc_imported := sc_imported c + i,
     sc_skipped := sc_skipped c + k, sc_failed := sc_failed c + 1\<rparr>"
| "count_report (Sync_failed i k v) c = c\<lparr>sc_projects := sc_projects c + 1, sc_imported := sc_imported c + i,
     sc_skipped := sc_skipped c + k, sc_failed := sc_failed c + 1\<rparr>"

text \<open>
  \<open>users\<close> reads a user by uid. The pull of the project \<open>p\<close> draws its owner token \<open>tok p\<close> and reads the clock as the three
  values of \<open>clock p\<close>. A fault other than a lost lease ends the pass.
\<close>

fun pull_projects ::
  "cursor_codec \<Rightarrow> (nat \<Rightarrow> pystr) \<Rightarrow> pystr \<Rightarrow> (pystr \<Rightarrow> pystr) \<Rightarrow> int \<Rightarrow> (pystr \<Rightarrow> gov_user option) \<Rightarrow> int
   \<Rightarrow> (nat \<Rightarrow> nat \<Rightarrow> multica_issue list option) \<Rightarrow> pystr \<Rightarrow> (pystr \<Rightarrow> time \<times> time \<times> time) \<Rightarrow> pystr list \<Rightarrow> sync_db \<Rightarrow> sync_counts
   \<Rightarrow> sync_db \<times> (sync_fault + sync_counts)" where
  "pull_projects ck gen new_id tok lease_seconds users limit list_issues err clock [] db c = (db, Inr c)"
| "pull_projects ck gen new_id tok lease_seconds users limit list_issues err clock (p # ps) db c =
     (case project_owner_uid p db of
        None \<Rightarrow> pull_projects ck gen new_id tok lease_seconds users limit list_issues err clock ps db c
      | Some uid \<Rightarrow>
          (case clock p of (now, later, clk) \<Rightarrow>
            (case pull_multica ck gen new_id (tok p) lease_seconds p (users uid) limit list_issues err now later clk db of
               (db', Inl Lease_lost) \<Rightarrow>
                 pull_projects ck gen new_id tok lease_seconds users limit list_issues err clock ps db' (c\<lparr>sc_failed := sc_failed c + 1\<rparr>)
             | (db', Inl e) \<Rightarrow> (db', Inl e)
             | (db', Inr report) \<Rightarrow>
                 pull_projects ck gen new_id tok lease_seconds users limit list_issues err clock ps db' (count_report report c))))"

definition sync_converge ::
  "cursor_codec \<Rightarrow> (nat \<Rightarrow> pystr) \<Rightarrow> pystr \<Rightarrow> (pystr \<Rightarrow> pystr) \<Rightarrow> int \<Rightarrow> (pystr \<Rightarrow> gov_user option) \<Rightarrow> int \<Rightarrow> int
   \<Rightarrow> (nat \<Rightarrow> nat \<Rightarrow> multica_issue list option) \<Rightarrow> pystr \<Rightarrow> (pystr \<Rightarrow> time \<times> time \<times> time) \<Rightarrow> time \<Rightarrow> time \<Rightarrow> sync_db
   \<Rightarrow> sync_db \<times> (sync_fault + sync_counts)" where
  "sync_converge ck gen new_id tok lease_seconds users limit max_projects list_issues err clock now clk db =
     (let ps = converge_projects max_projects db
      in case release_stale_cursors ps now clk db 0 of
           (db1, released) \<Rightarrow>
             pull_projects ck gen new_id tok lease_seconds users limit list_issues err clock ps db1
               \<lparr>sc_projects = 0, sc_imported = 0, sc_skipped = 0, sc_released = released, sc_failed = 0\<rparr>)"

end
