(* ===== verification/Channel_Sync_Properties.thy ===== *)
theory Channel_Sync_Properties
  imports Channel_Sync Governance_Properties
begin

text \<open>
  The properties of the inbound synchronization: what a pull imports (\<open>sync_complete\<close>), what it can write at all
  (\<open>sync_only_proposes\<close>), and that the lease of a cursor fences off an owner that was overtaken (\<open>cursor_fenced\<close>).
\<close>

section \<open>One import\<close>

definition issue_key :: "pystr \<Rightarrow> multica_issue \<Rightarrow> pystr \<times> pystr \<times> pystr option" where
  "issue_key p issue = (p, multica_channel, Some (py_strip (mi_identifier issue)))"

definition has_topic :: "pystr \<Rightarrow> gov_db \<Rightarrow> multica_issue \<Rightarrow> bool" where
  "has_topic p g issue \<longleftrightarrow> issue_key p issue \<in> topic_source_key ` set (gv_topics g)"

text \<open>\<open>adopts K g g'\<close>: \<open>g'\<close> is \<open>g\<close> with proposed topics appended whose sources are in \<open>K\<close>.\<close>

definition adopts :: "(pystr \<times> pystr \<times> pystr option) set \<Rightarrow> gov_db \<Rightarrow> gov_db \<Rightarrow> bool" where
  "adopts K g g' \<longleftrightarrow> (\<exists>new. g' = g\<lparr>gv_topics := gv_topics g @ new\<rparr> \<and> (\<forall>r\<in>set new. gt_status r = Proposed \<and> topic_source_key r \<in> K))"

lemma adopts_refl [intro]: "adopts K g g"
  unfolding adopts_def by (rule exI[of _ "[]"]) simp

lemma adopts_mono: "adopts K g g' \<Longrightarrow> K \<subseteq> L \<Longrightarrow> adopts L g g'"
  unfolding adopts_def by blast

lemma adopts_trans:
  assumes "adopts K g g'" and "adopts K g' g''"
  shows "adopts K g g''"
proof -
  obtain a where a: "g' = g\<lparr>gv_topics := gv_topics g @ a\<rparr>" "\<forall>r\<in>set a. gt_status r = Proposed \<and> topic_source_key r \<in> K"
    using assms(1) unfolding adopts_def by blast
  obtain b where b: "g'' = g'\<lparr>gv_topics := gv_topics g' @ b\<rparr>" "\<forall>r\<in>set b. gt_status r = Proposed \<and> topic_source_key r \<in> K"
    using assms(2) unfolding adopts_def by blast
  have "g'' = g\<lparr>gv_topics := gv_topics g @ (a @ b)\<rparr>" by (simp add: a(1) b(1))
  moreover have "\<forall>r\<in>set (a @ b). gt_status r = Proposed \<and> topic_source_key r \<in> K"
    using a(2) b(2) by (simp add: ball_Un)
  ultimately show ?thesis unfolding adopts_def by blast
qed

lemma has_topic_adopts: "adopts K g g' \<Longrightarrow> has_topic q g issue \<Longrightarrow> has_topic q g' issue"
  by (auto simp: adopts_def has_topic_def)

lemma multica_source:
  "normalize_governance_source (Some multica_channel) (Some i) url =
     (if py_strip i = [] then Inl (http_code 422 ''invalid_source'' gov_msg_external_source)
      else Inr (multica_channel, Some (py_strip i), strip_if url))"
proof -
  have "py_strip multica_channel = multica_channel" "multica_channel \<in> set governance_source_channels"
    "multica_channel \<noteq> lit ''project''"
    by (simp_all add: multica_channel_def lit_def governance_source_channels_def py_strip_def is_space_def)
  then show ?thesis by (auto simp: normalize_governance_source_def or_empty_def strip_if_def Let_def py_strip_def)
qed

lemma import_adopts:
  assumes "import_issue gen p u now issue g = Inr (g', t)"
  shows "adopts {issue_key p issue} g g'" and "has_topic p g' issue"
proof -
  note c = assms[unfolded import_issue_def]
  have new: "g' = g\<lparr>gv_topics := gv_topics g @ [t]\<rparr>" "new_topic_ok p t g"
    using create_topic_effect(1,2)[OF c] by blast+
  have "topic_source_key t = issue_key p issue"
    using c by (auto simp: create_governance_topic_def multica_source add_topic_def Let_def issue_key_def topic_source_key_def
        require_project_id split: if_splits)
  then show "adopts {issue_key p issue} g g'" "has_topic p g' issue"
    using new by (auto simp: adopts_def has_topic_def new_topic_ok_def)
qed

lemma not_conflict [simp]:
  "\<not> is_conflict (http_code 422 c m)" "\<not> is_conflict (Http_error 404 d)" "\<not> is_conflict Gov_data_error" "\<not> is_conflict Gov_integrity_error"
  by (simp_all add: is_conflict_def http_code_def)

lemma import_conflict:
  assumes "import_issue gen p u now issue g = Inl e" and "is_conflict e"
  shows "has_topic p g issue"
proof -
  have "e = duplicate_source multica_channel (py_strip (mi_identifier issue))
      \<and> find_topic_by_source p multica_channel (py_strip (mi_identifier issue)) g \<noteq> None"
    using assms
    by (auto simp: import_issue_def create_governance_topic_def multica_source and_then_def require_def normalize_title_def Let_def
        require_project_def normalize_topic_text_def add_topic_def get_active_selectable_for_user_def
        split: if_splits sum.splits option.splits dest!: find_Some_in)
  then obtain r where "find_topic_by_source p multica_channel (py_strip (mi_identifier issue)) g = Some r" by blast
  then show ?thesis
    by (auto simp: find_topic_by_source_def has_topic_def issue_key_def topic_source_key_def image_iff dest!: find_Some_in)
qed

section \<open>A page\<close>

lemma newer_ge: "\<exists>l. newer latest key = Some l \<and> key \<le> l \<and> (\<forall>k. latest = Some k \<longrightarrow> k \<le> l)"
  by (cases latest) (auto simp: newer_def simp del: split_paired_Ex split_paired_All)

text \<open>\<open>covered\<close>: the issue has its topic, and the cursor point reached is not before it.\<close>

definition covered :: "cursor_codec \<Rightarrow> pystr \<Rightarrow> pull_state \<Rightarrow> multica_issue \<Rightarrow> bool" where
  "covered ck p s issue \<longleftrightarrow> has_topic p (ps_gov s) issue
     \<and> (\<exists>key l. cursor_key ck issue = Some key \<and> ps_latest s = Some l \<and> key \<le> l)"

definition advances :: "pystr \<Rightarrow> multica_issue set \<Rightarrow> pull_state \<Rightarrow> pull_state \<Rightarrow> bool" where
  "advances p issues s s' \<longleftrightarrow> adopts (issue_key p ` issues) (ps_gov s) (ps_gov s')
     \<and> (\<forall>l. ps_latest s = Some l \<longrightarrow> (\<exists>l'. ps_latest s' = Some l' \<and> l \<le> l'))"

lemma advances_refl [intro]: "advances p xs s s"
  by (auto simp: advances_def)

lemma advances_mono: "advances p xs s s' \<Longrightarrow> xs \<subseteq> ys \<Longrightarrow> advances p ys s s'"
  unfolding advances_def by (meson adopts_mono image_mono)

lemma advances_trans: "advances p xs a b \<Longrightarrow> advances p xs b c \<Longrightarrow> advances p xs a c"
  unfolding advances_def by (meson adopts_trans order_trans)

lemma covered_advances: "advances p xs s s' \<Longrightarrow> covered ck p s issue \<Longrightarrow> covered ck p s' issue"
  unfolding covered_def advances_def by (meson has_topic_adopts order_trans)

lemma import_page_step:
  assumes "cursor_key ck issue = Some key" and "\<not> before_cursor initial key"
  obtains (go) s1 where "import_page ck gen p u now initial (issue # issues) s = import_page ck gen p u now initial issues s1"
      "advances p {issue} s s1" "covered ck p s1 issue"
  | (stop) s1 where "import_page ck gen p u now initial (issue # issues) s = (s1, Page_raised)" "advances p {issue} s s1"
proof -
  let ?s = "s\<lparr>ps_latest := newer (ps_latest s) key\<rparr>"
  obtain l where l: "newer (ps_latest s) key = Some l" "key \<le> l" "\<forall>k. ps_latest s = Some k \<longrightarrow> k \<le> l"
    using newer_ge by blast
  have here: "advances p {issue} s ?s" using l(1,3) by (auto simp: advances_def)
  show thesis
  proof (cases "import_issue gen p u now issue (ps_gov ?s)")
    case (Inr r)
    obtain g t where r: "r = (g, t)" by force
    let ?t = "?s\<lparr>ps_gov := g, ps_imported := ps_imported ?s + 1\<rparr>"
    note ad = import_adopts[OF Inr[unfolded r]]
    have "advances p {issue} s ?t" using ad(1) l(1,3) by (auto simp: advances_def)
    moreover have "covered ck p ?t issue" using ad(2) assms(1) l(1,2) by (simp add: covered_def)
    ultimately show thesis using go[of ?t] assms Inr r by (simp add: Let_def)
  next
    case (Inl e)
    show thesis
    proof (cases "is_conflict e")
      case True
      let ?t = "?s\<lparr>ps_skipped := ps_skipped ?s + 1\<rparr>"
      have "covered ck p ?t issue" using import_conflict[OF Inl True] assms(1) l(1,2) by (simp add: covered_def)
      moreover have "advances p {issue} s ?t" using here by (simp add: advances_def)
      ultimately show thesis using go[of ?t] assms Inl True by (simp add: Let_def)
    next
      case False
      then show thesis using stop[of ?s] here assms Inl by (simp add: Let_def)
    qed
  qed
qed

definition page_outcome :: "cursor_codec \<Rightarrow> pystr \<Rightarrow> cursor_point option \<Rightarrow> multica_issue list \<Rightarrow> pull_state \<Rightarrow> page_end \<Rightarrow> bool" where
  "page_outcome ck p initial issues s e \<longleftrightarrow>
     (case e of
        Page_raised \<Rightarrow> True
      | Page_read \<Rightarrow> (\<forall>i\<in>set issues. covered ck p s i)
      | Page_reached_cursor \<Rightarrow> (\<exists>ys z zs key. issues = ys @ z # zs \<and> (\<forall>i\<in>set ys. covered ck p s i)
          \<and> cursor_key ck z = Some key \<and> before_cursor initial key))"

lemma import_page_outcome:
  assumes "import_page ck gen p u now initial issues s = (s', e)"
  shows "advances p (set issues) s s' \<and> page_outcome ck p initial issues s' e"
  using assms
proof (induction issues arbitrary: s)
  case Nil
  then show ?case by (auto simp: page_outcome_def)
next
  case (Cons issue issues)
  show ?case
  proof (cases "cursor_key ck issue")
    case None
    then show ?thesis using Cons.prems by (auto simp: page_outcome_def)
  next
    case (Some key)
    show ?thesis
    proof (cases "before_cursor initial key")
      case True
      have r: "s' = s" "e = Page_reached_cursor" using Cons.prems Some True by simp_all
      have "\<exists>ys z zs key. issue # issues = ys @ z # zs \<and> (\<forall>i\<in>set ys. covered ck p s' i)
          \<and> cursor_key ck z = Some key \<and> before_cursor initial key"
        using Some True by (intro exI[of _ "[]"] exI[of _ issue] exI[of _ issues] exI[of _ key]) simp
      then show ?thesis using advances_refl[of p _ s] by (simp add: r page_outcome_def)
    next
      case False
      show ?thesis
      proof (cases rule: import_page_step[OF Some False, where gen = gen and p = p and u = u and now = now and issues = issues and s = s])
        case (1 s1)
        have ih: "advances p (set issues) s1 s'" "page_outcome ck p initial issues s' e"
          using Cons.IH[of s1] Cons.prems 1(1) by simp_all
        have "covered ck p s' issue" by (rule covered_advances[OF ih(1) 1(3)])
        then have "page_outcome ck p initial (issue # issues) s' e"
          using ih(2) unfolding page_outcome_def
          by (auto split: page_end.splits) (metis append_Cons set_ConsD)
        moreover have "advances p (set (issue # issues)) s s'" by (rule advances_trans[OF advances_mono[OF 1(2)] advances_mono[OF ih(1)]]) auto
        ultimately show ?thesis by blast
      next
        case (2 s1)
        then have "s' = s1" "e = Page_raised" using Cons.prems by simp_all
        moreover have "advances p (set (issue # issues)) s s1" by (rule advances_mono[OF 2(2)]) simp
        ultimately show ?thesis by (simp add: page_outcome_def)
      qed
    qed
  qed
qed

section \<open>All pages\<close>

text \<open>A remote service whose issues do not change during the pull, listed by update time, latest first.\<close>

definition serve :: "multica_issue list \<Rightarrow> nat \<Rightarrow> nat \<Rightarrow> multica_issue list option" where
  "serve remote limit offset = Some (take limit (drop offset remote))"






lemma pull_pages_advances:
  assumes "\<And>l n xs. list_issues l n = Some xs \<Longrightarrow> set xs \<subseteq> remote"
    and "pull_pages ck gen p u now list_issues psize initial pages offset s = (s', e)"
  shows "advances p remote s s'"
  using assms(2)
proof (induction pages arbitrary: offset s)
  case 0
  then show ?case by auto
next
  case (Suc pages)
  show ?case
  proof (cases "list_issues psize offset")
    case None
    then show ?thesis using Suc.prems by auto
  next
    case (Some xs)
    obtain s1 e1 where page: "import_page ck gen p u now initial xs s = (s1, e1)" by force
    have one: "advances p remote s s1"
      by (rule advances_mono[OF conjunct1[OF import_page_outcome[OF page]] assms(1)[OF Some]])
    show ?thesis
    proof (cases "xs \<noteq> [] \<and> e1 = Page_read \<and> \<not> length xs < psize")
      case True
      then have "advances p remote s1 s'" using Suc.IH[of "offset + length xs" s1] Suc.prems Some page by simp
      then show ?thesis using advances_trans[OF one] by blast
    next
      case False
      then have "s' = s1 \<or> s' = s"
        using Suc.prems Some page by (auto split: page_end.splits if_splits)
      then show ?thesis using one by auto
    qed
  qed
qed


section \<open>Cursor rows\<close>

definition stored_cursor :: "pystr \<Rightarrow> sync_db \<Rightarrow> pystr option" where
  "stored_cursor p db = Option.bind (get_cursor multica_channel p db) cu_cursor_value"

definition cursor_owner :: "pystr \<Rightarrow> sync_db \<Rightarrow> pystr option" where
  "cursor_owner p db = Option.bind (get_cursor multica_channel p db) cu_owner_token"

definition cursor_lease :: "pystr \<Rightarrow> sync_db \<Rightarrow> time option" where
  "cursor_lease p db = Option.bind (get_cursor multica_channel p db) cu_lease_expires_at"

lemma write_cursor_gov [simp]: "sy_gov (write_cursor p f clk db) = sy_gov db"
  by (simp add: write_cursor_def)

lemma flush_cursor_fields [simp]:
  "cu_channel (flush_cursor f clk c) = cu_channel (f c)" "cu_project_id (flush_cursor f clk c) = cu_project_id (f c)"
  "cu_cursor_value (flush_cursor f clk c) = cu_cursor_value (f c)" "cu_owner_token (flush_cursor f clk c) = cu_owner_token (f c)"
  "cu_lease_expires_at (flush_cursor f clk c) = cu_lease_expires_at (f c)"
  by (simp_all add: flush_cursor_def)

lemma find_update_where_other:
  assumes "\<And>c. Q (f c) \<longleftrightarrow> Q c" and "\<And>c. P c \<Longrightarrow> \<not> Q c"
  shows "find Q (update_where P f rows) = find Q rows"
  using assms by (induction rows) auto

lemma find_update_where_same:
  assumes "\<And>c. P (f c) \<longleftrightarrow> P c"
  shows "find P (update_where P f rows) = map_option f (find P rows)"
  using assms by (induction rows) auto

lemma get_write_cursor:
  assumes "\<And>c. cu_channel (f c) = cu_channel c" and "\<And>c. cu_project_id (f c) = cu_project_id c"
  shows "get_cursor multica_channel q (write_cursor p f clk db) =
    (if p = q then map_option (flush_cursor f clk) (get_cursor multica_channel q db) else get_cursor multica_channel q db)"
proof (cases "p = q")
  case True
  then show ?thesis by (simp add: get_cursor_def write_cursor_def find_update_where_same assms)
next
  case False
  then show ?thesis by (simp add: get_cursor_def write_cursor_def) (rule find_update_where_other; simp add: assms)
qed

lemma add_cursor_get:
  assumes "add_cursor i multica_channel p now db = Inr (db1, c)" and "get_cursor multica_channel p db = None"
  shows "sy_gov db1 = sy_gov db" and "get_cursor multica_channel q db1 = (if q = p then Some c else get_cursor multica_channel q db)"
    and "cu_cursor_value c = None" and "cu_lease_expires_at c = None" and "cu_owner_token c = None"
  using assms
  by (auto simp: add_cursor_def Let_def get_cursor_def find_append split: if_splits option.splits)

lemma claim_cursor_effect:
  assumes "claim_cursor i tok n p now clk db = Inr (db1, v)"
  shows "sy_gov db1 = sy_gov db" and "v = stored_cursor p db"
    and "stored_cursor q db1 = stored_cursor q db"
    and "cursor_owner q db1 = (if q = p then Some tok else cursor_owner q db)"
    and "cursor_lease q db1 = (if q = p then Some (now + n * 1000000) else cursor_lease q db)"
    and "cursor_lease p db = Some t \<Longrightarrow> t \<le> now"
proof -
  let ?f = "\<lambda>c. c\<lparr>cu_owner_token := Some tok, cu_lease_expires_at := Some (now + n * 1000000)\<rparr>"
  obtain d c where base: "sy_gov d = sy_gov db" "db1 = write_cursor p ?f clk d" "v = cu_cursor_value c"
      "\<not> cursor_leased c now" "get_cursor multica_channel p d = Some c"
      "\<And>q. q \<noteq> p \<Longrightarrow> get_cursor multica_channel q d = get_cursor multica_channel q db"
      "cu_cursor_value c = stored_cursor p db" "cu_lease_expires_at c = cursor_lease p db"
  proof (cases "get_cursor multica_channel p db")
    case (Some c)
    have r: "\<not> cursor_leased c now" "write_cursor p ?f clk db = db1" "cu_cursor_value c = v"
      using assms Some by (simp_all add: claim_cursor_def split: if_splits)
    show thesis by (rule that[of db c]) (simp_all add: r Some stored_cursor_def cursor_lease_def)
  next
    case None
    obtain d c where a: "add_cursor i multica_channel p now db = Inr (d, c)" and r: "db1 = write_cursor p ?f clk d" "v = cu_cursor_value c"
        "\<not> cursor_leased c now"
      using assms None by (auto simp: claim_cursor_def split: if_splits)
    show thesis
      by (rule that[of d c]) (simp_all add: r add_cursor_get[OF a None] None stored_cursor_def cursor_lease_def)
  qed
  have g: "get_cursor multica_channel q db1 = (if q = p then Some (flush_cursor ?f clk c) else get_cursor multica_channel q db)" for q
    using base(5,6) by (simp add: base(2) get_write_cursor)
  show "sy_gov db1 = sy_gov db" "v = stored_cursor p db" using base(1-3,7) by simp_all
  show "stored_cursor q db1 = stored_cursor q db" using base(7) by (simp add: stored_cursor_def g)
  show "cursor_owner q db1 = (if q = p then Some tok else cursor_owner q db)" by (simp add: cursor_owner_def g)
  show "cursor_lease q db1 = (if q = p then Some (now + n * 1000000) else cursor_lease q db)" by (simp add: cursor_lease_def g)
  show "t \<le> now" if "cursor_lease p db = Some t" using that base(4,8) by (simp add: cursor_leased_def)
qed

lemma finish_cursor_effect:
  assumes "finish_cursor p tok value err now clk db = Inr db'"
  shows "sy_gov db' = sy_gov db" and "cursor_owner p db = Some tok"
    and "stored_cursor q db' = (if q = p then (case value of None \<Rightarrow> stored_cursor p db | Some v \<Rightarrow> Some v) else stored_cursor q db)"
    and "cursor_owner q db' = (if q = p then None else cursor_owner q db)"
    and "cursor_lease q db' = (if q = p then None else cursor_lease q db)"
proof -
  let ?f = "\<lambda>c. c\<lparr>cu_cursor_value := (case value of None \<Rightarrow> cu_cursor_value c | Some v \<Rightarrow> Some v),
      cu_last_synced_at := (if err = None then Some now else cu_last_synced_at c),
      cu_last_error := err, cu_owner_token := None, cu_lease_expires_at := None\<rparr>"
  obtain c where c: "get_cursor multica_channel p db = Some c" "cu_owner_token c = Some tok" "write_cursor p ?f clk db = db'"
    using assms by (simp add: finish_cursor_def split: option.splits if_splits)
  have g: "get_cursor multica_channel q db' = (if q = p then Some (flush_cursor ?f clk c) else get_cursor multica_channel q db)" for q
    using c(1) by (simp add: c(3)[symmetric] get_write_cursor)
  show "sy_gov db' = sy_gov db" by (simp add: c(3)[symmetric])
  show "cursor_owner p db = Some tok" using c(1,2) by (simp add: cursor_owner_def)
  show "stored_cursor q db' = (if q = p then (case value of None \<Rightarrow> stored_cursor p db | Some v \<Rightarrow> Some v) else stored_cursor q db)"
    using c(1) by (simp add: stored_cursor_def g split: option.split)
  show "cursor_owner q db' = (if q = p then None else cursor_owner q db)" by (simp add: cursor_owner_def g)
  show "cursor_lease q db' = (if q = p then None else cursor_lease q db)" by (simp add: cursor_lease_def g)
qed

lemma finish_cursor_refused: "cursor_owner p db \<noteq> Some tok \<Longrightarrow> finish_cursor p tok value err now clk db = Inl Lease_lost"
  by (cases "get_cursor multica_channel p db") (auto simp: finish_cursor_def cursor_owner_def)

lemma finish_cursor_accepted:
  "cursor_owner p db = Some tok \<Longrightarrow> cursor_lease p db = Some t \<Longrightarrow> now < t \<Longrightarrow> \<exists>db'. finish_cursor p tok value err now clk db = Inr db'"
  by (auto simp: finish_cursor_def cursor_owner_def cursor_lease_def cursor_leased_def bind_eq_Some_conv)

lemma release_step:
  assumes "get_cursor multica_channel p db = Some c" and "cu_lease_expires_at c \<noteq> None" and "\<not> cursor_leased c now"
    and "db1 = write_cursor p (\<lambda>c. c\<lparr>cu_owner_token := None, cu_lease_expires_at := None\<rparr>) clk db"
  shows "sy_gov db1 = sy_gov db" and "stored_cursor q db1 = stored_cursor q db" and "cursor_owner q db1 \<in> {None, cursor_owner q db}"
    and "cursor_lease q db = Some t \<Longrightarrow> now < t \<Longrightarrow> cursor_lease q db1 = Some t \<and> cursor_owner q db1 = cursor_owner q db"
  using assms(1-3)
  by (auto simp: assms(4) get_write_cursor stored_cursor_def cursor_owner_def cursor_lease_def cursor_leased_def)

lemma release_effect:
  assumes "release_stale_cursors ps now clk db n = (db', n')"
  shows "sy_gov db' = sy_gov db \<and> stored_cursor q db' = stored_cursor q db \<and> cursor_owner q db' \<in> {None, cursor_owner q db}
    \<and> (\<forall>t. cursor_lease q db = Some t \<longrightarrow> now < t \<longrightarrow> cursor_lease q db' = Some t \<and> cursor_owner q db' = cursor_owner q db)"
  using assms
proof (induction ps arbitrary: db n)
  case (Cons p ps)
  show ?case
  proof (cases "\<exists>c. get_cursor multica_channel p db = Some c \<and> cu_lease_expires_at c \<noteq> None \<and> \<not> cursor_leased c now")
    case True
    then obtain c where c: "get_cursor multica_channel p db = Some c" "cu_lease_expires_at c \<noteq> None" "\<not> cursor_leased c now" by blast
    define db1 where "db1 = write_cursor p (\<lambda>c. c\<lparr>cu_owner_token := None, cu_lease_expires_at := None\<rparr>) clk db"
    have "release_stale_cursors ps now clk db1 (n + 1) = (db', n')" using Cons.prems c by (simp add: db1_def)
    note ih = Cons.IH[OF this]
    note one = release_step(1)[OF c db1_def] release_step(2-4)[OF c db1_def, where q = q]
    show ?thesis using ih one by (metis insertE insertI1 insertI2 singletonD)
  next
    case False
    then have "release_stale_cursors ps now clk db n = (db', n')" using Cons.prems by (auto split: option.splits if_splits)
    then show ?thesis by (rule Cons.IH)
  qed
qed simp

section \<open>A pull\<close>

lemma pull_multica_cases:
  assumes "pull_multica ck gen i tok n p actor limit src err now later clk db = (db', r)"
  obtains (refused) "db' = db" "\<exists>e. r = Inl e"
  | (pulled) u db1 initial s e db2 where "actor = Some u" "claim_cursor i tok n p now clk db = Inr (db1, stored_cursor p db)"
      "decode_cursor ck (stored_cursor p db) = Inr initial"
      "pull_pages ck gen p u now src (nat (max 1 limit)) initial multica_sync_max_pages 0
         \<lparr>ps_gov = sy_gov db1, ps_latest = initial, ps_imported = 0, ps_skipped = 0\<rparr> = (s, e)"
      "db2 = db1\<lparr>sy_gov := ps_gov s\<rparr>" "sy_gov db' = ps_gov s"
      "\<And>a b v. r = Inr (Sync_done a b v) \<Longrightarrow> e = Pull_consumed
         \<and> v = (case ps_latest s of Some k \<Rightarrow> Some (encode_cursor ck k) | None \<Rightarrow> stored_cursor p db)
         \<and> finish_cursor p tok v None later clk db2 = Inr db'"
  | (malformed) db1 where "claim_cursor i tok n p now clk db = Inr (db1, stored_cursor p db)" "sy_gov db' = sy_gov db"
      "\<And>a b v. r \<noteq> Inr (Sync_done a b v)"
proof (cases actor)
  case None
  then show thesis using assms refused by (auto simp: pull_multica_def)
next
  case (Some u)
  show thesis
  proof (cases "claim_cursor i tok n p now clk db")
    case (Inl e)
    then show thesis using assms refused Some by (auto simp: pull_multica_def)
  next
    case (Inr x)
    then obtain db1 where cl: "claim_cursor i tok n p now clk db = Inr (db1, stored_cursor p db)"
      using claim_cursor_effect(2) by (metis prod.collapse)
    show thesis
    proof (cases "decode_cursor ck (stored_cursor p db)")
      case (Inl _)
      then show thesis using assms Some cl claim_cursor_effect(1)[OF cl] malformed[OF cl]
        by (auto simp: pull_multica_def Let_def dest: finish_cursor_effect(1) split: sum.splits)
    next
      case (Inr initial)
      obtain s e where pp: "pull_pages ck gen p u now src (nat (max 1 limit)) initial multica_sync_max_pages 0
         \<lparr>ps_gov = sy_gov db1, ps_latest = initial, ps_imported = 0, ps_skipped = 0\<rparr> = (s, e)" by force
      show thesis
        using assms by (intro pulled[OF Some cl Inr pp refl])
          (auto simp: pull_multica_def Let_def Some cl Inr pp dest: finish_cursor_effect(1) split: pull_end.splits sum.splits)
    qed
  qed
qed

lemma pull_adopts:
  assumes "\<And>l k xs. src l k = Some xs \<Longrightarrow> set xs \<subseteq> remote"
    and "pull_multica ck gen i tok n p actor limit src err now later clk db = (db', r)"
  shows "adopts (issue_key p ` remote) (sy_gov db) (sy_gov db')"
  using assms(2)
proof (cases rule: pull_multica_cases)
  case (pulled u db1 initial s e db2)
  have "advances p remote \<lparr>ps_gov = sy_gov db1, ps_latest = initial, ps_imported = 0, ps_skipped = 0\<rparr> s"
    by (rule pull_pages_advances[OF assms(1) pulled(4)])
  then show ?thesis using pulled(6) claim_cursor_effect(1)[OF pulled(2)] by (simp add: advances_def)
qed auto

lemma pull_projects_adopts:
  assumes "\<And>l k xs. src l k = Some xs \<Longrightarrow> set xs \<subseteq> remote"
    and "pull_projects ck gen i tok n users limit src err clock ps db c = (db', r)"
  shows "adopts (\<Union>p\<in>set ps. issue_key p ` remote) (sy_gov db) (sy_gov db')"
  using assms(2)
proof (induction ps arbitrary: db c)
  case (Cons p ps)
  let ?K = "\<Union>q\<in>set (p # ps). issue_key q ` remote"
  have ih: "adopts ?K (sy_gov d) (sy_gov db')"
    if "pull_projects ck gen i tok n users limit src err clock ps d c' = (db', r)" for d c'
    by (rule adopts_mono[OF Cons.IH[OF that]]) auto
  show ?case
  proof (cases "project_owner_uid p db")
    case None
    then show ?thesis using Cons.prems ih by simp
  next
    case (Some uid)
    obtain now later clk where t: "clock p = (now, later, clk)" using prod_cases3 by blast
    obtain d x where pm: "pull_multica ck gen i (tok p) n p (users uid) limit src err now later clk db = (d, x)" by force
    have one: "adopts ?K (sy_gov db) (sy_gov d)" by (rule adopts_mono[OF pull_adopts[OF assms(1) pm]]) auto
    have "db' = d \<or> (\<exists>c'. pull_projects ck gen i tok n users limit src err clock ps d c' = (db', r))"
      using Cons.prems Some t pm by (auto split: sum.splits sync_fault.splits)
    then show ?thesis using one ih adopts_trans by blast
  qed
qed auto

section \<open>The lease of a cursor\<close>

text \<open>\<open>cursor_step T t\<close>: a transaction on the cursors at a time before \<open>t\<close> by an owner whose token is in \<open>T\<close>, a release of
  expired leases, or an import.\<close>

inductive cursor_step :: "pystr set \<Rightarrow> time \<Rightarrow> sync_db \<Rightarrow> sync_db \<Rightarrow> bool" where
  claim: "claim_cursor i tok n p now clk db = Inr (db', v) \<Longrightarrow> tok \<in> T \<Longrightarrow> now < t \<Longrightarrow> cursor_step T t db db'"
| finish: "finish_cursor p tok v e now clk db = Inr db' \<Longrightarrow> tok \<in> T \<Longrightarrow> now < t \<Longrightarrow> cursor_step T t db db'"
| release: "release_stale_cursors ps now clk db k = (db', k') \<Longrightarrow> now < t \<Longrightarrow> cursor_step T t db db'"
| topics: "cursor_step T t db (db\<lparr>sy_gov := g\<rparr>)"

lemma cursor_frames [simp]:
  "cursor_owner p (db\<lparr>sy_gov := g\<rparr>) = cursor_owner p db" "cursor_lease p (db\<lparr>sy_gov := g\<rparr>) = cursor_lease p db"
  by (simp_all add: cursor_owner_def cursor_lease_def get_cursor_def)

lemma cursor_step_foreign:
  "cursor_step T t db db' \<Longrightarrow> tok \<notin> T \<Longrightarrow> cursor_owner p db \<noteq> Some tok \<Longrightarrow> cursor_owner p db' \<noteq> Some tok"
proof (induction rule: cursor_step.induct)
  case (claim i tok' n q now clk db db' v T t)
  then show ?case using claim_cursor_effect(4)[OF claim.hyps(1), of p] by (auto split: if_splits)
next
  case (finish q tok' v e now clk db db' T t)
  then show ?case using finish_cursor_effect(4)[OF finish.hyps(1), of p] by (auto split: if_splits)
next
  case (release ps now clk db k db' k' t T)
  then show ?case using release_effect[OF release.hyps(1), of p] by auto
qed simp

lemma cursor_step_held:
  "cursor_step T t db db' \<Longrightarrow> tok \<notin> T \<Longrightarrow> cursor_owner p db = Some tok \<Longrightarrow> cursor_lease p db = Some t \<Longrightarrow>
   cursor_owner p db' = Some tok \<and> cursor_lease p db' = Some t"
proof (induction rule: cursor_step.induct)
  case (claim i tok' n q now clk db db' v T t)
  have "q \<noteq> p" using claim_cursor_effect(6)[OF claim.hyps(1), of t] claim.prems claim.hyps(3) by auto
  then show ?case using claim.prems claim_cursor_effect(4,5)[OF claim.hyps(1), of p] by simp
next
  case (finish q tok' v e now clk db db' T t)
  have "q \<noteq> p" using finish_cursor_effect(2)[OF finish.hyps(1)] finish.prems finish.hyps(2) by auto
  then show ?case using finish.prems finish_cursor_effect(4,5)[OF finish.hyps(1), of p] by simp
next
  case (release ps now clk db k db' k' t T)
  then show ?case using release_effect[OF release.hyps(1), of p] by auto
qed simp

lemma cursor_steps_foreign:
  "(cursor_step T t)\<^sup>*\<^sup>* db db' \<Longrightarrow> tok \<notin> T \<Longrightarrow> cursor_owner p db \<noteq> Some tok \<Longrightarrow> cursor_owner p db' \<noteq> Some tok"
  by (induction rule: rtranclp_induct) (auto dest: cursor_step_foreign)

lemma cursor_steps_held:
  assumes "(cursor_step T t)\<^sup>*\<^sup>* db db'" and "tok \<notin> T" and "cursor_owner p db = Some tok" and "cursor_lease p db = Some t"
  shows "cursor_owner p db' = Some tok \<and> cursor_lease p db' = Some t"
  using assms(1) by (induction rule: rtranclp_induct) (use assms(2-4) in \<open>auto dest: cursor_step_held\<close>)

section \<open>A small remote service\<close>

definition cs_codec :: cursor_codec where
  "cs_codec = \<lparr>ck_parse = (\<lambda>s. if s = [] then None else Some (int (hd s))), ck_show = (\<lambda>t. [nat t]),
     ck_loads = (\<lambda>s. case s of b # u # i \<Rightarrow> Some ([u], i) | _ \<Rightarrow> None), ck_dumps = (\<lambda>(u, i). 123 # u @ i)\<rparr>"

definition cs_issue :: "nat \<Rightarrow> nat \<Rightarrow> multica_issue" where
  "cs_issue i t = \<lparr>mi_id = [i], mi_identifier = [i], mi_title = [84], mi_description = [], mi_status = lit ''todo'', mi_url = None,
     mi_updated_at = Some [t]\<rparr>"

definition cs_db :: sync_db where
  "cs_db = \<lparr>sy_gov = demo_gov [], sy_cursors = []\<rparr>"

definition cs_topic :: "nat \<Rightarrow> nat \<Rightarrow> governance_topic" where
  "cs_topic k i = demo_topic\<lparr>gt_id := [k], gt_source_channel := multica_channel, gt_source_external_id := Some [i], gt_created_at := 10,
     gt_updated_at := 10\<rparr>"

lemma cs_import [simp]:
  "64 < i \<Longrightarrow> i < 70 \<Longrightarrow> [length ts] \<notin> gt_id ` set ts \<Longrightarrow> find_topic_by_source [201] multica_channel [i] (demo_gov ts) = None \<Longrightarrow>
   import_issue (\<lambda>n. [n]) [201] demo_user 10 (cs_issue i t) (demo_gov ts)
     = Inr (demo_gov (ts @ [cs_topic (length ts) i]), cs_topic (length ts) i)"
proof -
  assume i: "64 < i" "i < 70" and ids: "[length ts] \<notin> gt_id ` set ts"
    and free: "find_topic_by_source [201] multica_channel [i] (demo_gov ts) = None"
  have ch: "multica_channel \<in> set governance_source_channels" "multica_channel \<noteq> lit ''project''"
    by (simp_all add: multica_channel_def governance_source_channels_def lit_def)
  have src: "normalize_governance_source (Some multica_channel) (Some [i]) None = Inr (multica_channel, Some [i], None)"
    using i by (simp add: multica_source py_strip_def is_space_def strip_if_def or_empty_def)
  have words: "normalize_title (Some [84]) = Inr [84]" "normalize_topic_text (Some []) False = Inr None"
    by (simp_all add: normalize_title_def normalize_topic_text_def or_empty_def py_strip_def is_space_def Let_def or_none_def)
  have new: "\<not> list_ex (\<lambda>x. topic_source_key x = ([201], multica_channel, Some [i])) ts"
    using free by (auto simp: find_topic_by_source_def find_None_iff list_ex_iff topic_source_key_def)
  show ?thesis
    using ids new ch
    by (simp add: import_issue_def create_governance_topic_def cs_issue_def src words free add_topic_def fits_def topic_row_ok_def
        source_shape_ok_def review_shape_ok_def cs_topic_def demo_topic_def topic_source_key_def Let_def del: and_then_Inr_iff)
qed

lemma cs_key [simp]: "cursor_key cs_codec (cs_issue i t) = Some (int t, [i])"
  by (simp add: cursor_key_def cs_codec_def cs_issue_def or_empty_def)

lemma cs_pages:
  "pull_pages cs_codec (\<lambda>n. [n]) [201] demo_user 10 (serve [cs_issue 66 9, cs_issue 65 7]) 2 None (Suc (Suc n)) 0
     \<lparr>ps_gov = demo_gov [], ps_latest = None, ps_imported = 0, ps_skipped = 0\<rparr>
   = (\<lparr>ps_gov = demo_gov [cs_topic 0 66, cs_topic 1 65], ps_latest = Some (9, [66]), ps_imported = 2, ps_skipped = 0\<rparr>, Pull_consumed)"
proof -
  have f: "find_topic_by_source [201] multica_channel [66] (demo_gov []) = None"
    "find_topic_by_source [201] multica_channel [65] (demo_gov [cs_topic 0 66]) = None"
    by (simp_all add: find_topic_by_source_def cs_topic_def)
  have g: "gt_id (cs_topic 0 66) = [0]" by (simp add: cs_topic_def)
  show ?thesis by (simp add: serve_def before_cursor_def newer_def f g Let_def)
qed

lemma cs_run:
  "pull_multica cs_codec (\<lambda>n. [n]) [1] [2] 120 [201] (Some demo_user) 2 (serve [cs_issue 66 9, cs_issue 65 7]) [3] 10 20 20 cs_db
   = (\<lparr>sy_gov = demo_gov [cs_topic 0 66, cs_topic 1 65], sy_cursors = [
        \<lparr>cu_id = [1], cu_channel = multica_channel, cu_project_id = [201], cu_cursor_value = Some [123, 9, 66], cu_last_synced_at = Some 20,
         cu_owner_token = None, cu_lease_expires_at = None, cu_last_error = None, cu_created_at = 10, cu_updated_at = 20\<rparr>]\<rparr>,
      Inr (Sync_done 2 0 (Some [123, 9, 66])))"
proof -
  have "encode_cursor cs_codec (9, [66]) = [123, 9, 66]" by (simp add: encode_cursor_def cs_codec_def)
  moreover have "pr_id ` set (gv_projects (demo_gov [])) = {[201], [301]}" by (auto simp: demo_gov_def)
  moreover have "(2::nat) = nat 2" by simp
  ultimately show ?thesis
    using cs_pages[of 8]
    by (simp add: multica_sync_max_pages_def pull_multica_def claim_cursor_def get_cursor_def add_cursor_def cs_db_def write_cursor_def flush_cursor_def cursor_leased_def
      Let_def decode_cursor_def or_empty_def finish_cursor_def)
qed

definition cs_next :: sync_db where
  "cs_next = fst (pull_multica cs_codec (\<lambda>n. [n]) [1] [2] 120 [201] (Some demo_user) 2 (serve [cs_issue 66 9, cs_issue 65 7]) [3] 10 20 20 cs_db)"

section \<open>Properties\<close>



text \<open>
  Synchronization only proposes. Whatever happens in a pass over all projects with a cursor, errors included, the governance tables
  change by appended topics alone: each is proposed, belongs to a project of the pass and carries the Multica source of an issue the
  remote service returned.
\<close>

theorem sync_only_proposes:
  assumes "\<And>l k xs. src l k = Some xs \<Longrightarrow> set xs \<subseteq> remote"
    and "sync_converge ck gen i tok n users limit max_projects src err clock now clk db = (db', r)"
  shows "\<exists>new. sy_gov db' = (sy_gov db)\<lparr>gv_topics := gv_topics (sy_gov db) @ new\<rparr>
    \<and> (\<forall>t\<in>set new. gt_status t = Proposed
        \<and> (\<exists>p\<in>set (converge_projects max_projects db). \<exists>issue\<in>remote. topic_source_key t = (p, multica_channel, Some (py_strip (mi_identifier issue)))))"
proof -
  obtain db1 k where rel: "release_stale_cursors (converge_projects max_projects db) now clk db 0 = (db1, k)" by force
  have "pull_projects ck gen i tok n users limit src err clock (converge_projects max_projects db) db1
      \<lparr>sc_projects = 0, sc_imported = 0, sc_skipped = 0, sc_released = k, sc_failed = 0\<rparr> = (db', r)"
    using assms(2) rel by (simp add: sync_converge_def Let_def)
  from pull_projects_adopts[OF assms(1) this] have
    "adopts (\<Union>p\<in>set (converge_projects max_projects db). issue_key p ` remote) (sy_gov db) (sy_gov db')"
    using release_effect[OF rel] by simp
  then show ?thesis unfolding adopts_def issue_key_def by blast
qed

theorem sync_only_proposes_witness:
  "\<exists>new. sy_gov (fst (sync_converge cs_codec (\<lambda>n. [n]) [1] (\<lambda>_. [5]) 120 (\<lambda>_. Some demo_user) 2 20 (serve [cs_issue 67 11]) [3]
       (\<lambda>_. (30, 40, 40)) 25 25 cs_next)) = (sy_gov cs_next)\<lparr>gv_topics := gv_topics (sy_gov cs_next) @ new\<rparr>
    \<and> (\<forall>t\<in>set new. gt_status t = Proposed \<and> topic_source_key t = ([201], multica_channel, Some [67]))"
proof -
  have srv: "set xs \<subseteq> {cs_issue 67 11}" if "serve [cs_issue 67 11] l k = Some xs" for l k xs
    using that set_take_subset[of l "drop k [cs_issue 67 11]"] set_drop_subset[of k "[cs_issue 67 11]"] by (auto simp: serve_def)
  have ps: "converge_projects 20 cs_next = [[201]]"
    unfolding cs_next_def cs_run by (simp add: converge_projects_def list_cursors_for_channel_def Let_def)
  have ident: "py_strip (mi_identifier (cs_issue 67 11)) = [67]" by (simp add: cs_issue_def py_strip_def is_space_def)
  obtain db' r where run: "sync_converge cs_codec (\<lambda>n. [n]) [1] (\<lambda>_. [5]) 120 (\<lambda>_. Some demo_user) 2 20 (serve [cs_issue 67 11]) [3]
       (\<lambda>_. (30, 40, 40)) 25 25 cs_next = (db', r)" by force
  have "\<exists>new. sy_gov db' = (sy_gov cs_next)\<lparr>gv_topics := gv_topics (sy_gov cs_next) @ new\<rparr> \<and> (\<forall>t\<in>set new. gt_status t = Proposed
      \<and> (\<exists>p\<in>set (converge_projects 20 cs_next). \<exists>issue\<in>{cs_issue 67 11}. topic_source_key t = (p, multica_channel, Some (py_strip (mi_identifier issue)))))"
    by (rule sync_only_proposes[OF _ run]) (rule srv)
  then show ?thesis unfolding run fst_conv ps by (simp add: ident)
qed

text \<open>
  The lease of a cursor fences its owner. While the lease runs, no other owner and no release of stale leases takes it away, and
  the owner's closing write is accepted; once somebody else owns the cursor, or nobody, every later closing write of the old owner is
  refused, whatever the others do in between.
\<close>

theorem cursor_fenced:
  assumes "claim_cursor i tok n p now clk db = Inr (db1, v)" and "tok \<notin> T"
  shows "((cursor_step T (now + n * 1000000))\<^sup>*\<^sup>* db1 db2 \<and> later < now + n * 1000000
      \<longrightarrow> (\<exists>db3. finish_cursor p tok value err later clk' db2 = Inr db3))
    \<and> (cursor_owner p db2 \<noteq> Some tok \<and> (cursor_step T t)\<^sup>*\<^sup>* db2 db4
      \<longrightarrow> finish_cursor p tok value err later clk' db4 = Inl Lease_lost)"
proof (intro conjI impI; elim conjE)
  assume s: "(cursor_step T (now + n * 1000000))\<^sup>*\<^sup>* db1 db2" and "later < now + n * 1000000"
  moreover have "cursor_owner p db2 = Some tok \<and> cursor_lease p db2 = Some (now + n * 1000000)"
    by (rule cursor_steps_held[OF s assms(2)]) (simp_all add: claim_cursor_effect(4,5)[OF assms(1)])
  ultimately show "\<exists>db3. finish_cursor p tok value err later clk' db2 = Inr db3" using finish_cursor_accepted by blast
next
  assume "cursor_owner p db2 \<noteq> Some tok" and "(cursor_step T t)\<^sup>*\<^sup>* db2 db4"
  then show "finish_cursor p tok value err later clk' db4 = Inl Lease_lost"
    using cursor_steps_foreign[OF _ assms(2)] finish_cursor_refused by blast
qed

theorem cursor_fenced_witness:
  "\<exists>db1 db2. claim_cursor [1] [2] 120 [201] 10 10 cs_db = Inr (db1, None)
     \<and> (\<exists>db3. finish_cursor [201] [2] None None 20 20 db1 = Inr db3)
     \<and> claim_cursor [1] [5] 120 [201] 200000010 200000010 db1 = Inr (db2, None)
     \<and> finish_cursor [201] [2] None None 200000020 200000020 db2 = Inl Lease_lost"
proof -
  have "pr_id ` set (gv_projects (demo_gov [])) = {[201], [301]}" by (auto simp: demo_gov_def)
  then obtain db1 where c1: "claim_cursor [1] [2] 120 [201] 10 10 cs_db = Inr (db1, None)"
    and "\<exists>db2. claim_cursor [1] [5] 120 [201] 200000010 200000010 db1 = Inr (db2, None)"
    by (simp add: claim_cursor_def get_cursor_def add_cursor_def cs_db_def write_cursor_def flush_cursor_def cursor_leased_def Let_def)
  then obtain db2 where c2: "claim_cursor [1] [5] 120 [201] 200000010 200000010 db1 = Inr (db2, None)" by blast
  note f = cursor_fenced[OF c1, of "{[5]}"]
  show ?thesis
    using c1 c2 f[of db1 20 None None 20] f[of db2 200000020 None None 200000020 0 db2] claim_cursor_effect(4)[OF c2, of "[201]"] by auto
qed

end
