(* ===== verification/Coding_Adapter.thy ===== *)
theory Coding_Adapter
  imports Yuanlei_Prelude
begin

text \<open>
  The adapters of the coding executors (\<^verbatim>\<open>coding/adapters.py\<close>): the shell command of one turn, the normalization of the lines an
  executor prints, the result derived from them, and the redaction of credentials (\<^verbatim>\<open>coding/credentials.py\<close>).

  \<open>loads\<close> is \<^verbatim>\<open>json.loads\<close> (\<open>None\<close> when it raises) and \<open>ps\<close> is \<^verbatim>\<open>str\<close> on values that are not strings. A value that is used as an
  object although it is none raises \<^verbatim>\<open>AttributeError\<close>: \<open>None\<close>.
\<close>

section \<open>Values\<close>

fun json_falsy :: "json \<Rightarrow> bool" where
  "json_falsy JNull = True"
| "json_falsy (JBool b) = (\<not> b)"
| "json_falsy (JInt i) = (i = 0)"
| "json_falsy (JFloat r) = (r = 0)"
| "json_falsy (JStr s) = (s = [])"
| "json_falsy (JList xs) = (xs = [])"
| "json_falsy (JObj kvs) = (kvs = [])"

text \<open>\<open>get_or d j k\<close> is \<^verbatim>\<open>j.get(k) or d\<close>.\<close>

definition get_or :: "json \<Rightarrow> (pystr \<times> json) list \<Rightarrow> string \<Rightarrow> json" where
  "get_or d kvs k = (case json_get (JObj kvs) (lit k) of None \<Rightarrow> d | Some v \<Rightarrow> if json_falsy v then d else v)"

definition get_plain :: "(pystr \<times> json) list \<Rightarrow> string \<Rightarrow> json" where
  "get_plain kvs k = (case json_get (JObj kvs) (lit k) of None \<Rightarrow> JNull | Some v \<Rightarrow> v)"

fun as_obj :: "json \<Rightarrow> (pystr \<times> json) list option" where
  "as_obj (JObj kvs) = Some kvs"
| "as_obj _ = None"

definition str_of :: "(json \<Rightarrow> pystr) \<Rightarrow> json \<Rightarrow> pystr" where
  "str_of ps j = (case j of JStr s \<Rightarrow> s | _ \<Rightarrow> ps j)"

section \<open>Commands\<close>

record coding_turn_request =
  cr_prompt :: pystr
  cr_model :: "pystr option"
  cr_session_ref :: "pystr option"
  cr_plan_only :: bool
  cr_workdir :: "pystr option"
  cr_env :: "(pystr \<times> pystr) list"
  cr_prelude :: "pystr option"

text \<open>\<^verbatim>\<open>shlex.quote\<close>: letters, digits and \<^verbatim>\<open>_@%+=:,./-\<close> are safe.\<close>

definition shell_safe :: "nat \<Rightarrow> bool" where
  "shell_safe c \<longleftrightarrow> 97 \<le> c \<and> c \<le> 122 \<or> 65 \<le> c \<and> c \<le> 90 \<or> 48 \<le> c \<and> c \<le> 57 \<or> c \<in> set (lit ''_@%+=:,./-'')"

definition quote_char :: "nat \<Rightarrow> pystr" where
  "quote_char c = (if c = 39 then [39, 34, 39, 34, 39] else [c])"

definition shlex_quote :: "pystr \<Rightarrow> pystr" where
  "shlex_quote s = (if s = [] then [39, 39] else if list_all shell_safe s then s else 39 # concat (map quote_char s) @ [39])"

fun join_space :: "pystr list \<Rightarrow> pystr" where
  "join_space [] = []"
| "join_space [x] = x"
| "join_space (x # y # xs) = x @ 32 # join_space (y # xs)"

definition with_workdir :: "pystr \<Rightarrow> pystr option \<Rightarrow> pystr" where
  "with_workdir command workdir =
     (if or_empty workdir = [] then command else lit ''cd '' @ shlex_quote (or_empty workdir) @ lit '' && '' @ command)"

definition apply_turn_wrapper :: "pystr \<Rightarrow> coding_turn_request \<Rightarrow> pystr" where
  "apply_turn_wrapper command request =
     (let assignments = join_space (map (\<lambda>(k, v). k @ 61 # shlex_quote v) (sort_key fst (cr_env request)));
          wrapped = (if cr_env request \<noteq> [] \<and> assignments \<noteq> [] then lit ''env '' @ assignments @ 32 # command else command)
      in if or_empty (cr_prelude request) = [] then wrapped else or_empty (cr_prelude request) @ lit '' && '' @ wrapped)"

definition opencode_parts :: "coding_turn_request \<Rightarrow> pystr list" where
  "opencode_parts r =
     [lit ''opencode'', lit ''run'', lit ''--format'', lit ''json'']
     @ (if cr_plan_only r then [lit ''--agent'', lit ''plan''] else [])
     @ (if or_empty (cr_model r) = [] then [] else [lit ''-m'', or_empty (cr_model r)])
     @ (if or_empty (cr_session_ref r) = [] then [] else [lit ''-s'', or_empty (cr_session_ref r)])
     @ [cr_prompt r]"

definition codex_parts :: "coding_turn_request \<Rightarrow> pystr list" where
  "codex_parts r =
     (if or_empty (cr_session_ref r) \<noteq> []
      then [lit ''codex'', lit ''exec'', lit ''resume'', or_empty (cr_session_ref r), lit ''--json'', lit ''--skip-git-repo-check'']
      else [lit ''codex'', lit ''exec'', lit ''--json'', lit ''--skip-git-repo-check'', lit ''-s'',
            if cr_plan_only r then lit ''read-only'' else lit ''workspace-write'']
           @ (if or_empty (cr_model r) = [] then [] else [lit ''-m'', or_empty (cr_model r)]))
     @ [cr_prompt r]"

datatype coding_executor = Opencode | Codex

definition build_command :: "coding_executor \<Rightarrow> coding_turn_request \<Rightarrow> pystr" where
  "build_command e r =
     with_workdir (apply_turn_wrapper
       (join_space (map shlex_quote (case e of Opencode \<Rightarrow> opencode_parts r | Codex \<Rightarrow> codex_parts r))) r) (cr_workdir r)"

text \<open>
  \<^verbatim>\<open>_cli_state_layout\<close> and the command of a turn in \<^verbatim>\<open>_execute_turn_tail\<close> (\<^verbatim>\<open>services/coding_execution_service.py\<close>): where the executor
  keeps its native state, and the command that prepares it.
\<close>

record cli_layout =
  cl_env :: "(pystr \<times> pystr) list"
  cl_prelude :: pystr
  cl_probe_dir :: pystr

definition cli_state_layout :: "coding_executor \<Rightarrow> pystr \<Rightarrow> cli_layout" where
  "cli_state_layout e session_id =
     (let base = lit ''/home/gem/user-data/agents/coding/'' @ session_id
      in case e of
           Opencode \<Rightarrow>
             (let data_dir = base @ lit ''/data''; cache_dir = base @ lit ''/cache''
              in \<lparr>cl_env = [(lit ''XDG_DATA_HOME'', data_dir), (lit ''XDG_CACHE_HOME'', cache_dir)],
                  cl_prelude = lit ''mkdir -p '' @ shlex_quote data_dir @ 32 # shlex_quote cache_dir,
                  cl_probe_dir = data_dir @ lit ''/opencode''\<rparr>)
         | Codex \<Rightarrow>
             (let home = base @ lit ''/codex-home''
              in \<lparr>cl_env = [(lit ''CODEX_HOME'', home)],
                  cl_prelude = lit ''mkdir -p '' @ shlex_quote home @ lit '' && cp -n /home/gem/.codex/config.toml ''
                    @ shlex_quote home @ lit ''/config.toml 2>/dev/null || true'',
                  cl_probe_dir = home\<rparr>))"

definition turn_request :: "coding_executor \<Rightarrow> pystr \<Rightarrow> pystr \<Rightarrow> pystr option \<Rightarrow> bool \<Rightarrow> pystr \<Rightarrow> coding_turn_request" where
  "turn_request e session_id task session_ref plan_only workdir =
     \<lparr>cr_prompt = task, cr_model = None, cr_session_ref = session_ref, cr_plan_only = plan_only, cr_workdir = Some workdir,
      cr_env = cl_env (cli_state_layout e session_id), cr_prelude = Some (cl_prelude (cli_state_layout e session_id))\<rparr>"

section \<open>Events\<close>

type_synonym normalized_event = "pystr \<times> (pystr \<times> json) list"

definition line_break :: "nat \<Rightarrow> bool" where
  "line_break c \<longleftrightarrow> c \<in> {10, 11, 12, 13, 28, 29, 30, 133, 8232, 8233}"

text \<open>\<^verbatim>\<open>str.splitlines\<close>; empty lines do not matter to the caller.\<close>

fun splitlines :: "pystr \<Rightarrow> pystr \<Rightarrow> pystr list" where
  "splitlines [] acc = (if acc = [] then [] else [rev acc])"
| "splitlines (c # s) acc = (if line_break c then rev acc # splitlines s [] else splitlines s (c # acc))"

definition iter_json_lines :: "(pystr \<Rightarrow> json option) \<Rightarrow> pystr \<Rightarrow> (pystr \<times> json) list list" where
  "iter_json_lines loads text =
     List.map_filter (\<lambda>raw. let line = py_strip raw
        in if line = [] \<or> hd line \<noteq> 123 then None else Option.bind (loads line) as_obj) (splitlines text [])"

definition unknown_event :: "string \<Rightarrow> pystr \<Rightarrow> normalized_event" where
  "unknown_event what t = (lit ''warning'', [(lit ''message'', JStr (lit what @ (if t = [] then lit ''<empty>'' else t)))])"

definition opencode_error :: "(pystr \<times> json) list \<Rightarrow> normalized_event list option" where
  "opencode_error payload =
     (case as_obj (get_or (JObj []) payload ''error'') of
        None \<Rightarrow> None
      | Some e \<Rightarrow>
          (case as_obj (get_or (JObj []) e ''data'') of
             None \<Rightarrow> None
           | Some d \<Rightarrow> Some [(lit ''error'', [(lit ''message'', get_or (JStr (lit ''opencode error'')) d ''message'')])]))"

definition opencode_event :: "(json \<Rightarrow> pystr) \<Rightarrow> (pystr \<times> json) list \<Rightarrow> normalized_event list option" where
  "opencode_event ps payload =
     (let event_type = str_of ps (get_or (JStr []) payload ''type'')
      in case as_obj (get_or (JObj []) payload ''part'') of
           None \<Rightarrow>
             (let session_id = get_or JNull payload ''sessionID''
              in if json_falsy session_id then None
                 else if event_type = lit ''step_start'' then Some [(lit ''session_ref'', [(lit ''session_ref'', session_id)])]
                 else if event_type \<in> {lit ''text'', lit ''tool'', lit ''step_finish''} then None
                 else if event_type = lit ''error'' then opencode_error payload
                 else Some [unknown_event ''unknown opencode event type: '' event_type])
         | Some part \<Rightarrow>
             (let session_id = (let a = get_or JNull payload ''sessionID'' in if json_falsy a then get_plain part ''sessionID'' else a)
              in if event_type = lit ''step_start'' then
                   Some (if json_falsy session_id then [] else [(lit ''session_ref'', [(lit ''session_ref'', session_id)])])
                 else if event_type = lit ''text'' then Some [(lit ''output_delta'', [(lit ''text'', get_or (JStr []) part ''text'')])]
                 else if event_type = lit ''tool'' then
                   Some [(lit ''tool_call'', [(lit ''tool'', get_or (JStr (lit ''tool'')) part ''tool''), (lit ''state'', get_or (JObj []) part ''state'')])]
                 else if event_type = lit ''step_finish'' then
                   Some [(lit ''usage'', [(lit ''tokens'', get_or (JObj []) part ''tokens''), (lit ''cost'', get_plain part ''cost''),
                                          (lit ''reason'', get_plain part ''reason'')])]
                 else if event_type = lit ''error'' then opencode_error payload
                 else Some [unknown_event ''unknown opencode event type: '' event_type]))"

definition codex_event :: "(json \<Rightarrow> pystr) \<Rightarrow> (pystr \<times> json) list \<Rightarrow> normalized_event list option" where
  "codex_event ps payload =
     (let event_type = str_of ps (get_or (JStr []) payload ''type'')
      in if event_type = lit ''thread.started'' then
           (let t = get_plain payload ''thread_id''
            in Some (if json_falsy t then [] else [(lit ''session_ref'', [(lit ''session_ref'', t)])]))
         else if event_type = lit ''turn.started'' then Some []
         else if event_type = lit ''item.completed'' then
           (case as_obj (get_or (JObj []) payload ''item'') of
              None \<Rightarrow> None
            | Some item \<Rightarrow>
                (let item_type = str_of ps (get_or (JStr []) item ''type'')
                 in if item_type = lit ''agent_message'' then Some [(lit ''output_delta'', [(lit ''text'', get_or (JStr []) item ''text'')])]
                    else if item_type = lit ''command_execution'' then
                      Some [(lit ''tool_call'', [(lit ''tool'', JStr (lit ''shell'')), (lit ''command'', get_plain item ''command''),
                                                 (lit ''status'', get_plain item ''status'')])]
                    else if item_type \<in> {lit ''file_change'', lit ''patch_apply''} then Some [(lit ''file_change'', item)]
                    else Some [unknown_event ''unknown codex item type: '' item_type]))
         else if event_type = lit ''turn.completed'' then Some [(lit ''usage'', [(lit ''usage'', get_or (JObj []) payload ''usage'')])]
         else if event_type \<in> {lit ''error'', lit ''turn.failed''} then
           (let m = get_plain payload ''message''
            in if \<not> json_falsy m then Some [(lit ''error'', [(lit ''message'', m)])]
               else (case as_obj (get_or (JObj []) payload ''error'') of
                       None \<Rightarrow> None
                     | Some e \<Rightarrow> Some [(lit ''error'', [(lit ''message'', get_or (JStr (lit ''codex error'')) e ''message'')])]))
         else Some [unknown_event ''unknown codex event type: '' event_type])"

fun collect_events :: "('a \<Rightarrow> 'b list option) \<Rightarrow> 'a list \<Rightarrow> 'b list option" where
  "collect_events f [] = Some []"
| "collect_events f (x # xs) = (case f x of None \<Rightarrow> None | Some a \<Rightarrow> map_option ((@) a) (collect_events f xs))"

definition parse_events :: "(pystr \<Rightarrow> json option) \<Rightarrow> (json \<Rightarrow> pystr) \<Rightarrow> coding_executor \<Rightarrow> pystr \<Rightarrow> normalized_event list option" where
  "parse_events loads ps e text =
     collect_events (case e of Opencode \<Rightarrow> opencode_event ps | Codex \<Rightarrow> codex_event ps) (iter_json_lines loads text)"

record coding_turn_result =
  tr_output_text :: pystr
  tr_session_ref :: "pystr option"
  tr_usage :: "(pystr \<times> json) list option"
  tr_error :: "pystr option"

definition add_event :: "(json \<Rightarrow> pystr) \<Rightarrow> coding_turn_result \<Rightarrow> normalized_event \<Rightarrow> coding_turn_result" where
  "add_event ps r ev =
     (case ev of (kind, payload) \<Rightarrow>
        if kind = lit ''output_delta'' then r\<lparr>tr_output_text := tr_output_text r @ str_of ps (get_or (JStr []) payload ''text'')\<rparr>
        else if kind = lit ''session_ref'' then
          (let s = str_of ps (get_or (JStr []) payload ''session_ref'') in if s = [] then r else r\<lparr>tr_session_ref := Some s\<rparr>)
        else if kind = lit ''usage'' then r\<lparr>tr_usage := Some payload\<rparr>
        else if kind = lit ''error'' then r\<lparr>tr_error := Some (str_of ps (get_or (JStr (lit ''coding executor failed'')) payload ''message''))\<rparr>
        else r)"

definition extract_turn_result :: "(json \<Rightarrow> pystr) \<Rightarrow> normalized_event list \<Rightarrow> coding_turn_result" where
  "extract_turn_result ps events =
     (let r = foldl (add_event ps) \<lparr>tr_output_text = [], tr_session_ref = None, tr_usage = None, tr_error = None\<rparr> events
      in r\<lparr>tr_output_text := py_strip (tr_output_text r)\<rparr>)"

section \<open>Redaction\<close>

function py_replace :: "pystr \<Rightarrow> pystr \<Rightarrow> pystr \<Rightarrow> pystr" where
  "py_replace old new [] = []"
| "py_replace old new (c # s) =
     (if old \<noteq> [] \<and> take (length old) (c # s) = old then new @ py_replace old new (drop (length old) (c # s)) else c # py_replace old new s)"
  by pat_completeness auto

termination
  by (relation "measure (\<lambda>(old, new, s). length s)") (auto simp: neq_Nil_conv)

definition redact_credential_values :: "pystr list \<Rightarrow> pystr \<Rightarrow> pystr" where
  "redact_credential_values secrets text =
     foldl (\<lambda>t secret. if 4 \<le> length secret then py_replace secret (lit ''[redacted]'') t else t) text secrets"

fun redact_event_payload :: "pystr list \<Rightarrow> json \<Rightarrow> json" where
  "redact_event_payload secrets (JStr s) = JStr (redact_credential_values secrets s)"
| "redact_event_payload secrets (JObj kvs) = JObj (map (\<lambda>(k, v). (k, redact_event_payload secrets v)) kvs)"
| "redact_event_payload secrets (JList xs) = JList (map (redact_event_payload secrets) xs)"
| "redact_event_payload secrets j = j"

end
