(* ===== verification/Coding.thy ===== *)
theory Coding
  imports Coding_Adapter Delegation Sandbox_Invariant
begin

text \<open>
  Coding sessions: \<^verbatim>\<open>repositories/coding_session_repository.py\<close>, \<^verbatim>\<open>services/coding_session_service.py\<close>, the transactions of
  \<^verbatim>\<open>services/coding_execution_service.py\<close> and the executor \<^verbatim>\<open>delegation/sandbox.py\<close>.

  A turn is executed by a worker between two transactions; the worker keeps the session and turn it read in the first one (\<open>seen\<close>),
  and the second one writes the columns that differ from them (\<open>set_col\<close>). \<open>co_cancels\<close> are the sessions with a cancel signal. All clock
  readings of one transaction are \<open>now\<close>; \<open>clk\<close> is the reading of the \<^verbatim>\<open>onupdate\<close> column. \<open>gen\<close> generates the ids of events. The
  preparation of sandbox and credentials is an argument: \<open>prepare\<close> answers the sandbox tables it leaves.
\<close>

section \<open>Data\<close>

datatype session_status =
    Session_pending | Session_starting | Session_idle | Session_running | Session_awaiting_plan_approval | Session_suspended
  | Session_failed | Session_completed | Session_cancelled

datatype turn_status = Turn_pending | Turn_running | Turn_completed | Turn_failed | Turn_cancelled

record coding_session =
  ks_id :: pystr
  ks_uid :: pystr
  ks_project_id :: pystr
  ks_conversation_id :: "int option"
  ks_parent_run_id :: "pystr option"
  ks_runtime_scope_id :: pystr
  ks_executor :: pystr
  ks_mode :: pystr
  ks_status :: session_status
  ks_title :: "pystr option"
  ks_workdir_path :: pystr
  ks_worktree_ref :: "pystr option"
  ks_sandbox_id :: "pystr option"
  ks_sandbox_generation :: "pystr option"
  ks_credential_fingerprint :: "pystr option"
  ks_cli_session_ref :: "pystr option"
  ks_policy_json :: json
  ks_budget_json :: json
  ks_usage_json :: json
  ks_last_activity_at :: "time option"
  ks_suspended_at :: "time option"
  ks_terminal_at :: "time option"
  ks_error_code :: "pystr option"
  ks_error_message :: "pystr option"
  ks_created_at :: "time option"
  ks_updated_at :: "time option"

record coding_turn =
  kt_id :: pystr
  kt_session_id :: pystr
  kt_seq :: int
  kt_request_text :: pystr
  kt_status :: turn_status
  kt_result_summary :: "pystr option"
  kt_usage_json :: json
  kt_started_at :: "time option"
  kt_ended_at :: "time option"
  kt_error_code :: "pystr option"
  kt_error_message :: "pystr option"
  kt_created_at :: "time option"

record coding_event =
  ke_id :: pystr
  ke_session_id :: pystr
  ke_turn_id :: "pystr option"
  ke_seq :: int
  ke_kind :: pystr
  ke_payload_json :: json
  ke_created_at :: "time option"

record coding_db =
  co_sandbox :: sandbox_db
  co_sessions :: "coding_session list"
  co_turns :: "coding_turn list"
  co_events :: "coding_event list"
  co_cancels :: "pystr list"

datatype coding_fault =
    Illegal_transition session_status session_status
  | Session_not_ready session_status
  | Session_not_found
  | Scope_mismatch pystr
  | Budget_exceeded
  | Budget_malformed
  | Policy_unsupported
  | Ownership_lost
  | Prepare_failed
  | Parse_failed
  | Coding_integrity

fun session_status_str :: "session_status \<Rightarrow> pystr" where
  "session_status_str Session_pending = lit ''pending''"
| "session_status_str Session_starting = lit ''starting''"
| "session_status_str Session_idle = lit ''idle''"
| "session_status_str Session_running = lit ''running''"
| "session_status_str Session_awaiting_plan_approval = lit ''awaiting_plan_approval''"
| "session_status_str Session_suspended = lit ''suspended''"
| "session_status_str Session_failed = lit ''failed''"
| "session_status_str Session_completed = lit ''completed''"
| "session_status_str Session_cancelled = lit ''cancelled''"

fun turn_status_str :: "turn_status \<Rightarrow> pystr" where
  "turn_status_str Turn_pending = lit ''pending''"
| "turn_status_str Turn_running = lit ''running''"
| "turn_status_str Turn_completed = lit ''completed''"
| "turn_status_str Turn_failed = lit ''failed''"
| "turn_status_str Turn_cancelled = lit ''cancelled''"

definition session_terminal :: "session_status \<Rightarrow> bool" where
  "session_terminal s \<longleftrightarrow> s \<in> {Session_completed, Session_failed, Session_cancelled}"

fun allowed_transitions :: "session_status \<Rightarrow> session_status list" where
  "allowed_transitions Session_pending = [Session_starting, Session_cancelled, Session_failed]"
| "allowed_transitions Session_starting = [Session_idle, Session_failed, Session_cancelled]"
| "allowed_transitions Session_idle = [Session_running, Session_suspended, Session_completed, Session_failed, Session_cancelled]"
| "allowed_transitions Session_running =
     [Session_idle, Session_awaiting_plan_approval, Session_suspended, Session_failed, Session_cancelled]"
| "allowed_transitions Session_awaiting_plan_approval = [Session_running, Session_idle, Session_cancelled, Session_failed]"
| "allowed_transitions Session_suspended = [Session_starting, Session_idle, Session_failed, Session_cancelled]"
| "allowed_transitions Session_failed = []"
| "allowed_transitions Session_completed = []"
| "allowed_transitions Session_cancelled = []"

section \<open>Repository\<close>

definition get_session :: "pystr \<Rightarrow> coding_db \<Rightarrow> coding_session option" where
  "get_session i db = find (\<lambda>s. ks_id s = i) (co_sessions db)"

definition get_turn :: "pystr \<Rightarrow> coding_db \<Rightarrow> coding_turn option" where
  "get_turn i db = find (\<lambda>t. kt_id t = i) (co_turns db)"

definition list_for_conversation :: "int \<Rightarrow> pystr \<Rightarrow> coding_db \<Rightarrow> coding_session list" where
  "list_for_conversation conversation_id uid db =
     sort_key (\<lambda>s. (nulls_last (ks_created_at s), ks_id s))
       (filter (\<lambda>s. ks_conversation_id s = Some conversation_id \<and> ks_uid s = uid) (co_sessions db))"

definition list_turns :: "pystr \<Rightarrow> coding_db \<Rightarrow> coding_turn list" where
  "list_turns session_id db = sort_key kt_seq (filter (\<lambda>t. kt_session_id t = session_id) (co_turns db))"

definition latest_turn :: "pystr \<Rightarrow> coding_db \<Rightarrow> coding_turn option" where
  "latest_turn session_id db = first_row (sort_key (\<lambda>t. - kt_seq t) (filter (\<lambda>t. kt_session_id t = session_id) (co_turns db)))"

definition list_events :: "pystr \<Rightarrow> int \<Rightarrow> nat \<Rightarrow> coding_db \<Rightarrow> coding_event list" where
  "list_events session_id after_seq limit db =
     take limit (sort_key ke_seq (filter (\<lambda>e. ke_session_id e = session_id \<and> after_seq < ke_seq e) (co_events db)))"

definition list_turns_by_status :: "turn_status \<Rightarrow> time option \<Rightarrow> nat \<Rightarrow> coding_db \<Rightarrow> coding_turn list" where
  "list_turns_by_status status started_before limit db =
     take limit (sort_key (\<lambda>t. nulls_last (kt_created_at t)) (filter (\<lambda>t. kt_status t = status
       \<and> (case started_before of None \<Rightarrow> True | Some b \<Rightarrow> (case kt_started_at t of None \<Rightarrow> False | Some x \<Rightarrow> x < b))) (co_turns db)))"

definition next_turn_seq :: "pystr \<Rightarrow> coding_db \<Rightarrow> int" where
  "next_turn_seq session_id db = max_int (map kt_seq (filter (\<lambda>t. kt_session_id t = session_id) (co_turns db))) + 1"

definition next_event_seq :: "pystr \<Rightarrow> coding_db \<Rightarrow> int" where
  "next_event_seq session_id db = max_int (map ke_seq (filter (\<lambda>e. ke_session_id e = session_id) (co_events db))) + 1"

definition append_event :: "(nat \<Rightarrow> pystr) \<Rightarrow> pystr \<Rightarrow> pystr \<Rightarrow> json \<Rightarrow> pystr option \<Rightarrow> time \<Rightarrow> coding_db \<Rightarrow> coding_db" where
  "append_event gen session_id kind payload turn_id now db =
     db\<lparr>co_events := co_events db @ [\<lparr>ke_id = gen (length (co_events db)), ke_session_id = session_id, ke_turn_id = turn_id,
       ke_seq = next_event_seq session_id db, ke_kind = kind, ke_payload_json = payload, ke_created_at = Some now\<rparr>]\<rparr>"

definition add_turn :: "pystr \<Rightarrow> pystr \<Rightarrow> turn_status \<Rightarrow> time \<Rightarrow> coding_session \<Rightarrow> coding_db \<Rightarrow> coding_fault + coding_db \<times> coding_turn" where
  "add_turn new_id request_text status now s db =
     (let t = \<lparr>kt_id = new_id, kt_session_id = ks_id s, kt_seq = next_turn_seq (ks_id s) db, kt_request_text = request_text,
            kt_status = status, kt_result_summary = None, kt_usage_json = json_empty,
            kt_started_at = (if status = Turn_running then Some now else None), kt_ended_at = None, kt_error_code = None,
            kt_error_message = None, kt_created_at = Some now\<rparr>
      in if new_id \<in> set (map kt_id (co_turns db)) then Inl Coding_integrity else Inr (db\<lparr>co_turns := co_turns db @ [t]\<rparr>, t))"

definition add_session ::
  "pystr \<Rightarrow> pystr \<Rightarrow> pystr \<Rightarrow> pystr \<Rightarrow> pystr \<Rightarrow> pystr \<Rightarrow> int option \<Rightarrow> pystr option \<Rightarrow> pystr \<Rightarrow> pystr option \<Rightarrow> json \<Rightarrow> json option \<Rightarrow> time
   \<Rightarrow> coding_db \<Rightarrow> coding_fault + coding_db \<times> coding_session" where
  "add_session new_id uid project_id runtime_scope_id executor workdir_path conversation_id parent_run_id mode title policy budget now db =
     (let s = \<lparr>ks_id = new_id, ks_uid = uid, ks_project_id = project_id, ks_conversation_id = conversation_id,
            ks_parent_run_id = parent_run_id, ks_runtime_scope_id = runtime_scope_id, ks_executor = executor, ks_mode = mode,
            ks_status = Session_pending, ks_title = title, ks_workdir_path = workdir_path, ks_worktree_ref = None,
            ks_sandbox_id = None, ks_sandbox_generation = None, ks_credential_fingerprint = None, ks_cli_session_ref = None,
            ks_policy_json = policy, ks_budget_json = or_obj budget, ks_usage_json = json_empty,
            ks_last_activity_at = Some now, ks_suspended_at = None, ks_terminal_at = None, ks_error_code = None,
            ks_error_message = None, ks_created_at = Some now, ks_updated_at = Some now\<rparr>
      in if new_id \<in> set (map ks_id (co_sessions db)) then Inl Coding_integrity
         else Inr (db\<lparr>co_sessions := co_sessions db @ [s]\<rparr>, s))"

definition finish_turn_row ::
  "turn_status \<Rightarrow> pystr option \<Rightarrow> json option \<Rightarrow> pystr option \<Rightarrow> pystr option \<Rightarrow> time \<Rightarrow> coding_turn \<Rightarrow> coding_turn" where
  "finish_turn_row status result_summary usage error_code error_message now t =
     t\<lparr>kt_status := status, kt_result_summary := result_summary, kt_usage_json := or_obj usage, kt_error_code := error_code,
       kt_error_message := error_message, kt_ended_at := Some now\<rparr>"

definition mark_turn_running :: "time \<Rightarrow> coding_turn \<Rightarrow> coding_turn" where
  "mark_turn_running now t = (if kt_status t = Turn_pending then t\<lparr>kt_status := Turn_running, kt_started_at := Some now\<rparr> else t)"

text \<open>What a commit writes of a session and of a turn that were read as \<open>seen\<close>.\<close>

definition flush_session :: "time \<Rightarrow> coding_session \<Rightarrow> coding_session \<Rightarrow> coding_session \<Rightarrow> coding_session" where
  "flush_session clk seen s row =
     row\<lparr>ks_executor := set_col (ks_executor seen) (ks_executor s) (ks_executor row),
       ks_status := set_col (ks_status seen) (ks_status s) (ks_status row),
       ks_sandbox_id := set_col (ks_sandbox_id seen) (ks_sandbox_id s) (ks_sandbox_id row),
       ks_cli_session_ref := set_col (ks_cli_session_ref seen) (ks_cli_session_ref s) (ks_cli_session_ref row),
       ks_policy_json := set_col (ks_policy_json seen) (ks_policy_json s) (ks_policy_json row),
       ks_last_activity_at := set_col (ks_last_activity_at seen) (ks_last_activity_at s) (ks_last_activity_at row),
       ks_suspended_at := set_col (ks_suspended_at seen) (ks_suspended_at s) (ks_suspended_at row),
       ks_terminal_at := set_col (ks_terminal_at seen) (ks_terminal_at s) (ks_terminal_at row),
       ks_error_code := set_col (ks_error_code seen) (ks_error_code s) (ks_error_code row),
       ks_error_message := set_col (ks_error_message seen) (ks_error_message s) (ks_error_message row),
       ks_updated_at := (if s = seen then ks_updated_at row else if ks_updated_at s = ks_updated_at seen then Some clk else ks_updated_at s)\<rparr>"

definition flush_turn :: "coding_turn \<Rightarrow> coding_turn \<Rightarrow> coding_turn \<Rightarrow> coding_turn" where
  "flush_turn seen t row =
     row\<lparr>kt_status := set_col (kt_status seen) (kt_status t) (kt_status row),
       kt_result_summary := set_col (kt_result_summary seen) (kt_result_summary t) (kt_result_summary row),
       kt_usage_json := set_col (kt_usage_json seen) (kt_usage_json t) (kt_usage_json row),
       kt_started_at := set_col (kt_started_at seen) (kt_started_at t) (kt_started_at row),
       kt_ended_at := set_col (kt_ended_at seen) (kt_ended_at t) (kt_ended_at row),
       kt_error_code := set_col (kt_error_code seen) (kt_error_code t) (kt_error_code row),
       kt_error_message := set_col (kt_error_message seen) (kt_error_message t) (kt_error_message row)\<rparr>"

definition save_session :: "time \<Rightarrow> coding_session \<Rightarrow> coding_session \<Rightarrow> coding_db \<Rightarrow> coding_db" where
  "save_session clk seen s db = db\<lparr>co_sessions := update_where (\<lambda>r. ks_id r = ks_id seen) (flush_session clk seen s) (co_sessions db)\<rparr>"

definition save_turn :: "coding_turn \<Rightarrow> coding_turn \<Rightarrow> coding_db \<Rightarrow> coding_db" where
  "save_turn seen t db = db\<lparr>co_turns := update_where (\<lambda>r. kt_id r = kt_id seen) (flush_turn seen t) (co_turns db)\<rparr>"

section \<open>Sessions and turns\<close>

definition session_transition ::
  "(nat \<Rightarrow> pystr) \<Rightarrow> session_status \<Rightarrow> pystr option \<Rightarrow> pystr option \<Rightarrow> time \<Rightarrow> coding_session \<times> coding_db
   \<Rightarrow> coding_fault + coding_session \<times> coding_db" where
  "session_transition gen target error_code error_message now x =
     (case x of (s, db) \<Rightarrow>
        if target \<notin> set (allowed_transitions (ks_status s)) then Inl (Illegal_transition (ks_status s) target)
        else Inr (s\<lparr>ks_status := target, ks_updated_at := Some now, ks_last_activity_at := Some now,
                 ks_suspended_at := (if target = Session_suspended then Some now else ks_suspended_at s),
                 ks_terminal_at := (if session_terminal target then Some now else ks_terminal_at s),
                 ks_error_code := (case error_code of None \<Rightarrow> ks_error_code s | Some c \<Rightarrow> Some c),
                 ks_error_message := (case error_message of None \<Rightarrow> ks_error_message s | Some m \<Rightarrow> Some m)\<rparr>,
               append_event gen (ks_id s) (lit ''session_status'')
                 (JObj [(lit ''status'', JStr (session_status_str target)), (lit ''error_code'', opt_str error_code)]) None now db))"

definition create_session ::
  "(nat \<Rightarrow> pystr) \<Rightarrow> pystr \<Rightarrow> pystr \<Rightarrow> pystr \<Rightarrow> pystr \<Rightarrow> pystr \<Rightarrow> pystr \<Rightarrow> int option \<Rightarrow> pystr option \<Rightarrow> pystr \<Rightarrow> pystr option \<Rightarrow> json \<Rightarrow> json option
   \<Rightarrow> time \<Rightarrow> coding_db \<Rightarrow> coding_fault + coding_session \<times> coding_db" where
  "create_session gen new_id uid project_id runtime_scope_id executor workdir_path conversation_id parent_run_id mode title policy budget now db =
     and_then (add_session new_id uid project_id runtime_scope_id executor workdir_path conversation_id parent_run_id mode title policy budget now db)
       (\<lambda>(db1, s). Inr (s, append_event gen (ks_id s) (lit ''session_status'')
          (JObj [(lit ''status'', JStr (session_status_str (ks_status s)))]) None now db1))"

text \<open>The common beginning of \<^verbatim>\<open>start_turn\<close> and \<^verbatim>\<open>queue_turn\<close>.\<close>

definition enter_running :: "(nat \<Rightarrow> pystr) \<Rightarrow> time \<Rightarrow> coding_session \<times> coding_db \<Rightarrow> coding_fault + coding_session \<times> coding_db" where
  "enter_running gen now x =
     (if ks_status (fst x) \<notin> {Session_pending, Session_idle} then Inl (Session_not_ready (ks_status (fst x)))
      else and_then
        (if ks_status (fst x) = Session_pending
         then and_then (session_transition gen Session_starting None None now x) (session_transition gen Session_idle None None now)
         else Inr x)
        (session_transition gen Session_running None None now))"

definition start_turn ::
  "(nat \<Rightarrow> pystr) \<Rightarrow> pystr \<Rightarrow> pystr \<Rightarrow> time \<Rightarrow> coding_session \<times> coding_db \<Rightarrow> coding_fault + coding_session \<times> coding_turn \<times> coding_db" where
  "start_turn gen new_id request_text now x =
     and_then (enter_running gen now x) (\<lambda>(s, db).
     and_then (add_turn new_id request_text Turn_running now s db) (\<lambda>(db1, t).
       Inr (s, t, append_event gen (ks_id s) (lit ''turn_started'')
         (JObj [(lit ''seq'', JInt (kt_seq t)), (lit ''request_text'', JStr request_text)]) (Some (kt_id t)) now db1)))"

definition pending_marker :: "pystr \<Rightarrow> bool \<Rightarrow> pystr option \<Rightarrow> json" where
  "pending_marker turn_id plan_only run_id =
     JObj [(lit ''id'', JStr turn_id), (lit ''plan_only'', JBool plan_only),
           (lit ''enqueueing_run_id'', if or_empty run_id = [] then JNull else JStr (or_empty run_id))]"

fun dict_set :: "json \<Rightarrow> pystr \<Rightarrow> json \<Rightarrow> json" where
  "dict_set (JObj kvs) k v = JObj (kvs @ [(k, v)])"
| "dict_set j k v = JObj [(k, v)]"

definition queue_turn ::
  "(nat \<Rightarrow> pystr) \<Rightarrow> pystr \<Rightarrow> pystr \<Rightarrow> bool \<Rightarrow> pystr option \<Rightarrow> time \<Rightarrow> coding_session \<times> coding_db
   \<Rightarrow> coding_fault + coding_session \<times> coding_turn \<times> coding_db" where
  "queue_turn gen new_id request_text plan_only enqueueing_run_id now x =
     and_then (enter_running gen now x) (\<lambda>(s, db).
     and_then (add_turn new_id request_text Turn_pending now s db) (\<lambda>(db1, t).
       Inr (s\<lparr>ks_policy_json := dict_set (ks_policy_json s) (lit ''pending_turn'') (pending_marker (kt_id t) plan_only enqueueing_run_id)\<rparr>, t,
         append_event gen (ks_id s) (lit ''turn_queued'')
           (JObj [(lit ''seq'', JInt (kt_seq t)), (lit ''plan_only'', JBool plan_only)]) (Some (kt_id t)) now db1)))"

definition marked_turn :: "coding_session \<Rightarrow> pystr \<Rightarrow> (pystr \<times> json) list option" where
  "marked_turn s turn_id =
     (case json_get (ks_policy_json s) (lit ''pending_turn'') of
        Some (JObj m) \<Rightarrow> if json_get (JObj m) (lit ''id'') = Some (JStr turn_id) then Some m else None
      | _ \<Rightarrow> None)"

definition clear_pending_turn :: "pystr \<Rightarrow> coding_session \<Rightarrow> coding_session" where
  "clear_pending_turn turn_id s =
     (case marked_turn s turn_id of
        None \<Rightarrow> s
      | Some _ \<Rightarrow> s\<lparr>ks_policy_json := (case ks_policy_json s of
            JObj kvs \<Rightarrow> JObj (filter (\<lambda>(k, _). k \<noteq> lit ''pending_turn'') kvs) | j \<Rightarrow> j)\<rparr>)"

definition queued_plan_only :: "coding_session \<Rightarrow> pystr \<Rightarrow> bool \<Rightarrow> bool" where
  "queued_plan_only s turn_id fallback =
     (case marked_turn s turn_id of None \<Rightarrow> fallback | Some m \<Rightarrow> \<not> json_falsy (get_plain m ''plan_only''))"

definition finish_turn ::
  "(nat \<Rightarrow> pystr) \<Rightarrow> turn_status \<Rightarrow> pystr option \<Rightarrow> json option \<Rightarrow> pystr option \<Rightarrow> pystr option \<Rightarrow> pystr option \<Rightarrow> time
   \<Rightarrow> coding_session \<times> coding_turn \<times> coding_db \<Rightarrow> coding_fault + coding_session \<times> coding_turn \<times> coding_db" where
  "finish_turn gen status result_summary usage error_code error_message cli_session_ref now x =
     (case x of (s, t, db) \<Rightarrow>
        let t1 = finish_turn_row status result_summary usage error_code error_message now t;
            s1 = clear_pending_turn (kt_id t) s;
            s2 = (if or_empty cli_session_ref = [] then s1 else s1\<lparr>ks_cli_session_ref := cli_session_ref\<rparr>);
            db1 = append_event gen (ks_id s) (lit ''turn_finished'')
              (JObj [(lit ''seq'', JInt (kt_seq t)), (lit ''status'', JStr (turn_status_str status)), (lit ''summary'', opt_str result_summary),
                     (lit ''usage'', or_obj usage), (lit ''error_code'', opt_str error_code)]) (Some (kt_id t)) now db
        in and_then (session_transition gen (if status = Turn_completed then Session_idle else Session_failed) error_code error_message now (s2, db1))
             (\<lambda>(s3, db2). Inr (s3, t1, db2)))"

fun record_events :: "(nat \<Rightarrow> pystr) \<Rightarrow> pystr \<Rightarrow> pystr option \<Rightarrow> time \<Rightarrow> normalized_event list \<Rightarrow> coding_db \<Rightarrow> coding_db" where
  "record_events gen session_id turn_id now [] db = db"
| "record_events gen session_id turn_id now ((kind, payload) # evs) db =
     record_events gen session_id turn_id now evs (append_event gen session_id kind (JObj payload) turn_id now db)"

section \<open>Execution\<close>

text \<open>Where a session may be continued: conversation, project, runtime scope and Workdir.\<close>

record coding_place =
  pl_uid :: pystr
  pl_project_id :: pystr
  pl_scope_key :: pystr
  pl_sandbox_id :: pystr
  pl_workdir :: pystr

definition validate_session_scope :: "coding_place \<Rightarrow> int option \<Rightarrow> coding_session \<Rightarrow> coding_fault + unit" where
  "validate_session_scope pl conversation_id s =
     (if conversation_id \<noteq> None \<and> ks_conversation_id s \<noteq> conversation_id then Inl (Scope_mismatch (lit ''conversation''))
      else if ks_project_id s \<noteq> pl_project_id pl then Inl (Scope_mismatch (lit ''project''))
      else if ks_runtime_scope_id s \<noteq> pl_scope_key pl then Inl (Scope_mismatch (lit ''runtime scope''))
      else if ks_workdir_path s \<noteq> pl_workdir pl then Inl (Scope_mismatch (lit ''workdir''))
      else Inr ())"

definition title_of_task :: "pystr \<Rightarrow> pystr option" where
  "title_of_task task = or_none (take 120 (py_strip task))"

text \<open>The session of a turn: an idle one of the user in this place, or a new one.\<close>

definition turn_session ::
  "(nat \<Rightarrow> pystr) \<Rightarrow> pystr \<Rightarrow> coding_place \<Rightarrow> pystr \<Rightarrow> pystr \<Rightarrow> pystr option \<Rightarrow> json \<Rightarrow> json option \<Rightarrow> int option \<Rightarrow> pystr option \<Rightarrow> time \<Rightarrow> coding_db
   \<Rightarrow> coding_fault + coding_session \<times> coding_db" where
  "turn_session gen new_id pl executor task session_id snapshot budget conversation_id parent_run_id now db =
     (if or_empty session_id \<noteq> []
      then case get_session (or_empty session_id) db of
             None \<Rightarrow> Inl Session_not_found
           | Some s \<Rightarrow>
               if ks_uid s \<noteq> pl_uid pl then Inl Session_not_found
               else and_then (validate_session_scope pl conversation_id s) (\<lambda>_.
                 if ks_status s \<noteq> Session_idle then Inl (Session_not_ready (ks_status s)) else Inr (s, db))
      else create_session gen new_id (pl_uid pl) (pl_project_id pl) (pl_scope_key pl) executor (pl_workdir pl) conversation_id parent_run_id
             (lit ''headless'') (title_of_task task) (JObj [(lit ''executor'', JStr executor), (lit ''agent_config'', snapshot)]) budget now db)"

text \<open>\<^verbatim>\<open>int((session.budget_json or {}).get("max_turns") or 0)\<close>; \<open>to_int\<close> is \<^verbatim>\<open>int\<close> on other values than integers, \<open>None\<close> when it raises.\<close>

definition max_turns :: "(json \<Rightarrow> int option) \<Rightarrow> coding_session \<Rightarrow> int option" where
  "max_turns to_int s =
     (let v = (case json_get (ks_budget_json s) (lit ''max_turns'') of None \<Rightarrow> JNull | Some j \<Rightarrow> j)
      in if json_falsy v then Some 0 else case json_int v of Some n \<Rightarrow> Some n | None \<Rightarrow> to_int v)"

definition int_str :: "int \<Rightarrow> pystr" where
  "int_str n = (if n < 0 then 45 # nat_str (nat (- n)) else nat_str (nat n))"

definition budget_message :: "int \<Rightarrow> pystr" where
  "budget_message n = lit ''coding session budget exceeded: max_turns='' @ int_str n"

type_synonym preparation = "sandbox_db \<Rightarrow> coding_fault + sandbox_db"

text \<open>The first transaction of \<^verbatim>\<open>run_turn\<close>; a session over its budget fails and that is committed.\<close>

definition run_turn_begin ::
  "(json \<Rightarrow> int option) \<Rightarrow> (nat \<Rightarrow> pystr) \<Rightarrow> pystr \<Rightarrow> pystr \<Rightarrow> coding_place \<Rightarrow> pystr \<Rightarrow> pystr \<Rightarrow> pystr option \<Rightarrow> json \<Rightarrow> json option \<Rightarrow> int option
   \<Rightarrow> pystr option \<Rightarrow> preparation \<Rightarrow> time \<Rightarrow> time \<Rightarrow> coding_db \<Rightarrow> coding_db \<times> (coding_fault + coding_session \<times> coding_turn)" where
  "run_turn_begin to_int gen new_sid new_tid pl executor task session_id snapshot budget conversation_id parent_run_id prepare now clk db =
     (case and_then (turn_session gen new_sid pl executor task session_id snapshot budget conversation_id parent_run_id now db) (\<lambda>(s, db1).
           and_then (prepare (co_sandbox db1)) (\<lambda>sb. Inr (s, db1\<lparr>co_sandbox := sb\<rparr>))) of
        Inl e \<Rightarrow> (db, Inl e)
      | Inr (seen, db1) \<Rightarrow>
          let s = seen\<lparr>ks_executor := executor, ks_sandbox_id := Some (pl_sandbox_id pl)\<rparr>
          in case max_turns to_int s of
               None \<Rightarrow> (db, Inl Budget_malformed)
             | Some limit \<Rightarrow>
                 if limit \<noteq> 0 \<and> limit \<le> int (length (list_turns (ks_id s) db1))
                 then (case session_transition gen Session_failed (Some (lit ''budget_exceeded'')) (Some (budget_message limit)) now (s, db1) of
                         Inl e \<Rightarrow> (db, Inl e)
                       | Inr (s', db2) \<Rightarrow> (save_session clk seen s' db2, Inl Budget_exceeded))
                 else (case start_turn gen new_tid task now (s, db1) of
                         Inl e \<Rightarrow> (db, Inl e)
                       | Inr (s', t, db2) \<Rightarrow> (save_session clk seen s' db2, Inr (flush_session clk seen s' seen, t))))"

definition queue_policy_ok :: "policy_error + sandbox_policy \<Rightarrow> bool" where
  "queue_policy_ok policy = (case policy of Inl _ \<Rightarrow> False | Inr p \<Rightarrow> is_dedicated p \<and> sp_lifecycle p \<in> {Persistent, Resident})"

text \<open>\<^verbatim>\<open>_queue_turn\<close> of the coding tools; \<open>policy\<close> is the resolved sandbox policy of the agent.\<close>

definition queue_coding_turn ::
  "policy_error + sandbox_policy \<Rightarrow> (nat \<Rightarrow> pystr) \<Rightarrow> pystr \<Rightarrow> pystr \<Rightarrow> coding_place \<Rightarrow> pystr \<Rightarrow> pystr \<Rightarrow> bool \<Rightarrow> pystr option \<Rightarrow> json \<Rightarrow> json option
   \<Rightarrow> int option \<Rightarrow> pystr option \<Rightarrow> preparation \<Rightarrow> time \<Rightarrow> time \<Rightarrow> coding_db \<Rightarrow> coding_fault + coding_db \<times> coding_turn" where
  "queue_coding_turn policy gen new_sid new_tid pl executor task plan_only session_id snapshot budget conversation_id parent_run_id prepare now clk db =
     (if \<not> queue_policy_ok policy then Inl Policy_unsupported
      else and_then (turn_session gen new_sid pl executor task session_id snapshot budget conversation_id parent_run_id now db) (\<lambda>(seen, db1).
        and_then (prepare (co_sandbox db1)) (\<lambda>sb.
        and_then (queue_turn gen new_tid task plan_only parent_run_id now (seen\<lparr>ks_executor := executor\<rparr>, db1\<lparr>co_sandbox := sb\<rparr>)) (\<lambda>(s, t, db2).
          Inr (save_session clk seen s db2, t)))))"

text \<open>What the executor did: the probe for its native state, its events (\<open>None\<close>: they cannot be normalized), a failure of the
  sandbox and the exit code.\<close>

record turn_answer =
  ta_state_present :: bool
  ta_events :: "normalized_event list option"
  ta_infra_error :: "pystr option"
  ta_exit_code :: int
  ta_secrets :: "pystr list"

definition redact_event :: "pystr list \<Rightarrow> normalized_event \<Rightarrow> normalized_event" where
  "redact_event secrets ev = (fst ev, map (\<lambda>(k, v). (k, redact_event_payload secrets v)) (snd ev))"

definition turn_events :: "turn_answer \<Rightarrow> normalized_event list \<Rightarrow> normalized_event list" where
  "turn_events a parsed = map (redact_event (ta_secrets a))
     (parsed @ (case ta_infra_error a of None \<Rightarrow> [] | Some m \<Rightarrow> [(lit ''error'', [(lit ''message'', JStr m)])]))"

text \<open>How the turn and its session end, given the result of the executor and the cancel signal.\<close>

definition settle_turn ::
  "(nat \<Rightarrow> pystr) \<Rightarrow> turn_answer \<Rightarrow> coding_turn_result \<Rightarrow> bool \<Rightarrow> time \<Rightarrow> coding_session \<times> coding_turn \<times> coding_db
   \<Rightarrow> coding_fault + coding_session \<times> coding_turn \<times> coding_db" where
  "settle_turn gen a result cancelled now x =
     (case x of (s, turn, db) \<Rightarrow>
        let failed = (or_empty (tr_error result) \<noteq> [] \<or> or_empty (ta_infra_error a) \<noteq> [] \<or> ta_exit_code a \<noteq> 0);
            summary = redact_credential_values (ta_secrets a) (take 2000 (tr_output_text result));
            message = (if or_empty (tr_error result) \<noteq> [] then or_empty (tr_error result) else or_empty (ta_infra_error a));
            usage = map_option JObj (tr_usage result)
        in if cancelled
           then and_then (session_transition gen Session_cancelled None None now
                  (s, append_event gen (ks_id s) (lit ''turn_finished'')
                    (JObj [(lit ''seq'', JInt (kt_seq turn)), (lit ''status'', JStr (lit ''cancelled''))]) (Some (kt_id turn)) now db))
                  (\<lambda>(s1, db1). Inr (s1, finish_turn_row Turn_cancelled (Some summary) usage None None now turn, db1))
           else finish_turn gen (if failed then Turn_failed else Turn_completed) (Some summary) usage
                  (if failed then Some (lit ''executor_error'') else None)
                  (or_none (redact_credential_values (ta_secrets a) message)) (tr_session_ref result) now (s, turn, db))"

text \<open>
  The closing transaction of a turn. \<open>guard\<close> is the answer of the ownership check (\<open>None\<close> for a turn that is run inside its own run,
  which has none), \<open>cancelled\<close> the cancel signal.
\<close>

definition execute_turn_tail ::
  "(json \<Rightarrow> pystr) \<Rightarrow> (nat \<Rightarrow> pystr) \<Rightarrow> turn_answer \<Rightarrow> bool option \<Rightarrow> bool \<Rightarrow> time \<Rightarrow> time \<Rightarrow> coding_session \<Rightarrow> coding_turn \<Rightarrow> coding_db
   \<Rightarrow> coding_db \<times> (coding_fault + session_status)" where
  "execute_turn_tail ps gen a guard cancelled now clk seen turn db =
     (let degraded = (or_empty (ks_cli_session_ref seen) \<noteq> [] \<and> \<not> ta_state_present a);
          s0 = (if degraded then seen\<lparr>ks_cli_session_ref := None\<rparr> else seen);
          db0 = (if degraded then append_event gen (ks_id seen) (lit ''resume_degraded'')
                   (JObj [(lit ''reason'', JStr (lit ''cli_state_missing'')), (lit ''executor'', JStr (ks_executor seen))]) None now db else db)
      in case ta_events a of
           None \<Rightarrow> (db, Inl Parse_failed)
         | Some parsed \<Rightarrow>
             if guard = Some False then (db, Inl Ownership_lost)
             else
               let events = turn_events a parsed
               in (case settle_turn gen a (extract_turn_result ps events) cancelled now
                          (s0, turn, record_events gen (ks_id seen) (Some (kt_id turn)) now events db0) of
                     Inl e \<Rightarrow> (db, Inl e)
                   | Inr (s, t, db2) \<Rightarrow>
                       let db3 = save_turn turn t (save_session clk seen s db2)
                       in (db3\<lparr>co_cancels := filter (\<lambda>x. x \<noteq> ks_id seen) (co_cancels db3)\<rparr>, Inr (ks_status s))))"

definition cancel_session ::
  "(nat \<Rightarrow> pystr) \<Rightarrow> coding_place \<Rightarrow> time \<Rightarrow> time \<Rightarrow> coding_session \<Rightarrow> coding_db \<Rightarrow> coding_fault + coding_db" where
  "cancel_session gen pl now clk seen db =
     (if ks_uid seen \<noteq> pl_uid pl then Inl Session_not_found
      else if session_terminal (ks_status seen) then Inl (Session_not_ready (ks_status seen))
      else and_then (session_transition gen Session_cancelled None None now (seen, db)) (\<lambda>(s, db1). Inr (save_session clk seen s db1)))"

section \<open>The worker's job\<close>

datatype job_skip =
    Session_missing | Turn_missing | Turn_not_pending turn_status | Skip_session_terminal | Skip_scope_unsupported | Skip_scope_malformed

definition cancel_terminal_turn :: "time \<Rightarrow> time \<Rightarrow> coding_session \<Rightarrow> coding_turn \<Rightarrow> coding_db \<Rightarrow> coding_db" where
  "cancel_terminal_turn now clk s t db =
     save_session clk s (clear_pending_turn (kt_id t) s)
       (save_turn t (finish_turn_row Turn_cancelled None None (Some (lit ''session_terminal'')) None now t) db)"

text \<open>The check before the sandbox lease is acquired, and the transaction that starts the turn after it.\<close>

definition job_check :: "time \<Rightarrow> time \<Rightarrow> pystr \<Rightarrow> pystr \<Rightarrow> coding_db \<Rightarrow> coding_db \<times> (job_skip + sandbox_key)" where
  "job_check now clk session_id turn_id db =
     (case get_session session_id db of
        None \<Rightarrow> (db, Inl Session_missing)
      | Some s \<Rightarrow>
          (case get_turn turn_id db of
             None \<Rightarrow> (db, Inl Turn_missing)
           | Some t \<Rightarrow>
               if kt_status t \<noteq> Turn_pending then (db, Inl (Turn_not_pending (kt_status t)))
               else if session_terminal (ks_status s) then (cancel_terminal_turn now clk s t db, Inl Skip_session_terminal)
               else (case from_runtime_scope (ks_uid s) (ks_runtime_scope_id s) of
                       None \<Rightarrow> (db, Inl Skip_scope_malformed)
                     | Some (Thread_scope _ _) \<Rightarrow> (db, Inl Skip_scope_unsupported)
                     | Some (Agent_project_scope u a p) \<Rightarrow> (db, Inr (u, a, p)))))"

definition job_begin :: "time \<Rightarrow> time \<Rightarrow> pystr \<Rightarrow> pystr \<Rightarrow> bool \<Rightarrow> coding_db \<Rightarrow> coding_db \<times> (job_skip + coding_session \<times> coding_turn \<times> bool)" where
  "job_begin now clk session_id turn_id plan_only db =
     (case get_session session_id db of
        None \<Rightarrow> (db, Inl Session_missing)
      | Some s \<Rightarrow>
          (case get_turn turn_id db of
             None \<Rightarrow> (db, Inl Turn_missing)
           | Some t \<Rightarrow>
               if kt_status t \<noteq> Turn_pending then (db, Inl (Turn_not_pending (kt_status t)))
               else if session_terminal (ks_status s) then (cancel_terminal_turn now clk s t db, Inl Skip_session_terminal)
               else (save_turn t (mark_turn_running now t) db, Inr (s, mark_turn_running now t, queued_plan_only s turn_id plan_only))))"

definition cancel_queued_turn ::
  "(nat \<Rightarrow> pystr) \<Rightarrow> time \<Rightarrow> time \<Rightarrow> coding_session \<Rightarrow> coding_turn \<Rightarrow> coding_db \<Rightarrow> coding_fault + coding_db" where
  "cancel_queued_turn gen now clk seen turn db =
     and_then (session_transition gen Session_cancelled None None now (clear_pending_turn (kt_id turn) seen,
         append_event gen (ks_id seen) (lit ''turn_finished'')
           (JObj [(lit ''seq'', JInt (kt_seq turn)), (lit ''status'', JStr (lit ''cancelled''))]) (Some (kt_id turn)) now db)) (\<lambda>(s, db1).
       let db2 = save_turn turn (finish_turn_row Turn_cancelled None None (Some (lit ''cancel_requested'')) None now turn) (save_session clk seen s db1)
       in Inr (db2\<lparr>co_cancels := filter (\<lambda>x. x \<noteq> ks_id seen) (co_cancels db2)\<rparr>))"

text \<open>The common part of \<^verbatim>\<open>_fail_owned_coding_turn\<close> and of the reconciliation of a turn whose worker is lost.\<close>

definition fail_running_turn ::
  "(nat \<Rightarrow> pystr) \<Rightarrow> pystr \<Rightarrow> pystr \<Rightarrow> time \<Rightarrow> time \<Rightarrow> coding_session \<Rightarrow> coding_turn \<Rightarrow> coding_db \<Rightarrow> coding_fault + coding_db" where
  "fail_running_turn gen error_code error_message now clk s t db =
     (let s1 = clear_pending_turn (kt_id t) s;
          db1 = append_event gen (ks_id s) (lit ''turn_finished'')
            (JObj [(lit ''seq'', JInt (kt_seq t)), (lit ''status'', JStr (lit ''failed'')), (lit ''error_code'', JStr error_code)]) (Some (kt_id t)) now
            (save_turn t (finish_turn_row Turn_failed None None (Some error_code) (Some error_message) now t) db)
      in if ks_status s = Session_running
         then and_then (session_transition gen Session_failed (Some error_code) (Some error_message) now (s1, db1))
                (\<lambda>(s2, db2). Inr (save_session clk s s2 db2))
         else Inr (save_session clk s s1 db1))"

definition fail_owned_coding_turn ::
  "(nat \<Rightarrow> pystr) \<Rightarrow> pystr \<Rightarrow> pystr \<Rightarrow> pystr \<Rightarrow> pystr \<Rightarrow> bool \<Rightarrow> time \<Rightarrow> time \<Rightarrow> coding_db \<Rightarrow> coding_fault + coding_db \<times> bool" where
  "fail_owned_coding_turn gen session_id turn_id error_code error_message owned now clk db =
     (if \<not> owned then Inr (db, False)
      else case (get_session session_id db, get_turn turn_id db) of
             (Some s, Some t) \<Rightarrow>
               if kt_status t \<noteq> Turn_running then Inr (db, False)
               else and_then (fail_running_turn gen error_code error_message now clk s t db) (\<lambda>d. Inr (d, True))
           | _ \<Rightarrow> Inr (db, False))"

definition worker_lost_message :: pystr where
  "worker_lost_message = [32534, 30721, 32, 116, 117, 114, 110, 32, 25191, 34892, 36229, 26102, 19988, 32, 119, 111, 114, 107, 101, 114, 32, 26410,
     33021, 25910, 25947, 32467, 26524]"

text \<open>\<open>digest\<close> is the hexadecimal SHA-256 of a text.\<close>

definition coding_turn_owner_prefix :: "(pystr \<Rightarrow> pystr) \<Rightarrow> pystr \<Rightarrow> pystr" where
  "coding_turn_owner_prefix digest turn_id = lit ''coding-turn:'' @ take 16 (digest turn_id) @ [58]"

definition coding_turn_owner_id :: "(pystr \<Rightarrow> pystr) \<Rightarrow> pystr \<Rightarrow> pystr \<Rightarrow> pystr" where
  "coding_turn_owner_id digest token turn_id = coding_turn_owner_prefix digest turn_id @ take 16 token"

text \<open>The guard of a worker's closing writes: no heartbeat was \<open>lost\<close> and the lease is still active.\<close>

definition owns_coding_turn_lease :: "bool \<Rightarrow> sandbox_key \<Rightarrow> pystr \<Rightarrow> time \<Rightarrow> sandbox_db \<Rightarrow> bool" where
  "owns_coding_turn_lease lost key owner_id now sb \<longleftrightarrow>
     \<not> lost \<and> (case key of (uid, agent_slug, project_id) \<Rightarrow> owns_active uid agent_slug project_id owner_id now sb)"

text \<open>
  One turn of \<^verbatim>\<open>reconcile_coding_turns\<close>. A turn that has run for too long fails unless a worker of that turn holds the sandbox
  lease. A runtime scope that cannot be parsed raises and ends the pass.
\<close>

definition worker_alive :: "(pystr \<Rightarrow> pystr) \<Rightarrow> sandbox_scope \<Rightarrow> pystr \<Rightarrow> time \<Rightarrow> sandbox_db \<Rightarrow> bool" where
  "worker_alive digest sc turn_id now sb =
     (case sc of
        Agent_project_scope uid agent_slug project_id \<Rightarrow>
          owns_active_prefix uid agent_slug project_id (lit ''coding_session'') (coding_turn_owner_prefix digest turn_id) now sb
      | _ \<Rightarrow> False)"

definition reconcile_turn :: "(pystr \<Rightarrow> pystr) \<Rightarrow> (nat \<Rightarrow> pystr) \<Rightarrow> time \<Rightarrow> time \<Rightarrow> coding_turn \<Rightarrow> coding_db \<Rightarrow> coding_fault + coding_db \<times> nat" where
  "reconcile_turn digest gen now clk listed db =
     (case get_session (kt_session_id listed) db of
        None \<Rightarrow> Inr (db, 0)
      | Some s \<Rightarrow>
          (case from_runtime_scope (ks_uid s) (ks_runtime_scope_id s) of
             None \<Rightarrow> Inl (Scope_mismatch (lit ''runtime scope''))
           | Some sc \<Rightarrow>
               if worker_alive digest sc (kt_id listed) now (co_sandbox db) then Inr (db, 0)
               else
                 (case get_turn (kt_id listed) db of
                    None \<Rightarrow> Inr (db, 0)
                  | Some t \<Rightarrow>
                      if kt_status t \<noteq> Turn_running then Inr (db, 0)
                      else and_then (fail_running_turn gen (lit ''coding_worker_lost'') worker_lost_message now clk s t db) (\<lambda>d. Inr (d, 1)))))"

fun reconcile_turns :: "(pystr \<Rightarrow> pystr) \<Rightarrow> (nat \<Rightarrow> pystr) \<Rightarrow> time \<Rightarrow> time \<Rightarrow> coding_turn list \<Rightarrow> coding_db \<Rightarrow> coding_fault + coding_db \<times> nat" where
  "reconcile_turns digest gen now clk [] db = Inr (db, 0)"
| "reconcile_turns digest gen now clk (t # ts) db =
     and_then (reconcile_turn digest gen now clk t db) (\<lambda>(db1, a).
     and_then (reconcile_turns digest gen now clk ts db1) (\<lambda>(db2, b). Inr (db2, a + b)))"

text \<open>The turns to publish again are the first component of the result.\<close>

definition reconcile_coding_turns ::
  "(pystr \<Rightarrow> pystr) \<Rightarrow> (nat \<Rightarrow> pystr) \<Rightarrow> int \<Rightarrow> time \<Rightarrow> time \<Rightarrow> coding_db \<Rightarrow> coding_fault + (pystr \<times> pystr \<times> bool) list \<times> coding_db \<times> nat" where
  "reconcile_coding_turns digest gen stale_after now clk db =
     (let pending = map (\<lambda>t. (kt_session_id t, kt_id t, case get_session (kt_session_id t) db of None \<Rightarrow> False | Some s \<Rightarrow> queued_plan_only s (kt_id t) False))
            (list_turns_by_status Turn_pending None 200 db)
      in and_then (reconcile_turns digest gen now clk (list_turns_by_status Turn_running (Some (now - stale_after * 1000000)) 200 db) db)
           (\<lambda>(db1, failed). Inr (pending, db1, failed)))"

section \<open>Tools\<close>

text \<open>\<^verbatim>\<open>coding_agent_config_snapshot\<close>: what a queued turn keeps of the agent's configuration and the project's overrides.\<close>

definition obj_of :: "json option \<Rightarrow> (pystr \<times> json) list" where
  "obj_of j = (case j of Some (JObj kvs) \<Rightarrow> kvs | _ \<Rightarrow> [])"

definition coding_agent_config_snapshot :: "json option \<Rightarrow> json option \<Rightarrow> (pystr \<times> json) list" where
  "coding_agent_config_snapshot agent_config overrides =
     (lit ''_coding_effective_snapshot'', JBool True)
     # concat (map (\<lambda>k. let merged = obj_of (json_get (JObj (obj_of agent_config)) k) @ obj_of (json_get (JObj (obj_of overrides)) k)
                        in if merged = [] then [] else [(k, JObj merged)]) [lit ''coding'', lit ''sandbox''])"

text \<open>The executor of a turn among the enabled ones; \<open>None\<close> when the tool refuses.\<close>

definition select_executor :: "pystr list \<Rightarrow> pystr option \<Rightarrow> pystr option \<Rightarrow> pystr option" where
  "select_executor enabled fallback executor =
     (let wanted = lower (py_strip (or_empty executor));
          normalized = (if wanted = [] then or_empty fallback else wanted)
      in if normalized = [] \<or> normalized \<notin> set valid_executors \<or> normalized \<notin> set enabled then None else Some normalized)"

definition await_blocked_by_current_run :: "(json \<Rightarrow> pystr) \<Rightarrow> coding_session \<Rightarrow> coding_turn option \<Rightarrow> pystr \<Rightarrow> bool" where
  "await_blocked_by_current_run ps s latest current_run_id =
     (case latest of
        None \<Rightarrow> False
      | Some t \<Rightarrow>
          kt_status t \<in> {Turn_pending, Turn_running}
          \<and> (let run = (case json_get (ks_policy_json s) (lit ''pending_turn'') of
                   Some (JObj m) \<Rightarrow> get_or JNull m ''enqueueing_run_id'' | _ \<Rightarrow> JNull)
             in (if json_falsy run then or_empty (ks_parent_run_id s) else str_of ps run) = current_run_id))"

datatype control_answer = Cancel_signalled | Session_cancel coding_db

text \<open>
  \<^verbatim>\<open>coding_session_control\<close> with the action \<^verbatim>\<open>cancel\<close>: a running session gets a signal, any other is cancelled at once. The row is read
  first (\<open>seen\<close>) and locked later, when the table may be another one (\<open>later\<close>); the object keeps what was read.
\<close>

definition coding_session_control ::
  "(nat \<Rightarrow> pystr) \<Rightarrow> coding_place \<Rightarrow> int option \<Rightarrow> pystr \<Rightarrow> time \<Rightarrow> time \<Rightarrow> coding_db \<Rightarrow> coding_db \<Rightarrow> coding_fault + control_answer" where
  "coding_session_control gen pl conversation_id session_id now clk db later =
     (case get_session session_id db of
        None \<Rightarrow> Inl Session_not_found
      | Some seen \<Rightarrow>
          if ks_uid seen \<noteq> pl_uid pl then Inl Session_not_found
          else and_then (validate_session_scope pl conversation_id seen) (\<lambda>_.
            if ks_status seen = Session_running then Inr Cancel_signalled
            else and_then (cancel_session gen pl now clk seen later) (\<lambda>d. Inr (Session_cancel d))))"

section \<open>The sandbox executor of delegations\<close>

text \<open>
  \<^verbatim>\<open>dispatch\<close>: the coding session and its first turn are added, the caller commits. \<open>snapshot\<close> is the frozen configuration,
  \<open>policy\<close> the resolved sandbox policy.
\<close>

definition sandbox_dispatch ::
  "(json \<Rightarrow> pystr) \<Rightarrow> policy_error + sandbox_policy \<Rightarrow> (nat \<Rightarrow> pystr) \<Rightarrow> pystr \<Rightarrow> pystr \<Rightarrow> pystr \<Rightarrow> json \<Rightarrow> preparation \<Rightarrow> delegation_request
   \<Rightarrow> time \<Rightarrow> time \<Rightarrow> coding_db \<Rightarrow> executor_fault + coding_db \<times> delegation_handle" where
  "sandbox_dispatch ps policy gen new_sid new_tid key snapshot prepare req now clk db =
     (let meta = dr_metadata req;
          uid = str_of ps (get_or (JStr []) meta ''uid'');
          scope_id = str_of ps (get_or (JStr []) meta ''runtime_scope_id'');
          workdir = str_of ps (get_or (JStr []) meta ''workdir_relative_path'');
          conversation = json_int (get_plain meta ''conversation_id'');
          plan_only = \<not> json_falsy (get_plain meta ''plan_only'')
      in if uid = [] \<or> scope_id = [] \<or> workdir = [] then Inl (Delegation_fault (lit ''sandbox_scope_missing''))
         else case from_runtime_scope uid scope_id of
                Some (Agent_project_scope u a p) \<Rightarrow>
                  if u \<noteq> uid \<or> p \<noteq> dr_project_id req then Inl (Delegation_fault (lit ''sandbox_scope_mismatch''))
                  else (case policy of
                          Inl _ \<Rightarrow> Inl Other_fault
                        | Inr _ \<Rightarrow>
                            if \<not> queue_policy_ok policy then Inl (Delegation_fault (lit ''sandbox_policy_unsupported''))
                            else (case and_then (prepare (co_sandbox db)) (\<lambda>sb.
                                     and_then (create_session gen new_sid uid p (cache_key (Agent_project_scope u a p)) key workdir conversation
                                        (dr_initiator_run_id req) (lit ''headless'') (title_of_task (dr_task req))
                                        (JObj [(lit ''executor'', JStr key), (lit ''agent_config'', snapshot)])
                                        (if dr_budget req = [] then None else Some (JObj (dr_budget req))) now (db\<lparr>co_sandbox := sb\<rparr>)) (\<lambda>(seen, db1).
                                     and_then (queue_turn gen new_tid (dr_task req) plan_only (dr_initiator_run_id req) now (seen, db1)) (\<lambda>(s, t, db2).
                                       Inr (save_session clk seen s db2, s, t)))) of
                                    Inl _ \<Rightarrow> Inl Other_fault
                                  | Inr (db', s, t) \<Rightarrow>
                                      Inr (db', \<lparr>dh_operation_id = dr_operation_id req, dh_executor_key = key, dh_session_id = Some (ks_id s),
                                        dh_turn_id = Some (kt_id t), dh_external_ref = None, dh_external_url = None, dh_remote_status = None\<rparr>)))
              | _ \<Rightarrow> Inl Other_fault)"

definition sandbox_executor_status :: "delegation_handle \<Rightarrow> coding_db \<Rightarrow> pystr option" where
  "sandbox_executor_status h db =
     (if or_empty (dh_turn_id h) = [] then None else map_option (turn_status_str \<circ> kt_status) (get_turn (or_empty (dh_turn_id h)) db))"

definition sandbox_collect :: "delegation_handle \<Rightarrow> coding_db \<Rightarrow> executor_fault + delegation_result" where
  "sandbox_collect h db =
     (if or_empty (dh_turn_id h) = [] then Inl (Delegation_fault (lit ''delegation_handle_invalid''))
      else case get_turn (or_empty (dh_turn_id h)) db of
             None \<Rightarrow> Inl (Delegation_fault (lit ''coding_turn_not_found''))
           | Some t \<Rightarrow>
               if kt_status t \<in> {Turn_pending, Turn_running} then Inl (Delegation_fault (lit ''delegation_not_ready''))
               else Inr \<lparr>dx_summary = kt_result_summary t, dx_text = kt_result_summary t, dx_artifacts = [],
                      dx_usage = (case kt_usage_json t of JObj kvs \<Rightarrow> kvs | _ \<Rightarrow> []), dx_remote_status = Some (turn_status_str (kt_status t)),
                      dx_error_code = kt_error_code t\<rparr>)"

end
