(* ===== verification/Coding_Invariant.thy ===== *)
theory Coding_Invariant
  imports Coding Governance_Invariant
begin

text \<open>
  Invariant and history of the coding tables. Every operation is a sequence of primitive writes (\<open>coding_write\<close>): an event
  is appended, a session or a turn is flushed, a session or a turn is added, or something outside the three tables changes. What
  the primitive writes keep holds under any interleaving, also for workers that write back what they read long ago.
\<close>

section \<open>Numbering\<close>

definition numbered :: "int list \<Rightarrow> bool" where
  "numbered xs \<longleftrightarrow> xs = map (\<lambda>i. int (Suc i)) [0..<length xs]"

lemma numbered_Nil [simp]: "numbered []"
  by (simp add: numbered_def)

lemma max_int_le: "(\<And>x. x \<in> set xs \<Longrightarrow> x \<le> n) \<Longrightarrow> 0 \<le> n \<Longrightarrow> max_int xs \<le> n"
  unfolding max_int_def by (induction xs) auto

lemma max_int_numbered:
  assumes "numbered xs"
  shows "max_int xs = int (length xs)"
proof (rule antisym)
  have in_iff: "y \<in> set xs \<longleftrightarrow> (\<exists>i<length xs. y = int (Suc i))" for y
    by (subst assms[unfolded numbered_def]) auto
  show "max_int xs \<le> int (length xs)" by (rule max_int_le) (auto simp: in_iff)
  show "int (length xs) \<le> max_int xs"
  proof (cases xs)
    case (Cons a ys)
    then have "int (length xs) \<in> set xs" unfolding in_iff by (intro exI[of _ "length ys"]) simp
    then show ?thesis by (rule max_int_ge)
  qed (simp add: max_int_nonneg)
qed

lemma numbered_snoc: "numbered xs \<Longrightarrow> numbered (xs @ [max_int xs + 1])"
  by (simp add: max_int_numbered) (simp add: numbered_def)

definition turn_seqs :: "pystr \<Rightarrow> coding_turn list \<Rightarrow> int list" where
  "turn_seqs sid ts = map kt_seq (filter (\<lambda>t. kt_session_id t = sid) ts)"

definition event_seqs :: "pystr \<Rightarrow> coding_event list \<Rightarrow> int list" where
  "event_seqs sid es = map ke_seq (filter (\<lambda>e. ke_session_id e = sid) es)"

section \<open>Invariant and history\<close>

definition coding_inv :: "coding_db \<Rightarrow> bool" where
  "coding_inv db \<longleftrightarrow> distinct (map ks_id (co_sessions db)) \<and> distinct (map kt_id (co_turns db))
     \<and> (\<forall>sid. numbered (turn_seqs sid (co_turns db)) \<and> numbered (event_seqs sid (co_events db)))"

definition session_facts ::
  "coding_session \<Rightarrow> (pystr \<times> pystr \<times> pystr \<times> int option \<times> pystr option) \<times> (pystr \<times> pystr \<times> pystr option \<times> pystr) \<times> json \<times> time option" where
  "session_facts s = ((ks_id s, ks_uid s, ks_project_id s, ks_conversation_id s, ks_parent_run_id s),
     (ks_runtime_scope_id s, ks_mode s, ks_title s, ks_workdir_path s), ks_budget_json s, ks_created_at s)"

definition turn_facts :: "coding_turn \<Rightarrow> pystr \<times> pystr \<times> int \<times> pystr \<times> time option" where
  "turn_facts t = (kt_id t, kt_session_id t, kt_seq t, kt_request_text t, kt_created_at t)"

definition coding_rel :: "coding_db \<Rightarrow> coding_db \<Rightarrow> bool" where
  "coding_rel db db' \<longleftrightarrow> evolves (\<lambda>s s'. session_facts s' = session_facts s) (co_sessions db) (co_sessions db')
     \<and> evolves (\<lambda>t t'. turn_facts t' = turn_facts t) (co_turns db) (co_turns db') \<and> evolves (=) (co_events db) (co_events db')"

definition coding_start :: "coding_db \<Rightarrow> bool" where
  "coding_start db \<longleftrightarrow> co_sessions db = [] \<and> co_turns db = [] \<and> co_events db = []"

lemma coding_rel_refl: "coding_rel db db"
  by (simp add: coding_rel_def evolves_refl)

lemma coding_rel_trans:
  assumes "coding_rel a b" and "coding_rel b c"
  shows "coding_rel a c"
proof -
  have "evolves (\<lambda>s s'. session_facts s' = session_facts s) (co_sessions a) (co_sessions c)"
    by (rule evolves_trans[of _ _ "co_sessions b"]) (use assms in \<open>auto simp: coding_rel_def\<close>)
  moreover have "evolves (\<lambda>t t'. turn_facts t' = turn_facts t) (co_turns a) (co_turns c)"
    by (rule evolves_trans[of _ _ "co_turns b"]) (use assms in \<open>auto simp: coding_rel_def\<close>)
  moreover have "evolves (=) (co_events a) (co_events c)"
    by (rule evolves_trans[of _ _ "co_events b"]) (use assms in \<open>auto simp: coding_rel_def\<close>)
  ultimately show ?thesis by (simp add: coding_rel_def)
qed

section \<open>Writes\<close>

inductive coding_write :: "coding_db \<Rightarrow> coding_db \<Rightarrow> bool" where
  event: "coding_write db (append_event gen sid kind payload tid now db)"
| session: "coding_write db (save_session clk seen s db)"
| turn: "coding_write db (save_turn seen t db)"
| new_session: "add_session i u p sc ex wd conv run mode title policy budget now db = Inr (db', s) \<Longrightarrow> coding_write db db'"
| new_turn: "add_turn i req st now s db = Inr (db', t) \<Longrightarrow> coding_write db db'"
| outside: "coding_write db (db\<lparr>co_sandbox := sb, co_cancels := cs\<rparr>)"

abbreviation coding_writes :: "coding_db \<Rightarrow> coding_db \<Rightarrow> bool" where
  "coding_writes \<equiv> coding_write\<^sup>*\<^sup>*"

lemma flush_session_facts [simp]: "session_facts (flush_session clk seen s row) = session_facts row"
  by (simp add: session_facts_def flush_session_def)

lemma flush_turn_facts [simp]: "turn_facts (flush_turn seen t row) = turn_facts row"
  by (simp add: turn_facts_def flush_turn_def)

lemma flush_ids [simp]:
  "ks_id (flush_session clk seen s row) = ks_id row" "kt_id (flush_turn seen' t row') = kt_id row'"
  "kt_session_id (flush_turn seen' t row') = kt_session_id row'" "kt_seq (flush_turn seen' t row') = kt_seq row'"
  by (simp_all add: flush_session_def flush_turn_def)

lemma turn_seqs_update: "turn_seqs sid (update_where P (flush_turn seen t) ts) = turn_seqs sid ts"
  by (induction ts) (auto simp: turn_seqs_def)

lemma event_fields [simp]:
  "co_sessions (append_event gen sid kind payload tid now db) = co_sessions db"
  "co_turns (append_event gen sid kind payload tid now db) = co_turns db"
  "co_sandbox (append_event gen sid kind payload tid now db) = co_sandbox db"
  "co_cancels (append_event gen sid kind payload tid now db) = co_cancels db"
  by (simp_all add: append_event_def)

lemma save_fields [simp]:
  "co_turns (save_session clk seen s db) = co_turns db" "co_events (save_session clk seen s db) = co_events db"
  "co_sandbox (save_session clk seen s db) = co_sandbox db" "co_cancels (save_session clk seen s db) = co_cancels db"
  "co_sessions (save_turn seen' t db) = co_sessions db" "co_events (save_turn seen' t db) = co_events db"
  "co_sandbox (save_turn seen' t db) = co_sandbox db" "co_cancels (save_turn seen' t db) = co_cancels db"
  by (simp_all add: save_session_def save_turn_def)

lemma record_events_fields:
  "co_turns (record_events gen sid tid now evs d) = co_turns d" "co_sandbox (record_events gen sid tid now evs d) = co_sandbox d"
  "co_sessions (record_events gen sid tid now evs d) = co_sessions d" "co_cancels (record_events gen sid tid now evs d) = co_cancels d"
  by (induction evs arbitrary: d) auto

lemma coding_write_inv: "coding_write db db' \<Longrightarrow> coding_inv db \<Longrightarrow> coding_inv db'"
proof (induction rule: coding_write.induct)
  case (event db gen sid kind payload tid now)
  have "numbered (event_seqs x (co_events db @ [e]))"
    if "ke_session_id e = sid" "ke_seq e = next_event_seq sid db" for x e
    using event numbered_snoc[of "event_seqs sid (co_events db)"] that
    by (auto simp: coding_inv_def event_seqs_def next_event_seq_def)
  then show ?case using event unfolding append_event_def coding_inv_def by simp
next
  case (session db clk seen s)
  then show ?case by (simp add: coding_inv_def save_session_def map_update_where)
next
  case (turn db seen t)
  then show ?case by (simp add: coding_inv_def save_turn_def map_update_where turn_seqs_update)
next
  case (new_session i u p sc ex wd conv run mode title policy budget now db db' s)
  then show ?case by (auto simp: coding_inv_def add_session_def Let_def split: if_splits)
next
  case (new_turn i req st now s db db' t)
  have "numbered (turn_seqs x (co_turns db @ [t]))" for x
    using new_turn numbered_snoc[of "turn_seqs (ks_id s) (co_turns db)"]
    by (auto simp: coding_inv_def turn_seqs_def next_turn_seq_def add_turn_def Let_def split: if_splits)
  then show ?case using new_turn by (auto simp: coding_inv_def add_turn_def Let_def split: if_splits)
qed (simp add: coding_inv_def)

lemma coding_write_rel: "coding_write db db' \<Longrightarrow> coding_rel db db'"
proof (induction rule: coding_write.induct)
  case (event db gen sid kind payload tid now)
  then show ?case by (simp add: append_event_def coding_rel_def evolves_refl evolves_append)
next
  case (session db clk seen s)
  then show ?case by (simp add: coding_rel_def save_session_def evolves_refl evolves_update_where)
next
  case (turn db seen t)
  then show ?case by (simp add: coding_rel_def save_turn_def evolves_refl evolves_update_where)
next
  case (new_session i u p sc ex wd conv run mode title policy budget now db db' s)
  then show ?case by (auto simp: add_session_def Let_def coding_rel_def evolves_refl evolves_append split: if_splits)
next
  case (new_turn i req st now s db db' t)
  then show ?case by (auto simp: add_turn_def Let_def coding_rel_def evolves_refl evolves_append split: if_splits)
qed (simp add: coding_rel_def evolves_refl)

lemma writes_coding_inv: "coding_writes db db' \<Longrightarrow> coding_inv db \<Longrightarrow> coding_inv db'"
  by (induction rule: rtranclp_induct) (auto intro: coding_write_inv)

lemma writes_coding_rel: "coding_writes db db' \<Longrightarrow> coding_rel db db'"
  by (induction rule: rtranclp_induct) (auto intro: coding_rel_refl coding_rel_trans coding_write_rel)

lemma writes_more:
  "coding_writes db d \<Longrightarrow> coding_writes db (append_event gen sid kind payload tid now d)"
  "coding_writes db d \<Longrightarrow> coding_writes db (save_session clk seen s d)"
  "coding_writes db d \<Longrightarrow> coding_writes db (save_turn seen' t d)"
  "coding_writes db d \<Longrightarrow> coding_writes db (d\<lparr>co_sandbox := sb\<rparr>)"
  "coding_writes db d \<Longrightarrow> coding_writes db (d\<lparr>co_cancels := cs\<rparr>)"
  using coding_write.outside[where db = d and sb = sb and cs = "co_cancels d"]
    coding_write.outside[where db = d and sb = "co_sandbox d" and cs = cs]
  by (auto intro: rtranclp.rtrancl_into_rtrancl coding_write.intros)

lemma writes_new:
  "coding_writes db d \<Longrightarrow> add_session i u p sc ex wd conv run mode title policy budget now d = Inr (d', s) \<Longrightarrow> coding_writes db d'"
  "coding_writes db d \<Longrightarrow> add_turn i req st now s d = Inr (d', t) \<Longrightarrow> coding_writes db d'"
  by (auto intro: rtranclp.rtrancl_into_rtrancl coding_write.intros)

lemma writes_first:
  "coding_writes (append_event gen sid kind payload tid now d) d' \<Longrightarrow> coding_writes d d'"
  "coding_writes (save_session clk seen s d) d' \<Longrightarrow> coding_writes d d'"
  "coding_writes (save_turn seen' t d) d' \<Longrightarrow> coding_writes d d'"
  "coding_writes (d\<lparr>co_sandbox := sb\<rparr>) d' \<Longrightarrow> coding_writes d d'"
  using rtranclp_trans[OF writes_more(1)[OF rtranclp.rtrancl_refl]] rtranclp_trans[OF writes_more(2)[OF rtranclp.rtrancl_refl]]
    rtranclp_trans[OF writes_more(3)[OF rtranclp.rtrancl_refl]] rtranclp_trans[OF writes_more(4)[OF rtranclp.rtrancl_refl]]
  by blast+

lemma transition_writes: "session_transition gen target ec em now (s, d) = Inr (s', d') \<Longrightarrow> coding_writes d d'"
  by (auto simp: session_transition_def intro: writes_more split: if_splits)

lemma enter_writes: "enter_running gen now (s, d) = Inr (s', d') \<Longrightarrow> coding_writes d d'"
  unfolding enter_running_def
  by (auto split: if_splits dest!: transition_writes intro: rtranclp_trans)

lemma start_turn_writes: "start_turn gen i req now (s, d) = Inr (s', t, d') \<Longrightarrow> coding_writes d d'"
  unfolding start_turn_def by (auto dest!: enter_writes intro: writes_more writes_new)

lemma queue_turn_writes: "queue_turn gen i req po run now (s, d) = Inr (s', t, d') \<Longrightarrow> coding_writes d d'"
  unfolding queue_turn_def by (auto dest!: enter_writes intro: writes_more writes_new)

lemma finish_turn_writes: "finish_turn gen st sm us ec em cli now (s, t, d) = Inr (s', t', d') \<Longrightarrow> coding_writes d d'"
  unfolding finish_turn_def by (auto simp: Let_def dest!: transition_writes writes_first)

lemma record_events_writes: "coding_writes d (record_events gen sid tid now evs d)"
proof (induction evs arbitrary: d)
  case (Cons ev evs)
  obtain k p where "ev = (k, p)" by force
  then show ?case using Cons.IH writes_first(1) by fastforce
qed simp

lemma turn_session_writes: "turn_session gen i pl ex task sid sn bu conv run now db = Inr (s, d) \<Longrightarrow> coding_writes db d"
  unfolding turn_session_def create_session_def
  by (auto split: if_splits option.splits intro: writes_more writes_new)

lemma run_turn_begin_writes: "coding_writes db (fst (run_turn_begin ti0 gen si ti pl ex task sid sn bu conv run prep now clk db))"
proof (cases "and_then (turn_session gen si pl ex task sid sn bu conv run now db) (\<lambda>(s, db1).
    and_then (prep (co_sandbox db1)) (\<lambda>sb. Inr (s, db1\<lparr>co_sandbox := sb\<rparr>)))")
  case (Inr x)
  obtain seen d where x: "x = (seen, d)" by force
  have d: "coding_writes db d" using Inr x by (auto dest!: turn_session_writes intro: writes_more)
  let ?s = "seen\<lparr>ks_executor := ex, ks_sandbox_id := Some (pl_sandbox_id pl)\<rparr>"
  have "coding_writes db (save_session clk seen s' d')" if "coding_writes d d'" for s' d'
    using rtranclp_trans[OF d that] by (rule writes_more)
  then show ?thesis unfolding run_turn_begin_def Inr x
    by (auto simp: Let_def dest: transition_writes start_turn_writes split: sum.split prod.split option.split)
qed (simp add: run_turn_begin_def)

lemma queue_coding_turn_writes:
  "queue_coding_turn pol gen si ti pl ex task po sid sn bu conv run prep now clk db = Inr (db', t) \<Longrightarrow> coding_writes db db'"
  unfolding queue_coding_turn_def
  by (auto split: if_splits dest!: turn_session_writes queue_turn_writes writes_first(4) intro: writes_more rtranclp_trans)

lemma create_session_writes:
  "create_session gen i u p sc ex wd conv run mode title policy budget now d = Inr (s, d') \<Longrightarrow> coding_writes d d'"
  unfolding create_session_def by (auto intro: writes_more writes_new)

lemma sandbox_dispatch_writes:
  "sandbox_dispatch ps pol gen si ti key sn prep req now clk db = Inr (db', h) \<Longrightarrow> coding_writes db db'"
  unfolding sandbox_dispatch_def
  by (auto simp: Let_def split: if_splits option.splits sandbox_scope.splits sum.splits
      dest!: create_session_writes queue_turn_writes writes_first(4) intro!: writes_more(2) intro: rtranclp_trans)

lemma settle_turn_writes: "settle_turn gen a res cancelled now (s, t, d) = Inr (s', t', d') \<Longrightarrow> coding_writes d d'"
  unfolding settle_turn_def by (auto simp: Let_def split: if_splits dest!: transition_writes writes_first finish_turn_writes)

lemma tail_cases:
  assumes "execute_turn_tail ps gen a guard cancelled now clk seen turn db = (db', r)"
  obtains (refused) "db' = db" "\<exists>e. r = Inl e"
  | (settled) s0 d0 res s t d where "guard \<noteq> Some False" "coding_writes db d0" "co_turns d0 = co_turns db" "co_sandbox d0 = co_sandbox db"
      "co_sessions d0 = co_sessions db" "s0 = seen \<or> s0 = seen\<lparr>ks_cli_session_ref := None\<rparr>"
      "settle_turn gen a res cancelled now (s0, turn, d0) = Inr (s, t, d)" "r = Inr (ks_status s)"
      "db' = (save_turn turn t (save_session clk seen s d))\<lparr>co_cancels := filter (\<lambda>x. x \<noteq> ks_id seen) (co_cancels d)\<rparr>"
proof -
  define s0 where "s0 = (if or_empty (ks_cli_session_ref seen) \<noteq> [] \<and> \<not> ta_state_present a then seen\<lparr>ks_cli_session_ref := None\<rparr> else seen)"
  define db0 where "db0 = (if or_empty (ks_cli_session_ref seen) \<noteq> [] \<and> \<not> ta_state_present a then append_event gen (ks_id seen) (lit ''resume_degraded'')
    (JObj [(lit ''reason'', JStr (lit ''cli_state_missing'')), (lit ''executor'', JStr (ks_executor seen))]) None now db else db)"
  have db0: "coding_writes db db0" "co_turns db0 = co_turns db" "co_sandbox db0 = co_sandbox db" "co_sessions db0 = co_sessions db"
    by (auto simp: db0_def intro: writes_more)
  note T = assms[unfolded execute_turn_tail_def Let_def, folded s0_def db0_def]
  show thesis
  proof (cases "ta_events a")
    case None
    then show thesis using T refused by auto
  next
    case (Some parsed)
    let ?d0 = "record_events gen (ks_id seen) (Some (kt_id turn)) now (turn_events a parsed) db0"
    let ?res = "extract_turn_result ps (turn_events a parsed)"
    have d0: "coding_writes db ?d0" using rtranclp_trans[OF db0(1) record_events_writes] .
    have frame: "co_turns ?d0 = co_turns db" "co_sandbox ?d0 = co_sandbox db" "co_sessions ?d0 = co_sessions db"
      using db0(2-4) by (simp_all add: record_events_fields)
    show thesis
    proof (cases "guard = Some False")
      case True
      then show thesis using T Some refused by auto
    next
      case False
      show thesis
      proof (cases "settle_turn gen a ?res cancelled now (s0, turn, ?d0)")
        case (Inl e)
        then show thesis using T Some False refused by auto
      next
        case (Inr x)
        then obtain s t d where st: "settle_turn gen a ?res cancelled now (s0, turn, ?d0) = Inr (s, t, d)" by (metis prod_cases3)
        have r: "r = Inr (ks_status s)"
          "db' = (save_turn turn t (save_session clk seen s d))\<lparr>co_cancels := filter (\<lambda>x. x \<noteq> ks_id seen) (co_cancels d)\<rparr>"
          using T Some False st by simp_all
        show thesis by (rule settled[OF False d0 frame _ st r]) (simp add: s0_def)
      qed
    qed
  qed
qed

lemma tail_writes: "coding_writes db (fst (execute_turn_tail ps gen a guard cancelled now clk seen turn db))"
proof -
  obtain db' r where e: "execute_turn_tail ps gen a guard cancelled now clk seen turn db = (db', r)" by force
  then show ?thesis
  proof (cases rule: tail_cases)
    case (settled s0 d0 res s t d)
    then show ?thesis unfolding e fst_conv settled(9)
      using rtranclp_trans[OF settled(2) settle_turn_writes[OF settled(7)]] by (intro writes_more)
  qed (simp add: e)
qed

lemma cancel_session_writes: "cancel_session gen pl now clk seen db = Inr db' \<Longrightarrow> coding_writes db db'"
  unfolding cancel_session_def by (auto split: if_splits dest!: transition_writes intro: writes_more)

lemma cancel_terminal_writes: "coding_writes db (cancel_terminal_turn now clk s t db)"
  by (auto simp: cancel_terminal_turn_def intro: writes_more)

lemma job_check_writes: "coding_writes db (fst (job_check now clk sid tid db))"
  by (auto simp: job_check_def cancel_terminal_writes split: option.splits sandbox_scope.splits)

lemma job_begin_writes: "coding_writes db (fst (job_begin now clk sid tid po db))"
  by (auto simp: job_begin_def cancel_terminal_writes intro: writes_more split: option.splits)

lemma cancel_queued_writes: "cancel_queued_turn gen now clk seen turn db = Inr db' \<Longrightarrow> coding_writes db db'"
  unfolding cancel_queued_turn_def by (auto simp: Let_def dest!: transition_writes writes_first intro: writes_more)

lemma fail_running_writes: "fail_running_turn gen ec em now clk s t db = Inr db' \<Longrightarrow> coding_writes db db'"
  unfolding fail_running_turn_def
  by (auto simp: Let_def split: if_splits dest!: transition_writes writes_first intro: writes_more)

lemma fail_owned_writes: "fail_owned_coding_turn gen sid tid ec em owned now clk db = Inr (db', b) \<Longrightarrow> coding_writes db db'"
  unfolding fail_owned_coding_turn_def by (auto split: if_splits option.splits dest: fail_running_writes)

lemma reconcile_turn_writes: "reconcile_turn digest gen now clk l db = Inr (db', n) \<Longrightarrow> coding_writes db db'"
  unfolding reconcile_turn_def by (auto split: if_splits option.splits dest: fail_running_writes)

lemma reconcile_turns_writes: "reconcile_turns digest gen now clk ls db = Inr (db', n) \<Longrightarrow> coding_writes db db'"
proof (induction ls arbitrary: db n)
  case (Cons l ls)
  then obtain d a b where "reconcile_turn digest gen now clk l db = Inr (d, a)" "reconcile_turns digest gen now clk ls d = Inr (db', b)"
    by auto
  then show ?case using Cons.IH reconcile_turn_writes rtranclp_trans by metis
qed simp

section \<open>Steps\<close>

text \<open>Every transaction; the sessions and turns a worker brings along (\<open>seen\<close>) are arbitrary.\<close>

inductive coding_step :: "coding_db \<Rightarrow> coding_db \<Rightarrow> bool" where
  run_begin: "coding_step db (fst (run_turn_begin ti0 gen si ti pl ex task sid sn bu conv run prep now clk db))"
| queue: "queue_coding_turn pol gen si ti pl ex task po sid sn bu conv run prep now clk db = Inr (db', t) \<Longrightarrow> coding_step db db'"
| dispatch: "sandbox_dispatch ps pol gen si ti key sn prep req now clk db = Inr (db', h) \<Longrightarrow> coding_step db db'"
| tail: "coding_step db (fst (execute_turn_tail ps gen a guard cancelled now clk seen turn db))"
| cancel: "cancel_session gen pl now clk seen db = Inr db' \<Longrightarrow> coding_step db db'"
| check: "coding_step db (fst (job_check now clk sid tid db))"
| start: "coding_step db (fst (job_begin now clk sid tid po db))"
| cancel_queued: "cancel_queued_turn gen now clk seen turn db = Inr db' \<Longrightarrow> coding_step db db'"
| fail: "fail_owned_coding_turn gen sid tid ec em owned now clk db = Inr (db', b) \<Longrightarrow> coding_step db db'"
| reconcile: "reconcile_coding_turns digest gen stale now clk db = Inr (pending, db', n) \<Longrightarrow> coding_step db db'"
| others: "coding_step db (db\<lparr>co_sandbox := sb, co_cancels := cs\<rparr>)"

lemma coding_step_writes: "coding_step db db' \<Longrightarrow> coding_writes db db'"
  by (induction rule: coding_step.induct)
    (auto simp: reconcile_coding_turns_def Let_def run_turn_begin_writes tail_writes job_check_writes job_begin_writes coding_write.outside
      dest: queue_coding_turn_writes sandbox_dispatch_writes cancel_session_writes cancel_queued_writes fail_owned_writes reconcile_turns_writes)

interpretation coding: step_system coding_start coding_step coding_inv coding_rel
proof unfold_locales
  fix s t u
  show "coding_start s \<Longrightarrow> coding_inv s" by (simp add: coding_start_def coding_inv_def turn_seqs_def event_seqs_def)
  show "coding_inv s \<Longrightarrow> coding_step s t \<Longrightarrow> coding_inv t" using coding_step_writes writes_coding_inv by blast
  show "coding_inv s \<Longrightarrow> coding_step s t \<Longrightarrow> coding_rel s t" using coding_step_writes writes_coding_rel by blast
  show "coding_rel s s" by (rule coding_rel_refl)
  show "coding_rel s t \<Longrightarrow> coding_rel t u \<Longrightarrow> coding_rel s u" by (rule coding_rel_trans)
qed

end
