(* ===== verification/Coding_Fence.thy ===== *)
theory Coding_Fence
  imports Coding_Invariant
begin

text \<open>
  Coding workers and their sandbox leases together. A worker of a queued turn starts it in one transaction and settles it in a later
  one; in between the reconciliation may give the turn up. \<open>work_step\<close> interleaves workers, leases, reconciliation and users
  under one clock that never runs backwards.
\<close>

section \<open>Leases\<close>

definition owns :: "sandbox_key \<Rightarrow> pystr \<Rightarrow> time \<Rightarrow> sandbox_db \<Rightarrow> bool" where
  "owns k w now sb \<longleftrightarrow> (case k of (u, a, p) \<Rightarrow> owns_active u a p w now sb)"

lemma owns_iff:
  "owns k w now sb \<longleftrightarrow> (\<exists>r. sandbox_at k sb = Some r \<and> sb_lease_owner_id r = Some w \<and> lease_active r now)"
  by (cases k) (auto simp: owns_def owns_active_def split: option.splits)

lemma owns_later: "owns k w now' sb \<Longrightarrow> now \<le> now' \<Longrightarrow> owns k w now sb"
  by (auto simp: owns_iff lease_active_def split: option.splits)

definition lease_cols :: "agent_sandbox \<Rightarrow> pystr option \<times> pystr option \<times> time option" where
  "lease_cols r = (sb_lease_owner_kind r, sb_lease_owner_id r, sb_lease_expires_at r)"

text \<open>\<open>leases_within sb sb'\<close>: whatever is leased in \<open>sb'\<close> was leased the same way in \<open>sb\<close>.\<close>

definition leases_within :: "sandbox_db \<Rightarrow> sandbox_db \<Rightarrow> bool" where
  "leases_within sb sb' \<longleftrightarrow> (\<forall>k r'. sandbox_at k sb' = Some r' \<longrightarrow> sb_lease_owner_id r' \<noteq> None
     \<longrightarrow> (\<exists>r. sandbox_at k sb = Some r \<and> lease_cols r = lease_cols r'))"

lemma leases_within_refl: "leases_within sb sb"
  by (auto simp: leases_within_def)

lemma leases_within_trans: "leases_within a b \<Longrightarrow> leases_within b c \<Longrightarrow> leases_within a c"
  unfolding leases_within_def lease_cols_def by (metis prod.inject)

lemma owns_within: "leases_within sb sb' \<Longrightarrow> owns k w now sb' \<Longrightarrow> owns k w now sb"
  unfolding leases_within_def owns_iff lease_cols_def lease_active_def by fastforce

definition coding_owner :: "pystr \<Rightarrow> bool" where
  "coding_owner w \<longleftrightarrow> starts_with w (lit ''coding-turn:'')"

definition lease_kinds :: "sandbox_db \<Rightarrow> bool" where
  "lease_kinds sb \<longleftrightarrow> (\<forall>k r w. sandbox_at k sb = Some r \<longrightarrow> sb_lease_owner_id r = Some w \<longrightarrow> coding_owner w
     \<longrightarrow> sb_lease_owner_kind r = Some (lit ''coding_session''))"

lemma lease_kinds_within: "leases_within sb sb' \<Longrightarrow> lease_kinds sb \<Longrightarrow> lease_kinds sb'"
  unfolding leases_within_def lease_kinds_def lease_cols_def by (metis option.distinct(1) prod.inject)

lemma update_within:
  assumes "sandbox_inv sb" and "sandbox_at k sb = Some r" and "sandbox_owner r' = sandbox_owner r"
    and "sb_lease_owner_id r' = None \<or> lease_cols r' = lease_cols r"
  shows "leases_within sb (sandbox_update (sb_id r) (\<lambda>_. r') sb)"
  using assms(2,4) by (auto simp: leases_within_def sandbox_at_update[OF assms(1-3)])

lemma release_within:
  assumes "sandbox_inv sb"
  shows "leases_within sb (fst (lease_release gen u a p w now sb))"
proof (cases "sandbox_get u a p sb")
  case (Some r)
  have "leases_within sb (sandbox_update (sb_id r) (\<lambda>_. clear_lease now r) sb)"
    by (rule update_within[OF assms, of "(u, a, p)"]) (simp_all add: Some clear_lease_def sandbox_owner_def)
  then show ?thesis by (simp add: lease_release_def Some leases_within_refl) (simp add: leases_within_def)
qed (simp add: lease_release_def leases_within_refl)

lemma acquire_owns:
  assumes inv: "sandbox_inv sb" and t: "try_acquire gen u a p kind v ttl now sb = Inr (sb', ok, row)"
    and "v \<noteq> w" and "owns k w now sb'"
  shows "owns k w now sb"
proof (cases ok)
  case False
  then have "try_acquire gen u a p kind v ttl now sb = Inr (sb', False, row)" using t by simp
  from try_acquire_refused[OF this] show ?thesis using assms(4) by blast
next
  case True
  obtain r where r: "sandbox_at (u, a, p) sb = Some r" and row: "row = grant_lease kind v ttl now r"
    and at: "\<And>k. sandbox_at k sb' = sandbox_at k (sandbox_update (sb_id r) (\<lambda>_. row) sb)"
    using t True by (auto simp: try_acquire_def Let_def split: option.splits if_splits)
  have "sandbox_owner row = sandbox_owner r" by (simp add: row grant_lease_def sandbox_owner_def)
  from sandbox_at_update[OF inv r this, of k] assms(3,4) show ?thesis
    by (auto simp: owns_iff at row grant_lease_def split: if_splits)
qed

lemma acquire_kinds:
  assumes inv: "sandbox_inv sb" and t: "try_acquire gen u a p kind v ttl now sb = Inr (sb', ok, row)"
    and "lease_kinds sb" and "coding_owner v \<longrightarrow> kind = lit ''coding_session''"
  shows "lease_kinds sb'"
proof (cases ok)
  case False
  then have "try_acquire gen u a p kind v ttl now sb = Inr (sb', False, row)" using t by simp
  from try_acquire_refused[OF this] show ?thesis using assms(3) by blast
next
  case True
  obtain r where r: "sandbox_at (u, a, p) sb = Some r" and row: "row = grant_lease kind v ttl now r"
    and at: "\<And>k. sandbox_at k sb' = sandbox_at k (sandbox_update (sb_id r) (\<lambda>_. row) sb)"
    using t True by (auto simp: try_acquire_def Let_def split: option.splits if_splits)
  have "sandbox_owner row = sandbox_owner r" by (simp add: row grant_lease_def sandbox_owner_def)
  from sandbox_at_update[OF inv r this] assms(3,4) show ?thesis
    by (auto simp: lease_kinds_def at row grant_lease_def split: if_splits)
qed

lemma heartbeat_cases:
  assumes inv: "sandbox_inv sb" and h: "lease_heartbeat u a p v ttl now sb = (sb', ok)"
  obtains "sb' = sb"
  | r r' where "sandbox_at (u, a, p) sb = Some r" "sb_lease_owner_id r = Some v" "lease_active r now"
      "sb_lease_owner_id r' = Some v" "sb_lease_owner_kind r' = sb_lease_owner_kind r"
      "\<And>k. sandbox_at k sb' = (if k = (u, a, p) then Some r' else sandbox_at k sb)"
proof (cases "sandbox_get u a p sb")
  case None
  then show thesis using that(1) h by (simp add: lease_heartbeat_def)
next
  case (Some r)
  let ?r' = "r\<lparr>sb_lease_expires_at := Some (now + ttl * 1000000), sb_lease_heartbeat_at := Some now, sb_updated_at := Some now\<rparr>"
  have "sandbox_owner ?r' = sandbox_owner r" by (simp add: sandbox_owner_def)
  from sandbox_at_update[OF inv _ this, of "(u, a, p)"] Some show thesis
    using that(1) that(2)[of r ?r'] h by (auto simp: lease_heartbeat_def split: if_splits)
qed

lemma heartbeat_owns:
  assumes "sandbox_inv sb" and "lease_heartbeat u a p v ttl now sb = (sb', ok)" and "owns k w now sb'"
  shows "owns k w now sb"
  using assms(1,2)
proof (cases rule: heartbeat_cases)
  case 1
  then show ?thesis using assms(3) by simp
next
  case (2 r r')
  then show ?thesis using assms(3) by (auto simp: owns_iff split: if_splits)
qed

lemma heartbeat_kinds:
  assumes "sandbox_inv sb" and "lease_heartbeat u a p v ttl now sb = (sb', ok)" and "lease_kinds sb"
  shows "lease_kinds sb'"
  using assms(1,2)
proof (cases rule: heartbeat_cases)
  case 1
  then show ?thesis using assms(3) by simp
next
  case (2 r r')
  then show ?thesis using assms(3) by (auto simp: lease_kinds_def split: if_splits)
qed

lemma reconcile_leases_within: "sandbox_inv sb \<Longrightarrow> leases_within sb (fst (reconcile_leases gen now ids sb))"
proof (induction ids arbitrary: sb)
  case (Cons i ids)
  show ?case
  proof (cases "find (\<lambda>r. sb_id r = i) (sx_sandboxes sb)")
    case None
    then show ?thesis using Cons by simp
  next
    case (Some r)
    show ?thesis
    proof (cases "lease_expired now r")
      case False
      then show ?thesis using Some Cons by simp
    next
      case True
      have r: "r \<in> set (sx_sandboxes sb)" "sb_id r = i" using find_Some_in[OF Some] by auto
      have at: "sandbox_at (sandbox_owner r) sb = Some r"
        unfolding sandbox_at_owner by (rule find_unique_key) (use Cons.prems r in \<open>auto simp: sandbox_inv_def\<close>)
      have "sandbox_update i (clear_lease now) sb = sandbox_update (sb_id r) (\<lambda>_. clear_lease now r) sb"
        using inv_same_row[OF Cons.prems r(1)] r(2) by (auto simp: sandbox_update_def update_where_def)
      then have one: "leases_within sb (sandbox_update i (clear_lease now) sb)"
        using update_within[OF Cons.prems at, of "clear_lease now r"] by (simp add: clear_lease_def sandbox_owner_def)
      define d where "d = sandbox_append_event gen (sb_sandbox_id r) ''lease_expired'' (Some (lit ''system'')) None
          (Some (JObj [(lit ''owner_kind'', opt_str (sb_lease_owner_kind r)), (lit ''owner_id'', opt_str (sb_lease_owner_id r))])) now
          (sandbox_update i (clear_lease now) sb)"
      have "sandbox_writes sb d"
        using reconcile_leases_writes[of sb gen now "[i]"] Some True by (simp add: d_def Let_def)
      then have inv: "sandbox_inv d" using writes_inv Cons.prems by blast
      have "leases_within sb d" using one by (simp add: d_def leases_within_def)
      moreover have "fst (reconcile_leases gen now (i # ids) sb) = fst (reconcile_leases gen now ids d)"
        using Some True by (simp add: d_def[symmetric] Let_def split: prod.split)
      ultimately show ?thesis using leases_within_trans[OF _ Cons.IH[OF inv]] by simp
    qed
  qed
qed (simp add: leases_within_refl)

section \<open>Turns\<close>

definition turn_done :: "turn_status \<Rightarrow> bool" where
  "turn_done st \<longleftrightarrow> st \<in> {Turn_completed, Turn_failed, Turn_cancelled}"

definition turn_state :: "pystr \<Rightarrow> coding_db \<Rightarrow> turn_status option" where
  "turn_state i db = map_option kt_status (get_turn i db)"

definition turn_scope :: "pystr \<Rightarrow> coding_db \<Rightarrow> sandbox_scope option" where
  "turn_scope i db = Option.bind (get_turn i db) (\<lambda>t. Option.bind (get_session (kt_session_id t) db)
     (\<lambda>s. from_runtime_scope (ks_uid s) (ks_runtime_scope_id s)))"

definition turn_keeps :: "coding_turn \<Rightarrow> coding_turn \<Rightarrow> bool" where
  "turn_keeps r r' \<longleftrightarrow> (turn_done (kt_status r) \<longrightarrow> r' = r)"

definition turns_keep :: "coding_db \<Rightarrow> coding_db \<Rightarrow> bool" where
  "turns_keep db db' \<longleftrightarrow> evolves turn_keeps (co_turns db) (co_turns db')"

lemma turn_keeps_refl: "turn_keeps r r"
  by (simp add: turn_keeps_def)

lemma turns_keep_same: "co_turns db' = co_turns db \<Longrightarrow> turns_keep db db'"
  by (simp add: turns_keep_def evolves_refl turn_keeps_refl)

lemma turns_keep_add: "co_turns db' = co_turns db @ ts \<Longrightarrow> turns_keep db db'"
  by (simp add: turns_keep_def evolves_append turn_keeps_refl)

lemma turns_keep_trans: "turns_keep a b \<Longrightarrow> turns_keep b c \<Longrightarrow> turns_keep a c"
  unfolding turns_keep_def by (erule (1) evolves_trans) (simp add: turn_keeps_def)

lemma get_turn_unique: "coding_inv db \<Longrightarrow> r \<in> set (co_turns db) \<Longrightarrow> get_turn (kt_id r) db = Some r"
  unfolding get_turn_def by (rule find_unique_key) (auto simp: coding_inv_def)

lemma save_turn_keeps:
  assumes "coding_inv db" and "co_turns d = co_turns db" and "turn_state (kt_id seen) db = Some st" and "\<not> turn_done st"
  shows "turns_keep db (save_turn seen t d)"
proof -
  have "turn_keeps r (flush_turn seen t r)" if "r \<in> set (co_turns db)" "kt_id r = kt_id seen" for r
    using get_turn_unique[OF assms(1) that(1)] that(2) assms(3,4) by (simp add: turn_state_def turn_keeps_def)
  then show ?thesis
    unfolding turns_keep_def save_turn_def using assms(2) by (simp add: evolves_update_where turn_keeps_refl)
qed

lemma state_same: "co_turns d = co_turns db \<Longrightarrow> turn_state i d = turn_state i db"
  by (simp add: turn_state_def get_turn_def)

lemma state_add: "co_turns d = co_turns db @ ts \<Longrightarrow> turn_state i db = Some st \<Longrightarrow> turn_state i d = Some st"
  by (auto simp: turn_state_def get_turn_def find_append split: option.splits)

lemma state_save:
  "co_turns d = co_turns db \<Longrightarrow> turn_state i (save_turn seen t d) =
     (if i = kt_id seen then map_option (set_col (kt_status seen) (kt_status t)) (turn_state i db) else turn_state i db)"
proof -
  have "find (\<lambda>r. kt_id r = i) (update_where (\<lambda>r. kt_id r = kt_id seen) (flush_turn seen t) rows)
      = map_option (\<lambda>r. if kt_id r = kt_id seen then flush_turn seen t r else r) (find (\<lambda>r. kt_id r = i) rows)" for rows
    by (rule find_update_where) simp
  note upd = this
  assume "co_turns d = co_turns db"
  then show ?thesis
    using find_Some_in[of "\<lambda>r. kt_id r = i" "co_turns db"]
    by (cases "find (\<lambda>r. kt_id r = i) (co_turns db)") (auto simp: turn_state_def get_turn_def save_turn_def upd flush_turn_def)
qed

lemma get_session_evolves:
  assumes "coding_rel db db'" and "coding_inv db" and "coding_inv db'" and "get_session i db = Some s"
  obtains s' where "get_session i db' = Some s'" "session_facts s' = session_facts s"
proof -
  have s: "s \<in> set (co_sessions db)" "ks_id s = i" using assms(4) by (auto simp: get_session_def dest: find_Some_in)
  have "evolves (\<lambda>s s'. session_facts s' = session_facts s) (co_sessions db) (co_sessions db')"
    using assms(1) by (simp add: coding_rel_def)
  from evolves_in[OF this s(1)] obtain s' where s': "s' \<in> set (co_sessions db')" "session_facts s' = session_facts s" .
  then have "ks_id s' = i" using s(2) by (simp add: session_facts_def)
  then have "get_session i db' = Some s'"
    using find_unique_key[where k = ks_id and xs = "co_sessions db'", OF _ s'(1)] assms(3) by (simp add: get_session_def coding_inv_def)
  then show thesis using that s'(2) by blast
qed

lemma turn_scope_evolves:
  assumes rel: "coding_rel db db'" and inv: "coding_inv db" "coding_inv db'" and sc: "turn_scope i db = Some sc"
  shows "turn_scope i db' = Some sc"
proof -
  obtain t s where t: "get_turn i db = Some t" and s: "get_session (kt_session_id t) db = Some s"
    and f: "from_runtime_scope (ks_uid s) (ks_runtime_scope_id s) = Some sc"
    using sc by (auto simp: turn_scope_def bind_eq_Some_conv)
  have mem: "t \<in> set (co_turns db)" "kt_id t = i" using t by (auto simp: get_turn_def dest: find_Some_in)
  have "evolves (\<lambda>t t'. turn_facts t' = turn_facts t) (co_turns db) (co_turns db')" using rel by (simp add: coding_rel_def)
  from evolves_in[OF this mem(1)] obtain t' where t': "t' \<in> set (co_turns db')" "turn_facts t' = turn_facts t" .
  then have "get_turn i db' = Some t'" "kt_session_id t' = kt_session_id t"
    using get_turn_unique[OF inv(2) t'(1)] mem(2) by (auto simp: turn_facts_def)
  moreover obtain s' where "get_session (kt_session_id t) db' = Some s'" "session_facts s' = session_facts s"
    using get_session_evolves[OF rel inv s] .
  ultimately show ?thesis using f by (simp add: turn_scope_def session_facts_def)
qed

section \<open>Workers\<close>

text \<open>A worker between its two transactions: its lease owner, the sandbox, and the session and turn as it read them.\<close>

record coding_job =
  jb_owner :: pystr
  jb_key :: sandbox_key
  jb_session :: coding_session
  jb_turn :: coding_turn

record work_state =
  ws_now :: time
  ws_db :: coding_db
  ws_jobs :: "coding_job list"

definition job_turn_id :: "coding_job \<Rightarrow> pystr" where
  "job_turn_id j = kt_id (jb_turn j)"

definition job_owns :: "bool \<Rightarrow> coding_job \<Rightarrow> work_state \<Rightarrow> bool" where
  "job_owns lost j w = owns_coding_turn_lease lost (jb_key j) (jb_owner j) (ws_now w) (co_sandbox (ws_db w))"

lemma job_owns_iff: "job_owns lost j w \<longleftrightarrow> \<not> lost \<and> owns (jb_key j) (jb_owner j) (ws_now w) (co_sandbox (ws_db w))"
  by (simp add: job_owns_def owns_coding_turn_lease_def owns_def)

definition drop_job :: "coding_job \<Rightarrow> coding_db \<Rightarrow> work_state \<Rightarrow> work_state" where
  "drop_job j db w = w\<lparr>ws_db := db, ws_jobs := filter (\<lambda>x. x \<noteq> j) (ws_jobs w)\<rparr>"

definition safe_preparation :: "preparation \<Rightarrow> bool" where
  "safe_preparation prep \<longleftrightarrow> (\<forall>sb sb'. prep sb = Inr sb' \<longrightarrow> sandbox_inv sb \<longrightarrow> sandbox_inv sb' \<and> leases_within sb sb')"

text \<open>
  One step of the whole. A worker draws a fresh owner id (\<open>coding_turn_owner_id\<close>) and acquires the lease before it begins, never again. Turns
  that a run executes itself (\<open>inline\<close>) and a turn cancelled right after its begin are written while nobody else wrote them:
  their time limits are shorter than the age at which the reconciliation gives a turn up.
\<close>

inductive work_step :: "(pystr \<Rightarrow> pystr) \<Rightarrow> work_state \<Rightarrow> work_state \<Rightarrow> bool" for digest where
  tick: "ws_now w \<le> t \<Longrightarrow> work_step digest w (w\<lparr>ws_now := t\<rparr>)"
| acquire: "try_acquire gen u a p kind v ttl (ws_now w) (co_sandbox (ws_db w)) = Inr (sb, ok, r) \<Longrightarrow> v \<notin> jb_owner ` set (ws_jobs w)
    \<Longrightarrow> (coding_owner v \<longrightarrow> kind = lit ''coding_session'') \<Longrightarrow> work_step digest w (w\<lparr>ws_db := (ws_db w)\<lparr>co_sandbox := sb\<rparr>\<rparr>)"
| heartbeat: "lease_heartbeat u a p v ttl (ws_now w) (co_sandbox (ws_db w)) = (sb, ok)
    \<Longrightarrow> work_step digest w (w\<lparr>ws_db := (ws_db w)\<lparr>co_sandbox := sb\<rparr>\<rparr>)"
| release: "lease_release gen u a p v (ws_now w) (co_sandbox (ws_db w)) = (sb, ok)
    \<Longrightarrow> work_step digest w (w\<lparr>ws_db := (ws_db w)\<lparr>co_sandbox := sb\<rparr>\<rparr>)"
| expire: "lease_reconcile_expired gen (ws_now w) (co_sandbox (ws_db w)) = (sb, k)
    \<Longrightarrow> work_step digest w (w\<lparr>ws_db := (ws_db w)\<lparr>co_sandbox := sb\<rparr>\<rparr>)"
| sandboxes: "sandbox_inv sb \<Longrightarrow> leases_within (co_sandbox (ws_db w)) sb \<Longrightarrow> work_step digest w (w\<lparr>ws_db := (ws_db w)\<lparr>co_sandbox := sb\<rparr>\<rparr>)"
| commence: "job_begin (ws_now w) clk sid tid po (ws_db w) = (db, Inr (s, t, plan)) \<Longrightarrow> kt_session_id t = sid
    \<Longrightarrow> from_runtime_scope (ks_uid s) (ks_runtime_scope_id s) = Some (Agent_project_scope u a p)
    \<Longrightarrow> v = coding_turn_owner_id digest token tid \<Longrightarrow> v \<notin> jb_owner ` set (ws_jobs w)
    \<Longrightarrow> work_step digest w (w\<lparr>ws_db := db, ws_jobs := \<lparr>jb_owner = v, jb_key = (u, a, p), jb_session = s, jb_turn = t\<rparr> # ws_jobs w\<rparr>)"
| skip: "job_begin (ws_now w) clk sid tid po (ws_db w) = (db, Inl e) \<Longrightarrow> work_step digest w (w\<lparr>ws_db := db\<rparr>)"
| look: "job_check (ws_now w) clk sid tid (ws_db w) = (db, r) \<Longrightarrow> work_step digest w (w\<lparr>ws_db := db\<rparr>)"
| settle: "j \<in> set (ws_jobs w) \<Longrightarrow>
    execute_turn_tail ps gen a (Some (job_owns lost j w)) cancelled (ws_now w) clk (jb_session j) (jb_turn j) (ws_db w) = (db, Inr st)
    \<Longrightarrow> work_step digest w (drop_job j db w)"
| give_up: "j \<in> set (ws_jobs w) \<Longrightarrow>
    fail_owned_coding_turn gen (ks_id (jb_session j)) (job_turn_id j) ec em (job_owns lost j w) (ws_now w) clk (ws_db w) = Inr (db, b)
    \<Longrightarrow> work_step digest w (drop_job j db w)"
| leave: "work_step digest w (drop_job j (ws_db w) w)"
| cancel_queued: "j \<in> set (ws_jobs w) \<Longrightarrow> turn_state (job_turn_id j) (ws_db w) = Some Turn_running
    \<Longrightarrow> cancel_queued_turn gen (ws_now w) clk (jb_session j) (jb_turn j) (ws_db w) = Inr db \<Longrightarrow> work_step digest w (drop_job j db w)"
| reconcile: "t \<in> set (co_turns (ws_db w)) \<Longrightarrow> kt_id l = kt_id t \<Longrightarrow> kt_session_id l = kt_session_id t
    \<Longrightarrow> reconcile_turn digest gen (ws_now w) clk l (ws_db w) = Inr (db, n) \<Longrightarrow> work_step digest w (w\<lparr>ws_db := db\<rparr>)"
| queue: "queue_coding_turn pol gen si ti pl ex task po sid sn bu conv run prep (ws_now w) clk (ws_db w) = Inr (db, t) \<Longrightarrow> safe_preparation prep
    \<Longrightarrow> work_step digest w (w\<lparr>ws_db := db\<rparr>)"
| dispatch: "sandbox_dispatch ps pol gen si ti key sn prep req (ws_now w) clk (ws_db w) = Inr (db, h) \<Longrightarrow> safe_preparation prep
    \<Longrightarrow> work_step digest w (w\<lparr>ws_db := db\<rparr>)"
| run: "run_turn_begin ti0 gen si ti pl ex task sid sn bu conv run prep (ws_now w) clk (ws_db w) = (db, r) \<Longrightarrow> safe_preparation prep
    \<Longrightarrow> work_step digest w (w\<lparr>ws_db := db\<rparr>)"
| inline: "execute_turn_tail ps gen a None cancelled (ws_now w) clk s t (ws_db w) = (db, Inr st)
    \<Longrightarrow> turn_state (kt_id t) (ws_db w) = Some Turn_running \<Longrightarrow> kt_id t \<notin> job_turn_id ` set (ws_jobs w) \<Longrightarrow> work_step digest w (w\<lparr>ws_db := db\<rparr>)"
| cancel: "cancel_session gen pl (ws_now w) clk seen (ws_db w) = Inr db \<Longrightarrow> work_step digest w (w\<lparr>ws_db := db\<rparr>)"
| signal: "work_step digest w (w\<lparr>ws_db := (ws_db w)\<lparr>co_cancels := cs\<rparr>\<rparr>)"

definition job_ok :: "(pystr \<Rightarrow> pystr) \<Rightarrow> time \<Rightarrow> coding_db \<Rightarrow> coding_job \<Rightarrow> bool" where
  "job_ok digest now db j \<longleftrightarrow> starts_with (jb_owner j) (coding_turn_owner_prefix digest (job_turn_id j))
     \<and> kt_status (jb_turn j) = Turn_running \<and> (\<exists>u a p. jb_key j = (u, a, p) \<and> turn_scope (job_turn_id j) db = Some (Agent_project_scope u a p))
     \<and> (\<exists>st. turn_state (job_turn_id j) db = Some st
          \<and> (st = Turn_running \<or> turn_done st \<and> \<not> owns (jb_key j) (jb_owner j) now (co_sandbox db)))"

definition work_inv :: "(pystr \<Rightarrow> pystr) \<Rightarrow> work_state \<Rightarrow> bool" where
  "work_inv digest w \<longleftrightarrow> coding_inv (ws_db w) \<and> sandbox_inv (co_sandbox (ws_db w)) \<and> lease_kinds (co_sandbox (ws_db w))
     \<and> distinct (map jb_owner (ws_jobs w)) \<and> distinct (map job_turn_id (ws_jobs w)) \<and> (\<forall>j\<in>set (ws_jobs w). job_ok digest (ws_now w) (ws_db w) j)"

section \<open>Frames\<close>

lemma transition_frame:
  "session_transition gen target ec em now (s, d) = Inr (s', d') \<Longrightarrow>
   co_turns d' = co_turns d \<and> co_sandbox d' = co_sandbox d \<and> co_sessions d' = co_sessions d"
  by (auto simp: session_transition_def split: if_splits)

lemma settle_frame:
  "settle_turn gen a res c now (s, t, d) = Inr (s', t', d') \<Longrightarrow>
   co_turns d' = co_turns d \<and> co_sandbox d' = co_sandbox d \<and> co_sessions d' = co_sessions d \<and> turn_done (kt_status t')"
  by (auto simp: settle_turn_def finish_turn_def finish_turn_row_def turn_done_def Let_def split: if_splits dest!: transition_frame)

lemma tail_effect:
  assumes "execute_turn_tail ps gen a guard c now clk seen turn db = (db', Inr st)"
  obtains d t where "guard \<noteq> Some False" "co_turns d = co_turns db" "co_sandbox db' = co_sandbox db" "turn_done (kt_status t)"
    "co_turns db' = co_turns (save_turn turn t d)"
  using assms
proof (cases rule: tail_cases)
  case (settled s0 d0 res s t d)
  note f = settle_frame[OF settled(7)]
  show thesis
    by (rule that[of "save_session clk seen s d" t]) (use f settled(1-5) in \<open>simp_all add: settled(9)\<close>)
qed simp

lemma fail_running_effect:
  assumes "fail_running_turn gen ec em now clk s t db = Inr db'"
  obtains t' where "co_sandbox db' = co_sandbox db" "kt_status t' = Turn_failed" "co_turns db' = co_turns (save_turn t t' db)"
  using assms that[of "finish_turn_row Turn_failed None None (Some ec) (Some em) now t"]
  by (auto simp: fail_running_turn_def finish_turn_row_def Let_def split: if_splits dest!: transition_frame)

lemma cancel_queued_effect:
  assumes "cancel_queued_turn gen now clk seen turn db = Inr db'"
  obtains t d where "co_sandbox db' = co_sandbox db" "kt_status t = Turn_cancelled" "co_turns d = co_turns db" "co_turns db' = co_turns (save_turn turn t d)"
proof -
  obtain s d where "session_transition gen Session_cancelled None None now (clear_pending_turn (kt_id turn) seen,
         append_event gen (ks_id seen) (lit ''turn_finished'')
           (JObj [(lit ''seq'', JInt (kt_seq turn)), (lit ''status'', JStr (lit ''cancelled''))]) (Some (kt_id turn)) now db) = Inr (s, d)"
    and db': "db' = (let db2 = save_turn turn (finish_turn_row Turn_cancelled None None (Some (lit ''cancel_requested'')) None now turn) (save_session clk seen s d)
       in db2\<lparr>co_cancels := filter (\<lambda>x. x \<noteq> ks_id seen) (co_cancels db2)\<rparr>)"
    using assms by (auto simp: cancel_queued_turn_def Let_def)
  from transition_frame[OF this(1)] show thesis
    by (intro that[of "finish_turn_row Turn_cancelled None None (Some (lit ''cancel_requested'')) None now turn" "save_session clk seen s d"])
      (simp_all add: db' Let_def finish_turn_row_def)
qed

lemma cancel_terminal_frame:
  "co_sandbox (cancel_terminal_turn now clk s t db) = co_sandbox db"
  "co_turns (cancel_terminal_turn now clk s t db)
    = co_turns (save_turn t (finish_turn_row Turn_cancelled None None (Some (lit ''session_terminal'')) None now t) db)"
  by (simp_all add: cancel_terminal_turn_def)

lemma enter_frame:
  "enter_running gen now (s, d) = Inr (s', d') \<Longrightarrow> co_turns d' = co_turns d \<and> co_sandbox d' = co_sandbox d"
  unfolding enter_running_def by (auto split: if_splits dest!: transition_frame)

lemma add_turn_frame: "add_turn i req st now s d = Inr (d', t) \<Longrightarrow> co_turns d' = co_turns d @ [t] \<and> co_sandbox d' = co_sandbox d"
  by (auto simp: add_turn_def Let_def split: if_splits)

lemma start_turn_frame:
  "start_turn gen i req now (s, d) = Inr (s', t, d') \<Longrightarrow> co_turns d' = co_turns d @ [t] \<and> co_sandbox d' = co_sandbox d"
  unfolding start_turn_def by (auto dest!: enter_frame add_turn_frame)

lemma queue_turn_frame:
  "queue_turn gen i req po run now (s, d) = Inr (s', t, d') \<Longrightarrow> co_turns d' = co_turns d @ [t] \<and> co_sandbox d' = co_sandbox d"
  unfolding queue_turn_def by (auto dest!: enter_frame add_turn_frame)

lemma turn_session_frame:
  "turn_session gen i pl ex task sid sn bu conv run now db = Inr (s, d) \<Longrightarrow> co_turns d = co_turns db \<and> co_sandbox d = co_sandbox db"
  unfolding turn_session_def create_session_def add_session_def by (auto simp: Let_def split: if_splits option.splits)

lemma queue_effect:
  assumes "queue_coding_turn pol gen si ti pl ex task po sid sn bu conv run prep now clk db = Inr (db', t)" and "safe_preparation prep"
    and "sandbox_inv (co_sandbox db)"
  shows "(\<exists>ts. co_turns db' = co_turns db @ ts) \<and> sandbox_inv (co_sandbox db') \<and> leases_within (co_sandbox db) (co_sandbox db')"
  using assms unfolding queue_coding_turn_def safe_preparation_def
  by (auto split: if_splits dest!: turn_session_frame queue_turn_frame)

lemma dispatch_effect:
  assumes "sandbox_dispatch ps pol gen si ti key sn prep req now clk db = Inr (db', h)" and "safe_preparation prep"
    and "sandbox_inv (co_sandbox db)"
  shows "(\<exists>ts. co_turns db' = co_turns db @ ts) \<and> sandbox_inv (co_sandbox db') \<and> leases_within (co_sandbox db) (co_sandbox db')"
  using assms unfolding sandbox_dispatch_def safe_preparation_def create_session_def add_session_def
  by (auto simp: Let_def split: if_splits option.splits sandbox_scope.splits sum.splits dest!: queue_turn_frame)

lemma run_effect:
  assumes r: "run_turn_begin ti0 gen si ti pl ex task sid sn bu conv run prep now clk db = (db', r)" and "safe_preparation prep"
    and "sandbox_inv (co_sandbox db)"
  shows "(\<exists>ts. co_turns db' = co_turns db @ ts) \<and> sandbox_inv (co_sandbox db') \<and> leases_within (co_sandbox db) (co_sandbox db')"
proof (cases "and_then (turn_session gen si pl ex task sid sn bu conv run now db) (\<lambda>(s, db1).
    and_then (prep (co_sandbox db1)) (\<lambda>sb. Inr (s, db1\<lparr>co_sandbox := sb\<rparr>)))")
  case (Inl e)
  then show ?thesis using r assms(3) by (auto simp: run_turn_begin_def leases_within_refl)
next
  case (Inr x)
  obtain seen d where x: "x = (seen, d)" by force
  have d: "co_turns d = co_turns db" "sandbox_inv (co_sandbox d)" "leases_within (co_sandbox db) (co_sandbox d)"
    using Inr x assms(2,3) by (auto simp: safe_preparation_def dest!: turn_session_frame)
  show ?thesis using r d assms(3) unfolding run_turn_begin_def Inr x
    by (auto simp: Let_def leases_within_refl dest!: transition_frame start_turn_frame split: sum.splits if_splits option.splits)
qed

section \<open>Every step keeps the invariant\<close>

lemma work_inv_step:
  assumes inv: "work_inv digest w" and wr: "coding_writes (ws_db w) db" and sb: "sandbox_inv (co_sandbox db)" "lease_kinds (co_sandbox db)"
    and le: "ws_now w \<le> t"
    and own: "\<And>j. j \<in> set (ws_jobs w) \<Longrightarrow> owns (jb_key j) (jb_owner j) t (co_sandbox db) \<Longrightarrow> owns (jb_key j) (jb_owner j) t (co_sandbox (ws_db w))"
    and st: "\<And>j. j \<in> set (ws_jobs w) \<Longrightarrow> P j \<Longrightarrow> turn_state (job_turn_id j) db = turn_state (job_turn_id j) (ws_db w)
      \<or> (\<exists>x. turn_state (job_turn_id j) db = Some x \<and> turn_done x \<and> \<not> owns (jb_key j) (jb_owner j) t (co_sandbox db))"
    and w': "ws_now w' = t" "ws_db w' = db" "ws_jobs w' = filter P (ws_jobs w)"
  shows "work_inv digest w'"
proof -
  have c: "coding_inv (ws_db w)" "coding_inv db" "coding_rel (ws_db w) db"
    using inv wr writes_coding_inv writes_coding_rel by (auto simp: work_inv_def)
  have "job_ok digest t db j" if j: "j \<in> set (ws_jobs w)" "P j" for j
  proof -
    have ok: "job_ok digest (ws_now w) (ws_db w) j" using inv j by (simp add: work_inv_def)
    have "turn_scope (job_turn_id j) db = Some sc" if "turn_scope (job_turn_id j) (ws_db w) = Some sc" for sc
      using turn_scope_evolves[OF c(3,1,2) that] .
    moreover have "\<not> owns (jb_key j) (jb_owner j) t (co_sandbox db)" if "\<not> owns (jb_key j) (jb_owner j) (ws_now w) (co_sandbox (ws_db w))"
      using that own[OF j(1)] owns_later[OF _ le] by blast
    ultimately show ?thesis using ok st[OF j] by (auto simp: job_ok_def)
  qed
  then show ?thesis using inv c(2) sb w' by (auto simp: work_inv_def distinct_map_filter)
qed

lemma lease_only:
  assumes inv: "work_inv digest w" and sb: "sandbox_inv sb" "lease_kinds sb"
    and own: "\<And>j. j \<in> set (ws_jobs w) \<Longrightarrow> owns (jb_key j) (jb_owner j) (ws_now w) sb \<Longrightarrow> owns (jb_key j) (jb_owner j) (ws_now w) (co_sandbox (ws_db w))"
  shows "work_inv digest (w\<lparr>ws_db := (ws_db w)\<lparr>co_sandbox := sb\<rparr>\<rparr>)"
proof -
  have "coding_writes (ws_db w) ((ws_db w)\<lparr>co_sandbox := sb\<rparr>)" by (intro writes_more) simp
  then show ?thesis
    by (rule work_inv_step[OF inv, where P = "\<lambda>_. True"]) (use sb own in \<open>simp_all add: turn_state_def get_turn_def\<close>)
qed

lemma save_only:
  assumes inv: "work_inv digest w" and wr: "coding_writes (ws_db w) db" and sb: "co_sandbox db = co_sandbox (ws_db w)"
    and d: "co_turns d = co_turns (ws_db w)" and db: "co_turns db = co_turns (save_turn seen t d)"
    and P: "\<And>j. j \<in> set (ws_jobs w) \<Longrightarrow> P j \<Longrightarrow> job_turn_id j \<noteq> kt_id seen"
    and w': "ws_now w' = ws_now w" "ws_db w' = db" "ws_jobs w' = filter P (ws_jobs w)"
  shows "work_inv digest w'"
proof (rule work_inv_step[OF inv wr])
  show "sandbox_inv (co_sandbox db)" "lease_kinds (co_sandbox db)" using inv sb by (auto simp: work_inv_def)
  fix j assume "j \<in> set (ws_jobs w)" "P j"
  from P[OF this] show "turn_state (job_turn_id j) db = turn_state (job_turn_id j) (ws_db w)
      \<or> (\<exists>x. turn_state (job_turn_id j) db = Some x \<and> turn_done x \<and> \<not> owns (jb_key j) (jb_owner j) (ws_now w) (co_sandbox db))"
    unfolding state_same[OF db] by (simp add: state_save[OF d])
qed (simp_all add: sb w')

lemma add_only:
  assumes inv: "work_inv digest w" and wr: "coding_writes (ws_db w) db" and ts: "co_turns db = co_turns (ws_db w) @ ts"
    and sb: "sandbox_inv (co_sandbox db)" "leases_within (co_sandbox (ws_db w)) (co_sandbox db)"
  shows "work_inv digest (w\<lparr>ws_db := db\<rparr>)"
proof -
  have "lease_kinds (co_sandbox db)" using inv lease_kinds_within[OF sb(2)] by (simp add: work_inv_def)
  moreover have "turn_state (job_turn_id j) db = turn_state (job_turn_id j) (ws_db w)" if "j \<in> set (ws_jobs w)" for j
    using inv that state_add[OF ts] by (auto simp: work_inv_def job_ok_def)
  ultimately show ?thesis
    by (intro work_inv_step[OF inv wr sb(1), where P = "\<lambda>_. True"]) (use owns_within[OF sb(2)] in auto)
qed

lemma job_distinct:
  "work_inv digest w \<Longrightarrow> j \<in> set (ws_jobs w) \<Longrightarrow> x \<in> set (ws_jobs w) \<Longrightarrow> x \<noteq> j \<Longrightarrow> job_turn_id x \<noteq> job_turn_id j"
  unfolding work_inv_def distinct_map by (auto dest: inj_onD)

lemma pending_no_job:
  "work_inv digest w \<Longrightarrow> turn_state i (ws_db w) = Some Turn_pending \<Longrightarrow> j \<in> set (ws_jobs w) \<Longrightarrow> job_turn_id j \<noteq> i"
  by (auto simp: work_inv_def job_ok_def turn_done_def)

lemma job_state:
  "work_inv digest w \<Longrightarrow> j \<in> set (ws_jobs w) \<Longrightarrow> job_owns lost j w \<Longrightarrow> turn_state (job_turn_id j) (ws_db w) = Some Turn_running"
  by (auto simp: work_inv_def job_ok_def job_owns_iff)

lemma starts_with_part: "starts_with s (p @ q) \<Longrightarrow> starts_with s p"
proof -
  assume "starts_with s (p @ q)"
  then have "take (length p) (take (length (p @ q)) s) = take (length p) (p @ q)" by (simp only: starts_with_def)
  then show ?thesis by (simp add: starts_with_def min_def split: if_splits)
qed

text \<open>A live worker is seen by the reconciliation.\<close>

lemma lost_not_owned:
  assumes inv: "work_inv digest w" and j: "j \<in> set (ws_jobs w)" and sc: "turn_scope (job_turn_id j) (ws_db w) = Some sc"
    and lost: "\<not> worker_alive digest sc (job_turn_id j) (ws_now w) (co_sandbox (ws_db w))"
  shows "\<not> owns (jb_key j) (jb_owner j) (ws_now w) (co_sandbox (ws_db w))"
proof
  assume "owns (jb_key j) (jb_owner j) (ws_now w) (co_sandbox (ws_db w))"
  then obtain r where r: "sandbox_at (jb_key j) (co_sandbox (ws_db w)) = Some r" "sb_lease_owner_id r = Some (jb_owner j)" "lease_active r (ws_now w)"
    by (auto simp: owns_iff)
  have ok: "job_ok digest (ws_now w) (ws_db w) j" using inv j by (simp add: work_inv_def)
  then have pre: "starts_with (jb_owner j) (coding_turn_owner_prefix digest (job_turn_id j))" by (simp add: job_ok_def)
  then have "coding_owner (jb_owner j)" by (simp add: coding_owner_def coding_turn_owner_prefix_def starts_with_part)
  then have "sb_lease_owner_kind r = Some (lit ''coding_session'')" using inv r by (auto simp del: split_paired_All simp: work_inv_def lease_kinds_def)
  moreover obtain u a p where "jb_key j = (u, a, p)" "sc = Agent_project_scope u a p" using ok sc by (auto simp: job_ok_def)
  ultimately show False using r pre lost by (simp add: worker_alive_def owns_active_prefix_def or_empty_def)
qed

lemma turn_scope_row:
  assumes "coding_inv db" and "t \<in> set (co_turns db)" and "get_session (kt_session_id t) db = Some s"
  shows "turn_scope (kt_id t) db = from_runtime_scope (ks_uid s) (ks_runtime_scope_id s)"
  using assms(3) by (simp add: turn_scope_def get_turn_unique[OF assms(1,2)])

definition work_ok :: "(pystr \<Rightarrow> pystr) \<Rightarrow> work_state \<Rightarrow> work_state \<Rightarrow> bool" where
  "work_ok digest w w' \<longleftrightarrow> work_inv digest w' \<and> turns_keep (ws_db w) (ws_db w')"

lemma save_ok:
  assumes inv: "work_inv digest w" and wr: "coding_writes (ws_db w) db" and sb: "co_sandbox db = co_sandbox (ws_db w)"
    and d: "co_turns d = co_turns (ws_db w)" and db: "co_turns db = co_turns (save_turn seen t d)"
    and P: "\<And>j. j \<in> set (ws_jobs w) \<Longrightarrow> P j \<Longrightarrow> job_turn_id j \<noteq> kt_id seen"
    and st: "turn_state (kt_id seen) (ws_db w) = Some st" "\<not> turn_done st"
    and w': "ws_now w' = ws_now w" "ws_db w' = db" "ws_jobs w' = filter P (ws_jobs w)"
  shows "work_ok digest w w'"
proof -
  have "turns_keep (ws_db w) (save_turn seen t d)"
    by (rule save_turn_keeps[OF _ d st]) (use inv in \<open>simp add: work_inv_def\<close>)
  then have "turns_keep (ws_db w) (ws_db w')" using w' db by (simp add: turns_keep_def)
  then show ?thesis using save_only[OF inv wr sb d db P w'] by (simp add: work_ok_def)
qed

lemma add_ok:
  assumes inv: "work_inv digest w" and wr: "coding_writes (ws_db w) db"
    and sb: "(\<exists>ts. co_turns db = co_turns (ws_db w) @ ts) \<and> sandbox_inv (co_sandbox db) \<and> leases_within (co_sandbox (ws_db w)) (co_sandbox db)"
  shows "work_ok digest w (w\<lparr>ws_db := db\<rparr>)"
  using sb add_only[OF inv wr] by (auto simp: work_ok_def turns_keep_add)

lemma lease_ok:
  assumes "work_inv digest w" and "sandbox_inv sb" "lease_kinds sb"
    and "\<And>j. j \<in> set (ws_jobs w) \<Longrightarrow> owns (jb_key j) (jb_owner j) (ws_now w) sb \<Longrightarrow> owns (jb_key j) (jb_owner j) (ws_now w) (co_sandbox (ws_db w))"
  shows "work_ok digest w (w\<lparr>ws_db := (ws_db w)\<lparr>co_sandbox := sb\<rparr>\<rparr>)"
  using lease_only[OF assms] by (simp add: work_ok_def turns_keep_same)

lemma within_ok:
  assumes inv: "work_inv digest w" and sb: "sandbox_inv sb" "leases_within (co_sandbox (ws_db w)) sb"
  shows "work_ok digest w (w\<lparr>ws_db := (ws_db w)\<lparr>co_sandbox := sb\<rparr>\<rparr>)"
  by (rule lease_ok[OF inv sb(1)]) (use inv lease_kinds_within[OF sb(2)] owns_within[OF sb(2)] in \<open>auto simp: work_inv_def\<close>)

lemma pending_turn:
  assumes "get_turn i db = Some t"
  shows "kt_id t = i" "turn_state (kt_id t) db = Some (kt_status t)"
  using assms find_Some_in[of "\<lambda>t. kt_id t = i"] by (auto simp: turn_state_def get_turn_def)

lemma terminal_ok:
  assumes inv: "work_inv digest w" and t: "get_turn tid (ws_db w) = Some t" "kt_status t = Turn_pending"
  shows "work_ok digest w (w\<lparr>ws_db := cancel_terminal_turn now clk s t (ws_db w)\<rparr>)"
  by (rule save_ok[OF inv cancel_terminal_writes _ refl cancel_terminal_frame(2), where P = "\<lambda>_. True" and st = Turn_pending])
    (use pending_turn[OF t(1)] t(2) pending_no_job[OF inv] in \<open>simp_all add: cancel_terminal_frame turn_done_def\<close>)

lemma same_ok: "work_inv digest w \<Longrightarrow> work_ok digest w w"
  by (simp add: work_ok_def turns_keep_same)

lemma check_ok:
  assumes "work_inv digest w" and "job_check now clk sid tid (ws_db w) = (db, r)"
  shows "work_ok digest w (w\<lparr>ws_db := db\<rparr>)"
  using assms(2) terminal_ok[OF assms(1)] same_ok[OF assms(1)]
  by (auto simp: job_check_def split: option.splits if_splits sandbox_scope.splits)

lemma skip_ok:
  assumes "work_inv digest w" and "job_begin now clk sid tid po (ws_db w) = (db, Inl e)"
  shows "work_ok digest w (w\<lparr>ws_db := db\<rparr>)"
  using assms(2) terminal_ok[OF assms(1)] same_ok[OF assms(1)]
  by (auto simp: job_begin_def split: option.splits if_splits)

lemma drop_ok:
  assumes inv: "work_inv digest w" and j: "j \<in> set (ws_jobs w)" and wr: "coding_writes (ws_db w) db"
    and sb: "co_sandbox db = co_sandbox (ws_db w)" and d: "co_turns d = co_turns (ws_db w)"
    and db: "co_turns db = co_turns (save_turn seen t d)" and seen: "kt_id seen = job_turn_id j"
    and st: "turn_state (job_turn_id j) (ws_db w) = Some Turn_running"
  shows "work_ok digest w (drop_job j db w)"
  by (rule save_ok[OF inv wr sb d db, where P = "\<lambda>x. x \<noteq> j" and st = Turn_running])
    (use st seen job_distinct[OF inv j] in \<open>auto simp: drop_job_def turn_done_def\<close>)

lemma settle_ok:
  assumes inv: "work_inv digest w" and j: "j \<in> set (ws_jobs w)"
    and e: "execute_turn_tail ps gen a (Some (job_owns lost j w)) c (ws_now w) clk (jb_session j) (jb_turn j) (ws_db w) = (db, Inr st)"
  shows "work_ok digest w (drop_job j db w)"
proof -
  obtain d t where d: "Some (job_owns lost j w) \<noteq> Some False" "co_turns d = co_turns (ws_db w)" "co_sandbox db = co_sandbox (ws_db w)"
    "co_turns db = co_turns (save_turn (jb_turn j) t d)" using tail_effect[OF e] by metis
  have "coding_writes (ws_db w) db" using tail_writes[of "ws_db w"] e by (metis fst_conv)
  from drop_ok[OF inv j this d(3,2,4)] d(1) job_state[OF inv j] show ?thesis by (simp add: job_turn_id_def)
qed

lemma give_up_ok:
  assumes inv: "work_inv digest w" and j: "j \<in> set (ws_jobs w)"
    and e: "fail_owned_coding_turn gen sid (job_turn_id j) ec em (job_owns lost j w) now clk (ws_db w) = Inr (db, b)"
  shows "work_ok digest w (drop_job j db w)"
proof (cases "db = ws_db w")
  case True
  have "work_inv digest (drop_job j db w)"
    using inv True by (auto simp: work_inv_def drop_job_def distinct_map_filter)
  then show ?thesis using True by (simp add: work_ok_def drop_job_def turns_keep_same)
next
  case False
  obtain s t where t: "get_turn (job_turn_id j) (ws_db w) = Some t" "kt_status t = Turn_running" and f: "fail_running_turn gen ec em now clk s t (ws_db w) = Inr db"
    using e False by (auto simp: fail_owned_coding_turn_def split: if_splits option.splits)
  obtain t' where t': "co_sandbox db = co_sandbox (ws_db w)" "co_turns db = co_turns (save_turn t t' (ws_db w))"
    using fail_running_effect[OF f] by blast
  show ?thesis
    by (rule drop_ok[OF inv j fail_running_writes[OF f] t'(1) refl t'(2)]) (use pending_turn[OF t(1)] t(2) in auto)
qed

lemma reconcile_ok:
  assumes inv: "work_inv digest w" and l: "t0 \<in> set (co_turns (ws_db w))" "kt_id l = kt_id t0" "kt_session_id l = kt_session_id t0"
    and e: "reconcile_turn digest gen (ws_now w) clk l (ws_db w) = Inr (db, n)"
  shows "work_ok digest w (w\<lparr>ws_db := db\<rparr>)"
proof (cases "db = ws_db w")
  case True
  then show ?thesis using same_ok[OF inv] by simp
next
  case False
  obtain s sc t where s: "get_session (kt_session_id t0) (ws_db w) = Some s" "from_runtime_scope (ks_uid s) (ks_runtime_scope_id s) = Some sc"
    and lost: "\<not> worker_alive digest sc (kt_id t0) (ws_now w) (co_sandbox (ws_db w))"
    and t: "get_turn (kt_id t0) (ws_db w) = Some t" "kt_status t = Turn_running"
    and f: "fail_running_turn gen (lit ''coding_worker_lost'') worker_lost_message (ws_now w) clk s t (ws_db w) = Inr db"
    using e False l by (auto simp: reconcile_turn_def split: option.splits if_splits)
  have c: "coding_inv (ws_db w)" using inv by (simp add: work_inv_def)
  obtain t' where t': "co_sandbox db = co_sandbox (ws_db w)" "kt_status t' = Turn_failed" "co_turns db = co_turns (save_turn t t' (ws_db w))"
    using fail_running_effect[OF f] .
  note tt = pending_turn[OF t(1)]
  have "turns_keep (ws_db w) (save_turn t t' (ws_db w))"
    by (rule save_turn_keeps[OF c refl tt(2)]) (simp add: t(2) turn_done_def)
  then have keep: "turns_keep (ws_db w) db" using t'(3) by (simp add: turns_keep_def)
  have "turn_state (job_turn_id j) db = turn_state (job_turn_id j) (ws_db w)
      \<or> (\<exists>x. turn_state (job_turn_id j) db = Some x \<and> turn_done x \<and> \<not> owns (jb_key j) (jb_owner j) (ws_now w) (co_sandbox db))"
    if j: "j \<in> set (ws_jobs w)" for j
  proof (cases "job_turn_id j = kt_id t0")
    case True
    have "\<not> owns (jb_key j) (jb_owner j) (ws_now w) (co_sandbox (ws_db w))"
      using lost_not_owned[OF inv j, unfolded True, OF turn_scope_row[OF c l(1) s(1), unfolded s(2)] lost] .
    then show ?thesis
      unfolding state_same[OF t'(3)] using tt t(2) t'(1,2) True by (simp add: state_save[OF refl] turn_done_def set_col_def)
  next
    case False
    then show ?thesis unfolding state_same[OF t'(3)] using tt(1) by (simp add: state_save[OF refl])
  qed
  then have "work_inv digest (w\<lparr>ws_db := db\<rparr>)"
    by (intro work_inv_step[OF inv fail_running_writes[OF f], where P = "\<lambda>_. True"]) (use inv t'(1) in \<open>auto simp: work_inv_def\<close>)
  then show ?thesis using keep by (simp add: work_ok_def)
qed

lemma commence_ok:
  assumes inv: "work_inv digest w" and e: "job_begin (ws_now w) clk sid tid po (ws_db w) = (db, Inr (s, t, plan))" and sid: "kt_session_id t = sid"
    and sc: "from_runtime_scope (ks_uid s) (ks_runtime_scope_id s) = Some (Agent_project_scope u a p)"
    and v: "v = coding_turn_owner_id digest token tid" "v \<notin> jb_owner ` set (ws_jobs w)"
  shows "work_ok digest w (w\<lparr>ws_db := db, ws_jobs := \<lparr>jb_owner = v, jb_key = (u, a, p), jb_session = s, jb_turn = t\<rparr> # ws_jobs w\<rparr>)"
proof -
  obtain t0 where s: "get_session sid (ws_db w) = Some s" and t0: "get_turn tid (ws_db w) = Some t0" "kt_status t0 = Turn_pending"
    and t: "t = mark_turn_running (ws_now w) t0" and db: "db = save_turn t0 t (ws_db w)"
    using e by (auto simp: job_begin_def split: option.splits if_splits)
  note tt = pending_turn[OF t0(1)]
  have mem: "t0 \<in> set (co_turns (ws_db w))" using t0(1) by (auto simp: get_turn_def dest: find_Some_in)
  have wr: "coding_writes (ws_db w) db" by (simp add: db writes_more)
  have ok: "work_ok digest w (w\<lparr>ws_db := db\<rparr>)"
    by (rule save_ok[OF inv wr _ refl, of t0 t "\<lambda>_. True" Turn_pending])
      (use tt t0(2) pending_no_job[OF inv] in \<open>simp_all add: db turn_done_def\<close>)
  have c: "coding_inv (ws_db w)" using inv by (simp add: work_inv_def)
  have "turn_scope tid (ws_db w) = Some (Agent_project_scope u a p)"
    using turn_scope_row[OF c mem, of s] s sid sc tt(1) by (simp add: t mark_turn_running_def split: if_splits)
  from turn_scope_evolves[OF writes_coding_rel[OF wr] c writes_coding_inv[OF wr c] this]
  have "job_ok digest (ws_now w) db \<lparr>jb_owner = v, jb_key = (u, a, p), jb_session = s, jb_turn = t\<rparr>"
    using tt t0(2) by (simp add: job_ok_def job_turn_id_def t db state_save[OF refl] mark_turn_running_def set_col_def
        v(1) coding_turn_owner_id_def starts_with_def)
  moreover have "tid \<notin> job_turn_id ` set (ws_jobs w)" using pending_no_job[OF inv, of tid] tt t0(2) by (metis imageE)
  ultimately show ?thesis
    using ok v(2) tt(1) t0(2) by (auto simp: work_ok_def work_inv_def job_turn_id_def t mark_turn_running_def)
qed

lemma inline_ok:
  assumes inv: "work_inv digest w" and e: "execute_turn_tail ps gen a None c (ws_now w) clk s t (ws_db w) = (db, Inr st)"
    and t: "turn_state (kt_id t) (ws_db w) = Some Turn_running" "kt_id t \<notin> job_turn_id ` set (ws_jobs w)"
  shows "work_ok digest w (w\<lparr>ws_db := db\<rparr>)"
proof -
  obtain d t' where d: "co_turns d = co_turns (ws_db w)" "co_sandbox db = co_sandbox (ws_db w)"
    "co_turns db = co_turns (save_turn t t' d)" using tail_effect[OF e] by metis
  have "coding_writes (ws_db w) db" using tail_writes[of "ws_db w"] e by (metis fst_conv)
  then show ?thesis
    by (rule save_ok[OF inv _ d(2,1,3), where P = "\<lambda>_. True" and st = Turn_running]) (use t in \<open>auto simp: turn_done_def image_iff\<close>)
qed

lemma cancel_queued_ok:
  assumes inv: "work_inv digest w" and j: "j \<in> set (ws_jobs w)" and st: "turn_state (job_turn_id j) (ws_db w) = Some Turn_running"
    and e: "cancel_queued_turn gen now clk s (jb_turn j) (ws_db w) = Inr db"
  shows "work_ok digest w (drop_job j db w)"
proof -
  obtain t d where d: "co_sandbox db = co_sandbox (ws_db w)" "co_turns d = co_turns (ws_db w)" "co_turns db = co_turns (save_turn (jb_turn j) t d)"
    using cancel_queued_effect[OF e] by blast
  from drop_ok[OF inv j cancel_queued_writes[OF e] d(1,2,3) _ st] show ?thesis by (simp add: job_turn_id_def)
qed

lemma cancel_frame:
  "cancel_session gen pl now clk seen d = Inr d' \<Longrightarrow> co_turns d' = co_turns d \<and> co_sandbox d' = co_sandbox d"
  unfolding cancel_session_def by (auto split: if_splits dest!: transition_frame)

lemma frame_ok:
  assumes inv: "work_inv digest w" and wr: "coding_writes (ws_db w) db" and "co_turns db = co_turns (ws_db w) \<and> co_sandbox db = co_sandbox (ws_db w)"
  shows "work_ok digest w (w\<lparr>ws_db := db\<rparr>)"
  using add_ok[OF inv wr] assms by (auto simp: leases_within_refl work_inv_def)

lemma leave_ok: "work_inv digest w \<Longrightarrow> work_ok digest w (drop_job j (ws_db w) w)"
  by (auto simp: work_ok_def work_inv_def drop_job_def distinct_map_filter turns_keep_same)

lemma tick_ok: "work_inv digest w \<Longrightarrow> ws_now w \<le> t \<Longrightarrow> work_ok digest w (w\<lparr>ws_now := t\<rparr>)"
  using work_inv_step[where P = "\<lambda>_. True" and w' = "w\<lparr>ws_now := t\<rparr>", of digest w "ws_db w" t]
  by (simp add: work_ok_def turns_keep_same work_inv_def)

lemma acquire_ok:
  assumes inv: "work_inv digest w" and e: "try_acquire gen u a p kind v ttl (ws_now w) (co_sandbox (ws_db w)) = Inr (sb, ok, r)"
    and v: "v \<notin> jb_owner ` set (ws_jobs w)" "coding_owner v \<longrightarrow> kind = lit ''coding_session''"
  shows "work_ok digest w (w\<lparr>ws_db := (ws_db w)\<lparr>co_sandbox := sb\<rparr>\<rparr>)"
proof (rule lease_ok[OF inv])
  have i: "sandbox_inv (co_sandbox (ws_db w))" and k: "lease_kinds (co_sandbox (ws_db w))" using inv by (auto simp: work_inv_def)
  show "sandbox_inv sb" using writes_inv[OF try_acquire_writes[OF i e] i] .
  show "lease_kinds sb" by (rule acquire_kinds[OF i e k v(2)])
  fix j assume "j \<in> set (ws_jobs w)" "owns (jb_key j) (jb_owner j) (ws_now w) sb"
  then show "owns (jb_key j) (jb_owner j) (ws_now w) (co_sandbox (ws_db w))" using acquire_owns[OF i e] v(1) by (metis imageI)
qed

lemma heartbeat_ok:
  assumes inv: "work_inv digest w" and e: "lease_heartbeat u a p v ttl (ws_now w) (co_sandbox (ws_db w)) = (sb, ok)"
  shows "work_ok digest w (w\<lparr>ws_db := (ws_db w)\<lparr>co_sandbox := sb\<rparr>\<rparr>)"
proof (rule lease_ok[OF inv])
  have i: "sandbox_inv (co_sandbox (ws_db w))" and k: "lease_kinds (co_sandbox (ws_db w))" using inv by (auto simp: work_inv_def)
  show "sandbox_inv sb" using writes_inv[OF heartbeat_writes[OF i] i, of u a p v ttl "ws_now w"] e by simp
  show "lease_kinds sb" by (rule heartbeat_kinds[OF i e k])
  fix j assume "owns (jb_key j) (jb_owner j) (ws_now w) sb"
  from heartbeat_owns[OF i e this] show "owns (jb_key j) (jb_owner j) (ws_now w) (co_sandbox (ws_db w))" .
qed

lemma work_step_ok:
  assumes "work_step digest w w'" and inv: "work_inv digest w"
  shows "work_ok digest w w'"
  using assms(1)
proof cases
  case (release gen u a p v sb ok)
  have i: "sandbox_inv (co_sandbox (ws_db w))" using inv by (simp add: work_inv_def)
  show ?thesis unfolding release(1)
    by (rule within_ok[OF inv]) (use release_within[OF i, of gen u a p v "ws_now w"] writes_inv[OF release_writes[OF i] i, of gen u a p v "ws_now w"] release(2) in simp_all)
next
  case (expire gen sb k)
  have i: "sandbox_inv (co_sandbox (ws_db w))" using inv by (simp add: work_inv_def)
  have sb: "sb = fst (lease_reconcile_expired gen (ws_now w) (co_sandbox (ws_db w)))" using expire(2) by simp
  show ?thesis unfolding expire(1)
  proof (rule within_ok[OF inv])
    show "sandbox_inv sb" unfolding sb by (rule writes_inv[OF reconcile_writes i])
    show "leases_within (co_sandbox (ws_db w)) sb" unfolding sb lease_reconcile_expired_def by (rule reconcile_leases_within[OF i])
  qed
next
  case (queue pol gen si ti pl ex task po sid sn bu conv run prep clk db t)
  show ?thesis unfolding queue(1)
    by (rule add_ok[OF inv queue_coding_turn_writes[OF queue(2)] queue_effect[OF queue(2,3)]]) (use inv in \<open>simp add: work_inv_def\<close>)
next
  case (dispatch ps pol gen si ti key sn prep req clk db h)
  show ?thesis unfolding dispatch(1)
    by (rule add_ok[OF inv sandbox_dispatch_writes[OF dispatch(2)] dispatch_effect[OF dispatch(2,3)]]) (use inv in \<open>simp add: work_inv_def\<close>)
next
  case (run ti0 gen si ti pl ex task sid sn bu conv run prep clk db r)
  have "coding_writes (ws_db w) db" using run_turn_begin_writes[of "ws_db w"] run(2) by (metis fst_conv)
  then show ?thesis unfolding run(1)
    by (rule add_ok[OF inv _ run_effect[OF run(2,3)]]) (use inv in \<open>simp add: work_inv_def\<close>)
next
  case (signal cs)
  show ?thesis unfolding signal by (rule frame_ok[OF inv]) (auto intro: writes_more)
qed (use inv in \<open>auto intro: tick_ok acquire_ok heartbeat_ok within_ok commence_ok skip_ok check_ok settle_ok give_up_ok leave_ok
      cancel_queued_ok reconcile_ok inline_ok frame_ok dest: cancel_frame cancel_session_writes\<close>)

definition work_start :: "work_state \<Rightarrow> bool" where
  "work_start w \<longleftrightarrow> coding_start (ws_db w) \<and> ws_jobs w = [] \<and> sx_sandboxes (co_sandbox (ws_db w)) = [] \<and> sandbox_inv (co_sandbox (ws_db w))"

definition work_rel :: "work_state \<Rightarrow> work_state \<Rightarrow> bool" where
  "work_rel w w' \<longleftrightarrow> turns_keep (ws_db w) (ws_db w')"

interpretation workers: step_system work_start "work_step digest" "work_inv digest" work_rel for digest
proof unfold_locales
  fix s t u
  show "work_start s \<Longrightarrow> work_inv digest s"
    by (auto simp: work_start_def work_inv_def lease_kinds_def coding_start_def coding_inv_def turn_seqs_def event_seqs_def sandbox_get_def)
  show "work_inv digest s \<Longrightarrow> work_step digest s t \<Longrightarrow> work_inv digest t" using work_step_ok[of digest s t] by (simp add: work_ok_def)
  show "work_inv digest s \<Longrightarrow> work_step digest s t \<Longrightarrow> work_rel s t" using work_step_ok[of digest s t] by (simp add: work_ok_def work_rel_def)
  show "work_rel s s" by (simp add: work_rel_def turns_keep_same)
  show "work_rel s t \<Longrightarrow> work_rel t u \<Longrightarrow> work_rel s u" unfolding work_rel_def by (rule turns_keep_trans)
qed

end
