(* ===== verification/Coding_Properties.thy ===== *)
theory Coding_Properties
  imports Coding_Fence
begin

text \<open>
  What coding sessions promise: numbered and append-only histories, turns that are settled once whatever workers, users and the
  reconciliation do, what a stale session can undo, and commands in which every argument arrives as it was given.
\<close>

section \<open>Shell commands\<close>

text \<open>
  The part of the POSIX shell that the commands use: words of plain characters, single and double quotes, blanks, redirections
  and AND-OR lists. Everything else, expansions included, is refused.
\<close>

datatype shell_token = Word pystr | And_then | Or_else | Redirect pystr

datatype quoting = Unquoted | Single_quoted | Double_quoted

definition word_so_far :: "pystr option \<Rightarrow> shell_token list" where
  "word_so_far acc = (case acc of None \<Rightarrow> [] | Some w \<Rightarrow> [Word w])"

definition grow :: "pystr option \<Rightarrow> pystr \<Rightarrow> pystr option" where
  "grow acc cs = Some ((case acc of None \<Rightarrow> [] | Some w \<Rightarrow> w) @ cs)"

text \<open>A number right before \<^verbatim>\<open>>\<close> is the file descriptor.\<close>

definition redirect_so_far :: "pystr option \<Rightarrow> shell_token list" where
  "redirect_so_far acc =
     (case acc of None \<Rightarrow> [Redirect []] | Some w \<Rightarrow> if list_all (\<lambda>c. 48 \<le> c \<and> c \<le> 57) w then [Redirect w] else [Word w, Redirect []])"

fun shell_tokens :: "quoting \<Rightarrow> pystr option \<Rightarrow> pystr \<Rightarrow> shell_token list option" where
  "shell_tokens q acc [] = (if q = Unquoted then Some (word_so_far acc) else None)"
| "shell_tokens Unquoted acc (c # s) =
     (if c = 32 then map_option ((@) (word_so_far acc)) (shell_tokens Unquoted None s)
      else if c = 38 \<or> c = 124 then
        (case s of
           [] \<Rightarrow> None
         | d # s' \<Rightarrow>
             if d = c then map_option ((@) (word_so_far acc @ [if c = 38 then And_then else Or_else])) (shell_tokens Unquoted None s') else None)
      else if c = 62 then map_option ((@) (redirect_so_far acc)) (shell_tokens Unquoted None s)
      else if c = 39 then shell_tokens Single_quoted (grow acc []) s
      else if c = 34 then shell_tokens Double_quoted (grow acc []) s
      else if shell_safe c then shell_tokens Unquoted (grow acc [c]) s
      else None)"
| "shell_tokens Single_quoted acc (c # s) =
     (if c = 39 then shell_tokens Unquoted acc s else shell_tokens Single_quoted (grow acc [c]) s)"
| "shell_tokens Double_quoted acc (c # s) =
     (if c = 34 then shell_tokens Unquoted acc s
      else if c \<in> {36, 92, 96} then None
      else shell_tokens Double_quoted (grow acc [c]) s)"

abbreviation shell_parse :: "pystr \<Rightarrow> shell_token list option" where
  "shell_parse \<equiv> shell_tokens Unquoted None"

text \<open>
  The commands an AND-OR list executes, in order: \<open>ok\<close> tells which of them succeed. The operators have the same precedence and
  associate to the left; a skipped command leaves the status as it is.
\<close>

fun and_or :: "(pystr list \<Rightarrow> bool) \<Rightarrow> bool \<Rightarrow> bool \<Rightarrow> pystr list \<Rightarrow> shell_token list \<Rightarrow> pystr list list" where
  "and_or ok status go ws [] = (if go then [ws] else [])"
| "and_or ok status go ws (Word w # ts) = and_or ok status go (ws @ [w]) ts"
| "and_or ok status go ws [Redirect fd] = (if go then [ws] else [])"
| "and_or ok status go ws (Redirect fd # target # ts) = and_or ok status go ws ts"
| "and_or ok status go ws (And_then # ts) =
     (if go then ws # and_or ok (ok ws) (ok ws) [] ts else and_or ok status status [] ts)"
| "and_or ok status go ws (Or_else # ts) =
     (if go then ws # and_or ok (ok ws) (\<not> ok ws) [] ts else and_or ok status (\<not> status) [] ts)"

definition commands_run :: "(pystr list \<Rightarrow> bool) \<Rightarrow> pystr \<Rightarrow> pystr list list option" where
  "commands_run ok command = map_option (and_or ok True True []) (shell_parse command)"

lemma grow_grow [simp]: "grow (grow acc xs) ys = grow acc (xs @ ys)"
  by (simp add: grow_def)

lemma word_grow [simp]: "word_so_far (grow None xs) = [Word xs]"
  by (simp add: word_so_far_def grow_def)

lemma word_none [simp]: "word_so_far None = []"
  by (simp add: word_so_far_def)

lemma safe_plain: "shell_safe c \<Longrightarrow> c \<noteq> 32 \<and> c \<noteq> 38 \<and> c \<noteq> 39 \<and> c \<noteq> 34 \<and> c \<noteq> 62 \<and> c \<noteq> 124"
  by (auto simp: shell_safe_def lit_def)

lemma tokens_safe: "list_all shell_safe s \<Longrightarrow> s \<noteq> [] \<Longrightarrow> shell_tokens Unquoted acc (s @ rest) = shell_tokens Unquoted (grow acc s) rest"
proof (induction s arbitrary: acc)
  case (Cons c s)
  have "shell_tokens Unquoted acc ((c # s) @ rest) = shell_tokens Unquoted (grow acc [c]) (s @ rest)"
    using Cons.prems safe_plain[of c] by simp
  also have "\<dots> = shell_tokens Unquoted (grow acc (c # s)) rest"
    using Cons.IH[of "grow acc [c]"] Cons.prems by (cases "s = []") simp_all
  finally show ?case .
qed simp

lemma tokens_single:
  "shell_tokens Single_quoted (grow acc xs) (concat (map quote_char s) @ 39 # rest) = shell_tokens Unquoted (grow acc (xs @ s)) rest"
  by (induction s arbitrary: xs) (simp_all add: quote_char_def)

lemma tokens_quote: "shell_tokens Unquoted acc (shlex_quote s @ rest) = shell_tokens Unquoted (grow acc s) rest"
  using tokens_single[of acc "[]" s rest] by (simp add: shlex_quote_def tokens_safe)

text \<open>A blank ends a word; what follows it is read on its own.\<close>

lemma tokens_blank:
  "shell_tokens q acc a = Some ts \<Longrightarrow> shell_tokens q acc (a @ 32 # b) = map_option ((@) ts) (shell_parse b)"
proof (induction q acc a arbitrary: ts rule: shell_tokens.induct)
  case (2 acc c s)
  consider (blank) "c = 32" | (op) "c = 38 \<or> c = 124" | (out) "c = 62" | (other) "c \<noteq> 32" "c \<noteq> 38" "c \<noteq> 124" "c \<noteq> 62" by blast
  then show ?case
  proof cases
    case blank
    then obtain us where "shell_parse s = Some us" "ts = word_so_far acc @ us" using 2(7) by auto
    with 2(1)[OF blank] show ?thesis using blank by (simp add: option.map_comp o_def)
  next
    case op
    then obtain s' us where s: "s = c # s'" "shell_parse s' = Some us" "ts = word_so_far acc @ [if c = 38 then And_then else Or_else] @ us"
      using 2(7) by (auto split: list.splits if_splits)
    with 2(2)[of c s' us] op show ?thesis by (auto simp: option.map_comp o_def)
  next
    case out
    then obtain us where "shell_parse s = Some us" "ts = redirect_so_far acc @ us" using 2(7) by auto
    with 2(3) show ?thesis using out by (simp add: option.map_comp o_def)
  next
    case other
    then show ?thesis using 2(4-7) by (auto split: if_splits)
  qed
qed (auto split: if_splits)

lemma parse_words: "shell_parse (join_space (map shlex_quote ws)) = Some (map Word ws)"
proof (induction ws rule: induct_list012)
  case (2 x)
  then show ?case using tokens_quote[of None x "[]"] by simp
next
  case (3 x y zs)
  have "shell_parse (shlex_quote x) = Some [Word x]" using tokens_quote[of None x "[]"] by simp
  from tokens_blank[OF this] show ?case using 3(2) by simp
qed (simp add: word_so_far_def)

definition name_ok :: "pystr \<Rightarrow> bool" where
  "name_ok k \<longleftrightarrow> k \<noteq> [] \<and> list_all shell_safe k"

lemma parse_assignment:
  assumes "name_ok k"
  shows "shell_parse (k @ 61 # shlex_quote v) = Some [Word (k @ 61 # v)]"
proof -
  have safe: "list_all shell_safe (k @ [61])" using assms by (simp add: name_ok_def shell_safe_def lit_def)
  have "shell_parse ((k @ [61]) @ shlex_quote v @ []) = Some [Word ((k @ [61]) @ v)]"
    unfolding tokens_safe[OF safe, simplified] using tokens_safe[OF safe, of None "shlex_quote v @ []"] tokens_quote[of "grow None (k @ [61])" v "[]"] by simp
  then show ?thesis by simp
qed

lemma parse_assignments:
  "\<forall>x\<in>set kvs. name_ok (fst x) \<Longrightarrow> shell_parse (join_space (map (\<lambda>(k, v). k @ 61 # shlex_quote v) kvs)) = Some (map (\<lambda>(k, v). Word (k @ 61 # v)) kvs)"
proof (induction kvs rule: induct_list012)
  case (2 x)
  then show ?case using parse_assignment[of "fst x" "snd x"] by (simp add: split_beta)
next
  case (3 x y zs)
  have "shell_parse (fst x @ 61 # shlex_quote (snd x)) = Some [Word (fst x @ 61 # snd x)]" using 3(3) by (intro parse_assignment) simp
  from tokens_blank[OF this] show ?case using 3(2,3) by (simp add: split_beta)
qed (simp add: word_so_far_def)

lemma parse_and: "shell_parse (lit ''&& '' @ b) = map_option ((#) And_then) (shell_parse b)"
  by (simp add: lit_def word_so_far_def option.map_comp o_def option.map_ident)

lemma parse_then:
  assumes "shell_parse a = Some ts"
  shows "shell_parse (a @ lit '' && '' @ b) = map_option (\<lambda>us. ts @ And_then # us) (shell_parse b)"
proof -
  have "a @ lit '' && '' @ b = a @ 32 # lit ''&& '' @ b" by (simp add: lit_def)
  then show ?thesis using tokens_blank[OF assms, of "lit ''&& '' @ b"] by (simp only: parse_and option.map_comp o_def)
qed

definition executor_parts :: "coding_executor \<Rightarrow> coding_turn_request \<Rightarrow> pystr list" where
  "executor_parts e r = (case e of Opencode \<Rightarrow> opencode_parts r | Codex \<Rightarrow> codex_parts r)"

definition env_tokens :: "coding_turn_request \<Rightarrow> shell_token list" where
  "env_tokens r = (if cr_env r = [] then [] else Word (lit ''env'') # map (\<lambda>(k, v). Word (k @ 61 # v)) (sort_key fst (cr_env r)))"

lemma join_assignments_nonempty: "kvs \<noteq> [] \<Longrightarrow> join_space (map (\<lambda>(k, v). k @ 61 # shlex_quote v) kvs) \<noteq> []"
  by (induction kvs rule: induct_list012) (auto simp: split_beta)

lemma parse_env:
  assumes "\<forall>x\<in>set (cr_env r). name_ok (fst x)" and c: "shell_parse command = Some ts" and e: "cr_env r \<noteq> []"
  shows "shell_parse (lit ''env '' @ join_space (map (\<lambda>(k, v). k @ 61 # shlex_quote v) (sort_key fst (cr_env r))) @ 32 # command)
    = Some (env_tokens r @ ts)"
proof -
  let ?as = "join_space (map (\<lambda>(k, v). k @ 61 # shlex_quote v) (sort_key fst (cr_env r)))"
  have "shell_parse ?as = Some (map (\<lambda>(k, v). Word (k @ 61 # v)) (sort_key fst (cr_env r)))"
    by (rule parse_assignments) (use assms(1) in simp)
  from tokens_blank[OF this, of command]
  have as: "shell_parse (?as @ 32 # command) = Some (map (\<lambda>(k, v). Word (k @ 61 # v)) (sort_key fst (cr_env r)) @ ts)" by (simp add: c)
  have "shell_parse (lit ''env'') = Some [Word (lit ''env'')]" by code_simp
  from tokens_blank[OF this, of "?as @ 32 # command"] show ?thesis
    using e by (simp add: as env_tokens_def) (simp add: lit_def)
qed

lemma env_sort: "sort_key fst (cr_env r) = [] \<longleftrightarrow> cr_env r = []"
  by (metis length_0_conv length_sort)

lemma parse_command:
  assumes p: "shell_parse (or_empty (cr_prelude r)) = Some ts" and names: "\<forall>x\<in>set (cr_env r). name_ok (fst x)"
  shows "shell_parse (build_command e r) =
    Some ((if or_empty (cr_workdir r) = [] then [] else [Word (lit ''cd''), Word (or_empty (cr_workdir r)), And_then])
      @ (if or_empty (cr_prelude r) = [] then [] else ts @ [And_then])
      @ env_tokens r @ map Word (executor_parts e r))"
proof -
  let ?c = "join_space (map shlex_quote (executor_parts e r))"
  have c: "shell_parse ?c = Some (map Word (executor_parts e r))" by (rule parse_words)
  have w: "shell_parse (apply_turn_wrapper ?c r)
      = Some ((if or_empty (cr_prelude r) = [] then [] else ts @ [And_then]) @ env_tokens r @ map Word (executor_parts e r))"
    using parse_env[OF names c] c parse_then[OF p] join_assignments_nonempty[of "sort_key fst (cr_env r)"] env_sort[of r]
    by (auto simp: apply_turn_wrapper_def Let_def env_tokens_def)
  have cd: "shell_parse (lit ''cd '' @ shlex_quote d) = Some [Word (lit ''cd''), Word d]" for d
  proof -
    have "shell_parse (lit ''cd'') = Some [Word (lit ''cd'')]" by code_simp
    from tokens_blank[OF this, of "shlex_quote d"] tokens_quote[of None d "[]"] show ?thesis by (simp add: lit_def)
  qed
  show ?thesis
    using parse_then[OF cd, of "or_empty (cr_workdir r)" "apply_turn_wrapper ?c r"] w
    by (simp add: build_command_def executor_parts_def[symmetric] with_workdir_def)
qed

definition layout_base :: "pystr \<Rightarrow> pystr" where
  "layout_base sid = lit ''/home/gem/user-data/agents/coding/'' @ sid"

definition layout_tokens :: "coding_executor \<Rightarrow> pystr \<Rightarrow> shell_token list" where
  "layout_tokens e sid =
     (case e of
        Opencode \<Rightarrow> map Word [lit ''mkdir'', lit ''-p'', layout_base sid @ lit ''/data'', layout_base sid @ lit ''/cache'']
      | Codex \<Rightarrow> map Word [lit ''mkdir'', lit ''-p'', layout_base sid @ lit ''/codex-home''] @ And_then
          # map Word [lit ''cp'', lit ''-n'', lit ''/home/gem/.codex/config.toml'', (layout_base sid @ lit ''/codex-home'') @ lit ''/config.toml'']
          @ [Redirect (lit ''2''), Word (lit ''/dev/null''), Or_else, Word (lit ''true'')])"

lemma parse_mkdir: "shell_parse (lit ''mkdir -p '' @ shlex_quote d @ rest) = map_option ((@) [Word (lit ''mkdir''), Word (lit ''-p'')]) (shell_tokens Unquoted (grow None d) rest)"
proof -
  have "shell_parse (lit ''mkdir -p'') = Some [Word (lit ''mkdir''), Word (lit ''-p'')]" by code_simp
  from tokens_blank[OF this, of "shlex_quote d @ rest"] show ?thesis unfolding tokens_quote by (simp add: lit_def)
qed

lemma parse_config: "shell_parse (lit ''cp -n /home/gem/.codex/config.toml '' @ shlex_quote d @ lit ''/config.toml 2>/dev/null || true'')
  = Some (map Word [lit ''cp'', lit ''-n'', lit ''/home/gem/.codex/config.toml'', d @ lit ''/config.toml'']
      @ [Redirect (lit ''2''), Word (lit ''/dev/null''), Or_else, Word (lit ''true'')])"
proof -
  let ?rest = "lit ''2>/dev/null || true''"
  have cp: "shell_parse (lit ''cp -n /home/gem/.codex/config.toml'') = Some (map Word [lit ''cp'', lit ''-n'', lit ''/home/gem/.codex/config.toml''])"
    by code_simp
  have safe: "list_all shell_safe (lit ''/config.toml'')" "lit ''/config.toml'' \<noteq> []" by code_simp+
  have "shell_tokens Unquoted (grow None d) (lit ''/config.toml'' @ 32 # ?rest) = shell_tokens Unquoted (grow None (d @ lit ''/config.toml'')) (32 # ?rest)"
    unfolding tokens_safe[OF safe] by simp
  moreover have "shell_parse ?rest = Some [Redirect (lit ''2''), Word (lit ''/dev/null''), Or_else, Word (lit ''true'')]" by code_simp
  ultimately have "shell_parse (shlex_quote d @ lit ''/config.toml'' @ 32 # ?rest)
      = Some (Word (d @ lit ''/config.toml'') # [Redirect (lit ''2''), Word (lit ''/dev/null''), Or_else, Word (lit ''true'')])"
    unfolding tokens_quote by simp
  moreover have "lit ''cp -n /home/gem/.codex/config.toml '' @ shlex_quote d @ lit ''/config.toml 2>/dev/null || true''
      = lit ''cp -n /home/gem/.codex/config.toml'' @ 32 # shlex_quote d @ lit ''/config.toml'' @ 32 # ?rest" by (simp add: lit_def)
  ultimately show ?thesis using tokens_blank[OF cp] by simp
qed

lemma parse_layout: "shell_parse (cl_prelude (cli_state_layout e sid)) = Some (layout_tokens e sid)"
proof (cases e)
  case Opencode
  have "shell_parse (shlex_quote d) = Some [Word d]" for d using tokens_quote[of None d "[]"] by simp
  then show ?thesis using parse_mkdir[of _ "32 # shlex_quote _"]
    by (simp add: Opencode cli_state_layout_def layout_tokens_def layout_base_def[symmetric] Let_def)
next
  case Codex
  let ?h = "layout_base sid @ lit ''/codex-home''"
  have "shell_parse (lit ''mkdir -p '' @ shlex_quote ?h) = Some (map Word [lit ''mkdir'', lit ''-p'', ?h])" using parse_mkdir[of ?h "[]"] by simp
  from parse_then[OF this] parse_config[of ?h] show ?thesis
    by (simp add: Codex cli_state_layout_def layout_tokens_def layout_base_def[symmetric] Let_def) (simp add: lit_def)
qed

lemma layout_env_ok: "\<forall>x\<in>set (cl_env (cli_state_layout e sid)). name_ok (fst x)"
proof -
  have "name_ok (lit ''XDG_DATA_HOME'')" "name_ok (lit ''XDG_CACHE_HOME'')" "name_ok (lit ''CODEX_HOME'')" by code_simp+
  then show ?thesis by (cases e) (simp_all add: cli_state_layout_def Let_def)
qed

lemma prelude_nonempty: "cl_prelude (cli_state_layout e sid) \<noteq> []"
  by (cases e) (simp_all add: cli_state_layout_def Let_def lit_def)

lemma and_or_words: "and_or ok st go ws (map Word vs @ ts) = and_or ok st go (ws @ vs) ts"
  by (induction vs arbitrary: ws) simp_all

lemma and_or_rest: "and_or ok st go ws (map Word vs) = (if go then [ws @ vs] else [])"
  using and_or_words[of ok st go ws vs "[]"] by simp

lemma and_or_skip_env: "and_or ok st False ws (env_tokens r @ map Word vs) = []"
proof -
  have "map (\<lambda>(k, v). Word (k @ 61 # v)) kvs = map Word (map (\<lambda>(k, v). k @ 61 # v) kvs)" for kvs by auto
  then have "\<exists>us. env_tokens r = map Word us" unfolding env_tokens_def by (metis list.simps(8,9))
  then show ?thesis by (auto simp: and_or_words and_or_rest)
qed

lemma parse_turn_command:
  "shell_parse (build_command e (turn_request e sid task ref plan_only workdir)) =
    Some ((if workdir = [] then [] else [Word (lit ''cd''), Word workdir, And_then])
      @ layout_tokens e sid @ [And_then]
      @ env_tokens (turn_request e sid task ref plan_only workdir)
      @ map Word (executor_parts e (turn_request e sid task ref plan_only workdir)))"
  using parse_command[of "turn_request e sid task ref plan_only workdir" "layout_tokens e sid" e] parse_layout[of e sid] layout_env_ok[of e sid]
    prelude_nonempty[of e sid]
  by (simp add: turn_request_def or_empty_def)

lemma cancelled_write_back:
  assumes "ks_status seen = Session_running" and "ks_id s = ks_id seen" and "ks_status s = Session_cancelled"
    and e: "execute_turn_tail ps gen a guard False now clk seen turn db = (db', Inr st)"
    and "get_session (ks_id seen) db = Some s"
  shows "\<exists>s'. get_session (ks_id seen) db' = Some s' \<and> ks_status s' = st \<and> st \<in> {Session_idle, Session_failed}"
  using e
proof (cases rule: tail_cases)
  case (settled s0 d0 res s1 t d)
  have st: "ks_status s1 \<in> {Session_idle, Session_failed}" and frame: "co_sessions d = co_sessions db"
    using settled(7) settle_frame[OF settled(7)] settled(5)
    by (auto simp: settle_turn_def finish_turn_def session_transition_def Let_def split: if_splits)
  have "find (\<lambda>r. ks_id r = ks_id seen) (update_where (\<lambda>r. ks_id r = ks_id seen) (flush_session clk seen s1) rows)
      = map_option (\<lambda>r. if ks_id r = ks_id seen then flush_session clk seen s1 r else r) (find (\<lambda>r. ks_id r = ks_id seen) rows)" for rows
    by (rule find_update_where) simp
  then have "get_session (ks_id seen) db' = Some (flush_session clk seen s1 s)"
    using assms(2,5) frame by (simp add: get_session_def settled(9) save_session_def save_turn_def)
  moreover have "ks_status (flush_session clk seen s1 s) = ks_status s1"
    using st assms(1) by (auto simp: flush_session_def set_col_def)
  ultimately show ?thesis using st settled(8) by auto
qed simp

section \<open>Properties\<close>

definition smp_place :: coding_place where
  "smp_place = \<lparr>pl_uid = lit ''u'', pl_project_id = lit ''p'', pl_scope_key = lit ''agent-project:u:a:p'', pl_sandbox_id = lit ''sb'', pl_workdir = lit ''w''\<rparr>"

definition smp_gen :: "nat \<Rightarrow> pystr" where
  "smp_gen n = [n]"

definition smp_empty :: coding_db where
  "smp_empty = \<lparr>co_sandbox = \<lparr>sx_sandboxes = [], sx_events = []\<rparr>, co_sessions = [], co_turns = [], co_events = [], co_cancels = []\<rparr>"

definition smp_policy :: "policy_error + sandbox_policy" where
  "smp_policy = Inr \<lparr>sp_mode = Dedicated, sp_lifecycle = Persistent, sp_resume_policy = Resume_auto, sp_idle_suspend_seconds = None\<rparr>"

definition smp_queue :: "coding_fault + coding_db \<times> coding_turn" where
  "smp_queue = queue_coding_turn smp_policy smp_gen [83] [84] smp_place (lit ''codex'') (lit ''fix'') False None JNull None None None Inr 100 100 smp_empty"

definition smp_queued :: coding_db where
  "smp_queued = (case smp_queue of Inr (db, _) \<Rightarrow> db | Inl _ \<Rightarrow> smp_empty)"

definition smp_session :: "coding_db \<Rightarrow> coding_session" where
  "smp_session db = (case co_sessions db of s # _ \<Rightarrow> s | [] \<Rightarrow> undefined)"

definition smp_turn :: "coding_db \<Rightarrow> coding_turn" where
  "smp_turn db = (case co_turns db of t # _ \<Rightarrow> t | [] \<Rightarrow> undefined)"

definition smp_cancel :: "coding_db \<Rightarrow> coding_db" where
  "smp_cancel db = (case cancel_session smp_gen smp_place 120 120 (smp_session db) db of Inr d \<Rightarrow> d | Inl _ \<Rightarrow> smp_empty)"

definition smp_started :: coding_db where
  "smp_started = fst (job_begin 110 110 [83] [84] False smp_queued)"


definition smp_answer :: turn_answer where
  "smp_answer = \<lparr>ta_state_present = True, ta_events = Some [], ta_infra_error = None, ta_exit_code = 0, ta_secrets = []\<rparr>"

lemma clear_pending_status: "ks_status (clear_pending_turn i s) = ks_status s" "ks_id (clear_pending_turn i s) = ks_id s"
  by (simp_all add: clear_pending_turn_def split: option.split)

lemma flush_same:
  "ks_status (flush_session clk seen s seen) = ks_status s" "ks_cli_session_ref (flush_session clk seen s seen) = ks_cli_session_ref s"
  "ks_uid (flush_session clk seen s row) = ks_uid row"
  by (auto simp: flush_session_def set_col_def)

lemma smp_policy_ok: "queue_policy_ok smp_policy"
  by (simp add: smp_policy_def queue_policy_ok_def is_dedicated_def)

lemmas smp_defs = smp_policy_ok smp_place_def smp_gen_def smp_empty_def smp_queue_def queue_coding_turn_def turn_session_def create_session_def add_session_def
  queue_turn_def enter_running_def session_transition_def add_turn_def smp_queued_def smp_turn_def Let_def save_session_def
  and_then_def or_empty_def update_where_def smp_session_def smp_cancel_def cancel_session_def session_terminal_def flush_same

lemma smp_queue_ok: "smp_queue = Inr (smp_queued, smp_turn smp_queued)"
  by (simp add: smp_defs)


lemma smp_started_rows:
  "map ks_id (co_sessions smp_started) = [[83]]" "map ks_status (co_sessions smp_started) = [Session_running]"
  "map ks_cli_session_ref (co_sessions smp_started) = [None]" "map ks_uid (co_sessions smp_started) = [lit ''u'']"
  by (simp_all add: smp_started_def job_begin_def get_session_def get_turn_def save_turn_def smp_defs)

lemma smp_session_of: "map f (co_sessions db) = [v] \<Longrightarrow> f (smp_session db) = v \<and> co_sessions db = [smp_session db]"
  by (auto simp: smp_session_def split: list.splits)

lemma smp_cancel_ok:
  assumes "map ks_status (co_sessions db) = [Session_running]" and "map ks_uid (co_sessions db) = [lit ''u'']"
  shows "cancel_session smp_gen smp_place 120 120 (smp_session db) db = Inr (smp_cancel db)"
    and "\<exists>s. co_sessions (smp_cancel db) = [s] \<and> ks_id s = ks_id (smp_session db) \<and> ks_status s = Session_cancelled"
    and "co_turns (smp_cancel db) = co_turns db"
  using smp_session_of[OF assms(1)] smp_session_of[OF assms(2)]
  by (auto simp: smp_cancel_def cancel_session_def smp_place_def session_terminal_def session_transition_def save_session_def
      flush_session_def set_col_def)




text \<open>
  C24: The history of coding sessions under any interleaving of users, workers and reconciliation, also of workers that write back what
  they read long ago: sessions and turns keep their identity, request and place, events are only appended and never changed, and the
  turns and the events of every session are numbered 1, 2, 3 and so on without gaps.
\<close>

theorem coding_history:
  assumes "coding_start db" and "coding_step\<^sup>*\<^sup>* db db1" and "coding_step\<^sup>*\<^sup>* db1 db2"
  shows "coding_inv db2 \<and> coding_rel db1 db2"
proof -
  have "coding_inv db1" using assms(1,2) by (rule coding.reachable_inv)
  then show ?thesis using assms(3) coding.steps_inv coding.steps_rel by blast
qed

theorem coding_history_witness: "coding_inv smp_queued \<and> coding_rel smp_empty smp_queued"
proof -
  have "coding_step smp_empty smp_queued" by (rule coding_step.queue[OF smp_queue_ok[unfolded smp_queue_def]])
  then have "coding_step\<^sup>*\<^sup>* smp_empty smp_queued" by blast
  from coding_history[OF _ rtranclp.rtrancl_refl this] show ?thesis by (simp add: coding_start_def smp_empty_def)
qed



text \<open>
  A session that is cancelled while a worker executes its turn does not stay cancelled. The closing transaction writes back the status
  it derives from the session it read before, so the row goes from cancelled, which is final in \<^verbatim>\<open>_ALLOWED_TRANSITIONS\<close>, to idle
  or failed.
\<close>

theorem cancelled_session_revived:
  assumes "ks_status seen = Session_running" and "get_session (ks_id seen) db = Some s" and "ks_status s = Session_cancelled"
    and "execute_turn_tail ps gen a guard False now clk seen turn db = (db', Inr st)"
  shows "\<exists>s'. get_session (ks_id seen) db' = Some s' \<and> ks_status s' \<in> {Session_idle, Session_failed}
    \<and> ks_status s' \<notin> set (allowed_transitions (ks_status s))"
proof -
  have "ks_id s = ks_id seen" using assms(2) by (auto simp: get_session_def dest: find_Some_in)
  from cancelled_write_back[OF assms(1) this assms(3,4,2)] show ?thesis using assms(3) by auto
qed

theorem cancelled_session_revived_witness:
  "\<exists>s'. get_session [83] (fst (execute_turn_tail (\<lambda>_. []) smp_gen smp_answer (Some True) False 140 140 (smp_session smp_started)
      (smp_turn smp_started) (smp_cancel smp_started))) = Some s' \<and> ks_status s' \<in> {Session_idle, Session_failed}"
proof -
  let ?seen = "smp_session smp_started"
  have seen: "ks_status ?seen = Session_running" "ks_id ?seen = [83]" "ks_cli_session_ref ?seen = None"
    using smp_started_rows smp_session_of by metis+
  obtain s where s: "co_sessions (smp_cancel smp_started) = [s]" "ks_id s = [83]" "ks_status s = Session_cancelled"
    using smp_cancel_ok(2)[OF smp_started_rows(2,4)] seen(2) by auto
  obtain db' st where e: "execute_turn_tail (\<lambda>_. []) smp_gen smp_answer (Some True) False 140 140 ?seen (smp_turn smp_started) (smp_cancel smp_started)
      = (db', Inr st)"
    by (auto simp: execute_turn_tail_def smp_answer_def seen or_empty_def turn_events_def settle_turn_def Let_def extract_turn_result_def
        finish_turn_def session_transition_def clear_pending_status)
  from cancelled_session_revived[OF seen(1) _ s(3) e] show ?thesis using s seen(2) e by (auto simp: get_session_def)
qed

text \<open>
  C25: The command of a turn is read by the shell as it was meant, whatever the prompt, the session reference, the session id and the
  working directory contain: change the directory, prepare the state of the executor, and call the executor in its environment
  with exactly the arguments of the adapter, the prompt being the last one.
\<close>

theorem command_arguments_exact:
  "shell_parse (build_command e (turn_request e sid task ref plan_only workdir)) =
    Some ((if workdir = [] then [] else [Word (lit ''cd''), Word workdir, And_then])
      @ layout_tokens e sid @ [And_then]
      @ env_tokens (turn_request e sid task ref plan_only workdir)
      @ map Word (executor_parts e (turn_request e sid task ref plan_only workdir)))
    \<and> last (executor_parts e (turn_request e sid task ref plan_only workdir)) = task"
proof -
  let ?r = "turn_request e sid task ref plan_only workdir"
  have "last (executor_parts e ?r) = task"
    by (cases e) (simp_all add: executor_parts_def opencode_parts_def codex_parts_def turn_request_def)
  then show ?thesis using parse_turn_command by blast
qed

text \<open>
  A codex turn is started even though its working directory cannot be entered. The prelude ends in \<^verbatim>\<open>|| true\<close>, which the shell
  applies to the whole list before it, the change of directory included, so the executor runs with write access in whatever directory the
  shell was in. The opencode command stops there.
\<close>

theorem codex_runs_outside_workdir:
  assumes "workdir \<noteq> []" and "\<not> ok [lit ''cd'', workdir]" and "ok [lit ''true'']"
  shows "commands_run ok (build_command Codex (turn_request Codex sid task None False workdir))
      = Some [[lit ''cd'', workdir], [lit ''true''],
          [lit ''env'', lit ''CODEX_HOME=/home/gem/user-data/agents/coding/'' @ sid @ lit ''/codex-home''] @ codex_parts (turn_request Codex sid task None False workdir)]
    \<and> commands_run ok (build_command Opencode (turn_request Opencode sid task None False workdir)) = Some [[lit ''cd'', workdir]]"
proof -
  let ?r = "turn_request Codex sid task None False workdir"
  have "env_tokens ?r = map Word [lit ''env'', lit ''CODEX_HOME=/home/gem/user-data/agents/coding/'' @ sid @ lit ''/codex-home'']"
    by (simp add: env_tokens_def turn_request_def cli_state_layout_def Let_def) (simp add: lit_def)
  then show ?thesis
    using assms parse_turn_command[of Codex sid task None False workdir] parse_turn_command[of Opencode sid task None False workdir]
    by (simp add: commands_run_def layout_tokens_def executor_parts_def and_or_words and_or_rest and_or_skip_env)
qed


theorem codex_runs_outside_workdir_witness:
  "commands_run (\<lambda>ws. ws \<noteq> [lit ''cd'', lit ''/gone'']) (build_command Codex (turn_request Codex [83] (lit ''fix'') None False (lit ''/gone'')))
    = Some [[lit ''cd'', lit ''/gone''], [lit ''true''],
        [lit ''env'', lit ''CODEX_HOME=/home/gem/user-data/agents/coding/S/codex-home'', lit ''codex'', lit ''exec'', lit ''--json'',
         lit ''--skip-git-repo-check'', lit ''-s'', lit ''workspace-write'', lit ''fix'']]"
  using codex_runs_outside_workdir[of "lit ''/gone''" "\<lambda>ws. ws \<noteq> [lit ''cd'', lit ''/gone'']" "[83]" "lit ''fix''"]
  by (simp add: lit_def codex_parts_def turn_request_def or_empty_def)

end
