(* ===== verification/Platform_Texts.thy ===== *)
theory Platform_Texts
  imports Yuanlei_Prelude
begin

text \<open>
  The message texts of projects (\<open>pm_\<close>), submission (\<open>sm_\<close>), resumed runs (\<open>rv_\<close>) and scheduled agents (\<open>sa_\<close>) as code points, with their meaning.
\<close>

definition pm_name_empty :: pystr where \<comment> \<open>the project name is empty\<close>
  "pm_name_empty =
   [39033, 30446, 21517, 31216, 19981, 33021, 20026, 31354]"

definition pm_name_long :: pystr where \<comment> \<open>the project name is too long\<close>
  "pm_name_long =
   [39033, 30446, 21517, 31216, 36807, 38271]"

definition pm_key_deleted :: pystr where \<comment> \<open>the request id belongs to a deleted project\<close>
  "pm_key_deleted =
   [114, 101, 113, 117, 101, 115, 116, 95, 105, 100, 32, 24050, 29992, 20110, 24050, 21024,
   38500, 30340, 32, 80, 114, 111, 106, 101, 99, 116]"

definition pm_key_other :: pystr where \<comment> \<open>the request id was used for another intent\<close>
  "pm_key_other =
   [114, 101, 113, 117, 101, 115, 116, 95, 105, 100, 32, 24050, 29992, 20110, 20854, 20182,
   32, 80, 114, 111, 106, 101, 99, 116, 32, 21019, 24314, 24847, 22270]"

definition pm_mode :: pystr where \<comment> \<open>the directory mode must be managed or linked\<close>
  "pm_mode =
   [100, 105, 114, 101, 99, 116, 111, 114, 121, 95, 109, 111, 100, 101, 32, 24517, 39035,
   26159, 32, 109, 97, 110, 97, 103, 101, 100, 32, 25110, 32, 108, 105, 110, 107, 101, 100]"

definition pm_managed_path :: pystr where \<comment> \<open>a managed project takes no path\<close>
  "pm_managed_path =
   [109, 97, 110, 97, 103, 101, 100, 32, 80, 114, 111, 106, 101, 99, 116, 32, 19981, 25509,
   21463, 32, 119, 111, 114, 107, 100, 105, 114, 95, 112, 97, 116, 104]"

definition pm_linked_path :: pystr where \<comment> \<open>a linked project needs a path\<close>
  "pm_linked_path =
   [108, 105, 110, 107, 101, 100, 32, 80, 114, 111, 106, 101, 99, 116, 32, 24517, 39035,
   25351, 23450, 32, 119, 111, 114, 107, 100, 105, 114, 95, 112, 97, 116, 104]"

definition pm_no_dir :: pystr where \<comment> \<open>no such directory\<close>
  "pm_no_dir =
   [30446, 24405, 19981, 23384, 22312]"

definition pm_no_request_id :: pystr where \<comment> \<open>the request id is empty\<close>
  "pm_no_request_id =
   [114, 101, 113, 117, 101, 115, 116, 95, 105, 100, 32, 19981, 33021, 20026, 31354]"

definition pm_choose_dir :: pystr where \<comment> \<open>a directory must be chosen\<close>
  "pm_choose_dir =
   [25163, 21160, 21019, 24314, 39033, 30446, 24517, 39035, 36873, 25321, 30446, 24405]"

definition pm_conflict :: pystr where \<comment> \<open>conflicting creation\<close>
  "pm_conflict =
   [80, 114, 111, 106, 101, 99, 116, 32, 21019, 24314, 20914, 31361]"

definition pm_no_project :: pystr where \<comment> \<open>no such project\<close>
  "pm_no_project =
   [80, 114, 111, 106, 101, 99, 116, 32, 19981, 23384, 22312]"

definition pm_no_access :: pystr where \<comment> \<open>no such project or no access\<close>
  "pm_no_access =
   [80, 114, 111, 106, 101, 99, 116, 32, 19981, 23384, 22312, 25110, 19981, 21487, 35775,
   38382]"

definition sm_origin_empty :: pystr where \<comment> \<open>source and channel of a run must not be empty\<close>
  "sm_origin_empty =
   [82, 117, 110, 32, 111, 114, 105, 103, 105, 110, 32, 115, 111, 117, 114, 99, 101, 47, 99,
   104, 97, 110, 110, 101, 108, 32, 19981, 33021, 20026, 31354]"

definition sm_source_long :: pystr where \<comment> \<open>the source is too long\<close>
  "sm_source_long =
   [82, 117, 110, 32, 111, 114, 105, 103, 105, 110, 32, 115, 111, 117, 114, 99, 101, 32,
   19981, 33021, 36229, 36807, 32, 51, 50, 32, 20010, 23383, 31526]"

definition sm_channel_long :: pystr where \<comment> \<open>the channel is too long\<close>
  "sm_channel_long =
   [82, 117, 110, 32, 111, 114, 105, 103, 105, 110, 32, 99, 104, 97, 110, 110, 101, 108, 32,
   19981, 33021, 36229, 36807, 32, 51, 50, 32, 20010, 23383, 31526]"

definition sm_no_agent :: pystr where \<comment> \<open>no such agent\<close>
  "sm_no_agent =
   [26234, 33021, 20307, 19981, 23384, 22312]"

definition sm_conflict :: pystr where \<comment> \<open>conflicting request id\<close>
  "sm_conflict =
   [114, 101, 113, 117, 101, 115, 116, 95, 105, 100, 32, 20914, 31361]"

definition sm_scope_conflict :: pystr where \<comment> \<open>the request id was used in another scope\<close>
  "sm_scope_conflict =
   [114, 101, 113, 117, 101, 115, 116, 95, 105, 100, 32, 24050, 29992, 20110, 20854, 20182,
   35831, 27714, 20316, 29992, 22495]"

definition sm_steer_source :: pystr where \<comment> \<open>steering is for chat and channel only\<close>
  "sm_steer_source =
   [113, 117, 101, 117, 101, 95, 112, 111, 108, 105, 99, 121, 32, 39, 115, 116, 101, 101,
   114, 39, 32, 20165, 25903, 25345, 20027, 20250, 35805, 32, 67, 104, 97, 116, 47, 67,
   104, 97, 110, 110, 101, 108]"

definition sm_interrupted :: pystr where \<comment> \<open>the thread waits for an answer or approval\<close>
  "sm_interrupted =
   [32447, 31243, 27491, 22312, 31561, 24453, 29992, 25143, 22238, 31572, 25110, 23457,
   25209]"

definition sm_binding :: pystr where \<comment> \<open>the binding does not fit the request\<close>
  "sm_binding =
   [20256, 20837, 30340, 32, 87, 111, 114, 107, 100, 105, 114, 32, 32465, 23450, 19982,
   35831, 27714, 20316, 29992, 22495, 19981, 19968, 33268]"

definition sm_no_bound_project :: pystr where \<comment> \<open>the project of the conversation does not exist\<close>
  "sm_no_bound_project =
   [67, 111, 110, 118, 101, 114, 115, 97, 116, 105, 111, 110, 32, 32465, 23450, 30340, 32,
   80, 114, 111, 106, 101, 99, 116, 32, 19981, 23384, 22312]"

definition sm_binding_mismatch :: pystr where \<comment> \<open>conversation and project do not fit\<close>
  "sm_binding_mismatch =
   [67, 111, 110, 118, 101, 114, 115, 97, 116, 105, 111, 110, 32, 19982, 32, 80, 114, 111,
   106, 101, 99, 116, 32, 32465, 23450, 19981, 19968, 33268]"

definition sm_foreign_project :: pystr where \<comment> \<open>the project belongs to another user\<close>
  "sm_foreign_project =
   [80, 114, 111, 106, 101, 99, 116, 32, 19981, 23646, 20110, 24403, 21069, 29992, 25143]"

definition sm_no_thread_id :: pystr where \<comment> \<open>the conversation has no thread id\<close>
  "sm_no_thread_id =
   [67, 111, 110, 118, 101, 114, 115, 97, 116, 105, 111, 110, 32, 32570, 23569, 32, 116,
   104, 114, 101, 97, 100, 95, 105, 100]"

definition sm_bad_workdir :: pystr where \<comment> \<open>the working directory of the project is invalid\<close>
  "sm_bad_workdir =
   [80, 114, 111, 106, 101, 99, 116, 32, 87, 111, 114, 107, 100, 105, 114, 32, 32465, 23450,
   26080, 25928]"

definition sm_attachments :: pystr where \<comment> \<open>attachments are missing or used\<close>
  "sm_attachments =
   [38468, 20214, 19981, 23384, 22312, 12289, 24050, 34987, 20351, 29992, 25110, 24050,
   34987, 21024, 38500, 58, 32]"

definition sa_request_id :: pystr where \<comment> \<open>the request id has a wrong form\<close>
  "sa_request_id =
   [114, 101, 113, 117, 101, 115, 116, 95, 105, 100, 32, 24517, 39035, 26159, 32, 56, 32,
   21040, 32, 54, 52, 32, 20301, 23383, 27597, 12289, 25968, 23383, 25110, 32, 46, 95, 58,
   45]"

definition sa_cron_empty :: pystr where \<comment> \<open>the cron expression is empty\<close>
  "sa_cron_empty =
   [99, 114, 111, 110, 95, 101, 120, 112, 114, 101, 115, 115, 105, 111, 110, 32, 19981,
   33021, 20026, 31354]"

definition sa_cron_bad :: pystr where \<comment> \<open>the cron expression is invalid\<close>
  "sa_cron_bad =
   [99, 114, 111, 110, 95, 101, 120, 112, 114, 101, 115, 115, 105, 111, 110, 32, 19981,
   26159, 26377, 25928, 30340, 32, 53, 32, 27573, 32, 99, 114, 111, 110, 32, 34920, 36798,
   24335]"

definition sa_zone :: pystr where \<comment> \<open>the time zone is unknown\<close>
  "sa_zone =
   [116, 105, 109, 101, 122, 111, 110, 101, 32, 24517, 39035, 26159, 26377, 25928, 30340,
   32, 73, 65, 78, 65, 32, 26102, 21306]"

definition sa_no_next :: pystr where \<comment> \<open>there is no next time\<close>
  "sa_no_next =
   [99, 114, 111, 110, 95, 101, 120, 112, 114, 101, 115, 115, 105, 111, 110, 32, 27809,
   26377, 21487, 35745, 31639, 30340, 19979, 19968, 27425, 35302, 21457, 26102, 38388]"

definition sa_empty :: pystr where \<comment> \<open>is empty\<close>
  "sa_empty =
   [32, 19981, 33021, 20026, 31354]"

definition sa_too_long_a :: pystr where \<comment> \<open>must not exceed\<close>
  "sa_too_long_a =
   [32, 19981, 33021, 36229, 36807, 32]"

definition sa_too_long_b :: pystr where \<comment> \<open>characters\<close>
  "sa_too_long_b =
   [32, 20010, 23383, 31526]"

definition sa_no_agent :: pystr where \<comment> \<open>no such agent or no access\<close>
  "sa_no_agent =
   [26234, 33021, 20307, 19981, 23384, 22312, 25110, 19981, 21487, 35775, 38382]"

definition sa_model_long :: pystr where \<comment> \<open>the model is too long\<close>
  "sa_model_long =
   [109, 111, 100, 101, 108, 95, 115, 112, 101, 99, 32, 19981, 33021, 36229, 36807, 32, 53,
   49, 50, 32, 20010, 23383, 31526]"

definition sa_other_job :: pystr where \<comment> \<open>the request id was used for another job\<close>
  "sa_other_job =
   [114, 101, 113, 117, 101, 115, 116, 95, 105, 100, 32, 24050, 29992, 20110, 20854, 20182,
   23450, 26102, 20219, 21153, 21019, 24314, 24847, 22270]"

definition sa_job_conflict :: pystr where \<comment> \<open>conflicting creation of a job\<close>
  "sa_job_conflict =
   [23450, 26102, 20219, 21153, 21019, 24314, 20914, 31361]"

definition sa_other_now :: pystr where \<comment> \<open>the request id was used for another run\<close>
  "sa_other_now =
   [114, 101, 113, 117, 101, 115, 116, 95, 105, 100, 32, 24050, 29992, 20110, 20854, 20182,
   31435, 21363, 36816, 34892, 24847, 22270]"

definition sa_now_conflict :: pystr where \<comment> \<open>conflicting run request\<close>
  "sa_now_conflict =
   [31435, 21363, 36816, 34892, 35831, 27714, 20914, 31361]"

definition sa_active :: pystr where \<comment> \<open>the last run has not ended\<close>
  "sa_active =
   [19978, 19968, 27425, 36816, 34892, 23578, 26410, 32467, 26463]"

definition sa_gone :: pystr where \<comment> \<open>the job or its user is gone\<close>
  "sa_gone =
   [20219, 21153, 24050, 21024, 38500, 12289, 20572, 29992, 25110, 29992, 25143, 19981,
   23384, 22312]"

definition sa_disabled :: pystr where \<comment> \<open>the job is disabled or deleted\<close>
  "sa_disabled =
   [20219, 21153, 24050, 20572, 29992, 25110, 21024, 38500]"

definition sm_binding_conversation :: pystr where \<comment> \<open>the binding does not fit the conversation\<close>
  "sm_binding_conversation =
   [20256, 20837, 30340, 32, 87, 111, 114, 107, 100, 105, 114, 32, 32465, 23450, 19982, 32,
   67, 111, 110, 118, 101, 114, 115, 97, 116, 105, 111, 110, 32, 19981, 19968, 33268]"

definition sm_scope_denied :: pystr where \<comment> \<open>the agent belongs to other projects\<close>
  "sm_scope_denied =
   [35813, 26234, 33021, 20307, 23646, 20110, 20854, 20182, 39033, 30446, 65292, 19981,
   33021, 22312, 24403, 21069, 20250, 35805, 20351, 29992]"

definition sm_backend_a :: pystr where \<comment> \<open>the backend\<close>
  "sm_backend_a =
   [26234, 33021, 20307, 21518, 31471, 32]"

definition sm_backend_b :: pystr where \<comment> \<open>does not exist\<close>
  "sm_backend_b =
   [32, 19981, 23384, 22312]"

definition sm_no_model :: pystr where \<comment> \<open>no such chat model: '\<close>
  "sm_no_model =
   [26410, 25214, 21040, 21487, 29992, 32842, 22825, 27169, 22411, 58, 32, 39]"

definition sm_bad_mode :: pystr where \<comment> \<open>unsupported approval mode\<close>
  "sm_bad_mode =
   [19981, 25903, 25345, 30340, 32, 116, 111, 111, 108, 95, 97, 112, 112, 114, 111, 118, 97,
   108, 95, 109, 111, 100, 101, 58, 32]"

definition rv_resume_empty :: pystr where \<comment> \<open>the resume value is missing\<close>
  "rv_resume_empty =
   [114, 101, 115, 117, 109, 101, 32, 19981, 33021, 20026, 31354]"

definition rv_decisions :: pystr where \<comment> \<open>decisions must be a non-empty list\<close>
  "rv_decisions =
   [100, 101, 99, 105, 115, 105, 111, 110, 115, 32, 24517, 39035, 26159, 38750, 31354,
   25968, 32452]"

definition rv_decision_type :: pystr where \<comment> \<open>a decision is approve or reject\<close>
  "rv_decision_type =
   [100, 101, 99, 105, 115, 105, 111, 110, 46, 116, 121, 112, 101, 32, 21482, 25903, 25345,
   32, 97, 112, 112, 114, 111, 118, 101, 32, 25110, 32, 114, 101, 106, 101, 99, 116]"

definition rv_no_thread_id :: pystr where \<comment> \<open>the thread id is empty\<close>
  "rv_no_thread_id =
   [99, 111, 110, 118, 101, 114, 115, 97, 116, 105, 111, 110, 95, 116, 104, 114, 101, 97,
   100, 95, 105, 100, 32, 19981, 33021, 20026, 31354]"

definition rv_bound_agent :: pystr where \<comment> \<open>the thread belongs to another agent\<close>
  "rv_bound_agent =
   [24050, 26377, 32447, 31243, 24050, 32465, 23450, 26234, 33021, 20307, 65292, 19981,
   33021, 20999, 25442]"

definition rv_no_user :: pystr where \<comment> \<open>no such user\<close>
  "rv_no_user =
   [29992, 25143, 19981, 23384, 22312]"

definition rv_no_parent_id :: pystr where \<comment> \<open>the id of the resumed run is missing\<close>
  "rv_no_parent_id =
   [99, 114, 101, 97, 116, 101, 100, 95, 98, 121, 95, 114, 117, 110, 95, 105, 100, 32,
   19981, 33021, 20026, 31354]"

definition rv_no_parent :: pystr where \<comment> \<open>no such run to resume\<close>
  "rv_no_parent =
   [34987, 24674, 22797, 30340, 36816, 34892, 20219, 21153, 19981, 23384, 22312]"

definition rv_not_interrupted :: pystr where \<comment> \<open>only an interrupted run can be resumed\<close>
  "rv_not_interrupted =
   [21482, 26377, 32, 105, 110, 116, 101, 114, 114, 117, 112, 116, 101, 100, 32, 114, 117,
   110, 32, 21487, 20197, 24674, 22797]"

definition rv_superseded :: pystr where \<comment> \<open>a later run has superseded the interrupted one\<close>
  "rv_superseded =
   [20013, 26029, 36816, 34892, 24050, 34987, 21518, 32493, 36816, 34892, 36229, 36234]"

definition rv_no_model :: pystr where \<comment> \<open>the resumed run has no model\<close>
  "rv_no_model =
   [34987, 24674, 22797, 30340, 36816, 34892, 20219, 21153, 32570, 23569, 27169, 22411,
   24555, 29031]"

definition rv_busy :: pystr where \<comment> \<open>the thread is running\<close>
  "rv_busy =
   [35813, 26234, 33021, 20307, 32447, 31243, 27491, 22312, 36816, 34892, 65292, 35831,
   31561, 24453, 12289, 26597, 35810, 25110, 21462, 28040, 24403, 21069, 36816, 34892,
   21518, 20877, 32487, 32493]"

definition rv_no_run :: pystr where \<comment> \<open>no such run\<close>
  "rv_no_run =
   [36816, 34892, 20219, 21153, 19981, 23384, 22312]"

definition rv_no_input :: pystr where \<comment> \<open>the input message is empty\<close>
  "rv_no_input =
   [105, 110, 112, 117, 116, 95, 109, 101, 115, 115, 97, 103, 101, 32, 19981, 33021, 20026,
   31354]"

definition rv_relation :: pystr where \<comment> \<open>the relation does not fit the run\<close>
  "rv_relation =
   [115, 117, 98, 97, 103, 101, 110, 116, 32, 116, 104, 114, 101, 97, 100, 32, 114, 101,
   108, 97, 116, 105, 111, 110, 32, 19982, 26412, 27425, 36816, 34892, 19981, 21305, 37197]"

end
