(* ===== verification/Projects.thy ===== *)
theory Projects
  imports Platform_Texts Request_Queue Agent_Registry
begin

text \<open>
  Projects and conversations: \<^verbatim>\<open>repositories/project_repository.py\<close>, \<^verbatim>\<open>services/project_service.py\<close>, the Workdir bindings of
  \<^verbatim>\<open>services/workdir_service.py\<close> and the conversation rows of \<^verbatim>\<open>repositories/conversation_repository.py\<close> with their attachments.

  \<open>platform_db\<close> joins the tables of the request queue and of the agents. The file system is an argument: \<open>alloc\<close> is the managed path that
  was free, \<open>open_dir\<close> tells why an existing directory cannot be opened (\<open>None\<close>: it can). The metadata of a conversation is an object with a list
  of attachments, as every writer makes it.
\<close>

record platform_db =
  pf_queue :: queue_db
  pf_agents :: agent_db

abbreviation pf_gov :: "platform_db \<Rightarrow> gov_db" where
  "pf_gov db \<equiv> ad_gov (pf_agents db)"

definition pf_set_gov :: "gov_db \<Rightarrow> platform_db \<Rightarrow> platform_db" where
  "pf_set_gov g db = db\<lparr>pf_agents := (pf_agents db)\<lparr>ad_gov := g\<rparr>\<rparr>"

section \<open>Project rows\<close>

definition project_add :: "project \<Rightarrow> gov_db \<Rightarrow> queue_error + gov_db" where
  "project_add p db =
     (if pr_id p \<in> set (map pr_id (gv_projects db))
         \<or> list_ex (\<lambda>x. pr_uid x = pr_uid p \<and> pr_idempotency_key p \<noteq> None \<and> pr_idempotency_key x = pr_idempotency_key p) (gv_projects db)
      then Inl Queue_integrity_error
      else Inr (db\<lparr>gv_projects := gv_projects db @ [p]\<rparr>))"

definition project_get_for_user :: "pystr \<Rightarrow> pystr \<Rightarrow> gov_db \<Rightarrow> project option" where
  "project_get_for_user project_id uid db = find (\<lambda>p. pr_id p = project_id \<and> pr_uid p = uid) (gv_projects db)"

definition lock_active_for_user :: "pystr \<Rightarrow> pystr \<Rightarrow> gov_db \<Rightarrow> project option" where
  "lock_active_for_user project_id uid db =
     find (\<lambda>p. pr_id p = project_id \<and> pr_uid p = uid \<and> pr_status p = Project_active) (gv_projects db)"

definition get_by_idempotency_key :: "pystr \<Rightarrow> pystr \<Rightarrow> gov_db \<Rightarrow> project option" where
  "get_by_idempotency_key key uid db = find (\<lambda>p. pr_uid p = uid \<and> pr_idempotency_key p = Some key) (gv_projects db)"

definition list_selectable_for_user :: "pystr \<Rightarrow> gov_db \<Rightarrow> project list" where
  "list_selectable_for_user uid db =
     rev (sort_key (\<lambda>p. (pr_updated_at p, pr_id p))
       (filter (\<lambda>p. pr_uid p = uid \<and> pr_selection_status p = Selectable \<and> pr_status p = Project_active) (gv_projects db)))"

definition put_project :: "project \<Rightarrow> gov_db \<Rightarrow> gov_db" where
  "put_project p db = db\<lparr>gv_projects := update_where (\<lambda>x. pr_id x = pr_id p) (\<lambda>_. p) (gv_projects db)\<rparr>"

text \<open>The rows of one user's project: the bindings go, the conversations and the project are marked deleted.\<close>

definition soft_delete_with_conversations :: "project \<Rightarrow> time \<Rightarrow> platform_db \<Rightarrow> platform_db" where
  "soft_delete_with_conversations p deleted_at db =
     (let g = pf_gov db;
          g' = put_project (p\<lparr>pr_status := Project_deleted, pr_deleted_at := Some deleted_at, pr_updated_at := deleted_at\<rparr>)
                 (g\<lparr>gv_project_agents := filter (\<lambda>b. pa_project_id b \<noteq> pr_id p) (gv_project_agents g)\<rparr>);
          q = pf_queue db
      in (pf_set_gov g' db)\<lparr>pf_queue := q\<lparr>qd_conversations :=
            update_where (\<lambda>c. cv_uid c = pr_uid p \<and> cv_project_id c = pr_id p)
              (\<lambda>c. c\<lparr>cv_status := lit ''deleted'', cv_updated_at := Some deleted_at\<rparr>) (qd_conversations q)\<rparr>\<rparr>)"

section \<open>Project use cases\<close>

definition normalize_project_name :: "pystr option \<Rightarrow> bool \<Rightarrow> queue_error + pystr option" where
  "normalize_project_name name required =
     (let n = py_strip (or_empty name)
      in if required \<and> n = [] then Inl (Queue_http_text 422 pm_name_empty)
         else if 255 < length n then Inl (Queue_http_text 422 pm_name_long)
         else Inr (or_none n))"

fun split_at :: "nat \<Rightarrow> pystr \<Rightarrow> pystr \<Rightarrow> pystr list" where
  "split_at sep acc [] = [rev acc]"
| "split_at sep acc (c # s) = (if c = sep then rev acc # split_at sep [] s else split_at sep (c # acc) s)"

fun has_infix :: "pystr \<Rightarrow> pystr \<Rightarrow> bool" where
  "has_infix p [] = (p = [])"
| "has_infix p (c # s) = (take (length p) (c # s) = p \<or> has_infix p s)"

text \<open>\<^verbatim>\<open>normalize_workdir_path\<close> of \<^verbatim>\<open>workspace/paths.py\<close>; a path without empty and dot components is its own POSIX form.\<close>

definition normalize_workdir_path :: "pystr \<Rightarrow> pystr option" where
  "normalize_workdir_path workdir_path =
     (let raw = py_strip workdir_path
      in if raw = [] \<or> hd raw = 47 \<or> 92 \<in> set raw \<or> has_infix (lit ''://'') raw
            \<or> list_ex (\<lambda>part. part \<in> {[], lit ''.'', lit ''..''}) (split_at 47 [] raw)
         then None else Some raw)"

definition require_matching_creation_intent :: "project \<Rightarrow> pystr option \<Rightarrow> pystr \<Rightarrow> queue_error + unit" where
  "require_matching_creation_intent p name workdir_path =
     (if pr_status p = Project_deleted then Inl (Queue_http_text 409 pm_key_deleted)
      else if pr_name p \<noteq> name \<or> pr_directory_mode p \<noteq> lit ''linked'' \<or> pr_workdir_path p \<noteq> workdir_path
      then Inl (Queue_http_text 409 pm_key_other) else Inr ())"

definition create_project_record ::
  "pystr \<Rightarrow> pystr \<Rightarrow> (pystr \<Rightarrow> (nat \<times> pystr) option) \<Rightarrow> pystr \<Rightarrow> pystr option \<Rightarrow> pystr \<Rightarrow> selection_status \<Rightarrow> pystr option \<Rightarrow> pystr option \<Rightarrow> time \<Rightarrow> gov_db
   \<Rightarrow> queue_error + gov_db \<times> project" where
  "create_project_record new_id alloc open_dir uid name directory_mode selection workdir_path key now db =
     and_then (normalize_project_name name (selection = Selectable)) (\<lambda>normalized_name.
     if directory_mode \<noteq> lit ''managed'' \<and> directory_mode \<noteq> lit ''linked'' then Inl (Queue_http_text 422 pm_mode)
     else and_then
       (if directory_mode = lit ''managed''
        then if workdir_path \<noteq> None then Inl (Queue_http_text 422 pm_managed_path) else Inr alloc
        else case workdir_path of
               None \<Rightarrow> Inl (Queue_http_text 422 pm_linked_path)
             | Some w \<Rightarrow>
                 (case normalize_workdir_path w of
                    None \<Rightarrow> Inl (Queue_http_text 400 [])
                  | Some path \<Rightarrow>
                      (case open_dir path of
                         None \<Rightarrow> Inr path
                       | Some (code, detail) \<Rightarrow> Inl (Queue_http_text code (if code = 404 then pm_no_dir else detail)))))
       (\<lambda>path.
         let p = \<lparr>pr_id = new_id, pr_uid = uid, pr_name = normalized_name, pr_selection_status = selection, pr_workdir_path = path,
               pr_directory_mode = directory_mode, pr_status = Project_active, pr_deleted_at = None,
               pr_idempotency_key = (case key of None \<Rightarrow> None | Some k \<Rightarrow> if k = [] then None else Some (py_strip k)), pr_created_at = now, pr_updated_at = now\<rparr>
         in and_then (project_add p db) (\<lambda>db'. Inr (db', p))))"

definition create_implicit_project :: "pystr \<Rightarrow> pystr \<Rightarrow> pystr \<Rightarrow> time \<Rightarrow> gov_db \<Rightarrow> queue_error + gov_db \<times> project" where
  "create_implicit_project new_id alloc uid now db =
     create_project_record new_id alloc (\<lambda>_. None) uid None (lit ''managed'') Implicit None None now db"

text \<open>
  Reading and writing of \<^verbatim>\<open>create_project_view\<close>: between them another call with the same key may commit (\<open>later\<close>), which the unique
  constraint reports.
\<close>

definition create_project_view ::
  "pystr \<Rightarrow> (pystr \<Rightarrow> (nat \<times> pystr) option) \<Rightarrow> pystr \<Rightarrow> pystr option \<Rightarrow> pystr option \<Rightarrow> pystr \<Rightarrow> pystr option \<Rightarrow> time \<Rightarrow> gov_db \<Rightarrow> gov_db
   \<Rightarrow> queue_error + gov_db \<times> project" where
  "create_project_view new_id open_dir uid request_id name directory_mode workdir_path now db later =
     (let key = py_strip (or_empty request_id)
      in if key = [] then Inl (Queue_http_text 422 pm_no_request_id)
         else if directory_mode \<noteq> lit ''linked'' \<or> py_strip (or_empty workdir_path) = [] then Inl (Queue_http_text 422 pm_choose_dir)
         else and_then (normalize_project_name name True) (\<lambda>normalized_name.
           case normalize_workdir_path (or_empty workdir_path) of
             None \<Rightarrow> Inl (Queue_http_text 400 [])
           | Some path \<Rightarrow>
               (case get_by_idempotency_key key uid db of
                  Some p \<Rightarrow> and_then (require_matching_creation_intent p normalized_name path) (\<lambda>_. Inr (later, p))
                | None \<Rightarrow>
                    (case create_project_record new_id [] open_dir uid name directory_mode Selectable workdir_path (Some key) now later of
                       Inr x \<Rightarrow> Inr x
                     | Inl e \<Rightarrow>
                         if e = Queue_integrity_error
                         then (case get_by_idempotency_key key uid later of
                                 None \<Rightarrow> Inl (Queue_http_text 409 pm_conflict)
                               | Some p \<Rightarrow> and_then (require_matching_creation_intent p normalized_name path) (\<lambda>_. Inr (later, p)))
                         else Inl e))))"

definition rename_project_view :: "pystr \<Rightarrow> pystr \<Rightarrow> pystr option \<Rightarrow> time \<Rightarrow> gov_db \<Rightarrow> queue_error + gov_db \<times> project" where
  "rename_project_view uid project_id name now db =
     and_then (normalize_project_name name True) (\<lambda>n.
       case get_active_selectable_for_user project_id uid db of
         None \<Rightarrow> Inl (Queue_http_text 404 pm_no_project)
       | Some p \<Rightarrow> let p' = p\<lparr>pr_name := n, pr_updated_at := now\<rparr> in Inr (put_project p' db, p'))"

text \<open>
  The Git bindings of a project (\<open>project_git_repositories\<close>), of which the deletion of a project marks those still in use for removal. The work handed to the
  queue afterwards is the pair of a binding and the generation it belongs to. The table is an argument and part of the answer.
\<close>

datatype git_binding_status = Git_provisioning | Git_active | Git_provision_failed | Git_deleting | Git_delete_failed | Git_disabled

record project_git_repository =
  gb_id :: pystr
  gb_project_id :: pystr
  gb_uid :: pystr
  gb_connection_id :: pystr
  gb_alias :: pystr
  gb_directory_name :: pystr
  gb_remote_repository_id :: "pystr option"
  gb_repository_owner :: pystr
  gb_repository_name :: pystr
  gb_purpose :: pystr
  gb_canonical_ssh_url :: "pystr option"
  gb_default_branch :: "pystr option"
  gb_configured_base_branch :: "pystr option"
  gb_allowed_base_branches :: "pystr list"
  gb_deploy_public_key :: pystr
  gb_deploy_public_key_fingerprint :: pystr
  gb_deploy_private_credential_id :: pystr
  gb_remote_deploy_key_id :: "pystr option"
  gb_status :: git_binding_status
  gb_last_error_code :: "pystr option"
  gb_last_error_message :: "pystr option"
  gb_operation_generation :: int
  gb_idempotency_key :: pystr
  gb_created_at :: time
  gb_updated_at :: time

definition list_project_bindings :: "pystr \<Rightarrow> pystr \<Rightarrow> project_git_repository list \<Rightarrow> project_git_repository list" where
  "list_project_bindings project_id uid gits = sort_key gb_id (filter (\<lambda>g. gb_project_id g = project_id \<and> gb_uid g = uid) gits)"

definition mark_binding_deleting :: "time \<Rightarrow> project_git_repository \<Rightarrow> project_git_repository" where
  "mark_binding_deleting now g = g\<lparr>gb_status := Git_deleting, gb_operation_generation := gb_operation_generation g + 1,
     gb_last_error_code := None, gb_last_error_message := None, gb_updated_at := now\<rparr>"

definition delete_project_view ::
  "pystr \<Rightarrow> pystr \<Rightarrow> time \<Rightarrow> project_git_repository list \<Rightarrow> platform_db
   \<Rightarrow> queue_error + platform_db \<times> project_git_repository list \<times> (pystr \<times> int) list" where
  "delete_project_view uid project_id now gits db =
     (case get_active_selectable_for_user project_id uid (pf_gov db) of
        None \<Rightarrow> Inl (Queue_http_text 404 pm_no_project)
      | Some p \<Rightarrow>
          let bindings = filter (\<lambda>g. gb_status g \<noteq> Git_disabled) (list_project_bindings project_id uid gits);
              gits' = map (\<lambda>g. if gb_project_id g = project_id \<and> gb_uid g = uid \<and> gb_status g \<noteq> Git_disabled then mark_binding_deleting now g else g) gits
          in Inr (soft_delete_with_conversations p now db, gits', map (\<lambda>g. (gb_id g, gb_operation_generation g + 1)) bindings))"

section \<open>Conversations\<close>

definition normalize_conversation_title :: "pystr option \<Rightarrow> pystr option" where
  "normalize_conversation_title title = map_option (\<lambda>t. take 255 (py_strip t)) title"

fun json_pairs :: "json \<Rightarrow> (pystr \<times> json) list" where
  "json_pairs (JObj kvs) = kvs"
| "json_pairs _ = []"

definition put_conversation :: "conversation \<Rightarrow> queue_db \<Rightarrow> queue_db" where
  "put_conversation c db = db\<lparr>qd_conversations := update_where (\<lambda>x. cv_id x = cv_id c) (\<lambda>_. c) (qd_conversations db)\<rparr>"

definition get_conversation_by_id :: "int \<Rightarrow> queue_db \<Rightarrow> conversation option" where
  "get_conversation_by_id i db = find (\<lambda>c. cv_id c = i) (qd_conversations db)"

text \<open>\<open>projects\<close> are the ids and owners of existing projects, which the foreign key of a conversation needs.\<close>

definition add_conversation ::
  "int \<Rightarrow> pystr \<Rightarrow> pystr \<Rightarrow> pystr \<Rightarrow> pystr option \<Rightarrow> pystr \<Rightarrow> (pystr \<times> json) list \<Rightarrow> pystr \<Rightarrow> pystr option \<Rightarrow> time \<Rightarrow> platform_db
   \<Rightarrow> queue_error + platform_db \<times> conversation" where
  "add_conversation new_id fresh_thread uid agent_id title thread_id metadata project_id creation_request_id clk db =
     (let thread = (if thread_id = [] then fresh_thread else thread_id);
          t = or_empty (normalize_conversation_title title);
          c = \<lparr>cv_id = new_id, cv_thread_id = thread, cv_creation_request_id = creation_request_id, cv_uid = uid, cv_agent_id = agent_id,
            cv_title = Some (if t = [] then lit ''New Conversation'' else t), cv_status = lit ''active'', cv_is_pinned = False,
            cv_last_viewed_run_id = Some (lit ''__unviewed__''), cv_project_id = project_id, cv_created_at = Some clk, cv_updated_at = Some clk,
            cv_extra_metadata = Some (JObj (metadata @ [(lit ''attachments'', JList [])]))\<rparr>;
          q = pf_queue db
      in if new_id \<in> set (map cv_id (qd_conversations q)) \<or> thread \<in> set (map cv_thread_id (qd_conversations q))
            \<or> project_get_for_user project_id uid (pf_gov db) = None
            \<or> list_ex (\<lambda>x. creation_request_id \<noteq> None \<and> cv_uid x = uid \<and> cv_creation_request_id x = creation_request_id) (qd_conversations q)
         then Inl Queue_integrity_error
         else Inr (db\<lparr>pf_queue := q\<lparr>qd_conversations := qd_conversations q @ [c]\<rparr>\<rparr>, c))"

definition mark_thread_viewed :: "pystr \<Rightarrow> pystr \<Rightarrow> time \<Rightarrow> queue_db \<Rightarrow> queue_db \<times> conversation option" where
  "mark_thread_viewed thread_id run_id clk db =
     (case get_conversation_by_thread_id thread_id db of
        None \<Rightarrow> (db, None)
      | Some c \<Rightarrow>
          if cv_last_viewed_run_id c \<noteq> Some run_id
          then (let c' = c\<lparr>cv_last_viewed_run_id := Some run_id, cv_updated_at := Some clk\<rparr> in (put_conversation c' db, Some c'))
          else (db, Some c))"

definition save_metadata :: "(pystr \<times> json) list \<Rightarrow> time \<Rightarrow> conversation \<Rightarrow> conversation" where
  "save_metadata metadata now c = c\<lparr>cv_extra_metadata := Some (JObj metadata), cv_updated_at := Some now\<rparr>"

definition set_model_spec :: "conversation \<Rightarrow> pystr \<Rightarrow> time \<Rightarrow> queue_db \<Rightarrow> queue_db" where
  "set_model_spec c model_spec now db =
     put_conversation (save_metadata (json_pairs (or_obj (cv_extra_metadata c)) @ [(lit ''model_spec'', JStr model_spec)]) now c) db"

definition update_conversation ::
  "pystr \<Rightarrow> pystr option \<Rightarrow> pystr option \<Rightarrow> (pystr \<times> json) list option \<Rightarrow> bool option \<Rightarrow> time \<Rightarrow> queue_db \<Rightarrow> queue_db \<times> conversation option" where
  "update_conversation thread_id title status metadata is_pinned now db =
     (case get_conversation_by_thread_id thread_id db of
        None \<Rightarrow> (db, None)
      | Some c \<Rightarrow>
          let c1 = (case normalize_conversation_title title of None \<Rightarrow> c | Some t \<Rightarrow> c\<lparr>cv_title := Some t\<rparr>);
              c2 = (case status of None \<Rightarrow> c1 | Some st \<Rightarrow> c1\<lparr>cv_status := st\<rparr>);
              c3 = (case is_pinned of None \<Rightarrow> c2 | Some p \<Rightarrow> c2\<lparr>cv_is_pinned := p\<rparr>);
              c4 = (case metadata of None \<Rightarrow> c3
                    | Some m \<Rightarrow> c3\<lparr>cv_extra_metadata := Some (JObj (json_pairs (or_obj (cv_extra_metadata c3)) @ m))\<rparr>);
              c5 = c4\<lparr>cv_updated_at := Some now\<rparr>
          in (put_conversation c5 db, Some c5))"

text \<open>
  The hard deletion calls \<^verbatim>\<open>self.db.delete\<close>, a coroutine of the asynchronous session, without awaiting it: nothing is deleted and
  the answer is still \<^verbatim>\<open>True\<close>.
\<close>

definition delete_conversation :: "pystr \<Rightarrow> bool \<Rightarrow> time \<Rightarrow> queue_db \<Rightarrow> queue_db \<times> bool" where
  "delete_conversation thread_id soft_delete clk db =
     (case get_conversation_by_thread_id thread_id db of
        None \<Rightarrow> (db, False)
      | Some c \<Rightarrow>
          if soft_delete \<and> cv_status c \<noteq> lit ''deleted''
          then (put_conversation (c\<lparr>cv_status := lit ''deleted'', cv_updated_at := Some clk\<rparr>) db, True)
          else (db, True))"

section \<open>Attachments\<close>

type_synonym attachment = "(pystr \<times> json) list"

definition att_get :: "string \<Rightarrow> attachment \<Rightarrow> json" where
  "att_get k a = (case json_get (JObj a) (lit k) of None \<Rightarrow> JNull | Some v \<Rightarrow> v)"

definition attachments_of :: "conversation \<Rightarrow> attachment list" where
  "attachments_of c = (case json_get (or_obj (cv_extra_metadata c)) (lit ''attachments'') of
     Some (JList xs) \<Rightarrow> List.map_filter (\<lambda>x. case x of JObj kvs \<Rightarrow> Some kvs | _ \<Rightarrow> None) xs | _ \<Rightarrow> [])"

definition save_attachments :: "attachment list \<Rightarrow> time \<Rightarrow> conversation \<Rightarrow> conversation" where
  "save_attachments xs now c =
     save_metadata (json_pairs (or_obj (cv_extra_metadata c)) @ [(lit ''attachments'', JList (map JObj xs))]) now c"

definition get_attachments :: "int \<Rightarrow> queue_db \<Rightarrow> attachment list" where
  "get_attachments conversation_id db = (case get_conversation_by_id conversation_id db of None \<Rightarrow> [] | Some c \<Rightarrow> attachments_of c)"

definition add_attachments :: "int \<Rightarrow> attachment list \<Rightarrow> time \<Rightarrow> queue_db \<Rightarrow> queue_db \<times> attachment list option" where
  "add_attachments conversation_id infos now db =
     (case get_conversation_by_id conversation_id db of
        None \<Rightarrow> (db, None)
      | Some c \<Rightarrow>
          (put_conversation (save_attachments
             (filter (\<lambda>a. att_get ''file_id'' a \<notin> set (map (att_get ''file_id'') infos)) (attachments_of c) @ infos) now c) db, Some infos))"

definition add_attachment :: "int \<Rightarrow> attachment \<Rightarrow> time \<Rightarrow> queue_db \<Rightarrow> queue_db \<times> attachment option" where
  "add_attachment conversation_id info now db =
     (case get_conversation_by_id conversation_id db of
        None \<Rightarrow> (db, None)
      | Some c \<Rightarrow>
          (put_conversation (save_attachments
             (filter (\<lambda>a. att_get ''file_id'' a \<noteq> att_get ''file_id'' info) (attachments_of c) @ [info]) now c) db, Some info))"

fun update_first :: "('a \<Rightarrow> bool) \<Rightarrow> ('a \<Rightarrow> 'a) \<Rightarrow> 'a list \<Rightarrow> 'a list" where
  "update_first P f [] = []"
| "update_first P f (x # xs) = (if P x then f x # xs else x # update_first P f xs)"

definition update_attachment_status ::
  "int \<Rightarrow> pystr \<Rightarrow> pystr \<Rightarrow> attachment \<Rightarrow> time \<Rightarrow> queue_db \<Rightarrow> queue_db \<times> attachment option" where
  "update_attachment_status conversation_id file_id status extra now db =
     (case get_conversation_by_id conversation_id db of
        None \<Rightarrow> (db, None)
      | Some c \<Rightarrow>
          let f = (\<lambda>a. a @ (lit ''status'', JStr status) # extra); P = (\<lambda>a. att_get ''file_id'' a = JStr file_id)
          in (case find P (attachments_of c) of
                None \<Rightarrow> (db, None)
              | Some a \<Rightarrow> (put_conversation (save_attachments (update_first P f (attachments_of c)) now c) db, Some (f a))))"

definition bind_one :: "pystr list \<Rightarrow> pystr \<Rightarrow> attachment \<Rightarrow> attachment" where
  "bind_one file_ids request_id a =
     (if att_get ''file_id'' a \<in> JStr ` set file_ids \<and> \<not> py_true (att_get ''request_id'' a) then a @ [(lit ''request_id'', JStr request_id)] else a)"

definition bind_attachments_to_request :: "int \<Rightarrow> pystr \<Rightarrow> pystr list \<Rightarrow> time \<Rightarrow> queue_db \<Rightarrow> queue_db \<times> attachment list" where
  "bind_attachments_to_request conversation_id request_id file_ids now db =
     (let ids = filter (\<lambda>s. s \<noteq> []) (map py_strip file_ids)
      in case get_conversation_by_id conversation_id db of
           None \<Rightarrow> (db, [])
         | Some c \<Rightarrow>
             if request_id = [] \<or> ids = [] then (db, [])
             else let old = attachments_of c; new = map (bind_one ids request_id) old
                  in (if new = old then db else put_conversation (save_attachments new now c) db,
                      filter (\<lambda>a. att_get ''request_id'' a = JStr request_id) new))"

definition remove_attachment :: "int \<Rightarrow> pystr \<Rightarrow> time \<Rightarrow> queue_db \<Rightarrow> queue_db \<times> bool" where
  "remove_attachment conversation_id file_id now db =
     (case get_conversation_by_id conversation_id db of
        None \<Rightarrow> (db, False)
      | Some c \<Rightarrow>
          let new = filter (\<lambda>a. att_get ''file_id'' a \<noteq> JStr file_id) (attachments_of c)
          in if length new = length (attachments_of c) then (db, False) else (put_conversation (save_attachments new now c) db, True))"

section \<open>Workdir bindings\<close>

definition workdir_binding_from_project :: "conversation \<Rightarrow> pystr \<Rightarrow> project option \<Rightarrow> queue_error + workdir_binding" where
  "workdir_binding_from_project c uid project =
     (case project of
        None \<Rightarrow> Inl (Queue_runtime_error sm_no_bound_project)
      | Some p \<Rightarrow>
          if cv_project_id c = [] \<or> pr_id p = [] \<or> pr_id p \<noteq> cv_project_id c then Inl (Queue_runtime_error sm_binding_mismatch)
          else if pr_uid p \<noteq> uid then Inl (Queue_runtime_error sm_foreign_project)
          else if cv_thread_id c = [] then Inl (Queue_runtime_error sm_no_thread_id)
          else if pr_workdir_path p = [] \<or> pr_directory_mode p \<notin> {lit ''managed'', lit ''linked''} then Inl (Queue_runtime_error sm_bad_workdir)
          else Inr \<lparr>wb_conversation_id = cv_id c, wb_thread_id = cv_thread_id c, wb_uid = uid, wb_project_id = pr_id p,
                 wb_workdir_path = pr_workdir_path p, wb_directory_mode = pr_directory_mode p\<rparr>)"

definition resolve_conversation_workdir_binding :: "conversation \<Rightarrow> pystr \<Rightarrow> project option \<Rightarrow> gov_db \<Rightarrow> queue_error + workdir_binding" where
  "resolve_conversation_workdir_binding c uid project db =
     workdir_binding_from_project c uid (case project of Some p \<Rightarrow> Some p | None \<Rightarrow> project_get_for_user (cv_project_id c) uid db)"

end
