(* ===== verification/Submission.thy ===== *)
theory Submission
  imports Projects
begin

text \<open>
  Submission of a message to an agent: \<^verbatim>\<open>services/agent_request_service.py\<close>, with the run configuration, the input message and the
  creation of resumed runs of \<^verbatim>\<open>services/agent_run_service.py\<close>.

  A submission is one transaction under the lock of its conversation, followed by the hand-over of the dispatched run to the worker queue; when it
  raises, the transaction is rolled back, so an error carries no state. \<open>run_world\<close> holds what is configured outside the database: the registered
  backends with the declared fields of their context, the chat models and the default model. \<open>fresh\<close> holds the new identifiers, the sandbox scope of
  the dispatch and the clock readings of the call.
\<close>

datatype submit_error =
    Submit_queue queue_error
  | Submit_agent agent_fault
  | Submit_type_error

definition of_queue :: "queue_error + 'a \<Rightarrow> submit_error + 'a" where
  "of_queue x = (case x of Inl e \<Rightarrow> Inl (Submit_queue e) | Inr a \<Rightarrow> Inr a)"

definition of_agent :: "agent_fault + 'a \<Rightarrow> submit_error + 'a" where
  "of_agent x = (case x of Inl e \<Rightarrow> Inl (Submit_agent e) | Inr a \<Rightarrow> Inr a)"

definition http_error :: "nat \<Rightarrow> pystr \<Rightarrow> submit_error" where
  "http_error code detail = Submit_queue (Queue_http_text code detail)"

record run_origin =
  og_source :: pystr
  og_channel :: pystr
  og_external_id :: "pystr option"
  og_metadata :: "(pystr \<times> json) list"

record input_message =
  im_content :: pystr
  im_message_type :: pystr
  im_image_content :: "pystr option"
  im_raw_message :: "json option"
  im_extra_metadata :: "(pystr \<times> json) list"

record agent_request_input =
  ri_agent_slug :: pystr
  ri_thread_id :: pystr
  ri_request_id :: pystr
  ri_input_message :: input_message
  ri_origin :: run_origin
  ri_request_metadata :: "(pystr \<times> json) list"
  ri_model_spec :: "pystr option"
  ri_tool_approval_mode :: "pystr option"
  ri_queue_policy :: pystr
  ri_create_conversation :: bool
  ri_conversation_title :: "pystr option"
  ri_conversation_project_id :: "pystr option"

record run_world =
  rw_text :: py_text
  rw_backend :: "pystr \<Rightarrow> context_schema option"
  rw_chat_model :: "pystr \<Rightarrow> bool"
  rw_default_model :: pystr

record fresh =
  fr_project :: pystr
  fr_path :: pystr
  fr_thread :: pystr
  fr_conversation :: int
  fr_message :: int
  fr_request :: int
  fr_run :: pystr
  fr_scope :: pystr
  fr_clk :: time
  fr_now :: time

section \<open>Configuration of a run\<close>

text \<open>The context a backend starts with; fields that are not declared or not configurable are dropped.\<close>

definition load_agent_run_context :: "agent \<Rightarrow> context_schema \<Rightarrow> (pystr \<times> json) list option \<Rightarrow> (pystr \<times> json) list" where
  "load_agent_run_context a schema project_override =
     (let merged = (case context_of (ag_config_json a) of None \<Rightarrow> [] | Some c \<Rightarrow> c) @ (case project_override of None \<Rightarrow> [] | Some c \<Rightarrow> c)
      in [(lit ''model'', JStr []), (lit ''tool_approval_mode'', JStr (lit ''default''))]
         @ (case context_of (filter_declared_config (JObj [(lit ''context'', JObj merged)]) schema) of None \<Rightarrow> [] | Some c \<Rightarrow> c))"

fun nonblank :: "json \<Rightarrow> pystr option" where
  "nonblank (JStr s) = or_none (py_strip s)"
| "nonblank _ = None"

definition resolve_agent_run_model_spec :: "run_world \<Rightarrow> json \<Rightarrow> json \<Rightarrow> submit_error + pystr" where
  "resolve_agent_run_model_spec w requested configured =
     (let spec = (case nonblank requested of
                    Some s \<Rightarrow> s
                  | None \<Rightarrow> (case nonblank configured of Some s \<Rightarrow> s | None \<Rightarrow> py_strip (rw_default_model w)))
      in if rw_chat_model w spec then Inr spec
         else Inl (Submit_queue (Queue_http 422
                [(lit ''code'', JStr (lit ''chat_model_not_found'')), (lit ''message'', JStr (sm_no_model @ spec @ [39]))])))"

text \<open>Membership in a \<^verbatim>\<open>frozenset\<close> hashes the value: lists and objects raise \<^verbatim>\<open>TypeError\<close>.\<close>

definition normalize_tool_approval_mode :: "py_text \<Rightarrow> json \<Rightarrow> submit_error + pystr" where
  "normalize_tool_approval_mode pt value =
     (case value of
        JStr s \<Rightarrow> if py_strip s \<in> {lit ''default'', lit ''always_trust''} then Inr (py_strip s)
                  else Inl (http_error 422 (sm_bad_mode @ s))
      | JList _ \<Rightarrow> Inl Submit_type_error
      | JObj _ \<Rightarrow> Inl Submit_type_error
      | v \<Rightarrow> Inl (http_error 422 (sm_bad_mode @ py_str pt v)))"

definition resolve_agent_run_tool_approval_mode :: "py_text \<Rightarrow> pystr option \<Rightarrow> json \<Rightarrow> submit_error + pystr" where
  "resolve_agent_run_tool_approval_mode pt requested_mode configured_mode =
     normalize_tool_approval_mode pt
       (case requested_mode of
          Some m \<Rightarrow> JStr m
        | None \<Rightarrow> if py_true configured_mode then configured_mode else JStr (lit ''default''))"

definition resolve_agent_run_config ::
  "run_world \<Rightarrow> json \<Rightarrow> pystr option \<Rightarrow> agent \<Rightarrow> context_schema \<Rightarrow> (pystr \<times> json) list option \<Rightarrow> submit_error + pystr \<times> pystr" where
  "resolve_agent_run_config w model_spec tool_approval_mode a schema project_override =
     (let context = load_agent_run_context a schema project_override
      in and_then (resolve_agent_run_model_spec w model_spec (dict_get context (lit ''model''))) (\<lambda>m.
         and_then (resolve_agent_run_tool_approval_mode (rw_text w) tool_approval_mode (dict_get context (lit ''tool_approval_mode''))) (\<lambda>t.
         Inr (m, t))))"

section \<open>The input message\<close>

definition build_message_metadata :: "pystr \<Rightarrow> pystr \<Rightarrow> input_message \<Rightarrow> (pystr \<times> json) list \<Rightarrow> (pystr \<times> json) list" where
  "build_message_metadata request_id source msg meta =
     [(lit ''request_id'', JStr request_id)]
     @ (if source = [] then [] else [(lit ''source'', JStr source)])
     @ (let c = dict_get meta (lit ''channel'') in if py_true c then [(lit ''channel'', c)] else [])
     @ (case im_raw_message msg of None \<Rightarrow> [] | Some raw \<Rightarrow> if py_true raw then [(lit ''raw_message'', raw)] else [])
     @ (let a = dict_get meta (lit ''attachment_file_ids'') in if py_true a then [(lit ''attachment_file_ids'', a)] else [])
     @ (case dict_get meta (lit ''agent_invocation_meta'') of JObj kvs \<Rightarrow> [(lit ''agent_invocation_meta'', JObj kvs)] | _ \<Rightarrow> [])
     @ (let t = dict_get meta (lit ''tool_approval_mode'') in if t = JNull then [] else [(lit ''tool_approval_mode'', t)])"

fun dedup :: "pystr list \<Rightarrow> pystr list \<Rightarrow> pystr list" where
  "dedup seen [] = []"
| "dedup seen (s # ss) = (if s = [] \<or> s \<in> set seen then dedup seen ss else s # dedup (s # seen) ss)"

definition normalize_attachment_file_ids :: "py_text \<Rightarrow> json \<Rightarrow> pystr list" where
  "normalize_attachment_file_ids pt value =
     (case value of JList xs \<Rightarrow> dedup [] (map (\<lambda>x. py_strip (py_str pt x)) xs) | _ \<Rightarrow> [])"

definition create_agent_run_input_message ::
  "int \<Rightarrow> int \<Rightarrow> pystr \<Rightarrow> input_message \<Rightarrow> delivery_status \<Rightarrow> time \<Rightarrow> queue_db \<Rightarrow> queue_error + queue_db \<times> message" where
  "create_agent_run_input_message new_id conversation_id request_id msg delivery_status clk db =
     (let row = \<lparr>ms_id = new_id, ms_conversation_id = conversation_id, ms_role = Other_role (lit ''user''), ms_content = im_content msg,
            ms_message_type = Other_message (im_message_type msg), ms_created_at = Some clk, ms_token_count = None,
            ms_extra_metadata = Some (JObj (im_extra_metadata msg)), ms_image_content = im_image_content msg, ms_run_id = None,
            ms_request_id = Some request_id, ms_delivery_status = delivery_status, ms_operation_id = None, ms_started_at = None,
            ms_finished_at = None, ms_duration_ms = None, ms_sequence = None, ms_execution_status = None, ms_usage = None\<rparr>
      in if new_id \<in> set (map ms_id (db_messages db)) \<or> conversation_id \<notin> set (map cv_id (qd_conversations db))
         then Inl Queue_integrity_error
         else Inr (db\<lparr>db_messages := db_messages db @ [row]\<rparr>, row))"

section \<open>Storing a request\<close>

definition validate_request_scope :: "agent_run_request \<Rightarrow> agent_request_input \<Rightarrow> pystr \<Rightarrow> queue_error + unit" where
  "validate_request_scope r input uid =
     (if (rq_uid r, rq_agent_slug r, rq_conversation_thread_id r, rq_source r, rq_channel r, rq_external_id r)
         = (uid, ri_agent_slug input, ri_thread_id input, og_source (ri_origin input), og_channel (ri_origin input), og_external_id (ri_origin input))
      then Inr () else Inl (queue_conflict ''request_id_conflict'' sm_scope_conflict))"

definition existing_request :: "agent_request_input \<Rightarrow> pystr \<Rightarrow> workdir_binding option \<Rightarrow> queue_db \<Rightarrow> queue_error + agent_run_request option" where
  "existing_request input uid binding db =
     (if (case binding of None \<Rightarrow> False | Some b \<Rightarrow> wb_uid b \<noteq> uid \<or> wb_thread_id b \<noteq> ri_thread_id input)
      then Inl (Queue_runtime_error sm_binding)
      else case get_by_request_id (ri_request_id input) db of
             None \<Rightarrow> Inr None
           | Some r \<Rightarrow> and_then (validate_request_scope r input uid) (\<lambda>_. Inr (Some r)))"

text \<open>Whether a new request may enter its thread; the value tells that the policy \<^verbatim>\<open>reject\<close> refuses it at once.\<close>

definition admit_request :: "agent_request_input \<Rightarrow> pystr \<Rightarrow> pystr \<Rightarrow> queue_db \<Rightarrow> queue_error + bool" where
  "admit_request input policy uid db =
     (let slug = ri_agent_slug input; thread = ri_thread_id input;
          active = get_active_run_by_thread_for_user slug thread uid db
      in if (case get_latest_chat_or_resume_run uid slug thread db of None \<Rightarrow> False | Some r \<Rightarrow> ar_status r = Interrupted)
         then Inl (queue_conflict ''run_interrupted'' sm_interrupted)
         else if policy = steer \<and> (case active of None \<Rightarrow> False | Some r \<Rightarrow> \<not> is_steerable_message_run r db)
         then Inl (queue_conflict ''run_not_steerable'' queue_msg_not_steerable)
         else and_then (if policy = steer then get_pending_steer uid slug thread db else Inr None) (\<lambda>pending.
           if pending \<noteq> None then Inl (queue_conflict ''steer_already_pending'' queue_msg_steer_pending)
           else Inr (policy = lit ''reject'' \<and> (active \<noteq> None \<or> list_queued uid slug thread db \<noteq> []))))"

text \<open>The model and approval mode a request will run with; \<open>c\<close> is the locked conversation.\<close>

definition request_payload ::
  "run_world \<Rightarrow> agent_request_input \<Rightarrow> agent \<Rightarrow> context_schema \<Rightarrow> conversation \<Rightarrow> agent_db \<Rightarrow> submit_error + pystr \<times> pystr" where
  "request_payload w input a schema c db =
     (let requested = (case ri_model_spec input of
            Some s \<Rightarrow> if py_strip s \<noteq> [] then JStr s else get_or_null (or_obj (cv_extra_metadata c)) ''model_spec''
          | None \<Rightarrow> get_or_null (or_obj (cv_extra_metadata c)) ''model_spec'')
      in resolve_agent_run_config w requested (ri_tool_approval_mode input) a schema
           (load_project_agent_override (ri_agent_slug input) (Some (cv_project_id c)) db))"

fun join_comma :: "pystr list \<Rightarrow> pystr" where
  "join_comma [] = []"
| "join_comma [s] = s"
| "join_comma (s # ss) = s @ lit '', '' @ join_comma ss"

text \<open>The nested transaction: attachments, input message and request are stored together or not at all.\<close>

definition store_request ::
  "run_world \<Rightarrow> fresh \<Rightarrow> agent_request_input \<Rightarrow> pystr \<Rightarrow> pystr \<Rightarrow> conversation \<Rightarrow> bool \<Rightarrow> json \<Rightarrow> queue_db
   \<Rightarrow> queue_error + queue_db \<times> agent_run_request" where
  "store_request w f input policy uid c rejected payload db =
     (let rid = ri_request_id input; og = ri_origin input; msg = ri_input_message input; meta = ri_request_metadata input;
          ids = normalize_attachment_file_ids (rw_text w) (dict_get meta (lit ''attachment_file_ids''));
          msg' = msg\<lparr>im_extra_metadata := build_message_metadata rid (og_source og) msg meta\<rparr>;
          (db1, bound) = (if rejected \<or> ids = [] then (db, []) else bind_attachments_to_request (cv_id c) rid ids (fr_clk f) db);
          missing = (if rejected then [] else filter (\<lambda>i. i \<notin> set (map (\<lambda>a. py_str (rw_text w) (att_get ''file_id'' a)) bound)) ids)
      in if missing \<noteq> [] then Inl (Queue_http_text 422 (sm_attachments @ join_comma missing))
         else and_then (create_agent_run_input_message (fr_message f) (cv_id c) rid msg'
                (if rejected then Delivery_rejected else Delivery_queued) (fr_clk f) db1) (\<lambda>(db2, m).
           request_create (fr_request f) rid uid (ri_agent_slug input) (ri_thread_id input) (og_source og) (og_channel og) (og_external_id og)
             (Some (JObj (og_metadata og))) policy (ms_id m) (Some payload) (if rejected then Rq_rejected else Rq_queued) (fr_clk f) db2))"

definition remember_model :: "pystr \<Rightarrow> pystr \<Rightarrow> time \<Rightarrow> queue_db \<Rightarrow> queue_db" where
  "remember_model thread_id model_spec now db =
     (case get_conversation_by_thread_id thread_id db of None \<Rightarrow> db | Some c \<Rightarrow> set_model_spec c model_spec now db)"

text \<open>The policy \<^verbatim>\<open>reject\<close> withdraws a request that was stored but could not be dispatched.\<close>

definition withdraw_request :: "pystr \<Rightarrow> int \<Rightarrow> time \<Rightarrow> queue_db \<Rightarrow> queue_db" where
  "withdraw_request request_id message_id now db =
     db\<lparr>qd_requests := update_where (\<lambda>r. rq_request_id r = request_id)
          (\<lambda>r. r\<lparr>rq_status := Rq_rejected, rq_input_payload := JObj [], rq_updated_at := now\<rparr>) (qd_requests db),
        db_messages := update_where (\<lambda>m. ms_id m = message_id) (\<lambda>m. m\<lparr>ms_delivery_status := Delivery_rejected\<rparr>) (db_messages db)\<rparr>"

definition dispatch_stored ::
  "fresh \<Rightarrow> agent_request_input \<Rightarrow> pystr \<Rightarrow> pystr \<Rightarrow> workdir_binding \<Rightarrow> pystr \<Rightarrow> agent_run_request \<Rightarrow> queue_db
   \<Rightarrow> queue_error + queue_db \<times> dispatch_result option" where
  "dispatch_stored f input policy uid binding model r db =
     (let rid = ri_request_id input; thread = ri_thread_id input; reject = (policy = lit ''reject'')
      in and_then (dispatch_ready_head uid (ri_agent_slug input) thread binding (if reject then Some rid else None) (fr_scope f) (fr_run f)
               (fr_clk f) (fr_now f) (if reject then db else remember_model thread model (fr_now f) db)) (\<lambda>(db1, d).
           if (case d of None \<Rightarrow> False | Some x \<Rightarrow> ds_request_id x = rid)
           then Inr (if reject then remember_model thread model (fr_now f) db1 else db1, d)
           else if reject then Inr (withdraw_request rid (rq_input_message_id r) (fr_now f) db1, d)
           else Inr (db1, d)))"

definition stored_row :: "agent_run_request \<Rightarrow> queue_db \<Rightarrow> agent_run_request" where
  "stored_row r db = (case get_by_request_id (rq_request_id r) db of None \<Rightarrow> r | Some x \<Rightarrow> x)"

definition store_and_dispatch ::
  "run_world \<Rightarrow> fresh \<Rightarrow> agent_request_input \<Rightarrow> pystr \<Rightarrow> pystr \<Rightarrow> conversation \<Rightarrow> workdir_binding \<Rightarrow> bool \<Rightarrow> pystr \<Rightarrow> pystr \<Rightarrow> platform_db
   \<Rightarrow> submit_error + platform_db \<times> agent_run_request \<times> dispatch_result option" where
  "store_and_dispatch w f input policy uid c binding rejected model mode db =
     (let payload = (if rejected then JObj [] else JObj [(lit ''model_spec'', JStr model), (lit ''tool_approval_mode'', JStr mode)])
      in case store_request w f input policy uid c rejected payload (pf_queue db) of
           Inl e \<Rightarrow>
             if e = Queue_integrity_error
             then and_then (of_queue (existing_request input uid (Some binding) (pf_queue db))) (\<lambda>again.
                    case again of Some r \<Rightarrow> Inr (db, r, None) | None \<Rightarrow> Inl (Submit_queue e))
             else Inl (Submit_queue e)
         | Inr (q1, r) \<Rightarrow>
             if rejected then Inr (db\<lparr>pf_queue := q1\<rparr>, r, None)
             else and_then (of_queue (dispatch_stored f input policy uid binding model r q1)) (\<lambda>(q2, d).
               Inr (db\<lparr>pf_queue := q2\<rparr>, stored_row r q2, d)))"

definition persist_request ::
  "run_world \<Rightarrow> fresh \<Rightarrow> agent_request_input \<Rightarrow> pystr \<Rightarrow> agent \<Rightarrow> context_schema \<Rightarrow> workdir_binding option \<Rightarrow> platform_db
   \<Rightarrow> submit_error + platform_db \<times> agent_run_request \<times> dispatch_result option" where
  "persist_request w f input uid a schema workdir_binding db =
     and_then (of_queue (validate_queue_policy (ri_queue_policy input))) (\<lambda>policy.
     if policy = steer \<and> og_source (ri_origin input) \<notin> {lit ''chat'', lit ''channel''} then Inl (http_error 422 sm_steer_source)
     else and_then (of_queue (existing_request input uid workdir_binding (pf_queue db))) (\<lambda>found.
     case found of
       Some r \<Rightarrow> Inr (db, r, None)
     | None \<Rightarrow>
         and_then (of_queue (get_thread_conversation uid (ri_agent_slug input) (ri_thread_id input) (pf_queue db))) (\<lambda>c.
         and_then
           (case workdir_binding of
              None \<Rightarrow> of_queue (resolve_conversation_workdir_binding c uid None (pf_gov db))
            | Some b \<Rightarrow> if wb_uid b \<noteq> uid \<or> wb_conversation_id b \<noteq> cv_id c \<or> wb_thread_id b \<noteq> cv_thread_id c \<or> wb_project_id b \<noteq> cv_project_id c
                        then Inl (Submit_queue (Queue_runtime_error sm_binding_conversation)) else Inr b) (\<lambda>binding.
         and_then (of_queue (admit_request input policy uid (pf_queue db))) (\<lambda>rejected.
         and_then (if rejected then Inr ([], []) else request_payload w input a schema c (pf_agents db)) (\<lambda>(model, mode).
         store_and_dispatch w f input policy uid c binding rejected model mode db))))))"

section \<open>Submission\<close>

datatype submission =
    Known_run agent_run
  | Known_request agent_run_request
  | Stored agent_run_request "dispatch_result option"

definition require_agent_project_scope :: "pystr \<Rightarrow> pystr \<Rightarrow> agent_db \<Rightarrow> submit_error + unit" where
  "require_agent_project_scope agent_slug project_id db =
     (case ensure_agent_project_scope agent_slug (Some project_id) db of
        Inl _ \<Rightarrow> Inl (http_error 403 sm_scope_denied) | Inr _ \<Rightarrow> Inr ())"

definition normal_external_id :: "pystr option \<Rightarrow> pystr option" where
  "normal_external_id x = (case x of None \<Rightarrow> None | Some s \<Rightarrow> or_none (py_strip s))"

definition origin_metadata_of :: "run_origin \<Rightarrow> (pystr \<times> json) list" where
  "origin_metadata_of og = filter (\<lambda>(k, _). k \<notin> {lit ''source'', lit ''channel'', lit ''external_id''}) (og_metadata og)"

definition normal_input :: "agent_request_input \<Rightarrow> agent_request_input" where
  "normal_input input =
     (let og = ri_origin input; om = origin_metadata_of og;
          meta = ri_request_metadata input @ [(lit ''channel'', JStr (og_channel og))];
          meta' = meta @ filter (\<lambda>(k, _). json_get (JObj meta) k = None) om
      in input\<lparr>ri_origin := og\<lparr>og_external_id := normal_external_id (og_external_id og), og_metadata := om\<rparr>, ri_request_metadata := meta'\<rparr>)"

text \<open>A replay of a run or request that exists already.\<close>

definition replay_run :: "agent_request_input \<Rightarrow> pystr \<Rightarrow> agent \<Rightarrow> agent_run \<Rightarrow> submit_error + unit" where
  "replay_run input uid a run =
     (if ar_uid run \<noteq> uid \<or> ar_agent_slug run \<noteq> ag_slug a \<or> ar_run_type run \<noteq> Chat
         \<or> ri_thread_id input \<noteq> [] \<and> ar_conversation_thread_id run \<noteq> ri_thread_id input
      then Inl (http_error 409 sm_conflict) else Inr ())"

definition replay_request :: "agent_request_input \<Rightarrow> pystr \<Rightarrow> agent \<Rightarrow> agent_run_request \<Rightarrow> platform_db \<Rightarrow> submit_error + unit" where
  "replay_request input uid a r db =
     (let og = ri_origin input
      in and_then (of_queue (validate_request_scope r (input\<lparr>ri_origin := og\<lparr>og_external_id := normal_external_id (og_external_id og)\<rparr>\<rparr>) uid)) (\<lambda>_.
         case get_conversation_by_thread_id (rq_conversation_thread_id r) (pf_queue db) of
           None \<Rightarrow> Inl (http_error 404 queue_msg_no_thread)
         | Some c \<Rightarrow>
             if \<not> conversation_matches (Some c) uid (ri_agent_slug input) then Inl (http_error 404 queue_msg_no_thread)
             else (case project_get_for_user (cv_project_id c) uid (pf_gov db) of
                     None \<Rightarrow> Inl (http_error 404 pm_no_access)
                   | Some p \<Rightarrow>
                       if pr_status p \<noteq> Project_active then Inl (http_error 404 pm_no_access)
                       else require_agent_project_scope (ag_slug a) (cv_project_id c) (pf_agents db))))"

text \<open>The conversation of the request, created with its project when an external entry has none yet.\<close>

definition open_conversation ::
  "fresh \<Rightarrow> agent_request_input \<Rightarrow> pystr \<Rightarrow> agent \<Rightarrow> platform_db \<Rightarrow> submit_error + platform_db \<times> conversation \<times> project option" where
  "open_conversation f input uid a db =
     (case get_conversation_by_thread_id (ri_thread_id input) (pf_queue db) of
        Some c \<Rightarrow> Inr (db, c, None)
      | None \<Rightarrow>
          if \<not> ri_create_conversation input then Inl (http_error 404 queue_msg_no_thread)
          else and_then
            (if or_empty (ri_conversation_project_id input) \<noteq> []
             then (case lock_active_for_user (or_empty (ri_conversation_project_id input)) uid (pf_gov db) of
                     None \<Rightarrow> Inl (http_error 404 pm_no_access) | Some p \<Rightarrow> Inr (db, p))
             else and_then (of_queue (create_implicit_project (fr_project f) (fr_path f) uid (fr_clk f) (pf_gov db))) (\<lambda>(g, p). Inr (pf_set_gov g db, p)))
            (\<lambda>(db1, p).
              and_then (of_queue (add_conversation (fr_conversation f) (fr_thread f) uid (ag_slug a) (ri_conversation_title input) (ri_thread_id input)
                  (origin_metadata_of (ri_origin input)
                   @ [(lit ''source'', JStr (og_source (ri_origin input))), (lit ''channel'', JStr (og_channel (ri_origin input)))])
                  (pr_id p) None (fr_clk f) db1)) (\<lambda>(db2, c). Inr (db2, c, Some p))))"

definition validate_origin :: "run_origin \<Rightarrow> submit_error + unit" where
  "validate_origin og =
     (if py_strip (og_source og) = [] \<or> py_strip (og_channel og) = [] then Inl (http_error 422 sm_origin_empty)
      else if 32 < length (og_source og) then Inl (http_error 422 sm_source_long)
      else if 32 < length (og_channel og) then Inl (http_error 422 sm_channel_long)
      else Inr ())"

definition submit_agent_request ::
  "run_world \<Rightarrow> fresh \<Rightarrow> agent_request_input \<Rightarrow> perm_user \<Rightarrow> platform_db \<Rightarrow> submit_error + platform_db \<times> submission" where
  "submit_agent_request w f input user db =
     (let uid = or_empty (pu_uid user); rid = ri_request_id input
      in and_then (validate_origin (ri_origin input)) (\<lambda>_.
         and_then (of_agent (get_visible_by_slug (rw_text w) (ri_agent_slug input) user Main_kind (pf_agents db))) (\<lambda>visible.
         case visible of
           None \<Rightarrow> Inl (http_error 404 sm_no_agent)
         | Some a \<Rightarrow>
             (case get_by_request_id rid (pf_queue db) of
                Some r \<Rightarrow> and_then (replay_request input uid a r db) (\<lambda>_. Inr (db, Known_request r))
              | None \<Rightarrow>
                  (case get_run_by_request_id rid (pf_queue db) of
                     Some run \<Rightarrow> and_then (replay_run input uid a run) (\<lambda>_. Inr (db, Known_run run))
                   | None \<Rightarrow>
                       (case rw_backend w (ag_backend_id a) of
                          None \<Rightarrow> Inl (http_error 404 (sm_backend_a @ ag_backend_id a @ sm_backend_b))
                        | Some schema \<Rightarrow>
                            and_then (open_conversation f input uid a db) (\<lambda>(db1, c, project).
                            and_then (require_agent_project_scope (ag_slug a) (cv_project_id c) (pf_agents db1)) (\<lambda>_.
                            and_then (of_queue (resolve_conversation_workdir_binding c uid
                                (case project of Some p \<Rightarrow> if pr_id p = cv_project_id c then Some p else None | None \<Rightarrow> None) (pf_gov db1))) (\<lambda>binding.
                            and_then (persist_request w f (normal_input input) uid a schema (Some binding) db1) (\<lambda>(db2, r, d).
                            Inr ((case d of None \<Rightarrow> db2 | Some x \<Rightarrow> db2\<lparr>pf_queue := enqueue_agent_run (ds_run_id x) (pf_queue db2)\<rparr>),
                                 Stored r d)))))))))))"

end
