(* ===== verification/Run_Service.thy ===== *)
theory Run_Service
  imports Submission
begin

text \<open>
  Runs that are not dispatched from the queue: resumed runs and cancellation (\<^verbatim>\<open>services/agent_run_service.py\<close>), and runs of
  subagents with the relation of their threads (\<^verbatim>\<open>services/subagent_run_service.py\<close>, \<^verbatim>\<open>repositories/subagent_thread_repository.py\<close>).

  \<open>users\<close> is the table of users, \<open>derived_id\<close> and \<open>child_thread\<close> are the hashes the services compute. As for a submission, a call that
  raises is rolled back by its caller.
\<close>

datatype subagent_issue =
    Parent_missing | Parent_ended | Nested_subagent | No_parent_conversation | Parent_conversation_missing | Parent_project_missing
  | Child_missing | Child_other_workdir | Child_taken | Child_other_agent pystr | Relation_other_parent | Relation_other_agent pystr
  | No_relation | Run_foreign

datatype service_error =
    Service_submit submit_error
  | Service_busy pystr run_status
  | Service_value subagent_issue
  | Service_rejected submit_error

definition of_submit :: "submit_error + 'a \<Rightarrow> service_error + 'a" where
  "of_submit x = (case x of Inl e \<Rightarrow> Inl (Service_submit e) | Inr a \<Rightarrow> Inr a)"

abbreviation service_http :: "nat \<Rightarrow> pystr \<Rightarrow> service_error" where
  "service_http code detail \<equiv> Service_submit (http_error code detail)"

section \<open>Creation of a run\<close>

definition same_run_request_scope :: "agent_run \<Rightarrow> pystr \<Rightarrow> pystr \<Rightarrow> pystr \<Rightarrow> run_type \<Rightarrow> pystr option \<Rightarrow> int option \<Rightarrow> bool" where
  "same_run_request_scope run uid agent_slug thread_id run_type created_by_run_id relation_id \<longleftrightarrow>
     ar_uid run = uid \<and> ar_agent_slug run = agent_slug \<and> ar_conversation_thread_id run = thread_id \<and> ar_run_type run = run_type
     \<and> ar_created_by_run_id run = created_by_run_id \<and> ar_subagent_thread_relation_id run = relation_id"

definition run_busy_exception :: "agent_run \<Rightarrow> service_error" where
  "run_busy_exception active = Service_busy (ar_id active) (ar_status active)"

text \<open>The new run and its input message; when a constraint refuses it, the run that exists already, without the message.\<close>

definition persist_agent_run_record ::
  "pystr \<Rightarrow> pystr \<Rightarrow> pystr \<Rightarrow> pystr option \<Rightarrow> pystr \<Rightarrow> pystr \<Rightarrow> int \<Rightarrow> run_type \<Rightarrow> json \<Rightarrow> message \<Rightarrow> pystr option \<Rightarrow> int option \<Rightarrow> pystr \<Rightarrow> pystr
   \<Rightarrow> pystr option \<Rightarrow> json option \<Rightarrow> time \<Rightarrow> queue_db \<Rightarrow> service_error + queue_db \<times> agent_run \<times> bool" where
  "persist_agent_run_record run_id agent_slug thread_id runtime_scope_id uid request_id conversation_id run_type payload m created_by relation_id
     source channel external_id origin_metadata clk db =
     (case create_run run_id thread_id runtime_scope_id agent_slug uid request_id payload source channel external_id origin_metadata
             (Some conversation_id) created_by relation_id run_type (Some (ms_id m)) clk db of
        Inr (db1, run) \<Rightarrow>
          Inr (db1\<lparr>db_messages := update_where (\<lambda>x. ms_id x = ms_id m) (\<lambda>x. x\<lparr>ms_run_id := Some run_id\<rparr>) (db_messages db1)\<rparr>, run, True)
      | Inl _ \<Rightarrow>
          (case get_run_by_request_id request_id db of
             Some run \<Rightarrow>
               if same_run_request_scope run uid agent_slug thread_id run_type created_by relation_id
               then Inr (db\<lparr>db_messages := filter (\<lambda>x. ms_id x \<noteq> ms_id m) (db_messages db)\<rparr>, run, False)
               else (case get_active_run_by_thread_for_user agent_slug thread_id uid db of
                       Some active \<Rightarrow> Inl (run_busy_exception active) | None \<Rightarrow> Inl (service_http 409 sm_conflict))
           | None \<Rightarrow>
               (case get_active_run_by_thread_for_user agent_slug thread_id uid db of
                  Some active \<Rightarrow> Inl (run_busy_exception active) | None \<Rightarrow> Inl (service_http 409 sm_conflict))))"

record creation_scope =
  cs_conversation :: conversation
  cs_agent :: agent
  cs_backend :: context_schema
  cs_existing_run :: "agent_run option"
  cs_parent_run :: "agent_run option"

text \<open>The run a resume continues: interrupted, in the same thread, and not superseded.\<close>

definition resumable_parent :: "pystr \<Rightarrow> pystr \<Rightarrow> pystr \<Rightarrow> pystr \<Rightarrow> queue_db \<Rightarrow> service_error + agent_run" where
  "resumable_parent parent_id uid agent_slug thread_id db =
     (case get_run_for_user parent_id uid db of
        None \<Rightarrow> Inl (service_http 404 rv_no_parent)
      | Some p \<Rightarrow>
          if ar_conversation_thread_id p \<noteq> thread_id \<or> ar_agent_slug p \<noteq> agent_slug then Inl (service_http 404 rv_no_parent)
          else if ar_status p \<noteq> Interrupted then Inl (service_http 409 rv_not_interrupted)
          else if (case get_latest_chat_or_resume_run uid agent_slug thread_id db of None \<Rightarrow> False | Some l \<Rightarrow> ar_id l \<noteq> ar_id p)
          then Inl (Service_submit (Submit_queue (queue_conflict ''resume_superseded'' rv_superseded)))
          else if \<not> py_true (get_or_null (ar_input_payload p) ''model_spec'') then Inl (service_http 409 rv_no_model)
          else Inr p)"

definition visible_agent :: "run_world \<Rightarrow> pystr \<Rightarrow> perm_user \<Rightarrow> agent_kind \<Rightarrow> agent_db \<Rightarrow> submit_error + agent" where
  "visible_agent w slug user kind db =
     (case get_visible_by_slug (rw_text w) slug user kind db of
        Inl e \<Rightarrow> Inl (Submit_agent e)
      | Inr None \<Rightarrow> Inl (http_error 404 sm_no_agent)
      | Inr (Some a) \<Rightarrow> Inr a)"

text \<open>The run that exists already for the request, or that a new one may be made.\<close>

definition creation_state ::
  "pystr \<Rightarrow> pystr \<Rightarrow> pystr \<Rightarrow> pystr \<Rightarrow> run_type \<Rightarrow> pystr option \<Rightarrow> int option \<Rightarrow> queue_db \<Rightarrow> service_error + agent_run option \<times> agent_run option" where
  "creation_state agent_slug thread_id uid request_id run_type created_by relation_id db =
     (case get_run_by_request_id request_id db of
        Some e \<Rightarrow>
          if \<not> same_run_request_scope e uid agent_slug thread_id run_type created_by relation_id then Inl (service_http 409 sm_conflict)
          else if run_type = Resume \<and> or_empty created_by = [] then Inl (service_http 422 rv_no_parent_id)
          else Inr (Some e, None)
      | None \<Rightarrow>
          and_then
            (if run_type \<noteq> Resume then Inr None
             else if or_empty created_by = [] then Inl (service_http 422 rv_no_parent_id)
             else and_then (resumable_parent (or_empty created_by) uid agent_slug thread_id db) (\<lambda>p. Inr (Some p)))
            (\<lambda>parent.
              case get_active_run_by_thread_for_user agent_slug thread_id uid db of
                Some active \<Rightarrow> Inl (run_busy_exception active)
              | None \<Rightarrow> Inr (None, parent)))"

definition prepare_agent_run_creation_scope ::
  "run_world \<Rightarrow> (pystr \<Rightarrow> perm_user option) \<Rightarrow> pystr \<Rightarrow> pystr \<Rightarrow> pystr \<Rightarrow> pystr \<Rightarrow> run_type \<Rightarrow> agent_kind \<Rightarrow> pystr option \<Rightarrow> int option \<Rightarrow> platform_db
   \<Rightarrow> service_error + creation_scope" where
  "prepare_agent_run_creation_scope w users agent_slug thread_id uid request_id run_type kind created_by relation_id db =
     (if thread_id = [] then Inl (service_http 422 rv_no_thread_id)
      else case get_conversation_by_thread_id thread_id (pf_queue db) of
        None \<Rightarrow> Inl (service_http 404 queue_msg_no_thread)
      | Some c \<Rightarrow>
          if cv_uid c \<noteq> uid \<or> cv_status c = lit ''deleted'' then Inl (service_http 404 queue_msg_no_thread)
          else if cv_agent_id c \<noteq> agent_slug then Inl (service_http 409 rv_bound_agent)
          else (case users uid of
            None \<Rightarrow> Inl (service_http 404 rv_no_user)
          | Some user \<Rightarrow>
              and_then (of_submit (visible_agent w agent_slug user kind (pf_agents db))) (\<lambda>a.
              and_then (of_submit (require_agent_project_scope (ag_slug a) (cv_project_id c) (pf_agents db))) (\<lambda>_.
              case rw_backend w (ag_backend_id a) of
                None \<Rightarrow> Inl (service_http 404 (sm_backend_a @ ag_backend_id a @ sm_backend_b))
              | Some schema \<Rightarrow>
                  and_then (creation_state agent_slug thread_id uid request_id run_type created_by relation_id (pf_queue db)) (\<lambda>(existing, parent).
                  Inr \<lparr>cs_conversation = c, cs_agent = a, cs_backend = schema, cs_existing_run = existing, cs_parent_run = parent\<rparr>)))))"

section \<open>Resumed runs\<close>

fun valid_decisions :: "json list \<Rightarrow> submit_error + unit" where
  "valid_decisions [] = Inr ()"
| "valid_decisions (d # ds) =
     (case d of
        JObj kvs \<Rightarrow>
          (case dict_get kvs (lit ''type'') of
             JStr t \<Rightarrow> if t \<in> {lit ''approve'', lit ''reject''} then valid_decisions ds else Inl (http_error 422 rv_decision_type)
           | JList _ \<Rightarrow> Inl Submit_type_error
           | JObj _ \<Rightarrow> Inl Submit_type_error
           | _ \<Rightarrow> Inl (http_error 422 rv_decision_type))
      | _ \<Rightarrow> Inl (http_error 422 rv_decision_type))"

definition validate_resume_input :: "json \<Rightarrow> submit_error + unit" where
  "validate_resume_input resume =
     (case json_get resume (lit ''decisions'') of
        None \<Rightarrow> Inr ()
      | Some (JList ds) \<Rightarrow> if ds = [] then Inl (http_error 422 rv_decisions) else valid_decisions ds
      | Some _ \<Rightarrow> Inl (http_error 422 rv_decisions))"

definition resume_request_id :: "py_text \<Rightarrow> (pystr option \<Rightarrow> json \<Rightarrow> pystr) \<Rightarrow> (pystr \<times> json) list \<Rightarrow> pystr option \<Rightarrow> json \<Rightarrow> pystr" where
  "resume_request_id pt derived_id meta created_by resume =
     (let i = dict_get meta (lit ''request_id'') in if py_true i then py_str pt i else derived_id created_by resume)"

definition or_text :: "pystr \<Rightarrow> string \<Rightarrow> pystr" where
  "or_text s dflt = (if s = [] then lit dflt else s)"

text \<open>The message of a resume holds the answer; \<open>json_text\<close> is \<^verbatim>\<open>json.dumps\<close>.\<close>

definition resume_message :: "(json \<Rightarrow> pystr) \<Rightarrow> pystr \<Rightarrow> json \<Rightarrow> (pystr \<times> json) list \<Rightarrow> input_message" where
  "resume_message json_text request_id resume meta =
     \<lparr>im_content = json_text resume, im_message_type = lit ''resume'', im_image_content = None, im_raw_message = None,
      im_extra_metadata =
        [(lit ''request_id'', JStr request_id), (lit ''resume'', resume), (lit ''source'', JStr (lit ''ask_user_question_resume''))]
        @ (let a = dict_get meta (lit ''attachment_file_ids'') in if py_true a then [(lit ''attachment_file_ids'', a)] else [])
        @ (case dict_get meta (lit ''agent_invocation_meta'') of JObj kvs \<Rightarrow> [(lit ''agent_invocation_meta'', JObj kvs)] | _ \<Rightarrow> [])\<rparr>"

definition create_resume_run_view ::
  "run_world \<Rightarrow> fresh \<Rightarrow> (pystr \<Rightarrow> perm_user option) \<Rightarrow> (pystr option \<Rightarrow> json \<Rightarrow> pystr) \<Rightarrow> (json \<Rightarrow> pystr) \<Rightarrow> pystr \<Rightarrow> pystr \<Rightarrow> (pystr \<times> json) list
   \<Rightarrow> pystr \<Rightarrow> json \<Rightarrow> pystr option \<Rightarrow> pystr option \<Rightarrow> pystr option \<Rightarrow> pystr option \<Rightarrow> (pystr \<times> json) list option \<Rightarrow> platform_db
   \<Rightarrow> service_error + platform_db \<times> agent_run" where
  "create_resume_run_view w f users derived_id json_text agent_slug thread_id meta uid resume created_by source channel external_id origin_metadata db =
     (if resume = JNull then Inl (service_http 422 rv_resume_empty)
      else and_then (of_submit (validate_resume_input resume)) (\<lambda>_.
        let rid = resume_request_id (rw_text w) derived_id meta created_by resume
        in and_then (prepare_agent_run_creation_scope w users agent_slug thread_id uid rid Resume Main_kind created_by None db) (\<lambda>sc.
           case cs_existing_run sc of
             Some e \<Rightarrow> Inr (if ar_status e = Pending then db\<lparr>pf_queue := enqueue_agent_run (ar_id e) (pf_queue db)\<rparr> else db, e)
           | None \<Rightarrow>
               (case cs_parent_run sc of
                  None \<Rightarrow> Inl (service_http 422 rv_no_parent_id)
                | Some p \<Rightarrow>
                    let payload = JObj [(lit ''model_spec'', get_or_null (ar_input_payload p) ''model_spec''),
                          (lit ''tool_approval_mode'', case json_get (ar_input_payload p) (lit ''tool_approval_mode'') of
                             None \<Rightarrow> JStr (lit ''default'') | Some t \<Rightarrow> t)]
                    in and_then (of_submit (of_queue (create_agent_run_input_message (fr_message f) (cv_id (cs_conversation sc)) rid
                           (resume_message json_text rid resume meta) Delivery_complete (fr_clk f) (pf_queue db)))) (\<lambda>(q1, m).
                       and_then (persist_agent_run_record (fr_run f) agent_slug thread_id (Some thread_id) uid rid (cv_id (cs_conversation sc)) Resume
                           payload m created_by None
                           (case source of None \<Rightarrow> or_text (ar_source p) ''chat'' | Some s \<Rightarrow> s)
                           (case channel of None \<Rightarrow> or_text (ar_channel p) ''web'' | Some s \<Rightarrow> s)
                           (case external_id of None \<Rightarrow> ar_external_id p | Some s \<Rightarrow> Some s)
                           (Some (case origin_metadata of None \<Rightarrow> ar_origin_metadata p | Some om \<Rightarrow> JObj om)) (fr_clk f) q1) (\<lambda>(q2, run, created).
                       Inr (if created
                            then db\<lparr>pf_queue := enqueue_agent_run (ar_id run) (inherit_run_scope (Some p) (ar_id run) thread_id (fr_now f) q2)\<rparr>
                            else db, run)))))))"

section \<open>Cancellation\<close>

text \<open>The second value is what is signalled to the workers after the commit.\<close>

definition request_cancel_agent_run ::
  "pystr \<Rightarrow> pystr \<Rightarrow> bool \<Rightarrow> time \<Rightarrow> time \<Rightarrow> queue_db \<Rightarrow> service_error + queue_db \<times> agent_run \<times> pystr list" where
  "request_cancel_agent_run run_id uid cascade_children now clk db =
     (case request_cancel_execution_tree run_id uid cascade_children now clk db of
        ((None, _), _) \<Rightarrow> Inl (service_http 404 rv_no_run)
      | ((Some run, ids), db') \<Rightarrow> Inr (db', run, ids))"

section \<open>Subagents\<close>

definition get_by_child_thread_for_user :: "pystr \<Rightarrow> pystr \<Rightarrow> queue_db \<Rightarrow> subagent_thread option" where
  "get_by_child_thread_for_user child_thread_id uid db =
     find (\<lambda>s. st_child_thread_id s = child_thread_id \<and> st_uid s = uid) (db_subagent_threads db)"

definition subagent_thread_create ::
  "int \<Rightarrow> pystr \<Rightarrow> int \<Rightarrow> int \<Rightarrow> pystr \<Rightarrow> pystr \<Rightarrow> pystr \<Rightarrow> time \<Rightarrow> queue_db \<Rightarrow> queue_error + queue_db \<times> subagent_thread" where
  "subagent_thread_create new_id uid parent_id child_id child_thread_id slug created_by clk db =
     (let s = \<lparr>st_id = new_id, st_uid = uid, st_parent_conversation_id = parent_id, st_child_conversation_id = child_id,
            st_child_thread_id = child_thread_id, st_subagent_slug = slug, st_created_by_run_id = created_by, st_created_at = Some clk,
            st_updated_at = Some clk\<rparr>
      in if list_ex (\<lambda>x. st_id x = new_id \<or> st_child_conversation_id x = child_id \<or> st_child_thread_id x = child_thread_id) (db_subagent_threads db)
            \<or> parent_id \<notin> set (map cv_id (qd_conversations db)) \<or> child_id \<notin> set (map cv_id (qd_conversations db))
         then Inl Queue_integrity_error
         else Inr (db\<lparr>db_subagent_threads := db_subagent_threads db @ [s]\<rparr>, s))"

definition validate_thread_relation :: "subagent_thread \<Rightarrow> agent \<Rightarrow> agent_run \<Rightarrow> service_error + unit" where
  "validate_thread_relation s a creator =
     (if Some (st_parent_conversation_id s) \<noteq> ar_conversation_id creator then Inl (Service_value Relation_other_parent)
      else if st_subagent_slug s \<noteq> ag_slug a then Inl (Service_value (Relation_other_agent (st_subagent_slug s)))
      else Inr ())"

definition ensure_child_conversation ::
  "fresh \<Rightarrow> pystr \<Rightarrow> pystr \<Rightarrow> agent \<Rightarrow> agent_run \<Rightarrow> pystr \<Rightarrow> platform_db \<Rightarrow> service_error + platform_db \<times> conversation" where
  "ensure_child_conversation f child_thread_id uid a creator project_id db =
     (case get_conversation_by_thread_id child_thread_id (pf_queue db) of
        Some c \<Rightarrow>
          if cv_uid c \<noteq> uid \<or> cv_status c = lit ''deleted'' then Inl (Service_value Child_missing)
          else if cv_status c \<noteq> lit ''subagent'' then Inl (Service_value Child_taken)
          else if cv_agent_id c \<noteq> ag_slug a then Inl (Service_value (Child_other_agent (cv_agent_id c)))
          else if cv_project_id c \<noteq> project_id then Inl (Service_value Child_other_workdir)
          else Inr (db, c)
      | None \<Rightarrow>
          and_then (of_submit (of_queue (add_conversation (fr_conversation f) (fr_thread f) uid (ag_slug a) (Some (lit ''SubAgent: '' @ ag_name a))
              child_thread_id
              [(lit ''source'', JStr (lit ''subagent'')), (lit ''parent_thread_id'', JStr (ar_conversation_thread_id creator)),
               (lit ''created_by_run_id'', JStr (ar_id creator)),
               (lit ''parent_conversation_id'', case ar_conversation_id creator of None \<Rightarrow> JNull | Some i \<Rightarrow> JInt i),
               (lit ''subagent_slug'', JStr (ag_slug a))]
              project_id None (fr_clk f) db))) (\<lambda>(db1, c).
            let c' = c\<lparr>cv_status := lit ''subagent'', cv_updated_at := Some (fr_now f)\<rparr>
            in Inr (db1\<lparr>pf_queue := put_conversation c' (pf_queue db1)\<rparr>, c')))"

definition parent_project ::
  "pystr \<Rightarrow> agent_run \<Rightarrow> platform_db \<Rightarrow> service_error + conversation \<times> project" where
  "parent_project uid creator db =
     (case ar_conversation_id creator of
        None \<Rightarrow> Inl (Service_value No_parent_conversation)
      | Some cid \<Rightarrow>
          (case get_conversation_by_id cid (pf_queue db) of
             None \<Rightarrow> Inl (Service_value Parent_conversation_missing)
           | Some c \<Rightarrow>
               if cv_uid c \<noteq> uid then Inl (Service_value Parent_conversation_missing)
               else (case lock_active_for_user (cv_project_id c) uid (pf_gov db) of
                       None \<Rightarrow> Inl (Service_value Parent_project_missing)
                     | Some p \<Rightarrow>
                         (case get_conversation_by_thread_id (ar_conversation_thread_id creator) (pf_queue db) of
                            None \<Rightarrow> Inl (Service_value Parent_conversation_missing)
                          | Some l \<Rightarrow>
                              if cv_id l \<noteq> cid \<or> cv_uid l \<noteq> uid \<or> cv_status l = lit ''deleted'' \<or> cv_project_id l \<noteq> pr_id p
                              then Inl (Service_value Parent_conversation_missing) else Inr (l, p)))))"

definition ensure_thread_relation ::
  "fresh \<Rightarrow> int \<Rightarrow> pystr \<Rightarrow> pystr \<Rightarrow> agent \<Rightarrow> agent_run \<Rightarrow> bool \<Rightarrow> platform_db \<Rightarrow> service_error + platform_db \<times> subagent_thread" where
  "ensure_thread_relation f new_relation child_thread_id uid a creator continuing db =
     and_then (parent_project uid creator db) (\<lambda>(parent, project).
     case get_by_child_thread_for_user child_thread_id uid (pf_queue db) of
       Some s \<Rightarrow>
         and_then (validate_thread_relation s a creator) (\<lambda>_.
         case get_conversation_by_id (st_child_conversation_id s) (pf_queue db) of
           None \<Rightarrow> Inl (Service_value Child_missing)
         | Some c \<Rightarrow>
             if cv_uid c \<noteq> uid \<or> cv_status c = lit ''deleted'' then Inl (Service_value Child_missing)
             else if cv_project_id c \<noteq> pr_id project then Inl (Service_value Child_other_workdir)
             else Inr (db, s))
     | None \<Rightarrow>
         if continuing then Inl (Service_value No_relation)
         else and_then (ensure_child_conversation f child_thread_id uid a creator (pr_id project) db) (\<lambda>(db1, c).
           and_then (of_submit (of_queue (subagent_thread_create new_relation uid (cv_id parent) (cv_id c) child_thread_id (ag_slug a) (ar_id creator)
               (fr_clk f) (pf_queue db1)))) (\<lambda>(q, s).
           Inr (db1\<lparr>pf_queue := q\<rparr>, s))))"

definition create_run_record ::
  "run_world \<Rightarrow> fresh \<Rightarrow> (pystr \<Rightarrow> perm_user option) \<Rightarrow> input_message \<Rightarrow> pystr \<Rightarrow> pystr \<Rightarrow> agent_run \<Rightarrow> subagent_thread \<Rightarrow> pystr \<Rightarrow> platform_db
   \<Rightarrow> service_error + platform_db \<times> agent_run \<times> bool" where
  "create_run_record w f users msg request_id uid creator s tool_call_id db =
     (if im_content msg = [] then Inl (service_http 422 rv_no_input)
      else and_then (prepare_agent_run_creation_scope w users (st_subagent_slug s) (st_child_thread_id s) uid request_id Subagent Subagent_kind
             (Some (ar_id creator)) (Some (st_id s)) db) (\<lambda>sc.
        let c = cs_conversation sc
        in if st_child_conversation_id s \<noteq> cv_id c then Inl (service_http 409 rv_relation)
           else case cs_existing_run sc of
             Some e \<Rightarrow> Inr (db, e, False)
           | None \<Rightarrow>
               if ar_conversation_id creator \<noteq> Some (st_parent_conversation_id s) then Inl (service_http 409 rv_relation)
               else and_then (of_submit (resolve_agent_run_model_spec w
                      (dict_get (load_agent_run_context (cs_agent sc) (cs_backend sc) None) (lit ''model''))
                      (get_or_null (ar_input_payload creator) ''model_spec''))) (\<lambda>model.
                 let payload = JObj [(lit ''model_spec'', JStr model),
                       (lit ''tool_approval_mode'', case json_get (ar_input_payload creator) (lit ''tool_approval_mode'') of
                          None \<Rightarrow> JStr (lit ''default'') | Some t \<Rightarrow> t),
                       (lit ''runtime'', JObj [(lit ''tool_call_id'', JStr tool_call_id), (lit ''subagent_name'', JStr (ag_name (cs_agent sc))),
                          (lit ''parent_thread_id'', JStr (ar_conversation_thread_id creator))])];
                     msg' = msg\<lparr>im_extra_metadata := [(lit ''request_id'', JStr request_id), (lit ''source'', JStr (lit ''subagent'')),
                       (lit ''raw_message'', case im_raw_message msg of None \<Rightarrow> JNull | Some r \<Rightarrow> r)]\<rparr>
                 in and_then (of_submit (of_queue (create_agent_run_input_message (fr_message f) (cv_id c) request_id msg' Delivery_complete (fr_clk f)
                        (pf_queue db)))) (\<lambda>(q1, m).
                    and_then (persist_agent_run_record (fr_run f) (st_subagent_slug s) (st_child_thread_id s) (Some (st_child_thread_id s)) uid request_id
                        (cv_id c) Subagent payload m (Some (ar_id creator)) (Some (st_id s)) (lit ''subagent'') (lit ''internal'') None None (fr_clk f) q1)
                      (\<lambda>(q2, run, created).
                    Inr (db\<lparr>pf_queue := (if created then inherit_run_scope (Some creator) (ar_id run) (st_child_thread_id s) (fr_now f) q2 else q2)\<rparr>,
                         run, created))))))"

record subagent_start_result =
  sr_run :: agent_run
  sr_created :: bool
  sr_continuing :: bool
  sr_relation :: subagent_thread

definition subagent_failure :: "service_error \<Rightarrow> service_error" where
  "subagent_failure e = (case e of
     Service_submit (Submit_queue (Queue_http c d)) \<Rightarrow> Service_rejected (Submit_queue (Queue_http c d))
   | Service_submit (Submit_queue (Queue_http_text c d)) \<Rightarrow> Service_rejected (Submit_queue (Queue_http_text c d))
   | _ \<Rightarrow> e)"

text \<open>\<open>child_thread\<close> and \<open>request_of\<close> are the hashes of the new thread and of the request.\<close>

definition subagent_start ::
  "run_world \<Rightarrow> fresh \<Rightarrow> int \<Rightarrow> (pystr \<Rightarrow> perm_user option) \<Rightarrow> (pystr \<Rightarrow> pystr \<Rightarrow> pystr \<Rightarrow> pystr) \<Rightarrow> (pystr \<Rightarrow> pystr \<Rightarrow> pystr \<Rightarrow> pystr)
   \<Rightarrow> pystr \<Rightarrow> pystr \<Rightarrow> agent \<Rightarrow> input_message \<Rightarrow> pystr \<Rightarrow> pystr option \<Rightarrow> platform_db \<Rightarrow> service_error + platform_db \<times> subagent_start_result" where
  "subagent_start w f new_relation users child_thread request_of uid created_by_run_id a msg tool_call_id requested_thread_id db =
     (case lock_run_for_user created_by_run_id uid (pf_queue db) of
        None \<Rightarrow> Inl (Service_value Parent_missing)
      | Some creator \<Rightarrow>
          if ar_status creator \<noteq> Running then Inl (Service_value Parent_ended)
          else if ar_run_type creator = Subagent then Inl (Service_value Nested_subagent)
          else
            let asked = py_strip (or_empty requested_thread_id);
                continuing = (asked \<noteq> []);
                child = (if continuing then asked else child_thread (ar_conversation_thread_id creator) (ag_slug a) tool_call_id)
            in and_then (ensure_thread_relation f new_relation child uid a creator continuing db) (\<lambda>(db1, s).
               case create_run_record w f users msg (request_of (ar_id creator) child tool_call_id) uid creator s tool_call_id db1 of
                 Inl e \<Rightarrow> Inl (subagent_failure e)
               | Inr (db2, run, created) \<Rightarrow>
                   Inr (if created then db2\<lparr>pf_queue := enqueue_agent_run (ar_id run) (pf_queue db2)\<rparr> else db2,
                        \<lparr>sr_run = run, sr_created = created, sr_continuing = continuing, sr_relation = s\<rparr>)))"

definition get_run_for_creator :: "pystr \<Rightarrow> pystr \<Rightarrow> pystr \<Rightarrow> queue_db \<Rightarrow> service_error + agent_run" where
  "get_run_for_creator uid created_by_run_id run_id db =
     (case get_subagent_run_with_creator uid created_by_run_id run_id db of
        None \<Rightarrow> Inl (Service_value Run_foreign) | Some (creator, run) \<Rightarrow> Inr run)"

end
