(* ===== verification/Submission_Steps.thy ===== *)
theory Submission_Steps
  imports Run_Service Queue_Invariant Governance_Invariant
begin

text \<open>
  What the parts of a submission do to the tables of the queue: each part either leaves requests and runs alone or is a step of
  \<open>queue_step\<close>. Submission and resumption are thereby refinements of the queue protocol of \<open>Queue_Invariant\<close>.
\<close>

section \<open>Frames\<close>

lemma of_queue_Inr_iff [simp]: "of_queue x = Inr y \<longleftrightarrow> x = Inr y"
  by (cases x) (simp_all add: of_queue_def)

lemma of_agent_Inr_iff [simp]: "of_agent x = Inr y \<longleftrightarrow> x = Inr y"
  by (cases x) (simp_all add: of_agent_def)

lemma of_submit_Inr_iff [simp]: "of_submit x = Inr y \<longleftrightarrow> x = Inr y"
  by (cases x) (simp_all add: of_submit_def)

lemma put_conversation_fields [simp]:
  "qd_requests (put_conversation c db) = qd_requests db" "db_runs (put_conversation c db) = db_runs db"
  "db_messages (put_conversation c db) = db_messages db" "qd_delivered (put_conversation c db) = qd_delivered db"
  by (simp_all add: put_conversation_def)

lemma remember_model_fields [simp]:
  "qd_requests (remember_model t m now db) = qd_requests db" "db_runs (remember_model t m now db) = db_runs db"
  "db_messages (remember_model t m now db) = db_messages db" "qd_delivered (remember_model t m now db) = qd_delivered db"
  by (simp_all add: remember_model_def set_model_spec_def split: option.splits)

lemma bind_attachments_fields [simp]:
  "qd_requests (fst (bind_attachments_to_request i r ids now db)) = qd_requests db"
  "db_runs (fst (bind_attachments_to_request i r ids now db)) = db_runs db"
  "db_messages (fst (bind_attachments_to_request i r ids now db)) = db_messages db"
  by (simp_all add: bind_attachments_to_request_def Let_def split: option.splits)

lemma inherit_scope_fields [simp]:
  "db_runs (inherit_run_scope p i t now db) = db_runs db"
  "qd_requests (inherit_run_scope p i t now db) = qd_requests db"
  by (simp_all add: inherit_run_scope_def)

lemma input_message_effect:
  assumes "create_agent_run_input_message i c rid msg ds clk db = Inr (db', m)"
  shows "db' = db\<lparr>db_messages := db_messages db @ [m]\<rparr>" and "ms_id m = i" and "ms_conversation_id m = c"
    and "ms_request_id m = Some rid" and "ms_delivery_status m = ds" and "i \<notin> ms_id ` set (db_messages db)"
    and "c \<in> cv_id ` set (qd_conversations db)"
  using assms by (auto simp: create_agent_run_input_message_def Let_def split: if_splits)

lemma request_create_effect:
  assumes "request_create i rid u a t src ch ext om policy m payload status clk db = Inr (db', r)"
  shows "db' = db\<lparr>qd_requests := qd_requests db @ [r]\<rparr>" and "rq_id r = i" and "rq_request_id r = rid" and "rq_status r = status"
    and "rq_uid r = u" and "rq_agent_slug r = a" and "rq_conversation_thread_id r = t" and "rq_queue_policy r = policy"
    and "rq_input_message_id r = m" and "rq_input_payload r = or_obj payload" and "rq_source r = src" and "rq_channel r = ch"
    and "rq_external_id r = ext" and "rid \<notin> rq_request_id ` set (qd_requests db)" and "rq_dispatched_run_id r = None"
    and "rq_created_at r = clk"
  using assms by (auto simp: request_create_def Let_def split: if_splits)

section \<open>Steps\<close>

lemma quiet_step:
  assumes "queue_inv db" and "qd_requests db' = qd_requests db" and "db_runs db' = db_runs db"
  shows "queue_step db db'"
  using assms by (intro queue_step.others) (auto simp: queue_inv_def request_ok_def evolves_refl)

lemma store_request_steps:
  assumes inv: "queue_inv db" and st: "store_request w f input policy uid c rejected payload db = Inr (db', r)"
    and fresh: "ri_request_id input \<notin> ar_request_id ` set (db_runs db)"
    and steer: "policy = steer \<Longrightarrow> get_pending_steer uid (ri_agent_slug input) (ri_thread_id input) db = Inr None"
  shows "queue_step\<^sup>*\<^sup>* db db'" and "rq_status r = (if rejected then Rq_rejected else Rq_queued)"
    and "rq_request_id r = ri_request_id input" and "rq_uid r = uid" and "rq_agent_slug r = ri_agent_slug input"
    and "rq_conversation_thread_id r = ri_thread_id input" and "rq_queue_policy r = policy"
    and "qd_requests db' = qd_requests db @ [r]" and "db_runs db' = db_runs db" and "rq_input_payload r = payload"
    and "rq_source r = og_source (ri_origin input)" and "rq_channel r = og_channel (ri_origin input)"
    and "rq_external_id r = og_external_id (ri_origin input)" and "qd_delivered db' = qd_delivered db"
proof -
  let ?ids = "normalize_attachment_file_ids (rw_text w) (dict_get (ri_request_metadata input) (lit ''attachment_file_ids''))"
  define db1 where "db1 = (if rejected \<or> ?ids = [] then db else fst (bind_attachments_to_request (cv_id c) (ri_request_id input) ?ids (fr_clk f) db))"
  obtain msg ds db2 m where cm: "create_agent_run_input_message (fr_message f) (cv_id c) (ri_request_id input) msg ds (fr_clk f) db1 = Inr (db2, m)"
    and cr: "request_create (fr_request f) (ri_request_id input) uid (ri_agent_slug input) (ri_thread_id input) (og_source (ri_origin input))
      (og_channel (ri_origin input)) (og_external_id (ri_origin input)) (Some (JObj (og_metadata (ri_origin input)))) policy (ms_id m)
      (Some payload) (if rejected then Rq_rejected else Rq_queued) (fr_clk f) db2 = Inr (db', r)"
    using st by (auto simp: store_request_def Let_def db1_def split: if_splits prod.splits)
  note m = input_message_effect[OF cm] and r = request_create_effect[OF cr]
  have same: "qd_requests db2 = qd_requests db" "db_runs db2 = db_runs db"
    by (simp_all add: m(1) db1_def)
  have "get_pending_steer u a t db2 = get_pending_steer u a t db" for u a t
    by (simp add: get_pending_steer_def same)
  then have "queue_step db2 db'"
    using fresh steer by (intro queue_step.submit[OF cr]) (auto simp: same)
  with quiet_step[OF inv same] show "queue_step\<^sup>*\<^sup>* db db'" by auto
  have "qd_delivered db1 = qd_delivered db"
    by (simp add: db1_def bind_attachments_to_request_def put_conversation_def Let_def split: option.splits)
  then show "qd_delivered db' = qd_delivered db" by (simp add: r(1) m(1))
  show "rq_status r = (if rejected then Rq_rejected else Rq_queued)" "rq_request_id r = ri_request_id input" "rq_uid r = uid"
    "rq_agent_slug r = ri_agent_slug input" "rq_conversation_thread_id r = ri_thread_id input" "rq_queue_policy r = policy"
    "qd_requests db' = qd_requests db @ [r]" "db_runs db' = db_runs db" "rq_input_payload r = payload"
    "rq_source r = og_source (ri_origin input)" "rq_channel r = og_channel (ri_origin input)"
    "rq_external_id r = og_external_id (ri_origin input)"
    using r same by (auto simp: or_obj_def)
qed

lemma dispatch_stored_steps:
  assumes inv: "queue_inv db" and d: "dispatch_stored f input policy uid b model r db = Inr (db', x)"
    and r: "get_by_request_id (ri_request_id input) db = Some r" "rq_status r = Rq_queued"
  shows "queue_step\<^sup>*\<^sup>* db db'"
proof -
  let ?reject = "policy = lit ''reject''" and ?t = "ri_thread_id input"
  define db0 where "db0 = (if ?reject then db else remember_model ?t model (fr_now f) db)"
  obtain db1 where dh: "dispatch_ready_head uid (ri_agent_slug input) ?t b (if ?reject then Some (ri_request_id input) else None) (fr_scope f)
      (fr_run f) (fr_clk f) (fr_now f) db0 = Inr (db1, x)"
    and db': "db' = db1 \<or> db' = remember_model ?t model (fr_now f) db1
      \<or> ?reject \<and> \<not> (case x of None \<Rightarrow> False | Some y \<Rightarrow> ds_request_id y = ri_request_id input)
        \<and> db' = withdraw_request (ri_request_id input) (rq_input_message_id r) (fr_now f) db1"
    using d by (auto simp: dispatch_stored_def Let_def db0_def split: if_splits)
  have s0: "queue_step db db0" using inv by (intro quiet_step) (auto simp: db0_def)
  then have inv0: "queue_inv db0" by (rule queue_inv_step[OF inv])
  have s1: "queue_step db0 db1" by (rule queue_step.dispatch_head[OF dh])
  then have inv1: "queue_inv db1" by (rule queue_inv_step[OF inv0])
  note two = rtranclp.rtrancl_into_rtrancl[OF r_into_rtranclp[of queue_step, OF s0] s1]
  from db' show ?thesis
  proof (elim disjE conjE)
    assume "db' = db1" then show ?thesis using two by simp
  next
    assume "db' = remember_model ?t model (fr_now f) db1"
    then have "queue_step db1 db'" using inv1 by (intro quiet_step) auto
    with two show ?thesis by (rule rtranclp.rtrancl_into_rtrancl)
  next
    assume rej: ?reject and no: "\<not> (case x of None \<Rightarrow> False | Some y \<Rightarrow> ds_request_id y = ri_request_id input)"
      and db': "db' = withdraw_request (ri_request_id input) (rq_input_message_id r) (fr_now f) db1"
    have "db1 = db0"
    proof (rule ccontr)
      assume "db1 \<noteq> db0"
      then obtain h where h: "get_queue_head uid (ri_agent_slug input) ?t db0 = Some h" "rq_request_id h = ri_request_id input"
        "dispatch_locked_head h b (fr_scope f) (fr_run f) (fr_clk f) (fr_now f) db0 = Inr (db1, x)"
        using dh rej by (auto simp: dispatch_ready_head_def split: option.splits sum.splits if_splits)
      have "h \<in> set (qd_requests db0)" "rq_status h = Rq_queued" using queue_head_in[OF h(1)] by (auto simp: in_thread_def)
      from dispatch_head_effect[OF inv0 this h(3)] \<open>db1 \<noteq> db0\<close> no h(2) show False by auto
    qed
    then have "db1 = db" using rej by (simp add: db0_def)
    let ?r = "r\<lparr>rq_status := Rq_rejected, rq_input_payload := JObj [], rq_updated_at := fr_now f\<rparr>"
    have one: "x = r" if "x \<in> set (qd_requests db)" "rq_request_id x = rq_request_id r" for x
      using request_id_unique[OF inv that(1) _ that(2)] get_by_request_id_in[OF r(1)] by blast
    have "queue_step db (put_request ?r db)" by (rule queue_step.withdraw[OF r refl])
    moreover have "qd_requests db' = qd_requests (put_request ?r db)"
      unfolding db' \<open>db1 = db\<close> using get_by_request_id_in[OF r(1)] one
      by (auto simp: withdraw_request_def put_request_def update_where_def)
    then have "queue_step (put_request ?r db) db'"
      using queue_inv_step[OF inv calculation] by (intro quiet_step) (auto simp: db' \<open>db1 = db\<close> withdraw_request_def)
    ultimately show ?thesis by auto
  qed
qed

section \<open>A stored request\<close>

lemma policy_unchanged: "validate_queue_policy p = Inr q \<Longrightarrow> q = p"
  by (auto simp: validate_queue_policy_def split: if_splits)

lemma admit_no_steer:
  "admit_request input steer uid db = Inr rejected \<Longrightarrow> get_pending_steer uid (ri_agent_slug input) (ri_thread_id input) db = Inr None"
  by (auto simp: admit_request_def Let_def split: if_splits)

definition stored_as :: "run_world \<Rightarrow> fresh \<Rightarrow> agent_request_input \<Rightarrow> pystr \<Rightarrow> queue_db \<Rightarrow> queue_db \<Rightarrow> agent_run_request \<Rightarrow> dispatch_result option \<Rightarrow> bool" where
  "stored_as w f input uid q q' r d \<longleftrightarrow>
     (\<exists>policy c rejected payload q1 r0.
        policy = ri_queue_policy input \<and> get_by_request_id (ri_request_id input) q = None
        \<and> get_thread_conversation uid (ri_agent_slug input) (ri_thread_id input) q = Inr c
        \<and> admit_request input policy uid q = Inr rejected \<and> (rejected \<longrightarrow> payload = JObj [])
        \<and> store_request w f input policy uid c rejected payload q = Inr (q1, r0)
        \<and> (if rejected then q' = q1 \<and> r = r0 \<and> d = None
           else \<exists>b model. dispatch_stored f input policy uid b model r0 q1 = Inr (q', d) \<and> r = stored_row r0 q'))"

lemma persist_cases:
  assumes "persist_request w f input uid a schema bo db = Inr (db', r, d)"
  shows "db' = db \<and> d = None \<and> get_by_request_id (ri_request_id input) (pf_queue db) = Some r \<and> validate_request_scope r input uid = Inr ()
    \<or> (\<exists>q'. db' = db\<lparr>pf_queue := q'\<rparr> \<and> stored_as w f input uid (pf_queue db) q' r d)"
proof -
  obtain policy found where pol: "validate_queue_policy (ri_queue_policy input) = Inr policy"
    and ex: "existing_request input uid bo (pf_queue db) = Inr found"
    using assms by (auto simp: persist_request_def split: if_splits)
  note policy = policy_unchanged[OF pol]
  show ?thesis
  proof (cases found)
    case (Some x)
    then show ?thesis using assms pol ex
      by (auto simp: persist_request_def existing_request_def split: if_splits option.splits)
  next
    case None
    then have none: "get_by_request_id (ri_request_id input) (pf_queue db) = None"
      using ex by (auto simp: existing_request_def split: if_splits option.splits)
    obtain c b rejected model mode where c: "get_thread_conversation uid (ri_agent_slug input) (ri_thread_id input) (pf_queue db) = Inr c"
      and adm: "admit_request input policy uid (pf_queue db) = Inr rejected"
      and rest: "store_and_dispatch w f input policy uid c b rejected model mode db = Inr (db', r, d)"
      using assms pol ex None by (auto simp: persist_request_def split: if_splits)
    have again: "existing_request input uid (Some b) (pf_queue db) = Inr None \<or> (\<exists>e. existing_request input uid (Some b) (pf_queue db) = Inl e)"
      using none by (auto simp: existing_request_def)
    let ?payload = "if rejected then JObj [] else JObj [(lit ''model_spec'', JStr model), (lit ''tool_approval_mode'', JStr mode)]"
    obtain q1 r0 where st: "store_request w f input policy uid c rejected ?payload (pf_queue db) = Inr (q1, r0)"
      using rest again by (cases "store_request w f input policy uid c rejected ?payload (pf_queue db)") (auto simp: store_and_dispatch_def Let_def split: if_splits)
    have "\<exists>q'. db' = db\<lparr>pf_queue := q'\<rparr> \<and> (if rejected then q' = q1 \<and> r = r0 \<and> d = None
           else dispatch_stored f input policy uid b model r0 q1 = Inr (q', d) \<and> r = stored_row r0 q')"
      using rest unfolding store_and_dispatch_def Let_def st by (auto split: if_splits)
    then obtain q' where q': "db' = db\<lparr>pf_queue := q'\<rparr>" "if rejected then q' = q1 \<and> r = r0 \<and> d = None
           else dispatch_stored f input policy uid b model r0 q1 = Inr (q', d) \<and> r = stored_row r0 q'" by blast
    have "stored_as w f input uid (pf_queue db) q' r d"
      unfolding stored_as_def using none c adm st q'(2) policy
      by (intro exI[of _ policy] exI[of _ c] exI[of _ rejected] exI[of _ ?payload] exI[of _ q1] exI[of _ r0]) (auto, blast)
    with q'(1) show ?thesis by blast
  qed
qed

lemma stored_lookup:
  assumes "qd_requests q1 = qd_requests q @ [r0]" and "get_by_request_id i q = None" and "rq_request_id r0 = i"
  shows "get_by_request_id i q1 = Some r0"
  using assms by (simp add: get_by_request_id_def find_append)

lemma stored_steps:
  assumes inv: "queue_inv q" and st: "stored_as w f input uid q q' r d"
    and fresh: "ri_request_id input \<notin> ar_request_id ` set (db_runs q)"
  shows "queue_step\<^sup>*\<^sup>* q q'"
proof -
  obtain policy c rejected payload q1 r0 where none: "get_by_request_id (ri_request_id input) q = None"
    and adm: "admit_request input policy uid q = Inr rejected"
    and sr: "store_request w f input policy uid c rejected payload q = Inr (q1, r0)"
    and rest: "if rejected then q' = q1 \<and> r = r0 \<and> d = None
           else \<exists>b model. dispatch_stored f input policy uid b model r0 q1 = Inr (q', d) \<and> r = stored_row r0 q'"
    using st unfolding stored_as_def by blast
  note s = store_request_steps[OF inv sr fresh admit_no_steer]
  have q1: "queue_step\<^sup>*\<^sup>* q q1" using s(1) adm by blast
  show ?thesis
  proof (cases rejected)
    case False
    then obtain b model where ds: "dispatch_stored f input policy uid b model r0 q1 = Inr (q', d)" using rest by auto
    have "queue_step\<^sup>*\<^sup>* q1 q'"
      by (rule dispatch_stored_steps[OF queue.steps_inv[OF q1 inv] ds stored_lookup[OF s(8) none s(3)]])
        (use adm False s(2) in auto)
    with q1 show ?thesis by simp
  qed (use rest q1 in simp)
qed

section \<open>Submission\<close>

lemma open_conversation_fields:
  assumes "open_conversation f input uid a db = Inr (db', c, p)"
  shows "qd_requests (pf_queue db') = qd_requests (pf_queue db)" and "db_runs (pf_queue db') = db_runs (pf_queue db)"
    and "qd_delivered (pf_queue db') = qd_delivered (pf_queue db)"
  using assms by (auto simp: open_conversation_def add_conversation_def create_implicit_project_def create_project_record_def pf_set_gov_def Let_def
      split: option.splits if_splits)

lemma normal_input_simps [simp]:
  "ri_request_id (normal_input input) = ri_request_id input" "ri_agent_slug (normal_input input) = ri_agent_slug input"
  "ri_thread_id (normal_input input) = ri_thread_id input" "ri_queue_policy (normal_input input) = ri_queue_policy input"
  "og_source (ri_origin (normal_input input)) = og_source (ri_origin input)"
  "og_channel (ri_origin (normal_input input)) = og_channel (ri_origin input)"
  "og_external_id (ri_origin (normal_input input)) = normal_external_id (og_external_id (ri_origin input))"
  by (simp_all add: normal_input_def Let_def)

lemma submit_cases:
  assumes "submit_agent_request w f input user db = Inr (db', res)"
  obtains (known_request) a r where "get_visible_by_slug (rw_text w) (ri_agent_slug input) user Main_kind (pf_agents db) = Inr (Some a)"
      "get_by_request_id (ri_request_id input) (pf_queue db) = Some r"
      "replay_request input (or_empty (pu_uid user)) a r db = Inr ()" "db' = db" "res = Known_request r"
  | (known_run) a run where "get_visible_by_slug (rw_text w) (ri_agent_slug input) user Main_kind (pf_agents db) = Inr (Some a)"
      "get_by_request_id (ri_request_id input) (pf_queue db) = None"
      "get_run_by_request_id (ri_request_id input) (pf_queue db) = Some run"
      "replay_run input (or_empty (pu_uid user)) a run = Inr ()" "db' = db" "res = Known_run run"
  | (stored) a c p db1 q2 r d where "get_visible_by_slug (rw_text w) (ri_agent_slug input) user Main_kind (pf_agents db) = Inr (Some a)"
      "get_by_request_id (ri_request_id input) (pf_queue db) = None" "get_run_by_request_id (ri_request_id input) (pf_queue db) = None"
      "open_conversation f input (or_empty (pu_uid user)) a db = Inr (db1, c, p)"
      "stored_as w f (normal_input input) (or_empty (pu_uid user)) (pf_queue db1) q2 r d"
      "db' = db1\<lparr>pf_queue := (case d of None \<Rightarrow> q2 | Some x \<Rightarrow> enqueue_agent_run (ds_run_id x) q2)\<rparr>" "res = Stored r d"
      "require_agent_project_scope (ag_slug a) (cv_project_id c) (pf_agents db1) = Inr ()"
      "\<exists>b. resolve_conversation_workdir_binding c (or_empty (pu_uid user))
         (case p of Some x \<Rightarrow> if pr_id x = cv_project_id c then Some x else None | None \<Rightarrow> None) (pf_gov db1) = Inr b"
proof -
  let ?uid = "or_empty (pu_uid user)"
  obtain visible where v: "get_visible_by_slug (rw_text w) (ri_agent_slug input) user Main_kind (pf_agents db) = Inr visible"
    using assms by (auto simp: submit_agent_request_def Let_def)
  then obtain a where a: "get_visible_by_slug (rw_text w) (ri_agent_slug input) user Main_kind (pf_agents db) = Inr (Some a)"
    using assms by (cases visible) (auto simp: submit_agent_request_def Let_def)
  show thesis
  proof (cases "get_by_request_id (ri_request_id input) (pf_queue db)")
    case (Some r)
    then show thesis using assms a by (intro known_request[of a r]) (auto simp: submit_agent_request_def Let_def)
  next
    case none: None
    show thesis
    proof (cases "get_run_by_request_id (ri_request_id input) (pf_queue db)")
      case (Some run)
      then show thesis using assms a none by (intro known_run[of a run]) (auto simp: submit_agent_request_def Let_def)
    next
      case None
      then obtain schema where "rw_backend w (ag_backend_id a) = Some schema"
        using assms a none by (cases "rw_backend w (ag_backend_id a)") (auto simp: submit_agent_request_def Let_def)
      then obtain db1 c p b db2 r d where op: "open_conversation f input ?uid a db = Inr (db1, c, p)"
        and pr: "persist_request w f (normal_input input) ?uid a schema (Some b) db1 = Inr (db2, r, d)"
        and sc: "require_agent_project_scope (ag_slug a) (cv_project_id c) (pf_agents db1) = Inr ()"
        and bd: "resolve_conversation_workdir_binding c ?uid
          (case p of Some x \<Rightarrow> if pr_id x = cv_project_id c then Some x else None | None \<Rightarrow> None) (pf_gov db1) = Inr b"
        and db': "db' = (case d of None \<Rightarrow> db2 | Some x \<Rightarrow> db2\<lparr>pf_queue := enqueue_agent_run (ds_run_id x) (pf_queue db2)\<rparr>)" "res = Stored r d"
        using assms a none None by (auto simp: submit_agent_request_def Let_def)
      have "get_by_request_id (ri_request_id input) (pf_queue db1) = None"
        using none open_conversation_fields[OF op] by (simp add: get_by_request_id_def)
      with persist_cases[OF pr] obtain q2 where "db2 = db1\<lparr>pf_queue := q2\<rparr>"
        "stored_as w f (normal_input input) ?uid (pf_queue db1) q2 r d" by auto
      then show thesis using db' sc bd by (intro stored[OF a none None op]) (auto split: option.splits)
    qed
  qed
qed

lemma submit_steps:
  assumes inv: "queue_inv (pf_queue db)" and s: "submit_agent_request w f input user db = Inr (db', res)"
  shows "queue_step\<^sup>*\<^sup>* (pf_queue db) (pf_queue db')"
  using s
proof (cases rule: submit_cases)
  case (stored a c p db1 q2 r d)
  note fl = open_conversation_fields[OF stored(4)]
  have s1: "queue_step (pf_queue db) (pf_queue db1)" by (rule quiet_step[OF inv fl(1,2)])
  have "ri_request_id input \<notin> ar_request_id ` set (db_runs (pf_queue db))"
    using stored(3) by (auto simp: get_run_by_request_id_def find_None_iff)
  then have s2: "queue_step\<^sup>*\<^sup>* (pf_queue db1) q2"
    by (intro stored_steps[OF queue_inv_step[OF inv s1] stored(5)]) (simp add: fl)
  have "queue_step\<^sup>*\<^sup>* q2 (pf_queue db')"
    using stored(6) queue_step.deliver by (auto split: option.splits)
  then show ?thesis using s1 s2 by (meson converse_rtranclp_into_rtranclp rtranclp_trans)
qed simp_all

end
