(* ===== verification/Submission_Properties.thy ===== *)
theory Submission_Properties
  imports Submission_Steps Queue_Properties
begin

text \<open>
  Properties of projects, submission, resumption and subagents. Witnesses use the conversation \<open>[140]\<close> of \<open>Queue_Properties\<close> in the project
  \<open>[201]\<close>, a superadministrator \<open>[121]\<close> who owns both, and the agent \<open>[122]\<close>.
\<close>

section \<open>The row of a stored request\<close>

lemma find_replaced:
  assumes "find (\<lambda>r. k r = k r') rows = Some x"
  shows "find (\<lambda>r. k r = k r') (update_where (\<lambda>r. k r = k r') (\<lambda>_. r') rows) = Some r'"
  using assms by (induction rows) auto

lemma lookup_put_request:
  assumes "get_by_request_id (rq_request_id r) db = Some x"
  shows "get_by_request_id (rq_request_id r) (put_request r db) = Some r"
  using assms find_replaced[of rq_request_id r] by (simp add: get_by_request_id_def put_request_def)

lemma stored_row_keeps:
  assumes inv: "queue_inv q1" and steps: "queue_step\<^sup>*\<^sup>* q1 q2" and r: "r \<in> set (qd_requests q1)"
  shows "get_by_request_id (rq_request_id r) q2 = Some (stored_row r q2)" and "request_keeps r (stored_row r q2)"
proof -
  have ev: "evolves request_keeps (qd_requests q1) (qd_requests q2)"
    using queue.steps_rel[OF steps inv] by (simp add: queue_rel_def)
  obtain r' where r': "r' \<in> set (qd_requests q2)" "request_keeps r r'" by (rule evolves_in[OF ev r])
  have "get_by_request_id (rq_request_id r') q2 = Some r'" by (rule inv_lookup[OF queue.steps_inv[OF steps inv] r'(1)])
  then show "get_by_request_id (rq_request_id r) q2 = Some (stored_row r q2)" "request_keeps r (stored_row r q2)"
    using r'(2) by (simp_all add: stored_row_def request_keeps_def)
qed

lemma stored_facts:
  assumes inv: "queue_inv q" and st: "stored_as w f input uid q q' r d" and fresh: "ri_request_id input \<notin> ar_request_id ` set (db_runs q)"
  shows "get_by_request_id (ri_request_id input) q' = Some r" and "rq_uid r = uid" and "rq_agent_slug r = ri_agent_slug input"
    and "rq_conversation_thread_id r = ri_thread_id input"
proof -
  obtain policy c rejected payload q1 r0 where none: "get_by_request_id (ri_request_id input) q = None"
    and adm: "admit_request input policy uid q = Inr rejected"
    and sr: "store_request w f input policy uid c rejected payload q = Inr (q1, r0)"
    and rest: "if rejected then q' = q1 \<and> r = r0 \<and> d = None
           else \<exists>b model. dispatch_stored f input policy uid b model r0 q1 = Inr (q', d) \<and> r = stored_row r0 q'"
    using st unfolding stored_as_def by blast
  have "policy = steer \<Longrightarrow> get_pending_steer uid (ri_agent_slug input) (ri_thread_id input) q = Inr None"
    using adm admit_no_steer by blast
  note s = store_request_steps[OF inv sr fresh this]
  have s1: "queue_step\<^sup>*\<^sup>* q q1" and q1: "qd_requests q1 = qd_requests q @ [r0]" and i: "rq_request_id r0 = ri_request_id input"
    and st0: "rq_status r0 = (if rejected then Rq_rejected else Rq_queued)"
    and k0: "thread_key r0 = (uid, ri_agent_slug input, ri_thread_id input)"
    using s(1,2,3,4,5,6,8) by (simp_all add: thread_key_def)
  note inv1 = queue.steps_inv[OF s1 inv] and look = stored_lookup[OF q1 none i]
  have r0: "r0 \<in> set (qd_requests q1)" by (simp add: q1)
  have "queue_step\<^sup>*\<^sup>* q1 q' \<and> r = stored_row r0 q'"
  proof (cases rejected)
    case True
    then show ?thesis using rest look i by (simp add: stored_row_def)
  next
    case False
    then show ?thesis using rest dispatch_stored_steps[OF inv1 _ look] st0 by auto
  qed
  then have "get_by_request_id (ri_request_id input) q' = Some r" "request_keeps r0 r"
    using stored_row_keeps[OF inv1 _ r0] i by auto
  then show "get_by_request_id (ri_request_id input) q' = Some r" "rq_uid r = uid" "rq_agent_slug r = ri_agent_slug input"
    "rq_conversation_thread_id r = ri_thread_id input"
    using k0 by (auto simp: request_keeps_def thread_key_def)
qed

text \<open>With the policy \<^verbatim>\<open>reject\<close> a stored request is dispatched or withdrawn.\<close>

lemma dispatch_stored_reject:
  assumes inv: "queue_inv q1" and look: "get_by_request_id (ri_request_id input) q1 = Some r0" and que: "rq_status r0 = Rq_queued"
    and ds: "dispatch_stored f input (lit ''reject'') uid b model r0 q1 = Inr (q', d)"
  shows "d = None \<and> rq_status (stored_row r0 q') = Rq_rejected \<and> rq_input_payload (stored_row r0 q') = JObj []
    \<or> (\<exists>x. d = Some x \<and> ds_request_id x = ri_request_id input \<and> rq_status (stored_row r0 q') = Rq_dispatched
        \<and> rq_dispatched_run_id (stored_row r0 q') = Some (ds_run_id x))"
proof -
  note r0 = get_by_request_id_in[OF look]
  obtain q2 where dh: "dispatch_ready_head uid (ri_agent_slug input) (ri_thread_id input) b (Some (ri_request_id input)) (fr_scope f)
      (fr_run f) (fr_clk f) (fr_now f) q1 = Inr (q2, d)"
    and q': "if case d of None \<Rightarrow> False | Some x \<Rightarrow> ds_request_id x = ri_request_id input
      then q' = remember_model (ri_thread_id input) model (fr_now f) q2
      else q' = withdraw_request (ri_request_id input) (rq_input_message_id r0) (fr_now f) q2"
    using ds by (auto simp: dispatch_stored_def Let_def split: if_splits)
  have cases: "d = None \<and> q2 = q1 \<or> (\<exists>h. rq_request_id h = ri_request_id input \<and> h \<in> set (qd_requests q1) \<and> rq_status h = Rq_queued
      \<and> dispatch_locked_head h b (fr_scope f) (fr_run f) (fr_clk f) (fr_now f) q1 = Inr (q2, d))"
    using dh queue_head_in[of uid "ri_agent_slug input" "ri_thread_id input" q1]
    by (auto simp: dispatch_ready_head_def in_thread_def split: option.splits sum.splits if_splits)
  have rejected: ?thesis if "d = None" "q2 = q1"
  proof -
    have "get_by_request_id (ri_request_id input) q' = Some (r0\<lparr>rq_status := Rq_rejected, rq_input_payload := JObj [], rq_updated_at := fr_now f\<rparr>)"
      using q' that look r0 by (simp add: withdraw_request_def get_by_request_id_def find_update_where[where k = rq_request_id])
    then show ?thesis using that(1) r0 by (simp add: stored_row_def)
  qed
  from cases show ?thesis
  proof
    assume "\<exists>h. rq_request_id h = ri_request_id input \<and> h \<in> set (qd_requests q1) \<and> rq_status h = Rq_queued
      \<and> dispatch_locked_head h b (fr_scope f) (fr_run f) (fr_clk f) (fr_now f) q1 = Inr (q2, d)"
    then obtain h where h: "rq_request_id h = ri_request_id input" "h \<in> set (qd_requests q1)" "rq_status h = Rq_queued"
      and dl: "dispatch_locked_head h b (fr_scope f) (fr_run f) (fr_clk f) (fr_now f) q1 = Inr (q2, d)" by blast
    have "h = r0" using request_id_unique[OF inv h(2)] r0 h(1) by simp
    from dispatch_head_effect[OF inv h(2,3) dl] show ?thesis
    proof
      assume "d = None \<and> q2 = q1" then show ?thesis using rejected by blast
    next
      assume "\<exists>run. d = Some \<lparr>ds_request_id = rq_request_id h, ds_run_id = fr_run f, ds_workdir_binding = b\<rparr>
        \<and> db_runs q2 = db_runs q1 @ [run] \<and> ar_id run = fr_run f \<and> ar_status run = Pending \<and> ar_run_type run = Chat
        \<and> ar_conversation_thread_id run = rq_conversation_thread_id h \<and> ar_input_message_id run = Some (rq_input_message_id h)
        \<and> ar_request_id run = rq_request_id h
        \<and> qd_requests q2 = qd_requests (put_request (dispatched_row (fr_run f) (fr_now f) h) q1)
        \<and> qd_delivered q2 = qd_delivered q1
        \<and> request_change h (dispatched_row (fr_run f) (fr_now f) h) [run] q1"
      then have d: "d = Some \<lparr>ds_request_id = rq_request_id h, ds_run_id = fr_run f, ds_workdir_binding = b\<rparr>"
        and q2: "qd_requests q2 = qd_requests (put_request (dispatched_row (fr_run f) (fr_now f) h) q1)" by auto
      have "get_by_request_id (ri_request_id input) q' = Some (dispatched_row (fr_run f) (fr_now f) r0)"
        using q' d h(1) q2 look r0 \<open>h = r0\<close> lookup_put_request[of "dispatched_row (fr_run f) (fr_now f) r0" q1]
        by (simp add: get_by_request_id_def dispatched_row_def)
      then show ?thesis using d h(1) r0 by (simp add: stored_row_def dispatched_row_def)
    qed
  qed (use rejected in blast)
qed

section \<open>A small platform\<close>

definition demo_user :: perm_user where
  "demo_user = \<lparr>pu_role = Some (lit ''superadmin''), pu_uid = Some [121], pu_department_id = JNull\<rparr>"

definition demo_main_agent :: agent where
  "demo_main_agent = \<lparr>ag_id = 1, ag_slug = [122], ag_backend_id = [150], ag_name = [122], ag_description = None, ag_icon = None, ag_pics = [],
     ag_config_json = JObj [], ag_share_config = JNull, ag_is_default = False, ag_is_subagent = False, ag_created_by = None, ag_updated_by = None,
     ag_created_at = None, ag_updated_at = None\<rparr>"

definition demo_home :: project where
  "demo_home = \<lparr>pr_id = [201], pr_uid = [121], pr_name = Some [104], pr_selection_status = Selectable, pr_workdir_path = [119],
     pr_directory_mode = lit ''managed'', pr_status = Project_active, pr_deleted_at = None, pr_idempotency_key = None, pr_created_at = 1, pr_updated_at = 1\<rparr>"

definition demo_gov :: gov_db where
  "demo_gov = \<lparr>gv_projects = [demo_home], gv_project_agents = [], gv_run_ids = [], gv_topics = [], gv_comments = [], gv_decisions = [],
     gv_tasks = [], gv_reports = []\<rparr>"

definition demo_platform :: platform_db where
  "demo_platform = \<lparr>pf_queue = demo_queue [], pf_agents = \<lparr>ad_gov = demo_gov, ad_agents = [demo_main_agent]\<rparr>\<rparr>"

definition demo_world :: run_world where
  "demo_world = \<lparr>rw_text = \<lparr>pt_digit = (\<lambda>_. None), pt_repr = (\<lambda>_. [])\<rparr>, rw_backend = (\<lambda>i. if i = [150] then Some [] else None),
     rw_chat_model = (\<lambda>m. m = [109]), rw_default_model = [109]\<rparr>"

definition demo_fresh :: fresh where
  "demo_fresh = \<lparr>fr_project = [202], fr_path = [120], fr_thread = [141], fr_conversation = 2, fr_message = 3, fr_request = 7, fr_run = [160],
     fr_scope = [140], fr_clk = 20, fr_now = 21\<rparr>"

definition demo_input :: "pystr \<Rightarrow> agent_request_input" where
  "demo_input policy = \<lparr>ri_agent_slug = [122], ri_thread_id = [140], ri_request_id = [133],
     ri_input_message = \<lparr>im_content = [104], im_message_type = lit ''text'', im_image_content = None, im_raw_message = None, im_extra_metadata = []\<rparr>,
     ri_origin = \<lparr>og_source = lit ''chat'', og_channel = lit ''web'', og_external_id = None, og_metadata = []\<rparr>, ri_request_metadata = [],
     ri_model_spec = None, ri_tool_approval_mode = None, ri_queue_policy = policy, ri_create_conversation = False, ri_conversation_title = None,
     ri_conversation_project_id = None\<rparr>"

lemma demo_input_simps [simp]:
  "ri_agent_slug (demo_input p) = [122]" "ri_thread_id (demo_input p) = [140]" "ri_request_id (demo_input p) = [133]" "ri_queue_policy (demo_input p) = p"
  by (simp_all add: demo_input_def)

lemma demo_platform_simps [simp]: "pf_queue demo_platform = demo_queue []" "or_empty (pu_uid demo_user) = [121]"
  by (simp_all add: demo_platform_def demo_user_def or_empty_def)

lemma demo_platform_queue_inv [simp]: "queue_inv (demo_queue [])"
  by (simp add: queue_inv_def one_active_per_thread_def)

lemma demo_admitted:
  "get_visible_by_slug (rw_text demo_world) [122] demo_user Main_kind (pf_agents demo_platform) = Inr (Some demo_main_agent)"
  by (simp add: get_visible_by_slug_def get_by_slug_def user_can_access_agent_def resolve_agent_permission_def resolve_resource_permission_def
      demo_user_def demo_platform_def demo_main_agent_def)

lemma demo_opened: "open_conversation f (demo_input p) [121] demo_main_agent demo_platform = Inr (demo_platform, demo_conversation, None)"
  by (simp add: open_conversation_def get_conversation_by_thread_id_def demo_queue_def demo_conversation_def)

lemma demo_bound:
  "resolve_conversation_workdir_binding demo_conversation [121] None (pf_gov demo_platform)
   = Inr \<lparr>wb_conversation_id = 1, wb_thread_id = [140], wb_uid = [121], wb_project_id = [201], wb_workdir_path = [119], wb_directory_mode = lit ''managed''\<rparr>"
  by (simp add: resolve_conversation_workdir_binding_def workdir_binding_from_project_def project_get_for_user_def demo_platform_def demo_gov_def
      demo_home_def demo_conversation_def)

lemma demo_in_scope: "require_agent_project_scope [122] p (pf_agents demo_platform) = Inr ()"
  by (simp add: require_agent_project_scope_def ensure_agent_project_scope_def list_project_ids_for_agent_def demo_platform_def demo_gov_def Let_def)

lemma demo_payload: "request_payload demo_world (normal_input (demo_input p)) demo_main_agent [] demo_conversation (pf_agents demo_platform)
    = Inr ([109], lit ''default'')"
  by (simp add: request_payload_def resolve_agent_run_config_def resolve_agent_run_model_spec_def resolve_agent_run_tool_approval_mode_def
      normalize_tool_approval_mode_def load_agent_run_context_def load_project_agent_override_def get_project_agent_def dict_get_def get_or_null_def
      context_of_def filter_declared_config_def with_context_def demo_conversation_def demo_main_agent_def demo_world_def demo_platform_def demo_gov_def
      normal_input_def demo_input_def or_obj_def json_empty_def or_none_def lit_def py_strip_def is_space_def Let_def)

lemma demo_quiet_thread:
  "admit_request (normal_input (demo_input (lit ''reject''))) (lit ''reject'') [121] (demo_queue []) = Inr False"
  by (simp add: admit_request_def Let_def get_active_run_by_thread_for_user_def get_latest_chat_or_resume_run_def newest_first_def first_row_def
      list_queued_def queued_for_thread_def lit_def)

definition demo_stored :: agent_run_request where
  "demo_stored = (demo_request 7 [133] 20)\<lparr>rq_queue_policy := lit ''reject'', rq_origin_metadata := JObj [], rq_input_message_id := 3,
     rq_input_payload := JObj [(lit ''model_spec'', JStr [109]), (lit ''tool_approval_mode'', JStr (lit ''default''))]\<rparr>"

lemma demo_store:
  "\<exists>q1. store_request demo_world demo_fresh (normal_input (demo_input (lit ''reject''))) (lit ''reject'') [121] demo_conversation False
      (JObj [(lit ''model_spec'', JStr [109]), (lit ''tool_approval_mode'', JStr (lit ''default''))]) (demo_queue []) = Inr (q1, demo_stored)
    \<and> qd_requests q1 = [demo_stored] \<and> db_runs q1 = [] \<and> qd_conversations q1 = [demo_conversation]"
  by (simp add: store_request_def normalize_attachment_file_ids_def dict_get_def normal_input_def demo_input_def origin_metadata_of_def
      normal_external_id_def create_agent_run_input_message_def request_create_def demo_stored_def demo_request_def demo_queue_def demo_message_def
      demo_conversation_def demo_fresh_def or_obj_def and_then_def Let_def lit_def)

definition demo_saved :: conversation where
  "demo_saved = save_metadata [(lit ''model_spec'', JStr [109])] 21 demo_conversation"

lemma demo_dispatch:
  assumes "qd_requests q1 = [demo_stored]" and "db_runs q1 = []" and "qd_conversations q1 = [demo_conversation]"
  shows "\<exists>q2 x. dispatch_stored demo_fresh (normal_input (demo_input (lit ''reject''))) (lit ''reject'') [121] b [109] demo_stored q1 = Inr (q2, Some x)
    \<and> qd_requests q2 = [dispatched_row [160] 21 demo_stored] \<and> qd_conversations q2 = [demo_saved]"
  using assms
  by (simp add: dispatch_stored_def dispatch_ready_head_def get_queue_head_def queued_for_thread_def in_thread_def first_row_def demo_stored_def
      demo_request_def get_queue_state_def get_active_run_by_runtime_scope_for_user_def get_latest_chat_or_resume_run_def newest_first_def
      dispatch_locked_head_def create_run_def run_shape_ok_def one_active_per_thread_def mark_dispatched_def get_by_request_id_def put_request_def
      bind_run_scope_def scope_upsert_def scope_get_def attach_input_message_def Let_def lit_def py_strip_def is_space_def plain_metadata_def
      demo_fresh_def dispatched_row_def remember_model_def set_model_spec_def save_metadata_def put_conversation_def get_conversation_by_thread_id_def
      demo_conversation_def demo_saved_def or_obj_def json_empty_def split: option.splits)

lemma demo_submission:
  obtains q x where "submit_agent_request demo_world demo_fresh (demo_input (lit ''reject'')) demo_user demo_platform
      = Inr (demo_platform\<lparr>pf_queue := q\<rparr>, Stored (dispatched_row [160] 21 demo_stored) (Some x))"
    and "qd_requests q = [dispatched_row [160] 21 demo_stored]" and "qd_conversations q = [demo_saved]"
proof -
  let ?i = "demo_input (lit ''reject'')" and ?b = "\<lparr>wb_conversation_id = 1, wb_thread_id = [140], wb_uid = [121], wb_project_id = [201],
    wb_workdir_path = [119], wb_directory_mode = lit ''managed''\<rparr>"
  obtain q1 where st: "store_request demo_world demo_fresh (normal_input ?i) (lit ''reject'') [121] demo_conversation False
      (JObj [(lit ''model_spec'', JStr [109]), (lit ''tool_approval_mode'', JStr (lit ''default''))]) (demo_queue []) = Inr (q1, demo_stored)"
    and q1: "qd_requests q1 = [demo_stored]" "db_runs q1 = []" "qd_conversations q1 = [demo_conversation]" using demo_store by blast
  obtain q2 x where ds: "dispatch_stored demo_fresh (normal_input ?i) (lit ''reject'') [121] ?b [109] demo_stored q1 = Inr (q2, Some x)"
    and q2: "qd_requests q2 = [dispatched_row [160] 21 demo_stored]" "qd_conversations q2 = [demo_saved]"
    using demo_dispatch[OF q1] by blast
  have row: "stored_row demo_stored q2 = dispatched_row [160] 21 demo_stored"
    by (simp add: stored_row_def get_by_request_id_def q2 dispatched_row_def)
  have ids: "ag_slug demo_main_agent = [122]" "rw_backend demo_world (ag_backend_id demo_main_agent) = Some []"
    by (simp_all add: demo_main_agent_def demo_world_def)
  have pol: "validate_queue_policy (lit ''reject'') = Inr (lit ''reject'')" "lit ''reject'' \<noteq> steer"
    by (simp_all add: validate_queue_policy_def lit_def)
  have none: "get_by_request_id i (demo_queue []) = None" "get_run_by_request_id i (demo_queue []) = None" for i
    by (simp_all add: get_by_request_id_def get_run_by_request_id_def)
  have "existing_request (normal_input ?i) [121] (Some ?b) (demo_queue []) = Inr None"
    by (simp add: existing_request_def none)
  moreover have "get_thread_conversation [121] [122] [140] (demo_queue []) = Inr demo_conversation"
    by (simp add: get_thread_conversation_def get_conversation_by_thread_id_def conversation_matches_def demo_queue_def demo_conversation_def lit_def)
  moreover have "cv_id demo_conversation = 1" "cv_thread_id demo_conversation = [140]" "cv_project_id demo_conversation = [201]"
    by (simp_all add: demo_conversation_def)
  ultimately have "persist_request demo_world demo_fresh (normal_input ?i) [121] demo_main_agent [] (Some ?b) demo_platform
      = Inr (demo_platform\<lparr>pf_queue := q2\<rparr>, dispatched_row [160] 21 demo_stored, Some x)"
    by (simp add: persist_request_def store_and_dispatch_def of_queue_def pol demo_quiet_thread demo_payload st ds row)
  moreover have "validate_origin (ri_origin ?i) = Inr ()"
    by (simp add: validate_origin_def demo_input_def lit_def py_strip_def is_space_def)
  ultimately show thesis
    by (intro that[of "enqueue_agent_run (ds_run_id x) q2" x])
      (simp_all add: submit_agent_request_def Let_def of_agent_def of_queue_def demo_admitted none ids demo_opened demo_in_scope demo_bound
        enqueue_agent_run_def q2)
qed

lemma demo_resubmission:
  assumes "qd_requests q = [dispatched_row [160] 21 demo_stored]" and "qd_conversations q = [demo_saved]"
  shows "submit_agent_request demo_world f (demo_input p) demo_user (demo_platform\<lparr>pf_queue := q\<rparr>)
    = Inr (demo_platform\<lparr>pf_queue := q\<rparr>, Known_request (dispatched_row [160] 21 demo_stored))"
proof -
  let ?r = "dispatched_row [160] 21 demo_stored" and ?db = "demo_platform\<lparr>pf_queue := q\<rparr>"
  have look: "get_by_request_id [133] q = Some ?r"
    by (simp add: get_by_request_id_def assms dispatched_row_def demo_stored_def demo_request_def)
  have "validate_request_scope ?r (demo_input p\<lparr>ri_origin := ri_origin (demo_input p)\<lparr>og_external_id
      := normal_external_id (og_external_id (ri_origin (demo_input p)))\<rparr>\<rparr>) [121] = Inr ()"
    by (simp add: validate_request_scope_def dispatched_row_def demo_stored_def demo_request_def demo_input_def normal_external_id_def)
  then have "replay_request (demo_input p) [121] demo_main_agent ?r ?db = Inr ()"
    using demo_in_scope[of "[201]"]
    by (simp add: replay_request_def of_queue_def assms get_conversation_by_thread_id_def dispatched_row_def demo_stored_def demo_request_def
        demo_saved_def save_metadata_def demo_conversation_def conversation_matches_def lit_def project_get_for_user_def demo_platform_def demo_gov_def
        demo_home_def demo_main_agent_def Let_def)
  moreover have "validate_origin (ri_origin (demo_input p)) = Inr ()"
    by (simp add: validate_origin_def demo_input_def lit_def py_strip_def is_space_def)
  ultimately show ?thesis
    using demo_admitted by (simp add: submit_agent_request_def Let_def of_agent_def look)
qed

section \<open>Submission\<close>

text \<open>
  C26: a submission refines the protocol of the request queue: whatever it stores, dispatches, withdraws and hands over is a sequence of queue steps, so
  the invariant of the queue holds afterwards and requests that have left the queue are as they were.
\<close>

theorem submit_refines_queue:
  assumes "queue_inv (pf_queue db)" and "submit_agent_request w f input user db = Inr (db', res)"
  shows "queue_step\<^sup>*\<^sup>* (pf_queue db) (pf_queue db') \<and> queue_inv (pf_queue db')
    \<and> evolves request_keeps (qd_requests (pf_queue db)) (qd_requests (pf_queue db'))"
  using submit_steps[OF assms] queue.steps_inv[OF submit_steps[OF assms] assms(1)] queue.steps_rel[OF submit_steps[OF assms] assms(1)]
  by (simp add: queue_rel_def)

theorem submit_refines_queue_witness:
  "\<exists>db' res. submit_agent_request demo_world demo_fresh (demo_input (lit ''reject'')) demo_user demo_platform = Inr (db', res)
     \<and> queue_inv (pf_queue db')"
proof -
  obtain q x where "submit_agent_request demo_world demo_fresh (demo_input (lit ''reject'')) demo_user demo_platform
      = Inr (demo_platform\<lparr>pf_queue := q\<rparr>, Stored (dispatched_row [160] 21 demo_stored) (Some x))" by (rule demo_submission)
  from this submit_refines_queue[OF _ this] show ?thesis by auto
qed

lemma stored_result:
  assumes inv: "queue_inv (pf_queue db)" and s: "submit_agent_request w f input user db = Inr (db', Stored r d)"
  shows "get_by_request_id (ri_request_id input) (pf_queue db') = Some r \<and> rq_uid r = or_empty (pu_uid user)
    \<and> rq_agent_slug r = ri_agent_slug input \<and> rq_conversation_thread_id r = ri_thread_id input"
  using s
proof (cases rule: submit_cases)
  case (stored a c p db1 q2 r' d')
  note fl = open_conversation_fields[OF stored(4)]
  have "queue_inv (pf_queue db1)" by (rule queue_inv_step[OF inv quiet_step[OF inv fl(1,2)]])
  moreover have "ri_request_id input \<notin> ar_request_id ` set (db_runs (pf_queue db1))"
    using stored(3) by (auto simp: get_run_by_request_id_def find_None_iff fl)
  ultimately show ?thesis
    using stored_facts[OF _ stored(5)] stored(6,7) by (auto simp: get_by_request_id_def enqueue_agent_run_def split: option.splits)
qed simp_all

text \<open>
  C27: submission is idempotent: once a request is stored, whatever the queue does, a later submission with its id either fails or finds the same request
  and changes nothing, and it is then a submission of the same user to the same agent and thread.
\<close>

theorem submit_idempotent:
  assumes "queue_inv (pf_queue db)" and "submit_agent_request w f input user db = Inr (db1, Stored r d)"
    and "queue_step\<^sup>*\<^sup>* (pf_queue db1) (pf_queue db2)" and "ri_request_id input' = ri_request_id input"
    and "submit_agent_request w' f' input' user' db2 = Inr (db3, res)"
  shows "db3 = db2 \<and> or_empty (pu_uid user') = or_empty (pu_uid user) \<and> ri_agent_slug input' = ri_agent_slug input
    \<and> ri_thread_id input' = ri_thread_id input \<and> (\<exists>r'. res = Known_request r' \<and> request_keeps r r')"
proof -
  note r = stored_result[OF assms(1,2)]
  have inv1: "queue_inv (pf_queue db1)" by (rule queue.steps_inv[OF submit_steps[OF assms(1,2)] assms(1)])
  let ?r = "stored_row r (pf_queue db2)"
  have i: "rq_request_id r = ri_request_id input" and rin: "r \<in> set (qd_requests (pf_queue db1))"
    using r get_by_request_id_in by blast+
  have look: "get_by_request_id (ri_request_id input') (pf_queue db2) = Some ?r" "request_keeps r ?r"
    using stored_row_keeps[OF inv1 assms(3) rin] i assms(4) by auto
  from assms(5) show ?thesis
  proof (cases rule: submit_cases)
    case (known_request a x)
    then have x: "x = ?r" using look(1) by simp
    have "rq_uid x = or_empty (pu_uid user') \<and> rq_agent_slug x = ri_agent_slug input' \<and> rq_conversation_thread_id x = ri_thread_id input'"
      using known_request(3) by (auto simp: replay_request_def validate_request_scope_def Let_def split: if_splits)
    then show ?thesis using known_request(4,5) x look(2) r by (auto simp: request_keeps_def thread_key_def)
  qed (use look(1) in simp_all)
qed

theorem submit_idempotent_witness:
  "\<exists>db1 r d res. submit_agent_request demo_world demo_fresh (demo_input (lit ''reject'')) demo_user demo_platform = Inr (db1, Stored r d)
     \<and> submit_agent_request demo_world demo_fresh (demo_input (lit ''reject'')) demo_user db1 = Inr (db1, res)"
proof -
  obtain q x where s: "submit_agent_request demo_world demo_fresh (demo_input (lit ''reject'')) demo_user demo_platform
      = Inr (demo_platform\<lparr>pf_queue := q\<rparr>, Stored (dispatched_row [160] 21 demo_stored) (Some x))"
    and q: "qd_requests q = [dispatched_row [160] 21 demo_stored]" "qd_conversations q = [demo_saved]" by (rule demo_submission)
  from s submit_idempotent[OF _ s rtranclp.rtrancl_refl refl demo_resubmission[OF q]] demo_resubmission[OF q] show ?thesis by auto
qed

text \<open>
  C28: with the queue policy \<^verbatim>\<open>reject\<close> no request is left waiting: it is dispatched to the run that is handed to the workers, or it is rejected, without
  a run and with its configuration erased.
\<close>

theorem reject_never_waits:
  assumes "queue_inv (pf_queue db)" and "submit_agent_request w f input user db = Inr (db', Stored r d)"
    and "ri_queue_policy input = lit ''reject''"
  shows "get_by_request_id (ri_request_id input) (pf_queue db') = Some r
    \<and> (d = None \<and> rq_status r = Rq_rejected \<and> rq_input_payload r = JObj []
       \<or> (\<exists>x. d = Some x \<and> rq_status r = Rq_dispatched \<and> rq_dispatched_run_id r = Some (ds_run_id x)
            \<and> ds_run_id x \<in> set (qd_delivered (pf_queue db'))))"
proof -
  let ?i = "normal_input input" and ?uid = "or_empty (pu_uid user)"
  from assms(2) obtain c p a db1 q2 where op: "open_conversation f input ?uid a db = Inr (db1, c, p)"
    and none: "get_run_by_request_id (ri_request_id input) (pf_queue db) = None"
    and st: "stored_as w f ?i ?uid (pf_queue db1) q2 r d"
    and db': "db' = db1\<lparr>pf_queue := (case d of None \<Rightarrow> q2 | Some x \<Rightarrow> enqueue_agent_run (ds_run_id x) q2)\<rparr>"
    by (cases rule: submit_cases) auto
  note fl = open_conversation_fields[OF op]
  have inv1: "queue_inv (pf_queue db1)" by (rule queue_inv_step[OF assms(1) quiet_step[OF assms(1) fl(1,2)]])
  have fresh: "ri_request_id ?i \<notin> ar_request_id ` set (db_runs (pf_queue db1))"
    using none by (auto simp: get_run_by_request_id_def find_None_iff fl)
  obtain cc rejected payload q1 r0 where new: "get_by_request_id (ri_request_id ?i) (pf_queue db1) = None"
    and adm: "admit_request ?i (lit ''reject'') ?uid (pf_queue db1) = Inr rejected" and pay: "rejected \<longrightarrow> payload = JObj []"
    and sr: "store_request w f ?i (lit ''reject'') ?uid cc rejected payload (pf_queue db1) = Inr (q1, r0)"
    and rest: "if rejected then q2 = q1 \<and> r = r0 \<and> d = None
      else \<exists>b model. dispatch_stored f ?i (lit ''reject'') ?uid b model r0 q1 = Inr (q2, d) \<and> r = stored_row r0 q2"
    using st unfolding stored_as_def normal_input_simps assms(3) by blast
  have "lit ''reject'' = steer \<Longrightarrow> False" by (simp add: lit_def)
  then have "lit ''reject'' = steer \<Longrightarrow> get_pending_steer ?uid (ri_agent_slug ?i) (ri_thread_id ?i) (pf_queue db1) = Inr None" by blast
  note s = store_request_steps[OF inv1 sr fresh this]
  have "d = None \<and> rq_status r = Rq_rejected \<and> rq_input_payload r = JObj []
    \<or> (\<exists>x. d = Some x \<and> rq_status r = Rq_dispatched \<and> rq_dispatched_run_id r = Some (ds_run_id x))"
  proof (cases rejected)
    case True
    then show ?thesis using rest s(2,10) pay by auto
  next
    case False
    then obtain b model where ds: "dispatch_stored f ?i (lit ''reject'') ?uid b model r0 q1 = Inr (q2, d)" "r = stored_row r0 q2"
      using rest by auto
    show ?thesis
      using dispatch_stored_reject[OF queue.steps_inv[OF s(1) inv1] stored_lookup[OF s(8) new s(3)] _ ds(1)] s(2) False ds(2) by auto
  qed
  then show ?thesis using stored_result[OF assms(1,2)] db' by (auto simp: enqueue_agent_run_def)
qed

theorem reject_never_waits_witness:
  "\<exists>db' r d. submit_agent_request demo_world demo_fresh (demo_input (lit ''reject'')) demo_user demo_platform = Inr (db', Stored r d)
     \<and> get_by_request_id [133] (pf_queue db') = Some r \<and> rq_status r \<noteq> Rq_queued"
proof -
  obtain q x where s: "submit_agent_request demo_world demo_fresh (demo_input (lit ''reject'')) demo_user demo_platform
      = Inr (demo_platform\<lparr>pf_queue := q\<rparr>, Stored (dispatched_row [160] 21 demo_stored) (Some x))" by (rule demo_submission)
  from s reject_never_waits[OF _ s] show ?thesis by fastforce
qed


text \<open>
  a request is stored only in a conversation of its own user with its own agent that is not deleted, whose project belongs to that user and, where the
  agent is bound to projects, is one of them.
\<close>

theorem submit_own_thread:
  assumes "queue_inv (pf_queue db)" and "submit_agent_request w f input user db = Inr (db', Stored r d)"
    and "get_conversation_by_thread_id (ri_thread_id input) (pf_queue db) = Some c"
  shows "rq_uid r = or_empty (pu_uid user) \<and> rq_conversation_thread_id r = cv_thread_id c \<and> conversation_matches (Some c) (rq_uid r) (rq_agent_slug r)
    \<and> (\<exists>p\<in>set (gv_projects (pf_gov db)). pr_id p = cv_project_id c \<and> pr_uid p = rq_uid r)
    \<and> (let bound = list_project_ids_for_agent (rq_agent_slug r) (pf_agents db) in bound = [] \<or> cv_project_id c \<in> set bound)"
proof -
  note r = stored_result[OF assms(1,2)]
  from assms(2) show ?thesis
  proof (cases rule: submit_cases)
    case (stored a c' p db1 q2 r' d')
    have op: "db1 = db" "c' = c" "p = None" using stored(4) assms(3) by (auto simp: open_conversation_def)
    have a: "ag_slug a = ri_agent_slug input"
      using stored(1) by (auto simp: get_visible_by_slug_def get_by_slug_def split: option.splits if_splits dest!: find_Some_in)
    have "conversation_matches (Some c) (or_empty (pu_uid user)) (ri_agent_slug input)"
      using stored(5) assms(3) op by (auto simp: stored_as_def get_thread_conversation_def split: if_splits)
    moreover have "\<exists>p\<in>set (gv_projects (pf_gov db)). pr_id p = cv_project_id c \<and> pr_uid p = or_empty (pu_uid user)"
      using stored(9) op by (auto simp: resolve_conversation_workdir_binding_def workdir_binding_from_project_def project_get_for_user_def
          split: option.splits if_splits dest!: find_Some_in)
    moreover have "let bound = list_project_ids_for_agent (ri_agent_slug input) (pf_agents db) in bound = [] \<or> cv_project_id c \<in> set bound"
      using stored(8) op a by (auto simp: require_agent_project_scope_def ensure_agent_project_scope_def Let_def split: sum.splits if_splits)
    moreover have "cv_thread_id c = ri_thread_id input"
      using assms(3) by (auto simp: get_conversation_by_thread_id_def dest!: find_Some_in)
    ultimately show ?thesis using r by simp
  qed simp_all
qed

theorem submit_own_thread_witness:
  "\<exists>db' r d. submit_agent_request demo_world demo_fresh (demo_input (lit ''reject'')) demo_user demo_platform = Inr (db', Stored r d)
     \<and> conversation_matches (Some demo_conversation) (rq_uid r) (rq_agent_slug r)"
proof -
  obtain q x where s: "submit_agent_request demo_world demo_fresh (demo_input (lit ''reject'')) demo_user demo_platform
      = Inr (demo_platform\<lparr>pf_queue := q\<rparr>, Stored (dispatched_row [160] 21 demo_stored) (Some x))" by (rule demo_submission)
  have "get_conversation_by_thread_id (ri_thread_id (demo_input (lit ''reject''))) (pf_queue demo_platform) = Some demo_conversation"
    by (simp add: get_conversation_by_thread_id_def demo_queue_def demo_conversation_def)
  from s submit_own_thread[OF _ s this] show ?thesis by auto
qed

section \<open>Deleted projects\<close>




end
