(* ===== verification/Run_Service_Properties.thy ===== *)
theory Run_Service_Properties
  imports Submission_Properties
begin

text \<open>
  Properties of resumed runs and of subagent runs. Witnesses extend the platform of \<open>Submission_Properties\<close> by one run \<open>[170]\<close> of the thread \<open>[140]\<close>.
\<close>

section \<open>Effects\<close>

lemma newest_first_head:
  assumes "rows \<noteq> []"
  shows "\<exists>l. first_row (newest_first rows) = Some l \<and> l \<in> set rows \<and> (\<forall>x\<in>set rows. created_key x \<le> created_key l)"
proof -
  obtain ys l where s: "sort_key created_key rows = ys @ [l]"
    using assms by (metis rev_exhaust set_empty set_sort)
  have "sorted (map created_key (ys @ [l]))" using sorted_sort_key[of created_key rows] by (simp only: s)
  moreover have "set rows = insert l (set ys)" using set_sort[of created_key rows] by (simp add: s)
  ultimately show ?thesis by (auto simp: newest_first_def first_row_def s sorted_append)
qed

lemma run_lookup: "get_run_for_user i u db = Some p \<Longrightarrow> p \<in> set (db_runs db) \<and> ar_id p = i \<and> ar_uid p = u"
  by (auto simp: get_run_for_user_def dest!: find_Some_in)

lemma persist_record_new:
  assumes "persist_agent_run_record run_id slug t scope uid rid cid rt payload m cb rel src ch ext om clk db = Inr (db', run, True)"
  shows "db_runs db' = db_runs db @ [run]" and "ar_id run = run_id" and "ar_request_id run = rid" and "ar_run_type run = rt"
    and "ar_created_by_run_id run = cb" and "ar_subagent_thread_relation_id run = rel" and "ar_uid run = uid" and "ar_agent_slug run = slug"
    and "ar_conversation_thread_id run = t" and "ar_input_payload run = payload" and "ar_conversation_id run = Some cid"
    and "ar_status run = Pending" and "qd_requests db' = qd_requests db" and "ar_input_message_id run = Some (ms_id m)"
    and "rid \<notin> ar_request_id ` set (db_runs db)" and "one_active_per_thread (db_runs db @ [run])" and "run_id \<notin> ar_id ` set (db_runs db)"
    and "qd_conversations db' = qd_conversations db"
proof -
  obtain db1 where c: "create_run run_id t scope slug uid rid payload src ch ext om (Some cid) cb rel rt (Some (ms_id m)) clk db = Inr (db1, run)"
    and db': "db' = db1\<lparr>db_messages := update_where (\<lambda>x. ms_id x = ms_id m) (\<lambda>x. x\<lparr>ms_run_id := Some run_id\<rparr>) (db_messages db1)\<rparr>"
    using assms unfolding persist_agent_run_record_def by (auto split: sum.splits option.splits if_splits)
  have f: "db1 = db\<lparr>db_runs := db_runs db @ [run]\<rparr>" "run_id \<notin> ar_id ` set (db_runs db)" "rid \<notin> ar_request_id ` set (db_runs db)" "one_active_per_thread (db_runs db @ [run])"
    using c unfolding create_run_def Let_def by (auto split: if_splits)
  have "ar_id run = run_id \<and> ar_request_id run = rid \<and> ar_run_type run = rt \<and> ar_created_by_run_id run = cb \<and> ar_subagent_thread_relation_id run = rel
      \<and> ar_uid run = uid \<and> ar_agent_slug run = slug \<and> ar_conversation_thread_id run = t \<and> ar_input_payload run = payload \<and> ar_conversation_id run = Some cid
      \<and> ar_status run = Pending \<and> ar_input_message_id run = Some (ms_id m)"
    using c unfolding create_run_def Let_def by (auto split: if_splits)
  note g = this
  have h: "db_runs db' = db_runs db @ [run]" "qd_requests db' = qd_requests db" "qd_conversations db' = qd_conversations db" by (simp_all add: db' f(1))
  show "db_runs db' = db_runs db @ [run]" and "ar_id run = run_id" and "ar_request_id run = rid" and "ar_run_type run = rt"
    and "ar_created_by_run_id run = cb" and "ar_subagent_thread_relation_id run = rel" and "ar_uid run = uid" and "ar_agent_slug run = slug"
    and "ar_conversation_thread_id run = t" and "ar_input_payload run = payload" and "ar_conversation_id run = Some cid"
    and "ar_status run = Pending" and "qd_requests db' = qd_requests db" and "ar_input_message_id run = Some (ms_id m)"
    and "rid \<notin> ar_request_id ` set (db_runs db)" and "one_active_per_thread (db_runs db @ [run])" and "run_id \<notin> ar_id ` set (db_runs db)"
    and "qd_conversations db' = qd_conversations db"
    using g f h by blast+
qed

lemma resumable_parent_facts:
  assumes "resumable_parent i uid slug t db = Inr p"
  shows "p \<in> set (db_runs db)" and "ar_id p = i" and "ar_uid p = uid" and "ar_conversation_thread_id p = t" and "ar_agent_slug p = slug"
    and "ar_status p = Interrupted" and "\<And>l. get_latest_chat_or_resume_run uid slug t db = Some l \<Longrightarrow> ar_id l = i"
    and "py_true (get_or_null (ar_input_payload p) ''model_spec'')"
  using assms by (auto simp: resumable_parent_def split: option.splits if_splits dest!: run_lookup)

lemma prepare_scope_cases:
  assumes "prepare_agent_run_creation_scope w users slug t uid rid rt kind cb rel db = Inr sc"
  shows "creation_state slug t uid rid rt cb rel (pf_queue db) = Inr (cs_existing_run sc, cs_parent_run sc)"
    and "conversation_matches (Some (cs_conversation sc)) uid slug"
    and "get_conversation_by_thread_id t (pf_queue db) = Some (cs_conversation sc)"
proof -
  obtain c user where c: "get_conversation_by_thread_id t (pf_queue db) = Some c" "conversation_matches (Some c) uid slug" "users uid = Some user"
    "t \<noteq> []" "cv_uid c = uid" "cv_status c \<noteq> lit ''deleted''" "cv_agent_id c = slug"
    using assms by (auto simp: prepare_agent_run_creation_scope_def conversation_matches_def split: if_splits option.splits)
  then obtain a where a: "visible_agent w slug user kind (pf_agents db) = Inr a"
    using assms by (auto simp: prepare_agent_run_creation_scope_def)
  obtain schema where "rw_backend w (ag_backend_id a) = Some schema"
    using assms c a by (cases "rw_backend w (ag_backend_id a)") (auto simp: prepare_agent_run_creation_scope_def)
  then show "creation_state slug t uid rid rt cb rel (pf_queue db) = Inr (cs_existing_run sc, cs_parent_run sc)"
    "conversation_matches (Some (cs_conversation sc)) uid slug" "get_conversation_by_thread_id t (pf_queue db) = Some (cs_conversation sc)"
    using assms c a by (auto simp: prepare_agent_run_creation_scope_def)
qed

lemma creation_state_new:
  assumes "creation_state slug t uid rid rt cb rel q = Inr (None, parent)"
  shows "get_run_by_request_id rid q = None" and "get_active_run_by_thread_for_user slug t uid q = None"
    and "rt = Resume \<longrightarrow> (\<exists>p. parent = Some p \<and> cb = Some (ar_id p) \<and> resumable_parent (ar_id p) uid slug t q = Inr p)"
  using assms
  by (auto simp: creation_state_def or_empty_def split: if_splits option.splits dest: resumable_parent_facts(2))

lemma creation_state_known:
  assumes "creation_state slug t uid rid rt cb rel q = Inr (Some e, parent)"
  shows "get_run_by_request_id rid q = Some e" and "same_run_request_scope e uid slug t rt cb rel"
  using assms by (auto simp: creation_state_def split: if_splits option.splits)

section \<open>Resumed runs\<close>

definition resumes :: "agent_run \<Rightarrow> agent_run \<Rightarrow> bool" where
  "resumes p run \<longleftrightarrow> ar_run_type run = Resume \<and> ar_created_by_run_id run = Some (ar_id p) \<and> ar_uid run = ar_uid p
     \<and> ar_agent_slug run = ar_agent_slug p \<and> ar_conversation_thread_id run = ar_conversation_thread_id p \<and> ar_status run = Pending
     \<and> json_get (ar_input_payload run) (lit ''model_spec'') = Some (get_or_null (ar_input_payload p) ''model_spec'')"

lemma resume_cases:
  assumes "create_resume_run_view w f users derived_id json_text slug t meta uid resume cb src ch ext om db = Inr (db', run)"
  obtains (known) "get_run_by_request_id (resume_request_id (rw_text w) derived_id meta cb resume) (pf_queue db) = Some run"
      "same_run_request_scope run uid slug t Resume cb None" "db_runs (pf_queue db') = db_runs (pf_queue db)"
      "qd_requests (pf_queue db') = qd_requests (pf_queue db)"
  | (new) p where "get_run_by_request_id (resume_request_id (rw_text w) derived_id meta cb resume) (pf_queue db) = None"
      "cb = Some (ar_id p)" "resumable_parent (ar_id p) uid slug t (pf_queue db) = Inr p" "resumes p run"
      "db_runs (pf_queue db') = db_runs (pf_queue db) @ [run]" "qd_requests (pf_queue db') = qd_requests (pf_queue db)"
      "ar_request_id run = resume_request_id (rw_text w) derived_id meta cb resume" "ar_id run \<in> set (qd_delivered (pf_queue db'))"
      "one_active_per_thread (db_runs (pf_queue db) @ [run])" "ar_id run \<notin> ar_id ` set (db_runs (pf_queue db))"
      "get_active_run_by_thread_for_user slug t uid (pf_queue db) = None"
proof -
  let ?rid = "resume_request_id (rw_text w) derived_id meta cb resume"
  obtain sc where sc: "prepare_agent_run_creation_scope w users slug t uid ?rid Resume Main_kind cb None db = Inr sc"
    and rest: "resume \<noteq> JNull" "validate_resume_input resume = Inr ()"
    using assms by (auto simp: create_resume_run_view_def Let_def split: if_splits)
  note cs = prepare_scope_cases(1)[OF sc]
  show thesis
  proof (cases "cs_existing_run sc")
    case (Some e)
    then have run: "run = e" "db' = (if ar_status e = Pending then db\<lparr>pf_queue := enqueue_agent_run (ar_id e) (pf_queue db)\<rparr> else db)"
      using assms rest sc by (auto simp: create_resume_run_view_def Let_def)
    note k = creation_state_known[OF cs[unfolded Some]]
    show thesis by (rule known) (use k in \<open>simp_all add: run enqueue_agent_run_def\<close>)
  next
    case None
    note k = creation_state_new[OF cs[unfolded None]]
    obtain p where p: "cs_parent_run sc = Some p" "cb = Some (ar_id p)" "resumable_parent (ar_id p) uid slug t (pf_queue db) = Inr p"
      using k(3) by auto
    note pf = resumable_parent_facts[OF p(3)]
    let ?payload = "JObj [(lit ''model_spec'', get_or_null (ar_input_payload p) ''model_spec''),
      (lit ''tool_approval_mode'', case json_get (ar_input_payload p) (lit ''tool_approval_mode'') of None \<Rightarrow> JStr (lit ''default'') | Some x \<Rightarrow> x)]"
    obtain q1 m q2 created where cm: "create_agent_run_input_message (fr_message f) (cv_id (cs_conversation sc)) ?rid
        (resume_message json_text ?rid resume meta) Delivery_complete (fr_clk f) (pf_queue db) = Inr (q1, m)"
      and pr: "persist_agent_run_record (fr_run f) slug t (Some t) uid ?rid (cv_id (cs_conversation sc)) Resume ?payload m cb None
        (case src of None \<Rightarrow> or_text (ar_source p) ''chat'' | Some x \<Rightarrow> x) (case ch of None \<Rightarrow> or_text (ar_channel p) ''web'' | Some x \<Rightarrow> x)
        (case ext of None \<Rightarrow> ar_external_id p | Some x \<Rightarrow> Some x)
        (Some (case om of None \<Rightarrow> ar_origin_metadata p | Some x \<Rightarrow> JObj x)) (fr_clk f) q1 = Inr (q2, run, created)"
      and db': "db' = (if created then db\<lparr>pf_queue := enqueue_agent_run (ar_id run) (inherit_run_scope (Some p) (ar_id run) t (fr_now f) q2)\<rparr> else db)"
      using assms rest sc None p(1) by (auto simp: create_resume_run_view_def Let_def)
    note q1 = input_message_effect[OF cm]
    have "created"
    proof (rule ccontr)
      assume "\<not> created"
      then have "get_run_by_request_id ?rid q1 = Some run"
        using pr by (auto simp: persist_agent_run_record_def split: sum.splits option.splits if_splits)
      then show False using k(1) by (simp add: get_run_by_request_id_def q1(1))
    qed
    with pr have pr': "persist_agent_run_record (fr_run f) slug t (Some t) uid ?rid (cv_id (cs_conversation sc)) Resume ?payload m cb None
        (case src of None \<Rightarrow> or_text (ar_source p) ''chat'' | Some x \<Rightarrow> x) (case ch of None \<Rightarrow> or_text (ar_channel p) ''web'' | Some x \<Rightarrow> x)
        (case ext of None \<Rightarrow> ar_external_id p | Some x \<Rightarrow> Some x)
        (Some (case om of None \<Rightarrow> ar_origin_metadata p | Some x \<Rightarrow> JObj x)) (fr_clk f) q1 = Inr (q2, run, True)" by simp
    note n = persist_record_new[OF pr']
    have "resumes p run"
      using n pf p(2) by (simp add: resumes_def lit_def)
    then show thesis
      by (intro new[OF k(1) p(2,3)])
        (use n db' \<open>created\<close> k(2) in \<open>simp_all add: q1(1) enqueue_agent_run_def\<close>)
  qed
qed

text \<open>
  C30: a resumed run continues exactly the run it names: that run is the user's own interrupted run of the thread and its latest one, no other run of
  the thread is active, and the new run has the same user, agent, thread and model; it is the only change to the runs and is handed to the workers.
\<close>

theorem resume_continues:
  assumes "create_resume_run_view w f users derived_id json_text slug t meta uid resume cb src ch ext om db = Inr (db', run)"
    and "get_run_by_request_id (resume_request_id (rw_text w) derived_id meta cb resume) (pf_queue db) = None"
  shows "\<exists>p\<in>set (db_runs (pf_queue db)). cb = Some (ar_id p) \<and> ar_status p = Interrupted \<and> ar_uid p = uid \<and> resumes p run
    \<and> (\<forall>l. get_latest_chat_or_resume_run uid slug t (pf_queue db) = Some l \<longrightarrow> ar_id l = ar_id p)
    \<and> get_active_run_by_thread_for_user slug t uid (pf_queue db) = None
    \<and> db_runs (pf_queue db') = db_runs (pf_queue db) @ [run] \<and> ar_id run \<in> set (qd_delivered (pf_queue db'))"
  using assms(1)
proof (cases rule: resume_cases)
  case (new p)
  note pf = resumable_parent_facts[OF new(3)]
  have "\<forall>l. get_latest_chat_or_resume_run uid slug t (pf_queue db) = Some l \<longrightarrow> ar_id l = ar_id p" using pf(7) by blast
  then show ?thesis using new(2,4,5,8,11) pf(3,6) by (intro bexI[OF _ pf(1)] conjI) assumption+
qed (use assms(2) in simp)

text \<open>
  an interrupted run is resumed at most once: when the thread has a later chat or resumed run, resuming the earlier one creates nothing; at most the
  run that the same request had created is returned.
\<close>

theorem resume_at_most_once:
  assumes "create_resume_run_view w f users derived_id json_text slug t meta uid resume cb src ch ext om db = Inr (db', run)"
    and "p \<in> set (db_runs (pf_queue db))" and "cb = Some (ar_id p)" and "distinct (map ar_id (db_runs (pf_queue db)))"
    and "later \<in> set (db_runs (pf_queue db))" and "ar_uid later = uid" and "ar_agent_slug later = slug" and "ar_conversation_thread_id later = t"
    and "top_level (ar_run_type later)" and "created_key p < created_key later"
  shows "db_runs (pf_queue db') = db_runs (pf_queue db) \<and> get_run_by_request_id (ar_request_id run) (pf_queue db) = Some run"
  using assms(1)
proof (cases rule: resume_cases)
  case known
  then have "ar_request_id run = resume_request_id (rw_text w) derived_id meta cb resume"
    by (auto simp: get_run_by_request_id_def dest: find_Some_in)
  with known show ?thesis by simp
next
  case (new p')
  note pf = resumable_parent_facts[OF new(3)]
  let ?rows = "filter (\<lambda>r. ar_uid r = uid \<and> ar_agent_slug r = slug \<and> ar_conversation_thread_id r = t \<and> top_level (ar_run_type r)) (db_runs (pf_queue db))"
  have later: "later \<in> set ?rows" using assms(5-9) by simp
  then have "?rows \<noteq> []" by (metis empty_iff list.set(1))
  from newest_first_head[OF this] obtain l where "first_row (newest_first ?rows) = Some l" and lin: "l \<in> set ?rows"
    and max: "\<forall>x\<in>set ?rows. created_key x \<le> created_key l" by blast
  then have l: "get_latest_chat_or_resume_run uid slug t (pf_queue db) = Some l" by (simp only: get_latest_chat_or_resume_run_def)
  have "ar_id l = ar_id p" using pf(7)[OF l] new(2) assms(3) by simp
  then have "l = p" using lin assms(2,4) by (auto simp: distinct_map dest: inj_onD)
  with bspec[OF max later] assms(10) show ?thesis by simp
qed

section \<open>A small thread\<close>

definition demo_run :: "pystr \<Rightarrow> run_status \<Rightarrow> time \<Rightarrow> agent_run" where
  "demo_run i st now = \<lparr>ar_id = i, ar_conversation_thread_id = [140], ar_runtime_scope_id = [140], ar_runtime_cleanup_pending = False,
     ar_agent_slug = [122], ar_uid = [121], ar_status = st, ar_request_id = 1 # i, ar_source = lit ''chat'', ar_channel = lit ''web'',
     ar_external_id = None, ar_origin_metadata = json_empty, ar_conversation_id = Some 1, ar_created_by_run_id = None,
     ar_subagent_thread_relation_id = None, ar_run_type = Chat, ar_input_message_id = Some 1, ar_output_message_id = None,
     ar_input_payload = JObj [(lit ''model_spec'', JStr [109])], ar_token_usage = json_empty, ar_langfuse_trace_id = None,
     ar_error_type = None, ar_error_message = None, ar_worker_id = None, ar_heartbeat_at = None, ar_lease_expires_at = None,
     ar_manifest = None, ar_manifest_fingerprint = None, ar_manifest_recorded_at = None, ar_started_at = Some now, ar_prepared_at = None,
     ar_first_model_request_at = None, ar_first_output_at = None, ar_finished_at = None, ar_created_at = Some now, ar_updated_at = Some now\<rparr>"

definition demo_asked :: "agent_run list \<Rightarrow> agent_run_request list \<Rightarrow> platform_db" where
  "demo_asked runs rs = demo_platform\<lparr>pf_queue := (demo_queue rs)\<lparr>db_runs := runs\<rparr>\<rparr>"

lemma demo_run_simps [simp]:
  "ar_id (demo_run i st now) = i" "ar_request_id (demo_run i st now) = 1 # i" "ar_uid (demo_run i st now) = [121]"
  "ar_agent_slug (demo_run i st now) = [122]" "ar_conversation_thread_id (demo_run i st now) = [140]" "ar_status (demo_run i st now) = st"
  "ar_run_type (demo_run i st now) = Chat" "ar_created_at (demo_run i st now) = Some now"
  by (simp_all add: demo_run_def)

abbreviation demo_users :: "pystr \<Rightarrow> perm_user option" where
  "demo_users uid \<equiv> (if uid = [121] then Some demo_user else None)"

abbreviation demo_resume :: "pystr \<Rightarrow> platform_db \<Rightarrow> service_error + platform_db \<times> agent_run" where
  "demo_resume rid db \<equiv> create_resume_run_view demo_world demo_fresh demo_users (\<lambda>_ _. []) (\<lambda>_. []) [122] [140] [(lit ''request_id'', JStr rid)] [121]
     (JStr [121]) (Some [170]) None None None None db"

lemma demo_visible: "visible_agent demo_world [122] demo_user Main_kind (pf_agents demo_platform) = Inr demo_main_agent"
  using demo_admitted by (simp add: visible_agent_def)

lemma demo_meta: "dict_get [(lit ''request_id'', JStr rid)] (lit ''request_id'') = JStr rid"
  by (simp add: dict_get_def)

lemma demo_scope:
  assumes "creation_state [122] [140] [121] rid Resume (Some [170]) None (pf_queue (demo_asked runs rs)) = Inr (e, p)"
  shows "prepare_agent_run_creation_scope demo_world demo_users [122] [140] [121] rid Resume Main_kind (Some [170]) None (demo_asked runs rs)
    = Inr \<lparr>cs_conversation = demo_conversation, cs_agent = demo_main_agent, cs_backend = [], cs_existing_run = e, cs_parent_run = p\<rparr>"
proof -
  have "get_conversation_by_thread_id [140] (pf_queue (demo_asked runs rs)) = Some demo_conversation"
    "cv_uid demo_conversation = [121]" "cv_status demo_conversation \<noteq> lit ''deleted''" "cv_agent_id demo_conversation = [122]"
    "ag_slug demo_main_agent = [122]" "rw_backend demo_world (ag_backend_id demo_main_agent) = Some []"
    by (simp_all add: get_conversation_by_thread_id_def demo_asked_def demo_queue_def demo_conversation_def lit_def demo_main_agent_def demo_world_def)
  moreover have "pf_agents (demo_asked runs rs) = pf_agents demo_platform" by (simp add: demo_asked_def)
  ultimately show ?thesis
    using assms demo_visible demo_in_scope by (simp add: prepare_agent_run_creation_scope_def of_submit_def)
qed

lemma demo_resumed:
  assumes "rid \<noteq> []" and "rid \<noteq> [1, 170]"
  obtains db' run where "demo_resume rid (demo_asked [demo_run [170] Interrupted 15] rs) = Inr (db', run)"
proof -
  let ?p = "demo_run [170] Interrupted 15" and ?db = "demo_asked [demo_run [170] Interrupted 15] rs"
  have runs: "db_runs (pf_queue ?db) = [?p]" by (simp add: demo_asked_def)
  have "resumable_parent [170] [121] [122] [140] (pf_queue ?db) = Inr ?p"
    by (simp add: resumable_parent_def get_run_for_user_def runs get_latest_chat_or_resume_run_def newest_first_def first_row_def get_or_null_def)
      (simp add: demo_run_def)
  moreover have "get_active_run_by_thread_for_user [122] [140] [121] (pf_queue ?db) = None"
    by (simp add: get_active_run_by_thread_for_user_def runs unfinished_def newest_first_def first_row_def) (simp add: demo_run_def)
  ultimately have cs: "creation_state [122] [140] [121] rid Resume (Some [170]) None (pf_queue ?db) = Inr (None, Some ?p)"
    using assms by (simp add: creation_state_def get_run_by_request_id_def runs or_empty_def)
  have rid: "resume_request_id (rw_text demo_world) (\<lambda>_ _. []) [(lit ''request_id'', JStr rid)] (Some [170]) (JStr [121]) = rid"
    using assms(1) by (simp add: resume_request_id_def demo_meta)
  obtain q1 m where cm: "create_agent_run_input_message (fr_message demo_fresh) (cv_id demo_conversation) rid
      (resume_message (\<lambda>_. []) rid (JStr [121]) [(lit ''request_id'', JStr rid)]) Delivery_complete (fr_clk demo_fresh) (pf_queue ?db) = Inr (q1, m)"
    by (simp add: create_agent_run_input_message_def Let_def demo_asked_def demo_queue_def demo_message_def demo_fresh_def demo_conversation_def)
  note q1 = input_message_effect[OF cm]
  have "\<exists>q2 run. persist_agent_run_record (fr_run demo_fresh) [122] [140] (Some [140]) [121] rid (cv_id demo_conversation) Resume payload m (Some [170]) None
      src ch ext om (fr_clk demo_fresh) q1 = Inr (q2, run, True)" for payload src ch ext om
    using assms(2)
    by (simp add: persist_agent_run_record_def create_run_def Let_def q1(1) runs run_shape_ok_def one_active_per_thread_def demo_fresh_def
        active_key_def py_strip_def is_space_def)
  then obtain q2 run where pr: "persist_agent_run_record (fr_run demo_fresh) [122] [140] (Some [140]) [121] rid (cv_id demo_conversation) Resume
      (JObj [(lit ''model_spec'', get_or_null (ar_input_payload ?p) ''model_spec''),
        (lit ''tool_approval_mode'', case json_get (ar_input_payload ?p) (lit ''tool_approval_mode'') of None \<Rightarrow> JStr (lit ''default'') | Some t \<Rightarrow> t)])
      m (Some [170]) None (or_text (ar_source ?p) ''chat'') (or_text (ar_channel ?p) ''web'') (ar_external_id ?p) (Some (ar_origin_metadata ?p))
      (fr_clk demo_fresh) q1 = Inr (q2, run, True)" by blast
  have "validate_resume_input (JStr [121]) = Inr ()" by (simp add: validate_resume_input_def)
  then have "demo_resume rid ?db = Inr (?db\<lparr>pf_queue := enqueue_agent_run (ar_id run) (inherit_run_scope (Some ?p) (ar_id run) [140] (fr_now demo_fresh) q2)\<rparr>, run)"
    by (simp add: create_resume_run_view_def rid demo_scope[OF cs] cm pr of_submit_def of_queue_def Let_def)
  then show thesis by (rule that)
qed

theorem resume_continues_witness:
  "\<exists>db' run. demo_resume [172] (demo_asked [demo_run [170] Interrupted 15] []) = Inr (db', run) \<and> ar_run_type run = Resume"
proof -
  obtain db' run where r: "demo_resume [172] (demo_asked [demo_run [170] Interrupted 15] []) = Inr (db', run)"
    by (rule demo_resumed[of "[172]" "[]"]) simp_all
  have "get_run_by_request_id (resume_request_id (rw_text demo_world) (\<lambda>_ _. []) [(lit ''request_id'', JStr [172])] (Some [170]) (JStr [121]))
      (pf_queue (demo_asked [demo_run [170] Interrupted 15] [])) = None"
    by (simp add: resume_request_id_def demo_meta get_run_by_request_id_def demo_asked_def)
  from r resume_continues[OF r this] show ?thesis by (auto simp: resumes_def)
qed

definition demo_answer :: agent_run where
  "demo_answer = (demo_run [173] Completed 16)\<lparr>ar_run_type := Resume, ar_created_by_run_id := Some [170]\<rparr>"

theorem resume_at_most_once_witness:
  "\<exists>db' run. demo_resume [1, 173] (demo_asked [demo_run [170] Interrupted 15, demo_answer] []) = Inr (db', run)
     \<and> db_runs (pf_queue db') = [demo_run [170] Interrupted 15, demo_answer]"
proof -
  let ?db = "demo_asked [demo_run [170] Interrupted 15, demo_answer] []"
  have runs: "db_runs (pf_queue ?db) = [demo_run [170] Interrupted 15, demo_answer]" by (simp add: demo_asked_def)
  have a: "ar_id demo_answer = [173]" "ar_request_id demo_answer = [1, 173]" "ar_uid demo_answer = [121]" "ar_agent_slug demo_answer = [122]"
    "ar_conversation_thread_id demo_answer = [140]" "ar_run_type demo_answer = Resume" "ar_created_by_run_id demo_answer = Some [170]"
    "ar_subagent_thread_relation_id demo_answer = None" "ar_created_at demo_answer = Some 16" "ar_status demo_answer = Completed"
    by (simp_all add: demo_answer_def demo_run_def)
  have "creation_state [122] [140] [121] [1, 173] Resume (Some [170]) None (pf_queue ?db) = Inr (Some demo_answer, None)"
    by (simp add: creation_state_def get_run_by_request_id_def runs same_run_request_scope_def a or_empty_def)
  moreover have "resume_request_id (rw_text demo_world) (\<lambda>_ _. []) [(lit ''request_id'', JStr [1, 173])] (Some [170]) (JStr [121]) = [1, 173]"
    by (simp add: resume_request_id_def demo_meta)
  moreover have "validate_resume_input (JStr [121]) = Inr ()" by (simp add: validate_resume_input_def)
  ultimately have r: "demo_resume [1, 173] ?db = Inr (?db, demo_answer)"
    by (simp add: create_resume_run_view_def demo_scope of_submit_def a Let_def)
  have "created_key (demo_run [170] Interrupted 15) < created_key demo_answer"
    by (simp add: created_key_def nulls_last_def a)
  from r resume_at_most_once[OF r, of "demo_run [170] Interrupted 15" demo_answer] this show ?thesis
    by (simp add: runs a)
qed

text \<open>
  C31: the creation of a resumed run looks its request id up among the runs only. An answer sent with the id of a request that still waits in a queue is
  accepted; the run takes the id, and the request can never be dispatched afterwards: every attempt is refused by the unique index.
\<close>

theorem resume_takes_queued_id:
  assumes "create_resume_run_view w f users derived_id json_text slug t meta uid resume cb src ch ext om db = Inr (db', run)"
    and "r \<in> set (qd_requests (pf_queue db))" and "rq_status r = Rq_queued"
    and "rq_request_id r = resume_request_id (rw_text w) derived_id meta cb resume"
  shows "r \<in> set (qd_requests (pf_queue db')) \<and> \<not> queue_inv (pf_queue db')
    \<and> (\<exists>e. dispatch_locked_head r b k i clk now (pf_queue db') = Inl e)"
proof -
  have taken: "rq_request_id r \<in> ar_request_id ` set (db_runs (pf_queue db')) \<and> qd_requests (pf_queue db') = qd_requests (pf_queue db)"
    using assms(1)
  proof (cases rule: resume_cases)
    case known
    then show ?thesis using assms(4) by (force simp: get_run_by_request_id_def dest!: find_Some_in)
  next
    case (new p)
    then show ?thesis using assms(4) by simp
  qed
  have "\<not> request_ok (db_runs (pf_queue db')) r" using taken assms(3) by (simp add: request_ok_def)
  then have "\<not> queue_inv (pf_queue db')" using taken assms(2) by (auto simp: queue_inv_def)
  moreover have "\<exists>e. dispatch_locked_head r b k i clk now (pf_queue db') = Inl e"
    using taken by (auto simp: dispatch_locked_head_def create_run_def Let_def)
  ultimately show ?thesis using taken assms(2) by simp
qed

theorem resume_takes_queued_id_witness:
  "\<exists>db' run. demo_resume [172] (demo_asked [demo_run [170] Interrupted 15] [demo_request 1 [172] 14]) = Inr (db', run)
     \<and> \<not> queue_inv (pf_queue db')"
proof -
  let ?db = "demo_asked [demo_run [170] Interrupted 15] [demo_request 1 [172] 14]"
  obtain db' run where r: "demo_resume [172] ?db = Inr (db', run)" by (rule demo_resumed[of "[172]" "[demo_request 1 [172] 14]"]) simp_all
  have "demo_request 1 [172] 14 \<in> set (qd_requests (pf_queue ?db))" by (simp add: demo_asked_def)
  moreover have "rq_status (demo_request 1 [172] 14) = Rq_queued" "rq_request_id (demo_request 1 [172] 14) = [172]" by (simp_all add: demo_request_def)
  moreover have "resume_request_id (rw_text demo_world) (\<lambda>_ _. []) [(lit ''request_id'', JStr [172])] (Some [170]) (JStr [121]) = [172]"
    by (simp add: resume_request_id_def demo_meta)
  ultimately show ?thesis using r resume_takes_queued_id[OF r, of "demo_request 1 [172] 14"] by auto
qed

section \<open>Subagents\<close>

definition flat :: "agent_run list \<Rightarrow> bool" where
  "flat runs \<longleftrightarrow> (\<forall>r\<in>set runs. ar_run_type r = Subagent \<longrightarrow>
     (\<exists>c\<in>set runs. ar_created_by_run_id r = Some (ar_id c) \<and> ar_uid c = ar_uid r \<and> ar_run_type c \<noteq> Subagent))"

lemma parent_project_facts:
  assumes "parent_project uid creator db = Inr (l, p)"
  shows "l \<in> set (qd_conversations (pf_queue db))" and "ar_conversation_id creator = Some (cv_id l)"
    and "cv_thread_id l = ar_conversation_thread_id creator" and "cv_project_id l = pr_id p" and "cv_uid l = uid"
    and "p \<in> set (gv_projects (pf_gov db))" and "pr_uid p = uid" and "pr_status p = Project_active"
  using assms
  by (auto simp: parent_project_def lock_active_for_user_def get_conversation_by_thread_id_def split: option.splits if_splits dest!: find_Some_in)

definition shares_project :: "pystr \<Rightarrow> subagent_thread \<Rightarrow> pystr \<Rightarrow> queue_db \<Rightarrow> bool" where
  "shares_project uid s project_id q \<longleftrightarrow>
     (\<exists>c\<in>set (qd_conversations q). cv_id c = st_child_conversation_id s \<and> cv_uid c = uid \<and> cv_project_id c = project_id)"

lemma added_conversation:
  assumes "add_conversation i ft uid slug title t md project_id rid clk db = Inr (db1, c)"
  shows "db1 = db\<lparr>pf_queue := (pf_queue db)\<lparr>qd_conversations := qd_conversations (pf_queue db) @ [c]\<rparr>\<rparr>" and "cv_uid c = uid" and "cv_project_id c = project_id"
  using assms unfolding add_conversation_def Let_def by (auto split: if_splits)

lemma ensure_child_facts:
  assumes "ensure_child_conversation f t uid a creator project_id db = Inr (db', c)"
  shows "c \<in> set (qd_conversations (pf_queue db'))" and "cv_uid c = uid" and "cv_project_id c = project_id"
    and "db_runs (pf_queue db') = db_runs (pf_queue db)" and "qd_requests (pf_queue db') = qd_requests (pf_queue db)"
proof -
  have "c \<in> set (qd_conversations (pf_queue db')) \<and> cv_uid c = uid \<and> cv_project_id c = project_id
      \<and> db_runs (pf_queue db') = db_runs (pf_queue db) \<and> qd_requests (pf_queue db') = qd_requests (pf_queue db)"
  proof (cases "get_conversation_by_thread_id t (pf_queue db)")
    case None
    then obtain i ft slug title md rid clk db1 c1 where new: "add_conversation i ft uid slug title t md project_id rid clk db = Inr (db1, c1)"
      and c: "c = c1\<lparr>cv_status := lit ''subagent'', cv_updated_at := Some (fr_now f)\<rparr>" and db': "db' = db1\<lparr>pf_queue := put_conversation c (pf_queue db1)\<rparr>"
      using assms unfolding ensure_child_conversation_def of_submit_def of_queue_def Let_def by (auto split: sum.splits)
    note n = added_conversation[OF new]
    have "c1 \<in> set (qd_conversations (pf_queue db1))" "cv_id c = cv_id c1" by (simp_all add: n(1) c)
    then have "c \<in> set (qd_conversations (put_conversation c (pf_queue db1)))" by (auto simp: put_conversation_def set_update_where)
    then show ?thesis using n(2,3) by (simp add: db') (simp add: c n(1) put_conversation_def)
  next
    case (Some x)
    then have "x \<in> set (qd_conversations (pf_queue db))" by (auto simp: get_conversation_by_thread_id_def dest: find_Some_in)
    then show ?thesis using assms Some unfolding ensure_child_conversation_def by (auto split: if_splits)
  qed
  then show "c \<in> set (qd_conversations (pf_queue db'))" and "cv_uid c = uid" and "cv_project_id c = project_id"
    and "db_runs (pf_queue db') = db_runs (pf_queue db)" and "qd_requests (pf_queue db') = qd_requests (pf_queue db)" by blast+
qed

lemma relation_facts:
  assumes "ensure_thread_relation f n t uid a creator continuing db = Inr (db', s)"
  shows "\<exists>l p. parent_project uid creator db = Inr (l, p) \<and> shares_project uid s (pr_id p) (pf_queue db')"
    and "st_subagent_slug s = ag_slug a" and "st_child_thread_id s = t" and "ar_conversation_id creator = Some (st_parent_conversation_id s)"
    and "db_runs (pf_queue db') = db_runs (pf_queue db)" and "qd_requests (pf_queue db') = qd_requests (pf_queue db)"
proof -
  obtain l p where pp: "parent_project uid creator db = Inr (l, p)" using assms by (auto simp: ensure_thread_relation_def)
  note pf = parent_project_facts[OF pp]
  have *: "shares_project uid s (pr_id p) (pf_queue db') \<and> st_subagent_slug s = ag_slug a \<and> st_child_thread_id s = t
    \<and> ar_conversation_id creator = Some (st_parent_conversation_id s) \<and> db_runs (pf_queue db') = db_runs (pf_queue db)
    \<and> qd_requests (pf_queue db') = qd_requests (pf_queue db)"
  proof (cases "get_by_child_thread_for_user t uid (pf_queue db)")
    case (Some x)
    have "st_child_thread_id x = t" using Some by (auto simp: get_by_child_thread_for_user_def dest!: find_Some_in)
    then show ?thesis using assms pp Some
      by (auto simp: ensure_thread_relation_def validate_thread_relation_def shares_project_def get_conversation_by_id_def
          split: option.splits if_splits dest!: find_Some_in)
  next
    case None
    then obtain db1 c q where ec: "ensure_child_conversation f t uid a creator (pr_id p) db = Inr (db1, c)"
      and cr: "subagent_thread_create n uid (cv_id l) (cv_id c) t (ag_slug a) (ar_id creator) (fr_clk f) (pf_queue db1) = Inr (q, s)"
      and db': "db' = db1\<lparr>pf_queue := q\<rparr>"
      using assms pp by (auto simp: ensure_thread_relation_def split: if_splits)
    show ?thesis using ensure_child_facts[OF ec] cr db' pf(2)
      by (auto simp: subagent_thread_create_def shares_project_def Let_def split: if_splits)
  qed
  then show "\<exists>l p. parent_project uid creator db = Inr (l, p) \<and> shares_project uid s (pr_id p) (pf_queue db')"
    "st_subagent_slug s = ag_slug a" "st_child_thread_id s = t" "ar_conversation_id creator = Some (st_parent_conversation_id s)"
    "db_runs (pf_queue db') = db_runs (pf_queue db)" "qd_requests (pf_queue db') = qd_requests (pf_queue db)"
    using pp by blast+
qed

lemma create_record_new:
  assumes "create_run_record w f users msg rid uid creator s tc db = Inr (db', run, True)"
  shows "db_runs (pf_queue db') = db_runs (pf_queue db) @ [run] \<and> qd_requests (pf_queue db') = qd_requests (pf_queue db)
    \<and> ar_run_type run = Subagent \<and> ar_created_by_run_id run = Some (ar_id creator) \<and> ar_uid run = uid \<and> ar_agent_slug run = st_subagent_slug s
    \<and> ar_conversation_thread_id run = st_child_thread_id s \<and> ar_subagent_thread_relation_id run = Some (st_id s)
    \<and> ar_conversation_id run = Some (st_child_conversation_id s) \<and> qd_conversations (pf_queue db') = qd_conversations (pf_queue db)
    \<and> get_active_run_by_thread_for_user (st_subagent_slug s) (st_child_thread_id s) uid (pf_queue db) = None"
proof -
  obtain sc where sc: "prepare_agent_run_creation_scope w users (st_subagent_slug s) (st_child_thread_id s) uid rid Subagent Subagent_kind
      (Some (ar_id creator)) (Some (st_id s)) db = Inr sc" and cid: "st_child_conversation_id s = cv_id (cs_conversation sc)"
    using assms by (auto simp: create_run_record_def Let_def split: if_splits)
  have none: "cs_existing_run sc = None"
    using assms sc by (cases "cs_existing_run sc") (auto simp: create_run_record_def Let_def split: if_splits)
  note k = creation_state_new[OF prepare_scope_cases(1)[OF sc, unfolded none]]
  obtain msg' q1 m payload q2 where cm: "create_agent_run_input_message (fr_message f) (cv_id (cs_conversation sc)) rid msg' Delivery_complete (fr_clk f)
      (pf_queue db) = Inr (q1, m)"
    and pr: "persist_agent_run_record (fr_run f) (st_subagent_slug s) (st_child_thread_id s) (Some (st_child_thread_id s)) uid rid
      (cv_id (cs_conversation sc)) Subagent payload m (Some (ar_id creator)) (Some (st_id s)) (lit ''subagent'') (lit ''internal'') None None (fr_clk f) q1
      = Inr (q2, run, True)"
    and db': "db' = db\<lparr>pf_queue := inherit_run_scope (Some creator) (ar_id run) (st_child_thread_id s) (fr_now f) q2\<rparr>"
    using assms sc none by (auto simp: create_run_record_def Let_def split: if_splits)
  have "qd_conversations (inherit_run_scope p i t now q) = qd_conversations q" for p i t now and q :: queue_db
    by (simp add: inherit_run_scope_def)
  then show ?thesis using persist_record_new[OF pr] input_message_effect(1)[OF cm] db' cid k(2) by simp
qed

text \<open>
  C32: a subagent run is confined to its creator: the creator is a running run of the same user and no subagent itself, the new run names it, works in the
  child thread of the relation with the agent asked for, and the child conversation belongs to the same user and to the active project of the parent
  conversation; no other run changes. So no subagent is ever the creator of another.
\<close>

theorem subagent_confined:
  assumes "subagent_start w f n users child_thread request_of uid cb a msg tc asked db = Inr (db', res)" and "sr_created res"
  shows "\<exists>creator\<in>set (db_runs (pf_queue db)). \<exists>l\<in>set (qd_conversations (pf_queue db)).
      ar_id creator = cb \<and> ar_uid creator = uid \<and> ar_status creator = Running \<and> ar_run_type creator \<noteq> Subagent
      \<and> db_runs (pf_queue db') = db_runs (pf_queue db) @ [sr_run res] \<and> ar_id (sr_run res) \<in> set (qd_delivered (pf_queue db'))
      \<and> ar_run_type (sr_run res) = Subagent \<and> ar_created_by_run_id (sr_run res) = Some cb \<and> ar_uid (sr_run res) = uid
      \<and> ar_agent_slug (sr_run res) = ag_slug a \<and> ar_conversation_thread_id (sr_run res) = st_child_thread_id (sr_relation res)
      \<and> ar_conversation_id creator = Some (cv_id l) \<and> cv_uid l = uid
      \<and> shares_project uid (sr_relation res) (cv_project_id l) (pf_queue db')
      \<and> (flat (db_runs (pf_queue db)) \<longrightarrow> flat (db_runs (pf_queue db')))"
proof -
  obtain creator where cr: "lock_run_for_user cb uid (pf_queue db) = Some creator" "ar_status creator = Running" "ar_run_type creator \<noteq> Subagent"
    using assms(1) by (auto simp: subagent_start_def split: option.splits if_splits)
  have cf: "creator \<in> set (db_runs (pf_queue db))" "ar_id creator = cb" "ar_uid creator = uid"
    using cr(1) by (auto simp: lock_run_for_user_def dest!: find_Some_in)
  let ?asked = "py_strip (or_empty asked)"
  let ?t = "if ?asked \<noteq> [] then ?asked else child_thread (ar_conversation_thread_id creator) (ag_slug a) tc"
  let ?create = "\<lambda>s. create_run_record w f users msg (request_of (ar_id creator) ?t tc) uid creator s tc"
  obtain db1 s where er': "ensure_thread_relation f n ?t uid a creator (?asked \<noteq> []) db = Inr (db1, s)"
    using assms(1) cr by (auto simp: subagent_start_def Let_def)
  obtain db2 run created where cc': "?create s db1 = Inr (db2, run, created)"
    using assms(1) cr er' by (cases "?create s db1") (auto simp: subagent_start_def Let_def)
  have res: "res = \<lparr>sr_run = run, sr_created = created, sr_continuing = (?asked \<noteq> []), sr_relation = s\<rparr>"
    and db': "db' = (if created then db2\<lparr>pf_queue := enqueue_agent_run (ar_id run) (pf_queue db2)\<rparr> else db2)"
    using assms(1) cr er' cc' by (simp_all add: subagent_start_def Let_def)
  have created: created using assms(2) by (simp add: res)
  have er: "ensure_thread_relation f n ?t uid a creator (?asked \<noteq> []) db = Inr (db1, sr_relation res)"
    and cc: "?create (sr_relation res) db1 = Inr (db2, sr_run res, True)"
    and db': "db' = db2\<lparr>pf_queue := enqueue_agent_run (ar_id (sr_run res)) (pf_queue db2)\<rparr>"
    using er' cc' db' created by (simp_all add: res)
  note rf = relation_facts[OF er] and nf = create_record_new[OF cc]
  obtain l p where pp: "parent_project uid creator db = Inr (l, p)" and sh: "shares_project uid (sr_relation res) (pr_id p) (pf_queue db1)"
    using rf(1) by blast
  note pf = parent_project_facts[OF pp]
  have runs: "db_runs (pf_queue db') = db_runs (pf_queue db) @ [sr_run res]" using nf rf(5) by (simp add: db' enqueue_agent_run_def)
  have "flat (db_runs (pf_queue db'))" if "flat (db_runs (pf_queue db))"
    using that cf cr(3) nf unfolding runs flat_def by auto
  moreover have "shares_project uid (sr_relation res) (cv_project_id l) (pf_queue db')"
    using sh nf pf(4) by (simp add: shares_project_def db' enqueue_agent_run_def)
  ultimately show ?thesis
    using cf cr(2,3) nf rf(2) pf(2,5) runs by (intro bexI[OF _ cf(1)] bexI[OF _ pf(1)]) (simp add: db' enqueue_agent_run_def)
qed

definition demo_sub_agent :: agent where
  "demo_sub_agent = demo_main_agent\<lparr>ag_id := 2, ag_slug := [123], ag_is_subagent := True\<rparr>"

definition demo_nested :: platform_db where
  "demo_nested = (demo_asked [demo_run [170] Running 15] [])\<lparr>pf_agents := \<lparr>ad_gov = demo_gov, ad_agents = [demo_main_agent, demo_sub_agent]\<rparr>\<rparr>"

definition demo_relation :: subagent_thread where
  "demo_relation = \<lparr>st_id = 5, st_uid = [121], st_parent_conversation_id = 1, st_child_conversation_id = 2, st_child_thread_id = [142],
     st_subagent_slug = [123], st_created_by_run_id = [170], st_created_at = Some 20, st_updated_at = Some 20\<rparr>"

lemma demo_nested_parent: "parent_project [121] (demo_run [170] Running 15) demo_nested = Inr (demo_conversation, demo_home)"
  by (simp add: parent_project_def demo_run_def demo_nested_def demo_asked_def demo_queue_def get_conversation_by_id_def get_conversation_by_thread_id_def
      demo_conversation_def lock_active_for_user_def demo_gov_def demo_home_def lit_def)

lemma demo_child:
  "\<exists>db1 c. ensure_child_conversation demo_fresh [142] [121] demo_sub_agent (demo_run [170] Running 15) [201] demo_nested = Inr (db1, c)
     \<and> cv_id c = 2 \<and> cv_thread_id c = [142] \<and> cv_uid c = [121] \<and> cv_status c = lit ''subagent'' \<and> cv_agent_id c = [123] \<and> cv_project_id c = [201]
     \<and> qd_conversations (pf_queue db1) = [demo_conversation, c] \<and> db_runs (pf_queue db1) = [demo_run [170] Running 15]
     \<and> db_subagent_threads (pf_queue db1) = [] \<and> map ms_id (db_messages (pf_queue db1)) = [1, 2] \<and> pf_agents db1 = pf_agents demo_nested"
  by (simp add: ensure_child_conversation_def get_conversation_by_thread_id_def add_conversation_def put_conversation_def project_get_for_user_def
      demo_nested_def demo_asked_def demo_queue_def demo_message_def demo_conversation_def demo_gov_def demo_home_def demo_fresh_def demo_sub_agent_def
      demo_main_agent_def Let_def)

lemma demo_related:
  obtains db1 c where "ensure_thread_relation demo_fresh 5 [142] [121] demo_sub_agent (demo_run [170] Running 15) False demo_nested = Inr (db1, demo_relation)"
    and "cv_id c = 2" "cv_thread_id c = [142]" "cv_uid c = [121]" "cv_status c = lit ''subagent''" "cv_agent_id c = [123]" "cv_project_id c = [201]"
    and "qd_conversations (pf_queue db1) = [demo_conversation, c]" "db_runs (pf_queue db1) = [demo_run [170] Running 15]"
    and "db_subagent_threads (pf_queue db1) = [demo_relation]" "map ms_id (db_messages (pf_queue db1)) = [1, 2]" "pf_agents db1 = pf_agents demo_nested"
proof -
  obtain db0 c where c: "ensure_child_conversation demo_fresh [142] [121] demo_sub_agent (demo_run [170] Running 15) [201] demo_nested = Inr (db0, c)"
     "cv_id c = 2" "cv_thread_id c = [142]" "cv_uid c = [121]" "cv_status c = lit ''subagent''" "cv_agent_id c = [123]" "cv_project_id c = [201]"
     "qd_conversations (pf_queue db0) = [demo_conversation, c]" "db_runs (pf_queue db0) = [demo_run [170] Running 15]"
     "db_subagent_threads (pf_queue db0) = []" "map ms_id (db_messages (pf_queue db0)) = [1, 2]" "pf_agents db0 = pf_agents demo_nested"
    using demo_child by (elim exE conjE) (rule that)
  let ?q = "(pf_queue db0)\<lparr>db_subagent_threads := [demo_relation]\<rparr>"
  have "cv_id demo_conversation = 1" "ag_slug demo_sub_agent = [123]" by (simp_all add: demo_conversation_def demo_sub_agent_def)
  then have "subagent_thread_create 5 [121] (cv_id demo_conversation) (cv_id c) [142] (ag_slug demo_sub_agent) [170] (fr_clk demo_fresh) (pf_queue db0)
      = Inr (?q, demo_relation)"
    by (simp add: subagent_thread_create_def c demo_relation_def demo_fresh_def Let_def)
  moreover have "get_by_child_thread_for_user [142] [121] (pf_queue demo_nested) = None"
    by (simp add: get_by_child_thread_for_user_def demo_nested_def demo_asked_def demo_queue_def)
  moreover have "pr_id demo_home = [201]" by (simp add: demo_home_def)
  ultimately have "ensure_thread_relation demo_fresh 5 [142] [121] demo_sub_agent (demo_run [170] Running 15) False demo_nested
      = Inr (db0\<lparr>pf_queue := ?q\<rparr>, demo_relation)"
    using c(1) by (simp add: ensure_thread_relation_def demo_nested_parent of_queue_def of_submit_def)
  then show thesis by (rule that[of _ c]) (use c in simp_all)
qed

abbreviation demo_start_sub :: "service_error + platform_db \<times> subagent_start_result" where
  "demo_start_sub \<equiv> subagent_start demo_world demo_fresh 5 demo_users (\<lambda>_ _ _. [142]) (\<lambda>_ _ _. [174]) [121] [170] demo_sub_agent
     (ri_input_message (demo_input [])) [99] None demo_nested"

lemma demo_subagent_started: "\<exists>db' res. demo_start_sub = Inr (db', res) \<and> sr_created res"
proof -
  let ?creator = "demo_run [170] Running 15"
  obtain db1 c where er: "ensure_thread_relation demo_fresh 5 [142] [121] demo_sub_agent ?creator False demo_nested = Inr (db1, demo_relation)"
    and c: "cv_id c = 2" "cv_thread_id c = [142]" "cv_uid c = [121]" "cv_status c = lit ''subagent''" "cv_agent_id c = [123]" "cv_project_id c = [201]"
    and d: "qd_conversations (pf_queue db1) = [demo_conversation, c]" "db_runs (pf_queue db1) = [?creator]"
      "db_subagent_threads (pf_queue db1) = [demo_relation]" "map ms_id (db_messages (pf_queue db1)) = [1, 2]" "pf_agents db1 = pf_agents demo_nested"
    by (rule demo_related)
  have s: "st_subagent_slug demo_relation = [123]" "st_child_thread_id demo_relation = [142]" "st_id demo_relation = 5"
    "st_child_conversation_id demo_relation = 2" "st_parent_conversation_id demo_relation = 1" by (simp_all add: demo_relation_def)
  have "get_conversation_by_thread_id [142] (pf_queue db1) = Some c"
    by (simp add: get_conversation_by_thread_id_def d c) (simp add: demo_conversation_def)
  moreover have "visible_agent demo_world [123] demo_user Subagent_kind (pf_agents demo_nested) = Inr demo_sub_agent"
    by (simp add: visible_agent_def get_visible_by_slug_def get_by_slug_def user_can_access_agent_def resolve_agent_permission_def
        resolve_resource_permission_def demo_user_def demo_nested_def demo_sub_agent_def demo_main_agent_def)
  moreover have "require_agent_project_scope [123] [201] (pf_agents demo_nested) = Inr ()"
    by (simp add: require_agent_project_scope_def ensure_agent_project_scope_def list_project_ids_for_agent_def demo_nested_def demo_gov_def Let_def)
  moreover have "creation_state [123] [142] [121] [174] Subagent (Some [170]) (Some 5) (pf_queue db1) = Inr (None, None)"
    by (simp add: creation_state_def get_run_by_request_id_def d get_active_run_by_thread_for_user_def newest_first_def first_row_def)
  moreover have "ag_slug demo_sub_agent = [123]" "rw_backend demo_world (ag_backend_id demo_sub_agent) = Some []"
    by (simp_all add: demo_sub_agent_def demo_main_agent_def demo_world_def)
  ultimately have sc: "prepare_agent_run_creation_scope demo_world demo_users [123] [142] [121] [174] Subagent Subagent_kind (Some [170]) (Some 5) db1
      = Inr \<lparr>cs_conversation = c, cs_agent = demo_sub_agent, cs_backend = [], cs_existing_run = None, cs_parent_run = None\<rparr>"
    by (simp add: prepare_agent_run_creation_scope_def c d of_submit_def lit_def)
  have model: "resolve_agent_run_model_spec demo_world (dict_get (load_agent_run_context demo_sub_agent [] None) (lit ''model''))
      (get_or_null (ar_input_payload ?creator) ''model_spec'') = Inr [109]"
    by (simp add: resolve_agent_run_model_spec_def load_agent_run_context_def dict_get_def get_or_null_def context_of_def filter_declared_config_def
        with_context_def demo_sub_agent_def demo_main_agent_def demo_run_def demo_world_def or_none_def lit_def py_strip_def is_space_def Let_def)
  have "ms_id ` set (db_messages (pf_queue db1)) = {1, 2}" using arg_cong[OF d(4), of set] by simp
  then have ids: "3 \<notin> ms_id ` set (db_messages (pf_queue db1))" by simp
  have "\<exists>q1 m. create_agent_run_input_message 3 2 [174] msg' Delivery_complete 20 (pf_queue db1) = Inr (q1, m)" for msg'
    using ids by (simp add: create_agent_run_input_message_def d c Let_def)
  then have msg: "\<exists>q1 m. create_agent_run_input_message 3 2 [174] msg' Delivery_complete 20 (pf_queue db1) = Inr (q1, m)
      \<and> db_runs q1 = [?creator] \<and> db_subagent_threads q1 = [demo_relation]" for msg'
    using input_message_effect(1) d by fastforce
  have rec: "\<exists>q2 run. persist_agent_run_record [160] [123] [142] (Some [142]) [121] [174] 2 Subagent payload m (Some [170]) (Some 5)
      src ch None None 20 q1 = Inr (q2, run, True)"
    if "db_runs q1 = [?creator]" "db_subagent_threads q1 = [demo_relation]" for q1 payload m src ch
    using that by (simp add: persist_agent_run_record_def create_run_def Let_def run_shape_ok_def one_active_per_thread_def active_key_def s
        py_strip_def is_space_def)
  have "\<exists>db2 run. create_run_record demo_world demo_fresh demo_users (ri_input_message (demo_input [])) [174] [121] ?creator demo_relation [99] db1
      = Inr (db2, run, True)"
  proof -
    have f: "fr_message demo_fresh = 3" "fr_clk demo_fresh = 20" "fr_run demo_fresh = [160]" by (simp_all add: demo_fresh_def)
    have i: "im_content (ri_input_message (demo_input [])) \<noteq> []" "ar_conversation_id ?creator = Some 1" by (simp_all add: demo_input_def demo_run_def)
    let ?msg = "(ri_input_message (demo_input []))\<lparr>im_extra_metadata := [(lit ''request_id'', JStr [174]), (lit ''source'', JStr (lit ''subagent'')),
      (lit ''raw_message'', case im_raw_message (ri_input_message (demo_input [])) of None \<Rightarrow> JNull | Some r \<Rightarrow> r)]\<rparr>"
    obtain q1 m where m: "create_agent_run_input_message 3 2 [174] ?msg Delivery_complete 20 (pf_queue db1) = Inr (q1, m)"
      "db_runs q1 = [?creator]" "db_subagent_threads q1 = [demo_relation]" using msg by blast
    let ?payload = "JObj [(lit ''model_spec'', JStr [109]),
      (lit ''tool_approval_mode'', case json_get (ar_input_payload ?creator) (lit ''tool_approval_mode'') of None \<Rightarrow> JStr (lit ''default'') | Some t \<Rightarrow> t),
      (lit ''runtime'', JObj [(lit ''tool_call_id'', JStr [99]), (lit ''subagent_name'', JStr (ag_name demo_sub_agent)),
         (lit ''parent_thread_id'', JStr [140])])]"
    obtain q2 run where "persist_agent_run_record [160] [123] [142] (Some [142]) [121] [174] 2 Subagent ?payload m (Some [170]) (Some 5)
      (lit ''subagent'') (lit ''internal'') None None 20 q1 = Inr (q2, run, True)" using rec[OF m(2,3)] by blast
    then show ?thesis
      using m(1) by (simp add: create_run_record_def s sc i c model f of_submit_def of_queue_def)
  qed
  then obtain db2 run where "create_run_record demo_world demo_fresh demo_users (ri_input_message (demo_input [])) [174] [121] ?creator demo_relation [99] db1
      = Inr (db2, run, True)" by blast
  moreover have "lock_run_for_user [170] [121] (pf_queue demo_nested) = Some ?creator"
    by (simp add: lock_run_for_user_def demo_nested_def demo_asked_def)
  ultimately show ?thesis by (simp add: subagent_start_def or_empty_def er Let_def)
qed

theorem subagent_confined_witness:
  "\<exists>db' res. demo_start_sub = Inr (db', res) \<and> sr_created res \<and> ar_run_type (sr_run res) = Subagent"
proof -
  obtain db' res where r: "demo_start_sub = Inr (db', res)" "sr_created res" using demo_subagent_started by blast
  from r subagent_confined[OF r] show ?thesis by blast
qed

end
