(* ===== verification/Scheduled_Agent.thy ===== *)
theory Scheduled_Agent
  imports Submission
begin

text \<open>
  Scheduled agent jobs: \<^verbatim>\<open>repositories/scheduled_agent_repository.py\<close> and \<^verbatim>\<open>services/scheduled_agent_service.py\<close>.

  \<open>sched_db\<close> puts the tables \<^verbatim>\<open>scheduled_agent_jobs\<close> and \<^verbatim>\<open>scheduled_agent_runs\<close> beside the platform. \<open>sched_world\<close> holds the
  libraries the service calls: which cron expressions and time zones are valid, the next time of a schedule (\<open>None\<close>: it cannot be computed), the
  digests, the ISO form of a time, the text of an exception and the dump of a chat message. \<open>users\<close> are the users that are not deleted.
\<close>

datatype scheduled_status = Sr_dispatching | Sr_submitted | Sr_skipped | Sr_failed | Sr_cancelled

datatype trigger = Scheduled | Manual

record scheduled_agent_job =
  sj_id :: pystr
  sj_uid :: pystr
  sj_creation_request_id :: pystr
  sj_creation_intent_hash :: pystr
  sj_project_id :: pystr
  sj_agent_slug :: pystr
  sj_name :: pystr
  sj_prompt :: pystr
  sj_tool_approval_mode :: pystr
  sj_model_spec :: "pystr option"
  sj_cron_expression :: pystr
  sj_timezone :: pystr
  sj_enabled :: bool
  sj_deleted_at :: "time option"
  sj_next_run_at :: time
  sj_created_at :: time
  sj_updated_at :: time

record scheduled_agent_run =
  su_id :: pystr
  su_job_id :: pystr
  su_request_id :: pystr
  su_thread_id :: pystr
  su_trigger :: trigger
  su_occurrence_key :: pystr
  su_scheduled_for :: time
  su_project_id :: pystr
  su_agent_slug :: pystr
  su_conversation_title :: pystr
  su_prompt :: pystr
  su_tool_approval_mode :: pystr
  su_model_spec :: "pystr option"
  su_status :: scheduled_status
  su_error_message :: "pystr option"
  su_created_at :: time

record sched_db =
  sd_platform :: platform_db
  sd_jobs :: "scheduled_agent_job list"
  sd_runs :: "scheduled_agent_run list"

record sched_world =
  sw_valid_cron :: "pystr \<Rightarrow> bool"
  sw_valid_zone :: "pystr \<Rightarrow> bool"
  sw_next :: "pystr \<Rightarrow> pystr \<Rightarrow> time \<Rightarrow> time option"
  sw_sha :: "pystr \<Rightarrow> pystr"
  sw_intent :: "json \<Rightarrow> pystr"
  sw_iso :: "time \<Rightarrow> pystr"
  sw_error :: "submit_error \<Rightarrow> pystr"
  sw_raw :: "pystr \<Rightarrow> json"

abbreviation sd_queue :: "sched_db \<Rightarrow> queue_db" where
  "sd_queue db \<equiv> pf_queue (sd_platform db)"

section \<open>Repository\<close>

definition get_job :: "pystr \<Rightarrow> pystr \<Rightarrow> bool \<Rightarrow> sched_db \<Rightarrow> scheduled_agent_job option" where
  "get_job job_id uid include_deleted db =
     find (\<lambda>j. sj_id j = job_id \<and> sj_uid j = uid \<and> (include_deleted \<or> sj_deleted_at j = None)) (sd_jobs db)"

definition get_job_by_creation_request :: "pystr \<Rightarrow> pystr \<Rightarrow> sched_db \<Rightarrow> scheduled_agent_job option" where
  "get_job_by_creation_request uid request_id db = find (\<lambda>j. sj_uid j = uid \<and> sj_creation_request_id j = request_id) (sd_jobs db)"

definition put_job :: "scheduled_agent_job \<Rightarrow> sched_db \<Rightarrow> sched_db" where
  "put_job j db = db\<lparr>sd_jobs := update_where (\<lambda>x. sj_id x = sj_id j) (\<lambda>_. j) (sd_jobs db)\<rparr>"

definition add_job :: "scheduled_agent_job \<Rightarrow> sched_db \<Rightarrow> submit_error + sched_db" where
  "add_job j db =
     (if list_ex (\<lambda>x. sj_id x = sj_id j \<or> sj_uid x = sj_uid j \<and> sj_creation_request_id x = sj_creation_request_id j) (sd_jobs db)
         \<or> project_get_for_user (sj_project_id j) (sj_uid j) (pf_gov (sd_platform db)) = None
         \<or> sj_tool_approval_mode j \<notin> {lit ''default'', lit ''always_trust''}
      then Inl (Submit_queue Queue_integrity_error)
      else Inr (db\<lparr>sd_jobs := sd_jobs db @ [j]\<rparr>))"

definition get_request_and_run :: "pystr \<Rightarrow> queue_db \<Rightarrow> agent_run_request option \<times> agent_run option" where
  "get_request_and_run request_id q =
     (case get_by_request_id request_id q of
        None \<Rightarrow> (None, None)
      | Some r \<Rightarrow> (Some r, case rq_dispatched_run_id r of None \<Rightarrow> None | Some i \<Rightarrow> get_run i q))"

definition job_due :: "(pystr \<Rightarrow> perm_user option) \<Rightarrow> time \<Rightarrow> scheduled_agent_job \<Rightarrow> bool" where
  "job_due users now j \<longleftrightarrow> users (sj_uid j) \<noteq> None \<and> sj_enabled j \<and> sj_deleted_at j = None \<and> sj_next_run_at j \<le> now"

text \<open>\<open>locked\<close> are the jobs whose rows others have locked, which are skipped.\<close>

definition claim_due_job :: "pystr list \<Rightarrow> (pystr \<Rightarrow> perm_user option) \<Rightarrow> time \<Rightarrow> sched_db \<Rightarrow> scheduled_agent_job option" where
  "claim_due_job locked users now db =
     first_row (sort_key (\<lambda>j. (sj_next_run_at j, sj_id j)) (filter (\<lambda>j. job_due users now j \<and> sj_id j \<notin> set locked) (sd_jobs db)))"

definition execution_active :: "queue_db \<Rightarrow> scheduled_agent_run \<Rightarrow> bool" where
  "execution_active q u \<longleftrightarrow> su_status u = Sr_dispatching
     \<or> su_status u = Sr_submitted
       \<and> (case get_request_and_run (su_request_id u) q of
            (None, _) \<Rightarrow> True
          | (Some r, run) \<Rightarrow> rq_status r = Rq_queued
              \<or> rq_status r = Rq_dispatched \<and> (case run of None \<Rightarrow> True | Some x \<Rightarrow> \<not> terminal (ar_status x)))"

definition has_active_run :: "pystr \<Rightarrow> sched_db \<Rightarrow> bool" where
  "has_active_run job_id db = list_ex (\<lambda>u. su_job_id u = job_id \<and> execution_active (sd_queue db) u) (sd_runs db)"

definition add_run :: "scheduled_agent_run \<Rightarrow> sched_db \<Rightarrow> submit_error + sched_db" where
  "add_run u db =
     (if list_ex (\<lambda>x. su_id x = su_id u \<or> su_job_id x = su_job_id u \<and> su_occurrence_key x = su_occurrence_key u
            \<or> su_request_id x = su_request_id u \<or> su_thread_id x = su_thread_id u) (sd_runs db)
         \<or> su_job_id u \<notin> set (map sj_id (sd_jobs db))
      then Inl (Submit_queue Queue_integrity_error)
      else Inr (db\<lparr>sd_runs := sd_runs db @ [u]\<rparr>))"

definition get_scheduled_run :: "pystr \<Rightarrow> sched_db \<Rightarrow> scheduled_agent_run option" where
  "get_scheduled_run run_id db = find (\<lambda>u. su_id u = run_id) (sd_runs db)"

definition put_scheduled_run :: "scheduled_agent_run \<Rightarrow> sched_db \<Rightarrow> sched_db" where
  "put_scheduled_run u db = db\<lparr>sd_runs := update_where (\<lambda>x. su_id x = su_id u) (\<lambda>_. u) (sd_runs db)\<rparr>"

definition list_dispatching_runs :: "time \<Rightarrow> nat \<Rightarrow> sched_db \<Rightarrow> scheduled_agent_run list" where
  "list_dispatching_runs before limit db =
     take limit (sort_key (\<lambda>u. (su_created_at u, su_id u)) (filter (\<lambda>u. su_status u = Sr_dispatching \<and> su_created_at u \<le> before) (sd_runs db)))"

definition delete_job :: "scheduled_agent_job \<Rightarrow> time \<Rightarrow> sched_db \<Rightarrow> sched_db" where
  "delete_job j now db = put_job (j\<lparr>sj_enabled := False, sj_deleted_at := Some now, sj_updated_at := now\<rparr>) db"

section \<open>Validation\<close>

definition build_request_id :: "sched_world \<Rightarrow> string \<Rightarrow> pystr \<Rightarrow> pystr" where
  "build_request_id sw prefix value = take 16 (lit prefix) @ [45] @ take 47 (sw_sha sw value)"

definition str_or_empty :: "py_text \<Rightarrow> json \<Rightarrow> pystr" where
  "str_or_empty pt v = (if py_true v then py_str pt v else [])"

definition request_id_char :: "nat \<Rightarrow> bool" where
  "request_id_char c \<longleftrightarrow> 65 \<le> c \<and> c \<le> 90 \<or> 97 \<le> c \<and> c \<le> 122 \<or> 48 \<le> c \<and> c \<le> 57 \<or> c \<in> {45, 46, 58, 95}"

definition normalize_request_id :: "py_text \<Rightarrow> json \<Rightarrow> submit_error + pystr" where
  "normalize_request_id pt value =
     (let rid = py_strip (str_or_empty pt value)
      in if \<not> (8 \<le> length rid \<and> length rid \<le> 64) \<or> \<not> list_all request_id_char rid then Inl (http_error 422 sa_request_id) else Inr rid)"

fun word_count :: "bool \<Rightarrow> pystr \<Rightarrow> nat" where
  "word_count inside [] = 0"
| "word_count inside (c # s) = (if is_space c then word_count False s else (if inside then 0 else 1) + word_count True s)"

definition validate_schedule :: "sched_world \<Rightarrow> py_text \<Rightarrow> json \<Rightarrow> json \<Rightarrow> time \<Rightarrow> submit_error + pystr \<times> pystr" where
  "validate_schedule sw pt cron_expression timezone now =
     (let expression = py_strip (str_or_empty pt cron_expression); zone = py_strip (str_or_empty pt timezone)
      in if expression = [] then Inl (http_error 422 sa_cron_empty)
         else if word_count False expression \<noteq> 5 \<or> \<not> sw_valid_cron sw expression then Inl (http_error 422 sa_cron_bad)
         else if \<not> sw_valid_zone sw zone then Inl (http_error 422 sa_zone)
         else if sw_next sw expression zone now = None then Inl (http_error 422 sa_no_next)
         else Inr (expression, zone))"

definition normalize_text :: "py_text \<Rightarrow> json \<Rightarrow> string \<Rightarrow> nat \<Rightarrow> submit_error + pystr" where
  "normalize_text pt value field maximum =
     (let n = py_strip (str_or_empty pt value)
      in if n = [] then Inl (http_error 422 (lit field @ sa_empty))
         else if maximum < length n then Inl (http_error 422 (lit field @ sa_too_long_a @ nat_str maximum @ sa_too_long_b))
         else Inr n)"

definition normalize_model_spec :: "py_text \<Rightarrow> json \<Rightarrow> submit_error + pystr option" where
  "normalize_model_spec pt value =
     (let n = py_strip (str_or_empty pt value) in if 512 < length n then Inl (http_error 422 sa_model_long) else Inr (or_none n))"

definition validate_project :: "pystr \<Rightarrow> pystr \<Rightarrow> platform_db \<Rightarrow> submit_error + project" where
  "validate_project project_id uid db =
     (case lock_active_for_user project_id uid (pf_gov db) of None \<Rightarrow> Inl (http_error 404 pm_no_access) | Some p \<Rightarrow> Inr p)"

definition validate_agent :: "run_world \<Rightarrow> pystr \<Rightarrow> perm_user \<Rightarrow> pystr \<Rightarrow> platform_db \<Rightarrow> submit_error + agent" where
  "validate_agent w agent_slug user project_id db =
     (case get_visible_by_slug (rw_text w) agent_slug user Main_kind (pf_agents db) of
        Inl e \<Rightarrow> Inl (Submit_agent e)
      | Inr None \<Rightarrow> Inl (http_error 404 sa_no_agent)
      | Inr (Some a) \<Rightarrow>
          (case rw_backend w (ag_backend_id a) of
             None \<Rightarrow> Inl (http_error 404 (sm_backend_a @ ag_backend_id a @ sm_backend_b))
           | Some _ \<Rightarrow> and_then (require_agent_project_scope (ag_slug a) project_id (pf_agents db)) (\<lambda>_. Inr a)))"

section \<open>Jobs\<close>

abbreviation uid_of :: "perm_user \<Rightarrow> pystr" where
  "uid_of user \<equiv> or_empty (pu_uid user)"

text \<open>\<open>later\<close> is the database when the row is written: another call may have committed the same request since \<open>db\<close> was read.\<close>

definition replayed_job :: "scheduled_agent_job \<Rightarrow> scheduled_agent_job \<Rightarrow> sched_db \<Rightarrow> submit_error + sched_db \<times> scheduled_agent_job" where
  "replayed_job r j db = (if sj_creation_intent_hash r \<noteq> sj_creation_intent_hash j then Inl (http_error 409 sa_other_job) else Inr (db, r))"

definition commit_job ::
  "sched_world \<Rightarrow> run_world \<Rightarrow> perm_user \<Rightarrow> time \<Rightarrow> sched_db \<Rightarrow> sched_db \<Rightarrow> scheduled_agent_job \<Rightarrow> submit_error + sched_db \<times> scheduled_agent_job" where
  "commit_job sw w user now db later j =
     (case get_job_by_creation_request (sj_uid j) (sj_creation_request_id j) db of
        Some r \<Rightarrow> replayed_job r j later
      | None \<Rightarrow>
          and_then (validate_project (sj_project_id j) (sj_uid j) (sd_platform db)) (\<lambda>_.
          and_then (validate_agent w (sj_agent_slug j) user (sj_project_id j) (sd_platform db)) (\<lambda>_.
          case sw_next sw (sj_cron_expression j) (sj_timezone j) now of
            None \<Rightarrow> Inl Submit_type_error
          | Some t \<Rightarrow>
              let j' = j\<lparr>sj_next_run_at := t\<rparr>
              in case add_job j' later of
                   Inr db' \<Rightarrow> Inr (db', j')
                 | Inl _ \<Rightarrow>
                     (case get_job_by_creation_request (sj_uid j) (sj_creation_request_id j) later of
                        None \<Rightarrow> Inl (http_error 409 sa_job_conflict) | Some r \<Rightarrow> replayed_job r j later))))"

definition create_scheduled_job ::
  "sched_world \<Rightarrow> run_world \<Rightarrow> pystr \<Rightarrow> perm_user \<Rightarrow> (pystr \<times> json) list \<Rightarrow> time \<Rightarrow> sched_db \<Rightarrow> sched_db
   \<Rightarrow> submit_error + sched_db \<times> scheduled_agent_job" where
  "create_scheduled_job sw w new_id user data now db later =
     (let pt = rw_text w; get = dict_get data; uid = uid_of user;
          enabled = (case json_get (JObj data) (lit ''enabled'') of None \<Rightarrow> True | Some v \<Rightarrow> py_true v)
      in and_then (normalize_request_id pt (get (lit ''request_id''))) (\<lambda>rid.
         and_then (normalize_text pt (get (lit ''project_id'')) ''project_id'' 64) (\<lambda>project_id.
         and_then (normalize_text pt (get (lit ''agent_slug'')) ''agent_slug'' 64) (\<lambda>agent_slug.
         and_then (normalize_text pt (get (lit ''name'')) ''name'' 255) (\<lambda>name.
         and_then (normalize_text pt (get (lit ''prompt'')) ''prompt'' 32000) (\<lambda>prompt.
         and_then (validate_schedule sw pt (get (lit ''cron_expression'')) (get (lit ''timezone'')) now) (\<lambda>(expression, zone).
         and_then (normalize_model_spec pt (get (lit ''model_spec''))) (\<lambda>model_spec.
         and_then (normalize_tool_approval_mode pt
             (case json_get (JObj data) (lit ''tool_approval_mode'') of None \<Rightarrow> JStr (lit ''default'') | Some v \<Rightarrow> v)) (\<lambda>mode.
         let intent = sw_intent sw (JObj [(lit ''project_id'', JStr project_id), (lit ''agent_slug'', JStr agent_slug), (lit ''name'', JStr name),
               (lit ''prompt'', JStr prompt), (lit ''tool_approval_mode'', JStr mode),
               (lit ''model_spec'', case model_spec of None \<Rightarrow> JNull | Some m \<Rightarrow> JStr m), (lit ''cron_expression'', JStr expression),
               (lit ''timezone'', JStr zone), (lit ''enabled'', JBool enabled)]);
             j = \<lparr>sj_id = new_id, sj_uid = uid, sj_creation_request_id = rid, sj_creation_intent_hash = intent, sj_project_id = project_id,
               sj_agent_slug = agent_slug, sj_name = name, sj_prompt = prompt, sj_tool_approval_mode = mode, sj_model_spec = model_spec,
               sj_cron_expression = expression, sj_timezone = zone, sj_enabled = enabled, sj_deleted_at = None, sj_next_run_at = now,
               sj_created_at = now, sj_updated_at = now\<rparr>
         in commit_job sw w user now db later j)))))))))"

definition patched :: "(pystr \<times> json) list \<Rightarrow> string \<Rightarrow> 'e + 'j \<Rightarrow> 'j \<Rightarrow> 'e + 'j" where
  "patched data k change j = (if json_get (JObj data) (lit k) = None then Inr j else change)"

definition update_project_and_agent ::
  "run_world \<Rightarrow> perm_user \<Rightarrow> (pystr \<times> json) list \<Rightarrow> platform_db \<Rightarrow> scheduled_agent_job \<Rightarrow> submit_error + scheduled_agent_job" where
  "update_project_and_agent w user data db j =
     (let pt = rw_text w
      in and_then (patched data ''project_id''
           (and_then (normalize_text pt (dict_get data (lit ''project_id'')) ''project_id'' 64) (\<lambda>p.
            and_then (validate_project p (uid_of user) db) (\<lambda>_. Inr (j\<lparr>sj_project_id := p\<rparr>)))) j) (\<lambda>j1.
         if json_get (JObj data) (lit ''agent_slug'') \<noteq> None
         then and_then (normalize_text pt (dict_get data (lit ''agent_slug'')) ''agent_slug'' 64) (\<lambda>a.
              and_then (validate_agent w a user (sj_project_id j1) db) (\<lambda>_. Inr (j1\<lparr>sj_agent_slug := a\<rparr>)))
         else if json_get (JObj data) (lit ''project_id'') \<noteq> None
         then and_then (validate_agent w (sj_agent_slug j1) user (sj_project_id j1) db) (\<lambda>_. Inr j1)
         else Inr j1))"

definition rescheduled :: "pystr \<Rightarrow> pystr \<Rightarrow> time \<Rightarrow> json option \<Rightarrow> time \<Rightarrow> scheduled_agent_job \<Rightarrow> scheduled_agent_job" where
  "rescheduled expression zone t enabled now j =
     (let j1 = (if expression \<noteq> sj_cron_expression j \<or> zone \<noteq> sj_timezone j then j\<lparr>sj_next_run_at := t\<rparr> else j);
          j2 = j1\<lparr>sj_cron_expression := expression, sj_timezone := zone\<rparr>;
          j3 = (case enabled of
                  None \<Rightarrow> j2
                | Some v \<Rightarrow> (if py_true v \<and> \<not> sj_enabled j2 then j2\<lparr>sj_next_run_at := t\<rparr> else j2)\<lparr>sj_enabled := py_true v\<rparr>)
      in j3\<lparr>sj_updated_at := now\<rparr>)"

definition update_schedule ::
  "sched_world \<Rightarrow> run_world \<Rightarrow> (pystr \<times> json) list \<Rightarrow> time \<Rightarrow> scheduled_agent_job \<Rightarrow> submit_error + scheduled_agent_job" where
  "update_schedule sw w data now j =
     (let with_default = (\<lambda>k v. case json_get (JObj data) (lit k) of None \<Rightarrow> JStr v | Some x \<Rightarrow> x)
      in and_then (validate_schedule sw (rw_text w) (with_default ''cron_expression'' (sj_cron_expression j)) (with_default ''timezone'' (sj_timezone j)) now)
           (\<lambda>(expression, zone).
           Inr (rescheduled expression zone (case sw_next sw expression zone now of None \<Rightarrow> sj_next_run_at j | Some t \<Rightarrow> t)
                  (json_get (JObj data) (lit ''enabled'')) now j)))"

definition update_scheduled_job ::
  "sched_world \<Rightarrow> run_world \<Rightarrow> pystr \<Rightarrow> perm_user \<Rightarrow> (pystr \<times> json) list \<Rightarrow> time \<Rightarrow> sched_db
   \<Rightarrow> submit_error + sched_db \<times> scheduled_agent_job option" where
  "update_scheduled_job sw w job_id user data now db =
     (let pt = rw_text w; get = dict_get data
      in case get_job job_id (uid_of user) False db of
           None \<Rightarrow> Inr (db, None)
         | Some j \<Rightarrow>
             and_then (update_project_and_agent w user data (sd_platform db) j) (\<lambda>j1.
             and_then (patched data ''name'' (and_then (normalize_text pt (get (lit ''name'')) ''name'' 255) (\<lambda>n. Inr (j1\<lparr>sj_name := n\<rparr>))) j1) (\<lambda>j2.
             and_then (patched data ''prompt'' (and_then (normalize_text pt (get (lit ''prompt'')) ''prompt'' 32000) (\<lambda>p. Inr (j2\<lparr>sj_prompt := p\<rparr>))) j2) (\<lambda>j3.
             and_then (patched data ''tool_approval_mode''
               (and_then (normalize_tool_approval_mode pt (get (lit ''tool_approval_mode''))) (\<lambda>m. Inr (j3\<lparr>sj_tool_approval_mode := m\<rparr>))) j3) (\<lambda>j4.
             and_then (patched data ''model_spec''
               (and_then (normalize_model_spec pt (get (lit ''model_spec''))) (\<lambda>m. Inr (j4\<lparr>sj_model_spec := m\<rparr>))) j4) (\<lambda>j5.
             and_then (update_schedule sw w data now j5) (\<lambda>j6.
             Inr (put_job j6 db, Some j6))))))))"

definition delete_scheduled_job :: "pystr \<Rightarrow> perm_user \<Rightarrow> time \<Rightarrow> sched_db \<Rightarrow> sched_db \<times> bool" where
  "delete_scheduled_job job_id user now db =
     (case get_job job_id (uid_of user) False db of None \<Rightarrow> (db, False) | Some j \<Rightarrow> (delete_job j now db, True))"

section \<open>Dispatch\<close>

definition new_scheduled_run ::
  "sched_world \<Rightarrow> scheduled_agent_job \<Rightarrow> trigger \<Rightarrow> pystr \<Rightarrow> time \<Rightarrow> bool \<Rightarrow> pystr option \<Rightarrow> time \<Rightarrow> scheduled_agent_run" where
  "new_scheduled_run sw j trigger occurrence_key scheduled_for active_run identity clk =
     (let i = (case identity of Some s \<Rightarrow> if s = [] then sj_id j @ [58] @ occurrence_key else s | None \<Rightarrow> sj_id j @ [58] @ occurrence_key)
      in \<lparr>su_id = build_request_id sw ''scheduled-run'' i, su_job_id = sj_id j, su_request_id = build_request_id sw ''scheduled-request'' i,
          su_thread_id = build_request_id sw ''scheduled-thread'' i, su_trigger = trigger, su_occurrence_key = occurrence_key,
          su_scheduled_for = scheduled_for, su_project_id = sj_project_id j, su_agent_slug = sj_agent_slug j, su_conversation_title = sj_name j,
          su_prompt = sj_prompt j, su_tool_approval_mode = sj_tool_approval_mode j, su_model_spec = sj_model_spec j,
          su_status = (if active_run then Sr_skipped else Sr_dispatching), su_error_message = (if active_run then Some sa_active else None),
          su_created_at = clk\<rparr>)"

definition chat_message :: "sched_world \<Rightarrow> pystr \<Rightarrow> input_message" where
  "chat_message sw query = \<lparr>im_content = query, im_message_type = lit ''text'', im_image_content = None, im_raw_message = Some (sw_raw sw query),
     im_extra_metadata = []\<rparr>"

definition scheduled_input :: "sched_world \<Rightarrow> scheduled_agent_job \<Rightarrow> scheduled_agent_run \<Rightarrow> agent_request_input" where
  "scheduled_input sw j u =
     (let ids = [(lit ''scheduled_job_id'', JStr (sj_id j)), (lit ''scheduled_run_id'', JStr (su_id u))]
      in \<lparr>ri_agent_slug = su_agent_slug u, ri_thread_id = su_thread_id u, ri_request_id = su_request_id u,
          ri_input_message = chat_message sw (su_prompt u),
          ri_origin = \<lparr>og_source = lit ''scheduled_agent'', og_channel = lit ''worker'', og_external_id = Some (su_id u), og_metadata = ids\<rparr>,
          ri_request_metadata = ids, ri_model_spec = su_model_spec u, ri_tool_approval_mode = Some (su_tool_approval_mode u),
          ri_queue_policy = lit ''enqueue'', ri_create_conversation = True, ri_conversation_title = Some (su_conversation_title u),
          ri_conversation_project_id = Some (su_project_id u)\<rparr>)"

fun is_http :: "submit_error \<Rightarrow> bool" where
  "is_http (Submit_queue (Queue_http _ _)) = True"
| "is_http (Submit_queue (Queue_http_text _ _)) = True"
| "is_http _ = False"

text \<open>After an error the trigger is settled: as submitted when its request exists after all, as failed when the error is final.\<close>

definition settle_dispatch_error :: "sched_world \<Rightarrow> pystr \<Rightarrow> submit_error \<Rightarrow> bool \<Rightarrow> sched_db \<Rightarrow> sched_db \<times> scheduled_agent_run option" where
  "settle_dispatch_error sw run_id e final_error db =
     (case get_scheduled_run run_id db of
        None \<Rightarrow> (db, None)
      | Some u \<Rightarrow>
          if su_status u \<noteq> Sr_dispatching then (db, Some u)
          else if get_by_request_id (su_request_id u) (sd_queue db) \<noteq> None
          then (let u' = u\<lparr>su_status := Sr_submitted\<rparr> in (put_scheduled_run u' db, Some u'))
          else if final_error
          then (let u' = u\<lparr>su_status := Sr_failed, su_error_message := Some (sw_error sw e)\<rparr> in (put_scheduled_run u' db, Some u'))
          else (db, Some u))"

definition submit_scheduled ::
  "sched_world \<Rightarrow> run_world \<Rightarrow> fresh \<Rightarrow> perm_user \<Rightarrow> scheduled_agent_job \<Rightarrow> scheduled_agent_run \<Rightarrow> platform_db \<Rightarrow> submit_error + platform_db" where
  "submit_scheduled sw w f user j u db =
     and_then (validate_project (su_project_id u) (uid_of user) db) (\<lambda>_.
     and_then (validate_agent w (su_agent_slug u) user (su_project_id u) db) (\<lambda>_.
     and_then (submit_agent_request w f (scheduled_input sw j u) user db) (\<lambda>(db', _). Inr db')))"

text \<open>\<open>Inl\<close>: the exception is raised again; the state is what was settled.\<close>

definition dispatch_scheduled_run ::
  "sched_world \<Rightarrow> run_world \<Rightarrow> fresh \<Rightarrow> (pystr \<Rightarrow> perm_user option) \<Rightarrow> time \<Rightarrow> pystr \<Rightarrow> sched_db
   \<Rightarrow> sched_db \<times> (submit_error + scheduled_agent_run option)" where
  "dispatch_scheduled_run sw w f users now run_id db =
     (case get_scheduled_run run_id db of
        None \<Rightarrow> (db, Inr None)
      | Some u \<Rightarrow>
          if su_status u \<noteq> Sr_dispatching then (db, Inr (Some u))
          else
            let stop = (\<lambda>text. let u' = u\<lparr>su_status := Sr_cancelled, su_error_message := Some text\<rparr> in (put_scheduled_run u' db, Inr (Some u')))
            in (case find (\<lambda>j. sj_id j = su_job_id u) (sd_jobs db) of
                  None \<Rightarrow> stop sa_gone
                | Some j \<Rightarrow>
                    (case users (sj_uid j) of
                       None \<Rightarrow> stop sa_gone
                     | Some user \<Rightarrow>
                         if su_trigger u = Scheduled \<and> (\<not> sj_enabled j \<or> sj_deleted_at j \<noteq> None) then stop sa_disabled
                         else (case submit_scheduled sw w f user j u (sd_platform db) of
                             Inr p \<Rightarrow>
                               let u' = u\<lparr>su_status := Sr_submitted\<rparr>
                               in (put_scheduled_run u' (put_job (j\<lparr>sj_updated_at := now\<rparr>) (db\<lparr>sd_platform := p\<rparr>)), Inr (Some u'))
                           | Inl e \<Rightarrow>
                               (case settle_dispatch_error sw run_id e (is_http e) db of
                                  (db', None) \<Rightarrow> (db', Inl e)
                                | (db', Some u') \<Rightarrow>
                                    if is_http e \<or> su_status u' = Sr_submitted then (db', Inr (Some u')) else (db', Inl e))))))"

definition run_scheduled_job_now ::
  "sched_world \<Rightarrow> run_world \<Rightarrow> fresh \<Rightarrow> (pystr \<Rightarrow> perm_user option) \<Rightarrow> pystr \<Rightarrow> json \<Rightarrow> perm_user \<Rightarrow> time \<Rightarrow> sched_db
   \<Rightarrow> sched_db \<times> (submit_error + scheduled_agent_run option)" where
  "run_scheduled_job_now sw w f users job_id request_id user now db =
     (case normalize_request_id (rw_text w) request_id of
        Inl e \<Rightarrow> (db, Inl e)
      | Inr rid \<Rightarrow>
          (case get_job job_id (uid_of user) False db of
             None \<Rightarrow> (db, Inr None)
           | Some j \<Rightarrow>
               let identity = uid_of user @ lit '':manual:'' @ rid; run_id = build_request_id sw ''scheduled-run'' identity;
                   go = (\<lambda>u db. if su_status u \<noteq> Sr_dispatching then (db, Inr (Some u)) else dispatch_scheduled_run sw w f users now (su_id u) db)
               in (case get_scheduled_run run_id db of
                     Some u \<Rightarrow> if su_job_id u \<noteq> sj_id j then (db, Inl (http_error 409 sa_other_now)) else go u db
                   | None \<Rightarrow>
                       (case and_then (validate_project (sj_project_id j) (uid_of user) (sd_platform db)) (\<lambda>_.
                              validate_agent w (sj_agent_slug j) user (sj_project_id j) (sd_platform db)) of
                          Inl e \<Rightarrow> (db, Inl e)
                        | Inr _ \<Rightarrow>
                            let u = new_scheduled_run sw j Manual (lit ''manual:'' @ rid) now (has_active_run (sj_id j) db) (Some identity) now
                            in (case add_run u db of
                                  Inr db' \<Rightarrow> go u db'
                                | Inl _ \<Rightarrow> (db, Inl (http_error 409 sa_now_conflict)))))))"

section \<open>Due jobs\<close>

definition due_count :: "(pystr \<Rightarrow> perm_user option) \<Rightarrow> time \<Rightarrow> sched_db \<Rightarrow> nat" where
  "due_count users now db = length (filter (job_due users now) (sd_jobs db))"

lemma claim_due_job_in:
  "claim_due_job locked users now db = Some j \<Longrightarrow> j \<in> set (sd_jobs db) \<and> job_due users now j \<and> sj_id j \<notin> set locked"
  by (auto simp: claim_due_job_def dest!: first_row_Some_in)

lemma put_job_due_count:
  assumes "j \<in> set (sd_jobs db)" and "job_due users now j" and "sj_id j' = sj_id j" and "\<not> job_due users now j'"
  shows "due_count users now (put_job j' db) < due_count users now db"
proof -
  have "length (filter (job_due users now) (update_where (\<lambda>x. sj_id x = sj_id j') (\<lambda>_. j') js)) \<le> length (filter (job_due users now) js)" for js
    using assms(4) by (induction js) auto
  moreover have "j \<in> set js \<Longrightarrow>
    length (filter (job_due users now) (update_where (\<lambda>x. sj_id x = sj_id j') (\<lambda>_. j') js)) < length (filter (job_due users now) js)" for js
    using assms(2-4) calculation by (induction js) (auto simp: less_Suc_eq_le)
  ultimately show ?thesis using assms(1) by (simp add: due_count_def put_job_def)
qed

function claim_due_run ::
  "sched_world \<Rightarrow> pystr list \<Rightarrow> (pystr \<Rightarrow> perm_user option) \<Rightarrow> time \<Rightarrow> sched_db \<Rightarrow> sched_db \<times> (submit_error + scheduled_agent_run option)" where
  "claim_due_run sw locked users now db =
     (case claim_due_job locked users now db of
        None \<Rightarrow> (db, Inr None)
      | Some j \<Rightarrow>
          (case sw_next sw (sj_cron_expression j) (sj_timezone j) now of
             None \<Rightarrow> claim_due_run sw locked users now (put_job (j\<lparr>sj_enabled := False, sj_updated_at := now\<rparr>) db)
           | Some t \<Rightarrow>
               let db1 = put_job (j\<lparr>sj_next_run_at := t, sj_updated_at := now\<rparr>) db;
                   u = new_scheduled_run sw j Scheduled (lit ''scheduled:'' @ sw_iso sw (sj_next_run_at j)) (sj_next_run_at j)
                         (has_active_run (sj_id j) db1) None now
               in (case add_run u db1 of Inl e \<Rightarrow> (db, Inl e) | Inr db2 \<Rightarrow> (db2, Inr (Some u)))))"
  by pat_completeness auto
termination
proof (relation "measure (\<lambda>(sw, locked, users, now, db). due_count users now db)")
  fix sw locked users now db j
  assume "claim_due_job locked users now db = Some j"
  note j = claim_due_job_in[OF this]
  show "((sw, locked, users, now, put_job (j\<lparr>sj_enabled := False, sj_updated_at := now\<rparr>) db), sw, locked, users, now, db)
    \<in> measure (\<lambda>(sw, locked, users, now, db). due_count users now db)"
    using j by (auto intro!: put_job_due_count[of j] simp: job_due_def)
qed simp

declare claim_due_run.simps [simp del]

text \<open>One round of the worker; \<open>f\<close> and \<open>now\<close> give the fresh values and the clock reading of each turn. An exception of a claim ends the round.\<close>

primrec claim_and_dispatch_due_jobs ::
  "sched_world \<Rightarrow> run_world \<Rightarrow> (nat \<Rightarrow> fresh) \<Rightarrow> (nat \<Rightarrow> time) \<Rightarrow> (pystr \<Rightarrow> perm_user option) \<Rightarrow> nat \<Rightarrow> sched_db
   \<Rightarrow> sched_db \<times> (submit_error + nat)" where
  "claim_and_dispatch_due_jobs sw w f now users 0 db = (db, Inr 0)"
| "claim_and_dispatch_due_jobs sw w f now users (Suc n) db =
     (case claim_due_run sw [] users (now n) db of
        (db1, Inl e) \<Rightarrow> (db1, Inl e)
      | (db1, Inr None) \<Rightarrow> (db1, Inr 0)
      | (db1, Inr (Some u)) \<Rightarrow>
          let db2 = (if su_status u = Sr_dispatching then fst (dispatch_scheduled_run sw w (f n) users (now n) (su_id u) db1) else db1)
          in (case claim_and_dispatch_due_jobs sw w f now users n db2 of
                (db3, Inl e) \<Rightarrow> (db3, Inl e)
              | (db3, Inr k) \<Rightarrow> (db3, Inr (Suc k))))"

fun recover_runs ::
  "sched_world \<Rightarrow> run_world \<Rightarrow> (pystr \<Rightarrow> fresh) \<Rightarrow> time \<Rightarrow> (pystr \<Rightarrow> perm_user option) \<Rightarrow> scheduled_agent_run list \<Rightarrow> sched_db \<Rightarrow> sched_db \<times> nat" where
  "recover_runs sw w f now users [] db = (db, 0)"
| "recover_runs sw w f now users (u # us) db =
     (case dispatch_scheduled_run sw w (f (su_id u)) users now (su_id u) db of
        (db1, res) \<Rightarrow>
          (case recover_runs sw w f now users us db1 of (db2, k) \<Rightarrow> (db2, case res of Inl _ \<Rightarrow> k | Inr _ \<Rightarrow> Suc k)))"

definition recover_scheduled_dispatches ::
  "sched_world \<Rightarrow> run_world \<Rightarrow> (pystr \<Rightarrow> fresh) \<Rightarrow> time \<Rightarrow> (pystr \<Rightarrow> perm_user option) \<Rightarrow> nat \<Rightarrow> sched_db \<Rightarrow> sched_db \<times> nat" where
  "recover_scheduled_dispatches sw w f now users limit db =
     recover_runs sw w f now users (list_dispatching_runs (now - timedelta_seconds 30) limit db) db"

end
