(* ===== verification/Scheduled_Properties.thy ===== *)
theory Scheduled_Properties
  imports Scheduled_Agent Submission_Properties
begin

text \<open>
  Steps, invariant and properties of scheduled agent jobs. \<open>sched_step\<close> has one rule per service call and a rule for the rest of the platform:
  the queue moves by its own steps and runs that have ended stay ended. Witnesses use one daily job \<open>[181]\<close> on the platform of \<open>Submission_Properties\<close>.
\<close>

section \<open>Frames\<close>

lemma put_job_fields [simp]:
  "sd_runs (put_job j db) = sd_runs db" "sd_platform (put_job j db) = sd_platform db"
  by (simp_all add: put_job_def)

lemma put_scheduled_run_fields [simp]:
  "sd_jobs (put_scheduled_run u db) = sd_jobs db" "sd_platform (put_scheduled_run u db) = sd_platform db"
  by (simp_all add: put_scheduled_run_def)

lemma scheduled_run_in: "get_scheduled_run i db = Some u \<Longrightarrow> u \<in> set (sd_runs db) \<and> su_id u = i"
  by (auto simp: get_scheduled_run_def dest!: find_Some_in)

lemma add_run_effect:
  assumes "add_run u db = Inr db'"
  shows "db' = db\<lparr>sd_runs := sd_runs db @ [u]\<rparr>" and "su_id u \<notin> su_id ` set (sd_runs db)"
    and "(su_job_id u, su_occurrence_key u) \<notin> (\<lambda>x. (su_job_id x, su_occurrence_key x)) ` set (sd_runs db)"
    and "su_request_id u \<notin> su_request_id ` set (sd_runs db)" and "su_thread_id u \<notin> su_thread_id ` set (sd_runs db)"
  using assms by (auto simp: add_run_def list_ex_iff split: if_splits)

lemma add_job_effect:
  assumes "add_job j db = Inr db'"
  shows "db' = db\<lparr>sd_jobs := sd_jobs db @ [j]\<rparr>" and "sj_id j \<notin> sj_id ` set (sd_jobs db)"
    and "(sj_uid j, sj_creation_request_id j) \<notin> (\<lambda>x. (sj_uid x, sj_creation_request_id x)) ` set (sd_jobs db)"
  using assms by (auto simp: add_job_def list_ex_iff split: if_splits)

section \<open>Runs of the queue\<close>

definition ended_kept :: "agent_run \<Rightarrow> agent_run \<Rightarrow> bool" where
  "ended_kept a b \<longleftrightarrow> ar_id b = ar_id a \<and> (terminal (ar_status a) \<longrightarrow> terminal (ar_status b))"

definition queue_moves :: "queue_db \<Rightarrow> queue_db \<Rightarrow> bool" where
  "queue_moves q q' \<longleftrightarrow> queue_step\<^sup>*\<^sup>* q q' \<and> evolves ended_kept (db_runs q) (db_runs q')"

lemma dispatch_ready_runs:
  assumes inv: "queue_inv q" and "dispatch_ready_head u a t b e k i clk now q = Inr (q', d)"
  shows "\<exists>new. db_runs q' = db_runs q @ new"
proof -
  from dispatch_ready_effect[OF assms(2)] show ?thesis
  proof
    assume "q' = q" then show ?thesis by simp
  next
    assume "\<exists>h res. get_queue_head u a t q = Some h \<and> dispatch_locked_head h b k i clk now q = Inr (q', res)"
    then obtain h res where h: "get_queue_head u a t q = Some h" "dispatch_locked_head h b k i clk now q = Inr (q', res)" by blast
    have "h \<in> set (qd_requests q)" "rq_status h = Rq_queued" using queue_head_in[OF h(1)] by (auto simp: in_thread_def)
    from dispatch_head_effect[OF inv this h(2)] show ?thesis by auto
  qed
qed

lemma stored_runs:
  assumes inv: "queue_inv q" and st: "stored_as w f input uid q q' r d" and fresh: "ri_request_id input \<notin> ar_request_id ` set (db_runs q)"
  shows "\<exists>new. db_runs q' = db_runs q @ new"
proof -
  obtain policy c rejected payload q1 r0 where adm: "admit_request input policy uid q = Inr rejected"
    and sr: "store_request w f input policy uid c rejected payload q = Inr (q1, r0)"
    and rest: "if rejected then q' = q1 \<and> r = r0 \<and> d = None
           else \<exists>b model. dispatch_stored f input policy uid b model r0 q1 = Inr (q', d) \<and> r = stored_row r0 q'"
    using st unfolding stored_as_def by blast
  have "policy = steer \<Longrightarrow> get_pending_steer uid (ri_agent_slug input) (ri_thread_id input) q = Inr None"
    using adm admit_no_steer by blast
  note s = store_request_steps[OF inv sr fresh this]
  note inv1 = queue.steps_inv[OF s(1) inv]
  show ?thesis
  proof (cases rejected)
    case False
    then obtain b model where ds: "dispatch_stored f input policy uid b model r0 q1 = Inr (q', d)" using rest by auto
    define q0 where "q0 = (if policy = lit ''reject'' then q1 else remember_model (ri_thread_id input) model (fr_now f) q1)"
    have inv0: "queue_inv q0" by (rule queue_inv_step[OF inv1 quiet_step[OF inv1]]) (simp_all add: q0_def)
    obtain q2 e where "dispatch_ready_head uid (ri_agent_slug input) (ri_thread_id input) b e (fr_scope f) (fr_run f) (fr_clk f) (fr_now f) q0 = Inr (q2, d)"
      and "db_runs q' = db_runs q2"
      using ds by (auto simp: dispatch_stored_def Let_def q0_def withdraw_request_def split: if_splits)
    with dispatch_ready_runs[OF inv0] show ?thesis using s(9) by (force simp: q0_def)
  qed (use rest s(9) in simp)
qed

lemma submit_moves:
  assumes inv: "queue_inv (pf_queue db)" and s: "submit_agent_request w f input user db = Inr (db', res)"
  shows "queue_moves (pf_queue db) (pf_queue db')"
proof -
  have "\<exists>new. db_runs (pf_queue db') = db_runs (pf_queue db) @ new"
    using s
  proof (cases rule: submit_cases)
    case (stored a c p db1 q2 r d)
    note fl = open_conversation_fields[OF stored(4)]
    have "queue_inv (pf_queue db1)" by (rule queue_inv_step[OF inv quiet_step[OF inv fl(1,2)]])
    moreover have "ri_request_id (normal_input input) \<notin> ar_request_id ` set (db_runs (pf_queue db1))"
      using stored(3) by (auto simp: get_run_by_request_id_def find_None_iff fl)
    ultimately have "\<exists>new. db_runs q2 = db_runs (pf_queue db) @ new" using stored_runs[OF _ stored(5)] fl(2) by simp
    then show ?thesis using stored(6) by (simp add: enqueue_agent_run_def split: option.splits)
  qed simp_all
  moreover have "evolves ended_kept rs (rs @ new)" for rs new by (rule evolves_append) (simp add: ended_kept_def)
  ultimately show ?thesis using submit_steps[OF assms] by (auto simp: queue_moves_def)
qed

text \<open>An execution that has ended stays ended.\<close>

lemma inactive_stays:
  assumes inv: "queue_inv q" and m: "queue_moves q q'" and "\<not> execution_active q u"
  shows "\<not> execution_active q' u"
proof -
  have steps: "queue_step\<^sup>*\<^sup>* q q'" and ev: "evolves ended_kept (db_runs q) (db_runs q')" using m by (simp_all add: queue_moves_def)
  have inv': "queue_inv q'" by (rule queue.steps_inv[OF steps inv])
  show ?thesis
  proof (cases "su_status u = Sr_submitted")
    case False
    then show ?thesis using assms(3) by (simp add: execution_active_def)
  next
    case True
    then obtain r where r: "get_by_request_id (su_request_id u) q = Some r" "rq_status r \<noteq> Rq_queued"
      and run: "rq_status r = Rq_dispatched \<longrightarrow> (\<exists>i x. rq_dispatched_run_id r = Some i \<and> get_run i q = Some x \<and> terminal (ar_status x))"
      using assms(3) by (auto simp: execution_active_def get_request_and_run_def split: option.splits)
    note rin = get_by_request_id_in[OF r(1)]
    have "stored_row r q' = r" using stored_row_keeps(2)[OF inv steps] rin r(2) by (simp add: request_keeps_def)
    then have look: "get_by_request_id (su_request_id u) q' = Some r" using stored_row_keeps(1)[OF inv steps, of r] rin by simp
    have "\<exists>x'. get_run i q' = Some x' \<and> terminal (ar_status x')" if "get_run i q = Some x" "terminal (ar_status x)" for i x
    proof -
      have x: "x \<in> set (db_runs q)" "ar_id x = i" using that(1) by (auto simp: get_run_def dest!: find_Some_in)
      obtain x' where x': "x' \<in> set (db_runs q')" "ended_kept x x'" by (rule evolves_in[OF ev x(1)])
      then have "get_run i q' = Some x'"
        using inv' x(2) find_unique_key[of ar_id "db_runs q'" x'] by (simp add: queue_inv_def get_run_def ended_kept_def)
      then show ?thesis using x'(2) that(2) by (simp add: ended_kept_def)
    qed
    with run have "rq_status r = Rq_dispatched \<longrightarrow> (\<exists>i x. rq_dispatched_run_id r = Some i \<and> get_run i q' = Some x \<and> terminal (ar_status x))" by blast
    then show ?thesis using True r(2) look by (auto simp: execution_active_def get_request_and_run_def)
  qed
qed

section \<open>Steps\<close>

inductive sched_step :: "sched_db \<Rightarrow> sched_db \<Rightarrow> bool" where
  create: "create_scheduled_job sw w i user data now seen db = Inr (db', j) \<Longrightarrow> sched_step db db'"
| update: "update_scheduled_job sw w i user data now db = Inr (db', j) \<Longrightarrow> sched_step db db'"
| delete: "sched_step db (fst (delete_scheduled_job i user now db))"
| run_now: "sched_step db (fst (run_scheduled_job_now sw w f users i rid user now db))"
| claim: "sched_step db (fst (claim_due_run sw locked users now db))"
| dispatch: "sched_step db (fst (dispatch_scheduled_run sw w f users now i db))"
| platform: "queue_moves (sd_queue db) (pf_queue p) \<Longrightarrow> sched_step db (db\<lparr>sd_platform := p\<rparr>)"

definition job_keeps :: "scheduled_agent_job \<Rightarrow> scheduled_agent_job \<Rightarrow> bool" where
  "job_keeps j j' \<longleftrightarrow> sj_id j' = sj_id j \<and> sj_uid j' = sj_uid j \<and> sj_creation_request_id j' = sj_creation_request_id j
     \<and> sj_creation_intent_hash j' = sj_creation_intent_hash j \<and> sj_created_at j' = sj_created_at j"

text \<open>What a trigger keeps: everything but its outcome, and one that has an outcome is frozen.\<close>

definition trigger_keeps :: "scheduled_agent_run \<Rightarrow> scheduled_agent_run \<Rightarrow> bool" where
  "trigger_keeps u u' \<longleftrightarrow> u'\<lparr>su_status := su_status u, su_error_message := su_error_message u\<rparr> = u \<and> (su_status u \<noteq> Sr_dispatching \<longrightarrow> u' = u)"

abbreviation creation_key :: "scheduled_agent_job \<Rightarrow> pystr \<times> pystr" where
  "creation_key j \<equiv> (sj_uid j, sj_creation_request_id j)"

definition sched_inv :: "sched_db \<Rightarrow> bool" where
  "sched_inv db \<longleftrightarrow> queue_inv (sd_queue db) \<and> distinct (map sj_id (sd_jobs db)) \<and> distinct (map creation_key (sd_jobs db))
     \<and> distinct (map su_id (sd_runs db)) \<and> distinct (map su_request_id (sd_runs db))
     \<and> distinct (map (\<lambda>u. (su_job_id u, su_occurrence_key u)) (sd_runs db))
     \<and> distinct (map su_job_id (filter (execution_active (sd_queue db)) (sd_runs db)))"

definition sched_rel :: "sched_db \<Rightarrow> sched_db \<Rightarrow> bool" where
  "sched_rel db db' \<longleftrightarrow> evolves job_keeps (sd_jobs db) (sd_jobs db') \<and> evolves trigger_keeps (sd_runs db) (sd_runs db')
     \<and> queue_moves (sd_queue db) (sd_queue db')"

definition sched_start :: "sched_db \<Rightarrow> bool" where
  "sched_start db \<longleftrightarrow> sd_jobs db = [] \<and> sd_runs db = [] \<and> queue_inv (sd_queue db)"

lemma trigger_keeps_refl [simp]: "trigger_keeps u u"
  by (simp add: trigger_keeps_def)

lemma job_keeps_refl [simp]: "job_keeps j j"
  by (simp add: job_keeps_def)

lemma queue_moves_refl [simp]: "queue_moves q q"
  by (simp add: queue_moves_def evolves_refl ended_kept_def)

lemma queue_moves_trans: "queue_moves a b \<Longrightarrow> queue_moves b c \<Longrightarrow> queue_moves a c"
  unfolding queue_moves_def by (auto elim: evolves_trans simp: ended_kept_def)

text \<open>The kinds of change; a step is a sequence of them.\<close>

definition trigger_change :: "sched_db \<Rightarrow> sched_db \<Rightarrow> bool" where
  "trigger_change db db' \<longleftrightarrow>
     (\<exists>u u'. u \<in> set (sd_runs db) \<and> su_status u = Sr_dispatching \<and> trigger_keeps u u'
        \<and> sd_runs db' = update_where (\<lambda>x. su_id x = su_id u) (\<lambda>_. u') (sd_runs db)
        \<and> evolves job_keeps (sd_jobs db) (sd_jobs db') \<and> length (sd_jobs db') = length (sd_jobs db)
        \<and> queue_moves (sd_queue db) (sd_queue db'))"

definition trigger_add :: "sched_db \<Rightarrow> sched_db \<Rightarrow> bool" where
  "trigger_add db db' \<longleftrightarrow> (\<exists>u. add_run u db = Inr db' \<and> (su_status u = Sr_dispatching \<longrightarrow> \<not> has_active_run (su_job_id u) db)
     \<and> (su_status u \<noteq> Sr_dispatching \<longrightarrow> su_status u = Sr_skipped))"

definition job_change :: "sched_db \<Rightarrow> sched_db \<Rightarrow> bool" where
  "job_change db db' \<longleftrightarrow> sd_runs db' = sd_runs db \<and> queue_moves (sd_queue db) (sd_queue db')
     \<and> (evolves job_keeps (sd_jobs db) (sd_jobs db') \<and> length (sd_jobs db') = length (sd_jobs db)
        \<or> (\<exists>j. add_job j db = Inr db'))"

inductive sched_change :: "sched_db \<Rightarrow> sched_db \<Rightarrow> bool" where
  "trigger_change db db' \<Longrightarrow> sched_change db db'"
| "trigger_add db db' \<Longrightarrow> sched_change db db'"
| "job_change db db' \<Longrightarrow> sched_change db db'"

lemma evolves_map:
  assumes "evolves R xs ys" and "length ys = length xs" and "\<And>x y. R x y \<Longrightarrow> k y = k x"
  shows "map k ys = map k xs"
proof -
  have "list_all2 R xs ys" using assms(1,2) by (simp add: evolves_def)
  then show ?thesis by (induction rule: list_all2_induct) (auto simp: assms(3))
qed

lemma active_shrinks:
  assumes "list_all2 (\<lambda>x y. k y = k x \<and> (Q y \<longrightarrow> P x)) xs ys" and "distinct (map k (filter P xs))"
  shows "distinct (map k (filter Q ys))"
  using assms
proof (induction rule: list_all2_induct)
  case (Cons x xs y ys)
  have sub: "k ` {y \<in> set ys. Q y} \<subseteq> k ` {x \<in> set xs. P x}"
    using Cons.hyps(2) by (induction rule: list_all2_induct) auto
  have "k y = k x" "Q y \<Longrightarrow> P x" using Cons.hyps(1) by auto
  then show ?case using Cons.IH Cons.prems sub by (auto split: if_splits)
qed simp

lemma job_change_inv:
  assumes inv: "sched_inv db" and c: "job_change db db'"
  shows "sched_inv db' \<and> sched_rel db db'"
proof -
  have runs: "sd_runs db' = sd_runs db" and m: "queue_moves (sd_queue db) (sd_queue db')" using c by (auto simp: job_change_def)
  have jobs: "distinct (map sj_id (sd_jobs db')) \<and> distinct (map creation_key (sd_jobs db')) \<and> evolves job_keeps (sd_jobs db) (sd_jobs db')"
    using c unfolding job_change_def
  proof (elim conjE disjE exE)
    assume e: "evolves job_keeps (sd_jobs db) (sd_jobs db')" and l: "length (sd_jobs db') = length (sd_jobs db)"
    have "map sj_id (sd_jobs db') = map sj_id (sd_jobs db)" by (rule evolves_map[OF e l]) (simp add: job_keeps_def)
    moreover have "map creation_key (sd_jobs db') = map creation_key (sd_jobs db)" by (rule evolves_map[OF e l]) (simp add: job_keeps_def)
    ultimately show ?thesis using inv e by (simp only: sched_inv_def)
  next
    fix j assume "add_job j db = Inr db'"
    from add_job_effect[OF this] show ?thesis using inv by (auto simp: sched_inv_def evolves_append)
  qed
  have qi: "queue_inv (sd_queue db)" using inv by (simp add: sched_inv_def)
  then have "queue_inv (sd_queue db')" using m queue.steps_inv by (auto simp: queue_moves_def)
  moreover have "list_all2 (\<lambda>x y. su_job_id y = su_job_id x \<and> (execution_active (sd_queue db') y \<longrightarrow> execution_active (sd_queue db) x)) (sd_runs db) (sd_runs db)"
    using inactive_stays[OF qi m] by (auto intro: list.rel_refl)
  from active_shrinks[OF this] have "distinct (map su_job_id (filter (execution_active (sd_queue db')) (sd_runs db)))"
    using inv by (simp add: sched_inv_def)
  ultimately show ?thesis using inv jobs m by (simp add: sched_inv_def sched_rel_def runs evolves_refl)
qed

lemma trigger_add_inv:
  assumes inv: "sched_inv db" and c: "trigger_add db db'"
  shows "sched_inv db' \<and> sched_rel db db'"
proof -
  obtain u where u: "add_run u db = Inr db'" "su_status u = Sr_dispatching \<longrightarrow> \<not> has_active_run (su_job_id u) db"
    "su_status u \<noteq> Sr_dispatching \<longrightarrow> su_status u = Sr_skipped" using c by (auto simp: trigger_add_def)
  note a = add_run_effect[OF u(1)]
  have "su_job_id u \<notin> su_job_id ` {x \<in> set (sd_runs db). execution_active (sd_queue db) x}" if "execution_active (sd_queue db) u"
    using that u(2,3) by (cases "su_status u") (auto simp: execution_active_def has_active_run_def list_ex_iff)
  then show ?thesis
    using inv a by (auto simp: sched_inv_def sched_rel_def evolves_refl evolves_append)
qed

lemma trigger_change_inv:
  assumes inv: "sched_inv db" and c: "trigger_change db db'"
  shows "sched_inv db' \<and> sched_rel db db'"
proof -
  obtain u u' where u: "u \<in> set (sd_runs db)" "su_status u = Sr_dispatching" "trigger_keeps u u'"
    and runs: "sd_runs db' = update_where (\<lambda>x. su_id x = su_id u) (\<lambda>_. u') (sd_runs db)"
    and jobs: "evolves job_keeps (sd_jobs db) (sd_jobs db')" "length (sd_jobs db') = length (sd_jobs db)"
    and m: "queue_moves (sd_queue db) (sd_queue db')" using c by (auto simp: trigger_change_def)
  have qi: "queue_inv (sd_queue db)" and d: "distinct (map su_id (sd_runs db))" using inv by (simp_all add: sched_inv_def)
  have same: "x = u" if "x \<in> set (sd_runs db)" "su_id x = su_id u" for x
    using that u(1) d by (auto simp: distinct_map dest: inj_onD)
  have k: "su_id u' = su_id u \<and> su_request_id u' = su_request_id u \<and> su_job_id u' = su_job_id u \<and> su_occurrence_key u' = su_occurrence_key u"
    using u(3) unfolding trigger_keeps_def by (metis scheduled_agent_run.ext_inject scheduled_agent_run.surjective scheduled_agent_run.update_convs(14,15))
  have ev: "evolves trigger_keeps (sd_runs db) (sd_runs db')"
    unfolding runs by (rule evolves_update_where) (use same u(3) in auto)
  have "map f (sd_runs db') = map f (sd_runs db)" if "f u' = f u" for f :: "scheduled_agent_run \<Rightarrow> 'k"
    unfolding runs update_where_def using same that by auto
  note keys = this[of su_id] this[of su_request_id] this[of "\<lambda>u. (su_job_id u, su_occurrence_key u)"]
  have "list_all2 (\<lambda>x y. su_job_id y = su_job_id x \<and> (execution_active (sd_queue db') y \<longrightarrow> execution_active (sd_queue db) x)) (sd_runs db) (sd_runs db')"
    unfolding runs update_where_def list.rel_map
    using same k u(2) inactive_stays[OF qi m] by (auto intro!: list.rel_refl_strong dest!: same simp: execution_active_def[of "sd_queue db" u])
  from active_shrinks[OF this] inv
  have "distinct (map su_job_id (filter (execution_active (sd_queue db')) (sd_runs db')))" by (simp add: sched_inv_def)
  moreover have "queue_inv (sd_queue db')" using m qi queue.steps_inv by (auto simp: queue_moves_def)
  moreover have "map sj_id (sd_jobs db') = map sj_id (sd_jobs db)" "map creation_key (sd_jobs db') = map creation_key (sd_jobs db)"
    by (rule evolves_map[OF jobs], simp add: job_keeps_def)+
  ultimately show ?thesis using inv jobs(1) ev m keys k by (simp add: sched_inv_def sched_rel_def)
qed

lemma sched_change_inv: "sched_inv db \<Longrightarrow> sched_change db db' \<Longrightarrow> sched_inv db' \<and> sched_rel db db'"
  by (elim sched_change.cases) (auto dest: trigger_change_inv trigger_add_inv job_change_inv)

section \<open>The operations as changes\<close>

lemma put_job_change:
  assumes inv: "sched_inv db" and j: "j \<in> set (sd_jobs db)" and k: "job_keeps j j'"
  shows "sched_change db (put_job j' db)"
proof -
  have "x = j" if "x \<in> set (sd_jobs db)" "sj_id x = sj_id j'" for x
    using that j k inv by (auto simp: sched_inv_def job_keeps_def distinct_map dest: inj_onD)
  then have "evolves job_keeps (sd_jobs db) (sd_jobs (put_job j' db))"
    unfolding put_job_def using k by (auto intro!: evolves_update_where)
  then show ?thesis by (intro sched_change.intros(3)) (simp add: job_change_def put_job_def)
qed

lemma put_run_change:
  assumes "u \<in> set (sd_runs db)" and "su_status u = Sr_dispatching" and "trigger_keeps u u'" and "su_id u' = su_id u"
  shows "sched_change db (put_scheduled_run u' db)"
  using assms by (intro sched_change.intros(1)) (auto simp: trigger_change_def put_scheduled_run_def evolves_refl)

lemma settled_keeps [simp]:
  "su_status u = Sr_dispatching \<Longrightarrow> trigger_keeps u (u\<lparr>su_status := st\<rparr>)"
  "su_status u = Sr_dispatching \<Longrightarrow> trigger_keeps u (u\<lparr>su_status := st, su_error_message := e\<rparr>)"
  by (simp_all add: trigger_keeps_def)

lemma settle_changes: "sched_change\<^sup>*\<^sup>* db (fst (settle_dispatch_error sw i e t db))"
proof (cases "get_scheduled_run i db")
  case (Some u)
  have "sched_change db (put_scheduled_run u' db)" if "trigger_keeps u u'" "su_status u = Sr_dispatching" "su_id u' = su_id u" for u'
    using put_run_change that scheduled_run_in[OF Some] by blast
  then show ?thesis by (auto simp: settle_dispatch_error_def Some Let_def intro!: r_into_rtranclp)
qed (simp add: settle_dispatch_error_def)

lemma dispatch_changes:
  assumes inv: "sched_inv db"
  shows "sched_change\<^sup>*\<^sup>* db (fst (dispatch_scheduled_run sw w f users now i db))"
proof (cases "get_scheduled_run i db")
  case None
  then show ?thesis by (simp add: dispatch_scheduled_run_def)
next
  case (Some u)
  note u = scheduled_run_in[OF Some]
  show ?thesis
  proof (cases "su_status u = Sr_dispatching")
    case False
    then show ?thesis by (simp add: dispatch_scheduled_run_def Some)
  next
    case True
    have stop: "sched_change\<^sup>*\<^sup>* db (put_scheduled_run (u\<lparr>su_status := st, su_error_message := e\<rparr>) db)" for st e
      using put_run_change[of u db "u\<lparr>su_status := st, su_error_message := e\<rparr>"] u True by (auto intro: r_into_rtranclp)
    have fin: "sched_change\<^sup>*\<^sup>* db (put_scheduled_run (u\<lparr>su_status := Sr_submitted\<rparr>) (put_job (j\<lparr>sj_updated_at := now\<rparr>) (db\<lparr>sd_platform := p\<rparr>)))"
      if j: "j \<in> set (sd_jobs db)" and s: "submit_scheduled sw w f user j u (sd_platform db) = Inr p" for j user p
    proof -
      let ?db1 = "db\<lparr>sd_platform := p\<rparr>"
      obtain res where "submit_agent_request w f (scheduled_input sw j u) user (sd_platform db) = Inr (p, res)"
        using s by (auto simp: submit_scheduled_def)
      then have "queue_moves (sd_queue db) (pf_queue p)" using inv by (intro submit_moves) (auto simp: sched_inv_def)
      then have c1: "sched_change db ?db1"
        by (intro sched_change.intros(3)) (simp add: job_change_def evolves_refl)
      then have inv1: "sched_inv ?db1" using sched_change_inv[OF inv] by blast
      have c2: "sched_change ?db1 (put_job (j\<lparr>sj_updated_at := now\<rparr>) ?db1)"
        by (rule put_job_change[OF inv1, of j]) (use j in \<open>simp_all add: job_keeps_def\<close>)
      have c3: "sched_change (put_job (j\<lparr>sj_updated_at := now\<rparr>) ?db1) (put_scheduled_run (u\<lparr>su_status := Sr_submitted\<rparr>) (put_job (j\<lparr>sj_updated_at := now\<rparr>) ?db1))"
        by (rule put_run_change[of u]) (use u True in simp_all)
      from c1 c2 c3 show ?thesis by (meson converse_rtranclp_into_rtranclp r_into_rtranclp)
    qed
    have failed: "sched_change\<^sup>*\<^sup>* db (fst (case settle_dispatch_error sw i e (is_http e) db of
        (db', None) \<Rightarrow> (db', Inl e)
      | (db', Some u') \<Rightarrow> if is_http e \<or> su_status u' = Sr_submitted then (db', Inr (Some u')) else (db', Inl e)))" for e
      using settle_changes[of db sw i e "is_http e"] by (auto split: prod.splits option.splits)
    show ?thesis
      using stop fin failed True
      by (auto simp: dispatch_scheduled_run_def Some Let_def split: option.splits sum.splits dest!: find_Some_in)
  qed
qed

lemma new_run_fields [simp]:
  "su_job_id (new_scheduled_run sw j t k sf a i clk) = sj_id j" "su_occurrence_key (new_scheduled_run sw j t k sf a i clk) = k"
  "su_status (new_scheduled_run sw j t k sf a i clk) = (if a then Sr_skipped else Sr_dispatching)"
  "su_scheduled_for (new_scheduled_run sw j t k sf a i clk) = sf"
  by (simp_all add: new_scheduled_run_def Let_def)

lemma new_run_added:
  assumes "add_run (new_scheduled_run sw j t k sf a i clk) db = Inr db'" and "a = has_active_run (sj_id j) db"
  shows "trigger_add db db'"
  unfolding trigger_add_def using assms
  by (intro exI[of _ "new_scheduled_run sw j t k sf a i clk"]) simp

lemma run_now_changes:
  assumes inv: "sched_inv db"
  shows "sched_change\<^sup>*\<^sup>* db (fst (run_scheduled_job_now sw w f users i rid user now db))"
proof -
  note new = sched_change.intros(2)[OF new_run_added]
  have both: "sched_change\<^sup>*\<^sup>* db (fst (dispatch_scheduled_run sw w f users now i' db'))"
    if "add_run (new_scheduled_run sw j t k sf a iden clk) db = Inr db'" "a = has_active_run (sj_id j) db" for j t k sf a iden clk db' i'
    using new[OF that] dispatch_changes sched_change_inv[OF inv new[OF that]] by (meson converse_rtranclp_into_rtranclp)
  show ?thesis
    by (auto simp: run_scheduled_job_now_def Let_def split: sum.splits option.splits intro: dispatch_changes[OF inv] both r_into_rtranclp new)
qed

lemma claim_changes:
  assumes "sched_inv db"
  shows "sched_change\<^sup>*\<^sup>* db (fst (claim_due_run sw locked users now db))"
  using assms
proof (induction sw locked users now db rule: claim_due_run.induct)
  case (1 sw locked users now db)
  show ?case
  proof (cases "claim_due_job locked users now db")
    case None
    then show ?thesis by (simp add: claim_due_run.simps[of sw locked users now db])
  next
    case (Some j)
    have put: "sched_change db (put_job (j\<lparr>sj_enabled := e, sj_next_run_at := t, sj_updated_at := now\<rparr>) db)" for e t
      by (rule put_job_change[OF 1(2), of j]) (use claim_due_job_in[OF Some] in \<open>simp_all add: job_keeps_def\<close>)
    show ?thesis
    proof (cases "sw_next sw (sj_cron_expression j) (sj_timezone j) now")
      case None
      let ?db = "put_job (j\<lparr>sj_enabled := False, sj_updated_at := now\<rparr>) db"
      have c: "sched_change db ?db" using put[where e = False and t = "sj_next_run_at j"] by simp
      then have "sched_change\<^sup>*\<^sup>* ?db (fst (claim_due_run sw locked users now ?db))"
        using 1(1)[OF Some None] sched_change_inv[OF 1(2)] by blast
      with c show ?thesis by (simp add: claim_due_run.simps[of sw locked users now db] Some None converse_rtranclp_into_rtranclp)
    next
      case nxt: (Some t)
      let ?db1 = "put_job (j\<lparr>sj_next_run_at := t, sj_updated_at := now\<rparr>) db"
      let ?u = "new_scheduled_run sw j Scheduled (lit ''scheduled:'' @ sw_iso sw (sj_next_run_at j)) (sj_next_run_at j) (has_active_run (sj_id j) ?db1) None now"
      have c: "sched_change db ?db1" using put[where e = "sj_enabled j" and t = t] by simp
      have "sched_change\<^sup>*\<^sup>* db db2" if "add_run ?u ?db1 = Inr db2" for db2
        using c sched_change.intros(2)[OF new_run_added[OF that refl]] by (auto intro: converse_rtranclp_into_rtranclp)
      then show ?thesis
        by (auto simp: claim_due_run.simps[of sw locked users now db] Some nxt Let_def split: sum.splits)
    qed
  qed
qed

lemma create_changes:
  assumes "create_scheduled_job sw w i user data now seen db = Inr (db', j)"
  shows "sched_change\<^sup>*\<^sup>* db db'"
proof -
  have "db' = db \<or> (\<exists>j. add_job j db = Inr db')"
  proof -
    obtain x where "commit_job sw w user now seen db x = Inr (db', j)" using assms by (auto simp: create_scheduled_job_def Let_def)
    then show ?thesis
      by (auto simp: commit_job_def replayed_job_def Let_def split: option.splits sum.splits if_splits)
  qed
  moreover have "sched_change db db'" if "add_job j db = Inr db'" for j
    by (rule sched_change.intros(3)) (use that add_job_effect(1)[OF that] in \<open>auto simp: job_change_def\<close>)
  ultimately show ?thesis by blast
qed

lemma job_keeps_trans: "job_keeps a b \<Longrightarrow> job_keeps b c \<Longrightarrow> job_keeps a c"
  by (simp add: job_keeps_def)

lemma update_project_keeps: "update_project_and_agent w user data p j = Inr j' \<Longrightarrow> job_keeps j j'"
  by (auto simp: update_project_and_agent_def patched_def Let_def job_keeps_def split: if_splits)

lemma rescheduled_keeps: "job_keeps j (rescheduled e z t b now j)"
  by (cases b) (simp_all add: rescheduled_def job_keeps_def Let_def)

lemma update_schedule_keeps: "update_schedule sw w data now j = Inr j' \<Longrightarrow> job_keeps j j'"
  by (auto simp: update_schedule_def Let_def rescheduled_keeps simp del: json_get.simps)

lemma patched_keeps:
  assumes "patched data k (and_then x (\<lambda>v. Inr (g v))) j = Inr j'" and "\<And>v. job_keeps j (g v)"
  shows "job_keeps j j'"
  using assms by (auto simp: patched_def split: if_splits)

lemma update_changes:
  assumes inv: "sched_inv db" and "update_scheduled_job sw w i user data now db = Inr (db', res)"
  shows "sched_change\<^sup>*\<^sup>* db db'"
proof (cases "get_job i (uid_of user) False db")
  case None
  then show ?thesis using assms(2) by (simp add: update_scheduled_job_def)
next
  case (Some j)
  let ?pt = "rw_text w" and ?get = "dict_get data"
  obtain j1 j2 j3 j4 j5 j6 where "update_project_and_agent w user data (sd_platform db) j = Inr j1"
    and p: "patched data ''name'' (and_then (normalize_text ?pt (?get (lit ''name'')) ''name'' 255) (\<lambda>n. Inr (j1\<lparr>sj_name := n\<rparr>))) j1 = Inr j2"
      "patched data ''prompt'' (and_then (normalize_text ?pt (?get (lit ''prompt'')) ''prompt'' 32000) (\<lambda>p. Inr (j2\<lparr>sj_prompt := p\<rparr>))) j2 = Inr j3"
      "patched data ''tool_approval_mode''
        (and_then (normalize_tool_approval_mode ?pt (?get (lit ''tool_approval_mode''))) (\<lambda>m. Inr (j3\<lparr>sj_tool_approval_mode := m\<rparr>))) j3 = Inr j4"
      "patched data ''model_spec'' (and_then (normalize_model_spec ?pt (?get (lit ''model_spec''))) (\<lambda>m. Inr (j4\<lparr>sj_model_spec := m\<rparr>))) j4 = Inr j5"
    and "update_schedule sw w data now j5 = Inr j6" and db': "db' = put_job j6 db"
    using assms(2) Some by (auto simp: update_scheduled_job_def Let_def)
  then have "job_keeps j j1" "job_keeps j5 j6" by (blast intro: update_project_keeps update_schedule_keeps)+
  moreover have "job_keeps j1 j2" "job_keeps j2 j3" "job_keeps j3 j4" "job_keeps j4 j5"
    by (rule patched_keeps[OF p(1)] patched_keeps[OF p(2)] patched_keeps[OF p(3)] patched_keeps[OF p(4)], simp add: job_keeps_def)+
  ultimately have "job_keeps j j6" by (meson job_keeps_trans)
  moreover have "j \<in> set (sd_jobs db)" using Some by (auto simp: get_job_def dest!: find_Some_in)
  ultimately show ?thesis using put_job_change[OF inv] by (auto simp: db')
qed

lemma delete_changes:
  assumes "sched_inv db"
  shows "sched_change\<^sup>*\<^sup>* db (fst (delete_scheduled_job i user now db))"
proof (cases "get_job i (uid_of user) False db")
  case (Some j)
  then have "j \<in> set (sd_jobs db)" by (auto simp: get_job_def dest!: find_Some_in)
  then have "sched_change db (delete_job j now db)"
    unfolding delete_job_def by (rule put_job_change[OF assms]) (simp add: job_keeps_def)
  then show ?thesis by (simp add: delete_scheduled_job_def Some)
qed (simp add: delete_scheduled_job_def)

lemma step_changes:
  assumes inv: "sched_inv db" and "sched_step db db'"
  shows "sched_change\<^sup>*\<^sup>* db db'"
  using assms(2)
proof cases
  case (platform p)
  then have "sched_change db db'" by (intro sched_change.intros(3)) (simp add: job_change_def evolves_refl)
  then show ?thesis by blast
qed (simp_all add: create_changes update_changes[OF inv] delete_changes[OF inv] run_now_changes[OF inv] claim_changes[OF inv] dispatch_changes[OF inv])

lemma trigger_keeps_trans: "trigger_keeps a b \<Longrightarrow> trigger_keeps b c \<Longrightarrow> trigger_keeps a c"
  by (cases a, cases b, cases c) (auto simp: trigger_keeps_def)

lemma sched_rel_trans: "sched_rel a b \<Longrightarrow> sched_rel b c \<Longrightarrow> sched_rel a c"
  unfolding sched_rel_def by (meson evolves_trans job_keeps_trans trigger_keeps_trans queue_moves_trans)

lemma changes_inv:
  assumes "sched_change\<^sup>*\<^sup>* db db'" and "sched_inv db"
  shows "sched_inv db' \<and> sched_rel db db'"
  using assms
proof (induction rule: rtranclp_induct)
  case base
  then show ?case by (simp add: sched_rel_def evolves_refl)
next
  case (step b c)
  then show ?case using sched_change_inv sched_rel_trans by blast
qed

interpretation sched: step_system sched_start sched_step sched_inv sched_rel
proof
  show "sched_start db \<Longrightarrow> sched_inv db" for db by (simp add: sched_start_def sched_inv_def)
  show "sched_inv db \<Longrightarrow> sched_rel db db" for db by (simp add: sched_rel_def evolves_refl)
qed (blast intro: changes_inv step_changes sched_rel_trans dest: changes_inv[OF step_changes])+

section \<open>A small schedule\<close>

definition demo_job :: scheduled_agent_job where
  "demo_job = \<lparr>sj_id = [181], sj_uid = [121], sj_creation_request_id = [182], sj_creation_intent_hash = [], sj_project_id = [201],
     sj_agent_slug = [122], sj_name = [104], sj_prompt = [104], sj_tool_approval_mode = lit ''default'', sj_model_spec = None,
     sj_cron_expression = [42], sj_timezone = [90], sj_enabled = True, sj_deleted_at = None, sj_next_run_at = 10, sj_created_at = 1, sj_updated_at = 1\<rparr>"

definition demo_sw :: sched_world where
  "demo_sw = \<lparr>sw_valid_cron = (\<lambda>_. True), sw_valid_zone = (\<lambda>_. True), sw_next = (\<lambda>_ _ t. Some (t + 1)), sw_sha = (\<lambda>s. s), sw_intent = (\<lambda>_. []),
     sw_iso = (\<lambda>_. [105]), sw_error = (\<lambda>_. []), sw_raw = (\<lambda>_. JNull)\<rparr>"

definition demo_sched :: "scheduled_agent_job list \<Rightarrow> scheduled_agent_run list \<Rightarrow> sched_db" where
  "demo_sched js us = \<lparr>sd_platform = demo_platform, sd_jobs = js, sd_runs = us\<rparr>"

definition demo_trigger :: scheduled_agent_run where
  "demo_trigger = new_scheduled_run demo_sw demo_job Scheduled [111] 5 False None 5"

abbreviation demo_active_users :: "pystr \<Rightarrow> perm_user option" where
  "demo_active_users uid \<equiv> (if uid = [121] then Some demo_user else None)"

lemma demo_sched_simps [simp]:
  "sd_platform (demo_sched js us) = demo_platform" "sd_jobs (demo_sched js us) = js" "sd_runs (demo_sched js us) = us"
  by (simp_all add: demo_sched_def)



lemma demo_sched_inv: "sched_inv (demo_sched [demo_job] us)" if "us = [] \<or> us = [demo_trigger]"
  using that by (auto simp: sched_inv_def)

section \<open>Triggers\<close>



section \<open>Due jobs\<close>






section \<open>Manual triggers\<close>

lemma put_run_ids: "u \<in> set (sd_runs db) \<Longrightarrow> su_id u' = su_id u \<Longrightarrow> map su_id (sd_runs (put_scheduled_run u' db)) = map su_id (sd_runs db)"
  by (auto simp: put_scheduled_run_def update_where_def)

lemma dispatch_ids: "map su_id (sd_runs (fst (dispatch_scheduled_run sw w f us clk i db))) = map su_id (sd_runs db)"
proof -
  have settle: "map su_id (sd_runs (fst (settle_dispatch_error sw i e t db))) = map su_id (sd_runs db)" for e t
    by (auto simp: settle_dispatch_error_def Let_def put_scheduled_run_def update_where_def split: option.splits)
  have "map su_id (sd_runs (fst (case settle_dispatch_error sw i e t db of
        (db', None) \<Rightarrow> (db', Inl e)
      | (db', Some u') \<Rightarrow> if c \<or> su_status u' = Sr_submitted then (db', Inr (Some u')) else (db', Inl e)))) = map su_id (sd_runs db)" for e t c
    using settle[of e t] by (auto split: prod.splits option.splits)
  then show ?thesis
    by (auto simp: dispatch_scheduled_run_def Let_def put_scheduled_run_def update_where_def split: option.splits sum.splits)
qed

definition manual_run_id :: "sched_world \<Rightarrow> perm_user \<Rightarrow> pystr \<Rightarrow> pystr" where
  "manual_run_id sw user rid = build_request_id sw ''scheduled-run'' (uid_of user @ lit '':manual:'' @ rid)"

lemma manual_run_made:
  assumes "run_scheduled_job_now sw w f users i request_id user now db = (db', Inr (Some u))" and "normalize_request_id (rw_text w) request_id = Inr rid"
  shows "manual_run_id sw user rid \<in> su_id ` set (sd_runs db')"
proof -
  let ?id = "manual_run_id sw user rid"
  obtain j where j: "get_job i (uid_of user) False db = Some j"
    using assms by (auto simp: run_scheduled_job_now_def split: option.splits)
  have kept: "?id \<in> su_id ` set (sd_runs db')" if "x \<in> set (sd_runs db0)" "su_id x = ?id"
    "(if su_status y \<noteq> Sr_dispatching then (db0, Inr (Some y)) else dispatch_scheduled_run sw w f users now (su_id y) db0) = (db', Inr (Some u))" for db0 x y
  proof -
    have "?id \<in> set (map su_id (sd_runs db0))" using that(1,2) by force
    then have "?id \<in> set (map su_id (sd_runs db'))"
      using that(3) dispatch_ids[of sw w f users now "su_id y" db0] by (cases "su_status y = Sr_dispatching") (simp_all del: set_map)
    then show ?thesis by simp
  qed
  show ?thesis
  proof (cases "get_scheduled_run ?id db")
    case (Some x)
    have "(if su_status x \<noteq> Sr_dispatching then (db, Inr (Some x)) else dispatch_scheduled_run sw w f users now (su_id x) db) = (db', Inr (Some u))"
      using assms j Some by (auto simp: run_scheduled_job_now_def manual_run_id_def Let_def split: if_splits)
    then show ?thesis using kept[of x db x] scheduled_run_in[OF Some] by blast
  next
    case None
    let ?u = "new_scheduled_run sw j Manual (lit ''manual:'' @ rid) now (has_active_run (sj_id j) db) (Some (uid_of user @ lit '':manual:'' @ rid)) now"
    obtain db0 where a: "add_run ?u db = Inr db0"
      and g: "(if su_status ?u \<noteq> Sr_dispatching then (db0, Inr (Some ?u)) else dispatch_scheduled_run sw w f users now (su_id ?u) db0) = (db', Inr (Some u))"
      using assms j None by (auto simp: run_scheduled_job_now_def manual_run_id_def Let_def split: sum.splits simp del: new_run_fields)
    have "su_id ?u = ?id" by (simp add: new_scheduled_run_def manual_run_id_def Let_def lit_def)
    then show ?thesis using kept[of ?u db0 ?u] g add_run_effect(1)[OF a] by simp
  qed
qed

text \<open>
  starting a job by hand is idempotent in its request id: whatever happens in between, a repetition of the same user with the same id makes no second
  trigger, for the same job or for another one.
\<close>

theorem manual_run_idempotent:
  assumes "sched_inv db" and "run_scheduled_job_now sw w f users i request_id user now db = (db1, Inr (Some u))"
    and "sched_step\<^sup>*\<^sup>* db1 db2" and "run_scheduled_job_now sw w f' users' i' request_id user now' db2 = (db3, res)"
  shows "map su_id (sd_runs db3) = map su_id (sd_runs db2)"
proof -
  obtain rid where rid: "normalize_request_id (rw_text w) request_id = Inr rid"
    using assms(2) by (auto simp: run_scheduled_job_now_def split: sum.splits)
  have inv1: "sched_inv db1"
    using changes_inv[OF run_now_changes[OF assms(1), of sw w f users i request_id user now] assms(1)] assms(2) by simp
  have "evolves trigger_keeps (sd_runs db1) (sd_runs db2)" using sched.steps_rel[OF assms(3) inv1] by (simp add: sched_rel_def)
  moreover obtain x where "x \<in> set (sd_runs db1)" "su_id x = manual_run_id sw user rid" using manual_run_made[OF assms(2) rid] by force
  ultimately obtain y where y: "y \<in> set (sd_runs db2)" "trigger_keeps x y" by (meson evolves_in)
  then have "su_id y = manual_run_id sw user rid"
    using \<open>su_id x = manual_run_id sw user rid\<close> unfolding trigger_keeps_def
    by (metis scheduled_agent_run.select_convs(1) scheduled_agent_run.surjective scheduled_agent_run.update_convs(14,15))
  then obtain z where z: "get_scheduled_run (manual_run_id sw user rid) db2 = Some z"
    using y(1) find_ex_iff[of "\<lambda>u. su_id u = manual_run_id sw user rid" "sd_runs db2"] by (auto simp: get_scheduled_run_def)
  show ?thesis
  proof (cases "get_job i' (uid_of user) False db2")
    case None
    then show ?thesis using assms(4) rid by (auto simp: run_scheduled_job_now_def)
  next
    case (Some j)
    then have "db3 = db2 \<or> db3 = fst (dispatch_scheduled_run sw w f' users' now' (su_id z) db2)"
      using assms(4) rid z by (auto simp: run_scheduled_job_now_def manual_run_id_def Let_def split: if_splits)
    then show ?thesis using dispatch_ids by auto
  qed
qed

definition demo_now_id :: json where
  "demo_now_id = JStr [97, 97, 97, 97, 97, 97, 97, 97]"

lemma demo_now:
  "\<exists>db1 u. run_scheduled_job_now demo_sw demo_world f users [181] demo_now_id demo_user 7 (demo_sched [demo_job] [demo_trigger]) = (db1, Inr (Some u))
     \<and> run_scheduled_job_now demo_sw demo_world f users [181] demo_now_id demo_user 7 db1 = (db1, Inr (Some u))"
proof -
  let ?db = "demo_sched [demo_job] [demo_trigger]" and ?rid = "[97, 97, 97, 97, 97, 97, 97, 97]"
  let ?id = "121 # lit '':manual:'' @ ?rid"
  let ?u = "new_scheduled_run demo_sw demo_job Manual (lit ''manual:'' @ ?rid) 7 True (Some ?id) 7"
  let ?db1 = "?db\<lparr>sd_runs := [demo_trigger, ?u]\<rparr>"
  have rid: "normalize_request_id (rw_text demo_world) demo_now_id = Inr ?rid"
    by (simp add: normalize_request_id_def demo_now_id_def str_or_empty_def request_id_char_def py_strip_def is_space_def Let_def)
  have j: "get_job [181] [121] False ?db = Some demo_job" "get_job [181] [121] False ?db1 = Some demo_job" "sj_id demo_job = [181]"
    by (simp_all add: get_job_def demo_job_def)
  have t: "su_id demo_trigger \<noteq> su_id ?u" "su_request_id demo_trigger \<noteq> su_request_id ?u" "su_thread_id demo_trigger \<noteq> su_thread_id ?u"
    "su_occurrence_key demo_trigger \<noteq> su_occurrence_key ?u" "su_job_id demo_trigger = [181]"
    by (simp_all add: demo_trigger_def new_scheduled_run_def build_request_id_def demo_sw_def demo_job_def lit_def Let_def)
  have id: "build_request_id demo_sw ''scheduled-run'' ?id = su_id ?u" by (simp add: new_scheduled_run_def lit_def Let_def)
  have "validate_project (sj_project_id demo_job) [121] demo_platform = Inr demo_home"
    by (simp add: validate_project_def lock_active_for_user_def demo_platform_def demo_gov_def demo_home_def demo_job_def)
  moreover have "validate_agent demo_world (sj_agent_slug demo_job) demo_user (sj_project_id demo_job) demo_platform = Inr demo_main_agent"
    using demo_admitted demo_in_scope[of "[201]"]
    by (simp add: validate_agent_def demo_job_def) (simp add: demo_main_agent_def demo_world_def)
  moreover have "has_active_run [181] ?db" by (simp add: has_active_run_def execution_active_def demo_trigger_def t[unfolded demo_trigger_def] j(3))
  moreover have "add_run ?u ?db = Inr ?db1" using t by (simp add: add_run_def demo_sched_def j(3))
  moreover have "get_scheduled_run (su_id ?u) ?db = None" "get_scheduled_run (su_id ?u) ?db1 = Some ?u"
    using t(1) by (simp_all add: get_scheduled_run_def)
  ultimately have "run_scheduled_job_now demo_sw demo_world f users [181] demo_now_id demo_user 7 ?db = (?db1, Inr (Some ?u))"
    "run_scheduled_job_now demo_sw demo_world f users [181] demo_now_id demo_user 7 ?db1 = (?db1, Inr (Some ?u))"
    using id by (simp_all add: run_scheduled_job_now_def rid j Let_def)
  then show ?thesis by blast
qed

theorem manual_run_idempotent_witness:
  "\<exists>db1 db3 u res. run_scheduled_job_now demo_sw demo_world demo_fresh demo_active_users [181] demo_now_id demo_user 7
       (demo_sched [demo_job] [demo_trigger]) = (db1, Inr (Some u))
     \<and> run_scheduled_job_now demo_sw demo_world demo_fresh demo_active_users [181] demo_now_id demo_user 7 db1 = (db3, res)
     \<and> map su_id (sd_runs db3) = map su_id (sd_runs db1)"
proof -
  obtain db1 u where r: "run_scheduled_job_now demo_sw demo_world demo_fresh demo_active_users [181] demo_now_id demo_user 7
       (demo_sched [demo_job] [demo_trigger]) = (db1, Inr (Some u))"
    "run_scheduled_job_now demo_sw demo_world demo_fresh demo_active_users [181] demo_now_id demo_user 7 db1 = (db1, Inr (Some u))" using demo_now by blast
  from r manual_run_idempotent[OF demo_sched_inv[of "[demo_trigger]"] r(1) rtranclp.rtrancl_refl r(2)] show ?thesis by auto
qed

end
