(* ===== verification/Git_Texts.thy ===== *)
theory Git_Texts
  imports Yuanlei_Prelude
begin

text \<open>
  The message texts of \<^verbatim>\<open>services/project_git_service.py\<close> as code points, with their meaning.
\<close>

definition gm_connection_key :: pystr where \<comment> \<open>the request id is used for another connection\<close>
  "gm_connection_key =
   [114, 101, 113, 117, 101, 115, 116, 95, 105, 100, 32, 24050, 29992, 20110, 20854, 20182,
   32, 71, 105, 116, 32, 99, 111, 110, 110, 101, 99, 116, 105, 111, 110]"

definition gm_verify :: pystr where \<comment> \<open>the connection cannot be verified\<close>
  "gm_verify =
   [26080, 27861, 39564, 35777, 32, 71, 105, 116, 101, 97, 32, 99, 111, 110, 110, 101, 99,
   116, 105, 111, 110]"

definition gm_connection_taken :: pystr where \<comment> \<open>the name or the request id is taken\<close>
  "gm_connection_taken =
   [99, 111, 110, 110, 101, 99, 116, 105, 111, 110, 32, 21517, 31216, 25110, 32, 114, 101,
   113, 117, 101, 115, 116, 95, 105, 100, 32, 24050, 23384, 22312]"

definition gm_no_connection :: pystr where \<comment> \<open>there is no such connection\<close>
  "gm_no_connection =
   [71, 105, 116, 32, 99, 111, 110, 110, 101, 99, 116, 105, 111, 110, 32, 19981, 23384,
   22312]"

definition gm_verify_token :: pystr where \<comment> \<open>the new token cannot be verified\<close>
  "gm_verify_token =
   [26080, 27861, 39564, 35777, 26032, 30340, 32, 71, 105, 116, 101, 97, 32, 84, 111, 107,
   101, 110]"

definition gm_connection_used :: pystr where \<comment> \<open>the connection is still used\<close>
  "gm_connection_used =
   [99, 111, 110, 110, 101, 99, 116, 105, 111, 110, 32, 20173, 34987, 32, 80, 114, 111, 106,
   101, 99, 116, 32, 20179, 24211, 20351, 29992]"

definition gm_binding_key :: pystr where \<comment> \<open>the request id is used for another binding\<close>
  "gm_binding_key =
   [114, 101, 113, 117, 101, 115, 116, 95, 105, 100, 32, 24050, 29992, 20110, 20854, 20182,
   20179, 24211, 32465, 23450]"

definition gm_no_project_connection :: pystr where \<comment> \<open>there is no such project or connection\<close>
  "gm_no_project_connection =
   [80, 114, 111, 106, 101, 99, 116, 32, 25110, 32, 71, 105, 116, 32, 99, 111, 110, 110,
   101, 99, 116, 105, 111, 110, 32, 19981, 23384, 22312]"

definition gm_binding_taken :: pystr where \<comment> \<open>the alias or the request id is taken\<close>
  "gm_binding_taken =
   [114, 101, 112, 111, 115, 105, 116, 111, 114, 121, 32, 97, 108, 105, 97, 115, 32, 25110,
   32, 114, 101, 113, 117, 101, 115, 116, 95, 105, 100, 32, 24050, 23384, 22312]"

definition gm_policy_state :: pystr where \<comment> \<open>the policy of the repository cannot be changed now\<close>
  "gm_policy_state =
   [20179, 24211, 24403, 21069, 19981, 21487, 26356, 26032, 31574, 30053]"

definition gm_connection_unusable :: pystr where \<comment> \<open>the connection of the repository is unusable\<close>
  "gm_connection_unusable =
   [20179, 24211, 36830, 25509, 19981, 21487, 29992]"

definition gm_no_default :: pystr where \<comment> \<open>the remote default branch is not known yet\<close>
  "gm_no_default =
   [20179, 24211, 36828, 31471, 40664, 35748, 20998, 25903, 23578, 26410, 23601, 32490]"

definition gm_not_allowed :: pystr where \<comment> \<open>the configured branch must be one of the allowed ones\<close>
  "gm_not_allowed =
   [99, 111, 110, 102, 105, 103, 117, 114, 101, 100, 95, 98, 97, 115, 101, 95, 98, 114, 97,
   110, 99, 104, 32, 24517, 39035, 20301, 20110, 32, 97, 108, 108, 111, 119, 101, 100, 95,
   98, 97, 115, 101, 95, 98, 114, 97, 110, 99, 104, 101, 115]"

definition gm_no_branch :: pystr where \<comment> \<open>the policy names a branch that does not exist\<close>
  "gm_no_branch =
   [20179, 24211, 31574, 30053, 21253, 21547, 19981, 23384, 22312, 30340, 32, 71, 105, 116,
   101, 97, 32, 20998, 25903]"

definition gm_no_alias :: pystr where \<comment> \<open>no usable repository has this alias\<close>
  "gm_no_alias =
   [80, 114, 111, 106, 101, 99, 116, 32, 20013, 19981, 23384, 22312, 21487, 29992, 30340,
   20179, 24211, 32, 97, 108, 105, 97, 115]"

definition gm_concurrent :: pystr where \<comment> \<open>the allocation was created concurrently\<close>
  "gm_concurrent =
   [20179, 24211, 32, 97, 108, 108, 111, 99, 97, 116, 105, 111, 110, 32, 24050, 24182,
   21457, 21019, 24314]"

definition gm_no_retry :: pystr where \<comment> \<open>the repository of the task cannot be retried now\<close>
  "gm_no_retry =
   [20219, 21153, 20179, 24211, 24403, 21069, 19981, 21487, 37325, 35797]"

definition gm_binding_unusable :: pystr where \<comment> \<open>the binding is unusable now\<close>
  "gm_binding_unusable =
   [20179, 24211, 32465, 23450, 24403, 21069, 19981, 21487, 29992]"

definition gm_no_retry_binding :: pystr where \<comment> \<open>the repository cannot be retried now\<close>
  "gm_no_retry_binding =
   [20179, 24211, 24403, 21069, 19981, 21487, 37325, 35797]"

definition gm_no_binding :: pystr where \<comment> \<open>there is no such binding\<close>
  "gm_no_binding =
   [20179, 24211, 32465, 23450, 19981, 23384, 22312]"

definition gm_no_worktree :: pystr where \<comment> \<open>there is no such worktree\<close>
  "gm_no_worktree =
   [119, 111, 114, 107, 116, 114, 101, 101, 32, 19981, 23384, 22312]"

definition gm_active_run :: pystr where \<comment> \<open>the task still has an active run\<close>
  "gm_active_run =
   [20219, 21153, 20173, 26377, 36816, 34892, 20013, 30340, 32, 65, 103, 101, 110, 116, 82,
   117, 110]"

definition gm_no_owner :: pystr where \<comment> \<open>the owner of the worktree does not exist\<close>
  "gm_no_owner =
   [119, 111, 114, 107, 116, 114, 101, 101, 32, 24402, 23646, 19981, 23384, 22312]"

definition gm_unpushed :: pystr where \<comment> \<open>the worktree has progress that is not committed or not pushed\<close>
  "gm_unpushed =
   [119, 111, 114, 107, 116, 114, 101, 101, 32, 23384, 22312, 26410, 25552, 20132, 25110,
   26410, 25512, 36865, 36827, 23637]"

definition gm_base_not_allowed :: pystr where \<comment> \<open>the base branch is not allowed\<close>
  "gm_base_not_allowed =
   [98, 97, 115, 101, 95, 98, 114, 97, 110, 99, 104, 32, 19981, 22312, 20179, 24211, 20801,
   35768, 21015, 34920]"

definition gm_task_branch :: pystr where \<comment> \<open>the task branch must differ from base and default branch\<close>
  "gm_task_branch =
   [20219, 21153, 20998, 25903, 19981, 33021, 31561, 20110, 32, 98, 97, 115, 101, 47, 100,
   101, 102, 97, 117, 108, 116, 32, 98, 114, 97, 110, 99, 104]"

definition gm_request_task :: pystr where \<comment> \<open>the request id is used for the repository of another task\<close>
  "gm_request_task =
   [114, 101, 113, 117, 101, 115, 116, 95, 105, 100, 32, 24050, 29992, 20110, 20854, 20182,
   20219, 21153, 20179, 24211]"

definition gm_request_intent :: pystr where \<comment> \<open>the request id is used for another intent\<close>
  "gm_request_intent =
   [114, 101, 113, 117, 101, 115, 116, 95, 105, 100, 32, 24050, 29992, 20110, 20854, 20182,
   20179, 24211, 24847, 22270]"

definition gm_fixed :: pystr where \<comment> \<open>the task has fixed another branch for the repository\<close>
  "gm_fixed =
   [24403, 21069, 20219, 21153, 24050, 20026, 35813, 20179, 24211, 22266, 23450, 20854,
   20182, 20998, 25903, 24847, 22270]"

definition gm_no_conversation :: pystr where \<comment> \<open>there is no such conversation\<close>
  "gm_no_conversation =
   [67, 111, 110, 118, 101, 114, 115, 97, 116, 105, 111, 110, 32, 19981, 23384, 22312]"

definition gm_subagent :: pystr where \<comment> \<open>a subagent conversation cannot manage repositories\<close>
  "gm_subagent =
   [83, 117, 98, 65, 103, 101, 110, 116, 32, 67, 111, 110, 118, 101, 114, 115, 97, 116, 105,
   111, 110, 32, 19981, 33021, 31649, 29702, 20219, 21153, 20179, 24211]"

definition gm_known_host :: pystr where \<comment> \<open>the known host key does not match the endpoint\<close>
  "gm_known_host =
   [115, 115, 104, 95, 107, 110, 111, 119, 110, 95, 104, 111, 115, 116, 95, 107, 101, 121,
   32, 19982, 32, 83, 83, 72, 32, 101, 110, 100, 112, 111, 105, 110, 116, 32, 19981, 21305,
   37197]"

definition gm_alias :: pystr where \<comment> \<open>the alias is invalid\<close>
  "gm_alias =
   [114, 101, 112, 111, 115, 105, 116, 111, 114, 121, 32, 97, 108, 105, 97, 115, 32, 38750,
   27861]"

definition gm_identity :: pystr where \<comment> \<open>the repository identity is invalid\<close>
  "gm_identity =
   [71, 105, 116, 101, 97, 32, 114, 101, 112, 111, 115, 105, 116, 111, 114, 121, 32, 105,
   100, 101, 110, 116, 105, 116, 121, 32, 38750, 27861]"

definition gm_token :: pystr where \<comment> \<open>the token is invalid\<close>
  "gm_token =
   [71, 105, 116, 101, 97, 32, 65, 80, 73, 32, 84, 111, 107, 101, 110, 32, 38750, 27861]"

definition gm_invalid :: pystr where \<comment> \<open> is invalid\<close>
  "gm_invalid =
   [32, 38750, 27861]"

definition gm_policy :: pystr where \<comment> \<open>the branch policy is invalid\<close>
  "gm_policy =
   [71, 105, 116, 32, 98, 97, 115, 101, 32, 98, 114, 97, 110, 99, 104, 32, 31574, 30053,
   38750, 27861]"

definition gm_empty :: pystr where \<comment> \<open> must not be empty\<close>
  "gm_empty =
   [32, 19981, 33021, 20026, 31354]"

definition gm_no_project :: pystr where \<comment> \<open>there is no such project\<close>
  "gm_no_project =
   [80, 114, 111, 106, 101, 99, 116, 32, 19981, 23384, 22312]"

end
