(* ===== verification/Git_Paths.thy ===== *)
theory Git_Paths
  imports Git_Texts Projects
begin

text \<open>
  Directories and branches of Project Git (\<^verbatim>\<open>workspace/git_paths.py\<close>) and the input checks of \<^verbatim>\<open>services/project_git_service.py\<close>.

  \<open>git_world\<close> holds what these functions ask of libraries, the environment and the \<^verbatim>\<open>git\<close> program: SHA-256 in hexadecimal, the ASCII part of the NFKD form,
  lower case in Python and in SQL, the answer of \<^verbatim>\<open>git check-ref-format --branch\<close> and the variable \<^verbatim>\<open>YUXI_GIT_BRANCH_PREFIX\<close> with its default. The arguments have
  the types of the signatures, so \<^verbatim>\<open>str(value or "")\<close> is the value itself.
\<close>

datatype git_error =
    Git_http nat pystr
  | Git_http_code nat pystr
  | Git_value pystr
  | Git_permission pystr
  | Git_busy pystr
  | Git_selection pystr
  | Git_execution pystr
  | Git_runtime pystr
  | Git_integrity
  | Git_external

record git_world =
  gw_sha :: "pystr \<Rightarrow> pystr"
  gw_ascii :: "pystr \<Rightarrow> pystr"
  gw_lower :: "pystr \<Rightarrow> pystr"
  gw_sql_lower :: "pystr \<Rightarrow> pystr"
  gw_ref_ok :: "pystr \<Rightarrow> bool"
  gw_prefix :: pystr
  gw_dumps :: "json \<Rightarrow> pystr"

section \<open>Texts\<close>

definition has_prefix :: "pystr \<Rightarrow> pystr \<Rightarrow> bool" where
  "has_prefix p s \<longleftrightarrow> take (length p) s = p"

definition ends_with :: "pystr \<Rightarrow> pystr \<Rightarrow> bool" where
  "ends_with p s \<longleftrightarrow> has_prefix (rev p) (rev s)"

definition rstrip_char :: "nat \<Rightarrow> pystr \<Rightarrow> pystr" where
  "rstrip_char c s = rev (dropWhile (\<lambda>x. x = c) (rev s))"

definition strip_char :: "nat \<Rightarrow> pystr \<Rightarrow> pystr" where
  "strip_char c s = rstrip_char c (dropWhile (\<lambda>x. x = c) s)"

definition first_occurrences :: "pystr list \<Rightarrow> pystr list" where
  "first_occurrences xs = rev (remdups (rev xs))"

fun all_ok :: "('e + 'a) list \<Rightarrow> 'e + 'a list" where
  "all_ok [] = Inr []"
| "all_ok (Inl e # _) = Inl e"
| "all_ok (Inr x # rs) = (case all_ok rs of Inl e \<Rightarrow> Inl e | Inr xs \<Rightarrow> Inr (x # xs))"

definition kebab_char :: "nat \<Rightarrow> bool" where
  "kebab_char c \<longleftrightarrow> 97 \<le> c \<and> c \<le> 122 \<or> 48 \<le> c \<and> c \<le> 57"

definition word_char :: "nat \<Rightarrow> bool" where
  "word_char c \<longleftrightarrow> kebab_char c \<or> 65 \<le> c \<and> c \<le> 90"

definition hex_char :: "nat \<Rightarrow> bool" where
  "hex_char c \<longleftrightarrow> 48 \<le> c \<and> c \<le> 57 \<or> 97 \<le> c \<and> c \<le> 102"

text \<open>\<^verbatim>\<open>_UNSAFE_SLUG.sub("-", s)\<close>: every run of other characters becomes one hyphen.\<close>

fun squash :: "bool \<Rightarrow> pystr \<Rightarrow> pystr" where
  "squash _ [] = []"
| "squash inside (c # s) = (if kebab_char c then c # squash False s else if inside then squash True s else 45 # squash True s)"

text \<open>\<^verbatim>\<open>_SAFE_REF_PART\<close> and \<^verbatim>\<open>_BRANCH_SLUG\<close>\<close>

definition safe_ref_part :: "pystr \<Rightarrow> bool" where
  "safe_ref_part s \<longleftrightarrow> s \<noteq> [] \<and> word_char (hd s) \<and> list_all (\<lambda>c. word_char c \<or> c \<in> {45, 46, 95}) (tl s)"

definition kebab :: "pystr \<Rightarrow> bool" where
  "kebab s \<longleftrightarrow> list_all (\<lambda>segment. list_all (\<lambda>piece. piece \<noteq> [] \<and> list_all kebab_char piece) (split_at 45 [] segment)) (split_at 47 [] s)"

section \<open>Derived names\<close>

definition derive_repository_directory :: "git_world \<Rightarrow> pystr \<Rightarrow> pystr \<Rightarrow> pystr" where
  "derive_repository_directory w alias repository_id =
     (let slug = take 48 (strip_char 45 (squash False (gw_lower w (gw_ascii w alias))))
      in (if slug = [] then lit ''repo'' else slug) @ [45] @ take 12 (gw_sha w repository_id))"

definition derive_task_key :: "git_world \<Rightarrow> pystr \<Rightarrow> pystr \<Rightarrow> git_error + pystr" where
  "derive_task_key w uid scope =
     (if py_strip uid = [] \<or> py_strip scope = [] then Inl (Git_value (lit ''uid and runtime_scope_id are required''))
      else Inr (take 24 (gw_sha w (uid @ [0] @ scope))))"

definition configured_branch_prefix :: "git_world \<Rightarrow> git_error + pystr" where
  "configured_branch_prefix w =
     (let prefix = py_strip (gw_prefix w);
          parts = (if ends_with [47] prefix then split_at 47 [] (butlast prefix) else [])
      in if parts = [] \<or> list_ex (\<lambda>p. \<not> safe_ref_part p) parts
         then Inl (Git_value (lit ''YUXI_GIT_BRANCH_PREFIX must be a safe prefix ending with '' @ [39, 47, 39]))
         else if list_ex (\<lambda>p. ends_with [46] p \<or> ends_with (lit ''.lock'') p) parts \<or> has_infix [64, 123] prefix
         then Inl (Git_value (lit ''YUXI_GIT_BRANCH_PREFIX contains invalid ref characters''))
         else Inr prefix)"

definition derive_task_branch :: "git_world \<Rightarrow> pystr \<Rightarrow> pystr \<Rightarrow> git_error + pystr" where
  "derive_task_branch w uid scope =
     and_then (configured_branch_prefix w) (\<lambda>prefix. and_then (derive_task_key w uid scope) (\<lambda>key. Inr (prefix @ lit ''task-'' @ key)))"

definition normalize_branch_slug :: "git_world \<Rightarrow> pystr \<Rightarrow> git_error + pystr" where
  "normalize_branch_slug w v =
     (let slug = gw_lower w (py_strip v)
      in if slug = [] \<or> 48 < length slug \<or> \<not> kebab slug
         then Inl (Git_value (lit ''branch_slug must be ASCII kebab-case with at most 48 characters'')) else Inr slug)"

definition normalize_base_branch :: "git_world \<Rightarrow> pystr \<Rightarrow> git_error + pystr" where
  "normalize_base_branch w v =
     (let branch = py_strip v
      in if branch = [] \<or> 255 < length branch \<or> has_prefix (lit ''refs/'') branch \<or> \<not> gw_ref_ok w branch
         then Inl (Git_value (lit ''invalid base branch'')) else Inr branch)"

definition branch_kinds :: "pystr list" where
  "branch_kinds = [lit ''feature'', lit ''fix'', lit ''docs'', lit ''refactor'', lit ''chore'', lit ''test'']"

definition derive_allocation_branch :: "git_world \<Rightarrow> pystr \<Rightarrow> pystr \<Rightarrow> pystr \<Rightarrow> pystr \<Rightarrow> git_error + pystr" where
  "derive_allocation_branch w kind slug uid scope =
     (let k = py_strip kind
      in if k \<notin> set branch_kinds then Inl (Git_value (lit ''unsupported branch_kind''))
         else and_then (configured_branch_prefix w) (\<lambda>prefix.
              and_then (normalize_branch_slug w slug) (\<lambda>s.
              and_then (derive_task_key w uid scope) (\<lambda>key.
                let branch = prefix @ k @ [47] @ s @ [45] @ take 8 key
                in if gw_ref_ok w branch then Inr branch
                   else Inl (Git_value (lit ''generated task branch is not a valid Git branch''))))))"

definition path_component_ok :: "pystr \<Rightarrow> bool" where
  "path_component_ok s \<longleftrightarrow> s \<noteq> [] \<and> 47 \<notin> set s \<and> 92 \<notin> set s \<and> s \<notin> {lit ''.'', lit ''..''}"

definition repository_relative_paths :: "pystr \<Rightarrow> pystr option \<Rightarrow> git_error + pystr \<times> pystr option" where
  "repository_relative_paths directory_name task_key =
     (if \<not> path_component_ok directory_name \<or> (case task_key of None \<Rightarrow> False | Some k \<Rightarrow> \<not> path_component_ok k)
      then Inl (Git_value (lit ''invalid Git path component''))
      else let base = lit ''repos/'' @ directory_name
           in Inr (base @ lit ''/repository.git'', map_option (\<lambda>k. base @ lit ''/worktrees/'' @ k) task_key))"

definition require_commit_sha :: "git_world \<Rightarrow> pystr \<Rightarrow> git_error + pystr" where
  "require_commit_sha w v =
     (let n = gw_lower w (py_strip v)
      in if list_all hex_char n \<and> length n \<in> {40, 64} then Inr n
         else Inl (Git_value (lit ''expected_head_sha must be a full commit SHA'')))"

section \<open>Checks of the service\<close>

definition required :: "pystr \<Rightarrow> pystr \<Rightarrow> git_error + pystr" where
  "required v field = (let n = py_strip v in if n = [] then Inl (Git_http 422 (field @ gm_empty)) else Inr n)"

definition validate_alias :: "pystr \<Rightarrow> git_error + pystr" where
  "validate_alias v =
     and_then (required v (lit ''alias'')) (\<lambda>alias.
       if 80 < length alias \<or> alias \<in> {lit ''.'', lit ''..''} \<or> list_ex (\<lambda>c. c < 32) alias then Inl (Git_http 422 gm_alias) else Inr alias)"

definition validate_repository_part :: "pystr \<Rightarrow> git_error + pystr" where
  "validate_repository_part v =
     and_then (required v (lit ''repository identity'')) (\<lambda>n.
       if 255 < length n \<or> list_ex (\<lambda>c. c \<in> {47, 92, 58, 64}) n \<or> n \<in> {lit ''.'', lit ''..''} then Inl (Git_http 422 gm_identity) else Inr n)"

definition validate_api_token :: "json \<Rightarrow> git_error + pystr" where
  "validate_api_token v = (case v of JStr s \<Rightarrow> if s = [] \<or> 4096 < length s then Inl (Git_http 422 gm_token) else Inr s | _ \<Rightarrow> Inl (Git_http 422 gm_token))"

definition validate_purpose :: "pystr \<Rightarrow> pystr \<Rightarrow> git_error + pystr" where
  "validate_purpose v field =
     and_then (required v field) (\<lambda>n.
       if 500 < length n \<or> list_ex (\<lambda>c. c < 32 \<and> c \<noteq> 10 \<and> c \<noteq> 9) n then Inl (Git_http 422 (field @ gm_invalid)) else Inr n)"

definition normalize_repository_policy :: "git_world \<Rightarrow> pystr option \<Rightarrow> pystr list option \<Rightarrow> git_error + pystr option \<times> pystr list" where
  "normalize_repository_policy w configured allowed =
     (let c = (if or_empty configured = [] then Inr None
               else (case normalize_base_branch w (or_empty configured) of Inl e \<Rightarrow> Inl e | Inr b \<Rightarrow> Inr (Some b)));
          a = (case allowed of None \<Rightarrow> Inr [] | Some bs \<Rightarrow> all_ok (map (normalize_base_branch w) bs))
      in case (c, a) of
           (Inr configured', Inr bs) \<Rightarrow>
             let allowed' = first_occurrences bs
             in if configured' \<noteq> None \<and> allowed' \<noteq> [] \<and> the configured' \<notin> set allowed' then Inl (Git_http 422 gm_not_allowed)
                else Inr (configured', allowed')
         | _ \<Rightarrow> Inl (Git_http 422 gm_policy))"

text \<open>
  \<^verbatim>\<open>str.splitlines\<close> with empty lines dropped, so that a carriage return and line feed may be read as two breaks; and the first word of a line.
\<close>

definition git_line_break :: "nat \<Rightarrow> bool" where
  "git_line_break c \<longleftrightarrow> 10 \<le> c \<and> c \<le> 13 \<or> 28 \<le> c \<and> c \<le> 30 \<or> c = 133 \<or> c = 8232 \<or> c = 8233"

fun split_lines :: "pystr \<Rightarrow> pystr \<Rightarrow> pystr list" where
  "split_lines acc [] = [rev acc]"
| "split_lines acc (c # s) = (if git_line_break c then rev acc # split_lines [] s else split_lines (c # acc) s)"

definition int_text :: "int \<Rightarrow> pystr" where
  "int_text i = (if i < 0 then 45 # nat_str (nat (- i)) else nat_str (nat i))"

definition validate_known_host :: "pystr \<Rightarrow> pystr \<Rightarrow> int \<Rightarrow> git_error + unit" where
  "validate_known_host v ssh_host ssh_port =
     (let lines = map py_strip (filter (\<lambda>l. py_strip l \<noteq> [] \<and> \<not> has_prefix [35] l) (split_lines [] v));
          expected = (if ssh_port = 22 then ssh_host else [91] @ ssh_host @ [93, 58] @ int_text ssh_port)
      in if list_ex (\<lambda>l. takeWhile (\<lambda>c. \<not> is_space c) l = expected) lines then Inr () else Inl (Git_http 422 gm_known_host))"

section \<open>Lemmas\<close>

lemma has_prefix_append [simp]: "has_prefix p (p @ s)"
  by (simp add: has_prefix_def)

lemma has_prefixE:
  assumes "has_prefix p s"
  obtains t where "s = p @ t"
  using assms by (metis append_take_drop_id has_prefix_def)

end
