(* ===== verification/Project_Git.thy ===== *)
theory Project_Git
  imports Git_Paths
begin

text \<open>
  Project Git: \<^verbatim>\<open>repositories/project_git_repository.py\<close> and \<^verbatim>\<open>services/project_git_service.py\<close>, with the tables of credentials, connections, repository
  bindings (declared with the projects) and worktrees.

  Work on a remote or on the file system goes on between transactions, so an operation of a worker is several functions: one per transaction and one for the
  remote part, which is computed from the answers of the hosting service (\<open>hosting\<close>) and of the \<^verbatim>\<open>git\<close> program. What other transactions commit in between is an
  argument of the composed operation. An exception rolls its transaction back. Encryption is an argument: \<open>encrypted\<close> is a sealed secret, \<open>None\<close> when no key is configured,
  and \<open>decrypt\<close> opens a row or raises (\<open>None\<close>). \<open>seen\<close> is the database a request read before it waited for the hosting service.
\<close>

section \<open>Tables\<close>

datatype credential_status = Credential_active | Credential_destroyed

record git_credential =
  kc_id :: pystr
  kc_uid :: pystr
  kc_purpose :: pystr
  kc_ciphertext :: "nat list"
  kc_nonce :: "nat list"
  kc_key_version :: int
  kc_status :: credential_status
  kc_created_at :: time
  kc_destroyed_at :: "time option"

datatype connection_status = Connection_active | Connection_disabled

record git_connection =
  cn_id :: pystr
  cn_uid :: pystr
  cn_name :: pystr
  cn_provider :: pystr
  cn_api_origin :: pystr
  cn_ssh_host :: pystr
  cn_ssh_port :: int
  cn_ssh_known_host_key :: pystr
  cn_api_token_credential_id :: pystr
  cn_status :: connection_status
  cn_idempotency_key :: pystr
  cn_created_at :: time
  cn_updated_at :: time

datatype worktree_status = Wt_requested | Wt_preparing | Wt_ready | Wt_prepare_failed | Wt_cleanup_pending | Wt_cleanup_failed | Wt_removed

datatype selection_source = By_user | By_agent | By_legacy

record project_git_worktree =
  wt_id :: pystr
  wt_repository_id :: pystr
  wt_project_id :: pystr
  wt_uid :: pystr
  wt_runtime_scope_id :: pystr
  wt_task_key :: pystr
  wt_selection_source :: selection_source
  wt_task_purpose :: pystr
  wt_branch_kind :: pystr
  wt_branch_slug :: "pystr option"
  wt_requested_by_run_id :: "pystr option"
  wt_allocation_generation :: int
  wt_selection_request_id :: "pystr option"
  wt_branch_name :: pystr
  wt_base_branch :: pystr
  wt_base_sha :: "pystr option"
  wt_last_observed_head_sha :: "pystr option"
  wt_last_pushed_sha :: "pystr option"
  wt_relative_path :: pystr
  wt_status :: worktree_status
  wt_lease_owner :: "pystr option"
  wt_lease_expires_at :: "time option"
  wt_last_error_code :: "pystr option"
  wt_last_error_message :: "pystr option"
  wt_created_at :: time
  wt_updated_at :: time

record operation_log =
  ol_user_id :: int
  ol_operation :: pystr
  ol_details :: pystr
  ol_timestamp :: time

record git_db =
  pg_platform :: platform_db
  pg_credentials :: "git_credential list"
  pg_connections :: "git_connection list"
  pg_bindings :: "project_git_repository list"
  pg_worktrees :: "project_git_worktree list"
  pg_logs :: "operation_log list"

section \<open>Repository\<close>

definition add_credential :: "git_credential \<Rightarrow> git_db \<Rightarrow> git_error + git_db" where
  "add_credential k db =
     (if kc_id k \<in> set (map kc_id (pg_credentials db)) then Inl Git_integrity
      else Inr (db\<lparr>pg_credentials := pg_credentials db @ [k]\<rparr>))"

definition get_credential :: "pystr \<Rightarrow> pystr \<Rightarrow> git_db \<Rightarrow> git_credential option" where
  "get_credential i uid db = find (\<lambda>k. kc_id k = i \<and> kc_uid k = uid \<and> kc_status k = Credential_active) (pg_credentials db)"

definition destroyed :: "time \<Rightarrow> git_credential \<Rightarrow> git_credential" where
  "destroyed now k = k\<lparr>kc_ciphertext := [], kc_nonce := [], kc_status := Credential_destroyed, kc_destroyed_at := Some now\<rparr>"

definition destroy_credential :: "pystr \<Rightarrow> time \<Rightarrow> git_db \<Rightarrow> git_db" where
  "destroy_credential i now db = db\<lparr>pg_credentials := update_where (\<lambda>k. kc_id k = i) (destroyed now) (pg_credentials db)\<rparr>"

definition add_connection :: "git_world \<Rightarrow> git_connection \<Rightarrow> git_db \<Rightarrow> git_error + git_db" where
  "add_connection w c db =
     (if cn_id c \<in> set (map cn_id (pg_connections db))
         \<or> (cn_uid c, cn_idempotency_key c) \<in> set (map (\<lambda>x. (cn_uid x, cn_idempotency_key x)) (pg_connections db))
         \<or> (cn_uid c, gw_sql_lower w (cn_name c)) \<in> set (map (\<lambda>x. (cn_uid x, gw_sql_lower w (cn_name x))) (pg_connections db))
         \<or> (cn_api_token_credential_id c, cn_uid c) \<notin> set (map (\<lambda>k. (kc_id k, kc_uid k)) (pg_credentials db))
         \<or> cn_provider c \<noteq> lit ''gitea''
      then Inl Git_integrity else Inr (db\<lparr>pg_connections := pg_connections db @ [c]\<rparr>))"

definition get_connection :: "pystr \<Rightarrow> pystr \<Rightarrow> bool \<Rightarrow> git_db \<Rightarrow> git_connection option" where
  "get_connection i uid active_only db =
     find (\<lambda>c. cn_id c = i \<and> cn_uid c = uid \<and> (active_only \<longrightarrow> cn_status c = Connection_active)) (pg_connections db)"

definition put_connection :: "git_connection \<Rightarrow> git_db \<Rightarrow> git_db" where
  "put_connection c db = db\<lparr>pg_connections := update_where (\<lambda>x. cn_id x = cn_id c) (\<lambda>_. c) (pg_connections db)\<rparr>"

definition get_connection_by_idempotency_key :: "pystr \<Rightarrow> pystr \<Rightarrow> git_db \<Rightarrow> git_connection option" where
  "get_connection_by_idempotency_key request_id uid db = find (\<lambda>c. cn_uid c = uid \<and> cn_idempotency_key c = request_id) (pg_connections db)"

definition connection_has_live_bindings :: "pystr \<Rightarrow> pystr \<Rightarrow> git_db \<Rightarrow> bool" where
  "connection_has_live_bindings i uid db \<longleftrightarrow>
     list_ex (\<lambda>b. gb_connection_id b = i \<and> gb_uid b = uid \<and> gb_status b \<noteq> Git_disabled) (pg_bindings db)"

definition add_git_binding :: "git_world \<Rightarrow> project_git_repository \<Rightarrow> git_db \<Rightarrow> git_error + git_db" where
  "add_git_binding w b db =
     (if gb_id b \<in> set (map gb_id (pg_bindings db))
         \<or> (gb_uid b, gb_idempotency_key b) \<in> set (map (\<lambda>x. (gb_uid x, gb_idempotency_key x)) (pg_bindings db))
         \<or> (gb_project_id b, gw_sql_lower w (gb_alias b)) \<in> set (map (\<lambda>x. (gb_project_id x, gw_sql_lower w (gb_alias x))) (pg_bindings db))
         \<or> (gb_project_id b, gb_uid b) \<notin> set (map (\<lambda>p. (pr_id p, pr_uid p)) (gv_projects (pf_gov (pg_platform db))))
         \<or> (gb_connection_id b, gb_uid b) \<notin> set (map (\<lambda>c. (cn_id c, cn_uid c)) (pg_connections db))
         \<or> (gb_deploy_private_credential_id b, gb_uid b) \<notin> set (map (\<lambda>k. (kc_id k, kc_uid k)) (pg_credentials db))
      then Inl Git_integrity else Inr (db\<lparr>pg_bindings := pg_bindings db @ [b]\<rparr>))"

definition get_binding :: "pystr \<Rightarrow> pystr \<Rightarrow> git_db \<Rightarrow> project_git_repository option" where
  "get_binding i uid db = find (\<lambda>b. gb_id b = i \<and> gb_uid b = uid) (pg_bindings db)"

definition put_binding :: "project_git_repository \<Rightarrow> git_db \<Rightarrow> git_db" where
  "put_binding b db = db\<lparr>pg_bindings := update_where (\<lambda>x. gb_id x = gb_id b) (\<lambda>_. b) (pg_bindings db)\<rparr>"

definition get_binding_by_idempotency_key :: "pystr \<Rightarrow> pystr \<Rightarrow> git_db \<Rightarrow> project_git_repository option" where
  "get_binding_by_idempotency_key request_id uid db = find (\<lambda>b. gb_uid b = uid \<and> gb_idempotency_key b = request_id) (pg_bindings db)"

definition get_active_binding_by_alias :: "git_world \<Rightarrow> pystr \<Rightarrow> pystr \<Rightarrow> pystr \<Rightarrow> git_db \<Rightarrow> project_git_repository option" where
  "get_active_binding_by_alias w project_id uid alias db =
     find (\<lambda>b. gb_project_id b = project_id \<and> gb_uid b = uid \<and> gw_sql_lower w (gb_alias b) = gw_lower w alias \<and> gb_status b = Git_active) (pg_bindings db)"

definition project_has_non_disabled_binding :: "pystr \<Rightarrow> pystr \<Rightarrow> git_db \<Rightarrow> bool" where
  "project_has_non_disabled_binding project_id uid db \<longleftrightarrow>
     list_ex (\<lambda>b. gb_project_id b = project_id \<and> gb_uid b = uid \<and> gb_status b \<noteq> Git_disabled) (pg_bindings db)"

definition list_pending_bindings :: "git_db \<Rightarrow> project_git_repository list" where
  "list_pending_bindings db = filter (\<lambda>b. gb_status b \<in> {Git_provisioning, Git_provision_failed, Git_deleting, Git_delete_failed}) (pg_bindings db)"

definition get_worktree :: "pystr \<Rightarrow> pystr \<Rightarrow> pystr \<Rightarrow> git_db \<Rightarrow> project_git_worktree option" where
  "get_worktree repository_id scope uid db =
     find (\<lambda>t. wt_repository_id t = repository_id \<and> wt_runtime_scope_id t = scope \<and> wt_uid t = uid) (pg_worktrees db)"

definition get_worktree_by_id :: "pystr \<Rightarrow> git_db \<Rightarrow> project_git_worktree option" where
  "get_worktree_by_id i db = find (\<lambda>t. wt_id t = i) (pg_worktrees db)"

definition put_worktree :: "project_git_worktree \<Rightarrow> git_db \<Rightarrow> git_db" where
  "put_worktree t db = db\<lparr>pg_worktrees := update_where (\<lambda>x. wt_id x = wt_id t) (\<lambda>_. t) (pg_worktrees db)\<rparr>"

definition branch_shape_ok :: "project_git_worktree \<Rightarrow> bool" where
  "branch_shape_ok t \<longleftrightarrow> wt_branch_kind t \<in> set (lit ''legacy'' # branch_kinds) \<and> (wt_branch_kind t = lit ''legacy'' \<longleftrightarrow> wt_branch_slug t = None)"

definition add_worktree :: "project_git_worktree \<Rightarrow> git_db \<Rightarrow> git_error + git_db" where
  "add_worktree t db =
     (if wt_id t \<in> set (map wt_id (pg_worktrees db))
         \<or> (wt_repository_id t, wt_runtime_scope_id t) \<in> set (map (\<lambda>x. (wt_repository_id x, wt_runtime_scope_id x)) (pg_worktrees db))
         \<or> wt_selection_request_id t \<noteq> None
           \<and> (wt_uid t, wt_selection_request_id t) \<in> set (map (\<lambda>x. (wt_uid x, wt_selection_request_id x)) (pg_worktrees db))
         \<or> (wt_repository_id t, wt_project_id t, wt_uid t) \<notin> set (map (\<lambda>b. (gb_id b, gb_project_id b, gb_uid b)) (pg_bindings db))
         \<or> \<not> branch_shape_ok t
      then Inl Git_integrity else Inr (db\<lparr>pg_worktrees := pg_worktrees db @ [t]\<rparr>))"

definition get_worktree_by_selection_request :: "pystr \<Rightarrow> pystr \<Rightarrow> git_db \<Rightarrow> project_git_worktree option" where
  "get_worktree_by_selection_request request_id uid db = find (\<lambda>t. wt_uid t = uid \<and> wt_selection_request_id t = Some request_id) (pg_worktrees db)"

definition list_scope_worktrees :: "pystr \<Rightarrow> pystr \<Rightarrow> git_db \<Rightarrow> project_git_worktree list" where
  "list_scope_worktrees scope uid db =
     sort_key wt_created_at (filter (\<lambda>t. wt_runtime_scope_id t = scope \<and> wt_uid t = uid \<and> wt_status t \<noteq> Wt_removed) (pg_worktrees db))"

definition get_project_worktree :: "pystr \<Rightarrow> pystr \<Rightarrow> pystr \<Rightarrow> git_db \<Rightarrow> project_git_worktree option" where
  "get_project_worktree i project_id uid db = find (\<lambda>t. wt_id t = i \<and> wt_project_id t = project_id \<and> wt_uid t = uid) (pg_worktrees db)"

definition list_pending_worktrees :: "git_db \<Rightarrow> project_git_worktree list" where
  "list_pending_worktrees db = filter (\<lambda>t. wt_status t \<in> {Wt_cleanup_pending, Wt_cleanup_failed}) (pg_worktrees db)"

definition has_nonterminal_run :: "pystr \<Rightarrow> pystr \<Rightarrow> pystr \<Rightarrow> git_db \<Rightarrow> bool" where
  "has_nonterminal_run project_id scope uid db \<longleftrightarrow>
     list_ex (\<lambda>r. ar_runtime_scope_id r = scope \<and> ar_uid r = uid \<and> \<not> terminal (ar_status r)
         \<and> list_ex (\<lambda>c. ar_conversation_id r = Some (cv_id c) \<and> cv_project_id c = project_id) (qd_conversations (pf_queue (pg_platform db))))
       (db_runs (pf_queue (pg_platform db)))"

definition acquire_worktree_lease :: "project_git_worktree \<Rightarrow> pystr \<Rightarrow> time \<Rightarrow> time \<Rightarrow> git_db \<Rightarrow> git_db \<times> bool" where
  "acquire_worktree_lease t owner expires_at now db =
     (if or_empty (wt_lease_owner t) \<noteq> [] \<and> wt_lease_owner t \<noteq> Some owner \<and> (case wt_lease_expires_at t of None \<Rightarrow> False | Some e \<Rightarrow> now < e)
      then (db, False)
      else (put_worktree (t\<lparr>wt_lease_owner := Some owner, wt_lease_expires_at := Some expires_at, wt_status := Wt_preparing, wt_updated_at := now\<rparr>) db, True))"

end
