(* ===== verification/Git_Service.thy ===== *)
theory Git_Service
  imports Project_Git
begin

text \<open>
  The use cases of \<^verbatim>\<open>services/project_git_service.py\<close>: connections and their tokens, repository bindings with their provisioning and revocation by jobs that carry the
  generation of the intent they serve, worktrees of tasks with their leases, cleanup, and the push of a task branch.
\<close>

section \<open>Connections\<close>

record encrypted =
  en_id :: pystr
  en_ciphertext :: "nat list"
  en_nonce :: "nat list"
  en_key_version :: int

type_synonym decryption = "git_credential \<Rightarrow> pystr option"

definition credential_model :: "encrypted \<Rightarrow> pystr \<Rightarrow> string \<Rightarrow> time \<Rightarrow> git_credential" where
  "credential_model e uid purpose clk =
     \<lparr>kc_id = en_id e, kc_uid = uid, kc_purpose = lit purpose, kc_ciphertext = en_ciphertext e, kc_nonce = en_nonce e,
      kc_key_version = en_key_version e, kc_status = Credential_active, kc_created_at = clk, kc_destroyed_at = None\<rparr>"

definition not_configured :: git_error where
  "not_configured = Git_http_code 503 (lit ''git_not_configured'')"

record connection_request =
  cq_request_id :: pystr
  cq_name :: pystr
  cq_provider :: pystr
  cq_api_origin :: pystr
  cq_ssh_host :: pystr
  cq_ssh_port :: int
  cq_ssh_known_host_key :: pystr
  cq_api_token :: json

definition connection_intent_matches :: "git_world \<Rightarrow> decryption \<Rightarrow> connection_request \<Rightarrow> pystr \<Rightarrow> pystr \<Rightarrow> git_connection \<Rightarrow> git_db \<Rightarrow> bool" where
  "connection_intent_matches w decrypt req token uid c db =
     (case get_credential (cn_api_token_credential_id c) uid db of
        None \<Rightarrow> False
      | Some k \<Rightarrow>
          (case decrypt k of
             None \<Rightarrow> False
           | Some stored \<Rightarrow>
               cn_name c = py_strip (cq_name req) \<and> cn_provider c = gw_lower w (py_strip (cq_provider req))
               \<and> cn_api_origin c = rstrip_char 47 (cq_api_origin req) \<and> cn_ssh_host c = py_strip (cq_ssh_host req)
               \<and> cn_ssh_port c = cq_ssh_port req \<and> cn_ssh_known_host_key c = py_strip (cq_ssh_known_host_key req) \<and> stored = token))"

definition new_connection :: "git_world \<Rightarrow> pystr \<Rightarrow> pystr \<Rightarrow> pystr \<Rightarrow> pystr \<Rightarrow> pystr \<Rightarrow> time \<Rightarrow> connection_request \<Rightarrow> git_connection" where
  "new_connection w new_id uid name request_id credential_id clk req =
     \<lparr>cn_id = new_id, cn_uid = uid, cn_name = take 100 name, cn_provider = gw_lower w (cq_provider req),
      cn_api_origin = rstrip_char 47 (cq_api_origin req), cn_ssh_host = py_strip (cq_ssh_host req), cn_ssh_port = cq_ssh_port req,
      cn_ssh_known_host_key = py_strip (cq_ssh_known_host_key req), cn_api_token_credential_id = credential_id,
      cn_status = Connection_active, cn_idempotency_key = request_id, cn_created_at = clk, cn_updated_at = clk\<rparr>"

definition create_git_connection_view ::
  "git_world \<Rightarrow> decryption \<Rightarrow> encrypted option \<Rightarrow> bool \<Rightarrow> pystr \<Rightarrow> time \<Rightarrow> pystr \<Rightarrow> connection_request \<Rightarrow> git_db \<Rightarrow> git_db
   \<Rightarrow> git_error + git_db \<times> git_connection" where
  "create_git_connection_view w decrypt enc verified new_id clk uid req seen db =
     and_then (validate_api_token (cq_api_token req)) (\<lambda>token.
     and_then (required (cq_request_id req) (lit ''request_id'')) (\<lambda>rid.
     case get_connection_by_idempotency_key rid uid seen of
       Some c \<Rightarrow> if connection_intent_matches w decrypt req token uid c seen then Inr (db, c) else Inl (Git_http 409 gm_connection_key)
     | None \<Rightarrow>
         and_then (validate_known_host (cq_ssh_known_host_key req) (cq_ssh_host req) (cq_ssh_port req)) (\<lambda>_.
         case enc of
           None \<Rightarrow> Inl not_configured
         | Some e \<Rightarrow>
             if \<not> verified \<or> py_strip token = [] then Inl (Git_http 422 gm_verify)
             else and_then (required (cq_name req) (lit ''name'')) (\<lambda>name.
               let c = new_connection w new_id uid name rid (en_id e) clk req
               in case and_then (add_credential (credential_model e uid ''gitea_api_token'' clk) db) (add_connection w c) of
                    Inr db' \<Rightarrow> Inr (db', c)
                  | Inl _ \<Rightarrow>
                      (case get_connection_by_idempotency_key rid uid db of
                         None \<Rightarrow> Inl (Git_http 409 gm_connection_taken)
                       | Some r \<Rightarrow> if connection_intent_matches w decrypt req token uid r db then Inr (db, r)
                                   else Inl (Git_http 409 gm_connection_taken))))))"

datatype verification = Verified | Verify_failed | Provider_error

definition rotate_git_connection_credential_view ::
  "encrypted option \<Rightarrow> verification \<Rightarrow> pystr \<Rightarrow> pystr \<Rightarrow> json \<Rightarrow> time \<Rightarrow> git_db \<Rightarrow> git_error + git_db \<times> git_connection" where
  "rotate_git_connection_credential_view enc outcome uid connection_id api_token now db =
     and_then (validate_api_token api_token) (\<lambda>token.
     case get_connection connection_id uid True db of
       None \<Rightarrow> Inl (Git_http 404 gm_no_connection)
     | Some c \<Rightarrow>
         (case enc of
            None \<Rightarrow> Inl not_configured
          | Some e \<Rightarrow>
              and_then (required token (lit ''api_token'')) (\<lambda>_.
              if outcome = Provider_error then Inl Git_external
              else if outcome = Verify_failed then Inl (Git_http 422 gm_verify_token)
              else and_then (add_credential (credential_model e uid ''gitea_api_token'' now) db) (\<lambda>db1.
                let c' = c\<lparr>cn_api_token_credential_id := en_id e, cn_updated_at := now\<rparr>;
                    db2 = put_connection c' db1
                in Inr (case get_credential (cn_api_token_credential_id c) uid db of None \<Rightarrow> db2 | Some k \<Rightarrow> destroy_credential (kc_id k) now db2, c')))))"

definition delete_git_connection_view :: "pystr \<Rightarrow> pystr \<Rightarrow> time \<Rightarrow> git_db \<Rightarrow> git_error + git_db" where
  "delete_git_connection_view uid connection_id now db =
     (case get_connection connection_id uid True db of
        None \<Rightarrow> Inl (Git_http 404 gm_no_connection)
      | Some c \<Rightarrow>
          if connection_has_live_bindings connection_id uid db then Inl (Git_http 409 gm_connection_used)
          else
            let db1 = (case get_credential (cn_api_token_credential_id c) uid db of None \<Rightarrow> db | Some k \<Rightarrow> destroy_credential (kc_id k) now db)
            in Inr (put_connection (c\<lparr>cn_status := Connection_disabled, cn_updated_at := now\<rparr>) db1))"

section \<open>Bindings\<close>

record binding_request =
  bq_request_id :: pystr
  bq_connection_id :: pystr
  bq_alias :: pystr
  bq_repository_owner :: pystr
  bq_repository_name :: pystr
  bq_purpose :: pystr
  bq_configured_base_branch :: "pystr option"
  bq_allowed_base_branches :: "pystr list option"

definition binding_intent_matches :: "git_world \<Rightarrow> pystr \<Rightarrow> binding_request \<Rightarrow> project_git_repository \<Rightarrow> bool" where
  "binding_intent_matches w project_id req b =
     (case (normalize_repository_policy w (bq_configured_base_branch req) (bq_allowed_base_branches req), validate_purpose (bq_purpose req) (lit ''purpose'')) of
        (Inr (configured, allowed), Inr purpose) \<Rightarrow>
          gb_project_id b = project_id \<and> gb_connection_id b = bq_connection_id req \<and> gb_alias b = py_strip (bq_alias req)
          \<and> gb_repository_owner b = py_strip (bq_repository_owner req) \<and> gb_repository_name b = py_strip (bq_repository_name req)
          \<and> gb_purpose b = purpose \<and> gb_configured_base_branch b = configured \<and> gb_allowed_base_branches b = allowed
      | _ \<Rightarrow> False)"

definition new_binding ::
  "git_world \<Rightarrow> pystr \<Rightarrow> pystr \<Rightarrow> pystr \<Rightarrow> pystr \<Rightarrow> pystr \<Rightarrow> pystr \<Rightarrow> pystr \<Rightarrow> pystr \<Rightarrow> pystr option \<Rightarrow> pystr list \<Rightarrow> pystr \<times> pystr \<Rightarrow> pystr \<Rightarrow> pystr
   \<Rightarrow> time \<Rightarrow> project_git_repository" where
  "new_binding w new_id project_id uid connection_id alias owner name purpose configured allowed key credential_id request_id clk =
     \<lparr>gb_id = new_id, gb_project_id = project_id, gb_uid = uid, gb_connection_id = connection_id, gb_alias = alias,
      gb_directory_name = derive_repository_directory w alias new_id, gb_remote_repository_id = None, gb_repository_owner = owner,
      gb_repository_name = name, gb_purpose = purpose, gb_canonical_ssh_url = None, gb_default_branch = None,
      gb_configured_base_branch = configured, gb_allowed_base_branches = allowed, gb_deploy_public_key = fst key,
      gb_deploy_public_key_fingerprint = snd key, gb_deploy_private_credential_id = credential_id, gb_remote_deploy_key_id = None,
      gb_status = Git_provisioning, gb_last_error_code = None, gb_last_error_message = None, gb_operation_generation = 1,
      gb_idempotency_key = request_id, gb_created_at = clk, gb_updated_at = clk\<rparr>"

definition create_project_repository_view ::
  "git_world \<Rightarrow> encrypted option \<Rightarrow> pystr \<times> pystr \<Rightarrow> pystr \<Rightarrow> time \<Rightarrow> pystr \<Rightarrow> pystr \<Rightarrow> binding_request \<Rightarrow> git_db \<Rightarrow> git_db
   \<Rightarrow> git_error + git_db \<times> project_git_repository \<times> (pystr \<times> int) option" where
  "create_project_repository_view w enc key new_id clk uid project_id req seen db =
     and_then (required (bq_request_id req) (lit ''request_id'')) (\<lambda>rid.
     case get_binding_by_idempotency_key rid uid seen of
       Some b \<Rightarrow> if binding_intent_matches w project_id req b then Inr (db, b, None) else Inl (Git_http 409 gm_binding_key)
     | None \<Rightarrow>
         (case (get_active_selectable_for_user project_id uid (pf_gov (pg_platform db)), get_connection (bq_connection_id req) uid True db) of
            (Some p, Some c) \<Rightarrow>
              and_then (validate_alias (bq_alias req)) (\<lambda>alias.
              and_then (validate_purpose (bq_purpose req) (lit ''purpose'')) (\<lambda>purpose.
              and_then (normalize_repository_policy w (bq_configured_base_branch req) (bq_allowed_base_branches req)) (\<lambda>(configured, allowed).
              case enc of
                None \<Rightarrow> Inl not_configured
              | Some e \<Rightarrow>
                  and_then (validate_repository_part (bq_repository_owner req)) (\<lambda>owner.
                  and_then (validate_repository_part (bq_repository_name req)) (\<lambda>name.
                  let b = new_binding w new_id (pr_id p) uid (cn_id c) alias owner name purpose configured allowed key (en_id e) rid clk
                  in case and_then (add_credential (credential_model e uid ''deploy_private_key'' clk) db) (add_git_binding w b) of
                       Inr db' \<Rightarrow> Inr (db', b, Some (gb_id b, gb_operation_generation b))
                     | Inl _ \<Rightarrow>
                         (case get_binding_by_idempotency_key rid uid db of
                            None \<Rightarrow> Inl (Git_http 409 gm_binding_taken)
                          | Some r \<Rightarrow> if binding_intent_matches w project_id req r then Inr (db, r, None) else Inl (Git_http 409 gm_binding_taken)))))))
          | _ \<Rightarrow> Inl (Git_http 404 gm_no_project_connection)))"

text \<open>Branch policy: \<open>branch_ok\<close> is the hosting service's answer for a branch.\<close>

definition update_project_repository_policy_view ::
  "git_world \<Rightarrow> decryption \<Rightarrow> (pystr \<Rightarrow> bool) \<Rightarrow> pystr \<Rightarrow> pystr \<Rightarrow> pystr \<Rightarrow> pystr \<Rightarrow> pystr option \<Rightarrow> pystr list option \<Rightarrow> time \<Rightarrow> git_db
   \<Rightarrow> git_error + git_db \<times> project_git_repository" where
  "update_project_repository_policy_view w decrypt branch_ok uid project_id repository_id purpose configured_base_branch allowed_base_branches now db =
     (case get_binding repository_id uid db of
        None \<Rightarrow> Inl (Git_http 409 gm_policy_state)
      | Some b \<Rightarrow>
          if gb_project_id b \<noteq> project_id \<or> gb_status b \<noteq> Git_active then Inl (Git_http 409 gm_policy_state)
          else (case get_connection (gb_connection_id b) uid True db of
            None \<Rightarrow> Inl (Git_http 409 gm_connection_unusable)
          | Some c \<Rightarrow>
              (case get_credential (cn_api_token_credential_id c) uid db of
                 None \<Rightarrow> Inl (Git_http 409 gm_connection_unusable)
               | Some k \<Rightarrow>
                   and_then (validate_purpose purpose (lit ''purpose'')) (\<lambda>p.
                   and_then (normalize_repository_policy w configured_base_branch allowed_base_branches) (\<lambda>(configured, allowed).
                   let conf = (if or_empty configured \<noteq> [] then or_empty configured else or_empty (gb_default_branch b))
                   in if conf = [] then Inl (Git_http 409 gm_no_default)
                      else let allow = (if allowed \<noteq> [] then allowed else [conf])
                        in if conf \<notin> set allow then Inl (Git_http 422 gm_not_allowed)
                           else if decrypt k = None then Inl Git_external
                           else if \<not> list_all branch_ok allow then Inl (Git_http 422 gm_no_branch)
                           else let b' = b\<lparr>gb_purpose := p, gb_configured_base_branch := Some conf, gb_allowed_base_branches := allow, gb_updated_at := now\<rparr>
                             in Inr (put_binding b' db, b'))))))"

definition retry_project_repository_view :: "pystr \<Rightarrow> pystr \<Rightarrow> pystr \<Rightarrow> time \<Rightarrow> git_db \<Rightarrow> git_error + git_db \<times> project_git_repository \<times> (pystr \<times> int) option" where
  "retry_project_repository_view uid project_id repository_id now db =
     (case get_binding repository_id uid db of
        None \<Rightarrow> Inl (Git_http 409 gm_no_retry_binding)
      | Some b \<Rightarrow>
          if gb_project_id b \<noteq> project_id \<or> gb_status b \<notin> {Git_provision_failed, Git_delete_failed} then Inl (Git_http 409 gm_no_retry_binding)
          else let b' = b\<lparr>gb_status := (if gb_status b = Git_provision_failed then Git_provisioning else Git_deleting),
                     gb_operation_generation := gb_operation_generation b + 1, gb_last_error_code := None, gb_last_error_message := None, gb_updated_at := now\<rparr>
            in Inr (put_binding b' db, b', Some (gb_id b', gb_operation_generation b')))"

definition deactivate_project_repository_view :: "pystr \<Rightarrow> pystr \<Rightarrow> pystr \<Rightarrow> time \<Rightarrow> git_db \<Rightarrow> git_error + git_db \<times> project_git_repository \<times> (pystr \<times> int) option" where
  "deactivate_project_repository_view uid project_id repository_id now db =
     (case get_binding repository_id uid db of
        None \<Rightarrow> Inl (Git_http 404 gm_no_binding)
      | Some b \<Rightarrow>
          if gb_project_id b \<noteq> project_id then Inl (Git_http 404 gm_no_binding)
          else if gb_status b = Git_disabled then Inr (db, b, None)
          else let b' = mark_binding_deleting now b in Inr (put_binding b' db, b', Some (gb_id b', gb_operation_generation b')))"

definition delete_project_git :: "pystr \<Rightarrow> pystr \<Rightarrow> time \<Rightarrow> git_db \<Rightarrow> queue_error + git_db \<times> (pystr \<times> int) list" where
  "delete_project_git uid project_id now db =
     (case delete_project_view uid project_id now (pg_bindings db) (pg_platform db) of
        Inl e \<Rightarrow> Inl e
      | Inr (p, bs, jobs) \<Rightarrow> Inr (db\<lparr>pg_platform := p, pg_bindings := bs\<rparr>, jobs))"

section \<open>Jobs on a binding\<close>

text \<open>The answers of the hosting service and of \<^verbatim>\<open>git\<close>: \<open>None\<close> and \<open>False\<close> stand for an exception. \<open>fingerprint\<close> reads a public key.\<close>

record deploy_key =
  dk_id :: pystr
  dk_title :: pystr
  dk_key :: pystr
  dk_read_only :: bool

record remote_metadata =
  rm_id :: pystr
  rm_ssh_url :: pystr
  rm_default_branch :: pystr

record hosting =
  ho_repository :: "remote_metadata option"
  ho_branch :: "pystr \<Rightarrow> bool"
  ho_keys :: "deploy_key list option"
  ho_create_key :: "deploy_key option"
  ho_delete_key :: bool
  ho_fetch :: bool
  ho_import :: bool
  ho_fingerprint :: "pystr \<Rightarrow> pystr option"

datatype git_job = Provision | Revoke

definition process_project_git_operation :: "pystr \<Rightarrow> int \<Rightarrow> git_db \<Rightarrow> git_job option" where
  "process_project_git_operation repository_id generation db =
     (case find (\<lambda>b. gb_id b = repository_id) (pg_bindings db) of
        None \<Rightarrow> None
      | Some b \<Rightarrow>
          if gb_operation_generation b \<noteq> generation then None
          else if gb_status b \<in> {Git_provisioning, Git_provision_failed} then Some Provision
          else if gb_status b \<in> {Git_deleting, Git_delete_failed} then Some Revoke
          else None)"

definition record_binding_failure :: "pystr \<Rightarrow> int \<Rightarrow> git_binding_status \<Rightarrow> string \<Rightarrow> time \<Rightarrow> git_db \<Rightarrow> git_db" where
  "record_binding_failure repository_id generation st code now db =
     (case find (\<lambda>b. gb_id b = repository_id) (pg_bindings db) of
        None \<Rightarrow> db
      | Some b \<Rightarrow>
          if gb_operation_generation b = generation
          then put_binding (b\<lparr>gb_status := st, gb_last_error_code := Some (lit code),
                 gb_last_error_message := Some (lit ''Git repository operation failed''), gb_updated_at := now\<rparr>) db
          else db)"

text \<open>The first deploy key with the title and fingerprint of the binding; reading the key of an entry with this title may raise.\<close>

fun matching_key :: "(pystr \<Rightarrow> pystr option) \<Rightarrow> pystr \<Rightarrow> pystr \<Rightarrow> deploy_key list \<Rightarrow> git_error + deploy_key option" where
  "matching_key fp title want [] = Inr None"
| "matching_key fp title want (d # ds) =
     (if dk_title d \<noteq> title then matching_key fp title want ds
      else case fp (dk_key d) of None \<Rightarrow> Inl Git_external | Some x \<Rightarrow> if x = want then Inr (Some d) else matching_key fp title want ds)"

definition key_title :: "project_git_repository \<Rightarrow> pystr" where
  "key_title b = lit ''yuxi:'' @ gb_id b"

definition from_option :: "'e \<Rightarrow> 'a option \<Rightarrow> 'e + 'a" where
  "from_option e x = (case x of None \<Rightarrow> Inl e | Some a \<Rightarrow> Inr a)"

text \<open>What a job reads in its first transaction: \<open>Inr None\<close> is a job that has nothing to do.\<close>

definition provision_begin :: "decryption \<Rightarrow> bool \<Rightarrow> pystr \<Rightarrow> int \<Rightarrow> git_db \<Rightarrow> git_error + project_git_repository option" where
  "provision_begin decrypt paths_ok repository_id generation db =
     (case find (\<lambda>b. gb_id b = repository_id) (pg_bindings db) of
        None \<Rightarrow> Inr None
      | Some b \<Rightarrow>
          if gb_operation_generation b \<noteq> generation \<or> gb_status b \<notin> {Git_provisioning, Git_provision_failed} then Inr None
          else
            let c = get_connection (gb_connection_id b) (gb_uid b) True db;
                token = (case c of None \<Rightarrow> None | Some x \<Rightarrow> get_credential (cn_api_token_credential_id x) (gb_uid b) db);
                key = get_credential (gb_deploy_private_credential_id b) (gb_uid b) db;
                p = project_get_for_user (gb_project_id b) (gb_uid b) (pf_gov (pg_platform db))
            in (case (token, key, p) of
                  (Some t, Some k, Some pr) \<Rightarrow>
                    if pr_status pr \<noteq> Project_active then Inl (Git_runtime (lit ''Git binding dependencies are unavailable''))
                    else if decrypt t = None \<or> decrypt k = None \<or> \<not> paths_ok then Inl Git_external
                    else Inr (Some b)
                | _ \<Rightarrow> Inl (Git_runtime (lit ''Git binding dependencies are unavailable''))))"

record provisioned =
  pv_metadata :: remote_metadata
  pv_configured :: pystr
  pv_allowed :: "pystr list"
  pv_key :: deploy_key

definition provision_remote :: "hosting \<Rightarrow> project_git_repository \<Rightarrow> git_error + provisioned" where
  "provision_remote ho b =
     and_then (from_option Git_external (ho_repository ho)) (\<lambda>meta.
     let configured = (if or_empty (gb_configured_base_branch b) \<noteq> [] then or_empty (gb_configured_base_branch b) else rm_default_branch meta);
         allowed = (if gb_allowed_base_branches b \<noteq> [] then gb_allowed_base_branches b else [configured])
     in if configured \<notin> set allowed then Inl (Git_runtime (lit ''Configured base branch is not allowed''))
        else if \<not> list_all (ho_branch ho) allowed then Inl Git_external
        else and_then (from_option Git_external (ho_keys ho)) (\<lambda>keys.
             and_then (matching_key (ho_fingerprint ho) (key_title b) (gb_deploy_public_key_fingerprint b) keys) (\<lambda>found.
             and_then (case found of Some d \<Rightarrow> Inr d | None \<Rightarrow> from_option Git_external (ho_create_key ho)) (\<lambda>key.
             if dk_read_only key then Inl (Git_runtime (lit ''Gitea deploy key is read-only''))
             else if \<not> ho_fetch ho then Inl Git_external
             else Inr \<lparr>pv_metadata = meta, pv_configured = configured, pv_allowed = allowed, pv_key = key\<rparr>))))"

text \<open>The closing transaction; \<open>True\<close> tells that the intent has changed meanwhile and the new key must be withdrawn.\<close>

definition provision_finish :: "bool \<Rightarrow> pystr \<Rightarrow> int \<Rightarrow> provisioned \<Rightarrow> time \<Rightarrow> git_db \<Rightarrow> git_error + git_db \<times> bool" where
  "provision_finish imported repository_id generation pv now db =
     (case find (\<lambda>b. gb_id b = repository_id) (pg_bindings db) of
        None \<Rightarrow> Inr (db, True)
      | Some b \<Rightarrow>
          if gb_operation_generation b \<noteq> generation then Inr (db, True)
          else if \<not> imported then Inl Git_external
          else Inr (put_binding (b\<lparr>gb_remote_repository_id := Some (rm_id (pv_metadata pv)), gb_canonical_ssh_url := Some (rm_ssh_url (pv_metadata pv)),
                 gb_default_branch := Some (rm_default_branch (pv_metadata pv)), gb_configured_base_branch := Some (pv_configured pv),
                 gb_allowed_base_branches := pv_allowed pv, gb_remote_deploy_key_id := Some (dk_id (pv_key pv)), gb_status := Git_active,
                 gb_last_error_code := None, gb_last_error_message := None, gb_updated_at := now\<rparr>) db, False))"

definition provision_failed :: "pystr \<Rightarrow> int \<Rightarrow> time \<Rightarrow> git_db \<Rightarrow> git_db" where
  "provision_failed repository_id generation now db = record_binding_failure repository_id generation Git_provision_failed ''git_provision_failed'' now db"

definition provision_repository ::
  "decryption \<Rightarrow> hosting \<Rightarrow> bool \<Rightarrow> pystr \<Rightarrow> int \<Rightarrow> (git_db \<Rightarrow> git_db) \<Rightarrow> time \<Rightarrow> git_db \<Rightarrow> git_db \<times> (git_error + unit)" where
  "provision_repository decrypt ho paths_ok repository_id generation during now db =
     (case provision_begin decrypt paths_ok repository_id generation db of
        Inl e \<Rightarrow> (provision_failed repository_id generation now (during db), Inl e)
      | Inr None \<Rightarrow> (db, Inr ())
      | Inr (Some b) \<Rightarrow>
          (case provision_remote ho b of
             Inl e \<Rightarrow> (provision_failed repository_id generation now (during db), Inl e)
           | Inr pv \<Rightarrow>
               (case provision_finish (ho_import ho) repository_id generation pv now (during db) of
                  Inl e \<Rightarrow> (provision_failed repository_id generation now (during db), Inl e)
                | Inr (db', superseded) \<Rightarrow>
                    if superseded \<and> \<not> ho_delete_key ho then (provision_failed repository_id generation now db', Inl Git_external)
                    else (db', Inr ()))))"

definition revoke_begin :: "decryption \<Rightarrow> pystr \<Rightarrow> int \<Rightarrow> git_db \<Rightarrow> git_error + project_git_repository option" where
  "revoke_begin decrypt repository_id generation db =
     (case find (\<lambda>b. gb_id b = repository_id) (pg_bindings db) of
        None \<Rightarrow> Inr None
      | Some b \<Rightarrow>
          if gb_operation_generation b \<noteq> generation then Inr None
          else (case get_connection (gb_connection_id b) (gb_uid b) False db of
                  None \<Rightarrow> Inl (Git_runtime (lit ''Git connection credential is unavailable for deploy key revocation''))
                | Some c \<Rightarrow>
                    (case get_credential (cn_api_token_credential_id c) (gb_uid b) db of
                       None \<Rightarrow> Inl (Git_runtime (lit ''Git connection credential is unavailable for deploy key revocation''))
                     | Some k \<Rightarrow> if decrypt k = None then Inl Git_external else Inr (Some b))))"

definition revoke_remote :: "hosting \<Rightarrow> project_git_repository \<Rightarrow> git_error + unit" where
  "revoke_remote ho b =
     and_then
       (case gb_remote_deploy_key_id b of
          Some i \<Rightarrow> Inr (Some i)
        | None \<Rightarrow>
            and_then (from_option Git_external (ho_keys ho)) (\<lambda>keys.
            and_then (matching_key (ho_fingerprint ho) (key_title b) (gb_deploy_public_key_fingerprint b) keys) (\<lambda>found. Inr (map_option dk_id found))))
       (\<lambda>key. if key \<noteq> None \<and> \<not> ho_delete_key ho then Inl Git_external else Inr ())"

definition revoke_finish :: "project_git_repository \<Rightarrow> int \<Rightarrow> time \<Rightarrow> git_db \<Rightarrow> git_db" where
  "revoke_finish seen generation now db =
     (case get_binding (gb_id seen) (gb_uid seen) db of
        None \<Rightarrow> db
      | Some b \<Rightarrow>
          if gb_operation_generation b \<noteq> generation then db
          else
            let db1 = (case get_credential (gb_deploy_private_credential_id seen) (gb_uid seen) db of None \<Rightarrow> db | Some k \<Rightarrow> destroy_credential (kc_id k) now db)
            in put_binding (b\<lparr>gb_status := Git_disabled, gb_updated_at := now\<rparr>) db1)"

definition revoke_failed :: "pystr \<Rightarrow> int \<Rightarrow> time \<Rightarrow> git_db \<Rightarrow> git_db" where
  "revoke_failed repository_id generation now db = record_binding_failure repository_id generation Git_delete_failed ''git_delete_failed'' now db"

definition delete_repository :: "decryption \<Rightarrow> hosting \<Rightarrow> pystr \<Rightarrow> int \<Rightarrow> (git_db \<Rightarrow> git_db) \<Rightarrow> time \<Rightarrow> git_db \<Rightarrow> git_db \<times> (git_error + unit)" where
  "delete_repository decrypt ho repository_id generation during now db =
     (case revoke_begin decrypt repository_id generation db of
        Inl e \<Rightarrow> (revoke_failed repository_id generation now (during db), Inl e)
      | Inr None \<Rightarrow> (db, Inr ())
      | Inr (Some b) \<Rightarrow>
          (case revoke_remote ho b of
             Inl e \<Rightarrow> (revoke_failed repository_id generation now (during db), Inl e)
           | Inr _ \<Rightarrow> (revoke_finish b generation now (during db), Inr ())))"

definition reconcile_project_git_operations :: "git_db \<Rightarrow> (pystr \<times> int) list \<times> pystr list" where
  "reconcile_project_git_operations db =
     (map (\<lambda>b. (gb_id b, gb_operation_generation b)) (list_pending_bindings db), map wt_id (list_pending_worktrees db))"

end
