(* ===== verification/Git_Worktree.thy ===== *)
theory Git_Worktree
  imports Git_Service
begin

text \<open>
  The worktrees of tasks in \<^verbatim>\<open>services/project_git_service.py\<close>: selection by a user or by a run, preparation under a lease, cleanup, and the push of a task branch.
\<close>

section \<open>Authorization\<close>

definition require_root_conversation :: "pystr \<Rightarrow> pystr \<Rightarrow> git_db \<Rightarrow> git_error + conversation \<times> project" where
  "require_root_conversation uid thread_id db =
     (case find (\<lambda>c. cv_thread_id c = thread_id \<and> cv_uid c = uid \<and> cv_status c \<noteq> lit ''deleted'') (qd_conversations (pf_queue (pg_platform db))) of
        None \<Rightarrow> Inl (Git_http 404 gm_no_conversation)
      | Some c \<Rightarrow>
          (case find (\<lambda>p. pr_id p = cv_project_id c \<and> pr_uid p = uid \<and> pr_status p = Project_active) (gv_projects (pf_gov (pg_platform db))) of
             None \<Rightarrow> Inl (Git_http 404 gm_no_conversation)
           | Some p \<Rightarrow> if cv_status c = lit ''subagent'' then Inl (Git_http 409 gm_subagent) else Inr (c, p)))"

definition run_of_user :: "pystr \<Rightarrow> pystr \<Rightarrow> git_db \<Rightarrow> (agent_run \<times> conversation \<times> project) option" where
  "run_of_user run_id uid db =
     (case find (\<lambda>r. ar_id r = run_id \<and> ar_uid r = uid) (db_runs (pf_queue (pg_platform db))) of
        None \<Rightarrow> None
      | Some r \<Rightarrow>
          (case find (\<lambda>c. ar_conversation_id r = Some (cv_id c) \<and> cv_uid c = uid) (qd_conversations (pf_queue (pg_platform db))) of
             None \<Rightarrow> None
           | Some c \<Rightarrow>
               (case project_get_for_user (cv_project_id c) uid (pf_gov (pg_platform db)) of None \<Rightarrow> None | Some p \<Rightarrow> Some (r, c, p))))"

definition require_authorized_root_run :: "pystr \<Rightarrow> pystr \<Rightarrow> git_db \<Rightarrow> git_error + agent_run \<times> conversation \<times> project" where
  "require_authorized_root_run run_id uid db =
     (case run_of_user run_id uid db of
        None \<Rightarrow> Inl (Git_permission (lit ''Run is not authorized for Project Git''))
      | Some (r, c, p) \<Rightarrow>
          if ar_run_type r = Subagent \<or> ar_status r \<noteq> Running \<or> pr_status p \<noteq> Project_active
          then Inl (Git_permission (lit ''Only a running Root AgentRun can manage Project Git''))
          else Inr (r, c, p))"

section \<open>Allocation\<close>

definition allocation_intent_matches :: "project_git_worktree \<Rightarrow> pystr \<Rightarrow> pystr \<Rightarrow> pystr \<Rightarrow> pystr \<Rightarrow> pystr \<Rightarrow> bool" where
  "allocation_intent_matches t base kind slug purpose branch \<longleftrightarrow>
     wt_base_branch t = base \<and> wt_branch_kind t = kind \<and> wt_branch_slug t = Some slug \<and> wt_task_purpose t = purpose \<and> wt_branch_name t = branch"

record allocation =
  al_base_branch :: pystr
  al_branch_kind :: pystr
  al_branch_slug :: pystr
  al_task_purpose :: pystr

definition as_http :: "git_error + 'a \<Rightarrow> git_error + 'a" where
  "as_http r = (case r of Inl (Git_value s) \<Rightarrow> Inl (Git_http 422 s) | _ \<Rightarrow> r)"

text \<open>The checks on an allocation: normalized base branch, slug and purpose, and the branch of the task.\<close>

definition allocation_intent ::
  "git_world \<Rightarrow> project_git_repository \<Rightarrow> pystr \<Rightarrow> pystr \<Rightarrow> allocation \<Rightarrow> git_error + pystr \<times> pystr \<times> pystr \<times> pystr" where
  "allocation_intent w b uid scope al =
     and_then (as_http (normalize_base_branch w (al_base_branch al))) (\<lambda>base.
     and_then (as_http (normalize_branch_slug w (al_branch_slug al))) (\<lambda>slug.
     and_then (as_http (derive_allocation_branch w (al_branch_kind al) slug uid scope)) (\<lambda>branch.
     and_then (validate_purpose (al_task_purpose al) (lit ''task_purpose'')) (\<lambda>purpose.
       if base \<notin> set (gb_allowed_base_branches b) then Inl (Git_http 422 gm_base_not_allowed)
       else if branch = base \<or> Some branch = gb_default_branch b then Inl (Git_http 422 gm_task_branch)
       else Inr (base, slug, branch, purpose)))))"

definition new_worktree ::
  "pystr \<Rightarrow> project_git_repository \<Rightarrow> pystr \<Rightarrow> pystr \<Rightarrow> pystr \<Rightarrow> selection_source \<Rightarrow> pystr \<Rightarrow> pystr \<Rightarrow> pystr \<Rightarrow> pystr option \<Rightarrow> pystr option \<Rightarrow> pystr \<Rightarrow> pystr \<Rightarrow> pystr
   \<Rightarrow> time \<Rightarrow> project_git_worktree" where
  "new_worktree new_id b uid scope task_key source purpose kind slug run_id request_id branch base path clk =
     \<lparr>wt_id = new_id, wt_repository_id = gb_id b, wt_project_id = gb_project_id b, wt_uid = uid, wt_runtime_scope_id = scope, wt_task_key = task_key,
      wt_selection_source = source, wt_task_purpose = purpose, wt_branch_kind = kind, wt_branch_slug = Some slug, wt_requested_by_run_id = run_id,
      wt_allocation_generation = 1, wt_selection_request_id = request_id, wt_branch_name = branch, wt_base_branch = base, wt_base_sha = None,
      wt_last_observed_head_sha = None, wt_last_pushed_sha = None, wt_relative_path = path, wt_status = Wt_requested, wt_lease_owner = None,
      wt_lease_expires_at = None, wt_last_error_code = None, wt_last_error_message = None, wt_created_at = clk, wt_updated_at = clk\<rparr>"

definition unleased :: "worktree_status \<Rightarrow> time \<Rightarrow> project_git_worktree \<Rightarrow> project_git_worktree" where
  "unleased st now t = t\<lparr>wt_status := st, wt_lease_owner := None, wt_lease_expires_at := None, wt_last_error_code := None, wt_last_error_message := None,
     wt_updated_at := now\<rparr>"

definition reallocated ::
  "selection_source \<Rightarrow> pystr option \<Rightarrow> pystr option \<Rightarrow> bool \<Rightarrow> pystr \<Rightarrow> pystr \<Rightarrow> pystr \<Rightarrow> pystr \<Rightarrow> pystr \<Rightarrow> time \<Rightarrow> project_git_worktree \<Rightarrow> project_git_worktree" where
  "reallocated source run_id request_id same base kind slug purpose branch now t =
     (let t1 = unleased Wt_requested now (t\<lparr>wt_allocation_generation := wt_allocation_generation t + 1, wt_selection_source := source,
            wt_requested_by_run_id := run_id, wt_selection_request_id := request_id\<rparr>)
      in if same then t1
         else t1\<lparr>wt_task_purpose := purpose, wt_branch_kind := kind, wt_branch_slug := Some slug, wt_branch_name := branch, wt_base_branch := base,
                 wt_base_sha := None, wt_last_observed_head_sha := None, wt_last_pushed_sha := None\<rparr>)"

text \<open>The unique key of user and request id is checked when the changed row is written.\<close>

definition write_worktree :: "project_git_worktree \<Rightarrow> git_db \<Rightarrow> git_error + git_db" where
  "write_worktree t db =
     (if wt_selection_request_id t \<noteq> None
         \<and> list_ex (\<lambda>x. wt_id x \<noteq> wt_id t \<and> wt_uid x = wt_uid t \<and> wt_selection_request_id x = wt_selection_request_id t) (pg_worktrees db)
      then Inl Git_integrity else Inr (put_worktree t db))"

definition allocate ::
  "git_world \<Rightarrow> project_git_repository \<Rightarrow> pystr \<Rightarrow> pystr \<Rightarrow> pystr option \<Rightarrow> selection_source \<Rightarrow> pystr option \<Rightarrow> bool \<Rightarrow> pystr \<Rightarrow> time \<Rightarrow> pystr \<Rightarrow> pystr \<Rightarrow> pystr
   \<Rightarrow> pystr \<Rightarrow> pystr \<Rightarrow> git_db \<Rightarrow> git_error + git_db \<times> project_git_worktree" where
  "allocate w b uid scope request_id source run_id explicit_retry new_id now kind base slug branch purpose db =
     and_then (derive_task_key w uid scope) (\<lambda>key.
     and_then (repository_relative_paths (gb_directory_name b) (Some key)) (\<lambda>(_, path).
     case get_worktree (gb_id b) scope uid db of
       None \<Rightarrow>
         let t = new_worktree new_id b uid scope key source purpose kind slug run_id request_id branch base (or_empty path) now
         in and_then (add_worktree t db) (\<lambda>db'. Inr (db', t))
     | Some t \<Rightarrow>
         let same = allocation_intent_matches t base kind slug purpose branch
         in if wt_status t \<noteq> Wt_removed
            then if \<not> same then Inl (Git_http 409 gm_fixed)
              else if wt_status t = Wt_prepare_failed \<and> explicit_retry
                then let t' = unleased Wt_requested now t in Inr (put_worktree t' db, t')
                else Inr (db, t)
            else let t' = reallocated source run_id request_id same base kind slug purpose branch now t
              in and_then (write_worktree t' db) (\<lambda>db'. Inr (db', t'))))"

definition request_worktree_allocation ::
  "git_world \<Rightarrow> project_git_repository \<Rightarrow> pystr \<Rightarrow> pystr \<Rightarrow> pystr option \<Rightarrow> selection_source \<Rightarrow> pystr option \<Rightarrow> allocation \<Rightarrow> bool \<Rightarrow> pystr \<Rightarrow> time \<Rightarrow> git_db
   \<Rightarrow> git_error + git_db \<times> project_git_worktree" where
  "request_worktree_allocation w b uid scope request_id source run_id al explicit_retry new_id now db =
     and_then (allocation_intent w b uid scope al) (\<lambda>(base, slug, branch, purpose).
     let kind = py_strip (al_branch_kind al)
     in case (if or_empty request_id = [] then None else get_worktree_by_selection_request (or_empty request_id) uid db) of
          Some t \<Rightarrow>
            if wt_repository_id t \<noteq> gb_id b \<or> wt_runtime_scope_id t \<noteq> scope then Inl (Git_http 409 gm_request_task)
            else if \<not> allocation_intent_matches t base kind slug purpose branch then Inl (Git_http 409 gm_request_intent)
            else Inr (db, t)
        | None \<Rightarrow> allocate w b uid scope request_id source run_id explicit_retry new_id now kind base slug branch purpose db)"

definition select_conversation_git_repository_view ::
  "git_world \<Rightarrow> pystr \<Rightarrow> pystr \<Rightarrow> pystr \<Rightarrow> pystr \<Rightarrow> allocation \<Rightarrow> pystr \<Rightarrow> time \<Rightarrow> git_db \<Rightarrow> git_error + git_db \<times> project_git_worktree" where
  "select_conversation_git_repository_view w uid thread_id request_id alias al new_id now db =
     and_then (require_root_conversation uid thread_id db) (\<lambda>(_, p).
     and_then (validate_alias alias) (\<lambda>name.
     case get_active_binding_by_alias w (pr_id p) uid name db of
       None \<Rightarrow> Inl (Git_http 404 gm_no_alias)
     | Some b \<Rightarrow>
         and_then (required request_id (lit ''request_id'')) (\<lambda>rid.
         case request_worktree_allocation w b uid thread_id (Some rid) By_user None al False new_id now db of
           Inl e \<Rightarrow> Inl (if e = Git_integrity then Git_http 409 gm_concurrent else e)
         | Inr r \<Rightarrow> Inr r)))"

definition retry_conversation_git_repository_view :: "pystr \<Rightarrow> pystr \<Rightarrow> pystr \<Rightarrow> time \<Rightarrow> git_db \<Rightarrow> git_error + git_db \<times> project_git_worktree" where
  "retry_conversation_git_repository_view uid thread_id repository_id now db =
     and_then (require_root_conversation uid thread_id db) (\<lambda>(_, p).
     case (get_binding repository_id uid db, get_worktree repository_id thread_id uid db) of
       (Some b, Some t) \<Rightarrow>
         if gb_project_id b \<noteq> pr_id p \<or> wt_status t \<noteq> Wt_prepare_failed then Inl (Git_http 409 gm_no_retry)
         else if gb_status b \<noteq> Git_active then Inl (Git_http 409 gm_binding_unusable)
         else let t' = unleased Wt_requested now t in Inr (put_worktree t' db, t')
     | _ \<Rightarrow> Inl (Git_http 409 gm_no_retry))"

section \<open>Preparation\<close>

text \<open>What the file system tells of the worktree directory: the path is refused, nothing is there, inspecting it fails, or its state.\<close>

datatype inspection = Path_error | Path_missing | Inspect_error | Path_state bool pystr pystr

record prep_job =
  pj_uid :: pystr
  pj_binding :: pystr
  pj_scope :: pystr
  pj_worker :: pystr
  pj_branch :: pystr
  pj_base :: pystr

definition worktree_lease :: time where
  "worktree_lease = timedelta_seconds 300"

definition prep_credentials :: "decryption \<Rightarrow> project_git_repository \<Rightarrow> pystr \<Rightarrow> git_db \<Rightarrow> git_error + unit" where
  "prep_credentials decrypt b uid db =
     (case (get_connection (gb_connection_id b) uid True db, get_credential (gb_deploy_private_credential_id b) uid db) of
        (Some c, Some key) \<Rightarrow>
          (case get_credential (cn_api_token_credential_id c) uid db of
             None \<Rightarrow> Inl (Git_busy (lit ''Git credentials are unavailable''))
           | Some token \<Rightarrow> if decrypt key = None \<or> decrypt token = None then Inl Git_external else Inr ())
      | _ \<Rightarrow> Inl (Git_busy (lit ''Git credentials are unavailable'')))"

definition prepare_lease ::
  "decryption \<Rightarrow> project_git_repository \<Rightarrow> project_git_worktree \<Rightarrow> pystr \<Rightarrow> pystr \<Rightarrow> time \<Rightarrow> git_db \<Rightarrow> git_error + git_db \<times> prep_job option" where
  "prepare_lease decrypt b t uid worker now db =
     (if wt_status t = Wt_prepare_failed then Inl (Git_selection (lit ''Task worktree requires explicit retry''))
      else if wt_status t \<notin> {Wt_requested, Wt_preparing, Wt_ready} then Inl (Git_selection (lit ''Task worktree is not preparable''))
      else (case acquire_worktree_lease t worker (now + worktree_lease) now db of
              (db', ok) \<Rightarrow>
                if \<not> ok then Inl (Git_busy (lit ''Task worktree is being prepared''))
                else and_then (prep_credentials decrypt b uid db) (\<lambda>_.
                  Inr (db', Some \<lparr>pj_uid = uid, pj_binding = gb_id b, pj_scope = wt_runtime_scope_id t, pj_worker = worker,
                         pj_branch = wt_branch_name t, pj_base = wt_base_branch t\<rparr>))))"

definition prepare_begin ::
  "git_world \<Rightarrow> decryption \<Rightarrow> inspection \<Rightarrow> pystr \<Rightarrow> pystr \<Rightarrow> pystr \<Rightarrow> pystr \<Rightarrow> time \<Rightarrow> git_db \<Rightarrow> git_error + git_db \<times> prep_job option" where
  "prepare_begin w decrypt found uid binding_id scope worker now db =
     and_then (derive_task_key w uid scope) (\<lambda>key.
     case get_binding binding_id uid db of
       None \<Rightarrow> Inl (Git_busy (lit ''Project Git repository is not active''))
     | Some b \<Rightarrow>
         if gb_status b \<noteq> Git_active then Inl (Git_busy (lit ''Project Git repository is not active''))
         else (case get_worktree (gb_id b) scope uid db of
           None \<Rightarrow> Inl (Git_selection (lit ''Task repository was not selected''))
         | Some t \<Rightarrow>
             and_then (repository_relative_paths (gb_directory_name b) (Some key)) (\<lambda>(_, path).
             if wt_task_key t \<noteq> key \<or> Some (wt_relative_path t) \<noteq> path then Inl (Git_busy (lit ''Task worktree identity does not match its root scope''))
             else if wt_branch_name t = wt_base_branch t \<or> Some (wt_branch_name t) = gb_default_branch b
             then Inl (Git_selection (lit ''Task worktree branch is not a valid allocation branch''))
             else and_then (configured_branch_prefix w) (\<lambda>prefix.
             if \<not> has_prefix prefix (wt_branch_name t) then Inl (Git_selection (lit ''Task worktree branch is not a valid allocation branch''))
             else if found = Path_error then Inl Git_external
             else if wt_status t = Wt_ready \<and> found = Inspect_error then Inl (Git_execution (lit ''inspect''))
             else (case (wt_status t, found) of
                     (Wt_ready, Path_state _ _ branch) \<Rightarrow>
                       if branch \<noteq> wt_branch_name t then Inl (Git_busy (lit ''Task worktree branch changed outside its allocation''))
                       else Inr (db, None)
                   | _ \<Rightarrow> prepare_lease decrypt b t uid worker now db)))))"

text \<open>
  The answers of the hosting service and of \<^verbatim>\<open>git\<close> while a worktree is prepared; \<open>None\<close> and \<open>False\<close> stand for an exception. A remote branch that does not exist is
  \<open>Some None\<close>.
\<close>

record prep_answers =
  pa_protected :: "bool option"
  pa_fetch :: bool
  pa_import :: bool
  pa_base_sha :: "pystr option"
  pa_remote_sha :: "pystr option option"
  pa_head :: "pystr option"

definition prepare_remote :: "prep_answers \<Rightarrow> git_error + unit" where
  "prepare_remote a =
     (case pa_protected a of
        None \<Rightarrow> Inl Git_external
      | Some True \<Rightarrow> Inl (Git_permission (lit ''Protected branch cannot be allocated''))
      | Some False \<Rightarrow> if pa_fetch a then Inr () else Inl (Git_execution (lit ''fetch'')))"

definition prepare_finish :: "prep_answers \<Rightarrow> prep_job \<Rightarrow> time \<Rightarrow> git_db \<Rightarrow> git_error + git_db" where
  "prepare_finish a j now db =
     (case get_worktree (pj_binding j) (pj_scope j) (pj_uid j) db of
        None \<Rightarrow> Inl (Git_busy (lit ''Task worktree lease was lost''))
      | Some t \<Rightarrow>
          if wt_lease_owner t \<noteq> Some (pj_worker j) then Inl (Git_busy (lit ''Task worktree lease was lost''))
          else if \<not> pa_import a then Inl (Git_execution (lit ''import''))
          else (case (pa_base_sha a, pa_remote_sha a, pa_head a) of
                  (Some base, Some remote, Some head) \<Rightarrow>
                    if remote \<noteq> None \<and> wt_last_pushed_sha t \<noteq> remote then Inl (Git_execution (lit ''remote task branch belongs to another allocation history''))
                    else Inr (put_worktree (unleased Wt_ready now
                           (t\<lparr>wt_base_sha := (if wt_base_sha t = None then Some base else wt_base_sha t), wt_last_observed_head_sha := Some head\<rparr>)) db)
                | _ \<Rightarrow> Inl Git_external))"

definition record_worktree_failure :: "prep_job \<Rightarrow> time \<Rightarrow> git_db \<Rightarrow> git_db" where
  "record_worktree_failure j now db =
     (case get_worktree (pj_binding j) (pj_scope j) (pj_uid j) db of
        None \<Rightarrow> db
      | Some t \<Rightarrow>
          if wt_lease_owner t = Some (pj_worker j)
          then put_worktree (t\<lparr>wt_status := Wt_prepare_failed, wt_lease_owner := None, wt_lease_expires_at := None,
                 wt_last_error_code := Some (lit ''git_prepare_failed''), wt_last_error_message := Some (lit ''Git worktree preparation failed''),
                 wt_updated_at := now\<rparr>) db
          else db)"

definition prepare_repository_worktree ::
  "git_world \<Rightarrow> decryption \<Rightarrow> inspection \<Rightarrow> prep_answers \<Rightarrow> pystr \<Rightarrow> pystr \<Rightarrow> pystr \<Rightarrow> pystr \<Rightarrow> (git_db \<Rightarrow> git_db) \<Rightarrow> time \<Rightarrow> time \<Rightarrow> git_db
   \<Rightarrow> git_db \<times> (git_error + unit)" where
  "prepare_repository_worktree w decrypt found a uid binding_id scope worker during now later db =
     (case prepare_begin w decrypt found uid binding_id scope worker now db of
        Inl e \<Rightarrow> (db, Inl e)
      | Inr (db1, None) \<Rightarrow> (db1, Inr ())
      | Inr (db1, Some j) \<Rightarrow>
          (case and_then (prepare_remote a) (\<lambda>_. prepare_finish a j later (during db1)) of
             Inl e \<Rightarrow> (record_worktree_failure j later (during db1), Inl e)
           | Inr db2 \<Rightarrow> (db2, Inr ())))"

text \<open>Before a run starts, the repositories selected for its scope are prepared one after the other. \<open>calls\<close> gives what each preparation meets.\<close>

definition preparable :: "pystr \<Rightarrow> project_git_worktree \<Rightarrow> project_git_repository option \<Rightarrow> git_error + pystr" where
  "preparable project_id t binding =
     (case binding of
        None \<Rightarrow> Inl (Git_selection (lit ''Selected Project Git repository ownership is invalid''))
      | Some b \<Rightarrow>
          if gb_project_id b \<noteq> project_id then Inl (Git_selection (lit ''Selected Project Git repository ownership is invalid''))
          else if gb_status b = Git_provisioning then Inl (Git_busy (lit ''Selected Project Git repository is not ready''))
          else if gb_status b \<noteq> Git_active then Inl (Git_selection (lit ''Selected Project Git repository is disabled or deleting''))
          else if wt_status t = Wt_prepare_failed then Inl (Git_selection (lit ''Selected Project Git worktree requires explicit retry''))
          else if wt_status t \<in> {Wt_cleanup_pending, Wt_cleanup_failed} then Inl (Git_selection (lit ''Selected Project Git worktree is being cleaned up''))
          else if wt_status t \<notin> {Wt_requested, Wt_preparing, Wt_ready} then Inl (Git_selection (lit ''Selected Project Git worktree has an invalid state''))
          else Inr (gb_id b))"

definition busy_again :: "git_error \<Rightarrow> git_error" where
  "busy_again e = (case e of Git_execution _ \<Rightarrow> Git_busy (lit ''Project Git worktree preparation must be retried'') | _ \<Rightarrow> e)"

fun prepare_pairs ::
  "(pystr \<Rightarrow> git_db \<Rightarrow> git_db \<times> (git_error + unit)) \<Rightarrow> pystr \<Rightarrow> (project_git_worktree \<times> project_git_repository option) list \<Rightarrow> git_db
   \<Rightarrow> git_db \<times> (git_error + unit)" where
  "prepare_pairs prep project_id [] db = (db, Inr ())"
| "prepare_pairs prep project_id ((t, b) # pairs) db =
     (case preparable project_id t b of
        Inl e \<Rightarrow> (db, Inl e)
      | Inr i \<Rightarrow>
          (case prep i db of
             (db', Inl e) \<Rightarrow> (db', Inl (busy_again e))
           | (db', Inr _) \<Rightarrow> prepare_pairs prep project_id pairs db'))"

definition prepare_selected_project_git_worktrees ::
  "git_world \<Rightarrow> decryption \<Rightarrow> (pystr \<Rightarrow> inspection \<times> prep_answers) \<Rightarrow> pystr \<Rightarrow> pystr \<Rightarrow> pystr \<Rightarrow> pystr \<Rightarrow> (git_db \<Rightarrow> git_db) \<Rightarrow> time \<Rightarrow> time \<Rightarrow> git_db
   \<Rightarrow> git_db \<times> (git_error + unit)" where
  "prepare_selected_project_git_worktrees w decrypt calls uid project_id scope worker during now later db =
     prepare_pairs (\<lambda>i. prepare_repository_worktree w decrypt (fst (calls i)) (snd (calls i)) uid i scope worker during now later) project_id
       (map (\<lambda>t. (t, get_binding (wt_repository_id t) uid db)) (list_scope_worktrees scope uid db)) db"

text \<open>A run asks for a repository itself; the request is logged in the transaction that stores it.\<close>

definition allocate_for_run ::
  "git_world \<Rightarrow> (pystr \<Rightarrow> int option) \<Rightarrow> pystr \<Rightarrow> pystr \<Rightarrow> pystr \<Rightarrow> allocation \<Rightarrow> pystr \<Rightarrow> time \<Rightarrow> git_db
   \<Rightarrow> git_error + git_db \<times> project_git_repository \<times> project_git_worktree" where
  "allocate_for_run w user_ids run_id uid alias al new_id now db =
     and_then (require_authorized_root_run run_id uid db) (\<lambda>(r, c, p).
     and_then (validate_alias alias) (\<lambda>name.
     case get_active_binding_by_alias w (pr_id p) uid name db of
       None \<Rightarrow> Inl (Git_permission (lit ''Repository alias is not active for this Project''))
     | Some b \<Rightarrow>
         and_then (request_worktree_allocation w b uid (ar_runtime_scope_id r) None By_agent (Some (ar_id r)) al True new_id now db) (\<lambda>(db', t).
         case user_ids uid of
           None \<Rightarrow> Inl (Git_permission (lit ''Git prepare audit owner is unavailable''))
         | Some u \<Rightarrow>
             let details = JObj [(lit ''run_id'', JStr (ar_id r)), (lit ''project_id'', JStr (pr_id p)), (lit ''repository_id'', JStr (gb_id b)),
                   (lit ''repository_alias'', JStr (gb_alias b)), (lit ''runtime_scope_id'', JStr (ar_runtime_scope_id r)),
                   (lit ''allocation_generation'', JInt (wt_allocation_generation t)), (lit ''branch'', JStr (wt_branch_name t)),
                   (lit ''base_branch'', JStr (wt_base_branch t))]
             in Inr (db'\<lparr>pg_logs := pg_logs db' @ [\<lparr>ol_user_id = u, ol_operation = lit ''git_prepare_worktree_requested'',
                       ol_details = gw_dumps w details, ol_timestamp = now\<rparr>]\<rparr>, b, t))))"

definition prepare_project_git_worktree_for_run ::
  "git_world \<Rightarrow> decryption \<Rightarrow> (pystr \<Rightarrow> int option) \<Rightarrow> inspection \<Rightarrow> prep_answers \<Rightarrow> pystr \<Rightarrow> pystr \<Rightarrow> pystr \<Rightarrow> allocation \<Rightarrow> pystr \<Rightarrow> (git_db \<Rightarrow> git_db)
   \<Rightarrow> time \<Rightarrow> time \<Rightarrow> git_db \<Rightarrow> git_db \<times> (git_error + unit)" where
  "prepare_project_git_worktree_for_run w decrypt user_ids found a run_id uid alias al new_id during now later db =
     (case allocate_for_run w user_ids run_id uid alias al new_id now db of
        Inl e \<Rightarrow> (db, Inl e)
      | Inr (db1, b, t) \<Rightarrow>
          prepare_repository_worktree w decrypt found a uid (gb_id b) (wt_runtime_scope_id t) (lit ''tool:'' @ run_id) during now later db1)"

section \<open>Cleanup\<close>

definition has_progress :: "inspection \<Rightarrow> project_git_worktree \<Rightarrow> bool" where
  "has_progress found t = (case found of
     Path_state clean head _ \<Rightarrow> \<not> clean \<or> or_empty (wt_last_pushed_sha t) = [] \<or> wt_last_pushed_sha t \<noteq> Some head | _ \<Rightarrow> False)"

definition cleanup_project_worktree_view ::
  "inspection \<Rightarrow> pystr \<Rightarrow> pystr \<Rightarrow> pystr \<Rightarrow> time \<Rightarrow> git_db \<Rightarrow> git_error + git_db \<times> project_git_worktree \<times> pystr option" where
  "cleanup_project_worktree_view found uid project_id worktree_id now db =
     (case get_project_worktree worktree_id project_id uid db of
        None \<Rightarrow> Inl (Git_http 404 gm_no_worktree)
      | Some t \<Rightarrow>
          if wt_status t = Wt_removed then Inr (db, t, None)
          else if has_nonterminal_run project_id (wt_runtime_scope_id t) uid db then Inl (Git_http 409 gm_active_run)
          else if get_binding (wt_repository_id t) uid db = None \<or> project_get_for_user project_id uid (pf_gov (pg_platform db)) = None
          then Inl (Git_http 404 gm_no_owner)
          else if found \<in> {Path_error, Inspect_error} then Inl Git_external
          else if has_progress found t then Inl (Git_http 409 gm_unpushed)
          else let t' = t\<lparr>wt_status := Wt_cleanup_pending, wt_last_error_code := None, wt_last_error_message := None, wt_updated_at := now\<rparr>
            in Inr (put_worktree t' db, t', Some (wt_id t')))"

definition cleanup_worktree_tx :: "inspection \<Rightarrow> bool \<Rightarrow> pystr \<Rightarrow> time \<Rightarrow> git_db \<Rightarrow> git_error + git_db" where
  "cleanup_worktree_tx found removed worktree_id now db =
     (case get_worktree_by_id worktree_id db of
        None \<Rightarrow> Inr db
      | Some t \<Rightarrow>
          if wt_status t \<notin> {Wt_cleanup_pending, Wt_cleanup_failed} then Inr db
          else if get_binding (wt_repository_id t) (wt_uid t) db = None \<or> project_get_for_user (wt_project_id t) (wt_uid t) (pf_gov (pg_platform db)) = None
          then Inl (Git_runtime (lit ''Git worktree ownership is unavailable''))
          else if has_nonterminal_run (wt_project_id t) (wt_runtime_scope_id t) (wt_uid t) db
          then Inl (Git_runtime (lit ''Git worktree still has active AgentRun''))
          else if found \<in> {Path_error, Inspect_error} then Inl Git_external
          else if has_progress found t then Inl (Git_runtime (lit ''Git worktree has uncommitted or unpushed progress''))
          else if \<not> removed then Inl Git_external
          else Inr (put_worktree (unleased Wt_removed now t) db))"

definition record_worktree_cleanup_failure :: "pystr \<Rightarrow> time \<Rightarrow> git_db \<Rightarrow> git_db" where
  "record_worktree_cleanup_failure worktree_id now db =
     (case get_worktree_by_id worktree_id db of
        None \<Rightarrow> db
      | Some t \<Rightarrow>
          if wt_status t \<in> {Wt_cleanup_pending, Wt_cleanup_failed}
          then put_worktree (t\<lparr>wt_status := Wt_cleanup_failed, wt_last_error_code := Some (lit ''git_cleanup_failed''),
                 wt_last_error_message := Some (lit ''Git worktree cleanup failed''), wt_updated_at := now\<rparr>) db
          else db)"

definition cleanup_project_worktree ::
  "inspection \<Rightarrow> bool \<Rightarrow> pystr \<Rightarrow> (git_db \<Rightarrow> git_db) \<Rightarrow> time \<Rightarrow> git_db \<Rightarrow> git_db \<times> (git_error + unit)" where
  "cleanup_project_worktree found removed worktree_id during now db =
     (case cleanup_worktree_tx found removed worktree_id now db of
        Inl e \<Rightarrow> (record_worktree_cleanup_failure worktree_id now (during db), Inl e)
      | Inr db' \<Rightarrow> (db', Inr ()))"

section \<open>Push\<close>

text \<open>
  The worktree a run may push: the checks made before the hosting service is asked. The answer of a push is the commit the remote then has; it is sent before the
  transaction ends, so the first component tells what was sent even when the call fails afterwards.
\<close>

definition push_target ::
  "git_world \<Rightarrow> decryption \<Rightarrow> inspection \<Rightarrow> pystr \<Rightarrow> pystr \<Rightarrow> pystr \<Rightarrow> pystr \<Rightarrow> git_db
   \<Rightarrow> git_error + agent_run \<times> project \<times> project_git_repository \<times> project_git_worktree" where
  "push_target w decrypt found run_id uid alias expected db =
     (case run_of_user run_id uid db of
        None \<Rightarrow> Inl (Git_permission (lit ''Run is not authorized for an active Project''))
      | Some (r, c, p) \<Rightarrow>
          if pr_status p \<noteq> Project_active then Inl (Git_permission (lit ''Run is not authorized for an active Project''))
          else if ar_run_type r = Subagent \<or> ar_status r \<noteq> Running then Inl (Git_permission (lit ''Only a running Root AgentRun can push a task branch''))
          else and_then (validate_alias alias) (\<lambda>name.
          case get_active_binding_by_alias w (pr_id p) uid name db of
            None \<Rightarrow> Inl (Git_permission (lit ''Repository alias is not active for this Project''))
          | Some b \<Rightarrow>
              (case get_worktree (gb_id b) (resolve_run_scope_key (Some r) (pf_queue (pg_platform db))) uid db of
                 None \<Rightarrow> Inl (Git_permission (lit ''Task worktree is not ready''))
               | Some t \<Rightarrow>
                   if wt_status t \<noteq> Wt_ready then Inl (Git_permission (lit ''Task worktree is not ready''))
                   else (case (get_connection (gb_connection_id b) uid True db, get_credential (gb_deploy_private_credential_id b) uid db) of
                     (Some cn, Some key) \<Rightarrow>
                       if decrypt key = None then Inl Git_external
                       else (case found of
                         Path_state clean head branch \<Rightarrow>
                           if \<not> clean \<or> head \<noteq> expected \<or> branch \<noteq> wt_branch_name t
                           then Inl (Git_execution (lit ''worktree HEAD, branch or clean state changed after approval''))
                           else if Some (wt_branch_name t) = gb_default_branch b
                           then Inl (Git_permission (lit ''Target branch is not an allocated task branch''))
                           else and_then (configured_branch_prefix w) (\<lambda>prefix.
                             if \<not> has_prefix prefix (wt_branch_name t) then Inl (Git_permission (lit ''Target branch is not an allocated task branch''))
                             else (case get_credential (cn_api_token_credential_id cn) uid db of
                               None \<Rightarrow> Inl (Git_permission (lit ''Gitea API credential is unavailable''))
                             | Some k \<Rightarrow> if decrypt k = None then Inl Git_external else Inr (r, p, b, t)))
                       | _ \<Rightarrow> Inl Git_external)
                   | _ \<Rightarrow> Inl (Git_permission (lit ''Repository credential is unavailable''))))))"

definition push_project_git_branch ::
  "git_world \<Rightarrow> decryption \<Rightarrow> (pystr \<Rightarrow> int option) \<Rightarrow> inspection \<Rightarrow> bool option \<Rightarrow> pystr option \<Rightarrow> pystr \<Rightarrow> pystr \<Rightarrow> pystr \<Rightarrow> pystr \<Rightarrow> time \<Rightarrow> git_db
   \<Rightarrow> (pystr \<times> pystr) option \<times> (git_error + git_db)" where
  "push_project_git_branch w decrypt user_ids found protected answer run_id uid alias expected_head_sha now db =
     (case and_then (require_commit_sha w expected_head_sha) (\<lambda>expected.
             and_then (push_target w decrypt found run_id uid alias expected db) (\<lambda>x. Inr (expected, x))) of
        Inl e \<Rightarrow> (None, Inl e)
      | Inr (expected, r, p, b, t) \<Rightarrow>
          if protected = None then (None, Inl Git_external)
          else if protected = Some True then (None, Inl (Git_permission (lit ''Protected branch cannot be pushed'')))
          else (Some (wt_branch_name t, expected),
            (case answer of
               None \<Rightarrow> Inl (Git_execution (lit ''push''))
             | Some pushed \<Rightarrow>
                 (case user_ids uid of
                    None \<Rightarrow> Inl (Git_permission (lit ''Git push audit owner is unavailable''))
                  | Some u \<Rightarrow>
                      let details = JObj [(lit ''run_id'', JStr (ar_id r)), (lit ''project_id'', JStr (pr_id p)), (lit ''repository_id'', JStr (gb_id b)),
                            (lit ''repository_alias'', JStr (gb_alias b)), (lit ''runtime_scope_id'', JStr (ar_runtime_scope_id r)),
                            (lit ''branch'', JStr (wt_branch_name t)), (lit ''pushed_sha'', JStr pushed)];
                          db' = put_worktree (t\<lparr>wt_last_observed_head_sha := Some pushed, wt_last_pushed_sha := Some pushed, wt_updated_at := now\<rparr>) db
                      in Inr (db'\<lparr>pg_logs := pg_logs db' @ [\<lparr>ol_user_id = u, ol_operation = lit ''git_push_branch'',
                            ol_details = gw_dumps w details, ol_timestamp = now\<rparr>]\<rparr>)))))"

end
