(* ===== verification/Git_Invariant.thy ===== *)
theory Git_Invariant
  imports Git_Worktree Governance_Invariant
begin

text \<open>
  The invariant and the history of the Git tables: which secrets are stored, how bindings live, and that rows keep their identity. Each operation is reduced to the
  few rows it touches; the lemmas on a single touched row carry the proofs.
\<close>

section \<open>One row of a keyed table\<close>

lemma put_row_set:
  assumes "distinct (map k rows)" and "r \<in> set rows" and "k r' = k r"
  shows "set (update_where (\<lambda>x. k x = k r') (\<lambda>_. r') rows) = insert r' (set rows - {r})"
proof -
  have "{x \<in> set rows. k x = k r'} = {r}" using assms by (auto simp: distinct_map inj_on_def)
  moreover have "{x \<in> set rows. k x \<noteq> k r'} = set rows - {r}" using assms by (auto simp: distinct_map inj_on_def)
  ultimately show ?thesis by (simp add: set_update_where)
qed

lemma map_put_row:
  assumes "distinct (map k rows)" and "r \<in> set rows" and "k r' = k r" and "g r' = g r"
  shows "map g (update_where (\<lambda>x. k x = k r') (\<lambda>_. r') rows) = map g rows"
  using assms by (auto simp: update_where_def distinct_map inj_on_def)

lemma evolves_put_row:
  assumes "distinct (map k rows)" and "r \<in> set rows" and "k r' = k r" and "R r r'" and "\<And>x. R x x"
  shows "evolves R rows (update_where (\<lambda>x. k x = k r') (\<lambda>_. r') rows)"
  by (rule evolves_update_where) (use assms in \<open>auto simp: distinct_map inj_on_def\<close>)

text \<open>The image of the rows that satisfy \<open>P\<close> after a row was added or replaced.\<close>

lemma image_added:
  "f ` {x. (x = y \<or> x \<in> A) \<and> P x} = (if P y then insert (f y) (f ` {x \<in> A. P x}) else f ` {x \<in> A. P x})"
  by auto

lemma image_removed:
  assumes "inj_on f A" and "r \<in> A"
  shows "f ` {x. x \<in> A \<and> x \<noteq> r \<and> P x} = f ` {x \<in> A. P x} - {f r}"
  using assms by (auto simp: inj_on_def)

section \<open>The invariant\<close>

definition cred_key :: "git_credential \<Rightarrow> pystr \<times> pystr" where
  "cred_key k = (kc_id k, kc_uid k)"

definition token_of :: "git_connection \<Rightarrow> pystr \<times> pystr" where
  "token_of c = (cn_api_token_credential_id c, cn_uid c)"

definition key_of :: "project_git_repository \<Rightarrow> pystr \<times> pystr" where
  "key_of b = (gb_deploy_private_credential_id b, gb_uid b)"

definition live_credentials :: "git_db \<Rightarrow> (pystr \<times> pystr) set" where
  "live_credentials db = cred_key ` {k \<in> set (pg_credentials db). kc_status k = Credential_active}"

definition used_credentials :: "git_db \<Rightarrow> (pystr \<times> pystr) set" where
  "used_credentials db = token_of ` {c \<in> set (pg_connections db). cn_status c = Connection_active}
     \<union> key_of ` {b \<in> set (pg_bindings db). gb_status b \<noteq> Git_disabled}"

definition keys_unique :: "git_db \<Rightarrow> bool" where
  "keys_unique db \<longleftrightarrow> distinct (map kc_id (pg_credentials db)) \<and> distinct (map cn_id (pg_connections db)) \<and> distinct (map gb_id (pg_bindings db))
     \<and> distinct (map wt_id (pg_worktrees db)) \<and> distinct (map (\<lambda>t. (wt_repository_id t, wt_runtime_scope_id t)) (pg_worktrees db))"

definition one_use :: "git_db \<Rightarrow> bool" where
  "one_use db \<longleftrightarrow> distinct (map token_of (pg_connections db) @ map key_of (pg_bindings db))
     \<and> set (map token_of (pg_connections db) @ map key_of (pg_bindings db)) \<subseteq> set (map cred_key (pg_credentials db))"

definition bindings_connected :: "git_db \<Rightarrow> bool" where
  "bindings_connected db \<longleftrightarrow> (\<forall>b\<in>set (pg_bindings db). gb_status b \<noteq> Git_disabled \<longrightarrow>
     (\<exists>c\<in>set (pg_connections db). cn_id c = gb_connection_id b \<and> cn_uid c = gb_uid b \<and> cn_status c = Connection_active))"

definition git_inv :: "git_db \<Rightarrow> bool" where
  "git_inv db \<longleftrightarrow> keys_unique db \<and> one_use db \<and> bindings_connected db \<and> live_credentials db = used_credentials db"

section \<open>History of the rows\<close>

text \<open>Within one generation a binding only moves forward; another intent starts a new generation, and an intent to revoke is never taken back.\<close>

definition forward :: "git_binding_status \<Rightarrow> git_binding_status \<Rightarrow> bool" where
  "forward x y \<longleftrightarrow> x = y \<or> (x, y) \<in> {(Git_provisioning, Git_provision_failed), (Git_provisioning, Git_active), (Git_provision_failed, Git_active),
     (Git_deleting, Git_delete_failed), (Git_deleting, Git_disabled), (Git_delete_failed, Git_disabled)}"

definition revoking :: "git_binding_status \<Rightarrow> bool" where
  "revoking s \<longleftrightarrow> s \<in> {Git_deleting, Git_delete_failed, Git_disabled}"

definition binding_identity :: "project_git_repository \<Rightarrow> pystr \<times> pystr \<times> pystr \<times> pystr \<times> pystr \<times> pystr \<times> pystr \<times> pystr" where
  "binding_identity b = (gb_id b, gb_project_id b, gb_uid b, gb_connection_id b, gb_alias b, gb_directory_name b,
     gb_deploy_private_credential_id b, gb_deploy_public_key_fingerprint b)"

definition binding_evolves :: "project_git_repository \<Rightarrow> project_git_repository \<Rightarrow> bool" where
  "binding_evolves b b' \<longleftrightarrow> binding_identity b' = binding_identity b \<and> gb_operation_generation b \<le> gb_operation_generation b'
     \<and> (gb_operation_generation b' = gb_operation_generation b \<longrightarrow> forward (gb_status b) (gb_status b'))
     \<and> (revoking (gb_status b) \<longrightarrow> revoking (gb_status b')) \<and> (gb_status b = Git_disabled \<longrightarrow> b' = b)"

definition credential_evolves :: "git_credential \<Rightarrow> git_credential \<Rightarrow> bool" where
  "credential_evolves k k' \<longleftrightarrow> k' = k \<or> kc_status k = Credential_active \<and> (\<exists>t. k' = destroyed t k)"

definition worktree_identity :: "project_git_worktree \<Rightarrow> pystr \<times> pystr \<times> pystr \<times> pystr \<times> pystr \<times> pystr \<times> pystr" where
  "worktree_identity t = (wt_id t, wt_repository_id t, wt_project_id t, wt_uid t, wt_runtime_scope_id t, wt_task_key t, wt_relative_path t)"

definition worktree_evolves :: "project_git_worktree \<Rightarrow> project_git_worktree \<Rightarrow> bool" where
  "worktree_evolves t t' \<longleftrightarrow> worktree_identity t' = worktree_identity t \<and> wt_allocation_generation t \<le> wt_allocation_generation t'
     \<and> (wt_allocation_generation t' = wt_allocation_generation t \<longrightarrow>
          wt_branch_name t' = wt_branch_name t \<and> wt_base_branch t' = wt_base_branch t \<and> (wt_status t = Wt_removed \<longrightarrow> t' = t))"

definition git_rel :: "git_db \<Rightarrow> git_db \<Rightarrow> bool" where
  "git_rel db db' \<longleftrightarrow> evolves binding_evolves (pg_bindings db) (pg_bindings db') \<and> evolves credential_evolves (pg_credentials db) (pg_credentials db')
     \<and> evolves worktree_evolves (pg_worktrees db) (pg_worktrees db')"

lemma forward_refl [simp]: "forward s s"
  by (simp add: forward_def)

lemma forward_trans: "forward x y \<Longrightarrow> forward y z \<Longrightarrow> forward x z"
  unfolding forward_def by auto

lemma binding_evolves_refl [simp]: "binding_evolves b b"
  by (simp add: binding_evolves_def)

lemma binding_evolves_trans: "binding_evolves a b \<Longrightarrow> binding_evolves b c \<Longrightarrow> binding_evolves a c"
  unfolding binding_evolves_def using forward_trans[of "gb_status a" "gb_status b" "gb_status c"] by auto

lemma credential_evolves_refl [simp]: "credential_evolves k k"
  by (simp add: credential_evolves_def)

lemma credential_evolves_trans: "credential_evolves a b \<Longrightarrow> credential_evolves b c \<Longrightarrow> credential_evolves a c"
  by (auto simp: credential_evolves_def destroyed_def)

lemma worktree_evolves_refl [simp]: "worktree_evolves t t"
  by (simp add: worktree_evolves_def)

lemma worktree_evolves_trans: "worktree_evolves a b \<Longrightarrow> worktree_evolves b c \<Longrightarrow> worktree_evolves a c"
  unfolding worktree_evolves_def by auto

lemma git_rel_refl [simp]: "git_rel db db"
  by (simp add: git_rel_def evolves_refl)

lemma git_rel_trans: "git_rel a b \<Longrightarrow> git_rel b c \<Longrightarrow> git_rel a c"
  unfolding git_rel_def
  by (meson evolves_trans binding_evolves_trans credential_evolves_trans worktree_evolves_trans)

definition git_good :: "git_db \<Rightarrow> git_db \<Rightarrow> bool" where
  "git_good db db' \<longleftrightarrow> git_inv db' \<and> git_rel db db'"

lemma git_good_refl: "git_inv db \<Longrightarrow> git_good db db"
  by (simp add: git_good_def)

section \<open>Changes of the tables\<close>

lemmas git_inv_defs = git_inv_def keys_unique_def one_use_def bindings_connected_def live_credentials_def used_credentials_def

lemma logs_platform_inv [simp]:
  "git_inv (db\<lparr>pg_logs := l\<rparr>) = git_inv db" "git_inv (db\<lparr>pg_platform := p\<rparr>) = git_inv db"
  by (simp_all add: git_inv_defs)

lemma logs_platform_rel [simp]:
  "git_rel db0 (db\<lparr>pg_logs := l\<rparr>) = git_rel db0 db" "git_rel db0 (db\<lparr>pg_platform := p\<rparr>) = git_rel db0 db"
  by (simp_all add: git_rel_def)

lemma used_not_new:
  assumes "git_inv db" and "kc_id k \<notin> kc_id ` set (pg_credentials db)"
  shows "cred_key k \<notin> token_of ` set (pg_connections db) \<and> cred_key k \<notin> key_of ` set (pg_bindings db)"
proof -
  have "cred_key k \<notin> cred_key ` set (pg_credentials db)" using assms(2) by (force simp: cred_key_def)
  then show ?thesis using assms(1) by (auto simp: git_inv_def one_use_def)
qed

lemma add_connection_good:
  assumes inv: "git_inv db" and new: "kc_id k \<notin> kc_id ` set (pg_credentials db)" "kc_status k = Credential_active"
    and c: "cn_id c \<notin> cn_id ` set (pg_connections db)" "token_of c = cred_key k" "cn_status c = Connection_active"
  shows "git_good db (db\<lparr>pg_credentials := pg_credentials db @ [k], pg_connections := pg_connections db @ [c]\<rparr>)"
proof -
  note u = used_not_new[OF inv new(1)]
  have "live_credentials (db\<lparr>pg_credentials := pg_credentials db @ [k], pg_connections := pg_connections db @ [c]\<rparr>) = insert (cred_key k) (live_credentials db)"
    using new(2) by (simp add: live_credentials_def image_added)
  moreover have "used_credentials (db\<lparr>pg_credentials := pg_credentials db @ [k], pg_connections := pg_connections db @ [c]\<rparr>) = insert (cred_key k) (used_credentials db)"
    using c(2,3) by (simp add: used_credentials_def image_added)
  ultimately have "git_inv (db\<lparr>pg_credentials := pg_credentials db @ [k], pg_connections := pg_connections db @ [c]\<rparr>)"
    using inv u new c unfolding git_inv_def keys_unique_def one_use_def bindings_connected_def by auto
  then show ?thesis by (simp add: git_good_def git_rel_def evolves_refl evolves_append)
qed

lemma add_binding_good:
  assumes inv: "git_inv db" and new: "kc_id k \<notin> kc_id ` set (pg_credentials db)" "kc_status k = Credential_active"
    and b: "gb_id b \<notin> gb_id ` set (pg_bindings db)" "key_of b = cred_key k" "gb_status b \<noteq> Git_disabled"
    and c: "c \<in> set (pg_connections db)" "cn_id c = gb_connection_id b" "cn_uid c = gb_uid b" "cn_status c = Connection_active"
  shows "git_good db (db\<lparr>pg_credentials := pg_credentials db @ [k], pg_bindings := pg_bindings db @ [b]\<rparr>)"
proof -
  let ?db = "db\<lparr>pg_credentials := pg_credentials db @ [k], pg_bindings := pg_bindings db @ [b]\<rparr>"
  note u = used_not_new[OF inv new(1)]
  have "live_credentials ?db = insert (cred_key k) (live_credentials db)" using new(2) by (simp add: live_credentials_def image_added)
  moreover have "used_credentials ?db = insert (cred_key k) (used_credentials db)" using b(2,3) by (simp add: used_credentials_def image_added)
  moreover have "bindings_connected ?db" using inv c unfolding git_inv_def bindings_connected_def by auto
  ultimately have "git_inv ?db" using inv u new b unfolding git_inv_def keys_unique_def one_use_def by auto
  then show ?thesis by (simp add: git_good_def git_rel_def evolves_refl evolves_append)
qed

lemma bindings_map_good:
  assumes inv: "git_inv db"
    and ev: "\<And>b. b \<in> set (pg_bindings db) \<Longrightarrow> binding_evolves b (f b) \<and> (gb_status (f b) = Git_disabled \<longleftrightarrow> gb_status b = Git_disabled)"
  shows "git_good db (db\<lparr>pg_bindings := map f (pg_bindings db)\<rparr>)"
proof -
  let ?db = "db\<lparr>pg_bindings := map f (pg_bindings db)\<rparr>"
  have i: "gb_id (f b) = gb_id b" "key_of (f b) = key_of b" "gb_connection_id (f b) = gb_connection_id b" "gb_uid (f b) = gb_uid b"
    if "b \<in> set (pg_bindings db)" for b
    using ev[OF that] by (auto simp: binding_evolves_def binding_identity_def key_of_def)
  have m: "map (gb_id \<circ> f) (pg_bindings db) = map gb_id (pg_bindings db)" "map (key_of \<circ> f) (pg_bindings db) = map key_of (pg_bindings db)"
    "(\<lambda>x. key_of (f x)) ` set (pg_bindings db) = key_of ` set (pg_bindings db)"
    using i by (simp_all add: image_image)
  have "key_of ` {b \<in> f ` set (pg_bindings db). gb_status b \<noteq> Git_disabled} = key_of ` {b \<in> set (pg_bindings db). gb_status b \<noteq> Git_disabled}"
  proof -
    have "{b \<in> f ` set (pg_bindings db). gb_status b \<noteq> Git_disabled} = f ` {b \<in> set (pg_bindings db). gb_status b \<noteq> Git_disabled}"
      using ev by auto
    then show ?thesis using i by (simp add: image_image)
  qed
  then have "used_credentials ?db = used_credentials db" by (simp add: used_credentials_def)
  moreover have "bindings_connected ?db" using inv ev i unfolding git_inv_def bindings_connected_def by auto
  moreover have "distinct (map (gb_id \<circ> f) (pg_bindings db))" "distinct (map (key_of \<circ> f) (pg_bindings db))"
    unfolding m(1,2) using inv by (simp_all add: git_inv_def keys_unique_def one_use_def)
  ultimately have "git_inv ?db" using inv m(3) unfolding git_inv_def keys_unique_def one_use_def live_credentials_def by simp
  moreover have "evolves binding_evolves (pg_bindings db) (map f (pg_bindings db))"
    using ev by (auto simp: evolves_def list_all2_conv_all_nth)
  ultimately show ?thesis by (simp add: git_good_def git_rel_def evolves_refl)
qed

lemma put_binding_good:
  assumes inv: "git_inv db" and b: "b \<in> set (pg_bindings db)" and "binding_evolves b b'"
    and "gb_status b' = Git_disabled \<longleftrightarrow> gb_status b = Git_disabled"
  shows "git_good db (put_binding b' db)"
proof -
  have "x = b" if "x \<in> set (pg_bindings db)" "gb_id x = gb_id b'" for x
    using that assms(1-3) by (auto simp: git_inv_def keys_unique_def binding_evolves_def binding_identity_def distinct_map inj_on_def)
  then have same: "x = b" if "x \<in> set (pg_bindings db)" "gb_id x = gb_id b'" for x using that by blast
  show ?thesis unfolding put_binding_def update_where_def
  proof (rule bindings_map_good[OF inv])
    fix x assume x: "x \<in> set (pg_bindings db)"
    show "binding_evolves x (if gb_id x = gb_id b' then b' else x)
      \<and> (gb_status (if gb_id x = gb_id b' then b' else x) = Git_disabled \<longleftrightarrow> gb_status x = Git_disabled)"
    proof (cases "gb_id x = gb_id b'")
      case True
      then have "x = b" by (rule same[OF x])
      with True assms(3,4) show ?thesis by simp
    qed simp
  qed
qed

lemma live_destroyed:
  assumes "distinct (map kc_id (pg_credentials db))" and "k \<in> set (pg_credentials db)"
  shows "live_credentials (destroy_credential (kc_id k) now db) = live_credentials db - {cred_key k}"
proof -
  have "{x \<in> set (pg_credentials db). kc_id x = kc_id k} = {k}" "{x \<in> set (pg_credentials db). kc_id x \<noteq> kc_id k} = set (pg_credentials db) - {k}"
    using assms by (auto simp: distinct_map inj_on_def)
  then have "set (pg_credentials (destroy_credential (kc_id k) now db)) = insert (destroyed now k) (set (pg_credentials db) - {k})"
    by (simp add: destroy_credential_def set_update_where)
  moreover have "kc_status (destroyed now k) \<noteq> Credential_active" by (simp add: destroyed_def)
  ultimately have "live_credentials (destroy_credential (kc_id k) now db)
      = cred_key ` {x. x \<in> set (pg_credentials db) \<and> x \<noteq> k \<and> kc_status x = Credential_active}"
    unfolding live_credentials_def by (intro arg_cong[where f = "image cred_key"]) auto
  moreover have "inj_on cred_key (set (pg_credentials db))" using assms(1) by (simp add: distinct_map inj_on_def cred_key_def)
  ultimately show ?thesis using image_removed[OF _ assms(2), of cred_key "\<lambda>x. kc_status x = Credential_active"] by (simp add: live_credentials_def)
qed

lemma destroyed_fields:
  "map kc_id (pg_credentials (destroy_credential i now db)) = map kc_id (pg_credentials db)"
  "map cred_key (pg_credentials (destroy_credential i now db)) = map cred_key (pg_credentials db)"
  "pg_connections (destroy_credential i now db) = pg_connections db" "pg_bindings (destroy_credential i now db) = pg_bindings db"
  "pg_worktrees (destroy_credential i now db) = pg_worktrees db" "pg_platform (destroy_credential i now db) = pg_platform db"
  by (simp_all add: destroy_credential_def destroyed_def cred_key_def map_update_where)

lemma destroyed_evolves:
  assumes "distinct (map kc_id (pg_credentials db))" and "k \<in> set (pg_credentials db)" and "kc_status k = Credential_active"
  shows "evolves credential_evolves (pg_credentials db) (pg_credentials (destroy_credential (kc_id k) now db))"
proof -
  have "credential_evolves x (destroyed now x)" if "x \<in> set (pg_credentials db)" "kc_id x = kc_id k" for x
  proof -
    have "x = k" using that assms(1,2) by (auto simp: distinct_map inj_on_def)
    with assms(3) show ?thesis unfolding credential_evolves_def by blast
  qed
  then show ?thesis by (simp add: destroy_credential_def evolves_update_where)
qed

text \<open>A row that gives its credential up while the credential is destroyed.\<close>

lemma used_after_disabling:
  assumes "git_inv db" and "b \<in> set (pg_bindings db)" and "gb_id b' = gb_id b" and "key_of b' = key_of b" and "gb_status b' = Git_disabled"
  shows "used_credentials (put_binding b' db) = used_credentials db - {key_of b}"
proof -
  let ?T = "token_of ` {c \<in> set (pg_connections db). cn_status c = Connection_active}"
  have d: "distinct (map gb_id (pg_bindings db))" "inj_on key_of (set (pg_bindings db))" "key_of b \<notin> token_of ` set (pg_connections db)"
    using assms(1,2) unfolding git_inv_def keys_unique_def one_use_def by (auto simp: distinct_map)
  have s: "set (update_where (\<lambda>x. gb_id x = gb_id b') (\<lambda>_. b') (pg_bindings db)) = insert b' (set (pg_bindings db) - {b})"
    by (rule put_row_set[OF d(1) assms(2,3)])
  have "key_of ` {x \<in> insert b' (set (pg_bindings db) - {b}). gb_status x \<noteq> Git_disabled}
      = key_of ` {x \<in> set (pg_bindings db). gb_status x \<noteq> Git_disabled} - {key_of b}"
    using image_removed[OF d(2) assms(2), of "\<lambda>x. gb_status x \<noteq> Git_disabled"] assms(5) by (auto simp: image_added)
  moreover have "?T - {key_of b} = ?T" using d(3) by auto
  moreover have "pg_bindings (put_binding b' db) = update_where (\<lambda>x. gb_id x = gb_id b') (\<lambda>_. b') (pg_bindings db)"
    "pg_connections (put_binding b' db) = pg_connections db"
    by (simp_all add: put_binding_def)
  ultimately show ?thesis unfolding used_credentials_def by (simp only: s Un_Diff)
qed

lemma revoke_good:
  assumes inv: "git_inv db" and b: "b \<in> set (pg_bindings db)" and k: "k \<in> set (pg_credentials db)" "kc_status k = Credential_active" "cred_key k = key_of b"
    and b': "gb_id b' = gb_id b" "key_of b' = key_of b" "gb_status b' = Git_disabled" "binding_evolves b b'"
  shows "git_good db (put_binding b' (destroy_credential (kc_id k) now db))"
proof -
  let ?db = "put_binding b' (destroy_credential (kc_id k) now db)"
  have d: "distinct (map kc_id (pg_credentials db))" "distinct (map gb_id (pg_bindings db))"
    using inv by (simp_all add: git_inv_def keys_unique_def)
  have "live_credentials ?db = live_credentials db - {key_of b}"
    using live_destroyed[OF d(1) k(1), of now] k(3) by (simp add: put_binding_def live_credentials_def)
  moreover have "used_credentials ?db = used_credentials (put_binding b' db)" by (simp add: used_credentials_def put_binding_def destroyed_fields)
  moreover have "bindings_connected ?db"
    using inv unfolding git_inv_def bindings_connected_def put_binding_def by (auto simp: destroyed_fields b'(3) elim!: in_update_whereE)
  moreover have "keys_unique ?db" "one_use ?db"
    using inv map_put_row[OF d(2) b b'(1), of gb_id] map_put_row[OF d(2) b b'(1), of key_of] b'(1,2)
    by (simp_all add: git_inv_def keys_unique_def one_use_def put_binding_def destroyed_fields del: set_map set_append)
  ultimately have "git_inv ?db" using inv used_after_disabling[OF inv b b'(1,2,3)] by (simp add: git_inv_def)
  moreover have "evolves binding_evolves (pg_bindings db) (pg_bindings ?db)"
    using evolves_put_row[OF d(2) b b'(1), of binding_evolves] b'(4) by (simp add: put_binding_def destroyed_fields)
  moreover have "evolves credential_evolves (pg_credentials db) (pg_credentials ?db)"
    using destroyed_evolves[OF d(1) k(1,2)] by (simp add: put_binding_def)
  ultimately show ?thesis by (simp add: git_good_def git_rel_def put_binding_def destroyed_fields evolves_refl)
qed

lemma disconnect_good:
  assumes inv: "git_inv db" and c: "c \<in> set (pg_connections db)" and k: "k \<in> set (pg_credentials db)" "kc_status k = Credential_active" "cred_key k = token_of c"
    and c': "cn_id c' = cn_id c" "token_of c' = token_of c" "cn_status c' = Connection_disabled"
    and unused: "\<And>b. b \<in> set (pg_bindings db) \<Longrightarrow> gb_connection_id b = cn_id c \<Longrightarrow> gb_uid b = cn_uid c \<Longrightarrow> gb_status b = Git_disabled"
  shows "git_good db (put_connection c' (destroy_credential (kc_id k) now db))"
proof -
  let ?db = "put_connection c' (destroy_credential (kc_id k) now db)"
  let ?K = "key_of ` {b \<in> set (pg_bindings db). gb_status b \<noteq> Git_disabled}"
  have d: "distinct (map kc_id (pg_credentials db))" "distinct (map cn_id (pg_connections db))" "inj_on token_of (set (pg_connections db))"
    "token_of c \<notin> key_of ` set (pg_bindings db)"
    using inv c unfolding git_inv_def keys_unique_def one_use_def by (auto simp: distinct_map)
  have s: "set (update_where (\<lambda>x. cn_id x = cn_id c') (\<lambda>_. c') (pg_connections db)) = insert c' (set (pg_connections db) - {c})"
    by (rule put_row_set[OF d(2) c c'(1)])
  have "live_credentials ?db = live_credentials db - {token_of c}"
    using live_destroyed[OF d(1) k(1), of now] k(3) by (simp add: put_connection_def live_credentials_def)
  moreover have "used_credentials ?db = used_credentials db - {token_of c}"
  proof -
    have "token_of ` {x \<in> insert c' (set (pg_connections db) - {c}). cn_status x = Connection_active}
        = token_of ` {x \<in> set (pg_connections db). cn_status x = Connection_active} - {token_of c}"
      using image_removed[OF d(3) c, of "\<lambda>x. cn_status x = Connection_active"] c'(3) by (auto simp: image_added)
    moreover have "?K - {token_of c} = ?K" using d(4) by auto
    moreover have "pg_connections ?db = update_where (\<lambda>x. cn_id x = cn_id c') (\<lambda>_. c') (pg_connections db)" "pg_bindings ?db = pg_bindings db"
      by (simp_all add: put_connection_def destroyed_fields)
    ultimately show ?thesis unfolding used_credentials_def by (simp only: s Un_Diff)
  qed
  moreover have "bindings_connected ?db"
    unfolding bindings_connected_def
  proof (intro ballI impI)
    fix b assume b: "b \<in> set (pg_bindings ?db)" "gb_status b \<noteq> Git_disabled"
    then have b0: "b \<in> set (pg_bindings db)" by (simp add: put_connection_def destroyed_fields)
    obtain x where x: "x \<in> set (pg_connections db)" "cn_id x = gb_connection_id b" "cn_uid x = gb_uid b" "cn_status x = Connection_active"
      using inv b0 b(2) unfolding git_inv_def bindings_connected_def by blast
    have "x \<noteq> c" using unused[OF b0] x(2,3) b(2) by metis
    then have "x \<in> set (pg_connections ?db)" using x(1) s by (simp add: put_connection_def destroyed_fields)
    with x(2-4) show "\<exists>x\<in>set (pg_connections ?db). cn_id x = gb_connection_id b \<and> cn_uid x = gb_uid b \<and> cn_status x = Connection_active" by blast
  qed
  moreover have "keys_unique ?db" "one_use ?db"
    using inv map_put_row[OF d(2) c c'(1), of cn_id] map_put_row[OF d(2) c c'(1), of token_of] c'(1,2)
    by (simp_all add: git_inv_def keys_unique_def one_use_def put_connection_def destroyed_fields del: set_map set_append)
  ultimately have "git_inv ?db" using inv by (simp add: git_inv_def)
  then show ?thesis
    using destroyed_evolves[OF d(1) k(1,2)] by (simp add: git_good_def git_rel_def put_connection_def destroyed_fields evolves_refl)
qed

lemma disjoint_subset: "A \<subseteq> B \<Longrightarrow> B \<inter> C = {} \<Longrightarrow> A \<inter> C = {}"
  by blast

lemma distinct_put_row:
  assumes "distinct (map k rows)" and "r \<in> set rows" and "k r' = k r" and "distinct (map g rows)" and "g r' \<notin> g ` set rows"
  shows "distinct (map g (update_where (\<lambda>x. k x = k r') (\<lambda>_. r') rows))"
proof -
  have "distinct (map k (update_where (\<lambda>x. k x = k r') (\<lambda>_. r') rows))"
    using assms(1) map_put_row[of k rows r r' k, OF assms(1-3) assms(3)] by simp
  then have "distinct (update_where (\<lambda>x. k x = k r') (\<lambda>_. r') rows)" by (simp add: distinct_map)
  moreover have "inj_on g (insert r' (set rows - {r}))"
  proof -
    have "inj_on g (set rows - {r})" using assms(4) by (auto simp: distinct_map intro: inj_on_subset)
    moreover have "g r' \<notin> g ` (set rows - {r} - {r'})" using assms(5) by blast
    ultimately show ?thesis by (simp only: inj_on_insert) simp
  qed
  ultimately show ?thesis by (simp add: distinct_map put_row_set[OF assms(1-3)])
qed

lemma rotate_good:
  assumes inv: "git_inv db" and c: "c \<in> set (pg_connections db)" "cn_status c = Connection_active"
    and old: "old \<in> set (pg_credentials db)" "kc_status old = Credential_active" "cred_key old = token_of c"
    and new: "kc_id k \<notin> kc_id ` set (pg_credentials db)" "kc_status k = Credential_active"
    and c': "cn_id c' = cn_id c" "cn_uid c' = cn_uid c" "token_of c' = cred_key k" "cn_status c' = Connection_active"
  shows "git_good db (destroy_credential (kc_id old) now (put_connection c' (db\<lparr>pg_credentials := pg_credentials db @ [k]\<rparr>)))"
proof -
  let ?db1 = "put_connection c' (db\<lparr>pg_credentials := pg_credentials db @ [k]\<rparr>)"
  let ?db = "destroy_credential (kc_id old) now ?db1"
  have f: "pg_credentials ?db1 = pg_credentials db @ [k]" "pg_bindings ?db1 = pg_bindings db" "pg_worktrees ?db1 = pg_worktrees db"
    "pg_connections ?db1 = update_where (\<lambda>x. cn_id x = cn_id c') (\<lambda>_. c') (pg_connections db)"
    by (simp_all add: put_connection_def)
  note u = used_not_new[OF inv new(1)]
  have d: "distinct (map kc_id (pg_credentials ?db1))" "distinct (map cn_id (pg_connections db))" "distinct (map token_of (pg_connections db))"
    "token_of c \<notin> key_of ` set (pg_bindings db)"
    using inv c(1) new(1) unfolding git_inv_def keys_unique_def one_use_def f by auto
  have s: "set (pg_connections ?db1) = insert c' (set (pg_connections db) - {c})"
    unfolding f by (rule put_row_set[OF d(2) c(1) c'(1)])
  have "old \<in> set (pg_credentials ?db1)" using old(1) f by simp
  then have live: "live_credentials ?db = insert (cred_key k) (live_credentials db) - {token_of c}"
    using live_destroyed[OF d(1)] old(3) new(2) f(1) by (simp add: live_credentials_def image_added)
  have "token_of c \<noteq> cred_key k" using u c(1) by (metis imageI)
  moreover have "token_of ` {x \<in> insert c' (set (pg_connections db) - {c}). cn_status x = Connection_active}
      = insert (cred_key k) (token_of ` {x \<in> set (pg_connections db). cn_status x = Connection_active} - {token_of c})"
  proof -
    have "{x \<in> insert c' (set (pg_connections db) - {c}). cn_status x = Connection_active}
        = insert c' {x. x \<in> set (pg_connections db) \<and> x \<noteq> c \<and> cn_status x = Connection_active}"
      using c'(4) by auto
    then show ?thesis
      using image_removed[of token_of "set (pg_connections db)" c "\<lambda>x. cn_status x = Connection_active"] c(1) d(3) c'(3)
      by (simp add: distinct_map)
  qed
  moreover have "key_of ` {b \<in> set (pg_bindings db). gb_status b \<noteq> Git_disabled} - {token_of c} = key_of ` {b \<in> set (pg_bindings db). gb_status b \<noteq> Git_disabled}"
    using d(4) by auto
  ultimately have used: "used_credentials ?db = insert (cred_key k) (used_credentials db) - {token_of c}"
    unfolding used_credentials_def destroyed_fields f(2) s by (simp only: Un_Diff insert_Diff_if) auto
  have "bindings_connected ?db"
    unfolding bindings_connected_def destroyed_fields f(2) s
    using inv c'(1,2,4) unfolding git_inv_def bindings_connected_def by (metis DiffI insertCI singletonD)
  moreover have "keys_unique ?db"
    using inv d(1) map_put_row[OF d(2) c(1) c'(1), of cn_id] c'(1) f
    unfolding git_inv_def keys_unique_def destroyed_fields by simp
  moreover have "one_use ?db"
  proof -
    have t: "distinct (map token_of (pg_connections ?db1))"
      unfolding f by (rule distinct_put_row[OF d(2) c(1) c'(1) d(3)]) (use u c'(3) in simp)
    have sub: "token_of ` set (pg_connections ?db1) \<subseteq> insert (cred_key k) (token_of ` set (pg_connections db))" unfolding s using c'(3) by auto
    have o: "token_of ` set (pg_connections db) \<inter> key_of ` set (pg_bindings db) = {}" "distinct (map key_of (pg_bindings db))"
      "token_of ` set (pg_connections db) \<subseteq> cred_key ` set (pg_credentials db)" "key_of ` set (pg_bindings db) \<subseteq> cred_key ` set (pg_credentials db)"
      using inv by (simp_all add: git_inv_def one_use_def)
    have "insert (cred_key k) (token_of ` set (pg_connections db)) \<inter> key_of ` set (pg_bindings db) = {}" using o(1) u by simp
    then have "token_of ` set (pg_connections ?db1) \<inter> key_of ` set (pg_bindings db) = {}" by (rule disjoint_subset[OF sub])
    moreover have "cred_key ` set (pg_credentials ?db1) = insert (cred_key k) (cred_key ` set (pg_credentials db))" using f(1) by simp
    then have "token_of ` set (pg_connections ?db1) \<subseteq> cred_key ` set (pg_credentials ?db1)" "key_of ` set (pg_bindings db) \<subseteq> cred_key ` set (pg_credentials ?db1)"
      using subset_trans[OF sub insert_mono[OF o(3)]] subset_insertI2[OF o(4)] by simp_all
    ultimately show ?thesis unfolding one_use_def destroyed_fields using t o(2) by (simp only: f(2) distinct_append set_append set_map Un_subset_iff)
  qed
  ultimately have "git_inv ?db" using inv live used by (simp add: git_inv_def)
  moreover have "evolves credential_evolves (pg_credentials db) (pg_credentials ?db)"
    using evolves_trans[OF evolves_append[of credential_evolves "pg_credentials db" "[k]"] _ credential_evolves_trans]
      destroyed_evolves[OF d(1) \<open>old \<in> set (pg_credentials ?db1)\<close> old(2), of now] f(1) by simp
  ultimately show ?thesis by (simp add: git_good_def git_rel_def destroyed_fields f evolves_refl)
qed

lemma worktrees_good:
  assumes "git_inv db" and "evolves worktree_evolves (pg_worktrees db) ts" and "distinct (map wt_id ts)"
    and "distinct (map (\<lambda>t. (wt_repository_id t, wt_runtime_scope_id t)) ts)"
  shows "git_good db (db\<lparr>pg_worktrees := ts\<rparr>)"
  using assms by (simp add: git_good_def git_inv_defs git_rel_def evolves_refl)

lemma put_worktree_good:
  assumes inv: "git_inv db" and t: "t \<in> set (pg_worktrees db)" and ev: "worktree_evolves t t'"
  shows "git_good db (put_worktree t' db)"
proof -
  have i: "wt_id t' = wt_id t" "(wt_repository_id t', wt_runtime_scope_id t') = (wt_repository_id t, wt_runtime_scope_id t)"
    using ev by (auto simp: worktree_evolves_def worktree_identity_def)
  have d: "distinct (map wt_id (pg_worktrees db))" "distinct (map (\<lambda>t. (wt_repository_id t, wt_runtime_scope_id t)) (pg_worktrees db))"
    using inv by (simp_all add: git_inv_def keys_unique_def)
  show ?thesis unfolding put_worktree_def
  proof (rule worktrees_good[OF inv])
    show "evolves worktree_evolves (pg_worktrees db) (update_where (\<lambda>x. wt_id x = wt_id t') (\<lambda>_. t') (pg_worktrees db))"
      by (rule evolves_put_row[of wt_id, OF d(1) t i(1), of worktree_evolves]) (simp_all add: ev)
  qed (use d map_put_row[OF d(1) t i(1), of wt_id] i(1)
        map_put_row[OF d(1) t i(1), of "\<lambda>t. (wt_repository_id t, wt_runtime_scope_id t)", OF i(2)] in simp_all)
qed

lemma add_worktree_good:
  assumes "git_inv db" and "add_worktree t db = Inr db'"
  shows "git_good db db'"
proof -
  have "db' = db\<lparr>pg_worktrees := pg_worktrees db @ [t]\<rparr>" "wt_id t \<notin> wt_id ` set (pg_worktrees db)"
    "(wt_repository_id t, wt_runtime_scope_id t) \<notin> (\<lambda>t. (wt_repository_id t, wt_runtime_scope_id t)) ` set (pg_worktrees db)"
    using assms(2) by (auto simp: add_worktree_def split: if_splits)
  then show ?thesis
    using assms(1) worktrees_good[OF assms(1) evolves_append] by (auto simp: git_inv_def keys_unique_def)
qed

end
