(* ===== verification/Git_Requests.thy ===== *)
theory Git_Requests
  imports Git_Invariant
begin

text \<open>
  Every transaction of Project Git that is not the closing one of a job keeps the invariant and the history of the tables, and leaves the status of a binding alone unless
  it starts a new generation.
\<close>

definition status_kept :: "project_git_repository \<Rightarrow> project_git_repository \<Rightarrow> bool" where
  "status_kept b b' \<longleftrightarrow> binding_evolves b b' \<and> (gb_operation_generation b' = gb_operation_generation b \<longrightarrow> gb_status b' = gb_status b)"

definition worktrees_unleased :: "git_db \<Rightarrow> bool" where
  "worktrees_unleased db \<longleftrightarrow> (\<forall>t\<in>set (pg_worktrees db). wt_status t = Wt_removed \<longrightarrow> wt_lease_owner t = None)"

definition git_state_inv :: "git_db \<Rightarrow> bool" where
  "git_state_inv db \<longleftrightarrow> git_inv db \<and> worktrees_unleased db"

definition transaction_ok :: "git_db \<Rightarrow> git_db \<Rightarrow> bool" where
  "transaction_ok db db' \<longleftrightarrow> git_state_inv db' \<and> git_rel db db' \<and> evolves status_kept (pg_bindings db) (pg_bindings db')"

lemma status_kept_refl [simp]: "status_kept b b"
  by (simp add: status_kept_def)

lemma transaction_ok_refl: "git_state_inv db \<Longrightarrow> transaction_ok db db"
  by (simp add: transaction_ok_def evolves_refl)

lemma transaction_ok_logs [simp]: "transaction_ok db (db'\<lparr>pg_logs := l\<rparr>) = transaction_ok db db'" "transaction_ok db (db'\<lparr>pg_platform := p\<rparr>) = transaction_ok db db'"
  by (simp_all add: transaction_ok_def git_state_inv_def worktrees_unleased_def)

lemma same_bindings_ok:
  assumes "git_state_inv db" and "git_good db db'" and "pg_bindings db' = pg_bindings db" and "pg_worktrees db' = pg_worktrees db"
  shows "transaction_ok db db'"
  using assms by (simp add: transaction_ok_def git_state_inv_def git_good_def worktrees_unleased_def evolves_refl)

lemma put_worktree_ok:
  assumes inv: "git_state_inv db" and t: "t \<in> set (pg_worktrees db)" and "worktree_evolves t t'" and "wt_status t' = Wt_removed \<Longrightarrow> wt_lease_owner t' = None"
  shows "transaction_ok db (put_worktree t' db)"
proof -
  have "git_good db (put_worktree t' db)" using put_worktree_good assms(1-3) by (simp add: git_state_inv_def)
  moreover have "worktrees_unleased (put_worktree t' db)"
    using assms(1,4) by (auto simp: git_state_inv_def worktrees_unleased_def put_worktree_def elim!: in_update_whereE)
  moreover have "pg_bindings (put_worktree t' db) = pg_bindings db" by (simp add: put_worktree_def)
  ultimately show ?thesis by (simp add: transaction_ok_def git_state_inv_def git_good_def evolves_refl)
qed

lemma add_worktree_ok:
  assumes "git_state_inv db" and "add_worktree t db = Inr db'" and "wt_status t \<noteq> Wt_removed"
  shows "transaction_ok db db'"
proof -
  have "git_good db db'" using add_worktree_good assms(1,2) by (auto simp: git_state_inv_def)
  moreover have "db' = db\<lparr>pg_worktrees := pg_worktrees db @ [t]\<rparr>" using assms(2) by (auto simp: add_worktree_def split: if_splits)
  ultimately show ?thesis
    using assms(1,3) by (auto simp: transaction_ok_def git_state_inv_def git_good_def worktrees_unleased_def evolves_refl)
qed

lemma bindings_map_ok:
  assumes inv: "git_state_inv db"
    and ev: "\<And>b. b \<in> set (pg_bindings db) \<Longrightarrow> status_kept b (f b) \<and> (gb_status (f b) = Git_disabled \<longleftrightarrow> gb_status b = Git_disabled)"
  shows "transaction_ok db (db\<lparr>pg_bindings := map f (pg_bindings db)\<rparr>)"
proof -
  have "git_good db (db\<lparr>pg_bindings := map f (pg_bindings db)\<rparr>)"
    by (rule bindings_map_good) (use assms in \<open>auto simp: git_state_inv_def status_kept_def\<close>)
  moreover have "evolves status_kept (pg_bindings db) (map f (pg_bindings db))"
    using ev by (auto simp: evolves_def list_all2_conv_all_nth)
  ultimately show ?thesis using inv by (simp add: transaction_ok_def git_state_inv_def git_good_def worktrees_unleased_def)
qed

lemma put_binding_ok:
  assumes inv: "git_state_inv db" and b: "b \<in> set (pg_bindings db)" and "status_kept b b'"
    and "gb_status b' = Git_disabled \<longleftrightarrow> gb_status b = Git_disabled"
  shows "transaction_ok db (put_binding b' db)"
proof -
  have d: "distinct (map gb_id (pg_bindings db))" "gb_id b' = gb_id b"
    using inv assms(3) by (simp_all add: git_state_inv_def git_inv_def keys_unique_def status_kept_def binding_evolves_def binding_identity_def)
  have "git_good db (put_binding b' db)"
    by (rule put_binding_good[OF _ b]) (use assms in \<open>auto simp: git_state_inv_def status_kept_def\<close>)
  moreover have "evolves status_kept (pg_bindings db) (pg_bindings (put_binding b' db))"
    using evolves_put_row[of gb_id, OF d(1) b d(2), of status_kept] assms(3) by (simp add: put_binding_def)
  ultimately show ?thesis using inv by (simp add: transaction_ok_def git_state_inv_def git_good_def worktrees_unleased_def put_binding_def)
qed

section \<open>Rows found\<close>

lemma case_sum_Inr: "case_sum f g x = Inr y \<longleftrightarrow> (\<exists>a. x = Inl a \<and> f a = Inr y) \<or> (\<exists>b. x = Inr b \<and> g b = Inr y)"
  by (cases x) auto

lemma case_option_Inr: "case_option a f x = Inr y \<longleftrightarrow> x = None \<and> a = Inr y \<or> (\<exists>z. x = Some z \<and> f z = Inr y)"
  by (cases x) auto

lemma if_Inr: "(if p then a else b) = Inr y \<longleftrightarrow> p \<and> a = Inr y \<or> \<not> p \<and> b = Inr y"
  by simp

lemmas Inr_cases = case_sum_Inr case_option_Inr if_Inr

lemma get_connection_in: "get_connection i uid active db = Some c \<Longrightarrow> c \<in> set (pg_connections db) \<and> cn_id c = i \<and> cn_uid c = uid \<and> (active \<longrightarrow> cn_status c = Connection_active)"
  by (auto simp: get_connection_def dest: find_Some_in)

lemma get_credential_in: "get_credential i uid db = Some k \<Longrightarrow> k \<in> set (pg_credentials db) \<and> kc_id k = i \<and> kc_uid k = uid \<and> kc_status k = Credential_active"
  by (auto simp: get_credential_def dest: find_Some_in)

lemma get_binding_in: "get_binding i uid db = Some b \<Longrightarrow> b \<in> set (pg_bindings db) \<and> gb_id b = i \<and> gb_uid b = uid"
  by (auto simp: get_binding_def dest: find_Some_in)

lemma get_worktree_in: "get_worktree i scope uid db = Some t \<Longrightarrow> t \<in> set (pg_worktrees db) \<and> wt_repository_id t = i \<and> wt_runtime_scope_id t = scope \<and> wt_uid t = uid"
  by (auto simp: get_worktree_def dest: find_Some_in)

lemma get_worktree_by_id_in: "get_worktree_by_id i db = Some t \<Longrightarrow> t \<in> set (pg_worktrees db) \<and> wt_id t = i"
  by (auto simp: get_worktree_by_id_def dest: find_Some_in)

text \<open>The credential of an active connection and of a binding that is not disabled is there.\<close>

lemma live_credential:
  assumes "git_inv db" and "x \<in> used_credentials db"
  obtains k where "get_credential (fst x) (snd x) db = Some k" "k \<in> set (pg_credentials db)" "kc_status k = Credential_active" "cred_key k = x"
proof -
  have "x \<in> live_credentials db" using assms by (simp add: git_inv_def)
  then obtain k where k: "k \<in> set (pg_credentials db)" "kc_status k = Credential_active" "cred_key k = x" by (auto simp: live_credentials_def)
  then have "get_credential (fst x) (snd x) db \<noteq> None" by (auto simp: get_credential_def find_None_iff cred_key_def)
  then obtain k' where k': "get_credential (fst x) (snd x) db = Some k'" by blast
  then show thesis using that[OF k'] get_credential_in[OF k'] by (simp add: cred_key_def)
qed

lemma token_used: "c \<in> set (pg_connections db) \<Longrightarrow> cn_status c = Connection_active \<Longrightarrow> token_of c \<in> used_credentials db"
  by (simp add: used_credentials_def)

lemma key_used: "b \<in> set (pg_bindings db) \<Longrightarrow> gb_status b \<noteq> Git_disabled \<Longrightarrow> key_of b \<in> used_credentials db"
  by (simp add: used_credentials_def)

section \<open>Connections\<close>

lemma added_credential: "add_credential k db = Inr db' \<longleftrightarrow> kc_id k \<notin> kc_id ` set (pg_credentials db) \<and> db' = db\<lparr>pg_credentials := pg_credentials db @ [k]\<rparr>"
  by (auto simp: add_credential_def)

lemma credential_model_fields [simp]:
  "kc_id (credential_model e uid p clk) = en_id e" "kc_status (credential_model e uid p clk) = Credential_active"
  "cred_key (credential_model e uid p clk) = (en_id e, uid)"
  by (simp_all add: credential_model_def cred_key_def)

lemma created_connection:
  assumes "create_git_connection_view w dec enc ok new_id clk uid req seen db = Inr (db', c)"
  shows "db' = db \<or> (\<exists>k. kc_id k \<notin> kc_id ` set (pg_credentials db) \<and> kc_status k = Credential_active
           \<and> cn_id c \<notin> cn_id ` set (pg_connections db) \<and> token_of c = cred_key k \<and> cn_status c = Connection_active
           \<and> db' = db\<lparr>pg_credentials := pg_credentials db @ [k], pg_connections := pg_connections db @ [c]\<rparr>)"
proof (cases "db' = db")
  case False
  then obtain e name rid where c: "c = new_connection w new_id uid name rid (en_id e) clk req"
    and d: "and_then (add_credential (credential_model e uid ''gitea_api_token'' clk) db) (add_connection w c) = Inr db'"
    using assms unfolding create_git_connection_view_def Let_def by (auto simp: Inr_cases)
  then show ?thesis
    by (intro disjI2 exI[of _ "credential_model e uid ''gitea_api_token'' clk"])
      (auto simp: added_credential add_connection_def new_connection_def token_of_def split: if_splits)
qed simp

lemma create_connection_ok:
  assumes "git_state_inv db" and "create_git_connection_view w dec enc ok new_id clk uid req seen db = Inr (db', c)"
  shows "transaction_ok db db'"
  using created_connection[OF assms(2)]
proof (elim disjE exE conjE)
  fix k assume k: "kc_id k \<notin> kc_id ` set (pg_credentials db)" "kc_status k = Credential_active"
    "cn_id c \<notin> cn_id ` set (pg_connections db)" "token_of c = cred_key k" "cn_status c = Connection_active"
    and db': "db' = db\<lparr>pg_credentials := pg_credentials db @ [k], pg_connections := pg_connections db @ [c]\<rparr>"
  show ?thesis unfolding db'
    by (rule same_bindings_ok[OF assms(1) add_connection_good]) (use assms(1) k in \<open>simp_all add: git_state_inv_def\<close>)
qed (use assms(1) transaction_ok_refl in simp)

lemma rotate_ok:
  assumes inv: "git_state_inv db" and "rotate_git_connection_credential_view enc out uid i token now db = Inr (db', c')"
  shows "transaction_ok db db'"
proof -
  obtain c e where c: "get_connection i uid True db = Some c"
    and new: "en_id e \<notin> kc_id ` set (pg_credentials db)"
    and c': "c' = c\<lparr>cn_api_token_credential_id := en_id e, cn_updated_at := now\<rparr>"
    and db': "db' = (let db2 = put_connection c' (db\<lparr>pg_credentials := pg_credentials db @ [credential_model e uid ''gitea_api_token'' now]\<rparr>)
        in case get_credential (cn_api_token_credential_id c) uid db of None \<Rightarrow> db2 | Some k \<Rightarrow> destroy_credential (kc_id k) now db2)"
    using assms(2) unfolding rotate_git_connection_credential_view_def Let_def
    by (auto simp: added_credential Inr_cases)
  note cs = get_connection_in[OF c]
  have cs2: "c \<in> set (pg_connections db)" "cn_status c = Connection_active" "cn_uid c = uid" using cs by auto
  obtain k where k: "get_credential (cn_api_token_credential_id c) uid db = Some k" "k \<in> set (pg_credentials db)" "kc_status k = Credential_active" "cred_key k = token_of c"
    using live_credential[of db "token_of c"] token_used[OF cs2(1,2)] inv cs2(3) by (auto simp: git_state_inv_def token_of_def)
  have "git_good db (destroy_credential (kc_id k) now (put_connection c' (db\<lparr>pg_credentials := pg_credentials db @ [credential_model e uid ''gitea_api_token'' now]\<rparr>)))"
    by (rule rotate_good[OF _ cs2(1,2) k(2-4)])
      (use inv new cs2 in \<open>auto simp: git_state_inv_def c' token_of_def\<close>)
  then show ?thesis unfolding db' Let_def k(1) option.case
    by (rule same_bindings_ok[OF inv]) (simp_all add: destroyed_fields put_connection_def)
qed

lemma delete_connection_ok:
  assumes inv: "git_state_inv db" and "delete_git_connection_view uid i now db = Inr db'"
  shows "transaction_ok db db'"
proof -
  obtain c where c: "get_connection i uid True db = Some c" and free: "\<not> connection_has_live_bindings i uid db"
    and db': "db' = put_connection (c\<lparr>cn_status := Connection_disabled, cn_updated_at := now\<rparr>)
        (case get_credential (cn_api_token_credential_id c) uid db of None \<Rightarrow> db | Some k \<Rightarrow> destroy_credential (kc_id k) now db)"
    using assms(2) unfolding delete_git_connection_view_def Let_def by (auto simp: Inr_cases)
  have cs: "c \<in> set (pg_connections db)" "cn_status c = Connection_active" "cn_uid c = uid" "cn_id c = i" using get_connection_in[OF c] by auto
  obtain k where k: "get_credential (cn_api_token_credential_id c) uid db = Some k" "k \<in> set (pg_credentials db)" "kc_status k = Credential_active" "cred_key k = token_of c"
    using live_credential[of db "token_of c"] token_used[OF cs(1,2)] inv cs(3) by (auto simp: git_state_inv_def token_of_def)
  have "git_good db (put_connection (c\<lparr>cn_status := Connection_disabled, cn_updated_at := now\<rparr>) (destroy_credential (kc_id k) now db))"
  proof (rule disconnect_good[OF _ cs(1) k(2-4)])
    show "git_inv db" using inv by (simp add: git_state_inv_def)
    show "gb_status b = Git_disabled" if "b \<in> set (pg_bindings db)" "gb_connection_id b = cn_id c" "gb_uid b = cn_uid c" for b
      using free that cs(3,4) by (auto simp: connection_has_live_bindings_def list_ex_iff)
  qed (simp_all add: token_of_def)
  then show ?thesis unfolding db' k(1) option.case
    by (rule same_bindings_ok[OF inv]) (simp_all add: destroyed_fields put_connection_def)
qed

section \<open>Bindings\<close>

lemma new_binding_fields [simp]:
  "gb_connection_id (new_binding w i p uid c a ow n pu co al k e rid clk) = c" "gb_uid (new_binding w i p uid c a ow n pu co al k e rid clk) = uid"
  "gb_status (new_binding w i p uid c a ow n pu co al k e rid clk) = Git_provisioning" "key_of (new_binding w i p uid c a ow n pu co al k e rid clk) = (e, uid)"
  by (simp_all add: new_binding_def key_of_def)

lemma created_binding:
  assumes "create_project_repository_view w enc key new_id clk uid pid req seen db = Inr (db', b, j)"
  shows "db' = db \<or> (\<exists>k c. kc_id k \<notin> kc_id ` set (pg_credentials db) \<and> kc_status k = Credential_active
           \<and> gb_id b \<notin> gb_id ` set (pg_bindings db) \<and> key_of b = cred_key k \<and> gb_status b = Git_provisioning
           \<and> c \<in> set (pg_connections db) \<and> cn_id c = gb_connection_id b \<and> cn_uid c = gb_uid b \<and> cn_status c = Connection_active
           \<and> db' = db\<lparr>pg_credentials := pg_credentials db @ [k], pg_bindings := pg_bindings db @ [b]\<rparr>)"
proof (cases "db' = db")
  case False
  then obtain c e where c: "get_connection (bq_connection_id req) uid True db = Some c"
    and b: "key_of b = (en_id e, uid)" "gb_connection_id b = cn_id c" "gb_uid b = uid" "gb_status b = Git_provisioning"
    and d: "and_then (add_credential (credential_model e uid ''deploy_private_key'' clk) db) (add_git_binding w b) = Inr db'"
    using assms unfolding create_project_repository_view_def Let_def
    by (cases "get_active_selectable_for_user pid uid (pf_gov (pg_platform db))"; cases "get_connection (bq_connection_id req) uid True db") (auto simp: Inr_cases)
  have "gb_id b \<notin> gb_id ` set (pg_bindings db)" "en_id e \<notin> kc_id ` set (pg_credentials db)"
    "db' = db\<lparr>pg_credentials := pg_credentials db @ [credential_model e uid ''deploy_private_key'' clk], pg_bindings := pg_bindings db @ [b]\<rparr>"
    using d by (auto simp: added_credential add_git_binding_def split: if_splits)
  then show ?thesis
    using get_connection_in[OF c]
    by (intro disjI2 exI[of _ "credential_model e uid ''deploy_private_key'' clk"] exI[of _ c]) (simp add: b)
qed simp

lemma create_binding_ok:
  assumes inv: "git_state_inv db" and "create_project_repository_view w enc key new_id clk uid pid req seen db = Inr (db', b, j)"
  shows "transaction_ok db db'"
  using created_binding[OF assms(2)]
proof (elim disjE exE conjE)
  fix k c assume k: "kc_id k \<notin> kc_id ` set (pg_credentials db)" "kc_status k = Credential_active"
    and b: "gb_id b \<notin> gb_id ` set (pg_bindings db)" "key_of b = cred_key k" "gb_status b = Git_provisioning"
    and c: "c \<in> set (pg_connections db)" "cn_id c = gb_connection_id b" "cn_uid c = gb_uid b" "cn_status c = Connection_active"
    and db': "db' = db\<lparr>pg_credentials := pg_credentials db @ [k], pg_bindings := pg_bindings db @ [b]\<rparr>"
  have "git_good db db'" unfolding db'
    by (rule add_binding_good[OF _ k b(1,2) _ c]) (use inv b(3) in \<open>simp_all add: git_state_inv_def\<close>)
  then show ?thesis using inv by (simp add: transaction_ok_def git_state_inv_def git_good_def db' worktrees_unleased_def evolves_append)
qed (use inv transaction_ok_refl in simp)

lemma policy_ok:
  assumes inv: "git_state_inv db" and "update_project_repository_policy_view w dec branch_ok uid pid i purpose conf allowed now db = Inr (db', b')"
  shows "transaction_ok db db'"
proof -
  obtain b p c a where b: "get_binding i uid db = Some b" "gb_status b = Git_active" and db': "db' = put_binding b' db"
    and b': "b' = b\<lparr>gb_purpose := p, gb_configured_base_branch := Some c, gb_allowed_base_branches := a, gb_updated_at := now\<rparr>"
    using assms(2) unfolding update_project_repository_policy_view_def Let_def by (auto simp: Inr_cases)
  show ?thesis unfolding db'
    by (rule put_binding_ok[OF inv, of b]) (use get_binding_in[OF b(1)] b(2) in \<open>simp_all add: b' status_kept_def binding_evolves_def binding_identity_def\<close>)
qed

lemma retry_binding_ok:
  assumes inv: "git_state_inv db" and "retry_project_repository_view uid pid i now db = Inr (db', b', j)"
  shows "transaction_ok db db'"
proof -
  obtain b where b: "get_binding i uid db = Some b" "gb_status b \<in> {Git_provision_failed, Git_delete_failed}" and db': "db' = put_binding b' db"
    and b': "b' = b\<lparr>gb_status := (if gb_status b = Git_provision_failed then Git_provisioning else Git_deleting),
        gb_operation_generation := gb_operation_generation b + 1, gb_last_error_code := None, gb_last_error_message := None, gb_updated_at := now\<rparr>"
    using assms(2) unfolding retry_project_repository_view_def Let_def by (auto simp: Inr_cases)
  show ?thesis unfolding db'
    by (rule put_binding_ok[OF inv, of b])
      (use get_binding_in[OF b(1)] b(2) in \<open>auto simp: b' status_kept_def binding_evolves_def binding_identity_def revoking_def\<close>)
qed

lemma deleting_kept: "gb_status b \<noteq> Git_disabled \<Longrightarrow> status_kept b (mark_binding_deleting now b) \<and> gb_status (mark_binding_deleting now b) \<noteq> Git_disabled"
  by (simp add: mark_binding_deleting_def status_kept_def binding_evolves_def binding_identity_def revoking_def)

lemma deactivate_ok:
  assumes inv: "git_state_inv db" and "deactivate_project_repository_view uid pid i now db = Inr (db', b', j)"
  shows "transaction_ok db db'"
proof -
  obtain b where b: "get_binding i uid db = Some b" and db': "db' = (if gb_status b = Git_disabled then db else put_binding (mark_binding_deleting now b) db)"
    using assms(2) unfolding deactivate_project_repository_view_def Let_def by (auto simp: Inr_cases)
  show ?thesis
  proof (cases "gb_status b = Git_disabled")
    case True
    then show ?thesis using inv transaction_ok_refl by (simp add: db')
  next
    case False
    then show ?thesis using put_binding_ok[OF inv _ conjunct1[OF deleting_kept]] get_binding_in[OF b] deleting_kept[of b now] by (simp add: db')
  qed
qed

lemma delete_project_ok:
  assumes inv: "git_state_inv db" and "delete_project_git uid pid now db = Inr (db', jobs)"
  shows "transaction_ok db db'"
proof -
  let ?f = "\<lambda>g. if gb_project_id g = pid \<and> gb_uid g = uid \<and> gb_status g \<noteq> Git_disabled then mark_binding_deleting now g else g"
  obtain p where "db' = db\<lparr>pg_platform := p, pg_bindings := map ?f (pg_bindings db)\<rparr>"
    using assms(2) unfolding delete_project_git_def delete_project_view_def Let_def by (auto split: option.splits)
  then have "db' = db\<lparr>pg_bindings := map ?f (pg_bindings db)\<rparr>\<lparr>pg_platform := p\<rparr>" by simp
  moreover have "transaction_ok db (db\<lparr>pg_bindings := map ?f (pg_bindings db)\<rparr>)"
    by (rule bindings_map_ok[OF inv]) (simp add: deleting_kept)
  ultimately show ?thesis by simp
qed

section \<open>Worktrees\<close>

text \<open>A worktree row written back within its generation, and one that starts a new generation.\<close>

lemma worktree_kept:
  assumes "worktree_identity t' = worktree_identity t" and "wt_allocation_generation t' = wt_allocation_generation t"
    and "wt_branch_name t' = wt_branch_name t" and "wt_base_branch t' = wt_base_branch t" and "wt_status t \<noteq> Wt_removed"
  shows "worktree_evolves t t'"
  using assms unfolding worktree_evolves_def by simp

lemma worktree_renewed:
  assumes "worktree_identity t' = worktree_identity t" and "wt_allocation_generation t < wt_allocation_generation t'"
  shows "worktree_evolves t t'"
  using assms unfolding worktree_evolves_def by simp

lemma unleased_kept: "wt_status t \<noteq> Wt_removed \<Longrightarrow> worktree_evolves t (unleased st now t)" "wt_status (unleased st now t) = st" "wt_lease_owner (unleased st now t) = None"
  by (rule worktree_kept) (simp_all add: unleased_def worktree_identity_def)

lemma reallocated_kept:
  "worktree_evolves t (reallocated src run rid same base kind slug purpose branch now t)"
  "wt_status (reallocated src run rid same base kind slug purpose branch now t) = Wt_requested"
  by (rule worktree_renewed) (cases same; simp add: reallocated_def unleased_def worktree_identity_def Let_def)+

lemma allocate_ok:
  assumes inv: "git_state_inv db"
    and "allocate w b uid scope rid src run retry new_id now kind base slug branch purpose db = Inr (db', t)"
  shows "transaction_ok db db'"
proof -
  consider "db' = db"
    | x where "add_worktree x db = Inr db'" "wt_status x = Wt_requested"
    | x x' where "x \<in> set (pg_worktrees db)" "worktree_evolves x x'" "wt_status x' = Wt_requested" "db' = put_worktree x' db"
  proof -
    assume one: "db' = db \<Longrightarrow> thesis" and two: "\<And>x. add_worktree x db = Inr db' \<Longrightarrow> wt_status x = Wt_requested \<Longrightarrow> thesis"
      and three: "\<And>x x'. x \<in> set (pg_worktrees db) \<Longrightarrow> worktree_evolves x x' \<Longrightarrow> wt_status x' = Wt_requested \<Longrightarrow> db' = put_worktree x' db \<Longrightarrow> thesis"
    show thesis
    proof (cases "get_worktree (gb_id b) scope uid db")
      case None
      with assms(2) show thesis by (auto simp: allocate_def Let_def new_worktree_def intro: two)
    next
      case (Some x)
      note x = conjunct1[OF get_worktree_in[OF Some]]
      show thesis using assms(2) Some unfolding allocate_def Let_def
        by (auto simp: Inr_cases write_worktree_def intro: one three[OF x reallocated_kept] three[OF x unleased_kept(1,2)])
    qed
  qed
  then show ?thesis
  proof cases
    case 1
    then show ?thesis using inv transaction_ok_refl by simp
  next
    case (2 x)
    then show ?thesis using add_worktree_ok[OF inv] by simp
  next
    case (3 x x')
    show ?thesis unfolding 3(4) by (rule put_worktree_ok[OF inv 3(1,2)]) (simp add: 3(3))
  qed
qed

lemma request_allocation_ok:
  assumes inv: "git_state_inv db" and "request_worktree_allocation w b uid scope rid src run al retry new_id now db = Inr (db', t)"
  shows "transaction_ok db db'"
  using assms(2) allocate_ok[OF inv] transaction_ok_refl[OF inv] unfolding request_worktree_allocation_def Let_def
  by (auto simp: Inr_cases)

lemma select_ok:
  assumes inv: "git_state_inv db" and "select_conversation_git_repository_view w uid thread rid nm al new_id now db = Inr (db', t)"
  shows "transaction_ok db db'"
  using assms(2) request_allocation_ok[OF inv] unfolding select_conversation_git_repository_view_def by (auto simp: Inr_cases)

lemma retry_selection_ok:
  assumes inv: "git_state_inv db" and "retry_conversation_git_repository_view uid thread i now db = Inr (db', t')"
  shows "transaction_ok db db'"
proof -
  obtain t where t: "get_worktree i thread uid db = Some t" "wt_status t = Wt_prepare_failed" and db': "db' = put_worktree (unleased Wt_requested now t) db"
    using assms(2) unfolding retry_conversation_git_repository_view_def Let_def
    by (cases "get_binding i uid db"; cases "get_worktree i thread uid db") (auto simp: Inr_cases)
  show ?thesis unfolding db' by (rule put_worktree_ok[OF inv, of t]) (use get_worktree_in[OF t(1)] t(2) in \<open>simp_all add: unleased_kept\<close>)
qed

lemma allocate_for_run_ok:
  assumes inv: "git_state_inv db" and "allocate_for_run w ids run uid nm al new_id now db = Inr (db', b, t)"
  shows "transaction_ok db db'"
  using assms(2) request_allocation_ok[OF inv] unfolding allocate_for_run_def Let_def by (auto simp: Inr_cases)

lemma lease_evolves:
  assumes "acquire_worktree_lease t owner expires now db = (db', True)"
  shows "db' = put_worktree (t\<lparr>wt_lease_owner := Some owner, wt_lease_expires_at := Some expires, wt_status := Wt_preparing, wt_updated_at := now\<rparr>) db"
  using assms by (auto simp: acquire_worktree_lease_def split: if_splits)

lemma ready_case:
  "(case (s, f) of (Wt_ready, Path_state c h br) \<Rightarrow> A br | _ \<Rightarrow> B) = (case f of Path_state c h br \<Rightarrow> if s = Wt_ready then A br else B | _ \<Rightarrow> B)"
  by (cases s; cases f) simp_all

lemma prepared_lease:
  assumes "prepare_begin w dec found uid i scope worker now db = Inr (db', r)"
  shows "db' = db \<and> r = None \<or> (\<exists>t b. get_worktree i scope uid db = Some t \<and> wt_status t \<in> {Wt_requested, Wt_preparing, Wt_ready}
     \<and> get_binding i uid db = Some b \<and> gb_status b = Git_active
     \<and> acquire_worktree_lease t worker (now + worktree_lease) now db = (db', True)
     \<and> r = Some \<lparr>pj_uid = uid, pj_binding = i, pj_scope = scope, pj_worker = worker, pj_branch = wt_branch_name t, pj_base = wt_base_branch t\<rparr>)"
proof (cases "db' = db \<and> r = None")
  case False
  obtain b t where b: "get_binding i uid db = Some b" "gb_status b = Git_active" and t: "get_worktree i scope uid db = Some t"
    and l: "prepare_lease dec b t uid worker now db = Inr (db', r)"
    using assms False get_binding_in[of i uid db] unfolding prepare_begin_def ready_case
    by (cases found) (auto simp: Inr_cases)
  then show ?thesis
    using get_worktree_in[OF t] get_binding_in[OF b(1)] by (auto simp: prepare_lease_def Inr_cases split: prod.splits)
qed simp

lemma prepare_begin_ok:
  assumes inv: "git_state_inv db" and "prepare_begin w dec found uid i scope worker now db = Inr (db', r)"
  shows "transaction_ok db db'"
  using prepared_lease[OF assms(2)]
proof (elim disjE exE conjE)
  fix t b assume t: "get_worktree i scope uid db = Some t" "wt_status t \<in> {Wt_requested, Wt_preparing, Wt_ready}"
    and l: "acquire_worktree_lease t worker (now + worktree_lease) now db = (db', True)"
  show ?thesis unfolding lease_evolves[OF l]
    by (rule put_worktree_ok[OF inv, of t, OF _ worktree_kept]) (use get_worktree_in[OF t(1)] t(2) in \<open>auto simp: worktree_identity_def unleased_def\<close>)
qed (use inv transaction_ok_refl in simp)

lemma leased_not_removed:
  assumes "git_state_inv db" and "get_worktree i scope uid db = Some t" and "wt_lease_owner t = Some v"
  shows "wt_status t \<noteq> Wt_removed"
  using assms get_worktree_in[OF assms(2)] by (auto simp: git_state_inv_def worktrees_unleased_def)

lemma prepare_finish_ok:
  assumes inv: "git_state_inv db" and "prepare_finish a j now db = Inr db'"
  shows "transaction_ok db db'"
proof -
  obtain t base head where t: "get_worktree (pj_binding j) (pj_scope j) (pj_uid j) db = Some t" "wt_lease_owner t = Some (pj_worker j)"
    and db': "db' = put_worktree (unleased Wt_ready now (t\<lparr>wt_base_sha := base, wt_last_observed_head_sha := head\<rparr>)) db"
    using assms(2) unfolding prepare_finish_def
    by (cases "pa_base_sha a"; cases "pa_remote_sha a"; cases "pa_head a") (auto simp: Inr_cases)
  show ?thesis unfolding db'
    by (rule put_worktree_ok[OF inv, of t, OF _ worktree_kept]) (use get_worktree_in[OF t(1)] leased_not_removed[OF inv t] in \<open>auto simp: worktree_identity_def unleased_def\<close>)
qed

lemma worktree_failure_ok:
  assumes inv: "git_state_inv db"
  shows "transaction_ok db (record_worktree_failure j now db)"
proof (cases "get_worktree (pj_binding j) (pj_scope j) (pj_uid j) db")
  case None
  then show ?thesis using inv transaction_ok_refl by (simp add: record_worktree_failure_def)
next
  case (Some t)
  show ?thesis
  proof (cases "wt_lease_owner t = Some (pj_worker j)")
    case True
    show ?thesis unfolding record_worktree_failure_def Some option.case if_P[OF True]
      by (rule put_worktree_ok[OF inv, of t, OF _ worktree_kept]) (use get_worktree_in[OF Some] leased_not_removed[OF inv Some True] in \<open>auto simp: worktree_identity_def unleased_def\<close>)
  qed (use inv transaction_ok_refl Some in \<open>simp add: record_worktree_failure_def\<close>)
qed

lemma cleanup_view_ok:
  assumes inv: "git_state_inv db" and "cleanup_project_worktree_view found uid pid i now db = Inr (db', t', j)"
  shows "transaction_ok db db'"
proof (cases "db' = db")
  case False
  then obtain t where t: "get_project_worktree i pid uid db = Some t" "wt_status t \<noteq> Wt_removed"
    and db': "db' = put_worktree (t\<lparr>wt_status := Wt_cleanup_pending, wt_last_error_code := None, wt_last_error_message := None, wt_updated_at := now\<rparr>) db"
    using assms(2) unfolding cleanup_project_worktree_view_def Let_def by (auto simp: Inr_cases)
  have "t \<in> set (pg_worktrees db)" using t(1) by (auto simp: get_project_worktree_def dest: find_Some_in)
  then show ?thesis unfolding db' by (rule put_worktree_ok[OF inv, OF _ worktree_kept]) (use t(2) in \<open>simp_all add: worktree_identity_def\<close>)
qed (use inv transaction_ok_refl in simp)

lemma cleanup_tx_ok:
  assumes inv: "git_state_inv db" and "cleanup_worktree_tx found rm i now db = Inr db'"
  shows "transaction_ok db db'"
proof (cases "db' = db")
  case False
  then obtain t where t: "get_worktree_by_id i db = Some t" "wt_status t \<in> {Wt_cleanup_pending, Wt_cleanup_failed}" and db': "db' = put_worktree (unleased Wt_removed now t) db"
    using assms(2) unfolding cleanup_worktree_tx_def by (auto simp: Inr_cases)
  show ?thesis unfolding db'
    by (rule put_worktree_ok[OF inv, of t, OF _ worktree_kept]) (use get_worktree_by_id_in[OF t(1)] t(2) in \<open>auto simp: worktree_identity_def unleased_def\<close>)
qed (use inv transaction_ok_refl in simp)

lemma cleanup_failure_ok:
  assumes inv: "git_state_inv db"
  shows "transaction_ok db (record_worktree_cleanup_failure i now db)"
proof (cases "get_worktree_by_id i db")
  case None
  then show ?thesis using inv transaction_ok_refl by (simp add: record_worktree_cleanup_failure_def)
next
  case (Some t)
  show ?thesis
  proof (cases "wt_status t \<in> {Wt_cleanup_pending, Wt_cleanup_failed}")
    case True
    show ?thesis unfolding record_worktree_cleanup_failure_def Some option.case if_P[OF True]
      by (rule put_worktree_ok[OF inv, of t, OF _ worktree_kept]) (use get_worktree_by_id_in[OF Some] True in \<open>auto simp: worktree_identity_def unleased_def\<close>)
  qed (use inv transaction_ok_refl Some in \<open>simp add: record_worktree_cleanup_failure_def\<close>)
qed

lemma push_target_in:
  assumes "push_target w dec found run uid nm expected db = Inr (r, p, b, t)"
  shows "t \<in> set (pg_worktrees db) \<and> wt_status t = Wt_ready"
  using assms unfolding push_target_def
  by (cases found) (auto simp: Inr_cases dest: get_worktree_in split: option.splits)

lemma pushed_row:
  assumes "snd (push_project_git_branch w dec ids found prot ans run uid nm sha now db) = Inr db'"
  obtains t e h l where "t \<in> set (pg_worktrees db)" "wt_status t = Wt_ready"
    "db' = (put_worktree (t\<lparr>wt_last_observed_head_sha := h, wt_last_pushed_sha := h, wt_updated_at := now\<rparr>) db)\<lparr>pg_logs := l\<rparr>"
proof -
  obtain e r p b t where x: "push_target w dec found run uid nm e db = Inr (r, p, b, t)" "require_commit_sha w sha = Inr e"
    using assms unfolding push_project_git_branch_def and_then_def by (auto split: sum.splits)
  show thesis using assms x push_target_in[OF x(1)] unfolding push_project_git_branch_def
    by (auto simp: and_then_def Inr_cases Let_def split: if_splits intro: that)
qed

lemma push_ok:
  assumes inv: "git_state_inv db" and "snd (push_project_git_branch w dec ids found prot ans run uid nm sha now db) = Inr db'"
  shows "transaction_ok db db'"
proof -
  obtain t h l where t: "t \<in> set (pg_worktrees db)" "wt_status t = Wt_ready"
    and db': "db' = (put_worktree (t\<lparr>wt_last_observed_head_sha := h, wt_last_pushed_sha := h, wt_updated_at := now\<rparr>) db)\<lparr>pg_logs := l\<rparr>"
    using pushed_row[OF assms(2)] by metis
  show ?thesis unfolding db' transaction_ok_logs
    by (rule put_worktree_ok[OF inv t(1) worktree_kept]) (use t(2) in \<open>simp_all add: worktree_identity_def\<close>)
qed

end
