(* ===== verification/Git_Steps.thy ===== *)
theory Git_Steps
  imports Git_Requests
begin

text \<open>
  Project Git as a step system. Transactions of users, runs and workers interleave freely with the jobs on bindings; the lock of a job, held from the choice of the work to
  its end, is the only order between jobs, so there is at most one job per binding. A job may stop at any point.
\<close>

section \<open>Steps\<close>

inductive git_request :: "git_db \<Rightarrow> git_db \<Rightarrow> bool" where
  create_connection: "create_git_connection_view w dec enc ok new_id clk uid req seen db = Inr (db', c) \<Longrightarrow> git_request db db'"
| rotate_connection: "rotate_git_connection_credential_view enc out uid i token now db = Inr (db', c) \<Longrightarrow> git_request db db'"
| delete_connection: "delete_git_connection_view uid i now db = Inr db' \<Longrightarrow> git_request db db'"
| create_binding: "create_project_repository_view w enc key new_id clk uid pid breq seen db = Inr (db', b, j) \<Longrightarrow> git_request db db'"
| change_policy: "update_project_repository_policy_view w dec branch_ok uid pid i purpose conf allowed now db = Inr (db', b) \<Longrightarrow> git_request db db'"
| retry_binding: "retry_project_repository_view uid pid i now db = Inr (db', b, j) \<Longrightarrow> git_request db db'"
| deactivate: "deactivate_project_repository_view uid pid i now db = Inr (db', b, j) \<Longrightarrow> git_request db db'"
| delete_project: "delete_project_git uid pid now db = Inr (db', jobs) \<Longrightarrow> git_request db db'"
| select_repository: "select_conversation_git_repository_view w uid thread rid nm al new_id now db = Inr (db', t) \<Longrightarrow> git_request db db'"
| retry_selection: "retry_conversation_git_repository_view uid thread i now db = Inr (db', t) \<Longrightarrow> git_request db db'"
| run_allocation: "allocate_for_run w ids run uid nm al new_id now db = Inr (db', b, t) \<Longrightarrow> git_request db db'"
| preparation: "prepare_begin w dec found uid i scope worker now db = Inr (db', r) \<Longrightarrow> git_request db db'"
| prepared: "prepare_finish a pj now db = Inr db' \<Longrightarrow> git_request db db'"
| preparation_failure: "git_request db (record_worktree_failure pj now db)"
| cleanup_wanted: "cleanup_project_worktree_view found uid pid i now db = Inr (db', t, j) \<Longrightarrow> git_request db db'"
| cleanup_done: "cleanup_worktree_tx found rm i now db = Inr db' \<Longrightarrow> git_request db db'"
| cleanup_failure: "git_request db (record_worktree_cleanup_failure i now db)"
| pushed: "snd (push_project_git_branch w dec ids found prot ans run uid nm sha now db) = Inr db' \<Longrightarrow> git_request db db'"
| platform_change: "git_request db (db\<lparr>pg_platform := p\<rparr>)"

record git_op =
  op_repo :: pystr
  op_generation :: int
  op_job :: git_job
  op_seen :: "project_git_repository option"

record git_sys =
  gs_db :: git_db
  gs_ops :: "git_op list"

definition job_statuses :: "git_job \<Rightarrow> git_binding_status set" where
  "job_statuses j = (case j of Provision \<Rightarrow> {Git_provisioning, Git_provision_failed} | Revoke \<Rightarrow> {Git_deleting, Git_delete_failed})"

definition op_begin :: "decryption \<Rightarrow> bool \<Rightarrow> git_op \<Rightarrow> git_db \<Rightarrow> git_error + project_git_repository option" where
  "op_begin dec paths_ok ob db = (case op_job ob of
     Provision \<Rightarrow> provision_begin dec paths_ok (op_repo ob) (op_generation ob) db | Revoke \<Rightarrow> revoke_begin dec (op_repo ob) (op_generation ob) db)"

definition op_failed :: "git_op \<Rightarrow> time \<Rightarrow> git_db \<Rightarrow> git_db" where
  "op_failed ob now db = (case op_job ob of
     Provision \<Rightarrow> provision_failed (op_repo ob) (op_generation ob) now db | Revoke \<Rightarrow> revoke_failed (op_repo ob) (op_generation ob) now db)"

inductive git_step :: "git_sys \<Rightarrow> git_sys \<Rightarrow> bool" where
  request: "git_request (gs_db s) db' \<Longrightarrow> git_step s (s\<lparr>gs_db := db'\<rparr>)"
| choose: "process_project_git_operation i g (gs_db s) = Some j \<Longrightarrow> i \<notin> op_repo ` set (gs_ops s) \<Longrightarrow>
    git_step s (s\<lparr>gs_ops := gs_ops s @ [\<lparr>op_repo = i, op_generation = g, op_job = j, op_seen = None\<rparr>]\<rparr>)"
| begun: "ob \<in> set (gs_ops s) \<Longrightarrow> op_seen ob = None \<Longrightarrow> op_begin dec paths_ok ob (gs_db s) = Inr (Some b) \<Longrightarrow>
    git_step s (s\<lparr>gs_ops := update_where (\<lambda>x. op_repo x = op_repo ob) (\<lambda>_. ob\<lparr>op_seen := Some b\<rparr>) (gs_ops s)\<rparr>)"
| provisioned: "ob \<in> set (gs_ops s) \<Longrightarrow> op_job ob = Provision \<Longrightarrow> op_seen ob = Some b \<Longrightarrow> provision_remote ho b = Inr pv \<Longrightarrow>
    provision_finish (ho_import ho) (op_repo ob) (op_generation ob) pv now (gs_db s) = Inr (db', superseded) \<Longrightarrow>
    git_step s (s\<lparr>gs_db := db', gs_ops := filter (\<lambda>x. op_repo x \<noteq> op_repo ob) (gs_ops s)\<rparr>)"
| revoked: "ob \<in> set (gs_ops s) \<Longrightarrow> op_job ob = Revoke \<Longrightarrow> op_seen ob = Some b \<Longrightarrow> revoke_remote ho b = Inr () \<Longrightarrow>
    git_step s (s\<lparr>gs_db := revoke_finish b (op_generation ob) now (gs_db s), gs_ops := filter (\<lambda>x. op_repo x \<noteq> op_repo ob) (gs_ops s)\<rparr>)"
| failed: "ob \<in> set (gs_ops s) \<Longrightarrow>
    git_step s (s\<lparr>gs_db := op_failed ob now (gs_db s), gs_ops := filter (\<lambda>x. op_repo x \<noteq> op_repo ob) (gs_ops s)\<rparr>)"
| stopped: "git_step s (s\<lparr>gs_ops := filter (\<lambda>x. op_repo x \<noteq> i) (gs_ops s)\<rparr>)"

definition git_start :: "git_sys \<Rightarrow> bool" where
  "git_start s \<longleftrightarrow> pg_credentials (gs_db s) = [] \<and> pg_connections (gs_db s) = [] \<and> pg_bindings (gs_db s) = [] \<and> pg_worktrees (gs_db s) = [] \<and> gs_ops s = []"

section \<open>Invariant of the jobs\<close>

definition op_ok :: "git_db \<Rightarrow> git_op \<Rightarrow> bool" where
  "op_ok db ob \<longleftrightarrow> (\<exists>b\<in>set (pg_bindings db). gb_id b = op_repo ob \<and> op_generation ob \<le> gb_operation_generation b
     \<and> (gb_operation_generation b = op_generation ob \<longrightarrow> gb_status b \<in> job_statuses (op_job ob))
     \<and> (\<forall>s. op_seen ob = Some s \<longrightarrow> binding_identity s = binding_identity b))"

definition git_sys_inv :: "git_sys \<Rightarrow> bool" where
  "git_sys_inv s \<longleftrightarrow> git_state_inv (gs_db s) \<and> distinct (map op_repo (gs_ops s)) \<and> (\<forall>ob\<in>set (gs_ops s). op_ok (gs_db s) ob)"

lemma git_request_ok: "git_request db db' \<Longrightarrow> git_state_inv db \<Longrightarrow> transaction_ok db db'"
proof (induction rule: git_request.induct)
  case (platform_change db p)
  then show ?case using transaction_ok_refl by simp
qed (blast intro: create_connection_ok rotate_ok delete_connection_ok create_binding_ok policy_ok retry_binding_ok deactivate_ok delete_project_ok
      select_ok retry_selection_ok allocate_for_run_ok prepare_begin_ok prepare_finish_ok worktree_failure_ok cleanup_view_ok cleanup_tx_ok
      cleanup_failure_ok push_ok)+

lemma op_ok_request:
  assumes "evolves status_kept (pg_bindings db) (pg_bindings db')" and "op_ok db ob"
  shows "op_ok db' ob"
proof -
  obtain b where b: "b \<in> set (pg_bindings db)" "gb_id b = op_repo ob" "op_generation ob \<le> gb_operation_generation b"
    "gb_operation_generation b = op_generation ob \<longrightarrow> gb_status b \<in> job_statuses (op_job ob)"
    "\<And>s. op_seen ob = Some s \<Longrightarrow> binding_identity s = binding_identity b"
    using assms(2) unfolding op_ok_def by blast
  obtain b' where b': "b' \<in> set (pg_bindings db')" "status_kept b b'" by (rule evolves_in[OF assms(1) b(1)])
  have "binding_identity b' = binding_identity b" "gb_operation_generation b \<le> gb_operation_generation b'"
    "gb_operation_generation b' = gb_operation_generation b \<longrightarrow> gb_status b' = gb_status b" "gb_id b' = gb_id b"
    using b'(2) by (auto simp: status_kept_def binding_evolves_def binding_identity_def)
  then show ?thesis unfolding op_ok_def
    by (intro bexI[of _ b'] conjI) (use b b'(1) in auto)
qed

text \<open>A job that ends touches only its own binding.\<close>

lemma op_ok_other:
  assumes "op_ok db ob" and "op_repo ob \<noteq> i" and "\<And>b. b \<in> set (pg_bindings db) \<Longrightarrow> gb_id b \<noteq> i \<Longrightarrow> b \<in> set (pg_bindings db')"
  shows "op_ok db' ob"
  using assms unfolding op_ok_def by metis

lemma put_binding_others: "b \<in> set (pg_bindings db) \<Longrightarrow> gb_id b \<noteq> gb_id b' \<Longrightarrow> b \<in> set (pg_bindings (put_binding b' db))"
  by (simp add: put_binding_def set_update_where)

lemma find_only:
  assumes "distinct (map k xs)" and "b \<in> set xs" and "P b" and "\<And>x. P x \<Longrightarrow> k x = k b"
  shows "find P xs = Some b"
proof -
  obtain y where y: "find P xs = Some y" using find_ex_iff[of P xs] assms(2,3) by blast
  have "inj_on k (set xs)" using assms(1) by (simp add: distinct_map)
  then have "y = b" by (rule inj_onD) (use find_Some_in[OF y] assms(2,4) in blast)+
  with y show ?thesis by simp
qed

lemma find_binding:
  assumes "git_state_inv db" and "b \<in> set (pg_bindings db)"
  shows "find (\<lambda>x. gb_id x = gb_id b) (pg_bindings db) = Some b" "get_binding (gb_id b) (gb_uid b) db = Some b"
proof -
  have d: "distinct (map gb_id (pg_bindings db))" using assms(1) by (simp add: git_state_inv_def git_inv_def keys_unique_def)
  show "find (\<lambda>x. gb_id x = gb_id b) (pg_bindings db) = Some b" by (rule find_unique_key[OF d assms(2)])
  show "get_binding (gb_id b) (gb_uid b) db = Some b" unfolding get_binding_def by (rule find_only[OF d assms(2)]) simp_all
qed

text \<open>The binding of a job, as the job finds it when it ends.\<close>

lemma op_binding:
  assumes "git_state_inv db" and "op_ok db ob"
  obtains b where "b \<in> set (pg_bindings db)" "gb_id b = op_repo ob" "find (\<lambda>x. gb_id x = op_repo ob) (pg_bindings db) = Some b"
    "gb_operation_generation b = op_generation ob \<Longrightarrow> gb_status b \<in> job_statuses (op_job ob)"
    "\<And>s. op_seen ob = Some s \<Longrightarrow> binding_identity s = binding_identity b" "op_generation ob \<le> gb_operation_generation b"
proof -
  obtain b where b: "b \<in> set (pg_bindings db)" "gb_id b = op_repo ob"
    "gb_operation_generation b = op_generation ob \<longrightarrow> gb_status b \<in> job_statuses (op_job ob)"
    "\<forall>s. op_seen ob = Some s \<longrightarrow> binding_identity s = binding_identity b" "op_generation ob \<le> gb_operation_generation b"
    using assms(2) unfolding op_ok_def by blast
  show thesis using that[OF b(1,2)] find_binding(1)[OF assms(1) b(1)] b(2-5) by simp
qed

definition job_end_ok :: "git_op \<Rightarrow> git_db \<Rightarrow> git_db \<Rightarrow> bool" where
  "job_end_ok ob db db' \<longleftrightarrow> git_state_inv db' \<and> git_rel db db'
     \<and> (\<forall>b\<in>set (pg_bindings db). gb_id b \<noteq> op_repo ob \<longrightarrow> b \<in> set (pg_bindings db'))"

lemma job_end_ok_refl: "git_state_inv db \<Longrightarrow> job_end_ok ob db db"
  by (simp add: job_end_ok_def)

lemma job_put_ok:
  assumes inv: "git_state_inv db" and b: "b \<in> set (pg_bindings db)" "gb_id b = op_repo ob" and ev: "binding_evolves b b'"
    and "gb_status b \<noteq> Git_disabled" and "gb_status b' \<noteq> Git_disabled"
  shows "job_end_ok ob db (put_binding b' db)"
proof -
  have "git_good db (put_binding b' db)" using inv put_binding_good[OF _ b(1) ev] assms(5,6) by (simp add: git_state_inv_def)
  moreover have "gb_id b' = op_repo ob" using ev b(2) by (simp add: binding_evolves_def binding_identity_def)
  ultimately show ?thesis
    using inv put_binding_others[of _ db b'] by (simp add: job_end_ok_def git_state_inv_def git_good_def worktrees_unleased_def) (simp add: put_binding_def)
qed

lemma provision_finish_ok:
  assumes inv: "git_state_inv db" "op_ok db ob" "op_job ob = Provision"
    and fin: "provision_finish imported (op_repo ob) (op_generation ob) pv now db = Inr (db', x)"
  shows "job_end_ok ob db db'"
proof -
  obtain b where b: "b \<in> set (pg_bindings db)" "gb_id b = op_repo ob" "find (\<lambda>x. gb_id x = op_repo ob) (pg_bindings db) = Some b"
    "gb_operation_generation b = op_generation ob \<Longrightarrow> gb_status b \<in> job_statuses (op_job ob)"
    by (rule op_binding[OF inv(1,2)]) blast
  show ?thesis
  proof (cases "gb_operation_generation b = op_generation ob")
    case True
    then have st: "gb_status b \<in> {Git_provisioning, Git_provision_failed}" using b(4) inv(3) by (simp add: job_statuses_def)
    obtain b' where db': "db' = put_binding b' db" and b': "binding_identity b' = binding_identity b" "gb_operation_generation b' = gb_operation_generation b" "gb_status b' = Git_active"
      using fin True b(3) by (auto simp: provision_finish_def Inr_cases binding_identity_def)
    have "binding_evolves b b'" using b' st by (auto simp: binding_evolves_def forward_def revoking_def)
    then show ?thesis unfolding db' by (rule job_put_ok[OF inv(1) b(1,2)]) (use st b'(3) in auto)
  qed (use fin b(3) job_end_ok_refl[OF inv(1)] in \<open>auto simp: provision_finish_def\<close>)
qed

lemma op_failed_ok:
  assumes inv: "git_state_inv db" "op_ok db ob"
  shows "job_end_ok ob db (op_failed ob now db)"
proof -
  obtain b where b: "b \<in> set (pg_bindings db)" "gb_id b = op_repo ob" "find (\<lambda>x. gb_id x = op_repo ob) (pg_bindings db) = Some b"
    "gb_operation_generation b = op_generation ob \<Longrightarrow> gb_status b \<in> job_statuses (op_job ob)"
    by (rule op_binding[OF inv]) blast
  show ?thesis
  proof (cases "gb_operation_generation b = op_generation ob")
    case True
    define st where "st = (case op_job ob of Provision \<Rightarrow> Git_provision_failed | Revoke \<Rightarrow> Git_delete_failed)"
    obtain b' where db': "op_failed ob now db = put_binding b' db"
      and b': "binding_identity b' = binding_identity b" "gb_operation_generation b' = gb_operation_generation b" "gb_status b' = st"
      using True b(3) by (cases "op_job ob")
        (auto simp: op_failed_def provision_failed_def revoke_failed_def record_binding_failure_def binding_identity_def st_def)
    have "binding_evolves b b'" "gb_status b \<noteq> Git_disabled" "st \<noteq> Git_disabled"
      using b' b(4)[OF True] by (cases "op_job ob"; auto simp: binding_evolves_def forward_def revoking_def job_statuses_def st_def)+
    then show ?thesis unfolding db' using job_put_ok[OF inv(1) b(1,2)] b'(3) by simp
  qed (use b(3) job_end_ok_refl[OF inv(1)] in \<open>cases "op_job ob"; simp add: op_failed_def provision_failed_def revoke_failed_def record_binding_failure_def\<close>)
qed

lemma revoke_finish_ok:
  assumes inv: "git_state_inv db" "op_ok db ob" "op_job ob = Revoke" "op_seen ob = Some seen"
  shows "job_end_ok ob db (revoke_finish seen (op_generation ob) now db)"
proof -
  obtain b where b: "b \<in> set (pg_bindings db)" "gb_id b = op_repo ob" "gb_operation_generation b = op_generation ob \<Longrightarrow> gb_status b \<in> job_statuses (op_job ob)"
    and seen: "binding_identity seen = binding_identity b"
    by (rule op_binding[OF inv(1,2)]) (use inv(4) in blast)
  have s: "gb_id seen = gb_id b" "gb_uid seen = gb_uid b" "gb_deploy_private_credential_id seen = gb_deploy_private_credential_id b"
    using seen by (simp_all add: binding_identity_def)
  have g: "get_binding (gb_id seen) (gb_uid seen) db = Some b" unfolding s by (rule find_binding(2)[OF inv(1) b(1)])
  show ?thesis
  proof (cases "gb_operation_generation b = op_generation ob")
    case True
    then have st: "gb_status b \<in> {Git_deleting, Git_delete_failed}" using b(3) inv(3) by (simp add: job_statuses_def)
    obtain k where k: "get_credential (gb_deploy_private_credential_id b) (gb_uid b) db = Some k" "k \<in> set (pg_credentials db)" "kc_status k = Credential_active" "cred_key k = key_of b"
    proof -
      have "key_of b \<in> used_credentials db" using key_used[OF b(1)] st by auto
      then show thesis using live_credential[of db "key_of b"] inv(1) that by (auto simp: git_state_inv_def key_of_def)
    qed
    define b' where "b' = b\<lparr>gb_status := Git_disabled, gb_updated_at := now\<rparr>"
    have b': "gb_id b' = gb_id b" "key_of b' = key_of b" "gb_status b' = Git_disabled" "binding_evolves b b'"
      using st by (auto simp: b'_def key_of_def binding_evolves_def binding_identity_def forward_def revoking_def)
    have f: "revoke_finish seen (op_generation ob) now db = put_binding b' (destroy_credential (kc_id k) now db)"
      using True g k(1) s by (simp add: revoke_finish_def b'_def)
    have "git_good db (put_binding b' (destroy_credential (kc_id k) now db))"
      by (rule revoke_good[OF _ b(1) k(2-4) b']) (use inv(1) in \<open>simp add: git_state_inv_def\<close>)
    then show ?thesis unfolding f using inv(1) b(2) b'(1)
      by (simp add: job_end_ok_def git_state_inv_def git_good_def worktrees_unleased_def)
        (simp add: put_binding_def destroyed_fields set_update_where)
  qed (use g job_end_ok_refl[OF inv(1)] in \<open>simp add: revoke_finish_def\<close>)
qed

section \<open>Every step\<close>

lemma ended_ok:
  assumes "git_sys_inv s" and "job_end_ok ob (gs_db s) db'"
  shows "git_sys_inv (s\<lparr>gs_db := db', gs_ops := filter (\<lambda>x. op_repo x \<noteq> op_repo ob) (gs_ops s)\<rparr>)"
proof -
  have "op_ok db' x" if "x \<in> set (gs_ops s)" "op_repo x \<noteq> op_repo ob" for x
    by (rule op_ok_other[of "gs_db s" x "op_repo ob"]) (use assms that in \<open>auto simp: git_sys_inv_def job_end_ok_def\<close>)
  then show ?thesis using assms by (simp add: git_sys_inv_def job_end_ok_def distinct_map_filter)
qed

lemma chosen_ok:
  assumes "git_state_inv db" and "process_project_git_operation i g db = Some j"
  shows "op_ok db \<lparr>op_repo = i, op_generation = g, op_job = j, op_seen = None\<rparr>"
proof -
  obtain b where b: "find (\<lambda>b. gb_id b = i) (pg_bindings db) = Some b" "gb_operation_generation b = g" "gb_status b \<in> job_statuses j"
    using assms(2) by (auto simp: process_project_git_operation_def job_statuses_def split: option.splits if_splits)
  then show ?thesis using find_Some_in[OF b(1)] by (auto simp: op_ok_def)
qed

lemma begin_finds:
  assumes "op_begin dec paths_ok ob db = Inr (Some b)"
  shows "find (\<lambda>x. gb_id x = op_repo ob) (pg_bindings db) = Some b"
  using assms by (cases "op_job ob") (auto simp: op_begin_def provision_begin_def revoke_begin_def Let_def Inr_cases split: option.splits if_splits)

lemma begun_ok:
  assumes inv: "git_sys_inv s" and ob: "ob \<in> set (gs_ops s)" and b: "op_begin dec paths_ok ob (gs_db s) = Inr (Some b)"
  shows "git_sys_inv (s\<lparr>gs_ops := update_where (\<lambda>x. op_repo x = op_repo ob) (\<lambda>_. ob\<lparr>op_seen := Some b\<rparr>) (gs_ops s)\<rparr>)"
proof -
  have st: "git_state_inv (gs_db s)" "op_ok (gs_db s) ob" "distinct (map op_repo (gs_ops s))" using inv ob by (simp_all add: git_sys_inv_def)
  have "op_ok (gs_db s) (ob\<lparr>op_seen := Some b\<rparr>)"
  proof (rule op_binding[OF st(1,2)])
    fix x assume x: "x \<in> set (pg_bindings (gs_db s))" "gb_id x = op_repo ob" "find (\<lambda>y. gb_id y = op_repo ob) (pg_bindings (gs_db s)) = Some x"
      "gb_operation_generation x = op_generation ob \<Longrightarrow> gb_status x \<in> job_statuses (op_job ob)" "op_generation ob \<le> gb_operation_generation x"
    have "b = x" using begin_finds[OF b] x(3) by simp
    then show ?thesis unfolding op_ok_def by (intro bexI[OF _ x(1)]) (use x in simp)
  qed
  moreover have "map op_repo (update_where (\<lambda>x. op_repo x = op_repo ob) (\<lambda>_. ob\<lparr>op_seen := Some b\<rparr>) (gs_ops s)) = map op_repo (gs_ops s)"
    by (simp add: update_where_def)
  ultimately show ?thesis using inv unfolding git_sys_inv_def by (auto elim!: in_update_whereE)
qed

definition git_sys_rel :: "git_sys \<Rightarrow> git_sys \<Rightarrow> bool" where
  "git_sys_rel s s' \<longleftrightarrow> git_rel (gs_db s) (gs_db s')"

lemma git_step_ok: "git_step s s' \<Longrightarrow> git_sys_inv s \<Longrightarrow> git_sys_inv s' \<and> git_sys_rel s s'"
proof (induction rule: git_step.induct)
  case (request s db')
  then have r: "transaction_ok (gs_db s) db'" by (simp add: git_request_ok git_sys_inv_def)
  have "op_ok db' ob" if "ob \<in> set (gs_ops s)" for ob
    by (rule op_ok_request[of "gs_db s"]) (use r request.prems that in \<open>auto simp: transaction_ok_def git_sys_inv_def\<close>)
  then show ?case using r request.prems by (simp add: git_sys_inv_def git_sys_rel_def transaction_ok_def)
next
  case (choose i g s j)
  then show ?case using chosen_ok[of "gs_db s" i g j] by (simp add: git_sys_inv_def git_sys_rel_def)
next
  case (begun ob s dec paths_ok b)
  then show ?case using begun_ok by (simp add: git_sys_rel_def)
next
  case (provisioned ob s b ho pv now db' superseded)
  then have "job_end_ok ob (gs_db s) db'" using provision_finish_ok[of "gs_db s" ob] by (simp add: git_sys_inv_def)
  then show ?case using ended_ok[OF provisioned.prems] by (simp add: git_sys_rel_def job_end_ok_def)
next
  case (revoked ob s b ho now)
  then have "job_end_ok ob (gs_db s) (revoke_finish b (op_generation ob) now (gs_db s))" using revoke_finish_ok[of "gs_db s" ob] by (simp add: git_sys_inv_def)
  then show ?case using ended_ok[OF revoked.prems] by (simp add: git_sys_rel_def job_end_ok_def)
next
  case (failed ob s now)
  then have "job_end_ok ob (gs_db s) (op_failed ob now (gs_db s))" using op_failed_ok[of "gs_db s" ob] by (simp add: git_sys_inv_def)
  then show ?case using ended_ok[OF failed.prems] by (simp add: git_sys_rel_def job_end_ok_def)
next
  case (stopped s i)
  then show ?case by (simp add: git_sys_inv_def git_sys_rel_def distinct_map_filter)
qed

lemma git_start_inv: "git_start s \<Longrightarrow> git_sys_inv s"
  by (simp add: git_start_def git_sys_inv_def git_state_inv_def git_inv_defs worktrees_unleased_def)

interpretation git: step_system git_start git_step git_sys_inv git_sys_rel
proof unfold_locales
  show "git_sys_rel s u" if "git_sys_rel s t" "git_sys_rel t u" for s t u
    using that git_rel_trans unfolding git_sys_rel_def by blast
  show "git_sys_rel s t" if "git_sys_inv s" "git_step s t" for s t using git_step_ok that by blast
qed (simp_all add: git_start_inv git_step_ok git_sys_rel_def)

end
