(* ===== verification/Git_Properties.thy ===== *)
theory Git_Properties
  imports Git_Steps Run_Service_Properties
begin

text \<open>
  What Project Git promises: which secrets are kept, how a binding lives and is revoked, one preparer per worktree, and what may be pushed.
\<close>

section \<open>Revocation\<close>

lemma matching_key_total: "\<forall>d\<in>set ds. fp (dk_key d) \<noteq> None \<Longrightarrow> \<exists>x. matching_key fp title want ds = Inr x"
  by (induction ds) (auto split: option.splits)

lemma revoke_remote_total:
  assumes "ho_delete_key ho" and "ho_keys ho = Some keys" and "\<And>d. d \<in> set keys \<Longrightarrow> ho_fingerprint ho (dk_key d) \<noteq> None"
  shows "revoke_remote ho b = Inr ()"
proof -
  obtain x where "matching_key (ho_fingerprint ho) (key_title b) (gb_deploy_public_key_fingerprint b) keys = Inr x"
    using matching_key_total assms(3) by blast
  then show ?thesis using assms(1,2) by (simp add: revoke_remote_def from_option_def and_then_def split: option.split)
qed

lemma revoke_begin_total:
  assumes inv: "git_state_inv db" and b: "b \<in> set (pg_bindings db)" "gb_status b \<noteq> Git_disabled"
    and dec: "\<And>k. kc_status k = Credential_active \<Longrightarrow> dec k \<noteq> None"
  shows "revoke_begin dec (gb_id b) (gb_operation_generation b) db = Inr (Some b)"
proof -
  obtain c where c: "c \<in> set (pg_connections db)" "cn_id c = gb_connection_id b" "cn_uid c = gb_uid b" "cn_status c = Connection_active"
    using inv b unfolding git_state_inv_def git_inv_def bindings_connected_def by blast
  have "distinct (map cn_id (pg_connections db))" using inv by (simp add: git_state_inv_def git_inv_def keys_unique_def)
  then have g: "get_connection (gb_connection_id b) (gb_uid b) False db = Some c"
    unfolding get_connection_def by (rule find_only) (use c in simp_all)
  obtain k where k: "get_credential (cn_api_token_credential_id c) (gb_uid b) db = Some k" "kc_status k = Credential_active"
  proof -
    have "token_of c \<in> used_credentials db" by (rule token_used[OF c(1,4)])
    then show thesis using live_credential[of db "token_of c"] inv that c(3) by (auto simp: git_state_inv_def token_of_def)
  qed
  show ?thesis using find_binding(1)[OF inv b(1)] g k dec[OF k(2)] by (simp add: revoke_begin_def)
qed

lemma revoke_finish_disables:
  assumes inv: "git_state_inv db" and b: "b \<in> set (pg_bindings db)" "gb_status b \<noteq> Git_disabled"
  shows "\<exists>k. cred_key k = key_of b \<and> revoke_finish b (gb_operation_generation b) now db
    = put_binding (b\<lparr>gb_status := Git_disabled, gb_updated_at := now\<rparr>) (destroy_credential (kc_id k) now db) \<and> k \<in> set (pg_credentials db)"
proof -
  have "key_of b \<in> used_credentials db" by (rule key_used[OF b])
  then obtain k where "get_credential (gb_deploy_private_credential_id b) (gb_uid b) db = Some k" "k \<in> set (pg_credentials db)" "cred_key k = key_of b"
    using live_credential[of db "key_of b"] inv by (auto simp: git_state_inv_def key_of_def)
  then show ?thesis using find_binding(2)[OF inv b(1)] by (intro exI[of _ k]) (simp add: revoke_finish_def)
qed

text \<open>C37: every binding whose deploy key is to be revoked is found by reconciliation and handed to the revoking job under its own generation; with a hosting service that
  answers and credentials that open, the job ends with the binding disabled, the deploy key no longer among the live credentials, and every other credential kept,
  whatever has happened before, a deleted project included.\<close>

theorem revocation_completes:
  assumes "git_start s" and "git_step\<^sup>*\<^sup>* s t" and "b \<in> set (pg_bindings (gs_db t))" and "gb_status b \<in> {Git_deleting, Git_delete_failed}"
    and "\<And>k. kc_status k = Credential_active \<Longrightarrow> dec k \<noteq> None"
    and "ho_delete_key ho" and "ho_keys ho = Some keys" and "\<And>d. d \<in> set keys \<Longrightarrow> ho_fingerprint ho (dk_key d) \<noteq> None"
  shows "(gb_id b, gb_operation_generation b) \<in> set (fst (reconcile_project_git_operations (gs_db t)))
    \<and> process_project_git_operation (gb_id b) (gb_operation_generation b) (gs_db t) = Some Revoke
    \<and> (\<exists>db'. delete_repository dec ho (gb_id b) (gb_operation_generation b) (\<lambda>db. db) now (gs_db t) = (db', Inr ())
        \<and> b\<lparr>gb_status := Git_disabled, gb_updated_at := now\<rparr> \<in> set (pg_bindings db') \<and> live_credentials db' = live_credentials (gs_db t) - {key_of b})"
proof (intro conjI)
  have inv: "git_state_inv (gs_db t)" using git.reachable_inv[OF assms(1,2)] by (simp add: git_sys_inv_def)
  have live: "gb_status b \<noteq> Git_disabled" using assms(4) by auto
  show "(gb_id b, gb_operation_generation b) \<in> set (fst (reconcile_project_git_operations (gs_db t)))"
    using assms(3,4) by (auto simp: reconcile_project_git_operations_def list_pending_bindings_def)
  show "process_project_git_operation (gb_id b) (gb_operation_generation b) (gs_db t) = Some Revoke"
    using find_binding(1)[OF inv assms(3)] assms(4) by (auto simp: process_project_git_operation_def)
  obtain k where k: "cred_key k = key_of b" "k \<in> set (pg_credentials (gs_db t))"
    and f: "revoke_finish b (gb_operation_generation b) now (gs_db t) = put_binding (b\<lparr>gb_status := Git_disabled, gb_updated_at := now\<rparr>) (destroy_credential (kc_id k) now (gs_db t))"
    using revoke_finish_disables[OF inv assms(3) live] by metis
  let ?db = "put_binding (b\<lparr>gb_status := Git_disabled, gb_updated_at := now\<rparr>) (destroy_credential (kc_id k) now (gs_db t))"
  have "delete_repository dec ho (gb_id b) (gb_operation_generation b) (\<lambda>db. db) now (gs_db t) = (?db, Inr ())"
    using revoke_begin_total[OF inv assms(3) live assms(5)] revoke_remote_total[OF assms(6-8)] f by (simp add: delete_repository_def)
  moreover have "live_credentials ?db = live_credentials (gs_db t) - {key_of b}"
    using live_destroyed[of "gs_db t" k now] inv k by (simp add: git_state_inv_def git_inv_def keys_unique_def put_binding_def live_credentials_def)
  moreover have "b\<lparr>gb_status := Git_disabled, gb_updated_at := now\<rparr> \<in> set (pg_bindings ?db)"
    using assms(3) by (auto simp: put_binding_def destroyed_fields set_update_where)
  ultimately show "\<exists>db'. delete_repository dec ho (gb_id b) (gb_operation_generation b) (\<lambda>db. db) now (gs_db t) = (db', Inr ())
        \<and> b\<lparr>gb_status := Git_disabled, gb_updated_at := now\<rparr> \<in> set (pg_bindings db') \<and> live_credentials db' = live_credentials (gs_db t) - {key_of b}"
    by blast
qed

section \<open>Secrets and histories\<close>

text \<open>C35: in every reachable state of the tables and jobs, the credentials that are not destroyed are exactly the tokens of the active connections and the deploy keys of the
  bindings that are not disabled; no two rows share a credential, and a binding that is not disabled hangs on an active connection of its owner.\<close>

theorem git_secrets:
  assumes "git_start s" and "git_step\<^sup>*\<^sup>* s t"
  shows "live_credentials (gs_db t) = used_credentials (gs_db t)
    \<and> distinct (map token_of (pg_connections (gs_db t)) @ map key_of (pg_bindings (gs_db t)))
    \<and> (\<forall>b. b \<in> set (pg_bindings (gs_db t)) \<longrightarrow> gb_status b \<noteq> Git_disabled \<longrightarrow>
        (\<exists>c. get_connection (gb_connection_id b) (gb_uid b) True (gs_db t) = Some c))"
proof -
  have inv: "git_inv (gs_db t)" using git.reachable_inv[OF assms] by (simp add: git_sys_inv_def git_state_inv_def)
  have "\<exists>c. get_connection (gb_connection_id b) (gb_uid b) True (gs_db t) = Some c" if "b \<in> set (pg_bindings (gs_db t))" "gb_status b \<noteq> Git_disabled" for b
    using inv that unfolding get_connection_def find_ex_iff git_inv_def bindings_connected_def by blast
  with inv show ?thesis by (simp add: git_inv_def one_use_def)
qed

text \<open>C36: whatever happens after a state was reached, a binding keeps its identity, owner and deploy key; its generation never falls; within one generation its status only
  moves forward, from provisioning to active and from deleting to disabled; an intent to revoke is never taken back, and a disabled binding never changes again.\<close>

theorem git_lifecycle:
  assumes "git_start s" and "git_step\<^sup>*\<^sup>* s t" and "git_step\<^sup>*\<^sup>* t u" and "b \<in> set (pg_bindings (gs_db t))"
  shows "\<exists>b'. get_binding (gb_id b) (gb_uid b) (gs_db u) = Some b' \<and> binding_identity b' = binding_identity b
    \<and> gb_operation_generation b \<le> gb_operation_generation b'
    \<and> (gb_operation_generation b' = gb_operation_generation b \<longrightarrow> forward (gb_status b) (gb_status b'))
    \<and> (revoking (gb_status b) \<longrightarrow> revoking (gb_status b')) \<and> (gb_status b = Git_disabled \<longrightarrow> b' = b)"
proof -
  have t: "git_sys_inv t" by (rule git.reachable_inv[OF assms(1,2)])
  have "git_sys_rel t u" "git_sys_inv u" using git.steps_rel[OF assms(3) t] git.steps_inv[OF assms(3) t] by auto
  then have e: "evolves binding_evolves (pg_bindings (gs_db t)) (pg_bindings (gs_db u))" and u: "git_state_inv (gs_db u)"
    by (simp_all add: git_sys_rel_def git_rel_def git_sys_inv_def)
  obtain b' where b': "b' \<in> set (pg_bindings (gs_db u))" "binding_evolves b b'" by (rule evolves_in[OF e assms(4)])
  then have "get_binding (gb_id b) (gb_uid b) (gs_db u) = Some b'"
    using find_binding(2)[OF u b'(1)] by (simp add: binding_evolves_def binding_identity_def)
  with b'(2) show ?thesis unfolding binding_evolves_def by blast
qed

section \<open>Push\<close>

lemma push_target_checks:
  assumes "push_target w dec found run uid nm expected db = Inr (r, p, b, t)"
  shows "(\<exists>c. run_of_user run uid db = Some (r, c, p)) \<and> pr_status p = Project_active \<and> ar_run_type r \<noteq> Subagent \<and> ar_status r = Running
    \<and> (\<exists>a. get_active_binding_by_alias w (pr_id p) uid a db = Some b)
    \<and> get_worktree (gb_id b) (resolve_run_scope_key (Some r) (pf_queue (pg_platform db))) uid db = Some t \<and> wt_status t = Wt_ready
    \<and> found = Path_state True expected (wt_branch_name t) \<and> Some (wt_branch_name t) \<noteq> gb_default_branch b
    \<and> (\<exists>prefix. configured_branch_prefix w = Inr prefix \<and> has_prefix prefix (wt_branch_name t))"
  using assms unfolding push_target_def
  by (cases found) (auto simp: Inr_cases split: option.splits)

text \<open>C38: whenever something is sent to a remote, the run is a running root run of the user in an active project, the repository is an active binding of that project and user, the
  worktree is the ready one of the run's scope, its directory is clean and at the approved commit on the task branch, that branch is neither the default branch nor protected
  and lies under the configured prefix, and what is sent is this branch at this commit.\<close>

theorem push_authorized:
  assumes "fst (push_project_git_branch w dec ids found prot ans run uid nm sha now db) = Some (branch, head)"
  shows "\<exists>r c p b t prefix. run_of_user run uid db = Some (r, c, p) \<and> ar_uid r = uid \<and> ar_run_type r \<noteq> Subagent \<and> ar_status r = Running
    \<and> pr_uid p = uid \<and> pr_status p = Project_active
    \<and> b \<in> set (pg_bindings db) \<and> gb_project_id b = pr_id p \<and> gb_uid b = uid \<and> gb_status b = Git_active
    \<and> t \<in> set (pg_worktrees db) \<and> wt_repository_id t = gb_id b \<and> wt_uid t = uid \<and> wt_status t = Wt_ready
    \<and> wt_runtime_scope_id t = resolve_run_scope_key (Some r) (pf_queue (pg_platform db))
    \<and> branch = wt_branch_name t \<and> require_commit_sha w sha = Inr head \<and> found = Path_state True head branch
    \<and> Some branch \<noteq> gb_default_branch b \<and> prot = Some False \<and> configured_branch_prefix w = Inr prefix \<and> has_prefix prefix branch"
proof -
  obtain r p b t where h: "require_commit_sha w sha = Inr head" "prot = Some False" "branch = wt_branch_name t"
    and x: "push_target w dec found run uid nm head db = Inr (r, p, b, t)"
    using assms unfolding push_project_git_branch_def and_then_def by (auto split: sum.splits if_splits option.splits)
  obtain c a prefix where c: "run_of_user run uid db = Some (r, c, p)" and b: "get_active_binding_by_alias w (pr_id p) uid a db = Some b"
    and pre: "configured_branch_prefix w = Inr prefix" "has_prefix prefix (wt_branch_name t)"
    and rest: "pr_status p = Project_active" "ar_run_type r \<noteq> Subagent" "ar_status r = Running" "wt_status t = Wt_ready"
      "get_worktree (gb_id b) (resolve_run_scope_key (Some r) (pf_queue (pg_platform db))) uid db = Some t"
      "found = Path_state True head (wt_branch_name t)" "Some (wt_branch_name t) \<noteq> gb_default_branch b"
    using push_target_checks[OF x] by blast
  have "ar_uid r = uid" "pr_uid p = uid"
    using c by (auto simp: run_of_user_def project_get_for_user_def dest!: find_Some_in split: option.splits)
  moreover have "b \<in> set (pg_bindings db)" "gb_project_id b = pr_id p" "gb_uid b = uid" "gb_status b = Git_active"
    using b by (auto simp: get_active_binding_by_alias_def dest!: find_Some_in)
  ultimately show ?thesis using h c pre rest get_worktree_in[OF rest(5)] by blast
qed



section \<open>Preparation\<close>

text \<open>A preparation as a lease on the worktree of a scope, taken by a worker whose name is not empty.\<close>

record worktree_key =
  wk_world :: git_world
  wk_decrypt :: decryption
  wk_found :: inspection
  wk_uid :: pystr
  wk_binding :: pystr
  wk_scope :: pystr

definition worktree_at :: "worktree_key \<Rightarrow> git_db \<Rightarrow> project_git_worktree option" where
  "worktree_at k db = get_worktree (wk_binding k) (wk_scope k) (wk_uid k) db"

definition worktree_holder :: "worktree_key \<Rightarrow> git_db \<Rightarrow> (nat \<times> pystr) option" where
  "worktree_holder k db = (case worktree_at k db of None \<Rightarrow> None | Some t \<Rightarrow> (case wt_lease_owner t of Some (c # cs) \<Rightarrow> Some (c, cs) | _ \<Rightarrow> None))"

definition worktree_expires :: "worktree_key \<Rightarrow> git_db \<Rightarrow> time option" where
  "worktree_expires k db = (case worktree_at k db of None \<Rightarrow> None | Some t \<Rightarrow> wt_lease_expires_at t)"

definition claim_worktree :: "worktree_key \<Rightarrow> nat \<times> pystr \<Rightarrow> time \<Rightarrow> git_db \<Rightarrow> git_db \<times> bool" where
  "claim_worktree k worker now db =
     (case prepare_begin (wk_world k) (wk_decrypt k) (wk_found k) (wk_uid k) (wk_binding k) (wk_scope k) (fst worker # snd worker) now db of
        Inr (db', Some _) \<Rightarrow> (db', True)
      | _ \<Rightarrow> (db, False))"

lemma claim_worktree_True:
  assumes "claim_worktree k v now db = (db', True)"
  obtains t r where "prepare_begin (wk_world k) (wk_decrypt k) (wk_found k) (wk_uid k) (wk_binding k) (wk_scope k) (fst v # snd v) now db = Inr (db', Some r)"
    "worktree_at k db = Some t" "acquire_worktree_lease t (fst v # snd v) (now + worktree_lease) now db = (db', True)"
proof -
  obtain r where r: "prepare_begin (wk_world k) (wk_decrypt k) (wk_found k) (wk_uid k) (wk_binding k) (wk_scope k) (fst v # snd v) now db = Inr (db', Some r)"
    using assms by (auto simp: claim_worktree_def split: sum.splits prod.splits option.splits)
  then show thesis using prepared_lease[OF r] that by (auto simp: worktree_at_def)
qed

lemma worktree_at_put:
  assumes inv: "git_state_inv db" and t: "worktree_at k db = Some t" and i: "worktree_identity t' = worktree_identity t"
  shows "worktree_at k (put_worktree t' db) = Some t'"
proof -
  let ?k = "\<lambda>t. (wt_repository_id t, wt_runtime_scope_id t)"
  let ?rows = "update_where (\<lambda>x. wt_id x = wt_id t') (\<lambda>_. t') (pg_worktrees db)"
  have d: "distinct (map wt_id (pg_worktrees db))" "distinct (map ?k (pg_worktrees db))" using inv by (simp_all add: git_state_inv_def git_inv_def keys_unique_def)
  have m: "t \<in> set (pg_worktrees db)" "wt_repository_id t = wk_binding k" "wt_runtime_scope_id t = wk_scope k" "wt_uid t = wk_uid k"
    using get_worktree_in t by (auto simp: worktree_at_def)
  have same: "wt_id t' = wt_id t" "wt_repository_id t' = wk_binding k" "wt_runtime_scope_id t' = wk_scope k" "wt_uid t' = wk_uid k"
    using i m by (simp_all add: worktree_identity_def)
  have "map ?k ?rows = map ?k (pg_worktrees db)" by (rule map_put_row[OF d(1) m(1) same(1)]) (simp add: m same)
  then have "distinct (map ?k ?rows)" using d(2) by argo
  then have "find (\<lambda>x. wt_repository_id x = wk_binding k \<and> wt_runtime_scope_id x = wk_scope k \<and> wt_uid x = wk_uid k) ?rows = Some t'"
  proof (rule find_only)
    show "t' \<in> set ?rows" unfolding put_row_set[OF d(1) m(1) same(1)] by simp
  qed (simp_all add: same)
  then show ?thesis by (simp add: worktree_at_def get_worktree_def put_worktree_def)
qed

interpretation worktree_lease: lease_discipline worktree_holder worktree_expires git_state_inv claim_worktree "\<lambda>_ _ _ s. (s, False)" worktree_lease
proof unfold_locales
  fix s s' :: git_db and k and v w :: "nat \<times> pystr" and now t :: time
  show "git_state_inv (fst (claim_worktree k w now s))" if inv: "git_state_inv s"
  proof (cases "snd (claim_worktree k w now s)")
    case True
    then obtain r where "prepare_begin (wk_world k) (wk_decrypt k) (wk_found k) (wk_uid k) (wk_binding k) (wk_scope k) (fst w # snd w) now s
        = Inr (fst (claim_worktree k w now s), Some r)"
      using claim_worktree_True[of k w now s "fst (claim_worktree k w now s)"] by (metis prod.collapse)
    then show ?thesis using prepare_begin_ok[OF inv] by (simp add: transaction_ok_def)
  next
    case False
    then have "fst (claim_worktree k w now s) = s" by (auto simp: claim_worktree_def split: sum.splits prod.splits option.splits)
    then show ?thesis using inv by simp
  qed
  show "worktree_holder k s' = Some w \<and> worktree_expires k s' = Some (now + worktree_lease)"
    if inv: "git_state_inv s" and c: "claim_worktree k w now s = (s', True)"
  proof -
    obtain x where x: "worktree_at k s = Some x" "acquire_worktree_lease x (fst w # snd w) (now + worktree_lease) now s = (s', True)"
      by (rule claim_worktree_True[OF c])
    let ?x = "x\<lparr>wt_lease_owner := Some (fst w # snd w), wt_lease_expires_at := Some (now + worktree_lease), wt_status := Wt_preparing, wt_updated_at := now\<rparr>"
    have "worktree_at k s' = Some ?x"
      unfolding lease_evolves[OF x(2)] by (rule worktree_at_put[OF inv x(1)]) (simp add: worktree_identity_def)
    then show ?thesis by (simp add: worktree_holder_def worktree_expires_def)
  qed
  show "claim_worktree k w now s = (s, False)"
    if "git_state_inv s" "worktree_holder k s = Some v" "v \<noteq> w" "worktree_expires k s = Some t" "now < t"
  proof (rule ccontr)
    assume neg: "claim_worktree k w now s \<noteq> (s, False)"
    then obtain s1 where "claim_worktree k w now s = (s1, True)"
      by (auto simp: claim_worktree_def split: sum.splits prod.splits option.splits)
    then obtain x where x: "worktree_at k s = Some x" "acquire_worktree_lease x (fst w # snd w) (now + worktree_lease) now s = (s1, True)"
      by (rule claim_worktree_True)
    have "wt_lease_owner x = Some (fst v # snd v)" "wt_lease_expires_at x = Some t"
      using that(2,4) x(1) by (auto simp: worktree_holder_def worktree_expires_def split: option.splits list.splits)
    then show False using x(2) that(3,5) by (auto simp: acquire_worktree_lease_def or_empty_def prod_eq_iff split: if_splits)
  qed
qed simp_all

text \<open>C39: of several workers that try to prepare the worktree of a scope within one lease period, starting from any reachable state, at most one gets to work on it.\<close>

theorem worktree_single_preparer:
  assumes "git_start s" and "git_step\<^sup>*\<^sup>* s t" and "distinct (map fst reqs)"
    and "\<And>w u w' u'. (w, u) \<in> set reqs \<Longrightarrow> (w', u') \<in> set reqs \<Longrightarrow> u' < u + worktree_lease"
  shows "length (fst (contend (claim_worktree k) reqs (gs_db t))) \<le> 1"
proof (rule worktree_lease.at_most_one_winner[OF _ assms(3)])
  show "git_state_inv (gs_db t)" using git.reachable_inv[OF assms(1,2)] by (simp add: git_sys_inv_def)
qed (rule assms(4))

section \<open>A small repository\<close>

definition demo_git_world :: git_world where
  "demo_git_world = \<lparr>gw_sha = (\<lambda>s. s), gw_ascii = (\<lambda>s. s), gw_lower = (\<lambda>s. s), gw_sql_lower = (\<lambda>s. s), gw_ref_ok = (\<lambda>_. True), gw_prefix = [121, 47],
     gw_dumps = (\<lambda>_. [])\<rparr>"

definition demo_tables :: "git_credential list \<Rightarrow> git_connection list \<Rightarrow> project_git_repository list \<Rightarrow> project_git_worktree list \<Rightarrow> git_db" where
  "demo_tables ks cs bs ts = \<lparr>pg_platform = demo_asked [demo_run [160] Running 5] [], pg_credentials = ks, pg_connections = cs, pg_bindings = bs,
     pg_worktrees = ts, pg_logs = []\<rparr>"

definition demo_sealed :: "pystr \<Rightarrow> encrypted" where
  "demo_sealed i = \<lparr>en_id = i, en_ciphertext = [1], en_nonce = [2], en_key_version = 1\<rparr>"

definition demo_token :: git_credential where
  "demo_token = credential_model (demo_sealed [101]) [121] ''gitea_api_token'' 5"

definition demo_key :: git_credential where
  "demo_key = credential_model (demo_sealed [103]) [121] ''deploy_private_key'' 6"

definition demo_connection_request :: connection_request where
  "demo_connection_request = \<lparr>cq_request_id = [1], cq_name = [110], cq_provider = lit ''gitea'', cq_api_origin = [104], cq_ssh_host = [104],
     cq_ssh_port = 22, cq_ssh_known_host_key = [104, 32, 107], cq_api_token = JStr [116]\<rparr>"

definition demo_connection :: git_connection where
  "demo_connection = new_connection demo_git_world [102] [121] [110] [1] [101] 5 demo_connection_request"

definition demo_binding_request :: binding_request where
  "demo_binding_request = \<lparr>bq_request_id = [2], bq_connection_id = [102], bq_alias = [109], bq_repository_owner = [111], bq_repository_name = [114],
     bq_purpose = [112], bq_configured_base_branch = None, bq_allowed_base_branches = None\<rparr>"

definition demo_repository :: project_git_repository where
  "demo_repository = new_binding demo_git_world [104] [201] [121] [102] [109] [111] [114] [112] None [] ([7], [8]) [103] [2] 6"

abbreviation demo_open :: decryption where
  "demo_open \<equiv> \<lambda>_. Some []"

lemma demo_connected:
  "create_git_connection_view demo_git_world demo_open (Some (demo_sealed [101])) True [102] 5 [121] demo_connection_request (demo_tables [] [] [] []) (demo_tables [] [] [] [])
     = Inr (demo_tables [demo_token] [demo_connection] [] [], demo_connection)"
  by (simp add: create_git_connection_view_def demo_connection_request_def validate_api_token_def required_def py_strip_def is_space_def and_then_def
      get_connection_by_idempotency_key_def demo_tables_def validate_known_host_def has_prefix_def git_line_break_def Let_def add_credential_def add_connection_def
      demo_token_def demo_connection_def new_connection_def credential_model_def demo_sealed_def demo_git_world_def rstrip_char_def)

lemma demo_repository_bound:
  "create_project_repository_view demo_git_world (Some (demo_sealed [103])) ([7], [8]) [104] 6 [121] [201] demo_binding_request
       (demo_tables [demo_token] [demo_connection] [] []) (demo_tables [demo_token] [demo_connection] [] [])
     = Inr (demo_tables [demo_token, demo_key] [demo_connection] [demo_repository] [], demo_repository, Some ([104], 1))"
  by (simp add: create_project_repository_view_def demo_binding_request_def required_def py_strip_def is_space_def and_then_def get_binding_by_idempotency_key_def
      demo_tables_def demo_asked_def demo_platform_def demo_gov_def demo_home_def get_active_selectable_for_user_def get_connection_def demo_connection_def
      new_connection_def demo_connection_request_def validate_alias_def validate_purpose_def normalize_repository_policy_def or_empty_def first_occurrences_def
      validate_repository_part_def lit_def Let_def demo_repository_def new_binding_def add_credential_def add_git_binding_def demo_token_def demo_key_def credential_model_def
      demo_sealed_def demo_git_world_def)

lemma demo_deactivated:
  "deactivate_project_repository_view [121] [201] [104] 7 (demo_tables [demo_token, demo_key] [demo_connection] [demo_repository] [])
     = Inr (demo_tables [demo_token, demo_key] [demo_connection] [mark_binding_deleting 7 demo_repository] [], mark_binding_deleting 7 demo_repository, Some ([104], 2))"
  by (simp add: deactivate_project_repository_view_def get_binding_def demo_tables_def demo_repository_def new_binding_def mark_binding_deleting_def put_binding_def
      update_where_def Let_def)

definition demo_git :: "git_credential list \<Rightarrow> git_connection list \<Rightarrow> project_git_repository list \<Rightarrow> project_git_worktree list \<Rightarrow> git_sys" where
  "demo_git ks cs bs ts = \<lparr>gs_db = demo_tables ks cs bs ts, gs_ops = []\<rparr>"

lemma demo_git_start: "git_start (demo_git [] [] [] [])"
  by (simp add: git_start_def demo_git_def demo_tables_def)

lemma demo_git_request: "git_request (demo_tables ks cs bs ts) (demo_tables ks' cs' bs' ts') \<Longrightarrow> git_step (demo_git ks cs bs ts) (demo_git ks' cs' bs' ts')"
  using git_step.request[of "demo_git ks cs bs ts"] by (simp add: demo_git_def)

lemma demo_git_bound: "git_step\<^sup>*\<^sup>* (demo_git [] [] [] []) (demo_git [demo_token, demo_key] [demo_connection] [demo_repository] [])"
  by (rule rtranclp.rtrancl_into_rtrancl[OF r_into_rtranclp[of git_step, OF demo_git_request[OF create_connection[OF demo_connected]]]])
    (rule demo_git_request[OF create_binding[OF demo_repository_bound]])

lemma demo_git_deleting:
  "git_step (demo_git [demo_token, demo_key] [demo_connection] [demo_repository] []) (demo_git [demo_token, demo_key] [demo_connection] [mark_binding_deleting 7 demo_repository] [])"
  by (rule demo_git_request[OF deactivate[OF demo_deactivated]])

theorem git_secrets_witness:
  "git_step\<^sup>*\<^sup>* (demo_git [] [] [] []) (demo_git [demo_token, demo_key] [demo_connection] [demo_repository] [])
   \<and> live_credentials (demo_tables [demo_token, demo_key] [demo_connection] [demo_repository] [])
       = used_credentials (demo_tables [demo_token, demo_key] [demo_connection] [demo_repository] [])"
  using git_secrets[OF demo_git_start demo_git_bound] demo_git_bound by (simp add: demo_git_def)

theorem git_lifecycle_witness:
  "\<exists>b'. get_binding [104] [121] (demo_tables [demo_token, demo_key] [demo_connection] [mark_binding_deleting 7 demo_repository] []) = Some b'
     \<and> binding_identity b' = binding_identity demo_repository"
proof -
  have "demo_repository \<in> set (pg_bindings (gs_db (demo_git [demo_token, demo_key] [demo_connection] [demo_repository] [])))" by (simp add: demo_git_def demo_tables_def)
  from git_lifecycle[OF demo_git_start demo_git_bound r_into_rtranclp[of git_step, OF demo_git_deleting] this] show ?thesis
    by (auto simp: demo_git_def demo_repository_def new_binding_def)
qed

definition demo_hosting :: hosting where
  "demo_hosting = \<lparr>ho_repository = Some \<lparr>rm_id = [1], rm_ssh_url = [115], rm_default_branch = [100]\<rparr>, ho_branch = (\<lambda>_. True), ho_keys = Some [],
     ho_create_key = Some \<lparr>dk_id = [9], dk_title = [], dk_key = [7], dk_read_only = False\<rparr>, ho_delete_key = True, ho_fetch = True, ho_import = True,
     ho_fingerprint = (\<lambda>_. None)\<rparr>"

theorem revocation_completes_witness:
  "\<exists>db'. delete_repository demo_open demo_hosting [104] 2 (\<lambda>db. db) 9
       (demo_tables [demo_token, demo_key] [demo_connection] [mark_binding_deleting 7 demo_repository] []) = (db', Inr ())
     \<and> (mark_binding_deleting 7 demo_repository)\<lparr>gb_status := Git_disabled, gb_updated_at := 9\<rparr> \<in> set (pg_bindings db')"
proof -
  let ?t = "demo_git [demo_token, demo_key] [demo_connection] [mark_binding_deleting 7 demo_repository] []"
  have b: "mark_binding_deleting 7 demo_repository \<in> set (pg_bindings (gs_db ?t))" by (simp add: demo_git_def demo_tables_def)
  have "gb_status (mark_binding_deleting 7 demo_repository) \<in> {Git_deleting, Git_delete_failed}" by (simp add: mark_binding_deleting_def)
  from revocation_completes[OF demo_git_start rtranclp.rtrancl_into_rtrancl[OF demo_git_bound demo_git_deleting] b this, of demo_open demo_hosting "[]" 9]
  show ?thesis by (auto simp: demo_hosting_def demo_git_def mark_binding_deleting_def demo_repository_def new_binding_def)
qed

section \<open>A worktree of the small repository\<close>

definition demo_active :: project_git_repository where
  "demo_active = demo_repository\<lparr>gb_remote_repository_id := Some [1], gb_canonical_ssh_url := Some [115], gb_default_branch := Some [100],
     gb_configured_base_branch := Some [100], gb_allowed_base_branches := [[100]], gb_remote_deploy_key_id := Some [9], gb_status := Git_active, gb_updated_at := 8\<rparr>"

definition demo_allocation :: allocation where
  "demo_allocation = \<lparr>al_base_branch = [100], al_branch_kind = lit ''fix'', al_branch_slug = [115], al_task_purpose = [112]\<rparr>"

definition demo_worktree :: project_git_worktree where
  "demo_worktree = new_worktree [105] demo_active [121] [140] [121, 0, 140] By_user [112] (lit ''fix'') [115] None (Some [3])
     ([121, 47] @ lit ''fix'' @ [47, 115, 45, 121, 0, 140]) [100] (lit ''repos/'' @ [109, 45, 104] @ lit ''/worktrees/'' @ [121, 0, 140]) 9"

lemma demo_git_world_fields:
  "gw_sha demo_git_world x = x" "gw_lower demo_git_world x = x" "gw_sql_lower demo_git_world x = x" "gw_ref_ok demo_git_world x" "gw_prefix demo_git_world = [121, 47]"
  by (simp_all add: demo_git_world_def)

lemma demo_strip: "c \<in> {3, 100, 109, 112, 115, 121, 140} \<Longrightarrow> py_strip [c] = [c]" "py_strip (lit ''fix'') = lit ''fix''" "py_strip [121, 47] = [121, 47]"
  by (auto simp: py_strip_def is_space_def lit_def)

lemma demo_prefix: "configured_branch_prefix demo_git_world = Inr [121, 47]"
  by (simp add: configured_branch_prefix_def demo_git_world_fields demo_strip ends_with_def has_prefix_def safe_ref_part_def word_char_def kebab_char_def lit_def)

lemma demo_active_fields [simp]:
  "gb_id demo_active = [104]" "gb_uid demo_active = [121]" "gb_project_id demo_active = [201]" "gb_alias demo_active = [109]" "gb_status demo_active = Git_active"
  "gb_default_branch demo_active = Some [100]" "gb_allowed_base_branches demo_active = [[100]]" "gb_directory_name demo_active = [109, 45, 104]"
  "gb_connection_id demo_active = [102]" "gb_deploy_private_credential_id demo_active = [103]"
  by (simp_all add: demo_active_def demo_repository_def new_binding_def derive_repository_directory_def demo_git_world_def kebab_char_def strip_char_def rstrip_char_def)

lemma demo_task_key: "derive_task_key demo_git_world [121] [140] = Inr [121, 0, 140]"
  by (simp add: derive_task_key_def demo_strip demo_git_world_fields)

lemma demo_slug: "normalize_branch_slug demo_git_world [115] = Inr [115]"
  by (simp add: normalize_branch_slug_def demo_strip demo_git_world_fields kebab_def kebab_char_def)

lemma demo_branch: "derive_allocation_branch demo_git_world (lit ''fix'') [115] [121] [140] = Inr ([121, 47] @ lit ''fix'' @ [47, 115, 45, 121, 0, 140])"
  by (simp add: derive_allocation_branch_def demo_strip demo_prefix demo_slug demo_task_key demo_git_world_fields branch_kinds_def)

lemma demo_base: "normalize_base_branch demo_git_world [100] = Inr [100]"
  by (simp add: normalize_base_branch_def demo_strip demo_git_world_fields has_prefix_def lit_def)

lemma demo_intent:
  "allocation_intent demo_git_world demo_active [121] [140] demo_allocation = Inr ([100], [115], [121, 47] @ lit ''fix'' @ [47, 115, 45, 121, 0, 140], [112])"
  by (simp add: allocation_intent_def as_http_def demo_base demo_slug demo_branch demo_allocation_def validate_purpose_def required_def demo_strip Let_def)

lemma demo_path: "repository_relative_paths [109, 45, 104] (Some [121, 0, 140])
    = Inr (lit ''repos/'' @ [109, 45, 104] @ lit ''/repository.git'', Some (lit ''repos/'' @ [109, 45, 104] @ lit ''/worktrees/'' @ [121, 0, 140]))"
  by (simp add: repository_relative_paths_def path_component_ok_def lit_def Let_def)

lemma demo_alias:
  "validate_alias [109] = Inr [109]" "get_active_binding_by_alias demo_git_world [201] [121] [109] (demo_tables ks cs [demo_active] ts) = Some demo_active"
  by (simp_all add: validate_alias_def required_def demo_strip lit_def get_active_binding_by_alias_def demo_tables_def demo_git_world_fields)

lemma demo_root: "require_root_conversation [121] [140] (demo_tables ks cs bs ts) = Inr (demo_conversation, demo_home)"
  by (simp add: require_root_conversation_def demo_tables_def demo_asked_def demo_platform_def demo_gov_def demo_home_def demo_queue_def demo_conversation_def lit_def)


lemma demo_kind: "py_strip (al_branch_kind demo_allocation) = lit ''fix''"
  by (simp add: demo_allocation_def demo_strip)

lemma demo_worktree_shape:
  "branch_shape_ok demo_worktree" "wt_repository_id demo_worktree = [104]" "wt_project_id demo_worktree = [201]" "wt_uid demo_worktree = [121]"
  "wt_runtime_scope_id demo_worktree = [140]" "wt_task_key demo_worktree = [121, 0, 140]" "wt_status demo_worktree = Wt_requested" "wt_id demo_worktree = [105]"
  "wt_branch_name demo_worktree = [121, 47] @ lit ''fix'' @ [47, 115, 45, 121, 0, 140]" "wt_base_branch demo_worktree = [100]" "wt_lease_owner demo_worktree = None"
  "wt_relative_path demo_worktree = lit ''repos/'' @ [109, 45, 104] @ lit ''/worktrees/'' @ [121, 0, 140]"
  by (simp_all add: demo_worktree_def new_worktree_def branch_shape_ok_def branch_kinds_def lit_def)

lemma demo_worktree_new:
  "new_worktree [105] demo_active [121] [140] [121, 0, 140] By_user [112] (lit ''fix'') [115] None (Some [3])
     (121 # 47 # lit ''fix'' @ [47, 115, 45, 121, 0, 140]) [100] (lit ''repos/'' @ 109 # 45 # 104 # lit ''/worktrees/'' @ [121, 0, 140]) 9 = demo_worktree"
  by (simp add: demo_worktree_def)

lemma demo_selected:
  "select_conversation_git_repository_view demo_git_world [121] [140] [3] [109] demo_allocation [105] 9 (demo_tables ks cs [demo_active] [])
     = Inr (demo_tables ks cs [demo_active] [demo_worktree], demo_worktree)"
proof -
  have "request_worktree_allocation demo_git_world demo_active [121] [140] (Some [3]) By_user None demo_allocation False [105] 9 (demo_tables ks cs [demo_active] [])
      = Inr (demo_tables ks cs [demo_active] [demo_worktree], demo_worktree)"
    by (simp add: request_worktree_allocation_def demo_intent allocate_def demo_task_key demo_path get_worktree_def get_worktree_by_selection_request_def or_empty_def
        add_worktree_def demo_tables_def demo_worktree_new demo_worktree_shape demo_kind Let_def)
  moreover have "pr_id demo_home = [201]" by (simp add: demo_home_def)
  ultimately show ?thesis
    by (simp add: select_conversation_git_repository_view_def demo_root demo_alias required_def demo_strip)
qed

lemma demo_git_active:
  "git_step\<^sup>*\<^sup>* (demo_git [] [] [] []) (demo_git [demo_token, demo_key] [demo_connection] [demo_active] [])"
proof -
  let ?db = "demo_tables [demo_token, demo_key] [demo_connection] [demo_repository] []"
  let ?ob = "\<lparr>op_repo = [104], op_generation = 1, op_job = Provision, op_seen = None\<rparr>"
  let ?pv = "\<lparr>pv_metadata = \<lparr>rm_id = [1], rm_ssh_url = [115], rm_default_branch = [100]\<rparr>, pv_configured = [100], pv_allowed = [[100]],
      pv_key = \<lparr>dk_id = [9], dk_title = [], dk_key = [7], dk_read_only = False\<rparr>\<rparr>"
  have r: "gb_id demo_repository = [104]" "gb_operation_generation demo_repository = 1" "gb_status demo_repository = Git_provisioning"
    "gb_connection_id demo_repository = [102]" "gb_uid demo_repository = [121]" "gb_deploy_private_credential_id demo_repository = [103]"
    "gb_project_id demo_repository = [201]" "gb_configured_base_branch demo_repository = None" "gb_allowed_base_branches demo_repository = []"
    by (simp_all add: demo_repository_def new_binding_def)
  have "process_project_git_operation [104] 1 ?db = Some Provision" by (simp add: process_project_git_operation_def demo_tables_def r)
  then have choose: "git_step (demo_git [demo_token, demo_key] [demo_connection] [demo_repository] []) \<lparr>gs_db = ?db, gs_ops = [?ob]\<rparr>"
    using git_step.choose[of "[104]" 1 "demo_git [demo_token, demo_key] [demo_connection] [demo_repository] []" Provision] by (simp add: demo_git_def)
  have "op_begin demo_open True ?ob ?db = Inr (Some demo_repository)"
    by (simp add: op_begin_def provision_begin_def demo_tables_def r get_connection_def get_credential_def demo_connection_def new_connection_def demo_token_def demo_key_def
        credential_model_def demo_sealed_def project_get_for_user_def demo_asked_def demo_platform_def demo_gov_def demo_home_def)
  then have begun: "git_step \<lparr>gs_db = ?db, gs_ops = [?ob]\<rparr> \<lparr>gs_db = ?db, gs_ops = [?ob\<lparr>op_seen := Some demo_repository\<rparr>]\<rparr>"
    using git_step.begun[of ?ob "\<lparr>gs_db = ?db, gs_ops = [?ob]\<rparr>" demo_open True demo_repository] by (simp add: update_where_def)
  have "provision_remote demo_hosting demo_repository = Inr ?pv"
    by (simp add: provision_remote_def demo_hosting_def from_option_def r or_empty_def Let_def)
  moreover have "provision_finish (ho_import demo_hosting) [104] 1 ?pv 8 ?db = Inr (demo_tables [demo_token, demo_key] [demo_connection] [demo_active] [], False)"
    by (simp add: provision_finish_def demo_tables_def r demo_hosting_def put_binding_def update_where_def demo_active_def) (simp add: demo_repository_def new_binding_def)
  ultimately have "git_step \<lparr>gs_db = ?db, gs_ops = [?ob\<lparr>op_seen := Some demo_repository\<rparr>]\<rparr> (demo_git [demo_token, demo_key] [demo_connection] [demo_active] [])"
    using git_step.provisioned[of "?ob\<lparr>op_seen := Some demo_repository\<rparr>" "\<lparr>gs_db = ?db, gs_ops = [?ob\<lparr>op_seen := Some demo_repository\<rparr>]\<rparr>" demo_repository
        demo_hosting ?pv 8 _ False] by (simp add: demo_git_def)
  with demo_git_bound choose begun show ?thesis by (meson rtranclp.rtrancl_into_rtrancl)
qed

lemma demo_git_selected: "git_step\<^sup>*\<^sup>* (demo_git [] [] [] []) (demo_git [demo_token, demo_key] [demo_connection] [demo_active] [demo_worktree])"
  by (rule rtranclp.rtrancl_into_rtrancl[OF demo_git_active demo_git_request[OF select_repository[OF demo_selected]]])

definition demo_worktree_key :: worktree_key where
  "demo_worktree_key = \<lparr>wk_world = demo_git_world, wk_decrypt = demo_open, wk_found = Path_missing, wk_uid = [121], wk_binding = [104], wk_scope = [140]\<rparr>"

lemma demo_preparation:
  "snd (claim_worktree demo_worktree_key (119, []) 10 (demo_tables [demo_token, demo_key] [demo_connection] [demo_active] [demo_worktree]))"
proof -
  let ?db = "demo_tables [demo_token, demo_key] [demo_connection] [demo_active] [demo_worktree]"
  have "prep_credentials demo_open demo_active [121] ?db = Inr ()"
    by (simp add: prep_credentials_def get_connection_def get_credential_def demo_tables_def demo_connection_def new_connection_def demo_token_def demo_key_def credential_model_def
        demo_sealed_def)
  then have "\<exists>db' j. prepare_begin demo_git_world demo_open Path_missing [121] [104] [140] [119] 10 ?db = Inr (db', Some j)"
    by (simp add: prepare_begin_def prepare_lease_def demo_task_key get_binding_def get_worktree_def demo_tables_def demo_worktree_shape demo_path demo_prefix has_prefix_def
        acquire_worktree_lease_def or_empty_def)
  then show ?thesis by (auto simp: claim_worktree_def demo_worktree_key_def)
qed

lemma demo_lease: "worktree_lease = 300000000"
  using timedelta_seconds_of_int[of 300] by (simp add: worktree_lease_def)

theorem worktree_single_preparer_witness:
  "snd (claim_worktree demo_worktree_key (119, []) 10 (demo_tables [demo_token, demo_key] [demo_connection] [demo_active] [demo_worktree]))
   \<and> length (fst (contend (claim_worktree demo_worktree_key) [((119, []), 10), ((120, []), 20)]
       (demo_tables [demo_token, demo_key] [demo_connection] [demo_active] [demo_worktree]))) \<le> 1"
proof -
  have l: "20 < (10 :: time) + worktree_lease" "10 < (20 :: time) + worktree_lease" "0 < worktree_lease" by (simp_all add: demo_lease)
  have "length (fst (contend (claim_worktree demo_worktree_key) [((119, []), 10), ((120, []), 20)]
      (gs_db (demo_git [demo_token, demo_key] [demo_connection] [demo_active] [demo_worktree])))) \<le> 1"
    by (rule worktree_single_preparer[OF demo_git_start demo_git_selected]) (use l in auto)
  then show ?thesis using demo_preparation by (simp add: demo_git_def)
qed

text \<open>The worktree prepared, and a run that pushes it.\<close>

definition demo_ready :: project_git_worktree where
  "demo_ready = unleased Wt_ready 11 demo_worktree"

definition demo_sha :: pystr where
  "demo_sha = replicate 40 48"

lemma demo_sha_ok: "require_commit_sha demo_git_world demo_sha = Inr demo_sha"
proof -
  have "py_strip demo_sha = demo_sha" by (simp add: py_strip_def demo_sha_def is_space_def)
  then show ?thesis by (simp add: require_commit_sha_def demo_git_world_fields) (simp add: demo_sha_def hex_char_def list_all_iff)
qed

lemma demo_run_of_user:
  "run_of_user [160] [121] (demo_tables ks cs bs ts) = Some (demo_run [160] Running 5, demo_conversation, demo_home)"
  by (simp add: run_of_user_def demo_tables_def demo_asked_def demo_run_def demo_queue_def demo_conversation_def demo_platform_def demo_gov_def demo_home_def project_get_for_user_def)

lemma demo_push_target:
  "push_target demo_git_world demo_open (Path_state True demo_sha (wt_branch_name demo_worktree)) [160] [121] [109] demo_sha
       (demo_tables [demo_token, demo_key] [demo_connection] [demo_active] [demo_ready])
     = Inr (demo_run [160] Running 5, demo_home, demo_active, demo_ready)"
proof -
  let ?db = "demo_tables [demo_token, demo_key] [demo_connection] [demo_active] [demo_ready]"
  have t: "wt_repository_id demo_ready = [104]" "wt_uid demo_ready = [121]" "wt_runtime_scope_id demo_ready = [140]" "wt_status demo_ready = Wt_ready"
    "wt_branch_name demo_ready = wt_branch_name demo_worktree"
    by (simp_all add: demo_ready_def unleased_def demo_worktree_shape)
  have k: "resolve_run_scope_key (Some (demo_run [160] Running 5)) (pf_queue (pg_platform ?db)) = [140]"
    by (simp add: resolve_run_scope_key_def demo_run_def scope_get_def demo_tables_def demo_asked_def demo_queue_def)
  have w: "get_worktree [104] [140] [121] ?db = Some demo_ready" by (simp add: get_worktree_def demo_tables_def t)
  have c: "get_connection [102] [121] True ?db = Some demo_connection" "get_credential [103] [121] ?db = Some demo_key" "get_credential [101] [121] ?db = Some demo_token"
    "cn_api_token_credential_id demo_connection = [101]"
    by (simp_all add: get_connection_def get_credential_def demo_tables_def demo_connection_def new_connection_def demo_token_def demo_key_def credential_model_def demo_sealed_def)
  have p: "pr_id demo_home = [201]" "pr_status demo_home = Project_active" by (simp_all add: demo_home_def)
  show ?thesis
    by (simp add: push_target_def demo_run_of_user p demo_alias k w t c demo_worktree_shape demo_prefix has_prefix_def)
qed

theorem push_authorized_witness:
  "fst (push_project_git_branch demo_git_world demo_open (\<lambda>_. Some 1) (Path_state True demo_sha (wt_branch_name demo_worktree)) (Some False) (Some demo_sha)
       [160] [121] [109] demo_sha 12 (demo_tables [demo_token, demo_key] [demo_connection] [demo_active] [demo_ready]))
     = Some (wt_branch_name demo_worktree, demo_sha)
   \<and> (\<exists>prefix. configured_branch_prefix demo_git_world = Inr prefix \<and> has_prefix prefix (wt_branch_name demo_worktree))"
proof -
  have "fst (push_project_git_branch demo_git_world demo_open (\<lambda>_. Some 1) (Path_state True demo_sha (wt_branch_name demo_worktree)) (Some False) (Some demo_sha)
       [160] [121] [109] demo_sha 12 (demo_tables [demo_token, demo_key] [demo_connection] [demo_active] [demo_ready]))
     = Some (wt_branch_name demo_worktree, demo_sha)"
    by (simp add: push_project_git_branch_def demo_sha_ok demo_push_target and_then_def) (simp add: demo_ready_def unleased_def)
  from push_authorized[OF this] this show ?thesis by blast
qed



end
