(* ===== verification/Spec2Isabelle.thy ===== *)
theory Spec2Isabelle
  imports Run_Properties Task_Properties Governance_Properties Permission_Properties Queue_Properties Sandbox_Properties
    Delegation_Properties Channel_Sync_Properties Coding_Properties Run_Service_Properties Scheduled_Properties
    Git_Properties
begin

text \<open>
  \<^bold>\<open>A verification of the execution core of Yuanlei\<close>

  Yuanlei is a multi-user platform for agents. A user's request is submitted to a conversation of one of the user's projects, waits in the queue of its
  conversation thread, is dispatched as a run, and the run is executed by one of several worker
  processes that share nothing but the PostgreSQL database; slow jobs of the platform are durable
  tasks executed the same way; projects keep a reviewed record of topics, tasks and decisions; agents, skills and knowledge
  bases are shared by configurations. An agent bound to a project works in a sandbox of its own, reviewed tasks are delegated to
  coding executors or to an external tracker, and issues of that tracker come in as proposed topics. All paths below are relative to
  \<^verbatim>\<open>src/backend/package/yuxi/\<close>.

  \<^bold>\<open>Parts and theories\<close>

  \<^item> \<^emph>\<open>Prelude\<close> (\<open>Yuanlei_Prelude\<close>): Python strings, JSON values and clock readings; tables as
    lists of rows; the locales \<open>step_system\<close> (invariants and relations of reachable states) and
    \<open>lease_discipline\<close> (exclusive, expiring leases).
  \<^item> \<^emph>\<open>Agent runs\<close> (\<open>Run_Texts\<close>, \<open>Run_Model\<close>, \<open>Run_Repository\<close>, \<open>Run_Invariant\<close>, \<open>Run_Operations\<close>,
    \<open>Run_Steps\<close>, \<open>Run_Lease\<close>, \<open>Run_Tree\<close>, \<open>Run_Properties\<close>): the tables of
    \<^verbatim>\<open>storage/postgres/models_business.py\<close> a run touches and every method of
    \<^verbatim>\<open>repositories/agent_run_repository.py\<close>, one definition per method with the method's name.
  \<^item> \<^emph>\<open>Durable tasks\<close> (\<open>Task_Texts\<close>, \<open>Task_Repository\<close>, \<open>Task_Service\<close>, \<open>Task_Invariant\<close>,
    \<open>Task_Properties\<close>): \<^verbatim>\<open>repositories/task_repository.py\<close>, \<^verbatim>\<open>services/task_service.py\<close>,
    \<^verbatim>\<open>services/task_queue_service.py\<close>, \<^verbatim>\<open>services/task_registry.py\<close>.
  \<^item> \<^emph>\<open>Request queue\<close> (\<open>Queue_Texts\<close>, \<open>Request_Queue\<close>, \<open>Queue_Invariant\<close>, \<open>Queue_Properties\<close>):
    \<^verbatim>\<open>repositories/agent_run_request_repository.py\<close>, \<^verbatim>\<open>services/agent_request_queue_service.py\<close> and
    \<^verbatim>\<open>services/run_scope_service.py\<close>. Its database extends the run database, so dispatching calls the
    run component's \<open>create_run\<close> as it is.
  \<^item> \<^emph>\<open>Project governance\<close> (\<open>Governance_Texts\<close>, \<open>Governance\<close>, \<open>Governance_Invariant\<close>,
    \<open>Governance_Review\<close>, \<open>Governance_Properties\<close>): \<^verbatim>\<open>repositories/governance_repository.py\<close> and
    \<^verbatim>\<open>services/governance_service.py\<close>.
  \<^item> \<^emph>\<open>Resource permissions\<close> (\<open>Resource_Permission\<close>, \<open>Permission_Properties\<close>):
    \<^verbatim>\<open>permissions/resource_permission.py\<close>.
  \<^item> \<^emph>\<open>Dedicated sandboxes\<close> (\<open>Sandbox_Policy\<close>, \<open>Sandbox\<close>, \<open>Sandbox_Invariant\<close>, \<open>Sandbox_Properties\<close>): policies and scopes of
    \<^verbatim>\<open>agents/backends/sandbox/\<close>, \<^verbatim>\<open>repositories/agent_sandbox_repository.py\<close>, the lease, life cycle and supervisor services
    \<^verbatim>\<open>services/sandbox_lease_service.py\<close>, \<^verbatim>\<open>services/sandbox_lifecycle_service.py\<close>, \<^verbatim>\<open>services/sandbox_lifecycle_supervisor_service.py\<close>.
  \<^item> \<^emph>\<open>Agents\<close> (\<open>Agent_Registry\<close>, \<open>Agent_Properties\<close>): \<^verbatim>\<open>repositories/agent_repository.py\<close>,
    \<^verbatim>\<open>repositories/project_agent_repository.py\<close>, \<^verbatim>\<open>services/agent_config_service.py\<close>, \<^verbatim>\<open>services/project_agent_service.py\<close> and the
    configuration filters of \<^verbatim>\<open>agents/context.py\<close>. Permissions are resolved by the permission component.
  \<^item> \<^emph>\<open>Delegation\<close> (\<open>Delegation\<close>, \<open>Delegation_Properties\<close>): \<^verbatim>\<open>delegation/contracts.py\<close>,
    \<^verbatim>\<open>repositories/channel_delegation_repository.py\<close>, \<^verbatim>\<open>services/delegation_service.py\<close>, over the governance and agent tables.
  \<^item> \<^emph>\<open>Channel synchronization\<close> (\<open>Channel_Sync\<close>, \<open>Channel_Sync_Properties\<close>): \<^verbatim>\<open>services/channel_sync_service.py\<close>, which imports
    through the governance component's \<open>create_governance_topic\<close>.
  \<^item> \<^emph>\<open>Coding sessions\<close> (\<open>Coding_Adapter\<close>, \<open>Coding\<close>, \<open>Coding_Invariant\<close>, \<open>Coding_Fence\<close>, \<open>Coding_Properties\<close>): \<^verbatim>\<open>coding/adapters.py\<close>,
    \<^verbatim>\<open>repositories/coding_session_repository.py\<close>, \<^verbatim>\<open>services/coding_session_service.py\<close>, \<^verbatim>\<open>services/coding_execution_service.py\<close>, the queueing
    and control tools of \<^verbatim>\<open>agents/toolkits/buildin/coding_tools.py\<close> and the executor \<^verbatim>\<open>delegation/sandbox.py\<close>. The database extends the
    sandbox tables, and \<open>Coding_Fence\<close> interleaves workers with the sandbox component's leases.
  \<^item> \<^emph>\<open>Projects and submission\<close> (\<open>Platform_Texts\<close>, \<open>Projects\<close>, \<open>Submission\<close>, \<open>Submission_Steps\<close>, \<open>Submission_Properties\<close>):
    \<^verbatim>\<open>services/project_service.py\<close> and \<^verbatim>\<open>repositories/project_repository.py\<close>, the conversation rows with their attachments of
    \<^verbatim>\<open>repositories/conversation_repository.py\<close>, and \<^verbatim>\<open>services/agent_request_service.py\<close>. \<open>platform_db\<close> joins the tables of the queue, the
    agents and the projects; submission calls the queue's \<open>dispatch_ready_head\<close> and the registry's \<open>get_visible_by_slug\<close>.
  \<^item> \<^emph>\<open>Run service\<close> (\<open>Run_Service\<close>, \<open>Run_Service_Properties\<close>): resumed and cancelled runs of \<^verbatim>\<open>services/agent_run_service.py\<close> and the
    subagents of \<^verbatim>\<open>services/subagent_run_service.py\<close>.
  \<^item> \<^emph>\<open>Scheduled agents\<close> (\<open>Scheduled_Agent\<close>, \<open>Scheduled_Properties\<close>): \<^verbatim>\<open>repositories/scheduled_agent_repository.py\<close> and
    \<^verbatim>\<open>services/scheduled_agent_service.py\<close>, whose triggers go through \<open>submit_agent_request\<close>.
  \<^item> \<^emph>\<open>Project Git\<close> (\<open>Git_Texts\<close>, \<open>Git_Paths\<close>, \<open>Project_Git\<close>, \<open>Git_Service\<close>, \<open>Git_Worktree\<close>, \<open>Git_Invariant\<close>, \<open>Git_Requests\<close>, \<open>Git_Steps\<close>,
    \<open>Git_Properties\<close>): \<^verbatim>\<open>workspace/git_paths.py\<close>, \<^verbatim>\<open>repositories/project_git_repository.py\<close> and \<^verbatim>\<open>services/project_git_service.py\<close>, over the projects,
    conversations and runs of \<open>platform_db\<close>. Jobs and preparations are split at their transactions, one function each, and composed under the name the code
    has; \<open>Git_Steps\<close> interleaves the parts with the requests of users and runs, with at most one job per binding as the session lock of the code ensures.

  \<^bold>\<open>How code is modelled\<close>

  A table is the list of its rows, a row a record with the columns of its class. A repository method or use case is a
  function from the database to an error (\<open>Inl\<close>) or the new database with the method's result
  (\<open>Inr\<close>); an error rolls the transaction back. Row locks make each call atomic, so concurrency is
  the interleaving of calls: each component has an \<open>inductive\<close> step relation with one rule per
  state-changing operation, and \<open>step_system\<close> lifts what every step keeps to all reachable
  databases. Constraints of the database (primary and unique keys, partial unique indexes, check
  constraints, foreign keys between modelled tables) are checked by the insertions and appear as
  errors. Clock readings are arguments: \<open>now\<close> is the method's \<^verbatim>\<open>now or utc_now_naive()\<close>, \<open>clk\<close> a
  further reading or a column default; rows found by \<^verbatim>\<open>skip_locked\<close> queries take the set of locked
  rows as an argument. Python strings are lists of code points. Queries without \<^verbatim>\<open>ORDER BY\<close> answer
  in table order.

  Code outside the sources, and functions a caller passes in, are arguments: the handlers and
  domain hooks of tasks, the digest function of dedupe keys, generated ids, the printing of
  floats, the digits of Unicode, the answers of the container provider, of executors, of the remote tracker, of \<^verbatim>\<open>git\<close> and its hosting service, sealed secrets, and what
  other workers do between two transactions of one call.

  \<^bold>\<open>What is shown\<close>

  \<^item> \<^emph>\<open>Runs\<close>: an invariant of all reachable tables; refinement of an abstract life cycle; terminal
    runs and closed attempts never change; of the workers contending for a run at most one holds it, a worker that
    lost its lease changes nothing; reconciliation converges every lost run; cancelling an
    execution tree reaches exactly the active descendants (the search is a recursion whose
    termination is proved by the number of runs not yet seen); completion needs a persisted
    output.
  \<^item> \<^emph>\<open>Tasks\<close>: the same for durable tasks, where domain hooks run inside the finishing transaction:
    finishing is atomic, a cancel request wins, capacity is respected, duplicates share one task,
    pruning keeps the newest, and a worker that still owns its task always ends it.
  \<^item> \<^emph>\<open>Queue\<close>: requests are dispatched once, in order, steers first; a ready queue makes progress;
    positions are ranks unless two requests were created in the same microsecond.
  \<^item> \<^emph>\<open>Governance\<close>: canonical rows come only from an owner's approving review, the first review
    decides, reviewed rows are frozen, projects are isolated, and validation covers the
    constraints of the database.
  \<^item> \<^emph>\<open>Permissions\<close>: the resolved permission is the declarative one; strict configurations never let anyone manage
    who cannot read; role ceilings hold; normalization is stable.
  \<^item> \<^emph>\<open>Sandboxes\<close>: an invariant and history of the sandbox tables; one lease owner; waiting for a lease ends; the supervisor spares a
    leased sandbox unless its reading is stale; scope keys parse back; accepted policies are well-formed.
  \<^item> \<^emph>\<open>Agents\<close>: an invariant of the registry; a patch adds no resource its writer may not use and changes no field reserved for a
    higher role; slugs are always found; project agents are listed exactly where they may run.
  \<^item> \<^emph>\<open>Delegation\<close>: history of the table; the life cycle under fenced writers and the write of an unfenced one; convergence acts
    once and independently on every due row; only reviewed tasks of bound agents are delegated.
  \<^item> \<^emph>\<open>Channel synchronization\<close>: a successful pull over a service that lists latest first misses nothing, a pass only appends proposed topics, and
    a cursor lease fences an owner that was overtaken.
  \<^item> \<^emph>\<open>Coding sessions\<close>: histories are numbered without gaps and append-only; a turn is settled once under every interleaving of workers,
    leases, users and reconciliation; the shell reads a turn's command as the arguments that were meant. Two results show faults: a session cancelled during a
    turn is written back, and a codex command runs although its directory cannot be entered.
  \<^item> \<^emph>\<open>Submission\<close>: a submission is a sequence of steps of the queue's protocol; it is idempotent in its request id, under the policy \<^verbatim>\<open>reject\<close>
    nothing is left waiting, requests are stored only in conversations of their own user, and a deleted project takes no more requests.
  \<^item> \<^emph>\<open>Run service\<close>: a resumed run continues the latest interrupted run and only one such run is made; a subagent stays within the user and project
    of its creator. One result shows a fault: a resume may take the id of a request that waits in the queue.
  \<^item> \<^emph>\<open>Scheduled agents\<close>: a job has at most one unfinished execution and each occurrence one trigger in every history; a worker round drains the due
    jobs; a manual start is idempotent.
  \<^item> \<^emph>\<open>Project Git\<close>: the secrets kept are exactly those of active connections and of bindings in use; a binding moves forward within a generation, an intent to
    revoke is never taken back and is carried out; of the workers preparing a worktree at most one is let in; only the task branch of a clean, approved worktree is
    pushed, for a running root run of its user. One result shows a fault: a run under a dedicated scope cannot push what it allocated.

  Each component ends with a theory \<open>..._Properties\<close> that states these results over the model's
  definitions, with a small database on which the hypotheses are met.

  \<^bold>\<open>Bounds and fuel\<close>

  No definition uses fuel: loops over rows are structural recursions, the tree search and the search for a free slug are
  total functions, and the loop that waits for a sandbox lease is a recursion over its polls (\<open>None\<close> means still waiting).
  A pull reads at most ten pages, as the code does. Lease durations, page sizes and capacities are arguments.

  \<^bold>\<open>Not modelled\<close>

  The asyncio scheduling of the worker (\<^verbatim>\<open>services/run_worker.py\<close>) around the repository calls, the
  agent runtime and its tools, HTTP routers, the SSE transport, Redis, object storage and the
  vector stores, the sandbox provisioner and container provider, seeding of preset agents, the Git and Gitea clients with the cipher of their secrets, host paths, OIDC and the web front end: they are input and output
  around the state modelled here, or belong to libraries. JSON views of rows are left out. \<^verbatim>\<open>ON
  DELETE\<close> cascades of hard deletions are not steps.
\<close>

end
